(* ===== verification/HM_Prelude.thy ===== *)
theory HM_Prelude
  imports Main "HOL-Library.Word" "HOL-Library.Char_ord" "HOL-Library.List_Lexorder"
    "HOL-Library.Product_Lexorder"
begin

text \<open>
  Shared base of the development: the machine integer types of the C++ code, the fact
  collections that the component theories extend, and generic facts on words, lists and
  lexicographic keys. A string is a list of bytes; its order (\<open>List_Lexorder\<close> over
  \<open>Char_ord\<close>) is the one of \<open>std::string\<close>, which compares bytes as unsigned numbers and
  puts a proper prefix first.
\<close>

unbundle bit_operations_syntax

section \<open>Machine integers\<close>

type_synonym u8 = "8 word"
type_synonym u16 = "16 word"
type_synonym u32 = "32 word"
type_synonym u64 = "64 word"

section \<open>Fact collections\<close>

text \<open>
  \<open>hm_ops\<close> unfolds the small state-passing operations of a component, \<open>hm_orders\<close> turns
  a comparison operator of the code into a comparison of keys.
\<close>

named_theorems hm_ops \<open>definitions of the small operations of a component\<close>
named_theorems hm_orders \<open>comparison operators as comparisons of lexicographic keys\<close>

section \<open>Words\<close>

lemma word_less_iff_unat: "(a :: 'a::len word) < b \<longleftrightarrow> unat a < unat b"
  by (simp add: word_less_nat_alt)

lemma word_le_iff_unat: "(a :: 'a::len word) \<le> b \<longleftrightarrow> unat a \<le> unat b"
  by (simp add: word_le_nat_alt)

lemma unat_Suc_word:
  assumes "(a :: 'a::len word) < b"
  shows "unat (a + 1) = Suc (unat a)"
proof -
  have "unat a + 1 \<le> unat b" using assms by (simp add: word_less_iff_unat)
  also have "unat b < 2 ^ LENGTH('a)" by (rule unsigned_less)
  finally have "unat a + 1 < 2 ^ LENGTH('a)" .
  then show ?thesis by (simp add: unat_word_ariths)
qed

lemma unat_add_le_no_wrap:
  "unat a + unat b < 2 ^ LENGTH('a) \<Longrightarrow> unat (a + b :: 'a::len word) = unat a + unat b"
  by (simp add: unat_word_ariths)

lemma unat_mult_no_wrap:
  "unat a * unat b < 2 ^ LENGTH('a) \<Longrightarrow> unat (a * b :: 'a::len word) = unat a * unat b"
  by (simp add: unat_word_ariths)

lemma unat_u8_less: "unat (x :: u8) < 256"
  using unsigned_less [of x] by (simp only: len_of_numeral_defs) simp

lemma unat_u32_less: "unat (x :: u32) < 2 ^ 32"
  using unsigned_less [of x] by (simp only: len_of_numeral_defs) simp

lemma unat_u64_u32 [simp]: "unat (ucast (x :: u32) :: u64) = unat x"
proof -
  have "unat x < 2 ^ 64" by (rule less_trans [OF unat_u32_less]) simp
  then show ?thesis by (simp add: unsigned_ucast_eq take_bit_nat_eq_self)
qed

lemma unat_u32_u64: "unat (x :: u64) < 2 ^ 32 \<Longrightarrow> unat (ucast x :: u32) = unat x"
  by (simp add: unsigned_ucast_eq take_bit_nat_eq_self)

section \<open>Lists\<close>

text \<open>A loop whose body may fail: \<open>None\<close> ends it.\<close>

fun opt_fold :: "('a \<Rightarrow> 's \<Rightarrow> 's option) \<Rightarrow> 'a list \<Rightarrow> 's \<Rightarrow> 's option" where
  "opt_fold f [] s = Some s"
| "opt_fold f (x # xs) s = Option.bind (f x s) (opt_fold f xs)"

lemma opt_fold_total:
  assumes "\<And>x s. x \<in> set xs \<Longrightarrow> f x s = Some (g x s)"
  shows "opt_fold f xs s = Some (fold g xs s)"
  using assms by (induction xs arbitrary: s) simp_all

lemma opt_fold_invariant:
  assumes "opt_fold f xs s = Some s'" and "P s"
    and "\<And>x s t. x \<in> set xs \<Longrightarrow> P s \<Longrightarrow> f x s = Some t \<Longrightarrow> P t"
  shows "P s'"
  using assms
proof (induction xs arbitrary: s)
  case (Cons x xs)
  then obtain t where t: "f x s = Some t" "opt_fold f xs t = Some s'" by (auto split: bind_splits)
  have "P t" using Cons.prems(3) [OF _ Cons.prems(2) t(1)] by simp
  moreover have "P t'" if "y \<in> set xs" "P u" "f y u = Some t'" for y u t'
    using Cons.prems(3) [OF _ that(2,3)] that(1) by simp
  ultimately show ?case using Cons.IH [OF t(2)] by blast
qed simp

lemma opt_fold_append: "opt_fold f (xs @ ys) s = Option.bind (opt_fold f xs s) (opt_fold f ys)"
  by (induction xs arbitrary: s) (simp_all split: bind_split)

text \<open>What the turn for one element establishes under an invariant, and no other turn undoes, holds
  at the end of the loop.\<close>

lemma opt_fold_reaches:
  assumes run: "opt_fold f xs s = Some s'" and mem: "x \<in> set xs" and "I s"
    and inv: "\<And>y s t. y \<in> set xs \<Longrightarrow> I s \<Longrightarrow> f y s = Some t \<Longrightarrow> I t"
    and est: "\<And>s t. I s \<Longrightarrow> f x s = Some t \<Longrightarrow> Q t"
    and keep: "\<And>y s t. y \<in> set xs \<Longrightarrow> I s \<Longrightarrow> Q s \<Longrightarrow> f y s = Some t \<Longrightarrow> Q t"
  shows "Q s'"
proof -
  obtain ys zs where xs: "xs = ys @ x # zs" using mem by (meson split_list)
  obtain t u where t: "opt_fold f ys s = Some t" and u: "f x t = Some u"
    and z: "opt_fold f zs u = Some s'"
    using run by (auto simp: xs opt_fold_append split: bind_splits)
  have "I t" by (rule opt_fold_invariant [where P = I, OF t \<open>I s\<close>]) (use inv xs in auto)
  moreover have "I u" using inv [OF mem \<open>I t\<close> u] .
  ultimately have "I u \<and> Q u" using est [OF _ u] by blast
  then have "I s' \<and> Q s'"
    by (rule opt_fold_invariant [OF z, where P = "\<lambda>s. I s \<and> Q s"])
      (use inv keep xs in \<open>auto intro: inv keep\<close>)
  then show ?thesis by simp
qed

lemma takeWhile_eq_filter_sorted:
  "sorted_wrt R xs \<Longrightarrow> (\<And>x y. R x y \<Longrightarrow> P y \<Longrightarrow> P x) \<Longrightarrow> takeWhile P xs = filter P xs"
  by (induction xs) (auto simp: filter_empty_conv eq_commute [of "[]"])

lemma dropWhile_eq_filter_sorted:
  assumes "sorted_wrt R xs" and down: "\<And>x y. R x y \<Longrightarrow> P y \<Longrightarrow> P x"
  shows "dropWhile P xs = filter (\<lambda>x. \<not> P x) xs"
  using assms(1)
proof (induction xs)
  case (Cons a xs)
  show ?case
  proof (cases "P a")
    case False
    then have "\<forall>x \<in> set xs. \<not> P x" using Cons.prems down by auto
    then have "filter (\<lambda>x. \<not> P x) xs = xs" by (simp add: filter_id_conv)
    then show ?thesis using False by simp
  qed (use Cons in simp)
qed simp

section \<open>Errors in loops\<close>

text \<open>Sequencing of steps that may end with an error.\<close>

definition res_bind :: "'e + 'a \<Rightarrow> ('a \<Rightarrow> 'e + 'b) \<Rightarrow> 'e + 'b" where
  "res_bind r f = (case r of Inl e \<Rightarrow> Inl e | Inr x \<Rightarrow> f x)"

fun res_fold :: "('x \<Rightarrow> 's \<Rightarrow> 'e + 's) \<Rightarrow> 'x list \<Rightarrow> 's \<Rightarrow> 'e + 's" where
  "res_fold f [] s = Inr s"
| "res_fold f (x # xs) s = res_bind (f x s) (res_fold f xs)"

lemma res_bind_simps [simp]: "res_bind (Inr x) f = f x" "res_bind (Inl e) f = Inl e"
  by (simp_all add: res_bind_def)

lemma res_bind_Inr: "res_bind r f = Inr y \<longleftrightarrow> (\<exists>x. r = Inr x \<and> f x = Inr y)"
  by (cases r) simp_all

lemma res_fold_append: "res_fold f (xs @ ys) s = res_bind (res_fold f xs s) (res_fold f ys)"
  by (induction xs arbitrary: s) (simp_all add: res_bind_def split: sum.split)

lemma res_fold_invariant:
  assumes "res_fold f xs s = Inr s'" and "P s"
    and "\<And>x s t. x \<in> set xs \<Longrightarrow> P s \<Longrightarrow> f x s = Inr t \<Longrightarrow> P t"
  shows "P s'"
  using assms
proof (induction xs arbitrary: s)
  case (Cons x xs)
  then obtain t where t: "f x s = Inr t" "res_fold f xs t = Inr s'" by (auto simp: res_bind_Inr)
  have "P t" using Cons.prems(3) [OF _ Cons.prems(2) t(1)] by simp
  moreover have "P t'" if "y \<in> set xs" "P u" "f y u = Inr t'" for y u t'
    using Cons.prems(3) [OF _ that(2,3)] that(1) by simp
  ultimately show ?case using Cons.IH [OF t(2)] by blast
qed simp

lemma res_fold_reaches:
  assumes run: "res_fold f xs s = Inr s'" and mem: "x \<in> set xs" and "I s"
    and inv: "\<And>y s t. y \<in> set xs \<Longrightarrow> I s \<Longrightarrow> f y s = Inr t \<Longrightarrow> I t"
    and est: "\<And>s t. I s \<Longrightarrow> f x s = Inr t \<Longrightarrow> Q t"
    and keep: "\<And>y s t. y \<in> set xs \<Longrightarrow> I s \<Longrightarrow> Q s \<Longrightarrow> f y s = Inr t \<Longrightarrow> Q t"
  shows "Q s'"
proof -
  obtain ys zs where xs: "xs = ys @ x # zs" using mem by (meson split_list)
  obtain t u where t: "res_fold f ys s = Inr t" and u: "f x t = Inr u" and z: "res_fold f zs u = Inr s'"
    using run by (auto simp: xs res_fold_append res_bind_Inr)
  have "I t" by (rule res_fold_invariant [where P = I, OF t \<open>I s\<close>]) (use inv xs in auto)
  moreover have "I u" using inv [OF mem \<open>I t\<close> u] .
  ultimately have "I u \<and> Q u" using est [OF _ u] by blast
  then have "I s' \<and> Q s'"
    by (rule res_fold_invariant [OF z, where P = "\<lambda>s. I s \<and> Q s"]) (use xs in \<open>auto intro: inv keep\<close>)
  then show ?thesis by simp
qed

end
