(* ===== verification/HM_Containers.thy ===== *)
theory HM_Containers
  imports HM_Prelude
begin

text \<open>
  The ordered containers of the C++ standard library that the code stores its state in:
  \<open>std::map\<close> and \<open>std::multimap\<close> with a comparison operator of the code. A container is the
  list of its entries in iteration order. Two keys are the same key when neither is less
  than the other, so a comparison that ignores a field merges keys that differ there.

  The locale \<open>weak_order\<close> is what the standard requires of the comparison (a strict weak
  order); the laws of the containers are proved in it once. Every comparison operator of
  the code that keys a container is interpreted in the theory that defines it, mostly
  through \<open>key_order\<close>, a comparison of linearly ordered keys.
\<close>

section \<open>Operations\<close>

definition key_equiv :: "('k \<Rightarrow> 'k \<Rightarrow> bool) \<Rightarrow> 'k \<Rightarrow> 'k \<Rightarrow> bool" where
  "key_equiv lt a b \<longleftrightarrow> \<not> lt a b \<and> \<not> lt b a"

text \<open>\<open>find\<close>: the entry whose key is equivalent, with the key as it is stored.\<close>

fun smap_entry :: "('k \<Rightarrow> 'k \<Rightarrow> bool) \<Rightarrow> 'k \<Rightarrow> ('k \<times> 'v) list \<Rightarrow> ('k \<times> 'v) option" where
  "smap_entry lt k [] = None"
| "smap_entry lt k ((k', v) # m) = (if key_equiv lt k k' then Some (k', v) else smap_entry lt k m)"

definition smap_find :: "('k \<Rightarrow> 'k \<Rightarrow> bool) \<Rightarrow> 'k \<Rightarrow> ('k \<times> 'v) list \<Rightarrow> 'v option" where
  "smap_find lt k m = map_option snd (smap_entry lt k m)"

text \<open>\<open>map::insert\<close>: an entry that is already there stays.\<close>

fun smap_insert :: "('k \<Rightarrow> 'k \<Rightarrow> bool) \<Rightarrow> 'k \<Rightarrow> 'v \<Rightarrow> ('k \<times> 'v) list \<Rightarrow> ('k \<times> 'v) list" where
  "smap_insert lt k v [] = [(k, v)]"
| "smap_insert lt k v ((k', v') # m) =
     (if lt k k' then (k, v) # (k', v') # m
      else if lt k' k then (k', v') # smap_insert lt k v m
      else (k', v') # m)"

text \<open>A write through the iterators of the entries with an equivalent key.\<close>

definition smap_adjust ::
    "('k \<Rightarrow> 'k \<Rightarrow> bool) \<Rightarrow> 'k \<Rightarrow> ('v \<Rightarrow> 'v) \<Rightarrow> ('k \<times> 'v) list \<Rightarrow> ('k \<times> 'v) list" where
  "smap_adjust lt k f m = map (\<lambda>(k', v). (k', if key_equiv lt k k' then f v else v)) m"

text \<open>\<open>erase\<close> by key.\<close>

definition smap_erase :: "('k \<Rightarrow> 'k \<Rightarrow> bool) \<Rightarrow> 'k \<Rightarrow> ('k \<times> 'v) list \<Rightarrow> ('k \<times> 'v) list" where
  "smap_erase lt k m = filter (\<lambda>(k', v). \<not> key_equiv lt k k') m"

text \<open>\<open>multimap::insert\<close>: at the upper bound of the equal range.\<close>

fun mmap_insert :: "('k \<Rightarrow> 'k \<Rightarrow> bool) \<Rightarrow> 'k \<Rightarrow> 'v \<Rightarrow> ('k \<times> 'v) list \<Rightarrow> ('k \<times> 'v) list" where
  "mmap_insert lt k v [] = [(k, v)]"
| "mmap_insert lt k v ((k', v') # m) =
     (if lt k k' then (k, v) # (k', v') # m else (k', v') # mmap_insert lt k v m)"

text \<open>\<open>equal_range\<close>: from the lower bound up to the upper bound.\<close>

definition equal_range :: "('k \<Rightarrow> 'k \<Rightarrow> bool) \<Rightarrow> 'k \<Rightarrow> ('k \<times> 'v) list \<Rightarrow> ('k \<times> 'v) list" where
  "equal_range lt k m =
     takeWhile (\<lambda>(k', v). \<not> lt k k') (dropWhile (\<lambda>(k', v). lt k' k) m)"

text \<open>Order of the entries: strict in a map, weak in a multimap.\<close>

definition map_sorted :: "('k \<Rightarrow> 'k \<Rightarrow> bool) \<Rightarrow> ('k \<times> 'v) list \<Rightarrow> bool" where
  "map_sorted lt m \<longleftrightarrow> sorted_wrt (\<lambda>a b. lt (fst a) (fst b)) m"

definition mmap_sorted :: "('k \<Rightarrow> 'k \<Rightarrow> bool) \<Rightarrow> ('k \<times> 'v) list \<Rightarrow> bool" where
  "mmap_sorted lt m \<longleftrightarrow> sorted_wrt (\<lambda>a b. \<not> lt (fst b) (fst a)) m"

text \<open>A predicate of every value that is stored.\<close>

definition values_all :: "('v \<Rightarrow> bool) \<Rightarrow> ('k \<times> 'v) list \<Rightarrow> bool" where
  "values_all P m \<longleftrightarrow> list_all (\<lambda>e. P (snd e)) m"

section \<open>Facts that hold for any comparison\<close>

lemma values_all_simps [simp]:
  "values_all P []"
  "values_all P (e # m) \<longleftrightarrow> P (snd e) \<and> values_all P m"
  "values_all P (m @ m') \<longleftrightarrow> values_all P m \<and> values_all P m'"
  by (simp_all add: values_all_def)

lemma values_all_find: "values_all P m \<Longrightarrow> smap_find lt k m = Some v \<Longrightarrow> P v"
  by (induction m) (auto simp: smap_find_def split: if_splits)

lemma values_all_insert: "values_all P m \<Longrightarrow> P v \<Longrightarrow> values_all P (smap_insert lt k v m)"
  by (induction m) auto

lemma values_all_mmap_insert: "values_all P (mmap_insert lt k v m) \<longleftrightarrow> P v \<and> values_all P m"
  by (induction m) (auto split: if_splits)

lemma values_all_adjust:
  "values_all P m \<Longrightarrow> (\<And>v. P v \<Longrightarrow> P (f v)) \<Longrightarrow> values_all P (smap_adjust lt k f m)"
  by (induction m) (auto simp: smap_adjust_def)

lemma values_all_erase: "values_all P m \<Longrightarrow> values_all P (smap_erase lt k m)"
  by (induction m) (auto simp: smap_erase_def)

lemma values_all_map:
  "values_all P m \<Longrightarrow> (\<And>v. P v \<Longrightarrow> P (f v)) \<Longrightarrow> values_all P (map (\<lambda>(k, v). (k, f v)) m)"
  by (induction m) auto

lemma key_equiv_sym: "key_equiv lt a b = key_equiv lt b a"
  by (auto simp: key_equiv_def)

lemma smap_find_Nil [simp]: "smap_find lt k [] = None"
  by (simp add: smap_find_def)

lemma smap_find_Cons [simp]:
  "smap_find lt k ((k', v) # m) = (if key_equiv lt k k' then Some v else smap_find lt k m)"
  by (simp add: smap_find_def)

lemma smap_adjust_Nil [simp]: "smap_adjust lt k f [] = []"
  by (simp add: smap_adjust_def)

lemma smap_adjust_Cons [simp]:
  "smap_adjust lt k f ((k', v) # m) =
     (k', if key_equiv lt k k' then f v else v) # smap_adjust lt k f m"
  by (simp add: smap_adjust_def)

lemma smap_erase_Nil [simp]: "smap_erase lt k [] = []"
  by (simp add: smap_erase_def)

lemma smap_erase_Cons [simp]:
  "smap_erase lt k ((k', v) # m) =
     (if key_equiv lt k k' then smap_erase lt k m else (k', v) # smap_erase lt k m)"
  by (simp add: smap_erase_def)

lemma smap_find_adjust_same [simp]:
  "smap_find lt k (smap_adjust lt k f m) = map_option f (smap_find lt k m)"
  by (induction m) auto

lemma smap_find_erase_same [simp]: "smap_find lt k (smap_erase lt k m) = None"
  by (induction m) auto

lemma smap_find_SomeD:
  "smap_find lt k m = Some v \<Longrightarrow> \<exists>k'. (k', v) \<in> set m \<and> key_equiv lt k k'"
  by (induction m) (auto split: if_splits)

lemma smap_find_None_iff:
  "smap_find lt k m = None \<longleftrightarrow> (\<forall>(k', v) \<in> set m. \<not> key_equiv lt k k')"
  by (induction m) (auto split: if_splits)

lemma map_fst_smap_adjust [simp]: "map fst (smap_adjust lt k f m) = map fst m"
  by (induction m) auto

lemma length_smap_adjust [simp]: "length (smap_adjust lt k f m) = length m"
  by (simp add: smap_adjust_def)

lemma smap_adjust_absent: "smap_find lt k m = None \<Longrightarrow> smap_adjust lt k f m = m"
  by (induction m) (auto split: if_splits)

lemma map_sorted_adjust [simp]: "map_sorted lt (smap_adjust lt k f m) = map_sorted lt m"
  by (simp add: map_sorted_def smap_adjust_def sorted_wrt_map split_beta)

lemma mmap_sorted_adjust [simp]: "mmap_sorted lt (smap_adjust lt k f m) = mmap_sorted lt m"
  by (simp add: mmap_sorted_def smap_adjust_def sorted_wrt_map split_beta)

lemma map_sorted_map [simp]: "map_sorted lt (map (\<lambda>(k, v). (k, f v)) m) = map_sorted lt m"
  by (simp add: map_sorted_def sorted_wrt_map split_beta)

lemma map_sorted_Nil [simp]: "map_sorted lt []"
  by (simp add: map_sorted_def)

lemma mmap_sorted_Nil [simp]: "mmap_sorted lt []"
  by (simp add: mmap_sorted_def)

lemma map_sorted_erase: "map_sorted lt m \<Longrightarrow> map_sorted lt (smap_erase lt k m)"
  by (simp add: map_sorted_def smap_erase_def sorted_wrt_filter)

lemma set_mmap_insert [simp]: "set (mmap_insert lt k v m) = insert (k, v) (set m)"
  by (induction m) (auto split: if_splits)

lemma length_mmap_insert [simp]: "length (mmap_insert lt k v m) = Suc (length m)"
  by (induction m) auto

lemma smap_adjust_idem_fun:
  "(\<And>v. f (f v) = f v) \<Longrightarrow> smap_adjust lt k f (smap_adjust lt k f m) = smap_adjust lt k f m"
  by (induction m) auto

lemma smap_adjust_adjust: "smap_adjust lt k f (smap_adjust lt k g m) = smap_adjust lt k (f \<circ> g) m"
  by (induction m) auto

lemma smap_insert_last: "list_all (\<lambda>e. fst e < k) m \<Longrightarrow> smap_insert (<) k v m = m @ [(k :: 'a :: order, v)]"
  by (induction m) (auto dest: less_not_sym)

section \<open>Strict weak orders\<close>

locale weak_order =
  fixes lt :: "'k \<Rightarrow> 'k \<Rightarrow> bool"
  assumes lt_irrefl: "\<not> lt a a"
    and lt_trans: "lt a b \<Longrightarrow> lt b c \<Longrightarrow> lt a c"
    and equiv_trans: "key_equiv lt a b \<Longrightarrow> key_equiv lt b c \<Longrightarrow> key_equiv lt a c"
begin

lemma equiv_refl [simp]: "key_equiv lt a a"
  by (simp add: key_equiv_def lt_irrefl)

lemma lt_asym: "lt a b \<Longrightarrow> \<not> lt b a"
  using lt_irrefl lt_trans by blast

lemma lt_equiv_left: "key_equiv lt a b \<Longrightarrow> lt a c = lt b c"
  using equiv_trans lt_trans lt_irrefl unfolding key_equiv_def by metis

lemma lt_equiv_right: "key_equiv lt a b \<Longrightarrow> lt c a = lt c b"
  using equiv_trans lt_trans lt_irrefl unfolding key_equiv_def by metis

lemma equiv_left: "key_equiv lt a b \<Longrightarrow> key_equiv lt a c = key_equiv lt b c"
  using equiv_trans key_equiv_sym by metis

lemma not_lt_trans: "\<not> lt b a \<Longrightarrow> \<not> lt c b \<Longrightarrow> \<not> lt c a"
  using lt_trans equiv_trans unfolding key_equiv_def by metis

lemma find_insert_same:
  "map_sorted lt m \<Longrightarrow>
     smap_find lt k (smap_insert lt k v m) = Some (case smap_find lt k m of None \<Rightarrow> v | Some w \<Rightarrow> w)"
proof (induction m)
  case (Cons e m)
  obtain k' w where e: "e = (k', w)" by (cases e)
  have sorted: "map_sorted lt m" and later: "\<forall>x \<in> set m. lt k' (fst x)"
    using Cons.prems by (auto simp: map_sorted_def e)
  show ?case
  proof (cases "lt k k'")
    case True
    then have "\<forall>x \<in> set m. \<not> key_equiv lt k (fst x)"
      using later lt_trans by (auto simp: key_equiv_def)
    then have "smap_find lt k m = None" by (auto simp: smap_find_None_iff)
    then show ?thesis using True by (simp add: e key_equiv_def lt_irrefl)
  next
    case False
    then show ?thesis using Cons.IH [OF sorted] by (auto simp: e key_equiv_def)
  qed
qed simp

lemma find_insert_other:
  "\<not> key_equiv lt k k' \<Longrightarrow> smap_find lt k (smap_insert lt k' v m) = smap_find lt k m"
  by (induction m) auto

lemma find_adjust_other:
  "\<not> key_equiv lt k k' \<Longrightarrow> smap_find lt k (smap_adjust lt k' f m) = smap_find lt k m"
  by (induction m) (auto, metis equiv_trans key_equiv_sym)

lemma find_erase_other:
  "\<not> key_equiv lt k k' \<Longrightarrow> smap_find lt k (smap_erase lt k' m) = smap_find lt k m"
  by (induction m) (auto, metis equiv_trans key_equiv_sym)

lemma find_equiv: "key_equiv lt k k' \<Longrightarrow> smap_find lt k m = smap_find lt k' m"
  by (induction m) (auto dest: equiv_left)

lemma set_insert_subset: "set (smap_insert lt k v m) \<subseteq> insert (k, v) (set m)"
  by (induction m) (auto split: if_splits)

lemma map_sorted_insert: "map_sorted lt m \<Longrightarrow> map_sorted lt (smap_insert lt k v m)"
proof (induction m)
  case (Cons e m)
  obtain k' w where e: "e = (k', w)" by (cases e)
  have sorted: "map_sorted lt m" and later: "\<forall>x \<in> set m. lt k' (fst x)"
    using Cons.prems by (auto simp: map_sorted_def e)
  have ih: "map_sorted lt (smap_insert lt k v m)" by (rule Cons.IH [OF sorted])
  show ?case
  proof (cases "lt k k'")
    case True
    then show ?thesis using later Cons.prems lt_trans by (auto simp: e map_sorted_def)
  next
    case False
    then show ?thesis
      using ih sorted later set_insert_subset [of k v m] by (auto simp: e map_sorted_def)
  qed
qed (simp add: map_sorted_def)

lemma mmap_sorted_insert: "mmap_sorted lt m \<Longrightarrow> mmap_sorted lt (mmap_insert lt k v m)"
proof (induction m)
  case (Cons e m)
  obtain k' w where e: "e = (k', w)" by (cases e)
  have sorted: "mmap_sorted lt m" and later: "\<forall>x \<in> set m. \<not> lt (fst x) k'"
    using Cons.prems by (auto simp: mmap_sorted_def e)
  have ih: "mmap_sorted lt (mmap_insert lt k v m)" by (rule Cons.IH [OF sorted])
  show ?case
  proof (cases "lt k k'")
    case True
    then have "\<not> lt (fst x) k" if "x \<in> set m" for x
      using that later lt_asym [of k k'] not_lt_trans [of k' k "fst x"] by blast
    then show ?thesis
      using True later Cons.prems lt_asym [of k k'] by (simp add: e mmap_sorted_def)
  next
    case False
    then show ?thesis using ih later by (auto simp: e mmap_sorted_def)
  qed
qed (simp add: mmap_sorted_def)

lemma equal_range_filter:
  assumes "mmap_sorted lt m"
  shows "equal_range lt k m = filter (\<lambda>(k', v). key_equiv lt k k') m"
proof -
  let ?R = "\<lambda>a b :: 'k \<times> 'b. \<not> lt (fst b) (fst a)"
  have sorted: "sorted_wrt ?R m" using assms by (simp add: mmap_sorted_def)
  have 1: "dropWhile (\<lambda>x. lt (fst x) k) m = filter (\<lambda>x. \<not> lt (fst x) k) m"
    using sorted by (rule dropWhile_eq_filter_sorted) (use not_lt_trans in blast)
  have "sorted_wrt ?R (filter (\<lambda>x. \<not> lt (fst x) k) m)"
    using sorted by (rule sorted_wrt_filter)
  then have 2: "takeWhile (\<lambda>x. \<not> lt k (fst x)) (filter (\<lambda>x. \<not> lt (fst x) k) m) =
      filter (\<lambda>x. \<not> lt k (fst x)) (filter (\<lambda>x. \<not> lt (fst x) k) m)"
    by (rule takeWhile_eq_filter_sorted) (use not_lt_trans in blast)
  show ?thesis
    unfolding equal_range_def split_beta 1 2 filter_filter key_equiv_def by meson
qed

lemma equal_range_insert_other:
  assumes "mmap_sorted lt m" and "\<not> key_equiv lt k k'"
  shows "equal_range lt k (mmap_insert lt k' v m) = equal_range lt k m"
proof -
  have "filter (\<lambda>(a, b). key_equiv lt k a) (mmap_insert lt k' v m) =
      filter (\<lambda>(a, b). key_equiv lt k a) m"
    using assms(2) by (induction m) auto
  then show ?thesis using assms(1) by (simp add: equal_range_filter mmap_sorted_insert)
qed

lemma equal_range_insert_same:
  assumes "mmap_sorted lt m"
  shows "equal_range lt k (mmap_insert lt k v m) = equal_range lt k m @ [(k, v)]"
proof -
  have "filter (\<lambda>(a, b). key_equiv lt k a) (mmap_insert lt k v m) =
      filter (\<lambda>(a, b). key_equiv lt k a) m @ [(k, v)]" if "mmap_sorted lt m"
    using that
  proof (induction m)
    case (Cons e m)
    obtain k' w where e: "e = (k', w)" by (cases e)
    have sorted: "mmap_sorted lt m" and later: "\<forall>x \<in> set m. \<not> lt (fst x) k'"
      using Cons.prems by (auto simp: mmap_sorted_def e)
    show ?case
    proof (cases "lt k k'")
      case True
      then have "lt k (fst x)" if "x \<in> set m" for x
        using that later not_lt_trans [of "fst x" k' k] by blast
      then have "\<forall>x \<in> set (e # m). \<not> key_equiv lt k (fst x)"
        using True by (auto simp: e key_equiv_def)
      then have "filter (\<lambda>(a, b). key_equiv lt k a) (e # m) = []"
        by (auto simp: filter_empty_conv)
      then show ?thesis using True by (simp add: e)
    next
      case False
      then show ?thesis using Cons.IH [OF sorted] by (simp add: e)
    qed
  qed simp
  then show ?thesis using assms by (simp add: equal_range_filter mmap_sorted_insert)
qed

lemma equal_range_adjust_same:
  "mmap_sorted lt m \<Longrightarrow>
     equal_range lt k (smap_adjust lt k f m) = map (\<lambda>(k', v). (k', f v)) (equal_range lt k m)"
proof -
  assume sorted: "mmap_sorted lt m"
  have "filter (\<lambda>(a, b). key_equiv lt k a) (smap_adjust lt k f m) =
      map (\<lambda>(k', v). (k', f v)) (filter (\<lambda>(a, b). key_equiv lt k a) m)"
    by (induction m) auto
  then show ?thesis using sorted by (simp add: equal_range_filter)
qed

lemma equal_range_adjust_other:
  "mmap_sorted lt m \<Longrightarrow> \<not> key_equiv lt k k' \<Longrightarrow>
     equal_range lt k (smap_adjust lt k' f m) = equal_range lt k m"
proof -
  assume sorted: "mmap_sorted lt m" and other: "\<not> key_equiv lt k k'"
  have "filter (\<lambda>(a, b). key_equiv lt k a) (smap_adjust lt k' f m) =
      filter (\<lambda>(a, b). key_equiv lt k a) m"
    using other by (induction m) (auto, metis equiv_trans key_equiv_sym)
  then show ?thesis using sorted by (simp add: equal_range_filter)
qed

lemma equal_range_equiv:
  assumes "mmap_sorted lt m" and "key_equiv lt k k'"
  shows "equal_range lt k m = equal_range lt k' m"
proof -
  have "key_equiv lt k = key_equiv lt k'" using equiv_left [OF assms(2)] by (rule ext)
  then show ?thesis using assms(1) by (simp add: equal_range_filter)
qed

end

section \<open>Comparisons by a linearly ordered key\<close>

locale key_order =
  fixes lt :: "'k \<Rightarrow> 'k \<Rightarrow> bool" and key :: "'k \<Rightarrow> 'o::linorder"
  assumes lt_key: "lt a b \<longleftrightarrow> key a < key b"
begin

lemma equiv_key: "key_equiv lt a b \<longleftrightarrow> key a = key b"
  by (auto simp: key_equiv_def lt_key)

end

sublocale key_order \<subseteq> weak_order lt
  by unfold_locales (auto simp: lt_key equiv_key)

end
