(* ===== verification/HM_Constants.thy ===== *)
theory HM_Constants
  imports HM_Prelude
begin

text \<open>
  The enumerations of \<open>HMConstants.h\<close> that the modelled code uses, their numeric codes where
  the code compares or stores them, the flag words, the default values, and the printers of
  \<open>HMConstants.cpp\<close>. An enumeration is a datatype with the enumerators of the source, so the
  \<open>default:\<close> branch of a printer is there only for the enumerators that have no \<open>case\<close> of
  their own. \<open>HM_RESPONSE\<close> and \<open>HM_REASON\<close> are also cast from stored bytes; a byte that names no
  enumerator is a value of the enumeration too, under the constructor \<open>_CAST\<close>. The enumerations
  used as bit sets stay machine words.
\<close>

section \<open>Enumerations\<close>

datatype HM_DNS_TYPE =
    HM_DNS_TYPE_LOOKUP | HM_DNS_TYPE_STATIC

fun dns_type_code :: "HM_DNS_TYPE \<Rightarrow> u8" where
  "dns_type_code HM_DNS_TYPE_LOOKUP = 0"
| "dns_type_code HM_DNS_TYPE_STATIC = 1"

lemma dns_type_code_inj [simp]: "dns_type_code a = dns_type_code b \<longleftrightarrow> a = b"
  by (cases a; cases b) simp_all

datatype HM_DNS_PLUGIN_CLASS =
    HM_DNS_PLUGIN_ARES | HM_DNS_PLUGIN_LIBEVENT | HM_DNS_PLUGIN_STATIC | HM_DNS_PLUGIN_NONE

fun dns_plugin_code :: "HM_DNS_PLUGIN_CLASS \<Rightarrow> u8" where
  "dns_plugin_code HM_DNS_PLUGIN_ARES = 0"
| "dns_plugin_code HM_DNS_PLUGIN_LIBEVENT = 1"
| "dns_plugin_code HM_DNS_PLUGIN_STATIC = 2"
| "dns_plugin_code HM_DNS_PLUGIN_NONE = 3"

lemma dns_plugin_code_inj [simp]: "dns_plugin_code a = dns_plugin_code b \<longleftrightarrow> a = b"
  by (cases a; cases b) simp_all

datatype HM_REMOTE_CHECK_TYPE =
    HM_REMOTE_CHECK_NONE | HM_REMOTE_CHECK_TCP | HM_REMOTE_CHECK_TCPS
    | HM_REMOTE_SHARED_CHECK_TCP | HM_REMOTE_SHARED_CHECK_TCPS
    | HM_REMOTE_SHARED_CHECK_LINUX

fun remote_check_type_code :: "HM_REMOTE_CHECK_TYPE \<Rightarrow> u8" where
  "remote_check_type_code HM_REMOTE_CHECK_NONE = 0"
| "remote_check_type_code HM_REMOTE_CHECK_TCP = 1"
| "remote_check_type_code HM_REMOTE_CHECK_TCPS = 2"
| "remote_check_type_code HM_REMOTE_SHARED_CHECK_TCP = 3"
| "remote_check_type_code HM_REMOTE_SHARED_CHECK_TCPS = 4"
| "remote_check_type_code HM_REMOTE_SHARED_CHECK_LINUX = 5"

lemma remote_check_type_code_inj [simp]: "remote_check_type_code a = remote_check_type_code b \<longleftrightarrow> a = b"
  by (cases a; cases b) simp_all

datatype HM_FLOW_TYPE =
    HM_FLOW_DNS_HEALTH_TYPE | HM_FLOW_REMOTE_HOSTGROUP_TYPE | HM_FLOW_REMOTE_HOST_TYPE

fun flow_type_code :: "HM_FLOW_TYPE \<Rightarrow> u8" where
  "flow_type_code HM_FLOW_DNS_HEALTH_TYPE = 0"
| "flow_type_code HM_FLOW_REMOTE_HOSTGROUP_TYPE = 1"
| "flow_type_code HM_FLOW_REMOTE_HOST_TYPE = 2"

lemma flow_type_code_inj [simp]: "flow_type_code a = flow_type_code b \<longleftrightarrow> a = b"
  by (cases a; cases b) simp_all

datatype HM_STORAGE_COMMIT_POLICY =
    HM_STORAGE_COMMIT_ALWAYS | HM_STORAGE_COMMIT_ON_FIRST | HM_STORAGE_COMMIT_ON_ALL_READY
    | HM_STORAGE_COMMIT_ON_TTL

datatype HM_CHECK_PLUGIN_CLASS =
    HM_CHECK_PLUGIN_DEFAULT | HM_CHECK_PLUGIN_DNS_ARES | HM_CHECK_PLUGIN_HTTP_CURL
    | HM_CHECK_PLUGIN_FTP_CURL | HM_CHECK_PLUGIN_TCP_RAW | HM_CHECK_PLUGIN_AUX_CURL
    | HM_CHECK_PLUGIN_HTTP_LIBEVENT | HM_CHECK_PLUGIN_TCPS_RAW | HM_CHECK_PLUGIN_MARK_CURL

fun check_plugin_code :: "HM_CHECK_PLUGIN_CLASS \<Rightarrow> u8" where
  "check_plugin_code HM_CHECK_PLUGIN_DEFAULT = 0"
| "check_plugin_code HM_CHECK_PLUGIN_DNS_ARES = 1"
| "check_plugin_code HM_CHECK_PLUGIN_HTTP_CURL = 2"
| "check_plugin_code HM_CHECK_PLUGIN_FTP_CURL = 3"
| "check_plugin_code HM_CHECK_PLUGIN_TCP_RAW = 4"
| "check_plugin_code HM_CHECK_PLUGIN_AUX_CURL = 5"
| "check_plugin_code HM_CHECK_PLUGIN_HTTP_LIBEVENT = 6"
| "check_plugin_code HM_CHECK_PLUGIN_TCPS_RAW = 7"
| "check_plugin_code HM_CHECK_PLUGIN_MARK_CURL = 8"

lemma check_plugin_code_inj [simp]: "check_plugin_code a = check_plugin_code b \<longleftrightarrow> a = b"
  by (cases a; cases b) simp_all

datatype HM_CHECK_TYPE =
    HM_CHECK_DEFAULT | HM_CHECK_NONE | HM_CHECK_HTTP | HM_CHECK_HTTPS | HM_CHECK_TCP
    | HM_CHECK_FTP | HM_CHECK_DNS | HM_CHECK_DNSVC | HM_CHECK_HTTPS_NO_PEER_CHECK
    | HM_CHECK_FTPS_EXPLICIT | HM_CHECK_FTPS_EXPLICIT_NO_PEER_CHECK
    | HM_CHECK_FTPS_IMPLICIT | HM_CHECK_FTPS_IMPLICIT_NO_PEER_CHECK | HM_CHECK_AUX_HTTP
    | HM_CHECK_AUX_HTTPS | HM_CHECK_AUX_HTTPS_NO_PEER_CHECK | HM_CHECK_MTLS_HTTPS
    | HM_CHECK_MTLS_HTTPS_NO_PEER_CHECK | HM_CHECK_AUX_MTLS_HTTPS
    | HM_CHECK_AUX_MTLS_HTTPS_NO_PEER_CHECK | HM_CHECK_TCPS | HM_CHECK_MARK_HTTP
    | HM_CHECK_MARK_HTTPS | HM_CHECK_MARK_HTTPS_NO_PEER_CHECK | HM_CHECK_INVALID

fun check_type_code :: "HM_CHECK_TYPE \<Rightarrow> u8" where
  "check_type_code HM_CHECK_DEFAULT = 0"
| "check_type_code HM_CHECK_NONE = 1"
| "check_type_code HM_CHECK_HTTP = 2"
| "check_type_code HM_CHECK_HTTPS = 3"
| "check_type_code HM_CHECK_TCP = 4"
| "check_type_code HM_CHECK_FTP = 5"
| "check_type_code HM_CHECK_DNS = 6"
| "check_type_code HM_CHECK_DNSVC = 7"
| "check_type_code HM_CHECK_HTTPS_NO_PEER_CHECK = 8"
| "check_type_code HM_CHECK_FTPS_EXPLICIT = 9"
| "check_type_code HM_CHECK_FTPS_EXPLICIT_NO_PEER_CHECK = 10"
| "check_type_code HM_CHECK_FTPS_IMPLICIT = 11"
| "check_type_code HM_CHECK_FTPS_IMPLICIT_NO_PEER_CHECK = 12"
| "check_type_code HM_CHECK_AUX_HTTP = 13"
| "check_type_code HM_CHECK_AUX_HTTPS = 14"
| "check_type_code HM_CHECK_AUX_HTTPS_NO_PEER_CHECK = 15"
| "check_type_code HM_CHECK_MTLS_HTTPS = 16"
| "check_type_code HM_CHECK_MTLS_HTTPS_NO_PEER_CHECK = 17"
| "check_type_code HM_CHECK_AUX_MTLS_HTTPS = 18"
| "check_type_code HM_CHECK_AUX_MTLS_HTTPS_NO_PEER_CHECK = 19"
| "check_type_code HM_CHECK_TCPS = 20"
| "check_type_code HM_CHECK_MARK_HTTP = 21"
| "check_type_code HM_CHECK_MARK_HTTPS = 22"
| "check_type_code HM_CHECK_MARK_HTTPS_NO_PEER_CHECK = 23"
| "check_type_code HM_CHECK_INVALID = 24"

lemma check_type_code_inj [simp]: "check_type_code a = check_type_code b \<longleftrightarrow> a = b"
  by (cases a; cases b) simp_all

datatype HM_WORK_STATE =
    HM_CHECK_INACTIVE | HM_CHECK_QUEUED | HM_CHECK_IN_PROGRESS | HM_CHECK_FAILED

fun work_state_code :: "HM_WORK_STATE \<Rightarrow> u8" where
  "work_state_code HM_CHECK_INACTIVE = 0"
| "work_state_code HM_CHECK_QUEUED = 1"
| "work_state_code HM_CHECK_IN_PROGRESS = 2"
| "work_state_code HM_CHECK_FAILED = 3"

lemma work_state_code_inj [simp]: "work_state_code a = work_state_code b \<longleftrightarrow> a = b"
  by (cases a; cases b) simp_all

datatype HM_WORK_TYPE =
    HM_WORK_NONE | HM_WORK_HEALTHCHECK | HM_WORK_DNSLOOKUP | HM_WORK_AUXFETCH
    | HM_WORK_REMOTECHECK | HM_WORK_REMOTEHOSTCHECK

fun work_type_code :: "HM_WORK_TYPE \<Rightarrow> u8" where
  "work_type_code HM_WORK_NONE = 0"
| "work_type_code HM_WORK_HEALTHCHECK = 1"
| "work_type_code HM_WORK_DNSLOOKUP = 2"
| "work_type_code HM_WORK_AUXFETCH = 3"
| "work_type_code HM_WORK_REMOTECHECK = 4"
| "work_type_code HM_WORK_REMOTEHOSTCHECK = 5"

lemma work_type_code_inj [simp]: "work_type_code a = work_type_code b \<longleftrightarrow> a = b"
  by (cases a; cases b) simp_all

datatype HM_SCHEDULE_STATE =
    HM_SCHEDULE_EVENT | HM_SCHEDULE_WORK | HM_SCHEDULE_IGNORE

datatype HM_RESPONSE =
    HM_RESPONSE_NONE | HM_RESPONSE_CONNECTED | HM_RESPONSE_FAILED | HM_RESPONSE_DNS_FAILED
    | HM_RESPONSE_REMOTE_FAILED | HM_RESPONSE_CAST u8

fun response_code :: "HM_RESPONSE \<Rightarrow> u8" where
  "response_code HM_RESPONSE_NONE = 0"
| "response_code HM_RESPONSE_CONNECTED = 1"
| "response_code HM_RESPONSE_FAILED = 2"
| "response_code HM_RESPONSE_DNS_FAILED = 3"
| "response_code HM_RESPONSE_REMOTE_FAILED = 4"
| "response_code (HM_RESPONSE_CAST b) = b"

definition response_of_code :: "u8 \<Rightarrow> HM_RESPONSE" where
  "response_of_code b =
     (if b = 0 then HM_RESPONSE_NONE
      else if b = 1 then HM_RESPONSE_CONNECTED
      else if b = 2 then HM_RESPONSE_FAILED
      else if b = 3 then HM_RESPONSE_DNS_FAILED
      else if b = 4 then HM_RESPONSE_REMOTE_FAILED
      else HM_RESPONSE_CAST b)"

fun response_ok :: "HM_RESPONSE \<Rightarrow> bool" where
  "response_ok (HM_RESPONSE_CAST b) \<longleftrightarrow> 4 < b"
| "response_ok _ \<longleftrightarrow> True"

lemma response_of_code_code: "response_ok r \<Longrightarrow> response_of_code (response_code r) = r"
  by (cases r) (auto simp: response_of_code_def)

datatype HM_REASON =
    HM_REASON_NONE | HM_REASON_SUCCESS | HM_REASON_DNS_NOTFOUND | HM_REASON_DNS_TIMEOUT
    | HM_REASON_DNS_FAILURE | HM_REASON_YNET_NOTFOUND | HM_REASON_CONNECT_TIMEOUT
    | HM_REASON_CONNECT_FAILURE | HM_REASON_REQUEST_FAILURE | HM_REASON_RESPONSE_TIMEOUT
    | HM_REASON_RESPONSE_FAILURE | HM_REASON_RESPONSE_DOWN | HM_REASON_RESPONSE_404
    | HM_REASON_RESPONSE_403 | HM_REASON_RESPONSE_3XX | HM_REASON_RESPONSE_5XX
    | HM_REASON_INTERNAL_ERROR | HM_REASON_REMOTE_NODATA | HM_REASON_CAST u8

fun reason_code :: "HM_REASON \<Rightarrow> u8" where
  "reason_code HM_REASON_NONE = 0"
| "reason_code HM_REASON_SUCCESS = 1"
| "reason_code HM_REASON_DNS_NOTFOUND = 2"
| "reason_code HM_REASON_DNS_TIMEOUT = 3"
| "reason_code HM_REASON_DNS_FAILURE = 4"
| "reason_code HM_REASON_YNET_NOTFOUND = 5"
| "reason_code HM_REASON_CONNECT_TIMEOUT = 6"
| "reason_code HM_REASON_CONNECT_FAILURE = 7"
| "reason_code HM_REASON_REQUEST_FAILURE = 8"
| "reason_code HM_REASON_RESPONSE_TIMEOUT = 9"
| "reason_code HM_REASON_RESPONSE_FAILURE = 10"
| "reason_code HM_REASON_RESPONSE_DOWN = 11"
| "reason_code HM_REASON_RESPONSE_404 = 12"
| "reason_code HM_REASON_RESPONSE_403 = 13"
| "reason_code HM_REASON_RESPONSE_3XX = 14"
| "reason_code HM_REASON_RESPONSE_5XX = 15"
| "reason_code HM_REASON_INTERNAL_ERROR = 16"
| "reason_code HM_REASON_REMOTE_NODATA = 17"
| "reason_code (HM_REASON_CAST b) = b"

definition reason_of_code :: "u8 \<Rightarrow> HM_REASON" where
  "reason_of_code b =
     (if b = 0 then HM_REASON_NONE
      else if b = 1 then HM_REASON_SUCCESS
      else if b = 2 then HM_REASON_DNS_NOTFOUND
      else if b = 3 then HM_REASON_DNS_TIMEOUT
      else if b = 4 then HM_REASON_DNS_FAILURE
      else if b = 5 then HM_REASON_YNET_NOTFOUND
      else if b = 6 then HM_REASON_CONNECT_TIMEOUT
      else if b = 7 then HM_REASON_CONNECT_FAILURE
      else if b = 8 then HM_REASON_REQUEST_FAILURE
      else if b = 9 then HM_REASON_RESPONSE_TIMEOUT
      else if b = 10 then HM_REASON_RESPONSE_FAILURE
      else if b = 11 then HM_REASON_RESPONSE_DOWN
      else if b = 12 then HM_REASON_RESPONSE_404
      else if b = 13 then HM_REASON_RESPONSE_403
      else if b = 14 then HM_REASON_RESPONSE_3XX
      else if b = 15 then HM_REASON_RESPONSE_5XX
      else if b = 16 then HM_REASON_INTERNAL_ERROR
      else if b = 17 then HM_REASON_REMOTE_NODATA
      else HM_REASON_CAST b)"

fun reason_ok :: "HM_REASON \<Rightarrow> bool" where
  "reason_ok (HM_REASON_CAST b) \<longleftrightarrow> 17 < b"
| "reason_ok _ \<longleftrightarrow> True"

lemma reason_of_code_code: "reason_ok r \<Longrightarrow> reason_of_code (reason_code r) = r"
  by (cases r) (auto simp: reason_of_code_def)

datatype HM_WORK_STATUS =
    HM_WORK_IDLE | HM_WORK_COMPLETE | HM_WORK_IN_PROGRESS | HM_WORK_REMOTE_FALLBACK
    | HM_WORK_COMPLETE_REMOTE

section \<open>Flag words\<close>

type_synonym HM_HOST_STATUS = u16
type_synonym HM_DUALSTACK = u8
type_synonym HM_DISTRIBUTED_FALLBACK = u8
type_synonym HM_MEASUREMENT_OPTIONS = u16

abbreviation (input) "HM_HOST_STATUS_NONE \<equiv> (0x00 :: HM_HOST_STATUS)"
abbreviation (input) "HM_HOST_STATUS_USE \<equiv> (0x01 :: HM_HOST_STATUS)"
abbreviation (input) "HM_HOST_STATUS_FORCE_DOWN \<equiv> (0x02 :: HM_HOST_STATUS)"
abbreviation (input) "HM_HOST_STATUS_FORCE_USE \<equiv> (0x04 :: HM_HOST_STATUS)"
abbreviation (input) "HM_HOST_STATUS_UP \<equiv> (0x10 :: HM_HOST_STATUS)"

abbreviation (input) "HM_DUALSTACK_UNDEFINED \<equiv> (0 :: HM_DUALSTACK)"
abbreviation (input) "HM_DUALSTACK_IPV4_ONLY \<equiv> (1 :: HM_DUALSTACK)"
abbreviation (input) "HM_DUALSTACK_IPV6_ONLY \<equiv> (2 :: HM_DUALSTACK)"
abbreviation (input) "HM_DUALSTACK_BOTH \<equiv> (3 :: HM_DUALSTACK)"

abbreviation (input) "HM_DISTRIBUTED_FALLBACK_NONE \<equiv> (0 :: HM_DISTRIBUTED_FALLBACK)"
abbreviation (input) "HM_DISTRIBUTED_FALLBACK_LOCAL \<equiv> (1 :: HM_DISTRIBUTED_FALLBACK)"
abbreviation (input) "HM_DISTRIBUTED_FALLBACK_REMOTE \<equiv> (2 :: HM_DISTRIBUTED_FALLBACK)"
abbreviation (input) "HM_DISTRIBUTED_FALLBACK_BOTH \<equiv> (3 :: HM_DISTRIBUTED_FALLBACK)"

abbreviation (input) "HM_RT_CONNECT \<equiv> (0x0 :: u16)"
abbreviation (input) "HM_RT_SMOOTHED_CONNECT \<equiv> (0x2 :: u16)"
abbreviation (input) "HM_RT_TOTAL \<equiv> (0x10 :: u16)"
abbreviation (input) "HM_RT_SMOOTHED_TOTAL \<equiv> (0x12 :: u16)"
abbreviation (input) "HM_RT_BITS \<equiv> (0x12 :: u16)"

text \<open>The test \<open>status & HM_HOST_STATUS_UP\<close> and the two writes of that flag.\<close>

definition status_up :: "HM_HOST_STATUS \<Rightarrow> bool" where
  "status_up s \<longleftrightarrow> s AND HM_HOST_STATUS_UP \<noteq> 0"

definition set_status_up :: "HM_HOST_STATUS \<Rightarrow> HM_HOST_STATUS" where
  "set_status_up s = s OR HM_HOST_STATUS_UP"

definition clear_status_up :: "HM_HOST_STATUS \<Rightarrow> HM_HOST_STATUS" where
  "clear_status_up s = s AND NOT HM_HOST_STATUS_UP"

section \<open>Default values\<close>

abbreviation (input) "HM_DEFAULT_DNS_TTL \<equiv> (360000 :: u64)"
abbreviation (input) "HM_DEFAULT_TTL \<equiv> (30000 :: u64)"
abbreviation (input) "HM_DEFAULT_DNS_RESOLUTION_TIMEOUT \<equiv> (60000 :: u64)"
abbreviation (input) "HM_DEFAULT_CHECK_TIMEOUT \<equiv> (10000 :: u64)"
abbreviation (input) "HM_DEFAULT_SMOOTHING_WINDOW \<equiv> (10 :: u32)"
abbreviation (input) "HM_DEFAULT_GROUP_THRESHOLD \<equiv> (20 :: u32)"
abbreviation (input) "HM_DEFAULT_FLAP_THRESHOLD \<equiv> (60000 :: u32)"
abbreviation (input) "HM_DEFAULT_SLOW_THRESHOLD \<equiv> (20 :: u32)"
abbreviation (input) "HM_DEFAULT_MAX_FLAPS \<equiv> (4 :: u32)"
abbreviation (input) "HM_HTTP_DEFAULT_PORT \<equiv> (80 :: u16)"
abbreviation (input) "HM_HTTPS_DEFAULT_PORT \<equiv> (443 :: u16)"
abbreviation (input) "HM_TCP_DEFAULT_PORT \<equiv> (80 :: u16)"
abbreviation (input) "HM_FTP_DEFAULT_PORT \<equiv> (21 :: u16)"
abbreviation (input) "HM_FTPS_DEFAULT_PORT \<equiv> (990 :: u16)"
abbreviation (input) "HM_DNSVC_DEFAULT_PORT \<equiv> (53 :: u16)"

section \<open>Printers\<close>

fun printCheckTypeConfigs :: "HM_CHECK_TYPE \<Rightarrow> string" where
  "printCheckTypeConfigs HM_CHECK_NONE = ''none''"
| "printCheckTypeConfigs HM_CHECK_HTTP = ''http''"
| "printCheckTypeConfigs HM_CHECK_TCP = ''tcp''"
| "printCheckTypeConfigs HM_CHECK_HTTPS = ''https''"
| "printCheckTypeConfigs HM_CHECK_HTTPS_NO_PEER_CHECK = ''https-no-peer-check''"
| "printCheckTypeConfigs HM_CHECK_FTP = ''ftp''"
| "printCheckTypeConfigs HM_CHECK_DNS = ''dns''"
| "printCheckTypeConfigs HM_CHECK_DNSVC = ''dnsvc''"
| "printCheckTypeConfigs HM_CHECK_FTPS_IMPLICIT = ''ftps-implicit''"
| "printCheckTypeConfigs HM_CHECK_FTPS_IMPLICIT_NO_PEER_CHECK = ''ftps-implicit-no-peer-check''"
| "printCheckTypeConfigs HM_CHECK_FTPS_EXPLICIT = ''ftps-explicit''"
| "printCheckTypeConfigs HM_CHECK_FTPS_EXPLICIT_NO_PEER_CHECK = ''ftps-explicit-no-peer-check''"
| "printCheckTypeConfigs HM_CHECK_AUX_HTTP = ''http''"
| "printCheckTypeConfigs HM_CHECK_AUX_HTTPS = ''https''"
| "printCheckTypeConfigs HM_CHECK_AUX_HTTPS_NO_PEER_CHECK = ''https-no-peer-check''"
| "printCheckTypeConfigs HM_CHECK_AUX_MTLS_HTTPS = ''https-mtls''"
| "printCheckTypeConfigs HM_CHECK_AUX_MTLS_HTTPS_NO_PEER_CHECK = ''https-mtls-no-peer-check''"
| "printCheckTypeConfigs HM_CHECK_MTLS_HTTPS = ''https-mtls''"
| "printCheckTypeConfigs HM_CHECK_MTLS_HTTPS_NO_PEER_CHECK = ''https-mtls-no-peer-check''"
| "printCheckTypeConfigs HM_CHECK_MARK_HTTP = ''http-mark''"
| "printCheckTypeConfigs HM_CHECK_MARK_HTTPS = ''https-mark''"
| "printCheckTypeConfigs HM_CHECK_MARK_HTTPS_NO_PEER_CHECK = ''https-mark-no-peer-check''"
| "printCheckTypeConfigs _ = ''default (empty) value''"

fun printCheckType :: "HM_CHECK_TYPE \<Rightarrow> string" where
  "printCheckType HM_CHECK_NONE = ''none''"
| "printCheckType HM_CHECK_HTTP = ''http''"
| "printCheckType HM_CHECK_TCP = ''tcp''"
| "printCheckType HM_CHECK_TCPS = ''tcps''"
| "printCheckType HM_CHECK_HTTPS = ''https''"
| "printCheckType HM_CHECK_HTTPS_NO_PEER_CHECK = ''https-no-peer-check''"
| "printCheckType HM_CHECK_FTP = ''ftp''"
| "printCheckType HM_CHECK_DNS = ''dns''"
| "printCheckType HM_CHECK_DNSVC = ''dnsvc''"
| "printCheckType HM_CHECK_FTPS_IMPLICIT = ''ftps-implicit''"
| "printCheckType HM_CHECK_FTPS_IMPLICIT_NO_PEER_CHECK = ''ftps-implicit-no-peer-check''"
| "printCheckType HM_CHECK_FTPS_EXPLICIT = ''ftps-explicit''"
| "printCheckType HM_CHECK_FTPS_EXPLICIT_NO_PEER_CHECK = ''ftps-explicit-no-peer-check''"
| "printCheckType HM_CHECK_AUX_HTTP = ''aux http''"
| "printCheckType HM_CHECK_AUX_HTTPS = ''aux https''"
| "printCheckType HM_CHECK_AUX_HTTPS_NO_PEER_CHECK = ''aux https-no-peer-check''"
| "printCheckType HM_CHECK_AUX_MTLS_HTTPS = ''https-mtls''"
| "printCheckType HM_CHECK_AUX_MTLS_HTTPS_NO_PEER_CHECK = ''https-mtls-no-peer-check''"
| "printCheckType HM_CHECK_MTLS_HTTPS = ''https-mtls''"
| "printCheckType HM_CHECK_MTLS_HTTPS_NO_PEER_CHECK = ''https-mtls-no-peer-check''"
| "printCheckType HM_CHECK_MARK_HTTP = ''http-mark''"
| "printCheckType HM_CHECK_MARK_HTTPS = ''https-mark''"
| "printCheckType HM_CHECK_MARK_HTTPS_NO_PEER_CHECK = ''https-mark-no-peer-check''"
| "printCheckType _ = ''default (empty) value''"

fun printWorkType :: "HM_WORK_TYPE \<Rightarrow> string" where
  "printWorkType HM_WORK_NONE = ''none''"
| "printWorkType HM_WORK_HEALTHCHECK = ''Health Check''"
| "printWorkType HM_WORK_DNSLOOKUP = ''DNS Lookup''"
| "printWorkType HM_WORK_AUXFETCH = ''Aux Fetch''"
| "printWorkType HM_WORK_REMOTECHECK = ''Remote HostGroup''"
| "printWorkType HM_WORK_REMOTEHOSTCHECK = ''Remote Host''"

definition printMeasurementOptions :: "u16 \<Rightarrow> string" where
  "printMeasurementOptions rtMode =
     (if rtMode = HM_RT_CONNECT then ''connect''
      else if rtMode = HM_RT_SMOOTHED_CONNECT then ''smoothed-connect''
      else if rtMode = HM_RT_TOTAL then ''total''
      else if rtMode = HM_RT_SMOOTHED_TOTAL then ''smoothed-total''
      else ''connect'')"

fun printDnsType :: "HM_DNS_TYPE \<Rightarrow> string" where
  "printDnsType HM_DNS_TYPE_LOOKUP = ''lookup''"
| "printDnsType HM_DNS_TYPE_STATIC = ''Static''"

definition printDualStack :: "HM_DUALSTACK \<Rightarrow> string" where
  "printDualStack ds =
     (if ds = HM_DUALSTACK_IPV6_ONLY then ''ipv6-only''
      else if ds = HM_DUALSTACK_BOTH then ''both''
      else ''ipv4-only'')"

fun printReason :: "HM_REASON \<Rightarrow> string" where
  "printReason HM_REASON_NONE = ''-''"
| "printReason HM_REASON_SUCCESS = ''Ok''"
| "printReason HM_REASON_DNS_NOTFOUND = ''DNS Not Found''"
| "printReason HM_REASON_DNS_TIMEOUT = ''DNS Timeout''"
| "printReason HM_REASON_DNS_FAILURE = ''DNS Failure''"
| "printReason HM_REASON_YNET_NOTFOUND = ''YNET Not Found''"
| "printReason HM_REASON_CONNECT_TIMEOUT = ''Connect Timeout''"
| "printReason HM_REASON_CONNECT_FAILURE = ''Connect Failure''"
| "printReason HM_REASON_REQUEST_FAILURE = ''Request Failure''"
| "printReason HM_REASON_RESPONSE_TIMEOUT = ''Response Timeout''"
| "printReason HM_REASON_RESPONSE_FAILURE = ''Response Failure''"
| "printReason HM_REASON_RESPONSE_DOWN = ''Response Down''"
| "printReason HM_REASON_RESPONSE_404 = ''Response 404''"
| "printReason HM_REASON_RESPONSE_403 = ''Response 403''"
| "printReason HM_REASON_RESPONSE_3XX = ''Response 3xx''"
| "printReason HM_REASON_RESPONSE_5XX = ''Response 5xx''"
| "printReason HM_REASON_INTERNAL_ERROR = ''Internal Error''"
| "printReason HM_REASON_REMOTE_NODATA = ''Remote No Data''"
| "printReason _ = ''Invalid Response Code''"

definition printStatus :: "HM_HOST_STATUS \<Rightarrow> string" where
  "printStatus status =
     (if status = HM_HOST_STATUS_NONE then ''Status None''
      else
        let ret = (if status AND HM_HOST_STATUS_USE \<noteq> 0 then ''USE'' else []);
            ret = (if status AND HM_HOST_STATUS_FORCE_DOWN \<noteq> 0
                   then ret @ (if ret = [] then ''FORCEDOWN'' else ''|FORCEDOWN'') else ret);
            ret = (if status AND HM_HOST_STATUS_FORCE_USE \<noteq> 0
                   then ret @ (if ret = [] then ''FORCEUSE'' else ''|FORCEUSE'') else ret)
        in (if status AND HM_HOST_STATUS_UP \<noteq> 0
            then ret @ (if ret = [] then ''UP'' else ''|UP'') else ret))"

fun printResponse :: "HM_RESPONSE \<Rightarrow> string" where
  "printResponse HM_RESPONSE_NONE = ''No Response''"
| "printResponse HM_RESPONSE_CONNECTED = ''Connected''"
| "printResponse HM_RESPONSE_FAILED = ''Failed''"
| "printResponse HM_RESPONSE_DNS_FAILED = ''DNS Failed''"
| "printResponse HM_RESPONSE_REMOTE_FAILED = ''Remote Failed''"
| "printResponse _ = ''Invalid Response''"

fun printRemoteCheckType :: "HM_REMOTE_CHECK_TYPE \<Rightarrow> string" where
  "printRemoteCheckType HM_REMOTE_CHECK_NONE = ''None''"
| "printRemoteCheckType HM_REMOTE_CHECK_TCP = ''RemoteTCP''"
| "printRemoteCheckType HM_REMOTE_CHECK_TCPS = ''RemoteTCPS''"
| "printRemoteCheckType HM_REMOTE_SHARED_CHECK_TCP = ''RemoteSharedTCP''"
| "printRemoteCheckType HM_REMOTE_SHARED_CHECK_TCPS = ''RemoteSharedTCPS''"
| "printRemoteCheckType HM_REMOTE_SHARED_CHECK_LINUX = ''RemoteSharedLINUX''"

fun printFlowType :: "HM_FLOW_TYPE \<Rightarrow> string" where
  "printFlowType HM_FLOW_DNS_HEALTH_TYPE = ''dns-health''"
| "printFlowType HM_FLOW_REMOTE_HOSTGROUP_TYPE = ''remote-hostgroup''"
| "printFlowType HM_FLOW_REMOTE_HOST_TYPE = ''remote-host''"

section \<open>Lemmas\<close>

lemma bit_up_mask: "bit (0x10 :: u16) n \<longleftrightarrow> n = 4"
proof -
  have "(0x10 :: u16) = 2 ^ 4" by simp
  then show ?thesis by (auto simp only: bit_exp_iff) (simp add: possible_bit_word)
qed

lemma bit_set_status_up: "bit (set_status_up s) n \<longleftrightarrow> bit s n \<or> n = 4"
  by (simp only: set_status_up_def bit_or_iff bit_up_mask)

lemma bit_clear_status_up: "bit (clear_status_up s) n \<longleftrightarrow> bit s n \<and> n \<noteq> 4"
  unfolding clear_status_up_def bit_and_iff bit_not_iff bit_up_mask
  by (auto simp: possible_bit_word dest: bit_imp_le_length)

lemma status_up_bit: "status_up s \<longleftrightarrow> bit s 4"
proof -
  have "s AND 0x10 \<noteq> 0 \<longleftrightarrow> (\<exists>n. bit (s AND 0x10) n)"
    by (metis bit_0_eq bit_eqI bot_apply bot_bool_def)
  also have "\<dots> \<longleftrightarrow> bit s 4" by (simp only: bit_and_iff bit_up_mask) blast
  finally show ?thesis by (simp add: status_up_def)
qed

text \<open>Both writes change the UP flag and leave every other flag of the word as it is.\<close>

lemma status_up_set [simp]: "status_up (set_status_up s)"
  by (simp add: status_up_bit bit_set_status_up)

lemma status_up_clear [simp]: "\<not> status_up (clear_status_up s)"
  by (simp add: status_up_bit bit_clear_status_up)

lemma set_status_up_id: "status_up s \<Longrightarrow> set_status_up s = s"
  by (rule bit_word_eqI) (auto simp: status_up_bit bit_set_status_up)

lemma clear_status_up_id: "\<not> status_up s \<Longrightarrow> clear_status_up s = s"
  by (rule bit_word_eqI) (auto simp: status_up_bit bit_clear_status_up)

lemma clear_set_status_up [simp]: "clear_status_up (set_status_up s) = clear_status_up s"
  by (rule bit_word_eqI) (auto simp: bit_set_status_up bit_clear_status_up)

lemma status_up_none [simp]: "\<not> status_up HM_HOST_STATUS_NONE"
  by (simp add: status_up_def)

end
