(* ===== verification/HM_IPAddress.thy ===== *)
theory HM_IPAddress
  imports HM_Containers
begin

text \<open>
  \<open>HMIPAddress\<close>: an address is unset, an IPv4 or an IPv6 address. The code keeps a type code
  and a union of the two raw addresses in network byte order and compares raw addresses with
  \<open>memcmp\<close>; on words read in network byte order that is the numeric order. The bytes of the
  union are never read when the type is \<open>AF_UNSPEC\<close>, so the unset address has none. The
  textual forms are those of \<open>inet_pton\<close> and \<open>inet_ntop\<close>, which are parameters.
\<close>

datatype HMIPAddress = UNSPEC | INET "32 word" | INET6 "128 word"

abbreviation (input) "AF_UNSPEC \<equiv> (0 :: u8)"
abbreviation (input) "AF_INET \<equiv> (2 :: u8)"
abbreviation (input) "AF_INET6 \<equiv> (10 :: u8)"

section \<open>Operations\<close>

fun IPAddress_getType :: "HMIPAddress \<Rightarrow> u8" where
  "IPAddress_getType UNSPEC = AF_UNSPEC"
| "IPAddress_getType (INET _) = AF_INET"
| "IPAddress_getType (INET6 _) = AF_INET6"

definition IPAddress_new :: "u8 \<Rightarrow> HMIPAddress" where
  "IPAddress_new type =
     (if type = AF_INET then INET 0 else if type = AF_INET6 then INET6 0 else UNSPEC)"

fun IPAddress_less :: "HMIPAddress \<Rightarrow> HMIPAddress \<Rightarrow> bool" where
  "IPAddress_less (INET a) (INET b) = (a < b)"
| "IPAddress_less (INET6 a) (INET6 b) = (a < b)"
| "IPAddress_less UNSPEC UNSPEC = False"
| "IPAddress_less x y = (IPAddress_getType x < IPAddress_getType y)"

fun IPAddress_eq :: "HMIPAddress \<Rightarrow> HMIPAddress \<Rightarrow> bool" where
  "IPAddress_eq (INET a) (INET b) = (a = b)"
| "IPAddress_eq (INET6 a) (INET6 b) = (a = b)"
| "IPAddress_eq UNSPEC UNSPEC = True"
| "IPAddress_eq x y = False"

text \<open>\<open>set(string)\<close>: the address and the result; a text that neither family accepts unsets it.\<close>

definition IPAddress_set ::
    "(string \<Rightarrow> 32 word option) \<Rightarrow> (string \<Rightarrow> 128 word option) \<Rightarrow> string \<Rightarrow> HMIPAddress \<times> bool" where
  "IPAddress_set pton4 pton6 addr =
     (case pton4 addr of Some a \<Rightarrow> (INET a, True)
      | None \<Rightarrow> (case pton6 addr of Some a \<Rightarrow> (INET6 a, True) | None \<Rightarrow> (UNSPEC, False)))"

definition IPAddress_isSet :: "HMIPAddress \<Rightarrow> bool" where
  "IPAddress_isSet a \<longleftrightarrow> IPAddress_getType a \<noteq> AF_UNSPEC"

fun IPAddress_addr4 :: "HMIPAddress \<Rightarrow> 32 word" where
  "IPAddress_addr4 (INET a) = a"
| "IPAddress_addr4 _ = 0"

fun IPAddress_addr6 :: "HMIPAddress \<Rightarrow> 128 word" where
  "IPAddress_addr6 (INET6 a) = a"
| "IPAddress_addr6 _ = 0"

fun IPAddress_toString ::
    "(32 word \<Rightarrow> string) \<Rightarrow> (128 word \<Rightarrow> string) \<Rightarrow> HMIPAddress \<Rightarrow> string" where
  "IPAddress_toString ntop4 ntop6 (INET a) = ntop4 a"
| "IPAddress_toString ntop4 ntop6 (INET6 a) = ntop6 a"
| "IPAddress_toString ntop4 ntop6 UNSPEC = []"

section \<open>The order of the code is a linear order\<close>

text \<open>
  The comparison operators of the code are the equality and a linear order of the addresses, so
  addresses are keys of the library's ordered containers.
\<close>

lemma IPAddress_eq_iff [simp]: "IPAddress_eq a b \<longleftrightarrow> a = b"
  by (cases "(a, b)" rule: IPAddress_eq.cases) auto

lemma IPAddress_isSet_iff [simp]: "IPAddress_isSet a \<longleftrightarrow> a \<noteq> UNSPEC"
  by (cases a) (simp_all add: IPAddress_isSet_def)

definition addr_key :: "HMIPAddress \<Rightarrow> u8 \<times> 32 word \<times> 128 word" where
  "addr_key a = (IPAddress_getType a, IPAddress_addr4 a, IPAddress_addr6 a)"

lemma addr_key_inj: "addr_key a = addr_key b \<longleftrightarrow> a = b"
  by (cases a; cases b) (simp_all add: addr_key_def)

lemma IPAddress_less_key [hm_orders]: "IPAddress_less a b \<longleftrightarrow> addr_key a < addr_key b"
  by (cases a; cases b) (simp_all add: addr_key_def less_prod_def')

instantiation HMIPAddress :: linorder
begin

definition less_HMIPAddress :: "HMIPAddress \<Rightarrow> HMIPAddress \<Rightarrow> bool" where
  "a < b \<longleftrightarrow> IPAddress_less a b"

definition less_eq_HMIPAddress :: "HMIPAddress \<Rightarrow> HMIPAddress \<Rightarrow> bool" where
  "a \<le> b \<longleftrightarrow> a = b \<or> IPAddress_less a b"

instance
  by standard
    (auto simp: less_HMIPAddress_def less_eq_HMIPAddress_def IPAddress_less_key addr_key_inj
      simp flip: addr_key_inj)

end

interpretation ip_order: key_order IPAddress_less addr_key
  by unfold_locales (rule IPAddress_less_key)

lemma ip_equiv [simp]: "key_equiv IPAddress_less a b \<longleftrightarrow> a = b"
  by (simp add: ip_order.equiv_key addr_key_inj)

end
