(* ===== verification/HM_TimeStamp.thy ===== *)
theory HM_TimeStamp
  imports HM_Prelude
begin

text \<open>
  \<open>HMTimeStamp\<close>: a point in time, in milliseconds since the epoch. The type of the code is a
  signed 64 bit count inside \<open>std::chrono\<close>, whose overflow is undefined behaviour, so it is an
  integer here; what crosses into \<open>uint64_t\<close> (offsets and differences) is a 64 bit word and
  wraps. The clock reading \<open>HMTimeStamp::now()\<close> is an argument of every operation that takes
  one. The two conversions through calendar formats (\<open>print\<close>, \<open>setTime(string, string)\<close>) are
  \<open>strptime\<close> and \<open>put_time\<close> and are not modelled.
\<close>

type_synonym HMTimeStamp = int

definition HOURINMS :: u64 where
  "HOURINMS = 86400000"

text \<open>\<open>std::chrono::milliseconds(offset)\<close> reads the unsigned offset as a signed count.\<close>

definition ts_plus :: "HMTimeStamp \<Rightarrow> u64 \<Rightarrow> HMTimeStamp" where
  "ts_plus ts offset = ts + sint offset"

definition ts_minus :: "HMTimeStamp \<Rightarrow> u64 \<Rightarrow> HMTimeStamp" where
  "ts_minus ts offset = ts - sint offset"

definition ts_diff :: "HMTimeStamp \<Rightarrow> HMTimeStamp \<Rightarrow> u64" where
  "ts_diff ts1 ts2 = word_of_int (ts1 - ts2)"

definition ts_setTime :: "u64 \<Rightarrow> HMTimeStamp" where
  "ts_setTime time = sint time"

definition ts_getTimeSinceEpoch :: "HMTimeStamp \<Rightarrow> u64" where
  "ts_getTimeSinceEpoch ts = word_of_int ts"

text \<open>
  \<open>getTimeout\<close>: the difference is computed unsigned and stored in an \<open>int64_t\<close>; the result is
  the pair of the fields \<open>tv_sec\<close> and \<open>tv_usec\<close>.
\<close>

definition ts_getTimeout :: "HMTimeStamp \<Rightarrow> HMTimeStamp \<Rightarrow> u32 \<times> u32" where
  "ts_getTimeout now ts =
     (let timeout = sint (word_of_int ts - ts_getTimeSinceEpoch now :: u64);
          timeout = (if timeout < 0 then 0 else timeout)
      in (word_of_int (timeout div 1000), word_of_int (timeout mod 1000)))"

text \<open>\<open>std::to_string\<close> of an \<open>int\<close>.\<close>

fun digits :: "nat \<Rightarrow> string" where
  "digits n = (if n < 10 then [char_of (48 + n)] else digits (n div 10) @ [char_of (48 + n mod 10)])"

declare digits.simps [simp del]

definition to_string :: "int \<Rightarrow> string" where
  "to_string i = (if i < 0 then CHR ''-'' # digits (nat (- i)) else digits (nat i))"

text \<open>\<open>int x = t\<close> keeps the low 32 bits of the unsigned quotient.\<close>

definition as_int :: "u64 \<Rightarrow> int" where
  "as_int t = sint (ucast t :: u32)"

definition ts_printTimeSinceNow :: "HMTimeStamp \<Rightarrow> HMTimeStamp \<Rightarrow> string" where
  "ts_printTimeSinceNow now ts =
     (if ts = 0 then ''-''
      else
        let t = ts_diff now ts div 1000;
            days = as_int (t div (24 * 60 * 60));
            t = t - word_of_int (days * (24 * 60 * 60));
            hours = as_int (t div (60 * 60));
            t = t - word_of_int (hours * (60 * 60));
            mins = as_int (t div 60);
            t = t - word_of_int (mins * 60);
            secs = as_int t
        in (if days \<noteq> 0 then to_string days @ ''d:'' @ to_string hours
            else if hours \<noteq> 0 then to_string hours @ ''h:'' @ to_string mins
            else to_string mins @ ''m:'' @ to_string secs))"

section \<open>Lemmas\<close>

lemma sint_word_of_int_self:
  "- (2 ^ 63) \<le> k \<Longrightarrow> k < 2 ^ 63 \<Longrightarrow> sint (word_of_int k :: u64) = k"
  by (simp add: signed_of_int signed_take_bit_int_eq_self)

lemma sint_nonneg_small:
  assumes "unat (x :: u64) < 2 ^ 63"
  shows "sint x = int (unat x)"
proof -
  have "int (unat x) < int (2 ^ 63)" using assms by (simp only: of_nat_less_iff)
  moreover have "- (2 ^ 63) \<le> int (unat x)" by (rule order_trans [of _ 0]) simp_all
  ultimately have "sint (word_of_int (int (unat x)) :: u64) = int (unat x)"
    by (intro sint_word_of_int_self) (simp_all only: of_nat_power of_nat_numeral)
  then show ?thesis by (simp only: of_nat_unat word_of_int_uint)
qed

lemma ts_plus_zero [simp]: "ts_plus ts 0 = ts"
  by (simp add: ts_plus_def)

lemma ts_plus_unat: "unat d < 2 ^ 63 \<Longrightarrow> ts_plus ts d = ts + int (unat d)"
  by (simp add: ts_plus_def sint_nonneg_small)

lemma ts_plus_ge: "unat d < 2 ^ 63 \<Longrightarrow> ts \<le> ts_plus ts d"
  by (simp add: ts_plus_unat)

lemma sint_u32_ucast: "sint (ucast (x :: u32) :: u64) = int (unat x)"
  using sint_nonneg_small [of "ucast x"] less_trans [OF unat_u32_less, of "2 ^ 63" x] by simp

lemma HOURINMS_sint [simp]: "sint HOURINMS = 86400000"
  by (simp add: HOURINMS_def)

lemma ts_diff_unat:
  assumes "b \<le> a" and "a - b < 2 ^ 64"
  shows "unat (ts_diff a b) = nat (a - b)"
proof -
  have "uint (ts_diff a b) = (a - b) mod 2 ^ 64" unfolding ts_diff_def uint_word_of_int by simp
  also have "\<dots> = a - b" using assms by (intro mod_pos_pos_trivial) auto
  finally show ?thesis by (simp add: unat_eq_nat_uint)
qed

lemma ts_diff_roundtrip:
  "b \<le> a \<Longrightarrow> a - b < 2 ^ 63 \<Longrightarrow> ts_plus b (ts_diff a b) = a"
  by (simp add: ts_plus_unat ts_diff_unat)

lemma ts_diff_self [simp]: "ts_diff a a = 0"
  by (simp add: ts_diff_def)

text \<open>A time stamp in the past times out at once; one in the future is split into the quotient
  and the remainder by a thousand.\<close>

lemma ts_getTimeout_int:
  assumes "\<bar>ts - now\<bar> < 2 ^ 63"
  shows "ts_getTimeout now ts =
    (word_of_int (max 0 (ts - now) div 1000), word_of_int (max 0 (ts - now) mod 1000))"
proof -
  have "word_of_int ts - word_of_int now = (word_of_int (ts - now) :: u64)" by simp
  moreover have "sint (word_of_int (ts - now) :: u64) = ts - now"
    using assms by (intro sint_word_of_int_self) auto
  ultimately have "sint (word_of_int ts - word_of_int now :: u64) = ts - now" by (simp only:)
  then show ?thesis by (simp add: ts_getTimeout_def ts_getTimeSinceEpoch_def Let_def max_def)
qed

end
