(* ===== verification/HM_HostCheck.thy ===== *)
theory HM_HostCheck
  imports HM_Containers HM_Constants HM_IPAddress HM_TimeStamp
begin

text \<open>
  \<open>HMDataHostCheck\<close>: what is checked on a host, with its comparison, the comparison
  \<open>CompareCheckList\<close> that keys the check list, the parsing of the check info and the printer. A
  field \<open>m_x\<close> of the class is \<open>hc_x\<close> here; the getters are the fields.
\<close>

record HMDataHostCheck =
  hc_checkType :: HM_CHECK_TYPE
  hc_port :: u16
  hc_dualstack :: HM_DUALSTACK
  hc_checkInfo :: string
  hc_remoteCheck :: string
  hc_distributedFallback :: HM_DISTRIBUTED_FALLBACK
  hc_DNSType :: HM_DNS_TYPE
  hc_checkPlugin :: HM_CHECK_PLUGIN_CLASS
  hc_remoteCheckType :: HM_REMOTE_CHECK_TYPE
  hc_sourceAddress :: HMIPAddress
  hc_TOSValue :: u8
  hc_flowType :: HM_FLOW_TYPE

definition HostCheck_new :: "HM_DNS_TYPE \<Rightarrow> HMDataHostCheck" where
  "HostCheck_new dnsType =
     \<lparr>hc_checkType = HM_CHECK_DEFAULT, hc_port = 0, hc_dualstack = HM_DUALSTACK_IPV4_ONLY,
      hc_checkInfo = [], hc_remoteCheck = [],
      hc_distributedFallback = HM_DISTRIBUTED_FALLBACK_NONE, hc_DNSType = dnsType,
      hc_checkPlugin = HM_CHECK_PLUGIN_DEFAULT, hc_remoteCheckType = HM_REMOTE_CHECK_NONE,
      hc_sourceAddress = UNSPEC, hc_TOSValue = 0, hc_flowType = HM_FLOW_DNS_HEALTH_TYPE\<rparr>"

definition HostCheck_default :: HMDataHostCheck where
  "HostCheck_default = HostCheck_new HM_DNS_TYPE_LOOKUP"

section \<open>Comparison\<close>

definition HostCheck_less :: "HMDataHostCheck \<Rightarrow> HMDataHostCheck \<Rightarrow> bool" where
  "HostCheck_less h k =
     (if hc_checkType h = hc_checkType k then
        (if hc_port h = hc_port k then
           (if hc_dualstack h = hc_dualstack k then
              (if hc_checkInfo h = hc_checkInfo k then
                 (if hc_remoteCheck h = hc_remoteCheck k then
                    (if IPAddress_eq (hc_sourceAddress h) (hc_sourceAddress k) then
                       (if hc_TOSValue h = hc_TOSValue k then
                          (if hc_distributedFallback h = hc_distributedFallback k
                           then flow_type_code (hc_flowType h) < flow_type_code (hc_flowType k)
                           else hc_distributedFallback h < hc_distributedFallback k)
                        else hc_TOSValue h < hc_TOSValue k)
                     else IPAddress_less (hc_sourceAddress h) (hc_sourceAddress k))
                  else hc_remoteCheck h < hc_remoteCheck k)
               else hc_checkInfo h < hc_checkInfo k)
            else hc_dualstack h < hc_dualstack k)
         else hc_port h < hc_port k)
      else check_type_code (hc_checkType h) < check_type_code (hc_checkType k))"

definition HostCheck_eq :: "HMDataHostCheck \<Rightarrow> HMDataHostCheck \<Rightarrow> bool" where
  "HostCheck_eq h k \<longleftrightarrow>
     hc_checkType h = hc_checkType k \<and> hc_port h = hc_port k \<and> hc_dualstack h = hc_dualstack k
     \<and> hc_checkInfo h = hc_checkInfo k \<and> hc_remoteCheck h = hc_remoteCheck k
     \<and> IPAddress_eq (hc_sourceAddress h) (hc_sourceAddress k) \<and> hc_TOSValue h = hc_TOSValue k
     \<and> hc_distributedFallback h = hc_distributedFallback k \<and> hc_flowType h = hc_flowType k"

type_synonym check_key = "string \<times> HMDataHostCheck"

definition CompareCheckList :: "check_key \<Rightarrow> check_key \<Rightarrow> bool" where
  "CompareCheckList lhs rhs =
     (if fst lhs = fst rhs then
        (if HostCheck_eq (snd lhs) (snd rhs)
         then dns_type_code (hc_DNSType (snd lhs)) < dns_type_code (hc_DNSType (snd rhs))
         else HostCheck_less (snd lhs) (snd rhs))
      else fst lhs < fst rhs)"

text \<open>\<open>std::pair\<close> of a name and a check, the key of the remote host cache.\<close>

definition host_check_pair_less :: "check_key \<Rightarrow> check_key \<Rightarrow> bool" where
  "host_check_pair_less lhs rhs \<longleftrightarrow>
     fst lhs < fst rhs \<or> (\<not> fst rhs < fst lhs \<and> HostCheck_less (snd lhs) (snd rhs))"

section \<open>Check info\<close>

text \<open>\<open>std::string::find\<close> from a position, and \<open>substr\<close> within the string.\<close>

function find_from :: "string \<Rightarrow> string \<Rightarrow> nat \<Rightarrow> nat option" where
  "find_from pat s pos =
     (if length s < pos then None
      else if take (length pat) (drop pos s) = pat then Some pos
      else if length s \<le> pos then None
      else find_from pat s (Suc pos))"
  by pat_completeness auto

termination find_from
  by (relation "measure (\<lambda>(pat, s, pos). length s - pos)") auto

declare find_from.simps [simp del]

datatype std_exception = out_of_range | invalid_argument

definition substr :: "string \<Rightarrow> nat \<Rightarrow> nat option \<Rightarrow> std_exception + string" where
  "substr s pos len =
     (if length s < pos then Inl out_of_range
      else Inr (case len of None \<Rightarrow> drop pos s | Some n \<Rightarrow> take n (drop pos s)))"

text \<open>\<open>std::stoi\<close>: leading white space, a sign, decimal digits; what follows is ignored.\<close>

definition is_digit :: "char \<Rightarrow> bool" where
  "is_digit c \<longleftrightarrow> 48 \<le> (of_char c :: nat) \<and> (of_char c :: nat) \<le> 57"

definition is_space :: "char \<Rightarrow> bool" where
  "is_space c \<longleftrightarrow> (of_char c :: nat) = 32 \<or> (9 \<le> (of_char c :: nat) \<and> (of_char c :: nat) \<le> 13)"

definition stoi :: "string \<Rightarrow> std_exception + int" where
  "stoi s =
     (let s = dropWhile is_space s;
          neg = (s \<noteq> [] \<and> hd s = CHR ''-'');
          s = (if s \<noteq> [] \<and> (hd s = CHR ''-'' \<or> hd s = CHR ''+'') then tl s else s);
          ds = takeWhile is_digit s;
          n = foldl (\<lambda>n c. 10 * n + (of_char c - 48)) 0 ds;
          i = (if neg then - n else n)
      in if ds = [] then Inl invalid_argument
         else if i < - (2 ^ 31) \<or> 2 ^ 31 \<le> i then Inl out_of_range
         else Inr i)"

text \<open>
  \<open>parseCheckInfo\<close>: the \<open>Host:\<close> header, and the two reference arguments, the port and the host of
  the check info (\<open>cih\<close> is the value the caller passed, which the first two branches keep).
\<close>

definition HostCheck_parseCheckInfo ::
    "HMDataHostCheck \<Rightarrow> string \<Rightarrow> string \<Rightarrow> std_exception + (string \<times> u32 \<times> string)" where
  "HostCheck_parseCheckInfo h host cih =
     (let port = ucast (hc_port h) :: u32;
          ct = hc_checkType h;
          portText = digits (unat port)
      in if find_from ''<host>'' (hc_checkInfo h) 0 \<noteq> None then
           (if port \<noteq> 443 \<and> ct \<noteq> HM_CHECK_HTTP \<and> ct \<noteq> HM_CHECK_AUX_HTTP
            then Inr (''Host: '' @ host @ '':'' @ portText, port, cih)
            else Inr (''Host: '' @ host, port, cih))
         else if find_from ''<host:port>'' (hc_checkInfo h) 0 \<noteq> None then
           Inr (''Host: '' @ host @ '':'' @ portText, port, cih)
         else
           (case substr (hc_checkInfo h) 2 (map_option (\<lambda>i. i - 2) (find_from ''/'' (hc_checkInfo h) 2)) of
              Inl e \<Rightarrow> Inl e
            | Inr cih \<Rightarrow>
                let portindex = find_from '':'' cih 0
                in if portindex = None \<and> port \<noteq> 443 \<and> ct \<noteq> HM_CHECK_HTTP \<and> ct \<noteq> HM_CHECK_AUX_HTTP
                      \<and> ct \<noteq> HM_CHECK_MARK_HTTP
                   then Inr (''Host: '' @ cih @ '':'' @ portText, port, cih)
                   else if ct \<noteq> HM_CHECK_HTTP \<and> ct \<noteq> HM_CHECK_AUX_HTTP \<and> ct \<noteq> HM_CHECK_MARK_HTTP then
                     (case portindex of
                        None \<Rightarrow> Inr (''Host: '' @ cih, port, cih)
                      | Some i \<Rightarrow>
                          if drop (i + 1) cih \<noteq> portText then
                            (case stoi (drop (i + 1) cih) of
                               Inl e \<Rightarrow> Inl e
                             | Inr n \<Rightarrow> Inr (''Host: '' @ cih, word_of_int n, take i cih))
                          else Inr (''Host: '' @ cih, port, take i cih))
                   else Inr (''Host: '' @ cih, port, cih)))"

definition HostCheck_printEntry :: "HMDataHostCheck \<Rightarrow> char \<Rightarrow> bool \<Rightarrow> string" where
  "HostCheck_printEntry h delim label =
     (if label then ''Check Type: '' else []) @ printCheckType (hc_checkType h) @ [delim]
     @ ''Check Info: '' @ hc_checkInfo h @ [delim] @ ''Port: '' @ digits (unat (hc_port h)) @ [delim]
     @ ''Dual Stack: ''
     @ (if hc_dualstack h = HM_DUALSTACK_UNDEFINED \<or> hc_dualstack h = HM_DUALSTACK_IPV4_ONLY
        then ''ipv4-only''
        else if hc_dualstack h = HM_DUALSTACK_BOTH then ''both''
        else if hc_dualstack h = HM_DUALSTACK_IPV6_ONLY then ''ipv6-only''
        else [])"

definition HostCheck_setRemoteCheck :: "string \<Rightarrow> HMDataHostCheck \<Rightarrow> HMDataHostCheck" where
  "HostCheck_setRemoteCheck remoteCheck h = h\<lparr>hc_remoteCheck := remoteCheck\<rparr>"

section \<open>Orders\<close>

definition host_check_key where
  "host_check_key h =
     (check_type_code (hc_checkType h), hc_port h, hc_dualstack h, hc_checkInfo h,
      hc_remoteCheck h, hc_sourceAddress h, hc_TOSValue h, hc_distributedFallback h,
      flow_type_code (hc_flowType h))"

definition check_list_key where
  "check_list_key k =
     (fst k, host_check_key (snd k), dns_type_code (hc_DNSType (snd k)))"

lemma HostCheck_eq_key: "HostCheck_eq h k \<longleftrightarrow> host_check_key h = host_check_key k"
  by (auto simp: HostCheck_eq_def host_check_key_def)

lemma HostCheck_less_key [hm_orders]:
  "HostCheck_less h k \<longleftrightarrow> host_check_key h < host_check_key k"
  by (simp add: HostCheck_less_def host_check_key_def less_prod_def' flip: less_HMIPAddress_def)

lemma CompareCheckList_key [hm_orders]:
  "CompareCheckList l r \<longleftrightarrow> check_list_key l < check_list_key r"
  by (auto simp: CompareCheckList_def check_list_key_def HostCheck_eq_key HostCheck_less_key
      less_prod_def')

lemma host_check_pair_less_key [hm_orders]:
  "host_check_pair_less l r \<longleftrightarrow> (fst l, host_check_key (snd l)) < (fst r, host_check_key (snd r))"
  by (auto simp: host_check_pair_less_def HostCheck_less_key less_prod_def')

interpretation host_check_order: key_order HostCheck_less host_check_key
  by unfold_locales (rule HostCheck_less_key)

interpretation check_list_order: key_order CompareCheckList check_list_key
  by unfold_locales (rule CompareCheckList_key)

interpretation host_pair_order: key_order host_check_pair_less "\<lambda>k. (fst k, host_check_key (snd k))"
  by unfold_locales (rule host_check_pair_less_key)

text \<open>
  \<open>CompareCheckList\<close>, the comparison that keys the check list, is a strict weak order, as
  \<open>std::multimap\<close> requires, and two keys are equivalent for it exactly when the host names are
  equal, the checks are equal for \<open>operator==\<close> and the DNS types are equal. The check plugin and
  the remote check type are not part of the key.
\<close>

theorem CompareCheckList_strict_weak_order:
  "weak_order CompareCheckList \<and>
   (key_equiv CompareCheckList l r \<longleftrightarrow>
      fst l = fst r \<and> HostCheck_eq (snd l) (snd r) \<and> hc_DNSType (snd l) = hc_DNSType (snd r))"
  using check_list_order.weak_order_axioms
  by (simp add: check_list_order.equiv_key check_list_key_def HostCheck_eq_key)

lemma check_list_equiv:
  "key_equiv CompareCheckList l r \<longleftrightarrow>
     fst l = fst r \<and> HostCheck_eq (snd l) (snd r) \<and> hc_DNSType (snd l) = hc_DNSType (snd r)"
  by (simp add: check_list_order.equiv_key check_list_key_def HostCheck_eq_key)

end
