(* ===== verification/HM_CheckResult.thy ===== *)
theory HM_CheckResult
  imports HM_Constants HM_TimeStamp HM_IPAddress
begin

text \<open>
  \<open>HMDataCheckResult\<close>: what the daemon knows about one check of one address, with its two
  constructors, its equality and its stored form. A field \<open>m_x\<close> of the class is \<open>cr_x\<close> here.
  The constructors leave \<open>m_softReason\<close> uninitialised; the model gives it \<open>HM_REASON_NONE\<close>.
  The stored form is the C struct the code lays over the buffer, with its members as fields; its
  size is the one of the x86-64 ABI.
\<close>

record HMDataCheckResult =
  cr_address :: HMIPAddress
  cr_start :: HMTimeStamp
  cr_end :: HMTimeStamp
  cr_responseTime :: u32
  cr_totalResponseTime :: u32
  cr_minResponseTime :: u32
  cr_maxResponseTime :: u32
  cr_smoothedResponseTime :: u32
  cr_sumResponseTime :: u64
  cr_numChecks :: u32
  cr_numResponses :: u32
  cr_numConnectFailures :: u32
  cr_numFailures :: u32
  cr_numTimeouts :: u32
  cr_numFlaps :: u32
  cr_status :: HM_HOST_STATUS
  cr_softStatus :: HM_HOST_STATUS
  cr_flapStatus :: HM_HOST_STATUS
  cr_response :: HM_RESPONSE
  cr_reason :: HM_REASON
  cr_softReason :: HM_REASON
  cr_numFailedChecks :: u8
  cr_numSlowResponses :: u8
  cr_port :: u16
  cr_changeTime :: HMTimeStamp
  cr_flapTime :: HMTimeStamp
  cr_forceHostDown :: bool
  cr_queueCheckTime :: HMTimeStamp
  cr_checkTime :: HMTimeStamp
  cr_queryState :: HM_WORK_STATE
  cr_remoteCheckTime :: HMTimeStamp
  cr_statusChanged :: bool

text \<open>The constructor with a check timeout; the default constructor is the one with 0.\<close>

definition CheckResult_new :: "u64 \<Rightarrow> HMDataCheckResult" where
  "CheckResult_new checkTimeout =
     \<lparr>cr_address = UNSPEC, cr_start = 0, cr_end = 0,
      cr_responseTime = ucast checkTimeout, cr_totalResponseTime = ucast checkTimeout,
      cr_minResponseTime = ucast checkTimeout, cr_maxResponseTime = ucast checkTimeout,
      cr_smoothedResponseTime = ucast checkTimeout, cr_sumResponseTime = 0,
      cr_numChecks = 0, cr_numResponses = 0, cr_numConnectFailures = 0, cr_numFailures = 0,
      cr_numTimeouts = 0, cr_numFlaps = 0,
      cr_status = HM_HOST_STATUS_NONE, cr_softStatus = HM_HOST_STATUS_NONE,
      cr_flapStatus = HM_HOST_STATUS_NONE, cr_response = HM_RESPONSE_NONE,
      cr_reason = HM_REASON_NONE, cr_softReason = HM_REASON_NONE,
      cr_numFailedChecks = 0, cr_numSlowResponses = 0, cr_port = 0,
      cr_changeTime = 0, cr_flapTime = 0, cr_forceHostDown = False,
      cr_queueCheckTime = 0, cr_checkTime = 0, cr_queryState = HM_CHECK_INACTIVE,
      cr_remoteCheckTime = 0, cr_statusChanged = False\<rparr>"

definition CheckResult_default :: HMDataCheckResult where
  "CheckResult_default = CheckResult_new 0"

definition CheckResult_eq :: "HMDataCheckResult \<Rightarrow> HMDataCheckResult \<Rightarrow> bool" where
  "CheckResult_eq r k \<longleftrightarrow>
     IPAddress_eq (cr_address r) (cr_address k) \<and> cr_start r = cr_start k \<and> cr_end r = cr_end k
     \<and> cr_responseTime r = cr_responseTime k \<and> cr_totalResponseTime r = cr_totalResponseTime k
     \<and> cr_minResponseTime r = cr_minResponseTime k \<and> cr_maxResponseTime r = cr_maxResponseTime k
     \<and> cr_smoothedResponseTime r = cr_smoothedResponseTime k
     \<and> cr_sumResponseTime r = cr_sumResponseTime k
     \<and> cr_numChecks r = cr_numChecks k \<and> cr_numResponses r = cr_numResponses k
     \<and> cr_numConnectFailures r = cr_numConnectFailures k
     \<and> cr_numFailures r = cr_numFailures k \<and> cr_numTimeouts r = cr_numTimeouts k
     \<and> cr_numFlaps r = cr_numFlaps k \<and> cr_status r = cr_status k
     \<and> cr_response r = cr_response k \<and> cr_reason r = cr_reason k
     \<and> cr_numFailedChecks r = cr_numFailedChecks k
     \<and> cr_numSlowResponses r = cr_numSlowResponses k \<and> cr_port r = cr_port k
     \<and> cr_changeTime r = cr_changeTime k \<and> cr_flapTime r = cr_flapTime k
     \<and> cr_queueCheckTime r = cr_queueCheckTime k \<and> cr_checkTime r = cr_checkTime k
     \<and> cr_queryState r = cr_queryState k"

section \<open>Stored form\<close>

record CheckResult_SerStruct =
  crs_address :: HMIPAddress
  crs_start :: u64
  crs_end :: u64
  crs_responseTime :: u32
  crs_totalResponseTime :: u32
  crs_minResponseTime :: u32
  crs_maxResponseTime :: u32
  crs_smoothedResponseTime :: u32
  crs_sumResponseTime :: u64
  crs_numChecks :: u32
  crs_numResponses :: u32
  crs_numConnectFailures :: u32
  crs_numFailures :: u32
  crs_numTimeouts :: u32
  crs_numFlaps :: u32
  crs_status :: u16
  crs_response :: u8
  crs_reason :: u8
  crs_softReason :: u8
  crs_numFailedChecks :: u8
  crs_numSlowResponses :: u8
  crs_port :: u16
  crs_changeTime :: u64
  crs_prevTime :: u64
  crs_forceHostDown :: bool
  crs_queueCheckTime :: u64
  crs_checkTime :: u64
  crs_remoteCheckTime :: u64

definition CheckResult_sizeof :: u32 where
  "CheckResult_sizeof = 160"

text \<open>A buffer is \<open>None\<close> for the null pointer, otherwise the struct laid over it.\<close>

definition CheckResult_serialize ::
    "HMDataCheckResult \<Rightarrow> CheckResult_SerStruct option \<Rightarrow> u32 \<Rightarrow> CheckResult_SerStruct option \<times> u32" where
  "CheckResult_serialize r buf sz =
     (if buf = None \<or> sz < CheckResult_sizeof then (buf, CheckResult_sizeof)
      else
        (Some \<lparr>crs_address = cr_address r, crs_start = ts_getTimeSinceEpoch (cr_start r),
           crs_end = ts_getTimeSinceEpoch (cr_end r),
           crs_responseTime = cr_responseTime r, crs_totalResponseTime = cr_totalResponseTime r,
           crs_minResponseTime = cr_minResponseTime r, crs_maxResponseTime = cr_maxResponseTime r,
           crs_smoothedResponseTime = cr_smoothedResponseTime r,
           crs_sumResponseTime = cr_sumResponseTime r, crs_numChecks = cr_numChecks r,
           crs_numResponses = cr_numResponses r,
           crs_numConnectFailures = cr_numConnectFailures r,
           crs_numFailures = cr_numFailures r, crs_numTimeouts = cr_numTimeouts r,
           crs_numFlaps = cr_numFlaps r, crs_status = cr_status r,
           crs_response = response_code (cr_response r), crs_reason = reason_code (cr_reason r),
           crs_softReason = reason_code (cr_softReason r),
           crs_numFailedChecks = cr_numFailedChecks r,
           crs_numSlowResponses = cr_numSlowResponses r, crs_port = cr_port r,
           crs_changeTime = ts_getTimeSinceEpoch (cr_changeTime r),
           crs_prevTime = ts_getTimeSinceEpoch (cr_flapTime r),
           crs_forceHostDown = cr_forceHostDown r,
           crs_queueCheckTime = ts_getTimeSinceEpoch (cr_queueCheckTime r),
           crs_checkTime = ts_getTimeSinceEpoch (cr_checkTime r),
           crs_remoteCheckTime = ts_getTimeSinceEpoch (cr_remoteCheckTime r)\<rparr>,
         CheckResult_sizeof))"

text \<open>The members the stored form does not have keep the value they had in the object.\<close>

definition CheckResult_deserialize ::
    "HMDataCheckResult \<Rightarrow> CheckResult_SerStruct option \<Rightarrow> u32 \<Rightarrow> HMDataCheckResult \<times> bool" where
  "CheckResult_deserialize r buf sz =
     (case buf of None \<Rightarrow> (r, False)
      | Some p \<Rightarrow>
          if sz < CheckResult_sizeof then (r, False)
          else
            (r\<lparr>cr_address := crs_address p, cr_start := ts_setTime (crs_start p),
               cr_end := ts_setTime (crs_end p), cr_responseTime := crs_responseTime p,
               cr_totalResponseTime := crs_totalResponseTime p,
               cr_minResponseTime := crs_minResponseTime p,
               cr_maxResponseTime := crs_maxResponseTime p,
               cr_smoothedResponseTime := crs_smoothedResponseTime p,
               cr_sumResponseTime := crs_sumResponseTime p, cr_numChecks := crs_numChecks p,
               cr_numResponses := crs_numResponses p,
               cr_numConnectFailures := crs_numConnectFailures p,
               cr_numFailures := crs_numFailures p, cr_numTimeouts := crs_numTimeouts p,
               cr_numFlaps := crs_numFlaps p, cr_status := crs_status p,
               cr_response := response_of_code (crs_response p),
               cr_reason := reason_of_code (crs_reason p),
               cr_softReason := reason_of_code (crs_softReason p),
               cr_numFailedChecks := crs_numFailedChecks p,
               cr_numSlowResponses := crs_numSlowResponses p, cr_port := crs_port p,
               cr_changeTime := ts_setTime (crs_changeTime p),
               cr_flapTime := ts_setTime (crs_prevTime p),
               cr_forceHostDown := crs_forceHostDown p,
               cr_queueCheckTime := ts_setTime (crs_queueCheckTime p),
               cr_checkTime := ts_setTime (crs_checkTime p),
               cr_remoteCheckTime := ts_setTime (crs_remoteCheckTime p)\<rparr>, True))"

section \<open>Round trip\<close>

text \<open>A result is storable when its time stamps are in the range of the signed 64 bit clock and
  its two enumerations hold values of their byte.\<close>

definition ts_ok :: "HMTimeStamp \<Rightarrow> bool" where
  "ts_ok t \<longleftrightarrow> - (2 ^ 63) \<le> t \<and> t < 2 ^ 63"

definition CheckResult_storable :: "HMDataCheckResult \<Rightarrow> bool" where
  "CheckResult_storable r \<longleftrightarrow>
     list_all ts_ok [cr_start r, cr_end r, cr_changeTime r, cr_flapTime r, cr_queueCheckTime r,
       cr_checkTime r, cr_remoteCheckTime r]
     \<and> response_ok (cr_response r) \<and> reason_ok (cr_reason r) \<and> reason_ok (cr_softReason r)"

lemma ts_roundtrip: "ts_ok t \<Longrightarrow> ts_setTime (ts_getTimeSinceEpoch t) = t"
  by (simp add: ts_ok_def ts_setTime_def ts_getTimeSinceEpoch_def sint_word_of_int_self)

text \<open>
  A check result that is stored in a large enough buffer and read back into an object is the
  result that was stored, except for the soft status, the flap status, the query state and the
  status-changed flag, which the stored form does not have and which the object keeps.
\<close>

lemma CheckResult_roundtrip:
  assumes "CheckResult_storable r" and "CheckResult_sizeof \<le> sz"
  shows "CheckResult_deserialize r' (fst (CheckResult_serialize r (Some b) sz)) sz =
    (r\<lparr>cr_softStatus := cr_softStatus r', cr_flapStatus := cr_flapStatus r',
       cr_queryState := cr_queryState r', cr_statusChanged := cr_statusChanged r'\<rparr>, True)"
  using assms
  by (cases r; cases r')
    (simp add: CheckResult_deserialize_def CheckResult_serialize_def CheckResult_storable_def
      ts_roundtrip response_of_code_code reason_of_code_code leD)

definition sample_result :: HMDataCheckResult where
  "sample_result = (CheckResult_new 7)
     \<lparr>cr_address := INET 0x7F000001, cr_start := 1000, cr_end := 1010, cr_numChecks := 3,
      cr_status := HM_HOST_STATUS_UP, cr_reason := HM_REASON_SUCCESS\<rparr>"

lemma CheckResult_roundtrip_witness:
  "\<forall>b. CheckResult_deserialize CheckResult_default
     (fst (CheckResult_serialize sample_result (Some b) 200)) 200 = (sample_result, True)"
  using CheckResult_roundtrip [of sample_result 200 CheckResult_default]
  by (simp add: sample_result_def CheckResult_storable_def CheckResult_new_def ts_ok_def
      CheckResult_default_def CheckResult_sizeof_def)

end
