(* ===== verification/HM_CheckParams.thy ===== *)
theory HM_CheckParams
  imports HM_Containers HM_CheckResult
begin

text \<open>
  \<open>HMDataCheckParams\<close>: the parameters of a check (retries, thresholds, timeouts) and the result
  kept for every address it is made on. A field \<open>m_x\<close> of the class is \<open>cp_x\<close> here. Every method
  runs under the lock of the object, so each is one state-passing function; the clock readings a
  method takes are its first arguments. Host names are only logged and are left out.

  After the operations come the order of the parameters, the retry machine that \<open>updateCheck\<close>
  implements, the smoothing of response times, the schedule, and the invariant of the object.
\<close>

section \<open>State\<close>

record HMDataCheckParams =
  cp_numCheckRetries :: u8
  cp_checkRetryDelay :: u32
  cp_measurementOptions :: u16
  cp_smoothingWindow :: u32
  cp_groupThreshold :: u32
  cp_slowThreshold :: u32
  cp_maxFlaps :: u32
  cp_checkTimeout :: u64
  cp_checkTTL :: u64
  cp_flapThreshold :: u32
  cp_passthroughInfo :: u32
  cp_checkData :: "(HMIPAddress \<times> HMDataCheckResult) list"
  cp_hostGroups :: "string list"

definition CheckParams_default :: HMDataCheckParams where
  "CheckParams_default =
     \<lparr>cp_numCheckRetries = 0, cp_checkRetryDelay = 0, cp_measurementOptions = HM_RT_CONNECT,
      cp_smoothingWindow = HM_DEFAULT_SMOOTHING_WINDOW,
      cp_groupThreshold = HM_DEFAULT_GROUP_THRESHOLD,
      cp_slowThreshold = HM_DEFAULT_SLOW_THRESHOLD, cp_maxFlaps = HM_DEFAULT_MAX_FLAPS,
      cp_checkTimeout = HM_DEFAULT_CHECK_TIMEOUT, cp_checkTTL = HM_DEFAULT_TTL,
      cp_flapThreshold = HM_DEFAULT_FLAP_THRESHOLD, cp_passthroughInfo = 0,
      cp_checkData = [], cp_hostGroups = []\<rparr>"

text \<open>The copy constructor copies the parameters; the results and the host groups start empty.\<close>

definition CheckParams_copy :: "HMDataCheckParams \<Rightarrow> HMDataCheckParams" where
  "CheckParams_copy k = k\<lparr>cp_checkData := [], cp_hostGroups := []\<rparr>"

text \<open>The assignment copies the parameters and leaves the results and host groups of the target.\<close>

definition CheckParams_assign :: "HMDataCheckParams \<Rightarrow> HMDataCheckParams \<Rightarrow> HMDataCheckParams" where
  "CheckParams_assign p k =
     k\<lparr>cp_checkData := cp_checkData p, cp_hostGroups := cp_hostGroups p\<rparr>"

section \<open>Comparison\<close>

definition CheckParams_less :: "HMDataCheckParams \<Rightarrow> HMDataCheckParams \<Rightarrow> bool" where
  "CheckParams_less p k =
     (if cp_numCheckRetries p \<noteq> cp_numCheckRetries k
      then cp_numCheckRetries p < cp_numCheckRetries k
      else if cp_checkRetryDelay p \<noteq> cp_checkRetryDelay k
      then cp_checkRetryDelay p < cp_checkRetryDelay k
      else if cp_measurementOptions p \<noteq> cp_measurementOptions k
      then cp_measurementOptions p < cp_measurementOptions k
      else if cp_smoothingWindow p \<noteq> cp_smoothingWindow k
      then cp_smoothingWindow p < cp_smoothingWindow k
      else if cp_groupThreshold p \<noteq> cp_groupThreshold k
      then cp_groupThreshold p < cp_groupThreshold k
      else if cp_slowThreshold p \<noteq> cp_slowThreshold k
      then cp_slowThreshold p < cp_slowThreshold k
      else if cp_maxFlaps p \<noteq> cp_maxFlaps k then cp_maxFlaps p < cp_maxFlaps k
      else if cp_checkTimeout p \<noteq> cp_checkTimeout k then cp_checkTimeout p < cp_checkTimeout k
      else if cp_checkTTL p \<noteq> cp_checkTTL k then cp_checkTTL p < cp_checkTTL k
      else if cp_flapThreshold p \<noteq> cp_flapThreshold k
      then cp_flapThreshold p < cp_flapThreshold k
      else cp_passthroughInfo p < cp_passthroughInfo k)"

definition CheckParams_eq :: "HMDataCheckParams \<Rightarrow> HMDataCheckParams \<Rightarrow> bool" where
  "CheckParams_eq p k \<longleftrightarrow>
     cp_numCheckRetries p = cp_numCheckRetries k \<and> cp_checkRetryDelay p = cp_checkRetryDelay k
     \<and> cp_measurementOptions p = cp_measurementOptions k
     \<and> cp_smoothingWindow p = cp_smoothingWindow k \<and> cp_groupThreshold p = cp_groupThreshold k
     \<and> cp_slowThreshold p = cp_slowThreshold k \<and> cp_maxFlaps p = cp_maxFlaps k
     \<and> cp_checkTimeout p = cp_checkTimeout k \<and> cp_checkTTL p = cp_checkTTL k
     \<and> cp_flapThreshold p = cp_flapThreshold k \<and> cp_passthroughInfo p = cp_passthroughInfo k"

definition CheckParams_neq :: "HMDataCheckParams \<Rightarrow> HMDataCheckParams \<Rightarrow> bool" where
  "CheckParams_neq p k \<longleftrightarrow> \<not> CheckParams_eq p k"

section \<open>Operations\<close>

definition CheckParams_setCheckParameters ::
    "u8 \<Rightarrow> u32 \<Rightarrow> u16 \<Rightarrow> u32 \<Rightarrow> u32 \<Rightarrow> u32 \<Rightarrow> u32 \<Rightarrow> u64 \<Rightarrow> u64 \<Rightarrow> u32 \<Rightarrow> u32 \<Rightarrow>
     HMDataCheckParams \<Rightarrow> HMDataCheckParams" where
  "CheckParams_setCheckParameters numCheckRetries checkRetryDelay measurementOptions
     smoothingWindow groupThreshold slowThreshold maxFlaps checkTimeout checkTTL flapThreshold
     passthroughInfo p =
     p\<lparr>cp_numCheckRetries := numCheckRetries, cp_checkRetryDelay := checkRetryDelay,
       cp_measurementOptions := measurementOptions,
       cp_smoothingWindow :=
         (if smoothingWindow = 0 then HM_DEFAULT_SMOOTHING_WINDOW else smoothingWindow),
       cp_groupThreshold := groupThreshold, cp_slowThreshold := slowThreshold,
       cp_maxFlaps := maxFlaps, cp_checkTimeout := checkTimeout, cp_checkTTL := checkTTL,
       cp_flapThreshold := flapThreshold, cp_passthroughInfo := passthroughInfo\<rparr>"

abbreviation data_find :: "HMIPAddress \<Rightarrow> HMDataCheckParams \<Rightarrow> HMDataCheckResult option" where
  "data_find a p \<equiv> smap_find IPAddress_less a (cp_checkData p)"

definition data_adjust ::
    "HMIPAddress \<Rightarrow> (HMDataCheckResult \<Rightarrow> HMDataCheckResult) \<Rightarrow> HMDataCheckParams \<Rightarrow> HMDataCheckParams"
  where "data_adjust a f p = p\<lparr>cp_checkData := smap_adjust IPAddress_less a f (cp_checkData p)\<rparr>"

definition CheckParams_setHostStatus ::
    "HMIPAddress \<Rightarrow> bool \<Rightarrow> HMDataCheckParams \<Rightarrow> HMDataCheckParams" where
  "CheckParams_setHostStatus address forceHostStatus p =
     (if IPAddress_isSet address
      then data_adjust address (\<lambda>r. r\<lparr>cr_forceHostDown := forceHostStatus\<rparr>) p
      else p\<lparr>cp_checkData :=
        map (\<lambda>(a, r). (a, r\<lparr>cr_forceHostDown := forceHostStatus\<rparr>)) (cp_checkData p)\<rparr>)"

definition CheckParams_nextCheckTime ::
    "HMTimeStamp \<Rightarrow> HMIPAddress \<Rightarrow> HMDataCheckParams \<Rightarrow> HMTimeStamp" where
  "CheckParams_nextCheckTime now address p =
     (case data_find address p of None \<Rightarrow> now
      | Some r \<Rightarrow>
          if cr_queryState r = HM_CHECK_INACTIVE \<or> cr_queryState r = HM_CHECK_FAILED then
            (if ts_plus (cr_checkTime r) (cp_checkTTL p) < now then now
             else if 0 < cr_numSlowResponses r
                \<or> (\<not> status_up (cr_softStatus r) \<and> status_up (cr_status r)
                   \<and> cr_numFailedChecks r \<le> cp_numCheckRetries p)
             then ts_plus (cr_checkTime r) (ucast (cp_checkRetryDelay p))
             else ts_plus (cr_checkTime r) (cp_checkTTL p))
          else ts_plus now HOURINMS)"

text \<open>\<open>checkNeeded\<close> reads the clock once inside \<open>nextCheckTime\<close> and once after it.\<close>

definition CheckParams_checkNeeded ::
    "HMTimeStamp \<Rightarrow> HMTimeStamp \<Rightarrow> HMIPAddress \<Rightarrow> HMDataCheckParams \<Rightarrow> bool" where
  "CheckParams_checkNeeded now1 now2 address p \<longleftrightarrow> CheckParams_nextCheckTime now1 address p \<le> now2"

definition CheckParams_getCheckTimeout ::
    "HMTimeStamp \<Rightarrow> HMIPAddress \<Rightarrow> HMDataCheckParams \<Rightarrow> HMTimeStamp" where
  "CheckParams_getCheckTimeout now address p = ts_plus now (cp_checkTTL p)"

text \<open>\<open>find\<close>, and \<open>insert\<close> of a fresh result when there is none, before a write to the entry.\<close>

definition data_touch ::
    "HMIPAddress \<Rightarrow> (HMDataCheckResult \<Rightarrow> HMDataCheckResult) \<Rightarrow> HMDataCheckParams \<Rightarrow> HMDataCheckParams"
  where
  "data_touch address f p =
     data_adjust address f
       (case data_find address p of
          None \<Rightarrow> p\<lparr>cp_checkData :=
            smap_insert IPAddress_less address (CheckResult_new (cp_checkTimeout p)) (cp_checkData p)\<rparr>
        | Some _ \<Rightarrow> p)"

definition CheckParams_queueQuerry :: "HMIPAddress \<Rightarrow> HMDataCheckParams \<Rightarrow> HMDataCheckParams" where
  "CheckParams_queueQuerry address p =
     data_touch address (\<lambda>r. r\<lparr>cr_queryState := HM_CHECK_QUEUED\<rparr>) p"

definition CheckParams_emptyQuery :: "HMIPAddress \<Rightarrow> HMDataCheckParams \<Rightarrow> HMDataCheckParams" where
  "CheckParams_emptyQuery address p =
     data_touch address (\<lambda>r. r\<lparr>cr_queryState := HM_CHECK_INACTIVE\<rparr>) p"

definition CheckParams_startQuery ::
    "HMTimeStamp \<Rightarrow> HMIPAddress \<Rightarrow> HMDataCheckParams \<Rightarrow> HMDataCheckParams" where
  "CheckParams_startQuery now address p =
     (case data_find address p of None \<Rightarrow> p
      | Some _ \<Rightarrow>
          data_adjust address
            (\<lambda>r. r\<lparr>cr_checkTime := now, cr_queryState := HM_CHECK_IN_PROGRESS\<rparr>) p)"

definition CheckParams_isValidIP :: "HMIPAddress \<Rightarrow> HMDataCheckParams \<Rightarrow> bool" where
  "CheckParams_isValidIP address p \<longleftrightarrow> data_find address p \<noteq> None"

text \<open>\<open>updateCheck\<close> with a result that was stored or received from another daemon.\<close>

definition CheckParams_updateCheckResult ::
    "HMIPAddress \<Rightarrow> HMDataCheckResult \<Rightarrow> bool \<Rightarrow> HMDataCheckParams \<Rightarrow> HMDataCheckParams" where
  "CheckParams_updateCheckResult address result forceReplace p =
     (case data_find address p of
        None \<Rightarrow> p\<lparr>cp_checkData := smap_insert IPAddress_less address result (cp_checkData p)\<rparr>
      | Some r \<Rightarrow>
          if forceReplace \<or> cr_checkTime r < cr_checkTime result
          then p\<lparr>cp_checkData := smap_insert IPAddress_less address result
                   (smap_erase IPAddress_less address (cp_checkData p))\<rparr>
          else p)"

subsection \<open>\<open>setResponse\<close>\<close>

text \<open>
  The response times are 64 bit; the fields they are stored in, the product of the smoothing and
  the sum of the slow test are 32 bit and wrap.
\<close>

definition response_time ::
    "HMDataCheckParams \<Rightarrow> HMTimeStamp \<Rightarrow> HMTimeStamp \<Rightarrow> HMTimeStamp \<Rightarrow> u64" where
  "response_time p now start end' =
     (let rtmode = ucast (cp_measurementOptions p AND HM_RT_BITS) :: u8
      in if rtmode = ucast HM_RT_CONNECT \<or> rtmode = ucast HM_RT_SMOOTHED_CONNECT
         then ts_diff end' start else ts_diff now start)"

definition smoothed_time :: "HMDataCheckParams \<Rightarrow> u32 \<Rightarrow> u64 \<Rightarrow> u64" where
  "smoothed_time p smoothed srt =
     (if smoothed \<noteq> 0
      then (srt + ucast (smoothed * (cp_smoothingWindow p - 1))) div ucast (cp_smoothingWindow p)
      else srt)"

definition CheckParams_setResponse ::
    "HMDataCheckParams \<Rightarrow> HMTimeStamp \<Rightarrow> HMTimeStamp \<Rightarrow> HMTimeStamp \<Rightarrow>
     HMDataCheckResult \<Rightarrow> HMDataCheckResult" where
  "CheckParams_setResponse p now start end' r =
     (let rt = ts_diff end' start;
          totrt = ts_diff now start;
          srt = response_time p now start end'
      in if srt < cp_checkTimeout p then
        (let r = (if cr_numResponses r = 0
                  then r\<lparr>cr_smoothedResponseTime := 0, cr_maxResponseTime := ucast rt\<rparr> else r);
             srt = smoothed_time p (cr_smoothedResponseTime r) srt;
             r = r\<lparr>cr_reason := HM_REASON_SUCCESS, cr_numResponses := cr_numResponses r + 1,
                   cr_sumResponseTime := cr_sumResponseTime r + rt\<rparr>;
             r = (if cr_minResponseTime r = 0 \<or> rt < ucast (cr_minResponseTime r)
                  then r\<lparr>cr_minResponseTime := ucast rt\<rparr> else r);
             r = (if ucast (cr_maxResponseTime r) < rt
                  then r\<lparr>cr_maxResponseTime := ucast rt\<rparr> else r);
             slowThreshold = (if cp_slowThreshold p < cp_groupThreshold p
                              then cp_groupThreshold p else cp_slowThreshold p);
             slow = (0 < cp_numCheckRetries p \<and> cr_smoothedResponseTime r \<noteq> 0
                     \<and> ucast (cr_smoothedResponseTime r + slowThreshold) \<le> rt);
             r = (if slow then r\<lparr>cr_numSlowResponses := cr_numSlowResponses r + 1\<rparr> else r);
             r = (if slow \<and> cr_numSlowResponses r \<le> cp_numCheckRetries p then r
                  else r\<lparr>cr_numSlowResponses := 0, cr_totalResponseTime := ucast totrt,
                         cr_responseTime := ucast rt, cr_smoothedResponseTime := ucast srt\<rparr>)
         in r\<lparr>cr_softStatus := set_status_up (cr_softStatus r)\<rparr>)
         else r\<lparr>cr_reason := HM_REASON_RESPONSE_TIMEOUT\<rparr>)"

subsection \<open>\<open>updateCheck\<close> with the outcome of a check\<close>

definition updateCheck_head ::
    "HMIPAddress \<Rightarrow> HM_RESPONSE \<Rightarrow> HM_REASON \<Rightarrow> HMTimeStamp \<Rightarrow> HMTimeStamp \<Rightarrow> u16 \<Rightarrow>
     HMDataCheckResult \<Rightarrow> HMDataCheckResult" where
  "updateCheck_head address response reason start end' port r =
     (let r = (if reason \<noteq> HM_REASON_REMOTE_NODATA
               then r\<lparr>cr_softStatus := clear_status_up (cr_softStatus r)\<rparr> else r)
      in r\<lparr>cr_statusChanged := False, cr_address := address, cr_response := response,
           cr_reason := reason, cr_start := start, cr_end := end', cr_port := port,
           cr_queryState := HM_CHECK_INACTIVE\<rparr>)"

definition updateCheck_count ::
    "HMDataCheckParams \<Rightarrow> HMTimeStamp \<Rightarrow> HMTimeStamp \<Rightarrow> HM_RESPONSE \<Rightarrow> HM_REASON \<Rightarrow> HMTimeStamp \<Rightarrow>
     HMTimeStamp \<Rightarrow> HMDataCheckResult \<Rightarrow> HMDataCheckResult" where
  "updateCheck_count p now1 now2 response reason start end' r =
     (let r = r\<lparr>cr_numChecks := cr_numChecks r + 1, cr_checkTime := now1, cr_reason := reason\<rparr>;
          r = (if response = HM_RESPONSE_CONNECTED then
                 (let r = (if reason = HM_REASON_SUCCESS
                           then CheckParams_setResponse p now2 start end' r else r)
                  in if cr_reason r \<noteq> HM_REASON_SUCCESS
                     then r\<lparr>cr_numFailures := cr_numFailures r + 1\<rparr> else r)
               else if reason = HM_REASON_CONNECT_FAILURE
               then r\<lparr>cr_numConnectFailures := cr_numConnectFailures r + 1\<rparr>
               else if reason = HM_REASON_RESPONSE_FAILURE
               then r\<lparr>cr_numFailures := cr_numFailures r + 1\<rparr>
               else if reason = HM_REASON_CONNECT_TIMEOUT
               then r\<lparr>cr_numTimeouts := cr_numTimeouts r + 1\<rparr>
               else if reason = HM_REASON_INTERNAL_ERROR
               then r\<lparr>cr_numConnectFailures := cr_numConnectFailures r + 1\<rparr>
               else if reason = HM_REASON_REMOTE_NODATA
               then r\<lparr>cr_numConnectFailures := cr_numConnectFailures r + 1\<rparr>
               else r)
      in r\<lparr>cr_softReason := cr_reason r\<rparr>)"

definition updateCheck_retry :: "HMDataCheckParams \<Rightarrow> HMDataCheckResult \<Rightarrow> HMDataCheckResult" where
  "updateCheck_retry p r =
     (let r = r\<lparr>cr_remoteCheckTime := ts_setTime 0\<rparr>;
          r = (if status_up (cr_status r) \<and> \<not> status_up (cr_softStatus r) then
                 (let r = r\<lparr>cr_numFailedChecks := cr_numFailedChecks r + 1\<rparr>
                  in if cr_numFailedChecks r \<le> cp_numCheckRetries p
                     then r\<lparr>cr_reason := HM_REASON_SUCCESS\<rparr> else r)
               else r);
          r = (if status_up (cr_softStatus r)
               then r\<lparr>cr_status := set_status_up (cr_status r)\<rparr> else r);
          r = (if \<not> status_up (cr_status r) \<and> status_up (cr_softStatus r) \<and> 0 < cr_numFailedChecks r
               then r\<lparr>cr_numFailedChecks := 0\<rparr> else r)
      in if cp_numCheckRetries p < cr_numFailedChecks r
         then r\<lparr>cr_status := clear_status_up (cr_status r), cr_numFailedChecks := 0\<rparr> else r)"

definition updateCheck_flap ::
    "HMDataCheckParams \<Rightarrow> HMTimeStamp \<Rightarrow> HMDataCheckResult \<Rightarrow> HMDataCheckResult" where
  "updateCheck_flap p start r =
     (let flap = (if cp_flapThreshold p \<noteq> 0 then ucast (cp_flapThreshold p)
                  else ucast HM_DEFAULT_FLAP_THRESHOLD) :: u64;
          r = (if status_up (cr_softStatus r) \<noteq> status_up (cr_flapStatus r) then
                 (let r = (if ts_diff start (cr_flapTime r) < flap
                           then r\<lparr>cr_numFlaps := cr_numFlaps r + 1\<rparr>
                           else r\<lparr>cr_numFlaps := 0\<rparr>);
                      r = (if cr_numFlaps r \<le> cp_maxFlaps p + 1
                           then r\<lparr>cr_statusChanged := True\<rparr> else r);
                      r = r\<lparr>cr_flapTime := start, cr_changeTime := start\<rparr>
                  in if cp_numCheckRetries p < cr_numFailedChecks r
                     then r\<lparr>cr_status := clear_status_up (cr_status r), cr_numFailedChecks := 0\<rparr>
                     else r)
               else if flap \<le> ts_diff start (cr_flapTime r) then r\<lparr>cr_numFlaps := 0\<rparr>
               else r)
      in r\<lparr>cr_flapStatus := cr_softStatus r\<rparr>)"

definition updateCheck_result ::
    "HMDataCheckParams \<Rightarrow> HMTimeStamp \<Rightarrow> HMTimeStamp \<Rightarrow> HMIPAddress \<Rightarrow> HM_RESPONSE \<Rightarrow> HM_REASON \<Rightarrow>
     HMTimeStamp \<Rightarrow> HMTimeStamp \<Rightarrow> u16 \<Rightarrow> HMDataCheckResult \<Rightarrow> HMDataCheckResult" where
  "updateCheck_result p now1 now2 address response reason start end' port r =
     (let r = updateCheck_head address response reason start end' port r
      in if response = HM_RESPONSE_DNS_FAILED then r\<lparr>cr_checkTime := start\<rparr>
         else
           let r = updateCheck_count p now1 now2 response reason start end' r
           in if reason = HM_REASON_REMOTE_NODATA then r
              else updateCheck_flap p start (updateCheck_retry p r))"

definition CheckParams_updateCheck ::
    "HMTimeStamp \<Rightarrow> HMTimeStamp \<Rightarrow> HMIPAddress \<Rightarrow> HM_RESPONSE \<Rightarrow> HM_REASON \<Rightarrow> HMTimeStamp \<Rightarrow>
     HMTimeStamp \<Rightarrow> u16 \<Rightarrow> HMDataCheckParams \<Rightarrow> HMDataCheckParams" where
  "CheckParams_updateCheck now1 now2 address response reason start end' port p =
     (case data_find address p of None \<Rightarrow> p
      | Some _ \<Rightarrow>
          data_adjust address
            (updateCheck_result p now1 now2 address response reason start end' port) p)"

subsection \<open>Queries\<close>

text \<open>\<open>invalidateResult\<close>: the removed result, or \<open>None\<close> when the method returns \<open>false\<close>.\<close>

definition CheckParams_invalidateResult ::
    "HMIPAddress \<Rightarrow> HMDataCheckParams \<Rightarrow> HMDataCheckParams \<times> HMDataCheckResult option" where
  "CheckParams_invalidateResult address p =
     (case data_find address p of None \<Rightarrow> (p, None)
      | Some r \<Rightarrow>
          (p\<lparr>cp_checkData := smap_erase IPAddress_less address (cp_checkData p)\<rparr>, Some r))"

definition CheckParams_getCheckResult ::
    "HMIPAddress \<Rightarrow> HMDataCheckParams \<Rightarrow> HMDataCheckResult option" where
  "CheckParams_getCheckResult address p = data_find address p"

text \<open>A \<open>std::set\<close> of addresses is the sorted list of its elements.\<close>

definition addresses_of ::
    "HM_DUALSTACK \<Rightarrow> (HMIPAddress \<times> 'r) list \<Rightarrow> HMIPAddress list \<Rightarrow> HMIPAddress list" where
  "addresses_of dualstack m addresses =
     fold (\<lambda>(a, r) s.
         let s = (if dualstack AND HM_DUALSTACK_IPV6_ONLY \<noteq> 0 \<and> IPAddress_getType a = AF_INET6
                  then insort_insert a s else s)
         in if dualstack AND HM_DUALSTACK_IPV4_ONLY \<noteq> 0 \<and> IPAddress_getType a = AF_INET
            then insort_insert a s else s)
       m addresses"

definition CheckParams_getAddresses ::
    "HM_DUALSTACK \<Rightarrow> HMIPAddress list \<Rightarrow> HMDataCheckParams \<Rightarrow> HMIPAddress list \<times> bool" where
  "CheckParams_getAddresses dualstack addresses p =
     (let addresses = addresses_of dualstack (cp_checkData p) addresses
      in (addresses, 0 < length addresses))"

definition CheckParams_getCheckTime :: "HMIPAddress \<Rightarrow> HMDataCheckParams \<Rightarrow> HMTimeStamp" where
  "CheckParams_getCheckTime address p =
     (case data_find address p of None \<Rightarrow> 0 | Some r \<Rightarrow> cr_checkTime r)"

definition CheckParams_printEntry :: "HMDataCheckParams \<Rightarrow> string" where
  "CheckParams_printEntry p =
     ''Check Timeout: '' @ digits (unat (cp_checkTimeout p))
     @ [CHR 0x0A] @ ''Check TTL:'' @ digits (unat (cp_checkTTL p))
     @ [CHR 0x0A] @ ''Number Check Retries: '' @ digits (unat (cp_numCheckRetries p))
     @ [CHR 0x0A] @ ''Check Retry Delay: '' @ digits (unat (cp_checkRetryDelay p))
     @ [CHR 0x0A] @ ''Measurement Options: '' @ printMeasurementOptions (cp_measurementOptions p)
     @ [CHR 0x0A] @ ''Smoothing Window: '' @ digits (unat (cp_smoothingWindow p))
     @ [CHR 0x0A] @ ''Group Threshold: '' @ digits (unat (cp_groupThreshold p))
     @ [CHR 0x0A] @ ''Slow Threshold: '' @ digits (unat (cp_slowThreshold p))
     @ [CHR 0x0A] @ ''Max Flaps: '' @ digits (unat (cp_maxFlaps p)) @ [CHR 0x0A]"

definition CheckParams_printHostGroups :: "HMDataCheckParams \<Rightarrow> string" where
  "CheckParams_printHostGroups p =
     foldl (\<lambda>hostGroups g. if hostGroups = [] then g else hostGroups @ '','' @ g) []
       (cp_hostGroups p)"

text \<open>\<open>getHostGroups\<close> into a vector, and into a set of names (a sorted list).\<close>

definition CheckParams_getHostGroups :: "HMDataCheckParams \<Rightarrow> string list" where
  "CheckParams_getHostGroups p = cp_hostGroups p"

definition CheckParams_getHostGroupsSet :: "string list \<Rightarrow> HMDataCheckParams \<Rightarrow> string list" where
  "CheckParams_getHostGroupsSet hostGroups p = fold insort_insert (cp_hostGroups p) hostGroups"

definition CheckParams_addHostGroup :: "string \<Rightarrow> HMDataCheckParams \<Rightarrow> HMDataCheckParams" where
  "CheckParams_addHostGroup name p = p\<lparr>cp_hostGroups := cp_hostGroups p @ [name]\<rparr>"

definition CheckParams_getQueryState :: "HMIPAddress \<Rightarrow> HMDataCheckParams \<Rightarrow> HM_WORK_STATE" where
  "CheckParams_getQueryState address p =
     (case data_find address p of None \<Rightarrow> HM_CHECK_INACTIVE | Some r \<Rightarrow> cr_queryState r)"

section \<open>Order of the parameters\<close>

definition params_key where
  "params_key p =
     (cp_numCheckRetries p, cp_checkRetryDelay p, cp_measurementOptions p, cp_smoothingWindow p,
      cp_groupThreshold p, cp_slowThreshold p, cp_maxFlaps p, cp_checkTimeout p, cp_checkTTL p,
      cp_flapThreshold p, cp_passthroughInfo p)"

lemma CheckParams_less_key [hm_orders]:
  "CheckParams_less p k \<longleftrightarrow> params_key p < params_key k"
  by (auto simp: CheckParams_less_def params_key_def less_prod_def')

interpretation params_order: key_order CheckParams_less params_key
  by unfold_locales (rule CheckParams_less_key)

lemma CheckParams_eq_key: "CheckParams_eq p k \<longleftrightarrow> params_key p = params_key k"
  by (simp add: CheckParams_eq_def params_key_def)

section \<open>The results of an object\<close>

lemma data_find_adjust:
  "data_find a (data_adjust b f p) =
     (if a = b then map_option f (data_find a p) else data_find a p)"
  by (simp add: data_adjust_def ip_order.find_adjust_other)

lemma data_find_touch:
  "map_sorted IPAddress_less (cp_checkData p) \<Longrightarrow>
     data_find a (data_touch b f p) =
     (if a = b then Some (f (case data_find a p of None \<Rightarrow> CheckResult_new (cp_checkTimeout p)
                             | Some r \<Rightarrow> r))
      else data_find a p)"
  by (auto simp: data_touch_def data_find_adjust ip_order.find_insert_same
      ip_order.find_insert_other split: option.split)

lemma data_adjust_more [simp]:
  "params_key (data_adjust a f p) = params_key p"
  "cp_hostGroups (data_adjust a f p) = cp_hostGroups p"
  "cp_numCheckRetries (data_adjust a f p) = cp_numCheckRetries p"
  by (simp_all add: data_adjust_def params_key_def)

lemma updateCheck_params [simp]:
  "cp_numCheckRetries (CheckParams_updateCheck now1 now2 a response reason start end' port p) =
     cp_numCheckRetries p"
  "params_key (CheckParams_updateCheck now1 now2 a response reason start end' port p) = params_key p"
  by (simp_all add: CheckParams_updateCheck_def split: option.split)

lemma updateCheck_find:
  "data_find b (CheckParams_updateCheck now1 now2 a response reason start end' port p) =
     (if b = a then
        map_option (updateCheck_result p now1 now2 a response reason start end' port) (data_find a p)
      else data_find b p)"
  by (auto simp: CheckParams_updateCheck_def data_find_adjust split: option.split)

section \<open>The retry machine\<close>

text \<open>
  What a check result shows of a host: whether it is up, and how many failed checks have been
  counted since it was last marked down.
\<close>

definition retry_abs :: "HMDataCheckResult \<Rightarrow> bool \<times> nat" where
  "retry_abs r = (status_up (cr_status r), unat (cr_numFailedChecks r))"

text \<open>
  The machine: a success marks the host up; a failure of a host that is up is counted, and the
  host is marked down when the count passes the number of retries.
\<close>

fun retry_step :: "nat \<Rightarrow> bool \<Rightarrow> bool \<times> nat \<Rightarrow> bool \<times> nat" where
  "retry_step n True (up, f) = (True, f)"
| "retry_step n False (True, f) = (if f + 1 \<le> n then (True, f + 1) else (False, 0))"
| "retry_step n False (False, f) = (False, f)"

text \<open>A check succeeds when it connected, its reason is success and it answered in time.\<close>

definition check_ok ::
    "HMDataCheckParams \<Rightarrow> HMTimeStamp \<Rightarrow> HM_RESPONSE \<Rightarrow> HM_REASON \<Rightarrow> HMTimeStamp \<Rightarrow> HMTimeStamp \<Rightarrow> bool"
  where
  "check_ok p now2 response reason start end' \<longleftrightarrow>
     response = HM_RESPONSE_CONNECTED \<and> reason = HM_REASON_SUCCESS
     \<and> response_time p now2 start end' < cp_checkTimeout p"

lemma setResponse_fields [simp]:
  "cr_status (CheckParams_setResponse p now start end' r) = cr_status r"
  "cr_numFailedChecks (CheckParams_setResponse p now start end' r) = cr_numFailedChecks r"
  "cr_flapStatus (CheckParams_setResponse p now start end' r) = cr_flapStatus r"
  "cr_checkTime (CheckParams_setResponse p now start end' r) = cr_checkTime r"
  "cr_queryState (CheckParams_setResponse p now start end' r) = cr_queryState r"
  by (simp_all add: CheckParams_setResponse_def Let_def)

lemma setResponse_softStatus [simp]:
  "cr_softStatus (CheckParams_setResponse p now start end' r) =
     (if response_time p now start end' < cp_checkTimeout p then set_status_up (cr_softStatus r)
      else cr_softStatus r)"
  by (simp add: CheckParams_setResponse_def Let_def)

lemma head_fields [simp]:
  "cr_status (updateCheck_head a response reason start end' port r) = cr_status r"
  "cr_numFailedChecks (updateCheck_head a response reason start end' port r) = cr_numFailedChecks r"
  "cr_flapStatus (updateCheck_head a response reason start end' port r) = cr_flapStatus r"
  "cr_softStatus (updateCheck_head a response reason start end' port r) =
     (if reason \<noteq> HM_REASON_REMOTE_NODATA then clear_status_up (cr_softStatus r)
      else cr_softStatus r)"
  "cr_queryState (updateCheck_head a response reason start end' port r) = HM_CHECK_INACTIVE"
  by (simp_all add: updateCheck_head_def Let_def)

lemma count_fields [simp]:
  "cr_status (updateCheck_count p now1 now2 response reason start end' r) = cr_status r"
  "cr_numFailedChecks (updateCheck_count p now1 now2 response reason start end' r) =
     cr_numFailedChecks r"
  "cr_flapStatus (updateCheck_count p now1 now2 response reason start end' r) = cr_flapStatus r"
  "cr_checkTime (updateCheck_count p now1 now2 response reason start end' r) = now1"
  "cr_queryState (updateCheck_count p now1 now2 response reason start end' r) = cr_queryState r"
  "cr_softStatus (updateCheck_count p now1 now2 response reason start end' r) =
     (if check_ok p now2 response reason start end' then set_status_up (cr_softStatus r)
      else cr_softStatus r)"
  by (simp_all add: updateCheck_count_def Let_def check_ok_def)

lemma retry_fields [simp]:
  "cr_softStatus (updateCheck_retry p r) = cr_softStatus r"
  "cr_checkTime (updateCheck_retry p r) = cr_checkTime r"
  "cr_queryState (updateCheck_retry p r) = cr_queryState r"
  "cr_numSlowResponses (updateCheck_retry p r) = cr_numSlowResponses r"
  by (simp_all add: updateCheck_retry_def Let_def)

lemma retry_refines:
  assumes "cp_numCheckRetries p < 255" and "cr_numFailedChecks r \<le> cp_numCheckRetries p"
  shows "retry_abs (updateCheck_retry p r) =
    retry_step (unat (cp_numCheckRetries p)) (status_up (cr_softStatus r)) (retry_abs r)"
proof -
  have "cr_numFailedChecks r < 255" using assms by (rule le_less_trans [rotated])
  then have suc: "unat (cr_numFailedChecks r + 1) = Suc (unat (cr_numFailedChecks r))"
    by (rule unat_Suc_word)
  show ?thesis
    using assms(2) suc
    by (cases "status_up (cr_status r)"; cases "status_up (cr_softStatus r)")
      (auto simp: updateCheck_retry_def Let_def retry_abs_def word_less_iff_unat word_le_iff_unat)
qed

lemma retry_bound:
  "cr_numFailedChecks (updateCheck_retry p r) \<le> cp_numCheckRetries p"
  by (auto simp: updateCheck_retry_def Let_def)

lemma flap_fields [simp]:
  "cr_softStatus (updateCheck_flap p start r) = cr_softStatus r"
  "cr_flapStatus (updateCheck_flap p start r) = cr_softStatus r"
  "cr_checkTime (updateCheck_flap p start r) = cr_checkTime r"
  "cr_queryState (updateCheck_flap p start r) = cr_queryState r"
  "cr_numSlowResponses (updateCheck_flap p start r) = cr_numSlowResponses r"
  by (simp_all add: updateCheck_flap_def Let_def)

text \<open>Past the retry stage the counter never exceeds the retries, so the second test of the
  counter, in the flap stage, never marks a host down.\<close>

lemma flap_keeps:
  assumes "cr_numFailedChecks r \<le> cp_numCheckRetries p"
  shows "cr_status (updateCheck_flap p start r) = cr_status r"
    and "cr_numFailedChecks (updateCheck_flap p start r) = cr_numFailedChecks r"
  using assms by (simp_all add: updateCheck_flap_def Let_def leD)

lemma result_retry:
  assumes "response \<noteq> HM_RESPONSE_DNS_FAILED" and "reason \<noteq> HM_REASON_REMOTE_NODATA"
  defines "r1 \<equiv> \<lambda>p now1 now2 a start end' port r. updateCheck_count p now1 now2 response reason start end'
      (updateCheck_head a response reason start end' port r)"
  shows "cr_status (updateCheck_result p now1 now2 a response reason start end' port r) =
      cr_status (updateCheck_retry p (r1 p now1 now2 a start end' port r))"
    and "cr_numFailedChecks (updateCheck_result p now1 now2 a response reason start end' port r) =
      cr_numFailedChecks (updateCheck_retry p (r1 p now1 now2 a start end' port r))"
  using assms(1,2) flap_keeps [OF retry_bound]
  by (simp_all add: updateCheck_result_def r1_def Let_def)

lemma result_refines:
  assumes "response \<noteq> HM_RESPONSE_DNS_FAILED" and "reason \<noteq> HM_REASON_REMOTE_NODATA"
    and "cp_numCheckRetries p < 255" and "cr_numFailedChecks r \<le> cp_numCheckRetries p"
  shows "retry_abs (updateCheck_result p now1 now2 a response reason start end' port r) =
    retry_step (unat (cp_numCheckRetries p)) (check_ok p now2 response reason start end')
      (retry_abs r)"
proof -
  let ?r = "updateCheck_count p now1 now2 response reason start end'
      (updateCheck_head a response reason start end' port r)"
  have "retry_abs (updateCheck_result p now1 now2 a response reason start end' port r) =
      retry_abs (updateCheck_retry p ?r)"
    using result_retry [OF assms(1,2)] by (simp add: retry_abs_def)
  also have "\<dots> = retry_step (unat (cp_numCheckRetries p)) (status_up (cr_softStatus ?r))
      (retry_abs ?r)"
    using assms(3,4) by (intro retry_refines) simp_all
  finally show ?thesis using assms(2) by (simp add: retry_abs_def)
qed

lemma result_bound:
  assumes "cr_numFailedChecks r \<le> cp_numCheckRetries p"
  shows "cr_numFailedChecks (updateCheck_result p now1 now2 a response reason start end' port r)
    \<le> cp_numCheckRetries p"
  using assms retry_bound
  by (auto simp: updateCheck_result_def Let_def flap_keeps(2) [OF retry_bound])

subsection \<open>Sequences of checks\<close>

record check_outcome =
  co_now1 :: HMTimeStamp
  co_now2 :: HMTimeStamp
  co_response :: HM_RESPONSE
  co_reason :: HM_REASON
  co_start :: HMTimeStamp
  co_end :: HMTimeStamp
  co_port :: u16

definition update_with :: "HMIPAddress \<Rightarrow> check_outcome \<Rightarrow> HMDataCheckParams \<Rightarrow> HMDataCheckParams" where
  "update_with a c p =
     CheckParams_updateCheck (co_now1 c) (co_now2 c) a (co_response c) (co_reason c) (co_start c)
       (co_end c) (co_port c) p"

text \<open>A failed name lookup and a remote check without data say nothing about the host.\<close>

definition conclusive :: "check_outcome \<Rightarrow> bool" where
  "conclusive c \<longleftrightarrow>
     co_response c \<noteq> HM_RESPONSE_DNS_FAILED \<and> co_reason c \<noteq> HM_REASON_REMOTE_NODATA"

definition outcome_ok :: "HMDataCheckParams \<Rightarrow> check_outcome \<Rightarrow> bool" where
  "outcome_ok p c \<longleftrightarrow>
     check_ok p (co_now2 c) (co_response c) (co_reason c) (co_start c) (co_end c)"

definition retry_outcome :: "HMDataCheckParams \<Rightarrow> check_outcome \<Rightarrow> bool \<times> nat \<Rightarrow> bool \<times> nat" where
  "retry_outcome p c s =
     (if conclusive c then retry_step (unat (cp_numCheckRetries p)) (outcome_ok p c) s else s)"

lemma result_inconclusive:
  "response = HM_RESPONSE_DNS_FAILED \<or> reason = HM_REASON_REMOTE_NODATA \<Longrightarrow>
     retry_abs (updateCheck_result p now1 now2 a response reason start end' port r) = retry_abs r"
  by (auto simp: updateCheck_result_def Let_def retry_abs_def)

lemma outcome_ok_params: "params_key p = params_key k \<Longrightarrow> outcome_ok p = outcome_ok k"
  by (rule ext) (simp add: outcome_ok_def check_ok_def response_time_def params_key_def)

lemma retry_outcome_params: "params_key p = params_key k \<Longrightarrow> retry_outcome p = retry_outcome k"
  using outcome_ok_params [of p k] by (intro ext) (simp add: retry_outcome_def params_key_def)

lemma update_with_params [simp]:
  "params_key (update_with a c p) = params_key p"
  "cp_numCheckRetries (update_with a c p) = cp_numCheckRetries p"
  by (simp_all add: update_with_def)

lemma update_with_refines:
  assumes "data_find a p = Some r" and "cp_numCheckRetries p < 255"
    and "cr_numFailedChecks r \<le> cp_numCheckRetries p"
  obtains r' where "data_find a (update_with a c p) = Some r'"
    and "retry_abs r' = retry_outcome p c (retry_abs r)"
    and "cr_numFailedChecks r' \<le> cp_numCheckRetries p"
proof
  let ?r = "updateCheck_result p (co_now1 c) (co_now2 c) a (co_response c) (co_reason c)
      (co_start c) (co_end c) (co_port c) r"
  show "data_find a (update_with a c p) = Some ?r"
    using assms(1) by (simp add: update_with_def updateCheck_find)
  show "retry_abs ?r = retry_outcome p c (retry_abs r)"
    using assms result_refines [of "co_response c" "co_reason c" p r] result_inconclusive
    by (simp add: retry_outcome_def conclusive_def outcome_ok_def)
  show "cr_numFailedChecks ?r \<le> cp_numCheckRetries p"
    using assms(3) by (rule result_bound)
qed

lemma run_refines:
  assumes "data_find a p = Some r" and "cp_numCheckRetries p < 255"
    and "cr_numFailedChecks r \<le> cp_numCheckRetries p"
  shows "\<exists>r'. data_find a (fold (update_with a) cs p) = Some r'
    \<and> retry_abs r' = fold (retry_outcome p) cs (retry_abs r)"
  using assms
proof (induction cs arbitrary: p r)
  case (Cons c cs)
  obtain r' where r': "data_find a (update_with a c p) = Some r'"
    "retry_abs r' = retry_outcome p c (retry_abs r)"
    "cr_numFailedChecks r' \<le> cp_numCheckRetries p"
    using Cons.prems by (rule update_with_refines)
  have "retry_outcome (update_with a c p) = retry_outcome p"
    by (rule retry_outcome_params) simp
  then show ?case using Cons.IH [OF r'(1)] Cons.prems(2) r'(2,3) by simp
qed simp

definition failures :: "HMDataCheckParams \<Rightarrow> check_outcome list \<Rightarrow> nat" where
  "failures p cs = length (filter (\<lambda>c. conclusive c \<and> \<not> outcome_ok p c) cs)"

lemma retry_outcomes_up:
  "f + failures p cs \<le> unat (cp_numCheckRetries p) \<Longrightarrow>
     fold (retry_outcome p) cs (True, f) = (True, f + failures p cs)"
  by (induction cs arbitrary: f) (auto simp: retry_outcome_def failures_def)

section \<open>Properties of \<open>updateCheck\<close>\<close>

text \<open>
  C1: \<open>updateCheck\<close> implements the retry machine. For every sequence of check outcomes on an
  address that has a result, the status and the failure counter of the result are those of the
  machine that marks a host up on a success, counts a failure of a host that is up, marks the
  host down when the count passes the configured retries, and ignores outcomes that say nothing
  about the host. The number of retries is below 255 and the counter starts within it.
\<close>

theorem updateCheck_refines_retry_machine:
  assumes "CheckParams_getCheckResult a p = Some r" and "cp_numCheckRetries p < 255"
    and "cr_numFailedChecks r \<le> cp_numCheckRetries p"
  shows "\<exists>r'. CheckParams_getCheckResult a (fold (update_with a) cs p) = Some r'
    \<and> retry_abs r' = fold (retry_outcome p) cs (retry_abs r)"
  using assms run_refines by (simp add: CheckParams_getCheckResult_def)

text \<open>
  C2: a host that is up with no failure counted stays up as long as the failures of the sequence
  are no more than the retries, and the next failed check marks it down and resets the counter.
  Only the number of failures matters: successful checks between them do not reset the count.
\<close>

theorem host_down_after_retries:
  assumes "CheckParams_getCheckResult a p = Some r" and "cp_numCheckRetries p < 255"
    and "retry_abs r = (True, 0)" and "failures p cs \<le> unat (cp_numCheckRetries p)"
    and "conclusive c" and "\<not> outcome_ok p c"
  shows "\<exists>r' r''. CheckParams_getCheckResult a (fold (update_with a) cs p) = Some r'
    \<and> status_up (cr_status r') \<and> unat (cr_numFailedChecks r') = failures p cs
    \<and> CheckParams_getCheckResult a (fold (update_with a) (cs @ [c]) p) = Some r''
    \<and> (status_up (cr_status r'') \<longleftrightarrow> failures p cs < unat (cp_numCheckRetries p))
    \<and> (failures p cs = unat (cp_numCheckRetries p) \<longrightarrow> cr_numFailedChecks r'' = 0)"
proof -
  have start: "cr_numFailedChecks r \<le> cp_numCheckRetries p"
    using assms(3) by (simp add: retry_abs_def word_le_iff_unat)
  have find: "data_find a p = Some r" using assms(1) by (simp add: CheckParams_getCheckResult_def)
  obtain r' r'' where r': "data_find a (fold (update_with a) cs p) = Some r'"
      "retry_abs r' = fold (retry_outcome p) cs (retry_abs r)"
    and r'': "data_find a (fold (update_with a) (cs @ [c]) p) = Some r''"
      "retry_abs r'' = fold (retry_outcome p) (cs @ [c]) (retry_abs r)"
    using run_refines [OF find assms(2) start] by blast
  have "retry_abs r' = (True, failures p cs)"
    using r'(2) assms(3,4) retry_outcomes_up [of 0 p cs] by simp
  moreover have "retry_abs r'' =
      (if failures p cs < unat (cp_numCheckRetries p) then (True, failures p cs + 1) else (False, 0))"
    using r''(2) assms(3-6) retry_outcomes_up [of 0 p cs] by (simp add: retry_outcome_def)
  ultimately show ?thesis
    using r'(1) r''(1)
    by (auto simp: CheckParams_getCheckResult_def retry_abs_def unat_eq_zero split: if_splits)
qed

text \<open>
  C4: with 255 retries the 8 bit failure counter cannot pass the limit: it wraps to zero, and a
  host that is up is never marked down, whatever its checks report.
\<close>

theorem host_never_down_with_255_retries:
  assumes "CheckParams_getCheckResult a p = Some r" and "cp_numCheckRetries p = 255"
    and "status_up (cr_status r)"
  shows "\<exists>r'. CheckParams_getCheckResult a (fold (update_with a) cs p) = Some r'
    \<and> status_up (cr_status r')"
  using assms
proof (induction cs arbitrary: p r)
  case (Cons c cs)
  let ?r = "updateCheck_result p (co_now1 c) (co_now2 c) a (co_response c) (co_reason c)
      (co_start c) (co_end c) (co_port c) r"
  have max: "\<not> cp_numCheckRetries p < x" for x
    using Cons.prems(2) unat_u8_less [of x] by (simp add: word_less_iff_unat)
  have find: "CheckParams_getCheckResult a (update_with a c p) = Some ?r"
    using Cons.prems(1) by (simp add: CheckParams_getCheckResult_def update_with_def updateCheck_find)
  have "status_up (cr_status ?r)"
    using Cons.prems(3) max
    by (simp add: updateCheck_result_def updateCheck_flap_def updateCheck_retry_def Let_def)
  then show ?case using Cons.IH [OF find] Cons.prems(2) by simp
qed simp

text \<open>
  C3: flapping does not decide the status of a host: the status and the failure counter after an
  outcome are the same for every flap limit and every flap threshold, and for every number of
  flaps counted before.
\<close>

theorem status_independent_of_flaps:
  "retry_abs (updateCheck_result (p\<lparr>cp_maxFlaps := m, cp_flapThreshold := t\<rparr>)
       now1 now2 a response reason start end' port (r\<lparr>cr_numFlaps := n, cr_flapTime := f\<rparr>)) =
   retry_abs (updateCheck_result p now1 now2 a response reason start end' port r)"
proof -
  let ?p = "p\<lparr>cp_maxFlaps := m, cp_flapThreshold := t\<rparr>"
  let ?r = "r\<lparr>cr_numFlaps := n, cr_flapTime := f\<rparr>"
  have ok: "check_ok ?p now2 response reason start end' = check_ok p now2 response reason start end'"
    by (simp add: check_ok_def response_time_def)
  show ?thesis
  proof (cases "response = HM_RESPONSE_DNS_FAILED \<or> reason = HM_REASON_REMOTE_NODATA")
    case True
    then show ?thesis by (simp only: result_inconclusive) (simp add: retry_abs_def)
  next
    case False
    let ?c = "\<lambda>p r. updateCheck_count p now1 now2 response reason start end'
      (updateCheck_head a response reason start end' port r)"
    have "retry_abs (updateCheck_retry p x) = retry_abs (updateCheck_retry q y)"
      if "cp_numCheckRetries p = cp_numCheckRetries q" "cr_status x = cr_status y"
        "cr_softStatus x = cr_softStatus y" "cr_numFailedChecks x = cr_numFailedChecks y" for p q x y
      using that by (simp add: updateCheck_retry_def Let_def retry_abs_def)
    from this [of ?p p "?c ?p ?r" "?c p r"] show ?thesis
      using False ok by (simp add: retry_abs_def result_retry)
  qed
qed

text \<open>
  A stored result whose failure counter is above the configured retries (the retries were
  lowered since it was stored) marks the host down at its first conclusive check, even when that
  check succeeds.
\<close>

theorem stale_counter_marks_down:
  assumes "CheckParams_getCheckResult a p = Some r" and "conclusive c"
    and "cp_numCheckRetries p < cr_numFailedChecks r" and "outcome_ok p c"
  shows "\<exists>r'. CheckParams_getCheckResult a (update_with a c p) = Some r'
    \<and> \<not> status_up (cr_status r') \<and> cr_numFailedChecks r' = 0"
  using assms result_retry [of "co_response c" "co_reason c" p]
  by (auto simp: CheckParams_getCheckResult_def update_with_def updateCheck_find conclusive_def
      outcome_ok_def updateCheck_retry_def Let_def)

section \<open>Schedule\<close>

text \<open>
  C28: after a conclusive outcome the next check of the address is due one retry delay after the
  check when the host is up although the check failed, or when slow responses are being counted,
  and one time-to-live after the check otherwise; once the time-to-live has passed it is due now.
\<close>

theorem nextCheckTime_after_updateCheck:
  assumes "data_find a p = Some r" and "conclusive c"
  defines "r' \<equiv> updateCheck_result p (co_now1 c) (co_now2 c) a (co_response c) (co_reason c)
      (co_start c) (co_end c) (co_port c) r"
  shows "CheckParams_nextCheckTime now a (update_with a c p) =
    (if ts_plus (co_now1 c) (cp_checkTTL p) < now then now
     else if 0 < cr_numSlowResponses r' \<or> (\<not> outcome_ok p c \<and> status_up (cr_status r'))
     then co_now1 c + int (unat (cp_checkRetryDelay p))
     else ts_plus (co_now1 c) (cp_checkTTL p))"
proof -
  have find: "data_find a (update_with a c p) = Some r'"
    using assms(1) by (simp add: update_with_def updateCheck_find r'_def)
  have fields: "cr_queryState r' = HM_CHECK_INACTIVE" "cr_checkTime r' = co_now1 c"
    "status_up (cr_softStatus r') \<longleftrightarrow> outcome_ok p c"
    using assms(2) by (simp_all add: r'_def updateCheck_result_def Let_def conclusive_def outcome_ok_def)
  have bound: "cr_numFailedChecks r' \<le> cp_numCheckRetries p"
    using assms(2) result_retry(2) [of "co_response c" "co_reason c" p] retry_bound
    by (simp add: conclusive_def r'_def)
  have "cp_checkTTL (update_with a c p) = cp_checkTTL p"
    "cp_checkRetryDelay (update_with a c p) = cp_checkRetryDelay p"
    using update_with_params(1) [of a c p] by (simp_all only: params_key_def prod.inject)
  then show ?thesis
    using find fields bound
    by (simp add: CheckParams_nextCheckTime_def ts_plus_def sint_u32_ucast)
qed

text \<open>
  While a check is queued or in progress no other check of the address is due: the next one is
  a day away, so \<open>checkNeeded\<close> is false for any second clock reading within that day.
\<close>

theorem no_check_due_while_pending:
  assumes "map_sorted IPAddress_less (cp_checkData p)" and "now2 < now1 + 86400000"
  shows "\<not> CheckParams_checkNeeded now1 now2 a (CheckParams_queueQuerry a p)
    \<and> \<not> CheckParams_checkNeeded now1 now2 a
          (CheckParams_startQuery now0 a (CheckParams_queueQuerry a p))"
  using assms
  by (simp add: CheckParams_checkNeeded_def CheckParams_nextCheckTime_def ts_plus_def
      CheckParams_queueQuerry_def CheckParams_startQuery_def data_find_touch data_find_adjust)

section \<open>Smoothed response time\<close>

lemma weighted_mean_bounds:
  fixes x s w :: nat
  assumes "0 < w"
  shows "min x s \<le> (x + s * (w - 1)) div w" and "(x + s * (w - 1)) div w \<le> max x s"
proof -
  obtain v where w: "w = Suc v" using assms by (cases w) auto
  have "min x s * w \<le> x + s * v" using w by (auto simp: min_def add_mono)
  then show "min x s \<le> (x + s * (w - 1)) div w"
    using w assms by (simp add: less_eq_div_iff_mult_less_eq)
  have "x + s * v \<le> max x s * w" using w by (auto simp: max_def add_mono)
  then have "(x + s * v) div w \<le> max x s * w div w" by (rule div_le_mono)
  also have "\<dots> = max x s" using assms by simp
  finally show "(x + s * (w - 1)) div w \<le> max x s" using w by simp
qed

lemma smoothed_time_unat:
  assumes "unat smoothed * (unat (cp_smoothingWindow p) - 1) < 2 ^ 32" and "unat srt < 2 ^ 32"
    and "smoothed \<noteq> 0" and "cp_smoothingWindow p \<noteq> 0"
  shows "unat (smoothed_time p smoothed srt) =
    (unat srt + unat smoothed * (unat (cp_smoothingWindow p) - 1)) div unat (cp_smoothingWindow p)"
proof -
  let ?w = "cp_smoothingWindow p"
  have "unat (?w - 1) = unat ?w - 1" using assms(4) by (simp add: unat_minus_one)
  then have prod: "unat (smoothed * (?w - 1)) = unat smoothed * (unat ?w - 1)"
    using assms(1) by (simp add: unat_mult_no_wrap)
  have "unat (srt + ucast (smoothed * (?w - 1))) = unat srt + unat smoothed * (unat ?w - 1)"
    using assms(1,2) prod by (simp add: unat_add_le_no_wrap)
  then show ?thesis using assms(3) by (simp add: smoothed_time_def unat_div)
qed

text \<open>
  The smoothed response time after a response in time lies between the smoothed time before
  and the measured time, when the check timeout is below 2^32 ms and the weighted product fits in
  the 32 bit arithmetic of the code.
\<close>

theorem smoothed_response_time_bounds:
  assumes "response_time p now start end' < cp_checkTimeout p" and "unat (cp_checkTimeout p) < 2 ^ 32"
    and "cr_numResponses r \<noteq> 0" and "cp_smoothingWindow p \<noteq> 0"
    and "unat (cr_smoothedResponseTime r) * (unat (cp_smoothingWindow p) - 1) < 2 ^ 32"
  defines "m \<equiv> unat (response_time p now start end')"
    and "s \<equiv> unat (cr_smoothedResponseTime r)"
    and "s' \<equiv> unat (cr_smoothedResponseTime (CheckParams_setResponse p now start end' r))"
  shows "min m s \<le> s' \<and> s' \<le> max m s"
proof -
  have m: "m < 2 ^ 32" using assms(1,2) by (simp add: m_def word_less_iff_unat)
  let ?t = "smoothed_time p (cr_smoothedResponseTime r) (response_time p now start end')"
  have window: "0 < unat (cp_smoothingWindow p)" using assms(4) by (simp add: unat_gt_0)
  have t: "min m s \<le> unat ?t \<and> unat ?t \<le> max m s"
  proof (cases "cr_smoothedResponseTime r = 0")
    case True
    then show ?thesis by (simp add: smoothed_time_def m_def s_def)
  next
    case False
    then show ?thesis
      using smoothed_time_unat [OF assms(5) m [unfolded m_def] False assms(4)]
        weighted_mean_bounds [OF window, of m s] by (simp add: m_def s_def)
  qed
  have "unat ?t < 2 ^ 32"
    using t m unat_u32_less [of "cr_smoothedResponseTime r"] by (simp add: s_def max_def split: if_splits)
  then have "unat (ucast ?t :: u32) = unat ?t" by (rule unat_u32_u64)
  then have "s' = s \<or> s' = unat ?t"
    using assms(1,3) by (auto simp: CheckParams_setResponse_def Let_def s'_def s_def)
  then show ?thesis using t by auto
qed

section \<open>Invariant\<close>

text \<open>
  The objects the daemon can build: the constructors, the assignment, the configured parameters, and
  what the operations make of an object. A result that comes from the storage or from another daemon
  is taken as it is, so a failure counter may exceed the retries of the object
  (\<open>stale_counter_marks_down\<close>).
\<close>

inductive CheckParams_reach :: "HMDataCheckParams \<Rightarrow> bool" where
  constructed: "CheckParams_reach CheckParams_default"
| configured: "CheckParams_reach p \<Longrightarrow>
    CheckParams_reach (CheckParams_setCheckParameters n d opts w g s m to ttl ft pi p)"
| copied: "CheckParams_reach p \<Longrightarrow> CheckParams_reach (CheckParams_copy p)"
| assigned: "CheckParams_reach p \<Longrightarrow> CheckParams_reach k \<Longrightarrow> CheckParams_reach (CheckParams_assign p k)"
| grouped: "CheckParams_reach p \<Longrightarrow> CheckParams_reach (CheckParams_addHostGroup name p)"
| queued: "CheckParams_reach p \<Longrightarrow> CheckParams_reach (CheckParams_queueQuerry a p)"
| emptied: "CheckParams_reach p \<Longrightarrow> CheckParams_reach (CheckParams_emptyQuery a p)"
| started: "CheckParams_reach p \<Longrightarrow> CheckParams_reach (CheckParams_startQuery now a p)"
| forced: "CheckParams_reach p \<Longrightarrow> CheckParams_reach (CheckParams_setHostStatus a b p)"
| updated: "CheckParams_reach p \<Longrightarrow> CheckParams_reach (update_with a c p)"
| loaded: "CheckParams_reach p \<Longrightarrow> CheckParams_reach (CheckParams_updateCheckResult a result force p)"
| invalidated: "CheckParams_reach p \<Longrightarrow> CheckParams_reach (fst (CheckParams_invalidateResult a p))"

definition CheckParams_inv :: "HMDataCheckParams \<Rightarrow> bool" where
  "CheckParams_inv p \<longleftrightarrow> map_sorted IPAddress_less (cp_checkData p) \<and> cp_smoothingWindow p \<noteq> 0"

lemma inv_adjust: "CheckParams_inv p \<Longrightarrow> CheckParams_inv (data_adjust a f p)"
  by (simp add: CheckParams_inv_def data_adjust_def)

lemma inv_insert:
  "CheckParams_inv p \<Longrightarrow> CheckParams_inv (p\<lparr>cp_checkData := smap_insert IPAddress_less a r (cp_checkData p)\<rparr>)"
  by (simp add: CheckParams_inv_def ip_order.map_sorted_insert)

lemma inv_erase:
  "CheckParams_inv p \<Longrightarrow> CheckParams_inv (p\<lparr>cp_checkData := smap_erase IPAddress_less a (cp_checkData p)\<rparr>)"
  by (simp add: CheckParams_inv_def map_sorted_erase)

lemma inv_touch: "CheckParams_inv p \<Longrightarrow> CheckParams_inv (data_touch a f p)"
  by (simp add: data_touch_def inv_adjust inv_insert split: option.split)

lemma inv_load: "CheckParams_inv p \<Longrightarrow> CheckParams_inv (CheckParams_updateCheckResult a result force p)"
  using inv_insert [OF inv_erase] inv_insert [of p a result]
  by (simp add: CheckParams_updateCheckResult_def split: option.split)

text \<open>
  In every object the operations can build, the results are in the order of their addresses with no
  address twice, and the smoothing window, the divisor of the smoothing, is not zero.
\<close>

theorem CheckParams_reach_inv:
  assumes "CheckParams_reach p"
  shows "CheckParams_inv p"
  using assms
proof induction
  case (forced p a b)
  then show ?case
    using inv_adjust [OF forced.IH] by (simp add: CheckParams_setHostStatus_def CheckParams_inv_def)
next
  case (updated p a c)
  then show ?case
    by (simp add: inv_adjust update_with_def CheckParams_updateCheck_def split: option.split)
qed (simp_all add: inv_load inv_touch inv_adjust inv_erase CheckParams_queueQuerry_def CheckParams_emptyQuery_def
    CheckParams_startQuery_def CheckParams_invalidateResult_def split: option.split,
  simp_all add: CheckParams_inv_def CheckParams_setCheckParameters_def CheckParams_default_def CheckParams_copy_def
    CheckParams_assign_def CheckParams_addHostGroup_def)

section \<open>Round trips\<close>

text \<open>
  A result that is put into the object is the one that is read back when the address has none,
  when the replacement is forced, or when it is newer than the one there; otherwise the result that
  was there is kept. Results of other addresses are untouched.
\<close>

theorem updateCheckResult_newest:
  assumes "map_sorted IPAddress_less (cp_checkData p)"
  shows "CheckParams_getCheckResult b (CheckParams_updateCheckResult a result force p) =
    (if b = a then
       (case CheckParams_getCheckResult a p of None \<Rightarrow> Some result
        | Some r \<Rightarrow> Some (if force \<or> cr_checkTime r < cr_checkTime result then result else r))
     else CheckParams_getCheckResult b p)"
  using assms map_sorted_erase [OF assms]
  by (auto simp: CheckParams_getCheckResult_def CheckParams_updateCheckResult_def
      ip_order.find_insert_same ip_order.find_insert_other ip_order.find_erase_other split: option.split)

section \<open>Witnesses\<close>

text \<open>An object with two retries whose address is up, a check that fails and one that succeeds.\<close>

definition w_addr :: HMIPAddress where
  "w_addr = INET 0x7F000001"

definition w_result :: HMDataCheckResult where
  "w_result = (CheckResult_new 10000)\<lparr>cr_status := HM_HOST_STATUS_UP, cr_numResponses := 4,
     cr_smoothedResponseTime := 100\<rparr>"

definition w_params :: HMDataCheckParams where
  "w_params = CheckParams_default\<lparr>cp_numCheckRetries := 2, cp_checkRetryDelay := 5000,
     cp_checkData := [(w_addr, w_result)]\<rparr>"

definition w_fail :: check_outcome where
  "w_fail = \<lparr>co_now1 = 1000, co_now2 = 1000, co_response = HM_RESPONSE_FAILED,
     co_reason = HM_REASON_CONNECT_FAILURE, co_start = 900, co_end = 1000, co_port = 80\<rparr>"

definition w_success :: check_outcome where
  "w_success = w_fail\<lparr>co_response := HM_RESPONSE_CONNECTED, co_reason := HM_REASON_SUCCESS\<rparr>"

lemma w_outcomes:
  "conclusive w_fail" "conclusive w_success" "\<not> outcome_ok w_params w_fail"
  "outcome_ok w_params w_success"
  by (code_simp)+

lemma w_find: "CheckParams_getCheckResult w_addr w_params = Some w_result"
  by (simp add: CheckParams_getCheckResult_def w_params_def)

lemma w_retry:
  "retry_abs w_result = (True, 0)" "cp_numCheckRetries w_params = 2" "cr_numFailedChecks w_result = 0"
  by (simp_all add: retry_abs_def w_result_def w_params_def CheckResult_new_def status_up_def)

lemma w_failures: "failures w_params [w_fail, w_success, w_fail] = 2"
  by (simp add: failures_def w_outcomes)

lemma updateCheck_refines_retry_machine_witness:
  "\<exists>r'. CheckParams_getCheckResult w_addr
      (fold (update_with w_addr) [w_fail, w_success, w_fail, w_fail] w_params) = Some r'
    \<and> retry_abs r' = (False, 0)"
  using updateCheck_refines_retry_machine [OF w_find, of "[w_fail, w_success, w_fail, w_fail]"]
  by (simp add: w_retry retry_outcome_def w_outcomes)

lemma host_down_after_retries_witness:
  "\<exists>r' r''. CheckParams_getCheckResult w_addr
      (fold (update_with w_addr) [w_fail, w_success, w_fail] w_params) = Some r'
    \<and> status_up (cr_status r') \<and> unat (cr_numFailedChecks r') = 2
    \<and> CheckParams_getCheckResult w_addr
      (fold (update_with w_addr) ([w_fail, w_success, w_fail] @ [w_fail]) w_params) = Some r''
    \<and> \<not> status_up (cr_status r'') \<and> cr_numFailedChecks r'' = 0"
  using host_down_after_retries [OF w_find, of "[w_fail, w_success, w_fail]" w_fail]
  by (simp only: w_retry w_failures w_outcomes) simp

lemma host_never_down_with_255_retries_witness:
  "\<exists>r'. CheckParams_getCheckResult w_addr (fold (update_with w_addr) [w_fail, w_fail]
      (w_params\<lparr>cp_numCheckRetries := 255\<rparr>)) = Some r' \<and> status_up (cr_status r')"
  using host_never_down_with_255_retries [of w_addr "w_params\<lparr>cp_numCheckRetries := 255\<rparr>" w_result
      "[w_fail, w_fail]"] w_find w_retry(1) by (simp add: CheckParams_getCheckResult_def retry_abs_def)

lemma stale_counter_marks_down_witness:
  "\<exists>r'. CheckParams_getCheckResult w_addr (update_with w_addr w_success
      (w_params\<lparr>cp_checkData := [(w_addr, w_result\<lparr>cr_numFailedChecks := 3\<rparr>)]\<rparr>)) = Some r'
    \<and> \<not> status_up (cr_status r') \<and> cr_numFailedChecks r' = 0"
  using stale_counter_marks_down [of w_addr
      "w_params\<lparr>cp_checkData := [(w_addr, w_result\<lparr>cr_numFailedChecks := 3\<rparr>)]\<rparr>"
      "w_result\<lparr>cr_numFailedChecks := 3\<rparr>" w_success] w_outcomes w_retry(2)
    outcome_ok_params [of "w_params\<lparr>cp_checkData := [(w_addr, w_result\<lparr>cr_numFailedChecks := 3\<rparr>)]\<rparr>" w_params]
  by (simp add: CheckParams_getCheckResult_def params_key_def)

lemma nextCheckTime_after_updateCheck_witness:
  "CheckParams_nextCheckTime 1200 w_addr (update_with w_addr w_fail w_params) = 6000"
proof -
  have "data_find w_addr w_params = Some w_result"
    using w_find by (simp add: CheckParams_getCheckResult_def)
  moreover have "ts_plus (co_now1 w_fail) (cp_checkTTL w_params) = 31000" by code_simp
  moreover have "status_up (cr_status (updateCheck_result w_params (co_now1 w_fail)
    (co_now2 w_fail) w_addr (co_response w_fail) (co_reason w_fail) (co_start w_fail)
    (co_end w_fail) (co_port w_fail) w_result))" by code_simp
  moreover have "co_now1 w_fail + int (unat (cp_checkRetryDelay w_params)) = 6000" by code_simp
  ultimately show ?thesis
    using nextCheckTime_after_updateCheck [of w_addr w_params w_result w_fail 1200] w_outcomes
    by simp
qed

lemma no_check_due_while_pending_witness:
  "\<not> CheckParams_checkNeeded 50 60 w_addr (CheckParams_queueQuerry w_addr w_params)
   \<and> \<not> CheckParams_checkNeeded 50 60 w_addr
        (CheckParams_startQuery 40 w_addr (CheckParams_queueQuerry w_addr w_params))"
  using no_check_due_while_pending [of w_params 60 50 w_addr 40]
  by (simp add: w_params_def map_sorted_def)

lemma smoothed_response_time_bounds_witness:
  "100 \<le> unat (cr_smoothedResponseTime (CheckParams_setResponse w_params 0 0 400 w_result))
   \<and> unat (cr_smoothedResponseTime (CheckParams_setResponse w_params 0 0 400 w_result)) \<le> 400"
proof -
  have "response_time w_params 0 0 400 = 400" by code_simp
  moreover have "cp_checkTimeout w_params = 10000" "cp_smoothingWindow w_params = 10"
    by (simp_all add: w_params_def CheckParams_default_def)
  moreover have "cr_smoothedResponseTime w_result = 100" "cr_numResponses w_result = 4"
    by (simp_all add: w_result_def)
  ultimately show ?thesis
    using smoothed_response_time_bounds [of w_params 0 0 400 w_result] by simp
qed

lemma CheckParams_reach_inv_witness:
  "CheckParams_inv (update_with w_addr w_fail (CheckParams_queueQuerry w_addr
     (CheckParams_setCheckParameters 2 5000 0 0 20 20 4 10000 30000 60000 0 CheckParams_default)))"
  by (intro CheckParams_reach_inv updated queued configured constructed)

lemma updateCheckResult_newest_witness:
  "CheckParams_getCheckResult w_addr (CheckParams_updateCheckResult w_addr
     (w_result\<lparr>cr_checkTime := 9\<rparr>) False w_params) = Some (w_result\<lparr>cr_checkTime := 9\<rparr>)"
  using updateCheckResult_newest [of w_params w_addr w_addr "w_result\<lparr>cr_checkTime := 9\<rparr>" False] w_find
  by (simp add: w_params_def map_sorted_def w_result_def CheckResult_new_def)

end
