(* ===== verification/HM_HostGroup.thy ===== *)
theory HM_HostGroup
  imports HM_HostCheck HM_CheckParams
begin

text \<open>
  \<open>HMDataHostGroup\<close>: the configuration of a group of hosts, the check and the check parameters
  made from it, its stored form and the bytes its hash is taken over. A field \<open>m_x\<close> of the class is
  \<open>hg_x\<close> here; the getters and the plain setters are the fields and their updates.
\<close>

record HMDataHostGroup =
  hg_groupName :: string
  hg_measurementOptions :: u16
  hg_dualstack :: HM_DUALSTACK
  hg_checkType :: HM_CHECK_TYPE
  hg_remoteCheckType :: HM_REMOTE_CHECK_TYPE
  hg_port :: u16
  hg_checkInfo :: string
  hg_remoteCheck :: string
  hg_sourceAddress :: HMIPAddress
  hg_numCheckRetries :: u8
  hg_checkRetryDelay :: u32
  hg_smoothingWindow :: u32
  hg_groupThreshold :: u32
  hg_slowThreshold :: u32
  hg_maxFlaps :: u32
  hg_checkTimeout :: u64
  hg_checkTTL :: u64
  hg_flapThreshold :: u32
  hg_passthroughInfo :: u32
  hg_distributedFallback :: HM_DISTRIBUTED_FALLBACK
  hg_hashValue :: string
  hg_checkPlugin :: HM_CHECK_PLUGIN_CLASS
  hg_DNSType :: HM_DNS_TYPE
  hg_TOSValue :: u8
  hg_flowType :: HM_FLOW_TYPE
  hg_hostGroups :: "string list"
  hg_hosts :: "string list"

definition HostGroup_new :: "string \<Rightarrow> HMDataHostGroup" where
  "HostGroup_new groupName =
     \<lparr>hg_groupName = groupName, hg_measurementOptions = HM_RT_CONNECT,
      hg_dualstack = HM_DUALSTACK_IPV4_ONLY, hg_checkType = HM_CHECK_DEFAULT,
      hg_remoteCheckType = HM_REMOTE_CHECK_NONE, hg_port = 0, hg_checkInfo = [],
      hg_remoteCheck = [], hg_sourceAddress = UNSPEC, hg_numCheckRetries = 0,
      hg_checkRetryDelay = 0, hg_smoothingWindow = HM_DEFAULT_SMOOTHING_WINDOW,
      hg_groupThreshold = HM_DEFAULT_GROUP_THRESHOLD,
      hg_slowThreshold = HM_DEFAULT_SLOW_THRESHOLD, hg_maxFlaps = HM_DEFAULT_MAX_FLAPS,
      hg_checkTimeout = HM_DEFAULT_CHECK_TIMEOUT, hg_checkTTL = HM_DEFAULT_TTL,
      hg_flapThreshold = HM_DEFAULT_FLAP_THRESHOLD, hg_passthroughInfo = 0,
      hg_distributedFallback = HM_DISTRIBUTED_FALLBACK_NONE, hg_hashValue = [],
      hg_checkPlugin = HM_CHECK_PLUGIN_DEFAULT, hg_DNSType = HM_DNS_TYPE_LOOKUP,
      hg_TOSValue = 0, hg_flowType = HM_FLOW_DNS_HEALTH_TYPE, hg_hostGroups = [], hg_hosts = []\<rparr>"

section \<open>Comparison\<close>

definition HostGroup_less :: "HMDataHostGroup \<Rightarrow> HMDataHostGroup \<Rightarrow> bool" where
  "HostGroup_less g k \<longleftrightarrow>
     hg_groupName g < hg_groupName k \<or> hg_measurementOptions g < hg_measurementOptions k
     \<or> hg_dualstack g < hg_dualstack k
     \<or> check_type_code (hg_checkType g) < check_type_code (hg_checkType k)
     \<or> hg_port g < hg_port k \<or> hg_checkInfo g < hg_checkInfo k
     \<or> hg_numCheckRetries g < hg_numCheckRetries k \<or> hg_checkRetryDelay g < hg_checkRetryDelay k
     \<or> hg_smoothingWindow g < hg_smoothingWindow k \<or> hg_groupThreshold g < hg_groupThreshold k
     \<or> hg_slowThreshold g < hg_slowThreshold k \<or> hg_maxFlaps g < hg_maxFlaps k
     \<or> hg_checkTimeout g < hg_checkTimeout k \<or> hg_checkTTL g < hg_checkTTL k
     \<or> hg_flapThreshold g < hg_flapThreshold k \<or> hg_passthroughInfo g < hg_passthroughInfo k
     \<or> check_plugin_code (hg_checkPlugin g) < check_plugin_code (hg_checkPlugin k)
     \<or> hg_TOSValue g < hg_TOSValue k
     \<or> flow_type_code (hg_flowType g) < flow_type_code (hg_flowType k)"

definition HostGroup_eq :: "HMDataHostGroup \<Rightarrow> HMDataHostGroup \<Rightarrow> bool" where
  "HostGroup_eq g k \<longleftrightarrow>
     hg_groupName g = hg_groupName k \<and> hg_measurementOptions g = hg_measurementOptions k
     \<and> hg_dualstack g = hg_dualstack k \<and> hg_checkType g = hg_checkType k
     \<and> hg_port g = hg_port k \<and> hg_checkInfo g = hg_checkInfo k
     \<and> hg_numCheckRetries g = hg_numCheckRetries k \<and> hg_checkRetryDelay g = hg_checkRetryDelay k
     \<and> hg_smoothingWindow g = hg_smoothingWindow k \<and> hg_groupThreshold g = hg_groupThreshold k
     \<and> hg_slowThreshold g = hg_slowThreshold k \<and> hg_maxFlaps g = hg_maxFlaps k
     \<and> hg_checkTimeout g = hg_checkTimeout k \<and> hg_checkTTL g = hg_checkTTL k
     \<and> hg_flapThreshold g = hg_flapThreshold k \<and> hg_passthroughInfo g = hg_passthroughInfo k
     \<and> hg_TOSValue g = hg_TOSValue k \<and> hg_flowType g = hg_flowType k"

section \<open>Operations\<close>

definition HostCheck_setCheckParams :: "HMDataHostGroup \<Rightarrow> HMDataHostCheck \<Rightarrow> HMDataHostCheck" where
  "HostCheck_setCheckParams g h =
     h\<lparr>hc_checkType := hg_checkType g, hc_port := hg_port g, hc_dualstack := hg_dualstack g,
       hc_checkInfo := hg_checkInfo g, hc_remoteCheck := hg_remoteCheck g,
       hc_checkPlugin := hg_checkPlugin g, hc_remoteCheckType := hg_remoteCheckType g,
       hc_distributedFallback := hg_distributedFallback g,
       hc_sourceAddress := hg_sourceAddress g, hc_TOSValue := hg_TOSValue g,
       hc_DNSType := hg_DNSType g, hc_flowType := hg_flowType g\<rparr>"

text \<open>\<open>getHostCheck\<close>: the argument as it is left, and the result.\<close>

definition HostGroup_getHostCheck ::
    "HMDataHostGroup \<Rightarrow> HMDataHostCheck \<Rightarrow> HMDataHostCheck \<times> bool" where
  "HostGroup_getHostCheck g check =
     (if check_type_code (hg_checkType g) < check_type_code HM_CHECK_INVALID
      then (HostCheck_setCheckParams g check, True) else (check, False))"

definition HostGroup_getCheckParameters ::
    "HMDataHostGroup \<Rightarrow> HMDataCheckParams \<Rightarrow> HMDataCheckParams \<times> bool" where
  "HostGroup_getCheckParameters g check =
     (CheckParams_setCheckParameters (hg_numCheckRetries g) (hg_checkRetryDelay g)
        (hg_measurementOptions g) (hg_smoothingWindow g) (hg_groupThreshold g)
        (hg_slowThreshold g) (hg_maxFlaps g) (hg_checkTimeout g) (hg_checkTTL g)
        (hg_flapThreshold g) (hg_passthroughInfo g) check, True)"

definition HostGroup_setHostGroupParameters ::
    "HMDataHostGroup \<Rightarrow> HMDataHostGroup \<Rightarrow> HMDataHostGroup" where
  "HostGroup_setHostGroupParameters hostGroup g =
     g\<lparr>hg_measurementOptions := hg_measurementOptions hostGroup,
       hg_dualstack := hg_dualstack hostGroup, hg_port := hg_port hostGroup,
       hg_checkType := hg_checkType hostGroup, hg_checkInfo := hg_checkInfo hostGroup,
       hg_numCheckRetries := hg_numCheckRetries hostGroup,
       hg_checkRetryDelay := hg_checkRetryDelay hostGroup,
       hg_smoothingWindow := hg_smoothingWindow hostGroup,
       hg_groupThreshold := hg_groupThreshold hostGroup,
       hg_slowThreshold := hg_slowThreshold hostGroup, hg_maxFlaps := hg_maxFlaps hostGroup,
       hg_checkTimeout := hg_checkTimeout hostGroup, hg_checkTTL := hg_checkTTL hostGroup,
       hg_flapThreshold := hg_flapThreshold hostGroup,
       hg_passthroughInfo := hg_passthroughInfo hostGroup\<rparr>"

definition HostGroup_addHost :: "string \<Rightarrow> HMDataHostGroup \<Rightarrow> HMDataHostGroup" where
  "HostGroup_addHost host g =
     (if host \<in> set (hg_hosts g) then g else g\<lparr>hg_hosts := hg_hosts g @ [host]\<rparr>)"

definition HostGroup_addHostGroup :: "string \<Rightarrow> HMDataHostGroup \<Rightarrow> HMDataHostGroup" where
  "HostGroup_addHostGroup hostGroup g =
     (if hostGroup \<in> set (hg_hostGroups g) then g
      else g\<lparr>hg_hostGroups := hg_hostGroups g @ [hostGroup]\<rparr>)"

definition HostGroup_setDistributedFallback ::
    "HM_DISTRIBUTED_FALLBACK \<Rightarrow> HMDataHostGroup \<Rightarrow> HMDataHostGroup" where
  "HostGroup_setDistributedFallback f g =
     g\<lparr>hg_distributedFallback := hg_distributedFallback g OR f\<rparr>"

definition HostGroup_unsetDistributedFallback ::
    "HM_DISTRIBUTED_FALLBACK \<Rightarrow> HMDataHostGroup \<Rightarrow> HMDataHostGroup" where
  "HostGroup_unsetDistributedFallback f g =
     g\<lparr>hg_distributedFallback := hg_distributedFallback g AND NOT f\<rparr>"

definition HostGroup_isValidHost :: "string \<Rightarrow> HMDataHostGroup \<Rightarrow> bool" where
  "HostGroup_isValidHost host g \<longleftrightarrow> host \<in> set (hg_hosts g)"

section \<open>Hash input\<close>

text \<open>The chunks \<open>getHash\<close> feeds to the digest, in order; integers are little endian.\<close>

fun le_bytes :: "nat \<Rightarrow> nat \<Rightarrow> string" where
  "le_bytes 0 n = []"
| "le_bytes (Suc k) n = char_of (n mod 256) # le_bytes k (n div 256)"

fun of_le :: "string \<Rightarrow> nat" where
  "of_le [] = 0"
| "of_le (c # cs) = of_char c + 256 * of_le cs"

fun be_address :: "HMIPAddress \<Rightarrow> string list" where
  "be_address UNSPEC = []"
| "be_address (INET a) = [rev (le_bytes 4 (unat a))]"
| "be_address (INET6 a) = [rev (le_bytes 16 (unat a))]"

definition HostGroup_getHash :: "HMDataHostGroup \<Rightarrow> string list" where
  "HostGroup_getHash g =
     [hg_groupName g, le_bytes 2 (unat (hg_measurementOptions g)), le_bytes 1 (unat (hg_dualstack g)),
      le_bytes 1 (unat (check_type_code (hg_checkType g))), le_bytes 2 (unat (hg_port g)),
      le_bytes 1 (unat (hg_numCheckRetries g)), le_bytes 4 (unat (hg_checkRetryDelay g)),
      le_bytes 4 (unat (hg_smoothingWindow g)), le_bytes 4 (unat (hg_groupThreshold g)),
      le_bytes 4 (unat (hg_slowThreshold g)), le_bytes 4 (unat (hg_maxFlaps g)),
      le_bytes 8 (unat (hg_checkTimeout g)), le_bytes 8 (unat (hg_checkTTL g)),
      le_bytes 4 (unat (hg_flapThreshold g)), le_bytes 4 (unat (hg_passthroughInfo g)),
      le_bytes 1 (unat (IPAddress_getType (hg_sourceAddress g)))]
     @ be_address (hg_sourceAddress g)
     @ [le_bytes 1 (unat (hg_TOSValue g))] @ hg_hosts g @ hg_hostGroups g"

section \<open>Stored form\<close>

record HostGroup_SerStruct =
  hgs_measurementOptions :: u16
  hgs_dualstack :: u8
  hgs_checkType :: u8
  hgs_port :: u16
  hgs_numCheckRetries :: u8
  hgs_checkRetryDelay :: u32
  hgs_smoothingWindow :: u32
  hgs_groupThreshold :: u32
  hgs_slowThreshold :: u32
  hgs_maxFlaps :: u32
  hgs_checkTimeout :: u64
  hgs_checkTTL :: u64
  hgs_flapThreshold :: u32
  hgs_passthroughInfo :: u32
  hgs_distributedFallback :: u8
  hgs_groupNameSize :: u32
  hgs_checkInfoSize :: u32
  hgs_numHosts :: u32
  hgs_remoteCheckSize :: u32
  hgs_totalHostSize :: u32
  hgs_numHostGroups :: u32
  hgs_totalHostGroupSize :: u32
  hgs_sourceAddress :: HMIPAddress
  hgs_TOSValue :: u8
  hgs_DNSCheckPlugin :: u8
  hgs_flowType :: u8

text \<open>A buffer is the struct at its start and the bytes behind it.\<close>

type_synonym hg_buffer = "HostGroup_SerStruct \<times> string"

definition HostGroup_sizeof :: nat where
  "HostGroup_sizeof = 112"

text \<open>\<open>strncpy(target, s, n)\<close>: up to the first zero byte, then zero bytes.\<close>

definition strncpy_bytes :: "nat \<Rightarrow> string \<Rightarrow> string" where
  "strncpy_bytes n s =
     (let t = takeWhile (\<lambda>c. c \<noteq> CHR 0x00) (take n s) in t @ replicate (n - length t) (CHR 0x00))"

definition put_string :: "string \<Rightarrow> string" where
  "put_string s = le_bytes 4 (length s mod 2 ^ 32) @ strncpy_bytes (length s) s"

definition strings_size :: "string list \<Rightarrow> nat" where
  "strings_size ss = sum_list (map (\<lambda>s. 4 + length s) ss)"

definition HostGroup_totalSize :: "HMDataHostGroup \<Rightarrow> nat" where
  "HostGroup_totalSize g =
     HostGroup_sizeof + length (hg_groupName g) + length (hg_checkInfo g)
     + length (hg_remoteCheck g) + strings_size (hg_hosts g) + strings_size (hg_hostGroups g)"

text \<open>The sizes are \<open>uint32_t\<close> in the code.\<close>

definition HostGroup_serialize ::
    "HMDataHostGroup \<Rightarrow> hg_buffer option \<Rightarrow> u32 \<Rightarrow> hg_buffer option \<times> u32" where
  "HostGroup_serialize g buf sz =
     (let totalSize = of_nat (HostGroup_totalSize g) :: u32
      in case buf of None \<Rightarrow> (None, totalSize)
         | Some (p, rest) \<Rightarrow>
           if sz < totalSize then (buf, totalSize)
           else
             (let payload = strncpy_bytes (length (hg_groupName g)) (hg_groupName g)
                  @ strncpy_bytes (length (hg_checkInfo g)) (hg_checkInfo g)
                  @ strncpy_bytes (length (hg_remoteCheck g)) (hg_remoteCheck g)
                  @ concat (map put_string (hg_hosts g))
                  @ concat (map put_string (hg_hostGroups g))
              in (Some (p\<lparr>hgs_measurementOptions := hg_measurementOptions g,
                   hgs_dualstack := hg_dualstack g,
                   hgs_checkType := check_type_code (hg_checkType g), hgs_port := hg_port g,
                   hgs_numCheckRetries := hg_numCheckRetries g,
                   hgs_checkRetryDelay := hg_checkRetryDelay g,
                   hgs_smoothingWindow := hg_smoothingWindow g,
                   hgs_groupThreshold := hg_groupThreshold g,
                   hgs_slowThreshold := hg_slowThreshold g, hgs_maxFlaps := hg_maxFlaps g,
                   hgs_checkTimeout := hg_checkTimeout g, hgs_checkTTL := hg_checkTTL g,
                   hgs_flapThreshold := hg_flapThreshold g,
                   hgs_passthroughInfo := hg_passthroughInfo g,
                   hgs_distributedFallback := hg_distributedFallback g,
                   hgs_sourceAddress := hg_sourceAddress g, hgs_TOSValue := hg_TOSValue g,
                   hgs_flowType := flow_type_code (hg_flowType g),
                   hgs_groupNameSize := of_nat (length (hg_groupName g)),
                   hgs_checkInfoSize := of_nat (length (hg_checkInfo g)),
                   hgs_numHosts := of_nat (length (hg_hosts g)),
                   hgs_remoteCheckSize := of_nat (length (hg_remoteCheck g)),
                   hgs_totalHostSize := of_nat (strings_size (hg_hosts g)),
                   hgs_numHostGroups := of_nat (length (hg_hostGroups g)),
                   hgs_totalHostGroupSize := of_nat (strings_size (hg_hostGroups g))\<rparr>,
                 payload @ drop (length payload) rest), totalSize)))"

text \<open>
  Reading back. \<open>std::string::at(0)\<close> of an empty string throws; a read behind the end of the buffer
  is undefined behaviour of the code and an error here; so is a byte that names no enumerator.
\<close>

datatype deser_error = at_out_of_range | read_past_end | no_enumerator

definition check_type_of_code :: "u8 \<Rightarrow> HM_CHECK_TYPE option" where
  "check_type_of_code b =
     find (\<lambda>t. check_type_code t = b)
       [HM_CHECK_DEFAULT, HM_CHECK_NONE, HM_CHECK_HTTP, HM_CHECK_HTTPS, HM_CHECK_TCP,
        HM_CHECK_FTP, HM_CHECK_DNS, HM_CHECK_DNSVC, HM_CHECK_HTTPS_NO_PEER_CHECK,
        HM_CHECK_FTPS_EXPLICIT, HM_CHECK_FTPS_EXPLICIT_NO_PEER_CHECK, HM_CHECK_FTPS_IMPLICIT,
        HM_CHECK_FTPS_IMPLICIT_NO_PEER_CHECK, HM_CHECK_AUX_HTTP, HM_CHECK_AUX_HTTPS,
        HM_CHECK_AUX_HTTPS_NO_PEER_CHECK, HM_CHECK_MTLS_HTTPS,
        HM_CHECK_MTLS_HTTPS_NO_PEER_CHECK, HM_CHECK_AUX_MTLS_HTTPS,
        HM_CHECK_AUX_MTLS_HTTPS_NO_PEER_CHECK, HM_CHECK_TCPS, HM_CHECK_MARK_HTTP,
        HM_CHECK_MARK_HTTPS, HM_CHECK_MARK_HTTPS_NO_PEER_CHECK, HM_CHECK_INVALID]"

definition flow_type_of_code :: "u8 \<Rightarrow> HM_FLOW_TYPE option" where
  "flow_type_of_code b =
     find (\<lambda>t. flow_type_code t = b)
       [HM_FLOW_DNS_HEALTH_TYPE, HM_FLOW_REMOTE_HOSTGROUP_TYPE, HM_FLOW_REMOTE_HOST_TYPE]"

text \<open>\<open>s.resize(n)\<close>, \<open>strncpy(&s.at(0), src, n)\<close>, \<open>src += n\<close>: the string and the rest of the bytes.\<close>

definition get_chars :: "nat \<Rightarrow> string \<Rightarrow> deser_error + (string \<times> string)" where
  "get_chars n src =
     (if n = 0 then Inl at_out_of_range
      else if length src < n then Inl read_past_end
      else Inr (strncpy_bytes n src, drop n src))"

fun get_strings :: "nat \<Rightarrow> string \<Rightarrow> deser_error + (string list \<times> string)" where
  "get_strings 0 src = Inr ([], src)"
| "get_strings (Suc k) src =
     (if length src < 4 then Inl read_past_end
      else case get_chars (of_le (take 4 src)) (drop 4 src) of
          Inl e \<Rightarrow> Inl e
        | Inr (s, src) \<Rightarrow>
            (case get_strings k src of Inl e \<Rightarrow> Inl e | Inr (ss, src) \<Rightarrow> Inr (s # ss, src)))"

definition get_optional :: "nat \<Rightarrow> string \<Rightarrow> string \<Rightarrow> deser_error + (string \<times> string)" where
  "get_optional n old src = (if 0 < n then get_chars n src else Inr (old, src))"

definition HostGroup_scalars ::
    "HostGroup_SerStruct \<Rightarrow> HM_CHECK_TYPE \<Rightarrow> HM_FLOW_TYPE \<Rightarrow> HMDataHostGroup \<Rightarrow> HMDataHostGroup" where
  "HostGroup_scalars p ct ft g =
     g\<lparr>hg_measurementOptions := hgs_measurementOptions p, hg_dualstack := hgs_dualstack p,
       hg_checkType := ct, hg_port := hgs_port p, hg_numCheckRetries := hgs_numCheckRetries p,
       hg_checkRetryDelay := hgs_checkRetryDelay p, hg_smoothingWindow := hgs_smoothingWindow p,
       hg_groupThreshold := hgs_groupThreshold p, hg_slowThreshold := hgs_slowThreshold p,
       hg_maxFlaps := hgs_maxFlaps p, hg_checkTimeout := hgs_checkTimeout p,
       hg_checkTTL := hgs_checkTTL p, hg_flapThreshold := hgs_flapThreshold p,
       hg_passthroughInfo := hgs_passthroughInfo p, hg_sourceAddress := hgs_sourceAddress p,
       hg_TOSValue := hgs_TOSValue p, hg_flowType := ft,
       hg_distributedFallback := hgs_distributedFallback p\<rparr>"

definition HostGroup_deserialize ::
    "HMDataHostGroup \<Rightarrow> hg_buffer option \<Rightarrow> u32 \<Rightarrow> deser_error + (HMDataHostGroup \<times> bool)" where
  "HostGroup_deserialize g buf sz =
     (case buf of None \<Rightarrow> Inr (g, False)
      | Some (p, src) \<Rightarrow>
        if unat sz < HostGroup_sizeof then Inr (g, False)
        else case check_type_of_code (hgs_checkType p) of None \<Rightarrow> Inl no_enumerator
        | Some ct \<Rightarrow> (case flow_type_of_code (hgs_flowType p) of None \<Rightarrow> Inl no_enumerator
        | Some ft \<Rightarrow>
            let g = HostGroup_scalars p ct ft g
            in if unat sz < HostGroup_sizeof + unat (hgs_groupNameSize p) + unat (hgs_checkInfoSize p)
                  + unat (hgs_totalHostSize p) + unat (hgs_totalHostGroupSize p)
               then Inr (g, False)
               else case get_chars (unat (hgs_groupNameSize p)) src of Inl e \<Rightarrow> Inl e
               | Inr (name, src) \<Rightarrow>
               (case get_optional (unat (hgs_checkInfoSize p)) (hg_checkInfo g) src of Inl e \<Rightarrow> Inl e
               | Inr (ci, src) \<Rightarrow>
               (case get_optional (unat (hgs_remoteCheckSize p)) (hg_remoteCheck g) src of Inl e \<Rightarrow> Inl e
               | Inr (rc, src) \<Rightarrow>
               (case get_strings (unat (hgs_numHosts p)) src of Inl e \<Rightarrow> Inl e
               | Inr (hosts, src) \<Rightarrow>
               (case get_strings (unat (hgs_numHostGroups p)) src of Inl e \<Rightarrow> Inl e
               | Inr (groups, src) \<Rightarrow>
                   Inr (g\<lparr>hg_groupName := name, hg_checkInfo := ci, hg_remoteCheck := rc,
                          hg_hosts := hosts, hg_hostGroups := groups\<rparr>, True)))))))"

section \<open>Lemmas\<close>

lemma length_le_bytes [simp]: "length (le_bytes k n) = k"
  by (induction k arbitrary: n) auto

lemma of_le_bytes: "n < 256 ^ k \<Longrightarrow> of_le (le_bytes k n) = n"
proof (induction k arbitrary: n)
  case (Suc k)
  have "n div 256 < 256 ^ k" using Suc.prems by (simp add: less_mult_imp_div_less mult.commute)
  then show ?case using Suc.IH [of "n div 256"] by simp
qed simp

definition clean :: "string \<Rightarrow> bool" where
  "clean s \<longleftrightarrow> CHR 0x00 \<notin> set s"

lemma strncpy_clean [simp]: "clean s \<Longrightarrow> strncpy_bytes (length s) s = s"
proof -
  assume "clean s"
  then have id: "takeWhile (\<lambda>c. c \<noteq> CHR 0x00) s = s" by (auto simp: clean_def takeWhile_eq_all_conv)
  show ?thesis unfolding strncpy_bytes_def Let_def take_all [OF order_refl] id by simp
qed

lemma strncpy_take: "n \<le> length s \<Longrightarrow> strncpy_bytes n s = strncpy_bytes n (take n s)"
  by (simp add: strncpy_bytes_def)

lemma get_chars_append:
  assumes "clean s" and "s \<noteq> []"
  shows "get_chars (length s) (s @ rest) = Inr (s, rest)"
  using assms strncpy_take [of "length s" "s @ rest"] by (simp add: get_chars_def)

lemma get_optional_append:
  "clean s \<Longrightarrow> get_optional (length s) old (s @ rest) = Inr (if s = [] then old else s, rest)"
  by (cases "s = []") (simp_all add: get_optional_def get_chars_append)

lemma get_strings_append:
  assumes "\<And>s. s \<in> set ss \<Longrightarrow> clean s \<and> s \<noteq> [] \<and> length s < 2 ^ 32"
  shows "get_strings (length ss) (concat (map put_string ss) @ rest) = Inr (ss, rest)"
  using assms
proof (induction ss)
  case (Cons s ss)
  have s: "clean s" "s \<noteq> []" "length s < 2 ^ 32" using Cons.prems by auto
  have "of_le (le_bytes 4 (length s)) = length s" using s(3) by (simp add: of_le_bytes)
  then show ?case using s Cons by (simp add: put_string_def get_chars_append)
qed simp

lemma check_type_of_code_code [simp]: "check_type_of_code (check_type_code t) = Some t"
  by (cases t) (simp_all add: check_type_of_code_def)

lemma flow_type_of_code_code [simp]: "flow_type_of_code (flow_type_code t) = Some t"
  by (cases t) (simp_all add: flow_type_of_code_def)

text \<open>A group is storable when its texts have no zero byte, its name and the names of its hosts and
  child groups are not empty, and its size fits in 32 bits.\<close>

definition HostGroup_storable :: "HMDataHostGroup \<Rightarrow> bool" where
  "HostGroup_storable g \<longleftrightarrow>
     hg_groupName g \<noteq> [] \<and> list_all clean [hg_groupName g, hg_checkInfo g, hg_remoteCheck g]
     \<and> list_all (\<lambda>s. clean s \<and> s \<noteq> []) (hg_hosts g @ hg_hostGroups g)
     \<and> HostGroup_totalSize g < 2 ^ 32"

lemma strings_size_member: "s \<in> set ss \<Longrightarrow> length s \<le> strings_size ss"
  by (induction ss) (auto simp: strings_size_def)

lemma strings_size_length: "length ss \<le> strings_size ss"
  by (induction ss) (auto simp: strings_size_def)

lemma unat_of_nat_u32: "n < 2 ^ 32 \<Longrightarrow> unat (of_nat n :: u32) = n"
  by (simp add: unsigned_of_nat take_bit_nat_eq_self)

section \<open>Properties\<close>

text \<open>
  A host group that is stored in a large enough buffer and read back into another group object
  gives back the configuration, the hosts and the child groups that were stored. The remote check
  type, the DNS type, the check plugin and the hash value are not stored: they keep the values of
  the target, and so do the check info and the remote check when the stored ones are empty.
\<close>

theorem HostGroup_roundtrip:
  assumes "HostGroup_storable g" and "HostGroup_totalSize g \<le> unat sz"
  shows "HostGroup_deserialize t (fst (HostGroup_serialize g (Some b) sz)) sz =
    Inr (g\<lparr>hg_remoteCheckType := hg_remoteCheckType t, hg_DNSType := hg_DNSType t,
           hg_checkPlugin := hg_checkPlugin t, hg_hashValue := hg_hashValue t,
           hg_checkInfo := (if hg_checkInfo g = [] then hg_checkInfo t else hg_checkInfo g),
           hg_remoteCheck := (if hg_remoteCheck g = [] then hg_remoteCheck t
                              else hg_remoteCheck g)\<rparr>, True)"
proof -
  obtain p rest where b: "b = (p, rest)" by (cases b)
  note total = assms(1) [unfolded HostGroup_storable_def HostGroup_totalSize_def]
  have clean: "clean (hg_groupName g)" "clean (hg_checkInfo g)" "clean (hg_remoteCheck g)"
    and name: "hg_groupName g \<noteq> []" using total by auto
  have small: "length (hg_groupName g) < 2 ^ 32" "length (hg_checkInfo g) < 2 ^ 32"
    "length (hg_remoteCheck g) < 2 ^ 32" "length (hg_hosts g) < 2 ^ 32"
    "length (hg_hostGroups g) < 2 ^ 32" "strings_size (hg_hosts g) < 2 ^ 32"
    "strings_size (hg_hostGroups g) < 2 ^ 32"
    using total strings_size_length [of "hg_hosts g"] strings_size_length [of "hg_hostGroups g"]
    by simp_all
  have strings: "get_strings (length ss) (concat (map put_string ss) @ r) = Inr (ss, r)"
    if "ss = hg_hosts g \<or> ss = hg_hostGroups g" for ss r
  proof (rule get_strings_append)
    fix s assume "s \<in> set ss"
    then show "clean s \<and> s \<noteq> [] \<and> length s < 2 ^ 32"
      using that total small(6,7) strings_size_member [of s ss] by (auto simp: list_all_iff)
  qed
  have "\<not> sz < of_nat (HostGroup_totalSize g)"
    using assms by (simp add: word_less_iff_unat unat_of_nat_u32 HostGroup_storable_def)
  moreover have "\<not> unat sz < HostGroup_sizeof + length (hg_groupName g) + length (hg_checkInfo g)
      + strings_size (hg_hosts g) + strings_size (hg_hostGroups g)" "\<not> unat sz < HostGroup_sizeof"
    using assms(2) by (simp_all add: HostGroup_totalSize_def)
  ultimately show ?thesis
    using clean name small strings
    by (simp add: b HostGroup_serialize_def HostGroup_deserialize_def HostGroup_scalars_def Let_def
        unat_of_nat_u32 get_chars_append get_optional_append)
qed

definition sample_group :: HMDataHostGroup where
  "sample_group = (HostGroup_new ''web'')\<lparr>hg_checkType := HM_CHECK_HTTP, hg_port := 80,
     hg_checkInfo := ''//a/x'', hg_hosts := [''h1'', ''h2'']\<rparr>"

lemma HostGroup_roundtrip_witness:
  "\<forall>b. HostGroup_deserialize (HostGroup_new ''t'')
     (fst (HostGroup_serialize sample_group (Some b) 500)) 500 = Inr (sample_group, True)"
  using HostGroup_roundtrip [of sample_group 500 "HostGroup_new ''t''"]
  by (simp add: sample_group_def HostGroup_new_def HostGroup_storable_def HostGroup_totalSize_def
      HostGroup_sizeof_def strings_size_def clean_def)

text \<open>
  The hash of a host group does not depend on its check info, its remote check, its check
  plugin, its DNS type, its flow type, its distributed fallback or its remote check type: groups
  that differ only there feed the same bytes to the digest.
\<close>

lemma hash_ignores_check_info:
  "HostGroup_getHash (g\<lparr>hg_checkInfo := ci, hg_remoteCheck := rc, hg_checkPlugin := pl,
     hg_DNSType := dt, hg_flowType := ft, hg_distributedFallback := df,
     hg_remoteCheckType := rt\<rparr>) = HostGroup_getHash g"
  by (simp add: HostGroup_getHash_def)

text \<open>
  \<open>operator<\<close> of host groups is not an order: two groups can each be less than the other.
\<close>

theorem HostGroup_less_not_asymmetric:
  "\<exists>g k. HostGroup_less g k \<and> HostGroup_less k g"
  by (rule exI [of _ "(HostGroup_new ''a'')\<lparr>hg_port := 2\<rparr>"],
      rule exI [of _ "(HostGroup_new ''b'')\<lparr>hg_port := 1\<rparr>"])
    (simp add: HostGroup_less_def HostGroup_new_def)

end
