(* ===== verification/HM_DNSLookup.thy ===== *)
theory HM_DNSLookup
  imports HM_HostGroup
begin

text \<open>
  \<open>HMDNSLookup\<close>, the kind of a name lookup, and \<open>HMDNSTypeMap\<close>, the key of the list of checks that
  wait for a lookup, with the comparisons that key the DNS cache and the wait list. A field \<open>m_x\<close>
  of \<open>HMDNSLookup\<close> is \<open>dl_x\<close> here, one of \<open>HMDNSTypeMap\<close> is \<open>dt_x\<close>.
\<close>

record HMDNSLookup =
  dl_type :: HM_DNS_TYPE
  dl_ipv6 :: bool
  dl_remoteCheckGroup :: string
  dl_plugin :: HM_DNS_PLUGIN_CLASS

definition DNSLookup_new :: "HM_DNS_TYPE \<Rightarrow> bool \<Rightarrow> string \<Rightarrow> HMDNSLookup" where
  "DNSLookup_new type ipv6 remoteCheck =
     \<lparr>dl_type = type, dl_ipv6 = ipv6, dl_remoteCheckGroup = remoteCheck,
      dl_plugin = HM_DNS_PLUGIN_NONE\<rparr>"

definition DNSLookup_default :: HMDNSLookup where
  "DNSLookup_default = DNSLookup_new HM_DNS_TYPE_LOOKUP False []"

definition DNSLookup_less :: "HMDNSLookup \<Rightarrow> HMDNSLookup \<Rightarrow> bool" where
  "DNSLookup_less l k =
     (if dl_type l = dl_type k then
        (if dl_remoteCheckGroup l = dl_remoteCheckGroup k then \<not> dl_ipv6 l \<and> dl_ipv6 k
         else dl_remoteCheckGroup l < dl_remoteCheckGroup k)
      else dns_type_code (dl_type l) < dns_type_code (dl_type k))"

definition DNSLookup_eq :: "HMDNSLookup \<Rightarrow> HMDNSLookup \<Rightarrow> bool" where
  "DNSLookup_eq l k \<longleftrightarrow> dl_type l = dl_type k \<and> dl_ipv6 l = dl_ipv6 k"

text \<open>The code compares the dual stack mode of the group with the address family \<open>AF_INET6\<close>.\<close>

definition DNSLookup_setCheckParams :: "HMDataHostGroup \<Rightarrow> HMDNSLookup \<Rightarrow> HMDNSLookup" where
  "DNSLookup_setCheckParams g l = l\<lparr>dl_type := hg_DNSType g, dl_ipv6 := (hg_dualstack g = AF_INET6)\<rparr>"

definition DNSLookup_setPlugin :: "HM_DNS_PLUGIN_CLASS \<Rightarrow> HMDNSLookup \<Rightarrow> HMDNSLookup" where
  "DNSLookup_setPlugin plugin l = l\<lparr>dl_plugin := plugin\<rparr>"

record HMDNSTypeMap =
  dt_name :: string
  dt_type :: HM_DNS_TYPE
  dt_remoteCheckGroup :: string

definition DNSTypeMap_less :: "HMDNSTypeMap \<Rightarrow> HMDNSTypeMap \<Rightarrow> bool" where
  "DNSTypeMap_less t k =
     (if dt_name t = dt_name k then dns_type_code (dt_type t) < dns_type_code (dt_type k)
      else dt_name t < dt_name k)"

definition DNSTypeMap_eq :: "HMDNSTypeMap \<Rightarrow> HMDNSTypeMap \<Rightarrow> bool" where
  "DNSTypeMap_eq t k \<longleftrightarrow> dt_name t = dt_name k \<and> dt_type t = dt_type k"

text \<open>\<open>std::pair<string, HMDNSLookup>\<close>, the key of the DNS cache.\<close>

type_synonym dns_key = "string \<times> HMDNSLookup"

definition dns_key_less :: "dns_key \<Rightarrow> dns_key \<Rightarrow> bool" where
  "dns_key_less a b \<longleftrightarrow>
     fst a < fst b \<or> (\<not> fst b < fst a \<and> DNSLookup_less (snd a) (snd b))"

section \<open>Orders\<close>

definition dns_lookup_key where
  "dns_lookup_key l = (dns_type_code (dl_type l), dl_remoteCheckGroup l, dl_ipv6 l)"

lemma DNSLookup_less_key [hm_orders]: "DNSLookup_less l k \<longleftrightarrow> dns_lookup_key l < dns_lookup_key k"
  by (auto simp: DNSLookup_less_def dns_lookup_key_def less_prod_def')

lemma dns_key_less_key [hm_orders]:
  "dns_key_less a b \<longleftrightarrow> (fst a, dns_lookup_key (snd a)) < (fst b, dns_lookup_key (snd b))"
  by (auto simp: dns_key_less_def DNSLookup_less_key less_prod_def')

lemma DNSTypeMap_less_key [hm_orders]:
  "DNSTypeMap_less t k \<longleftrightarrow>
     (dt_name t, dns_type_code (dt_type t)) < (dt_name k, dns_type_code (dt_type k))"
  by (auto simp: DNSTypeMap_less_def less_prod_def')

interpretation dns_order: key_order dns_key_less "\<lambda>a. (fst a, dns_lookup_key (snd a))"
  by unfold_locales (rule dns_key_less_key)

interpretation dns_type_order: key_order DNSTypeMap_less "\<lambda>t. (dt_name t, dns_type_code (dt_type t))"
  by unfold_locales (rule DNSTypeMap_less_key)

lemma dns_key_equiv:
  "key_equiv dns_key_less a b \<longleftrightarrow>
     fst a = fst b \<and> dl_type (snd a) = dl_type (snd b) \<and> dl_ipv6 (snd a) = dl_ipv6 (snd b)
     \<and> dl_remoteCheckGroup (snd a) = dl_remoteCheckGroup (snd b)"
  by (auto simp: dns_order.equiv_key dns_lookup_key_def)

text \<open>
  Two keys of the DNS cache are the same entry exactly when their host names and remote check
  groups are equal and their lookups are equal for \<open>operator==\<close>, which does not compare the remote
  check group; so lookups that are equal for \<open>operator==\<close> can be different entries.
\<close>

lemma dns_key_equiv_vs_eq:
  "key_equiv dns_key_less (n, l) (n', l') \<longleftrightarrow>
     n = n' \<and> dl_remoteCheckGroup l = dl_remoteCheckGroup l' \<and> DNSLookup_eq l l'"
  by (auto simp: dns_key_equiv DNSLookup_eq_def)

text \<open>
  A lookup configured from a host group is never an IPv6 lookup when the dual stack mode of the
  group is one of the defined modes, IPv6-only included.
\<close>

lemma setCheckParams_never_ipv6:
  assumes "hg_dualstack g \<in> {HM_DUALSTACK_UNDEFINED, HM_DUALSTACK_IPV4_ONLY, HM_DUALSTACK_IPV6_ONLY,
    HM_DUALSTACK_BOTH}"
  shows "\<not> dl_ipv6 (DNSLookup_setCheckParams g l)"
  using assms by (auto simp: DNSLookup_setCheckParams_def)

end
