(* ===== verification/HM_Work.thy ===== *)
theory HM_Work
  imports HM_DNSLookup
begin

text \<open>
  \<open>HMWork\<close>, a work order, and \<open>HMWorkQueue\<close>, the queue the worker threads take it from. The classes
  derived from \<open>HMWork\<close> that the modelled code creates are the values of \<open>work_class\<close>; what a class
  adds to the base is a field of the record (the lookup of a DNS work, the host group of a remote
  check). A field \<open>m_x\<close> of \<open>HMWork\<close> is \<open>wk_x\<close>, one of the queue is \<open>wq_x\<close>.

  The interface of the queue is the locale \<open>fifo\<close>, interpreted on the queue of the code.
\<close>

datatype work_class =
    HMWorkHealthCheckCurl | HMWorkHealthCheckTCP | HMWorkHealthCheckTCPS | HMWorkHealthCheckDNS
  | HMWorkHealthCheckNone | HMWorkHealhMultiWork | HMWorkMarkFetchCurl | HMWorkAuxFetchCurl
  | HMWorkDNSLookupStatic | HMWorkDNSLookupAres | HMWorkRemoteCheckRemote
  | HMWorkRemoteHostCheckRemote

record HMWork =
  wk_class :: work_class
  wk_hostname :: string
  wk_ipAddress :: HMIPAddress
  wk_hostCheck :: HMDataHostCheck
  wk_response :: HM_RESPONSE
  wk_reason :: HM_REASON
  wk_start :: HMTimeStamp
  wk_end :: HMTimeStamp
  wk_ID :: u64
  wk_workStatus :: HM_WORK_STATUS
  wk_timeout :: HMTimeStamp
  wk_reschedule :: bool
  wk_storeResults :: bool
  wk_publish :: bool
  wk_mark :: int
  wk_dnsHostCheck :: HMDNSLookup
  wk_hostGroup :: "HMDataHostGroup option"

definition Work_new :: "work_class \<Rightarrow> string \<Rightarrow> HMIPAddress \<Rightarrow> HMDataHostCheck \<Rightarrow> HMWork" where
  "Work_new cls hostname ip hostcheck =
     \<lparr>wk_class = cls, wk_hostname = hostname, wk_ipAddress = ip, wk_hostCheck = hostcheck,
      wk_response = HM_RESPONSE_NONE, wk_reason = HM_REASON_NONE, wk_start = 0, wk_end = 0,
      wk_ID = 0, wk_workStatus = HM_WORK_IDLE, wk_timeout = 0, wk_reschedule = True,
      wk_storeResults = True, wk_publish = True, wk_mark = 0,
      wk_dnsHostCheck = DNSLookup_default, wk_hostGroup = None\<rparr>"

fun class_workType :: "work_class \<Rightarrow> HM_WORK_TYPE" where
  "class_workType HMWorkAuxFetchCurl = HM_WORK_AUXFETCH"
| "class_workType HMWorkDNSLookupStatic = HM_WORK_DNSLOOKUP"
| "class_workType HMWorkDNSLookupAres = HM_WORK_DNSLOOKUP"
| "class_workType HMWorkRemoteCheckRemote = HM_WORK_REMOTECHECK"
| "class_workType HMWorkRemoteHostCheckRemote = HM_WORK_REMOTEHOSTCHECK"
| "class_workType _ = HM_WORK_HEALTHCHECK"

definition Work_getWorkType :: "HMWork \<Rightarrow> HM_WORK_TYPE" where
  "Work_getWorkType w = class_workType (wk_class w)"

definition Work_setMark :: "int \<Rightarrow> HMWork \<Rightarrow> HMWork" where
  "Work_setMark mark w = w\<lparr>wk_mark := mark\<rparr>"

definition Work_setReschedule :: "bool \<Rightarrow> HMWork \<Rightarrow> HMWork" where
  "Work_setReschedule reschedule w = w\<lparr>wk_reschedule := reschedule\<rparr>"

definition Work_setStoreResults :: "bool \<Rightarrow> HMWork \<Rightarrow> HMWork" where
  "Work_setStoreResults storeResults w = w\<lparr>wk_storeResults := storeResults\<rparr>"

definition Work_setPublish :: "bool \<Rightarrow> HMWork \<Rightarrow> HMWork" where
  "Work_setPublish publish w = w\<lparr>wk_publish := publish\<rparr>"

section \<open>Work queue\<close>

text \<open>The map of work in progress is keyed by the address of the work; here by a number.\<close>

record HMWorkQueue =
  wq_queue :: "HMWork list"
  wq_totalTime :: u64
  wq_totalCount :: u32
  wq_numOffSchedule :: u64
  wq_ttlTreshold :: u32
  wq_workMap :: "(nat \<times> HMWork) list"
  wq_shutdown :: bool

definition WorkQueue_new :: HMWorkQueue where
  "WorkQueue_new =
     \<lparr>wq_queue = [], wq_totalTime = 0, wq_totalCount = 0, wq_numOffSchedule = 0,
      wq_ttlTreshold = 10, wq_workMap = [], wq_shutdown = False\<rparr>"

definition WorkQueue_insertWork :: "HMWork \<Rightarrow> HMWorkQueue \<Rightarrow> HMWorkQueue" where
  "WorkQueue_insertWork work q = q\<lparr>wq_queue := wq_queue q @ [work]\<rparr>"

definition WorkQueue_insertMap :: "nat \<Rightarrow> HMWork \<Rightarrow> HMWorkQueue \<Rightarrow> HMWorkQueue" where
  "WorkQueue_insertMap ptr work q = q\<lparr>wq_workMap := smap_insert (<) ptr work (wq_workMap q)\<rparr>"

text \<open>\<open>m_workMap.at(value)\<close> throws when the pointer is not in the map.\<close>

definition WorkQueue_addWork :: "nat \<Rightarrow> HMWorkQueue \<Rightarrow> std_exception + HMWorkQueue" where
  "WorkQueue_addWork ptr q =
     (case smap_find (<) ptr (wq_workMap q) of None \<Rightarrow> Inl out_of_range
      | Some work \<Rightarrow>
          Inr (WorkQueue_insertWork work (q\<lparr>wq_workMap := smap_erase (<) ptr (wq_workMap q)\<rparr>)))"

text \<open>
  One turn of the loop of \<open>getWork\<close>: it returns \<open>false\<close> on a shutdown, returns the front of the
  queue, or waits for a notification. The off-schedule threshold is computed in floating point,
  which is the parameter \<open>percent\<close>: \<open>percent t d\<close> stands for \<open>((float)t / 100.0) * d\<close> in
  milliseconds.
\<close>

datatype get_work = GetFalse | GetWait | GetWork HMWork

definition WorkQueue_account ::
    "(u32 \<Rightarrow> u64 \<Rightarrow> u64) \<Rightarrow> HMTimeStamp \<Rightarrow> HMWork \<Rightarrow> HMWorkQueue \<Rightarrow> HMWorkQueue" where
  "WorkQueue_account percent now work q =
     (let q = q\<lparr>wq_totalCount := wq_totalCount q + 1,
                wq_totalTime := wq_totalTime q + ts_diff now (wk_start work)\<rparr>;
          q = (if wq_totalCount q = 1000 then q\<lparr>wq_totalCount := 0, wq_totalTime := 0\<rparr> else q)
      in if ts_minus (wk_end work) (percent (wq_ttlTreshold q) (ts_diff (wk_end work) (wk_start work))) < now
         then q\<lparr>wq_numOffSchedule := wq_numOffSchedule q + 1\<rparr> else q)"

definition WorkQueue_getWork ::
    "(u32 \<Rightarrow> u64 \<Rightarrow> u64) \<Rightarrow> HMTimeStamp \<Rightarrow> bool \<Rightarrow> HMWorkQueue \<Rightarrow> get_work \<times> HMWorkQueue" where
  "WorkQueue_getWork percent now threadShutdown q =
     (if wq_shutdown q \<or> threadShutdown then (GetFalse, q)
      else case wq_queue q of [] \<Rightarrow> (GetWait, q)
        | work # ws \<Rightarrow>
            let q = q\<lparr>wq_queue := ws\<rparr>
            in (GetWork work,
                if wk_workStatus work \<noteq> HM_WORK_IN_PROGRESS then WorkQueue_account percent now work q
                else q))"

definition WorkQueue_queueSize :: "HMWorkQueue \<Rightarrow> u32" where
  "WorkQueue_queueSize q = of_nat (length (wq_queue q))"

definition WorkQueue_doShutdown :: "HMWorkQueue \<Rightarrow> HMWorkQueue" where
  "WorkQueue_doShutdown q = q\<lparr>wq_shutdown := True\<rparr>"

section \<open>First in, first out\<close>

text \<open>The contract of a queue, over its content, while it is open.\<close>

locale fifo =
  fixes content :: "'q \<Rightarrow> 'w list"
    and is_open :: "'q \<Rightarrow> bool"
    and put :: "'w \<Rightarrow> 'q \<Rightarrow> 'q"
    and get :: "'q \<Rightarrow> ('w \<times> 'q) option"
  assumes content_put: "content (put w q) = content q @ [w]"
    and open_put: "is_open (put w q) = is_open q"
    and get_empty: "is_open q \<Longrightarrow> content q = [] \<Longrightarrow> get q = None"
    and get_front: "is_open q \<Longrightarrow> content q = w # ws \<Longrightarrow>
      \<exists>q'. get q = Some (w, q') \<and> content q' = ws \<and> is_open q'"
begin

text \<open>\<open>drain\<close> takes a number of elements out.\<close>

fun drain :: "nat \<Rightarrow> 'q \<Rightarrow> 'w list" where
  "drain 0 q = []"
| "drain (Suc n) q = (case get q of None \<Rightarrow> [] | Some (w, q') \<Rightarrow> w # drain n q')"

lemma drain_content: "is_open q \<Longrightarrow> drain n q = take n (content q)"
proof (induction n arbitrary: q)
  case (Suc n)
  show ?case
  proof (cases "content q")
    case Nil
    then show ?thesis using get_empty [OF Suc.prems] by simp
  next
    case (Cons w ws)
    then obtain q' where "get q = Some (w, q')" "content q' = ws" "is_open q'"
      using get_front [OF Suc.prems] by blast
    then show ?thesis using Suc.IH Cons by simp
  qed
qed simp

lemma puts: "content (fold put ws q) = content q @ ws" "is_open (fold put ws q) = is_open q"
  by (induction ws arbitrary: q) (simp_all add: content_put open_put)

lemma drain_puts:
  "is_open q \<Longrightarrow> drain (length (content q) + length ws) (fold put ws q) = content q @ ws"
  by (simp add: drain_content puts)

end

text \<open>The work \<open>getWork\<close> hands to a thread that is not shut down, and the queue it leaves.\<close>

definition take_work ::
    "(u32 \<Rightarrow> u64 \<Rightarrow> u64) \<Rightarrow> HMTimeStamp \<Rightarrow> HMWorkQueue \<Rightarrow> (HMWork \<times> HMWorkQueue) option" where
  "take_work percent now q =
     (case WorkQueue_getWork percent now False q of (GetWork w, q') \<Rightarrow> Some (w, q') | _ \<Rightarrow> None)"

text \<open>What a thread gets out of \<open>n\<close> successive calls.\<close>

fun drain_work :: "(u32 \<Rightarrow> u64 \<Rightarrow> u64) \<Rightarrow> HMTimeStamp \<Rightarrow> nat \<Rightarrow> HMWorkQueue \<Rightarrow> HMWork list" where
  "drain_work percent now 0 q = []"
| "drain_work percent now (Suc n) q =
     (case take_work percent now q of None \<Rightarrow> [] | Some (w, q') \<Rightarrow> w # drain_work percent now n q')"

lemma account_queue [simp]:
  "wq_queue (WorkQueue_account percent now w q) = wq_queue q"
  "wq_shutdown (WorkQueue_account percent now w q) = wq_shutdown q"
  by (simp_all add: WorkQueue_account_def Let_def)

interpretation work_fifo: fifo wq_queue "\<lambda>q. \<not> wq_shutdown q" WorkQueue_insertWork
    "take_work percent now"
  by unfold_locales
    (auto simp: WorkQueue_insertWork_def take_work_def WorkQueue_getWork_def Let_def)

lemma drain_work_eq: "drain_work percent now n q = work_fifo.drain percent now n q"
  by (induction n arbitrary: q) (simp_all split: option.split)

interpretation ptr_order: key_order "(<) :: nat \<Rightarrow> nat \<Rightarrow> bool" "\<lambda>n. n"
  by unfold_locales simp

text \<open>
  The work queue is first in, first out and loses nothing: after any work orders are inserted,
  \<open>getWork\<close> hands out the orders that were there before, then the new ones, in the order of their
  insertion.
\<close>

theorem work_queue_fifo:
  assumes "\<not> wq_shutdown q"
  shows "drain_work percent now (length (wq_queue q) + length ws)
    (fold WorkQueue_insertWork ws q) = wq_queue q @ ws"
  using work_fifo.drain_puts [OF assms] by (simp add: drain_work_eq)

text \<open>
  A work order that is parked in the map of work in progress comes back at the end of the queue
  with \<open>addWork\<close>, and a second \<open>addWork\<close> of the same order throws.
\<close>

lemma addWork_once:
  assumes "map_sorted (<) (wq_workMap q)" and "smap_find (<) ptr (wq_workMap q) = None"
  shows "\<exists>q'. WorkQueue_addWork ptr (WorkQueue_insertMap ptr work q) = Inr q'
    \<and> wq_queue q' = wq_queue q @ [work] \<and> WorkQueue_addWork ptr q' = Inl out_of_range"
  using assms ptr_order.find_insert_same [OF assms(1), of ptr work]
  by (simp add: WorkQueue_addWork_def WorkQueue_insertMap_def WorkQueue_insertWork_def)

definition w_work :: HMWork where
  "w_work = Work_new HMWorkHealthCheckTCP ''h'' (INET 1) HostCheck_default"

lemma work_queue_fifo_witness:
  "drain_work (\<lambda>t d. d div 10) 5 2
     (fold WorkQueue_insertWork [w_work, w_work\<lparr>wk_hostname := ''k''\<rparr>] WorkQueue_new) =
   [w_work, w_work\<lparr>wk_hostname := ''k''\<rparr>]"
  using work_queue_fifo [of WorkQueue_new "\<lambda>t d. d div 10" 5 "[w_work, w_work\<lparr>wk_hostname := ''k''\<rparr>]"]
  by (simp add: WorkQueue_new_def numeral_2_eq_2)

end
