(* ===== verification/HM_EventQueue.thy ===== *)
theory HM_EventQueue
  imports HM_DNSLookup "HOL-Library.Multiset"
begin

text \<open>
  The timeouts of \<open>HMEventLoopQueue\<close>: a priority queue, and the flag that wakes the tracker thread. A
  field \<open>m_x\<close> of a timeout is \<open>to_x\<close>, one of the loop is \<open>el_x\<close>. The list holds the timeouts in the
  order they were pushed. The top of a \<open>std::priority_queue\<close> is an element that is less than no other
  by the comparator of the queue, here \<open>operator<\<close> of the timeouts; among several such elements the
  standard leaves the choice open and the model takes the oldest. That the top is a timeout with the
  earliest time is a consequence of the comparator.

  The interface is the locale \<open>timeout_queue\<close>; the loop that takes timeouts out of it is in the
  theory of the daemon.
\<close>

datatype TimeoutType =
  HEALTHCHECK_TIMEOUT | DNS_TIMEOUT | DNSV6_TIMEOUT | REMOTECHECK_TIMEOUT | REMOTEHOSTCHECK_TIMEOUT

record Timeout =
  to_hostname :: string
  to_hostCheck :: HMDataHostCheck
  to_timeout :: HMTimeStamp
  to_type :: TimeoutType
  to_dnsLookup :: HMDNSLookup
  to_address :: HMIPAddress

definition Timeout_dns :: "string \<Rightarrow> HMDNSLookup \<Rightarrow> HMTimeStamp \<Rightarrow> Timeout" where
  "Timeout_dns host lookup expiration =
     \<lparr>to_hostname = host, to_hostCheck = HostCheck_default, to_timeout = expiration,
      to_type = (if dl_ipv6 lookup then DNSV6_TIMEOUT else DNS_TIMEOUT), to_dnsLookup = lookup,
      to_address = UNSPEC\<rparr>"

definition Timeout_remote :: "string \<Rightarrow> HMTimeStamp \<Rightarrow> Timeout" where
  "Timeout_remote host expiration =
     \<lparr>to_hostname = host, to_hostCheck = HostCheck_default, to_timeout = expiration,
      to_type = REMOTECHECK_TIMEOUT, to_dnsLookup = DNSLookup_default, to_address = UNSPEC\<rparr>"

definition Timeout_remoteHost :: "string \<Rightarrow> HMDataHostCheck \<Rightarrow> HMTimeStamp \<Rightarrow> Timeout" where
  "Timeout_remoteHost host check expiration =
     \<lparr>to_hostname = host, to_hostCheck = check, to_timeout = expiration,
      to_type = REMOTEHOSTCHECK_TIMEOUT, to_dnsLookup = DNSLookup_default, to_address = UNSPEC\<rparr>"

definition Timeout_healthCheck ::
    "string \<Rightarrow> HMIPAddress \<Rightarrow> HMDataHostCheck \<Rightarrow> HMTimeStamp \<Rightarrow> Timeout" where
  "Timeout_healthCheck host address check expiration =
     \<lparr>to_hostname = host, to_hostCheck = check, to_timeout = expiration,
      to_type = HEALTHCHECK_TIMEOUT, to_dnsLookup = DNSLookup_default, to_address = address\<rparr>"

record HMEventLoopQueue =
  el_timeouts :: "Timeout list"
  el_keepRunning :: bool
  el_emptyTimeout :: u64
  el_wakeup :: bool

text \<open>\<open>operator<\<close> of the class \<open>Timeout\<close>.\<close>

definition Timeout_less :: "Timeout \<Rightarrow> Timeout \<Rightarrow> bool" where
  "Timeout_less t u \<longleftrightarrow> to_timeout t > to_timeout u"

text \<open>\<open>top\<close> of a priority queue that is not empty, with the comparator \<open>lt\<close>.\<close>

definition pq_top :: "('a \<Rightarrow> 'a \<Rightarrow> bool) \<Rightarrow> 'a list \<Rightarrow> 'a" where
  "pq_top lt xs = foldl (\<lambda>top x. if lt top x then x else top) (hd xs) (tl xs)"

definition timeouts_top :: "Timeout list \<Rightarrow> Timeout" where
  "timeouts_top ts = pq_top Timeout_less ts"

definition timeouts_pop :: "Timeout list \<Rightarrow> Timeout list" where
  "timeouts_pop ts = remove1 (timeouts_top ts) ts"

definition EventLoop_wakeupTracker :: "HMEventLoopQueue \<Rightarrow> HMEventLoopQueue" where
  "EventLoop_wakeupTracker el = el\<lparr>el_wakeup := True\<rparr>"

text \<open>The common part of the four methods that add a timeout.\<close>

definition EventLoop_add :: "Timeout \<Rightarrow> HMEventLoopQueue \<Rightarrow> HMEventLoopQueue" where
  "EventLoop_add t el =
     (let preempt = (el_timeouts el = [] \<or> to_timeout t < to_timeout (timeouts_top (el_timeouts el)));
          el = el\<lparr>el_timeouts := el_timeouts el @ [t]\<rparr>
      in if preempt then EventLoop_wakeupTracker el else el)"

text \<open>The same in its two critical sections: the push under the lock of the queue says whether the
  tracker is to be woken.\<close>

definition EventLoop_push :: "Timeout \<Rightarrow> HMEventLoopQueue \<Rightarrow> HMEventLoopQueue \<times> bool" where
  "EventLoop_push t el =
     (el\<lparr>el_timeouts := el_timeouts el @ [t]\<rparr>,
      el_timeouts el = [] \<or> to_timeout t < to_timeout (timeouts_top (el_timeouts el)))"

lemma EventLoop_add_push:
  "EventLoop_add t el = (case EventLoop_push t el of (el, preempt) \<Rightarrow> if preempt then EventLoop_wakeupTracker el else el)"
  by (simp add: EventLoop_add_def EventLoop_push_def Let_def)

definition EventLoop_addDNSTimeout ::
    "string \<Rightarrow> HMDNSLookup \<Rightarrow> HMTimeStamp \<Rightarrow> HMEventLoopQueue \<Rightarrow> HMEventLoopQueue" where
  "EventLoop_addDNSTimeout hostname dnslookup timeStamp el =
     EventLoop_add (Timeout_dns hostname dnslookup timeStamp) el"

definition EventLoop_addRemoteTimeout ::
    "string \<Rightarrow> HMTimeStamp \<Rightarrow> HMEventLoopQueue \<Rightarrow> HMEventLoopQueue" where
  "EventLoop_addRemoteTimeout hostname timeStamp el =
     EventLoop_add (Timeout_remote hostname timeStamp) el"

definition EventLoop_addRemoteHostTimeout ::
    "string \<Rightarrow> HMDataHostCheck \<Rightarrow> HMTimeStamp \<Rightarrow> HMEventLoopQueue \<Rightarrow> HMEventLoopQueue" where
  "EventLoop_addRemoteHostTimeout hostname check timeStamp el =
     EventLoop_add (Timeout_remoteHost hostname check timeStamp) el"

definition EventLoop_addHealthCheckTimeout ::
    "string \<Rightarrow> HMIPAddress \<Rightarrow> HMDataHostCheck \<Rightarrow> HMTimeStamp \<Rightarrow> HMEventLoopQueue \<Rightarrow> HMEventLoopQueue" where
  "EventLoop_addHealthCheckTimeout hostname address check timeStamp el =
     EventLoop_add (Timeout_healthCheck hostname address check timeStamp) el"

definition EventLoop_shutDown :: "HMEventLoopQueue \<Rightarrow> HMEventLoopQueue" where
  "EventLoop_shutDown el = EventLoop_wakeupTracker (el\<lparr>el_keepRunning := False\<rparr>)"

definition EventLoop_getTimeOutQueueSize :: "HMEventLoopQueue \<Rightarrow> u64" where
  "EventLoop_getTimeOutQueueSize el = of_nat (length (el_timeouts el))"

text \<open>The time the tracker sleeps until.\<close>

definition EventLoop_nextTimeout :: "HMTimeStamp \<Rightarrow> HMEventLoopQueue \<Rightarrow> HMTimeStamp" where
  "EventLoop_nextTimeout now el =
     (if el_timeouts el = [] then ts_plus now (el_emptyTimeout el)
      else to_timeout (timeouts_top (el_timeouts el)))"

section \<open>The top of a priority queue\<close>

context weak_order
begin

lemma top_fold:
  "foldl (\<lambda>top x. if lt top x then x else top) t xs \<in> insert t (set xs)
   \<and> (\<forall>x \<in> insert t (set xs). \<not> lt (foldl (\<lambda>top x. if lt top x then x else top) t xs) x)"
proof (induction xs arbitrary: t)
  case (Cons y xs)
  define m where "m = (if lt t y then y else t)"
  define r where "r = foldl (\<lambda>top x. if lt top x then x else top) m xs"
  have m: "m \<in> {t, y}" "\<not> lt m t" "\<not> lt m y" using lt_asym lt_irrefl by (auto simp: m_def)
  have r: "r \<in> insert m (set xs)" "\<forall>x \<in> insert m (set xs). \<not> lt r x" using Cons.IH [of m] by (simp_all add: r_def)
  then have "\<not> lt r t" "\<not> lt r y" using not_lt_trans [OF m(2)] not_lt_trans [OF m(3)] by simp_all
  moreover have "foldl (\<lambda>top x. if lt top x then x else top) t (y # xs) = r" by (simp add: r_def m_def)
  ultimately show ?case using r m(1) by (simp only: list.set) blast
qed (simp add: lt_irrefl)

lemma pq_top_maximal:
  assumes "xs \<noteq> []"
  shows "pq_top lt xs \<in> set xs" and "x \<in> set xs \<Longrightarrow> \<not> lt (pq_top lt xs) x"
  using top_fold [of "hd xs" "tl xs"] assms by (auto simp: pq_top_def neq_Nil_conv)

end

text \<open>The comparator compares the negated times.\<close>

interpretation timeout_order: key_order Timeout_less "\<lambda>t. - to_timeout t"
  by unfold_locales (simp add: Timeout_less_def)

section \<open>Contract\<close>

locale timeout_queue =
  fixes content :: "'q \<Rightarrow> 't multiset"
    and push :: "'t \<Rightarrow> 'q \<Rightarrow> 'q"
    and top :: "'q \<Rightarrow> 't"
    and pop :: "'q \<Rightarrow> 'q"
    and time :: "'t \<Rightarrow> int"
  assumes content_push: "content (push t q) = add_mset t (content q)"
    and top_in: "content q \<noteq> {#} \<Longrightarrow> top q \<in># content q"
    and top_min: "t \<in># content q \<Longrightarrow> time (top q) \<le> time t"
    and content_pop: "content q \<noteq> {#} \<Longrightarrow> content (pop q) = content q - {#top q#}"
begin

fun fire :: "nat \<Rightarrow> 'q \<Rightarrow> 't list" where
  "fire 0 q = []"
| "fire (Suc n) q = top q # fire n (pop q)"

lemma fire_times:
  "size (content q) = n \<Longrightarrow> sorted (map time (fire n q)) \<and> mset (fire n q) = content q"
proof (induction n arbitrary: q)
  case (Suc n)
  have nonempty: "content q \<noteq> {#}" using Suc.prems by auto
  have "size (content (pop q)) = n"
    using Suc.prems nonempty by (simp add: content_pop top_in size_Diff_singleton)
  note ih = Suc.IH [OF this]
  have content: "content q = add_mset (top q) (content (pop q))"
    using nonempty by (simp add: content_pop top_in)
  have "time (top q) \<le> time t" if "t \<in> set (fire n (pop q))" for t
  proof -
    have "t \<in># mset (fire n (pop q))" using that by simp
    then have "t \<in># content (pop q)" using ih by simp
    then show ?thesis using content top_min by simp
  qed
  then show ?case using ih content by simp
qed simp

lemma content_pushes: "content (fold push ts q) = content q + mset ts"
  by (induction ts arbitrary: q) (simp_all add: content_push)

lemma fire_pushes:
  assumes "content q = {#}"
  shows "sorted (map time (fire (length ts) (fold push ts q)))
    \<and> mset (fire (length ts) (fold push ts q)) = mset ts"
  using fire_times [of "fold push ts q" "length ts"] assms by (simp add: content_pushes)

end

text \<open>The priority queue of the loop, with the pushes of \<open>addXTimeout\<close>.\<close>

definition EventLoop_top :: "HMEventLoopQueue \<Rightarrow> Timeout" where
  "EventLoop_top el = timeouts_top (el_timeouts el)"

definition EventLoop_pop :: "HMEventLoopQueue \<Rightarrow> HMEventLoopQueue" where
  "EventLoop_pop el = el\<lparr>el_timeouts := timeouts_pop (el_timeouts el)\<rparr>"

lemma add_timeouts [simp]: "el_timeouts (EventLoop_add t el) = el_timeouts el @ [t]"
  by (simp add: EventLoop_add_def Let_def EventLoop_wakeupTracker_def)

lemma timeouts_top_min: "t \<in> set ts \<Longrightarrow> to_timeout (timeouts_top ts) \<le> to_timeout t"
  using timeout_order.pq_top_maximal(2) [of ts t] by (cases "ts = []") (simp_all add: timeouts_top_def Timeout_less_def not_less)

lemma timeouts_top_in: "ts \<noteq> [] \<Longrightarrow> timeouts_top ts \<in> set ts"
  using timeout_order.pq_top_maximal(1) by (simp add: timeouts_top_def)

interpretation loop_queue: timeout_queue "\<lambda>el. mset (el_timeouts el)" EventLoop_add EventLoop_top
    EventLoop_pop to_timeout
  by unfold_locales
    (auto simp: EventLoop_top_def EventLoop_pop_def timeouts_pop_def timeouts_top_in timeouts_top_min)

text \<open>What the loop takes out in \<open>n\<close> turns when nothing is added.\<close>

fun EventLoop_fire :: "nat \<Rightarrow> HMEventLoopQueue \<Rightarrow> Timeout list" where
  "EventLoop_fire 0 el = []"
| "EventLoop_fire (Suc n) el = EventLoop_top el # EventLoop_fire n (EventLoop_pop el)"

lemma EventLoop_fire_eq: "EventLoop_fire n el = loop_queue.fire n el"
  by (induction n arbitrary: el) simp_all

text \<open>
  Whatever the order in which timeouts are added to an empty event queue, they are taken out in
  the order of their times, each exactly once.
\<close>

theorem timeouts_fire_in_order:
  fixes ts :: "Timeout list"
  assumes "el_timeouts el = []"
  defines "fired \<equiv> EventLoop_fire (length ts) (fold EventLoop_add ts el)"
  shows "sorted (map to_timeout fired) \<and> mset fired = mset ts"
  using loop_queue.fire_pushes [of el ts] assms by (simp add: EventLoop_fire_eq)

text \<open>
  No timeout is slept over: when adding a timeout makes the next one earlier than the time the
  tracker computed before, the wake-up flag is set, so the tracker computes it again.
\<close>

theorem earlier_timeout_wakes_tracker:
  assumes "EventLoop_nextTimeout now (EventLoop_add t el) < EventLoop_nextTimeout now el"
  shows "el_wakeup (EventLoop_add t el)"
proof (cases "el_timeouts el = []")
  case True
  then show ?thesis by (simp add: EventLoop_add_def Let_def EventLoop_wakeupTracker_def)
next
  case False
  let ?ts = "el_timeouts el @ [t]"
  have "timeouts_top ?ts \<in> set ?ts" by (rule timeouts_top_in) simp
  then have "to_timeout t < to_timeout (timeouts_top (el_timeouts el))"
    using assms False timeouts_top_min [of "timeouts_top ?ts" "el_timeouts el"]
    by (auto simp: EventLoop_nextTimeout_def)
  then show ?thesis by (simp add: EventLoop_add_def Let_def EventLoop_wakeupTracker_def)
qed

definition w_loop :: HMEventLoopQueue where
  "w_loop = \<lparr>el_timeouts = [], el_keepRunning = True, el_emptyTimeout = 1000, el_wakeup = False\<rparr>"

lemma timeouts_fire_in_order_witness:
  "sorted (map to_timeout (EventLoop_fire 2
     (fold EventLoop_add [Timeout_remote ''b'' 9, Timeout_remote ''a'' 4] w_loop)))"
  using timeouts_fire_in_order [of w_loop "[Timeout_remote ''b'' 9, Timeout_remote ''a'' 4]"]
  by (simp add: w_loop_def numeral_2_eq_2)

lemma earlier_timeout_wakes_tracker_witness:
  "el_wakeup (EventLoop_add (Timeout_remote ''a'' 4)
     (w_loop\<lparr>el_timeouts := [Timeout_remote ''b'' 9]\<rparr>))"
  by (rule earlier_timeout_wakes_tracker [of 0])
    (simp add: EventLoop_nextTimeout_def timeouts_top_def pq_top_def Timeout_less_def w_loop_def Timeout_remote_def)

end
