(* ===== verification/HM_Schedule.thy ===== *)
theory HM_Schedule
  imports HM_Containers HM_Constants HM_TimeStamp
begin

text \<open>
  The scheduling contract that \<open>HMDNSResult\<close> and \<open>HMRemoteResult\<close> share, and the decision that the
  three caches (\<open>HMDNSCache\<close>, \<open>HMRemoteHostCache\<close>, \<open>HMRemoteHostGroupCache\<close>) take from the state and
  the next time of an entry. The code has the decision three times, word for word; it is one
  function here.

  The locale \<open>scheduled_entry\<close> is what an entry promises; \<open>schedule_cache\<close> is a map of entries under
  a strict weak order. Both are interpreted on the entries and the caches of the code.
\<close>

section \<open>The decision\<close>

text \<open>
  \<open>entry\<close> is \<open>None\<close> when the cache has no such entry, otherwise the state and the next time of the
  entry. An entry that is queued or in progress counts as scheduled.
\<close>

definition schedule_decision ::
    "HMTimeStamp \<Rightarrow> (HM_WORK_STATE \<times> HMTimeStamp) option \<Rightarrow> HM_SCHEDULE_STATE" where
  "schedule_decision now entry =
     (let nextCheck = ts_plus now HOURINMS;
          (alreadyScheduled, isCheckTimeChanged, nextCheck) =
            (case entry of
               Some (query_state, checkTime) \<Rightarrow>
                 if query_state = HM_CHECK_FAILED \<or> query_state = HM_CHECK_INACTIVE then
                   (if checkTime < nextCheck then (False, True, checkTime)
                    else (False, False, nextCheck))
                 else (True, False, nextCheck)
             | None \<Rightarrow> (True, False, nextCheck));
          result = (if alreadyScheduled \<or> isCheckTimeChanged then HM_SCHEDULE_IGNORE
                    else HM_SCHEDULE_EVENT)
      in if nextCheck \<le> now then HM_SCHEDULE_WORK else result)"

lemma decision_missing: "schedule_decision now None = HM_SCHEDULE_IGNORE"
  by (simp add: schedule_decision_def ts_plus_def)

lemma decision_pending:
  "s = HM_CHECK_QUEUED \<or> s = HM_CHECK_IN_PROGRESS \<Longrightarrow>
     schedule_decision now (Some (s, t)) = HM_SCHEDULE_IGNORE"
  by (auto simp: schedule_decision_def ts_plus_def)

lemma decision_idle:
  "s = HM_CHECK_INACTIVE \<or> s = HM_CHECK_FAILED \<Longrightarrow>
     schedule_decision now (Some (s, t)) =
     (if t \<le> now then HM_SCHEDULE_WORK
      else if t < now + 86400000 then HM_SCHEDULE_IGNORE else HM_SCHEDULE_EVENT)"
  by (auto simp: schedule_decision_def ts_plus_def)

section \<open>Entries\<close>

locale scheduled_entry =
  fixes state :: "'e \<Rightarrow> HM_WORK_STATE"
    and next_time :: "HMTimeStamp \<Rightarrow> 'e \<Rightarrow> HMTimeStamp"
    and queue :: "'e \<Rightarrow> 'e"
    and start :: "HMTimeStamp \<Rightarrow> 'e \<Rightarrow> 'e"
    and finish :: "HMTimeStamp \<Rightarrow> bool \<Rightarrow> 'e \<Rightarrow> 'e"
    and ttl :: "'e \<Rightarrow> u64"
  assumes state_queue: "state (queue e) = HM_CHECK_QUEUED"
    and state_start: "state (start t e) = HM_CHECK_IN_PROGRESS"
    and state_finish: "state (finish t ok e) = (if ok then HM_CHECK_INACTIVE else HM_CHECK_FAILED)"
    and next_finish: "next_time now (finish t ok e) =
      (if ok \<and> ts_plus t (ttl e) < now then now else ts_plus t (ttl e))"
begin

definition needed :: "HMTimeStamp \<Rightarrow> 'e option \<Rightarrow> HM_SCHEDULE_STATE" where
  "needed now e = schedule_decision now (map_option (\<lambda>e. (state e, next_time now e)) e)"

lemma needed_queued: "needed now (Some (queue e)) = HM_SCHEDULE_IGNORE"
  by (simp add: needed_def state_queue decision_pending)

lemma needed_started: "needed now (Some (start t e)) = HM_SCHEDULE_IGNORE"
  by (simp add: needed_def state_start decision_pending)

lemma needed_finished:
  "needed now (Some (finish t ok e)) =
     (if ts_plus t (ttl e) \<le> now then HM_SCHEDULE_WORK
      else if ts_plus t (ttl e) < now + 86400000 then HM_SCHEDULE_IGNORE else HM_SCHEDULE_EVENT)"
  by (simp add: needed_def state_finish next_finish decision_idle)

end

section \<open>Caches\<close>

locale schedule_cache = scheduled_entry + weak_order
begin

definition cache_needed where
  "cache_needed now k m = needed now (smap_find lt k m)"

text \<open>From the moment an entry is queued until it is finished, no work and no event is asked for it;
  once it is finished, work is asked for again exactly when its time-to-live has passed.\<close>

lemma needed_after_queue:
  "smap_find lt k m \<noteq> None \<Longrightarrow> cache_needed now k (smap_adjust lt k queue m) = HM_SCHEDULE_IGNORE"
  by (auto simp: cache_needed_def needed_queued)

lemma needed_after_start:
  "smap_find lt k m \<noteq> None \<Longrightarrow> cache_needed now k (smap_adjust lt k (start t) m) = HM_SCHEDULE_IGNORE"
  by (auto simp: cache_needed_def needed_started)

lemma needed_after_finish:
  "smap_find lt k m = Some e \<Longrightarrow>
     cache_needed now k (smap_adjust lt k (finish t ok) m) =
     (if ts_plus t (ttl e) \<le> now then HM_SCHEDULE_WORK
      else if ts_plus t (ttl e) < now + 86400000 then HM_SCHEDULE_IGNORE else HM_SCHEDULE_EVENT)"
  by (simp add: cache_needed_def needed_finished)

lemma needed_other:
  "\<not> key_equiv lt k k' \<Longrightarrow> cache_needed now k (smap_adjust lt k' f m) = cache_needed now k m"
  by (simp add: cache_needed_def find_adjust_other)

end

end
