(* ===== verification/HM_DNSCache.thy ===== *)
theory HM_DNSCache
  imports HM_Work HM_EventQueue HM_Schedule
begin

text \<open>
  \<open>HMDNSResult\<close>, the state of one name lookup, and \<open>HMDNSCache\<close>, the lookups of the daemon with the
  addresses of the statically resolved hosts. A field \<open>m_x\<close> of a result is \<open>dr_x\<close>, one of the cache
  is \<open>dc_x\<close>. A \<open>std::set\<close> of addresses is the sorted list of its elements. The clock readings inside
  one call are one argument; the build option \<open>USE_ARES\<close> is the argument \<open>ares\<close>.
\<close>

section \<open>Results\<close>

record HMDNSResult =
  dr_queryState :: HM_WORK_STATE
  dr_queryTime :: HMTimeStamp
  dr_resultTime :: HMTimeStamp
  dr_queryTimeout :: u64
  dr_dnsTimeout :: u64
  dr_addr :: "HMIPAddress list"
  dr_addrExp :: "HMIPAddress list"

definition DNSResult_new :: "u64 \<Rightarrow> u64 \<Rightarrow> HMDNSResult" where
  "DNSResult_new ttl timeout =
     \<lparr>dr_queryState = HM_CHECK_INACTIVE, dr_queryTime = 0, dr_resultTime = 0,
      dr_queryTimeout = timeout, dr_dnsTimeout = ttl, dr_addr = [], dr_addrExp = []\<rparr>"

definition DNSResult_default :: HMDNSResult where
  "DNSResult_default = DNSResult_new HM_DEFAULT_DNS_TTL HM_DEFAULT_DNS_RESOLUTION_TIMEOUT"

definition DNSResult_updateTimeouts :: "u64 \<Rightarrow> u64 \<Rightarrow> HMDNSResult \<Rightarrow> HMDNSResult" where
  "DNSResult_updateTimeouts ttl timeout r =
     r\<lparr>dr_queryTimeout := (if timeout < dr_queryTimeout r then timeout else dr_queryTimeout r),
       dr_dnsTimeout := (if ttl < dr_dnsTimeout r then ttl else dr_dnsTimeout r)\<rparr>"

text \<open>\<open>std::set_difference\<close> of two sorted sequences keeps what is not in the second.\<close>

definition DNSResult_updateQuery :: "HMIPAddress list \<Rightarrow> HMDNSResult \<Rightarrow> HMDNSResult" where
  "DNSResult_updateQuery addresses r =
     r\<lparr>dr_addrExp := filter (\<lambda>a. a \<notin> set addresses) (dr_addr r), dr_addr := addresses\<rparr>"

definition DNSResult_queueQuery :: "HMDNSResult \<Rightarrow> HMDNSResult" where
  "DNSResult_queueQuery r = r\<lparr>dr_queryState := HM_CHECK_QUEUED\<rparr>"

definition DNSResult_startQuery :: "HMTimeStamp \<Rightarrow> HMDNSResult \<Rightarrow> HMDNSResult" where
  "DNSResult_startQuery now r =
     r\<lparr>dr_queryState := HM_CHECK_IN_PROGRESS, dr_queryTime := ts_plus now (dr_queryTimeout r)\<rparr>"

definition DNSResult_finishQuery :: "HMTimeStamp \<Rightarrow> bool \<Rightarrow> HMDNSResult \<Rightarrow> HMDNSResult" where
  "DNSResult_finishQuery now success r =
     r\<lparr>dr_queryState := (if success then HM_CHECK_INACTIVE else HM_CHECK_FAILED),
       dr_resultTime := now\<rparr>"

definition DNSResult_nextQueryTime :: "HMTimeStamp \<Rightarrow> HMDNSResult \<Rightarrow> HMTimeStamp" where
  "DNSResult_nextQueryTime now r =
     (case dr_queryState r of
        HM_CHECK_INACTIVE \<Rightarrow>
          if ts_plus (dr_resultTime r) (dr_dnsTimeout r) < now then now
          else ts_plus (dr_resultTime r) (dr_dnsTimeout r)
      | HM_CHECK_IN_PROGRESS \<Rightarrow>
          if ts_plus (dr_queryTime r) (dr_queryTimeout r) < now then now
          else ts_plus (dr_queryTime r) (dr_queryTimeout r)
      | HM_CHECK_FAILED \<Rightarrow> ts_plus (dr_resultTime r) (dr_dnsTimeout r)
      | HM_CHECK_QUEUED \<Rightarrow> ts_plus now HOURINMS)"

definition DNSResult_queryNeeded :: "HMTimeStamp \<Rightarrow> HMDNSResult \<Rightarrow> bool" where
  "DNSResult_queryNeeded now r \<longleftrightarrow> DNSResult_nextQueryTime now r \<le> now"

definition DNSResult_getAddresses :: "HMIPAddress list \<Rightarrow> HMDNSResult \<Rightarrow> HMIPAddress list \<times> bool" where
  "DNSResult_getAddresses addresses r =
     (if dr_addr r = [] then (addresses, False)
      else (fold insort_insert (dr_addr r) addresses, True))"

definition DNSResult_getAddress :: "HMDNSResult \<Rightarrow> HMIPAddress option" where
  "DNSResult_getAddress r = (case dr_addr r of [] \<Rightarrow> None | a # _ \<Rightarrow> Some a)"

definition DNSResult_getExpiredAddresses ::
    "HMIPAddress list \<Rightarrow> HMDNSResult \<Rightarrow> HMIPAddress list \<times> bool" where
  "DNSResult_getExpiredAddresses addresses r =
     (if dr_addrExp r = [] then (addresses, False)
      else (fold insort_insert (dr_addrExp r) addresses, True))"

definition DNSResult_isValidAddress :: "HMIPAddress \<Rightarrow> HMDNSResult \<Rightarrow> bool" where
  "DNSResult_isValidAddress address r \<longleftrightarrow> address \<in> set (dr_addr r)"

definition DNSResult_setResultTime :: "HMTimeStamp \<Rightarrow> HMDNSResult \<Rightarrow> HMDNSResult" where
  "DNSResult_setResultTime t r = r\<lparr>dr_resultTime := t\<rparr>"

section \<open>Cache\<close>

record HMDNSCache =
  dc_cache :: "(dns_key \<times> HMDNSResult) list"
  dc_staticDNS :: "((string \<times> bool) \<times> HMIPAddress list) list"

abbreviation dns_find :: "dns_key \<Rightarrow> HMDNSCache \<Rightarrow> HMDNSResult option" where
  "dns_find k c \<equiv> smap_find dns_key_less k (dc_cache c)"

definition dns_adjust :: "dns_key \<Rightarrow> (HMDNSResult \<Rightarrow> HMDNSResult) \<Rightarrow> HMDNSCache \<Rightarrow> HMDNSCache" where
  "dns_adjust k f c = c\<lparr>dc_cache := smap_adjust dns_key_less k f (dc_cache c)\<rparr>"

definition DNSCache_insertDNSEntry ::
    "string \<Rightarrow> HMDNSLookup \<Rightarrow> u64 \<Rightarrow> u64 \<Rightarrow> HMDNSCache \<Rightarrow> HMDNSCache" where
  "DNSCache_insertDNSEntry name lookup ttl timeout c =
     (let ttl = (if ttl = 0 then HM_DEFAULT_DNS_TTL else ttl);
          timeout = (if timeout = 0 then HM_DEFAULT_DNS_RESOLUTION_TIMEOUT else timeout)
      in case dns_find (name, lookup) c of
           None \<Rightarrow> c\<lparr>dc_cache :=
             smap_insert dns_key_less (name, lookup) (DNSResult_new ttl timeout) (dc_cache c)\<rparr>
         | Some _ \<Rightarrow> dns_adjust (name, lookup) (DNSResult_updateTimeouts ttl timeout) c)"

text \<open>The static addresses: one set per host and address family.\<close>

definition DNSCache_addStaticDNSAddress ::
    "string \<Rightarrow> HMIPAddress list \<Rightarrow> HMDNSCache \<Rightarrow> HMDNSCache" where
  "DNSCache_addStaticDNSAddress host addresses c =
     c\<lparr>dc_staticDNS :=
       fold (\<lambda>address m.
           let key = (host, IPAddress_getType address = AF_INET6)
           in case smap_find (<) key m of
                None \<Rightarrow> smap_insert (<) key [address] m
              | Some _ \<Rightarrow> smap_adjust (<) key (insort_insert address) m)
         addresses (dc_staticDNS c)\<rparr>"

definition DNSCache_removeStaticDNSAddress ::
    "string \<Rightarrow> HMIPAddress list \<Rightarrow> HMDNSCache \<Rightarrow> HMDNSCache" where
  "DNSCache_removeStaticDNSAddress host addresses c =
     c\<lparr>dc_staticDNS :=
       fold (\<lambda>address. smap_adjust (<) (host, IPAddress_getType address = AF_INET6)
               (filter (\<lambda>a. a \<noteq> address)))
         addresses (dc_staticDNS c)\<rparr>"

definition DNSCache_getStaticDNSAddress ::
    "string \<Rightarrow> bool \<Rightarrow> HMDNSCache \<Rightarrow> HMIPAddress list \<times> bool" where
  "DNSCache_getStaticDNSAddress host ipv6 c =
     (let addresses = (case smap_find (<) (host, ipv6) (dc_staticDNS c) of None \<Rightarrow> []
                       | Some as \<Rightarrow> fold insort_insert as [])
      in (addresses, 0 < length addresses))"

text \<open>\<open>updateReloadDNSEntry\<close>: the two address families are handled alike, IPv4 first.\<close>

definition reload_family ::
    "string \<Rightarrow> HMIPAddress list \<Rightarrow> HMTimeStamp \<Rightarrow> bool \<Rightarrow> HMDNSLookup \<Rightarrow> HMDNSCache \<Rightarrow> HMDNSCache" where
  "reload_family name addresses resultTime ipv6 dnsLookup c =
     (if addresses = [] then c
      else
        let key = (name, DNSLookup_new (dl_type dnsLookup) ipv6 (dl_remoteCheckGroup dnsLookup));
            c = (case dns_find key c of
                   None \<Rightarrow> c\<lparr>dc_cache := smap_insert dns_key_less key DNSResult_default (dc_cache c)\<rparr>
                 | Some _ \<Rightarrow> c);
            c = dns_adjust key (DNSResult_updateQuery addresses \<circ> DNSResult_setResultTime resultTime) c
        in if dl_type dnsLookup = HM_DNS_TYPE_STATIC
           then DNSCache_addStaticDNSAddress name
                  (filter (\<lambda>a. a \<noteq> IPAddress_new (if ipv6 then AF_INET6 else AF_INET)) addresses) c
           else c)"

definition DNSCache_updateReloadDNSEntry ::
    "string \<Rightarrow> HMIPAddress list \<Rightarrow> HMDNSResult \<Rightarrow> HMDNSResult \<Rightarrow> HMDNSLookup \<Rightarrow> HMDNSCache \<Rightarrow>
     HMDNSCache" where
  "DNSCache_updateReloadDNSEntry name addresses v4Result v6Result dnsLookup c =
     (let v4Address = filter (\<lambda>a. IPAddress_getType a = AF_INET) addresses;
          v6Address = filter (\<lambda>a. IPAddress_getType a = AF_INET6) addresses
      in reload_family name v6Address (dr_resultTime v6Result) True dnsLookup
           (reload_family name v4Address (dr_resultTime v4Result) False dnsLookup c))"

definition DNSCache_updateDNSEntry ::
    "string \<Rightarrow> HMDNSLookup \<Rightarrow> HMIPAddress list \<Rightarrow> HMDNSCache \<Rightarrow> HMDNSCache" where
  "DNSCache_updateDNSEntry name lookup addresses c =
     (case dns_find (name, lookup) c of None \<Rightarrow> c
      | Some _ \<Rightarrow> dns_adjust (name, lookup) (DNSResult_updateQuery addresses) c)"

definition DNSCache_finishQuery ::
    "HMTimeStamp \<Rightarrow> string \<Rightarrow> HMDNSLookup \<Rightarrow> bool \<Rightarrow> HMDNSCache \<Rightarrow> HMDNSCache" where
  "DNSCache_finishQuery now name lookup success c =
     (case dns_find (name, lookup) c of None \<Rightarrow> c
      | Some _ \<Rightarrow> dns_adjust (name, lookup) (DNSResult_finishQuery now success) c)"

definition DNSCache_getDNSResult :: "string \<Rightarrow> HMDNSLookup \<Rightarrow> HMDNSCache \<Rightarrow> HMDNSResult option" where
  "DNSCache_getDNSResult name lookup c = dns_find (name, lookup) c"

text \<open>The lookup of one family, used when the bit of the family is set in the dual stack mode.\<close>

definition family_fold ::
    "HM_DUALSTACK \<Rightarrow> string \<Rightarrow> HMDNSLookup \<Rightarrow> HMDNSCache \<Rightarrow> (HMDNSResult \<Rightarrow> 's \<Rightarrow> 's) \<Rightarrow> 's \<Rightarrow> 's" where
  "family_fold dualstack name lookup c f s =
     (let look = (\<lambda>ipv6 s.
            case DNSCache_getDNSResult name
                (DNSLookup_new (dl_type lookup) ipv6 (dl_remoteCheckGroup lookup)) c of
              None \<Rightarrow> s | Some r \<Rightarrow> f r s);
          s = (if dualstack AND HM_DUALSTACK_IPV4_ONLY \<noteq> 0 then look False s else s)
      in if dualstack AND HM_DUALSTACK_IPV6_ONLY \<noteq> 0 then look True s else s)"

definition DNSCache_getAddresses ::
    "string \<Rightarrow> HM_DUALSTACK \<Rightarrow> HMDNSLookup \<Rightarrow> HMIPAddress list \<Rightarrow> HMDNSCache \<Rightarrow> HMIPAddress list \<times> bool" where
  "DNSCache_getAddresses name dualstack lookup vaddress c =
     (let v = family_fold dualstack name lookup c (\<lambda>r v. fst (DNSResult_getAddresses v r)) vaddress
      in (v, 0 < length v))"

definition DNSCache_getExpiredAddresses ::
    "string \<Rightarrow> HM_DUALSTACK \<Rightarrow> HMDNSLookup \<Rightarrow> HMIPAddress list \<Rightarrow> HMDNSCache \<Rightarrow> HMIPAddress list \<times> bool" where
  "DNSCache_getExpiredAddresses name dualstack lookup vaddress c =
     (let v = family_fold dualstack name lookup c (\<lambda>r v. fst (DNSResult_getExpiredAddresses v r)) vaddress
      in (v, 0 < length v))"

definition DNSCache_isValidAddress ::
    "string \<Rightarrow> HM_DUALSTACK \<Rightarrow> HMDNSLookup \<Rightarrow> HMIPAddress \<Rightarrow> HMDNSCache \<Rightarrow> bool" where
  "DNSCache_isValidAddress name dualstack lookup address c =
     family_fold dualstack name lookup c (\<lambda>r found. found \<or> DNSResult_isValidAddress address r) False"

definition DNSCache_queryNeeded ::
    "HMTimeStamp \<Rightarrow> string \<Rightarrow> HMDNSLookup \<Rightarrow> HMDNSCache \<Rightarrow> HM_SCHEDULE_STATE" where
  "DNSCache_queryNeeded now name lookup c =
     schedule_decision now
       (map_option (\<lambda>r. (dr_queryState r, DNSResult_nextQueryTime now r)) (dns_find (name, lookup) c))"

definition DNSCache_nextQueryTime ::
    "HMTimeStamp \<Rightarrow> string \<Rightarrow> HMDNSLookup \<Rightarrow> HMDNSCache \<Rightarrow> HMTimeStamp" where
  "DNSCache_nextQueryTime now name lookup c =
     (case dns_find (name, lookup) c of None \<Rightarrow> ts_plus now HOURINMS
      | Some r \<Rightarrow> DNSResult_nextQueryTime now r)"

definition DNSCache_startDNSQuery ::
    "HMTimeStamp \<Rightarrow> string \<Rightarrow> HMDNSLookup \<Rightarrow> HMDNSCache \<Rightarrow> HMDNSCache \<times> bool" where
  "DNSCache_startDNSQuery now name lookup c =
     (case dns_find (name, lookup) c of None \<Rightarrow> (c, False)
      | Some _ \<Rightarrow> (dns_adjust (name, lookup) (DNSResult_startQuery now) c, True))"

text \<open>
  The work order of a lookup: chosen by the type and the plugin asked for, filled from the key that
  is stored. No work is made without a plugin, or for the default resolver without \<open>USE_ARES\<close>.
\<close>

definition dns_work :: "bool \<Rightarrow> HM_DNS_TYPE \<Rightarrow> HM_DNS_PLUGIN_CLASS \<Rightarrow> dns_key \<Rightarrow> HMWork option" where
  "dns_work ares type plugin key =
     (let cls = (case type of HM_DNS_TYPE_STATIC \<Rightarrow> HMWorkDNSLookupStatic
                 | HM_DNS_TYPE_LOOKUP \<Rightarrow> HMWorkDNSLookupAres);
          ip = IPAddress_new (if dl_ipv6 (snd key) then AF_INET6 else AF_INET)
      in if plugin = HM_DNS_PLUGIN_NONE \<or> (type = HM_DNS_TYPE_LOOKUP \<and> \<not> ares) then None
         else Some ((Work_new cls (fst key) ip (HostCheck_new (dl_type (snd key))))
                      \<lparr>wk_dnsHostCheck := snd key\<rparr>))"

definition DNSCache_queueDNSQuery ::
    "bool \<Rightarrow> HMTimeStamp \<Rightarrow> string \<Rightarrow> HMDNSLookup \<Rightarrow> HMDNSCache \<times> HMWorkQueue \<Rightarrow> HMDNSCache \<times> HMWorkQueue"
  where
  "DNSCache_queueDNSQuery ares now name lookup = (\<lambda>(c, q).
     case smap_entry dns_key_less (name, lookup) (dc_cache c) of None \<Rightarrow> (c, q)
     | Some (key, r) \<Rightarrow>
         (case dns_work ares (dl_type lookup) (dl_plugin lookup) key of None \<Rightarrow> (c, q)
          | Some w \<Rightarrow>
              let w = (if dl_remoteCheckGroup (snd key) \<noteq> [] then Work_setReschedule False w else w);
                  w = w\<lparr>wk_start := now, wk_end := ts_plus now (dr_dnsTimeout r)\<rparr>
              in (dns_adjust (name, lookup) DNSResult_queueQuery c, WorkQueue_insertWork w q)))"

text \<open>\<open>queueDNSLookups\<close>: one turn of the loop, for the entry with the given key.\<close>

definition queueDNSLookups_step ::
    "bool \<Rightarrow> HMTimeStamp \<Rightarrow> bool \<Rightarrow> dns_key \<Rightarrow> HMDNSCache \<times> HMWorkQueue \<times> HMEventLoopQueue \<Rightarrow>
     HMDNSCache \<times> HMWorkQueue \<times> HMEventLoopQueue" where
  "queueDNSLookups_step ares now restart key = (\<lambda>(c, q, el).
     if dl_remoteCheckGroup (snd key) \<noteq> [] then (c, q, el)
     else
       case DNSCache_queryNeeded now (fst key) (snd key) c of
         HM_SCHEDULE_IGNORE \<Rightarrow>
           if restart
           then (c, q, EventLoop_addDNSTimeout (fst key) (snd key)
                         (DNSCache_nextQueryTime now (fst key) (snd key) c) el)
           else (c, q, el)
       | _ \<Rightarrow>
           (case (dns_work ares (dl_type (snd key)) (dl_plugin (snd key)) key, dns_find key c) of
              (Some w, Some r) \<Rightarrow>
                (dns_adjust key DNSResult_queueQuery c,
                 WorkQueue_insertWork
                   (w\<lparr>wk_start := now, wk_end := ts_plus now (dr_dnsTimeout r)\<rparr>) q, el)
            | _ \<Rightarrow> (c, q, el)))"

definition DNSCache_queueDNSLookups ::
    "bool \<Rightarrow> HMTimeStamp \<Rightarrow> bool \<Rightarrow> HMDNSCache \<times> HMWorkQueue \<times> HMEventLoopQueue \<Rightarrow>
     HMDNSCache \<times> HMWorkQueue \<times> HMEventLoopQueue" where
  "DNSCache_queueDNSLookups ares now restart s =
     fold (queueDNSLookups_step ares now restart) (map fst (dc_cache (fst s))) s"

section \<open>Scheduling of lookups\<close>

interpretation dns_sched: schedule_cache dr_queryState DNSResult_nextQueryTime DNSResult_queueQuery
    DNSResult_startQuery DNSResult_finishQuery dr_dnsTimeout dns_key_less
  by (intro schedule_cache.intro scheduled_entry.intro dns_order.weak_order_axioms)
    (simp_all add: DNSResult_queueQuery_def DNSResult_startQuery_def DNSResult_finishQuery_def
      DNSResult_nextQueryTime_def)

lemma queryNeeded_sched:
  "DNSCache_queryNeeded now name lookup c = dns_sched.cache_needed now (name, lookup) (dc_cache c)"
  by (simp add: DNSCache_queryNeeded_def dns_sched.cache_needed_def dns_sched.needed_def)

lemma dns_cache_adjust [simp]:
  "dc_cache (dns_adjust k f c) = smap_adjust dns_key_less k f (dc_cache c)"
  "dc_staticDNS (dns_adjust k f c) = dc_staticDNS c"
  by (simp_all add: dns_adjust_def)

lemma smap_entry_find:
  "smap_find lt k m = Some v \<longleftrightarrow> (\<exists>k'. smap_entry lt k m = Some (k', v))"
  by (auto simp: smap_find_def)

lemma smap_entry_equiv: "smap_entry lt k m = Some (k', v) \<Longrightarrow> key_equiv lt k k'"
  by (induction m) (auto split: if_splits)

text \<open>
  C29: a lookup is scheduled once at a time. After a lookup of an entry of the cache is queued, and
  after it is started, \<open>queryNeeded\<close> asks for nothing (neither work nor an event); after it has
  finished, work is asked for exactly when the time-to-live of the entry has passed.
\<close>

theorem dns_lookup_scheduled_once:
  assumes "dns_find (name, lookup) c = Some r"
    and "dl_plugin lookup \<noteq> HM_DNS_PLUGIN_NONE" and "dl_type lookup = HM_DNS_TYPE_STATIC \<or> ares"
  shows "DNSCache_queryNeeded now name lookup (fst (DNSCache_queueDNSQuery ares t name lookup (c, q)))
      = HM_SCHEDULE_IGNORE
    \<and> DNSCache_queryNeeded now name lookup (fst (DNSCache_startDNSQuery t name lookup c))
      = HM_SCHEDULE_IGNORE
    \<and> (DNSCache_queryNeeded now name lookup (DNSCache_finishQuery t name lookup ok c)
      = HM_SCHEDULE_WORK \<longleftrightarrow> ts_plus t (dr_dnsTimeout r) \<le> now)"
proof -
  obtain k where k: "smap_entry dns_key_less (name, lookup) (dc_cache c) = Some (k, r)"
    using assms(1) by (auto simp: smap_entry_find)
  have "fst (DNSCache_queueDNSQuery ares t name lookup (c, q)) =
      dns_adjust (name, lookup) DNSResult_queueQuery c"
    using k assms(2,3) by (auto simp: DNSCache_queueDNSQuery_def dns_work_def Let_def)
  then show ?thesis
    using assms(1) dns_sched.needed_after_queue dns_sched.needed_after_start
      dns_sched.needed_after_finish [OF assms(1)]
    by (simp add: queryNeeded_sched DNSCache_startDNSQuery_def DNSCache_finishQuery_def)
qed

text \<open>
  \<open>queueDNSQuery\<close> puts exactly one work order at the end of the queue, for the host and the
  address family of the lookup and with its lifetime as its deadline, when the cache has the entry,
  a plugin is set and the resolver is built in; otherwise it changes nothing. A lookup of a remote
  check group is not rescheduled by its work.
\<close>

theorem queueDNSQuery_one_work:
  assumes "DNSCache_queueDNSQuery ares now name lookup (c, q) = (c', q')"
  shows "if dns_find (name, lookup) c = None \<or> dl_plugin lookup = HM_DNS_PLUGIN_NONE
      \<or> (dl_type lookup = HM_DNS_TYPE_LOOKUP \<and> \<not> ares)
    then c' = c \<and> q' = q
    else \<exists>w. wq_queue q' = wq_queue q @ [w] \<and> wk_hostname w = name
      \<and> Work_getWorkType w = HM_WORK_DNSLOOKUP
      \<and> wk_ipAddress w = IPAddress_new (if dl_ipv6 lookup then AF_INET6 else AF_INET)
      \<and> wk_reschedule w = (dl_remoteCheckGroup lookup = []) \<and> wk_start w = now
      \<and> (\<exists>r. dns_find (name, lookup) c = Some r \<and> wk_end w = ts_plus now (dr_dnsTimeout r))"
proof (cases "smap_entry dns_key_less (name, lookup) (dc_cache c)")
  case None
  then show ?thesis using assms by (simp add: DNSCache_queueDNSQuery_def smap_find_def)
next
  case (Some kr)
  obtain k r where kr: "kr = (k, r)" by (cases kr)
  have eq: "fst k = name" "dl_ipv6 (snd k) = dl_ipv6 lookup"
    "dl_remoteCheckGroup (snd k) = dl_remoteCheckGroup lookup"
    using smap_entry_equiv [of dns_key_less "(name, lookup)" "dc_cache c" k r] Some
    by (auto simp: kr dns_key_equiv)
  have find: "dns_find (name, lookup) c = Some r" using Some by (simp add: smap_find_def kr)
  show ?thesis
    using assms Some find eq
    by (cases "dl_type lookup")
      (auto simp: DNSCache_queueDNSQuery_def kr dns_work_def Let_def Work_getWorkType_def
        WorkQueue_insertWork_def Work_setReschedule_def Work_new_def split: if_splits)
qed

section \<open>Addresses of a lookup\<close>

lemma set_fold_insort_insert [simp]:
  "set (fold insort_insert xs ys) = set xs \<union> set (ys :: 'a::linorder list)"
  by (induction xs arbitrary: ys) (auto simp: set_insort_insert)

lemma getAddresses_set [simp]:
  "set (fst (DNSResult_getAddresses v r)) = set (dr_addr r) \<union> set v"
  "set (fst (DNSResult_getExpiredAddresses v r)) = set (dr_addrExp r) \<union> set v"
  by (auto simp: DNSResult_getAddresses_def DNSResult_getExpiredAddresses_def)

lemma dns_find_new:
  "dl_type lookup = ty \<Longrightarrow> dl_ipv6 lookup = v6 \<Longrightarrow> dl_remoteCheckGroup lookup = g \<Longrightarrow>
     smap_find dns_key_less (name, DNSLookup_new ty v6 g) m = smap_find dns_key_less (name, lookup) m"
  by (rule dns_order.find_equiv) (simp add: dns_key_equiv DNSLookup_new_def)

text \<open>
  After a lookup is answered, the addresses of its family are those of the answer, and the
  expired ones are the addresses it had before that the answer does not have.
\<close>

theorem updateDNSEntry_addresses:
  fixes addresses :: "HMIPAddress list"
  assumes "dns_find (name, lookup) c = Some r"
    and "dualstack = (if dl_ipv6 lookup then HM_DUALSTACK_IPV6_ONLY else HM_DUALSTACK_IPV4_ONLY)"
  defines "c' \<equiv> DNSCache_updateDNSEntry name lookup addresses c"
  shows "set (fst (DNSCache_getAddresses name dualstack lookup [] c')) = set addresses
    \<and> set (fst (DNSCache_getExpiredAddresses name dualstack lookup [] c'))
      = set (dr_addr r) - set addresses"
proof -
  have find: "dns_find (name, DNSLookup_new (dl_type lookup) (dl_ipv6 lookup) (dl_remoteCheckGroup lookup)) c'
      = Some (DNSResult_updateQuery addresses r)"
    using assms(1)
    by (simp add: c'_def DNSCache_updateDNSEntry_def dns_find_new [OF refl refl refl, of name lookup])
  show ?thesis
    using assms(2) find
    by (cases "dl_ipv6 lookup")
      (auto simp: DNSCache_getAddresses_def DNSCache_getExpiredAddresses_def family_fold_def
        DNSCache_getDNSResult_def DNSResult_updateQuery_def Let_def)
qed

section \<open>Lifetimes\<close>

text \<open>
  Inserting a lookup again never lengthens its lifetime or its timeout: the entry has the
  minimum of those it was inserted with, where zero stands for the default.
\<close>

theorem insertDNSEntry_minimum:
  assumes "map_sorted dns_key_less (dc_cache c)"
  defines "ttl' \<equiv> \<lambda>t. if t = 0 then HM_DEFAULT_DNS_TTL else t"
    and "timeout' \<equiv> \<lambda>t. if t = 0 then HM_DEFAULT_DNS_RESOLUTION_TIMEOUT else t"
  shows "\<exists>r'. dns_find (name, lookup) (DNSCache_insertDNSEntry name lookup ttl timeout c) = Some r'
    \<and> (case dns_find (name, lookup) c of
         None \<Rightarrow> dr_dnsTimeout r' = ttl' ttl \<and> dr_queryTimeout r' = timeout' timeout
       | Some r \<Rightarrow> dr_dnsTimeout r' = min (ttl' ttl) (dr_dnsTimeout r)
           \<and> dr_queryTimeout r' = min (timeout' timeout) (dr_queryTimeout r))"
  using assms(1)
  by (auto simp: DNSCache_insertDNSEntry_def Let_def dns_order.find_insert_same DNSResult_new_def
      DNSResult_updateTimeouts_def ttl'_def timeout'_def min_def split: option.split)

section \<open>Static addresses\<close>

interpretation static_order: key_order "(<) :: string \<times> bool \<Rightarrow> _" "\<lambda>k. k"
  by unfold_locales simp

lemma static_equiv [simp]: "key_equiv ((<) :: string \<times> bool \<Rightarrow> _) a b \<longleftrightarrow> a = b"
  by (simp add: static_order.equiv_key)

definition static_set :: "string \<times> bool \<Rightarrow> HMDNSCache \<Rightarrow> HMIPAddress set" where
  "static_set k c = (case smap_find (<) k (dc_staticDNS c) of None \<Rightarrow> {} | Some as \<Rightarrow> set as)"

lemma getStatic_set: "set (fst (DNSCache_getStaticDNSAddress host v6 c)) = static_set (host, v6) c"
  by (auto simp: DNSCache_getStaticDNSAddress_def static_set_def Let_def split: option.split)

abbreviation is_v6 :: "HMIPAddress \<Rightarrow> bool" where
  "is_v6 a \<equiv> IPAddress_getType a = AF_INET6"

lemma addStatic_Cons:
  "DNSCache_addStaticDNSAddress host (a # as) c =
     DNSCache_addStaticDNSAddress host as (DNSCache_addStaticDNSAddress host [a] c)"
  by (simp add: DNSCache_addStaticDNSAddress_def)

lemma removeStatic_Cons:
  "DNSCache_removeStaticDNSAddress host (a # as) c =
     DNSCache_removeStaticDNSAddress host as (DNSCache_removeStaticDNSAddress host [a] c)"
  by (simp add: DNSCache_removeStaticDNSAddress_def)

lemma addStatic_one:
  assumes "map_sorted (<) (dc_staticDNS c)"
  shows "map_sorted (<) (dc_staticDNS (DNSCache_addStaticDNSAddress host [a] c))"
    and "static_set k (DNSCache_addStaticDNSAddress host [a] c) =
      static_set k c \<union> (if k = (host, is_v6 a) then {a} else {})"
  using assms
  by (auto simp: DNSCache_addStaticDNSAddress_def static_set_def Let_def static_order.map_sorted_insert
      static_order.find_insert_same static_order.find_insert_other static_order.find_adjust_other
      set_insort_insert split: option.splits)

lemma removeStatic_one:
  "static_set k (DNSCache_removeStaticDNSAddress host [a] c) =
     static_set k c - (if k = (host, is_v6 a) then {a} else {})"
  by (auto simp: DNSCache_removeStaticDNSAddress_def static_set_def static_order.find_adjust_other
      split: option.splits)

lemma addStatic_set:
  assumes "map_sorted (<) (dc_staticDNS c)"
  shows "static_set (host', v6) (DNSCache_addStaticDNSAddress host as c) =
    static_set (host', v6) c \<union> {a \<in> set as. host' = host \<and> is_v6 a = v6}"
  using assms
proof (induction as arbitrary: c)
  case Nil
  then show ?case by (simp add: DNSCache_addStaticDNSAddress_def static_set_def)
next
  case (Cons a as)
  show ?case
    using Cons.IH [OF addStatic_one(1) [OF Cons.prems]] addStatic_one(2) [OF Cons.prems]
    by (subst addStatic_Cons) auto
qed

lemma removeStatic_set:
  "static_set (host', v6) (DNSCache_removeStaticDNSAddress host as c) =
     static_set (host', v6) c - {a \<in> set as. host' = host \<and> is_v6 a = v6}"
proof (induction as arbitrary: c)
  case Nil
  then show ?case by (simp add: DNSCache_removeStaticDNSAddress_def static_set_def)
next
  case (Cons a as)
  show ?case
    using Cons.IH removeStatic_one [of "(host', v6)" host a c]
    by (subst removeStatic_Cons) auto
qed

text \<open>
  The static addresses are a set per host and address family: adding addresses adds those of
  the family, removing takes exactly those out, and other hosts and the other family keep theirs.
\<close>

theorem static_dns_sets:
  assumes "map_sorted (<) (dc_staticDNS c)"
  shows "set (fst (DNSCache_getStaticDNSAddress host' v6 (DNSCache_addStaticDNSAddress host as c))) =
      set (fst (DNSCache_getStaticDNSAddress host' v6 c))
      \<union> {a \<in> set as. host' = host \<and> (IPAddress_getType a = AF_INET6) = v6}
    \<and> set (fst (DNSCache_getStaticDNSAddress host' v6 (DNSCache_removeStaticDNSAddress host as c))) =
      set (fst (DNSCache_getStaticDNSAddress host' v6 c))
      - {a \<in> set as. host' = host \<and> (IPAddress_getType a = AF_INET6) = v6}"
  using assms by (simp add: getStatic_set addStatic_set removeStatic_set)

section \<open>Witnesses\<close>

definition w_lookup :: HMDNSLookup where
  "w_lookup = DNSLookup_setPlugin HM_DNS_PLUGIN_STATIC (DNSLookup_new HM_DNS_TYPE_STATIC False [])"

definition w_dns :: HMDNSCache where
  "w_dns = \<lparr>dc_cache = [((''h'', w_lookup), (DNSResult_new 100 50)\<lparr>dr_addr := [INET 1, INET 2]\<rparr>)],
     dc_staticDNS = [((''h'', False), [INET 5])]\<rparr>"

lemma w_dns_find: "dns_find (''h'', w_lookup) w_dns = Some ((DNSResult_new 100 50)\<lparr>dr_addr := [INET 1, INET 2]\<rparr>)"
  by (simp add: w_dns_def)

lemma w_lookup_fields:
  "dl_type w_lookup = HM_DNS_TYPE_STATIC" "dl_plugin w_lookup = HM_DNS_PLUGIN_STATIC"
  "dl_ipv6 w_lookup = False" "dl_remoteCheckGroup w_lookup = []"
  by (simp_all add: w_lookup_def DNSLookup_setPlugin_def DNSLookup_new_def)

lemma dns_lookup_scheduled_once_witness:
  "DNSCache_queryNeeded 9 ''h'' w_lookup
     (fst (DNSCache_queueDNSQuery False 5 ''h'' w_lookup (w_dns, WorkQueue_new))) = HM_SCHEDULE_IGNORE
   \<and> DNSCache_queryNeeded 105 ''h'' w_lookup (DNSCache_finishQuery 5 ''h'' w_lookup True w_dns)
     = HM_SCHEDULE_WORK"
  using dns_lookup_scheduled_once [OF w_dns_find, of False 9 5 WorkQueue_new True]
    dns_lookup_scheduled_once [OF w_dns_find, of False 105 5 WorkQueue_new True]
  by (simp add: w_lookup_fields DNSResult_new_def ts_plus_def)

lemma w_queue: "wq_queue WorkQueue_new = []"
  by (simp add: WorkQueue_new_def)

lemma queueDNSQuery_one_work_witness:
  "\<exists>w. wq_queue (snd (DNSCache_queueDNSQuery False 5 ''h'' w_lookup (w_dns, WorkQueue_new))) = [w]
     \<and> wk_hostname w = ''h'' \<and> wk_ipAddress w = INET 0"
proof -
  obtain c q where cq: "DNSCache_queueDNSQuery False 5 ''h'' w_lookup (w_dns, WorkQueue_new) = (c, q)"
    by (cases "DNSCache_queueDNSQuery False 5 ''h'' w_lookup (w_dns, WorkQueue_new)")
  show ?thesis
    using queueDNSQuery_one_work [OF cq] w_queue
    by (auto simp: cq w_dns_find w_lookup_fields IPAddress_new_def)
qed

lemma updateDNSEntry_addresses_witness:
  "set (fst (DNSCache_getExpiredAddresses ''h'' HM_DUALSTACK_IPV4_ONLY w_lookup []
     (DNSCache_updateDNSEntry ''h'' w_lookup [INET 2, INET 3] w_dns))) = {INET 1}"
  using updateDNSEntry_addresses [OF w_dns_find, of HM_DUALSTACK_IPV4_ONLY "[INET 2, INET 3]"]
  by (simp add: w_lookup_fields insert_Diff_if)

lemma insertDNSEntry_minimum_witness:
  "\<exists>r'. dns_find (''h'', w_lookup) (DNSCache_insertDNSEntry ''h'' w_lookup 70 0 w_dns) = Some r'
     \<and> dr_dnsTimeout r' = 70 \<and> dr_queryTimeout r' = 50"
  using insertDNSEntry_minimum [of w_dns "''h''" w_lookup 70 0]
  by (auto simp: w_dns_find DNSResult_new_def min_def) (simp add: w_dns_def map_sorted_def)

lemma static_dns_sets_witness:
  "set (fst (DNSCache_getStaticDNSAddress ''h'' False
     (DNSCache_addStaticDNSAddress ''h'' [INET 6, INET6 7] w_dns))) = {INET 5, INET 6}"
proof -
  have "{a \<in> set [INET 6, INET6 7]. ''h'' = ''h'' \<and> (IPAddress_getType a = AF_INET6) = False} = {INET 6}"
    by auto
  moreover have "set (fst (DNSCache_getStaticDNSAddress ''h'' False w_dns)) = {INET 5}"
    by (simp add: w_dns_def getStatic_set static_set_def)
  moreover have "map_sorted (<) (dc_staticDNS w_dns)" by (simp add: w_dns_def map_sorted_def)
  ultimately show ?thesis
    using static_dns_sets [of w_dns "''h''" False "''h''" "[INET 6, INET6 7]"] by (simp add: insert_commute)
qed

end
