(* ===== verification/HM_RemoteCache.thy ===== *)
theory HM_RemoteCache
  imports HM_Work HM_EventQueue HM_Schedule
begin

text \<open>
  \<open>HMRemoteResult\<close>, the schedule of one remote check, and the two caches of remote checks:
  \<open>HMRemoteHostCache\<close>, keyed by a host and its check, and \<open>HMRemoteHostGroupCache\<close>, keyed by a host
  group. A field \<open>m_x\<close> of a result is \<open>rr_x\<close>. A cache is its one container, the map of results; the
  clock readings inside one call are one argument.
\<close>

section \<open>Results\<close>

record HMRemoteResult =
  rr_checkState :: HM_WORK_STATE
  rr_checkTime :: HMTimeStamp
  rr_resultTime :: HMTimeStamp
  rr_remoteTimeout :: u64
  rr_remoteTTL :: u64

definition RemoteResult_new :: "u64 \<Rightarrow> u64 \<Rightarrow> HMRemoteResult" where
  "RemoteResult_new ttl timeout =
     \<lparr>rr_checkState = HM_CHECK_INACTIVE, rr_checkTime = 0, rr_resultTime = 0,
      rr_remoteTimeout = timeout, rr_remoteTTL = ttl\<rparr>"

definition RemoteResult_updateTimeouts :: "u64 \<Rightarrow> u64 \<Rightarrow> HMRemoteResult \<Rightarrow> HMRemoteResult" where
  "RemoteResult_updateTimeouts ttl timeout r =
     r\<lparr>rr_remoteTimeout := (if timeout < rr_remoteTimeout r then timeout else rr_remoteTimeout r),
       rr_remoteTTL := (if ttl < rr_remoteTTL r then ttl else rr_remoteTTL r)\<rparr>"

definition RemoteResult_queueCheck :: "HMRemoteResult \<Rightarrow> HMRemoteResult" where
  "RemoteResult_queueCheck r = r\<lparr>rr_checkState := HM_CHECK_QUEUED\<rparr>"

definition RemoteResult_startCheck :: "HMTimeStamp \<Rightarrow> HMRemoteResult \<Rightarrow> HMRemoteResult" where
  "RemoteResult_startCheck now r =
     r\<lparr>rr_checkState := HM_CHECK_IN_PROGRESS, rr_checkTime := ts_plus now (rr_remoteTimeout r)\<rparr>"

definition RemoteResult_finishCheck :: "HMTimeStamp \<Rightarrow> bool \<Rightarrow> HMRemoteResult \<Rightarrow> HMRemoteResult" where
  "RemoteResult_finishCheck now success r =
     r\<lparr>rr_checkState := (if success then HM_CHECK_INACTIVE else HM_CHECK_FAILED),
       rr_resultTime := now\<rparr>"

definition RemoteResult_nextCheckTime :: "HMTimeStamp \<Rightarrow> HMRemoteResult \<Rightarrow> HMTimeStamp" where
  "RemoteResult_nextCheckTime now r =
     (case rr_checkState r of
        HM_CHECK_INACTIVE \<Rightarrow>
          if ts_plus (rr_resultTime r) (rr_remoteTTL r) < now then now
          else ts_plus (rr_resultTime r) (rr_remoteTTL r)
      | HM_CHECK_IN_PROGRESS \<Rightarrow>
          if ts_plus (rr_checkTime r) (rr_remoteTimeout r) < now then now
          else ts_plus (rr_checkTime r) (rr_remoteTimeout r)
      | HM_CHECK_FAILED \<Rightarrow> ts_plus (rr_resultTime r) (rr_remoteTTL r)
      | HM_CHECK_QUEUED \<Rightarrow> ts_plus now HOURINMS)"

definition RemoteResult_checkNeeded :: "HMTimeStamp \<Rightarrow> HMRemoteResult \<Rightarrow> bool" where
  "RemoteResult_checkNeeded now r \<longleftrightarrow> RemoteResult_nextCheckTime now r \<le> now"

definition RemoteResult_setResultTime :: "HMTimeStamp \<Rightarrow> HMRemoteResult \<Rightarrow> HMRemoteResult" where
  "RemoteResult_setResultTime t r = r\<lparr>rr_resultTime := t\<rparr>"

text \<open>The remote check types for which a work order exists.\<close>

definition remote_supported :: "HM_REMOTE_CHECK_TYPE \<Rightarrow> bool" where
  "remote_supported t \<longleftrightarrow>
     t = HM_REMOTE_CHECK_TCP \<or> t = HM_REMOTE_CHECK_TCPS \<or> t = HM_REMOTE_SHARED_CHECK_TCP
     \<or> t = HM_REMOTE_SHARED_CHECK_TCPS"

section \<open>Remote checks of hosts\<close>

type_synonym HMRemoteHostCache = "(check_key \<times> HMRemoteResult) list"

abbreviation host_find :: "check_key \<Rightarrow> HMRemoteHostCache \<Rightarrow> HMRemoteResult option" where
  "host_find \<equiv> smap_find host_check_pair_less"

abbreviation host_adjust ::
    "check_key \<Rightarrow> (HMRemoteResult \<Rightarrow> HMRemoteResult) \<Rightarrow> HMRemoteHostCache \<Rightarrow> HMRemoteHostCache" where
  "host_adjust \<equiv> smap_adjust host_check_pair_less"

definition RemoteHostCache_insertRemoteEntry ::
    "string \<Rightarrow> HMDataHostCheck \<Rightarrow> u64 \<Rightarrow> u64 \<Rightarrow> HMRemoteHostCache \<Rightarrow> HMRemoteHostCache" where
  "RemoteHostCache_insertRemoteEntry name check ttl timeout c =
     (let ttl = (if ttl = 0 then HM_DEFAULT_DNS_TTL else ttl);
          timeout = (if timeout = 0 then HM_DEFAULT_DNS_RESOLUTION_TIMEOUT else timeout)
      in case host_find (name, check) c of
           None \<Rightarrow> smap_insert host_check_pair_less (name, check) (RemoteResult_new ttl timeout) c
         | Some _ \<Rightarrow> host_adjust (name, check) (RemoteResult_updateTimeouts ttl timeout) c)"

definition RemoteHostCache_finishCheck ::
    "HMTimeStamp \<Rightarrow> string \<Rightarrow> HMDataHostCheck \<Rightarrow> bool \<Rightarrow> HMRemoteHostCache \<Rightarrow> HMRemoteHostCache" where
  "RemoteHostCache_finishCheck now name check success c =
     (case host_find (name, check) c of None \<Rightarrow> c
      | Some _ \<Rightarrow> host_adjust (name, check) (RemoteResult_finishCheck now success) c)"

definition RemoteHostCache_getRemoteResult ::
    "string \<Rightarrow> HMDataHostCheck \<Rightarrow> HMRemoteHostCache \<Rightarrow> HMRemoteResult option" where
  "RemoteHostCache_getRemoteResult name check c = host_find (name, check) c"

definition RemoteHostCache_checkNeeded ::
    "HMTimeStamp \<Rightarrow> string \<Rightarrow> HMDataHostCheck \<Rightarrow> HMRemoteHostCache \<Rightarrow> HM_SCHEDULE_STATE" where
  "RemoteHostCache_checkNeeded now name check c =
     schedule_decision now
       (map_option (\<lambda>r. (rr_checkState r, RemoteResult_nextCheckTime now r)) (host_find (name, check) c))"

definition RemoteHostCache_nextCheckTime ::
    "HMTimeStamp \<Rightarrow> string \<Rightarrow> HMDataHostCheck \<Rightarrow> HMRemoteHostCache \<Rightarrow> HMTimeStamp" where
  "RemoteHostCache_nextCheckTime now name check c =
     (case host_find (name, check) c of None \<Rightarrow> ts_plus now HOURINMS
      | Some r \<Rightarrow> RemoteResult_nextCheckTime now r)"

definition RemoteHostCache_startRemoteCheck ::
    "HMTimeStamp \<Rightarrow> string \<Rightarrow> HMDataHostCheck \<Rightarrow> HMRemoteHostCache \<Rightarrow> HMRemoteHostCache \<times> bool" where
  "RemoteHostCache_startRemoteCheck now name check c =
     (case host_find (name, check) c of None \<Rightarrow> (c, False)
      | Some _ \<Rightarrow> (host_adjust (name, check) (RemoteResult_startCheck now) c, True))"

definition remote_host_work :: "HMTimeStamp \<Rightarrow> string \<Rightarrow> HMDataHostCheck \<Rightarrow> HMRemoteResult \<Rightarrow> HMWork" where
  "remote_host_work now name check r =
     (Work_new HMWorkRemoteHostCheckRemote name (IPAddress_new AF_INET) check)
       \<lparr>wk_start := now, wk_end := ts_plus now (rr_remoteTTL r)\<rparr>"

definition RemoteHostCache_queueRemoteCheck ::
    "HMTimeStamp \<Rightarrow> string \<Rightarrow> HMDataHostCheck \<Rightarrow> HMRemoteHostCache \<times> HMWorkQueue \<Rightarrow>
     (HMRemoteHostCache \<times> HMWorkQueue) \<times> bool" where
  "RemoteHostCache_queueRemoteCheck now name check = (\<lambda>(c, q).
     case host_find (name, check) c of None \<Rightarrow> ((c, q), False)
     | Some r \<Rightarrow>
         if remote_supported (hc_remoteCheckType check)
         then ((host_adjust (name, check) RemoteResult_queueCheck c,
                WorkQueue_insertWork (remote_host_work now name check r) q), True)
         else ((c, q), False))"

definition queueRemoteHosts_step ::
    "HMTimeStamp \<Rightarrow> bool \<Rightarrow> check_key \<Rightarrow> HMRemoteHostCache \<times> HMWorkQueue \<times> HMEventLoopQueue \<Rightarrow>
     HMRemoteHostCache \<times> HMWorkQueue \<times> HMEventLoopQueue" where
  "queueRemoteHosts_step now restart key = (\<lambda>(c, q, el).
     if hc_flowType (snd key) \<noteq> HM_FLOW_REMOTE_HOST_TYPE then (c, q, el)
     else
       case RemoteHostCache_checkNeeded now (fst key) (snd key) c of
         HM_SCHEDULE_IGNORE \<Rightarrow>
           if restart
           then (c, q, EventLoop_addRemoteHostTimeout (fst key) (snd key)
                         (RemoteHostCache_nextCheckTime now (fst key) (snd key) c) el)
           else (c, q, el)
       | _ \<Rightarrow>
           (case host_find key c of
              Some r \<Rightarrow>
                if remote_supported (hc_remoteCheckType (snd key))
                then (host_adjust key RemoteResult_queueCheck c,
                      WorkQueue_insertWork (remote_host_work now (fst key) (snd key) r) q, el)
                else (c, q, el)
            | None \<Rightarrow> (c, q, el)))"

definition RemoteHostCache_queueRemoteLookups ::
    "HMTimeStamp \<Rightarrow> bool \<Rightarrow> HMRemoteHostCache \<times> HMWorkQueue \<times> HMEventLoopQueue \<Rightarrow>
     HMRemoteHostCache \<times> HMWorkQueue \<times> HMEventLoopQueue" where
  "RemoteHostCache_queueRemoteLookups now restart s =
     fold (queueRemoteHosts_step now restart) (map fst (fst s)) s"

definition RemoteHostCache_updateResultTime ::
    "string \<Rightarrow> HMDataHostCheck \<Rightarrow> HMTimeStamp \<Rightarrow> HMRemoteHostCache \<Rightarrow> HMRemoteHostCache" where
  "RemoteHostCache_updateResultTime name check resultTime c =
     (case host_find (name, check) c of None \<Rightarrow> c
      | Some _ \<Rightarrow> host_adjust (name, check) (RemoteResult_setResultTime resultTime) c)"

section \<open>Remote checks of host groups\<close>

type_synonym HMRemoteHostGroupCache = "(string \<times> HMRemoteResult) list"
type_synonym HMDataHostGroupMap = "(string \<times> HMDataHostGroup) list"

abbreviation group_find :: "string \<Rightarrow> (string \<times> 'v) list \<Rightarrow> 'v option" where
  "group_find \<equiv> smap_find (<)"

abbreviation group_adjust ::
    "string \<Rightarrow> (HMRemoteResult \<Rightarrow> HMRemoteResult) \<Rightarrow> HMRemoteHostGroupCache \<Rightarrow> HMRemoteHostGroupCache" where
  "group_adjust \<equiv> smap_adjust (<)"

definition RemoteHostGroupCache_insertRemoteEntry ::
    "string \<Rightarrow> u64 \<Rightarrow> u64 \<Rightarrow> HMRemoteHostGroupCache \<Rightarrow> HMRemoteHostGroupCache" where
  "RemoteHostGroupCache_insertRemoteEntry name ttl timeout c =
     (let ttl = (if ttl = 0 then HM_DEFAULT_DNS_TTL else ttl);
          timeout = (if timeout = 0 then HM_DEFAULT_DNS_RESOLUTION_TIMEOUT else timeout)
      in case group_find name c of
           None \<Rightarrow> smap_insert (<) name (RemoteResult_new ttl timeout) c
         | Some _ \<Rightarrow> group_adjust name (RemoteResult_updateTimeouts ttl timeout) c)"

definition RemoteHostGroupCache_finishCheck ::
    "HMTimeStamp \<Rightarrow> string \<Rightarrow> bool \<Rightarrow> HMRemoteHostGroupCache \<Rightarrow> HMRemoteHostGroupCache" where
  "RemoteHostGroupCache_finishCheck now name success c =
     (case group_find name c of None \<Rightarrow> c
      | Some _ \<Rightarrow> group_adjust name (RemoteResult_finishCheck now success) c)"

definition RemoteHostGroupCache_getRemoteResult ::
    "string \<Rightarrow> HMRemoteHostGroupCache \<Rightarrow> HMRemoteResult option" where
  "RemoteHostGroupCache_getRemoteResult name c = group_find name c"

definition RemoteHostGroupCache_checkNeeded ::
    "HMTimeStamp \<Rightarrow> string \<Rightarrow> HMRemoteHostGroupCache \<Rightarrow> HM_SCHEDULE_STATE" where
  "RemoteHostGroupCache_checkNeeded now name c =
     schedule_decision now
       (map_option (\<lambda>r. (rr_checkState r, RemoteResult_nextCheckTime now r)) (group_find name c))"

definition RemoteHostGroupCache_nextCheckTime ::
    "HMTimeStamp \<Rightarrow> string \<Rightarrow> HMRemoteHostGroupCache \<Rightarrow> HMTimeStamp" where
  "RemoteHostGroupCache_nextCheckTime now name c =
     (case group_find name c of None \<Rightarrow> ts_plus now HOURINMS
      | Some r \<Rightarrow> RemoteResult_nextCheckTime now r)"

definition RemoteHostGroupCache_startRemoteCheck ::
    "HMTimeStamp \<Rightarrow> string \<Rightarrow> HMRemoteHostGroupCache \<Rightarrow> HMRemoteHostGroupCache \<times> bool" where
  "RemoteHostGroupCache_startRemoteCheck now name c =
     (case group_find name c of None \<Rightarrow> (c, False)
      | Some _ \<Rightarrow> (group_adjust name (RemoteResult_startCheck now) c, True))"

text \<open>The work order of a group: the check is the one of the group when its type is valid.\<close>

definition remote_group_work ::
    "HMTimeStamp \<Rightarrow> string \<Rightarrow> HMDataHostGroup \<Rightarrow> HMRemoteResult \<Rightarrow> HMWork" where
  "remote_group_work now name g r =
     (Work_new HMWorkRemoteCheckRemote name (IPAddress_new AF_INET)
        (fst (HostGroup_getHostCheck g HostCheck_default)))
       \<lparr>wk_hostGroup := Some g, wk_start := now, wk_end := ts_plus now (rr_remoteTTL r)\<rparr>"

definition RemoteHostGroupCache_queueRemoteCheck ::
    "HMTimeStamp \<Rightarrow> string \<Rightarrow> HMDataHostGroupMap \<Rightarrow> HMRemoteHostGroupCache \<times> HMWorkQueue \<Rightarrow>
     (HMRemoteHostGroupCache \<times> HMWorkQueue) \<times> bool" where
  "RemoteHostGroupCache_queueRemoteCheck now name groups = (\<lambda>(c, q).
     case group_find name c of None \<Rightarrow> ((c, q), False)
     | Some r \<Rightarrow>
         (case group_find name groups of None \<Rightarrow> ((c, q), False)
          | Some g \<Rightarrow>
              if remote_supported (hg_remoteCheckType g)
              then ((group_adjust name RemoteResult_queueCheck c,
                     WorkQueue_insertWork (remote_group_work now name g r) q), True)
              else ((c, q), False)))"

text \<open>The loop of \<open>queueRemoteLookups\<close> ends at the first entry whose group is not in the map.\<close>

fun queueRemoteGroups ::
    "HMTimeStamp \<Rightarrow> bool \<Rightarrow> HMDataHostGroupMap \<Rightarrow> string list \<Rightarrow>
     HMRemoteHostGroupCache \<times> HMWorkQueue \<times> HMEventLoopQueue \<Rightarrow>
     HMRemoteHostGroupCache \<times> HMWorkQueue \<times> HMEventLoopQueue" where
  "queueRemoteGroups now restart groups [] s = s"
| "queueRemoteGroups now restart groups (name # names) (c, q, el) =
     (case group_find name groups of None \<Rightarrow> (c, q, el)
      | Some g \<Rightarrow>
          queueRemoteGroups now restart groups names
            (if hg_flowType g \<noteq> HM_FLOW_REMOTE_HOSTGROUP_TYPE then (c, q, el)
             else
               case RemoteHostGroupCache_checkNeeded now name c of
                 HM_SCHEDULE_IGNORE \<Rightarrow>
                   if restart
                   then (c, q, EventLoop_addRemoteTimeout name
                                 (RemoteHostGroupCache_nextCheckTime now name c) el)
                   else (c, q, el)
               | _ \<Rightarrow>
                   (case group_find name c of
                      Some r \<Rightarrow>
                        if remote_supported (hg_remoteCheckType g)
                        then (group_adjust name RemoteResult_queueCheck c,
                              WorkQueue_insertWork (remote_group_work now name g r) q, el)
                        else (c, q, el)
                    | None \<Rightarrow> (c, q, el))))"

definition RemoteHostGroupCache_queueRemoteLookups ::
    "HMTimeStamp \<Rightarrow> bool \<Rightarrow> HMDataHostGroupMap \<Rightarrow>
     HMRemoteHostGroupCache \<times> HMWorkQueue \<times> HMEventLoopQueue \<Rightarrow>
     HMRemoteHostGroupCache \<times> HMWorkQueue \<times> HMEventLoopQueue" where
  "RemoteHostGroupCache_queueRemoteLookups now restart groups s =
     queueRemoteGroups now restart groups (map fst (fst s)) s"

definition RemoteHostGroupCache_updateResultTime ::
    "string \<Rightarrow> HMTimeStamp \<Rightarrow> HMRemoteHostGroupCache \<Rightarrow> HMRemoteHostGroupCache" where
  "RemoteHostGroupCache_updateResultTime name resultTime c =
     (case group_find name c of None \<Rightarrow> c
      | Some _ \<Rightarrow> group_adjust name (RemoteResult_setResultTime resultTime) c)"

section \<open>Scheduling\<close>

interpretation name_order: key_order "(<) :: string \<Rightarrow> string \<Rightarrow> bool" "\<lambda>n. n"
  by unfold_locales simp

lemma remote_entry:
  "scheduled_entry rr_checkState RemoteResult_nextCheckTime RemoteResult_queueCheck
     RemoteResult_startCheck RemoteResult_finishCheck rr_remoteTTL"
  by unfold_locales
    (simp_all add: RemoteResult_queueCheck_def RemoteResult_startCheck_def RemoteResult_finishCheck_def
      RemoteResult_nextCheckTime_def)

interpretation remote_host_sched: schedule_cache rr_checkState RemoteResult_nextCheckTime
    RemoteResult_queueCheck RemoteResult_startCheck RemoteResult_finishCheck rr_remoteTTL
    host_check_pair_less
  by (intro schedule_cache.intro remote_entry host_pair_order.weak_order_axioms)

interpretation remote_group_sched: schedule_cache rr_checkState RemoteResult_nextCheckTime
    RemoteResult_queueCheck RemoteResult_startCheck RemoteResult_finishCheck rr_remoteTTL
    "(<) :: string \<Rightarrow> string \<Rightarrow> bool"
  by (intro schedule_cache.intro remote_entry name_order.weak_order_axioms)

lemma host_checkNeeded_sched:
  "RemoteHostCache_checkNeeded now name check c = remote_host_sched.cache_needed now (name, check) c"
  by (simp add: RemoteHostCache_checkNeeded_def remote_host_sched.cache_needed_def
      remote_host_sched.needed_def)

lemma group_checkNeeded_sched:
  "RemoteHostGroupCache_checkNeeded now name c = remote_group_sched.cache_needed now name c"
  by (simp add: RemoteHostGroupCache_checkNeeded_def remote_group_sched.cache_needed_def
      remote_host_sched.needed_def)

text \<open>
  A remote check of a host is scheduled once at a time: after it is queued, and after it is
  started, nothing is asked for it, and after it has finished work is asked for exactly when its
  time-to-live has passed. A check that cannot be queued (no entry, or a remote check type without a
  work order) leaves the cache and the queue as they are and is reported.
\<close>

theorem remote_host_check_scheduled_once:
  assumes "host_find (name, check) c = Some r"
  shows "(remote_supported (hc_remoteCheckType check) \<longrightarrow>
      (let s = RemoteHostCache_queueRemoteCheck t name check (c, q)
       in RemoteHostCache_checkNeeded now name check (fst (fst s)) = HM_SCHEDULE_IGNORE
          \<and> length (wq_queue (snd (fst s))) = Suc (length (wq_queue q)) \<and> snd s))
    \<and> (\<not> remote_supported (hc_remoteCheckType check) \<longrightarrow>
       RemoteHostCache_queueRemoteCheck t name check (c, q) = ((c, q), False))
    \<and> RemoteHostCache_checkNeeded now name check (fst (RemoteHostCache_startRemoteCheck t name check c))
       = HM_SCHEDULE_IGNORE
    \<and> (RemoteHostCache_checkNeeded now name check (RemoteHostCache_finishCheck t name check ok c)
       = HM_SCHEDULE_WORK \<longleftrightarrow> ts_plus t (rr_remoteTTL r) \<le> now)"
  using assms remote_host_sched.needed_after_queue remote_host_sched.needed_after_start
    remote_host_sched.needed_after_finish [OF assms]
  by (simp add: host_checkNeeded_sched RemoteHostCache_queueRemoteCheck_def WorkQueue_insertWork_def
      RemoteHostCache_startRemoteCheck_def RemoteHostCache_finishCheck_def)

text \<open>
  A remote check of a host group that the configuration has is scheduled once at a time: after
  it is queued, and after it is started, nothing is asked for it, and after it has finished work is
  asked for exactly when its time-to-live has passed. A group with a remote check type without a work
  order leaves the cache and the queue as they are, and this is reported.
\<close>

theorem remote_group_check_scheduled_once:
  assumes "group_find name c = Some r" and "group_find name groups = Some g"
  shows "(remote_supported (hg_remoteCheckType g) \<longrightarrow>
      (let s = RemoteHostGroupCache_queueRemoteCheck t name groups (c, q)
       in RemoteHostGroupCache_checkNeeded now name (fst (fst s)) = HM_SCHEDULE_IGNORE
          \<and> length (wq_queue (snd (fst s))) = Suc (length (wq_queue q)) \<and> snd s))
    \<and> (\<not> remote_supported (hg_remoteCheckType g) \<longrightarrow>
       RemoteHostGroupCache_queueRemoteCheck t name groups (c, q) = ((c, q), False))
    \<and> RemoteHostGroupCache_checkNeeded now name (fst (RemoteHostGroupCache_startRemoteCheck t name c))
       = HM_SCHEDULE_IGNORE
    \<and> (RemoteHostGroupCache_checkNeeded now name (RemoteHostGroupCache_finishCheck t name ok c)
       = HM_SCHEDULE_WORK \<longleftrightarrow> ts_plus t (rr_remoteTTL r) \<le> now)"
  using assms remote_group_sched.needed_after_queue remote_group_sched.needed_after_start
    remote_group_sched.needed_after_finish [OF assms(1)]
  by (simp add: group_checkNeeded_sched RemoteHostGroupCache_queueRemoteCheck_def WorkQueue_insertWork_def
      RemoteHostGroupCache_startRemoteCheck_def RemoteHostGroupCache_finishCheck_def)

definition w_remote_check :: HMDataHostCheck where
  "w_remote_check = HostCheck_default\<lparr>hc_remoteCheckType := HM_REMOTE_CHECK_TCP\<rparr>"

lemma remote_host_check_scheduled_once_witness:
  "RemoteHostCache_checkNeeded 130 ''h'' w_remote_check (RemoteHostCache_finishCheck 30 ''h''
     w_remote_check False [((''h'', w_remote_check), RemoteResult_new 100 10)]) = HM_SCHEDULE_WORK"
  using remote_host_check_scheduled_once [of "''h''" w_remote_check
      "[((''h'', w_remote_check), RemoteResult_new 100 10)]" "RemoteResult_new 100 10" 30
      WorkQueue_new 130 False]
  by (simp add: RemoteResult_new_def ts_plus_def)

lemma remote_group_check_scheduled_once_witness:
  "RemoteHostGroupCache_checkNeeded 130 ''g'' (RemoteHostGroupCache_finishCheck 30 ''g'' False
     [(''g'', RemoteResult_new 100 10)]) = HM_SCHEDULE_WORK"
  using remote_group_check_scheduled_once [of "''g''" "[(''g'', RemoteResult_new 100 10)]"
      "RemoteResult_new 100 10" "[(''g'', HostGroup_new ''g'')]" "HostGroup_new ''g''" 30
      WorkQueue_new 130 False]
  by (simp add: RemoteResult_new_def ts_plus_def key_equiv_def)

end
