(* ===== verification/HM_CheckList.thy ===== *)
theory HM_CheckList
  imports HM_DNSCache HM_RemoteCache
begin

text \<open>
  \<open>HMDataCheckList\<close>: every check the daemon makes, by host and check, with one parameter object for
  every set of parameters the check is configured with. A field \<open>m_x\<close> of the class is \<open>cl_x\<close> here. The
  multimap \<open>m_checklist\<close> is the list of its entries; an entry carries a number that stands for its
  address, because \<open>m_checklistReference\<close> holds iterators into it. The clock readings inside one call
  are one argument. The calls to the storage and to the publisher are values the operations return,
  in order.

  \<open>toString()\<close> of an address is \<open>0.0.0.0\<close> or \<open>::\<close> exactly for the two zero addresses, which stand for
  a failed lookup.
\<close>

section \<open>State\<close>

type_synonym check_entry = "check_key \<times> nat \<times> HMDataCheckParams"

record HMDataCheckList =
  cl_guard :: bool
  cl_checklist :: "check_entry list"
  cl_checklistReference :: "(check_key \<times> nat) list"
  cl_fresh :: nat

definition CheckList_new :: HMDataCheckList where
  "CheckList_new =
     \<lparr>cl_guard = False, cl_checklist = [], cl_checklistReference = [], cl_fresh = 0\<rparr>"

record HMCheckHeader =
  ch_hostname :: string
  ch_address :: HMIPAddress
  ch_hostCheck :: HMDataHostCheck
  ch_checkParams :: HMDataCheckParams

datatype store_call =
    StoreCheckResult string HMIPAddress HMDataHostCheck HMDataCheckParams HMDataCheckResult
  | PurgeCheckResult string HMIPAddress HMDataHostCheck HMDataCheckParams
datatype publish_call =
    PublishResult string HMDataCheckResult int "string list" bool

abbreviation entry_params :: "check_entry \<Rightarrow> HMDataCheckParams" where
  "entry_params e \<equiv> snd (snd e)"

text \<open>The parameter objects of \<open>equal_range(key)\<close>, and a write to each of them.\<close>

definition range_params :: "check_key \<Rightarrow> HMDataCheckList \<Rightarrow> HMDataCheckParams list" where
  "range_params key cl = map entry_params (equal_range CompareCheckList key (cl_checklist cl))"

definition range_adjust ::
    "check_key \<Rightarrow> (HMDataCheckParams \<Rightarrow> HMDataCheckParams) \<Rightarrow> HMDataCheckList \<Rightarrow> HMDataCheckList" where
  "range_adjust key f cl =
     cl\<lparr>cl_checklist :=
       smap_adjust CompareCheckList key (\<lambda>(n, p). (n, f p)) (cl_checklist cl)\<rparr>"

section \<open>Schedule\<close>

definition is_blank :: "HMIPAddress \<Rightarrow> bool" where
  "is_blank ip \<longleftrightarrow> ip = INET 0 \<or> ip = INET6 0"

text \<open>The loop of \<open>checkNeeded\<close>; \<open>None\<close> is the return on an address without a result.\<close>

fun checkNeeded_loop ::
    "HMTimeStamp \<Rightarrow> HMIPAddress \<Rightarrow> HMDataCheckParams list \<Rightarrow> bool \<times> bool \<times> HMTimeStamp \<Rightarrow>
     (bool \<times> bool \<times> HMTimeStamp) option" where
  "checkNeeded_loop now ip [] s = Some s"
| "checkNeeded_loop now ip (p # ps) (alreadyScheduled, isCheckTimeChanged, nextCheck) =
     (if \<not> CheckParams_isValidIP ip p then None
      else
        let checkTime = CheckParams_nextCheckTime now ip p;
            query_state = CheckParams_getQueryState ip p
        in checkNeeded_loop now ip ps
             (if query_state = HM_CHECK_FAILED \<or> query_state = HM_CHECK_INACTIVE then
                (if checkTime < nextCheck then (False, True, checkTime)
                 else (False, isCheckTimeChanged, nextCheck))
              else (alreadyScheduled, isCheckTimeChanged, nextCheck)))"

definition CheckList_checkNeeded ::
    "HMTimeStamp \<Rightarrow> string \<Rightarrow> HMIPAddress \<Rightarrow> HMDataHostCheck \<Rightarrow> HMDataCheckList \<Rightarrow> HM_SCHEDULE_STATE" where
  "CheckList_checkNeeded now hostname ip hostCheck cl =
     (if is_blank ip then HM_SCHEDULE_IGNORE
      else
        case checkNeeded_loop now ip (range_params (hostname, hostCheck) cl)
            (True, False, ts_plus now HOURINMS) of
          None \<Rightarrow> HM_SCHEDULE_IGNORE
        | Some (alreadyScheduled, isCheckTimeChanged, nextCheck) \<Rightarrow>
            if nextCheck \<le> now then HM_SCHEDULE_WORK
            else if alreadyScheduled \<or> isCheckTimeChanged then HM_SCHEDULE_IGNORE
            else HM_SCHEDULE_EVENT)"

definition CheckList_nextCheckTime ::
    "HMTimeStamp \<Rightarrow> string \<Rightarrow> HMIPAddress \<Rightarrow> HMDataHostCheck \<Rightarrow> HMDataCheckList \<Rightarrow> HMTimeStamp" where
  "CheckList_nextCheckTime now hostname ip hostCheck cl =
     fold (\<lambda>p nextCheck. let checkTime = CheckParams_nextCheckTime now ip p
                         in if checkTime < nextCheck then checkTime else nextCheck)
       (range_params (hostname, hostCheck) cl) (ts_plus now HOURINMS)"

definition CheckList_getCheckTimeout ::
    "HMTimeStamp \<Rightarrow> string \<Rightarrow> HMIPAddress \<Rightarrow> HMDataHostCheck \<Rightarrow> HMDataCheckList \<Rightarrow> HMTimeStamp" where
  "CheckList_getCheckTimeout now hostname ip hostCheck cl =
     fold (\<lambda>p m. let checkTime = CheckParams_getCheckTimeout now ip p
                 in if checkTime < m then checkTime else m)
       (range_params (hostname, hostCheck) cl) (ts_plus now HOURINMS)"

section \<open>Queueing\<close>

text \<open>
  The class of the work order by check type and plugin. \<open>InvalidCheck\<close> is a return of \<open>queueCheck\<close>
  after an error message; \<open>NullWork\<close> is the build without \<open>USE_ARES\<close>, where the code goes on with a
  null pointer.
\<close>

datatype check_class = Class work_class | InvalidCheck | NullWork

definition plugin_class :: "HM_CHECK_PLUGIN_CLASS list \<Rightarrow> HMDataHostCheck \<Rightarrow> check_class \<Rightarrow> check_class" where
  "plugin_class allowed check cls =
     (if hc_checkPlugin check \<in> set (HM_CHECK_PLUGIN_DEFAULT # allowed) then cls else InvalidCheck)"

definition check_work_class :: "bool \<Rightarrow> HMDataHostCheck \<Rightarrow> check_class" where
  "check_work_class ares check =
     (let curl = plugin_class [HM_CHECK_PLUGIN_HTTP_CURL] check (Class HMWorkHealthCheckCurl);
          ftp = plugin_class [HM_CHECK_PLUGIN_FTP_CURL] check (Class HMWorkHealthCheckCurl);
          dns = plugin_class [HM_CHECK_PLUGIN_DNS_ARES] check
                  (if ares then Class HMWorkHealthCheckDNS else NullWork);
          none = plugin_class [] check (Class HMWorkHealthCheckNone);
          aux = plugin_class [HM_CHECK_PLUGIN_AUX_CURL] check (Class HMWorkAuxFetchCurl);
          mark = plugin_class [HM_CHECK_PLUGIN_MARK_CURL] check (Class HMWorkHealhMultiWork)
      in case hc_checkType check of
           HM_CHECK_HTTP \<Rightarrow> curl
         | HM_CHECK_HTTPS \<Rightarrow> curl
         | HM_CHECK_HTTPS_NO_PEER_CHECK \<Rightarrow> curl
         | HM_CHECK_MTLS_HTTPS \<Rightarrow> curl
         | HM_CHECK_MTLS_HTTPS_NO_PEER_CHECK \<Rightarrow> curl
         | HM_CHECK_FTP \<Rightarrow> ftp
         | HM_CHECK_FTPS_IMPLICIT \<Rightarrow> ftp
         | HM_CHECK_FTPS_IMPLICIT_NO_PEER_CHECK \<Rightarrow> ftp
         | HM_CHECK_FTPS_EXPLICIT \<Rightarrow> ftp
         | HM_CHECK_FTPS_EXPLICIT_NO_PEER_CHECK \<Rightarrow> ftp
         | HM_CHECK_TCP \<Rightarrow> plugin_class [HM_CHECK_PLUGIN_TCP_RAW] check (Class HMWorkHealthCheckTCP)
         | HM_CHECK_TCPS \<Rightarrow> plugin_class [HM_CHECK_PLUGIN_TCPS_RAW] check (Class HMWorkHealthCheckTCPS)
         | HM_CHECK_DNS \<Rightarrow> dns
         | HM_CHECK_DNSVC \<Rightarrow> dns
         | HM_CHECK_NONE \<Rightarrow> none
         | HM_CHECK_DEFAULT \<Rightarrow> none
         | HM_CHECK_AUX_HTTP \<Rightarrow> aux
         | HM_CHECK_AUX_HTTPS \<Rightarrow> aux
         | HM_CHECK_AUX_HTTPS_NO_PEER_CHECK \<Rightarrow> aux
         | HM_CHECK_AUX_MTLS_HTTPS \<Rightarrow> aux
         | HM_CHECK_AUX_MTLS_HTTPS_NO_PEER_CHECK \<Rightarrow> aux
         | HM_CHECK_MARK_HTTP \<Rightarrow> mark
         | HM_CHECK_MARK_HTTPS \<Rightarrow> mark
         | HM_CHECK_MARK_HTTPS_NO_PEER_CHECK \<Rightarrow> mark
         | HM_CHECK_INVALID \<Rightarrow> InvalidCheck)"

definition check_work ::
    "HMTimeStamp \<Rightarrow> work_class \<Rightarrow> string \<Rightarrow> HMIPAddress \<Rightarrow> HMDataHostCheck \<Rightarrow> HMDataCheckList \<Rightarrow> HMWork" where
  "check_work now cls hostname ip check cl =
     (let w = Work_new cls hostname ip check;
          w = (if cls = HMWorkHealhMultiWork
               then Work_setPublish False (Work_setStoreResults False w) else w);
          w = w\<lparr>wk_start := now, wk_end := CheckList_getCheckTimeout now hostname ip check cl\<rparr>
      in if hc_flowType check = HM_FLOW_REMOTE_HOSTGROUP_TYPE
            \<or> hc_flowType check = HM_FLOW_REMOTE_HOST_TYPE
         then Work_setReschedule False w else w)"

text \<open>\<open>queueCheck\<close>; \<open>None\<close> is the null pointer dereference.\<close>

definition CheckList_queueCheck ::
    "bool \<Rightarrow> HMTimeStamp \<Rightarrow> string \<Rightarrow> HMIPAddress \<Rightarrow> HMDataHostCheck \<Rightarrow> HMDataCheckList \<times> HMWorkQueue \<Rightarrow>
     (HMDataCheckList \<times> HMWorkQueue) option" where
  "CheckList_queueCheck ares now hostname ip check = (\<lambda>(cl, q).
     let cl = range_adjust (hostname, check) (CheckParams_queueQuerry ip) cl
     in case check_work_class ares check of
          InvalidCheck \<Rightarrow> Some (cl, q)
        | NullWork \<Rightarrow> None
        | Class cls \<Rightarrow>
            Some (cl, WorkQueue_insertWork (check_work now cls hostname ip check cl) q))"

definition CheckList_startCheck ::
    "HMTimeStamp \<Rightarrow> string \<Rightarrow> HMIPAddress \<Rightarrow> HMDataHostCheck \<Rightarrow> HMDataCheckList \<Rightarrow>
     HMDataCheckList \<times> HMTimeStamp" where
  "CheckList_startCheck now hostname ip check cl =
     (range_adjust (hostname, check)
        (\<lambda>p. if CheckParams_isValidIP ip p then CheckParams_startQuery now ip p else p) cl,
      ts_plus now
        (fold (\<lambda>p m. if m < cp_checkTimeout p then cp_checkTimeout p else m)
           (range_params (hostname, check) cl) 0))"

section \<open>Results\<close>

definition CheckList_getHostGroups :: "HMCheckHeader \<Rightarrow> string list \<Rightarrow> HMDataCheckList \<Rightarrow> string list \<times> bool" where
  "CheckList_getHostGroups header hostGroups cl =
     fold (\<lambda>p (hgs, found). if CheckParams_eq p (ch_checkParams header)
                            then (CheckParams_getHostGroups p, True) else (hgs, found))
       (range_params (ch_hostname header, ch_hostCheck header) cl) (hostGroups, False)"

definition CheckList_updateCheckHeader ::
    "HMCheckHeader \<Rightarrow> HMDataCheckResult \<Rightarrow> HMDataCheckList \<Rightarrow> HMDataCheckList \<times> bool" where
  "CheckList_updateCheckHeader header result cl =
     (range_adjust (ch_hostname header, ch_hostCheck header)
        (\<lambda>p. if CheckParams_eq p (ch_checkParams header)
             then CheckParams_updateCheckResult (ch_address header) result True p else p) cl,
      list_ex (\<lambda>p. CheckParams_eq p (ch_checkParams header))
        (range_params (ch_hostname header, ch_hostCheck header) cl))"

text \<open>
  The results of a remote daemon. The two overloads differ in the container of the results, a
  multimap or a map by parameters; \<open>lookup\<close> is its \<open>equal_range\<close> or \<open>find\<close>. The results are changed
  in place before they are copied.
\<close>

definition remote_result :: "HMTimeStamp \<Rightarrow> HMDataCheckResult \<Rightarrow> HMDataCheckResult" where
  "remote_result now r =
     r\<lparr>cr_softStatus := cr_status r, cr_remoteCheckTime := cr_checkTime r, cr_checkTime := now,
       cr_queryState := HM_CHECK_INACTIVE\<rparr>"

definition remote_missing :: "HMTimeStamp \<Rightarrow> HMWork \<Rightarrow> HMDataCheckParams \<Rightarrow> HMDataCheckParams" where
  "remote_missing now w p =
     CheckParams_updateCheck now now (wk_ipAddress w) HM_RESPONSE_REMOTE_FAILED
       HM_REASON_REMOTE_NODATA (wk_start w) (wk_end w) (hc_port (wk_hostCheck w))
       (CheckParams_emptyQuery (wk_ipAddress w) p)"

fun updateCheck_remote ::
    "HMTimeStamp \<Rightarrow> HMWork \<Rightarrow> check_key \<Rightarrow> check_entry list \<Rightarrow>
     (HMDataCheckParams \<times> HMDataCheckResult) list \<Rightarrow> check_entry list" where
  "updateCheck_remote now w key [] results = []"
| "updateCheck_remote now w key ((k, n, p) # es) results =
     (if key_equiv CompareCheckList key k then
        let rs = map snd (equal_range CheckParams_less p results)
        in if rs = [] then
             (k, n, remote_missing now w p) # updateCheck_remote now w key es results
           else
             (k, n, fold (\<lambda>r p. CheckParams_updateCheckResult (cr_address r) (remote_result now r) True p)
                      rs p)
             # updateCheck_remote now w key es
                 (smap_adjust CheckParams_less p (remote_result now) results)
      else (k, n, p) # updateCheck_remote now w key es results)"

definition CheckList_updateCheckRemote ::
    "HMTimeStamp \<Rightarrow> HMWork \<Rightarrow> (HMDataCheckParams \<times> HMDataCheckResult) list \<Rightarrow>
     HMDataCheckList \<Rightarrow> HMDataCheckList" where
  "CheckList_updateCheckRemote now w results cl =
     cl\<lparr>cl_checklist :=
       updateCheck_remote now w (wk_hostname w, wk_hostCheck w) (cl_checklist cl) results\<rparr>"

definition CheckList_updateCheck ::
    "HMTimeStamp \<Rightarrow> HMTimeStamp \<Rightarrow> HMWork \<Rightarrow> HMDataHostCheck \<Rightarrow> HMDataCheckList \<Rightarrow> HMDataCheckList" where
  "CheckList_updateCheck now1 now2 w hostCheck cl =
     range_adjust (wk_hostname w, hostCheck)
       (\<lambda>p. if CheckParams_isValidIP (wk_ipAddress w) p
            then CheckParams_updateCheck now1 now2 (wk_ipAddress w) (wk_response w) (wk_reason w)
                   (wk_start w) (wk_end w) (hc_port hostCheck) p
            else p) cl"

definition CheckList_storeCheck ::
    "HMWork \<Rightarrow> HMDataHostCheck \<Rightarrow> HMIPAddress \<Rightarrow> HMDataCheckList \<Rightarrow> store_call list" where
  "CheckList_storeCheck w hostCheck address cl =
     List.map_filter (\<lambda>p. map_option
         (\<lambda>result. StoreCheckResult (wk_hostname w) address hostCheck p result)
         (CheckParams_getCheckResult address p))
       (range_params (wk_hostname w, hostCheck) cl)"

definition CheckList_publishCheck ::
    "HMWork \<Rightarrow> HMDataHostCheck \<Rightarrow> HMIPAddress \<Rightarrow> bool \<Rightarrow> HMDataCheckList \<Rightarrow> publish_call list" where
  "CheckList_publishCheck w hostCheck address publisher cl =
     (if publisher then
        List.map_filter (\<lambda>p. map_option
            (\<lambda>result. PublishResult (wk_hostname w) result (wk_mark w)
               (CheckParams_getHostGroupsSet [] p) (cr_statusChanged result))
            (CheckParams_getCheckResult address p))
          (range_params (wk_hostname w, hostCheck) cl)
      else [])"

definition CheckList_getAllChecks :: "HMDataCheckList \<Rightarrow> HMCheckHeader list" where
  "CheckList_getAllChecks cl =
     map (\<lambda>(k, n, p). \<lparr>ch_hostname = fst k, ch_address = UNSPEC, ch_hostCheck = snd k,
                       ch_checkParams = CheckParams_copy p\<rparr>) (cl_checklist cl)"

definition CheckList_getCheckResultsAddress ::
    "string \<Rightarrow> HMDataHostCheck \<Rightarrow> HM_DUALSTACK \<Rightarrow> HMDataCheckList \<Rightarrow> HMIPAddress list \<times> bool" where
  "CheckList_getCheckResultsAddress hostname check dualstack cl =
     (let addresses = fold (\<lambda>p a. fst (CheckParams_getAddresses dualstack a p))
                        (range_params (hostname, check) cl) []
      in (addresses, 0 < length addresses))"

definition results_of ::
    "HMIPAddress \<Rightarrow> HMDataCheckParams list \<Rightarrow> (HMDataCheckParams \<times> HMDataCheckResult) list" where
  "results_of address ps =
     List.map_filter (\<lambda>p. map_option (Pair (CheckParams_copy p)) (CheckParams_getCheckResult address p)) ps"

text \<open>The parameter object an iterator of \<open>m_checklistReference\<close> points to.\<close>

definition node_params :: "HMDataCheckList \<Rightarrow> nat \<Rightarrow> HMDataCheckParams option" where
  "node_params cl n = map_option entry_params (find (\<lambda>e. fst (snd e) = n) (cl_checklist cl))"

definition CheckList_getCheckResultsRemoteChecks ::
    "string \<Rightarrow> HMDataHostCheck \<Rightarrow> HMIPAddress \<Rightarrow> HMDataCheckList \<Rightarrow>
     (HMDataCheckParams \<times> HMDataCheckResult) list \<times> bool" where
  "CheckList_getCheckResultsRemoteChecks hostname check address cl =
     (let refs = map snd (equal_range host_check_pair_less (hostname, check) (cl_checklistReference cl));
          results = results_of address (List.map_filter (node_params cl) refs)
      in (results, 0 < length results))"

definition CheckList_getCheckResults ::
    "string \<Rightarrow> HMDataHostCheck \<Rightarrow> HMIPAddress \<Rightarrow> HMDataCheckList \<Rightarrow>
     (HMDataCheckParams \<times> HMDataCheckResult) list \<times> bool" where
  "CheckList_getCheckResults hostname check address cl =
     (let results = results_of address (range_params (hostname, check) cl)
      in (results, 0 < length results))"

text \<open>\<open>getCheckResult\<close>: the result of the first entry with equal parameters that has one.\<close>

definition CheckList_getCheckResult :: "HMCheckHeader \<Rightarrow> HMDataCheckList \<Rightarrow> HMDataCheckResult option" where
  "CheckList_getCheckResult check cl =
     (case List.map_filter (\<lambda>p. if CheckParams_eq p (ch_checkParams check)
                           then CheckParams_getCheckResult (ch_address check) p else None)
         (range_params (ch_hostname check, ch_hostCheck check) cl) of
        [] \<Rightarrow> None | r # _ \<Rightarrow> Some r)"

definition CheckList_setForceHostStatus ::
    "string \<Rightarrow> HMDataHostCheck \<Rightarrow> HMIPAddress \<Rightarrow> bool \<Rightarrow> HMDataCheckList \<Rightarrow> HMDataCheckList" where
  "CheckList_setForceHostStatus hostName check address forceHostStatus cl =
     range_adjust (hostName, check) (CheckParams_setHostStatus address forceHostStatus) cl"

section \<open>Configuration\<close>

text \<open>\<open>m_checklist.insert\<close> of a copy of the parameters, and the reference to the new entry under the
  check without its remote check.\<close>

definition insert_entry ::
    "check_key \<Rightarrow> HMDataCheckParams \<Rightarrow> HMDataCheckList \<Rightarrow> HMDataCheckList" where
  "insert_entry key p cl =
     cl\<lparr>cl_checklist := mmap_insert CompareCheckList key (cl_fresh cl, p) (cl_checklist cl),
        cl_checklistReference :=
          mmap_insert host_check_pair_less (fst key, HostCheck_setRemoteCheck [] (snd key))
            (cl_fresh cl) (cl_checklistReference cl),
        cl_fresh := Suc (cl_fresh cl)\<rparr>"

text \<open>A write to the first entry that satisfies a predicate; \<open>None\<close> when there is none.\<close>

fun update_first :: "('e \<Rightarrow> bool) \<Rightarrow> ('e \<Rightarrow> 'e) \<Rightarrow> 'e list \<Rightarrow> 'e list option" where
  "update_first P f [] = None"
| "update_first P f (e # es) =
     (if P e then Some (f e # es) else map_option ((#) e) (update_first P f es))"

definition addHostGroup_host ::
    "string \<Rightarrow> HMDataHostCheck \<Rightarrow> HMDataCheckParams \<Rightarrow> string \<Rightarrow> HMDataCheckList \<Rightarrow> HMDataCheckList" where
  "addHostGroup_host name hostcheck check host cl =
     (case update_first
         (\<lambda>(k, n, p). key_equiv CompareCheckList (host, hostcheck) k \<and> CheckParams_eq p check)
         (\<lambda>(k, n, p). (k, n, CheckParams_addHostGroup name p)) (cl_checklist cl) of
        Some es \<Rightarrow> cl\<lparr>cl_checklist := es\<rparr>
      | None \<Rightarrow>
          insert_entry (host, hostcheck) (CheckParams_addHostGroup name (CheckParams_copy check)) cl)"

definition CheckList_addHostGroup :: "HMDataHostGroup \<Rightarrow> HMDataCheckList \<Rightarrow> HMDataCheckList \<times> u32" where
  "CheckList_addHostGroup g cl =
     (if cl_guard cl then (cl, 0)
      else
        let (hostcheck, ok) = HostGroup_getHostCheck g HostCheck_default;
            (check, ok') = HostGroup_getCheckParameters g CheckParams_default
        in if \<not> ok \<or> \<not> ok' then (cl, 0)
           else (fold (addHostGroup_host (hg_groupName g) hostcheck check) (hg_hosts g) cl,
                 of_nat (length (hg_hosts g))))"

definition CheckList_insertCheck ::
    "string \<Rightarrow> string \<Rightarrow> HMDataHostCheck \<Rightarrow> HMDataCheckParams \<Rightarrow> HMIPAddress list \<Rightarrow>
     HMDataCheckList \<Rightarrow> HMDataCheckList" where
  "CheckList_insertCheck hostGroup host hostCheck checkParams ips cl =
     (if cl_guard cl then cl
      else
        let p = fold CheckParams_emptyQuery ips (CheckParams_copy checkParams);
            p = (if hostGroup \<noteq> [] then CheckParams_addHostGroup hostGroup p else p)
        in insert_entry (host, hostCheck) p cl)"

type_synonym HMWaitList = "(HMDNSTypeMap \<times> HMDataHostCheck) list"

definition initDNSCache_entry ::
    "HM_DNS_PLUGIN_CLASS \<Rightarrow> HM_DNS_PLUGIN_CLASS \<Rightarrow> check_entry \<Rightarrow> HMDNSCache \<times> HMWaitList \<Rightarrow>
     HMDNSCache \<times> HMWaitList" where
  "initDNSCache_entry lookupDNSPlugin staticDNSPlugin = (\<lambda>(k, n, p) (cache, waitList).
     let hc = snd k;
         plugin = (case hc_DNSType hc of HM_DNS_TYPE_LOOKUP \<Rightarrow> lookupDNSPlugin
                   | HM_DNS_TYPE_STATIC \<Rightarrow> staticDNSPlugin);
         ins = (\<lambda>ipv6. DNSCache_insertDNSEntry (fst k)
                  (DNSLookup_setPlugin plugin (DNSLookup_new (hc_DNSType hc) ipv6 (hc_remoteCheck hc)))
                  (cp_checkTTL p) (cp_checkTimeout p));
         cache = (if hc_dualstack hc AND HM_DUALSTACK_IPV4_ONLY \<noteq> 0 then ins False cache else cache);
         cache = (if hc_dualstack hc AND HM_DUALSTACK_IPV6_ONLY \<noteq> 0 then ins True cache else cache)
     in (cache, mmap_insert DNSTypeMap_less
           \<lparr>dt_name = fst k, dt_type = hc_DNSType hc, dt_remoteCheckGroup = hc_remoteCheck hc\<rparr> hc waitList))"

definition CheckList_initDNSCache ::
    "HM_DNS_PLUGIN_CLASS \<Rightarrow> HM_DNS_PLUGIN_CLASS \<Rightarrow> HMDataCheckList \<Rightarrow> HMDNSCache \<times> HMWaitList \<Rightarrow>
     HMDNSCache \<times> HMWaitList" where
  "CheckList_initDNSCache lookupDNSPlugin staticDNSPlugin cl s =
     (if cl_guard cl then s
      else fold (initDNSCache_entry lookupDNSPlugin staticDNSPlugin) (cl_checklist cl) s)"

definition CheckList_initRemoteCache :: "HMDataCheckList \<Rightarrow> HMRemoteHostCache \<Rightarrow> HMRemoteHostCache" where
  "CheckList_initRemoteCache cl cache =
     (if cl_guard cl then cache
      else fold (\<lambda>(k, n, p) c.
          if hc_flowType (snd k) = HM_FLOW_REMOTE_HOST_TYPE
          then RemoteHostCache_insertRemoteEntry (fst k) (snd k) (cp_checkTTL p) (cp_checkTimeout p) c
          else c) (cl_checklist cl) cache)"

section \<open>Invalidation\<close>

definition CheckList_invalidateCheckParams ::
    "string \<Rightarrow> HMIPAddress \<Rightarrow> HMDataHostCheck \<Rightarrow> HMDataCheckParams \<Rightarrow> HMDataCheckList \<Rightarrow>
     HMDataCheckList \<times> store_call list" where
  "CheckList_invalidateCheckParams hostname ipAddress hostCheck checkParams cl =
     (let cl' = range_adjust (hostname, hostCheck)
                  (\<lambda>p. if CheckParams_eq p checkParams
                       then fst (CheckParams_invalidateResult ipAddress p) else p) cl
      in (cl', map (PurgeCheckResult hostname ipAddress hostCheck)
                 (filter (\<lambda>p. CheckParams_eq p checkParams) (range_params (hostname, hostCheck) cl'))))"

definition CheckList_invalidateCheck ::
    "string \<Rightarrow> HMIPAddress \<Rightarrow> HMDataHostCheck \<Rightarrow> HMDataCheckList \<Rightarrow> HMDataCheckList \<times> store_call list" where
  "CheckList_invalidateCheck hostname ipAddress hostCheck cl =
     (let cl' = range_adjust (hostname, hostCheck) (fst \<circ> CheckParams_invalidateResult ipAddress) cl
      in (cl', map (PurgeCheckResult hostname ipAddress hostCheck)
                 (range_params (hostname, hostCheck) cl')))"

definition CheckList_insertEmptyQuery ::
    "HMTimeStamp \<Rightarrow> HMWork \<Rightarrow> HMDataHostCheck \<Rightarrow> HMIPAddress \<Rightarrow> HMDataCheckList \<Rightarrow> HMDataCheckList" where
  "CheckList_insertEmptyQuery now w check address cl =
     range_adjust (wk_hostname w, check)
       (\<lambda>p. CheckParams_updateCheck now now address (wk_response w) (wk_reason w) (wk_start w)
              (wk_end w) (hc_port check) (CheckParams_emptyQuery address p)) cl"

definition CheckList_printChecks :: "bool \<Rightarrow> HMDataCheckList \<Rightarrow> string" where
  "CheckList_printChecks printCheckInfo cl =
     concat (map (\<lambda>(k, n, p).
         fst k @ [CHR 0x0A] @ HostCheck_printEntry (snd k) (CHR 0x09) True
         @ (if printCheckInfo then [CHR 0x0A] @ CheckParams_printEntry p @ [CHR 0x0A, CHR 0x0A]
            else [CHR 0x0A, CHR 0x0A])) (cl_checklist cl))"

definition CheckList_setGuard :: "bool \<Rightarrow> HMDataCheckList \<Rightarrow> HMDataCheckList" where
  "CheckList_setGuard guard cl = cl\<lparr>cl_guard := guard\<rparr>"

section \<open>Ranges\<close>

definition CheckList_sorted :: "HMDataCheckList \<Rightarrow> bool" where
  "CheckList_sorted cl \<longleftrightarrow>
     mmap_sorted CompareCheckList (cl_checklist cl)
     \<and> values_all (\<lambda>(n, p). map_sorted IPAddress_less (cp_checkData p)) (cl_checklist cl)"

lemma range_params_filter:
  "mmap_sorted CompareCheckList (cl_checklist cl) \<Longrightarrow>
     range_params key cl =
     map entry_params (filter (\<lambda>(k, v). key_equiv CompareCheckList key k) (cl_checklist cl))"
  by (simp add: range_params_def check_list_order.equal_range_filter)

lemma range_params_equiv:
  "mmap_sorted CompareCheckList (cl_checklist cl) \<Longrightarrow> key_equiv CompareCheckList k key \<Longrightarrow>
     range_params k cl = range_params key cl"
  by (simp add: range_params_def check_list_order.equal_range_equiv)

lemma range_adjust_range:
  assumes "mmap_sorted CompareCheckList (cl_checklist cl)"
  shows "range_params key (range_adjust key f cl) = map f (range_params key cl)"
  using check_list_order.equal_range_adjust_same [OF assms]
  by (auto simp: range_params_def range_adjust_def split_beta)

lemma range_adjust_other:
  assumes "mmap_sorted CompareCheckList (cl_checklist cl)" and "\<not> key_equiv CompareCheckList k key"
  shows "range_params k (range_adjust key f cl) = range_params k cl"
  using check_list_order.equal_range_adjust_other [OF assms]
  by (simp add: range_params_def range_adjust_def)

lemma range_adjust_sorted [simp]:
  "mmap_sorted CompareCheckList (cl_checklist (range_adjust key f cl)) =
     mmap_sorted CompareCheckList (cl_checklist cl)"
  by (simp add: range_adjust_def)

lemma range_member_sorted:
  assumes "CheckList_sorted cl" and "p \<in> set (range_params key cl)"
  shows "map_sorted IPAddress_less (cp_checkData p)"
  using assms
  by (auto simp: CheckList_sorted_def range_params_filter values_all_def list_all_iff)

section \<open>Queueing\<close>

lemma queued_entry:
  assumes "map_sorted IPAddress_less (cp_checkData p)"
  shows "CheckParams_isValidIP ip (CheckParams_queueQuerry ip p)"
    and "CheckParams_getQueryState ip (CheckParams_queueQuerry ip p) = HM_CHECK_QUEUED"
  using assms
  by (simp_all add: CheckParams_isValidIP_def CheckParams_getQueryState_def CheckParams_queueQuerry_def
      data_find_touch)

lemma loop_pending:
  assumes "\<And>p. p \<in> set ps \<Longrightarrow> CheckParams_isValidIP ip p"
    and "\<And>p. p \<in> set ps \<Longrightarrow> CheckParams_getQueryState ip p \<in> {HM_CHECK_QUEUED, HM_CHECK_IN_PROGRESS}"
  shows "checkNeeded_loop now ip ps s = Some s"
  using assms
proof (induction ps arbitrary: s)
  case (Cons p ps)
  have p: "CheckParams_isValidIP ip p" "CheckParams_getQueryState ip p \<noteq> HM_CHECK_FAILED"
    "CheckParams_getQueryState ip p \<noteq> HM_CHECK_INACTIVE" using Cons.prems [of p] by auto
  have "checkNeeded_loop now ip ps s = Some s" for s using Cons.IH Cons.prems by simp
  then show ?case using p by (cases s) (simp add: Let_def)
qed simp

lemma checkNeeded_pending:
  assumes "\<And>p. p \<in> set (range_params (hostname, check) cl) \<Longrightarrow> CheckParams_isValidIP ip p"
    and "\<And>p. p \<in> set (range_params (hostname, check) cl) \<Longrightarrow>
      CheckParams_getQueryState ip p \<in> {HM_CHECK_QUEUED, HM_CHECK_IN_PROGRESS}"
  shows "CheckList_checkNeeded now hostname ip check cl = HM_SCHEDULE_IGNORE"
  using loop_pending [OF assms] by (simp add: CheckList_checkNeeded_def ts_plus_def)

lemma queue_then_ignored:
  assumes "CheckList_sorted cl"
  shows "CheckList_checkNeeded now hostname ip check
    (range_adjust (hostname, check) (CheckParams_queueQuerry ip) cl) = HM_SCHEDULE_IGNORE"
proof -
  have "mmap_sorted CompareCheckList (cl_checklist cl)" using assms by (simp add: CheckList_sorted_def)
  then have range: "range_params (hostname, check)
      (range_adjust (hostname, check) (CheckParams_queueQuerry ip) cl) =
      map (CheckParams_queueQuerry ip) (range_params (hostname, check) cl)"
    by (rule range_adjust_range)
  show ?thesis
    using queued_entry range_member_sorted [OF assms]
    by (intro checkNeeded_pending) (auto simp: range)
qed

text \<open>
  Queueing a check puts exactly one work order at the end of the work queue, for that host,
  address and check, marks the address as queued in every parameter object of the check, and from
  then on no check of the address is asked for, at any time, until a result arrives.
\<close>

theorem queueCheck_one_work:
  assumes "CheckList_sorted cl" and "check_work_class ares check = Class cls"
  shows "\<exists>cl' q' w. CheckList_queueCheck ares now hostname ip check (cl, q) = Some (cl', q')
    \<and> wq_queue q' = wq_queue q @ [w] \<and> wk_class w = cls \<and> wk_hostname w = hostname
    \<and> wk_ipAddress w = ip \<and> wk_hostCheck w = check
    \<and> (\<forall>p \<in> set (range_params (hostname, check) cl').
         CheckParams_getQueryState ip p = HM_CHECK_QUEUED)
    \<and> (\<forall>t. CheckList_checkNeeded t hostname ip check cl' = HM_SCHEDULE_IGNORE)"
proof -
  let ?cl = "range_adjust (hostname, check) (CheckParams_queueQuerry ip) cl"
  have "mmap_sorted CompareCheckList (cl_checklist cl)"
    using assms(1) by (simp add: CheckList_sorted_def)
  then have "\<forall>p \<in> set (range_params (hostname, check) ?cl).
      CheckParams_getQueryState ip p = HM_CHECK_QUEUED"
    using queued_entry range_member_sorted [OF assms(1)] by (auto simp: range_adjust_range)
  then show ?thesis
    using assms(2) queue_then_ignored [OF assms(1)]
    by (auto simp: CheckList_queueCheck_def WorkQueue_insertWork_def check_work_def Let_def
        Work_new_def Work_setReschedule_def Work_setPublish_def Work_setStoreResults_def)
qed

text \<open>
  A check whose plugin does not fit its type makes no work order, but its addresses are marked
  as queued all the same, so the check is never asked for again.
\<close>

theorem queueCheck_invalid_plugin_stuck:
  assumes "CheckList_sorted cl" and "check_work_class ares check = InvalidCheck"
  shows "\<exists>cl'. CheckList_queueCheck ares now hostname ip check (cl, q) = Some (cl', q)
    \<and> (\<forall>t. CheckList_checkNeeded t hostname ip check cl' = HM_SCHEDULE_IGNORE)"
  using assms queue_then_ignored [OF assms(1)] by (simp add: CheckList_queueCheck_def)

text \<open>
  In a build without \<open>USE_ARES\<close>, queueing a DNS check with its default plugin dereferences a
  null pointer; with \<open>USE_ARES\<close> no check does.
\<close>

theorem queueCheck_null_without_ares:
  "(hc_checkType check \<in> {HM_CHECK_DNS, HM_CHECK_DNSVC}
      \<and> hc_checkPlugin check \<in> {HM_CHECK_PLUGIN_DEFAULT, HM_CHECK_PLUGIN_DNS_ARES}
      \<and> \<not> ares) \<longleftrightarrow>
   CheckList_queueCheck ares now hostname ip check (cl, q) = None"
  by (cases "hc_checkType check")
    (auto simp: CheckList_queueCheck_def check_work_class_def plugin_class_def Let_def)

section \<open>Configuration\<close>

lemma update_first_Some:
  "update_first P f es = Some es' \<Longrightarrow>
     \<exists>pre e post. es = pre @ e # post \<and> P e \<and> es' = pre @ f e # post"
proof (induction es arbitrary: es')
  case (Cons e es)
  then show ?case by (auto split: if_splits) (metis append_Cons append_Nil, metis append_Cons)
qed simp

lemma update_first_None: "update_first P f es = None \<longleftrightarrow> (\<forall>e \<in> set es. \<not> P e)"
  by (induction es) auto

lemma distinct_mmap_insert:
  "distinct (map f (mmap_insert lt k v m)) \<longleftrightarrow> f (k, v) \<notin> f ` set m \<and> distinct (map f m)"
  by (induction m) (auto split: if_splits)

lemma CheckParams_eq_group [simp]:
  "CheckParams_eq (CheckParams_addHostGroup name p) k = CheckParams_eq p k"
  "CheckParams_eq (CheckParams_copy p) k = CheckParams_eq p k"
  by (simp_all add: CheckParams_eq_def CheckParams_addHostGroup_def CheckParams_copy_def)

text \<open>An entry serves a host, a check and parameters for a group.\<close>

definition serves ::
    "string \<Rightarrow> check_key \<Rightarrow> HMDataCheckParams \<Rightarrow> HMDataCheckList \<Rightarrow> bool" where
  "serves name key check cl \<longleftrightarrow>
     (\<exists>(k, n, p) \<in> set (cl_checklist cl). key_equiv CompareCheckList key k \<and> CheckParams_eq p check
        \<and> name \<in> set (cp_hostGroups p))"

lemma addHostGroup_host_serves:
  "serves name (host, hostcheck) check (addHostGroup_host name hostcheck check host cl)"
proof (cases "update_first
    (\<lambda>(k, n, p). key_equiv CompareCheckList (host, hostcheck) k \<and> CheckParams_eq p check)
    (\<lambda>(k, n, p). (k, n, CheckParams_addHostGroup name p)) (cl_checklist cl)")
  case None
  then show ?thesis
    by (auto simp: addHostGroup_host_def serves_def insert_entry_def CheckParams_addHostGroup_def
        CheckParams_copy_def CheckParams_eq_def)
next
  case (Some es)
  then show ?thesis
    using update_first_Some [OF Some]
    by (auto simp: addHostGroup_host_def serves_def) (auto simp: CheckParams_addHostGroup_def)
qed

lemma addHostGroup_host_keeps:
  assumes "serves name' key check' cl"
  shows "serves name' key check' (addHostGroup_host name hostcheck check host cl)"
proof (cases "update_first
    (\<lambda>(k, n, p). key_equiv CompareCheckList (host, hostcheck) k \<and> CheckParams_eq p check)
    (\<lambda>(k, n, p). (k, n, CheckParams_addHostGroup name p)) (cl_checklist cl)")
  case None
  then show ?thesis using assms by (auto simp: addHostGroup_host_def serves_def insert_entry_def)
next
  case (Some es)
  then show ?thesis
    using update_first_Some [OF Some] assms
    by (auto simp: addHostGroup_host_def serves_def) (auto simp: CheckParams_addHostGroup_def)
qed

lemma addHostGroup_fold_keeps:
  "serves name' key check' cl \<Longrightarrow>
     serves name' key check' (fold (addHostGroup_host name hostcheck check) hosts cl)"
  by (induction hosts arbitrary: cl) (auto intro: addHostGroup_host_keeps)

lemma addHostGroup_fold_serves:
  "host \<in> set hosts \<Longrightarrow>
     serves name (host, hostcheck) check (fold (addHostGroup_host name hostcheck check) hosts cl)"
  by (induction hosts arbitrary: cl)
    (auto intro: addHostGroup_fold_keeps addHostGroup_host_serves)

text \<open>No two entries are for the same check with the same parameters.\<close>

definition entry_class where
  "entry_class e = (check_list_key (fst e), params_key (entry_params e))"

definition no_duplicates :: "HMDataCheckList \<Rightarrow> bool" where
  "no_duplicates cl \<longleftrightarrow> distinct (map entry_class (cl_checklist cl))"

lemma params_key_group [simp]:
  "params_key (CheckParams_addHostGroup name p) = params_key p"
  "params_key (CheckParams_copy p) = params_key p"
  by (simp_all add: params_key_def CheckParams_addHostGroup_def CheckParams_copy_def)

lemma addHostGroup_host_no_duplicates:
  assumes "no_duplicates cl"
  shows "no_duplicates (addHostGroup_host name hostcheck check host cl)"
proof (cases "update_first
    (\<lambda>(k, n, p). key_equiv CompareCheckList (host, hostcheck) k \<and> CheckParams_eq p check)
    (\<lambda>(k, n, p). (k, n, CheckParams_addHostGroup name p)) (cl_checklist cl)")
  case None
  then have "\<forall>(k, n, p) \<in> set (cl_checklist cl).
      \<not> (key_equiv CompareCheckList (host, hostcheck) k \<and> CheckParams_eq p check)"
    by (auto simp: update_first_None)
  then have "(check_list_key (host, hostcheck), params_key check)
      \<notin> entry_class ` set (cl_checklist cl)"
    by (auto simp: entry_class_def check_list_order.equiv_key CheckParams_eq_key)
  then show ?thesis
    using assms None
    by (simp add: addHostGroup_host_def no_duplicates_def insert_entry_def distinct_mmap_insert)
      (simp add: entry_class_def)
next
  case (Some es)
  then have "map entry_class es = map entry_class (cl_checklist cl)"
    using update_first_Some [OF Some] by (auto simp: entry_class_def)
  then show ?thesis using Some assms by (simp add: addHostGroup_host_def no_duplicates_def)
qed

lemma addHostGroup_fold_no_duplicates:
  "no_duplicates cl \<Longrightarrow> no_duplicates (fold (addHostGroup_host name hostcheck check) hosts cl)"
  by (induction hosts arbitrary: cl) (auto intro: addHostGroup_host_no_duplicates)

text \<open>
  Adding a host group makes the check list serve it and nothing twice. For every host of the
  group there is an entry for the check and the parameters of the group that names the group; and
  if no two entries were for the same check with the same parameters before, none are after.
  A group with an invalid check type, or a guarded list, adds nothing.
\<close>

theorem addHostGroup_serves_hosts:
  assumes "CheckList_addHostGroup g cl = (cl', n)"
  shows "if cl_guard cl \<or> hg_checkType g = HM_CHECK_INVALID then cl' = cl \<and> n = 0
    else (\<forall>host \<in> set (hg_hosts g).
        serves (hg_groupName g) (host, fst (HostGroup_getHostCheck g HostCheck_default))
          (fst (HostGroup_getCheckParameters g CheckParams_default)) cl')
      \<and> (no_duplicates cl \<longrightarrow> no_duplicates cl') \<and> n = of_nat (length (hg_hosts g))"
proof -
  have valid: "check_type_code (hg_checkType g) < 24 \<longleftrightarrow> hg_checkType g \<noteq> HM_CHECK_INVALID"
    by (cases "hg_checkType g") simp_all
  show ?thesis
    using assms addHostGroup_fold_serves addHostGroup_fold_no_duplicates
    by (auto simp: CheckList_addHostGroup_def HostGroup_getHostCheck_def
        HostGroup_getCheckParameters_def valid split: if_splits)
qed

section \<open>Results\<close>

lemma updateResult_eq [simp]:
  "CheckParams_eq (CheckParams_updateCheckResult a r force p) k = CheckParams_eq p k"
  by (auto simp: CheckParams_updateCheckResult_def CheckParams_eq_def split: option.split)

text \<open>
  A result that is stored under a header (host, check, parameters, address) is the result that
  is read back under it, and the operation reports whether the check list has such an entry.
\<close>

theorem updateCheckHeader_getCheckResult:
  assumes "CheckList_sorted cl" and "CheckList_updateCheckHeader header result cl = (cl', found)"
  shows "CheckList_getCheckResult header cl' = (if found then Some result else None)"
proof -
  let ?key = "(ch_hostname header, ch_hostCheck header)"
  let ?f = "\<lambda>p. if CheckParams_eq p (ch_checkParams header)
      then CheckParams_updateCheckResult (ch_address header) result True p else p"
  have sorted: "mmap_sorted CompareCheckList (cl_checklist cl)"
    using assms(1) by (simp add: CheckList_sorted_def)
  have cl': "range_params ?key cl' = map ?f (range_params ?key cl)"
    and found: "found = list_ex (\<lambda>p. CheckParams_eq p (ch_checkParams header)) (range_params ?key cl)"
    using assms(2) range_adjust_range [OF sorted] by (auto simp: CheckList_updateCheckHeader_def)
  have one: "CheckParams_getCheckResult (ch_address header)
      (CheckParams_updateCheckResult (ch_address header) result True p) = Some result"
    if "p \<in> set (range_params ?key cl)" for p
    using that range_member_sorted [OF assms(1)]
    by (auto simp: CheckParams_getCheckResult_def CheckParams_updateCheckResult_def
        map_sorted_erase ip_order.find_insert_same split: option.split)
  have "(case List.map_filter (\<lambda>p. if CheckParams_eq p (ch_checkParams header)
        then CheckParams_getCheckResult (ch_address header) p else None) (map ?f ps) of
      [] \<Rightarrow> None | r # _ \<Rightarrow> Some r) =
    (if list_ex (\<lambda>p. CheckParams_eq p (ch_checkParams header)) ps then Some result else None)"
    if "set ps \<subseteq> set (range_params ?key cl)" for ps
    using that by (induction ps) (auto simp: map_filter_simps one)
  then show ?thesis by (simp add: CheckList_getCheckResult_def cl' found)
qed

text \<open>
  Invalidating a check removes the result of the address from every parameter object of the
  check, asks the storage to purge it once for each, and leaves all other addresses and checks.
\<close>

theorem invalidateCheck_removes:
  assumes "CheckList_sorted cl"
    and "CheckList_invalidateCheck hostname ip check cl = (cl', calls)"
  shows "CheckList_getCheckResults hostname check ip cl' = ([], False)
    \<and> length calls = length (range_params (hostname, check) cl)
    \<and> (\<forall>a. a \<noteq> ip \<longrightarrow>
         CheckList_getCheckResults hostname check a cl' = CheckList_getCheckResults hostname check a cl)
    \<and> (\<forall>k. \<not> key_equiv CompareCheckList k (hostname, check) \<longrightarrow> range_params k cl' = range_params k cl)"
proof -
  have sorted: "mmap_sorted CompareCheckList (cl_checklist cl)"
    using assms(1) by (simp add: CheckList_sorted_def)
  have gone: "data_find ip (fst (CheckParams_invalidateResult ip p)) = None" for p
    by (simp add: CheckParams_invalidateResult_def split: option.split)
  have others: "data_find a (fst (CheckParams_invalidateResult ip p)) = data_find a p" if "a \<noteq> ip" for a p
    using that by (simp add: CheckParams_invalidateResult_def ip_order.find_erase_other split: option.split)
  have copy: "CheckParams_copy (fst (CheckParams_invalidateResult ip p)) = CheckParams_copy p" for p
    by (simp add: CheckParams_invalidateResult_def CheckParams_copy_def split: option.split)
  have "results_of ip (map (fst \<circ> CheckParams_invalidateResult ip) ps) = []" for ps
    by (induction ps) (simp_all add: results_of_def map_filter_simps CheckParams_getCheckResult_def gone)
  moreover have "results_of a (map (fst \<circ> CheckParams_invalidateResult ip) ps) = results_of a ps"
    if "a \<noteq> ip" for a ps
    using that
    by (induction ps)
      (simp_all add: results_of_def map_filter_simps CheckParams_getCheckResult_def others copy
        split: option.split)
  ultimately show ?thesis
    using assms(2) range_adjust_range [OF sorted] range_adjust_other [OF sorted]
    by (auto simp: CheckList_invalidateCheck_def CheckList_getCheckResults_def Let_def)
qed

text \<open>
  The next check time of a check is the earliest next time of its parameter objects, and a day
  ahead when it has none that is earlier.
\<close>

lemma nextCheckTime_is_minimum:
  "CheckList_nextCheckTime now hostname ip check cl =
     Min (insert (now + 86400000)
       (CheckParams_nextCheckTime now ip ` set (range_params (hostname, check) cl)))"
proof -
  have "fold (\<lambda>p m. let t = f p in if t < m then t else m) ps x = Min (insert x (f ` set ps))"
    for f :: "HMDataCheckParams \<Rightarrow> int" and ps x
  proof (induction ps arbitrary: x)
    case (Cons p ps)
    have "Min (insert (min (f p) x) (f ` set ps)) = Min (insert x (f ` set (p # ps)))"
      by (cases "ps = []") (simp_all add: Min_insert min.left_commute min.commute min.assoc)
    moreover have "(if f p < x then f p else x) = min (f p) x" by (simp add: min_def)
    ultimately show ?case using Cons.IH [of "min (f p) x"] by (simp only: fold_simps Let_def)
  qed simp
  then show ?thesis by (simp add: CheckList_nextCheckTime_def ts_plus_def)
qed

section \<open>Witnesses\<close>

definition w_check :: HMDataHostCheck where
  "w_check = HostCheck_default\<lparr>hc_checkType := HM_CHECK_TCP, hc_port := 80\<rparr>"

definition w_list :: HMDataCheckList where
  "w_list = CheckList_new\<lparr>cl_checklist := [((''h'', w_check), 0, w_params)]\<rparr>"

lemma w_list_sorted: "CheckList_sorted w_list"
  by (simp add: CheckList_sorted_def w_list_def mmap_sorted_def w_params_def map_sorted_def)

lemma w_list_range: "range_params (''h'', w_check) w_list = [w_params]"
  using w_list_sorted
  by (simp add: range_params_filter CheckList_sorted_def)
    (simp add: w_list_def)

lemma w_check_class: "check_work_class False w_check = Class HMWorkHealthCheckTCP"
  by (simp add: check_work_class_def w_check_def plugin_class_def HostCheck_default_def HostCheck_new_def)

lemma queueCheck_one_work_witness:
  "\<exists>cl' q' w. CheckList_queueCheck False 5 ''h'' w_addr w_check (w_list, WorkQueue_new) = Some (cl', q')
    \<and> wq_queue q' = [w] \<and> wk_class w = HMWorkHealthCheckTCP
    \<and> CheckList_checkNeeded 9 ''h'' w_addr w_check cl' = HM_SCHEDULE_IGNORE"
  using queueCheck_one_work [OF w_list_sorted w_check_class, of 5 "''h''" w_addr WorkQueue_new] w_queue
  by auto

lemma queueCheck_invalid_plugin_stuck_witness:
  "\<exists>cl'. CheckList_queueCheck False 5 ''h'' w_addr
      (w_check\<lparr>hc_checkPlugin := HM_CHECK_PLUGIN_HTTP_CURL\<rparr>) (w_list, WorkQueue_new) = Some (cl', WorkQueue_new)
    \<and> CheckList_checkNeeded 9 ''h'' w_addr (w_check\<lparr>hc_checkPlugin := HM_CHECK_PLUGIN_HTTP_CURL\<rparr>) cl'
      = HM_SCHEDULE_IGNORE"
proof -
  have "check_work_class False (w_check\<lparr>hc_checkPlugin := HM_CHECK_PLUGIN_HTTP_CURL\<rparr>) = InvalidCheck"
    by (simp add: check_work_class_def w_check_def plugin_class_def)
  then show ?thesis
    using queueCheck_invalid_plugin_stuck [OF w_list_sorted, of False
        "w_check\<lparr>hc_checkPlugin := HM_CHECK_PLUGIN_HTTP_CURL\<rparr>" 5 "''h''" w_addr WorkQueue_new] by blast
qed

lemma addHostGroup_serves_hosts_witness:
  "serves ''web'' (''h1'', fst (HostGroup_getHostCheck sample_group HostCheck_default))
     (fst (HostGroup_getCheckParameters sample_group CheckParams_default))
     (fst (CheckList_addHostGroup sample_group CheckList_new))"
proof -
  obtain cl n where cl: "CheckList_addHostGroup sample_group CheckList_new = (cl, n)"
    by (cases "CheckList_addHostGroup sample_group CheckList_new")
  have "hg_groupName sample_group = ''web''" "''h1'' \<in> set (hg_hosts sample_group)"
    "hg_checkType sample_group \<noteq> HM_CHECK_INVALID" "\<not> cl_guard CheckList_new"
    by (simp_all add: sample_group_def HostGroup_new_def CheckList_new_def)
  then show ?thesis using addHostGroup_serves_hosts [OF cl] by (auto simp: cl)
qed

definition w_header :: HMCheckHeader where
  "w_header = \<lparr>ch_hostname = ''h'', ch_address = w_addr, ch_hostCheck = w_check, ch_checkParams = w_params\<rparr>"

lemma updateCheckHeader_getCheckResult_witness:
  "CheckList_getCheckResult w_header (fst (CheckList_updateCheckHeader w_header CheckResult_default w_list))
     = Some CheckResult_default"
proof -
  obtain cl found where u: "CheckList_updateCheckHeader w_header CheckResult_default w_list = (cl, found)"
    by (cases "CheckList_updateCheckHeader w_header CheckResult_default w_list")
  then have found using w_list_range
    by (auto simp: CheckList_updateCheckHeader_def w_header_def CheckParams_eq_def)
  then show ?thesis using updateCheckHeader_getCheckResult [OF w_list_sorted u] by (simp add: u)
qed

lemma invalidateCheck_removes_witness:
  "CheckList_getCheckResults ''h'' w_check w_addr
     (fst (CheckList_invalidateCheck ''h'' w_addr w_check w_list)) = ([], False)"
proof -
  obtain cl calls where u: "CheckList_invalidateCheck ''h'' w_addr w_check w_list = (cl, calls)"
    by (cases "CheckList_invalidateCheck ''h'' w_addr w_check w_list")
  show ?thesis using invalidateCheck_removes [OF w_list_sorted u] by (simp add: u)
qed

end
