(* ===== verification/HM_State.thy ===== *)
theory HM_State
  imports HM_CheckList
begin

text \<open>
  \<open>HMState\<close>: the configuration of the daemon with the check list, the caches and the wait list made
  from it. A field \<open>m_x\<close> of the class is \<open>st_x\<close> here; the fields for logging, sockets, certificates
  and the storage connection are left out, and \<open>st_resultPublisher\<close> says whether a publisher is set.
  A null pointer dereference is the value \<open>None\<close>.
\<close>

record HMState =
  st_hostGroups :: HMDataHostGroupMap
  st_checkList :: HMDataCheckList
  st_dnsCache :: HMDNSCache
  st_dnsWaitList :: HMWaitList
  st_remoteHostCache :: HMRemoteHostCache
  st_remoteCache :: HMRemoteHostGroupCache
  st_resultPublisher :: bool
  st_httpDefaultCheckClass :: HM_CHECK_PLUGIN_CLASS
  st_ftpDefaultCheckClass :: HM_CHECK_PLUGIN_CLASS
  st_tcpDefaultCheckClass :: HM_CHECK_PLUGIN_CLASS
  st_tcpsDefaultCheckClass :: HM_CHECK_PLUGIN_CLASS
  st_dnsDefaultCheckClass :: HM_CHECK_PLUGIN_CLASS
  st_noneDefaultCheckClass :: HM_CHECK_PLUGIN_CLASS
  st_auxDefaultCheckClass :: HM_CHECK_PLUGIN_CLASS
  st_markDefaultCheckClass :: HM_CHECK_PLUGIN_CLASS
  st_enableSecureRemote :: bool
  st_enableSharedConnection :: bool
  st_dnsLookDefaultPlugin :: HM_DNS_PLUGIN_CLASS
  st_dnsStaticDefaultPlugin :: HM_DNS_PLUGIN_CLASS

definition State_new :: HMState where
  "State_new =
     \<lparr>st_hostGroups = [], st_checkList = CheckList_new,
      st_dnsCache = \<lparr>dc_cache = [], dc_staticDNS = []\<rparr>, st_dnsWaitList = [],
      st_remoteHostCache = [], st_remoteCache = [], st_resultPublisher = False,
      st_httpDefaultCheckClass = HM_CHECK_PLUGIN_HTTP_CURL,
      st_ftpDefaultCheckClass = HM_CHECK_PLUGIN_FTP_CURL,
      st_tcpDefaultCheckClass = HM_CHECK_PLUGIN_TCP_RAW,
      st_tcpsDefaultCheckClass = HM_CHECK_PLUGIN_TCPS_RAW,
      st_dnsDefaultCheckClass = HM_CHECK_PLUGIN_DNS_ARES,
      st_noneDefaultCheckClass = HM_CHECK_PLUGIN_DEFAULT,
      st_auxDefaultCheckClass = HM_CHECK_PLUGIN_AUX_CURL,
      st_markDefaultCheckClass = HM_CHECK_PLUGIN_MARK_CURL,
      st_enableSecureRemote = False, st_enableSharedConnection = False,
      st_dnsLookDefaultPlugin = HM_DNS_PLUGIN_ARES, st_dnsStaticDefaultPlugin = HM_DNS_PLUGIN_STATIC\<rparr>"

section \<open>Generation of the check lists\<close>

definition State_getDNSPlugin :: "HM_DNS_TYPE \<Rightarrow> HMState \<Rightarrow> HM_DNS_PLUGIN_CLASS" where
  "State_getDNSPlugin dnsType st =
     (case dnsType of HM_DNS_TYPE_LOOKUP \<Rightarrow> st_dnsLookDefaultPlugin st
      | HM_DNS_TYPE_STATIC \<Rightarrow> st_dnsStaticDefaultPlugin st)"

definition State_remoteCheckType :: "HMState \<Rightarrow> HM_REMOTE_CHECK_TYPE" where
  "State_remoteCheckType st =
     (if st_enableSecureRemote st then
        (if st_enableSharedConnection st then HM_REMOTE_SHARED_CHECK_TCPS else HM_REMOTE_CHECK_TCPS)
      else if st_enableSharedConnection st then HM_REMOTE_SHARED_CHECK_TCP
      else HM_REMOTE_CHECK_TCP)"

text \<open>The plugin a check type gets; a group with an invalid type keeps the one it has.\<close>

definition State_checkPlugin :: "HMState \<Rightarrow> HMDataHostGroup \<Rightarrow> HM_CHECK_PLUGIN_CLASS" where
  "State_checkPlugin st g =
     (case hg_checkType g of
        HM_CHECK_HTTP \<Rightarrow> st_httpDefaultCheckClass st
      | HM_CHECK_HTTPS \<Rightarrow> st_httpDefaultCheckClass st
      | HM_CHECK_HTTPS_NO_PEER_CHECK \<Rightarrow> st_httpDefaultCheckClass st
      | HM_CHECK_MTLS_HTTPS \<Rightarrow> st_httpDefaultCheckClass st
      | HM_CHECK_MTLS_HTTPS_NO_PEER_CHECK \<Rightarrow> st_httpDefaultCheckClass st
      | HM_CHECK_FTP \<Rightarrow> st_ftpDefaultCheckClass st
      | HM_CHECK_FTPS_IMPLICIT \<Rightarrow> st_ftpDefaultCheckClass st
      | HM_CHECK_FTPS_IMPLICIT_NO_PEER_CHECK \<Rightarrow> st_ftpDefaultCheckClass st
      | HM_CHECK_FTPS_EXPLICIT \<Rightarrow> st_ftpDefaultCheckClass st
      | HM_CHECK_FTPS_EXPLICIT_NO_PEER_CHECK \<Rightarrow> st_ftpDefaultCheckClass st
      | HM_CHECK_AUX_HTTP \<Rightarrow> st_auxDefaultCheckClass st
      | HM_CHECK_AUX_HTTPS \<Rightarrow> st_auxDefaultCheckClass st
      | HM_CHECK_AUX_HTTPS_NO_PEER_CHECK \<Rightarrow> st_auxDefaultCheckClass st
      | HM_CHECK_AUX_MTLS_HTTPS \<Rightarrow> st_auxDefaultCheckClass st
      | HM_CHECK_AUX_MTLS_HTTPS_NO_PEER_CHECK \<Rightarrow> st_auxDefaultCheckClass st
      | HM_CHECK_MARK_HTTP \<Rightarrow> st_markDefaultCheckClass st
      | HM_CHECK_MARK_HTTPS \<Rightarrow> st_markDefaultCheckClass st
      | HM_CHECK_MARK_HTTPS_NO_PEER_CHECK \<Rightarrow> st_markDefaultCheckClass st
      | HM_CHECK_TCP \<Rightarrow> st_tcpDefaultCheckClass st
      | HM_CHECK_TCPS \<Rightarrow> st_tcpsDefaultCheckClass st
      | HM_CHECK_DNSVC \<Rightarrow> st_dnsDefaultCheckClass st
      | HM_CHECK_DNS \<Rightarrow> st_dnsDefaultCheckClass st
      | HM_CHECK_NONE \<Rightarrow> st_noneDefaultCheckClass st
      | HM_CHECK_DEFAULT \<Rightarrow> st_noneDefaultCheckClass st
      | HM_CHECK_INVALID \<Rightarrow> hg_checkPlugin g)"

definition State_prepareGroup :: "HMState \<Rightarrow> HMDataHostGroup \<Rightarrow> HMDataHostGroup" where
  "State_prepareGroup st g =
     (let g = g\<lparr>hg_checkPlugin := State_checkPlugin st g\<rparr>
      in if hg_remoteCheck g \<noteq> [] then g\<lparr>hg_remoteCheckType := State_remoteCheckType st\<rparr> else g)"

definition State_generateHostCheckList :: "HMState \<Rightarrow> HMState" where
  "State_generateHostCheckList st =
     (let groups = map (\<lambda>(name, g). (name, State_prepareGroup st g)) (st_hostGroups st)
      in st\<lparr>st_hostGroups := groups,
            st_checkList :=
              fold (\<lambda>(name, g) cl. fst (CheckList_addHostGroup g cl)) groups (st_checkList st)\<rparr>)"

definition State_generateDNSCheckList :: "HMState \<Rightarrow> HMState" where
  "State_generateDNSCheckList st =
     (let (cache, waitList) =
            CheckList_initDNSCache (st_dnsLookDefaultPlugin st) (st_dnsStaticDefaultPlugin st)
              (st_checkList st) (st_dnsCache st, st_dnsWaitList st)
      in st\<lparr>st_dnsCache := cache, st_dnsWaitList := waitList\<rparr>)"

definition State_generateRemoteHostCheckList :: "HMState \<Rightarrow> HMState" where
  "State_generateRemoteHostCheckList st =
     st\<lparr>st_remoteHostCache := CheckList_initRemoteCache (st_checkList st) (st_remoteHostCache st)\<rparr>"

definition State_generateRemoteCheckList :: "HMState \<Rightarrow> HMState" where
  "State_generateRemoteCheckList st =
     st\<lparr>st_remoteCache :=
       fold (\<lambda>(name, g) c.
           if hg_flowType g = HM_FLOW_REMOTE_HOSTGROUP_TYPE
           then RemoteHostGroupCache_insertRemoteEntry name (hg_checkTTL g) (hg_checkTimeout g) c
           else c)
         (st_hostGroups st) (st_remoteCache st)\<rparr>"

definition State_generateCheckList :: "HMState \<Rightarrow> HMState" where
  "State_generateCheckList st =
     State_generateRemoteCheckList (State_generateRemoteHostCheckList
       (State_generateDNSCheckList (State_generateHostCheckList st)))"

section \<open>Forced checks\<close>

text \<open>The calls that put work for the state into the work queue.\<close>

definition state_queueDNS ::
    "bool \<Rightarrow> HMTimeStamp \<Rightarrow> string \<Rightarrow> HMDNSLookup \<Rightarrow> HMState \<times> HMWorkQueue \<Rightarrow> HMState \<times> HMWorkQueue" where
  "state_queueDNS ares now name lookup = (\<lambda>(st, q).
     let (c, q) = DNSCache_queueDNSQuery ares now name lookup (st_dnsCache st, q)
     in (st\<lparr>st_dnsCache := c\<rparr>, q))"

definition state_queueCheck ::
    "bool \<Rightarrow> HMTimeStamp \<Rightarrow> string \<Rightarrow> HMIPAddress \<Rightarrow> HMDataHostCheck \<Rightarrow> HMState \<times> HMWorkQueue \<Rightarrow>
     (HMState \<times> HMWorkQueue) option" where
  "state_queueCheck ares now hostname ip check = (\<lambda>(st, q).
     map_option (\<lambda>(cl, q). (st\<lparr>st_checkList := cl\<rparr>, q))
       (CheckList_queueCheck ares now hostname ip check (st_checkList st, q)))"

text \<open>
  The body of the loop over the addresses of a host. The lookups it queues for a zero address are
  made without \<open>setPlugin\<close>.
\<close>

definition force_address ::
    "bool \<Rightarrow> HMTimeStamp \<Rightarrow> HMDataHostGroup \<Rightarrow> HMDataHostCheck \<Rightarrow> string \<Rightarrow> HMIPAddress \<Rightarrow>
     HMState \<times> HMWorkQueue \<Rightarrow> (HMState \<times> HMWorkQueue) option" where
  "force_address ares now g dataCheck host address s =
     (if address = IPAddress_new AF_INET then
        Some (state_queueDNS ares now host
          (DNSLookup_new (hc_DNSType dataCheck) False (hg_remoteCheck g)) s)
      else if address = IPAddress_new AF_INET6 then
        Some (state_queueDNS ares now host
          (DNSLookup_new (hc_DNSType dataCheck) True (hg_remoteCheck g)) s)
      else state_queueCheck ares now host address dataCheck s)"

definition force_host ::
    "bool \<Rightarrow> HMTimeStamp \<Rightarrow> HMDataHostGroup \<Rightarrow> HMDataHostCheck \<Rightarrow> string \<Rightarrow>
     HMState \<times> HMWorkQueue \<Rightarrow> (HMState \<times> HMWorkQueue) option" where
  "force_host ares now g dataCheck host s =
     opt_fold (force_address ares now g dataCheck host)
       (fst (DNSCache_getAddresses host (hc_dualstack dataCheck)
          (DNSLookup_new (hc_DNSType dataCheck) False (hg_remoteCheck g)) [] (st_dnsCache (fst s)))) s"

definition State_forceHealthCheck ::
    "bool \<Rightarrow> HMTimeStamp \<Rightarrow> string \<Rightarrow> HMState \<times> HMWorkQueue \<Rightarrow> (HMState \<times> HMWorkQueue) option" where
  "State_forceHealthCheck ares now hostGroup s =
     (case group_find hostGroup (st_hostGroups (fst s)) of None \<Rightarrow> Some s
      | Some g \<Rightarrow>
          let (dataCheck, ok) = HostGroup_getHostCheck g HostCheck_default
          in if ok then opt_fold (force_host ares now g dataCheck) (hg_hosts g) s else Some s)"

definition State_forceHealthCheckHost ::
    "bool \<Rightarrow> HMTimeStamp \<Rightarrow> string \<Rightarrow> string \<Rightarrow> HMState \<times> HMWorkQueue \<Rightarrow>
     (HMState \<times> HMWorkQueue) option" where
  "State_forceHealthCheckHost ares now hostGroup hostName s =
     (case group_find hostGroup (st_hostGroups (fst s)) of None \<Rightarrow> Some s
      | Some g \<Rightarrow>
          let (dataCheck, ok) = HostGroup_getHostCheck g HostCheck_default
          in if ok then force_host ares now g dataCheck hostName s else Some s)"

definition force_dns ::
    "bool \<Rightarrow> HMTimeStamp \<Rightarrow> HMDataHostGroup \<Rightarrow> HMDataHostCheck \<Rightarrow> string \<Rightarrow>
     HMState \<times> HMWorkQueue \<Rightarrow> HMState \<times> HMWorkQueue" where
  "force_dns ares now g dataCheck host s =
     (let lookup = (\<lambda>ipv6. DNSLookup_setPlugin (State_getDNSPlugin (hc_DNSType dataCheck) (fst s))
                       (DNSLookup_new (hc_DNSType dataCheck) ipv6 (hg_remoteCheck g)));
          s = (if hc_dualstack dataCheck AND HM_DUALSTACK_IPV4_ONLY \<noteq> 0
               then state_queueDNS ares now host (lookup False) s else s)
      in if hc_dualstack dataCheck AND HM_DUALSTACK_IPV6_ONLY \<noteq> 0
         then state_queueDNS ares now host (lookup True) s else s)"

definition State_forceDNSCheck ::
    "bool \<Rightarrow> HMTimeStamp \<Rightarrow> string \<Rightarrow> HMState \<times> HMWorkQueue \<Rightarrow> HMState \<times> HMWorkQueue" where
  "State_forceDNSCheck ares now hostGroup s =
     (case group_find hostGroup (st_hostGroups (fst s)) of None \<Rightarrow> s
      | Some g \<Rightarrow>
          let (dataCheck, ok) = HostGroup_getHostCheck g HostCheck_default
          in if ok then fold (force_dns ares now g dataCheck) (hg_hosts g) s else s)"

definition State_forceDNSCheckHost ::
    "bool \<Rightarrow> HMTimeStamp \<Rightarrow> string \<Rightarrow> string \<Rightarrow> HMState \<times> HMWorkQueue \<Rightarrow> HMState \<times> HMWorkQueue" where
  "State_forceDNSCheckHost ares now hostGroup hostName s =
     (case group_find hostGroup (st_hostGroups (fst s)) of None \<Rightarrow> s
      | Some g \<Rightarrow>
          let (dataCheck, ok) = HostGroup_getHostCheck g HostCheck_default
          in if ok then force_dns ares now g dataCheck hostName s else s)"

text \<open>The overload for the control command that sets static addresses, without a group and without
  \<open>setPlugin\<close>.\<close>

definition State_forceDNSCheckAddresses ::
    "bool \<Rightarrow> HMTimeStamp \<Rightarrow> string \<Rightarrow> HM_DNS_TYPE \<Rightarrow> HMIPAddress list \<Rightarrow>
     HMState \<times> HMWorkQueue \<Rightarrow> HMState \<times> HMWorkQueue" where
  "State_forceDNSCheckAddresses ares now hostName dnsType addresses s =
     (let force = (\<lambda>ipv6 s.
            let lookup = DNSLookup_new dnsType ipv6 []
            in if DNSCache_getDNSResult hostName lookup (st_dnsCache (fst s)) \<noteq> None
               then state_queueDNS ares now hostName lookup s else s);
          s = (if list_ex (\<lambda>a. IPAddress_getType a = AF_INET) addresses then force False s else s)
      in if list_ex (\<lambda>a. IPAddress_getType a = AF_INET6) addresses then force True s else s)"

section \<open>Reload\<close>

text \<open>\<open>std::set_difference\<close>; the lists are expected to be sorted.\<close>

fun set_difference :: "string list \<Rightarrow> string list \<Rightarrow> string list" where
  "set_difference [] ys = []"
| "set_difference xs [] = xs"
| "set_difference (x # xs) (y # ys) =
     (if x < y then x # set_difference xs (y # ys)
      else if y < x then set_difference (x # xs) ys
      else set_difference xs ys)"

definition reschedule_host ::
    "bool \<Rightarrow> HMTimeStamp \<Rightarrow> HMDataHostCheck \<Rightarrow> string \<Rightarrow> HMState \<times> HMWorkQueue \<Rightarrow>
     (HMState \<times> HMWorkQueue) option" where
  "reschedule_host ares now nDataCheck hostname s =
     opt_fold (\<lambda>address. state_queueCheck ares now hostname address nDataCheck)
       (fst (DNSCache_getAddresses hostname (hc_dualstack nDataCheck)
          (DNSLookup_new (hc_DNSType nDataCheck) False (hc_remoteCheck nDataCheck)) []
          (st_dnsCache (fst s)))) s"

text \<open>The hosts of a group whose checks are queued after a reload.\<close>

definition reschedule_hosts :: "HMDataHostGroup option \<Rightarrow> HMDataHostGroup \<Rightarrow> string list" where
  "reschedule_hosts previous g =
     (case previous of None \<Rightarrow> hg_hosts g
      | Some old \<Rightarrow>
          let oParams = fst (HostGroup_getCheckParameters old CheckParams_default);
              nParams = fst (HostGroup_getCheckParameters g CheckParams_default);
              oDataCheck = fst (HostGroup_getHostCheck old HostCheck_default);
              nDataCheck = fst (HostGroup_getHostCheck g HostCheck_default)
          in if HostCheck_eq oDataCheck nDataCheck \<and> CheckParams_neq oParams nParams then hg_hosts g
             else if HostCheck_eq oDataCheck nDataCheck \<and> CheckParams_eq oParams nParams
             then set_difference (hg_hosts g) (hg_hosts old)
             else if \<not> HostCheck_eq oDataCheck nDataCheck then hg_hosts g
             else [])"

definition State_resheduleHealthChecks ::
    "bool \<Rightarrow> HMTimeStamp \<Rightarrow> HMState \<Rightarrow> HMState \<times> HMWorkQueue \<Rightarrow> (HMState \<times> HMWorkQueue) option" where
  "State_resheduleHealthChecks ares now src s =
     opt_fold (\<lambda>(name, g).
         opt_fold (reschedule_host ares now (fst (HostGroup_getHostCheck g HostCheck_default)))
           (reschedule_hosts (group_find name (st_hostGroups src)) g))
       (st_hostGroups (fst s)) s"

definition reschedule_dns ::
    "bool \<Rightarrow> HMTimeStamp \<Rightarrow> HMState \<Rightarrow> HMCheckHeader \<Rightarrow> bool \<Rightarrow> HMState \<times> HMWorkQueue \<Rightarrow>
     HMState \<times> HMWorkQueue" where
  "reschedule_dns ares now src h ipv6 s =
     (let hc = ch_hostCheck h;
          lookup = DNSLookup_setPlugin (State_getDNSPlugin (hc_DNSType hc) (fst s))
                     (DNSLookup_new (hc_DNSType hc) ipv6 (hc_remoteCheck hc))
      in case (DNSCache_getDNSResult (ch_hostname h) lookup (st_dnsCache src),
               DNSCache_getDNSResult (ch_hostname h) lookup (st_dnsCache (fst s))) of
           (Some old, Some new) \<Rightarrow>
             if dr_dnsTimeout old < dr_dnsTimeout new
             then state_queueDNS ares now (ch_hostname h) lookup s else s
         | _ \<Rightarrow> s)"

definition State_resheduleDNSChecks ::
    "bool \<Rightarrow> HMTimeStamp \<Rightarrow> HMState \<Rightarrow> HMState \<times> HMWorkQueue \<Rightarrow> HMState \<times> HMWorkQueue" where
  "State_resheduleDNSChecks ares now src s =
     fold (\<lambda>h s.
         let s = (if hc_dualstack (ch_hostCheck h) AND HM_DUALSTACK_IPV4_ONLY \<noteq> 0
                  then reschedule_dns ares now src h False s else s)
         in if hc_dualstack (ch_hostCheck h) AND HM_DUALSTACK_IPV6_ONLY \<noteq> 0
            then reschedule_dns ares now src h True s else s)
       (CheckList_getAllChecks (st_checkList (fst s))) s"

text \<open>The groups of the old state that \<open>updateBackend\<close> hands to the storage, in the order of their names.\<close>

definition State_updateBackend :: "HMState \<Rightarrow> HMState \<Rightarrow> string list" where
  "State_updateBackend src st =
     map fst (filter (\<lambda>(name, g).
         case group_find name (st_hostGroups st) of None \<Rightarrow> True
         | Some n \<Rightarrow>
             hg_passthroughInfo g \<noteq> hg_passthroughInfo n
             \<or> set_difference (hg_hosts g) (hg_hosts n) \<noteq> []
             \<or> set_difference (hg_hosts n) (hg_hosts g) \<noteq> [])
       (st_hostGroups src))"

section \<open>The generated lists serve the configuration\<close>

lemma addHostGroup_host_guard [simp]:
  "cl_guard (addHostGroup_host name hostcheck check host cl) = cl_guard cl"
  by (simp add: addHostGroup_host_def insert_entry_def split: option.split)

lemma addHostGroup_fold_guard [simp]:
  "cl_guard (fold (addHostGroup_host name hostcheck check) hosts cl) = cl_guard cl"
  by (induction hosts arbitrary: cl) simp_all

lemma addHostGroup_guard [simp]: "cl_guard (fst (CheckList_addHostGroup g cl)) = cl_guard cl"
  by (simp add: CheckList_addHostGroup_def split: prod.split)

lemma addHostGroup_keeps:
  "serves name key check cl \<Longrightarrow> serves name key check (fst (CheckList_addHostGroup g cl))"
  by (simp add: CheckList_addHostGroup_def addHostGroup_fold_keeps split: prod.split)

lemma valid_check_type: "check_type_code t < check_type_code HM_CHECK_INVALID \<longleftrightarrow> t \<noteq> HM_CHECK_INVALID"
  by (cases t) simp_all

lemma addHostGroup_serves:
  assumes "\<not> cl_guard cl" and "hg_checkType g \<noteq> HM_CHECK_INVALID" and "host \<in> set (hg_hosts g)"
  shows "serves (hg_groupName g) (host, HostCheck_setCheckParams g HostCheck_default)
    (fst (HostGroup_getCheckParameters g CheckParams_default)) (fst (CheckList_addHostGroup g cl))"
  using assms addHostGroup_fold_serves
  by (simp add: CheckList_addHostGroup_def HostGroup_getHostCheck_def valid_check_type
      HostGroup_getCheckParameters_def del: check_type_code.simps)

lemma addHostGroups_serve:
  assumes "(name, g) \<in> set groups" and "\<not> cl_guard cl" and "hg_checkType g \<noteq> HM_CHECK_INVALID"
    and "host \<in> set (hg_hosts g)"
  shows "serves (hg_groupName g) (host, HostCheck_setCheckParams g HostCheck_default)
    (fst (HostGroup_getCheckParameters g CheckParams_default))
    (fold (\<lambda>(name, g) cl. fst (CheckList_addHostGroup g cl)) groups cl)"
proof -
  have keeps: "serves n k c cl \<Longrightarrow>
      serves n k c (fold (\<lambda>(name, g) cl. fst (CheckList_addHostGroup g cl)) groups cl)" for n k c groups cl
    by (induction groups arbitrary: cl) (auto intro: addHostGroup_keeps)
  show ?thesis using assms
    by (induction groups arbitrary: cl) (auto intro: keeps addHostGroup_serves)
qed

lemma addHostGroups_guard [simp]:
  "cl_guard (fold (\<lambda>(name, g) cl. fst (CheckList_addHostGroup g cl)) groups cl) = cl_guard cl"
  by (induction groups arbitrary: cl) (simp_all add: split_beta)

lemma insertDNSEntry_sorted:
  "map_sorted dns_key_less (dc_cache c) \<Longrightarrow>
     map_sorted dns_key_less (dc_cache (DNSCache_insertDNSEntry name lookup ttl timeout c))"
  by (simp add: DNSCache_insertDNSEntry_def Let_def dns_order.map_sorted_insert split: option.split)

lemma insertDNSEntry_find:
  assumes "map_sorted dns_key_less (dc_cache c)"
  shows "dns_find k (DNSCache_insertDNSEntry name lookup ttl timeout c) \<noteq> None \<longleftrightarrow>
    key_equiv dns_key_less k (name, lookup) \<or> dns_find k c \<noteq> None"
proof (cases "key_equiv dns_key_less k (name, lookup)")
  case True
  then show ?thesis
    using assms by (simp add: dns_order.find_equiv [OF True] DNSCache_insertDNSEntry_def Let_def
        dns_order.find_insert_same split: option.split)
next
  case False
  then show ?thesis
    by (simp add: DNSCache_insertDNSEntry_def Let_def dns_order.find_insert_other
        dns_order.find_adjust_other split: option.split)
qed

lemma initDNSCache_entry_facts:
  assumes "map_sorted dns_key_less (dc_cache (fst s))"
  shows "map_sorted dns_key_less (dc_cache (fst (initDNSCache_entry lp sp e s)))"
    and "dns_find k (fst s) \<noteq> None \<Longrightarrow> dns_find k (fst (initDNSCache_entry lp sp e s)) \<noteq> None"
    and "x \<in> set (snd s) \<Longrightarrow> x \<in> set (snd (initDNSCache_entry lp sp e s))"
  using assms
  by (simp_all add: initDNSCache_entry_def Let_def split_beta insertDNSEntry_sorted insertDNSEntry_find
      del: not_None_eq)

text \<open>What the loop of \<open>initDNSCache\<close> makes for one entry of the check list.\<close>

definition dns_ready :: "string \<Rightarrow> HMDataHostCheck \<Rightarrow> HMDNSCache \<times> HMWaitList \<Rightarrow> bool" where
  "dns_ready host hc = (\<lambda>(c, w).
     (hc_dualstack hc AND HM_DUALSTACK_IPV4_ONLY \<noteq> 0 \<longrightarrow>
        dns_find (host, DNSLookup_new (hc_DNSType hc) False (hc_remoteCheck hc)) c \<noteq> None)
     \<and> (hc_dualstack hc AND HM_DUALSTACK_IPV6_ONLY \<noteq> 0 \<longrightarrow>
        dns_find (host, DNSLookup_new (hc_DNSType hc) True (hc_remoteCheck hc)) c \<noteq> None)
     \<and> (\<lparr>dt_name = host, dt_type = hc_DNSType hc, dt_remoteCheckGroup = hc_remoteCheck hc\<rparr>, hc) \<in> set w)"

lemma initDNSCache_entry_ready:
  assumes "map_sorted dns_key_less (dc_cache c)"
  shows "dns_ready (fst (fst e)) (snd (fst e)) (initDNSCache_entry lp sp e (c, w))"
  using assms
  by (simp add: dns_ready_def initDNSCache_entry_def Let_def split_beta insertDNSEntry_sorted
      insertDNSEntry_find dns_key_equiv DNSLookup_setPlugin_def DNSLookup_new_def
      del: not_None_eq)

lemma initDNSCache_entry_keeps:
  assumes "map_sorted dns_key_less (dc_cache (fst s))" and "dns_ready host hc s"
  shows "dns_ready host hc (initDNSCache_entry lp sp e s)"
  using assms initDNSCache_entry_facts [OF assms(1)]
  by (simp add: dns_ready_def split_beta del: not_None_eq)

lemma initDNSCache_fold_ready:
  assumes "map_sorted dns_key_less (dc_cache (fst s))" and "(k, v) \<in> set es"
  shows "dns_ready (fst k) (snd k) (fold (initDNSCache_entry lp sp) es s)"
proof -
  note sorted = initDNSCache_entry_facts(1)
  have keeps: "dns_ready h hc (fold (initDNSCache_entry lp sp) es s)"
    if "map_sorted dns_key_less (dc_cache (fst s))" "dns_ready h hc s" for h hc es s
    using that by (induction es arbitrary: s) (simp_all add: sorted initDNSCache_entry_keeps)
  show ?thesis using assms
  proof (induction es arbitrary: s)
    case (Cons e es)
    show ?case
    proof (cases "e = (k, v)")
      case True
      then have "dns_ready (fst k) (snd k) (initDNSCache_entry lp sp e s)"
        using initDNSCache_entry_ready [OF Cons.prems(1), of e lp sp "snd s"] by simp
      then show ?thesis using sorted [OF Cons.prems(1)] by (simp add: keeps)
    next
      case False
      then show ?thesis using Cons sorted by simp
    qed
  qed simp
qed

text \<open>
  C10: the lists that are generated from the configuration serve all of it. For every group with a
  valid check type and every host of the group: an entry of the check list for the check and the
  parameters of the group names the group; for every address family of the group the DNS cache has
  a lookup of the host; and a check equivalent to the one of the group is on the wait list under
  the host, so the end of the lookup will start it.
\<close>

theorem generateCheckList_serves_configuration:
  assumes "\<not> cl_guard (st_checkList st)" and "map_sorted dns_key_less (dc_cache (st_dnsCache st))"
    and "(name, g) \<in> set (st_hostGroups st)" and "hg_checkType g \<noteq> HM_CHECK_INVALID"
    and "host \<in> set (hg_hosts g)"
  defines "st' \<equiv> State_generateCheckList st"
    and "hc \<equiv> HostCheck_setCheckParams (State_prepareGroup st g) HostCheck_default"
  shows "serves (hg_groupName g) (host, hc)
      (fst (HostGroup_getCheckParameters g CheckParams_default)) (st_checkList st')
    \<and> (\<exists>hc'. HostCheck_eq hc hc' \<and> hc_DNSType hc' = hg_DNSType g \<and>
        dns_ready host hc' (st_dnsCache st', st_dnsWaitList st'))"
proof -
  let ?g = "State_prepareGroup st g"
  let ?cl = "st_checkList (State_generateHostCheckList st)"
  have g: "hg_checkType ?g = hg_checkType g" "hg_hosts ?g = hg_hosts g" "hg_groupName ?g = hg_groupName g"
    "HostGroup_getCheckParameters ?g = HostGroup_getCheckParameters g" "hc_DNSType hc = hg_DNSType g"
    by (simp_all add: State_prepareGroup_def Let_def HostGroup_getCheckParameters_def fun_eq_iff hc_def
        HostCheck_setCheckParams_def)
  have "(name, ?g) \<in> set (map (\<lambda>(name, g). (name, State_prepareGroup st g)) (st_hostGroups st))"
    using assms(3) by force
  from addHostGroups_serve [OF this assms(1), of host] assms(4,5) g
  have serves: "serves (hg_groupName g) (host, hc)
      (fst (HostGroup_getCheckParameters g CheckParams_default)) ?cl"
    by (simp add: State_generateHostCheckList_def Let_def hc_def)
  then obtain k n p where e: "(k, n, p) \<in> set (cl_checklist ?cl)" "key_equiv CompareCheckList (host, hc) k"
    by (auto simp: serves_def)
  have "dns_ready (fst k) (snd k) (fold (initDNSCache_entry (st_dnsLookDefaultPlugin st)
      (st_dnsStaticDefaultPlugin st)) (cl_checklist ?cl) (st_dnsCache st, st_dnsWaitList st))"
    using initDNSCache_fold_ready [OF _ e(1)] assms(2) by simp
  moreover have "\<not> cl_guard ?cl" using assms(1) by (simp add: State_generateHostCheckList_def Let_def)
  moreover have state: "st_dnsCache (State_generateHostCheckList st) = st_dnsCache st"
    "st_dnsWaitList (State_generateHostCheckList st) = st_dnsWaitList st"
    "st_dnsLookDefaultPlugin (State_generateHostCheckList st) = st_dnsLookDefaultPlugin st"
    "st_dnsStaticDefaultPlugin (State_generateHostCheckList st) = st_dnsStaticDefaultPlugin st"
    by (simp_all add: State_generateHostCheckList_def Let_def)
  ultimately have "dns_ready host (snd k) (st_dnsCache st', st_dnsWaitList st')"
    using e(2)
    by (simp add: st'_def State_generateCheckList_def State_generateRemoteCheckList_def check_list_equiv
        State_generateRemoteHostCheckList_def State_generateDNSCheckList_def CheckList_initDNSCache_def
        split_beta)
  moreover have "st_checkList st' = ?cl"
    by (simp add: st'_def State_generateCheckList_def State_generateRemoteCheckList_def split_beta
        State_generateRemoteHostCheckList_def State_generateDNSCheckList_def)
  ultimately show ?thesis using serves e(2) g(5) by (auto simp: check_list_equiv)
qed

section \<open>Forced checks and reload\<close>

lemma queueDNS_without_plugin: "state_queueDNS ares now name (DNSLookup_new type ipv6 remote) s = s"
  by (simp add: state_queueDNS_def DNSCache_queueDNSQuery_def dns_work_def DNSLookup_new_def Let_def
      split_beta split: option.split)

text \<open>
  The lookups that are forced without \<open>setPlugin\<close> do nothing. The forced DNS check of the static
  addresses of a host never queues a lookup, and a forced health check of a host whose lookups have
  all failed changes neither the state nor the work queue.
\<close>

theorem forced_lookup_without_plugin_ignored:
  "State_forceDNSCheckAddresses ares now host type addresses s = s
   \<and> (list_all is_blank (fst (DNSCache_getAddresses host (hc_dualstack check)
          (DNSLookup_new (hc_DNSType check) False (hg_remoteCheck g)) [] (st_dnsCache (fst s)))) \<longrightarrow>
      force_host ares now g check host s = Some s)"
proof -
  have "force_address ares now g check host a s = Some s" if "is_blank a" for a s
    using that by (auto simp: is_blank_def force_address_def queueDNS_without_plugin IPAddress_new_def)
  then have "opt_fold (force_address ares now g check host) as s = Some s" if "list_all is_blank as" for as s
    using that by (induction as arbitrary: s) simp_all
  then show ?thesis
    by (simp add: State_forceDNSCheckAddresses_def queueDNS_without_plugin force_host_def Let_def)
qed

lemma set_difference_keeps: "x \<in> set xs \<Longrightarrow> x \<notin> set ys \<Longrightarrow> x \<in> set (set_difference xs ys)"
  by (induction xs ys rule: set_difference.induct) auto

lemma set_difference_subset: "set (set_difference xs ys) \<subseteq> set xs"
  by (induction xs ys rule: set_difference.induct) auto

text \<open>For sorted lists the loop is the set difference.\<close>

lemma set_difference_sorted:
  "sorted xs \<Longrightarrow> sorted ys \<Longrightarrow> distinct xs \<Longrightarrow> set (set_difference xs ys) = set xs - set ys"
  by (induction xs ys rule: set_difference.induct) (auto simp: less_le_not_le)

text \<open>The work of the queue for a host, an address and a check.\<close>

definition work_queued :: "string \<Rightarrow> HMIPAddress \<Rightarrow> HMDataHostCheck \<Rightarrow> HMWorkQueue \<Rightarrow> bool" where
  "work_queued host ip check q \<longleftrightarrow>
     (\<exists>w \<in> set (wq_queue q). wk_hostname w = host \<and> wk_ipAddress w = ip \<and> wk_hostCheck w = check)"

lemma state_queueCheck_grows:
  assumes "state_queueCheck ares now host ip check (st, q) = Some (st', q')"
  shows "st_dnsCache st' = st_dnsCache st" and "set (wq_queue q) \<subseteq> set (wq_queue q')"
    and "check_work_class ares check = Class cls \<Longrightarrow> work_queued host ip check q'"
  using assms
  by (auto simp: state_queueCheck_def CheckList_queueCheck_def Let_def WorkQueue_insertWork_def
      work_queued_def check_work_def Work_new_def Work_setReschedule_def Work_setPublish_def
      Work_setStoreResults_def split: check_class.splits)

lemma state_queueCheck_total: "state_queueCheck True now host ip check s \<noteq> None"
proof -
  have "check_work_class True check \<noteq> NullWork"
    by (cases "hc_checkType check") (simp_all add: check_work_class_def plugin_class_def Let_def)
  then show ?thesis
    by (auto simp: state_queueCheck_def CheckList_queueCheck_def Let_def split_beta
        split: check_class.split)
qed

lemma opt_fold_not_None: "(\<And>x s. f x s \<noteq> None) \<Longrightarrow> opt_fold f xs s \<noteq> None"
  by (induction xs arbitrary: s) (simp_all split: bind_split del: not_None_eq)

text \<open>The queue grows and the DNS cache stays.\<close>

definition work_grows :: "HMState \<times> HMWorkQueue \<Rightarrow> HMState \<times> HMWorkQueue \<Rightarrow> bool" where
  "work_grows s s' \<longleftrightarrow> st_dnsCache (fst s') = st_dnsCache (fst s)
     \<and> set (wq_queue (snd s)) \<subseteq> set (wq_queue (snd s'))"

lemma work_grows_refl: "work_grows s s"
  by (simp add: work_grows_def)

lemma work_grows_trans: "work_grows s t \<Longrightarrow> work_grows t u \<Longrightarrow> work_grows s u"
  by (auto simp: work_grows_def)

lemma work_queued_mono: "work_queued h a c (snd s) \<Longrightarrow> work_grows s s' \<Longrightarrow> work_queued h a c (snd s')"
  by (auto simp: work_queued_def work_grows_def)

lemma opt_fold_grows:
  assumes "opt_fold f xs s = Some s'" and "\<And>x s t. f x s = Some t \<Longrightarrow> work_grows s t"
  shows "work_grows s s'"
  using assms(1) work_grows_refl
  by (rule opt_fold_invariant [where P = "work_grows s"]) (rule work_grows_trans [OF _ assms(2)])

lemma queueCheck_work_grows:
  "state_queueCheck ares now host ip check s = Some s' \<Longrightarrow> work_grows s s'"
  using state_queueCheck_grows(1,2) [of ares now host ip check "fst s" "snd s" "fst s'" "snd s'"]
  by (simp add: work_grows_def)

lemma reschedule_host_grows: "reschedule_host ares now check host s = Some s' \<Longrightarrow> work_grows s s'"
  unfolding reschedule_host_def by (erule opt_fold_grows) (rule queueCheck_work_grows)

lemma reschedule_hosts_grow:
  "opt_fold (reschedule_host ares now check) hosts s = Some s' \<Longrightarrow> work_grows s s'"
  by (erule opt_fold_grows) (rule reschedule_host_grows)

definition known_addresses :: "string \<Rightarrow> HMDataHostCheck \<Rightarrow> HMDNSCache \<Rightarrow> HMIPAddress set" where
  "known_addresses host check c =
     set (fst (DNSCache_getAddresses host (hc_dualstack check)
       (DNSLookup_new (hc_DNSType check) False (hc_remoteCheck check)) [] c))"

lemma reschedule_host_queues:
  assumes "reschedule_host ares now check host s = Some s'" and "check_work_class ares check = Class cls"
    and "address \<in> known_addresses host check (st_dnsCache (fst s))"
  shows "work_queued host address check (snd s')"
  using assms(1,3) unfolding reschedule_host_def known_addresses_def
proof (rule opt_fold_reaches [where I = "\<lambda>s. True"])
  fix s t assume "state_queueCheck ares now host address check s = Some t"
  then show "work_queued host address check (snd t)"
    using state_queueCheck_grows(3) [of ares now host address check "fst s" "snd s" "fst t" "snd t"]
      assms(2) by simp
qed (auto intro: work_queued_mono queueCheck_work_grows)

lemma reschedule_hosts_queue:
  assumes "opt_fold (reschedule_host ares now check) hosts s = Some s'" and "host \<in> set hosts"
    and "check_work_class ares check = Class cls"
    and "address \<in> known_addresses host check (st_dnsCache (fst s))"
  shows "work_queued host address check (snd s')"
  using assms(1,2)
proof (rule opt_fold_reaches [where I = "work_grows s"])
  fix t u assume "work_grows s t" "reschedule_host ares now check host t = Some u"
  then show "work_queued host address check (snd u)"
    using reschedule_host_queues assms(3,4) by (simp add: work_grows_def)
qed (auto intro: work_queued_mono work_grows_trans reschedule_host_grows work_grows_refl)

text \<open>
  C11: a reload checks what is new. For every group of the new configuration and every host of it
  that the group did not have before, or when the group is new or its check or its parameters have
  changed, every known address of the host has a work order in the queue afterwards. This holds
  whatever the order of the hosts in the two lists, although \<open>std::set_difference\<close> asks for sorted
  ones. With \<open>USE_ARES\<close> the operation always returns.
\<close>

theorem resheduleHealthChecks_queues_new_hosts:
  fixes src st :: HMState
  assumes "(name, g) \<in> set (st_hostGroups st)" and "host \<in> set (hg_hosts g)"
  defines "check \<equiv> fst (HostGroup_getHostCheck g HostCheck_default)"
  assumes new: "\<And>old. group_find name (st_hostGroups src) = Some old \<Longrightarrow>
      host \<notin> set (hg_hosts old)
      \<or> \<not> HostCheck_eq (fst (HostGroup_getHostCheck old HostCheck_default)) check
      \<or> \<not> CheckParams_eq (fst (HostGroup_getCheckParameters old CheckParams_default))
            (fst (HostGroup_getCheckParameters g CheckParams_default))"
    and "check_work_class True check = Class cls"
    and "address \<in> known_addresses host check (st_dnsCache st)"
  shows "\<exists>st' q'. State_resheduleHealthChecks True now src (st, q) = Some (st', q')
    \<and> work_queued host address check q'"
proof -
  define turn where "turn = (\<lambda>(name, g).
      opt_fold (reschedule_host True now (fst (HostGroup_getHostCheck g HostCheck_default)))
        (reschedule_hosts (group_find name (st_hostGroups src)) g))"
  have "turn e s \<noteq> None" for e s
    by (cases e)
      (simp add: turn_def opt_fold_not_None reschedule_host_def state_queueCheck_total del: not_None_eq)
  then have "opt_fold turn (st_hostGroups st) (st, q) \<noteq> None" by (rule opt_fold_not_None)
  then obtain s' where run: "opt_fold turn (st_hostGroups st) (st, q) = Some s'" by auto
  have grows: "work_grows s t" if "turn e s = Some t" for e s t
    using that by (cases e) (simp add: turn_def reschedule_hosts_grow)
  have host: "host \<in> set (reschedule_hosts (group_find name (st_hostGroups src)) g)"
    using assms(2) new set_difference_keeps
    by (auto simp: reschedule_hosts_def Let_def CheckParams_neq_def check_def split: option.split)
  have "work_queued host address check (snd s')"
    using run assms(1) work_grows_refl
  proof (rule opt_fold_reaches)
    fix s t assume "work_grows (st, q) s" "turn (name, g) s = Some t"
    then show "work_queued host address check (snd t)"
      using reschedule_hosts_queue [OF _ host] assms(5,6) by (simp add: turn_def check_def work_grows_def)
  next
    fix e s t assume "work_grows (st, q) s" "turn e s = Some t"
    then show "work_grows (st, q) t" by (metis grows work_grows_trans)
  next
    fix e s t assume "work_queued host address check (snd s)" "turn e s = Some t"
    then show "work_queued host address check (snd t)" by (metis grows work_queued_mono)
  qed
  then show ?thesis using run by (cases s') (simp add: State_resheduleHealthChecks_def turn_def)
qed

section \<open>Witnesses\<close>

text \<open>A configuration with one group, and a DNS cache that knows an address of one of its hosts.\<close>

definition w_state :: "HMIPAddress \<Rightarrow> HMState" where
  "w_state ip = State_new\<lparr>st_hostGroups := [(''web'', sample_group)],
     st_dnsCache := \<lparr>dc_cache = [((''h1'', DNSLookup_default), (DNSResult_new 100 50)\<lparr>dr_addr := [ip]\<rparr>)],
       dc_staticDNS = []\<rparr>\<rparr>"

abbreviation w_group_check :: HMDataHostCheck where
  "w_group_check \<equiv> fst (HostGroup_getHostCheck sample_group HostCheck_default)"

lemma w_group:
  "hg_groupName sample_group = ''web''" "hg_checkType sample_group = HM_CHECK_HTTP"
  "hg_hosts sample_group = [''h1'', ''h2'']" "hg_remoteCheck sample_group = []"
  by (simp_all add: sample_group_def HostGroup_new_def)

lemma w_group_check:
  "hc_dualstack w_group_check = HM_DUALSTACK_IPV4_ONLY" "hc_DNSType w_group_check = HM_DNS_TYPE_LOOKUP"
  "hc_remoteCheck w_group_check = []" "check_work_class True w_group_check = Class HMWorkHealthCheckCurl"
  by (simp_all add: HostGroup_getHostCheck_def HostCheck_setCheckParams_def check_work_class_def
      plugin_class_def sample_group_def HostGroup_new_def)

lemma w_addresses:
  "fst (DNSCache_getAddresses ''h1'' HM_DUALSTACK_IPV4_ONLY (DNSLookup_new HM_DNS_TYPE_LOOKUP False [])
     [] (st_dnsCache (w_state ip))) = [ip]"
  by (simp add: DNSCache_getAddresses_def family_fold_def DNSCache_getDNSResult_def w_state_def
      DNSLookup_default_def DNSLookup_new_def DNSResult_getAddresses_def insort_insert_key_def Let_def)

lemma generateCheckList_serves_configuration_witness:
  "serves ''web''
     (''h1'', HostCheck_setCheckParams (State_prepareGroup (w_state (INET 7)) sample_group) HostCheck_default)
     (fst (HostGroup_getCheckParameters sample_group CheckParams_default))
     (st_checkList (State_generateCheckList (w_state (INET 7))))"
proof -
  have "\<not> cl_guard (st_checkList (w_state (INET 7)))"
    "map_sorted dns_key_less (dc_cache (st_dnsCache (w_state (INET 7))))"
    "(''web'', sample_group) \<in> set (st_hostGroups (w_state (INET 7)))"
    by (simp_all add: w_state_def State_new_def CheckList_new_def map_sorted_def)
  from generateCheckList_serves_configuration [OF this, of "''h1''"] show ?thesis by (simp add: w_group)
qed

lemma forced_lookup_without_plugin_ignored_witness:
  "force_host True 5 sample_group w_group_check ''h1'' (w_state (INET 0), WorkQueue_new)
     = Some (w_state (INET 0), WorkQueue_new)"
  using forced_lookup_without_plugin_ignored [of True 5 "''h1''" HM_DNS_TYPE_LOOKUP "[]"
      "(w_state (INET 0), WorkQueue_new)" w_group_check sample_group]
  by (simp add: w_group_check w_group w_addresses is_blank_def)

lemma resheduleHealthChecks_queues_new_hosts_witness:
  "\<exists>st' q'. State_resheduleHealthChecks True 5
      (w_state (INET 7)\<lparr>st_hostGroups := [(''web'', sample_group\<lparr>hg_hosts := [''h2'', ''a'']\<rparr>)]\<rparr>)
      (w_state (INET 7), WorkQueue_new) = Some (st', q')
    \<and> work_queued ''h1'' (INET 7) w_group_check q'"
  by (rule resheduleHealthChecks_queues_new_hosts [where name = "''web''" and g = sample_group
        and cls = HMWorkHealthCheckCurl])
    (auto simp: w_group w_group_check known_addresses_def w_addresses,
     auto simp: w_state_def)

end
