(* ===== verification/HM_ConfigYaml.thy ===== *)
theory HM_ConfigYaml
  imports HM_State
begin

text \<open>
  The files with the host groups (\<open>HMConfigParserYaml.cpp\<close>, \<open>HMConfigParserBase.cpp\<close>): reading a parsed
  document into the map of groups, writing the groups as a document, and walking through a directory.

  yaml-cpp is not part of the repository: what \<open>YAML::LoadFile\<close> returns is the parameter \<open>load\<close>, \<open>None\<close> for
  a file that it cannot read or parse. A node is a value of the datatype \<open>yaml\<close>; as documented, \<open>Scalar()\<close>
  is empty for a node that is no scalar, the iteration over a scalar or a null node is empty, and
  \<open>Scalar()\<close> of an element in the iteration over a mapping throws \<open>InvalidNode\<close>. Line numbers, which are only logged,
  are left out. The number of errors is a 32 bit count.
\<close>

section \<open>Nodes and numbers\<close>

datatype yaml = YNull | YScalar string | YSeq "yaml list" | YMap "(yaml \<times> yaml) list"

fun yaml_Scalar :: "yaml \<Rightarrow> string" where
  "yaml_Scalar (YScalar s) = s"
| "yaml_Scalar _ = []"

fun yaml_get :: "string \<Rightarrow> yaml \<Rightarrow> yaml option" where
  "yaml_get key (YMap es) = map_option snd (find (\<lambda>(k, v). k = YScalar key) es)"
| "yaml_get key _ = None"

datatype config_error = invalid_node | null_parser | null_iterator | null_store

text \<open>The texts of the elements of a list, for a loop that takes \<open>Scalar()\<close> of each.\<close>

fun yaml_items :: "yaml \<Rightarrow> config_error + string list" where
  "yaml_items (YSeq ns) = Inr (map yaml_Scalar ns)"
| "yaml_items (YMap es) = (if es = [] then Inr [] else Inl invalid_node)"
| "yaml_items _ = Inr []"

text \<open>\<open>strtol\<close> in base 10, \<open>atoi\<close>, which keeps its low 32 bits, and \<open>strtoul\<close> in base 0.\<close>

definition digit_value :: "char \<Rightarrow> nat" where
  "digit_value c =
     (let n = of_char c in if 48 \<le> n \<and> n \<le> 57 then n - 48
        else if 97 \<le> n \<and> n \<le> 122 then n - 87 else if 65 \<le> n \<and> n \<le> 90 then n - 55 else 99)"

definition digits_value :: "nat \<Rightarrow> string \<Rightarrow> nat" where
  "digits_value b s = fold (\<lambda>c n. b * n + digit_value c) (takeWhile (\<lambda>c. digit_value c < b) s) 0"

definition is_space :: "char \<Rightarrow> bool" where
  "is_space c \<longleftrightarrow> c = CHR '' '' \<or> (9 \<le> (of_char c :: nat) \<and> of_char c \<le> (13 :: nat))"

definition split_sign :: "string \<Rightarrow> bool \<times> string" where
  "split_sign s =
     (case dropWhile is_space s of [] \<Rightarrow> (False, [])
      | c # r \<Rightarrow> if c = CHR ''-'' then (True, r) else if c = CHR ''+'' then (False, r) else (False, c # r))"

definition strtol :: "string \<Rightarrow> int" where
  "strtol s =
     (let (neg, s) = split_sign s; n = int (digits_value 10 s)
      in if neg then max (- (2 ^ 63)) (- n) else min (2 ^ 63 - 1) n)"

definition atoi :: "string \<Rightarrow> int" where
  "atoi s = sint (word_of_int (strtol s) :: u32)"

definition base_prefix :: "string \<Rightarrow> nat \<times> string" where
  "base_prefix s =
     (if take 1 s = ''0'' then
        (if (take 1 (drop 1 s) = ''x'' \<or> take 1 (drop 1 s) = ''X'') \<and> drop 2 s \<noteq> [] \<and> digit_value (s ! 2) < 16
         then (16, drop 2 s) else (8, s))
      else (10, s))"

definition strtoul :: "string \<Rightarrow> u64" where
  "strtoul s =
     (let (neg, s) = split_sign s; (b, s) = base_prefix s; n = digits_value b s
      in if 2 ^ 64 \<le> n then - 1 else if neg then - of_nat n else of_nat n)"

text \<open>The integer division of C, which truncates.\<close>

definition c_div :: "int \<Rightarrow> int \<Rightarrow> int" where
  "c_div a b = (if a < 0 then - ((- a) div b) else a div b)"

section \<open>Reading\<close>

record HMConfigParams =
  pm_masterMode :: bool
  pm_remoteChecks :: "(string \<times> string) list"
  pm_indirectHost :: "(string \<times> string) list"

definition ConfigParams_new :: HMConfigParams where
  "ConfigParams_new = \<lparr>pm_masterMode = False, pm_remoteChecks = [], pm_indirectHost = []\<rparr>"

text \<open>The variables of \<open>parseConfig\<close>: the groups, the parameters, the last response time mode, the number
  of errors.\<close>

record config_parse =
  ps_groups :: HMDataHostGroupMap
  ps_params :: HMConfigParams
  ps_temp :: u16
  ps_nerr :: u32

definition parse_error :: "config_parse \<Rightarrow> config_parse" where
  "parse_error ps = ps\<lparr>ps_nerr := ps_nerr ps + 1\<rparr>"

definition with_group :: "string \<Rightarrow> (HMDataHostGroup \<Rightarrow> HMDataHostGroup) \<Rightarrow> config_parse \<Rightarrow> config_parse" where
  "with_group name f ps = ps\<lparr>ps_groups := smap_adjust (<) name f (ps_groups ps)\<rparr>"

definition HM_HTTP_DEFAULT_PORT :: u16 where "HM_HTTP_DEFAULT_PORT = 80"
definition HM_HTTPS_DEFAULT_PORT :: u16 where "HM_HTTPS_DEFAULT_PORT = 443"
definition HM_TCP_DEFAULT_PORT :: u16 where "HM_TCP_DEFAULT_PORT = 80"
definition HM_FTP_DEFAULT_PORT :: u16 where "HM_FTP_DEFAULT_PORT = 21"
definition HM_FTPS_DEFAULT_PORT :: u16 where "HM_FTPS_DEFAULT_PORT = 990"
definition HM_DNSVC_DEFAULT_PORT :: u16 where "HM_DNSVC_DEFAULT_PORT = 53"

text \<open>\<open>check-type\<close>: the type of a name and the port it gets when the group has none.\<close>

definition config_check_type :: "string \<Rightarrow> (HM_CHECK_TYPE \<times> u16) option" where
  "config_check_type val =
     (if val = ''http'' then Some (HM_CHECK_HTTP, HM_HTTP_DEFAULT_PORT)
      else if val = ''https'' then Some (HM_CHECK_HTTPS, HM_HTTPS_DEFAULT_PORT)
      else if val = ''https-mtls'' then Some (HM_CHECK_MTLS_HTTPS, HM_HTTPS_DEFAULT_PORT)
      else if val = ''tcp'' then Some (HM_CHECK_TCP, HM_TCP_DEFAULT_PORT)
      else if val = ''tcps'' then Some (HM_CHECK_TCPS, HM_TCP_DEFAULT_PORT)
      else if val = ''none'' then Some (HM_CHECK_NONE, 0)
      else if val = ''ftp'' then Some (HM_CHECK_FTP, HM_FTP_DEFAULT_PORT)
      else if val = ''dns'' then Some (HM_CHECK_DNS, HM_DNSVC_DEFAULT_PORT)
      else if val = ''dnsvc'' then Some (HM_CHECK_DNSVC, HM_DNSVC_DEFAULT_PORT)
      else if val = ''https-no-peer-check'' then Some (HM_CHECK_HTTPS_NO_PEER_CHECK, HM_HTTPS_DEFAULT_PORT)
      else if val = ''https-mtls-no-peer-check'' then Some (HM_CHECK_MTLS_HTTPS_NO_PEER_CHECK, HM_HTTPS_DEFAULT_PORT)
      else if val = ''ftps-implicit'' then Some (HM_CHECK_FTPS_IMPLICIT, HM_FTPS_DEFAULT_PORT)
      else if val = ''ftps-implicit-no-peer-check''
        then Some (HM_CHECK_FTPS_IMPLICIT_NO_PEER_CHECK, HM_FTPS_DEFAULT_PORT)
      else if val = ''ftps'' \<or> val = ''ftps-explicit'' then Some (HM_CHECK_FTPS_EXPLICIT, HM_FTP_DEFAULT_PORT)
      else if val = ''ftps-explicit-no-peer-check''
        then Some (HM_CHECK_FTPS_EXPLICIT_NO_PEER_CHECK, HM_FTP_DEFAULT_PORT)
      else if val = ''http-auxfetch'' then Some (HM_CHECK_AUX_HTTP, HM_HTTP_DEFAULT_PORT)
      else if val = ''https-auxfetch'' then Some (HM_CHECK_AUX_HTTPS, HM_HTTPS_DEFAULT_PORT)
      else if val = ''https-no-peer-check-auxfetch'' then Some (HM_CHECK_AUX_HTTPS_NO_PEER_CHECK, HM_HTTPS_DEFAULT_PORT)
      else if val = ''http-mark'' then Some (HM_CHECK_MARK_HTTP, HM_HTTP_DEFAULT_PORT)
      else if val = ''https-mark'' then Some (HM_CHECK_MARK_HTTPS, HM_HTTPS_DEFAULT_PORT)
      else if val = ''https-mark-no-peer-check'' then Some (HM_CHECK_MARK_HTTPS_NO_PEER_CHECK, HM_HTTPS_DEFAULT_PORT)
      else None)"

definition set_check_type :: "HM_CHECK_TYPE \<Rightarrow> u16 \<Rightarrow> HMDataHostGroup \<Rightarrow> HMDataHostGroup" where
  "set_check_type t port g = (g\<lparr>hg_checkType := t\<rparr>)\<lparr>hg_port := (if hg_port g = 0 then port else hg_port g)\<rparr>"

definition parse_checkType :: "string \<Rightarrow> string \<Rightarrow> config_parse \<Rightarrow> config_parse" where
  "parse_checkType name val ps =
     (if val = ''indirect-host'' then
        (case group_find name (ps_groups ps) of None \<Rightarrow> ps
         | Some g \<Rightarrow>
             let m = pm_indirectHost (ps_params ps)
             in if group_find (hg_groupName g) m = None
                then ps\<lparr>ps_params := (ps_params ps)\<lparr>pm_indirectHost := smap_insert (<) (hg_groupName g) (hg_checkInfo g) m\<rparr>\<rparr>
                else ps)
      else case config_check_type val of
          Some (t, port) \<Rightarrow> with_group name (set_check_type t port) ps
        | None \<Rightarrow> parse_error ps)"

definition parse_rtMode :: "string \<Rightarrow> string \<Rightarrow> config_parse \<Rightarrow> config_parse" where
  "parse_rtMode name val ps =
     (let ps = (if val = ''connect'' then ps\<lparr>ps_temp := HM_RT_CONNECT\<rparr>
                else if val = ''smoothed-connect'' then ps\<lparr>ps_temp := HM_RT_SMOOTHED_CONNECT\<rparr>
                else if val = ''total'' then ps\<lparr>ps_temp := HM_RT_TOTAL\<rparr>
                else if val = ''smoothed-total'' then ps\<lparr>ps_temp := HM_RT_SMOOTHED_TOTAL\<rparr>
                else parse_error ps)
      in with_group name (\<lambda>g. g\<lparr>hg_measurementOptions := ps_temp ps\<rparr>) ps)"

definition parse_checkInfo :: "string \<Rightarrow> string \<Rightarrow> string \<Rightarrow> config_parse \<Rightarrow> config_parse" where
  "parse_checkInfo name key val ps =
     (let ps = (if key = ''uri'' then with_group name (set_check_type HM_CHECK_HTTP HM_HTTP_DEFAULT_PORT) ps else ps);
          ps = with_group name (\<lambda>g. g\<lparr>hg_checkInfo := val\<rparr>) ps
      in case group_find name (ps_groups ps) of None \<Rightarrow> ps
         | Some g \<Rightarrow>
             ps\<lparr>ps_params := (ps_params ps)\<lparr>pm_indirectHost :=
               smap_adjust (<) (hg_groupName g) (\<lambda>_. val) (pm_indirectHost (ps_params ps))\<rparr>\<rparr>)"

text \<open>Options with a small set of values.\<close>

definition parse_choice ::
    "string \<Rightarrow> (string \<times> (HMDataHostGroup \<Rightarrow> HMDataHostGroup)) list \<Rightarrow> string \<Rightarrow> config_parse \<Rightarrow> config_parse" where
  "parse_choice name choices val ps =
     (case map_of choices val of Some f \<Rightarrow> with_group name f ps | None \<Rightarrow> parse_error ps)"

definition parse_dualStack :: "string \<Rightarrow> string \<Rightarrow> config_parse \<Rightarrow> config_parse" where
  "parse_dualStack name =
     parse_choice name
       [(''ipv4-only'', \<lambda>g. g\<lparr>hg_dualstack := HM_DUALSTACK_IPV4_ONLY\<rparr>),
        (''both'', \<lambda>g. g\<lparr>hg_dualstack := HM_DUALSTACK_BOTH\<rparr>),
        (''ipv6-only'', \<lambda>g. g\<lparr>hg_dualstack := HM_DUALSTACK_IPV6_ONLY\<rparr>)]"

definition parse_remoteFallback :: "string \<Rightarrow> string \<Rightarrow> config_parse \<Rightarrow> config_parse" where
  "parse_remoteFallback name =
     parse_choice name
       [(''on'', HostGroup_setDistributedFallback HM_DISTRIBUTED_FALLBACK_REMOTE),
        (''off'', HostGroup_setDistributedFallback HM_DISTRIBUTED_FALLBACK_REMOTE)]"

definition parse_localFallback :: "string \<Rightarrow> string \<Rightarrow> config_parse \<Rightarrow> config_parse" where
  "parse_localFallback name =
     parse_choice name
       [(''on'', HostGroup_setDistributedFallback HM_DISTRIBUTED_FALLBACK_LOCAL),
        (''off'', HostGroup_unsetDistributedFallback HM_DISTRIBUTED_FALLBACK_LOCAL)]"

definition parse_dnsType :: "string \<Rightarrow> string \<Rightarrow> config_parse \<Rightarrow> config_parse" where
  "parse_dnsType name =
     parse_choice name
       [(''lookup'', \<lambda>g. g\<lparr>hg_DNSType := HM_DNS_TYPE_LOOKUP\<rparr>), (''static'', \<lambda>g. g\<lparr>hg_DNSType := HM_DNS_TYPE_STATIC\<rparr>)]"

definition parse_flowType :: "string \<Rightarrow> string \<Rightarrow> config_parse \<Rightarrow> config_parse" where
  "parse_flowType name =
     parse_choice name
       [(''dns-health'', \<lambda>g. g\<lparr>hg_flowType := HM_FLOW_DNS_HEALTH_TYPE\<rparr>),
        (''remote-hostgroup'', \<lambda>g. g\<lparr>hg_flowType := HM_FLOW_REMOTE_HOSTGROUP_TYPE\<rparr>),
        (''remote-host'', \<lambda>g. g\<lparr>hg_flowType := HM_FLOW_REMOTE_HOST_TYPE\<rparr>)]"

definition parse_port :: "string \<Rightarrow> string \<Rightarrow> config_parse \<Rightarrow> config_parse" where
  "parse_port name val ps =
     (let port = atoi val
      in if 0 \<le> port \<and> port \<le> 65535 then with_group name (\<lambda>g. g\<lparr>hg_port := word_of_int port\<rparr>) ps else parse_error ps)"

definition parse_sourceAddress ::
    "(string \<Rightarrow> 32 word option) \<Rightarrow> (string \<Rightarrow> 128 word option) \<Rightarrow> string \<Rightarrow> string \<Rightarrow> config_parse \<Rightarrow> config_parse" where
  "parse_sourceAddress pton4 pton6 name val ps =
     (let (address, ok) = IPAddress_set pton4 pton6 val
      in if ok then with_group name (\<lambda>g. g\<lparr>hg_sourceAddress := address\<rparr>) ps else parse_error ps)"

text \<open>\<open>tos-value\<close>: the value is kept in an \<open>int\<close>, so a large one can become negative and pass the test.\<close>

definition parse_tosValue :: "string \<Rightarrow> string \<Rightarrow> config_parse \<Rightarrow> config_parse" where
  "parse_tosValue name val ps =
     (let tos = sint (ucast (strtoul val) :: u32)
      in if tos \<le> 255 then with_group name (\<lambda>g. g\<lparr>hg_TOSValue := word_of_int tos\<rparr>) ps else parse_error ps)"

text \<open>The body of the loop over the options of a group.\<close>

definition parse_option ::
    "(string \<Rightarrow> 32 word option) \<Rightarrow> (string \<Rightarrow> 128 word option) \<Rightarrow> string \<Rightarrow> yaml \<times> yaml \<Rightarrow> config_parse \<Rightarrow>
     config_error + config_parse" where
  "parse_option pton4 pton6 name e ps =
     (let key = yaml_Scalar (fst e); val = yaml_Scalar (snd e); set = (\<lambda>f. Inr (with_group name f ps))
      in if key = ''name'' then Inr ps
         else if key = ''rt-mode'' then Inr (parse_rtMode name val ps)
         else if key = ''host'' then
           res_bind (yaml_items (snd e)) (\<lambda>hosts. Inr (with_group name (fold HostGroup_addHost hosts) ps))
         else if key = ''dual-stack-mode'' then Inr (parse_dualStack name val ps)
         else if key = ''check-type'' then Inr (parse_checkType name val ps)
         else if key = ''check-port'' then Inr (parse_port name val ps)
         else if key = ''uri'' \<or> key = ''check-info'' then Inr (parse_checkInfo name key val ps)
         else if key = ''check-retries'' then set (\<lambda>g. g\<lparr>hg_numCheckRetries := word_of_int (atoi val)\<rparr>)
         else if key = ''check-retry-delay'' then set (\<lambda>g. g\<lparr>hg_checkRetryDelay := word_of_int (atoi val)\<rparr>)
         else if key = ''timeout'' then set (\<lambda>g. g\<lparr>hg_checkTimeout := word_of_int (atoi val)\<rparr>)
         else if key = ''conn-check-interval'' then Inr ps
         else if key = ''ttl'' then set (\<lambda>g. g\<lparr>hg_checkTTL := word_of_int (atoi val)\<rparr>)
         else if key = ''error-ttl'' then Inr ps
         else if key = ''group-threshold'' then set (\<lambda>g. g\<lparr>hg_groupThreshold := word_of_int (atoi val)\<rparr>)
         else if key = ''smoothing-window'' then set (\<lambda>g. g\<lparr>hg_smoothingWindow := word_of_int (atoi val)\<rparr>)
         else if key = ''flap-threshold'' then set (\<lambda>g. g\<lparr>hg_flapThreshold := word_of_int (c_div (atoi val) 1000)\<rparr>)
         else if key = ''max-flaps'' then set (\<lambda>g. g\<lparr>hg_maxFlaps := word_of_int (atoi val)\<rparr>)
         else if key = ''slow-threshold'' then set (\<lambda>g. g\<lparr>hg_slowThreshold := word_of_int (atoi val)\<rparr>)
         else if key = ''remote-fallback'' then Inr (parse_remoteFallback name val ps)
         else if key = ''local-fallback'' then Inr (parse_localFallback name val ps)
         else if key = ''source-address'' then Inr (parse_sourceAddress pton4 pton6 name val ps)
         else if key = ''tos-value'' then Inr (parse_tosValue name val ps)
         else if key = ''dns-type'' then Inr (parse_dnsType name val ps)
         else if key = ''flow-type'' then Inr (parse_flowType name val ps)
         else if key = ''host-group'' then
           res_bind (yaml_items (snd e)) (\<lambda>groups. Inr (with_group name (fold HostGroup_addHostGroup groups) ps))
         else if key = ''failure-response'' \<or> key = ''allow-hosts'' \<or> key = ''auth-domain'' then Inr ps
         else Inr (parse_error ps))"

text \<open>The options of a remote domain; the element of the map stays the same in the loop.\<close>

definition parse_domain_option :: "string \<Rightarrow> yaml \<times> yaml \<Rightarrow> config_parse \<Rightarrow> config_parse" where
  "parse_domain_option name e ps =
     (let key = yaml_Scalar (fst e); val = yaml_Scalar (snd e)
      in if key = ''master-check-domain'' then ps
         else if key = ''master-check-host'' then
           ps\<lparr>ps_params := (ps_params ps)\<lparr>pm_remoteChecks := smap_adjust (<) name (\<lambda>_. val) (pm_remoteChecks (ps_params ps))\<rparr>\<rparr>
         else parse_error ps)"

definition find_or_insert :: "string \<Rightarrow> 'v \<Rightarrow> (string \<times> 'v) list \<Rightarrow> (string \<times> 'v) list" where
  "find_or_insert name v m = (if group_find name m = None then smap_insert (<) name v m else m)"

definition parse_host_node ::
    "(string \<Rightarrow> 32 word option) \<Rightarrow> (string \<Rightarrow> 128 word option) \<Rightarrow> (yaml \<times> yaml) list \<Rightarrow> config_parse \<Rightarrow>
     config_error + config_parse" where
  "parse_host_node pton4 pton6 es ps =
     (case yaml_get ''master-check-mode'' (YMap es) of
        Some n \<Rightarrow>
          let val = yaml_Scalar n
          in Inr (if val = ''slave'' then ps\<lparr>ps_params := (ps_params ps)\<lparr>pm_masterMode := False\<rparr>\<rparr>
                  else if val = ''master'' then ps\<lparr>ps_params := (ps_params ps)\<lparr>pm_masterMode := True\<rparr>\<rparr>
                  else ps)
      | None \<Rightarrow>
          (case yaml_get ''master-check-domain'' (YMap es) of
             Some n \<Rightarrow>
               let name = yaml_Scalar n;
                   ps = ps\<lparr>ps_params := (ps_params ps)\<lparr>pm_remoteChecks := find_or_insert name [] (pm_remoteChecks (ps_params ps))\<rparr>\<rparr>
               in Inr (fold (parse_domain_option name) es ps)
           | None \<Rightarrow>
               (case yaml_get ''name'' (YMap es) of None \<Rightarrow> Inr (parse_error ps)
                | Some n \<Rightarrow>
                    let name = yaml_Scalar n;
                        ps = ps\<lparr>ps_groups := find_or_insert name (HostGroup_new name) (ps_groups ps)\<rparr>
                    in res_fold (parse_option pton4 pton6 name) es ps)))"

text \<open>The loop over the groups; an element that is no mapping ends it.\<close>

fun parse_host_nodes ::
    "(string \<Rightarrow> 32 word option) \<Rightarrow> (string \<Rightarrow> 128 word option) \<Rightarrow> yaml list \<Rightarrow> config_parse \<Rightarrow>
     config_error + config_parse" where
  "parse_host_nodes pton4 pton6 [] ps = Inr ps"
| "parse_host_nodes pton4 pton6 (YMap es # ns) ps =
     res_bind (parse_host_node pton4 pton6 es ps) (parse_host_nodes pton4 pton6 ns)"
| "parse_host_nodes pton4 pton6 (_ # ns) ps = Inr (parse_error ps)"

text \<open>The pattern \<open>(.*)(.yaml)\<close>: at least one character before \<open>yaml\<close>, and no line break.\<close>

definition yaml_file_name :: "string \<Rightarrow> bool" where
  "yaml_file_name f \<longleftrightarrow>
     5 \<le> length f \<and> drop (length f - 4) f = ''yaml''
     \<and> CHR 0x0A \<notin> set (take (length f - 4) f) \<and> CHR 0x0D \<notin> set (take (length f - 4) f)"

definition ConfigParser_parseConfig ::
    "(string \<Rightarrow> 32 word option) \<Rightarrow> (string \<Rightarrow> 128 word option) \<Rightarrow> (string \<Rightarrow> yaml option) \<Rightarrow> string \<Rightarrow>
     HMDataHostGroupMap \<times> HMConfigParams \<Rightarrow> config_error + ((HMDataHostGroupMap \<times> HMConfigParams) \<times> u32)" where
  "ConfigParser_parseConfig pton4 pton6 load fileName = (\<lambda>(groups, params).
     if \<not> yaml_file_name fileName then Inr ((groups, params), 0)
     else case load fileName of
         Some (YSeq ns) \<Rightarrow>
           res_bind (parse_host_nodes pton4 pton6 ns
               \<lparr>ps_groups = groups, ps_params = params, ps_temp = HM_RT_CONNECT, ps_nerr = 0\<rparr>) (\<lambda>ps.
             Inr ((ps_groups ps, ps_params ps), ps_nerr ps))
       | Some _ \<Rightarrow> Inr ((groups, params), 1)
       | None \<Rightarrow> Inr ((groups, params), 0))"

text \<open>\<open>parseConfigFile\<close>: a file of another kind has no parser, and the null pointer is dereferenced.\<close>

definition ConfigParser_parseConfigFile ::
    "(string \<Rightarrow> 32 word option) \<Rightarrow> (string \<Rightarrow> 128 word option) \<Rightarrow> (string \<Rightarrow> yaml option) \<Rightarrow> string \<Rightarrow>
     HMDataHostGroupMap \<times> HMConfigParams \<Rightarrow> config_error + ((HMDataHostGroupMap \<times> HMConfigParams) \<times> u32)" where
  "ConfigParser_parseConfigFile pton4 pton6 load fileName s =
     (if yaml_file_name fileName then ConfigParser_parseConfig pton4 pton6 load fileName s else Inl null_parser)"

text \<open>A directory as \<open>readdir\<close> lists it; \<open>None\<close> when \<open>opendir\<close> fails. Entries that are neither files nor
  directories are skipped.\<close>

datatype dir_entry = DirFile string | DirFolder string "dir_entry list option" | DirOther string

fun ConfigParser_parseEntries ::
    "(string \<Rightarrow> HMDataHostGroupMap \<times> HMConfigParams \<Rightarrow> config_error + ((HMDataHostGroupMap \<times> HMConfigParams) \<times> u32)) \<Rightarrow>
     string \<Rightarrow> dir_entry list \<Rightarrow> (HMDataHostGroupMap \<times> HMConfigParams) \<times> u32 \<Rightarrow>
     config_error + ((HMDataHostGroupMap \<times> HMConfigParams) \<times> u32)" where
  "ConfigParser_parseEntries parse folder [] r = Inr r"
| "ConfigParser_parseEntries parse folder (DirFile f # es) r =
     res_bind (parse (folder @ ''/'' @ f) (fst r)) (\<lambda>(s, n).
       ConfigParser_parseEntries parse folder es (s, snd r + n))"
| "ConfigParser_parseEntries parse folder (DirOther f # es) r = ConfigParser_parseEntries parse folder es r"
| "ConfigParser_parseEntries parse folder (DirFolder f None # es) r =
     (if f = ''.'' \<or> f = ''..'' then ConfigParser_parseEntries parse folder es r
      else ConfigParser_parseEntries parse folder es (fst r, snd r + 1))"
| "ConfigParser_parseEntries parse folder (DirFolder f (Some sub) # es) r =
     (if f = ''.'' \<or> f = ''..'' then ConfigParser_parseEntries parse folder es r
      else res_bind (ConfigParser_parseEntries parse (folder @ ''/'' @ f) sub (fst r, 0)) (\<lambda>(s, n).
        ConfigParser_parseEntries parse folder es (s, snd r + n)))"

definition ConfigParser_parseDirectory ::
    "(string \<Rightarrow> HMDataHostGroupMap \<times> HMConfigParams \<Rightarrow> config_error + ((HMDataHostGroupMap \<times> HMConfigParams) \<times> u32)) \<Rightarrow>
     (string \<Rightarrow> dir_entry list option) \<Rightarrow> string \<Rightarrow> HMDataHostGroupMap \<times> HMConfigParams \<Rightarrow>
     config_error + ((HMDataHostGroupMap \<times> HMConfigParams) \<times> u32)" where
  "ConfigParser_parseDirectory parse dirs folder s =
     (case dirs folder of None \<Rightarrow> Inr (s, 1) | Some es \<Rightarrow> ConfigParser_parseEntries parse folder es (s, 0))"

section \<open>Writing\<close>

text \<open>The lines of a group: an option with a value, or an option with a list.\<close>

definition write_number :: "'a::len word \<Rightarrow> yaml" where
  "write_number w = YScalar (to_string (uint w))"

definition write_options ::
    "(32 word \<Rightarrow> string) \<Rightarrow> (128 word \<Rightarrow> string) \<Rightarrow> HMDataHostGroup \<Rightarrow> (string \<times> yaml) list" where
  "write_options ntop4 ntop6 g =
     [(''name'', YScalar (hg_groupName g)), (''ttl'', write_number (hg_checkTTL g)),
      (''check-type'', YScalar (printCheckTypeConfigs (hg_checkType g)))]
     @ (if hg_checkInfo g \<noteq> [] then [(''check-info'', YScalar (hg_checkInfo g))] else [])
     @ [(''timeout'', write_number (hg_checkTimeout g)), (''check-port'', write_number (hg_port g)),
        (''dual-stack-mode'', YScalar (printDualStack (hg_dualstack g)))]
     @ (if hg_numCheckRetries g \<noteq> 0
        then [(''check-retries'', write_number (hg_numCheckRetries g)),
              (''check-retry-delay'', write_number (hg_checkRetryDelay g))] else [])
     @ [(''group-threshold'', write_number (hg_groupThreshold g)), (''max-flaps'', write_number (hg_maxFlaps g)),
        (''flap-threshold'', write_number (hg_flapThreshold g * 1000)),
        (''slow-threshold'', write_number (hg_slowThreshold g)),
        (''smoothing-window'', write_number (hg_smoothingWindow g)),
        (''rt-mode'', YScalar (printMeasurementOptions (hg_measurementOptions g)))]
     @ (if IPAddress_isSet (hg_sourceAddress g)
        then [(''source-address'', YScalar (IPAddress_toString ntop4 ntop6 (hg_sourceAddress g)))] else [])
     @ (if hg_TOSValue g \<noteq> 0 then [(''tos-value'', write_number (hg_TOSValue g))] else [])
     @ [(''flow-type'', YScalar (printFlowType (hg_flowType g)))]
     @ (if hg_hosts g \<noteq> [] then [(''host'', YSeq (map YScalar (hg_hosts g)))] else [])
     @ (if hg_hostGroups g \<noteq> [] then [(''host-group'', YSeq (map YScalar (hg_hostGroups g)))] else [])"

fun write_option :: "string \<Rightarrow> string \<times> yaml \<Rightarrow> string" where
  "write_option indent (key, YSeq ns) =
     indent @ key @ '': '' @ [CHR 0x0A] @ concat (map (\<lambda>n. ''       - '' @ yaml_Scalar n @ [CHR 0x0A]) ns)"
| "write_option indent (key, n) = indent @ key @ '': '' @ yaml_Scalar n @ [CHR 0x0A]"

definition write_group :: "(32 word \<Rightarrow> string) \<Rightarrow> (128 word \<Rightarrow> string) \<Rightarrow> HMDataHostGroup \<Rightarrow> string" where
  "write_group ntop4 ntop6 g =
     (case write_options ntop4 ntop6 g of [] \<Rightarrow> []
      | e # es \<Rightarrow> write_option ''-   '' e @ concat (map (write_option ''    '') es)) @ [CHR 0x0A]"

definition ConfigParser_writeConfigs ::
    "(32 word \<Rightarrow> string) \<Rightarrow> (128 word \<Rightarrow> string) \<Rightarrow> HMDataHostGroupMap \<Rightarrow> string" where
  "ConfigParser_writeConfigs ntop4 ntop6 groups = concat (map (write_group ntop4 ntop6 \<circ> snd) groups)"

section \<open>Numbers in a file\<close>

lemma digit_value_digit: "n < 10 \<Longrightarrow> digit_value (char_of (48 + n)) = n"
  by (simp add: digit_value_def)

lemma digits_all: "c \<in> set (digits n) \<Longrightarrow> digit_value c < 10 \<and> 48 \<le> (of_char c :: nat) \<and> of_char c \<le> (57 :: nat)"
  by (induction n rule: digits.induct)
    (subst (asm) (2) digits.simps, auto simp: digit_value_digit split: if_splits)

lemma digits_fold: "fold (\<lambda>c n. 10 * n + digit_value c) (digits n) 0 = n"
proof (induction n rule: digits.induct)
  case (1 n)
  show ?case
    by (cases "n < 10") (simp_all add: digits.simps [of n] digit_value_digit 1)
qed

lemma digits_value_digits [simp]: "digits_value 10 (digits n) = n"
proof -
  have "takeWhile (\<lambda>c. digit_value c < 10) (digits n) = digits n"
    by (simp add: takeWhile_eq_all_conv digits_all)
  then show ?thesis unfolding digits_value_def by (simp only: digits_fold)
qed

lemma digits_first: "\<exists>c r. digits n = c # r \<and> 48 \<le> (of_char c :: nat) \<and> of_char c \<le> (57 :: nat)"
proof -
  have "digits n \<noteq> []" by (subst digits.simps) simp
  then obtain c r where "digits n = c # r" by (meson neq_Nil_conv)
  then show ?thesis using digits_all [of c n] by simp
qed

lemma split_sign_digits [simp]: "split_sign (digits n) = (False, digits n)"
proof -
  obtain c r where c: "digits n = c # r" "48 \<le> (of_char c :: nat)" "of_char c \<le> (57 :: nat)"
    using digits_first by blast
  then have "\<not> is_space c" "c \<noteq> CHR ''-''" "c \<noteq> CHR ''+''" by (auto simp: is_space_def)
  then show ?thesis using c(1) by (simp add: split_sign_def)
qed

lemma atoi_digits: "n < 2 ^ 31 \<Longrightarrow> atoi (digits n) = int n"
  by (simp add: atoi_def strtol_def min_def signed_of_nat signed_take_bit_int_eq_self)

lemma atoi_to_string: "unat (w :: 'a :: len word) < 2 ^ 31 \<Longrightarrow> atoi (to_string (uint w)) = uint w"
  using atoi_digits [of "unat w"] by (simp add: to_string_def)

lemma digits_first_nonzero: "0 < n \<Longrightarrow> take (Suc 0) (digits n) \<noteq> ''0''"
proof (induction n rule: digits.induct)
  case (1 n)
  obtain c r where c: "digits (n div 10) = c # r" using digits_first by blast
  show ?case
  proof (cases "n < 10")
    case True
    then have "of_char (char_of (48 + n) :: char) \<noteq> (of_char CHR ''0'' :: nat)" using 1(2) by simp
    then have "char_of (48 + n) \<noteq> CHR ''0''" by metis
    then show ?thesis using True by (simp add: digits.simps [of n])
  next
    case False
    then have "c \<noteq> CHR ''0''" using 1(1) c by simp
    then show ?thesis using False c by (simp add: digits.simps [of n])
  qed
qed

lemma strtoul_digits: "0 < n \<Longrightarrow> n < 2 ^ 64 \<Longrightarrow> strtoul (digits n) = of_nat n"
  by (simp add: strtoul_def base_prefix_def digits_first_nonzero)

section \<open>What is written is read back\<close>

text \<open>The effect of an option on its group, while no indirect host has been read.\<close>

definition option_sets ::
    "(string \<Rightarrow> 32 word option) \<Rightarrow> (string \<Rightarrow> 128 word option) \<Rightarrow> string \<Rightarrow> string \<times> yaml \<Rightarrow>
     (HMDataHostGroup \<Rightarrow> HMDataHostGroup) \<Rightarrow> bool" where
  "option_sets pton4 pton6 name e f \<longleftrightarrow>
     (\<forall>ps. pm_indirectHost (ps_params ps) = [] \<longrightarrow>
        (\<exists>t. parse_option pton4 pton6 name (YScalar (fst e), snd e) ps = Inr (with_group name f (ps\<lparr>ps_temp := t\<rparr>))))"

lemma with_group_compose:
  "with_group name f ((with_group name g ps)\<lparr>ps_temp := t\<rparr>) = with_group name (f \<circ> g) (ps\<lparr>ps_temp := t\<rparr>)"
  by (simp add: with_group_def smap_adjust_adjust)

lemma with_group_params [simp]: "ps_params (with_group name f ps) = ps_params ps"
  by (simp add: with_group_def)

lemma options_run:
  assumes "list_all2 (option_sets pton4 pton6 name) es fs" and "pm_indirectHost (ps_params ps) = []"
  shows "\<exists>t. res_fold (parse_option pton4 pton6 name) (map (\<lambda>e. (YScalar (fst e), snd e)) es) ps =
    Inr (with_group name (fold (\<lambda>f. f) fs) (ps\<lparr>ps_temp := t\<rparr>))"
  using assms
proof (induction es fs arbitrary: ps rule: list_all2_induct)
  case Nil
  have "with_group name (\<lambda>x. x) (ps\<lparr>ps_temp := ps_temp ps\<rparr>) = ps" by (simp add: with_group_def smap_adjust_def)
  then show ?case by (auto simp: id_def intro!: exI [of _ "ps_temp ps"])
next
  case (Cons e es f fs)
  obtain t where t: "parse_option pton4 pton6 name (YScalar (fst e), snd e) ps = Inr (with_group name f (ps\<lparr>ps_temp := t\<rparr>))"
    using Cons.hyps(1) Cons.prems by (auto simp: option_sets_def)
  obtain u where "res_fold (parse_option pton4 pton6 name) (map (\<lambda>e. (YScalar (fst e), snd e)) es)
      (with_group name f (ps\<lparr>ps_temp := t\<rparr>)) =
    Inr (with_group name (fold (\<lambda>f. f) fs) ((with_group name f (ps\<lparr>ps_temp := t\<rparr>))\<lparr>ps_temp := u\<rparr>))"
    using Cons.IH [of "with_group name f (ps\<lparr>ps_temp := t\<rparr>)"] Cons.prems by auto
  then show ?case using t by (auto simp: with_group_compose comp_def)
qed


definition group_writable :: "HMDataHostGroup \<Rightarrow> bool" where
  "group_writable g \<longleftrightarrow>
     map_option fst (config_check_type (printCheckTypeConfigs (hg_checkType g))) = Some (hg_checkType g)
     \<and> hg_measurementOptions g \<in> {HM_RT_CONNECT, HM_RT_SMOOTHED_CONNECT, HM_RT_TOTAL, HM_RT_SMOOTHED_TOTAL}
     \<and> hg_dualstack g \<in> {HM_DUALSTACK_IPV4_ONLY, HM_DUALSTACK_BOTH, HM_DUALSTACK_IPV6_ONLY}
     \<and> unat (hg_checkTTL g) < 2 ^ 31 \<and> unat (hg_checkTimeout g) < 2 ^ 31 \<and> unat (hg_checkRetryDelay g) < 2 ^ 31
     \<and> unat (hg_groupThreshold g) < 2 ^ 31 \<and> unat (hg_maxFlaps g) < 2 ^ 31 \<and> unat (hg_slowThreshold g) < 2 ^ 31
     \<and> unat (hg_smoothingWindow g) < 2 ^ 31 \<and> unat (hg_flapThreshold g) * 1000 < 2 ^ 31
     \<and> distinct (hg_hosts g) \<and> distinct (hg_hostGroups g)"

text \<open>The group that comes back: the options that are not written have their defaults.\<close>

definition group_restored :: "HMDataHostGroup \<Rightarrow> HMDataHostGroup" where
  "group_restored g =
     g\<lparr>hg_remoteCheckType := HM_REMOTE_CHECK_NONE, hg_remoteCheck := [],
       hg_checkRetryDelay := (if hg_numCheckRetries g = 0 then 0 else hg_checkRetryDelay g),
       hg_passthroughInfo := 0, hg_distributedFallback := HM_DISTRIBUTED_FALLBACK_NONE, hg_hashValue := [],
       hg_checkPlugin := HM_CHECK_PLUGIN_DEFAULT, hg_DNSType := HM_DNS_TYPE_LOOKUP\<rparr>"

lemma option_setsI:
  "(\<And>ps. pm_indirectHost (ps_params ps) = [] \<Longrightarrow>
      parse_option pton4 pton6 name (YScalar key, v) ps = Inr (with_group name f ps)) \<Longrightarrow>
     option_sets pton4 pton6 name (key, v) f"
  unfolding option_sets_def by (metis config_parse.surjective config_parse.update_convs(3) fst_conv snd_conv)

lemma written_u64:
  assumes "unat (w :: u64) < 2 ^ 31"
  shows "option_sets pton4 pton6 name (''ttl'', write_number w) (\<lambda>g. g\<lparr>hg_checkTTL := w\<rparr>)"
    and "option_sets pton4 pton6 name (''timeout'', write_number w) (\<lambda>g. g\<lparr>hg_checkTimeout := w\<rparr>)"
  by (rule option_setsI, simp add: parse_option_def write_number_def atoi_to_string [OF assms] c_div_def Let_def)+

lemma written_u8:
  assumes "unat (w :: u8) < 2 ^ 31"
  shows "option_sets pton4 pton6 name (''check-retries'', write_number w) (\<lambda>g. g\<lparr>hg_numCheckRetries := w\<rparr>)"
  by (rule option_setsI, simp add: parse_option_def write_number_def atoi_to_string [OF assms] c_div_def Let_def)+

lemma written_u32:
  assumes "unat (w :: u32) < 2 ^ 31"
  shows "option_sets pton4 pton6 name (''check-retry-delay'', write_number w) (\<lambda>g. g\<lparr>hg_checkRetryDelay := w\<rparr>)"
    and "option_sets pton4 pton6 name (''group-threshold'', write_number w) (\<lambda>g. g\<lparr>hg_groupThreshold := w\<rparr>)"
    and "option_sets pton4 pton6 name (''max-flaps'', write_number w) (\<lambda>g. g\<lparr>hg_maxFlaps := w\<rparr>)"
    and "option_sets pton4 pton6 name (''slow-threshold'', write_number w) (\<lambda>g. g\<lparr>hg_slowThreshold := w\<rparr>)"
    and "option_sets pton4 pton6 name (''smoothing-window'', write_number w) (\<lambda>g. g\<lparr>hg_smoothingWindow := w\<rparr>)"
    and "option_sets pton4 pton6 name (''flap-threshold'', write_number w) (\<lambda>g. g\<lparr>hg_flapThreshold := word_of_int (uint w div 1000)\<rparr>)"
  by (rule option_setsI, simp add: parse_option_def write_number_def atoi_to_string [OF assms] c_div_def Let_def)+

lemma written_port: "option_sets pton4 pton6 name (''check-port'', write_number w) (\<lambda>g. g\<lparr>hg_port := w\<rparr>)"
proof -
  have w: "unat w < 65536" using unsigned_less [of w] by simp
  then have "atoi (to_string (uint w)) = uint w" by (intro atoi_to_string) simp
  moreover have "uint w \<le> 65535" using uint_bounded [of w] by simp
  ultimately show ?thesis by (intro option_setsI) (simp add: parse_option_def write_number_def parse_port_def)
qed

lemma written_tos:
  assumes "w \<noteq> 0"
  shows "option_sets pton4 pton6 name (''tos-value'', write_number w) (\<lambda>g. g\<lparr>hg_TOSValue := w\<rparr>)"
proof -
  have w: "unat w < 256" "0 < unat w" using unat_u8_less [of w] assms by (simp_all add: unat_gt_0)
  have "strtoul (digits (unat w)) = of_nat (unat w)" using w by (intro strtoul_digits) simp_all
  then have "strtoul (to_string (uint w)) = of_nat (unat w)" by (simp add: to_string_def)
  moreover have "sint (ucast (of_nat n :: u64) :: u32) = int n" if "n < 256" for n
    using that
    by (simp add: unsigned_of_nat signed_of_nat signed_take_bit_int_eq_self take_bit_nat_eq_self)
  note this [OF w(1)]
  ultimately show ?thesis
    using uint_bounded [of w] by (intro option_setsI) (simp add: parse_option_def write_number_def parse_tosValue_def Let_def)
qed


lemma written_name: "option_sets pton4 pton6 name (''name'', v) (\<lambda>g. g)"
proof (rule option_setsI)
  fix ps :: config_parse
  have "with_group name (\<lambda>g. g) ps = ps" by (simp add: with_group_def smap_adjust_def)
  then show "parse_option pton4 pton6 name (YScalar ''name'', v) ps = Inr (with_group name (\<lambda>g. g) ps)"
    by (simp add: parse_option_def)
qed

lemma config_check_type_not_indirect: "config_check_type val = Some r \<Longrightarrow> val \<noteq> ''indirect-host''"
  by (auto simp: config_check_type_def)

lemma written_checkType:
  assumes "config_check_type (printCheckTypeConfigs t) = Some (t, port)"
  shows "option_sets pton4 pton6 name (''check-type'', YScalar (printCheckTypeConfigs t)) (set_check_type t port)"
  using config_check_type_not_indirect [OF assms] assms
  by (intro option_setsI) (simp add: parse_option_def parse_checkType_def)

lemma written_checkInfo:
  "option_sets pton4 pton6 name (''check-info'', YScalar val) (\<lambda>g. g\<lparr>hg_checkInfo := val\<rparr>)"
  by (rule option_setsI) (simp add: parse_option_def parse_checkInfo_def Let_def split: option.split)

lemma written_dualStack:
  assumes "ds \<in> {HM_DUALSTACK_IPV4_ONLY, HM_DUALSTACK_BOTH, HM_DUALSTACK_IPV6_ONLY}"
  shows "option_sets pton4 pton6 name (''dual-stack-mode'', YScalar (printDualStack ds)) (\<lambda>g. g\<lparr>hg_dualstack := ds\<rparr>)"
  by (rule option_setsI)
    (use assms in \<open>auto simp: parse_option_def parse_dualStack_def parse_choice_def printDualStack_def\<close>)

lemma written_rtMode:
  assumes "m \<in> {HM_RT_CONNECT, HM_RT_SMOOTHED_CONNECT, HM_RT_TOTAL, HM_RT_SMOOTHED_TOTAL}"
  shows "option_sets pton4 pton6 name (''rt-mode'', YScalar (printMeasurementOptions m)) (\<lambda>g. g\<lparr>hg_measurementOptions := m\<rparr>)"
proof -
  have "parse_rtMode name (printMeasurementOptions m) ps =
      with_group name (\<lambda>g. g\<lparr>hg_measurementOptions := m\<rparr>) (ps\<lparr>ps_temp := m\<rparr>)" for ps
    using assms by (auto simp: parse_rtMode_def printMeasurementOptions_def)
  then show ?thesis by (auto simp: option_sets_def parse_option_def)
qed

lemma written_flowType:
  "option_sets pton4 pton6 name (''flow-type'', YScalar (printFlowType f)) (\<lambda>g. g\<lparr>hg_flowType := f\<rparr>)"
  by (rule option_setsI, cases f) (simp_all add: parse_option_def parse_flowType_def parse_choice_def)

lemma written_sourceAddress:
  assumes "IPAddress_set pton4 pton6 (IPAddress_toString ntop4 ntop6 a) = (a, True)"
  shows "option_sets pton4 pton6 name (''source-address'', YScalar (IPAddress_toString ntop4 ntop6 a))
    (\<lambda>g. g\<lparr>hg_sourceAddress := a\<rparr>)"
  using assms by (intro option_setsI) (simp add: parse_option_def parse_sourceAddress_def)

lemma written_lists:
  "option_sets pton4 pton6 name (''host'', YSeq (map YScalar hosts)) (fold HostGroup_addHost hosts)"
  "option_sets pton4 pton6 name (''host-group'', YSeq (map YScalar hosts)) (fold HostGroup_addHostGroup hosts)"
  by (rule option_setsI, simp add: parse_option_def comp_def)+


definition write_effects :: "u16 \<Rightarrow> HMDataHostGroup \<Rightarrow> (HMDataHostGroup \<Rightarrow> HMDataHostGroup) list" where
  "write_effects port g =
     [\<lambda>h. h, \<lambda>h. h\<lparr>hg_checkTTL := hg_checkTTL g\<rparr>, set_check_type (hg_checkType g) port]
     @ (if hg_checkInfo g \<noteq> [] then [\<lambda>h. h\<lparr>hg_checkInfo := hg_checkInfo g\<rparr>] else [])
     @ [\<lambda>h. h\<lparr>hg_checkTimeout := hg_checkTimeout g\<rparr>, \<lambda>h. h\<lparr>hg_port := hg_port g\<rparr>,
        \<lambda>h. h\<lparr>hg_dualstack := hg_dualstack g\<rparr>]
     @ (if hg_numCheckRetries g \<noteq> 0
        then [\<lambda>h. h\<lparr>hg_numCheckRetries := hg_numCheckRetries g\<rparr>,
              \<lambda>h. h\<lparr>hg_checkRetryDelay := hg_checkRetryDelay g\<rparr>] else [])
     @ [\<lambda>h. h\<lparr>hg_groupThreshold := hg_groupThreshold g\<rparr>,
        \<lambda>h. h\<lparr>hg_maxFlaps := hg_maxFlaps g\<rparr>,
        \<lambda>h. h\<lparr>hg_flapThreshold := hg_flapThreshold g\<rparr>,
        \<lambda>h. h\<lparr>hg_slowThreshold := hg_slowThreshold g\<rparr>,
        \<lambda>h. h\<lparr>hg_smoothingWindow := hg_smoothingWindow g\<rparr>,
        \<lambda>h. h\<lparr>hg_measurementOptions := hg_measurementOptions g\<rparr>]
     @ (if IPAddress_isSet (hg_sourceAddress g) then [\<lambda>h. h\<lparr>hg_sourceAddress := hg_sourceAddress g\<rparr>] else [])
     @ (if hg_TOSValue g \<noteq> 0 then [\<lambda>h. h\<lparr>hg_TOSValue := hg_TOSValue g\<rparr>] else [])
     @ [\<lambda>h. h\<lparr>hg_flowType := hg_flowType g\<rparr>]
     @ (if hg_hosts g \<noteq> [] then [fold HostGroup_addHost (hg_hosts g)] else [])
     @ (if hg_hostGroups g \<noteq> [] then [fold HostGroup_addHostGroup (hg_hostGroups g)] else [])"

lemma flap_no_wrap:
  "unat (w :: u32) * 1000 < 2 ^ 31 \<Longrightarrow> unat (w * 1000) = unat w * 1000"
  by (subst unat_mult_no_wrap) simp_all

lemma flap_restored: "unat (w :: u32) * 1000 < 2 ^ 31 \<Longrightarrow> word_of_int (uint (w * 1000) div 1000) = w"
proof -
  assume "unat w * 1000 < 2 ^ 31"
  then have "int (unat (w * 1000)) div 1000 = int (unat w)" by (simp add: flap_no_wrap)
  then show ?thesis by simp
qed

lemma written_flap:
  assumes "unat w * 1000 < 2 ^ 31"
  shows "option_sets pton4 pton6 name (''flap-threshold'', write_number (w * 1000)) (\<lambda>g. g\<lparr>hg_flapThreshold := w\<rparr>)"
  using written_u32(6) [of "w * 1000" pton4 pton6 name] assms
  by (simp only: flap_restored [OF assms] flap_no_wrap [OF assms])

lemma written_options:
  assumes "group_writable g"
    and "\<And>a. a \<noteq> UNSPEC \<Longrightarrow> IPAddress_set pton4 pton6 (IPAddress_toString ntop4 ntop6 a) = (a, True)"
  obtains port where "list_all2 (option_sets pton4 pton6 name) (write_options ntop4 ntop6 g) (write_effects port g)"
proof -
  obtain port where port: "config_check_type (printCheckTypeConfigs (hg_checkType g)) = Some (hg_checkType g, port)"
    using assms(1) by (auto simp: group_writable_def)
  have "unat (hg_numCheckRetries g) < 2 ^ 31" using unat_u8_less [of "hg_numCheckRetries g"] by simp
  then have "list_all2 (option_sets pton4 pton6 name) (write_options ntop4 ntop6 g) (write_effects port g)"
    unfolding write_options_def write_effects_def
    by (intro list_all2_appendI)
      (use assms port in \<open>simp_all add: group_writable_def written_name written_u8 written_u32 written_u64 written_checkType written_checkInfo
        written_port written_dualStack written_rtMode written_sourceAddress written_tos written_flowType written_lists written_flap\<close>)
  then show ?thesis by (rule that)
qed

lemma addHost_all:
  "distinct (hg_hosts h @ hosts) \<Longrightarrow> fold HostGroup_addHost hosts h = h\<lparr>hg_hosts := hg_hosts h @ hosts\<rparr>"
  by (induction hosts arbitrary: h) (simp_all add: HostGroup_addHost_def)

lemma addHostGroup_all:
  "distinct (hg_hostGroups h @ gs) \<Longrightarrow> fold HostGroup_addHostGroup gs h = h\<lparr>hg_hostGroups := hg_hostGroups h @ gs\<rparr>"
  by (induction gs arbitrary: h) (simp_all add: HostGroup_addHostGroup_def)

lemma effects_restore:
  assumes "group_writable g"
  shows "fold (\<lambda>f. f) (write_effects port g) (HostGroup_new (hg_groupName g)) = group_restored g"
proof (rule HMDataHostGroup.equality)
qed (use assms in \<open>auto simp: write_effects_def group_restored_def HostGroup_new_def set_check_type_def group_writable_def
  addHost_all addHostGroup_all flap_restored\<close>)


text \<open>The document a file with the groups holds.\<close>

definition group_document :: "(32 word \<Rightarrow> string) \<Rightarrow> (128 word \<Rightarrow> string) \<Rightarrow> HMDataHostGroup \<Rightarrow> (yaml \<times> yaml) list" where
  "group_document ntop4 ntop6 g = map (\<lambda>e. (YScalar (fst e), snd e)) (write_options ntop4 ntop6 g)"

lemma yaml_get_document:
  "yaml_get key (YMap (group_document ntop4 ntop6 g)) = map_of (write_options ntop4 ntop6 g) key"
proof -
  have "map_option snd (find (\<lambda>(k, v). k = YScalar key) (map (\<lambda>e. (YScalar (fst e), snd e)) es)) = map_of es key"
    for es :: "(string \<times> yaml) list"
    by (induction es) auto
  then show ?thesis by (simp add: group_document_def)
qed

lemma group_document_keys:
  "map_of (write_options ntop4 ntop6 g) ''name'' = Some (YScalar (hg_groupName g))"
  "map_of (write_options ntop4 ntop6 g) ''master-check-mode'' = None"
  "map_of (write_options ntop4 ntop6 g) ''master-check-domain'' = None"
  by (simp_all add: write_options_def)

lemma parse_group_document:
  assumes "group_writable g"
    and "\<And>a. a \<noteq> UNSPEC \<Longrightarrow> IPAddress_set pton4 pton6 (IPAddress_toString ntop4 ntop6 a) = (a, True)"
    and "pm_indirectHost (ps_params ps) = []" and "list_all (\<lambda>e. fst e < hg_groupName g) (ps_groups ps)"
  shows "\<exists>t. parse_host_node pton4 pton6 (group_document ntop4 ntop6 g) ps =
    Inr (ps\<lparr>ps_temp := t, ps_groups := ps_groups ps @ [(hg_groupName g, group_restored g)]\<rparr>)"
proof -
  let ?name = "hg_groupName g"
  let ?ps = "ps\<lparr>ps_groups := ps_groups ps @ [(?name, HostGroup_new ?name)]\<rparr>"
  obtain port where "list_all2 (option_sets pton4 pton6 ?name) (write_options ntop4 ntop6 g) (write_effects port g)"
    using written_options [OF assms(1,2)] by blast
  from options_run [OF this, of ?ps] obtain t where
    t: "res_fold (parse_option pton4 pton6 ?name) (group_document ntop4 ntop6 g) ?ps =
      Inr (with_group ?name (fold (\<lambda>f. f) (write_effects port g)) (?ps\<lparr>ps_temp := t\<rparr>))"
    using assms(3) by (auto simp: group_document_def)
  have new: "group_find ?name (ps_groups ps) = None"
    using assms(4) by (auto simp: smap_find_None_iff list_all_iff key_equiv_def)
  then have "find_or_insert ?name (HostGroup_new ?name) (ps_groups ps) = ps_groups ps @ [(?name, HostGroup_new ?name)]"
    using assms(4) by (simp add: find_or_insert_def smap_insert_last)
  moreover have "smap_adjust (<) ?name f (ps_groups ps @ [(?name, h)]) = ps_groups ps @ [(?name, f h)]" for f h
    using smap_adjust_absent [OF new] by (simp add: smap_adjust_def key_equiv_def)
  ultimately show ?thesis
    using t by (auto simp: parse_host_node_def yaml_get_document group_document_keys with_group_def effects_restore [OF assms(1)]
        simp del: yaml_get.simps)
qed

lemma parse_group_documents:
  assumes "\<And>a. a \<noteq> UNSPEC \<Longrightarrow> IPAddress_set pton4 pton6 (IPAddress_toString ntop4 ntop6 a) = (a, True)"
    and "pm_indirectHost (ps_params ps) = []" and "sorted_wrt (<) (map fst (ps_groups ps) @ map fst groups)"
    and "list_all (\<lambda>(n, g). hg_groupName g = n \<and> group_writable g) groups"
  shows "\<exists>t. parse_host_nodes pton4 pton6 (map (\<lambda>e. YMap (group_document ntop4 ntop6 (snd e))) groups) ps =
    Inr (ps\<lparr>ps_temp := t, ps_groups := ps_groups ps @ map (\<lambda>(n, g). (n, group_restored g)) groups\<rparr>)"
  using assms(2-)
proof (induction groups arbitrary: ps)
  case Nil
  then show ?case by (auto intro!: exI [of _ "ps_temp ps"])
next
  case (Cons e groups)
  obtain n g where e: "e = (n, g)" "hg_groupName g = n" "group_writable g" using Cons.prems(3) by (cases e) auto
  have "list_all (\<lambda>e. fst e < hg_groupName g) (ps_groups ps)"
    using Cons.prems(2) by (auto simp: e sorted_wrt_append list_all_iff)
  from parse_group_document [OF e(3) assms(1) Cons.prems(1) this] obtain t where
    t: "parse_host_node pton4 pton6 (group_document ntop4 ntop6 g) ps =
      Inr (ps\<lparr>ps_temp := t, ps_groups := ps_groups ps @ [(n, group_restored g)]\<rparr>)" using e(2) by auto
  have "\<exists>u. parse_host_nodes pton4 pton6 (map (\<lambda>e. YMap (group_document ntop4 ntop6 (snd e))) groups)
      (ps\<lparr>ps_temp := t, ps_groups := ps_groups ps @ [(n, group_restored g)]\<rparr>) =
    Inr (ps\<lparr>ps_temp := u, ps_groups := ps_groups ps @ (n, group_restored g) # map (\<lambda>(n, g). (n, group_restored g)) groups\<rparr>)"
    using Cons.IH [of "ps\<lparr>ps_temp := t, ps_groups := ps_groups ps @ [(n, group_restored g)]\<rparr>"] Cons.prems
    by (simp add: e sorted_wrt_append)
  then show ?case using t by (simp add: e)
qed

text \<open>A configuration that \<open>writeConfigs\<close> writes is read back by \<open>parseConfig\<close> without an error: every group is there, with
  all the options the file has; the options \<open>writeConfigs\<close> leaves out have their defaults. The hypotheses: the YAML
  library reads the written text as the document with these options, and \<open>inet_pton\<close> reads what
  \<open>inet_ntop\<close> prints.\<close>

theorem written_configuration_parsed:
  assumes "map_sorted (<) groups" and "list_all (\<lambda>(n, g). hg_groupName g = n \<and> group_writable g) groups"
    and "\<And>a. a \<noteq> UNSPEC \<Longrightarrow> IPAddress_set pton4 pton6 (IPAddress_toString ntop4 ntop6 a) = (a, True)"
    and "read (ConfigParser_writeConfigs ntop4 ntop6 groups) =
      Some (YSeq (map (\<lambda>e. YMap (group_document ntop4 ntop6 (snd e))) groups))"
    and "yaml_file_name file" and "load file = read (ConfigParser_writeConfigs ntop4 ntop6 groups)"
  shows "ConfigParser_parseConfig pton4 pton6 load file ([], ConfigParams_new) =
    Inr ((map (\<lambda>(n, g). (n, group_restored g)) groups, ConfigParams_new), 0)"
proof -
  let ?ps = "\<lparr>ps_groups = [], ps_params = ConfigParams_new, ps_temp = HM_RT_CONNECT, ps_nerr = 0\<rparr>"
  obtain t where "parse_host_nodes pton4 pton6 (map (\<lambda>e. YMap (group_document ntop4 ntop6 (snd e))) groups) ?ps =
      Inr (?ps\<lparr>ps_temp := t, ps_groups := map (\<lambda>(n, g). (n, group_restored g)) groups\<rparr>)"
    using parse_group_documents [OF assms(3), where ps = ?ps and groups = groups] assms(1,2)
    by (auto simp: ConfigParams_new_def map_sorted_def sorted_wrt_map)
  then show ?thesis using assms(4-) by (simp add: ConfigParser_parseConfig_def)
qed


text \<open>A configuration with one group, and the address texts of a library that knows two addresses.\<close>

definition w_yaml_group :: HMDataHostGroup where
  "w_yaml_group = (HostGroup_new ''g'')\<lparr>hg_checkType := HM_CHECK_HTTP, hg_port := 8080, hg_numCheckRetries := 3,
     hg_checkRetryDelay := 10, hg_TOSValue := 8, hg_hosts := [''a'', ''b'']\<rparr>"

definition w_pton4 :: "string \<Rightarrow> 32 word option" where
  "w_pton4 s = (if take 1 s = ''4'' then Some (of_nat (length s - 1)) else None)"

definition w_ntop4 :: "32 word \<Rightarrow> string" where
  "w_ntop4 a = CHR ''4'' # replicate (unat a) CHR ''.''"

definition w_pton6 :: "string \<Rightarrow> 128 word option" where
  "w_pton6 s = (if take 1 s = ''6'' then Some (of_nat (length s - 1)) else None)"

definition w_ntop6 :: "128 word \<Rightarrow> string" where
  "w_ntop6 a = CHR ''6'' # replicate (unat a) CHR '':''"

lemma w_address_texts: "a \<noteq> UNSPEC \<Longrightarrow> IPAddress_set w_pton4 w_pton6 (IPAddress_toString w_ntop4 w_ntop6 a) = (a, True)"
  by (cases a) (simp_all add: IPAddress_set_def w_pton4_def w_pton6_def w_ntop4_def w_ntop6_def)

lemma w_yaml_group_writable: "hg_groupName w_yaml_group = ''g'' \<and> group_writable w_yaml_group"
  by (simp add: w_yaml_group_def group_writable_def HostGroup_new_def config_check_type_def)

theorem written_configuration_parsed_witness:
  "ConfigParser_parseConfig w_pton4 w_pton6
     (\<lambda>_. Some (YSeq [YMap (group_document w_ntop4 w_ntop6 w_yaml_group)])) ''g.yaml'' ([], ConfigParams_new) =
   Inr (([(''g'', group_restored w_yaml_group)], ConfigParams_new), 0)"
proof -
  let ?doc = "Some (YSeq [YMap (group_document w_ntop4 w_ntop6 w_yaml_group)])"
  have "ConfigParser_parseConfig w_pton4 w_pton6 (\<lambda>_. ?doc) ''g.yaml'' ([], ConfigParams_new) =
    Inr ((map (\<lambda>(n, g). (n, group_restored g)) [(''g'', w_yaml_group)], ConfigParams_new), 0)"
    by (rule written_configuration_parsed [where ?read = "\<lambda>_. ?doc" and ?ntop4.0 = w_ntop4 and ?ntop6.0 = w_ntop6])
      (simp_all add: map_sorted_def w_yaml_group_writable w_address_texts yaml_file_name_def)
  then show ?thesis by simp
qed


text \<open>The check type that comes back from a written configuration: \<open>tcps\<close> has no name in \<open>printCheckTypeConfigs\<close>, so
  the written file has an error, and an auxiliary check comes back as the plain check of the same protocol.\<close>

theorem written_check_types:
  "map_option fst (config_check_type (printCheckTypeConfigs t)) =
     (if t \<in> {HM_CHECK_TCPS, HM_CHECK_DEFAULT, HM_CHECK_INVALID} then None
      else if t = HM_CHECK_AUX_HTTP then Some HM_CHECK_HTTP
      else if t = HM_CHECK_AUX_HTTPS then Some HM_CHECK_HTTPS
      else if t = HM_CHECK_AUX_HTTPS_NO_PEER_CHECK then Some HM_CHECK_HTTPS_NO_PEER_CHECK
      else if t = HM_CHECK_AUX_MTLS_HTTPS then Some HM_CHECK_MTLS_HTTPS
      else if t = HM_CHECK_AUX_MTLS_HTTPS_NO_PEER_CHECK then Some HM_CHECK_MTLS_HTTPS_NO_PEER_CHECK
      else Some t)"
  by (cases t) (simp_all add: config_check_type_def)

end
