(* ===== verification/HM_Buffer.thy ===== *)
theory HM_Buffer
  imports HM_HostGroup
begin

text \<open>
  The raw buffers of the stored forms. A buffer is the list of its bytes from a pointer on. The code
  writes characters and integers, which are bytes here, and lays structs and addresses over the
  buffer; such an object stands at its first byte and the other bytes it covers are \<open>Rest\<close>, so that
  sizes and offsets are those of the code, and an object is read back only where one was written.
  The sizes of the structs are those of the x86-64 ABI.

  What the language leaves undefined (a read or write outside the buffer, a read of bytes as an
  object that was not written there), what the library throws, and \<open>rejected\<close>, the return of a
  function whose own check of the sizes fails, are errors.
\<close>

datatype 'o cell = Byte char | Obj 'o | Rest

type_synonym 'o buffer = "'o cell list"

datatype buffer_error = rejected | out_of_range | length_error | past_end | other_object | null_pointer

section \<open>Writing\<close>

definition put_chars :: "string \<Rightarrow> 'o buffer" where
  "put_chars s = map Byte s"

definition put_u32 :: "u32 \<Rightarrow> 'o buffer" where
  "put_u32 n = put_chars (le_bytes 4 (unat n))"

definition put_u64 :: "u64 \<Rightarrow> 'o buffer" where
  "put_u64 n = put_chars (le_bytes 8 (unat n))"

definition put_obj :: "nat \<Rightarrow> 'o \<Rightarrow> 'o buffer" where
  "put_obj sz x = Obj x # replicate (sz - 1) Rest"

text \<open>\<open>strncpy(target, s.c_str(), s.size())\<close>\<close>

definition put_name :: "string \<Rightarrow> 'o buffer" where
  "put_name s = put_chars (strncpy_bytes (length s) s)"

section \<open>Reading\<close>

fun cell_char :: "'o cell \<Rightarrow> char option" where
  "cell_char (Byte c) = Some c"
| "cell_char _ = None"

fun cell_obj :: "'o cell \<Rightarrow> 'o option" where
  "cell_obj (Obj x) = Some x"
| "cell_obj _ = None"

fun chars_of :: "'o buffer \<Rightarrow> string option" where
  "chars_of [] = Some []"
| "chars_of (x # xs) =
     (case cell_char x of None \<Rightarrow> None | Some c \<Rightarrow> map_option ((#) c) (chars_of xs))"

definition take_chars :: "nat \<Rightarrow> 'o buffer \<Rightarrow> buffer_error + (string \<times> 'o buffer)" where
  "take_chars n src =
     (if length src < n then Inl past_end
      else case chars_of (take n src) of None \<Rightarrow> Inl other_object | Some s \<Rightarrow> Inr (s, drop n src))"

text \<open>\<open>strncpy(dst, src, n)\<close> and \<open>src += n\<close>\<close>

definition take_name :: "nat \<Rightarrow> 'o buffer \<Rightarrow> buffer_error + (string \<times> 'o buffer)" where
  "take_name n src =
     (case take_chars n src of Inl e \<Rightarrow> Inl e | Inr (s, src) \<Rightarrow> Inr (strncpy_bytes n s, src))"

definition take_u32 :: "'o buffer \<Rightarrow> buffer_error + (u32 \<times> 'o buffer)" where
  "take_u32 src =
     (case take_chars 4 src of Inl e \<Rightarrow> Inl e | Inr (s, src) \<Rightarrow> Inr (of_nat (of_le s), src))"

definition take_u64 :: "'o buffer \<Rightarrow> buffer_error + (u64 \<times> 'o buffer)" where
  "take_u64 src =
     (case take_chars 8 src of Inl e \<Rightarrow> Inl e | Inr (s, src) \<Rightarrow> Inr (of_nat (of_le s), src))"

definition take_obj :: "nat \<Rightarrow> 'o buffer \<Rightarrow> buffer_error + ('o \<times> 'o buffer)" where
  "take_obj sz src =
     (if length src < sz then Inl past_end
      else case src of [] \<Rightarrow> Inl past_end
        | x # _ \<Rightarrow> (case cell_obj x of None \<Rightarrow> Inl other_object | Some y \<Rightarrow> Inr (y, drop sz src)))"

text \<open>\<open>*src\<close> of a \<open>char*\<close>, which is signed, converted to \<open>uint32_t\<close>.\<close>

definition char_u32 :: "char \<Rightarrow> u32" where
  "char_u32 c = scast (of_nat (of_char c) :: u8)"

section \<open>Lemmas\<close>

named_theorems buffer_simps

lemma length_put [simp]:
  "length (put_chars s) = length s" "length (put_u32 n) = 4" "length (put_u64 m) = 8"
  "length (put_name s) = length s"
  by (simp_all add: put_chars_def put_u32_def put_u64_def put_name_def strncpy_bytes_def Let_def)
    (metis le_add_diff_inverse length_takeWhile_le take_all_iff order_refl)

lemma length_put_obj [simp]: "0 < sz \<Longrightarrow> length (put_obj sz x) = sz"
  by (simp add: put_obj_def)

lemma chars_of_put [simp]: "chars_of (put_chars s) = Some s"
  by (induction s) (simp_all add: put_chars_def)

lemma take_chars_put [buffer_simps]: "take_chars (length s) (put_chars s @ rest) = Inr (s, rest)"
  by (simp add: take_chars_def)

lemma take_name_put [buffer_simps]:
  "clean s \<Longrightarrow> take_name (length s) (put_name s @ rest) = Inr (s, rest)"
  by (simp add: take_name_def put_name_def take_chars_put)

lemma take_u32_put [buffer_simps]: "take_u32 (put_u32 n @ rest) = Inr (n, rest)"
proof -
  have "of_le (le_bytes 4 (unat n)) = unat n"
    by (rule of_le_bytes) (use unsigned_less [of n] in simp)
  then show ?thesis
    using take_chars_put [of "le_bytes 4 (unat n)" rest] by (simp add: take_u32_def put_u32_def)
qed

lemma take_u64_put [buffer_simps]: "take_u64 (put_u64 n @ rest) = Inr (n, rest)"
proof -
  have "of_le (le_bytes 8 (unat n)) = unat n"
    by (rule of_le_bytes) (use unsigned_less [of n] in simp)
  then show ?thesis
    using take_chars_put [of "le_bytes 8 (unat n)" rest] by (simp add: take_u64_def put_u64_def)
qed

lemma take_obj_put [buffer_simps]: "0 < sz \<Longrightarrow> take_obj sz (put_obj sz x @ rest) = Inr (x, rest)"
  by (cases sz) (simp_all add: take_obj_def put_obj_def)

lemma sint_u8: "n < 128 \<Longrightarrow> sint (of_nat n :: u8) = int n"
  by (simp add: signed_of_nat signed_take_bit_int_eq_self)

lemma char_u32_small: "n < 128 \<Longrightarrow> unat (char_u32 (char_of (n mod 256))) = n"
  by (simp add: char_u32_def scast_eq sint_u8 unat_of_nat_u32)

section \<open>Repeated records\<close>

text \<open>
  The contract of a record format: what \<open>put\<close> writes for a record that fits, \<open>get\<close> reads back, with
  the bytes behind it. The formats of the storage repeat a record a counted number of times; that
  reading \<open>n\<close> records is the inverse of writing \<open>n\<close> records is proved here once.
\<close>

fun get_records :: "('b \<Rightarrow> 'e + ('r \<times> 'b)) \<Rightarrow> nat \<Rightarrow> 'b \<Rightarrow> 'e + ('r list \<times> 'b)" where
  "get_records get 0 src = Inr ([], src)"
| "get_records get (Suc n) src =
     (case get src of Inl e \<Rightarrow> Inl e
      | Inr (x, src) \<Rightarrow>
          (case get_records get n src of Inl e \<Rightarrow> Inl e | Inr (xs, src) \<Rightarrow> Inr (x # xs, src)))"

locale record_format =
  fixes put :: "'r \<Rightarrow> 'o buffer"
    and get :: "'o buffer \<Rightarrow> buffer_error + ('r \<times> 'o buffer)"
    and fits :: "'r \<Rightarrow> bool"
  assumes get_put: "fits x \<Longrightarrow> get (put x @ rest) = Inr (x, rest)"
begin

lemma get_puts:
  "list_all fits xs \<Longrightarrow> get_records get (length xs) (concat (map put xs) @ rest) = Inr (xs, rest)"
  by (induction xs) (simp_all add: get_put)

lemma puts_inj:
  assumes "list_all fits xs" and "list_all fits ys" and "length xs = length ys"
    and "concat (map put xs) = concat (map put ys)"
  shows "xs = ys"
  using get_puts [OF assms(1), of "[]"] get_puts [OF assms(2), of "[]"] assms(3,4) by simp

end

text \<open>A name with its length in front is such a format.\<close>

definition put_sized_name :: "string \<Rightarrow> 'o buffer" where
  "put_sized_name s = put_u32 (of_nat (length s)) @ put_name s"

text \<open>\<open>temp.resize(n)\<close>, \<open>strncpy(&temp.at(0), ...)\<close>: \<open>at(0)\<close> of an empty string throws.\<close>

definition take_sized_name :: "'o buffer \<Rightarrow> buffer_error + (string \<times> 'o buffer)" where
  "take_sized_name src =
     (case take_u32 src of Inl e \<Rightarrow> Inl e
      | Inr (n, rest) \<Rightarrow>
          if length rest < unat n then Inl rejected
          else if n = 0 then Inl out_of_range
          else take_name (unat n) rest)"

definition name_fits :: "string \<Rightarrow> bool" where
  "name_fits s \<longleftrightarrow> clean s \<and> s \<noteq> [] \<and> length s < 2 ^ 32"

interpretation name_format: record_format put_sized_name take_sized_name name_fits
proof
  fix x :: string and rest :: "'a buffer"
  assume "name_fits x"
  then have x: "clean x" "x \<noteq> []" "unat (of_nat (length x) :: u32) = length x"
    by (simp_all add: name_fits_def unat_of_nat_u32)
  then have "(of_nat (length x) :: u32) \<noteq> 0" by (metis length_0_conv unat_0)
  then show "take_sized_name (put_sized_name x @ rest) = Inr (x, rest)"
    using x by (simp add: put_sized_name_def take_sized_name_def buffer_simps)
qed

end
