(* ===== verification/HM_AuxCache.thy ===== *)
theory HM_AuxCache
  imports HM_Buffer HM_CheckResult
begin

text \<open>
  Auxiliary data of hosts (\<open>HMAuxCache.h\<close>, \<open>HMAuxCache.cpp\<close>): load feedback and out-of-band entries,
  their stored forms, the key of the cache and the cache. A field \<open>m_x\<close> of \<open>HMAuxBase\<close> is \<open>ab_x\<close>, of
  \<open>HMAuxLoadFB\<close> \<open>lf_x\<close> and of \<open>HMAuxOOB\<close> \<open>oo_x\<close>. The two classes derived from \<open>HMAuxBase\<close> extend its
  record, and a pointer to the base class is a value of the datatype \<open>HMAux\<close>. Enumerations that are read
  from a byte without a check are that byte. The text parser and generator of the data
  (\<open>HMAuxParserRapidXML\<close>) are the arguments \<open>parse\<close> and \<open>gen\<close>.
\<close>

section \<open>Entries\<close>

definition HM_LOAD_FILE :: u8 where "HM_LOAD_FILE = 0"
definition HM_OOB_FILE :: u8 where "HM_OOB_FILE = 1"
definition HM_OOB_FORCEDOWN_NONE :: u8 where "HM_OOB_FORCEDOWN_NONE = 2"

record HMAuxBase =
  ab_type :: u8
  ab_host :: string
  ab_resource :: string
  ab_ip :: HMIPAddress
  ab_ts :: HMTimeStamp

record HMAuxLoadFB = HMAuxBase +
  lf_datacenter :: string
  lf_load :: u64
  lf_target :: u64
  lf_max :: u64

record HMAuxOOB = HMAuxBase +
  oo_forceDown :: u8
  oo_shed :: u32

datatype HMAux = AuxLoadFB HMAuxLoadFB | AuxOOB HMAuxOOB

fun Aux_getLFB :: "HMAux \<Rightarrow> HMAuxLoadFB option" where
  "Aux_getLFB (AuxLoadFB o') = Some o'"
| "Aux_getLFB (AuxOOB _) = None"

fun Aux_getOOB :: "HMAux \<Rightarrow> HMAuxOOB option" where
  "Aux_getOOB (AuxLoadFB _) = None"
| "Aux_getOOB (AuxOOB o') = Some o'"

definition LoadFB_clone :: "HMAuxLoadFB \<Rightarrow> HMAuxLoadFB" where
  "LoadFB_clone a =
     \<lparr>ab_type = ab_type a, ab_host = ab_host a, ab_resource = ab_resource a, ab_ip = ab_ip a,
      ab_ts = ab_ts a, lf_datacenter = lf_datacenter a, lf_load = lf_load a, lf_target = lf_target a,
      lf_max = lf_max a\<rparr>"

definition OOB_clone :: "HMAuxOOB \<Rightarrow> HMAuxOOB" where
  "OOB_clone a =
     \<lparr>ab_type = ab_type a, ab_host = ab_host a, ab_resource = ab_resource a, ab_ip = ab_ip a,
      ab_ts = ab_ts a, oo_forceDown = oo_forceDown a, oo_shed = oo_shed a\<rparr>"

text \<open>\<open>transfer()\<close> is a constant method, so its moves copy.\<close>

fun Aux_clone :: "HMAux \<Rightarrow> HMAux" where
  "Aux_clone (AuxLoadFB a) = AuxLoadFB (LoadFB_clone a)"
| "Aux_clone (AuxOOB a) = AuxOOB (OOB_clone a)"

section \<open>Stored forms\<close>

record LoadFB_SerStruct =
  lfs_type :: u8
  lfs_hostSize :: u32
  lfs_resourceSize :: u32
  lfs_ip :: HMIPAddress
  lfs_ts :: u64
  lfs_datacenterSize :: u32
  lfs_load :: u64
  lfs_target :: u64
  lfs_max :: u64

record OOB_SerStruct =
  oos_type :: u8
  oos_hostSize :: u32
  oos_resourceSize :: u32
  oos_ip :: HMIPAddress
  oos_ts :: u64
  oos_forceDown :: u8
  oos_shed :: u32

definition LoadFB_sizeof :: nat where "LoadFB_sizeof = 72"
definition OOB_sizeof :: nat where "OOB_sizeof = 48"
definition IPAddress_sizeof :: nat where "IPAddress_sizeof = 20"

text \<open>The objects that the stored forms of the daemon lay over a buffer.\<close>

datatype stored =
    StoredAddress HMIPAddress
  | StoredResult CheckResult_SerStruct
  | StoredLoadFB LoadFB_SerStruct
  | StoredOOB OOB_SerStruct

type_synonym raw = "stored buffer"

text \<open>The sum of the sizes is a \<open>size_t\<close> that is stored in a \<open>uint32_t\<close>.\<close>

definition LoadFB_totalSize :: "HMAuxLoadFB \<Rightarrow> nat" where
  "LoadFB_totalSize a =
     LoadFB_sizeof + length (ab_host a) + length (ab_resource a) + length (lf_datacenter a)"

definition LoadFB_bytes :: "HMAuxLoadFB \<Rightarrow> raw" where
  "LoadFB_bytes a =
     put_obj LoadFB_sizeof (StoredLoadFB
       \<lparr>lfs_type = ab_type a, lfs_hostSize = of_nat (length (ab_host a)),
        lfs_resourceSize = of_nat (length (ab_resource a)), lfs_ip = ab_ip a,
        lfs_ts = ts_getTimeSinceEpoch (ab_ts a), lfs_datacenterSize = of_nat (length (lf_datacenter a)),
        lfs_load = lf_load a, lfs_target = lf_target a, lfs_max = lf_max a\<rparr>)
     @ put_name (ab_host a) @ put_name (ab_resource a) @ put_name (lf_datacenter a)"

definition LoadFB_serialize :: "HMAuxLoadFB \<Rightarrow> raw option \<Rightarrow> u32 \<Rightarrow> raw option \<times> u32" where
  "LoadFB_serialize a buf sz =
     (let totalSize = of_nat (LoadFB_totalSize a) :: u32
      in case buf of None \<Rightarrow> (None, totalSize)
         | Some b \<Rightarrow>
             if sz < totalSize then (buf, totalSize)
             else (Some (LoadFB_bytes a @ drop (LoadFB_totalSize a) b), totalSize))"

definition OOB_totalSize :: "HMAuxOOB \<Rightarrow> nat" where
  "OOB_totalSize a = OOB_sizeof + length (ab_host a) + length (ab_resource a)"

definition OOB_bytes :: "HMAuxOOB \<Rightarrow> raw" where
  "OOB_bytes a =
     put_obj OOB_sizeof (StoredOOB
       \<lparr>oos_type = ab_type a, oos_hostSize = of_nat (length (ab_host a)),
        oos_resourceSize = of_nat (length (ab_resource a)), oos_ip = ab_ip a,
        oos_ts = ts_getTimeSinceEpoch (ab_ts a), oos_forceDown = oo_forceDown a, oos_shed = oo_shed a\<rparr>)
     @ put_name (ab_host a) @ put_name (ab_resource a)"

definition OOB_serialize :: "HMAuxOOB \<Rightarrow> raw option \<Rightarrow> u32 \<Rightarrow> raw option \<times> u32" where
  "OOB_serialize a buf sz =
     (let totalSize = of_nat (OOB_totalSize a) :: u32
      in case buf of None \<Rightarrow> (None, totalSize)
         | Some b \<Rightarrow>
             if sz < totalSize then (buf, totalSize)
             else (Some (OOB_bytes a @ drop (OOB_totalSize a) b), totalSize))"

fun Aux_serialize :: "HMAux \<Rightarrow> raw option \<Rightarrow> u32 \<Rightarrow> raw option \<times> u32" where
  "Aux_serialize (AuxLoadFB a) buf sz = LoadFB_serialize a buf sz"
| "Aux_serialize (AuxOOB a) buf sz = OOB_serialize a buf sz"

fun Aux_totalSize :: "HMAux \<Rightarrow> nat" where
  "Aux_totalSize (AuxLoadFB a) = LoadFB_totalSize a"
| "Aux_totalSize (AuxOOB a) = OOB_totalSize a"

text \<open>\<open>if (n > 0) { s.resize(n); strncpy(&s.at(0), src, n); src += n; }\<close> on a fresh object, whose string is
  empty.\<close>

definition take_text :: "u32 \<Rightarrow> raw \<Rightarrow> buffer_error + (string \<times> raw)" where
  "take_text n src = (if 0 < n then take_name (unat n) src else Inr ([], src))"

definition LoadFB_internalDeserialize :: "raw \<Rightarrow> u32 \<Rightarrow> buffer_error + HMAuxLoadFB" where
  "LoadFB_internalDeserialize buf sz =
     (if unat sz < LoadFB_sizeof then Inl rejected
      else case take_obj LoadFB_sizeof buf of Inl e \<Rightarrow> Inl e
      | Inr (StoredLoadFB p, src) \<Rightarrow>
          if unat sz < LoadFB_sizeof + unat (lfs_hostSize p) + unat (lfs_resourceSize p)
               + unat (lfs_datacenterSize p) then Inl rejected
          else (case take_text (lfs_hostSize p) src of Inl e \<Rightarrow> Inl e
          | Inr (host, src) \<Rightarrow> (case take_text (lfs_resourceSize p) src of Inl e \<Rightarrow> Inl e
          | Inr (resource, src) \<Rightarrow> (case take_text (lfs_datacenterSize p) src of Inl e \<Rightarrow> Inl e
          | Inr (datacenter, src) \<Rightarrow>
              Inr \<lparr>ab_type = lfs_type p, ab_host = host, ab_resource = resource, ab_ip = lfs_ip p,
                   ab_ts = ts_setTime (lfs_ts p), lf_datacenter = datacenter, lf_load = lfs_load p,
                   lf_target = lfs_target p, lf_max = lfs_max p\<rparr>)))
      | Inr _ \<Rightarrow> Inl other_object)"

definition OOB_internalDeserialize :: "raw \<Rightarrow> u32 \<Rightarrow> buffer_error + HMAuxOOB" where
  "OOB_internalDeserialize buf sz =
     (if unat sz < OOB_sizeof then Inl rejected
      else case take_obj OOB_sizeof buf of Inl e \<Rightarrow> Inl e
      | Inr (StoredOOB p, src) \<Rightarrow>
          if unat sz < OOB_sizeof + unat (oos_hostSize p) + unat (oos_resourceSize p) then Inl rejected
          else (case take_text (oos_hostSize p) src of Inl e \<Rightarrow> Inl e
          | Inr (host, src) \<Rightarrow> (case take_text (oos_resourceSize p) src of Inl e \<Rightarrow> Inl e
          | Inr (resource, src) \<Rightarrow>
              Inr \<lparr>ab_type = oos_type p, ab_host = host, ab_resource = resource, ab_ip = oos_ip p,
                   ab_ts = ts_setTime (oos_ts p), oo_forceDown = oos_forceDown p, oo_shed = oos_shed p\<rparr>))
      | Inr _ \<Rightarrow> Inl other_object)"

text \<open>\<open>buf[0]\<close>: the first byte of a struct is its field \<open>m_type\<close>; that of another object is not looked at
  by the code.\<close>

fun first_byte :: "stored cell \<Rightarrow> u8 option" where
  "first_byte (Byte c) = Some (of_nat (of_char c))"
| "first_byte (Obj (StoredLoadFB p)) = Some (lfs_type p)"
| "first_byte (Obj (StoredOOB p)) = Some (oos_type p)"
| "first_byte _ = None"

text \<open>\<open>HMAuxBase::deserialize\<close>; a first byte that names no type leaves the pointer null, and the call
  through it is an error. \<open>Inl rejected\<close> is the null pointer that the function returns.\<close>

definition Aux_deserialize :: "raw option \<Rightarrow> u32 \<Rightarrow> buffer_error + HMAux" where
  "Aux_deserialize buf sz =
     (case buf of None \<Rightarrow> Inl rejected
      | Some b \<Rightarrow>
          if sz < 1 then Inl rejected
          else case b of [] \<Rightarrow> Inl past_end
          | x # _ \<Rightarrow>
            (case first_byte x of None \<Rightarrow> Inl other_object
             | Some t \<Rightarrow>
                 if t = HM_OOB_FILE then map_sum id AuxOOB (OOB_internalDeserialize b sz)
                 else if t = HM_LOAD_FILE then map_sum id AuxLoadFB (LoadFB_internalDeserialize b sz)
                 else Inl null_pointer))"

section \<open>Keys\<close>

record HMAuxKey =
  ak_hostName :: string
  ak_sourceUrl :: string
  ak_address :: HMIPAddress

definition AuxKey_less :: "HMAuxKey \<Rightarrow> HMAuxKey \<Rightarrow> bool" where
  "AuxKey_less a b \<longleftrightarrow>
     (if ak_hostName a \<noteq> ak_hostName b then ak_hostName a < ak_hostName b
      else if \<not> IPAddress_eq (ak_address a) (ak_address b) then IPAddress_less (ak_address a) (ak_address b)
      else ak_sourceUrl a < ak_sourceUrl b)"

text \<open>
  \<open>*buf = (uint32_t)m_hostName.size()\<close> writes one byte; the total size does not count the address that is
  copied behind the two sizes.
\<close>

definition AuxKey_serialize :: "HMAuxKey \<Rightarrow> raw option \<Rightarrow> u32 \<Rightarrow> buffer_error + (raw option \<times> u32)" where
  "AuxKey_serialize k buf sz =
     (let totalSize = of_nat (4 * 2 + length (ak_hostName k) + length (ak_sourceUrl k)) :: u32;
          byte = (\<lambda>n. Byte (char_of (n mod 256 :: nat)))
      in case buf of None \<Rightarrow> Inr (None, totalSize)
         | Some b \<Rightarrow>
             if sz < totalSize then Inr (buf, totalSize)
             else
               let payload = put_obj IPAddress_sizeof (StoredAddress (ak_address k))
                     @ put_name (ak_hostName k) @ put_name (ak_sourceUrl k)
               in if length b < 8 + length payload then Inl past_end
                  else Inr (Some (byte (length (ak_hostName k)) # take 3 (drop 1 b)
                         @ byte (length (ak_sourceUrl k)) # take 3 (drop 5 b)
                         @ payload @ drop (8 + length payload) b), totalSize))"

definition AuxKey_deserialize :: "raw option \<Rightarrow> u32 \<Rightarrow> buffer_error + HMAuxKey" where
  "AuxKey_deserialize buf sz =
     (case buf of None \<Rightarrow> Inl rejected
      | Some b \<Rightarrow>
          if unat sz < 2 * 4 then Inl rejected
          else case (take_chars 1 b, take_chars 1 (drop 4 b)) of
            (Inr (h, _), Inr (u, _)) \<Rightarrow>
              (let hostSize = char_u32 (hd h); sourceUrlSize = char_u32 (hd u)
               in if unat sz < 2 * 4 + IPAddress_sizeof + unat hostSize + unat sourceUrlSize
                  then Inl rejected
                  else case take_obj IPAddress_sizeof (drop 8 b) of Inl e \<Rightarrow> Inl e
                  | Inr (StoredAddress a, src) \<Rightarrow>
                      if hostSize = 0 then Inl out_of_range
                      else (case take_name (unat hostSize) src of Inl e \<Rightarrow> Inl e
                      | Inr (host, src) \<Rightarrow>
                          if sourceUrlSize = 0 then Inl out_of_range
                          else (case take_name (unat sourceUrlSize) src of Inl e \<Rightarrow> Inl e
                          | Inr (url, src) \<Rightarrow>
                              Inr \<lparr>ak_hostName = host, ak_sourceUrl = url, ak_address = a\<rparr>))
                  | Inr _ \<Rightarrow> Inl other_object)
          | (Inl e, _) \<Rightarrow> Inl e
          | (_, Inl e) \<Rightarrow> Inl e)"

section \<open>Cache\<close>

record HMAuxInfo =
  ai_auxData :: "HMAux list"
  ai_ts :: HMTimeStamp

definition AuxInfo_new :: HMAuxInfo where
  "AuxInfo_new = \<lparr>ai_auxData = [], ai_ts = 0\<rparr>"

text \<open>The copy and move constructors and assignments.\<close>

definition AuxInfo_copy :: "HMAuxInfo \<Rightarrow> HMAuxInfo" where
  "AuxInfo_copy k = \<lparr>ai_auxData = map Aux_clone (ai_auxData k), ai_ts = ai_ts k\<rparr>"

type_synonym HMAuxCache = "(HMAuxKey \<times> HMAuxInfo) list"

definition AuxCache_commitEntry :: "HMAuxKey \<Rightarrow> HMAuxInfo \<Rightarrow> HMAuxCache \<Rightarrow> HMAuxCache" where
  "AuxCache_commitEntry key auxInfo c =
     smap_insert AuxKey_less key (AuxInfo_copy auxInfo) (smap_erase AuxKey_less key c)"

type_synonym aux_parser = "string \<Rightarrow> string \<Rightarrow> HMIPAddress \<Rightarrow> string \<Rightarrow> HMAuxInfo \<times> bool"

text \<open>The only data type is \<open>HM_AUX_DATA_XML\<close>; \<open>xml\<close> says whether the parser was built in.\<close>

definition AuxCache_parseAuxData ::
    "bool \<Rightarrow> aux_parser \<Rightarrow> string \<Rightarrow> string \<Rightarrow> HMIPAddress \<Rightarrow> string \<Rightarrow> HMAuxInfo \<times> bool" where
  "AuxCache_parseAuxData xml parse hostname sourceURL address auxStr =
     (if xml then parse hostname sourceURL address auxStr else (AuxInfo_new, False))"

definition AuxCache_genAuxData ::
    "bool \<Rightarrow> (HMAuxInfo \<Rightarrow> u8 \<Rightarrow> string \<Rightarrow> string option) \<Rightarrow> HMAuxInfo \<Rightarrow> u8 \<Rightarrow> string \<Rightarrow> string option" where
  "AuxCache_genAuxData xml gen auxInfo type hostGroup = (if xml then gen auxInfo type hostGroup else None)"

definition AuxCache_storeAuxInfo_text ::
    "bool \<Rightarrow> aux_parser \<Rightarrow> string \<Rightarrow> string \<Rightarrow> HMIPAddress \<Rightarrow> string \<Rightarrow> HMAuxCache \<Rightarrow> HMAuxCache \<times> bool" where
  "AuxCache_storeAuxInfo_text xml parse hostname sourceURL address auxStr c =
     (case AuxCache_parseAuxData xml parse hostname sourceURL address auxStr of
        (auxInfo, True) \<Rightarrow>
          (AuxCache_commitEntry
             \<lparr>ak_hostName = hostname, ak_sourceUrl = sourceURL, ak_address = address\<rparr> auxInfo c, True)
      | (_, False) \<Rightarrow> (c, False))"

definition AuxCache_storeAuxInfo ::
    "string \<Rightarrow> string \<Rightarrow> HMIPAddress \<Rightarrow> HMAuxInfo \<Rightarrow> HMAuxCache \<Rightarrow> HMAuxCache \<times> bool" where
  "AuxCache_storeAuxInfo hostname sourceURL address auxInfo c =
     (AuxCache_commitEntry
        \<lparr>ak_hostName = hostname, ak_sourceUrl = sourceURL, ak_address = address\<rparr> auxInfo c, True)"

definition AuxCache_updateAuxInfo ::
    "string \<Rightarrow> string \<Rightarrow> HMIPAddress \<Rightarrow> HMAuxInfo \<Rightarrow> HMAuxCache \<Rightarrow> HMAuxCache \<times> bool" where
  "AuxCache_updateAuxInfo hostname sourceURL address auxInfo c =
     (let key = \<lparr>ak_hostName = hostname, ak_sourceUrl = sourceURL, ak_address = address\<rparr>
      in (smap_insert AuxKey_less key (AuxInfo_copy auxInfo) (smap_erase AuxKey_less key c), True))"

definition AuxCache_getAuxInfo ::
    "string \<Rightarrow> string \<Rightarrow> HMIPAddress \<Rightarrow> HMAuxCache \<Rightarrow> HMAuxInfo option" where
  "AuxCache_getAuxInfo hostname sourceURL address c =
     map_option AuxInfo_copy
       (smap_find AuxKey_less
          \<lparr>ak_hostName = hostname, ak_sourceUrl = sourceURL, ak_address = address\<rparr> c)"

section \<open>Lemmas\<close>

lemma clone_same [simp]: "LoadFB_clone a = a" "OOB_clone b = b"
  by (simp_all add: LoadFB_clone_def OOB_clone_def)

lemma Aux_clone_same [simp]: "Aux_clone a = a"
  by (cases a) simp_all

lemma AuxInfo_copy_same [simp]: "AuxInfo_copy k = k"
  by (simp add: AuxInfo_copy_def map_idI)

definition aux_key :: "HMAuxKey \<Rightarrow> string \<times> (u8 \<times> 32 word \<times> 128 word) \<times> string" where
  "aux_key k = (ak_hostName k, addr_key (ak_address k), ak_sourceUrl k)"

lemma aux_key_inj: "aux_key a = aux_key b \<longleftrightarrow> a = b"
  by (cases a; cases b) (auto simp: aux_key_def addr_key_inj)

lemma AuxKey_less_key [hm_orders]: "AuxKey_less a b \<longleftrightarrow> aux_key a < aux_key b"
  by (auto simp: AuxKey_less_def aux_key_def less_prod_def' IPAddress_less_key addr_key_inj)

interpretation aux_order: key_order AuxKey_less aux_key
  by unfold_locales (rule AuxKey_less_key)

lemma aux_equiv [simp]: "key_equiv AuxKey_less a b \<longleftrightarrow> a = b"
  by (simp add: aux_order.equiv_key aux_key_inj)

lemma commitEntry_find:
  "map_sorted AuxKey_less c \<Longrightarrow> smap_find AuxKey_less k (AuxCache_commitEntry key info c) =
     (if k = key then Some info else smap_find AuxKey_less k c)"
  by (simp add: AuxCache_commitEntry_def aux_order.find_insert_same aux_order.find_insert_other
      aux_order.find_erase_other map_sorted_erase)

lemma commitEntry_sorted:
  "map_sorted AuxKey_less c \<Longrightarrow> map_sorted AuxKey_less (AuxCache_commitEntry key info c)"
  by (simp add: AuxCache_commitEntry_def aux_order.map_sorted_insert map_sorted_erase)

lemma updateAuxInfo_commit:
  "AuxCache_updateAuxInfo hostname sourceURL address auxInfo c =
     AuxCache_storeAuxInfo hostname sourceURL address auxInfo c"
  by (simp add: AuxCache_updateAuxInfo_def AuxCache_storeAuxInfo_def AuxCache_commitEntry_def Let_def)

subsection \<open>Stored entries\<close>

text \<open>An entry is storable when its texts have no zero byte and its size fits in 32 bits, its time stamp
  is in the range of the clock and its type is that of its class.\<close>

fun Aux_storable :: "HMAux \<Rightarrow> bool" where
  "Aux_storable (AuxLoadFB a) \<longleftrightarrow>
     list_all clean [ab_host a, ab_resource a, lf_datacenter a] \<and> LoadFB_totalSize a < 2 ^ 32
     \<and> ts_ok (ab_ts a) \<and> ab_type a = HM_LOAD_FILE"
| "Aux_storable (AuxOOB a) \<longleftrightarrow>
     list_all clean [ab_host a, ab_resource a] \<and> OOB_totalSize a < 2 ^ 32
     \<and> ts_ok (ab_ts a) \<and> ab_type a = HM_OOB_FILE"

fun Aux_bytes :: "HMAux \<Rightarrow> raw" where
  "Aux_bytes (AuxLoadFB a) = LoadFB_bytes a"
| "Aux_bytes (AuxOOB a) = OOB_bytes a"

lemma take_text_put:
  assumes "clean s" and "length s < 2 ^ 32"
  shows "take_text (of_nat (length s)) (put_name s @ rest) = Inr (s, rest)"
proof (cases "s = []")
  case False
  then have "(0 :: u32) < of_nat (length s)"
    using unat_of_nat_u32 [OF assms(2)] by (metis length_0_conv unat_0 word_gt_0)
  then show ?thesis using assms by (simp add: take_text_def unat_of_nat_u32 buffer_simps)
qed (simp add: take_text_def put_name_def put_chars_def strncpy_bytes_def)

lemma LoadFB_deserialize_bytes:
  assumes "Aux_storable (AuxLoadFB a)" and "LoadFB_totalSize a \<le> unat sz"
  shows "LoadFB_internalDeserialize (LoadFB_bytes a @ rest) sz = Inr a"
  using assms
  by (simp add: LoadFB_internalDeserialize_def LoadFB_bytes_def buffer_simps LoadFB_sizeof_def
      LoadFB_totalSize_def take_text_put unat_of_nat_u32 ts_roundtrip)

lemma OOB_deserialize_bytes:
  assumes "Aux_storable (AuxOOB a)" and "OOB_totalSize a \<le> unat sz"
  shows "OOB_internalDeserialize (OOB_bytes a @ rest) sz = Inr a"
  using assms
  by (simp add: OOB_internalDeserialize_def OOB_bytes_def buffer_simps OOB_sizeof_def
      OOB_totalSize_def take_text_put unat_of_nat_u32 ts_roundtrip)

lemma length_Aux_bytes [simp]: "length (Aux_bytes a) = Aux_totalSize a"
  by (cases a)
    (simp_all add: LoadFB_bytes_def LoadFB_totalSize_def LoadFB_sizeof_def OOB_bytes_def OOB_totalSize_def
      OOB_sizeof_def)

lemma Aux_deserialize_bytes:
  assumes "Aux_storable a" and "Aux_totalSize a \<le> unat sz"
  shows "Aux_deserialize (Some (Aux_bytes a @ rest)) sz = Inr a"
proof -
  have pos: "\<not> sz < 1"
    using assms(2) by (cases a)
      (auto simp: LoadFB_totalSize_def LoadFB_sizeof_def OOB_totalSize_def OOB_sizeof_def word_less_nat_alt)
  show ?thesis
  proof (cases a)
    case (AuxLoadFB b)
    have "\<exists>x xs. LoadFB_bytes b @ rest = x # xs \<and> first_byte x = Some HM_LOAD_FILE"
      using assms(1) by (simp add: AuxLoadFB LoadFB_bytes_def put_obj_def)
    then show ?thesis
      using pos LoadFB_deserialize_bytes [of b sz rest] assms
      by (auto simp: Aux_deserialize_def AuxLoadFB HM_LOAD_FILE_def HM_OOB_FILE_def)
  next
    case (AuxOOB b)
    have "\<exists>x xs. OOB_bytes b @ rest = x # xs \<and> first_byte x = Some HM_OOB_FILE"
      using assms(1) by (simp add: AuxOOB OOB_bytes_def put_obj_def)
    then show ?thesis
      using pos OOB_deserialize_bytes [of b sz rest] assms by (auto simp: Aux_deserialize_def AuxOOB)
  qed
qed

lemma Aux_serialize_bytes:
  assumes "Aux_storable a"
  shows "Aux_serialize a None sz = (None, of_nat (Aux_totalSize a))"
    and "Aux_totalSize a \<le> unat sz \<Longrightarrow> Aux_serialize a (Some b) sz =
      (Some (Aux_bytes a @ drop (Aux_totalSize a) b), of_nat (Aux_totalSize a))"
  using assms
  by (cases a; simp add: LoadFB_serialize_def OOB_serialize_def Let_def word_less_nat_alt unat_of_nat_u32)+

section \<open>Properties\<close>

text \<open>
  An auxiliary entry that is stored in a buffer of the size that \<open>serialize\<close> asks for, or a larger
  one, is read back as the same entry, of the same class; the bytes behind it are left alone.
\<close>

theorem Aux_roundtrip:
  assumes "Aux_storable a" and "snd (Aux_serialize a None 0) \<le> sz"
  shows "\<exists>b'. Aux_serialize a (Some b) sz = (Some b', snd (Aux_serialize a None 0))
    \<and> Aux_deserialize (Some b') sz = Inr a
    \<and> drop (unat (snd (Aux_serialize a None 0))) b' = drop (unat (snd (Aux_serialize a None 0))) b"
proof -
  have small: "Aux_totalSize a < 2 ^ 32" using assms(1) by (cases a) simp_all
  have le: "Aux_totalSize a \<le> unat sz"
    using assms(2) small by (simp add: Aux_serialize_bytes(1) [OF assms(1)] word_le_nat_alt unat_of_nat_u32)
  show ?thesis
    using Aux_serialize_bytes [OF assms(1)] le Aux_deserialize_bytes [OF assms(1) le] small
    by (simp add: unat_of_nat_u32)
qed

text \<open>
  The stored form of a cache key cannot be used as it is documented. The size that \<open>serialize\<close> asks
  for does not count the address: with a buffer of that size it writes behind its end, and with a
  larger buffer \<open>deserialize\<close> refuses the size that \<open>serialize\<close> returned.
\<close>

theorem AuxKey_serialize_size_wrong:
  fixes k :: HMAuxKey
  defines "sz \<equiv> of_nat (8 + length (ak_hostName k) + length (ak_sourceUrl k))"
  assumes "length (ak_hostName k) < 128" and "length (ak_sourceUrl k) < 128"
  shows "AuxKey_serialize k None 0 = Inr (None, sz)
    \<and> (length b = unat sz \<longrightarrow> AuxKey_serialize k (Some b) sz = Inl past_end)
    \<and> (unat sz + IPAddress_sizeof \<le> length b \<longrightarrow>
        (\<exists>b'. AuxKey_serialize k (Some b) sz = Inr (Some b', sz)
          \<and> AuxKey_deserialize (Some b') sz = Inl rejected))"
proof -
  let ?n = "length (ak_hostName k)" and ?m = "length (ak_sourceUrl k)"
  have sz: "unat (sz :: u32) = 8 + ?n + ?m"
    using assms(2,3) unfolding sz_def by (intro unat_of_nat_u32) simp
  have len: "length (put_obj IPAddress_sizeof (StoredAddress (ak_address k))
      @ put_name (ak_hostName k) @ put_name (ak_sourceUrl k)) = IPAddress_sizeof + ?n + ?m"
    by (simp add: IPAddress_sizeof_def)
  have total: "of_nat (4 * 2 + ?n + ?m) = sz" by (simp add: sz_def)
  have size: "AuxKey_serialize k None 0 = Inr (None, sz)" by (simp add: AuxKey_serialize_def sz_def)
  have small: "AuxKey_serialize k (Some b) sz = Inl past_end" if "length b = unat sz"
    using that sz unfolding AuxKey_serialize_def Let_def total by (simp add: IPAddress_sizeof_def)
  have large: "\<exists>b'. AuxKey_serialize k (Some b) sz = Inr (Some b', sz)
      \<and> AuxKey_deserialize (Some b') sz = Inl rejected" if room: "unat sz + IPAddress_sizeof \<le> length b"
  proof -
    let ?byte = "\<lambda>n. Byte (char_of (n mod 256 :: nat)) :: stored cell"
    obtain r where r: "AuxKey_serialize k (Some b) sz =
        Inr (Some (?byte ?n # take 3 (drop 1 b) @ ?byte ?m # r), sz)"
      using room sz len unfolding AuxKey_serialize_def Let_def total by simp
    have three: "length (take 3 (drop 1 b)) = 3" using room by (simp add: IPAddress_sizeof_def)
    show ?thesis
      using assms(2,3) sz three char_u32_small
      by (simp add: r AuxKey_deserialize_def take_chars_def IPAddress_sizeof_def Let_def)
  qed
  show ?thesis using size small large by blast
qed

text \<open>
  The cache is a map from host, source and address to auxiliary data. Storing and updating, by text
  or by value, replace the entry of the key and touch no other; a text that does not parse changes
  nothing and is reported.
\<close>

theorem AuxCache_stores:
  assumes "map_sorted AuxKey_less c"
  shows "AuxCache_getAuxInfo h u a (fst (AuxCache_storeAuxInfo host url addr info c)) =
      (if (h, u, a) = (host, url, addr) then Some info else AuxCache_getAuxInfo h u a c)
    \<and> fst (AuxCache_updateAuxInfo host url addr info c) = fst (AuxCache_storeAuxInfo host url addr info c)
    \<and> AuxCache_storeAuxInfo_text xml parse host url addr text c =
        (case parse host url addr text of
           (info, ok) \<Rightarrow> if xml \<and> ok then AuxCache_storeAuxInfo host url addr info c else (c, False))
    \<and> map_sorted AuxKey_less (fst (AuxCache_storeAuxInfo host url addr info c))"
proof -
  have "AuxCache_storeAuxInfo_text xml parse host url addr text c =
      (case parse host url addr text of
         (info, ok) \<Rightarrow> if xml \<and> ok then AuxCache_storeAuxInfo host url addr info c else (c, False))"
    by (auto simp: AuxCache_storeAuxInfo_text_def AuxCache_parseAuxData_def AuxCache_storeAuxInfo_def
        split: prod.split bool.split)
  then show ?thesis
    using assms
    by (simp add: AuxCache_getAuxInfo_def AuxCache_storeAuxInfo_def commitEntry_find commitEntry_sorted
        updateAuxInfo_commit)
qed

section \<open>Witnesses\<close>

definition sample_oob :: HMAux where
  "sample_oob = AuxOOB \<lparr>ab_type = HM_OOB_FILE, ab_host = ''h'', ab_resource = ''r'',
     ab_ip = INET 0x7F000001, ab_ts = 1000, oo_forceDown = 1, oo_shed = 30\<rparr>"

lemma Aux_roundtrip_witness:
  "\<exists>b'. Aux_serialize sample_oob (Some (replicate 60 Rest)) 60 = (Some b', 50)
     \<and> Aux_deserialize (Some b') 60 = Inr sample_oob"
proof -
  have "Aux_storable sample_oob" "snd (Aux_serialize sample_oob None 0) = 50"
    by (simp_all add: sample_oob_def clean_def OOB_totalSize_def OOB_sizeof_def ts_ok_def OOB_serialize_def)
  then show ?thesis using Aux_roundtrip [of sample_oob 60 "replicate 60 Rest"] by auto
qed

definition sample_aux_key :: HMAuxKey where
  "sample_aux_key = \<lparr>ak_hostName = ''h'', ak_sourceUrl = ''/status'', ak_address = INET 0x7F000001\<rparr>"

lemma AuxKey_serialize_size_wrong_witness:
  "AuxKey_serialize sample_aux_key (Some (replicate 16 Rest)) 16 = Inl past_end
   \<and> (\<exists>b'. AuxKey_serialize sample_aux_key (Some (replicate 36 Rest)) 16 = Inr (Some b', 16)
        \<and> AuxKey_deserialize (Some b') 16 = Inl rejected)"
  using AuxKey_serialize_size_wrong [of sample_aux_key "replicate 16 Rest"]
    AuxKey_serialize_size_wrong [of sample_aux_key "replicate 36 Rest"]
  by (simp add: sample_aux_key_def IPAddress_sizeof_def)

lemma AuxCache_stores_witness:
  "AuxCache_getAuxInfo ''h'' ''/status'' (INET 1)
     (fst (AuxCache_storeAuxInfo ''h'' ''/status'' (INET 1) \<lparr>ai_auxData = [sample_oob], ai_ts = 5\<rparr> [])) =
   Some \<lparr>ai_auxData = [sample_oob], ai_ts = 5\<rparr>"
  using AuxCache_stores [of "[]"] by simp

end
