(* ===== verification/HM_StorageMDBM.thy ===== *)
theory HM_StorageMDBM
  imports HM_AuxCache HM_State
begin

text \<open>
  The data store of the daemon: the record of \<open>HMStorage\<close> and \<open>HMStorageHostGroup\<close> (\<open>HMStorage.h\<close>,
  \<open>HMStorageHostGroup.h\<close>) and the class \<open>HMStorageHostGroupMDBM\<close> that reads and writes it to an MDBM file
  (\<open>storage_mdbm/HMStorageHostGroupMDBM.cpp\<close>). A field \<open>m_x\<close> of the store is \<open>sg_x\<close>.

  MDBM is a library outside the repository: the record \<open>mdbm\<close> holds its calls over a database of any
  type, and \<open>mdbm_ok\<close> is what its documentation promises. A value of the database is the string that
  the code hands over: raw bytes (\<open>HM_Buffer\<close>), a host group as \<open>HMDataHostGroup::serialize\<close> lays it out, or
  the configuration info. The connection pool is not modelled; \<open>md_acquire\<close> says whether a handle is
  to be had.
\<close>

section \<open>State of the store\<close>

datatype HM_STORAGE_LOCK_POLICY =
  HM_STORAGE_GLOBAL_LOCKS | HM_STORAGE_RW_LOCKS | HM_STORAGE_PARTITION_LOCKS

record HMGroupCheckResult =
  gr_hostName :: string
  gr_address :: HMIPAddress
  gr_backendStale :: bool
  gr_commitTime :: HMTimeStamp
  gr_result :: HMDataCheckResult

record HMGroupCheckUpdate =
  gu_hostGroup :: string
  gu_hostName :: string
  gu_address :: HMIPAddress
  gu_result :: HMDataCheckResult

record HMGroupAuxResult =
  ga_hostName :: string
  ga_address :: HMIPAddress
  ga_backendStale :: bool
  ga_commitTime :: HMTimeStamp
  ga_info :: HMAuxInfo

record HMGroupAuxUpdate =
  gx_hostGroup :: string
  gx_hostName :: string
  gx_address :: HMIPAddress
  gx_info :: HMAuxInfo

definition GroupCheckResult_new ::
    "HMTimeStamp \<Rightarrow> string \<Rightarrow> HMIPAddress \<Rightarrow> HMDataCheckResult \<Rightarrow> HMGroupCheckResult" where
  "GroupCheckResult_new now hostName address result =
     \<lparr>gr_hostName = hostName, gr_address = address, gr_backendStale = False, gr_commitTime = now,
      gr_result = result\<rparr>"

definition GroupCheckResult_default :: HMGroupCheckResult where
  "GroupCheckResult_default =
     \<lparr>gr_hostName = [], gr_address = UNSPEC, gr_backendStale = False, gr_commitTime = 0,
      gr_result = CheckResult_default\<rparr>"

definition GroupAuxResult_new ::
    "HMTimeStamp \<Rightarrow> string \<Rightarrow> HMIPAddress \<Rightarrow> HMAuxInfo \<Rightarrow> HMGroupAuxResult" where
  "GroupAuxResult_new now hostName address info =
     \<lparr>ga_hostName = hostName, ga_address = address, ga_backendStale = False, ga_commitTime = now,
      ga_info = AuxInfo_copy info\<rparr>"

definition GroupAuxResult_default :: HMGroupAuxResult where
  "GroupAuxResult_default =
     \<lparr>ga_hostName = [], ga_address = UNSPEC, ga_backendStale = False, ga_commitTime = 0,
      ga_info = AuxInfo_new\<rparr>"

record HMHash =
  ha_hashValue :: string
  ha_hashSize :: u32

record HMConfigInfo =
  ci_version :: u8
  ci_configStatus :: u8
  ci_configLoadTime :: HMTimeStamp
  ci_hash :: HMHash

record ConfigInfo_SerStruct =
  cis_version :: u8
  cis_configStatus :: u8
  cis_configLoadTime :: u64
  cis_hashSize :: u32
  cis_value :: string

definition ConfigInfo_sizeof :: u32 where "ConfigInfo_sizeof = 88"

definition ConfigInfo_serialize ::
    "HMConfigInfo \<Rightarrow> ConfigInfo_SerStruct option \<Rightarrow> u32 \<Rightarrow> ConfigInfo_SerStruct option \<times> u32" where
  "ConfigInfo_serialize c buf sz =
     (if buf = None \<or> sz < ConfigInfo_sizeof then (buf, ConfigInfo_sizeof)
      else (Some \<lparr>cis_version = ci_version c, cis_configStatus = ci_configStatus c,
              cis_configLoadTime = ts_getTimeSinceEpoch (ci_configLoadTime c),
              cis_hashSize = ha_hashSize (ci_hash c), cis_value = ha_hashValue (ci_hash c)\<rparr>,
            ConfigInfo_sizeof))"

definition ConfigInfo_deserialize ::
    "HMConfigInfo \<Rightarrow> ConfigInfo_SerStruct option \<Rightarrow> u32 \<Rightarrow> HMConfigInfo \<times> bool" where
  "ConfigInfo_deserialize c buf sz =
     (case buf of None \<Rightarrow> (c, False)
      | Some p \<Rightarrow>
          if sz < ConfigInfo_sizeof then (c, False)
          else (\<lparr>ci_version = cis_version p, ci_configStatus = cis_configStatus p,
                 ci_configLoadTime = ts_setTime (cis_configLoadTime p),
                 ci_hash = \<lparr>ha_hashValue = cis_value p, ha_hashSize = cis_hashSize p\<rparr>\<rparr>, True))"

text \<open>The store. \<open>sg_hostGroupMap\<close> and \<open>sg_dnsCache\<close> are what its two pointers refer to, \<open>sg_thread\<close> says
  whether the commit thread was started, and \<open>sg_db\<close> is the database behind the pool.\<close>

record 'db HMStorage =
  sg_shutdown :: bool
  sg_readonly :: bool
  sg_thread :: bool
  sg_auxCommitPolicy :: HM_STORAGE_COMMIT_POLICY
  sg_healthCheckCommitPolicy :: HM_STORAGE_COMMIT_POLICY
  sg_lockPolicy :: HM_STORAGE_LOCK_POLICY
  sg_hostGroupMap :: HMDataHostGroupMap
  sg_dnsCache :: HMDNSCache
  sg_hostGroupResults :: "(string \<times> HMGroupCheckResult) list"
  sg_storeCheckQueue :: "HMGroupCheckUpdate list"
  sg_hostGroupAux :: "(string \<times> HMGroupAuxResult) list"
  sg_storeAuxQueue :: "HMGroupAuxUpdate list"
  sg_db :: 'db

definition Storage_new :: "HMDataHostGroupMap \<Rightarrow> HMDNSCache \<Rightarrow> 'db \<Rightarrow> 'db HMStorage" where
  "Storage_new hostGroupMap dnsCache db =
     \<lparr>sg_shutdown = True, sg_readonly = False, sg_thread = False,
      sg_auxCommitPolicy = HM_STORAGE_COMMIT_ALWAYS, sg_healthCheckCommitPolicy = HM_STORAGE_COMMIT_ALWAYS,
      sg_lockPolicy = HM_STORAGE_RW_LOCKS, sg_hostGroupMap = hostGroupMap, sg_dnsCache = dnsCache,
      sg_hostGroupResults = [], sg_storeCheckQueue = [], sg_hostGroupAux = [], sg_storeAuxQueue = [],
      sg_db = db\<rparr>"

section \<open>MDBM\<close>

datatype mdbm_value =
    RawValue raw
  | GroupValue hg_buffer u32
  | ConfigValue ConfigInfo_SerStruct u32

datatype lock_call = CallLock | CallLockShared | CallPLock string

record 'db mdbm =
  md_acquire :: "'db \<Rightarrow> bool"
  md_lock :: "lock_call \<Rightarrow> 'db \<Rightarrow> bool"
  md_unlock :: "lock_call \<Rightarrow> 'db \<Rightarrow> bool"
  md_store :: "string \<Rightarrow> mdbm_value \<Rightarrow> 'db \<Rightarrow> 'db \<times> int"
  md_fetch :: "string \<Rightarrow> 'db \<Rightarrow> mdbm_value option"
  md_delete :: "string \<Rightarrow> 'db \<Rightarrow> 'db"
  md_keys :: "'db \<Rightarrow> string list"

text \<open>What the documentation of MDBM promises of a database that works: handles and locks are given, a
  value that is stored under a key, which is not empty, replaces the one before and is what a fetch of
  the key returns, a deleted key is not found, and the iteration visits every key that has a value.\<close>

definition mdbm_ok :: "'db mdbm \<Rightarrow> bool" where
  "mdbm_ok lib \<longleftrightarrow>
     (\<forall>db. md_acquire lib db) \<and> (\<forall>c db. md_lock lib c db \<and> md_unlock lib c db)
     \<and> (\<forall>k v db. k \<noteq> [] \<longrightarrow> 0 \<le> snd (md_store lib k v db))
     \<and> (\<forall>k v db k'. k \<noteq> [] \<longrightarrow> md_fetch lib k' (fst (md_store lib k v db)) =
          (if k' = k then Some v else md_fetch lib k' db))
     \<and> (\<forall>k db k'. md_fetch lib k' (md_delete lib k db) = (if k' = k then None else md_fetch lib k' db))
     \<and> (\<forall>db k. md_fetch lib k db \<noteq> None \<longrightarrow> k \<in> set (md_keys lib db)) \<and> (\<forall>db. [] \<notin> set (md_keys lib db))"

subsection \<open>\<open>MDBMHandle\<close>\<close>

fun lock_of :: "HM_STORAGE_LOCK_POLICY \<Rightarrow> bool \<Rightarrow> string \<Rightarrow> lock_call" where
  "lock_of HM_STORAGE_GLOBAL_LOCKS readOnly key = CallLock"
| "lock_of HM_STORAGE_RW_LOCKS readOnly key = (if readOnly then CallLockShared else CallLock)"
| "lock_of HM_STORAGE_PARTITION_LOCKS readOnly key = CallPLock key"

fun unlock_of :: "HM_STORAGE_LOCK_POLICY \<Rightarrow> string \<Rightarrow> lock_call" where
  "unlock_of HM_STORAGE_PARTITION_LOCKS key = CallPLock key"
| "unlock_of _ key = CallLock"

definition Handle_store ::
    "'db mdbm \<Rightarrow> HM_STORAGE_LOCK_POLICY \<Rightarrow> string \<Rightarrow> mdbm_value \<Rightarrow> 'db \<Rightarrow> 'db \<times> bool" where
  "Handle_store lib scheme key val db =
     (if \<not> md_lock lib (lock_of scheme False key) db then (db, False)
      else let (db, ret) = md_store lib key val db
           in if ret < 0 then (db, False) else (db, md_unlock lib (unlock_of scheme key) db))"

definition Handle_fetch ::
    "'db mdbm \<Rightarrow> HM_STORAGE_LOCK_POLICY \<Rightarrow> string \<Rightarrow> 'db \<Rightarrow> mdbm_value option" where
  "Handle_fetch lib scheme key db =
     (if \<not> md_lock lib (lock_of scheme True key) db then None else md_fetch lib key db)"

definition Handle_remove :: "'db mdbm \<Rightarrow> HM_STORAGE_LOCK_POLICY \<Rightarrow> string \<Rightarrow> 'db \<Rightarrow> 'db \<times> bool" where
  "Handle_remove lib scheme key db =
     (if \<not> md_lock lib (lock_of scheme False key) db then (db, False)
      else let db = md_delete lib key db in (db, md_unlock lib (unlock_of scheme key) db))"

text \<open>The key of a handle is empty until it is set; the iteration ends at a key of size zero.\<close>

definition Handle_clear :: "'db mdbm \<Rightarrow> HM_STORAGE_LOCK_POLICY \<Rightarrow> 'db \<Rightarrow> 'db \<times> bool" where
  "Handle_clear lib scheme db =
     (if \<not> md_lock lib (lock_of scheme False []) db then (db, False)
      else let db = fold (md_delete lib) (takeWhile (\<lambda>k. k \<noteq> []) (md_keys lib db)) db
           in (db, md_unlock lib (unlock_of scheme []) db))"

section \<open>Keys\<close>

definition HM_MDBM_CONFIG :: string where "HM_MDBM_CONFIG = ''hm:config''"
definition HM_MDBM_GROUP_NAMES :: string where "HM_MDBM_GROUP_NAMES = ''hm:groups''"
definition HM_MDBM_GROUP_PREFIX :: string where "HM_MDBM_GROUP_PREFIX = ''hm:group:''"
definition HM_MDBM_CHECK_PREFIX :: string where "HM_MDBM_CHECK_PREFIX = ''hm:check:''"
definition HM_MDBM_AUX_PREFIX :: string where "HM_MDBM_AUX_PREFIX = ''hm:aux:''"

text \<open>The guards in front of every write and every read.\<close>

definition mdbm_write ::
    "'db mdbm \<Rightarrow> ('db \<Rightarrow> 'db \<times> bool) \<Rightarrow> 'db HMStorage \<Rightarrow> 'db HMStorage \<times> bool" where
  "mdbm_write lib f s =
     (if sg_readonly s \<or> sg_shutdown s \<or> \<not> md_acquire lib (sg_db s) then (s, False)
      else let (db, ok) = f (sg_db s) in (s\<lparr>sg_db := db\<rparr>, ok))"

definition mdbm_read :: "'db mdbm \<Rightarrow> string \<Rightarrow> 'db HMStorage \<Rightarrow> mdbm_value option" where
  "mdbm_read lib key s =
     (if sg_shutdown s \<or> \<not> md_acquire lib (sg_db s) then None
      else Handle_fetch lib (sg_lockPolicy s) key (sg_db s))"

section \<open>Configuration\<close>

definition MDBM_clearBackend :: "'db mdbm \<Rightarrow> 'db HMStorage \<Rightarrow> 'db HMStorage \<times> bool" where
  "MDBM_clearBackend lib s = mdbm_write lib (Handle_clear lib (sg_lockPolicy s)) s"

definition ConfigInfo_blank :: ConfigInfo_SerStruct where
  "ConfigInfo_blank =
     \<lparr>cis_version = 0, cis_configStatus = 0, cis_configLoadTime = 0, cis_hashSize = 0,
      cis_value = replicate 64 (CHR 0x00)\<rparr>"

definition MDBM_storeConfigInfo :: "'db mdbm \<Rightarrow> HMConfigInfo \<Rightarrow> 'db HMStorage \<Rightarrow> 'db HMStorage \<times> bool" where
  "MDBM_storeConfigInfo lib configInfo s =
     mdbm_write lib
       (\<lambda>db.
          let sz = snd (ConfigInfo_serialize configInfo None 0);
              (data, written) = ConfigInfo_serialize configInfo (Some ConfigInfo_blank) sz
          in case data of None \<Rightarrow> (db, False)
             | Some p \<Rightarrow>
                 if written \<noteq> sz then (db, False)
                 else Handle_store lib (sg_lockPolicy s) HM_MDBM_CONFIG (ConfigValue p sz) db) s"

definition MDBM_getConfigInfo ::
    "'db mdbm \<Rightarrow> HMConfigInfo \<Rightarrow> 'db HMStorage \<Rightarrow> buffer_error + (HMConfigInfo \<times> bool)" where
  "MDBM_getConfigInfo lib configInfo s =
     (case mdbm_read lib HM_MDBM_CONFIG s of None \<Rightarrow> Inr (configInfo, False)
      | Some (ConfigValue p sz) \<Rightarrow> Inr (ConfigInfo_deserialize configInfo (Some p) sz)
      | Some _ \<Rightarrow> Inl other_object)"

text \<open>The names of the groups: a set, here the sorted list of its elements.\<close>

definition MDBM_storeHostGroupNames ::
    "'db mdbm \<Rightarrow> string list \<Rightarrow> 'db HMStorage \<Rightarrow> buffer_error + ('db HMStorage \<times> bool)" where
  "MDBM_storeHostGroupNames lib groupNames s =
     (if sg_readonly s \<or> sg_shutdown s \<or> \<not> md_acquire lib (sg_db s) then Inr (s, False)
      else if [] \<in> set groupNames then Inl out_of_range
      else Inr (mdbm_write lib (Handle_store lib (sg_lockPolicy s) HM_MDBM_GROUP_NAMES
             (RawValue (put_u32 (of_nat (length groupNames)) @ concat (map put_sized_name groupNames)))) s))"

text \<open>The loop; the set as it is when the function returns, and its result.\<close>

fun names_loop :: "nat \<Rightarrow> raw \<Rightarrow> string list \<Rightarrow> buffer_error + (string list \<times> bool)" where
  "names_loop 0 src names = Inr (names, True)"
| "names_loop (Suc n) src names =
     (case take_sized_name src of
        Inl rejected \<Rightarrow> Inr (names, False)
      | Inl e \<Rightarrow> Inl e
      | Inr (temp, src) \<Rightarrow> names_loop n src (insort_insert temp names))"

definition MDBM_getHostGroupNames ::
    "'db mdbm \<Rightarrow> string list \<Rightarrow> 'db HMStorage \<Rightarrow> buffer_error + (string list \<times> bool)" where
  "MDBM_getHostGroupNames lib groupNames s =
     (case mdbm_read lib HM_MDBM_GROUP_NAMES s of None \<Rightarrow> Inr (groupNames, False)
      | Some (RawValue b) \<Rightarrow>
          (case take_u32 b of Inl e \<Rightarrow> Inl e | Inr (n, src) \<Rightarrow> names_loop (unat n) src [])
      | Some _ \<Rightarrow> Inl other_object)"

definition HostGroup_blank :: HostGroup_SerStruct where
  "HostGroup_blank =
     \<lparr>hgs_measurementOptions = 0, hgs_dualstack = 0, hgs_checkType = 0, hgs_port = 0,
      hgs_numCheckRetries = 0, hgs_checkRetryDelay = 0, hgs_smoothingWindow = 0,
      hgs_groupThreshold = 0, hgs_slowThreshold = 0, hgs_maxFlaps = 0, hgs_checkTimeout = 0,
      hgs_checkTTL = 0, hgs_flapThreshold = 0, hgs_passthroughInfo = 0, hgs_distributedFallback = 0,
      hgs_groupNameSize = 0, hgs_checkInfoSize = 0, hgs_numHosts = 0, hgs_remoteCheckSize = 0,
      hgs_totalHostSize = 0, hgs_numHostGroups = 0, hgs_totalHostGroupSize = 0,
      hgs_sourceAddress = UNSPEC, hgs_TOSValue = 0, hgs_DNSCheckPlugin = 0, hgs_flowType = 0\<rparr>"

definition MDBM_storeGroupInfo ::
    "'db mdbm \<Rightarrow> string \<Rightarrow> HMDataHostGroup \<Rightarrow> 'db HMStorage \<Rightarrow> 'db HMStorage \<times> bool" where
  "MDBM_storeGroupInfo lib hostGroupName hostGroup s =
     mdbm_write lib
       (\<lambda>db.
          let sz = snd (HostGroup_serialize hostGroup None 0);
              (data, written) = HostGroup_serialize hostGroup
                 (Some (HostGroup_blank, replicate (unat sz - HostGroup_sizeof) (CHR 0x00))) sz
          in case data of None \<Rightarrow> (db, False)
             | Some b \<Rightarrow>
                 if written \<noteq> sz then (db, False)
                 else Handle_store lib (sg_lockPolicy s) (HM_MDBM_GROUP_PREFIX @ hostGroupName)
                        (GroupValue b sz) db) s"

fun deser_of :: "deser_error \<Rightarrow> buffer_error" where
  "deser_of at_out_of_range = out_of_range"
| "deser_of read_past_end = past_end"
| "deser_of no_enumerator = other_object"

text \<open>The result of the fetch is not looked at; without the lock the pointer was never set.\<close>

definition MDBM_getGroupInfo ::
    "'db mdbm \<Rightarrow> string \<Rightarrow> HMDataHostGroup \<Rightarrow> 'db HMStorage \<Rightarrow> buffer_error + (HMDataHostGroup \<times> bool)"
  where
  "MDBM_getGroupInfo lib hostGroupName hostGroup s =
     (let key = HM_MDBM_GROUP_PREFIX @ hostGroupName
      in if sg_shutdown s \<or> \<not> md_acquire lib (sg_db s) then Inr (hostGroup, False)
         else if \<not> md_lock lib (lock_of (sg_lockPolicy s) True key) (sg_db s) then Inl other_object
         else case md_fetch lib key (sg_db s) of
             None \<Rightarrow> map_sum deser_of id (HostGroup_deserialize hostGroup None 0)
           | Some (GroupValue b sz) \<Rightarrow> map_sum deser_of id (HostGroup_deserialize hostGroup (Some b) sz)
           | Some _ \<Rightarrow> Inl other_object)"

definition MDBM_removeGroupInfo :: "'db mdbm \<Rightarrow> string \<Rightarrow> 'db HMStorage \<Rightarrow> 'db HMStorage \<times> bool" where
  "MDBM_removeGroupInfo lib hostGroupName s =
     mdbm_write lib (Handle_remove lib (sg_lockPolicy s) (HM_MDBM_GROUP_PREFIX @ hostGroupName)) s"

section \<open>Check results of a group\<close>

definition CheckResult_blank :: CheckResult_SerStruct where
  "CheckResult_blank =
     \<lparr>crs_address = UNSPEC, crs_start = 0, crs_end = 0, crs_responseTime = 0, crs_totalResponseTime = 0,
      crs_minResponseTime = 0, crs_maxResponseTime = 0, crs_smoothedResponseTime = 0,
      crs_sumResponseTime = 0, crs_numChecks = 0, crs_numResponses = 0, crs_numConnectFailures = 0,
      crs_numFailures = 0, crs_numTimeouts = 0, crs_numFlaps = 0, crs_status = 0, crs_response = 0,
      crs_reason = 0, crs_softReason = 0, crs_numFailedChecks = 0, crs_numSlowResponses = 0,
      crs_port = 0, crs_changeTime = 0, crs_prevTime = 0, crs_forceHostDown = False,
      crs_queueCheckTime = 0, crs_checkTime = 0, crs_remoteCheckTime = 0\<rparr>"

definition result_struct :: "HMDataCheckResult \<Rightarrow> CheckResult_SerStruct" where
  "result_struct r =
     (case fst (CheckResult_serialize r (Some CheckResult_blank) CheckResult_sizeof) of
        None \<Rightarrow> CheckResult_blank | Some p \<Rightarrow> p)"

text \<open>One record: the size of the host name, the host name, the address, the result.\<close>

definition put_check :: "HMGroupCheckResult \<Rightarrow> raw" where
  "put_check g =
     put_u32 (of_nat (length (gr_hostName g))) @ put_name (gr_hostName g)
     @ put_obj IPAddress_sizeof (StoredAddress (gr_address g))
     @ put_obj (unat CheckResult_sizeof) (StoredResult (result_struct (gr_result g)))"

definition group_results :: "string \<Rightarrow> (string \<times> 'r) list \<Rightarrow> 'r list" where
  "group_results name m = map snd (equal_range (<) name m)"

text \<open>
  The total size is a \<open>uint32_t\<close>: records of more than four gigabytes would be written behind the end of
  the string. An empty host name ends the function.
\<close>

definition MDBM_storeHostGroupCheckResults ::
    "'db mdbm \<Rightarrow> string \<Rightarrow> 'db HMStorage \<Rightarrow> buffer_error + ('db HMStorage \<times> bool)" where
  "MDBM_storeHostGroupCheckResults lib hostGroupName s =
     (if sg_readonly s \<or> sg_shutdown s then Inr (s, False)
      else
        let entries = group_results hostGroupName (sg_hostGroupResults s);
            records = concat (map put_check entries);
            total = 2 * 4 + length records
        in if 2 ^ 32 \<le> total then Inl past_end
           else if \<exists>g \<in> set entries. gr_hostName g = [] then Inr (s, False)
           else Inr (mdbm_write lib (Handle_store lib (sg_lockPolicy s) (HM_MDBM_CHECK_PREFIX @ hostGroupName)
                  (RawValue (put_u32 (of_nat total) @ put_u32 (of_nat (length entries)) @ records))) s))"

text \<open>
  Reading the host name of a record. \<open>stringsize\<close> is the four byte size; the string is made
  \<open>resize(*src)\<close> characters long, that is, as long as the first byte of the size says as a signed
  character: a negative number is a length that the library refuses, zero makes \<open>at(0)\<close> throw, and a
  number smaller than the size lets \<open>strncpy\<close> write behind the end of the string.
\<close>

definition take_hostName :: "nat \<Rightarrow> raw \<Rightarrow> buffer_error + (string \<times> raw)" where
  "take_hostName extra src =
     (case take_u32 src of Inl e \<Rightarrow> Inl e
      | Inr (stringsize, rest) \<Rightarrow>
          if length rest < unat stringsize + extra then Inl rejected
          else
            (let first = unat stringsize mod 256
             in if 128 \<le> first then Inl length_error
                else if first = 0 then Inl out_of_range
                else if first < unat stringsize then Inl past_end
                else take_name (unat stringsize) rest))"

text \<open>The loop over the records: what the vector holds when the function returns, and its result. The
  entries that were not reached are as \<open>resize\<close> made them.\<close>

fun checks_loop :: "nat \<Rightarrow> raw \<Rightarrow> buffer_error + (HMGroupCheckResult list \<times> bool)" where
  "checks_loop 0 src = Inr ([], True)"
| "checks_loop (Suc n) src =
     (case take_hostName IPAddress_sizeof src of
        Inl rejected \<Rightarrow> Inr (replicate (Suc n) GroupCheckResult_default, False)
      | Inl e \<Rightarrow> Inl e
      | Inr (host, src) \<Rightarrow>
          (case take_obj IPAddress_sizeof src of Inl e \<Rightarrow> Inl e
           | Inr (StoredAddress a, src) \<Rightarrow>
               (let g = GroupCheckResult_default\<lparr>gr_hostName := host, gr_address := a\<rparr>
                in if length src < unat CheckResult_sizeof
                   then Inr (g # replicate n GroupCheckResult_default, False)
                   else case take_obj (unat CheckResult_sizeof) src of Inl e \<Rightarrow> Inl e
                   | Inr (StoredResult p, rest) \<Rightarrow>
                       (let g = g\<lparr>gr_result :=
                              fst (CheckResult_deserialize (gr_result g) (Some p) (of_nat (length src)))\<rparr>
                        in case checks_loop n rest of Inl e \<Rightarrow> Inl e
                           | Inr (gs, ok) \<Rightarrow> Inr (g # gs, ok))
                   | Inr _ \<Rightarrow> Inl other_object)
           | Inr _ \<Rightarrow> Inl other_object))"

text \<open>The vector overload; \<open>results\<close> is the argument. The number of entries is read into an \<open>int32_t\<close>.\<close>

definition MDBM_getHostGroupCheckResults_vector ::
    "'db mdbm \<Rightarrow> string \<Rightarrow> HMGroupCheckResult list \<Rightarrow> 'db HMStorage \<Rightarrow>
     buffer_error + (HMGroupCheckResult list \<times> bool)" where
  "MDBM_getHostGroupCheckResults_vector lib hostGroupName results s =
     (case mdbm_read lib (HM_MDBM_CHECK_PREFIX @ hostGroupName) s of None \<Rightarrow> Inr (results, False)
      | Some (RawValue b) \<Rightarrow>
          if length b < 4 then Inr (results, False)
          else (case take_u32 b of Inl e \<Rightarrow> Inl e
          | Inr (sz, src) \<Rightarrow>
              if int (length b) < sint sz then Inr (results, False)
              else (case take_u32 src of Inl e \<Rightarrow> Inl e
              | Inr (entries, _) \<Rightarrow>
                  if sint entries < 0 then Inl length_error
                  else checks_loop (unat entries) (drop 8 (take (unat sz) b))))
      | Some _ \<Rightarrow> Inl other_object)"

text \<open>The overload that fills the cache.\<close>

definition replace_group :: "string \<Rightarrow> 'r list \<Rightarrow> (string \<times> 'r) list \<Rightarrow> (string \<times> 'r) list" where
  "replace_group name rs m = fold (mmap_insert (<) name) rs (smap_erase (<) name m)"

definition MDBM_getHostGroupCheckResults ::
    "'db mdbm \<Rightarrow> string \<Rightarrow> 'db HMStorage \<Rightarrow> buffer_error + ('db HMStorage \<times> bool)" where
  "MDBM_getHostGroupCheckResults lib hostGroupName s =
     (case MDBM_getHostGroupCheckResults_vector lib hostGroupName [] s of Inl e \<Rightarrow> Inl e
      | Inr (results, False) \<Rightarrow> Inr (s, False)
      | Inr (results, True) \<Rightarrow>
          if group_find hostGroupName (sg_hostGroupMap s) = None then Inr (s, False)
          else Inr (s\<lparr>sg_hostGroupResults :=
                      replace_group hostGroupName results (sg_hostGroupResults s)\<rparr>, True))"

definition MDBM_removeHostGroupCheckResults :: "'db mdbm \<Rightarrow> string \<Rightarrow> 'db HMStorage \<Rightarrow> 'db HMStorage \<times> bool"
  where
  "MDBM_removeHostGroupCheckResults lib hostGroupName s =
     mdbm_write lib (Handle_remove lib (sg_lockPolicy s) (HM_MDBM_CHECK_PREFIX @ hostGroupName)) s"

section \<open>Auxiliary data of a group\<close>

text \<open>One record: the size of the host name, the host name, the address, the update time, the number of
  entries, the entries.\<close>

definition put_aux :: "HMGroupAuxResult \<Rightarrow> raw" where
  "put_aux g =
     put_u32 (of_nat (length (ga_hostName g))) @ put_name (ga_hostName g)
     @ put_obj IPAddress_sizeof (StoredAddress (ga_address g))
     @ put_u64 (ts_getTimeSinceEpoch (ai_ts (ga_info g)))
     @ put_u32 (of_nat (length (ai_auxData (ga_info g)))) @ concat (map Aux_bytes (ai_auxData (ga_info g)))"

definition MDBM_storeHostGroupAuxInfo ::
    "'db mdbm \<Rightarrow> string \<Rightarrow> 'db HMStorage \<Rightarrow> buffer_error + ('db HMStorage \<times> bool)" where
  "MDBM_storeHostGroupAuxInfo lib hostGroupName s =
     (if sg_readonly s \<or> sg_shutdown s then Inr (s, False)
      else
        let entries = group_results hostGroupName (sg_hostGroupAux s);
            records = concat (map put_aux entries);
            total = 2 * 4 + length records
        in if 2 ^ 32 \<le> total then Inl past_end
           else if \<exists>g \<in> set entries. ga_hostName g = [] then Inr (s, False)
           else Inr (mdbm_write lib (Handle_store lib (sg_lockPolicy s) (HM_MDBM_AUX_PREFIX @ hostGroupName)
                  (RawValue (put_u32 (of_nat total) @ put_u32 (of_nat (length entries)) @ records))) s))"

text \<open>The entries of one record; \<open>Inl rejected\<close> is the null pointer of \<open>HMAuxBase::deserialize\<close>.\<close>

fun aux_loop :: "nat \<Rightarrow> raw \<Rightarrow> HMAux list \<Rightarrow> buffer_error + (HMAux list \<times> raw \<times> bool)" where
  "aux_loop 0 src auxData = Inr (auxData, src, True)"
| "aux_loop (Suc n) src auxData =
     (case Aux_deserialize (Some src) (of_nat (length src)) of
        Inl rejected \<Rightarrow> Inr (auxData, src, False)
      | Inl e \<Rightarrow> Inl e
      | Inr entry \<Rightarrow>
          aux_loop n (drop (unat (snd (Aux_serialize entry None 0))) src) (auxData @ [Aux_clone entry]))"

fun auxs_loop :: "nat \<Rightarrow> raw \<Rightarrow> buffer_error + (HMGroupAuxResult list \<times> bool)" where
  "auxs_loop 0 src = Inr ([], True)"
| "auxs_loop (Suc n) src =
     (case take_hostName (4 + IPAddress_sizeof + 8) src of
        Inl rejected \<Rightarrow> Inr (replicate (Suc n) GroupAuxResult_default, False)
      | Inl e \<Rightarrow> Inl e
      | Inr (host, src) \<Rightarrow>
          (case take_obj IPAddress_sizeof src of Inl e \<Rightarrow> Inl e
           | Inr (StoredAddress a, src) \<Rightarrow>
               (case take_u64 src of Inl e \<Rightarrow> Inl e
                | Inr (ts, src) \<Rightarrow> (case take_u32 src of Inl e \<Rightarrow> Inl e
                | Inr (numberRecords, src) \<Rightarrow>
                    (case aux_loop (unat numberRecords) src [] of Inl e \<Rightarrow> Inl e
                     | Inr (auxData, src, ok) \<Rightarrow>
                         (let g = GroupAuxResult_default\<lparr>ga_hostName := host, ga_address := a,
                                ga_info := \<lparr>ai_auxData = auxData, ai_ts = ts_setTime ts\<rparr>\<rparr>
                          in if \<not> ok then Inr (g # replicate n GroupAuxResult_default, False)
                             else case auxs_loop n src of Inl e \<Rightarrow> Inl e
                               | Inr (gs, ok) \<Rightarrow> Inr (g # gs, ok)))))
           | Inr _ \<Rightarrow> Inl other_object))"

text \<open>The vector overload; the size is compared with the first byte of the value, a signed character.\<close>

definition MDBM_getHostGroupGroupAuxInfo_vector ::
    "'db mdbm \<Rightarrow> string \<Rightarrow> HMGroupAuxResult list \<Rightarrow> 'db HMStorage \<Rightarrow>
     buffer_error + (HMGroupAuxResult list \<times> bool)" where
  "MDBM_getHostGroupGroupAuxInfo_vector lib hostGroupName results s =
     (case mdbm_read lib (HM_MDBM_AUX_PREFIX @ hostGroupName) s of None \<Rightarrow> Inr (results, False)
      | Some (RawValue b) \<Rightarrow>
          if length b < 4 then Inr (results, False)
          else (case take_u32 b of Inl e \<Rightarrow> Inl e
          | Inr (sz, src) \<Rightarrow>
              if int (length b) < sint (ucast sz :: u8) then Inr (results, False)
              else (case take_u32 src of Inl e \<Rightarrow> Inl e
              | Inr (entries, _) \<Rightarrow> auxs_loop (unat entries) (drop 8 (take (unat sz) b))))
      | Some _ \<Rightarrow> Inl other_object)"

definition MDBM_getHostGroupGroupAuxInfo ::
    "'db mdbm \<Rightarrow> string \<Rightarrow> 'db HMStorage \<Rightarrow> buffer_error + ('db HMStorage \<times> bool)" where
  "MDBM_getHostGroupGroupAuxInfo lib hostGroupName s =
     (case MDBM_getHostGroupGroupAuxInfo_vector lib hostGroupName [] s of Inl e \<Rightarrow> Inl e
      | Inr (results, False) \<Rightarrow> Inr (s, False)
      | Inr (results, True) \<Rightarrow>
          Inr (s\<lparr>sg_hostGroupAux := replace_group hostGroupName results (sg_hostGroupAux s)\<rparr>, True))"

definition MDBM_removeHostGroupGroupAuxInfo :: "'db mdbm \<Rightarrow> string \<Rightarrow> 'db HMStorage \<Rightarrow> 'db HMStorage \<times> bool"
  where
  "MDBM_removeHostGroupGroupAuxInfo lib hostGroupName s =
     mdbm_write lib (Handle_remove lib (sg_lockPolicy s) (HM_MDBM_AUX_PREFIX @ hostGroupName)) s"

section \<open>Lemmas\<close>

lemma take_lengths:
  "take_chars n src = Inr (s, rest) \<Longrightarrow> length rest \<le> length src"
  "take_name n src = Inr (s, rest) \<Longrightarrow> length rest \<le> length src"
  "take_u32 src = Inr (m, rest) \<Longrightarrow> length rest \<le> length src"
  "take_obj n src = Inr (x, rest) \<Longrightarrow> length rest \<le> length src"
  by (auto simp: take_chars_def take_name_def take_u32_def take_obj_def
      split: if_splits option.splits sum.splits list.splits)

lemma keys_not_empty [simp]:
  "HM_MDBM_CONFIG \<noteq> []" "HM_MDBM_GROUP_NAMES \<noteq> []" "HM_MDBM_GROUP_PREFIX \<noteq> []" "HM_MDBM_CHECK_PREFIX \<noteq> []"
  "HM_MDBM_AUX_PREFIX \<noteq> []"
  by (simp_all add: HM_MDBM_CONFIG_def HM_MDBM_GROUP_NAMES_def HM_MDBM_GROUP_PREFIX_def HM_MDBM_CHECK_PREFIX_def
      HM_MDBM_AUX_PREFIX_def)

lemma Handle_store_ok:
  assumes "mdbm_ok lib" and "key \<noteq> []"
  shows "snd (Handle_store lib scheme key v db)"
    and "md_fetch lib k (fst (Handle_store lib scheme key v db)) = (if k = key then Some v else md_fetch lib k db)"
  using assms by (simp_all add: mdbm_ok_def Handle_store_def split_beta Let_def not_less)

lemma Handle_remove_ok:
  assumes "mdbm_ok lib"
  shows "snd (Handle_remove lib scheme key db)"
    and "md_fetch lib k (fst (Handle_remove lib scheme key db)) = (if k = key then None else md_fetch lib k db)"
  using assms by (simp_all add: mdbm_ok_def Handle_remove_def Let_def)

definition store_open :: "'db HMStorage \<Rightarrow> bool" where
  "store_open s \<longleftrightarrow> \<not> sg_readonly s \<and> \<not> sg_shutdown s"

lemma mdbm_write_open:
  "mdbm_ok lib \<Longrightarrow> store_open s \<Longrightarrow>
     mdbm_write lib f s = (s\<lparr>sg_db := fst (f (sg_db s))\<rparr>, snd (f (sg_db s)))"
  by (simp add: mdbm_write_def mdbm_ok_def store_open_def split_beta)

lemma mdbm_read_open:
  "mdbm_ok lib \<Longrightarrow> store_open s \<Longrightarrow> mdbm_read lib key s = md_fetch lib key (sg_db s)"
  by (simp add: mdbm_read_def mdbm_ok_def store_open_def Handle_fetch_def)

text \<open>A store of a value is a success, is read back, and leaves the other keys and the other fields.\<close>

lemma write_store:
  assumes "mdbm_ok lib" and "store_open s" and "key \<noteq> []"
  obtains s' where "mdbm_write lib (Handle_store lib scheme key v) s = (s', True)"
    "mdbm_read lib key s' = Some v" "\<And>k. k \<noteq> key \<Longrightarrow> mdbm_read lib k s' = mdbm_read lib k s"
    "s' = s\<lparr>sg_db := sg_db s'\<rparr>" "store_open s'"
proof
  let ?s = "s\<lparr>sg_db := fst (Handle_store lib scheme key v (sg_db s))\<rparr>"
  have op: "store_open ?s" using assms(2) by (simp add: store_open_def)
  show "mdbm_write lib (Handle_store lib scheme key v) s = (?s, True)"
    using mdbm_write_open [OF assms(1,2)] Handle_store_ok(1) [OF assms(1,3)] by simp
  show "mdbm_read lib key ?s = Some v" "\<And>k. k \<noteq> key \<Longrightarrow> mdbm_read lib k ?s = mdbm_read lib k s"
    using mdbm_read_open [OF assms(1) op] mdbm_read_open [OF assms(1,2)] Handle_store_ok(2) [OF assms(1,3)] by simp_all
  show "?s = s\<lparr>sg_db := sg_db ?s\<rparr>" "store_open ?s" using op by simp_all
qed

subsection \<open>Records\<close>

text \<open>What is left of a cached result when it is written and read back.\<close>

definition stored_check :: "HMGroupCheckResult \<Rightarrow> HMGroupCheckResult" where
  "stored_check g =
     GroupCheckResult_default\<lparr>gr_hostName := gr_hostName g, gr_address := gr_address g,
       gr_result := (gr_result g)\<lparr>cr_softStatus := cr_softStatus CheckResult_default,
         cr_flapStatus := cr_flapStatus CheckResult_default, cr_queryState := cr_queryState CheckResult_default,
         cr_statusChanged := cr_statusChanged CheckResult_default\<rparr>\<rparr>"

definition host_fits :: "string \<Rightarrow> bool" where
  "host_fits h \<longleftrightarrow> clean h \<and> h \<noteq> [] \<and> length h < 128"

definition check_fits :: "HMGroupCheckResult \<Rightarrow> bool" where
  "check_fits g \<longleftrightarrow> host_fits (gr_hostName g) \<and> CheckResult_storable (gr_result g)"

lemma take_hostName_put:
  assumes "host_fits h" and "extra \<le> length rest"
  shows "take_hostName extra (put_u32 (of_nat (length h)) @ put_name h @ rest) = Inr (h, rest)"
  using assms by (simp add: take_hostName_def host_fits_def buffer_simps unat_of_nat_u32)

lemma result_struct_roundtrip:
  assumes "CheckResult_storable r" and "CheckResult_sizeof \<le> sz"
  shows "fst (CheckResult_deserialize r' (Some (result_struct r)) sz) =
    r\<lparr>cr_softStatus := cr_softStatus r', cr_flapStatus := cr_flapStatus r',
      cr_queryState := cr_queryState r', cr_statusChanged := cr_statusChanged r'\<rparr>"
proof -
  have "fst (CheckResult_serialize r (Some CheckResult_blank) CheckResult_sizeof) = Some (result_struct r)"
    by (simp add: result_struct_def CheckResult_serialize_def)
  moreover have "CheckResult_deserialize r' (Some p) sz = CheckResult_deserialize r' (Some p) CheckResult_sizeof" for p
    using assms(2) by (simp add: CheckResult_deserialize_def leD)
  ultimately show ?thesis
    using CheckResult_roundtrip [OF assms(1) order_refl, of r' CheckResult_blank] by simp
qed

definition take_check :: "raw \<Rightarrow> buffer_error + (HMGroupCheckResult \<times> raw)" where
  "take_check src =
     (case take_hostName IPAddress_sizeof src of Inl e \<Rightarrow> Inl e
      | Inr (host, src) \<Rightarrow>
        (case take_obj IPAddress_sizeof src of Inl e \<Rightarrow> Inl e
         | Inr (StoredAddress a, src) \<Rightarrow>
           (case take_obj (unat CheckResult_sizeof) src of Inl e \<Rightarrow> Inl e
            | Inr (StoredResult p, rest) \<Rightarrow>
                Inr (GroupCheckResult_default\<lparr>gr_hostName := host, gr_address := a,
                  gr_result := fst (CheckResult_deserialize CheckResult_default (Some p) CheckResult_sizeof)\<rparr>, rest)
            | Inr _ \<Rightarrow> Inl other_object)
         | Inr _ \<Rightarrow> Inl other_object))"

lemma sizes: "0 < IPAddress_sizeof" "0 < unat CheckResult_sizeof"
  by (simp_all add: IPAddress_sizeof_def CheckResult_sizeof_def)

lemma take_check_put: "check_fits g \<Longrightarrow> take_check (put_check g @ rest) = Inr (stored_check g, rest)"
  by (simp add: take_check_def put_check_def check_fits_def take_hostName_put sizes buffer_simps
      result_struct_roundtrip stored_check_def)

lemma put_stored_check: "put_check (stored_check g) = put_check g"
  by (simp add: put_check_def stored_check_def result_struct_def CheckResult_serialize_def)

interpretation check_format: record_format put_check take_check "\<lambda>g. check_fits g \<and> stored_check g = g"
  by unfold_locales (simp add: take_check_put)

lemma take_hostName_length: "take_hostName extra src = Inr (h, rest) \<Longrightarrow> length rest \<le> length src"
  by (auto simp: take_hostName_def Let_def dest!: take_lengths split: sum.splits if_splits)

lemma default_result: "gr_result GroupCheckResult_default = CheckResult_default"
  by (simp add: GroupCheckResult_default_def)

lemma checks_loop_step:
  assumes "take_check src = Inr (g, rest)" and "length src < 2 ^ 32"
  shows "checks_loop (Suc n) src =
    (case checks_loop n rest of Inl e \<Rightarrow> Inl e | Inr (gs, ok) \<Rightarrow> Inr (g # gs, ok))"
    and "length rest < 2 ^ 32"
proof -
  obtain host a p src1 src2 where src1: "take_hostName IPAddress_sizeof src = Inr (host, src1)"
    and src2: "take_obj IPAddress_sizeof src1 = Inr (StoredAddress a, src2)"
    and rest: "take_obj (unat CheckResult_sizeof) src2 = Inr (StoredResult p, rest)"
    and g: "g = GroupCheckResult_default\<lparr>gr_hostName := host, gr_address := a,
      gr_result := fst (CheckResult_deserialize CheckResult_default (Some p) CheckResult_sizeof)\<rparr>"
    using assms(1) by (auto simp: take_check_def split: sum.splits stored.splits)
  have len: "length rest \<le> length src2" "length src2 < 2 ^ 32"
    using take_lengths(4) [OF rest] take_lengths(4) [OF src2] take_hostName_length [OF src1] assms(2) by simp_all
  then show "length rest < 2 ^ 32" by simp
  have long: "\<not> length src2 < unat CheckResult_sizeof" using rest by (simp add: take_obj_def split: if_splits)
  then have "\<not> of_nat (length src2) < CheckResult_sizeof"
    using len(2) by (simp add: word_less_nat_alt unat_of_nat_u32)
  then have "CheckResult_deserialize r (Some p) (of_nat (length src2)) = CheckResult_deserialize r (Some p) CheckResult_sizeof" for r
    by (simp add: CheckResult_deserialize_def)
  then show "checks_loop (Suc n) src =
      (case checks_loop n rest of Inl e \<Rightarrow> Inl e | Inr (gs, ok) \<Rightarrow> Inr (g # gs, ok))"
    unfolding g using long by (simp add: src1 src2 rest Let_def default_result)
qed

lemma checks_loop_records:
  "get_records take_check n src = Inr (gs, rest) \<Longrightarrow> length src < 2 ^ 32 \<Longrightarrow> checks_loop n src = Inr (gs, True)"
proof (induction n arbitrary: src gs)
  case (Suc n)
  obtain g gs' src1 where g: "take_check src = Inr (g, src1)" "get_records take_check n src1 = Inr (gs', rest)"
    "gs = g # gs'"
    using Suc.prems(1) by (auto split: sum.splits)
  note step = checks_loop_step [OF g(1) Suc.prems(2)]
  show ?case using Suc.IH [OF g(2) step(2)] by (simp add: step(1) g(3) del: checks_loop.simps)
qed simp

lemma put_stored_checks: "put_check \<circ> stored_check = put_check"
  by (rule ext) (simp add: put_stored_check)

lemma stored_checks_fit:
  "list_all check_fits gs \<Longrightarrow>
     list_all (\<lambda>g. check_fits g \<and> stored_check g = g) (map stored_check gs)"
  by (induction gs) (auto simp: check_fits_def stored_check_def CheckResult_storable_def GroupCheckResult_default_def)

lemma checks_loop_put:
  assumes "list_all check_fits gs" and "length (concat (map put_check gs)) < 2 ^ 32"
  shows "checks_loop (length gs) (concat (map put_check gs)) = Inr (map stored_check gs, True)"
  using checks_loop_records check_format.get_puts [OF stored_checks_fit [OF assms(1)], of "[]"] assms(2)
  by (simp add: put_stored_checks)

lemma sint_small: "n < 2 ^ 31 \<Longrightarrow> sint (of_nat n :: u32) = int n"
  by (simp add: signed_of_nat signed_take_bit_int_eq_self)

text \<open>The header in front of the records: total size and number of records.\<close>

lemma header_read:
  assumes "8 + length records < 2 ^ 31" and "n \<le> length records"
  defines "b \<equiv> put_u32 (of_nat (8 + length records)) @ put_u32 (of_nat n) @ records"
  shows "length b = 8 + length records" and "\<not> length b < 4"
    and "take_u32 b = Inr (of_nat (8 + length records), put_u32 (of_nat n) @ records)"
    and "take_u32 (put_u32 (of_nat n) @ records) = Inr (of_nat n, records)"
    and "sint (of_nat (8 + length records) :: u32) = int (length b)" and "\<not> sint (of_nat n :: u32) < 0"
    and "unat (of_nat n :: u32) = n"
    and "drop 8 (take (unat (of_nat (8 + length records) :: u32)) b) = records"
proof -
  show len: "length b = 8 + length records" by (simp add: b_def)
  show "\<not> length b < 4" using len by simp
  show "take_u32 b = Inr (of_nat (8 + length records), put_u32 (of_nat n) @ records)"
    "take_u32 (put_u32 (of_nat n) @ records) = Inr (of_nat n, records)"
    unfolding b_def by (rule take_u32_put)+
  show "sint (of_nat (8 + length records) :: u32) = int (length b)"
    unfolding len by (rule sint_small [OF assms(1)])
  show "\<not> sint (of_nat n :: u32) < 0" using sint_small [of n] assms(1,2) by simp
  show "unat (of_nat n :: u32) = n" using assms(1,2) by (intro unat_of_nat_u32) simp
  have "unat (of_nat (8 + length records) :: u32) = length b"
    unfolding len by (rule unat_of_nat_u32) (use assms(1) in simp)
  then show "drop 8 (take (unat (of_nat (8 + length records) :: u32)) b) = records" by (simp add: b_def)
qed

lemma concat_length_ge: "(\<And>x. x \<in> set xs \<Longrightarrow> 0 < length (f x)) \<Longrightarrow> length xs \<le> length (concat (map f xs))"
proof (induction xs)
  case (Cons x xs)
  then have "length xs \<le> length (concat (map f xs))" "f x \<noteq> []" by simp_all
  then show ?case by (cases "f x") simp_all
qed simp

lemma put_check_length: "0 < length (put_check g)"
  by (simp add: put_check_def)

text \<open>The store of the results of a group, as a write of its records.\<close>

lemma storeHostGroupCheckResults_run:
  assumes "mdbm_ok lib" and "store_open s"
    and "list_all (\<lambda>g. gr_hostName g \<noteq> []) (group_results name (sg_hostGroupResults s))"
    and "8 + length (concat (map put_check (group_results name (sg_hostGroupResults s)))) < 2 ^ 31"
  obtains s' where "MDBM_storeHostGroupCheckResults lib name s = Inr (s', True)" "store_open s'"
    "s' = s\<lparr>sg_db := sg_db s'\<rparr>"
    "\<And>k. k \<noteq> HM_MDBM_CHECK_PREFIX @ name \<Longrightarrow> mdbm_read lib k s' = mdbm_read lib k s"
    "\<And>rs. MDBM_getHostGroupCheckResults_vector lib name rs s' =
      checks_loop (length (group_results name (sg_hostGroupResults s)))
        (concat (map put_check (group_results name (sg_hostGroupResults s))))"
proof -
  define gs where "gs = group_results name (sg_hostGroupResults s)"
  define records where "records = concat (map put_check gs)"
  have n: "length gs \<le> length records" unfolding records_def by (rule concat_length_ge) (rule put_check_length)
  note small = assms(4) [folded gs_def, folded records_def]
  note header = header_read [OF small n]
  obtain s' where s': "mdbm_write lib (Handle_store lib (sg_lockPolicy s) (HM_MDBM_CHECK_PREFIX @ name)
      (RawValue (put_u32 (of_nat (8 + length records)) @ put_u32 (of_nat (length gs)) @ records))) s = (s', True)"
    "mdbm_read lib (HM_MDBM_CHECK_PREFIX @ name) s' =
      Some (RawValue (put_u32 (of_nat (8 + length records)) @ put_u32 (of_nat (length gs)) @ records))"
    "\<And>k. k \<noteq> HM_MDBM_CHECK_PREFIX @ name \<Longrightarrow> mdbm_read lib k s' = mdbm_read lib k s"
    "s' = s\<lparr>sg_db := sg_db s'\<rparr>" "store_open s'"
    using write_store [OF assms(1,2), of "HM_MDBM_CHECK_PREFIX @ name"] keys_not_empty by (metis append_is_Nil_conv)
  have "\<not> (\<exists>g \<in> set gs. gr_hostName g = [])" using assms(3) by (auto simp: gs_def list_all_iff)
  then have "MDBM_storeHostGroupCheckResults lib name s = Inr (s', True)"
    using assms(2) small s'(1)
    by (simp add: MDBM_storeHostGroupCheckResults_def store_open_def Let_def flip: gs_def records_def)
  moreover have "MDBM_getHostGroupCheckResults_vector lib name rs s' = checks_loop (length gs) records" for rs
    using header by (simp add: MDBM_getHostGroupCheckResults_vector_def s'(2))
  ultimately show thesis
    using that [of s'] s'(3-5) unfolding gs_def records_def by blast
qed

section \<open>Properties\<close>

text \<open>
  C27: the results of a group that are written to the data store are what is read from it. For a store
  that is open for writing, when every host name has at most 127 characters and no zero byte and the
  results can be stored: writing the cached results of the group is a success and leaves every other
  key of the database; reading them gives back each host, address and result, in their order, without
  the fields of a result that are not stored.
\<close>

theorem MDBM_check_results_roundtrip:
  fixes s :: "'db HMStorage" and name :: string
  defines "entries \<equiv> group_results name (sg_hostGroupResults s)"
  assumes "mdbm_ok lib" and "store_open s" and "list_all check_fits entries"
    and "8 + length (concat (map put_check entries)) < 2 ^ 31"
  shows "\<exists>s'. MDBM_storeHostGroupCheckResults lib name s = Inr (s', True)
    \<and> MDBM_getHostGroupCheckResults_vector lib name rs s' = Inr (map stored_check entries, True)
    \<and> (\<forall>k. k \<noteq> HM_MDBM_CHECK_PREFIX @ name \<longrightarrow> mdbm_read lib k s' = mdbm_read lib k s)"
proof -
  have "list_all (\<lambda>g. gr_hostName g \<noteq> []) entries"
    using assms(4) by (auto simp: list_all_iff check_fits_def host_fits_def)
  from storeHostGroupCheckResults_run [OF assms(2,3) this [unfolded entries_def] assms(5) [unfolded entries_def]]
  obtain s' where s': "MDBM_storeHostGroupCheckResults lib name s = Inr (s', True)"
    "\<And>k. k \<noteq> HM_MDBM_CHECK_PREFIX @ name \<Longrightarrow> mdbm_read lib k s' = mdbm_read lib k s"
    "MDBM_getHostGroupCheckResults_vector lib name rs s' =
      checks_loop (length entries) (concat (map put_check entries))"
    unfolding entries_def by metis
  then show ?thesis using checks_loop_put [OF assms(4)] assms(5) by auto
qed

lemma long_name_fails:
  assumes "128 \<le> length (gr_hostName g)" and "length (gr_hostName g) < 256"
  shows "checks_loop (Suc n) (put_check g @ rest) = Inl length_error"
proof -
  have "take_hostName IPAddress_sizeof (put_check g @ rest) = Inl length_error"
    using assms
    by (simp add: take_hostName_def put_check_def buffer_simps unat_of_nat_u32 sizes)
  then show ?thesis by simp
qed

text \<open>
  A group with a host whose name has 128 to 255 characters cannot be read back. The results are
  written, but reading them throws: the string for the name is sized by the first byte of its length
  as a signed character.
\<close>

theorem MDBM_long_host_name_throws:
  fixes s :: "'db HMStorage" and name :: string
  assumes "mdbm_ok lib" and "store_open s"
    and "group_results name (sg_hostGroupResults s) = gs @ g # gs'"
    and "list_all check_fits gs" and "128 \<le> length (gr_hostName g)" and "length (gr_hostName g) < 256"
    and "list_all (\<lambda>g. gr_hostName g \<noteq> []) gs'"
    and "8 + length (concat (map put_check (group_results name (sg_hostGroupResults s)))) < 2 ^ 31"
  shows "\<exists>s'. MDBM_storeHostGroupCheckResults lib name s = Inr (s', True)
    \<and> MDBM_getHostGroupCheckResults lib name s' = Inl length_error"
proof -
  have "list_all (\<lambda>g. gr_hostName g \<noteq> []) (group_results name (sg_hostGroupResults s))"
    using assms(4,5,7) by (auto simp: assms(3) list_all_iff check_fits_def host_fits_def)
  from storeHostGroupCheckResults_run [OF assms(1,2) this assms(8)]
  obtain s' where s': "MDBM_storeHostGroupCheckResults lib name s = Inr (s', True)"
    "MDBM_getHostGroupCheckResults_vector lib name [] s' =
      checks_loop (length (gs @ g # gs')) (concat (map put_check (gs @ g # gs')))"
    unfolding assms(3) by metis
  have "checks_loop (length (gs @ g # gs')) (concat (map put_check (gs @ g # gs')) ) = Inl length_error"
    if "list_all check_fits gs" "length (concat (map put_check (gs @ g # gs'))) < 2 ^ 32" for gs
    using that
  proof (induction gs)
    case Nil
    then show ?case using long_name_fails [OF assms(5,6)] by simp
  next
    case (Cons h gs)
    have "take_check (put_check h @ concat (map put_check (gs @ g # gs'))) =
        Inr (stored_check h, concat (map put_check (gs @ g # gs')))"
      using Cons.prems(1) by (intro take_check_put) simp
    from checks_loop_step(1) [OF this, of "length (gs @ g # gs')"] Cons.IH Cons.prems
    show ?case by (simp del: checks_loop.simps)
  qed
  from this [OF assms(4)] assms(8) have "MDBM_getHostGroupCheckResults_vector lib name [] s' = Inl length_error"
    by (simp add: s'(2) assms(3))
  then show ?thesis using s'(1) by (simp add: MDBM_getHostGroupCheckResults_def)
qed

subsection \<open>Auxiliary data\<close>

definition aux_fits :: "HMGroupAuxResult \<Rightarrow> bool" where
  "aux_fits g \<longleftrightarrow>
     host_fits (ga_hostName g) \<and> ts_ok (ai_ts (ga_info g)) \<and> list_all Aux_storable (ai_auxData (ga_info g))
     \<and> length (ai_auxData (ga_info g)) < 2 ^ 32"

definition stored_aux :: "HMGroupAuxResult \<Rightarrow> HMGroupAuxResult" where
  "stored_aux g =
     GroupAuxResult_default\<lparr>ga_hostName := ga_hostName g, ga_address := ga_address g, ga_info := ga_info g\<rparr>"

lemma Aux_bytes_size: "Aux_storable a \<Longrightarrow> unat (snd (Aux_serialize a None 0)) = length (Aux_bytes a)"
proof -
  assume a: "Aux_storable a"
  then have "Aux_totalSize a < 2 ^ 32" by (cases a) simp_all
  then show ?thesis using a by (simp add: Aux_serialize_bytes(1) unat_of_nat_u32)
qed

lemma aux_loop_put:
  assumes "list_all Aux_storable xs" and "length (concat (map Aux_bytes xs) @ rest) < 2 ^ 32"
  shows "aux_loop (length xs) (concat (map Aux_bytes xs) @ rest) acc = Inr (acc @ xs, rest, True)"
  using assms
proof (induction xs arbitrary: acc)
  case (Cons a xs)
  let ?src = "Aux_bytes a @ concat (map Aux_bytes xs) @ rest"
  have "Aux_totalSize a \<le> unat (of_nat (length ?src) :: u32)"
    using Cons.prems(2) by (subst unat_of_nat_u32) simp_all
  then have "Aux_deserialize (Some ?src) (of_nat (length ?src)) = Inr a"
    using Cons.prems(1) by (intro Aux_deserialize_bytes) simp_all
  moreover have "length (concat (map Aux_bytes xs) @ rest) < 2 ^ 32" using Cons.prems(2) by simp
  ultimately show ?case
    using Cons.IH [of "acc @ [a]"] Cons.prems(1) Aux_bytes_size [of a] by simp
qed simp

lemma put_aux_body: "length (concat (map Aux_bytes (ai_auxData (ga_info g)))) < length (put_aux g)"
  by (simp add: put_aux_def)

lemma auxs_loop_put:
  assumes "list_all aux_fits gs" and "length (concat (map put_aux gs)) < 2 ^ 32"
  shows "auxs_loop (length gs) (concat (map put_aux gs)) = Inr (map stored_aux gs, True)"
  using assms
proof (induction gs)
  case (Cons g gs)
  define rest where "rest = concat (map put_aux gs)"
  define body where "body = concat (map Aux_bytes (ai_auxData (ga_info g)))"
  have fits: "host_fits (ga_hostName g)" "ts_ok (ai_ts (ga_info g))" "list_all Aux_storable (ai_auxData (ga_info g))"
    "length (ai_auxData (ga_info g)) < 2 ^ 32"
    using Cons.prems(1) by (simp_all add: aux_fits_def)
  have "length (body @ rest) < 2 ^ 32"
    using Cons.prems(2) put_aux_body [of g] by (simp add: rest_def body_def)
  from aux_loop_put [OF fits(3) this [unfolded body_def], of "[]"]
  have loop: "aux_loop (length (ai_auxData (ga_info g))) (body @ rest) [] = Inr (ai_auxData (ga_info g), rest, True)"
    by (simp add: body_def)
  have "auxs_loop (length gs) rest = Inr (map stored_aux gs, True)"
    using Cons.IH Cons.prems by (simp add: rest_def)
  moreover have "concat (map put_aux (g # gs)) = put_u32 (of_nat (length (ga_hostName g))) @ put_name (ga_hostName g)
      @ put_obj IPAddress_sizeof (StoredAddress (ga_address g))
      @ put_u64 (ts_getTimeSinceEpoch (ai_ts (ga_info g)))
      @ put_u32 (of_nat (length (ai_auxData (ga_info g)))) @ body @ rest"
    by (simp add: put_aux_def body_def rest_def)
  ultimately show ?case
    using fits loop
    by (simp add: take_hostName_put sizes buffer_simps ts_roundtrip unat_of_nat_u32 stored_aux_def)
qed simp

lemma put_aux_length: "0 < length (put_aux g)"
  by (simp add: put_aux_def)

text \<open>The check of the size by its first byte lets every value pass whose size is right.\<close>

lemma first_byte_small:
  assumes "n < 2 ^ 32"
  shows "sint (ucast (of_nat n :: u32) :: u8) \<le> int n"
proof -
  let ?w = "ucast (of_nat n :: u32) :: u8"
  have "sint ?w \<le> uint ?w"
    unfolding sint_uint using uint_nonnegative [of ?w] by (simp add: signed_take_bit_int_less_eq_self_iff order_trans [of "- 128" 0])
  also have "\<dots> \<le> uint (of_nat n :: u32)" by (simp add: unsigned_ucast_eq take_bit_int_less_eq_self_iff)
  also have "\<dots> = int n" using unat_of_nat_u32 [OF assms] by (simp add: uint_nat)
  finally show ?thesis .
qed

text \<open>
  The auxiliary data of a group that is written to the data store is what is read from it, under
  the same conditions.
\<close>

theorem MDBM_aux_info_roundtrip:
  fixes s :: "'db HMStorage" and name :: string
  defines "entries \<equiv> group_results name (sg_hostGroupAux s)"
  assumes "mdbm_ok lib" and "store_open s" and "list_all aux_fits entries"
    and "8 + length (concat (map put_aux entries)) < 2 ^ 31"
  shows "\<exists>s'. MDBM_storeHostGroupAuxInfo lib name s = Inr (s', True)
    \<and> MDBM_getHostGroupGroupAuxInfo_vector lib name rs s' = Inr (map stored_aux entries, True)
    \<and> (\<forall>k. k \<noteq> HM_MDBM_AUX_PREFIX @ name \<longrightarrow> mdbm_read lib k s' = mdbm_read lib k s)"
proof -
  define records where "records = concat (map put_aux entries)"
  have n: "length entries \<le> length records"
    unfolding records_def by (rule concat_length_ge) (rule put_aux_length)
  note small = assms(5) [folded records_def]
  note header = header_read [OF small n]
  obtain s' where s': "mdbm_write lib (Handle_store lib (sg_lockPolicy s) (HM_MDBM_AUX_PREFIX @ name)
      (RawValue (put_u32 (of_nat (8 + length records)) @ put_u32 (of_nat (length entries)) @ records))) s = (s', True)"
    "mdbm_read lib (HM_MDBM_AUX_PREFIX @ name) s' =
      Some (RawValue (put_u32 (of_nat (8 + length records)) @ put_u32 (of_nat (length entries)) @ records))"
    "\<And>k. k \<noteq> HM_MDBM_AUX_PREFIX @ name \<Longrightarrow> mdbm_read lib k s' = mdbm_read lib k s"
    using write_store [OF assms(2,3), of "HM_MDBM_AUX_PREFIX @ name"] keys_not_empty by (metis append_is_Nil_conv)
  have names: "\<not> (\<exists>g \<in> set entries. ga_hostName g = [])"
    using assms(4) by (auto simp: list_all_iff aux_fits_def host_fits_def)
  then have "MDBM_storeHostGroupAuxInfo lib name s = Inr (s', True)"
    using assms(3) small s'(1)
    by (simp add: MDBM_storeHostGroupAuxInfo_def store_open_def Let_def flip: entries_def records_def)
  moreover have "MDBM_getHostGroupGroupAuxInfo_vector lib name rs s' = auxs_loop (length entries) records"
    using header first_byte_small [of "8 + length records"] small
    by (simp add: MDBM_getHostGroupGroupAuxInfo_vector_def s'(2) del: of_nat_add)
  ultimately show ?thesis
    using auxs_loop_put [OF assms(4)] assms(5) s'(3) by (auto simp: records_def)
qed

subsection \<open>Configuration\<close>

lemma names_loop_put:
  assumes "list_all name_fits ns" and "sorted (acc @ ns)" and "distinct (acc @ ns)"
  shows "names_loop (length ns) (concat (map put_sized_name ns)) acc = Inr (acc @ ns, True)"
  using assms
proof (induction ns arbitrary: acc)
  case (Cons n ns)
  have "take_sized_name (put_sized_name n @ concat (map put_sized_name ns)) =
      Inr (n, concat (map put_sized_name ns) :: raw)"
    using Cons.prems(1) by (intro name_format.get_put) simp
  moreover have "insort_insert n acc = acc @ [n]"
    using Cons.prems(2,3) by (auto simp: insort_insert_key_def sorted_append insort_is_Cons intro: sorted_insort_is_snoc)
  ultimately show ?case using Cons.IH [of "acc @ [n]"] Cons.prems by simp
qed simp

text \<open>What a group is when it is written and read back into a new object of the same name.\<close>

definition stored_group :: "HMDataHostGroup \<Rightarrow> HMDataHostGroup \<Rightarrow> HMDataHostGroup" where
  "stored_group t g =
     g\<lparr>hg_remoteCheckType := hg_remoteCheckType t, hg_DNSType := hg_DNSType t,
       hg_checkPlugin := hg_checkPlugin t, hg_hashValue := hg_hashValue t,
       hg_checkInfo := (if hg_checkInfo g = [] then hg_checkInfo t else hg_checkInfo g),
       hg_remoteCheck := (if hg_remoteCheck g = [] then hg_remoteCheck t else hg_remoteCheck g)\<rparr>"

lemma group_names_roundtrip:
  assumes "mdbm_ok lib" and "store_open s"
    and ns: "list_all name_fits ns" "sorted ns" "distinct ns" "length ns < 2 ^ 32"
  shows "\<exists>s'. MDBM_storeHostGroupNames lib ns s = Inr (s', True) \<and> MDBM_getHostGroupNames lib ns0 s' = Inr (ns, True)
    \<and> store_open s' \<and> (\<forall>k. k \<noteq> HM_MDBM_GROUP_NAMES \<longrightarrow> mdbm_read lib k s' = mdbm_read lib k s)"
proof -
  let ?b = "put_u32 (of_nat (length ns)) @ concat (map put_sized_name ns)"
  obtain s' where s': "mdbm_write lib (Handle_store lib (sg_lockPolicy s) HM_MDBM_GROUP_NAMES (RawValue ?b)) s
      = (s', True)" "mdbm_read lib HM_MDBM_GROUP_NAMES s' = Some (RawValue ?b)" "store_open s'"
      "\<forall>k. k \<noteq> HM_MDBM_GROUP_NAMES \<longrightarrow> mdbm_read lib k s' = mdbm_read lib k s"
    using write_store [OF assms(1,2), of HM_MDBM_GROUP_NAMES] keys_not_empty by (metis append_is_Nil_conv)
  have "[] \<notin> set ns" using ns(1) by (auto simp: list_all_iff name_fits_def)
  moreover have "md_acquire lib (sg_db s)" using assms(1) by (simp add: mdbm_ok_def)
  ultimately show ?thesis
    using s' assms(2) ns names_loop_put [of ns "[]"]
    by (simp add: MDBM_storeHostGroupNames_def store_open_def MDBM_getHostGroupNames_def buffer_simps unat_of_nat_u32)
qed

lemma config_info_roundtrip:
  assumes "mdbm_ok lib" and "store_open s" and "ts_ok (ci_configLoadTime c)"
  shows "\<exists>s'. MDBM_storeConfigInfo lib c s = (s', True) \<and> MDBM_getConfigInfo lib c0 s' = Inr (c, True)"
proof -
  obtain p where p: "ConfigInfo_serialize c (Some ConfigInfo_blank) ConfigInfo_sizeof = (Some p, ConfigInfo_sizeof)"
    "ConfigInfo_deserialize c0 (Some p) ConfigInfo_sizeof = (c, True)"
  proof
    let ?p = "\<lparr>cis_version = ci_version c, cis_configStatus = ci_configStatus c,
      cis_configLoadTime = ts_getTimeSinceEpoch (ci_configLoadTime c),
      cis_hashSize = ha_hashSize (ci_hash c), cis_value = ha_hashValue (ci_hash c)\<rparr>"
    show "ConfigInfo_serialize c (Some ConfigInfo_blank) ConfigInfo_sizeof = (Some ?p, ConfigInfo_sizeof)"
      by (simp add: ConfigInfo_serialize_def)
    show "ConfigInfo_deserialize c0 (Some ?p) ConfigInfo_sizeof = (c, True)"
      using assms(3) by (simp add: ConfigInfo_deserialize_def ts_roundtrip)
  qed
  obtain s' where "mdbm_write lib (Handle_store lib (sg_lockPolicy s) HM_MDBM_CONFIG (ConfigValue p ConfigInfo_sizeof)) s
      = (s', True)" "mdbm_read lib HM_MDBM_CONFIG s' = Some (ConfigValue p ConfigInfo_sizeof)"
    using write_store [OF assms(1,2), of HM_MDBM_CONFIG] keys_not_empty by (metis append_is_Nil_conv)
  moreover have size: "snd (ConfigInfo_serialize c None 0) = ConfigInfo_sizeof"
    by (simp add: ConfigInfo_serialize_def)
  ultimately show ?thesis by (simp add: MDBM_storeConfigInfo_def p MDBM_getConfigInfo_def)
qed

lemma group_info_roundtrip:
  assumes "mdbm_ok lib" and "store_open s" and g: "HostGroup_storable g"
  shows "\<exists>s'. MDBM_storeGroupInfo lib name g s = (s', True)
    \<and> (\<forall>t. MDBM_getGroupInfo lib name t s' = Inr (stored_group t g, True))
    \<and> store_open s' \<and> (\<forall>k. k \<noteq> HM_MDBM_GROUP_PREFIX @ name \<longrightarrow> mdbm_read lib k s' = mdbm_read lib k s)"
proof -
  define sz :: u32 where "sz = of_nat (HostGroup_totalSize g)"
  define b0 where "b0 = (HostGroup_blank, replicate (unat sz - HostGroup_sizeof) (CHR 0x00))"
  have sz: "HostGroup_totalSize g \<le> unat sz"
    using g by (simp add: sz_def unat_of_nat_u32 HostGroup_storable_def)
  obtain b where b: "HostGroup_serialize g (Some b0) sz = (Some b, sz)"
    by (simp add: HostGroup_serialize_def b0_def sz_def Let_def)
  have size: "snd (HostGroup_serialize g None 0) = sz" by (simp add: HostGroup_serialize_def sz_def)
  obtain s' where s': "mdbm_write lib (Handle_store lib (sg_lockPolicy s) (HM_MDBM_GROUP_PREFIX @ name) (GroupValue b sz)) s
      = (s', True)" "mdbm_read lib (HM_MDBM_GROUP_PREFIX @ name) s' = Some (GroupValue b sz)" "store_open s'"
      "\<forall>k. k \<noteq> HM_MDBM_GROUP_PREFIX @ name \<longrightarrow> mdbm_read lib k s' = mdbm_read lib k s"
    using write_store [OF assms(1,2), of "HM_MDBM_GROUP_PREFIX @ name"] keys_not_empty by (metis append_is_Nil_conv)
  have "md_fetch lib (HM_MDBM_GROUP_PREFIX @ name) (sg_db s') = Some (GroupValue b sz)"
    using s'(2) mdbm_read_open [OF assms(1) s'(3)] by simp
  then show ?thesis
    using s'(1,3,4) HostGroup_roundtrip [OF g sz, where b = b0] assms(1)
    by (simp add: MDBM_storeGroupInfo_def size b MDBM_getGroupInfo_def mdbm_ok_def store_open_def
        stored_group_def flip: b0_def)
qed

text \<open>
  The configuration that is written to the data store is what is read from it. For an open store:
  the set of group names, the configuration info, and each group with its hosts and child groups are
  read back as they were written; a group loses the remote check type, the DNS type, the plugin and
  the hash.
\<close>

theorem MDBM_configuration_roundtrip:
  assumes "mdbm_ok lib" and "store_open s"
  shows "(list_all name_fits ns \<and> sorted ns \<and> distinct ns \<and> length ns < 2 ^ 32 \<longrightarrow>
      (\<exists>s'. MDBM_storeHostGroupNames lib ns s = Inr (s', True)
        \<and> MDBM_getHostGroupNames lib ns0 s' = Inr (ns, True)))
    \<and> (ts_ok (ci_configLoadTime c) \<longrightarrow>
      (\<exists>s'. MDBM_storeConfigInfo lib c s = (s', True) \<and> MDBM_getConfigInfo lib c0 s' = Inr (c, True)))
    \<and> (HostGroup_storable g \<longrightarrow>
      (\<exists>s'. MDBM_storeGroupInfo lib name g s = (s', True)
        \<and> MDBM_getGroupInfo lib name t s' = Inr (stored_group t g, True)))"
  using group_names_roundtrip [OF assms] config_info_roundtrip [OF assms] group_info_roundtrip [OF assms]
  by blast

text \<open>
  A store that is read-only or closed never changes the database, whatever is asked of it.
\<close>

theorem MDBM_readonly_database:
  assumes "sg_readonly s \<or> sg_shutdown s"
  shows "MDBM_clearBackend lib s = (s, False) \<and> MDBM_storeConfigInfo lib c s = (s, False)
    \<and> MDBM_storeHostGroupNames lib ns s = Inr (s, False) \<and> MDBM_storeGroupInfo lib name g s = (s, False)
    \<and> MDBM_removeGroupInfo lib name s = (s, False)
    \<and> MDBM_storeHostGroupCheckResults lib name s = Inr (s, False)
    \<and> MDBM_removeHostGroupCheckResults lib name s = (s, False)
    \<and> MDBM_storeHostGroupAuxInfo lib name s = Inr (s, False)
    \<and> MDBM_removeHostGroupGroupAuxInfo lib name s = (s, False)"
  using assms
  by (auto simp: MDBM_clearBackend_def MDBM_storeConfigInfo_def MDBM_storeHostGroupNames_def
      MDBM_storeGroupInfo_def MDBM_removeGroupInfo_def MDBM_storeHostGroupCheckResults_def
      MDBM_removeHostGroupCheckResults_def MDBM_storeHostGroupAuxInfo_def
      MDBM_removeHostGroupGroupAuxInfo_def mdbm_write_def)

lemma clear_removes_all:
  assumes "mdbm_ok lib" and "store_open s"
  shows "\<exists>s'. MDBM_clearBackend lib s = (s', True) \<and> (\<forall>k. mdbm_read lib k s' = None)"
proof -
  have del: "md_fetch lib k (fold (md_delete lib) ks db) = (if k \<in> set ks then None else md_fetch lib k db)" for k ks db
    using assms(1) by (induction ks arbitrary: db) (auto simp: mdbm_ok_def)
  have all: "takeWhile (\<lambda>k. k \<noteq> []) (md_keys lib (sg_db s)) = md_keys lib (sg_db s)"
    using assms(1) by (auto simp: takeWhile_eq_all_conv mdbm_ok_def)
  let ?s = "s\<lparr>sg_db := fold (md_delete lib) (md_keys lib (sg_db s)) (sg_db s)\<rparr>"
  have "md_fetch lib k (sg_db s) = None" if "k \<notin> set (md_keys lib (sg_db s))" for k
    using that assms(1) unfolding mdbm_ok_def by blast
  then have "md_fetch lib k (sg_db ?s) = None" for k
    using del [of k "md_keys lib (sg_db s)" "sg_db s"] by simp
  moreover have "store_open ?s" using assms(2) by (simp add: store_open_def)
  ultimately have "\<forall>k. mdbm_read lib k ?s = None" using mdbm_read_open [OF assms(1)] by metis
  moreover have "MDBM_clearBackend lib s = (?s, True)"
    using assms(1) by (simp add: MDBM_clearBackend_def mdbm_write_open [OF assms] Handle_clear_def all mdbm_ok_def)
  ultimately show ?thesis by blast
qed

section \<open>Witnesses\<close>

text \<open>A library that keeps its law: the database is an association list.\<close>

definition alist_lib :: "(string \<times> mdbm_value) list mdbm" where
  "alist_lib =
     \<lparr>md_acquire = (\<lambda>_. True), md_lock = (\<lambda>_ _. True), md_unlock = (\<lambda>_ _. True),
      md_store = (\<lambda>k v db. if k = [] then (db, -1) else ((k, v) # filter (\<lambda>e. fst e \<noteq> k) db, 0)),
      md_fetch = (\<lambda>k db. if k = [] then None else map_of db k),
      md_delete = (\<lambda>k db. filter (\<lambda>e. fst e \<noteq> k) db),
      md_keys = (\<lambda>db. filter (\<lambda>k. k \<noteq> []) (map fst db))\<rparr>"

lemma map_of_filter_key: "map_of (filter (\<lambda>e. fst e \<noteq> k) m) k' = (if k' = k then None else map_of m k')"
  by (induction m) auto

lemma alist_lib_ok: "mdbm_ok alist_lib"
  by (auto simp: mdbm_ok_def alist_lib_def map_of_filter_key dest!: map_of_SomeD split: if_splits) force

definition sample_entry :: "string \<Rightarrow> HMGroupCheckResult" where
  "sample_entry host = \<lparr>gr_hostName = host, gr_address = INET 0x7F000001, gr_backendStale = True, gr_commitTime = 5,
     gr_result = sample_result\<rparr>"

definition sample_aux_entry :: HMGroupAuxResult where
  "sample_aux_entry = \<lparr>ga_hostName = ''h'', ga_address = INET 0x7F000001, ga_backendStale = True, ga_commitTime = 5,
     ga_info = \<lparr>ai_auxData = [sample_oob], ai_ts = 1000\<rparr>\<rparr>"

definition sample_store :: "string \<Rightarrow> (string \<times> mdbm_value) list HMStorage" where
  "sample_store host = (Storage_new [] \<lparr>dc_cache = [], dc_staticDNS = []\<rparr> [])
     \<lparr>sg_shutdown := False, sg_hostGroupResults := [(''a'', sample_entry ''x''), (''g'', sample_entry host)],
      sg_hostGroupAux := [(''g'', sample_aux_entry)]\<rparr>"

lemma sample_store_open [simp]: "store_open (sample_store host)"
  by (simp add: store_open_def sample_store_def Storage_new_def)

lemma sample_store_results [simp]:
  "group_results ''g'' (sg_hostGroupResults (sample_store host)) = [sample_entry host]"
  "group_results ''g'' (sg_hostGroupAux (sample_store host)) = [sample_aux_entry]"
  by (simp_all add: group_results_def sample_store_def equal_range_def)

lemma sample_entry_host [simp]: "gr_hostName (sample_entry host) = host"
  by (simp add: sample_entry_def)

lemma sample_result_storable: "CheckResult_storable sample_result"
  by (simp add: sample_result_def CheckResult_storable_def CheckResult_new_def ts_ok_def)

lemma sample_entry_fits: "host_fits host \<Longrightarrow> check_fits (sample_entry host)"
  by (simp add: check_fits_def sample_entry_def sample_result_storable)

lemma sample_entry_size: "length (put_check (sample_entry host)) = 4 + length host + IPAddress_sizeof + unat CheckResult_sizeof"
  by (simp add: put_check_def buffer_simps length_put_obj sizes)

lemma MDBM_check_results_roundtrip_witness:
  "\<exists>s'. MDBM_storeHostGroupCheckResults alist_lib ''g'' (sample_store ''h'') = Inr (s', True)
    \<and> MDBM_getHostGroupCheckResults_vector alist_lib ''g'' [] s' = Inr ([stored_check (sample_entry ''h'')], True)"
  using MDBM_check_results_roundtrip [OF alist_lib_ok sample_store_open [of "''h''"], of "''g''" "[]"]
    sample_entry_fits [of "''h''"]
  by (auto simp: host_fits_def clean_def sample_entry_size CheckResult_sizeof_def IPAddress_sizeof_def)

lemma MDBM_long_host_name_throws_witness:
  "\<exists>s'. MDBM_storeHostGroupCheckResults alist_lib ''g'' (sample_store (replicate 200 (CHR ''h''))) = Inr (s', True)
    \<and> MDBM_getHostGroupCheckResults alist_lib ''g'' s' = Inl length_error"
  by (rule MDBM_long_host_name_throws [OF alist_lib_ok sample_store_open,
        of "''g''" _ "[]" "sample_entry (replicate 200 (CHR ''h''))" "[]"])
    (simp_all add: sample_entry_size CheckResult_sizeof_def IPAddress_sizeof_def)

lemma MDBM_aux_info_roundtrip_witness:
  "\<exists>s'. MDBM_storeHostGroupAuxInfo alist_lib ''g'' (sample_store ''h'') = Inr (s', True)
    \<and> MDBM_getHostGroupGroupAuxInfo_vector alist_lib ''g'' [] s' = Inr ([stored_aux sample_aux_entry], True)"
proof -
  have "Aux_storable sample_oob" "Aux_totalSize sample_oob = 50"
    by (simp_all add: sample_oob_def clean_def OOB_totalSize_def OOB_sizeof_def ts_ok_def)
  then have "aux_fits sample_aux_entry" "length (put_aux sample_aux_entry) < 1000"
    by (simp_all add: aux_fits_def sample_aux_entry_def host_fits_def clean_def ts_ok_def put_aux_def buffer_simps
        length_put_obj sizes IPAddress_sizeof_def)
  then show ?thesis
    using MDBM_aux_info_roundtrip [OF alist_lib_ok sample_store_open [of "''h''"], of "''g''" "[]"] by auto
qed

lemma MDBM_configuration_roundtrip_witness:
  "(\<exists>s'. MDBM_storeHostGroupNames alist_lib [''a'', ''g''] (sample_store ''h'') = Inr (s', True)
      \<and> MDBM_getHostGroupNames alist_lib [] s' = Inr ([''a'', ''g''], True))
   \<and> (\<exists>s'. MDBM_storeGroupInfo alist_lib ''g'' sample_group (sample_store ''h'') = (s', True)
      \<and> MDBM_getGroupInfo alist_lib ''g'' (HostGroup_new ''t'') s' = Inr (stored_group (HostGroup_new ''t'') sample_group, True))"
proof -
  have "HostGroup_storable sample_group"
    by (simp add: sample_group_def HostGroup_new_def HostGroup_storable_def HostGroup_totalSize_def
        HostGroup_sizeof_def strings_size_def clean_def)
  moreover have "list_all name_fits [''a'', ''g'']" by (simp add: name_fits_def clean_def)
  moreover have "sorted [''a'', ''g'']" by simp
  ultimately show ?thesis
    using MDBM_configuration_roundtrip [OF alist_lib_ok sample_store_open [of "''h''"],
        of "[''a'', ''g'']" "[]" _ _ sample_group "''g''" "HostGroup_new ''t''"] by simp
qed

lemma MDBM_readonly_database_witness:
  "MDBM_storeHostGroupCheckResults alist_lib ''g'' (sample_store ''h''\<lparr>sg_readonly := True\<rparr>) =
     Inr (sample_store ''h''\<lparr>sg_readonly := True\<rparr>, False)"
  using MDBM_readonly_database [of "sample_store ''h''\<lparr>sg_readonly := True\<rparr>" alist_lib] by simp

end
