(* ===== verification/HM_Storage.thy ===== *)
theory HM_Storage
  imports HM_StorageMDBM
begin

text \<open>
  The storage by host group (\<open>HMStorage.cpp\<close>, \<open>HMStorageHostGroup.cpp\<close>): the queues of updates, the cache of
  the results of each group, the commit thread with its policies, and the start, which brings the
  results of an earlier run into the state. The virtual methods are those of
  \<open>HMStorageHostGroupMDBM\<close>. Clock readings are arguments. The errors of the raw buffers are errors
  here: an exception or undefined behaviour while the database is read.
\<close>

section \<open>\<open>HMStorage\<close>\<close>

definition CheckHeader_less :: "HMCheckHeader \<Rightarrow> HMCheckHeader \<Rightarrow> bool" where
  "CheckHeader_less a b \<longleftrightarrow>
     (if ch_hostname a \<noteq> ch_hostname b then ch_hostname a < ch_hostname b
      else if \<not> IPAddress_eq (ch_address a) (ch_address b) then IPAddress_less (ch_address a) (ch_address b)
      else if \<not> HostCheck_eq (ch_hostCheck a) (ch_hostCheck b) then HostCheck_less (ch_hostCheck a) (ch_hostCheck b)
      else CheckParams_less (ch_checkParams a) (ch_checkParams b))"

definition HM_MDBM_VERSION :: u8 where "HM_MDBM_VERSION = 3"

definition ConfigInfo_new :: HMConfigInfo where
  "ConfigInfo_new = \<lparr>ci_version = 0, ci_configStatus = 0, ci_configLoadTime = 0,
     ci_hash = \<lparr>ha_hashValue = replicate 64 (CHR 0x00), ha_hashSize = 0\<rparr>\<rparr>"

definition Storage_validateDBVersion ::
    "'db mdbm \<Rightarrow> 'db HMStorage \<Rightarrow> buffer_error + ('db HMStorage \<times> bool)" where
  "Storage_validateDBVersion lib s =
     res_bind (MDBM_getConfigInfo lib ConfigInfo_new s) (\<lambda>(configInfo, ok).
       if ok \<and> ci_version configInfo \<noteq> HM_MDBM_VERSION then Inr (MDBM_clearBackend lib s)
       else Inr (s, True))"

text \<open>\<open>openBackend\<close> is the argument: the database that \<open>mdbm_open\<close> gives, if it is a success.\<close>

definition Storage_openStore ::
    "'db mdbm \<Rightarrow> (bool \<Rightarrow> 'db option) \<Rightarrow> bool \<Rightarrow> 'db HMStorage \<Rightarrow> buffer_error + ('db HMStorage \<times> bool)" where
  "Storage_openStore lib openBackend readonly s =
     (let s = s\<lparr>sg_shutdown := False, sg_readonly := readonly\<rparr>
      in case openBackend readonly of None \<Rightarrow> Inr (s, False)
         | Some db \<Rightarrow>
             res_bind (Storage_validateDBVersion lib (s\<lparr>sg_db := db\<rparr>)) (\<lambda>(s, ok).
               if \<not> ok then Inr (s, False)
               else Inr (if readonly then s else s\<lparr>sg_thread := True\<rparr>, True)))"

definition Storage_updateAuxCommitPolicy :: "HM_STORAGE_COMMIT_POLICY \<Rightarrow> 'db HMStorage \<Rightarrow> 'db HMStorage" where
  "Storage_updateAuxCommitPolicy commitPolicy s = s\<lparr>sg_auxCommitPolicy := commitPolicy\<rparr>"

definition Storage_updateHealthCheckCommitPolicy ::
    "HM_STORAGE_COMMIT_POLICY \<Rightarrow> 'db HMStorage \<Rightarrow> 'db HMStorage" where
  "Storage_updateHealthCheckCommitPolicy commitPolicy s = s\<lparr>sg_healthCheckCommitPolicy := commitPolicy\<rparr>"

definition Storage_updateLockPolicy :: "HM_STORAGE_LOCK_POLICY \<Rightarrow> 'db HMStorage \<Rightarrow> 'db HMStorage" where
  "Storage_updateLockPolicy lockPolicy s = s\<lparr>sg_lockPolicy := lockPolicy\<rparr>"

section \<open>Results of a check\<close>

definition Storage_storeCheckResult ::
    "string \<Rightarrow> HMIPAddress \<Rightarrow> HMDataCheckParams \<Rightarrow> HMDataCheckResult \<Rightarrow> 'db HMStorage \<Rightarrow> 'db HMStorage \<times> bool"
  where
  "Storage_storeCheckResult hostname address checkParams checkResult s =
     (if sg_readonly s then (s, False)
      else
        let hostGroups = CheckParams_getHostGroups checkParams
        in if hostGroups = [] then (s, False)
           else (s\<lparr>sg_storeCheckQueue := sg_storeCheckQueue s @
                   map (\<lambda>g. \<lparr>gu_hostGroup = g, gu_hostName = hostname, gu_address = address,
                             gu_result = checkResult\<rparr>) hostGroups\<rparr>, True))"

definition matches_check :: "string \<Rightarrow> HMIPAddress \<Rightarrow> HMGroupCheckResult \<Rightarrow> bool" where
  "matches_check hostname address r \<longleftrightarrow> gr_address r = address \<and> gr_hostName r = hostname"

fun Storage_getCheckResult_loop ::
    "'db mdbm \<Rightarrow> string \<Rightarrow> HMIPAddress \<Rightarrow> string list \<Rightarrow> 'db HMStorage \<Rightarrow>
     buffer_error + ('db HMStorage \<times> HMDataCheckResult option)" where
  "Storage_getCheckResult_loop lib hostname address [] s = Inr (s, None)"
| "Storage_getCheckResult_loop lib hostname address (g # gs) s =
     res_bind (MDBM_getHostGroupCheckResults lib g s) (\<lambda>(s, ok).
       if ok then
         (case find (matches_check hostname address) (group_results g (sg_hostGroupResults s)) of
            Some r \<Rightarrow> Inr (s, Some (gr_result r))
          | None \<Rightarrow> Storage_getCheckResult_loop lib hostname address gs s)
       else Storage_getCheckResult_loop lib hostname address gs s)"

definition Storage_getCheckResult ::
    "'db mdbm \<Rightarrow> string \<Rightarrow> HMIPAddress \<Rightarrow> HMDataCheckParams \<Rightarrow> 'db HMStorage \<Rightarrow>
     buffer_error + ('db HMStorage \<times> HMDataCheckResult option)" where
  "Storage_getCheckResult lib hostname address checkParams s =
     Storage_getCheckResult_loop lib hostname address (CheckParams_getHostGroups checkParams) s"

text \<open>\<open>erase\<close> of the first entry of a group that matches.\<close>

fun erase_first :: "string \<Rightarrow> ('r \<Rightarrow> bool) \<Rightarrow> (string \<times> 'r) list \<Rightarrow> (string \<times> 'r) list" where
  "erase_first name P [] = []"
| "erase_first name P ((k, r) # m) =
     (if k = name \<and> P r then m else (k, r) # erase_first name P m)"

text \<open>The flag and the name that the loop keeps are not reset: a group without the entry makes the one
  before it be stored again.\<close>

definition purgeCheck_step ::
    "'db mdbm \<Rightarrow> string \<Rightarrow> HMIPAddress \<Rightarrow> string \<Rightarrow> 'db HMStorage \<times> string option \<Rightarrow>
     buffer_error + ('db HMStorage \<times> string option)" where
  "purgeCheck_step lib hostname address g = (\<lambda>(s, hostgroup).
     let P = matches_check hostname address;
         (s, hostgroup) =
           (if list_ex P (group_results g (sg_hostGroupResults s))
            then (s\<lparr>sg_hostGroupResults := erase_first g P (sg_hostGroupResults s)\<rparr>, Some g)
            else (s, hostgroup))
     in case hostgroup of None \<Rightarrow> Inr (s, None)
        | Some h \<Rightarrow> res_bind (MDBM_storeHostGroupCheckResults lib h s) (\<lambda>(s, _). Inr (s, Some h)))"

definition Storage_purgeCheckResult ::
    "'db mdbm \<Rightarrow> string \<Rightarrow> HMIPAddress \<Rightarrow> HMDataCheckParams \<Rightarrow> 'db HMStorage \<Rightarrow> buffer_error + ('db HMStorage \<times> bool)"
  where
  "Storage_purgeCheckResult lib hostname address checkParams s =
     res_bind (res_fold (purgeCheck_step lib hostname address) (CheckParams_getHostGroups checkParams) (s, None))
       (\<lambda>(s, _). Inr (s, True))"

section \<open>Auxiliary data\<close>

definition Storage_storeAuxInfo ::
    "string \<Rightarrow> HMIPAddress \<Rightarrow> HMDataCheckParams \<Rightarrow> HMAuxInfo \<Rightarrow> 'db HMStorage \<Rightarrow> 'db HMStorage \<times> bool" where
  "Storage_storeAuxInfo hostname address checkParams auxInfo s =
     (if sg_readonly s then (s, False)
      else
        let hostGroups = CheckParams_getHostGroups checkParams
        in if hostGroups = [] then (s, False)
           else (s\<lparr>sg_storeAuxQueue := sg_storeAuxQueue s @
                   map (\<lambda>g. \<lparr>gx_hostGroup = g, gx_hostName = hostname, gx_address = address,
                             gx_info = AuxInfo_copy auxInfo\<rparr>) hostGroups\<rparr>, True))"

definition matches_aux :: "string \<Rightarrow> HMIPAddress \<Rightarrow> HMGroupAuxResult \<Rightarrow> bool" where
  "matches_aux hostname address r \<longleftrightarrow> ga_address r = address \<and> ga_hostName r = hostname"

fun Storage_getAuxInfo_loop ::
    "'db mdbm \<Rightarrow> string \<Rightarrow> HMIPAddress \<Rightarrow> string list \<Rightarrow> 'db HMStorage \<Rightarrow>
     buffer_error + ('db HMStorage \<times> HMAuxInfo option)" where
  "Storage_getAuxInfo_loop lib hostname address [] s = Inr (s, None)"
| "Storage_getAuxInfo_loop lib hostname address (g # gs) s =
     res_bind (MDBM_getHostGroupGroupAuxInfo lib g s) (\<lambda>(s, ok).
       if ok then
         (case find (matches_aux hostname address) (group_results g (sg_hostGroupAux s)) of
            Some r \<Rightarrow> Inr (s, Some (AuxInfo_copy (ga_info r)))
          | None \<Rightarrow> Storage_getAuxInfo_loop lib hostname address gs s)
       else Storage_getAuxInfo_loop lib hostname address gs s)"

definition Storage_getAuxInfo ::
    "'db mdbm \<Rightarrow> string \<Rightarrow> HMIPAddress \<Rightarrow> HMDataCheckParams \<Rightarrow> 'db HMStorage \<Rightarrow>
     buffer_error + ('db HMStorage \<times> HMAuxInfo option)" where
  "Storage_getAuxInfo lib hostname address checkParams s =
     Storage_getAuxInfo_loop lib hostname address (CheckParams_getHostGroups checkParams) s"

definition purgeAux_step ::
    "'db mdbm \<Rightarrow> string \<Rightarrow> HMIPAddress \<Rightarrow> string \<Rightarrow> 'db HMStorage \<times> string option \<Rightarrow>
     buffer_error + ('db HMStorage \<times> string option)" where
  "purgeAux_step lib hostname address g = (\<lambda>(s, hostgroup).
     res_bind (MDBM_getHostGroupGroupAuxInfo lib g s) (\<lambda>(s, ok).
       let P = matches_aux hostname address;
           (s, hostgroup) =
             (if ok \<and> list_ex P (group_results g (sg_hostGroupAux s))
              then (s\<lparr>sg_hostGroupAux := erase_first g P (sg_hostGroupAux s)\<rparr>, Some g)
              else (s, hostgroup))
       in case hostgroup of None \<Rightarrow> Inr (s, None)
          | Some h \<Rightarrow> res_bind (MDBM_storeHostGroupAuxInfo lib h s) (\<lambda>(s, _). Inr (s, Some h))))"

definition Storage_purgeAuxInfo ::
    "'db mdbm \<Rightarrow> string \<Rightarrow> HMIPAddress \<Rightarrow> HMDataCheckParams \<Rightarrow> 'db HMStorage \<Rightarrow> buffer_error + ('db HMStorage \<times> bool)"
  where
  "Storage_purgeAuxInfo lib hostname address checkParams s =
     res_bind (res_fold (purgeAux_step lib hostname address) (CheckParams_getHostGroups checkParams) (s, None))
       (\<lambda>(s, _). Inr (s, True))"

section \<open>Lookups\<close>

fun getDNS_group ::
    "'db mdbm \<Rightarrow> string \<Rightarrow> string list \<Rightarrow> 'db HMStorage \<Rightarrow> buffer_error + string option" where
  "getDNS_group lib hostname [] s = Inr None"
| "getDNS_group lib hostname (g # gs) s =
     res_bind (MDBM_getGroupInfo lib g (HostGroup_new g) s) (\<lambda>(groupInfo, ok).
       if ok \<and> hostname \<in> set (hg_hosts groupInfo) \<and> g \<noteq> [] then Inr (Some g)
       else getDNS_group lib hostname gs s)"

text \<open>The addresses, a set, and the result.\<close>

definition Storage_getDNS ::
    "'db mdbm \<Rightarrow> string \<Rightarrow> 'db HMStorage \<Rightarrow> buffer_error + (HMIPAddress list \<times> bool)" where
  "Storage_getDNS lib hostname s =
     res_bind (MDBM_getHostGroupNames lib [] s) (\<lambda>(groups, ok).
       if \<not> ok then Inr ([], False)
       else res_bind (getDNS_group lib hostname groups s) (\<lambda>foundGroup.
         case foundGroup of None \<Rightarrow> Inr ([], False)
         | Some g \<Rightarrow>
             res_bind (MDBM_getHostGroupCheckResults_vector lib g [] s) (\<lambda>(results, ok).
               if \<not> ok then Inr ([], False)
               else Inr (fold (\<lambda>r ips. if gr_hostName r = hostname then insort_insert (gr_address r) ips else ips)
                           results [], True))))"

section \<open>Caches\<close>

text \<open>The flag \<open>found\<close> is not reset from one group to the next.\<close>

definition updateCheckCache_step ::
    "HMTimeStamp \<Rightarrow> HMCheckHeader \<Rightarrow> HMDataCheckResult \<Rightarrow> string \<Rightarrow>
     bool \<times> (string \<times> HMGroupCheckResult) list \<Rightarrow> bool \<times> (string \<times> HMGroupCheckResult) list" where
  "updateCheckCache_step now header result groupName = (\<lambda>(found, m).
     let P = matches_check (ch_hostname header) (cr_address result);
         found = (found \<or> list_ex P (group_results groupName m));
         m = map (\<lambda>(k, r). (k, if k = groupName \<and> P r
                    then r\<lparr>gr_result := result\<lparr>cr_address := cr_address result\<rparr>, gr_address := cr_address result\<rparr>
                    else r)) m
     in (found, if found then m
                else mmap_insert (<) groupName
                       (GroupCheckResult_new now (ch_hostname header) (ch_address header) result) m))"

definition Storage_updateCheckResultCache ::
    "HMTimeStamp \<Rightarrow> HMCheckHeader \<Rightarrow> HMDataCheckResult \<Rightarrow> 'db HMStorage \<Rightarrow> 'db HMStorage \<times> bool" where
  "Storage_updateCheckResultCache now header result s =
     (s\<lparr>sg_hostGroupResults := snd (fold (updateCheckCache_step now header result)
         (CheckParams_getHostGroups (ch_checkParams header)) (False, sg_hostGroupResults s))\<rparr>, True)"

text \<open>\<open>updateCheckResultsCache\<close>, a protected method, has the same body.\<close>

definition Storage_updateCheckResultsCache ::
    "HMTimeStamp \<Rightarrow> HMCheckHeader \<Rightarrow> HMDataCheckResult \<Rightarrow> 'db HMStorage \<Rightarrow> 'db HMStorage \<times> bool" where
  "Storage_updateCheckResultsCache now header result s =
     (s\<lparr>sg_hostGroupResults := snd (fold (updateCheckCache_step now header result)
         (CheckParams_getHostGroups (ch_checkParams header)) (False, sg_hostGroupResults s))\<rparr>, True)"

definition updateAuxCache_step ::
    "HMTimeStamp \<Rightarrow> HMCheckHeader \<Rightarrow> HMAuxInfo \<Rightarrow> string \<Rightarrow>
     bool \<times> (string \<times> HMGroupAuxResult) list \<Rightarrow> bool \<times> (string \<times> HMGroupAuxResult) list" where
  "updateAuxCache_step now header aux groupName = (\<lambda>(found, m).
     let P = matches_aux (ch_hostname header) (ch_address header);
         found = (found \<or> list_ex P (group_results groupName m));
         m = map (\<lambda>(k, r). (k, if k = groupName \<and> P r
                    then r\<lparr>ga_address := ch_address header, ga_info := AuxInfo_copy aux\<rparr> else r)) m
     in (found, if found then m
                else mmap_insert (<) groupName
                       (GroupAuxResult_new now (ch_hostname header) (ch_address header) aux) m))"

definition Storage_updateAuxInfoCache ::
    "HMTimeStamp \<Rightarrow> HMCheckHeader \<Rightarrow> HMAuxInfo \<Rightarrow> 'db HMStorage \<Rightarrow> 'db HMStorage \<times> bool" where
  "Storage_updateAuxInfoCache now header aux s =
     (s\<lparr>sg_hostGroupAux := snd (fold (updateAuxCache_step now header aux)
         (CheckParams_getHostGroups (ch_checkParams header)) (False, sg_hostGroupAux s))\<rparr>, True)"

definition Storage_updateHostGroups ::
    "'db mdbm \<Rightarrow> string list \<Rightarrow> 'db HMStorage \<Rightarrow> buffer_error + 'db HMStorage" where
  "Storage_updateHostGroups lib hostGroups s =
     res_fold (\<lambda>g s.
         if smap_find (<) g (sg_hostGroupResults s) \<noteq> None
         then res_bind (MDBM_storeHostGroupCheckResults lib g s) (\<lambda>(s, _). Inr s)
         else Inr (fst (MDBM_removeHostGroupCheckResults lib g s))) hostGroups s"

definition Storage_storeHostGroupCheckResult ::
    "'db mdbm \<Rightarrow> string \<Rightarrow> HMGroupCheckResult list \<Rightarrow> 'db HMStorage \<Rightarrow> buffer_error + ('db HMStorage \<times> bool)" where
  "Storage_storeHostGroupCheckResult lib hostgroupname checkResult s =
     (if sg_readonly s then Inr (s, False)
      else res_bind (MDBM_storeHostGroupCheckResults lib hostgroupname
               (s\<lparr>sg_hostGroupResults := replace_group hostgroupname checkResult (sg_hostGroupResults s)\<rparr>))
             (\<lambda>(s, _). Inr (s, True)))"

definition Storage_storeHostGroupAuxResult ::
    "'db mdbm \<Rightarrow> string \<Rightarrow> HMGroupAuxResult list \<Rightarrow> 'db HMStorage \<Rightarrow> buffer_error + ('db HMStorage \<times> bool)" where
  "Storage_storeHostGroupAuxResult lib hostgroupname auxResult s =
     (if sg_readonly s then Inr (s, False)
      else res_bind (MDBM_storeHostGroupAuxInfo lib hostgroupname
               (s\<lparr>sg_hostGroupAux := replace_group hostgroupname auxResult (sg_hostGroupAux s)\<rparr>))
             (\<lambda>(s, _). Inr (s, True)))"

definition resolved_check :: "HMGroupCheckResult \<Rightarrow> bool" where
  "resolved_check r \<longleftrightarrow>
     cr_response (gr_result r) \<noteq> HM_RESPONSE_DNS_FAILED \<and> cr_response (gr_result r) \<noteq> HM_RESPONSE_NONE"

definition Storage_getGroupCheckResults ::
    "'db mdbm \<Rightarrow> string \<Rightarrow> bool \<Rightarrow> bool \<Rightarrow> 'db HMStorage \<Rightarrow>
     buffer_error + ('db HMStorage \<times> HMGroupCheckResult list \<times> bool)" where
  "Storage_getGroupCheckResults lib groupName noCache onlyResolved s =
     (let keep = filter (\<lambda>r. \<not> onlyResolved \<or> resolved_check r)
      in if noCache then
           res_bind (MDBM_getHostGroupCheckResults_vector lib groupName [] s) (\<lambda>(tmp, ok).
             if \<not> ok then Inr (s, [], False) else Inr (s, keep tmp, True))
         else
           res_bind (MDBM_getHostGroupCheckResults lib groupName s) (\<lambda>(s, ok).
             if \<not> ok then Inr (s, [], False)
             else Inr (s, keep (group_results groupName (sg_hostGroupResults s)), True)))"

definition Storage_getGroupCheckResults_cached :: "string \<Rightarrow> 'db HMStorage \<Rightarrow> HMGroupCheckResult list \<times> bool" where
  "Storage_getGroupCheckResults_cached groupName s = (group_results groupName (sg_hostGroupResults s), True)"

definition resolved_aux :: "HMGroupAuxResult \<Rightarrow> bool" where
  "resolved_aux r \<longleftrightarrow>
     IPAddress_getType (ga_address r) = AF_INET6 \<and> ga_address r \<noteq> IPAddress_new AF_INET6
     \<or> IPAddress_getType (ga_address r) = AF_INET \<and> ga_address r \<noteq> IPAddress_new AF_INET"

text \<open>The results of the two reads are not looked at.\<close>

definition Storage_getGroupAuxInfo ::
    "'db mdbm \<Rightarrow> HMTimeStamp \<Rightarrow> string \<Rightarrow> bool \<Rightarrow> bool \<Rightarrow> 'db HMStorage \<Rightarrow>
     buffer_error + ('db HMStorage \<times> HMGroupAuxResult list \<times> bool)" where
  "Storage_getGroupAuxInfo lib now groupName noCache onlyResolved s =
     (let out = (\<lambda>rs. map (\<lambda>r. GroupAuxResult_new now (ga_hostName r) (ga_address r) (ga_info r))
            (filter (\<lambda>r. \<not> onlyResolved \<or> resolved_aux r) rs))
      in if noCache then
           res_bind (MDBM_getHostGroupGroupAuxInfo_vector lib groupName [] s) (\<lambda>(tmp, _). Inr (s, out tmp, True))
         else
           res_bind (MDBM_getHostGroupGroupAuxInfo lib groupName s) (\<lambda>(s, _).
             Inr (s, out (group_results groupName (sg_hostGroupAux s)), True)))"

definition Storage_getInternalHostGroupInfo :: "string \<Rightarrow> 'db HMStorage \<Rightarrow> HMDataHostGroup option" where
  "Storage_getInternalHostGroupInfo hostGroupName s = group_find hostGroupName (sg_hostGroupMap s)"

definition Storage_getInternalCheckResults :: "string \<Rightarrow> 'db HMStorage \<Rightarrow> HMGroupCheckResult list \<times> u32" where
  "Storage_getInternalCheckResults hostGroupName s =
     (let rs = group_results hostGroupName (sg_hostGroupResults s) in (rs, of_nat (length rs)))"

section \<open>Commit\<close>

text \<open>An entry that an update replaces: the same address, or the zero address of its family, of the same
  host.\<close>

definition takes_update :: "string \<Rightarrow> HMIPAddress \<Rightarrow> string \<Rightarrow> HMIPAddress \<Rightarrow> bool" where
  "takes_update hostName address entryHost entryAddress \<longleftrightarrow>
     entryHost = hostName
     \<and> (entryAddress = address
        \<or> IPAddress_getType address = AF_INET6 \<and> entryAddress = IPAddress_new AF_INET6
        \<or> IPAddress_getType address = AF_INET \<and> entryAddress = IPAddress_new AF_INET)"

text \<open>What the loop over the entries of the group collects.\<close>

record commit_scan =
  cs_found :: bool
  cs_allStale :: bool
  cs_oldest :: HMTimeStamp
  cs_hosts :: "string list"

definition scan_new :: "HMTimeStamp \<Rightarrow> commit_scan" where
  "scan_new now = \<lparr>cs_found = False, cs_allStale = True, cs_oldest = now, cs_hosts = []\<rparr>"

definition scan_entry :: "bool \<Rightarrow> HMTimeStamp \<Rightarrow> string \<Rightarrow> commit_scan \<Rightarrow> commit_scan" where
  "scan_entry stale commitTime host c =
     c\<lparr>cs_allStale := cs_allStale c \<and> stale,
       cs_oldest := (if commitTime < cs_oldest c then commitTime else cs_oldest c),
       cs_hosts := insort_insert host (cs_hosts c)\<rparr>"

fun commit_scan_checks ::
    "HMGroupCheckUpdate \<Rightarrow> (string \<times> HMGroupCheckResult) list \<Rightarrow> commit_scan \<Rightarrow>
     (string \<times> HMGroupCheckResult) list \<times> commit_scan" where
  "commit_scan_checks update [] c = ([], c)"
| "commit_scan_checks update ((k, r) # m) c =
     (if k \<noteq> gu_hostGroup update then
        let (m, c) = commit_scan_checks update m c in ((k, r) # m, c)
      else
        let (r, c) =
              (if \<not> cs_found c \<and> takes_update (gu_hostName update) (gu_address update) (gr_hostName r) (gr_address r)
               then (r\<lparr>gr_result := (gu_result update)\<lparr>cr_address := gu_address update\<rparr>,
                       gr_address := gu_address update, gr_backendStale := True\<rparr>,
                     c\<lparr>cs_found := True\<rparr>)
               else (r, c));
            c = scan_entry (gr_backendStale r) (gr_commitTime r) (gr_hostName r) c;
            (m, c) = commit_scan_checks update m c
        in ((k, r) # m, c))"

text \<open>The decision to write the group. \<open>front()\<close> of an empty list of hosts is undefined.\<close>

definition commit_due ::
    "HM_STORAGE_COMMIT_POLICY \<Rightarrow> HMTimeStamp \<Rightarrow> string \<Rightarrow> HMDataHostGroup \<Rightarrow> bool \<Rightarrow> commit_scan \<Rightarrow>
     buffer_error + bool" where
  "commit_due policy now hostName grp coldStart c =
     (if coldStart then Inr True
      else case policy of
          HM_STORAGE_COMMIT_ALWAYS \<Rightarrow> Inr True
        | HM_STORAGE_COMMIT_ON_FIRST \<Rightarrow>
            (case hg_hosts grp of [] \<Rightarrow> Inl past_end | h # _ \<Rightarrow> Inr (hostName = h))
        | HM_STORAGE_COMMIT_ON_ALL_READY \<Rightarrow> Inr (cs_allStale c)
        | HM_STORAGE_COMMIT_ON_TTL \<Rightarrow> Inr (hg_checkTTL grp < ts_diff now (cs_oldest c)))"

definition address_valid :: "string \<Rightarrow> HMIPAddress \<Rightarrow> HMDataHostGroup \<Rightarrow> HMDNSCache \<Rightarrow> bool" where
  "address_valid hostName address grp dnsCache \<longleftrightarrow>
     DNSCache_isValidAddress hostName (hg_dualstack grp)
       (DNSLookup_new (hg_DNSType grp) (IPAddress_getType address = AF_INET6) (hg_remoteCheck grp)) address
       dnsCache"

definition mark_committed ::
    "HMTimeStamp \<Rightarrow> string \<Rightarrow> (string \<times> HMGroupCheckResult) list \<Rightarrow> (string \<times> HMGroupCheckResult) list" where
  "mark_committed now name m =
     map (\<lambda>(k, r). (k, if k = name then r\<lparr>gr_backendStale := False, gr_commitTime := now\<rparr> else r)) m"

text \<open>\<open>commitHealthCheck\<close>. The clock readings of one call are one argument.\<close>

definition Storage_commitHealthCheck ::
    "'db mdbm \<Rightarrow> HMTimeStamp \<Rightarrow> 'db HMStorage \<Rightarrow> buffer_error + ('db HMStorage \<times> bool)" where
  "Storage_commitHealthCheck lib now s =
     (case sg_storeCheckQueue s of [] \<Rightarrow> Inr (s, False)
      | update # queue \<Rightarrow>
          let s = s\<lparr>sg_storeCheckQueue := queue\<rparr>; name = gu_hostGroup update
          in case group_find name (sg_hostGroupMap s) of None \<Rightarrow> Inr (s, False)
             | Some grp \<Rightarrow>
                 if \<not> address_valid (gu_hostName update) (gu_address update) grp (sg_dnsCache s)
                    \<and> hg_flowType grp = HM_FLOW_DNS_HEALTH_TYPE then Inr (s, True)
                 else
                   let (m, c) = commit_scan_checks update (sg_hostGroupResults s) (scan_new now);
                       coldStart = (\<not> cs_found c);
                       hosts = (if coldStart then insort_insert (gu_hostName update) (cs_hosts c) else cs_hosts c);
                       m = (if coldStart then mmap_insert (<) name
                              (GroupCheckResult_new now (gu_hostName update) (gu_address update) (gu_result update)) m
                            else m);
                       s = s\<lparr>sg_hostGroupResults := m\<rparr>
                   in if length hosts < length (hg_hosts grp) then Inr (s, True)
                      else res_bind (commit_due (sg_healthCheckCommitPolicy s) now (gu_hostName update) grp coldStart c)
                        (\<lambda>due. if due then
                             res_bind (MDBM_storeHostGroupCheckResults lib name s) (\<lambda>(s, _).
                               Inr (s\<lparr>sg_hostGroupResults := mark_committed now name (sg_hostGroupResults s)\<rparr>, True))
                           else Inr (s, True)))"

fun commit_scan_aux ::
    "HMGroupAuxUpdate \<Rightarrow> (string \<times> HMGroupAuxResult) list \<Rightarrow> commit_scan \<Rightarrow>
     (string \<times> HMGroupAuxResult) list \<times> commit_scan" where
  "commit_scan_aux update [] c = ([], c)"
| "commit_scan_aux update ((k, r) # m) c =
     (if k \<noteq> gx_hostGroup update then
        let (m, c) = commit_scan_aux update m c in ((k, r) # m, c)
      else
        let (r, c) =
              (if \<not> cs_found c \<and> takes_update (gx_hostName update) (gx_address update) (ga_hostName r) (ga_address r)
               then (r\<lparr>ga_hostName := gx_hostName update, ga_address := gx_address update,
                       ga_info := AuxInfo_copy (gx_info update), ga_backendStale := True\<rparr>,
                     c\<lparr>cs_found := True\<rparr>)
               else (r, c));
            c = scan_entry (ga_backendStale r) (ga_commitTime r) (ga_hostName r) c;
            (m, c) = commit_scan_aux update m c
        in ((k, r) # m, c))"

definition mark_aux_committed ::
    "HMTimeStamp \<Rightarrow> string \<Rightarrow> (string \<times> HMGroupAuxResult) list \<Rightarrow> (string \<times> HMGroupAuxResult) list" where
  "mark_aux_committed now name m =
     map (\<lambda>(k, r). (k, if k = name then r\<lparr>ga_backendStale := False, ga_commitTime := now\<rparr> else r)) m"

definition Storage_commitAuxInfo ::
    "'db mdbm \<Rightarrow> HMTimeStamp \<Rightarrow> 'db HMStorage \<Rightarrow> buffer_error + ('db HMStorage \<times> bool)" where
  "Storage_commitAuxInfo lib now s =
     (case sg_storeAuxQueue s of [] \<Rightarrow> Inr (s, False)
      | update # queue \<Rightarrow>
          let s = s\<lparr>sg_storeAuxQueue := queue\<rparr>; name = gx_hostGroup update
          in case group_find name (sg_hostGroupMap s) of None \<Rightarrow> Inr (s, False)
             | Some grp \<Rightarrow>
                 if \<not> address_valid (gx_hostName update) (gx_address update) grp (sg_dnsCache s)
                    \<and> hg_flowType grp = HM_FLOW_DNS_HEALTH_TYPE then Inr (s, True)
                 else
                   let (m, c) = commit_scan_aux update (sg_hostGroupAux s) (scan_new now);
                       coldStart = (\<not> cs_found c);
                       m = (if coldStart then mmap_insert (<) name
                              (GroupAuxResult_new now (gx_hostName update) (gx_address update) (gx_info update)) m
                            else m);
                       s = s\<lparr>sg_hostGroupAux := m\<rparr>
                   in res_bind (commit_due (sg_auxCommitPolicy s) now (gx_hostName update) grp coldStart c)
                        (\<lambda>due. if due then
                             res_bind (MDBM_storeHostGroupAuxInfo lib name s) (\<lambda>(s, _).
                               Inr (s\<lparr>sg_hostGroupAux := mark_aux_committed now name (sg_hostGroupAux s)\<rparr>, True))
                           else Inr (s, True)))"

text \<open>The loops of the commit thread: the condition it waits for, which does the work, and the loop after
  a shutdown.\<close>

definition runStore_ready ::
    "'db mdbm \<Rightarrow> HMTimeStamp \<Rightarrow> 'db HMStorage \<Rightarrow> buffer_error + ('db HMStorage \<times> bool)" where
  "runStore_ready lib now s =
     res_bind (Storage_commitHealthCheck lib now s) (\<lambda>(s, done).
       if done then Inr (s, True)
       else res_bind (Storage_commitAuxInfo lib now s) (\<lambda>(s, done).
         if done then Inr (s, True) else Inr (s, sg_shutdown s)))"

text \<open>A write to the database leaves the fields of the store.\<close>

definition same_store :: "'db HMStorage \<Rightarrow> 'db HMStorage \<Rightarrow> bool" where
  "same_store s s' \<longleftrightarrow> (\<exists>db. s' = s\<lparr>sg_db := db\<rparr>)"

lemma same_store_fields:
  assumes "same_store s s'"
  shows "sg_shutdown s' = sg_shutdown s" "sg_readonly s' = sg_readonly s" "sg_thread s' = sg_thread s"
    "sg_storeCheckQueue s' = sg_storeCheckQueue s" "sg_storeAuxQueue s' = sg_storeAuxQueue s"
    "sg_hostGroupMap s' = sg_hostGroupMap s" "sg_dnsCache s' = sg_dnsCache s"
    "sg_hostGroupResults s' = sg_hostGroupResults s" "sg_hostGroupAux s' = sg_hostGroupAux s"
    "sg_lockPolicy s' = sg_lockPolicy s" "sg_auxCommitPolicy s' = sg_auxCommitPolicy s"
    "sg_healthCheckCommitPolicy s' = sg_healthCheckCommitPolicy s"
  using assms by (auto simp: same_store_def)

lemma same_store_refl [simp]: "same_store s s"
  by (auto simp: same_store_def intro: exI [of _ "sg_db s"])

lemma mdbm_write_same: "mdbm_write lib f s = (s', ok) \<Longrightarrow> same_store s s'"
  by (auto simp: mdbm_write_def same_store_def split: if_splits prod.splits intro: exI [of _ "sg_db s"])

lemma db_writes_keep:
  "MDBM_storeHostGroupCheckResults lib name s = Inr (s', ok) \<Longrightarrow> same_store s s'"
  "MDBM_storeHostGroupAuxInfo lib name s = Inr (s', ok) \<Longrightarrow> same_store s s'"
  by (auto simp: MDBM_storeHostGroupCheckResults_def MDBM_storeHostGroupAuxInfo_def Let_def
      split: if_splits dest: mdbm_write_same)

text \<open>A commit takes the first update and changes the cached results and the database, nothing else.\<close>

definition commit_frame :: "'db HMStorage \<Rightarrow> 'db HMStorage \<Rightarrow> bool" where
  "commit_frame s s' \<longleftrightarrow>
     sg_shutdown s' = sg_shutdown s \<and> sg_readonly s' = sg_readonly s \<and> sg_thread s' = sg_thread s
     \<and> sg_auxCommitPolicy s' = sg_auxCommitPolicy s \<and> sg_healthCheckCommitPolicy s' = sg_healthCheckCommitPolicy s
     \<and> sg_lockPolicy s' = sg_lockPolicy s \<and> sg_hostGroupMap s' = sg_hostGroupMap s \<and> sg_dnsCache s' = sg_dnsCache s"

lemma commit_frame_trans: "commit_frame s s' \<Longrightarrow> commit_frame s' s'' \<Longrightarrow> commit_frame s s''"
  by (auto simp: commit_frame_def)

definition check_taken :: "HMGroupCheckUpdate list \<Rightarrow> 'db HMStorage \<Rightarrow> 'db HMStorage \<Rightarrow> bool" where
  "check_taken q s s' \<longleftrightarrow> (\<exists>m db. s' = s\<lparr>sg_storeCheckQueue := q, sg_hostGroupResults := m, sg_db := db\<rparr>)"

definition aux_taken :: "HMGroupAuxUpdate list \<Rightarrow> 'db HMStorage \<Rightarrow> 'db HMStorage \<Rightarrow> bool" where
  "aux_taken q s s' \<longleftrightarrow> (\<exists>m db. s' = s\<lparr>sg_storeAuxQueue := q, sg_hostGroupAux := m, sg_db := db\<rparr>)"

lemma check_taken_intros:
  "check_taken q s (s\<lparr>sg_storeCheckQueue := q\<rparr>)"
  "check_taken q s (s\<lparr>sg_storeCheckQueue := q, sg_hostGroupResults := m\<rparr>)"
  "MDBM_storeHostGroupCheckResults lib name (s\<lparr>sg_storeCheckQueue := q, sg_hostGroupResults := m\<rparr>) = Inr (s2, ok) \<Longrightarrow>
     check_taken q s (s2\<lparr>sg_hostGroupResults := m'\<rparr>)"
proof -
  show "check_taken q s (s\<lparr>sg_storeCheckQueue := q\<rparr>)" unfolding check_taken_def
    by (intro exI [of _ "sg_hostGroupResults s"] exI [of _ "sg_db s"]) simp
  show "check_taken q s (s\<lparr>sg_storeCheckQueue := q, sg_hostGroupResults := m\<rparr>)" unfolding check_taken_def
    by (intro exI [of _ m] exI [of _ "sg_db s"]) simp
  assume "MDBM_storeHostGroupCheckResults lib name (s\<lparr>sg_storeCheckQueue := q, sg_hostGroupResults := m\<rparr>) = Inr (s2, ok)"
  then obtain db where "s2 = s\<lparr>sg_storeCheckQueue := q, sg_hostGroupResults := m, sg_db := db\<rparr>"
    using db_writes_keep(1) by (force simp: same_store_def)
  then show "check_taken q s (s2\<lparr>sg_hostGroupResults := m'\<rparr>)" unfolding check_taken_def
    by (intro exI [of _ m'] exI [of _ db]) simp
qed

lemma aux_taken_intros:
  "aux_taken q s (s\<lparr>sg_storeAuxQueue := q\<rparr>)"
  "aux_taken q s (s\<lparr>sg_storeAuxQueue := q, sg_hostGroupAux := m\<rparr>)"
  "MDBM_storeHostGroupAuxInfo lib name (s\<lparr>sg_storeAuxQueue := q, sg_hostGroupAux := m\<rparr>) = Inr (s2, ok) \<Longrightarrow>
     aux_taken q s (s2\<lparr>sg_hostGroupAux := m'\<rparr>)"
proof -
  show "aux_taken q s (s\<lparr>sg_storeAuxQueue := q\<rparr>)" unfolding aux_taken_def
    by (intro exI [of _ "sg_hostGroupAux s"] exI [of _ "sg_db s"]) simp
  show "aux_taken q s (s\<lparr>sg_storeAuxQueue := q, sg_hostGroupAux := m\<rparr>)" unfolding aux_taken_def
    by (intro exI [of _ m] exI [of _ "sg_db s"]) simp
  assume "MDBM_storeHostGroupAuxInfo lib name (s\<lparr>sg_storeAuxQueue := q, sg_hostGroupAux := m\<rparr>) = Inr (s2, ok)"
  then obtain db where "s2 = s\<lparr>sg_storeAuxQueue := q, sg_hostGroupAux := m, sg_db := db\<rparr>"
    using db_writes_keep(2) by (force simp: same_store_def)
  then show "aux_taken q s (s2\<lparr>sg_hostGroupAux := m'\<rparr>)" unfolding aux_taken_def
    by (intro exI [of _ m'] exI [of _ db]) simp
qed

lemma commit_takes:
  "Storage_commitHealthCheck lib now s = Inr (s', ok) \<Longrightarrow>
     (if sg_storeCheckQueue s = [] then s' = s \<and> \<not> ok else check_taken (tl (sg_storeCheckQueue s)) s s')"
  "Storage_commitAuxInfo lib now s = Inr (s', ok) \<Longrightarrow>
     (if sg_storeAuxQueue s = [] then s' = s \<and> \<not> ok else aux_taken (tl (sg_storeAuxQueue s)) s s')"
proof -
  assume "Storage_commitHealthCheck lib now s = Inr (s', ok)"
  then show "if sg_storeCheckQueue s = [] then s' = s \<and> \<not> ok else check_taken (tl (sg_storeCheckQueue s)) s s'"
    by (cases "sg_storeCheckQueue s")
      (auto simp: Storage_commitHealthCheck_def Let_def res_bind_Inr split_beta intro: check_taken_intros
        split: option.splits if_splits)
next
  assume "Storage_commitAuxInfo lib now s = Inr (s', ok)"
  then show "if sg_storeAuxQueue s = [] then s' = s \<and> \<not> ok else aux_taken (tl (sg_storeAuxQueue s)) s s'"
    by (cases "sg_storeAuxQueue s")
      (auto simp: Storage_commitAuxInfo_def Let_def res_bind_Inr split_beta intro: aux_taken_intros
        split: option.splits if_splits)
qed

lemma commit_keeps:
  "Storage_commitHealthCheck lib now s = Inr (s', ok) \<Longrightarrow> commit_frame s s'"
  "Storage_commitAuxInfo lib now s = Inr (s', ok) \<Longrightarrow> commit_frame s s'"
  by (auto dest!: commit_takes simp: check_taken_def aux_taken_def commit_frame_def split: if_splits)

lemma commit_queues:
  "Storage_commitHealthCheck lib now s = Inr (s', ok) \<Longrightarrow>
     sg_storeCheckQueue s' = tl (sg_storeCheckQueue s) \<and> sg_storeAuxQueue s' = sg_storeAuxQueue s
     \<and> (ok \<longrightarrow> sg_storeCheckQueue s \<noteq> [])"
  "Storage_commitAuxInfo lib now s = Inr (s', ok) \<Longrightarrow>
     sg_storeAuxQueue s' = tl (sg_storeAuxQueue s) \<and> sg_storeCheckQueue s' = sg_storeCheckQueue s
     \<and> (ok \<longrightarrow> sg_storeAuxQueue s \<noteq> [])"
  by (auto dest!: commit_takes simp: check_taken_def aux_taken_def split: if_splits)

text \<open>The loop after a shutdown. Each commit reads the clock, the one of number \<open>n\<close> as \<open>clock n\<close>. It ends
  because every round but the last takes an update from one of the queues.\<close>

function Storage_drain ::
    "'db mdbm \<Rightarrow> (nat \<Rightarrow> HMTimeStamp) \<Rightarrow> nat \<Rightarrow> 'db HMStorage \<Rightarrow> buffer_error + 'db HMStorage" where
  "Storage_drain lib clock n s =
     (case Storage_commitHealthCheck lib (clock n) s of Inl e \<Rightarrow> Inl e
      | Inr (s, True) \<Rightarrow> Storage_drain lib clock (Suc n) s
      | Inr (s, False) \<Rightarrow>
          (case Storage_commitAuxInfo lib (clock n) s of Inl e \<Rightarrow> Inl e
           | Inr (s, True) \<Rightarrow> Storage_drain lib clock (Suc n) s
           | Inr (s, False) \<Rightarrow> Inr s))"
  by pat_completeness auto
termination
  by (relation "measure (\<lambda>(lib, clock, n, s). length (sg_storeCheckQueue s) + length (sg_storeAuxQueue s))")
    (auto dest!: commit_queues simp: length_greater_0_conv [symmetric] simp del: length_greater_0_conv)

declare Storage_drain.simps [simp del]

text \<open>
  \<open>closeStore\<close>, and what the commit thread does from there on. The thread is either waiting, so that it
  evaluates the condition once more when it is notified, or between two waits, where it sees the flag.
  Closing the handles, \<open>closeBackend\<close>, belongs to the library.
\<close>

definition Storage_closeStore ::
    "'db mdbm \<Rightarrow> (nat \<Rightarrow> HMTimeStamp) \<Rightarrow> bool \<Rightarrow> 'db HMStorage \<Rightarrow> buffer_error + 'db HMStorage" where
  "Storage_closeStore lib clock waiting s =
     (let s = s\<lparr>sg_shutdown := True\<rparr>
      in if sg_readonly s \<or> \<not> sg_thread s then Inr s
         else
           res_bind (if waiting then runStore_ready lib (clock 0) s else Inr (s, True)) (\<lambda>(s, _).
             res_bind (Storage_drain lib clock 1 s) (\<lambda>s. Inr (s\<lparr>sg_thread := False\<rparr>))))"

section \<open>Lemmas\<close>

subsection \<open>Closing\<close>

text \<open>The updates of a queue name groups of the configuration, and every group has hosts.\<close>

definition groups_have_hosts :: "'db HMStorage \<Rightarrow> bool" where
  "groups_have_hosts s \<longleftrightarrow> list_all (\<lambda>(n, g). hg_hosts g \<noteq> []) (sg_hostGroupMap s)"

definition updates_known :: "'db HMStorage \<Rightarrow> bool" where
  "updates_known s \<longleftrightarrow>
     list_all (\<lambda>u. group_find (gu_hostGroup u) (sg_hostGroupMap s) \<noteq> None) (sg_storeCheckQueue s)
     \<and> list_all (\<lambda>u. group_find (gx_hostGroup u) (sg_hostGroupMap s) \<noteq> None) (sg_storeAuxQueue s)"

definition closing :: "'db \<Rightarrow> 'db HMStorage \<Rightarrow> bool" where
  "closing db s \<longleftrightarrow> sg_shutdown s \<and> sg_db s = db \<and> groups_have_hosts s \<and> updates_known s"

lemma group_hosts:
  "groups_have_hosts s \<Longrightarrow> group_find name (sg_hostGroupMap s) = Some g \<Longrightarrow> hg_hosts g \<noteq> []"
  by (auto simp: groups_have_hosts_def list_all_iff dest!: smap_find_SomeD)

lemma commit_due_hosts:
  "hg_hosts g \<noteq> [] \<Longrightarrow> \<exists>due. commit_due policy now h g coldStart c = Inr due"
  by (auto simp: commit_due_def split: HM_STORAGE_COMMIT_POLICY.splits list.splits)

lemma shutdown_write:
  "sg_shutdown s \<Longrightarrow> MDBM_storeHostGroupCheckResults lib name s = Inr (s, False)"
  "sg_shutdown s \<Longrightarrow> MDBM_storeHostGroupAuxInfo lib name s = Inr (s, False)"
  by (simp_all add: MDBM_storeHostGroupCheckResults_def MDBM_storeHostGroupAuxInfo_def)

lemma commit_closing:
  assumes "closing db s"
  shows "\<exists>s'. Storage_commitHealthCheck lib now s = Inr (s', sg_storeCheckQueue s \<noteq> []) \<and> closing db s'"
    and "\<exists>s'. Storage_commitAuxInfo lib now s = Inr (s', sg_storeAuxQueue s \<noteq> []) \<and> closing db s'"
proof -
  note closing = assms [unfolded closing_def updates_known_def]
  show "\<exists>s'. Storage_commitHealthCheck lib now s = Inr (s', sg_storeCheckQueue s \<noteq> []) \<and> closing db s'"
  proof (cases "sg_storeCheckQueue s")
    case Nil
    then show ?thesis using assms by (simp add: Storage_commitHealthCheck_def)
  next
    case (Cons u q)
    obtain g where g: "group_find (gu_hostGroup u) (sg_hostGroupMap s) = Some g" using closing Cons by auto
    then have hosts: "hg_hosts g \<noteq> []" using closing group_hosts by blast
    show ?thesis
      using closing Cons g commit_due_hosts [OF hosts]
      by (auto simp: Storage_commitHealthCheck_def Let_def closing_def updates_known_def shutdown_write
          groups_have_hosts_def res_bind_def split: prod.splits sum.splits) (metis sum.distinct(1))+
  qed
  show "\<exists>s'. Storage_commitAuxInfo lib now s = Inr (s', sg_storeAuxQueue s \<noteq> []) \<and> closing db s'"
  proof (cases "sg_storeAuxQueue s")
    case Nil
    then show ?thesis using assms by (simp add: Storage_commitAuxInfo_def)
  next
    case (Cons u q)
    obtain g where g: "group_find (gx_hostGroup u) (sg_hostGroupMap s) = Some g" using closing Cons by auto
    then have hosts: "hg_hosts g \<noteq> []" using closing group_hosts by blast
    show ?thesis
      using closing Cons g commit_due_hosts [OF hosts]
      by (auto simp: Storage_commitAuxInfo_def Let_def closing_def updates_known_def shutdown_write
          groups_have_hosts_def res_bind_def split: prod.splits sum.splits) (metis sum.distinct(1))+
  qed
qed

lemma drain_closing:
  "closing db s \<Longrightarrow> \<exists>s'. Storage_drain lib clock n s = Inr s' \<and> closing db s'
     \<and> sg_storeCheckQueue s' = [] \<and> sg_storeAuxQueue s' = []"
proof (induction lib clock n s rule: Storage_drain.induct)
  case (1 lib clock n s)
  obtain s1 where s1: "Storage_commitHealthCheck lib (clock n) s = Inr (s1, sg_storeCheckQueue s \<noteq> [])"
    "closing db s1" using commit_closing(1) [OF 1(3)] by blast
  obtain s2 where s2: "Storage_commitAuxInfo lib (clock n) s1 = Inr (s2, sg_storeAuxQueue s1 \<noteq> [])"
    "closing db s2" using commit_closing(2) [OF s1(2)] by blast
  note queues = commit_queues(1) [OF s1(1)] commit_queues(2) [OF s2(1)]
  show ?case
  proof (cases "sg_storeCheckQueue s = []")
    case False
    then show ?thesis using 1(1) s1 by (simp add: Storage_drain.simps [of lib clock n s])
  next
    case True
    then show ?thesis
      using 1(2) s1 s2 queues by (cases "sg_storeAuxQueue s1 = []") (auto simp: Storage_drain.simps [of lib clock n s])
  qed
qed

lemma drain_keeps: "Storage_drain lib clock n s = Inr s' \<Longrightarrow> commit_frame s s'"
proof (induction lib clock n s rule: Storage_drain.induct)
  case (1 lib clock n s)
  from 1(3) show ?case
    by (auto simp: Storage_drain.simps [of lib clock n s] split: sum.splits bool.splits prod.splits
        intro: commit_frame_trans [OF commit_keeps(1) 1(1)]
          commit_frame_trans [OF commit_keeps(1) commit_frame_trans [OF commit_keeps(2) 1(2)]]
          commit_frame_trans [OF commit_keeps(1) commit_keeps(2)])
qed

lemma closeStore_keeps:
  assumes "Storage_closeStore lib clock waiting s = Inr s'"
  shows "commit_frame (s\<lparr>sg_shutdown := True, sg_thread := sg_thread s'\<rparr>) s'"
  using assms
  by (auto simp: Storage_closeStore_def Let_def res_bind_Inr runStore_ready_def commit_frame_def
      dest!: commit_keeps drain_keeps split: if_splits)

subsection \<open>Committing\<close>

text \<open>What an update makes of the entries of its group: the first entry that takes it is overwritten; when
  there is none, a new entry comes last.\<close>

fun overwrite_first :: "('r \<Rightarrow> bool) \<Rightarrow> ('r \<Rightarrow> 'r) \<Rightarrow> 'r list \<Rightarrow> 'r list" where
  "overwrite_first P f [] = []"
| "overwrite_first P f (r # rs) = (if P r then f r # rs else r # overwrite_first P f rs)"

definition entry_takes :: "HMGroupCheckUpdate \<Rightarrow> HMGroupCheckResult \<Rightarrow> bool" where
  "entry_takes u r \<longleftrightarrow> takes_update (gu_hostName u) (gu_address u) (gr_hostName r) (gr_address r)"

definition entry_set :: "HMGroupCheckUpdate \<Rightarrow> HMGroupCheckResult \<Rightarrow> HMGroupCheckResult" where
  "entry_set u r = r\<lparr>gr_result := (gu_result u)\<lparr>cr_address := gu_address u\<rparr>, gr_address := gu_address u,
     gr_backendStale := True\<rparr>"

definition updated_entries ::
    "HMTimeStamp \<Rightarrow> HMGroupCheckUpdate \<Rightarrow> HMGroupCheckResult list \<Rightarrow> HMGroupCheckResult list" where
  "updated_entries now u rs =
     (if list_ex (entry_takes u) rs then overwrite_first (entry_takes u) (entry_set u) rs
      else rs @ [GroupCheckResult_new now (gu_hostName u) (gu_address u) (gu_result u)])"

lemma scan_new_fields [simp]: "\<not> cs_found (scan_new now)" "cs_hosts (scan_new now) = []"
  by (simp_all add: scan_new_def)

lemma key_equiv_linorder: "key_equiv (<) k k' \<longleftrightarrow> k' = (k :: 'a :: linorder)"
  by (auto simp: key_equiv_def not_less)

lemma group_results_filter:
  "mmap_sorted (<) m \<Longrightarrow> group_results name m = map snd (filter (\<lambda>e. fst e = name) m)"
  by (simp add: group_results_def name_order.equal_range_filter key_equiv_linorder case_prod_unfold)

lemma mmap_sorted_alt: "mmap_sorted lt m = sorted_wrt (\<lambda>a b. \<not> lt b a) (map fst m)"
  by (simp add: mmap_sorted_def sorted_wrt_map)

lemma commit_scan_keys: "map fst (fst (commit_scan_checks u m c)) = map fst m"
  by (induction u m c rule: commit_scan_checks.induct) (auto simp: Let_def split: prod.splits if_splits)

lemma commit_scan_entries:
  "map snd (filter (\<lambda>e. fst e = k) (fst (commit_scan_checks u m c))) =
     (let rs = map snd (filter (\<lambda>e. fst e = k) m)
      in if k = gu_hostGroup u \<and> \<not> cs_found c then overwrite_first (entry_takes u) (entry_set u) rs else rs)"
  by (induction u m c rule: commit_scan_checks.induct)
    (auto simp: Let_def scan_entry_def entry_takes_def entry_set_def split: prod.splits if_splits)

lemma commit_scan_found:
  "cs_found (snd (commit_scan_checks u m c)) \<longleftrightarrow>
     cs_found c \<or> list_ex (entry_takes u) (map snd (filter (\<lambda>e. fst e = gu_hostGroup u) m))"
  by (induction u m c rule: commit_scan_checks.induct)
    (auto simp: Let_def scan_entry_def entry_takes_def split: prod.splits if_splits)

lemma commit_scan_hosts:
  "set (cs_hosts (snd (commit_scan_checks u m c))) =
     set (cs_hosts c) \<union> set (map gr_hostName (map snd (filter (\<lambda>e. fst e = gu_hostGroup u) m)))"
  by (induction u m c rule: commit_scan_checks.induct)
    (simp_all add: Let_def scan_entry_def set_insort_insert split_beta Un_commute Un_left_commute
      del: set_map set_filter)

definition after_update :: "HMTimeStamp \<Rightarrow> HMGroupCheckUpdate \<Rightarrow> 'db HMStorage \<Rightarrow> (string \<times> HMGroupCheckResult) list"
  where
  "after_update now u s =
     (let (m, c) = commit_scan_checks u (sg_hostGroupResults s) (scan_new now)
      in if cs_found c then m
         else mmap_insert (<) (gu_hostGroup u)
                (GroupCheckResult_new now (gu_hostName u) (gu_address u) (gu_result u)) m)"

lemma after_update_sorted: "mmap_sorted (<) (sg_hostGroupResults s) \<Longrightarrow> mmap_sorted (<) (after_update now u s)"
  using commit_scan_keys [of u "sg_hostGroupResults s" "scan_new now"]
  by (auto simp: after_update_def Let_def mmap_sorted_alt [of _ "fst _"] split_beta
      intro!: name_order.mmap_sorted_insert) (simp_all add: mmap_sorted_alt)

lemma overwrite_first_none: "\<not> list_ex P rs \<Longrightarrow> overwrite_first P f rs = rs"
  by (induction rs) auto

lemma group_results_insert:
  assumes "mmap_sorted (<) m"
  shows "group_results k (mmap_insert (<) name r m) = (if k = name then group_results k m @ [r] else group_results k m)"
  using name_order.equal_range_insert_same [OF assms, of name r]
    name_order.equal_range_insert_other [OF assms, of k name r]
  by (auto simp: group_results_def key_equiv_linorder)

lemma after_update_entries:
  assumes sorted: "mmap_sorted (<) (sg_hostGroupResults s)"
  shows "group_results (gu_hostGroup u) (after_update now u s) =
      updated_entries now u (group_results (gu_hostGroup u) (sg_hostGroupResults s))"
    and "k \<noteq> gu_hostGroup u \<Longrightarrow> group_results k (after_update now u s) = group_results k (sg_hostGroupResults s)"
proof -
  let ?m = "sg_hostGroupResults s" and ?g = "gu_hostGroup u"
  obtain m c where mc: "commit_scan_checks u ?m (scan_new now) = (m, c)" by fastforce
  have keys: "mmap_sorted (<) m"
    using sorted commit_scan_keys [of u ?m "scan_new now"] by (simp add: mmap_sorted_alt mc)
  have entries: "group_results k m =
      (if k = ?g then overwrite_first (entry_takes u) (entry_set u) (group_results k ?m) else group_results k ?m)" for k
    using commit_scan_entries [of k u ?m "scan_new now"]
    by (simp add: group_results_filter sorted keys mc Let_def)
  have found: "cs_found c \<longleftrightarrow> list_ex (entry_takes u) (group_results ?g ?m)"
    using commit_scan_found [of u ?m "scan_new now"] by (simp add: group_results_filter sorted mc)
  show "group_results ?g (after_update now u s) = updated_entries now u (group_results ?g ?m)"
    using keys found
    by (simp add: after_update_def mc updated_entries_def entries overwrite_first_none group_results_insert)
  show "group_results k (after_update now u s) = group_results k ?m" if "k \<noteq> ?g"
    using keys that by (simp add: after_update_def mc entries group_results_insert)
qed

lemma mark_committed_entries:
  assumes "mmap_sorted (<) m"
  shows "group_results name (mark_committed now name m) =
    map (\<lambda>r. r\<lparr>gr_backendStale := False, gr_commitTime := now\<rparr>) (group_results name m)"
proof -
  have "mmap_sorted (<) (mark_committed now name m)"
    using assms by (simp add: mmap_sorted_alt mark_committed_def case_prod_unfold comp_def)
  then show ?thesis
    using assms by (simp add: group_results_filter mark_committed_def filter_map comp_def case_prod_unfold cong: filter_cong)
qed

text \<open>The commit of the first update, as far as the decision to write.\<close>

definition hosts_complete :: "HMDataHostGroup \<Rightarrow> HMGroupCheckResult list \<Rightarrow> bool" where
  "hosts_complete grp rs \<longleftrightarrow> length (hg_hosts grp) \<le> length (remdups (map gr_hostName rs))"

definition applicable :: "HMGroupCheckUpdate \<Rightarrow> HMDataHostGroup \<Rightarrow> HMDNSCache \<Rightarrow> bool" where
  "applicable u grp dnsCache \<longleftrightarrow>
     address_valid (gu_hostName u) (gu_address u) grp dnsCache \<or> hg_flowType grp \<noteq> HM_FLOW_DNS_HEALTH_TYPE"

lemma updated_hosts:
  "gr_hostName ` set (updated_entries now u rs) =
     (if list_ex (entry_takes u) rs then gr_hostName ` set rs else insert (gu_hostName u) (gr_hostName ` set rs))"
proof -
  have "map gr_hostName (overwrite_first (entry_takes u) (entry_set u) rs) = map gr_hostName rs"
    by (induction rs) (auto simp: entry_set_def)
  then have "gr_hostName ` set (overwrite_first (entry_takes u) (entry_set u) rs) = gr_hostName ` set rs"
    by (metis list.set_map)
  then show ?thesis by (simp add: updated_entries_def GroupCheckResult_new_def)
qed

lemma insort_insert_distinct: "distinct xs \<Longrightarrow> distinct (insort_insert x xs)"
  by (simp add: distinct_insort insort_insert_key_def)

lemma commit_scan_distinct: "distinct (cs_hosts c) \<Longrightarrow> distinct (cs_hosts (snd (commit_scan_checks u m c)))"
  by (induction u m c rule: commit_scan_checks.induct)
    (simp_all add: Let_def scan_entry_def split_beta insort_insert_distinct)

lemma commitHealthCheck_run:
  fixes s :: "'db HMStorage" and now :: HMTimeStamp
  assumes sorted: "mmap_sorted (<) (sg_hostGroupResults s)" and queue: "sg_storeCheckQueue s = u # q"
    and grp: "group_find (gu_hostGroup u) (sg_hostGroupMap s) = Some grp" and ok: "applicable u grp (sg_dnsCache s)"
  defines "rs \<equiv> updated_entries now u (group_results (gu_hostGroup u) (sg_hostGroupResults s))"
    and "s1 \<equiv> s\<lparr>sg_storeCheckQueue := q, sg_hostGroupResults := after_update now u s\<rparr>"
  shows "\<exists>c. (cs_found c \<longleftrightarrow> list_ex (entry_takes u) (group_results (gu_hostGroup u) (sg_hostGroupResults s)))
    \<and> Storage_commitHealthCheck lib now s =
    (if \<not> hosts_complete grp rs then Inr (s1, True)
     else res_bind (commit_due (sg_healthCheckCommitPolicy s) now (gu_hostName u) grp (\<not> cs_found c) c) (\<lambda>due.
       if due then res_bind (MDBM_storeHostGroupCheckResults lib (gu_hostGroup u) s1) (\<lambda>(s, _).
         Inr (s\<lparr>sg_hostGroupResults := mark_committed now (gu_hostGroup u) (sg_hostGroupResults s)\<rparr>, True))
       else Inr (s1, True)))"
proof -
  let ?m = "sg_hostGroupResults s" and ?g = "gu_hostGroup u"
  obtain m c where mc: "commit_scan_checks u ?m (scan_new now) = (m, c)" by fastforce
  have found: "cs_found c \<longleftrightarrow> list_ex (entry_takes u) (group_results ?g ?m)"
    using commit_scan_found [of u ?m "scan_new now"] by (simp add: group_results_filter sorted mc)
  have "set (cs_hosts c) = gr_hostName ` set (group_results ?g ?m)"
    using commit_scan_hosts [of u ?m "scan_new now"]
    by (simp add: group_results_filter sorted mc image_image)
  moreover have "distinct (cs_hosts c)"
    using commit_scan_distinct [of "scan_new now" u ?m] by (simp add: mc)
  ultimately have hosts: "length (if cs_found c then cs_hosts c else insort_insert (gu_hostName u) (cs_hosts c)) =
      length (remdups (map gr_hostName rs))"
    using found updated_hosts [of now u "group_results ?g ?m"]
    by (simp add: rs_def length_remdups_card_conv set_insort_insert insort_insert_distinct flip: distinct_card)
  have "after_update now u s = (if cs_found c then m
      else mmap_insert (<) ?g (GroupCheckResult_new now (gu_hostName u) (gu_address u) (gu_result u)) m)"
    by (simp add: after_update_def mc)
  then show ?thesis
    unfolding s1_def using queue grp ok found hosts
    by (intro exI [of _ c]) (auto simp: Storage_commitHealthCheck_def Let_def mc applicable_def hosts_complete_def cong: if_cong)
qed

lemma updated_entry:
  "\<exists>r \<in> set (updated_entries now u rs). gr_hostName r = gu_hostName u \<and> gr_address r = gu_address u
     \<and> (gr_result r)\<lparr>cr_address := gu_address u\<rparr> = (gu_result u)\<lparr>cr_address := gu_address u\<rparr>"
proof (cases "list_ex (entry_takes u) rs")
  case True
  then have "\<exists>r \<in> set (overwrite_first (entry_takes u) (entry_set u) rs). gr_hostName r = gu_hostName u
      \<and> gr_address r = gu_address u \<and> gr_result r = (gu_result u)\<lparr>cr_address := gu_address u\<rparr>"
    by (induction rs) (auto simp: entry_set_def entry_takes_def takes_update_def)
  then show ?thesis using True by (auto simp: updated_entries_def)
next
  case False
  then show ?thesis by (simp add: updated_entries_def GroupCheckResult_new_def)
qed

lemma stored_check_marked:
  "stored_check (r\<lparr>gr_backendStale := b, gr_commitTime := t\<rparr>) = stored_check r"
  by (simp add: stored_check_def)

lemma closeStore_run:
  assumes "\<not> sg_readonly s" and "groups_have_hosts s" and "updates_known s"
  shows "\<exists>s'. Storage_closeStore lib clock waiting s = Inr s' \<and> \<not> sg_thread s' \<and> sg_db s' = sg_db s
    \<and> (sg_thread s \<longrightarrow> sg_storeCheckQueue s' = [] \<and> sg_storeAuxQueue s' = [])"
proof -
  let ?s = "s\<lparr>sg_shutdown := True\<rparr>"
  have closing: "closing (sg_db s) ?s"
    using assms(2,3) by (simp add: closing_def groups_have_hosts_def updates_known_def)
  have "\<exists>s1 b. (if waiting then runStore_ready lib (clock 0) ?s else Inr (?s, True)) = Inr (s1, b) \<and> closing (sg_db s) s1"
  proof (cases waiting)
    case True
    obtain s1 b where 1: "Storage_commitHealthCheck lib (clock 0) ?s = Inr (s1, b)" "closing (sg_db s) s1"
      using commit_closing(1) [OF closing] by blast
    moreover obtain s2 b' where "Storage_commitAuxInfo lib (clock 0) s1 = Inr (s2, b')" "closing (sg_db s) s2"
      using commit_closing(2) [OF 1(2)] by blast
    ultimately show ?thesis using True by (auto simp: runStore_ready_def)
  qed (use closing in auto)
  then obtain s1 b where
    1: "(if waiting then runStore_ready lib (clock 0) ?s else Inr (?s, True)) = Inr (s1, b)" "closing (sg_db s) s1"
    by blast
  obtain s2 where "Storage_drain lib clock 1 s1 = Inr s2" "closing (sg_db s) s2"
      "sg_storeCheckQueue s2 = []" "sg_storeAuxQueue s2 = []"
    using drain_closing [OF 1(2)] by blast
  then show ?thesis
    using assms(1) 1(1) by (cases "sg_thread s") (simp_all add: Storage_closeStore_def Let_def closing_def)
qed

section \<open>Properties\<close>

text \<open>
  C38: closing the store loses every update that waits. In a store that is open for writing, whose queued
  updates name groups of the configuration, the commit thread takes all the updates of both queues
  after \<open>closeStore\<close>, and the thread ends; but the flag that makes it leave its loop also makes the
  database refuse each write: what the database holds is what it held before.
\<close>

theorem closeStore_discards_updates:
  assumes "store_open s" and "sg_thread s" and "groups_have_hosts s" and "updates_known s"
  shows "\<exists>s'. Storage_closeStore lib clock waiting s = Inr s' \<and> sg_storeCheckQueue s' = []
    \<and> sg_storeAuxQueue s' = [] \<and> \<not> sg_thread s' \<and> sg_db s' = sg_db s"
  using closeStore_run [of s lib clock waiting] assms by (auto simp: store_open_def)

text \<open>
  C17: a result that is committed reaches the data store. In a store that is open for writing, when the first
  queued update is for a group of the configuration with an address that is valid there, the cached
  results of the group with the update hold every host of the group, and either the group is written
  at each update or the result is the first of its host and address: the commit takes the update from the
  queue; the group is read back from the database with the updated results, the one of the update
  among them; every other key of the database stays; and no cached result of the group is marked as not
  yet written.
\<close>

theorem commit_reaches_database:
  fixes s :: "'db HMStorage" and u :: HMGroupCheckUpdate and now :: HMTimeStamp
  defines "name \<equiv> gu_hostGroup u"
  defines "old \<equiv> group_results name (sg_hostGroupResults s)"
  defines "rs \<equiv> updated_entries now u old"
  assumes "mdbm_ok lib" and "store_open s" and "mmap_sorted (<) (sg_hostGroupResults s)"
    and "sg_storeCheckQueue s = u # q" and "group_find name (sg_hostGroupMap s) = Some grp"
    and "applicable u grp (sg_dnsCache s)" and "hosts_complete grp rs"
    and "sg_healthCheckCommitPolicy s = HM_STORAGE_COMMIT_ALWAYS \<or> \<not> list_ex (entry_takes u) old"
    and "list_all check_fits rs" and "8 + length (concat (map put_check rs)) < 2 ^ 31"
  shows "\<exists>s'. Storage_commitHealthCheck lib now s = Inr (s', True) \<and> sg_storeCheckQueue s' = q
    \<and> MDBM_getHostGroupCheckResults_vector lib name [] s' = Inr (map stored_check rs, True)
    \<and> (\<exists>r \<in> set rs. gr_hostName r = gu_hostName u \<and> gr_address r = gu_address u
         \<and> (gr_result r)\<lparr>cr_address := gu_address u\<rparr> = (gu_result u)\<lparr>cr_address := gu_address u\<rparr>)
    \<and> (\<forall>k. k \<noteq> HM_MDBM_CHECK_PREFIX @ name \<longrightarrow> mdbm_read lib k s' = mdbm_read lib k s)
    \<and> group_results name (sg_hostGroupResults s') =
        map (\<lambda>r. r\<lparr>gr_backendStale := False, gr_commitTime := now\<rparr>) rs"
proof -
  let ?s = "s\<lparr>sg_storeCheckQueue := q, sg_hostGroupResults := after_update now u s\<rparr>"
  have sorted: "mmap_sorted (<) (after_update now u s)" by (rule after_update_sorted [OF assms(6)])
  have entries: "group_results name (sg_hostGroupResults ?s) = rs"
    using after_update_entries(1) [OF assms(6)] by (simp add: rs_def old_def name_def)
  have op: "store_open ?s" using assms(5) by (simp add: store_open_def)
  have "list_all (\<lambda>g. gr_hostName g \<noteq> []) (group_results name (sg_hostGroupResults ?s))"
    using assms(12) unfolding entries by (auto simp: list_all_iff check_fits_def host_fits_def)
  from storeHostGroupCheckResults_run [OF assms(4) op this] assms(13)
  obtain s2 where s2: "MDBM_storeHostGroupCheckResults lib name ?s = Inr (s2, True)" "store_open s2"
    "s2 = ?s\<lparr>sg_db := sg_db s2\<rparr>" "\<And>k. k \<noteq> HM_MDBM_CHECK_PREFIX @ name \<Longrightarrow> mdbm_read lib k s2 = mdbm_read lib k ?s"
    "MDBM_getHostGroupCheckResults_vector lib name [] s2 = checks_loop (length rs) (concat (map put_check rs))"
    unfolding entries by metis
  let ?s3 = "s2\<lparr>sg_hostGroupResults := mark_committed now name (sg_hostGroupResults s2)\<rparr>"
  have fields: "sg_storeCheckQueue s2 = q" "sg_hostGroupResults s2 = after_update now u s"
    using arg_cong [OF s2(3), of sg_storeCheckQueue] arg_cong [OF s2(3), of sg_hostGroupResults] by simp_all
  have read: "mdbm_read lib k (s2\<lparr>sg_hostGroupResults := x\<rparr>) = mdbm_read lib k s2"
    "mdbm_read lib k ?s = mdbm_read lib k s" for k x
    by (simp_all add: mdbm_read_def)
  have "Storage_commitHealthCheck lib now s = Inr (?s3, True)"
    using commitHealthCheck_run [OF assms(6,7,8) [unfolded name_def] assms(9), where now = now and lib = lib] assms(10,11) s2(1)
    by (auto simp: commit_due_def name_def rs_def old_def)
  moreover have "MDBM_getHostGroupCheckResults_vector lib name [] ?s3 = Inr (map stored_check rs, True)"
    using s2(5) checks_loop_put [OF assms(12)] assms(13)
    by (simp add: MDBM_getHostGroupCheckResults_vector_def read)
  moreover have "group_results name (sg_hostGroupResults ?s3) =
      map (\<lambda>r. r\<lparr>gr_backendStale := False, gr_commitTime := now\<rparr>) rs"
    using mark_committed_entries [OF sorted, of name now] entries by (simp add: fields)
  ultimately show ?thesis
    using s2(4) updated_entry [of now u old] by (intro exI [of _ ?s3]) (simp add: fields read rs_def)
qed

section \<open>Witnesses\<close>

definition sample_remote_group :: HMDataHostGroup where
  "sample_remote_group = (HostGroup_new ''g'')\<lparr>hg_hosts := [''h''], hg_flowType := HM_FLOW_REMOTE_HOST_TYPE\<rparr>"

definition sample_update :: HMGroupCheckUpdate where
  "sample_update = \<lparr>gu_hostGroup = ''g'', gu_hostName = ''h'', gu_address = INET 0x7F000001,
     gu_result = sample_result\<lparr>cr_numChecks := 9\<rparr>\<rparr>"

definition sample_running :: "(string \<times> mdbm_value) list HMStorage" where
  "sample_running = (sample_store ''h'')\<lparr>sg_hostGroupMap := [(''g'', sample_remote_group)],
     sg_storeCheckQueue := [sample_update, sample_update], sg_thread := True\<rparr>"

lemma sample_running_open: "store_open sample_running"
  by (simp add: sample_running_def store_open_def sample_store_def Storage_new_def)

lemma closeStore_discards_updates_witness:
  "\<exists>s'. Storage_closeStore alist_lib (\<lambda>n. int n) True sample_running = Inr s' \<and> sg_storeCheckQueue s' = []
     \<and> sg_storeAuxQueue s' = [] \<and> \<not> sg_thread s' \<and> sg_db s' = sg_db sample_running"
  using sample_running_open
  by (rule closeStore_discards_updates)
    (simp_all add: sample_running_def groups_have_hosts_def updates_known_def sample_remote_group_def
      sample_update_def sample_store_def Storage_new_def smap_find_def)

lemma commit_reaches_database_witness:
  "\<exists>s'. Storage_commitHealthCheck alist_lib 77 sample_running = Inr (s', True)
    \<and> sg_storeCheckQueue s' = [sample_update]
    \<and> MDBM_getHostGroupCheckResults_vector alist_lib ''g'' [] s' =
        Inr ([stored_check (entry_set sample_update (sample_entry ''h''))], True)"
proof -
  have old: "group_results ''g'' (sg_hostGroupResults sample_running) = [sample_entry ''h'']"
    by (simp add: sample_running_def)
  have takes: "entry_takes sample_update (sample_entry ''h'')"
    by (simp add: entry_takes_def takes_update_def sample_update_def sample_entry_def)
  have new: "updated_entries 77 sample_update [sample_entry ''h''] = [entry_set sample_update (sample_entry ''h'')]"
    by (simp add: updated_entries_def takes)
  have "check_fits (entry_set sample_update (sample_entry ''h''))"
    using sample_result_storable
    by (simp add: check_fits_def entry_set_def sample_entry_def sample_update_def host_fits_def clean_def
        CheckResult_storable_def)
  moreover have "length (put_check (entry_set sample_update (sample_entry ''h''))) < 1000"
    by (simp add: put_check_def buffer_simps length_put_obj sizes IPAddress_sizeof_def CheckResult_sizeof_def
        entry_set_def sample_entry_def)
  moreover have "mmap_sorted (<) (sg_hostGroupResults sample_running)"
    by (simp add: mmap_sorted_def sample_running_def sample_store_def)
  moreover have name: "gu_hostGroup sample_update = ''g''" by (simp add: sample_update_def)
  moreover have "sg_storeCheckQueue sample_running = [sample_update, sample_update]"
    "group_find ''g'' (sg_hostGroupMap sample_running) = Some sample_remote_group"
    "sg_healthCheckCommitPolicy sample_running = HM_STORAGE_COMMIT_ALWAYS"
    by (simp_all add: sample_running_def sample_store_def Storage_new_def key_equiv_def)
  moreover have "applicable sample_update sample_remote_group (sg_dnsCache sample_running)"
    "hosts_complete sample_remote_group [entry_set sample_update (sample_entry ''h'')]"
    by (simp_all add: applicable_def hosts_complete_def sample_remote_group_def)
  ultimately show ?thesis
    using commit_reaches_database [OF alist_lib_ok sample_running_open, of sample_update "[sample_update]"
        sample_remote_group 77, unfolded name old new] by auto
qed

end
