(* ===== verification/HM_StorageInit.thy ===== *)
theory HM_StorageInit
  imports HM_Storage
begin

text \<open>
  The start of the storage (\<open>HMStorageHostGroup.cpp\<close>): \<open>initResultsFromBackend\<close> brings the results of an
  earlier run into the caches of the state, after it has dropped what the configuration no longer
  has; \<open>storeConfigs\<close> and \<open>getConfigs\<close> write and read the configuration itself.
\<close>

section \<open>Configuration\<close>

fun storeConfigs_loop ::
    "'db mdbm \<Rightarrow> (string \<times> HMDataHostGroup) list \<Rightarrow> 'db HMStorage \<Rightarrow> 'db HMStorage \<times> bool" where
  "storeConfigs_loop lib [] s = (s, True)"
| "storeConfigs_loop lib ((n, g) # gs) s =
     (let (s, ok) = MDBM_storeGroupInfo lib n g s in if ok then storeConfigs_loop lib gs s else (s, False))"

definition Storage_storeConfigs ::
    "'db mdbm \<Rightarrow> HMState \<Rightarrow> 'db HMStorage \<Rightarrow> buffer_error + ('db HMStorage \<times> bool)" where
  "Storage_storeConfigs lib checkState s =
     (let (s, ok) = storeConfigs_loop lib (st_hostGroups checkState) s
      in if \<not> ok then Inr (s, False)
         else MDBM_storeHostGroupNames lib
                (fold insort_insert (map fst (st_hostGroups checkState)) []) s)"

fun getConfigs_loop ::
    "'db mdbm \<Rightarrow> 'db HMStorage \<Rightarrow> string list \<Rightarrow> HMState \<Rightarrow> buffer_error + (HMState \<times> bool)" where
  "getConfigs_loop lib s [] st = Inr (st, True)"
| "getConfigs_loop lib s (n # ns) st =
     res_bind (MDBM_getGroupInfo lib n (HostGroup_new n) s) (\<lambda>(grp, ok).
       if \<not> ok then Inr (st, False)
       else getConfigs_loop lib s ns
              (st\<lparr>st_checkList := fst (CheckList_addHostGroup grp (st_checkList st)),
                  st_hostGroups := smap_insert (<) n grp (st_hostGroups st)\<rparr>))"

text \<open>The hash of the configuration, when there is one to set, is the second result.\<close>

definition Storage_getConfigs ::
    "'db mdbm \<Rightarrow> HMState \<Rightarrow> 'db HMStorage \<Rightarrow> buffer_error + (HMState \<times> HMHash option \<times> bool)" where
  "Storage_getConfigs lib checkState s =
     res_bind (MDBM_getHostGroupNames lib [] s) (\<lambda>(groupNames, _).
     res_bind (MDBM_getConfigInfo lib ConfigInfo_new s) (\<lambda>(configInfo, ok).
     res_bind (getConfigs_loop lib s groupNames (checkState\<lparr>st_hostGroups := []\<rparr>)) (\<lambda>(st, ok').
       Inr (st, if ok then Some (ci_hash configInfo) else None, ok'))))"

section \<open>Results of an earlier run\<close>

text \<open>The database as two multimaps.\<close>

fun load_groups ::
    "'db mdbm \<Rightarrow> 'db HMStorage \<Rightarrow> string list \<Rightarrow>
     (string \<times> HMGroupCheckResult) list \<times> (string \<times> HMGroupAuxResult) list \<Rightarrow>
     buffer_error + ((string \<times> HMGroupCheckResult) list \<times> (string \<times> HMGroupAuxResult) list)" where
  "load_groups lib s [] b = Inr b"
| "load_groups lib s (n # ns) (backendChecks, backendAux) =
     res_bind (MDBM_getHostGroupCheckResults_vector lib n [] s) (\<lambda>(checkResults, ok).
     res_bind (MDBM_getHostGroupGroupAuxInfo_vector lib n [] s) (\<lambda>(auxResults, ok').
       load_groups lib s ns
         (if ok then fold (mmap_insert (<) n) checkResults backendChecks else backendChecks,
          if ok' then fold (mmap_insert (<) n) auxResults backendAux else backendAux)))"

text \<open>What the loop over the stored check results changes: the store, the check list, the addresses and
  the time of the lookups, and the groups to be written again.\<close>

record 'db reload_scan =
  rl_store :: "'db HMStorage"
  rl_checkList :: HMDataCheckList
  rl_dnsMap :: "(dns_key \<times> HMIPAddress list) list"
  rl_dnsResTime :: "(dns_key \<times> HMTimeStamp) list"
  rl_updateList :: "string list"

definition saved_key :: "HMDataHostGroup \<Rightarrow> HMGroupCheckResult \<Rightarrow> dns_key" where
  "saved_key grp r =
     (gr_hostName r,
      DNSLookup_new (hg_DNSType grp) (IPAddress_getType (gr_address r) = AF_INET6) (hg_remoteCheck grp))"

definition save_mapping :: "HMDataHostGroup \<Rightarrow> HMGroupCheckResult \<Rightarrow> 'db reload_scan \<Rightarrow> 'db reload_scan" where
  "save_mapping grp r c =
     (let key = saved_key grp r;
          m = (if smap_find dns_key_less key (rl_dnsMap c) = None
               then smap_insert dns_key_less key [] (rl_dnsMap c) else rl_dnsMap c)
      in c\<lparr>rl_dnsMap := smap_adjust dns_key_less key (insort_insert (gr_address r)) m,
           rl_dnsResTime :=
             (if smap_find dns_key_less key (rl_dnsResTime c) = None
              then smap_insert dns_key_less key (cr_checkTime (gr_result r)) (rl_dnsResTime c)
              else rl_dnsResTime c)\<rparr>)"

definition family_dropped :: "HM_DUALSTACK \<Rightarrow> HMIPAddress \<Rightarrow> bool" where
  "family_dropped dualstack a \<longleftrightarrow>
     IPAddress_getType a = AF_INET \<and> dualstack = HM_DUALSTACK_IPV6_ONLY
     \<or> IPAddress_getType a = AF_INET6 \<and> dualstack = HM_DUALSTACK_IPV4_ONLY"

definition group_header :: "HMDataHostGroup \<Rightarrow> HMGroupCheckResult \<Rightarrow> HMCheckHeader" where
  "group_header grp r =
     \<lparr>ch_hostname = gr_hostName r, ch_address = gr_address r,
      ch_hostCheck = fst (HostGroup_getHostCheck grp HostCheck_default),
      ch_checkParams = fst (HostGroup_getCheckParameters grp CheckParams_default)\<rparr>"

definition restore_check ::
    "HMDataHostGroup \<Rightarrow> HMGroupCheckResult \<Rightarrow> HMDataCheckList \<Rightarrow> HMDataCheckList" where
  "restore_check grp r cl =
     (if hg_flowType grp \<noteq> HM_FLOW_REMOTE_HOSTGROUP_TYPE
      then fst (CheckList_updateCheckHeader (group_header grp r) (gr_result r) cl) else cl)"

text \<open>
  The loop over the stored check results, with the entries that are kept so far and those that are
  still to come. For a group whose parameters have changed, the inner loop goes over all entries of
  the group with \<open>iit\<close>, whose family it tests, but saves the address of \<open>it\<close>.
\<close>

definition init_check_step ::
    "'db mdbm \<Rightarrow> (string \<times> HMGroupCheckResult) list \<Rightarrow> string \<Rightarrow> HMGroupCheckResult \<Rightarrow>
     (string \<times> HMGroupCheckResult) list \<Rightarrow> 'db reload_scan \<Rightarrow> buffer_error + (bool \<times> 'db reload_scan)" where
  "init_check_step lib kept n r rest c =
     (let s = rl_store c; removed = fst (MDBM_removeHostGroupCheckResults lib n s)
      in case group_find n (sg_hostGroupMap s) of
           None \<Rightarrow> Inr (False, c\<lparr>rl_store := removed\<rparr>)
         | Some grp \<Rightarrow>
             res_bind (MDBM_getGroupInfo lib n (HostGroup_new n) s) (\<lambda>(info, ok).
               if ok \<and> \<not> HostGroup_eq grp info then
                 let range = filter (\<lambda>(k, i). k = n) (kept @ (n, r) # rest);
                     c = fold (\<lambda>(k, i) c. if family_dropped (hg_dualstack grp) (gr_address i) then c
                                           else save_mapping grp r c) range c
                 in Inr (False, c\<lparr>rl_store := removed\<rparr>)
               else if \<not> HostGroup_isValidHost (gr_hostName r) grp then
                 Inr (False, c\<lparr>rl_updateList := insort_insert n (rl_updateList c)\<rparr>)
               else Inr (True, (save_mapping grp r c)\<lparr>rl_checkList := restore_check grp r (rl_checkList c)\<rparr>)))"

fun init_checks_loop ::
    "'db mdbm \<Rightarrow> (string \<times> HMGroupCheckResult) list \<Rightarrow> (string \<times> HMGroupCheckResult) list \<Rightarrow> 'db reload_scan \<Rightarrow>
     buffer_error + ((string \<times> HMGroupCheckResult) list \<times> 'db reload_scan)" where
  "init_checks_loop lib kept [] c = Inr (kept, c)"
| "init_checks_loop lib kept ((n, r) # rest) c =
     res_bind (init_check_step lib kept n r rest c)
       (\<lambda>(keep, c). init_checks_loop lib (if keep then kept @ [(n, r)] else kept) rest c)"

definition init_aux_step ::
    "'db mdbm \<Rightarrow> 'db HMStorage \<Rightarrow> string \<times> HMGroupAuxResult \<Rightarrow>
     (string \<times> HMGroupAuxResult) list \<times> string list \<Rightarrow>
     buffer_error + ((string \<times> HMGroupAuxResult) list \<times> string list)" where
  "init_aux_step lib s = (\<lambda>(n, r) (kept, auxInfoUpdateList).
     case group_find n (sg_hostGroupMap s) of
       None \<Rightarrow> Inr (kept, auxInfoUpdateList)
     | Some grp \<Rightarrow>
         res_bind (MDBM_getGroupInfo lib n (HostGroup_new n) s) (\<lambda>(info, ok).
           if ok \<and> \<not> HostGroup_eq grp info then Inr (kept, auxInfoUpdateList)
           else if \<not> HostGroup_isValidHost (ga_hostName r) grp then Inr (kept, insort_insert n auxInfoUpdateList)
           else Inr (kept @ [(n, r)], auxInfoUpdateList)))"

text \<open>The lookups that were found are entered into the DNS cache, unless another host does them.\<close>

definition reload_dns ::
    "(dns_key \<times> HMTimeStamp) list \<Rightarrow> dns_key \<times> HMIPAddress list \<Rightarrow> HMDNSCache \<Rightarrow> HMDNSCache" where
  "reload_dns resTimes = (\<lambda>(key, addresses) dnsCache.
     if dl_remoteCheckGroup (snd key) \<noteq> [] then dnsCache
     else
       let t = smap_find dns_key_less key resTimes;
           v4Result = (case t of Some time \<Rightarrow>
               if dl_ipv6 (snd key) then DNSResult_default else DNSResult_setResultTime time DNSResult_default
             | None \<Rightarrow> DNSResult_default);
           v6Result = (case t of Some time \<Rightarrow>
               if dl_ipv6 (snd key) then DNSResult_setResultTime time DNSResult_default else DNSResult_default
             | None \<Rightarrow> DNSResult_default)
       in DNSCache_updateReloadDNSEntry (fst key) addresses v4Result v6Result (snd key) dnsCache)"

text \<open>The results that are kept go to the check list, to the cache of the store and, for the two remote
  flows, to the times of the remote caches.\<close>

definition reload_check ::
    "string \<times> HMGroupCheckResult \<Rightarrow> 'db HMStorage \<times> HMState \<Rightarrow> 'db HMStorage \<times> HMState" where
  "reload_check = (\<lambda>(n, r) (s, st).
     case group_find n (sg_hostGroupMap s) of None \<Rightarrow> (s, st)
     | Some grp \<Rightarrow>
         let st = st\<lparr>st_checkList := restore_check grp r (st_checkList st)\<rparr>;
             s = s\<lparr>sg_hostGroupResults := mmap_insert (<) n r (sg_hostGroupResults s)\<rparr>;
             time = cr_checkTime (gr_result r);
             st = (if hg_flowType grp = HM_FLOW_REMOTE_HOSTGROUP_TYPE
                   then st\<lparr>st_remoteCache := RemoteHostGroupCache_updateResultTime n time (st_remoteCache st)\<rparr>
                   else st);
             st = (if hg_flowType grp = HM_FLOW_REMOTE_HOST_TYPE
                   then st\<lparr>st_remoteHostCache := RemoteHostCache_updateResultTime (gr_hostName r)
                          (ch_hostCheck (group_header grp r)) time (st_remoteHostCache st)\<rparr>
                   else st)
         in (s, st))"

definition reload_aux ::
    "string \<times> HMGroupAuxResult \<Rightarrow> 'db HMStorage \<times> HMAuxCache \<Rightarrow> 'db HMStorage \<times> HMAuxCache" where
  "reload_aux = (\<lambda>(n, r) (s, auxCache).
     case group_find n (sg_hostGroupMap s) of None \<Rightarrow> (s, auxCache)
     | Some grp \<Rightarrow>
         (s\<lparr>sg_hostGroupAux := mmap_insert (<) n r (sg_hostGroupAux s)\<rparr>,
          fst (AuxCache_updateAuxInfo (ga_hostName r) (hg_checkInfo grp) (ga_address r) (ga_info r) auxCache)))"

text \<open>The start of the call: the commit thread is stopped, which drains the queues with the flag set, and
  the caches and the queues are emptied.\<close>

definition init_clear ::
    "'db mdbm \<Rightarrow> (nat \<Rightarrow> HMTimeStamp) \<Rightarrow> bool \<Rightarrow> 'db HMStorage \<Rightarrow> buffer_error + 'db HMStorage" where
  "init_clear lib clock waiting s =
     res_bind (Storage_closeStore lib clock waiting s) (\<lambda>s.
       Inr (s\<lparr>sg_shutdown := False, sg_hostGroupResults := [], sg_hostGroupAux := [],
              sg_storeCheckQueue := [], sg_storeAuxQueue := []\<rparr>))"

text \<open>The second half: the caches are filled with what is kept, the thread is started, and the groups that
  lost a host are written again. The caches are those of the state \<open>st\<close>, with the auxiliary cache beside
  it; the store's pointer to the DNS cache refers to the one of the state.\<close>

definition init_install ::
    "'db mdbm \<Rightarrow> (string \<times> HMGroupCheckResult) list \<Rightarrow> 'db reload_scan \<Rightarrow> (string \<times> HMGroupAuxResult) list \<Rightarrow>
     string list \<Rightarrow> HMState \<times> HMAuxCache \<Rightarrow> buffer_error + ('db HMStorage \<times> HMState \<times> HMAuxCache)" where
  "init_install lib checks c auxs auxInfoUpdateList = (\<lambda>(st, auxCache).
     let dnsCache = fold (reload_dns (rl_dnsResTime c)) (rl_dnsMap c) (st_dnsCache st);
         st = st\<lparr>st_checkList := rl_checkList c, st_dnsCache := dnsCache\<rparr>;
         s = (rl_store c)\<lparr>sg_dnsCache := dnsCache\<rparr>;
         (s, st) = fold reload_check checks (s, st);
         (s, auxCache) = fold reload_aux auxs (s, auxCache);
         s = s\<lparr>sg_thread := True\<rparr>
     in res_bind (res_fold (\<lambda>n s. res_bind (MDBM_storeHostGroupCheckResults lib n s) (\<lambda>(s, _). Inr s))
            (rl_updateList c) s) (\<lambda>s.
        res_bind (res_fold (\<lambda>n s. res_bind (MDBM_storeHostGroupAuxInfo lib n s) (\<lambda>(s, _). Inr s))
            auxInfoUpdateList s) (\<lambda>s.
        Inr (s, st, auxCache))))"

definition Storage_initResultsFromBackend ::
    "'db mdbm \<Rightarrow> (nat \<Rightarrow> HMTimeStamp) \<Rightarrow> bool \<Rightarrow> HMState \<times> HMAuxCache \<Rightarrow> 'db HMStorage \<Rightarrow>
     buffer_error + ('db HMStorage \<times> HMState \<times> HMAuxCache)" where
  "Storage_initResultsFromBackend lib clock waiting = (\<lambda>(st, auxCache) s.
     if sg_readonly s then Inr (s, st, auxCache)
     else
       res_bind (init_clear lib clock waiting s) (\<lambda>s.
       res_bind (MDBM_getHostGroupNames lib [] s) (\<lambda>(groupNames, _).
       res_bind (load_groups lib s groupNames ([], [])) (\<lambda>(backendChecks, backendAux).
       res_bind (init_checks_loop lib [] backendChecks
           \<lparr>rl_store = s, rl_checkList = st_checkList st, rl_dnsMap = [], rl_dnsResTime = [], rl_updateList = []\<rparr>)
         (\<lambda>(checks, c).
       res_bind (res_fold (init_aux_step lib (rl_store c)) backendAux ([], [])) (\<lambda>(auxs, auxInfoUpdateList).
         init_install lib checks c auxs auxInfoUpdateList (st, auxCache)))))))"

section \<open>Configuration in the database\<close>

lemma keys_differ [simp]:
  "HM_MDBM_GROUP_PREFIX @ n \<noteq> HM_MDBM_GROUP_NAMES" "HM_MDBM_GROUP_PREFIX @ n \<noteq> HM_MDBM_CHECK_PREFIX @ n'"
  "HM_MDBM_GROUP_PREFIX @ n \<noteq> HM_MDBM_AUX_PREFIX @ n'" "HM_MDBM_CONFIG \<noteq> HM_MDBM_GROUP_NAMES"
  "HM_MDBM_CONFIG \<noteq> HM_MDBM_GROUP_PREFIX @ n" "HM_MDBM_CHECK_PREFIX @ n \<noteq> HM_MDBM_AUX_PREFIX @ n'"
  by (simp_all add: HM_MDBM_CONFIG_def HM_MDBM_GROUP_NAMES_def HM_MDBM_GROUP_PREFIX_def HM_MDBM_CHECK_PREFIX_def
      HM_MDBM_AUX_PREFIX_def)

lemma getGroupInfo_read:
  assumes "mdbm_ok lib" and "store_open s" and "store_open s'"
    and "mdbm_read lib (HM_MDBM_GROUP_PREFIX @ n) s' = mdbm_read lib (HM_MDBM_GROUP_PREFIX @ n) s"
  shows "MDBM_getGroupInfo lib n t s' = MDBM_getGroupInfo lib n t s"
  using assms mdbm_read_open [OF assms(1,2)] mdbm_read_open [OF assms(1,3)]
  by (simp add: MDBM_getGroupInfo_def Let_def mdbm_ok_def store_open_def)

lemma storeConfigs_loop_run:
  assumes "mdbm_ok lib" and "store_open s" and "distinct (map fst gs)"
    and "list_all (\<lambda>(n, g). HostGroup_storable g) gs"
  shows "\<exists>s'. storeConfigs_loop lib gs s = (s', True) \<and> store_open s'
    \<and> (\<forall>(n, g) \<in> set gs. \<forall>t. MDBM_getGroupInfo lib n t s' = Inr (stored_group t g, True))
    \<and> (\<forall>k. k \<notin> (\<lambda>(n, g). HM_MDBM_GROUP_PREFIX @ n) ` set gs \<longrightarrow> mdbm_read lib k s' = mdbm_read lib k s)"
  using assms(2-4)
proof (induction gs arbitrary: s)
  case (Cons e gs)
  obtain n g where e: "e = (n, g)" by fastforce
  obtain s1 where s1: "MDBM_storeGroupInfo lib n g s = (s1, True)"
      "\<And>t. MDBM_getGroupInfo lib n t s1 = Inr (stored_group t g, True)" "store_open s1"
      "\<And>k. k \<noteq> HM_MDBM_GROUP_PREFIX @ n \<Longrightarrow> mdbm_read lib k s1 = mdbm_read lib k s"
    using group_info_roundtrip [OF assms(1) Cons.prems(1), of g n] Cons.prems(3) by (auto simp: e)
  obtain s2 where s2: "storeConfigs_loop lib gs s1 = (s2, True)" "store_open s2"
      "\<forall>(n, g) \<in> set gs. \<forall>t. MDBM_getGroupInfo lib n t s2 = Inr (stored_group t g, True)"
      "\<forall>k. k \<notin> (\<lambda>(n, g). HM_MDBM_GROUP_PREFIX @ n) ` set gs \<longrightarrow> mdbm_read lib k s2 = mdbm_read lib k s1"
    using Cons.IH [OF s1(3)] Cons.prems(2,3) by (auto simp: e)
  have "n \<notin> fst ` set gs" using Cons.prems(2) by (simp add: e)
  then have "mdbm_read lib (HM_MDBM_GROUP_PREFIX @ n) s2 = mdbm_read lib (HM_MDBM_GROUP_PREFIX @ n) s1"
    using s2(4) by force
  then have "MDBM_getGroupInfo lib n t s2 = Inr (stored_group t g, True)" for t
    using getGroupInfo_read [OF assms(1) s1(3) s2(2)] s1(2) by simp
  then show ?case using s1 s2 by (intro exI [of _ s2]) (auto simp: e)
qed simp

lemma getConfigs_loop_run:
  assumes "sorted_wrt (<) (map fst (st_hostGroups st) @ map fst gs)"
    and "\<forall>(n, g) \<in> set gs. \<forall>t. MDBM_getGroupInfo lib n t s = Inr (stored_group t g, True)"
  shows "\<exists>st'. getConfigs_loop lib s (map fst gs) st = Inr (st', True)
    \<and> st_hostGroups st' = st_hostGroups st @ map (\<lambda>(n, g). (n, stored_group (HostGroup_new n) g)) gs"
  using assms
proof (induction gs arbitrary: st)
  case (Cons e gs)
  obtain n g where e: "e = (n, g)" by fastforce
  let ?g = "stored_group (HostGroup_new n) g"
  let ?st = "st\<lparr>st_checkList := fst (CheckList_addHostGroup ?g (st_checkList st)),
      st_hostGroups := st_hostGroups st @ [(n, ?g)]\<rparr>"
  have "smap_insert (<) n ?g (st_hostGroups st) = st_hostGroups st @ [(n, ?g)]"
    using Cons.prems(1) by (intro smap_insert_last) (auto simp: e sorted_wrt_append list_all_iff)
  then show ?case
    using Cons.IH [of ?st] Cons.prems by (auto simp: e sorted_wrt_append)
qed simp

lemma fold_insort_sorted:
  "sorted (acc @ ns) \<Longrightarrow> distinct (acc @ ns) \<Longrightarrow> fold insort_insert ns acc = acc @ (ns :: 'a :: linorder list)"
proof (induction ns arbitrary: acc)
  case (Cons n ns)
  then have "insort_insert n acc = acc @ [n]"
    by (auto simp: insort_insert_key_def sorted_append insort_is_Cons intro: sorted_insort_is_snoc)
  then show ?case using Cons.IH [of "acc @ [n]"] Cons.prems by simp
qed simp

text \<open>
  C19: the configuration survives a restart. When the host groups of a state are written to an open data
  store, reading the configuration gives a state with the same groups under the same names, each with
  its parameters, hosts and child groups; what is lost of a group is the remote check type, the DNS
  type, the plugin and the hash.
\<close>

theorem configs_survive_restart:
  assumes "mdbm_ok lib" and "store_open s" and "map_sorted (<) (st_hostGroups st)"
    and "list_all (\<lambda>(n, g). name_fits n \<and> HostGroup_storable g) (st_hostGroups st)"
    and "length (st_hostGroups st) < 2 ^ 32" and "MDBM_getConfigInfo lib ConfigInfo_new s = Inr c"
  shows "\<exists>s' st' h. Storage_storeConfigs lib st s = Inr (s', True) \<and> Storage_getConfigs lib st0 s' = Inr (st', h, True)
    \<and> st_hostGroups st' = map (\<lambda>(n, g). (n, stored_group (HostGroup_new n) g)) (st_hostGroups st)"
proof -
  let ?gs = "st_hostGroups st"
  have names: "sorted_wrt (<) (map fst ?gs)" using assms(3) by (simp add: map_sorted_def sorted_wrt_map)
  then have sd: "sorted (map fst ?gs)" "distinct (map fst ?gs)" by (simp_all add: strict_sorted_iff)
  have "list_all (\<lambda>(n, g). HostGroup_storable g) ?gs" using assms(4) by (auto simp: list_all_iff)
  from storeConfigs_loop_run [OF assms(1,2) sd(2) this]
  obtain s1 where s1: "storeConfigs_loop lib ?gs s = (s1, True)" "store_open s1"
      "\<forall>(n, g) \<in> set ?gs. \<forall>t. MDBM_getGroupInfo lib n t s1 = Inr (stored_group t g, True)"
      "\<forall>k. k \<notin> (\<lambda>(n, g). HM_MDBM_GROUP_PREFIX @ n) ` set ?gs \<longrightarrow> mdbm_read lib k s1 = mdbm_read lib k s"
    by blast
  have "list_all name_fits (map fst ?gs)" using assms(4) by (auto simp: list_all_iff)
  from group_names_roundtrip [OF assms(1) s1(2) this sd] assms(5)
  obtain s2 where s2: "MDBM_storeHostGroupNames lib (map fst ?gs) s1 = Inr (s2, True)"
      "MDBM_getHostGroupNames lib [] s2 = Inr (map fst ?gs, True)" "store_open s2"
      "\<forall>k. k \<noteq> HM_MDBM_GROUP_NAMES \<longrightarrow> mdbm_read lib k s2 = mdbm_read lib k s1"
    by auto
  have "MDBM_getGroupInfo lib n t s2 = MDBM_getGroupInfo lib n t s1" for n t
    using s2(4) by (intro getGroupInfo_read [OF assms(1) s1(2) s2(3)]) simp
  then have "\<forall>(n, g) \<in> set ?gs. \<forall>t. MDBM_getGroupInfo lib n t s2 = Inr (stored_group t g, True)"
    using s1(3) by simp
  then obtain st' where st': "getConfigs_loop lib s2 (map fst ?gs) (st0\<lparr>st_hostGroups := []\<rparr>) = Inr (st', True)"
      "st_hostGroups st' = map (\<lambda>(n, g). (n, stored_group (HostGroup_new n) g)) ?gs"
    using getConfigs_loop_run [of "st0\<lparr>st_hostGroups := []\<rparr>" ?gs lib s2] names by auto
  have "HM_MDBM_CONFIG \<notin> (\<lambda>(n, g). HM_MDBM_GROUP_PREFIX @ n) ` set ?gs" by auto
  then have "mdbm_read lib HM_MDBM_CONFIG s2 = mdbm_read lib HM_MDBM_CONFIG s" using s1(4) s2(4) by simp
  then have "MDBM_getConfigInfo lib ConfigInfo_new s2 = Inr c" using assms(6) by (simp add: MDBM_getConfigInfo_def)
  then show ?thesis
    using s1(1) s2(1,2) st' fold_insort_sorted [of "[]" "map fst ?gs"] sd
    by (simp add: Storage_storeConfigs_def Storage_getConfigs_def split_beta)
qed

section \<open>Restoring the results\<close>

text \<open>The store as \<open>initResultsFromBackend\<close> reads it.\<close>

definition cleared :: "'db HMStorage \<Rightarrow> 'db HMStorage" where
  "cleared s = s\<lparr>sg_shutdown := False, sg_thread := False, sg_hostGroupResults := [], sg_hostGroupAux := [],
     sg_storeCheckQueue := [], sg_storeAuxQueue := []\<rparr>"

lemma init_clear_run:
  assumes "\<not> sg_readonly s" and "groups_have_hosts s" and "updates_known s"
  shows "init_clear lib clock waiting s = Inr (cleared s)"
proof -
  obtain s' where s': "Storage_closeStore lib clock waiting s = Inr s'" "\<not> sg_thread s'" "sg_db s' = sg_db s"
    using closeStore_run [OF assms] by blast
  have "s'\<lparr>sg_shutdown := False, sg_hostGroupResults := [], sg_hostGroupAux := [],
      sg_storeCheckQueue := [], sg_storeAuxQueue := []\<rparr> = cleared s"
    using closeStore_keeps [OF s'(1)] s'(2,3)
    by (intro HMStorage.equality) (simp_all add: cleared_def commit_frame_def)
  then show ?thesis by (simp add: init_clear_def s'(1))
qed

text \<open>A stored result is kept when its group is in the configuration with the same parameters and its host is
  in the group.\<close>

definition group_unchanged :: "'db mdbm \<Rightarrow> 'db HMStorage \<Rightarrow> string \<Rightarrow> bool" where
  "group_unchanged lib s n \<longleftrightarrow>
     (case group_find n (sg_hostGroupMap s) of None \<Rightarrow> False
      | Some grp \<Rightarrow>
          (case MDBM_getGroupInfo lib n (HostGroup_new n) s of Inl e \<Rightarrow> False
           | Inr (info, ok) \<Rightarrow> \<not> ok \<or> HostGroup_eq grp info))"

definition host_known :: "'db HMStorage \<Rightarrow> string \<Rightarrow> string \<Rightarrow> bool" where
  "host_known s n host \<longleftrightarrow>
     (case group_find n (sg_hostGroupMap s) of None \<Rightarrow> False | Some grp \<Rightarrow> HostGroup_isValidHost host grp)"

definition keeps_check :: "'db mdbm \<Rightarrow> 'db HMStorage \<Rightarrow> string \<times> HMGroupCheckResult \<Rightarrow> bool" where
  "keeps_check lib s e \<longleftrightarrow> group_unchanged lib s (fst e) \<and> host_known s (fst e) (gr_hostName (snd e))"

definition keeps_aux :: "'db mdbm \<Rightarrow> 'db HMStorage \<Rightarrow> string \<times> HMGroupAuxResult \<Rightarrow> bool" where
  "keeps_aux lib s e \<longleftrightarrow> group_unchanged lib s (fst e) \<and> host_known s (fst e) (ga_hostName (snd e))"

definition info_readable :: "'db mdbm \<Rightarrow> 'db HMStorage \<Rightarrow> string \<Rightarrow> bool" where
  "info_readable lib s n \<longleftrightarrow> (case MDBM_getGroupInfo lib n (HostGroup_new n) s of Inl e \<Rightarrow> False | Inr x \<Rightarrow> True)"

text \<open>What the loop over the stored results keeps: the store but for check results in the database, and that only
  groups of the configuration are to be written again.\<close>

definition reloading :: "'db mdbm \<Rightarrow> 'db HMStorage \<Rightarrow> 'db reload_scan \<Rightarrow> bool" where
  "reloading lib s c \<longleftrightarrow>
     same_store s (rl_store c) \<and> store_open (rl_store c)
     \<and> (\<forall>n. mdbm_read lib (HM_MDBM_GROUP_PREFIX @ n) (rl_store c) = mdbm_read lib (HM_MDBM_GROUP_PREFIX @ n) s)
     \<and> list_all (\<lambda>n. group_find n (sg_hostGroupMap s) \<noteq> None) (rl_updateList c)"

lemma save_mapping_fields [simp]:
  "rl_store (save_mapping grp r c) = rl_store c" "rl_updateList (save_mapping grp r c) = rl_updateList c"
  by (simp_all add: save_mapping_def Let_def)

lemma save_mappings_fields [simp]:
  "rl_store (fold (\<lambda>(k, i) c. if P i then c else save_mapping grp r c) es c) = rl_store c"
  "rl_updateList (fold (\<lambda>(k, i) c. if P i then c else save_mapping grp r c) es c) = rl_updateList c"
  by (induction es arbitrary: c) (auto split: if_splits)

lemma remove_run:
  fixes n :: string
  assumes "mdbm_ok lib" and "store_open s"
  defines "s' \<equiv> fst (MDBM_removeHostGroupCheckResults lib n s)"
  shows "same_store s s'" and "store_open s'"
    and "mdbm_read lib k s' = (if k = HM_MDBM_CHECK_PREFIX @ n then None else mdbm_read lib k s)"
proof -
  have s': "s' = s\<lparr>sg_db := fst (Handle_remove lib (sg_lockPolicy s) (HM_MDBM_CHECK_PREFIX @ n) (sg_db s))\<rparr>"
    by (simp add: s'_def MDBM_removeHostGroupCheckResults_def mdbm_write_open [OF assms(1,2)])
  then show "same_store s s'" by (auto simp: same_store_def)
  show op: "store_open s'" using assms(2) by (simp add: s' store_open_def)
  show "mdbm_read lib k s' = (if k = HM_MDBM_CHECK_PREFIX @ n then None else mdbm_read lib k s)"
    using Handle_remove_ok(2) [OF assms(1)]
    by (simp add: mdbm_read_open [OF assms(1) op] mdbm_read_open [OF assms(1,2)]) (simp add: s')
qed

lemma reloading_info:
  assumes "mdbm_ok lib" and "store_open s" and "reloading lib s c"
  shows "MDBM_getGroupInfo lib n t (rl_store c) = MDBM_getGroupInfo lib n t s"
    and "sg_hostGroupMap (rl_store c) = sg_hostGroupMap s"
proof -
  have "store_open (rl_store c)" "same_store s (rl_store c)"
    "mdbm_read lib (HM_MDBM_GROUP_PREFIX @ n) (rl_store c) = mdbm_read lib (HM_MDBM_GROUP_PREFIX @ n) s"
    using assms(3) by (simp_all add: reloading_def)
  then show "MDBM_getGroupInfo lib n t (rl_store c) = MDBM_getGroupInfo lib n t s"
    "sg_hostGroupMap (rl_store c) = sg_hostGroupMap s"
    by (simp_all add: getGroupInfo_read [OF assms(1,2)] same_store_fields)
qed

lemma same_store_trans: "same_store s s' \<Longrightarrow> same_store s' s'' \<Longrightarrow> same_store s s''"
  by (auto simp: same_store_def)

lemma reloading_removed:
  assumes "mdbm_ok lib" and "reloading lib s c"
  shows "reloading lib s (c\<lparr>rl_store := fst (MDBM_removeHostGroupCheckResults lib n (rl_store c))\<rparr>)"
proof -
  have "store_open (rl_store c)" using assms(2) by (simp add: reloading_def)
  note gone = remove_run [OF assms(1) this, where n = n]
  show ?thesis using assms(2) gone(2) same_store_trans [OF _ gone(1)] by (simp add: reloading_def gone(3))
qed

lemma init_check_step_run:
  assumes "mdbm_ok lib" and "store_open s" and "reloading lib s c" and "info_readable lib s n"
  shows "\<exists>c'. init_check_step lib kept n r rest c = Inr (keeps_check lib s (n, r), c') \<and> reloading lib s c'
    \<and> (group_find n (sg_hostGroupMap s) = None \<longrightarrow> mdbm_read lib (HM_MDBM_CHECK_PREFIX @ n) (rl_store c') = None)
    \<and> (\<forall>k. mdbm_read lib k (rl_store c) = None \<longrightarrow> mdbm_read lib k (rl_store c') = None)"
proof -
  note info = reloading_info [OF assms(1-3)]
  have op: "store_open (rl_store c)" using assms(3) by (simp add: reloading_def)
  note gone = reloading_removed [OF assms(1,3), of n] remove_run(3) [OF assms(1) op, where n = n]
  show ?thesis
  proof (cases "group_find n (sg_hostGroupMap s)")
    case None
    then show ?thesis using gone
      by (simp add: init_check_step_def info keeps_check_def group_unchanged_def)
  next
    case (Some grp)
    obtain b ok where b: "MDBM_getGroupInfo lib n (HostGroup_new n) s = Inr (b, ok)"
      using assms(4) by (auto simp: info_readable_def split: sum.splits)
    show ?thesis
      using assms(3) gone
      by (auto simp: init_check_step_def info Some b keeps_check_def group_unchanged_def host_known_def Let_def
          reloading_def list_all_iff set_insort_insert)
  qed
qed

lemma init_checks_loop_run:
  assumes "mdbm_ok lib" and "store_open s" and "reloading lib s c"
    and "list_all (\<lambda>e. info_readable lib s (fst e)) rest"
  shows "\<exists>c'. init_checks_loop lib kept rest c = Inr (kept @ filter (keeps_check lib s) rest, c') \<and> reloading lib s c'
    \<and> (\<forall>e \<in> set rest. group_find (fst e) (sg_hostGroupMap s) = None \<longrightarrow>
         mdbm_read lib (HM_MDBM_CHECK_PREFIX @ fst e) (rl_store c') = None)
    \<and> (\<forall>k. mdbm_read lib k (rl_store c) = None \<longrightarrow> mdbm_read lib k (rl_store c') = None)"
  using assms(3,4)
proof (induction rest arbitrary: kept c)
  case (Cons e rest)
  obtain n r where e: "e = (n, r)" by fastforce
  from Cons.prems(2) have readable: "info_readable lib s n" "list_all (\<lambda>e. info_readable lib s (fst e)) rest"
    by (simp_all add: e)
  obtain c1 where c1: "init_check_step lib kept n r rest c = Inr (keeps_check lib s (n, r), c1)" "reloading lib s c1"
      "group_find n (sg_hostGroupMap s) = None \<longrightarrow> mdbm_read lib (HM_MDBM_CHECK_PREFIX @ n) (rl_store c1) = None"
      "\<forall>k. mdbm_read lib k (rl_store c) = None \<longrightarrow> mdbm_read lib k (rl_store c1) = None"
    using init_check_step_run [OF assms(1,2) Cons.prems(1) readable(1), of kept r rest]
    by (elim exE conjE) (rule that)
  show ?case
    using Cons.IH [OF c1(2) readable(2), of "if keeps_check lib s (n, r) then kept @ [(n, r)] else kept"] c1
    by (auto simp: e)
qed simp

lemma init_aux_run:
  assumes "list_all (\<lambda>e. info_readable lib s (fst e)) rest"
  shows "\<exists>ups'. res_fold (init_aux_step lib s) rest (kept, ups) = Inr (kept @ filter (keeps_aux lib s) rest, ups')"
  using assms
proof (induction rest arbitrary: kept ups)
  case (Cons e rest)
  obtain n r where e: "e = (n, r)" by fastforce
  have "\<exists>ups'. init_aux_step lib s e (kept, ups) = Inr (if keeps_aux lib s e then kept @ [e] else kept, ups')"
    using Cons.prems
    by (auto simp: e init_aux_step_def keeps_aux_def group_unchanged_def host_known_def info_readable_def
        split: option.splits sum.splits)
  then obtain ups' where "init_aux_step lib s e (kept, ups) = Inr (if keeps_aux lib s e then kept @ [e] else kept, ups')"
    by blast
  then show ?case
    using Cons.IH [of "if keeps_aux lib s e then kept @ [e] else kept" ups'] Cons.prems
    by (cases "keeps_aux lib s e") simp_all
qed simp

lemma mmap_insert_last:
  "list_all (\<lambda>e. \<not> k < fst e) m \<Longrightarrow> mmap_insert (<) k v m = m @ [(k, v)]"
  by (induction m) auto

lemma reload_checks_run:
  assumes "mmap_sorted (<) (sg_hostGroupResults s @ es)"
    and "list_all (\<lambda>e. group_find (fst e) (sg_hostGroupMap s) \<noteq> None) es"
  shows "fst (fold reload_check es (s, st)) = s\<lparr>sg_hostGroupResults := sg_hostGroupResults s @ es\<rparr>"
  using assms
proof (induction es arbitrary: s st)
  case (Cons e es)
  obtain n r where e: "e = (n, r)" by fastforce
  have "mmap_insert (<) n r (sg_hostGroupResults s) = sg_hostGroupResults s @ [(n, r)]"
    using Cons.prems(1) by (intro mmap_insert_last) (auto simp: e mmap_sorted_def sorted_wrt_append list_all_iff)
  then have "fst (reload_check e (s, st)) = s\<lparr>sg_hostGroupResults := sg_hostGroupResults s @ [e]\<rparr>"
    using Cons.prems(2) by (auto simp: e reload_check_def Let_def split: option.splits)
  then obtain st' where "reload_check e (s, st) = (s\<lparr>sg_hostGroupResults := sg_hostGroupResults s @ [e]\<rparr>, st')"
    by (metis prod.collapse)
  then show ?case using Cons.IH [of "s\<lparr>sg_hostGroupResults := sg_hostGroupResults s @ [e]\<rparr>" st'] Cons.prems by simp
qed simp

lemma reload_auxs_run:
  assumes "mmap_sorted (<) (sg_hostGroupAux s @ es)"
    and "list_all (\<lambda>e. group_find (fst e) (sg_hostGroupMap s) \<noteq> None) es"
  shows "fst (fold reload_aux es (s, ac)) = s\<lparr>sg_hostGroupAux := sg_hostGroupAux s @ es\<rparr>"
  using assms
proof (induction es arbitrary: s ac)
  case (Cons e es)
  obtain n r where e: "e = (n, r)" by fastforce
  have "mmap_insert (<) n r (sg_hostGroupAux s) = sg_hostGroupAux s @ [(n, r)]"
    using Cons.prems(1) by (intro mmap_insert_last) (auto simp: e mmap_sorted_def sorted_wrt_append list_all_iff)
  then have "fst (reload_aux e (s, ac)) = s\<lparr>sg_hostGroupAux := sg_hostGroupAux s @ [e]\<rparr>"
    using Cons.prems(2) by (auto simp: e reload_aux_def Let_def split: option.splits)
  then obtain ac' where "reload_aux e (s, ac) = (s\<lparr>sg_hostGroupAux := sg_hostGroupAux s @ [e]\<rparr>, ac')"
    by (metis prod.collapse)
  then show ?case using Cons.IH [of "s\<lparr>sg_hostGroupAux := sg_hostGroupAux s @ [e]\<rparr>" ac'] Cons.prems by simp
qed simp

text \<open>A write of the results of one group, whatever its outcome.\<close>

definition group_size_ok :: "'db HMStorage \<Rightarrow> string \<Rightarrow> bool" where
  "group_size_ok s n \<longleftrightarrow>
     8 + length (concat (map put_check (group_results n (sg_hostGroupResults s)))) < 2 ^ 32
     \<and> 8 + length (concat (map put_aux (group_results n (sg_hostGroupAux s)))) < 2 ^ 32"

lemma keyed_store_run:
  assumes "mdbm_ok lib" and "store_open s" and "p \<noteq> []"
  shows "\<exists>s' ok. mdbm_write lib (Handle_store lib (sg_lockPolicy s) (p @ n) v) s = (s', ok) \<and> same_store s s'
      \<and> store_open s' \<and> (\<forall>k. k \<noteq> p @ n \<longrightarrow> mdbm_read lib k s' = mdbm_read lib k s)"
proof -
  have "p @ n \<noteq> []" using assms(3) by simp
  from write_store [OF assms(1,2) this, of "sg_lockPolicy s" v] show ?thesis by (metis same_store_def)
qed

lemma check_write_run:
  assumes "mdbm_ok lib" and "store_open s"
    and "8 + length (concat (map put_check (group_results n (sg_hostGroupResults s)))) < 2 ^ 32"
  shows "\<exists>s' ok. MDBM_storeHostGroupCheckResults lib n s = Inr (s', ok) \<and> same_store s s' \<and> store_open s'
      \<and> (\<forall>k. k \<noteq> HM_MDBM_CHECK_PREFIX @ n \<longrightarrow> mdbm_read lib k s' = mdbm_read lib k s)"
  using assms(2,3) keyed_store_run [OF assms(1,2) keys_not_empty(4)]
  by (auto simp add: MDBM_storeHostGroupCheckResults_def store_open_def Let_def)

lemma aux_write_run:
  assumes "mdbm_ok lib" and "store_open s"
    and "8 + length (concat (map put_aux (group_results n (sg_hostGroupAux s)))) < 2 ^ 32"
  shows "\<exists>s' ok. MDBM_storeHostGroupAuxInfo lib n s = Inr (s', ok) \<and> same_store s s' \<and> store_open s'
      \<and> (\<forall>k. k \<noteq> HM_MDBM_AUX_PREFIX @ n \<longrightarrow> mdbm_read lib k s' = mdbm_read lib k s)"
  using assms(2,3) keyed_store_run [OF assms(1,2) keys_not_empty(5)]
  by (auto simp add: MDBM_storeHostGroupAuxInfo_def store_open_def Let_def)

lemma group_write_run:
  assumes "mdbm_ok lib" and "store_open s" and "group_size_ok s n"
  shows "\<exists>s' ok. MDBM_storeHostGroupCheckResults lib n s = Inr (s', ok) \<and> same_store s s' \<and> store_open s'
      \<and> (\<forall>k. k \<noteq> HM_MDBM_CHECK_PREFIX @ n \<longrightarrow> mdbm_read lib k s' = mdbm_read lib k s)"
    and "\<exists>s' ok. MDBM_storeHostGroupAuxInfo lib n s = Inr (s', ok) \<and> same_store s s' \<and> store_open s'
      \<and> (\<forall>k. k \<noteq> HM_MDBM_AUX_PREFIX @ n \<longrightarrow> mdbm_read lib k s' = mdbm_read lib k s)"
  using check_write_run [OF assms(1,2)] aux_write_run [OF assms(1,2)] assms(3) by (simp_all add: group_size_ok_def)

lemma group_size_same: "same_store s s' \<Longrightarrow> group_size_ok s' n = group_size_ok s n"
  by (simp add: group_size_ok_def same_store_fields)

lemma group_writes_run:
  assumes "\<And>s n. store_open s \<Longrightarrow> group_size_ok s n \<Longrightarrow> \<exists>s' ok. f n s = Inr (s', ok :: bool) \<and> same_store s s'
      \<and> store_open s' \<and> (\<forall>k. k \<noteq> p @ n \<longrightarrow> mdbm_read lib k s' = mdbm_read lib k s)"
    and "store_open s" and "list_all (group_size_ok s) ns"
  shows "\<exists>s'. res_fold (\<lambda>n s. res_bind (f n s) (\<lambda>(s, _). Inr s)) ns s = Inr s' \<and> same_store s s' \<and> store_open s'
      \<and> (\<forall>k. k \<notin> (\<lambda>n. p @ n) ` set ns \<longrightarrow> mdbm_read lib k s' = mdbm_read lib k s)"
  using assms(2,3)
proof (induction ns arbitrary: s)
  case (Cons n ns)
  then obtain s1 ok where s1: "f n s = Inr (s1, ok)" "same_store s s1" "store_open s1"
      "\<forall>k. k \<noteq> p @ n \<longrightarrow> mdbm_read lib k s1 = mdbm_read lib k s"
    using assms(1) [OF Cons.prems(1), of n] by auto
  have "list_all (group_size_ok s1) ns" using Cons.prems(2) group_size_same [OF s1(2)] by (simp add: list_all_iff)
  from Cons.IH [OF s1(3) this] obtain s2 where s2: "res_fold (\<lambda>n s. res_bind (f n s) (\<lambda>(s, _). Inr s)) ns s1 = Inr s2"
      "same_store s1 s2" "store_open s2" "\<forall>k. k \<notin> (\<lambda>n. p @ n) ` set ns \<longrightarrow> mdbm_read lib k s2 = mdbm_read lib k s1"
    by blast
  then show ?case using s1 same_store_trans [OF s1(2) s2(2)] by auto
qed simp

lemma load_groups_sorted:
  assumes "load_groups lib s ns (a, b) = Inr (checks, auxs)" and "mmap_sorted (<) a" and "mmap_sorted (<) b"
  shows "mmap_sorted (<) checks" "mmap_sorted (<) auxs"
proof -
  have insert: "mmap_sorted (<) m \<Longrightarrow> mmap_sorted (<) (fold (mmap_insert (<) n) rs m)"
    for m :: "(string \<times> 'r) list" and n rs
    by (induction rs arbitrary: m) (simp_all add: name_order.mmap_sorted_insert)
  have "mmap_sorted (<) checks \<and> mmap_sorted (<) auxs"
    using assms
  proof (induction ns arbitrary: a b)
    case (Cons n ns)
    then obtain cs ok ds ok' where
      *: "load_groups lib s ns (if ok then fold (mmap_insert (<) n) cs a else a,
           if ok' then fold (mmap_insert (<) n) ds b else b) = Inr (checks, auxs)"
      by (auto simp: res_bind_Inr)
    show ?case by (rule Cons.IH [OF *]) (use Cons.prems(2,3) insert in auto)
  qed simp
  then show "mmap_sorted (<) checks" "mmap_sorted (<) auxs" by simp_all
qed

lemma init_install_run:
  assumes "mdbm_ok lib" and "store_open (rl_store c)" and "sg_hostGroupResults (rl_store c) = []"
    and "sg_hostGroupAux (rl_store c) = []" and "mmap_sorted (<) checks" and "mmap_sorted (<) auxs"
    and "list_all (\<lambda>e. group_find (fst e) (sg_hostGroupMap (rl_store c)) \<noteq> None) checks"
    and "list_all (\<lambda>e. group_find (fst e) (sg_hostGroupMap (rl_store c)) \<noteq> None) auxs"
    and "\<forall>n. group_size_ok ((rl_store c)\<lparr>sg_hostGroupResults := checks, sg_hostGroupAux := auxs\<rparr>) n"
  shows "\<exists>s' st' ac'. init_install lib checks c auxs ups (st, ac) = Inr (s', st', ac')
    \<and> sg_hostGroupResults s' = checks \<and> sg_hostGroupAux s' = auxs \<and> sg_thread s' \<and> store_open s'
    \<and> sg_storeCheckQueue s' = sg_storeCheckQueue (rl_store c) \<and> sg_storeAuxQueue s' = sg_storeAuxQueue (rl_store c)
    \<and> (\<forall>n. n \<notin> set (rl_updateList c) \<longrightarrow>
         mdbm_read lib (HM_MDBM_CHECK_PREFIX @ n) s' = mdbm_read lib (HM_MDBM_CHECK_PREFIX @ n) (rl_store c))"
proof -
  define dns where "dns = fold (reload_dns (rl_dnsResTime c)) (rl_dnsMap c) (st_dnsCache st)"
  define s1 where "s1 = (rl_store c)\<lparr>sg_dnsCache := dns\<rparr>"
  define s2 where "s2 = s1\<lparr>sg_hostGroupResults := checks\<rparr>"
  define s3 where "s3 = s2\<lparr>sg_hostGroupAux := auxs, sg_thread := True\<rparr>"
  define st1 where "st1 = st\<lparr>st_checkList := rl_checkList c, st_dnsCache := dns\<rparr>"
  have "fst (fold reload_check checks (s1, st1)) = s2"
    using reload_checks_run [of s1 checks st1] assms(3,5,7) by (simp add: s1_def s2_def)
  then obtain st2 where st2: "fold reload_check checks (s1, st1) = (s2, st2)" by (metis prod.collapse)
  have "fst (fold reload_aux auxs (s2, ac)) = s2\<lparr>sg_hostGroupAux := auxs\<rparr>"
    using reload_auxs_run [of s2 auxs ac] assms(4,6,8) by (simp add: s1_def s2_def)
  then obtain ac2 where ac2: "fold reload_aux auxs (s2, ac) = (s2\<lparr>sg_hostGroupAux := auxs\<rparr>, ac2)"
    by (metis prod.collapse)
  have op: "store_open s3" using assms(2) by (simp add: s3_def s2_def s1_def store_open_def)
  have size: "group_size_ok s3 n" for n
    using assms(9) by (simp add: s3_def s2_def s1_def group_size_ok_def)
  obtain s4 where s4: "res_fold (\<lambda>n s. res_bind (MDBM_storeHostGroupCheckResults lib n s) (\<lambda>(s, _). Inr s))
        (rl_updateList c) s3 = Inr s4" "same_store s3 s4" "store_open s4"
      "\<forall>k. k \<notin> (\<lambda>n. HM_MDBM_CHECK_PREFIX @ n) ` set (rl_updateList c) \<longrightarrow> mdbm_read lib k s4 = mdbm_read lib k s3"
    using group_writes_run [OF group_write_run(1) [OF assms(1)] op, of "rl_updateList c"] size
    by (auto simp: list_all_iff)
  have "list_all (group_size_ok s4) ups" using size group_size_same [OF s4(2)] by (simp add: list_all_iff)
  from group_writes_run [OF group_write_run(2) [OF assms(1)] s4(3) this]
  obtain s5 where s5: "res_fold (\<lambda>n s. res_bind (MDBM_storeHostGroupAuxInfo lib n s) (\<lambda>(s, _). Inr s)) ups s4 = Inr s5"
      "same_store s4 s5" "store_open s5"
      "\<forall>k. k \<notin> (\<lambda>n. HM_MDBM_AUX_PREFIX @ n) ` set ups \<longrightarrow> mdbm_read lib k s5 = mdbm_read lib k s4"
    by auto
  have read: "mdbm_read lib k s3 = mdbm_read lib k (rl_store c)" for k
    by (simp add: s3_def s2_def s1_def mdbm_read_def)
  have "mdbm_read lib (HM_MDBM_CHECK_PREFIX @ n) s5 = mdbm_read lib (HM_MDBM_CHECK_PREFIX @ n) (rl_store c)"
    if "n \<notin> set (rl_updateList c)" for n
  proof -
    have "HM_MDBM_CHECK_PREFIX @ n \<notin> (\<lambda>n. HM_MDBM_AUX_PREFIX @ n) ` set ups"
      "HM_MDBM_CHECK_PREFIX @ n \<notin> (\<lambda>n. HM_MDBM_CHECK_PREFIX @ n) ` set (rl_updateList c)" using that by auto
    then show ?thesis using s4(4) s5(4) by (simp add: read)
  qed
  moreover have "init_install lib checks c auxs ups (st, ac) = Inr (s5, st2, ac2)"
    using s4(1) s5(1) by (simp add: init_install_def st2 ac2 flip: dns_def s1_def st1_def s3_def)
  ultimately show ?thesis
    using s5(3) same_store_fields [OF same_store_trans [OF s4(2) s5(2)]] by (simp add: s3_def s2_def s1_def)
qed

text \<open>
  C18: the results of an earlier run are restored at the start, and only those that still apply. After
  \<open>initResultsFromBackend\<close> on a store that can be written, whose database can be read and whose groups are
  small enough: the cached check results and auxiliary data are, in their order, the stored ones whose
  group is in the configuration with the parameters it was stored with and whose host is still in the
  group; the queues are empty and the commit thread runs; and the results of a group that is no longer
  in the configuration are gone from the database.
\<close>

theorem initResults_restores:
  fixes s :: "'db HMStorage" and lib :: "'db mdbm"
  defines "s0 \<equiv> cleared s"
  assumes "mdbm_ok lib" and "\<not> sg_readonly s" and "groups_have_hosts s" and "updates_known s"
    and "MDBM_getHostGroupNames lib [] s0 = Inr (names, ok)" and "load_groups lib s0 names ([], []) = Inr (checks, auxs)"
    and "list_all (\<lambda>e. info_readable lib s0 (fst e)) checks" and "list_all (\<lambda>e. info_readable lib s0 (fst e)) auxs"
    and "\<forall>n. group_size_ok (s0\<lparr>sg_hostGroupResults := filter (keeps_check lib s0) checks,
           sg_hostGroupAux := filter (keeps_aux lib s0) auxs\<rparr>) n"
  shows "\<exists>s' st' ac'. Storage_initResultsFromBackend lib clock waiting (st, ac) s = Inr (s', st', ac')
    \<and> sg_hostGroupResults s' = filter (keeps_check lib s0) checks
    \<and> sg_hostGroupAux s' = filter (keeps_aux lib s0) auxs
    \<and> sg_storeCheckQueue s' = [] \<and> sg_storeAuxQueue s' = [] \<and> sg_thread s' \<and> store_open s'
    \<and> (\<forall>e \<in> set checks. group_find (fst e) (sg_hostGroupMap s) = None \<longrightarrow>
         mdbm_read lib (HM_MDBM_CHECK_PREFIX @ fst e) s' = None)"
proof -
  let ?checks = "filter (keeps_check lib s0) checks" and ?auxs = "filter (keeps_aux lib s0) auxs"
  let ?c0 = "\<lparr>rl_store = s0, rl_checkList = st_checkList st, rl_dnsMap = [], rl_dnsResTime = [], rl_updateList = []\<rparr>"
  have op: "store_open s0" using assms(3) by (simp add: s0_def cleared_def store_open_def)
  have map0: "sg_hostGroupMap s0 = sg_hostGroupMap s" by (simp add: s0_def cleared_def)
  obtain c where c: "init_checks_loop lib [] checks ?c0 = Inr (?checks, c)" "reloading lib s0 c"
      "\<forall>e \<in> set checks. group_find (fst e) (sg_hostGroupMap s0) = None \<longrightarrow>
         mdbm_read lib (HM_MDBM_CHECK_PREFIX @ fst e) (rl_store c) = None"
    using init_checks_loop_run [OF assms(2) op _ assms(8), of ?c0 "[]"] op by (auto simp: reloading_def)
  note same = c(2) [unfolded reloading_def]
  have readable: "list_all (\<lambda>e. info_readable lib (rl_store c) (fst e)) auxs"
    using assms(9) by (simp add: info_readable_def reloading_info(1) [OF assms(2) op c(2)])
  have keep: "keeps_aux lib (rl_store c) = keeps_aux lib s0"
    unfolding keeps_aux_def [abs_def] group_unchanged_def host_known_def reloading_info [OF assms(2) op c(2)] ..
  obtain ups where ups: "res_fold (init_aux_step lib (rl_store c)) auxs ([], []) = Inr (?auxs, ups)"
    using init_aux_run [OF readable, of "[]" "[]"] by (auto simp: keep)
  have empty: "sg_hostGroupResults (rl_store c) = []" "sg_hostGroupAux (rl_store c) = []"
      "sg_storeCheckQueue (rl_store c) = []" "sg_storeAuxQueue (rl_store c) = []"
      "sg_hostGroupMap (rl_store c) = sg_hostGroupMap s"
    using same_store_fields [OF conjunct1 [OF same]] by (simp_all add: s0_def cleared_def)
  have known: "list_all (\<lambda>e. group_find (fst e) (sg_hostGroupMap s) \<noteq> None) ?checks"
      "list_all (\<lambda>e. group_find (fst e) (sg_hostGroupMap s) \<noteq> None) ?auxs"
    by (auto simp: list_all_iff keeps_check_def keeps_aux_def group_unchanged_def map0 split: option.splits)
  note sorted = load_groups_sorted [OF assms(7) mmap_sorted_Nil mmap_sorted_Nil]
  have sorted': "mmap_sorted (<) ?checks" "mmap_sorted (<) ?auxs"
    using sorted by (simp_all add: mmap_sorted_def sorted_wrt_filter)
  have "\<forall>n. group_size_ok ((rl_store c)\<lparr>sg_hostGroupResults := ?checks, sg_hostGroupAux := ?auxs\<rparr>) n"
    using assms(10) by (simp add: group_size_ok_def)
  from init_install_run [OF assms(2) _ empty(1,2) sorted' known [folded empty(5)] this, of ups st ac] same
  obtain s' st' ac' where s': "init_install lib ?checks c ?auxs ups (st, ac) = Inr (s', st', ac')"
      "sg_hostGroupResults s' = ?checks" "sg_hostGroupAux s' = ?auxs" "sg_thread s'" "store_open s'"
      "sg_storeCheckQueue s' = []" "sg_storeAuxQueue s' = []"
      "\<forall>n. n \<notin> set (rl_updateList c) \<longrightarrow>
         mdbm_read lib (HM_MDBM_CHECK_PREFIX @ n) s' = mdbm_read lib (HM_MDBM_CHECK_PREFIX @ n) (rl_store c)"
    unfolding empty by blast
  have "mdbm_read lib (HM_MDBM_CHECK_PREFIX @ fst e) s' = None"
    if "e \<in> set checks" "group_find (fst e) (sg_hostGroupMap s) = None" for e
  proof -
    have "fst e \<notin> set (rl_updateList c)" using that(2) same by (auto simp: map0 list_all_iff)
    then show ?thesis using s'(8) c(3) that by (simp add: map0)
  qed
  moreover have "Storage_initResultsFromBackend lib clock waiting (st, ac) s = Inr (s', st', ac')"
    using assms(3,6,7) c(1) ups s'(1) init_clear_run [OF assms(3-5), of lib clock waiting]
    by (simp add: Storage_initResultsFromBackend_def flip: s0_def)
  ultimately show ?thesis using s' by blast
qed

section \<open>Witnesses\<close>

lemma configs_survive_restart_witness:
  "\<exists>s' st' h. Storage_storeConfigs alist_lib (State_new\<lparr>st_hostGroups := [(''web'', sample_group)]\<rparr>) sample_running
       = Inr (s', True)
    \<and> Storage_getConfigs alist_lib State_new s' = Inr (st', h, True)
    \<and> st_hostGroups st' = [(''web'', stored_group (HostGroup_new ''web'') sample_group)]"
proof -
  have "HostGroup_storable sample_group"
    by (simp add: sample_group_def HostGroup_new_def HostGroup_storable_def HostGroup_totalSize_def
        HostGroup_sizeof_def strings_size_def clean_def)
  moreover have "name_fits ''web''" by (simp add: name_fits_def clean_def)
  moreover have "MDBM_getConfigInfo alist_lib ConfigInfo_new sample_running = Inr (ConfigInfo_new, False)"
    by (simp add: MDBM_getConfigInfo_def mdbm_read_open [OF alist_lib_ok sample_running_open])
      (simp add: alist_lib_def sample_running_def sample_store_def Storage_new_def)
  ultimately show ?thesis
    using configs_survive_restart [OF alist_lib_ok sample_running_open,
        of "State_new\<lparr>st_hostGroups := [(''web'', sample_group)]\<rparr>" _ State_new]
    by (simp add: map_sorted_def)
qed

text \<open>A database with the results of a group of the configuration and of one that is not.\<close>

definition sample_value :: "HMGroupCheckResult list \<Rightarrow> mdbm_value" where
  "sample_value gs = RawValue (put_u32 (of_nat (8 + length (concat (map put_check gs))))
     @ put_u32 (of_nat (length gs)) @ concat (map put_check gs))"

definition sample_stopped :: "(string \<times> mdbm_value) list HMStorage" where
  "sample_stopped = sample_running\<lparr>sg_db :=
     [(HM_MDBM_GROUP_NAMES, RawValue (put_u32 2 @ concat (map put_sized_name [''g'', ''old'']))),
      (HM_MDBM_CHECK_PREFIX @ ''g'', sample_value [sample_entry ''h'', sample_entry ''x'']),
      (HM_MDBM_CHECK_PREFIX @ ''old'', sample_value [sample_entry ''h''])]\<rparr>"

lemma value_read:
  assumes "mdbm_read lib (HM_MDBM_CHECK_PREFIX @ name) s = Some (sample_value gs)" and "list_all check_fits gs"
    and "8 + length (concat (map put_check gs)) < 2 ^ 31"
  shows "MDBM_getHostGroupCheckResults_vector lib name rs s = Inr (map stored_check gs, True)"
proof -
  have "length gs \<le> length (concat (map put_check gs))"
    by (rule concat_length_ge) (rule put_check_length)
  from header_read [OF assms(3) this] checks_loop_put [OF assms(2)] assms(1,3) show ?thesis
    by (simp add: MDBM_getHostGroupCheckResults_vector_def sample_value_def)
qed

lemma sample_reads:
  "mdbm_read alist_lib HM_MDBM_GROUP_NAMES (cleared sample_stopped) =
     Some (RawValue (put_u32 2 @ concat (map put_sized_name [''g'', ''old''])))"
  "mdbm_read alist_lib (HM_MDBM_CHECK_PREFIX @ ''g'') (cleared sample_stopped) =
     Some (sample_value [sample_entry ''h'', sample_entry ''x''])"
  "mdbm_read alist_lib (HM_MDBM_CHECK_PREFIX @ ''old'') (cleared sample_stopped) =
     Some (sample_value [sample_entry ''h''])"
  "mdbm_read alist_lib (HM_MDBM_AUX_PREFIX @ n) (cleared sample_stopped) = None"
  "mdbm_read alist_lib (HM_MDBM_GROUP_PREFIX @ n) (cleared sample_stopped) = None"
  by (simp_all add: mdbm_read_def Handle_fetch_def alist_lib_def cleared_def sample_stopped_def sample_running_def
      sample_store_def Storage_new_def HM_MDBM_GROUP_NAMES_def HM_MDBM_CHECK_PREFIX_def HM_MDBM_AUX_PREFIX_def
      HM_MDBM_GROUP_PREFIX_def)

lemma sample_loads:
  "MDBM_getHostGroupNames alist_lib [] (cleared sample_stopped) = Inr ([''g'', ''old''], True)"
  "load_groups alist_lib (cleared sample_stopped) [''g'', ''old''] ([], []) =
     Inr ([(''g'', stored_check (sample_entry ''h'')), (''g'', stored_check (sample_entry ''x'')),
           (''old'', stored_check (sample_entry ''h''))], [])"
proof -
  have "list_all name_fits [''g'', ''old'']" by (simp add: name_fits_def clean_def)
  from names_loop_put [OF this, of "[]"]
  have "names_loop 2 (concat (map put_sized_name [''g'', ''old''])) [] = Inr ([''g'', ''old''], True)"
    by (simp add: numeral_2_eq_2 del: names_loop.simps)
  then show "MDBM_getHostGroupNames alist_lib [] (cleared sample_stopped) = Inr ([''g'', ''old''], True)"
    by (simp add: MDBM_getHostGroupNames_def sample_reads buffer_simps)
  have fits: "check_fits (sample_entry ''h'')" "check_fits (sample_entry ''x'')"
    by (rule sample_entry_fits, simp add: host_fits_def clean_def)+
  have "MDBM_getHostGroupCheckResults_vector alist_lib ''g'' [] (cleared sample_stopped) =
      Inr (map stored_check [sample_entry ''h'', sample_entry ''x''], True)"
    by (rule value_read [OF sample_reads(2)])
      (simp_all add: fits sample_entry_size CheckResult_sizeof_def IPAddress_sizeof_def)
  moreover have "MDBM_getHostGroupCheckResults_vector alist_lib ''old'' [] (cleared sample_stopped) =
      Inr (map stored_check [sample_entry ''h''], True)"
    by (rule value_read [OF sample_reads(3)])
      (simp_all add: fits sample_entry_size CheckResult_sizeof_def IPAddress_sizeof_def)
  ultimately show "load_groups alist_lib (cleared sample_stopped) [''g'', ''old''] ([], []) =
     Inr ([(''g'', stored_check (sample_entry ''h'')), (''g'', stored_check (sample_entry ''x'')),
           (''old'', stored_check (sample_entry ''h''))], [])"
    by (simp add: MDBM_getHostGroupGroupAuxInfo_vector_def sample_reads)
qed

lemma initResults_restores_witness:
  "\<exists>s' st' ac'. Storage_initResultsFromBackend alist_lib (\<lambda>n. int n) True (State_new, []) sample_stopped
       = Inr (s', st', ac')
    \<and> sg_hostGroupResults s' = [(''g'', stored_check (sample_entry ''h''))]
    \<and> mdbm_read alist_lib (HM_MDBM_CHECK_PREFIX @ ''old'') s' = None"
proof -
  let ?s = "cleared sample_stopped"
  have op: "store_open ?s" by (simp add: cleared_def store_open_def sample_stopped_def sample_running_def
        sample_store_def Storage_new_def)
  have find: "group_find ''g'' (sg_hostGroupMap ?s) = Some sample_remote_group"
    "group_find ''old'' (sg_hostGroupMap ?s) = None" "sg_hostGroupMap sample_stopped = sg_hostGroupMap ?s"
    by (simp_all add: cleared_def sample_stopped_def sample_running_def key_equiv_def)
  have info: "MDBM_getGroupInfo alist_lib n t ?s = Inr (t, False)" for n t
    using sample_reads(5) [of n] op alist_lib_ok
    by (simp add: MDBM_getGroupInfo_def mdbm_read_open [OF alist_lib_ok op] store_open_def HostGroup_deserialize_def
        mdbm_ok_def)
  have host: "gr_hostName (stored_check g) = gr_hostName g" for g by (simp add: stored_check_def)
  have keep: "keeps_check alist_lib ?s (''g'', stored_check (sample_entry h)) \<longleftrightarrow> h = ''h''"
    "\<not> keeps_check alist_lib ?s (''old'', r)" for h r
    by (simp_all add: keeps_check_def group_unchanged_def host_known_def find info host HostGroup_isValidHost_def
        sample_remote_group_def)
  let ?checks = "[(''g'', stored_check (sample_entry ''h'')), (''g'', stored_check (sample_entry ''x'')),
      (''old'', stored_check (sample_entry ''h''))]"
  have kept: "filter (keeps_check alist_lib ?s) ?checks = [(''g'', stored_check (sample_entry ''h''))]"
    by (simp add: keep)
  have ready: "\<not> sg_readonly sample_stopped" "groups_have_hosts sample_stopped" "updates_known sample_stopped"
    by (simp_all add: sample_stopped_def sample_running_def groups_have_hosts_def updates_known_def
        sample_remote_group_def sample_update_def sample_store_def Storage_new_def smap_find_def)
  have readable: "list_all (\<lambda>e. info_readable alist_lib ?s (fst e)) ?checks"
    "list_all (\<lambda>e. info_readable alist_lib ?s (fst e)) ([] :: (string \<times> HMGroupAuxResult) list)"
    by (simp_all add: info_readable_def info)
  have "group_results n [(''g'', stored_check (sample_entry ''h''))] =
      (if n = ''g'' then [stored_check (sample_entry ''h'')] else [])" for n
    by (simp add: group_results_filter mmap_sorted_def)
  moreover have "length (put_check (stored_check (sample_entry ''h''))) < 1000"
    using fun_cong [OF put_stored_checks, of "sample_entry ''h''"]
    by (simp add: sample_entry_size CheckResult_sizeof_def IPAddress_sizeof_def)
  ultimately have "group_size_ok (?s\<lparr>sg_hostGroupResults := filter (keeps_check alist_lib ?s) ?checks,
      sg_hostGroupAux := filter (keeps_aux alist_lib ?s) []\<rparr>) n" for n
    unfolding kept by (simp add: group_size_ok_def group_results_def equal_range_def)
  then show ?thesis
    using initResults_restores [OF alist_lib_ok ready sample_loads readable, of "\<lambda>n. int n" True State_new "[]"]
    unfolding kept by (auto simp: find)
qed

end
