(* ===== verification/HM_Config.thy ===== *)
theory HM_Config
  imports HM_ConfigYaml HM_StorageInit
begin

text \<open>
  The configuration of the daemon (\<open>HMState.cpp\<close>): the parameters of the master configuration, its parser
  \<open>parseMasterYaml\<close>, and \<open>loadAllConfigs\<close>, which reads all host group files and completes the groups. The
  fields of \<open>HMState\<close> that are not in the record of \<open>HM_State\<close> are the record \<open>HMSettings\<close>: \<open>m_x\<close> is \<open>se_x\<close>.

  What lies outside is a record \<open>config_env\<close>: the address texts of the system, the YAML library, the directories
  and the contents of files. Logging is left out.
\<close>

section \<open>Parameters\<close>

datatype HM_STORAGE_CLASS = HM_STORAGE_DEFAULT | HM_STORAGE_MDBM | HM_STORAGE_TEXT

datatype HM_CONTROL_SOCKET =
  HM_CONTROL_SOCKET_LINUX | HM_CONTROL_SOCKET_TCP_V4 | HM_CONTROL_SOCKET_TCP_V6
| HM_CONTROL_SOCKET_TLS_V4 | HM_CONTROL_SOCKET_TLS_V6

definition HM_CONTROL_SOCKET_DEFAULT_PORTV4 :: u16 where "HM_CONTROL_SOCKET_DEFAULT_PORTV4 = 10053"
definition HM_CONTROL_SOCKET_DEFAULT_PORTV6 :: u16 where "HM_CONTROL_SOCKET_DEFAULT_PORTV6 = 10054"
definition HM_MAX_REMOTE_CONNECTIONS :: u8 where "HM_MAX_REMOTE_CONNECTIONS = 128"
definition HM_DEFAULT_REMOTE_CONNECTIONS :: u8 where "HM_DEFAULT_REMOTE_CONNECTIONS = 5"
definition HM_DEFAULT_DNS_RETRIES :: u32 where "HM_DEFAULT_DNS_RETRIES = 3"

text \<open>The levels of the log are numbers: \<open>HM_ERROR\<close> is -2, \<open>HM_LOG_MAXLEVEL\<close> is 10.\<close>

record HMSettings =
  se_configDirs :: "string list"
  se_configFiles :: "string list"
  se_useBackendConfigs :: bool
  se_masterConfigLoaded :: bool
  se_configsLoaded :: bool
  se_stateActive :: bool
  se_storageClass :: HM_STORAGE_CLASS
  se_dnsLookupTimeout :: u32
  se_dnsRetries :: u32
  se_nMaxThreads :: u32
  se_nMinThreads :: u32
  se_connectionTimeout :: u64
  se_logText :: bool
  se_logLevel :: int
  se_logPath :: string
  se_storagePath :: string
  se_dnsServer :: HMIPAddress
  se_socketPath :: string
  se_logTimeFormat :: string
  se_maxLogQueue :: u32
  se_auxPolicy :: HM_STORAGE_COMMIT_POLICY
  se_healthCheckPolicy :: HM_STORAGE_COMMIT_POLICY
  se_storageLockPolicy :: HM_STORAGE_LOCK_POLICY
  se_controlSocketCheckPortv4 :: u16
  se_controlSocketCheckPortv6 :: u16
  se_hash :: HMHash
  se_masterConfig :: string
  se_healthCheckCAFile :: string
  se_healthCheckKey :: string
  se_healthCheckCert :: string
  se_control_socket :: "HM_CONTROL_SOCKET list"
  se_certFile :: string
  se_keyFile :: string
  se_caFile :: string
  se_PubSubConfigFile :: string
  se_enableMutualAuth :: bool
  se_maxConnections :: u8
  se_libEventEnabled :: bool
  se_flowType :: HM_FLOW_TYPE

definition Hash_new :: HMHash where
  "Hash_new = \<lparr>ha_hashValue = replicate 64 (CHR 0x00), ha_hashSize = 0\<rparr>"

definition Settings_new :: HMSettings where
  "Settings_new =
     \<lparr>se_configDirs = [], se_configFiles = [], se_useBackendConfigs = False, se_masterConfigLoaded = False,
      se_configsLoaded = False, se_stateActive = False, se_storageClass = HM_STORAGE_MDBM,
      se_dnsLookupTimeout = 60000, se_dnsRetries = HM_DEFAULT_DNS_RETRIES, se_nMaxThreads = 1, se_nMinThreads = 1,
      se_connectionTimeout = 3000, se_logText = True, se_logLevel = 5, se_logPath = ''/home/y/logs/HM.log'',
      se_storagePath = [], se_dnsServer = UNSPEC, se_socketPath = ''/home/y/var/run/netchasm/controlsocket'',
      se_logTimeFormat = [], se_maxLogQueue = 0, se_auxPolicy = HM_STORAGE_COMMIT_ALWAYS,
      se_healthCheckPolicy = HM_STORAGE_COMMIT_ALWAYS, se_storageLockPolicy = HM_STORAGE_RW_LOCKS,
      se_controlSocketCheckPortv4 = HM_CONTROL_SOCKET_DEFAULT_PORTV4,
      se_controlSocketCheckPortv6 = HM_CONTROL_SOCKET_DEFAULT_PORTV6, se_hash = Hash_new, se_masterConfig = [],
      se_healthCheckCAFile = [], se_healthCheckKey = [], se_healthCheckCert = [],
      se_control_socket = [HM_CONTROL_SOCKET_LINUX], se_certFile = [], se_keyFile = [], se_caFile = [],
      se_PubSubConfigFile = [], se_enableMutualAuth = True, se_maxConnections = HM_DEFAULT_REMOTE_CONNECTIONS,
      se_libEventEnabled = False, se_flowType = HM_FLOW_REMOTE_HOST_TYPE\<rparr>"

record config_env =
  ce_pton4 :: "string \<Rightarrow> 32 word option"
  ce_pton6 :: "string \<Rightarrow> 128 word option"
  ce_load :: "string \<Rightarrow> yaml option"
  ce_dirs :: "string \<Rightarrow> dir_entry list option"
  ce_read :: "string \<Rightarrow> string option"

section \<open>The master configuration\<close>

text \<open>The state, the parameters and the two local lists of \<open>parseMasterYaml\<close>.\<close>

record master_parse =
  mp_state :: HMState
  mp_settings :: HMSettings
  mp_dirs :: "string list"
  mp_files :: "string list"

definition mp_set :: "(HMSettings \<Rightarrow> HMSettings) \<Rightarrow> master_parse \<Rightarrow> master_parse" where
  "mp_set f m = m\<lparr>mp_settings := f (mp_settings m)\<rparr>"

definition mp_put :: "(HMState \<Rightarrow> HMState) \<Rightarrow> master_parse \<Rightarrow> master_parse" where
  "mp_put f m = m\<lparr>mp_state := f (mp_state m)\<rparr>"

definition tolower_char :: "char \<Rightarrow> char" where
  "tolower_char c = (let n = of_char c :: nat in if 65 \<le> n \<and> n \<le> 90 then char_of (n + 32) else c)"

definition stoi :: "string \<Rightarrow> int option" where
  "stoi s =
     (if takeWhile (\<lambda>c. digit_value c < 10) (snd (split_sign s)) = [] then None
      else let n = strtol s in if - (2 ^ 31) \<le> n \<and> n < 2 ^ 31 then Some n else None)"

definition parseLogLevel :: "string \<Rightarrow> int" where
  "parseLogLevel v =
     (let val = map tolower_char v
      in if val = ''emerg'' \<or> val = ''emergency'' then 0
         else if val = ''alert'' then 1
         else if val = ''crit'' \<or> val = ''critical'' then 2
         else if val = ''error'' then 3
         else if val = ''warn'' \<or> val = ''warning'' then 4
         else if val = ''notice'' then 5
         else if val = ''info'' then 6
         else if val = ''debug'' then 7
         else if val = ''debug2'' then 8
         else if val = ''debug3'' then 9
         else if val = ''off'' \<or> val = ''none'' then - 1
         else case stoi val of None \<Rightarrow> - 2
              | Some n \<Rightarrow> if n < - 1 \<or> n \<ge> 10 then - 2 else n)"

definition commit_policy :: "string \<Rightarrow> HM_STORAGE_COMMIT_POLICY \<Rightarrow> HM_STORAGE_COMMIT_POLICY" where
  "commit_policy val p =
     (if val = ''always'' then HM_STORAGE_COMMIT_ALWAYS
      else if val = ''first'' then HM_STORAGE_COMMIT_ON_FIRST
      else if val = ''fullcycle'' then HM_STORAGE_COMMIT_ON_ALL_READY
      else if val = ''ttl'' then HM_STORAGE_COMMIT_ON_TTL
      else p)"

definition lock_policy :: "string \<Rightarrow> HM_STORAGE_LOCK_POLICY \<Rightarrow> HM_STORAGE_LOCK_POLICY" where
  "lock_policy val p =
     (if val = ''globallocks'' then HM_STORAGE_GLOBAL_LOCKS
      else if val = ''rwlocks'' then HM_STORAGE_RW_LOCKS
      else if val = ''partitionlocks'' then HM_STORAGE_PARTITION_LOCKS
      else p)"

text \<open>A port that does not fit is logged and the field keeps its value.\<close>

definition port_option :: "string \<Rightarrow> u16 \<Rightarrow> u16" where
  "port_option val p = (let port = atoi val in if 0 \<le> port \<and> port \<le> 65535 then word_of_int port else p)"

text \<open>\<open>erase(remove(...))\<close> of one kind of control socket and \<open>push_back\<close> of another, if there is one.\<close>

definition swap_socket ::
    "HM_CONTROL_SOCKET \<Rightarrow> HM_CONTROL_SOCKET \<Rightarrow> HM_CONTROL_SOCKET list \<Rightarrow> HM_CONTROL_SOCKET list" where
  "swap_socket a b cs = (if a \<in> set cs then filter (\<lambda>c. c \<noteq> a) cs @ [b] else cs)"

definition parse_secure_remote :: "string \<Rightarrow> master_parse \<Rightarrow> master_parse" where
  "parse_secure_remote val m =
     (if val = ''off'' then
        mp_put (\<lambda>st. st\<lparr>st_enableSecureRemote := False\<rparr>)
          (mp_set (\<lambda>s. s\<lparr>se_control_socket := swap_socket HM_CONTROL_SOCKET_TLS_V6 HM_CONTROL_SOCKET_TCP_V6
             (swap_socket HM_CONTROL_SOCKET_TLS_V4 HM_CONTROL_SOCKET_TCP_V4 (se_control_socket s))\<rparr>) m)
      else if val = ''on'' then
        mp_put (\<lambda>st. st\<lparr>st_enableSecureRemote := True\<rparr>)
          (mp_set (\<lambda>s. s\<lparr>se_control_socket := swap_socket HM_CONTROL_SOCKET_TCP_V6 HM_CONTROL_SOCKET_TLS_V6
             (swap_socket HM_CONTROL_SOCKET_TCP_V4 HM_CONTROL_SOCKET_TLS_V4 (se_control_socket s))\<rparr>) m)
      else m)"

definition parse_control_server ::
    "HM_CONTROL_SOCKET \<Rightarrow> HM_CONTROL_SOCKET \<Rightarrow> string \<Rightarrow> master_parse \<Rightarrow> master_parse" where
  "parse_control_server tls tcp val m =
     (if val = ''on''
      then mp_set (\<lambda>s. s\<lparr>se_control_socket := se_control_socket s @
             [if st_enableSecureRemote (mp_state m) then tls else tcp]\<rparr>) m
      else m)"

definition on_off :: "string \<Rightarrow> bool \<Rightarrow> bool" where
  "on_off val b = (if val = ''on'' then True else if val = ''off'' then False else b)"

text \<open>The options that end the parse with \<open>false\<close> for a bad value; \<open>None\<close> here.\<close>

definition parse_master_dns :: "config_env \<Rightarrow> string \<Rightarrow> string \<Rightarrow> master_parse \<Rightarrow> master_parse option" where
  "parse_master_dns env key val m =
     (if key = ''dns.host'' then
        (let (a, ok) = IPAddress_set (ce_pton4 env) (ce_pton6 env) val
         in if ok then Some (mp_set (\<lambda>s. s\<lparr>se_dnsServer := a\<rparr>) m) else None)
      else if key = ''dns.lookuptype'' then
        (if val = ''ares'' then Some (mp_put (\<lambda>st. st\<lparr>st_dnsLookDefaultPlugin := HM_DNS_PLUGIN_ARES\<rparr>) m)
         else if val = ''none'' then Some (mp_put (\<lambda>st. st\<lparr>st_dnsLookDefaultPlugin := HM_DNS_PLUGIN_NONE\<rparr>) m)
         else None)
      else
        (if val = ''static'' then Some (mp_put (\<lambda>st. st\<lparr>st_dnsStaticDefaultPlugin := HM_DNS_PLUGIN_STATIC\<rparr>) m)
         else if val = ''none'' then Some (mp_put (\<lambda>st. st\<lparr>st_dnsStaticDefaultPlugin := HM_DNS_PLUGIN_NONE\<rparr>) m)
         else None))"

text \<open>The check plugins. \<open>tcps.type\<close> sets the plugin of the TCP checks.\<close>

definition parse_master_plugin :: "string \<Rightarrow> string \<Rightarrow> master_parse \<Rightarrow> master_parse" where
  "parse_master_plugin key val m =
     (if key = ''http.type'' \<and> val = ''curl''
        then mp_put (\<lambda>st. st\<lparr>st_httpDefaultCheckClass := HM_CHECK_PLUGIN_HTTP_CURL\<rparr>) m
      else if key = ''ftp.type'' \<and> val = ''curl''
        then mp_put (\<lambda>st. st\<lparr>st_ftpDefaultCheckClass := HM_CHECK_PLUGIN_FTP_CURL\<rparr>) m
      else if key = ''tcp.type'' \<and> val = ''rawsocket''
        then mp_put (\<lambda>st. st\<lparr>st_tcpDefaultCheckClass := HM_CHECK_PLUGIN_TCP_RAW\<rparr>) m
      else if key = ''tcps.type'' \<and> val = ''rawsocket''
        then mp_put (\<lambda>st. st\<lparr>st_tcpDefaultCheckClass := HM_CHECK_PLUGIN_TCPS_RAW\<rparr>) m
      else if key = ''dnscheck.type'' \<and> val = ''ares''
        then mp_put (\<lambda>st. st\<lparr>st_dnsDefaultCheckClass := HM_CHECK_PLUGIN_DNS_ARES\<rparr>) m
      else if key = ''none.type'' \<and> val = ''none''
        then mp_put (\<lambda>st. st\<lparr>st_noneDefaultCheckClass := HM_CHECK_PLUGIN_DEFAULT\<rparr>) m
      else m)"

definition parse_master_connections :: "string \<Rightarrow> HMSettings \<Rightarrow> HMSettings" where
  "parse_master_connections val s =
     (let conn = atoi val
      in s\<lparr>se_maxConnections := (if 0 \<le> conn \<and> conn \<le> uint HM_MAX_REMOTE_CONNECTIONS
                                 then word_of_int conn else HM_MAX_REMOTE_CONNECTIONS)\<rparr>)"

text \<open>The body of the loop over the options, from \<open>threads.max\<close> to the backend and the log.\<close>

definition parse_master_basic :: "string \<Rightarrow> string \<Rightarrow> master_parse \<Rightarrow> master_parse option" where
  "parse_master_basic key val m =
     (let put = (\<lambda>f. Some (mp_set f m))
      in if key = ''threads.max'' then put (\<lambda>s. s\<lparr>se_nMaxThreads := word_of_int (atoi val)\<rparr>)
         else if key = ''threads.min'' then put (\<lambda>s. s\<lparr>se_nMinThreads := word_of_int (atoi val)\<rparr>)
         else if key = ''connectiontimeout'' then put (\<lambda>s. s\<lparr>se_connectionTimeout := word_of_int (strtol val)\<rparr>)
         else if key = ''config.load-directory'' then Some (m\<lparr>mp_dirs := mp_dirs m @ [val]\<rparr>)
         else if key = ''config.load-file'' then Some (m\<lparr>mp_files := mp_files m @ [val]\<rparr>)
         else if key = ''config.use-backend'' then put (\<lambda>s. s\<lparr>se_useBackendConfigs := (val = ''on'')\<rparr>)
         else if key = ''dns.type'' then Some m
         else if key = ''dns.lookup-timeout'' then put (\<lambda>s. s\<lparr>se_dnsLookupTimeout := word_of_int (atoi val)\<rparr>)
         else if key = ''db.lockPolicy''
           then put (\<lambda>s. s\<lparr>se_storageLockPolicy := lock_policy val (se_storageLockPolicy s)\<rparr>)
         else if key = ''db.type''
           then put (\<lambda>s. s\<lparr>se_storageClass := (if val = ''mdbm'' then HM_STORAGE_MDBM
                                            else if val = ''text'' then HM_STORAGE_TEXT else se_storageClass s)\<rparr>)
         else if key = ''db.path'' then put (\<lambda>s. s\<lparr>se_storagePath := val\<rparr>)
         else if key = ''db.auxCommitPolicy'' then put (\<lambda>s. s\<lparr>se_auxPolicy := commit_policy val (se_auxPolicy s)\<rparr>)
         else if key = ''db.healthCheckCommitPolicy''
           then put (\<lambda>s. s\<lparr>se_healthCheckPolicy := commit_policy val (se_healthCheckPolicy s)\<rparr>)
         else if key = ''log.path'' then put (\<lambda>s. s\<lparr>se_logPath := val\<rparr>)
         else if key = ''log.type'' then put (\<lambda>s. s\<lparr>se_logText := (val = ''text'' \<or> se_logText s)\<rparr>)
         else if key = ''log.verbosity''
           then put (\<lambda>s. s\<lparr>se_logLevel := (if parseLogLevel val = - 2 then se_logLevel s else parseLogLevel val)\<rparr>)
         else if key = ''log.timeFormat'' then put (\<lambda>s. s\<lparr>se_logTimeFormat := val\<rparr>)
         else if key = ''log.maxQueue'' then put (\<lambda>s. s\<lparr>se_maxLogQueue := word_of_int (atoi val)\<rparr>)
         else if key = ''socket.path'' then put (\<lambda>s. s\<lparr>se_socketPath := val\<rparr>)
         else None)"

text \<open>The options of certificates, control sockets and remote checks, to the end of the chain; an
  unknown option is logged.\<close>

definition parse_master_remote :: "config_env \<Rightarrow> string \<Rightarrow> string \<Rightarrow> master_parse \<Rightarrow> master_parse" where
  "parse_master_remote env key val m =
     (if key = ''hc-cert-file''
        then (case ce_read env val of Some t \<Rightarrow> mp_set (\<lambda>s. s\<lparr>se_healthCheckCert := t\<rparr>) m | None \<Rightarrow> m)
      else if key = ''hc-key-file''
        then (case ce_read env val of Some t \<Rightarrow> mp_set (\<lambda>s. s\<lparr>se_healthCheckKey := t\<rparr>) m | None \<Rightarrow> m)
      else if key = ''hc-ca-file'' then mp_set (\<lambda>s. s\<lparr>se_healthCheckCAFile := val\<rparr>) m
      else if key = ''master-check-portv4''
        then mp_set (\<lambda>s. s\<lparr>se_controlSocketCheckPortv4 := port_option val (se_controlSocketCheckPortv4 s)\<rparr>) m
      else if key = ''master-check-portv6''
        then mp_set (\<lambda>s. s\<lparr>se_controlSocketCheckPortv6 := port_option val (se_controlSocketCheckPortv6 s)\<rparr>) m
      else if key = ''control-server-linux''
        then (if val = ''off''
              then mp_set (\<lambda>s. s\<lparr>se_control_socket := filter (\<lambda>c. c \<noteq> HM_CONTROL_SOCKET_LINUX) (se_control_socket s)\<rparr>) m
              else m)
      else if key = ''control-server-ipv4''
        then parse_control_server HM_CONTROL_SOCKET_TLS_V4 HM_CONTROL_SOCKET_TCP_V4 val m
      else if key = ''control-server-ipv6''
        then parse_control_server HM_CONTROL_SOCKET_TLS_V6 HM_CONTROL_SOCKET_TCP_V6 val m
      else if key = ''enable-secure-remote'' then parse_secure_remote val m
      else if key = ''cert-file'' then mp_set (\<lambda>s. s\<lparr>se_certFile := val\<rparr>) m
      else if key = ''key-file'' then mp_set (\<lambda>s. s\<lparr>se_keyFile := val\<rparr>) m
      else if key = ''ca-file'' then mp_set (\<lambda>s. s\<lparr>se_caFile := val\<rparr>) m
      else if key = ''enable-mutual-auth''
        then mp_set (\<lambda>s. s\<lparr>se_enableMutualAuth := on_off val (se_enableMutualAuth s)\<rparr>) m
      else if key = ''enable-shared-connection''
        then mp_put (\<lambda>st. st\<lparr>st_enableSharedConnection := on_off val (st_enableSharedConnection st)\<rparr>) m
      else if key = ''max-remote-connections'' then mp_set (parse_master_connections val) m
      else if key = ''pubsub.config-file'' then mp_set (\<lambda>s. s\<lparr>se_PubSubConfigFile := val\<rparr>) m
      else if key = ''remote-fetch''
        then mp_set (\<lambda>s. s\<lparr>se_flowType := (if val = ''hostgroup'' then HM_FLOW_REMOTE_HOSTGROUP_TYPE
                         else if val = ''host'' then HM_FLOW_REMOTE_HOST_TYPE else se_flowType s)\<rparr>) m
      else m)"

definition parse_master_option :: "config_env \<Rightarrow> yaml \<times> yaml \<Rightarrow> master_parse \<Rightarrow> master_parse option" where
  "parse_master_option env e m =
     (let key = yaml_Scalar (fst e); val = yaml_Scalar (snd e)
      in case parse_master_basic key val m of Some m' \<Rightarrow> Some m'
         | None \<Rightarrow>
             if key = ''dns.host'' \<or> key = ''dns.lookuptype'' \<or> key = ''dns.statictype'' then parse_master_dns env key val m
             else if key \<in> {''http.type'', ''ftp.type'', ''tcp.type'', ''tcps.type'', ''dnscheck.type'', ''none.type''}
             then Some (parse_master_plugin key val m)
             else Some (parse_master_remote env key val m))"

text \<open>
  \<open>parseMasterYaml\<close>: the state and the parameters, and the result. A document that is no mapping is logged and
  read on; an element of a sequence has no key.
\<close>

definition State_parseMasterYaml ::
    "config_env \<Rightarrow> string \<Rightarrow> HMState \<times> HMSettings \<Rightarrow> config_error + ((HMState \<times> HMSettings) option)" where
  "State_parseMasterYaml env masterConfig = (\<lambda>(st, se).
     case ce_load env masterConfig of None \<Rightarrow> Inr None
     | Some (YSeq (n # ns)) \<Rightarrow> Inl invalid_node
     | Some doc \<Rightarrow>
         let es = (case doc of YMap es \<Rightarrow> es | _ \<Rightarrow> [])
         in Inr (map_option (\<lambda>m.
              (mp_state m, (mp_settings m)\<lparr>se_configDirs := mp_dirs m, se_configFiles := mp_files m,
                 se_masterConfigLoaded := True\<rparr>))
            (opt_fold (parse_master_option env) es
               \<lparr>mp_state = st, mp_settings = se\<lparr>se_configDirs := [], se_configFiles := []\<rparr>,
                mp_dirs = [], mp_files = []\<rparr>)))"

definition State_parseMasterConfig ::
    "config_env \<Rightarrow> string \<Rightarrow> HMState \<times> HMSettings \<Rightarrow> config_error + ((HMState \<times> HMSettings) option)" where
  "State_parseMasterConfig env masterConfig s =
     (if se_stateActive (snd s) then Inr None
      else if yaml_file_name masterConfig then State_parseMasterYaml env masterConfig s
      else Inr None)"


section \<open>The host groups\<close>

text \<open>\<open>std::string::find\<close>, as a test.\<close>

definition contains :: "string \<Rightarrow> string \<Rightarrow> bool" where
  "contains sub s = list_ex (\<lambda>i. take (length sub) (drop i s) = sub) [0..<Suc (length s)]"

fun parse_files ::
    "('f \<Rightarrow> 's \<Rightarrow> config_error + ('s \<times> u32)) \<Rightarrow> 'f list \<Rightarrow> 's \<Rightarrow> config_error + ('s \<times> bool)" where
  "parse_files parse [] s = Inr (s, True)"
| "parse_files parse (f # fs) s =
     res_bind (parse f s) (\<lambda>(s, n). if 0 < n then Inr (s, False) else parse_files parse fs s)"

definition remote_check_step ::
    "HM_FLOW_TYPE \<Rightarrow> string \<Rightarrow> string \<times> string \<Rightarrow> HMDataHostGroup \<Rightarrow> HMDataHostGroup" where
  "remote_check_step flowType name = (\<lambda>(domain, host) g.
     if contains domain name then
       let g = g\<lparr>hg_remoteCheck := host\<rparr>
       in if flowType = HM_FLOW_REMOTE_HOSTGROUP_TYPE then g\<lparr>hg_flowType := HM_FLOW_REMOTE_HOSTGROUP_TYPE\<rparr>
          else if flowType = HM_FLOW_REMOTE_HOST_TYPE then g\<lparr>hg_flowType := HM_FLOW_REMOTE_HOST_TYPE\<rparr>
          else g
     else g)"

definition set_remote_checks ::
    "HM_FLOW_TYPE \<Rightarrow> (string \<times> string) list \<Rightarrow> HMDataHostGroupMap \<Rightarrow> HMDataHostGroupMap" where
  "set_remote_checks flowType remotes groups =
     map (\<lambda>(name, g). (name, fold (remote_check_step flowType name) remotes g)) groups"

text \<open>An indirect host takes the parameters of another group; \<open>erase\<close> of the end iterator, when neither
  group is there, is undefined.\<close>

definition indirect_step ::
    "string \<times> string \<Rightarrow> HMDataHostGroupMap \<Rightarrow> config_error + HMDataHostGroupMap" where
  "indirect_step = (\<lambda>(name, mapped) groups.
     case (group_find mapped groups, group_find name groups) of
       (Some m, Some _) \<Rightarrow> Inr (smap_adjust (<) name (HostGroup_setHostGroupParameters m) groups)
     | (None, Some _) \<Rightarrow> Inr (smap_erase (<) name groups)
     | (None, None) \<Rightarrow> Inl null_iterator
     | (Some _, None) \<Rightarrow> Inr groups)"

fun default_port :: "HM_CHECK_TYPE \<Rightarrow> u16 option" where
  "default_port HM_CHECK_NONE = None"
| "default_port HM_CHECK_DEFAULT = Some HM_HTTP_DEFAULT_PORT"
| "default_port HM_CHECK_HTTP = Some HM_HTTP_DEFAULT_PORT"
| "default_port HM_CHECK_AUX_HTTP = Some HM_HTTP_DEFAULT_PORT"
| "default_port HM_CHECK_MARK_HTTP = Some HM_HTTP_DEFAULT_PORT"
| "default_port HM_CHECK_TCP = Some HM_TCP_DEFAULT_PORT"
| "default_port HM_CHECK_TCPS = Some HM_TCP_DEFAULT_PORT"
| "default_port HM_CHECK_DNS = Some HM_DNSVC_DEFAULT_PORT"
| "default_port HM_CHECK_DNSVC = Some HM_DNSVC_DEFAULT_PORT"
| "default_port HM_CHECK_FTP = Some HM_FTP_DEFAULT_PORT"
| "default_port HM_CHECK_FTPS_IMPLICIT = Some HM_FTPS_DEFAULT_PORT"
| "default_port HM_CHECK_FTPS_IMPLICIT_NO_PEER_CHECK = Some HM_FTPS_DEFAULT_PORT"
| "default_port HM_CHECK_FTPS_EXPLICIT = Some HM_FTPS_DEFAULT_PORT"
| "default_port HM_CHECK_FTPS_EXPLICIT_NO_PEER_CHECK = Some HM_FTPS_DEFAULT_PORT"
| "default_port HM_CHECK_INVALID = None"
| "default_port _ = Some HM_HTTPS_DEFAULT_PORT"

definition set_default_port :: "HMDataHostGroup \<Rightarrow> HMDataHostGroup" where
  "set_default_port g =
     (if hg_port g = 0 then (case default_port (hg_checkType g) of Some p \<Rightarrow> g\<lparr>hg_port := p\<rparr> | None \<Rightarrow> g) else g)"

text \<open>The hosts of the child groups; a child that is missing or has children itself ends the load. \<open>None\<close> is
  the result \<open>false\<close>.\<close>

definition add_child :: "string \<Rightarrow> string \<Rightarrow> HMDataHostGroupMap \<Rightarrow> HMDataHostGroupMap option" where
  "add_child name child groups =
     (case group_find child groups of None \<Rightarrow> None
      | Some c \<Rightarrow> if hg_hostGroups c \<noteq> [] then None
                  else Some (smap_adjust (<) name (fold HostGroup_addHost (hg_hosts c)) groups))"

definition complete_group :: "string \<Rightarrow> HMDataHostGroupMap \<Rightarrow> HMDataHostGroupMap option" where
  "complete_group name groups =
     (let groups = smap_adjust (<) name set_default_port groups
      in opt_fold (add_child name) (case group_find name groups of Some g \<Rightarrow> hg_hostGroups g | None \<Rightarrow> []) groups)"

definition complete_groups :: "HMDataHostGroupMap \<Rightarrow> HMDataHostGroupMap option" where
  "complete_groups groups = opt_fold complete_group (map fst groups) groups"

text \<open>The two loops over directories and files.\<close>

definition read_groups ::
    "config_env \<Rightarrow> HMSettings \<Rightarrow> HMDataHostGroupMap \<times> HMConfigParams \<Rightarrow>
     config_error + ((HMDataHostGroupMap \<times> HMConfigParams) \<times> bool)" where
  "read_groups env se s =
     (let parse = ConfigParser_parseConfigFile (ce_pton4 env) (ce_pton6 env) (ce_load env)
      in res_bind (parse_files (ConfigParser_parseDirectory parse (ce_dirs env)) (se_configDirs se) s) (\<lambda>(s, ok).
           if \<not> ok then Inr (s, False) else parse_files parse (se_configFiles se) s))"

text \<open>What \<open>loadAllConfigs\<close> does with the groups once they have been read.\<close>

definition finish_groups ::
    "HM_FLOW_TYPE \<Rightarrow> HMDataHostGroupMap \<times> HMConfigParams \<Rightarrow> config_error + HMDataHostGroupMap option" where
  "finish_groups flowType = (\<lambda>(groups, params).
     let groups = (if pm_masterMode params then groups else set_remote_checks flowType (pm_remoteChecks params) groups)
     in res_bind (res_fold indirect_step (pm_indirectHost params) groups) (\<lambda>groups. Inr (complete_groups groups)))"

datatype daemon_error = config_fault config_error | storage_fault buffer_error | text_store | null_work

definition lift_config :: "config_error + 'a \<Rightarrow> daemon_error + 'a" where
  "lift_config r = (case r of Inl e \<Rightarrow> Inl (config_fault e) | Inr x \<Rightarrow> Inr x)"

definition lift_storage :: "buffer_error + 'a \<Rightarrow> daemon_error + 'a" where
  "lift_storage r = (case r of Inl e \<Rightarrow> Inl (storage_fault e) | Inr x \<Rightarrow> Inr x)"

text \<open>
  \<open>loadAllConfigs\<close>: the store is the argument for a configuration that comes from the backend. After a failure the
  caller drops the state, so only the result is kept: \<open>None\<close>.
\<close>

definition State_loadAllConfigs ::
    "'db mdbm \<Rightarrow> config_env \<Rightarrow> 'db HMStorage option \<Rightarrow> HMState \<times> HMSettings \<Rightarrow> daemon_error + (HMState \<times> HMSettings) option" where
  "State_loadAllConfigs lib env store = (\<lambda>(st, se).
     res_bind
       (if \<not> se_useBackendConfigs se then
          res_bind (lift_config (read_groups env se (st_hostGroups st, ConfigParams_new))) (\<lambda>((groups, params), ok).
            Inr (if ok then Some (st\<lparr>st_hostGroups := groups\<rparr>, se, params) else None))
        else case store of None \<Rightarrow> Inl (config_fault null_store)
          | Some s \<Rightarrow>
              res_bind (lift_storage (Storage_getConfigs lib st s)) (\<lambda>(st, hash, ok).
                Inr (if ok then Some (st, (case hash of Some h \<Rightarrow> se\<lparr>se_hash := h\<rparr> | None \<Rightarrow> se), ConfigParams_new)
                     else None)))
       (\<lambda>r. case r of None \<Rightarrow> Inr None
          | Some (st, se, params) \<Rightarrow>
              res_bind (lift_config (finish_groups (se_flowType se) (st_hostGroups st, params))) (\<lambda>g.
                Inr (map_option (\<lambda>groups. (st\<lparr>st_hostGroups := groups\<rparr>, se\<lparr>se_configsLoaded := True\<rparr>)) g))))"

definition State_validateConfigs ::
    "'db mdbm \<Rightarrow> config_env \<Rightarrow> string \<Rightarrow> 'db HMStorage option \<Rightarrow> HMState \<times> HMSettings \<Rightarrow>
     daemon_error + (HMState \<times> HMSettings) option" where
  "State_validateConfigs lib env masterConfig store s =
     (if se_stateActive (snd s) then Inr None
      else res_bind (lift_config (State_parseMasterConfig env masterConfig s)) (\<lambda>r.
        case r of None \<Rightarrow> Inr None | Some s \<Rightarrow> State_loadAllConfigs lib env store s))"


section \<open>Child groups\<close>

text \<open>What the loop reads of a group when it is a child: whether it has children, and its hosts if not.\<close>

type_synonym child_view = "string \<Rightarrow> (string list \<times> string list) option"

definition child_view :: "HMDataHostGroupMap \<Rightarrow> child_view" where
  "child_view groups name =
     map_option (\<lambda>g. (hg_hostGroups g, if hg_hostGroups g = [] then hg_hosts g else [])) (group_find name groups)"

definition valid_child :: "child_view \<Rightarrow> string \<Rightarrow> bool" where
  "valid_child view c = (case view c of Some (gs, hs) \<Rightarrow> gs = [] | None \<Rightarrow> False)"

definition child_hosts :: "child_view \<Rightarrow> string \<Rightarrow> string list" where
  "child_hosts view c = (case view c of Some (gs, hs) \<Rightarrow> hs | None \<Rightarrow> [])"

definition completed_group :: "child_view \<Rightarrow> HMDataHostGroup \<Rightarrow> HMDataHostGroup" where
  "completed_group view g = fold HostGroup_addHost (concat (map (child_hosts view) (hg_hostGroups g))) (set_default_port g)"

lemma addHost_fold_groups [simp]: "hg_hostGroups (fold HostGroup_addHost hs g) = hg_hostGroups g"
  by (induction hs arbitrary: g) (simp_all add: HostGroup_addHost_def)

lemma set_default_port_keeps [simp]:
  "hg_hostGroups (set_default_port g) = hg_hostGroups g" "hg_hosts (set_default_port g) = hg_hosts g"
  by (simp_all add: set_default_port_def split: option.split)

lemma find_adjust: "group_find c (smap_adjust (<) name f groups) =
    (if c = name then map_option f (group_find c groups) else group_find c groups)"
  by (induction groups) (auto simp: key_equiv_def)

lemma child_view_adjust:
  assumes "\<And>g. group_find name groups = Some g \<Longrightarrow>
      hg_hostGroups (f g) = hg_hostGroups g \<and> (hg_hostGroups g = [] \<longrightarrow> hg_hosts (f g) = hg_hosts g)"
  shows "child_view (smap_adjust (<) name f groups) = child_view groups"
  using assms by (cases "group_find name groups") (auto simp: child_view_def find_adjust fun_eq_iff)

lemma add_child_view:
  "add_child name c groups =
     (if valid_child (child_view groups) c
      then Some (smap_adjust (<) name (fold HostGroup_addHost (child_hosts (child_view groups) c)) groups) else None)"
  by (simp add: add_child_def valid_child_def child_hosts_def child_view_def split: option.split)

lemma add_children_view:
  assumes "\<And>g. group_find name groups = Some g \<Longrightarrow> hg_hostGroups g \<noteq> []"
  shows "opt_fold (add_child name) cs groups =
    (if \<forall>c \<in> set cs. valid_child (child_view groups) c
     then Some (smap_adjust (<) name (fold HostGroup_addHost (concat (map (child_hosts (child_view groups)) cs))) groups)
     else None)"
  using assms
proof (induction cs arbitrary: groups)
  case Nil
  have "smap_adjust (<) name (\<lambda>x. x) groups = groups" by (simp add: smap_adjust_def)
  then show ?case by (simp add: id_def)
next
  case (Cons c cs)
  let ?groups = "smap_adjust (<) name (fold HostGroup_addHost (child_hosts (child_view groups) c)) groups"
  have "child_view ?groups = child_view groups" using Cons.prems by (intro child_view_adjust) auto
  moreover have "hg_hostGroups g \<noteq> []" if "group_find name ?groups = Some g" for g
    using that Cons.prems by (auto simp: find_adjust)
  ultimately show ?case using Cons.IH [of ?groups] by (simp add: add_child_view smap_adjust_adjust fold_append comp_def)
qed



lemma sorted_map_entry:
  "map_sorted (<) m \<Longrightarrow> (k :: 'a :: linorder, v) \<in> set m \<Longrightarrow> smap_find (<) k m = Some v"
  by (induction m) (auto simp: map_sorted_def key_equiv_linorder)

lemma adjust_cong_find:
  assumes "map_sorted (<) m" and "smap_find (<) (k :: 'a :: linorder) m = Some v" and "f v = h v"
  shows "smap_adjust (<) k f m = smap_adjust (<) k h m"
proof -
  have "f w = h w" if "(k, w) \<in> set m" for w using sorted_map_entry [OF assms(1) that] assms(2,3) by simp
  then show ?thesis by (auto simp: smap_adjust_def key_equiv_linorder)
qed

lemma complete_group_view:
  assumes "map_sorted (<) groups" and "group_find name groups = Some g"
  shows "complete_group name groups =
    (if \<forall>c \<in> set (hg_hostGroups g). valid_child (child_view groups) c
     then Some (smap_adjust (<) name (completed_group (child_view groups)) groups) else None)"
proof -
  let ?groups = "smap_adjust (<) name set_default_port groups"
  have view: "child_view ?groups = child_view groups" by (rule child_view_adjust) simp
  have find: "group_find name ?groups = Some (set_default_port g)" using assms(2) by (simp add: find_adjust)
  show ?thesis
  proof (cases "hg_hostGroups g = []")
    case True
    then have "smap_adjust (<) name set_default_port groups = smap_adjust (<) name (completed_group (child_view groups)) groups"
      by (intro adjust_cong_find [OF assms]) (simp add: completed_group_def)
    moreover have "complete_group name groups = Some ?groups"
      unfolding complete_group_def Let_def find using True by simp
    ultimately show ?thesis using True by simp
  next
    case False
    let ?add = "fold HostGroup_addHost (concat (map (child_hosts (child_view groups)) (hg_hostGroups g)))"
    have "smap_adjust (<) name ?add ?groups = smap_adjust (<) name (completed_group (child_view groups)) groups"
      unfolding smap_adjust_adjust by (rule adjust_cong_find [OF assms]) (simp add: completed_group_def)
    moreover have "opt_fold (add_child name) (hg_hostGroups g) ?groups =
        (if \<forall>c \<in> set (hg_hostGroups g). valid_child (child_view groups) c then Some (smap_adjust (<) name ?add ?groups) else None)"
      using False find by (subst add_children_view) (auto simp: view)
    ultimately show ?thesis unfolding complete_group_def Let_def find by simp
  qed
qed

lemma completed_view:
  "group_find name groups = Some g \<Longrightarrow>
     child_view (smap_adjust (<) name (completed_group (child_view groups)) groups) = child_view groups"
  by (rule child_view_adjust) (simp add: completed_group_def)

lemma complete_names:
  assumes "map_sorted (<) groups" and "distinct names" and "\<And>n. n \<in> set names \<Longrightarrow> group_find n groups \<noteq> None"
    and "view = child_view groups"
  shows "opt_fold complete_group names groups =
    (if \<forall>n \<in> set names. \<forall>g. group_find n groups = Some g \<longrightarrow> list_all (valid_child view) (hg_hostGroups g)
     then Some (fold (\<lambda>n. smap_adjust (<) n (completed_group view)) names groups) else None)"
  using assms
proof (induction names arbitrary: groups)
  case (Cons n ns)
  obtain g where g: "group_find n groups = Some g" using Cons.prems(3) [of n] by auto
  let ?groups = "smap_adjust (<) n (completed_group view) groups"
  have find: "group_find m ?groups = group_find m groups" if "m \<in> set ns" for m
    using that Cons.prems(2) by (auto simp: find_adjust)
  have step: "complete_group n groups = (if list_all (valid_child view) (hg_hostGroups g) then Some ?groups else None)"
    using complete_group_view [OF Cons.prems(1) g] Cons.prems(4) by (simp add: list_all_iff)
  have "opt_fold complete_group ns ?groups =
    (if \<forall>n \<in> set ns. \<forall>g. group_find n ?groups = Some g \<longrightarrow> list_all (valid_child view) (hg_hostGroups g)
     then Some (fold (\<lambda>n. smap_adjust (<) n (completed_group view)) ns ?groups) else None)"
    using Cons.prems completed_view [OF g] find by (intro Cons.IH) auto
  then show ?case using step g find by auto
qed simp

lemma adjust_all: "distinct (map fst m) \<Longrightarrow> set (map fst m') \<inter> set (map fst m) = {} \<Longrightarrow>
    fold (\<lambda>k. smap_adjust (<) k f) (map fst m) (m' @ m) = m' @ map (\<lambda>(k :: 'a :: linorder, v). (k, f v)) m"
proof (induction m arbitrary: m')
  case (Cons e m)
  obtain k v where e: "e = (k, v)" by (cases e)
  have "smap_adjust (<) k f l = l" if "k \<notin> fst ` set l" for l
    using that by (induction l) (auto simp: key_equiv_linorder)
  then have "smap_adjust (<) k f (m' @ e # m) = (m' @ [(k, f v)]) @ m"
    using Cons.prems by (auto simp: e smap_adjust_def key_equiv_linorder)
  then show ?case using Cons.IH [of "m' @ [(k, f v)]"] Cons.prems by (auto simp: e)
qed simp

text \<open>C16: The loop of \<open>loadAllConfigs\<close> over the groups, which changes the groups while it reads them, computes what the
  configuration says: it succeeds exactly when every child group is there and has no children itself, and
  then every group has its default port and, after its own hosts, the hosts of its children as they
  were configured.\<close>

theorem complete_groups_correct:
  assumes "map_sorted (<) groups"
  shows "complete_groups groups =
    (if \<forall>(n, g) \<in> set groups. list_all (valid_child (child_view groups)) (hg_hostGroups g)
     then Some (map (\<lambda>(n, g). (n, completed_group (child_view groups) g)) groups) else None)"
proof -
  have entry: "group_find n groups = Some g" if "(n, g) \<in> set groups" for n g
    using sorted_map_entry [OF assms that] .
  have distinct: "distinct (map fst groups)"
    using assms by (simp add: map_sorted_def sorted_wrt_map [symmetric] strict_sorted_iff)
  have "fold (\<lambda>n. smap_adjust (<) n (completed_group (child_view groups))) (map fst groups) groups =
      map (\<lambda>(n, g). (n, completed_group (child_view groups) g)) groups"
    using adjust_all [OF distinct, of "[]"] by simp
  moreover have "(\<forall>n \<in> set (map fst groups). \<forall>g. group_find n groups = Some g \<longrightarrow> P g) \<longleftrightarrow> (\<forall>(n, g) \<in> set groups. P g)" for P
    using entry by fastforce
  moreover have "group_find n groups \<noteq> None" if "n \<in> set (map fst groups)" for n using that entry by auto
  ultimately show ?thesis
    using complete_names [OF assms distinct _ refl] by (simp add: complete_groups_def)
qed

text \<open>Groups \<open>a\<close> and \<open>p\<close>, where \<open>a\<close> is a child of \<open>p\<close>; and a group that is its own child.\<close>

definition w_child :: HMDataHostGroup where
  "w_child = (HostGroup_new ''a'')\<lparr>hg_hosts := [''x'', ''y''], hg_checkType := HM_CHECK_HTTP\<rparr>"

definition w_parent :: HMDataHostGroup where
  "w_parent = (HostGroup_new ''p'')\<lparr>hg_hosts := [''y'', ''z''], hg_hostGroups := [''a'']\<rparr>"

theorem complete_groups_correct_witness:
  "map_option (map (\<lambda>(n, g). (n, hg_hosts g, hg_port g))) (complete_groups [(''a'', w_child), (''p'', w_parent)]) =
     Some [(''a'', [''x'', ''y''], 80), (''p'', [''y'', ''z'', ''x''], 80)]"
  using complete_groups_correct [of "[(''a'', w_child), (''p'', w_parent)]"]
  by (simp add: map_sorted_def w_child_def w_parent_def HostGroup_new_def child_view_def valid_child_def
      completed_group_def child_hosts_def set_default_port_def HostGroup_addHost_def key_equiv_def
      HM_HTTP_DEFAULT_PORT_def)


text \<open>\<open>tcps.type: rawsocket\<close> in the master configuration sets the plugin of the plain TCP checks: a group of TCP
  checks is then prepared with the TLS plugin.\<close>

theorem tcps_type_changes_tcp:
  assumes "parse_master_option env (YScalar ''tcps.type'', YScalar ''rawsocket'') m = Some m'" and "hg_checkType g = HM_CHECK_TCP"
  shows "hg_checkPlugin (State_prepareGroup (mp_state m') g) = HM_CHECK_PLUGIN_TCPS_RAW"
proof -
  have "m' = mp_put (\<lambda>st. st\<lparr>st_tcpDefaultCheckClass := HM_CHECK_PLUGIN_TCPS_RAW\<rparr>) m"
    using assms(1) by (simp add: parse_master_option_def parse_master_basic_def parse_master_plugin_def)
  then show ?thesis using assms(2) by (simp add: mp_put_def State_prepareGroup_def State_checkPlugin_def Let_def)
qed

definition w_env :: config_env where
  "w_env = \<lparr>ce_pton4 = w_pton4, ce_pton6 = w_pton6, ce_load = (\<lambda>_. None), ce_dirs = (\<lambda>_. None), ce_read = (\<lambda>_. None)\<rparr>"

definition w_master :: master_parse where
  "w_master = \<lparr>mp_state = State_new, mp_settings = Settings_new, mp_dirs = [], mp_files = []\<rparr>"

theorem tcps_type_changes_tcp_witness:
  "hg_checkPlugin (State_prepareGroup (mp_state (the (parse_master_option w_env (YScalar ''tcps.type'', YScalar ''rawsocket'') w_master)))
     ((HostGroup_new ''g'')\<lparr>hg_checkType := HM_CHECK_TCP\<rparr>)) = HM_CHECK_PLUGIN_TCPS_RAW"
proof -
  obtain m' where "parse_master_option w_env (YScalar ''tcps.type'', YScalar ''rawsocket'') w_master = Some m'"
    by (simp add: parse_master_option_def parse_master_basic_def)
  from tcps_type_changes_tcp [OF this, of "(HostGroup_new ''g'')\<lparr>hg_checkType := HM_CHECK_TCP\<rparr>"] this show ?thesis by simp
qed

end
