(* ===== verification/HM_Messages.thy ===== *)
theory HM_Messages
  imports HM_Config
begin

text \<open>
  The messages of the control socket (\<open>proto/netchasm\<close>), the types of the interface (\<open>HMAPI.h\<close>), and the packing of
  addresses (\<open>HMDataPacking.cpp\<close>); the rest of the packing is in \<open>HM_Packing\<close>. A message is a
  record with the fields of its \<open>.proto\<close> file, a field of message type being set or not. Protocol buffers, which turn
  a message into bytes and back, are a parameter: the record \<open>proto\<close> has the two functions for each type of message.
  The files are in the syntax \<open>proto3\<close>, which has no required fields, so \<open>IsInitialized\<close> holds for every message, and
  a reader of an unset field sees the default value. What the code relies on is \<open>transmits\<close>.

  The 32 bit parts of an address are named by their reading in network byte order, as in \<open>HMIPAddress\<close>. A cast of a
  number to an enumeration without such an enumerator is the error \<open>no_enumerator\<close>.
\<close>

section \<open>Messages\<close>

record pb_IPAddress =
  pa_type :: u32
  pa_addr0 :: u32
  pa_addr1 :: u32
  pa_addr2 :: u32
  pa_addr3 :: u32

definition pb_IPAddress_default :: pb_IPAddress where
  "pb_IPAddress_default = \<lparr>pa_type = 0, pa_addr0 = 0, pa_addr1 = 0, pa_addr2 = 0, pa_addr3 = 0\<rparr>"

record pb_DataCheckResult =
  pr_address :: "pb_IPAddress option"
  pr_start :: u64
  pr_end :: u64
  pr_responseTime :: u32
  pr_totalResponseTime :: u32
  pr_minResponseTime :: u32
  pr_maxResponseTime :: u32
  pr_smoothedResponseTime :: u32
  pr_sumResponseTime :: u64
  pr_numChecks :: u32
  pr_numResponses :: u32
  pr_numConnectFailures :: u32
  pr_numFailures :: u32
  pr_numTimeouts :: u32
  pr_numFlaps :: u32
  pr_status :: u32
  pr_response :: u32
  pr_reason :: u32
  pr_numFailedChecks :: u32
  pr_numSlowResponses :: u32
  pr_port :: u32
  pr_changeTime :: u64
  pr_forceHostDown :: bool
  pr_queueCheckTime :: u64
  pr_checkTime :: u64
  pr_softReason :: u32
  pr_hostname :: string

definition pb_DataCheckResult_default :: pb_DataCheckResult where
  "pb_DataCheckResult_default =
     \<lparr>pr_address = None, pr_start = 0, pr_end = 0, pr_responseTime = 0, pr_totalResponseTime = 0, pr_minResponseTime = 0,
      pr_maxResponseTime = 0, pr_smoothedResponseTime = 0, pr_sumResponseTime = 0, pr_numChecks = 0, pr_numResponses = 0,
      pr_numConnectFailures = 0, pr_numFailures = 0, pr_numTimeouts = 0, pr_numFlaps = 0, pr_status = 0, pr_response = 0,
      pr_reason = 0, pr_numFailedChecks = 0, pr_numSlowResponses = 0, pr_port = 0, pr_changeTime = 0,
      pr_forceHostDown = False, pr_queueCheckTime = 0, pr_checkTime = 0, pr_softReason = 0, pr_hostname = []\<rparr>"

record pb_DataCheckParam =
  pc_numCheckRetries :: u32
  pc_checkRetryDelay :: u32
  pc_measurementOptions :: u32
  pc_smoothingWindow :: u32
  pc_groupThreshold :: u32
  pc_slowThreshold :: u32
  pc_maxFlaps :: u32
  pc_checkTimeout :: u64
  pc_checkTTL :: u64
  pc_flapThreshold :: u32
  pc_passthroughInfo :: u32

definition pb_DataCheckParam_default :: pb_DataCheckParam where
  "pb_DataCheckParam_default =
     \<lparr>pc_numCheckRetries = 0, pc_checkRetryDelay = 0, pc_measurementOptions = 0, pc_smoothingWindow = 0,
      pc_groupThreshold = 0, pc_slowThreshold = 0, pc_maxFlaps = 0, pc_checkTimeout = 0, pc_checkTTL = 0,
      pc_flapThreshold = 0, pc_passthroughInfo = 0\<rparr>"

record pb_CheckParamsCheckResult =
  pk_checkParam :: "pb_DataCheckParam option"
  pk_checkResult :: "pb_DataCheckResult option"

record pb_DataHostCheck =
  pd_dualstack :: u32
  pd_checkType :: u32
  pd_port :: u32
  pd_checkInfo :: string
  pd_sourceAddress :: "pb_IPAddress option"
  pd_TOSValue :: u32
  pd_dnsType :: u32

record pb_DataHostGroup =
  pg_measurementOptions :: u32
  pg_dualstack :: u32
  pg_checkType :: u32
  pg_port :: u32
  pg_numCheckRetries :: u32
  pg_checkRetryDelay :: u32
  pg_smoothingWindow :: u32
  pg_groupThreshold :: u32
  pg_slowThreshold :: u32
  pg_maxFlaps :: u32
  pg_checkTimeout :: u64
  pg_checkTTL :: u64
  pg_flapThreshold :: u32
  pg_passthroughInfo :: u32
  pg_checkInfo :: string
  pg_remoteCheckType :: u32
  pg_remoteCheck :: string
  pg_distributedFallback :: u32
  pg_sourceAddress :: "pb_IPAddress option"
  pg_TOSValue :: u32
  pg_dnsType :: u32
  pg_hosts :: "string list"
  pg_hostgroups :: "string list"

definition pb_DataHostGroup_default :: pb_DataHostGroup where
  "pb_DataHostGroup_default =
     \<lparr>pg_measurementOptions = 0, pg_dualstack = 0, pg_checkType = 0, pg_port = 0, pg_numCheckRetries = 0,
      pg_checkRetryDelay = 0, pg_smoothingWindow = 0, pg_groupThreshold = 0, pg_slowThreshold = 0, pg_maxFlaps = 0,
      pg_checkTimeout = 0, pg_checkTTL = 0, pg_flapThreshold = 0, pg_passthroughInfo = 0, pg_checkInfo = [],
      pg_remoteCheckType = 0, pg_remoteCheck = [], pg_distributedFallback = 0, pg_sourceAddress = None, pg_TOSValue = 0,
      pg_dnsType = 0, pg_hosts = [], pg_hostgroups = []\<rparr>"

record pb_HostGroupCheckResult =
  pn_hostname :: string
  pn_hostResults :: "pb_DataCheckResult option"

record pb_HostGroupInfo =
  pi_hostGroup :: "pb_DataHostGroup option"
  pi_groupCheckResult :: "pb_HostGroupCheckResult list"

record pb_OOB =
  po_type :: u32
  po_shed :: u32
  po_ts :: u32
  po_forceDown :: u32
  po_host :: string
  po_resource :: string

record pb_LFB =
  pl_type :: u32
  pl_ts :: u64
  pl_load :: u64
  pl_target :: u64
  pl_max :: u64
  pl_host :: string
  pl_resource :: string
  pl_datacenter :: string

record pb_AuxInfo =
  px_host :: string
  px_address :: "pb_IPAddress option"
  px_ttl :: u64
  px_updatetime :: u64
  px_oob :: "pb_OOB list"
  px_lfb :: "pb_LFB list"

record pb_HostSchedInfo =
  pj_address :: "pb_IPAddress option"
  pj_lastCheckTime :: u64
  pj_nextCheckTime :: u64
  pj_state :: u32

record pb_DNSSchedInfo =
  pz_hasv4 :: bool
  pz_hasv6 :: bool
  pz_v4LastCheckTime :: u64
  pz_v4NextCheckTime :: u64
  pz_v4State :: u32
  pz_v6LastCheckTime :: u64
  pz_v6NextCheckTime :: u64
  pz_v6State :: u32
  pz_hostSchedInfo :: "pb_HostSchedInfo list"

record pb_HashHGPair =
  pv_hostgroupname :: string
  pv_size :: u32
  pv_hash :: string

record pb_ThreadInfo =
  pt_numThreads :: u64
  pt_numIdleThreads :: u64

text \<open>The bytes of a message: \<open>SerializeToArray\<close> and \<open>ParseFromArray\<close>. The messages with one field are that field.\<close>

record 'm format =
  fm_serialize :: "'m \<Rightarrow> string"
  fm_parse :: "string \<Rightarrow> 'm option"

record proto =
  pf_ThreadInfo :: "pb_ThreadInfo format"
  pf_DataHostGroup :: "pb_DataHostGroup format"
  pf_DataCheckResults :: "pb_DataCheckResult list format"
  pf_HostResult :: "pb_CheckParamsCheckResult list format"
  pf_HostGroupInfo :: "pb_HostGroupInfo format"
  pf_AuxInfo :: "pb_AuxInfo format"
  pf_AuxResults :: "pb_AuxInfo list format"
  pf_DNSSchedInfo :: "pb_DNSSchedInfo format"
  pf_HostSchedInfo :: "pb_HostSchedInfo format"
  pf_DataHostCheck :: "pb_DataHostCheck format"
  pf_List :: "string list format"
  pf_IPAddresses :: "pb_IPAddress list format"
  pf_Bool :: "bool format"
  pf_Uint :: "u64 format"
  pf_Int :: "u64 format"
  pf_HashInfo :: "pb_HashHGPair list format"
  pf_HashHGPair :: "pb_HashHGPair format"
  pf_ListInt64 :: "u64 list format"

definition transmits :: "'m format \<Rightarrow> 'm \<Rightarrow> bool" where
  "transmits f m \<longleftrightarrow> fm_parse f (fm_serialize f m) = Some m"

section \<open>Types of the interface\<close>

text \<open>
  The types of \<open>HMAPI.h\<close>. Its enumerations have 8 bits and every number is a value of them; they are numbers here. An
  address of the interface has a type and a union of the addresses. \<open>HMAPIHash\<close> has the fields of \<open>HMHash\<close>.
\<close>

datatype HMAPIIPAddress = API_INET "32 word" | API_INET6 "128 word" | API_OTHER u8

definition APIIPAddress_new :: HMAPIIPAddress where
  "APIIPAddress_new = API_OTHER AF_UNSPEC"

record HMAPICheckInfo =
  qi_measurementOptions :: u16
  qi_ipv4 :: bool
  qi_ipv6 :: bool
  qi_checkType :: u8
  qi_port :: u16
  qi_checkInfo :: string
  qi_numCheckRetries :: u8
  qi_checkRetryDelay :: u32
  qi_smoothingWindow :: u32
  qi_groupThreshold :: u32
  qi_slowThreshold :: u32
  qi_maxFlaps :: u32
  qi_checkTimeout :: u64
  qi_checkTTL :: u64
  qi_flapThreshold :: u32
  qi_passthroughInfo :: u32
  qi_TOSValue :: u8
  qi_dnsCheckType :: u8
  qi_sourceAddress :: HMAPIIPAddress
  qi_remoteCheck :: string
  qi_flowType :: u8
  qi_distributedFallback :: u8
  qi_remoteCheckType :: u8
  qi_hosts :: "string list"
  qi_hostGroups :: "string list"

record HMAPICheckResult =
  qr_host :: string
  qr_address :: HMAPIIPAddress
  qr_start :: u64
  qr_end :: u64
  qr_responseTime :: u32
  qr_totalResponseTime :: u32
  qr_minResponseTime :: u32
  qr_maxResponseTime :: u32
  qr_smoothedResponseTime :: u32
  qr_sumResponseTime :: u64
  qr_numChecks :: u32
  qr_numResponses :: u32
  qr_numConnectFailures :: u32
  qr_numFailures :: u32
  qr_numTimeouts :: u32
  qr_numFlaps :: u32
  qr_status :: u16
  qr_response :: u8
  qr_reason :: u8
  qr_softReason :: u8
  qr_numFailedChecks :: u8
  qr_numSlowResponses :: u8
  qr_port :: u16
  qr_changeTime :: u64
  qr_prevTime :: u64
  qr_forceHostDown :: bool
  qr_queueCheckTime :: u64
  qr_checkTime :: u64
  qr_remoteCheckTime :: u64

text \<open>The constructor leaves \<open>m_softReason\<close> open; it is zero here.\<close>

definition APICheckResult_new :: HMAPICheckResult where
  "APICheckResult_new =
     \<lparr>qr_host = [], qr_address = APIIPAddress_new, qr_start = 0, qr_end = 0, qr_responseTime = 0, qr_totalResponseTime = 0,
      qr_minResponseTime = 0, qr_maxResponseTime = 0, qr_smoothedResponseTime = 0, qr_sumResponseTime = 0, qr_numChecks = 0,
      qr_numResponses = 0, qr_numConnectFailures = 0, qr_numFailures = 0, qr_numTimeouts = 0, qr_numFlaps = 0,
      qr_status = 0, qr_response = 0, qr_reason = 0, qr_softReason = 0, qr_numFailedChecks = 0, qr_numSlowResponses = 0,
      qr_port = 0, qr_changeTime = 0, qr_prevTime = 0, qr_forceHostDown = False, qr_queueCheckTime = 0, qr_checkTime = 0,
      qr_remoteCheckTime = 0\<rparr>"

record HMAPILFB =
  ql_type :: u8
  ql_ts :: u64
  ql_load :: u64
  ql_target :: u64
  ql_max :: u64
  ql_host :: string
  ql_resource :: string
  ql_datacenter :: string

record HMAPIOOB =
  qo_type :: u8
  qo_shed :: u32
  qo_ts :: u64
  qo_forceDown :: u8
  qo_host :: string
  qo_resource :: string

record HMAPIAuxInfo =
  qx_host :: string
  qx_address :: HMAPIIPAddress
  qx_ttl :: u64
  qx_updatetime :: u64
  qx_oob :: "HMAPIOOB list"
  qx_lfb :: "HMAPILFB list"

record HMAPIHostSchedInfo =
  qs_address :: HMAPIIPAddress
  qs_lastCheckTime :: u64
  qs_nextCheckTime :: u64
  qs_state :: u8

record HMAPIDNSSchedInfo =
  qd_hasv4 :: bool
  qd_hasv6 :: bool
  qd_v4LastCheckTime :: u64
  qd_v4NextCheckTime :: u64
  qd_v4State :: u8
  qd_v6LastCheckTime :: u64
  qd_v6NextCheckTime :: u64
  qd_v6State :: u8
  qd_hostScheduleInfo :: "HMAPIHostSchedInfo list"

record HMAPIThreadInfo =
  qt_numThreads :: u64
  qt_numIdleThreads :: u64

section \<open>Byte order\<close>

text \<open>\<open>htonl\<close> on a machine that stores the low byte first; and the bytes of a 64 bit number in its memory.\<close>

definition htonl :: "u32 \<Rightarrow> u32" where
  "htonl x = push_bit 24 x OR push_bit 8 (x AND 0xFF00) OR (drop_bit 8 x AND 0xFF00) OR drop_bit 24 x"

definition hton64 :: "u64 \<Rightarrow> u64" where
  "hton64 x =
     (let high = htonl (ucast (drop_bit 32 x)); low = htonl (ucast (x AND 0xFFFFFFFF))
      in push_bit 32 (ucast low) OR ucast high)"

definition ntoh64 :: "u64 \<Rightarrow> u64" where
  "ntoh64 x =
     (let high = htonl (ucast (drop_bit 32 x)); low = htonl (ucast (x AND 0xFFFFFFFF))
      in push_bit 32 (ucast low) OR ucast high)"

section \<open>Addresses\<close>

text \<open>The four parts of an IPv6 address.\<close>

definition u6_addr32 :: "nat \<Rightarrow> 128 word \<Rightarrow> u32" where
  "u6_addr32 i a = ucast (drop_bit (32 * (3 - i)) a)"

definition in6_addr :: "u32 \<Rightarrow> u32 \<Rightarrow> u32 \<Rightarrow> u32 \<Rightarrow> 128 word" where
  "in6_addr a0 a1 a2 a3 = push_bit 96 (ucast a0) OR push_bit 64 (ucast a1) OR push_bit 32 (ucast a2) OR ucast a3"

definition packIPAddress :: "HMIPAddress \<Rightarrow> pb_IPAddress" where
  "packIPAddress address =
     (let m = pb_IPAddress_default\<lparr>pa_type := ucast (IPAddress_getType address)\<rparr>
      in if IPAddress_getType address = AF_INET then m\<lparr>pa_addr0 := IPAddress_addr4 address\<rparr>
         else if IPAddress_getType address = AF_INET6 then
           let a = IPAddress_addr6 address
           in m\<lparr>pa_addr0 := u6_addr32 0 a, pa_addr1 := u6_addr32 1 a, pa_addr2 := u6_addr32 2 a, pa_addr3 := u6_addr32 3 a\<rparr>
         else m)"

fun packIPAddress_api :: "HMAPIIPAddress \<Rightarrow> pb_IPAddress" where
  "packIPAddress_api (API_INET a) = pb_IPAddress_default\<lparr>pa_type := 2, pa_addr0 := a\<rparr>"
| "packIPAddress_api (API_INET6 a) = pb_IPAddress_default\<lparr>pa_type := 10, pa_addr0 := u6_addr32 0 a, pa_addr1 := u6_addr32 1 a,
     pa_addr2 := u6_addr32 2 a, pa_addr3 := u6_addr32 3 a\<rparr>"
| "packIPAddress_api (API_OTHER t) = pb_IPAddress_default\<lparr>pa_type := ucast t\<rparr>"

definition unpackIPAddress_api :: "pb_IPAddress \<Rightarrow> HMAPIIPAddress" where
  "unpackIPAddress_api m =
     (let type = ucast (pa_type m) :: u8
      in if type = AF_INET then API_INET (pa_addr0 m)
         else if type = AF_INET6 then API_INET6 (in6_addr (pa_addr0 m) (pa_addr1 m) (pa_addr2 m) (pa_addr3 m))
         else API_OTHER type)"

text \<open>The address is left as it is when the message has none. An unset field reads as the default message.\<close>

definition unpackIPAddress :: "pb_IPAddress \<Rightarrow> HMIPAddress \<Rightarrow> HMIPAddress" where
  "unpackIPAddress m address =
     (if pa_type m = 2 then INET (pa_addr0 m)
      else if pa_type m = 10 then INET6 (in6_addr (pa_addr0 m) (pa_addr1 m) (pa_addr2 m) (pa_addr3 m))
      else address)"

definition field :: "'m \<Rightarrow> 'm option \<Rightarrow> 'm" where
  "field d m = (case m of None \<Rightarrow> d | Some x \<Rightarrow> x)"

end
