(* ===== verification/HM_Packing.thy ===== *)
theory HM_Packing
  imports HM_Messages
begin

text \<open>
  Packing of the data of the daemon into messages and unpacking them (\<open>HMDataPacking.cpp\<close>), for the types of the
  daemon and for those of the interface. A function that packs returns the bytes, whose number is the size the code
  returns; a function that unpacks returns \<open>None\<close> when the bytes are no message of the type.
\<close>

section \<open>Results and parameters\<close>

definition packDataCheckResult :: "string \<Rightarrow> HMDataCheckResult \<Rightarrow> pb_DataCheckResult" where
  "packDataCheckResult hostname r =
     \<lparr>pr_address = Some (packIPAddress (cr_address r)), pr_start = ts_getTimeSinceEpoch (cr_start r),
      pr_end = ts_getTimeSinceEpoch (cr_end r), pr_responseTime = cr_responseTime r,
      pr_totalResponseTime = cr_totalResponseTime r, pr_minResponseTime = cr_minResponseTime r,
      pr_maxResponseTime = cr_maxResponseTime r, pr_smoothedResponseTime = cr_smoothedResponseTime r,
      pr_sumResponseTime = cr_sumResponseTime r, pr_numChecks = cr_numChecks r, pr_numResponses = cr_numResponses r,
      pr_numConnectFailures = cr_numConnectFailures r, pr_numFailures = cr_numFailures r,
      pr_numTimeouts = cr_numTimeouts r, pr_numFlaps = cr_numFlaps r, pr_status = ucast (cr_status r),
      pr_response = ucast (response_code (cr_response r)), pr_reason = ucast (reason_code (cr_reason r)),
      pr_numFailedChecks = ucast (cr_numFailedChecks r), pr_numSlowResponses = ucast (cr_numSlowResponses r),
      pr_port = ucast (cr_port r), pr_changeTime = ts_getTimeSinceEpoch (cr_changeTime r),
      pr_forceHostDown = cr_forceHostDown r, pr_queueCheckTime = ts_getTimeSinceEpoch (cr_queueCheckTime r),
      pr_checkTime = ts_getTimeSinceEpoch (cr_checkTime r), pr_softReason = ucast (reason_code (cr_softReason r)),
      pr_hostname = hostname\<rparr>"

definition unpackDataCheckResult_api :: "pb_DataCheckResult \<Rightarrow> HMAPICheckResult \<Rightarrow> HMAPICheckResult" where
  "unpackDataCheckResult_api m q =
     q\<lparr>qr_address := unpackIPAddress_api (field pb_IPAddress_default (pr_address m)), qr_start := pr_start m,
       qr_end := pr_end m, qr_responseTime := pr_responseTime m, qr_totalResponseTime := pr_totalResponseTime m,
       qr_minResponseTime := pr_minResponseTime m, qr_maxResponseTime := pr_maxResponseTime m,
       qr_smoothedResponseTime := pr_smoothedResponseTime m, qr_sumResponseTime := pr_sumResponseTime m,
       qr_numChecks := pr_numChecks m, qr_numResponses := pr_numResponses m,
       qr_numConnectFailures := pr_numConnectFailures m, qr_numFailures := pr_numFailures m,
       qr_numTimeouts := pr_numTimeouts m, qr_numFlaps := pr_numFlaps m, qr_status := ucast (pr_status m),
       qr_response := ucast (pr_response m), qr_reason := ucast (pr_reason m),
       qr_numFailedChecks := ucast (pr_numFailedChecks m), qr_numSlowResponses := ucast (pr_numSlowResponses m),
       qr_port := ucast (pr_port m), qr_changeTime := pr_changeTime m, qr_forceHostDown := pr_forceHostDown m,
       qr_queueCheckTime := pr_queueCheckTime m, qr_checkTime := pr_checkTime m, qr_host := pr_hostname m\<rparr>"

definition unpackDataCheckResult :: "pb_DataCheckResult \<Rightarrow> HMDataCheckResult \<Rightarrow> HMDataCheckResult" where
  "unpackDataCheckResult m r =
     r\<lparr>cr_address := unpackIPAddress (field pb_IPAddress_default (pr_address m)) (cr_address r),
       cr_start := ts_setTime (pr_start m), cr_end := ts_setTime (pr_end m), cr_responseTime := pr_responseTime m,
       cr_totalResponseTime := pr_totalResponseTime m, cr_minResponseTime := pr_minResponseTime m,
       cr_maxResponseTime := pr_maxResponseTime m, cr_smoothedResponseTime := pr_smoothedResponseTime m,
       cr_sumResponseTime := pr_sumResponseTime m, cr_numChecks := pr_numChecks m, cr_numResponses := pr_numResponses m,
       cr_numConnectFailures := pr_numConnectFailures m, cr_numFailures := pr_numFailures m,
       cr_numTimeouts := pr_numTimeouts m, cr_numFlaps := pr_numFlaps m, cr_status := ucast (pr_status m),
       cr_response := response_of_code (ucast (pr_response m)), cr_reason := reason_of_code (ucast (pr_reason m)),
       cr_softReason := reason_of_code (ucast (pr_softReason m)), cr_numFailedChecks := ucast (pr_numFailedChecks m),
       cr_numSlowResponses := ucast (pr_numSlowResponses m), cr_port := ucast (pr_port m),
       cr_changeTime := ts_setTime (pr_changeTime m), cr_forceHostDown := pr_forceHostDown m,
       cr_queueCheckTime := ts_setTime (pr_queueCheckTime m), cr_checkTime := ts_setTime (pr_checkTime m)\<rparr>"

definition packDataCheckParam :: "HMDataCheckParams \<Rightarrow> pb_DataCheckParam" where
  "packDataCheckParam p =
     \<lparr>pc_numCheckRetries = ucast (cp_numCheckRetries p), pc_checkRetryDelay = cp_checkRetryDelay p,
      pc_measurementOptions = ucast (cp_measurementOptions p), pc_smoothingWindow = cp_smoothingWindow p,
      pc_groupThreshold = cp_groupThreshold p, pc_slowThreshold = cp_slowThreshold p, pc_maxFlaps = cp_maxFlaps p,
      pc_checkTimeout = cp_checkTimeout p, pc_checkTTL = cp_checkTTL p, pc_flapThreshold = cp_flapThreshold p,
      pc_passthroughInfo = cp_passthroughInfo p\<rparr>"

definition unpackDataCheckParam_api :: "pb_DataCheckParam \<Rightarrow> HMAPICheckInfo \<Rightarrow> HMAPICheckInfo" where
  "unpackDataCheckParam_api m q =
     q\<lparr>qi_numCheckRetries := ucast (pc_numCheckRetries m), qi_checkRetryDelay := pc_checkRetryDelay m,
       qi_measurementOptions := ucast (pc_measurementOptions m), qi_smoothingWindow := pc_smoothingWindow m,
       qi_groupThreshold := pc_groupThreshold m, qi_slowThreshold := pc_slowThreshold m, qi_maxFlaps := pc_maxFlaps m,
       qi_checkTimeout := pc_checkTimeout m, qi_checkTTL := pc_checkTTL m, qi_flapThreshold := pc_flapThreshold m,
       qi_passthroughInfo := pc_passthroughInfo m\<rparr>"

definition unpackDataCheckParam :: "pb_DataCheckParam \<Rightarrow> HMDataCheckParams \<Rightarrow> HMDataCheckParams" where
  "unpackDataCheckParam m =
     CheckParams_setCheckParameters (ucast (pc_numCheckRetries m)) (pc_checkRetryDelay m) (ucast (pc_measurementOptions m))
       (pc_smoothingWindow m) (pc_groupThreshold m) (pc_slowThreshold m) (pc_maxFlaps m) (pc_checkTimeout m)
       (pc_checkTTL m) (pc_flapThreshold m) (pc_passthroughInfo m)"

definition packCheckParamCheckResult :: "string \<Rightarrow> HMDataCheckParams \<times> HMDataCheckResult \<Rightarrow> pb_CheckParamsCheckResult" where
  "packCheckParamCheckResult hostname e =
     \<lparr>pk_checkParam = Some (packDataCheckParam (fst e)), pk_checkResult = Some (packDataCheckResult hostname (snd e))\<rparr>"

definition unpackCheckParamCheckResult_api ::
    "pb_CheckParamsCheckResult \<Rightarrow> HMAPICheckInfo \<times> HMAPICheckResult \<Rightarrow> HMAPICheckInfo \<times> HMAPICheckResult" where
  "unpackCheckParamCheckResult_api m e =
     (unpackDataCheckParam_api (field pb_DataCheckParam_default (pk_checkParam m)) (fst e),
      unpackDataCheckResult_api (field pb_DataCheckResult_default (pk_checkResult m)) (snd e))"

definition unpackCheckParamCheckResult :: "pb_CheckParamsCheckResult \<Rightarrow> HMDataCheckParams \<times> HMDataCheckResult" where
  "unpackCheckParamCheckResult m =
     (unpackDataCheckParam (field pb_DataCheckParam_default (pk_checkParam m)) CheckParams_default,
      unpackDataCheckResult (field pb_DataCheckResult_default (pk_checkResult m)) CheckResult_default)"

section \<open>Host groups and checks\<close>

definition packDataHostGroup :: "HMDataHostGroup \<Rightarrow> pb_DataHostGroup" where
  "packDataHostGroup g =
     \<lparr>pg_measurementOptions = ucast (hg_measurementOptions g), pg_dualstack = ucast (hg_dualstack g),
      pg_checkType = ucast (check_type_code (hg_checkType g)), pg_port = ucast (hg_port g),
      pg_numCheckRetries = ucast (hg_numCheckRetries g), pg_checkRetryDelay = hg_checkRetryDelay g,
      pg_smoothingWindow = hg_smoothingWindow g, pg_groupThreshold = hg_groupThreshold g,
      pg_slowThreshold = hg_slowThreshold g, pg_maxFlaps = hg_maxFlaps g, pg_checkTimeout = hg_checkTimeout g,
      pg_checkTTL = hg_checkTTL g, pg_flapThreshold = hg_flapThreshold g, pg_passthroughInfo = hg_passthroughInfo g,
      pg_checkInfo = hg_checkInfo g, pg_remoteCheckType = ucast (remote_check_type_code (hg_remoteCheckType g)),
      pg_remoteCheck = hg_remoteCheck g, pg_distributedFallback = ucast (hg_distributedFallback g),
      pg_sourceAddress = Some (packIPAddress (hg_sourceAddress g)), pg_TOSValue = ucast (hg_TOSValue g),
      pg_dnsType = ucast (dns_type_code (hg_DNSType g)), pg_hosts = hg_hosts g, pg_hostgroups = hg_hostGroups g\<rparr>"

definition unpackDataHostGroup_message :: "pb_DataHostGroup \<Rightarrow> HMDataHostGroup \<Rightarrow> deser_error + HMDataHostGroup" where
  "unpackDataHostGroup_message m g =
     (case check_type_of_code (ucast (pg_checkType m)) of None \<Rightarrow> Inl no_enumerator
      | Some t \<Rightarrow>
          Inr (fold HostGroup_addHost (pg_hosts m) (fold HostGroup_addHostGroup (pg_hostgroups m)
            (g\<lparr>hg_measurementOptions := ucast (pg_measurementOptions m), hg_dualstack := ucast (pg_dualstack m),
               hg_checkType := t, hg_port := ucast (pg_port m), hg_numCheckRetries := ucast (pg_numCheckRetries m),
               hg_checkRetryDelay := pg_checkRetryDelay m, hg_smoothingWindow := pg_smoothingWindow m,
               hg_groupThreshold := pg_groupThreshold m, hg_slowThreshold := pg_slowThreshold m,
               hg_maxFlaps := pg_maxFlaps m, hg_checkTimeout := pg_checkTimeout m, hg_checkTTL := pg_checkTTL m,
               hg_flapThreshold := pg_flapThreshold m, hg_passthroughInfo := pg_passthroughInfo m,
               hg_checkInfo := pg_checkInfo m, hg_distributedFallback := ucast (pg_distributedFallback m),
               hg_TOSValue := ucast (pg_TOSValue m),
               hg_sourceAddress := unpackIPAddress (field pb_IPAddress_default (pg_sourceAddress m)) UNSPEC\<rparr>))))"

definition unpackDataHostGroup_api_message :: "pb_DataHostGroup \<Rightarrow> HMAPICheckInfo \<Rightarrow> HMAPICheckInfo" where
  "unpackDataHostGroup_api_message m q =
     q\<lparr>qi_measurementOptions := ucast (pg_measurementOptions m), qi_ipv4 := bit (pg_dualstack m) 0,
       qi_ipv6 := bit (pg_dualstack m) 1, qi_checkType := ucast (pg_checkType m), qi_port := ucast (pg_port m),
       qi_numCheckRetries := ucast (pg_numCheckRetries m), qi_checkRetryDelay := pg_checkRetryDelay m,
       qi_smoothingWindow := pg_smoothingWindow m, qi_groupThreshold := pg_groupThreshold m,
       qi_slowThreshold := pg_slowThreshold m, qi_maxFlaps := pg_maxFlaps m, qi_checkTimeout := pg_checkTimeout m,
       qi_checkTTL := pg_checkTTL m, qi_flapThreshold := pg_flapThreshold m, qi_passthroughInfo := pg_passthroughInfo m,
       qi_checkInfo := pg_checkInfo m, qi_distributedFallback := ucast (pg_distributedFallback m),
       qi_TOSValue := ucast (pg_TOSValue m), qi_dnsCheckType := ucast (pg_dnsType m),
       qi_sourceAddress := unpackIPAddress_api (field pb_IPAddress_default (pg_sourceAddress m)),
       qi_hostGroups := qi_hostGroups q @ pg_hostgroups m, qi_hosts := qi_hosts q @ pg_hosts m\<rparr>"

definition packDataHostGroup_bytes :: "proto \<Rightarrow> HMDataHostGroup \<Rightarrow> string" where
  "packDataHostGroup_bytes pb g = fm_serialize (pf_DataHostGroup pb) (packDataHostGroup g)"

definition unpackDataHostGroup_api :: "proto \<Rightarrow> string \<Rightarrow> HMAPICheckInfo \<Rightarrow> HMAPICheckInfo option" where
  "unpackDataHostGroup_api pb data q =
     map_option (\<lambda>m. unpackDataHostGroup_api_message m q) (fm_parse (pf_DataHostGroup pb) data)"

definition unpackDataHostGroup :: "proto \<Rightarrow> string \<Rightarrow> HMDataHostGroup \<Rightarrow> deser_error + HMDataHostGroup option" where
  "unpackDataHostGroup pb data g =
     (case fm_parse (pf_DataHostGroup pb) data of None \<Rightarrow> Inr None
      | Some m \<Rightarrow> res_bind (unpackDataHostGroup_message m g) (\<lambda>g. Inr (Some g)))"

definition dns_type_of_code :: "u8 \<Rightarrow> HM_DNS_TYPE option" where
  "dns_type_of_code b = find (\<lambda>t. dns_type_code t = b) [HM_DNS_TYPE_LOOKUP, HM_DNS_TYPE_STATIC]"

definition packDataHostCheck :: "proto \<Rightarrow> HMDataHostCheck \<Rightarrow> string" where
  "packDataHostCheck pb c =
     fm_serialize (pf_DataHostCheck pb)
       \<lparr>pd_dualstack = ucast (hc_dualstack c), pd_checkType = ucast (check_type_code (hc_checkType c)),
        pd_port = ucast (hc_port c), pd_checkInfo = hc_checkInfo c,
        pd_sourceAddress = Some (packIPAddress (hc_sourceAddress c)), pd_TOSValue = ucast (hc_TOSValue c),
        pd_dnsType = ucast (dns_type_code (hc_DNSType c))\<rparr>"

definition unpackDataHostCheck :: "proto \<Rightarrow> string \<Rightarrow> HMDataHostCheck \<Rightarrow> deser_error + HMDataHostCheck option" where
  "unpackDataHostCheck pb data c =
     (case fm_parse (pf_DataHostCheck pb) data of None \<Rightarrow> Inr None
      | Some m \<Rightarrow>
          (case (check_type_of_code (ucast (pd_checkType m)), dns_type_of_code (ucast (pd_dnsType m))) of
             (Some t, Some d) \<Rightarrow>
               Inr (Some (HostCheck_setCheckParams
                 ((HostGroup_new ''dummy'')\<lparr>hg_checkType := t, hg_port := ucast (pd_port m),
                    hg_dualstack := ucast (pd_dualstack m), hg_checkInfo := pd_checkInfo m, hg_DNSType := d,
                    hg_sourceAddress := unpackIPAddress (field pb_IPAddress_default (pd_sourceAddress m)) UNSPEC,
                    hg_TOSValue := ucast (pd_TOSValue m)\<rparr>) c))
           | _ \<Rightarrow> Inl no_enumerator))"

section \<open>Lists of results\<close>

definition packDataCheckResults :: "proto \<Rightarrow> string \<Rightarrow> HMDataCheckResult list \<Rightarrow> string" where
  "packDataCheckResults pb hostname rs = fm_serialize (pf_DataCheckResults pb) (map (packDataCheckResult hostname) rs)"

definition unpackDataCheckResults :: "proto \<Rightarrow> string \<Rightarrow> HMAPICheckResult list \<Rightarrow> HMAPICheckResult list option" where
  "unpackDataCheckResults pb data qs =
     map_option (\<lambda>ms. qs @ map (\<lambda>m. unpackDataCheckResult_api m APICheckResult_new) ms)
       (fm_parse (pf_DataCheckResults pb) data)"

definition packHostResults :: "proto \<Rightarrow> string \<Rightarrow> (HMDataCheckParams \<times> HMDataCheckResult) list \<Rightarrow> string" where
  "packHostResults pb hostName es = fm_serialize (pf_HostResult pb) (map (packCheckParamCheckResult hostName) es)"

definition APICheckInfo_new :: HMAPICheckInfo where
  "APICheckInfo_new =
     \<lparr>qi_measurementOptions = 0, qi_ipv4 = False, qi_ipv6 = False, qi_checkType = 0, qi_port = 0, qi_checkInfo = [],
      qi_numCheckRetries = 0, qi_checkRetryDelay = 0, qi_smoothingWindow = 0, qi_groupThreshold = 0, qi_slowThreshold = 0,
      qi_maxFlaps = 0, qi_checkTimeout = 0, qi_checkTTL = 0, qi_flapThreshold = 0, qi_passthroughInfo = 0, qi_TOSValue = 0,
      qi_dnsCheckType = 0, qi_sourceAddress = APIIPAddress_new, qi_remoteCheck = [], qi_flowType = 0,
      qi_distributedFallback = 0, qi_remoteCheckType = 0, qi_hosts = [], qi_hostGroups = []\<rparr>"

definition unpackHostResults_api ::
    "proto \<Rightarrow> string \<Rightarrow> (HMAPICheckInfo \<times> HMAPICheckResult) list \<Rightarrow> (HMAPICheckInfo \<times> HMAPICheckResult) list option" where
  "unpackHostResults_api pb data es =
     map_option (\<lambda>ms. es @ map (\<lambda>m. unpackCheckParamCheckResult_api m (APICheckInfo_new, APICheckResult_new)) ms)
       (fm_parse (pf_HostResult pb) data)"

definition unpackHostResults_multimap ::
    "proto \<Rightarrow> string \<Rightarrow> (HMDataCheckParams \<times> HMDataCheckResult) list \<Rightarrow> (HMDataCheckParams \<times> HMDataCheckResult) list option" where
  "unpackHostResults_multimap pb data es =
     map_option (\<lambda>ms. fold (\<lambda>m es. mmap_insert CheckParams_less (fst (unpackCheckParamCheckResult m))
       (snd (unpackCheckParamCheckResult m)) es) ms es) (fm_parse (pf_HostResult pb) data)"

definition unpackHostResults_map ::
    "proto \<Rightarrow> string \<Rightarrow> (HMDataCheckParams \<times> HMDataCheckResult) list \<Rightarrow> (HMDataCheckParams \<times> HMDataCheckResult) list option" where
  "unpackHostResults_map pb data es =
     map_option (\<lambda>ms. fold (\<lambda>m es. case unpackCheckParamCheckResult m of (p, r) \<Rightarrow>
       if smap_find CheckParams_less p es = None then smap_insert CheckParams_less p r es else es) ms es)
       (fm_parse (pf_HostResult pb) data)"

definition packHostGroupInfo :: "proto \<Rightarrow> HMDataHostGroup \<Rightarrow> HMGroupCheckResult list \<Rightarrow> string" where
  "packHostGroupInfo pb g results =
     fm_serialize (pf_HostGroupInfo pb)
       \<lparr>pi_hostGroup = Some (packDataHostGroup g),
        pi_groupCheckResult = map (\<lambda>r. \<lparr>pn_hostname = gr_hostName r,
          pn_hostResults = Some (packDataCheckResult (gr_hostName r) (gr_result r))\<rparr>) results\<rparr>"

definition unpackHostGroupInfo_api ::
    "proto \<Rightarrow> string \<Rightarrow> HMAPICheckInfo \<times> HMAPICheckResult list \<Rightarrow> (HMAPICheckInfo \<times> HMAPICheckResult list) option" where
  "unpackHostGroupInfo_api pb data = (\<lambda>(q, qs).
     map_option (\<lambda>m. (unpackDataHostGroup_api_message (field pb_DataHostGroup_default (pi_hostGroup m)) q,
         qs @ map (\<lambda>r. unpackDataCheckResult_api (field pb_DataCheckResult_default (pn_hostResults r))
           (APICheckResult_new\<lparr>qr_host := pn_hostname r\<rparr>)) (pi_groupCheckResult m)))
       (fm_parse (pf_HostGroupInfo pb) data))"

definition unpackHostGroupInfo ::
    "proto \<Rightarrow> string \<Rightarrow> HMDataHostGroup \<times> HMGroupCheckResult list \<Rightarrow>
     deser_error + (HMDataHostGroup \<times> HMGroupCheckResult list) option" where
  "unpackHostGroupInfo pb data = (\<lambda>(g, rs).
     case fm_parse (pf_HostGroupInfo pb) data of None \<Rightarrow> Inr None
     | Some m \<Rightarrow>
         res_bind (unpackDataHostGroup_message (field pb_DataHostGroup_default (pi_hostGroup m)) g) (\<lambda>g.
           Inr (Some (g, rs @ map (\<lambda>r.
             let res = unpackDataCheckResult (field pb_DataCheckResult_default (pn_hostResults r)) CheckResult_default
             in GroupCheckResult_default\<lparr>gr_hostName := pn_hostname r, gr_result := res, gr_address := cr_address res\<rparr>)
             (pi_groupCheckResult m)))))"

section \<open>Auxiliary data\<close>

text \<open>The time of an \<open>OOB\<close> has 32 bits in the message.\<close>

definition pack_lfb :: "HMAux \<Rightarrow> pb_LFB list" where
  "pack_lfb a =
     (case Aux_getLFB a of None \<Rightarrow> []
      | Some l \<Rightarrow> [\<lparr>pl_type = ucast (ab_type l), pl_ts = ts_getTimeSinceEpoch (ab_ts l), pl_load = lf_load l,
                   pl_target = lf_target l, pl_max = lf_max l, pl_host = ab_host l, pl_resource = ab_resource l,
                   pl_datacenter = lf_datacenter l\<rparr>])"

definition pack_oob :: "HMAux \<Rightarrow> pb_OOB list" where
  "pack_oob a =
     (case Aux_getLFB a of Some _ \<Rightarrow> []
      | None \<Rightarrow> (case Aux_getOOB a of None \<Rightarrow> []
          | Some b \<Rightarrow> [\<lparr>po_type = ucast (ab_type b), po_shed = oo_shed b, po_ts = ucast (ts_getTimeSinceEpoch (ab_ts b)),
                       po_forceDown = ucast (oo_forceDown b), po_host = ab_host b, po_resource = ab_resource b\<rparr>]))"

definition pack_aux :: "u64 \<Rightarrow> string \<Rightarrow> HMIPAddress \<Rightarrow> HMAuxInfo \<Rightarrow> pb_AuxInfo" where
  "pack_aux ttl hostName address info =
     \<lparr>px_host = hostName, px_address = Some (packIPAddress address), px_ttl = ttl,
      px_updatetime = ts_getTimeSinceEpoch (ai_ts info), px_oob = concat (map pack_oob (ai_auxData info)),
      px_lfb = concat (map pack_lfb (ai_auxData info))\<rparr>"

definition packAuxInfo :: "proto \<Rightarrow> HMAuxInfo \<Rightarrow> string \<Rightarrow> HMIPAddress \<Rightarrow> string" where
  "packAuxInfo pb info hostName address = fm_serialize (pf_AuxInfo pb) (pack_aux 0 hostName address info)"

definition packAuxInfo_results :: "proto \<Rightarrow> HMGroupAuxResult list \<Rightarrow> u64 \<Rightarrow> string" where
  "packAuxInfo_results pb rs ttl =
     fm_serialize (pf_AuxResults pb) (map (\<lambda>r. pack_aux ttl (ga_hostName r) (ga_address r) (ga_info r)) rs)"

definition unpack_lfb :: "pb_LFB \<Rightarrow> HMAux" where
  "unpack_lfb m =
     AuxLoadFB \<lparr>ab_type = ucast (pl_type m), ab_host = pl_host m, ab_resource = pl_resource m, ab_ip = UNSPEC,
       ab_ts = ts_setTime (pl_ts m), lf_datacenter = pl_datacenter m, lf_load = pl_load m, lf_target = pl_target m,
       lf_max = pl_max m\<rparr>"

definition unpack_oob :: "pb_OOB \<Rightarrow> HMAux" where
  "unpack_oob m =
     AuxOOB \<lparr>ab_type = ucast (po_type m), ab_host = po_host m, ab_resource = po_resource m, ab_ip = UNSPEC,
       ab_ts = ts_setTime (ucast (po_ts m)), oo_forceDown = ucast (po_forceDown m), oo_shed = po_shed m\<rparr>"

definition unpackAuxInfo :: "proto \<Rightarrow> string \<Rightarrow> HMAuxInfo \<Rightarrow> HMAuxInfo option" where
  "unpackAuxInfo pb data i =
     map_option (\<lambda>m. i\<lparr>ai_ts := ts_setTime (px_updatetime m),
         ai_auxData := ai_auxData i @ map unpack_lfb (px_lfb m) @ map unpack_oob (px_oob m)\<rparr>)
       (fm_parse (pf_AuxInfo pb) data)"

definition unpackAuxInfo_results :: "proto \<Rightarrow> string \<Rightarrow> HMGroupAuxResult list \<Rightarrow> HMGroupAuxResult list option" where
  "unpackAuxInfo_results pb data rs =
     map_option (\<lambda>ms. rs @ map (\<lambda>m. GroupAuxResult_default\<lparr>
         ga_address := unpackIPAddress (field pb_IPAddress_default (px_address m)) UNSPEC, ga_hostName := px_host m,
         ga_info := \<lparr>ai_auxData = map unpack_lfb (px_lfb m) @ map unpack_oob (px_oob m), ai_ts = ts_setTime (px_updatetime m)\<rparr>\<rparr>) ms)
       (fm_parse (pf_AuxResults pb) data)"

definition unpack_lfb_api :: "pb_LFB \<Rightarrow> HMAPILFB" where
  "unpack_lfb_api m =
     \<lparr>ql_type = ucast (pl_type m), ql_ts = pl_ts m, ql_load = pl_load m, ql_target = pl_target m, ql_max = pl_max m,
      ql_host = pl_host m, ql_resource = pl_resource m, ql_datacenter = pl_datacenter m\<rparr>"

definition unpack_oob_api :: "pb_OOB \<Rightarrow> HMAPIOOB" where
  "unpack_oob_api m =
     \<lparr>qo_type = ucast (po_type m), qo_shed = po_shed m, qo_ts = ucast (po_ts m), qo_forceDown = ucast (po_forceDown m),
      qo_host = po_host m, qo_resource = po_resource m\<rparr>"

definition unpack_aux_api :: "pb_AuxInfo \<Rightarrow> HMAPIAuxInfo" where
  "unpack_aux_api m =
     \<lparr>qx_host = px_host m, qx_address = unpackIPAddress_api (field pb_IPAddress_default (px_address m)),
      qx_ttl = px_ttl m, qx_updatetime = px_updatetime m, qx_oob = map unpack_oob_api (px_oob m),
      qx_lfb = map unpack_lfb_api (px_lfb m)\<rparr>"

definition unpackAuxInfo_api :: "proto \<Rightarrow> string \<Rightarrow> HMAPIAuxInfo option" where
  "unpackAuxInfo_api pb data = map_option unpack_aux_api (fm_parse (pf_AuxInfo pb) data)"

definition unpackAuxInfo_results_api :: "proto \<Rightarrow> string \<Rightarrow> HMAPIAuxInfo list \<Rightarrow> HMAPIAuxInfo list option" where
  "unpackAuxInfo_results_api pb data qs = map_option (\<lambda>ms. qs @ map unpack_aux_api ms) (fm_parse (pf_AuxResults pb) data)"

section \<open>Schedules\<close>

definition packHostInfo :: "HMAPIHostSchedInfo \<Rightarrow> pb_HostSchedInfo" where
  "packHostInfo q =
     \<lparr>pj_address = Some (packIPAddress_api (qs_address q)), pj_lastCheckTime = qs_lastCheckTime q,
      pj_nextCheckTime = qs_nextCheckTime q, pj_state = ucast (qs_state q)\<rparr>"

definition packHostSchedInfo :: "proto \<Rightarrow> HMAPIDNSSchedInfo \<Rightarrow> string" where
  "packHostSchedInfo pb q =
     fm_serialize (pf_DNSSchedInfo pb)
       \<lparr>pz_hasv4 = qd_hasv4 q, pz_hasv6 = qd_hasv6 q, pz_v4LastCheckTime = qd_v4LastCheckTime q,
        pz_v4NextCheckTime = qd_v4NextCheckTime q, pz_v4State = ucast (qd_v4State q),
        pz_v6LastCheckTime = qd_v6LastCheckTime q, pz_v6NextCheckTime = qd_v6NextCheckTime q,
        pz_v6State = ucast (qd_v6State q), pz_hostSchedInfo = map packHostInfo (qd_hostScheduleInfo q)\<rparr>"

definition packRemoteHostGroupSchedInfo :: "proto \<Rightarrow> HMAPIHostSchedInfo \<Rightarrow> string" where
  "packRemoteHostGroupSchedInfo pb q = fm_serialize (pf_HostSchedInfo pb) (packHostInfo q)"

definition unpackHostSchedInfo_message :: "pb_HostSchedInfo \<Rightarrow> HMAPIHostSchedInfo" where
  "unpackHostSchedInfo_message m =
     \<lparr>qs_address = unpackIPAddress_api (field pb_IPAddress_default (pj_address m)), qs_lastCheckTime = pj_lastCheckTime m,
      qs_nextCheckTime = pj_nextCheckTime m, qs_state = ucast (pj_state m)\<rparr>"

definition unpackHostSchedInfo :: "proto \<Rightarrow> string \<Rightarrow> HMAPIHostSchedInfo list \<Rightarrow> HMAPIDNSSchedInfo option" where
  "unpackHostSchedInfo pb data hosts =
     map_option (\<lambda>m. \<lparr>qd_hasv4 = pz_hasv4 m, qd_hasv6 = pz_hasv6 m, qd_v4LastCheckTime = pz_v4LastCheckTime m,
         qd_v4NextCheckTime = pz_v4NextCheckTime m, qd_v4State = ucast (pz_v4State m),
         qd_v6LastCheckTime = pz_v6LastCheckTime m, qd_v6NextCheckTime = pz_v6NextCheckTime m,
         qd_v6State = ucast (pz_v6State m),
         qd_hostScheduleInfo = hosts @ map unpackHostSchedInfo_message (pz_hostSchedInfo m)\<rparr>)
       (fm_parse (pf_DNSSchedInfo pb) data)"

definition unpackRemoteHostGroupSchedInfo :: "proto \<Rightarrow> string \<Rightarrow> HMAPIHostSchedInfo option" where
  "unpackRemoteHostGroupSchedInfo pb data = map_option unpackHostSchedInfo_message (fm_parse (pf_HostSchedInfo pb) data)"

definition packThreadInfo :: "proto \<Rightarrow> HMAPIThreadInfo \<Rightarrow> string" where
  "packThreadInfo pb t =
     fm_serialize (pf_ThreadInfo pb) \<lparr>pt_numThreads = qt_numThreads t, pt_numIdleThreads = qt_numIdleThreads t\<rparr>"

definition unpackThreadInfo :: "proto \<Rightarrow> string \<Rightarrow> HMAPIThreadInfo option" where
  "unpackThreadInfo pb data =
     map_option (\<lambda>m. \<lparr>qt_numThreads = pt_numThreads m, qt_numIdleThreads = pt_numIdleThreads m\<rparr>)
       (fm_parse (pf_ThreadInfo pb) data)"

section \<open>Lists, addresses and numbers\<close>

definition packList :: "proto \<Rightarrow> string list \<Rightarrow> string" where
  "packList pb xs = fm_serialize (pf_List pb) xs"

definition unpackList :: "proto \<Rightarrow> string \<Rightarrow> string list \<Rightarrow> string list option" where
  "unpackList pb data xs = map_option (\<lambda>ys. xs @ ys) (fm_parse (pf_List pb) data)"

definition packIPAddresses :: "proto \<Rightarrow> HMIPAddress list \<Rightarrow> string" where
  "packIPAddresses pb as = fm_serialize (pf_IPAddresses pb) (map packIPAddress as)"

definition packIPAddresses_api :: "proto \<Rightarrow> HMAPIIPAddress list \<Rightarrow> string" where
  "packIPAddresses_api pb as = fm_serialize (pf_IPAddresses pb) (map packIPAddress_api as)"

definition unpackIPAddresses_api :: "proto \<Rightarrow> string \<Rightarrow> HMAPIIPAddress list \<Rightarrow> HMAPIIPAddress list option" where
  "unpackIPAddresses_api pb data as =
     map_option (\<lambda>ms. as @ map unpackIPAddress_api ms) (fm_parse (pf_IPAddresses pb) data)"

text \<open>A set is the sorted list of its elements.\<close>

definition unpackIPAddresses :: "proto \<Rightarrow> string \<Rightarrow> HMIPAddress list \<Rightarrow> HMIPAddress list option" where
  "unpackIPAddresses pb data as =
     map_option (\<lambda>ms. fold (\<lambda>m. insort_insert (unpackIPAddress m UNSPEC)) ms as) (fm_parse (pf_IPAddresses pb) data)"

definition packBool :: "proto \<Rightarrow> bool \<Rightarrow> string" where
  "packBool pb x = fm_serialize (pf_Bool pb) x"

definition unpackBool :: "proto \<Rightarrow> string \<Rightarrow> bool" where
  "unpackBool pb data = (case fm_parse (pf_Bool pb) data of None \<Rightarrow> False | Some x \<Rightarrow> x)"

definition packUInt :: "proto \<Rightarrow> u64 \<Rightarrow> string" where
  "packUInt pb x = fm_serialize (pf_Uint pb) x"

definition unpackUInt :: "proto \<Rightarrow> string \<Rightarrow> 'a::len word option" where
  "unpackUInt pb data = map_option ucast (fm_parse (pf_Uint pb) data)"

definition packInt :: "proto \<Rightarrow> int \<Rightarrow> string" where
  "packInt pb x = fm_serialize (pf_Int pb) (word_of_int x)"

definition unpackInt :: "proto \<Rightarrow> string \<Rightarrow> 'a::len word option" where
  "unpackInt pb data = map_option ucast (fm_parse (pf_Int pb) data)"

text \<open>A \<open>std::set<int>\<close> of 32 bit numbers; the message has 64 bit ones.\<close>

definition packListInt64 :: "proto \<Rightarrow> int list \<Rightarrow> string" where
  "packListInt64 pb xs = fm_serialize (pf_ListInt64 pb) (map word_of_int xs)"

definition unpackListInt64 :: "proto \<Rightarrow> string \<Rightarrow> int list \<Rightarrow> int list option" where
  "unpackListInt64 pb data xs =
     map_option (\<lambda>ms. fold (\<lambda>m. insort_insert (sint (ucast m :: u32))) ms xs) (fm_parse (pf_ListInt64 pb) data)"

section \<open>Hashes\<close>

text \<open>
  The hash of a group is the list of its bytes in \<open>HMDataHostGroup\<close>. \<open>set_hash\<close> takes as many bytes as the size says, and
  \<open>memcpy\<close> copies as many to the array of 64 bytes, whatever the field has: a size of more than 64 writes behind the
  array, and one that is larger than the field reads behind it. The sizes are signed in the message. Both are \<open>read_past_end\<close>.
\<close>

definition pack_hash :: "string \<Rightarrow> HMHash \<Rightarrow> pb_HashHGPair" where
  "pack_hash name h =
     \<lparr>pv_hostgroupname = name, pv_size = ha_hashSize h, pv_hash = take (unat (ha_hashSize h)) (ha_hashValue h)\<rparr>"

definition unpack_hash :: "pb_HashHGPair \<Rightarrow> HMHash \<Rightarrow> deser_error + HMHash" where
  "unpack_hash m h =
     (let n = unat (pv_size m)
      in if n = 0 then Inr (h\<lparr>ha_hashSize := 0\<rparr>)
         else if 64 < n \<or> length (pv_hash m) < n then Inl read_past_end
         else Inr (h\<lparr>ha_hashSize := pv_size m, ha_hashValue := take n (pv_hash m) @ drop n (ha_hashValue h)\<rparr>))"

definition group_hash :: "HMDataHostGroup \<Rightarrow> HMHash" where
  "group_hash g = \<lparr>ha_hashValue = hg_hashValue g, ha_hashSize = of_nat (length (hg_hashValue g))\<rparr>"

definition packHash :: "proto \<Rightarrow> string \<Rightarrow> HMHash \<Rightarrow> string" where
  "packHash pb name h = fm_serialize (pf_HashHGPair pb) (pack_hash name h)"

definition unpackHash :: "proto \<Rightarrow> string \<Rightarrow> HMHash \<Rightarrow> deser_error + HMHash option" where
  "unpackHash pb data h =
     (case fm_parse (pf_HashHGPair pb) data of None \<Rightarrow> Inr None
      | Some m \<Rightarrow> res_bind (unpack_hash m h) (\<lambda>h. Inr (Some h)))"

definition packHashInfo :: "proto \<Rightarrow> HMDataHostGroupMap \<Rightarrow> string" where
  "packHashInfo pb groups = fm_serialize (pf_HashInfo pb) (map (\<lambda>(n, g). pack_hash n (group_hash g)) groups)"

text \<open>The map that is filled; for the hashes of the daemon the result is \<open>false\<close> in any case.\<close>

definition unpack_hash_entry :: "pb_HashHGPair \<Rightarrow> (string \<times> HMHash) list \<Rightarrow> deser_error + (string \<times> HMHash) list" where
  "unpack_hash_entry m hs =
     (let n = pv_hostgroupname m; old = (case smap_find (<) n hs of None \<Rightarrow> Hash_new | Some h \<Rightarrow> h)
      in res_bind (unpack_hash m old) (\<lambda>h.
           Inr (if smap_find (<) n hs = None then smap_insert (<) n h hs else smap_adjust (<) n (\<lambda>_. h) hs)))"

definition unpackHashInfo_api :: "proto \<Rightarrow> string \<Rightarrow> (string \<times> HMHash) list \<Rightarrow> deser_error + (string \<times> HMHash) list \<times> bool" where
  "unpackHashInfo_api pb data hs =
     (case fm_parse (pf_HashInfo pb) data of None \<Rightarrow> Inr (hs, False)
      | Some ms \<Rightarrow> res_bind (res_fold unpack_hash_entry ms hs) (\<lambda>hs. Inr (hs, True)))"

definition unpackHashInfo :: "proto \<Rightarrow> string \<Rightarrow> (string \<times> HMHash) list \<Rightarrow> deser_error + (string \<times> HMHash) list \<times> bool" where
  "unpackHashInfo pb data hs =
     (case fm_parse (pf_HashInfo pb) data of None \<Rightarrow> Inr (hs, False)
      | Some ms \<Rightarrow> res_bind (res_fold unpack_hash_entry ms hs) (\<lambda>hs. Inr (hs, False)))"

section \<open>What arrives\<close>

lemma ucast_narrow [simp]:
  "ucast (ucast (x :: u8) :: u32) = x" "ucast (ucast (y :: u16) :: u32) = y" "ucast (ucast (z :: u32) :: u64) = z"
  by (rule bit_word_eqI, simp add: bit_unsigned_iff)+

lemma in6_addr_parts: "in6_addr (u6_addr32 0 a) (u6_addr32 (Suc 0) a) (u6_addr32 2 a) (u6_addr32 3 a) = a"
proof (rule bit_word_eqI)
  fix n assume "n < LENGTH(128)"
  then show "bit (in6_addr (u6_addr32 0 a) (u6_addr32 (Suc 0) a) (u6_addr32 2 a) (u6_addr32 3 a)) n \<longleftrightarrow> bit a n"
    by (cases "96 \<le> n"; cases "64 \<le> n"; cases "32 \<le> n")
      (auto simp: in6_addr_def u6_addr32_def bit_or_iff bit_push_bit_iff bit_unsigned_iff bit_drop_bit_eq)
qed

lemma unpack_packIPAddress: "unpackIPAddress (packIPAddress a) b = (if a = UNSPEC then b else a)"
  by (cases a) (simp_all add: unpackIPAddress_def packIPAddress_def pb_IPAddress_default_def Let_def in6_addr_parts)

text \<open>A result has the fields that are not sent from the object it is read into.\<close>

definition sent_result :: "HMDataCheckResult \<Rightarrow> HMDataCheckResult" where
  "sent_result r =
     r\<lparr>cr_softStatus := 0, cr_flapStatus := 0, cr_flapTime := 0, cr_queryState := HM_CHECK_INACTIVE, cr_remoteCheckTime := 0,
       cr_statusChanged := False\<rparr>"

lemma unpack_packDataCheckResult:
  assumes "CheckResult_storable r"
  shows "unpackDataCheckResult (packDataCheckResult host r) CheckResult_default = sent_result r"
  using assms
  by (cases r) (simp add: unpackDataCheckResult_def packDataCheckResult_def sent_result_def CheckResult_storable_def field_def
      CheckResult_default_def CheckResult_new_def ts_roundtrip response_of_code_code reason_of_code_code
      unpack_packIPAddress)

definition sent_group :: "string \<Rightarrow> HMDataHostGroup \<Rightarrow> HMDataHostGroup" where
  "sent_group name g =
     g\<lparr>hg_groupName := name, hg_remoteCheckType := HM_REMOTE_CHECK_NONE, hg_remoteCheck := [], hg_hashValue := [],
       hg_checkPlugin := HM_CHECK_PLUGIN_DEFAULT, hg_DNSType := HM_DNS_TYPE_LOOKUP, hg_flowType := HM_FLOW_DNS_HEALTH_TYPE\<rparr>"

lemma unpack_packDataHostGroup:
  assumes "distinct (hg_hosts g)" and "distinct (hg_hostGroups g)"
  shows "unpackDataHostGroup_message (packDataHostGroup g) (HostGroup_new name) = Inr (sent_group name g)"
  using assms
  by (cases g) (simp add: unpackDataHostGroup_message_def packDataHostGroup_def sent_group_def HostGroup_new_def field_def
      addHost_all addHostGroup_all unpack_packIPAddress)

lemma dns_type_of_code_code [simp]: "dns_type_of_code (dns_type_code t) = Some t"
  by (cases t) (simp_all add: dns_type_of_code_def)

end
