(* ===== verification/HM_HostMark.thy ===== *)
theory HM_HostMark
  imports HM_HostCheck
begin

text \<open>
  \<open>HMHostMark\<close>: the socket marks a host is checked with, by host name, address and check. A field
  \<open>m_x\<close> of the key is \<open>hm_x\<close> here; a \<open>std::set<int>\<close> is the sorted list of its elements. The map is
  a value that the operations take and return; every operation holds the lock of the object.
\<close>

record HMHostMarkOptKey =
  hm_hostName :: string
  hm_address :: HMIPAddress
  hm_hostCheck :: HMDataHostCheck

definition HostMarkOptKey_less :: "HMHostMarkOptKey \<Rightarrow> HMHostMarkOptKey \<Rightarrow> bool" where
  "HostMarkOptKey_less a k =
     (if hm_hostName a = hm_hostName k then
        (if IPAddress_eq (hm_address a) (hm_address k)
         then HostCheck_less (hm_hostCheck a) (hm_hostCheck k)
         else IPAddress_less (hm_address a) (hm_address k))
      else hm_hostName a < hm_hostName k)"

definition HostMarkOptKey_eq :: "HMHostMarkOptKey \<Rightarrow> HMHostMarkOptKey \<Rightarrow> bool" where
  "HostMarkOptKey_eq a k \<longleftrightarrow>
     hm_hostName a = hm_hostName k \<and> IPAddress_eq (hm_address a) (hm_address k)
     \<and> HostCheck_eq (hm_hostCheck a) (hm_hostCheck k)"

type_synonym HMHostMark = "(HMHostMarkOptKey \<times> int list) list"

definition HostMark_setSocketOptionValues ::
    "string \<Rightarrow> HMIPAddress \<Rightarrow> HMDataHostCheck \<Rightarrow> int list \<Rightarrow> HMHostMark \<Rightarrow> HMHostMark \<times> bool" where
  "HostMark_setSocketOptionValues hostName address hostCheck values m =
     (let key = \<lparr>hm_hostName = hostName, hm_address = address, hm_hostCheck = hostCheck\<rparr>
      in case smap_find HostMarkOptKey_less key m of
           None \<Rightarrow> (smap_insert HostMarkOptKey_less key values m, True)
         | Some _ \<Rightarrow> (smap_adjust HostMarkOptKey_less key (fold insort_insert values) m, True))"

text \<open>\<open>getSocketOptionValues\<close>: the reference argument as it is left, and the result.\<close>

definition HostMark_getSocketOptionValues ::
    "string \<Rightarrow> HMIPAddress \<Rightarrow> HMDataHostCheck \<Rightarrow> int list \<Rightarrow> HMHostMark \<Rightarrow> int list \<times> bool" where
  "HostMark_getSocketOptionValues hostName address hostCheck values m =
     (case smap_find HostMarkOptKey_less
         \<lparr>hm_hostName = hostName, hm_address = address, hm_hostCheck = hostCheck\<rparr> m of
        None \<Rightarrow> (values, False) | Some vs \<Rightarrow> (vs, True))"

definition HostMark_removeSocketOptionValues ::
    "string \<Rightarrow> HMIPAddress \<Rightarrow> HMDataHostCheck \<Rightarrow> int list \<Rightarrow> HMHostMark \<Rightarrow> HMHostMark \<times> bool" where
  "HostMark_removeSocketOptionValues hostName address hostCheck values m =
     (let key = \<lparr>hm_hostName = hostName, hm_address = address, hm_hostCheck = hostCheck\<rparr>
      in case smap_find HostMarkOptKey_less key m of
           None \<Rightarrow> (m, False)
         | Some vs \<Rightarrow>
             let left = filter (\<lambda>v. v \<notin> set values) vs
             in (if left = [] then smap_erase HostMarkOptKey_less key m
                 else smap_adjust HostMarkOptKey_less key (\<lambda>_. left) m, True))"

section \<open>Algebra of the marks\<close>

definition mark_key where
  "mark_key k = (hm_hostName k, hm_address k, host_check_key (hm_hostCheck k))"

lemma HostMarkOptKey_less_key [hm_orders]: "HostMarkOptKey_less a k \<longleftrightarrow> mark_key a < mark_key k"
  by (auto simp: HostMarkOptKey_less_def mark_key_def less_prod_def' HostCheck_less_key
      simp flip: less_HMIPAddress_def)

interpretation mark_order: key_order HostMarkOptKey_less mark_key
  by unfold_locales (rule HostMarkOptKey_less_key)

definition marks_of :: "string \<Rightarrow> HMIPAddress \<Rightarrow> HMDataHostCheck \<Rightarrow> HMHostMark \<Rightarrow> int set" where
  "marks_of host ip check m = set (fst (HostMark_getSocketOptionValues host ip check [] m))"

lemma set_fold_insort: "set (fold insort_insert xs ys) = set xs \<union> set (ys :: int list)"
  by (induction xs arbitrary: ys) (auto simp: set_insort_insert)

lemma marks_find:
  "marks_of host ip check m =
     (case smap_find HostMarkOptKey_less \<lparr>hm_hostName = host, hm_address = ip, hm_hostCheck = check\<rparr> m
      of None \<Rightarrow> {} | Some vs \<Rightarrow> set vs)"
  by (simp add: marks_of_def HostMark_getSocketOptionValues_def split: option.split)

text \<open>
  The marks of a host, an address and a check are a set: setting values adds them, removing
  values takes them away, and neither touches another host, address or check.
\<close>

theorem host_mark_sets:
  assumes "map_sorted HostMarkOptKey_less m"
  shows "marks_of host ip check (fst (HostMark_setSocketOptionValues host ip check vs m))
      = marks_of host ip check m \<union> set vs
    \<and> marks_of host ip check (fst (HostMark_removeSocketOptionValues host ip check vs m))
      = marks_of host ip check m - set vs
    \<and> (\<forall>host' ip' check'. \<not> (host' = host \<and> ip' = ip \<and> HostCheck_eq check' check) \<longrightarrow>
        marks_of host' ip' check' (fst (HostMark_setSocketOptionValues host ip check vs m))
          = marks_of host' ip' check' m
      \<and> marks_of host' ip' check' (fst (HostMark_removeSocketOptionValues host ip check vs m))
          = marks_of host' ip' check' m)"
proof -
  have other: "\<not> key_equiv HostMarkOptKey_less
      \<lparr>hm_hostName = h, hm_address = a, hm_hostCheck = c\<rparr>
      \<lparr>hm_hostName = host, hm_address = ip, hm_hostCheck = check\<rparr>"
    if "\<not> (h = host \<and> a = ip \<and> HostCheck_eq c check)" for h a c
    using that by (auto simp: mark_order.equiv_key mark_key_def HostCheck_eq_key)
  show ?thesis
    using assms
    by (auto simp: marks_find HostMark_setSocketOptionValues_def HostMark_removeSocketOptionValues_def
        Let_def mark_order.find_insert_same set_fold_insort mark_order.find_insert_other [OF other]
        mark_order.find_adjust_other [OF other] mark_order.find_erase_other [OF other]
        filter_empty_conv split: option.splits)
qed

lemma host_mark_sets_witness:
  "marks_of ''h'' (INET 1) HostCheck_default
     (fst (HostMark_setSocketOptionValues ''h'' (INET 1) HostCheck_default [4, 9] [])) = {4, 9}"
  using host_mark_sets [of "[]" "''h''" "INET 1" HostCheck_default "[4, 9]"] by (simp add: marks_find)

end
