(* ===== verification/HM_Daemon.thy ===== *)
theory HM_Daemon
  imports HM_State HM_HostMark
begin

text \<open>
  The two kinds of threads of the daemon over the shared state: the tracker of \<open>HMEventLoopQueue\<close>,
  which turns the timeouts that are due into work, and the workers, which process the work orders of
  \<open>HMWorkHealthCheck\<close> and \<open>HMWorkDNSLookup\<close> and schedule the next ones. The record \<open>HMDaemon\<close> holds
  what \<open>HMStateManager\<close> shares between them, with the calls made to the storage and the publisher.

  \<open>healthCheck()\<close> of the classes that open connections (\<open>HMWorkHealthCheckCurl\<close>, \<open>TCP\<close>, \<open>TCPS\<close>, \<open>DNS\<close>,
  \<open>HMWorkMarkFetchCurl\<close>) is the parameter \<open>probe\<close>: the work order as the check leaves it, and the
  status it returns. \<open>dnsLookup()\<close> of the c-ares class is the parameter \<open>resolve\<close>. Clock readings
  are arguments. A call of \<open>updateState\<close> returns the state of the daemon; no reload happens while a
  work order is processed. A null pointer dereference is the value \<open>None\<close>.
\<close>

record HMDaemon =
  dm_state :: HMState
  dm_workQueue :: HMWorkQueue
  dm_eventLoop :: HMEventLoopQueue
  dm_hostMark :: HMHostMark
  dm_stored :: "store_call list"
  dm_published :: "publish_call list"

abbreviation dm_checkList :: "HMDaemon \<Rightarrow> HMDataCheckList" where
  "dm_checkList d \<equiv> st_checkList (dm_state d)"

abbreviation dm_dnsCache :: "HMDaemon \<Rightarrow> HMDNSCache" where
  "dm_dnsCache d \<equiv> st_dnsCache (dm_state d)"

definition set_checkList :: "HMDataCheckList \<Rightarrow> HMDaemon \<Rightarrow> HMDaemon" where
  "set_checkList cl d = d\<lparr>dm_state := (dm_state d)\<lparr>st_checkList := cl\<rparr>\<rparr>"

definition set_dnsCache :: "HMDNSCache \<Rightarrow> HMDaemon \<Rightarrow> HMDaemon" where
  "set_dnsCache c d = d\<lparr>dm_state := (dm_state d)\<lparr>st_dnsCache := c\<rparr>\<rparr>"

text \<open>The calls of \<open>HMState\<close> with the work queue, on the daemon.\<close>

definition dm_queueCheck ::
    "bool \<Rightarrow> HMTimeStamp \<Rightarrow> string \<Rightarrow> HMIPAddress \<Rightarrow> HMDataHostCheck \<Rightarrow> HMDaemon \<Rightarrow> HMDaemon option" where
  "dm_queueCheck ares now hostname ip check d =
     map_option (\<lambda>(st, q). d\<lparr>dm_state := st, dm_workQueue := q\<rparr>)
       (state_queueCheck ares now hostname ip check (dm_state d, dm_workQueue d))"

definition dm_queueDNS ::
    "bool \<Rightarrow> HMTimeStamp \<Rightarrow> string \<Rightarrow> HMDNSLookup \<Rightarrow> HMDaemon \<Rightarrow> HMDaemon" where
  "dm_queueDNS ares now name lookup d =
     (let (st, q) = state_queueDNS ares now name lookup (dm_state d, dm_workQueue d)
      in d\<lparr>dm_state := st, dm_workQueue := q\<rparr>)"

definition dm_addHealthCheckTimeout ::
    "string \<Rightarrow> HMIPAddress \<Rightarrow> HMDataHostCheck \<Rightarrow> HMTimeStamp \<Rightarrow> HMDaemon \<Rightarrow> HMDaemon" where
  "dm_addHealthCheckTimeout hostname ip check t d =
     d\<lparr>dm_eventLoop := EventLoop_addHealthCheckTimeout hostname ip check t (dm_eventLoop d)\<rparr>"

section \<open>Health check work\<close>

definition WorkHealthCheckNone_healthCheck ::
    "HMTimeStamp \<Rightarrow> HMTimeStamp \<Rightarrow> HMWork \<Rightarrow> HMWork \<times> HM_WORK_STATUS" where
  "WorkHealthCheckNone_healthCheck t0 t1 w =
     (if hc_checkType (wk_hostCheck w) = HM_CHECK_NONE \<or> hc_checkType (wk_hostCheck w) = HM_CHECK_DEFAULT
      then (w\<lparr>wk_start := t0, wk_response := HM_RESPONSE_CONNECTED, wk_reason := HM_REASON_SUCCESS,
              wk_end := t1\<rparr>, HM_WORK_COMPLETE)
      else (w, HM_WORK_COMPLETE))"

text \<open>One work order per mark of the host.\<close>

definition mark_work :: "HMWork \<Rightarrow> int \<Rightarrow> HMWork" where
  "mark_work w value =
     Work_setStoreResults False (Work_setReschedule False (Work_setMark value
       (Work_new HMWorkMarkFetchCurl (wk_hostname w) (wk_ipAddress w) (wk_hostCheck w))))"

definition WorkHealhMultiWork_healthCheck :: "HMWork \<Rightarrow> HMDaemon \<Rightarrow> HMDaemon \<times> HM_WORK_STATUS" where
  "WorkHealhMultiWork_healthCheck w d =
     (let values = fst (HostMark_getSocketOptionValues (wk_hostname w) (wk_ipAddress w) (wk_hostCheck w)
                          [] (dm_hostMark d))
      in (d\<lparr>dm_workQueue :=
            fold (\<lambda>value. WorkQueue_insertWork (mark_work w value)) values (dm_workQueue d)\<rparr>,
          HM_WORK_COMPLETE))"

definition healthCheck ::
    "(HMWork \<Rightarrow> HMWork \<times> HM_WORK_STATUS) \<Rightarrow> HMTimeStamp \<Rightarrow> HMTimeStamp \<Rightarrow> HMWork \<Rightarrow> HMDaemon \<Rightarrow>
     HMDaemon \<times> HMWork \<times> HM_WORK_STATUS" where
  "healthCheck probe t0 t1 w d =
     (case wk_class w of
        HMWorkHealthCheckNone \<Rightarrow> (d, WorkHealthCheckNone_healthCheck t0 t1 w)
      | HMWorkHealhMultiWork \<Rightarrow> let (d, s) = WorkHealhMultiWork_healthCheck w d in (d, w, s)
      | _ \<Rightarrow> (d, probe w))"

text \<open>The first part of \<open>processWork\<close>, for a work order that is idle.\<close>

definition HealthCheck_conduct ::
    "(HMWork \<Rightarrow> HMWork \<times> HM_WORK_STATUS) \<Rightarrow> HMTimeStamp \<Rightarrow> HMTimeStamp \<Rightarrow> HMWork \<Rightarrow> HMDaemon \<Rightarrow>
     HMDaemon \<times> HMWork" where
  "HealthCheck_conduct probe t0 t1 w d =
     (if wk_workStatus w = HM_WORK_IDLE then
        let (cl, timeout) = CheckList_startCheck t0 (wk_hostname w) (wk_ipAddress w) (wk_hostCheck w)
                              (dm_checkList d);
            (d, w, status) = healthCheck probe t0 t1 (w\<lparr>wk_timeout := timeout\<rparr>) (set_checkList cl d)
        in (d, w\<lparr>wk_workStatus := status\<rparr>)
      else (d, w))"

text \<open>The second part: the result is taken over, published and stored.\<close>

definition HealthCheck_result :: "HMTimeStamp \<Rightarrow> HMWork \<Rightarrow> HMDaemon \<Rightarrow> HMDaemon" where
  "HealthCheck_result t1 w d =
     (let cl = CheckList_updateCheck t1 t1 w (wk_hostCheck w) (dm_checkList d);
          d = set_checkList cl d;
          d = (if wk_publish w then
                 d\<lparr>dm_published := dm_published d @ CheckList_publishCheck w (wk_hostCheck w)
                     (wk_ipAddress w) (st_resultPublisher (dm_state d)) cl\<rparr>
               else d)
      in if wk_storeResults w then
           d\<lparr>dm_stored := dm_stored d @ CheckList_storeCheck w (wk_hostCheck w) (wk_ipAddress w) cl\<rparr>
         else d)"

text \<open>The third part: the next check, while the address is still one of the host.\<close>

definition HealthCheck_reschedule ::
    "bool \<Rightarrow> HMTimeStamp \<Rightarrow> HMWork \<Rightarrow> HMDaemon \<Rightarrow> HMDaemon option" where
  "HealthCheck_reschedule ares t2 w d =
     (let host = wk_hostname w; ip = wk_ipAddress w; check = wk_hostCheck w;
          checkTime = CheckList_nextCheckTime t2 host ip check (dm_checkList d);
          dnsHostCheck = DNSLookup_new (hc_DNSType check) (IPAddress_getType ip = AF_INET6)
                           (hc_remoteCheck check)
      in if DNSCache_isValidAddress host (hc_dualstack check) dnsHostCheck ip (dm_dnsCache d)
         then if checkTime \<le> t2 then dm_queueCheck ares t2 host ip check d
              else Some (dm_addHealthCheckTimeout host ip check checkTime d)
         else Some d)"

definition WorkHealthCheck_processWork ::
    "bool \<Rightarrow> (HMWork \<Rightarrow> HMWork \<times> HM_WORK_STATUS) \<Rightarrow> HMTimeStamp \<Rightarrow> HMTimeStamp \<Rightarrow> HMTimeStamp \<Rightarrow>
     HMWork \<Rightarrow> HMDaemon \<Rightarrow> (HMDaemon \<times> HMWork) option" where
  "WorkHealthCheck_processWork ares probe t0 t1 t2 w d =
     (let (d, w) = HealthCheck_conduct probe t0 t1 w d
      in if wk_workStatus w \<noteq> HM_WORK_IDLE then
           let d = HealthCheck_result t1 w d
           in if wk_reschedule w
              then map_option (\<lambda>d. (d, w)) (HealthCheck_reschedule ares t2 w d)
              else Some (d, w)
         else Some (d, w))"

section \<open>DNS lookup work\<close>

definition WorkDNSLookupStatic_dnsLookup ::
    "HMTimeStamp \<Rightarrow> HMWork \<Rightarrow> HMDNSCache \<Rightarrow> HMWork \<times> HMDNSCache \<times> bool" where
  "WorkDNSLookupStatic_dnsLookup now w c =
     (let w = w\<lparr>wk_start := now, wk_end := now\<rparr>;
          (ips, found) = DNSCache_getStaticDNSAddress (wk_hostname w)
                           (IPAddress_getType (wk_ipAddress w) = AF_INET6) c;
          (w, c) = (if found then (w, DNSCache_updateDNSEntry (wk_hostname w) (wk_dnsHostCheck w) ips c)
                    else (w\<lparr>wk_response := HM_RESPONSE_DNS_FAILED, wk_reason := HM_REASON_DNS_FAILURE\<rparr>,
                          DNSCache_updateDNSEntry (wk_hostname w) (wk_dnsHostCheck w)
                            [IPAddress_new (IPAddress_getType (wk_ipAddress w))] c))
      in (w, DNSCache_finishQuery now (wk_hostname w) (wk_dnsHostCheck w) True c, True))"

definition dnsLookup ::
    "(HMWork \<Rightarrow> HMDNSCache \<Rightarrow> HMWork \<times> HMDNSCache \<times> bool) \<Rightarrow> HMTimeStamp \<Rightarrow> HMWork \<Rightarrow> HMDNSCache \<Rightarrow>
     HMWork \<times> HMDNSCache \<times> bool" where
  "dnsLookup resolve now w c =
     (if wk_class w = HMWorkDNSLookupStatic then WorkDNSLookupStatic_dnsLookup now w c else resolve w c)"

text \<open>The bit of the family of the lookup; a work order for neither family would read an
  uninitialised variable.\<close>

definition dns_family :: "HMWork \<Rightarrow> HM_DUALSTACK option" where
  "dns_family w =
     (if IPAddress_getType (wk_ipAddress w) = AF_INET then Some HM_DUALSTACK_IPV4_ONLY
      else if IPAddress_getType (wk_ipAddress w) = AF_INET6 then Some HM_DUALSTACK_IPV6_ONLY
      else None)"

definition dns_kick_address ::
    "bool \<Rightarrow> HMTimeStamp \<Rightarrow> HMWork \<Rightarrow> HMDataHostCheck \<Rightarrow> HMIPAddress \<Rightarrow> HMDaemon \<Rightarrow> HMDaemon option" where
  "dns_kick_address ares now w check ip d =
     (if is_blank ip then
        if ip = wk_ipAddress w then
          (let cl = CheckList_insertEmptyQuery now w check ip (dm_checkList d)
           in Some ((set_checkList cl d)
                \<lparr>dm_stored := dm_stored d @ CheckList_storeCheck w check ip cl\<rparr>))
        else Some d
      else if CheckList_nextCheckTime now (wk_hostname w) ip check (dm_checkList d) \<le> now
      then dm_queueCheck ares now (wk_hostname w) ip check d
      else Some d)"

definition dns_expire ::
    "HMWork \<Rightarrow> HMDataHostCheck \<Rightarrow> HMIPAddress \<Rightarrow> HMDaemon \<Rightarrow> HMDaemon" where
  "dns_expire w check ip d =
     (let (cl, calls) = CheckList_invalidateCheck (wk_hostname w) ip check (dm_checkList d)
      in (set_checkList cl d)\<lparr>dm_stored := dm_stored d @ calls\<rparr>)"

text \<open>One turn of the loop over the checks that wait for the lookup.\<close>

definition dns_kick ::
    "bool \<Rightarrow> HMTimeStamp \<Rightarrow> HMWork \<Rightarrow> HMDataHostCheck \<Rightarrow> HMDaemon \<Rightarrow> HMDaemon option" where
  "dns_kick ares now w check d =
     (case dns_family w of None \<Rightarrow> None
      | Some dualStack \<Rightarrow>
          if hc_dualstack check AND dualStack = 0 then Some d
          else
            let ips = fst (DNSCache_getAddresses (wk_hostname w) dualStack (wk_dnsHostCheck w) []
                             (dm_dnsCache d));
                expiredIps = fst (DNSCache_getExpiredAddresses (wk_hostname w) dualStack
                                    (wk_dnsHostCheck w) [] (dm_dnsCache d))
            in opt_fold (dns_kick_address ares now w check) ips (fold (dns_expire w check) expiredIps d))"

text \<open>The next lookup, and the checks that wait for this one.\<close>

definition DNSLookup_reschedule :: "bool \<Rightarrow> HMTimeStamp \<Rightarrow> HMWork \<Rightarrow> HMDaemon \<Rightarrow> HMDaemon" where
  "DNSLookup_reschedule ares now w d =
     (let checkTime = DNSCache_nextQueryTime now (wk_hostname w) (wk_dnsHostCheck w) (dm_dnsCache d)
      in if wk_reschedule w then
           if checkTime \<le> now then dm_queueDNS ares now (wk_hostname w) (wk_dnsHostCheck w) d
           else d\<lparr>dm_eventLoop := EventLoop_addDNSTimeout (wk_hostname w) (wk_dnsHostCheck w)
                    checkTime (dm_eventLoop d)\<rparr>
         else d)"

definition dns_waiting :: "HMWork \<Rightarrow> HMDaemon \<Rightarrow> HMDataHostCheck list" where
  "dns_waiting w d =
     map snd (equal_range DNSTypeMap_less
       \<lparr>dt_name = wk_hostname w, dt_type = dl_type (wk_dnsHostCheck w),
        dt_remoteCheckGroup = dl_remoteCheckGroup (wk_dnsHostCheck w)\<rparr> (st_dnsWaitList (dm_state d)))"

definition WorkDNSLookup_processWork ::
    "bool \<Rightarrow> (HMWork \<Rightarrow> HMDNSCache \<Rightarrow> HMWork \<times> HMDNSCache \<times> bool) \<Rightarrow> HMTimeStamp \<Rightarrow> HMTimeStamp \<Rightarrow>
     HMWork \<Rightarrow> HMDaemon \<Rightarrow> (HMDaemon \<times> HMWork) option" where
  "WorkDNSLookup_processWork ares resolve t0 now w d =
     (let (c, found) = DNSCache_startDNSQuery t0 (wk_hostname w) (wk_dnsHostCheck w) (dm_dnsCache d)
      in if \<not> found then Some (set_dnsCache c d, w)
         else
           let (w, c, result) = dnsLookup resolve now w c;
               d = DNSLookup_reschedule ares now w (set_dnsCache c d)
           in if \<not> result then Some (d, w)
              else map_option (\<lambda>d. (d, w)) (opt_fold (dns_kick ares now w) (dns_waiting w d) d))"

section \<open>Event loop\<close>

text \<open>The switch of \<open>HMEventLoopQueue::run\<close> for one timeout.\<close>

definition EventLoop_dispatch ::
    "bool \<Rightarrow> HMTimeStamp \<Rightarrow> Timeout \<Rightarrow> HMDaemon \<Rightarrow> HMDaemon option" where
  "EventLoop_dispatch ares now t d =
     (let host = to_hostname t; ip = to_address t; check = to_hostCheck t; lookup = to_dnsLookup t;
          st = dm_state d
      in case to_type t of
           HEALTHCHECK_TIMEOUT \<Rightarrow>
             (case CheckList_checkNeeded now host ip check (st_checkList st) of
                HM_SCHEDULE_WORK \<Rightarrow> dm_queueCheck ares now host ip check d
              | HM_SCHEDULE_EVENT \<Rightarrow>
                  Some (dm_addHealthCheckTimeout host ip check
                    (CheckList_nextCheckTime now host ip check (st_checkList st)) d)
              | HM_SCHEDULE_IGNORE \<Rightarrow> Some d)
         | REMOTECHECK_TIMEOUT \<Rightarrow>
             (case RemoteHostGroupCache_checkNeeded now host (st_remoteCache st) of
                HM_SCHEDULE_WORK \<Rightarrow>
                  (case RemoteHostGroupCache_queueRemoteCheck now host (st_hostGroups st)
                       (st_remoteCache st, dm_workQueue d) of
                     ((c, q), _) \<Rightarrow> Some (d\<lparr>dm_state := st\<lparr>st_remoteCache := c\<rparr>, dm_workQueue := q\<rparr>))
              | HM_SCHEDULE_EVENT \<Rightarrow>
                  Some (d\<lparr>dm_eventLoop := EventLoop_addRemoteTimeout host
                    (RemoteHostGroupCache_nextCheckTime now host (st_remoteCache st)) (dm_eventLoop d)\<rparr>)
              | HM_SCHEDULE_IGNORE \<Rightarrow> Some d)
         | REMOTEHOSTCHECK_TIMEOUT \<Rightarrow>
             (case RemoteHostCache_checkNeeded now host check (st_remoteHostCache st) of
                HM_SCHEDULE_WORK \<Rightarrow>
                  (case RemoteHostCache_queueRemoteCheck now host check
                       (st_remoteHostCache st, dm_workQueue d) of
                     ((c, q), _) \<Rightarrow> Some (d\<lparr>dm_state := st\<lparr>st_remoteHostCache := c\<rparr>, dm_workQueue := q\<rparr>))
              | HM_SCHEDULE_EVENT \<Rightarrow>
                  Some (d\<lparr>dm_eventLoop := EventLoop_addRemoteTimeout host
                    (RemoteHostCache_nextCheckTime now host check (st_remoteHostCache st)) (dm_eventLoop d)\<rparr>)
              | HM_SCHEDULE_IGNORE \<Rightarrow> Some d)
         | _ \<Rightarrow>
             (case DNSCache_queryNeeded now host lookup (st_dnsCache st) of
                HM_SCHEDULE_WORK \<Rightarrow> Some (dm_queueDNS ares now host lookup d)
              | HM_SCHEDULE_EVENT \<Rightarrow>
                  Some (d\<lparr>dm_eventLoop := EventLoop_addDNSTimeout host lookup
                    (CheckList_nextCheckTime now host ip check (st_checkList st)) (dm_eventLoop d)\<rparr>)
              | HM_SCHEDULE_IGNORE \<Rightarrow> Some d))"

text \<open>
  One turn of the loop of \<open>run\<close>, with its variable \<open>nextTimeout\<close>. \<open>LoopStop\<close> is the return after a
  shutdown; a turn before \<open>nextTimeout\<close> is one round of the inner loop, which clears the wake-up flag
  or sleeps, and computes \<open>nextTimeout\<close> again. \<open>now\<close> is the clock at the start of the turn, \<open>now'\<close>
  after the sleep.
\<close>

datatype 'a loop_turn = LoopStop | LoopTurn 'a

definition EventLoop_turn ::
    "bool \<Rightarrow> HMTimeStamp \<Rightarrow> HMTimeStamp \<Rightarrow> HMTimeStamp \<times> HMDaemon \<Rightarrow>
     (HMTimeStamp \<times> HMDaemon) loop_turn option" where
  "EventLoop_turn ares now now' = (\<lambda>(nextTimeout, d).
     let el = dm_eventLoop d
     in if \<not> el_keepRunning el then Some LoopStop
        else if now < nextTimeout then
          (let el = (if el_wakeup el then el\<lparr>el_wakeup := False\<rparr> else el)
           in Some (LoopTurn (EventLoop_nextTimeout now' el, d\<lparr>dm_eventLoop := el\<rparr>)))
        else if el_timeouts el = [] then
          Some (LoopTurn (ts_plus now (el_emptyTimeout el), d))
        else
          map_option (\<lambda>d. LoopTurn (EventLoop_nextTimeout now' (dm_eventLoop d), d))
            (EventLoop_dispatch ares now (EventLoop_top el) (d\<lparr>dm_eventLoop := EventLoop_pop el\<rparr>)))"

section \<open>Workers\<close>

text \<open>
  One turn of \<open>HMThreadWorker::runThread\<close>, with the number that stands for the address of the work
  order; \<open>GetWait\<close> and \<open>GetFalse\<close> leave the daemon as it is. \<open>processWork\<close> of the work types that are
  not modelled (remote checks and auxiliary fetches) is the parameter \<open>other\<close>.
\<close>

definition park_work :: "nat \<Rightarrow> HMDaemon \<times> HMWork \<Rightarrow> HMDaemon" where
  "park_work ptr = (\<lambda>(d, w).
     if wk_workStatus w = HM_WORK_IN_PROGRESS
     then d\<lparr>dm_workQueue := WorkQueue_insertMap ptr w (dm_workQueue d)\<rparr> else d)"

definition ThreadWorker_turn ::
    "bool \<Rightarrow> (u32 \<Rightarrow> u64 \<Rightarrow> u64) \<Rightarrow> (HMWork \<Rightarrow> HMWork \<times> HM_WORK_STATUS) \<Rightarrow>
     (HMWork \<Rightarrow> HMDNSCache \<Rightarrow> HMWork \<times> HMDNSCache \<times> bool) \<Rightarrow>
     (HMWork \<Rightarrow> HMDaemon \<Rightarrow> (HMDaemon \<times> HMWork) option) \<Rightarrow> nat \<Rightarrow>
     HMTimeStamp \<Rightarrow> HMTimeStamp \<Rightarrow> HMTimeStamp \<Rightarrow> HMDaemon \<Rightarrow> HMDaemon option" where
  "ThreadWorker_turn ares percent probe resolve other ptr t0 t1 t2 d =
     (case WorkQueue_getWork percent t0 False (dm_workQueue d) of
        (GetWork w, q) \<Rightarrow>
          (let d = d\<lparr>dm_workQueue := q\<rparr>
           in case Work_getWorkType w of
                HM_WORK_DNSLOOKUP \<Rightarrow> map_option fst (WorkDNSLookup_processWork ares resolve t0 t1 w d)
              | HM_WORK_HEALTHCHECK \<Rightarrow>
                  map_option (park_work ptr) (WorkHealthCheck_processWork ares probe t0 t1 t2 w d)
              | _ \<Rightarrow> map_option (park_work ptr) (other w d))
      | (_, q) \<Rightarrow> Some d)"

section \<open>Due checks\<close>

lemma next_due_stays_due:
  assumes "data_find ip p = Some r" and "cr_queryState r \<in> {HM_CHECK_INACTIVE, HM_CHECK_FAILED}"
    and "CheckParams_nextCheckTime t ip p \<le> T" and "t \<le> T"
  shows "CheckParams_nextCheckTime T ip p \<le> T"
  using assms by (auto simp: CheckParams_nextCheckTime_def split: if_splits)

text \<open>No check of the address is pending: every parameter object has a result that is not queued and
  not in progress.\<close>

definition check_idle :: "HMIPAddress \<Rightarrow> HMDataCheckParams list \<Rightarrow> bool" where
  "check_idle ip ps \<longleftrightarrow>
     (\<forall>p \<in> set ps. \<exists>r. data_find ip p = Some r \<and> cr_queryState r \<in> {HM_CHECK_INACTIVE, HM_CHECK_FAILED})"

lemma checkNeeded_loop_idle:
  assumes "check_idle ip ps"
  shows "\<exists>a c n. checkNeeded_loop now ip ps s = Some (a, c, n) \<and> n \<le> snd (snd s)
    \<and> (\<forall>p \<in> set ps. n \<le> CheckParams_nextCheckTime now ip p)
    \<and> n \<in> insert (snd (snd s)) (CheckParams_nextCheckTime now ip ` set ps)
    \<and> (n < snd (snd s) \<or> fst (snd s) \<longrightarrow> c)"
  using assms
proof (induction ps arbitrary: s)
  case Nil
  then show ?case by (cases s) simp
next
  case (Cons p ps)
  obtain a c n where s: "s = (a, c, n)" by (cases s)
  let ?t = "CheckParams_nextCheckTime now ip p"
  have p: "CheckParams_isValidIP ip p" "CheckParams_getQueryState ip p = HM_CHECK_FAILED
      \<or> CheckParams_getQueryState ip p = HM_CHECK_INACTIVE"
    using Cons.prems by (auto simp: check_idle_def CheckParams_isValidIP_def CheckParams_getQueryState_def)
  have "check_idle ip ps" using Cons.prems by (simp add: check_idle_def)
  from Cons.IH [OF this, of "if ?t < n then (False, True, ?t) else (False, c, n)"]
  show ?case using p by (auto simp: s Let_def split: if_splits)
qed

lemma checkNeeded_due:
  assumes "\<not> is_blank ip" and "check_idle ip (range_params (host, check) cl)"
    and "p \<in> set (range_params (host, check) cl)" and "CheckParams_nextCheckTime now ip p \<le> now"
  shows "CheckList_checkNeeded now host ip check cl = HM_SCHEDULE_WORK"
proof -
  obtain a c n where
    "checkNeeded_loop now ip (range_params (host, check) cl) (True, False, ts_plus now HOURINMS) = Some (a, c, n)"
    "n \<le> now"
    using checkNeeded_loop_idle [OF assms(2), of now "(True, False, ts_plus now HOURINMS)"] assms(3,4)
    by fastforce
  then show ?thesis using assms(1) by (simp add: CheckList_checkNeeded_def)
qed

lemma next_check_attained:
  assumes "CheckList_nextCheckTime now host ip check cl < now + 86400000"
  shows "\<exists>p \<in> set (range_params (host, check) cl).
    CheckParams_nextCheckTime now ip p = CheckList_nextCheckTime now host ip check cl"
proof -
  let ?S = "insert (now + 86400000)
      (CheckParams_nextCheckTime now ip ` set (range_params (host, check) cl))"
  have "Min ?S \<in> ?S" by (rule Min_in) simp_all
  then show ?thesis using assms by (auto simp: nextCheckTime_is_minimum)
qed

text \<open>A check that is idle when its time is computed is asked for from that time on.\<close>

lemma due_from_next_time:
  assumes "\<not> is_blank ip" and "check_idle ip (range_params (host, check) cl)"
    and "CheckList_nextCheckTime t host ip check cl < t + 86400000"
    and "CheckList_nextCheckTime t host ip check cl \<le> T" and "t \<le> T"
  shows "CheckList_checkNeeded T host ip check cl = HM_SCHEDULE_WORK"
proof -
  obtain p where p: "p \<in> set (range_params (host, check) cl)"
    "CheckParams_nextCheckTime t ip p = CheckList_nextCheckTime t host ip check cl"
    using next_check_attained [OF assms(3)] by blast
  obtain r where "data_find ip p = Some r" "cr_queryState r \<in> {HM_CHECK_INACTIVE, HM_CHECK_FAILED}"
    using assms(2) p(1) by (auto simp: check_idle_def)
  then have "CheckParams_nextCheckTime T ip p \<le> T"
    by (rule next_due_stays_due [where t = t]) (use p(2) assms(4,5) in simp_all)
  then show ?thesis using checkNeeded_due [OF assms(1,2) p(1)] by simp
qed

section \<open>Rescheduling\<close>

definition work_for :: "string \<Rightarrow> HMIPAddress \<Rightarrow> HMDataHostCheck \<Rightarrow> HMWork \<Rightarrow> bool" where
  "work_for host ip check w \<longleftrightarrow> wk_hostname w = host \<and> wk_ipAddress w = ip \<and> wk_hostCheck w = check"

lemma dm_queueCheck_one:
  assumes "check_work_class ares check = Class cls"
  shows "\<exists>d' w. dm_queueCheck ares now host ip check d = Some d' \<and> work_for host ip check w
    \<and> wq_queue (dm_workQueue d') = wq_queue (dm_workQueue d) @ [w]
    \<and> dm_eventLoop d' = dm_eventLoop d"
  using assms
  by (simp add: dm_queueCheck_def state_queueCheck_def CheckList_queueCheck_def Let_def
      WorkQueue_insertWork_def work_for_def check_work_def Work_new_def Work_setReschedule_def
      Work_setPublish_def Work_setStoreResults_def)

lemma set_checkList_simps [simp]:
  "dm_checkList (set_checkList cl d) = cl" "dm_dnsCache (set_checkList cl d) = dm_dnsCache d"
  "dm_workQueue (set_checkList cl d) = dm_workQueue d" "dm_eventLoop (set_checkList cl d) = dm_eventLoop d"
  "dm_hostMark (set_checkList cl d) = dm_hostMark d" "dm_stored (set_checkList cl d) = dm_stored d"
  "st_dnsWaitList (dm_state (set_checkList cl d)) = st_dnsWaitList (dm_state d)"
  by (simp_all add: set_checkList_def)

text \<open>What the development relies on of a check that opens connections: it leaves the order for what
  it is, and it does not return the idle status.\<close>

definition probe_ok :: "(HMWork \<Rightarrow> HMWork \<times> HM_WORK_STATUS) \<Rightarrow> bool" where
  "probe_ok probe \<longleftrightarrow>
     (\<forall>w. work_for (wk_hostname w) (wk_ipAddress w) (wk_hostCheck w) (fst (probe w))
        \<and> wk_reschedule (fst (probe w)) = wk_reschedule w \<and> snd (probe w) \<noteq> HM_WORK_IDLE)"

lemma healthCheck_facts:
  assumes "probe_ok probe" and "wk_class v \<noteq> HMWorkHealhMultiWork"
  shows "\<exists>w' s. (\<forall>d. healthCheck probe t0 t1 v d = (d, w', s))
    \<and> work_for (wk_hostname v) (wk_ipAddress v) (wk_hostCheck v) w'
    \<and> wk_reschedule w' = wk_reschedule v \<and> s \<noteq> HM_WORK_IDLE"
proof (cases "wk_class v = HMWorkHealthCheckNone")
  case True
  then show ?thesis by (simp add: healthCheck_def WorkHealthCheckNone_healthCheck_def work_for_def)
next
  case False
  then have "healthCheck probe t0 t1 v d = (d, fst (probe v), snd (probe v))" for d
    using assms(2) by (cases "wk_class v") (simp_all add: healthCheck_def)
  then show ?thesis using assms(1) unfolding probe_ok_def by blast
qed

lemma conduct_facts:
  assumes "probe_ok probe" and "wk_workStatus w = HM_WORK_IDLE" and "wk_class w \<noteq> HMWorkHealhMultiWork"
  shows "\<exists>w'. HealthCheck_conduct probe t0 t1 w d =
      (set_checkList (range_adjust (wk_hostname w, wk_hostCheck w)
        (\<lambda>p. if CheckParams_isValidIP (wk_ipAddress w) p
             then CheckParams_startQuery t0 (wk_ipAddress w) p else p) (dm_checkList d)) d, w')
    \<and> work_for (wk_hostname w) (wk_ipAddress w) (wk_hostCheck w) w'
    \<and> wk_reschedule w' = wk_reschedule w \<and> wk_workStatus w' \<noteq> HM_WORK_IDLE"
proof -
  define cl where "cl = range_adjust (wk_hostname w, wk_hostCheck w)
      (\<lambda>p. if CheckParams_isValidIP (wk_ipAddress w) p
           then CheckParams_startQuery t0 (wk_ipAddress w) p else p) (dm_checkList d)"
  obtain timeout where start: "CheckList_startCheck t0 (wk_hostname w) (wk_ipAddress w) (wk_hostCheck w)
      (dm_checkList d) = (cl, timeout)"
    by (simp add: CheckList_startCheck_def cl_def)
  obtain w' s where check: "\<And>d. healthCheck probe t0 t1 (w\<lparr>wk_timeout := timeout\<rparr>) d = (d, w', s)"
    and w': "work_for (wk_hostname w) (wk_ipAddress w) (wk_hostCheck w) w'"
    "wk_reschedule w' = wk_reschedule w" "s \<noteq> HM_WORK_IDLE"
    using healthCheck_facts [OF assms(1), of "w\<lparr>wk_timeout := timeout\<rparr>" t0 t1] assms(3) by auto
  show ?thesis
    using w' assms(2) by (simp add: HealthCheck_conduct_def start check work_for_def flip: cl_def)
qed

lemma result_facts:
  "dm_checkList (HealthCheck_result t1 w d) = CheckList_updateCheck t1 t1 w (wk_hostCheck w) (dm_checkList d)"
  "dm_dnsCache (HealthCheck_result t1 w d) = dm_dnsCache d"
  "dm_workQueue (HealthCheck_result t1 w d) = dm_workQueue d"
  "dm_eventLoop (HealthCheck_result t1 w d) = dm_eventLoop d"
  by (simp_all add: HealthCheck_result_def Let_def)

lemma updateCheck_result_idle:
  "cr_queryState (updateCheck_result p n1 n2 a response reason s e port r) = HM_CHECK_INACTIVE"
  by (simp add: updateCheck_result_def Let_def)

text \<open>
  C5: the health check of an address is never lost. When a worker has processed a work order that
  is to be rescheduled, for an address that is still one of the host, either exactly one new work
  order of the check is at the end of the queue, or exactly one timeout of the check is added,
  after the present time; and when that timeout is less than a day away, the tracker that takes it
  out at any time from then on puts exactly one work order of the check into the queue, provided
  the check was not touched in between.
\<close>

theorem health_check_rescheduled:
  fixes d :: HMDaemon and w :: HMWork
  defines "host \<equiv> wk_hostname w" and "ip \<equiv> wk_ipAddress w" and "check \<equiv> wk_hostCheck w"
  assumes "probe_ok probe" and "wk_workStatus w = HM_WORK_IDLE" and "wk_class w \<noteq> HMWorkHealhMultiWork"
    and "wk_reschedule w" and "\<not> is_blank ip" and "check_work_class ares check = Class cls"
    and "mmap_sorted CompareCheckList (cl_checklist (dm_checkList d))"
    and "\<forall>p \<in> set (range_params (host, check) (dm_checkList d)). CheckParams_isValidIP ip p"
    and "DNSCache_isValidAddress host (hc_dualstack check)
      (DNSLookup_new (hc_DNSType check) (IPAddress_getType ip = AF_INET6) (hc_remoteCheck check)) ip
      (dm_dnsCache d)"
  shows "\<exists>d' w'. WorkHealthCheck_processWork ares probe t0 t1 t2 w d = Some (d', w')
    \<and> ((\<exists>x. work_for host ip check x \<and> wq_queue (dm_workQueue d') = wq_queue (dm_workQueue d) @ [x]
          \<and> el_timeouts (dm_eventLoop d') = el_timeouts (dm_eventLoop d))
      \<or> (\<exists>ct. t2 < ct \<and> wq_queue (dm_workQueue d') = wq_queue (dm_workQueue d)
          \<and> el_timeouts (dm_eventLoop d') =
              el_timeouts (dm_eventLoop d) @ [Timeout_healthCheck host ip check ct]
          \<and> (ct < t2 + 86400000 \<longrightarrow>
              (\<forall>T e. ct \<le> T \<and> dm_checkList e = dm_checkList d' \<longrightarrow>
                (\<exists>e' x. EventLoop_dispatch ares T (Timeout_healthCheck host ip check ct) e = Some e'
                  \<and> work_for host ip check x
                  \<and> wq_queue (dm_workQueue e') = wq_queue (dm_workQueue e) @ [x])))))"
proof -
  let ?start = "\<lambda>p. if CheckParams_isValidIP ip p then CheckParams_startQuery t0 ip p else p"
  let ?cl1 = "range_adjust (host, check) ?start (dm_checkList d)"
  obtain w1 where w1: "HealthCheck_conduct probe t0 t1 w d = (set_checkList ?cl1 d, w1)"
    "wk_hostname w1 = host" "wk_ipAddress w1 = ip" "wk_hostCheck w1 = check"
    "wk_reschedule w1" "wk_workStatus w1 \<noteq> HM_WORK_IDLE"
    using conduct_facts [OF assms(4-6), of t0 t1 d, folded host_def ip_def check_def] assms(7)
    by (auto simp: work_for_def)
  define d2 where "d2 = HealthCheck_result t1 w1 (set_checkList ?cl1 d)"
  have d2: "dm_dnsCache d2 = dm_dnsCache d" "dm_workQueue d2 = dm_workQueue d"
    "dm_eventLoop d2 = dm_eventLoop d"
    by (simp_all add: d2_def result_facts)
  have cl: "dm_checkList d2 = CheckList_updateCheck t1 t1 w1 check ?cl1"
    by (simp add: d2_def result_facts w1)
  have idle: "check_idle ip (range_params (host, check) (dm_checkList d2))"
    using assms(10,11)
    by (auto simp: cl CheckList_updateCheck_def w1 range_adjust_range check_idle_def
        CheckParams_isValidIP_def CheckParams_updateCheck_def CheckParams_startQuery_def
        data_find_adjust updateCheck_result_idle)
  define ct where "ct = CheckList_nextCheckTime t2 host ip check (dm_checkList d2)"
  have run: "WorkHealthCheck_processWork ares probe t0 t1 t2 w d = map_option (\<lambda>d. (d, w1))
      (if ct \<le> t2 then dm_queueCheck ares t2 host ip check d2
       else Some (dm_addHealthCheckTimeout host ip check ct d2))"
    using assms(12) w1 d2(1)
    by (simp add: WorkHealthCheck_processWork_def HealthCheck_reschedule_def ct_def flip: d2_def)
  show ?thesis
  proof (cases "ct \<le> t2")
    case True
    then show ?thesis using run dm_queueCheck_one [OF assms(9), of t2 host ip d2] d2 by auto
  next
    case False
    let ?d = "dm_addHealthCheckTimeout host ip check ct d2"
    have same: "dm_checkList ?d = dm_checkList d2" by (simp add: dm_addHealthCheckTimeout_def)
    have "\<exists>e' x. EventLoop_dispatch ares T (Timeout_healthCheck host ip check ct) e = Some e'
        \<and> work_for host ip check x \<and> wq_queue (dm_workQueue e') = wq_queue (dm_workQueue e) @ [x]"
      if "ct < t2 + 86400000" "ct \<le> T" "dm_checkList e = dm_checkList ?d" for T e
    proof -
      have "CheckList_checkNeeded T host ip check (dm_checkList e) = HM_SCHEDULE_WORK"
        unfolding that(3) same
        by (rule due_from_next_time [OF assms(8) idle, of t2]) (use that False in \<open>auto simp: ct_def\<close>)
      then show ?thesis
        using dm_queueCheck_one [OF assms(9), of T host ip e]
        by (auto simp: EventLoop_dispatch_def Timeout_healthCheck_def)
    qed
    moreover have "el_timeouts (dm_eventLoop ?d) =
        el_timeouts (dm_eventLoop d) @ [Timeout_healthCheck host ip check ct]"
      "wq_queue (dm_workQueue ?d) = wq_queue (dm_workQueue d)"
      by (simp_all add: dm_addHealthCheckTimeout_def EventLoop_addHealthCheckTimeout_def d2)
    ultimately show ?thesis
      using run False by (intro exI [of _ ?d] exI [of _ w1] conjI disjI2 exI [of _ ct]) auto
  qed
qed

text \<open>
  A check with a next time more than a day ahead is lost. Scheduling it at a time \<open>t\<close> makes a
  timeout a day later, as \<open>nextCheckTime\<close> looks no further; when the tracker takes that timeout out,
  the check is not due yet, and as its time is within another day the timeout is dropped and no
  other is made.
\<close>

theorem long_interval_timeout_dropped:
  fixes d :: HMDaemon and host :: string and check :: HMDataHostCheck and t :: HMTimeStamp
  defines "ps \<equiv> range_params (host, check) (dm_checkList d)"
    and "ct \<equiv> t + 86400000"
  assumes "check_idle ip (ps)" and "ps \<noteq> []"
    and "\<forall>p \<in> set (ps). ct \<le> CheckParams_nextCheckTime t ip p
      \<and> ct < CheckParams_nextCheckTime ct ip p \<and> CheckParams_nextCheckTime ct ip p < ct + 86400000"
  shows "CheckList_nextCheckTime t host ip check (dm_checkList d) = ct
    \<and> EventLoop_dispatch ares ct (Timeout_healthCheck host ip check ct) d = Some d"
proof
  show "CheckList_nextCheckTime t host ip check (dm_checkList d) = ct"
    using assms(5) by (auto simp: nextCheckTime_is_minimum ps_def ct_def intro!: Min_eqI)
  let ?s = "(True, False, ts_plus ct HOURINMS)"
  have init: "snd (snd ?s) = ct + 86400000" by (simp add: ts_plus_def)
  obtain a c n where n: "checkNeeded_loop ct ip (ps) ?s = Some (a, c, n)"
    "\<forall>p \<in> set (ps). n \<le> CheckParams_nextCheckTime ct ip p"
    "n \<in> insert (snd (snd ?s)) (CheckParams_nextCheckTime ct ip ` set (ps))"
    "n < snd (snd ?s) \<longrightarrow> c"
    using checkNeeded_loop_idle [OF assms(3), of ct ?s] by blast
  obtain p where p: "p \<in> set (ps)" using assms(4) by (cases "ps") auto
  have "n < ct + 86400000" using n(2) p assms(5) by fastforce
  then have "c" "\<not> n \<le> ct" using n(3,4) assms(5) unfolding init by auto
  then have "CheckList_checkNeeded ct host ip check (dm_checkList d) = HM_SCHEDULE_IGNORE"
    using n(1) by (simp add: CheckList_checkNeeded_def ps_def)
  then show "EventLoop_dispatch ares ct (Timeout_healthCheck host ip check ct) d = Some d"
    by (simp add: EventLoop_dispatch_def Timeout_healthCheck_def Let_def)
qed

text \<open>
  A remote host check whose next time is a day or more ahead is lost when its timeout fires. The
  tracker adds a timeout of the host group kind in place of one for the host and the check; when that
  one fires, at any time, nothing happens unless a remote host group has the name of the host.
\<close>

theorem remote_host_timeout_lost:
  assumes "to_type t = REMOTEHOSTCHECK_TIMEOUT"
    and "host_find (to_hostname t, to_hostCheck t) (st_remoteHostCache (dm_state d)) = Some r"
    and "rr_checkState r = HM_CHECK_INACTIVE \<or> rr_checkState r = HM_CHECK_FAILED"
    and "now + 86400000 \<le> RemoteResult_nextCheckTime now r"
  shows "\<exists>d' ct. EventLoop_dispatch ares now t d = Some d' \<and> dm_workQueue d' = dm_workQueue d
    \<and> el_timeouts (dm_eventLoop d') = el_timeouts (dm_eventLoop d) @ [Timeout_remote (to_hostname t) ct]
    \<and> (\<forall>T e. group_find (to_hostname t) (st_remoteCache (dm_state e)) = None \<longrightarrow>
        EventLoop_dispatch ares T (Timeout_remote (to_hostname t) ct) e = Some e)"
proof -
  have "RemoteHostCache_checkNeeded now (to_hostname t) (to_hostCheck t) (st_remoteHostCache (dm_state d))
      = HM_SCHEDULE_EVENT"
    using assms(2,4) by (simp add: RemoteHostCache_checkNeeded_def decision_idle [OF assms(3)])
  moreover have "RemoteHostGroupCache_checkNeeded T name c = HM_SCHEDULE_IGNORE"
    if "group_find name c = None" for T name c
    using that by (simp add: RemoteHostGroupCache_checkNeeded_def decision_missing)
  ultimately show ?thesis
    using assms(1)
    by (simp add: EventLoop_dispatch_def Let_def EventLoop_addRemoteTimeout_def Timeout_remote_def)
qed

section \<open>Witnesses\<close>

definition w_daemon :: HMDaemon where
  "w_daemon = \<lparr>dm_state = State_new\<lparr>st_checkList := w_list,
       st_dnsCache := \<lparr>dc_cache = [((''h'', DNSLookup_default), (DNSResult_new 100 50)\<lparr>dr_addr := [w_addr]\<rparr>)],
         dc_staticDNS = []\<rparr>\<rparr>,
     dm_workQueue = WorkQueue_new, dm_eventLoop = w_loop, dm_hostMark = [], dm_stored = [],
     dm_published = []\<rparr>"

definition w_probe :: "HMWork \<Rightarrow> HMWork \<times> HM_WORK_STATUS" where
  "w_probe w = (w\<lparr>wk_response := HM_RESPONSE_CONNECTED, wk_reason := HM_REASON_SUCCESS\<rparr>, HM_WORK_COMPLETE)"

lemma w_daemon_list: "dm_checkList w_daemon = w_list"
  by (simp add: w_daemon_def State_new_def)

lemma health_check_rescheduled_witness:
  "\<exists>d' w'. WorkHealthCheck_processWork False w_probe 5 6 7 (Work_new HMWorkHealthCheckTCP ''h'' w_addr w_check)
      w_daemon = Some (d', w')
    \<and> (length (wq_queue (dm_workQueue d')) = 1 \<or> length (el_timeouts (dm_eventLoop d')) = 1)"
proof -
  let ?w = "Work_new HMWorkHealthCheckTCP ''h'' w_addr w_check"
  have w: "wk_hostname ?w = ''h''" "wk_ipAddress ?w = w_addr" "wk_hostCheck ?w = w_check"
    "wk_workStatus ?w = HM_WORK_IDLE" "wk_class ?w \<noteq> HMWorkHealhMultiWork" "wk_reschedule ?w"
    by (simp_all add: Work_new_def)
  have "probe_ok w_probe" by (simp add: probe_ok_def w_probe_def work_for_def)
  moreover have "\<not> is_blank w_addr" by (simp add: is_blank_def w_addr_def)
  moreover have "mmap_sorted CompareCheckList (cl_checklist (dm_checkList w_daemon))"
    using w_list_sorted by (simp add: w_daemon_list CheckList_sorted_def)
  moreover have "\<forall>p \<in> set (range_params (''h'', w_check) (dm_checkList w_daemon)). CheckParams_isValidIP w_addr p"
    by (simp add: w_daemon_list w_list_range CheckParams_isValidIP_def w_params_def)
  moreover have "DNSCache_isValidAddress ''h'' (hc_dualstack w_check)
      (DNSLookup_new (hc_DNSType w_check) (IPAddress_getType w_addr = AF_INET6) (hc_remoteCheck w_check))
      w_addr (dm_dnsCache w_daemon)"
    by (simp add: DNSCache_isValidAddress_def family_fold_def DNSCache_getDNSResult_def w_daemon_def
        w_check_def HostCheck_default_def HostCheck_new_def DNSLookup_default_def DNSLookup_new_def
        DNSResult_isValidAddress_def)
  ultimately show ?thesis
    using health_check_rescheduled [of w_probe ?w False HMWorkHealthCheckTCP w_daemon 5 6 7, unfolded w(1-3)]
      w(4-6) w_check_class
    by (auto simp: w_daemon_def w_queue w_loop_def)
qed

definition w_long :: HMDaemon where
  "w_long = set_checkList (CheckList_new\<lparr>cl_checklist :=
     [((''h'', w_check), 0, w_params\<lparr>cp_checkTTL := 129600000,
        cp_checkData := [(w_addr, CheckResult_new 10000)]\<rparr>)]\<rparr>) w_daemon"

lemma w_long_range: "range_params (''h'', w_check) (dm_checkList w_long) =
    [w_params\<lparr>cp_checkTTL := 129600000, cp_checkData := [(w_addr, CheckResult_new 10000)]\<rparr>]"
  by (simp add: w_long_def range_params_filter mmap_sorted_def)

lemma long_interval_timeout_dropped_witness:
  "EventLoop_dispatch False 86400000 (Timeout_healthCheck ''h'' w_addr w_check 86400000) w_long = Some w_long"
  using long_interval_timeout_dropped [of w_addr "''h''" w_check w_long 0 False]
  by (simp add: w_long_range check_idle_def CheckParams_nextCheckTime_def ts_plus_def CheckResult_new_def)

definition w_remote :: HMDaemon where
  "w_remote = w_daemon\<lparr>dm_state := (dm_state w_daemon)\<lparr>st_remoteHostCache :=
     [((''h'', w_check), (RemoteResult_new 90000000 50)\<lparr>rr_resultTime := 1000\<rparr>)]\<rparr>\<rparr>"

lemma remote_host_timeout_lost_witness:
  "\<exists>d' ct. EventLoop_dispatch False 1000 (Timeout_remoteHost ''h'' w_check 1000) w_remote = Some d'
     \<and> el_timeouts (dm_eventLoop d') = [Timeout_remote ''h'' ct]"
  using remote_host_timeout_lost [of "Timeout_remoteHost ''h'' w_check 1000" w_remote
      "(RemoteResult_new 90000000 50)\<lparr>rr_resultTime := 1000\<rparr>" 1000 False]
  by (auto simp: Timeout_remoteHost_def w_remote_def RemoteResult_new_def RemoteResult_nextCheckTime_def
      ts_plus_def w_daemon_def w_loop_def)

end
