(* ===== verification/HM_Connections.thy ===== *)
theory HM_Connections
  imports HM_HostGroup
begin

text \<open>
  \<open>HMConnectionHandler\<close>: the connections to other daemons that are kept open, at most \<open>m_maxConnections\<close>
  to each address and port. A field \<open>m_x\<close> is \<open>kc_x\<close> in the key and \<open>kh_x\<close> in the handler. A connection is a
  value of a type \<open>'c\<close>, the null pointer is \<open>None\<close>. Making a socket and connecting it is the parameter
  \<open>connect\<close>; the value of \<open>rand()\<close> is the parameter \<open>rnd\<close>. \<open>kh_ctx\<close> says whether a TLS context was given.
\<close>

section \<open>Keys\<close>

record HMConnectionCheck =
  kc_port :: u16
  kc_address :: HMIPAddress
  kc_remoteCheckType :: HM_REMOTE_CHECK_TYPE
  kc_socketPath :: string
  kc_sourceAddress :: HMIPAddress
  kc_tos :: u8

definition ConnectionCheck_path :: "string \<Rightarrow> HM_REMOTE_CHECK_TYPE \<Rightarrow> HMConnectionCheck" where
  "ConnectionCheck_path socketPath remoteCheckType =
     \<lparr>kc_port = 0, kc_address = UNSPEC, kc_remoteCheckType = remoteCheckType, kc_socketPath = socketPath,
      kc_sourceAddress = UNSPEC, kc_tos = 0\<rparr>"

definition ConnectionCheck_new ::
    "u16 \<Rightarrow> HMIPAddress \<Rightarrow> HM_REMOTE_CHECK_TYPE \<Rightarrow> HMIPAddress \<Rightarrow> u8 \<Rightarrow> HMConnectionCheck" where
  "ConnectionCheck_new port address remoteCheckType source tos =
     \<lparr>kc_port = port, kc_address = address, kc_remoteCheckType = remoteCheckType, kc_socketPath = [],
      kc_sourceAddress = source, kc_tos = tos\<rparr>"

definition ConnectionCheck_less :: "HMConnectionCheck \<Rightarrow> HMConnectionCheck \<Rightarrow> bool" where
  "ConnectionCheck_less a k \<longleftrightarrow>
     (if kc_socketPath a = kc_socketPath k then
        if kc_port a = kc_port k then
          if IPAddress_eq (kc_address a) (kc_address k) then
            if kc_remoteCheckType a = kc_remoteCheckType k then
              if IPAddress_eq (kc_sourceAddress a) (kc_sourceAddress k) then kc_tos a < kc_tos k
              else IPAddress_less (kc_sourceAddress a) (kc_sourceAddress k)
            else remote_check_type_code (kc_remoteCheckType a) < remote_check_type_code (kc_remoteCheckType k)
          else IPAddress_less (kc_address a) (kc_address k)
        else kc_port a < kc_port k
      else kc_socketPath a < kc_socketPath k)"

definition ConnectionCheck_eq :: "HMConnectionCheck \<Rightarrow> HMConnectionCheck \<Rightarrow> bool" where
  "ConnectionCheck_eq a k \<longleftrightarrow>
     kc_socketPath a = kc_socketPath k \<and> kc_port a = kc_port k \<and> IPAddress_eq (kc_address a) (kc_address k)
     \<and> kc_remoteCheckType a = kc_remoteCheckType k
     \<and> IPAddress_eq (kc_sourceAddress a) (kc_sourceAddress k) \<and> kc_tos a = kc_tos k"

definition connection_key ::
    "HMConnectionCheck \<Rightarrow> string \<times> u16 \<times> (u8 \<times> 32 word \<times> 128 word) \<times> u8 \<times> (u8 \<times> 32 word \<times> 128 word) \<times> u8"
  where
  "connection_key k =
     (kc_socketPath k, kc_port k, addr_key (kc_address k), remote_check_type_code (kc_remoteCheckType k),
      addr_key (kc_sourceAddress k), kc_tos k)"

lemma connection_key_inj: "connection_key a = connection_key b \<longleftrightarrow> a = b"
  by (cases a; cases b) (auto simp: connection_key_def addr_key_inj remote_check_type_code_inj)

lemma ConnectionCheck_eq_iff: "ConnectionCheck_eq a b \<longleftrightarrow> a = b"
  by (cases a; cases b) (auto simp: ConnectionCheck_eq_def)

lemma ConnectionCheck_less_key [hm_orders]: "ConnectionCheck_less a b \<longleftrightarrow> connection_key a < connection_key b"
  by (auto simp: ConnectionCheck_less_def connection_key_def less_prod_def' IPAddress_less_key addr_key_inj
      remote_check_type_code_inj)

interpretation connection_order: key_order ConnectionCheck_less connection_key
  by unfold_locales (rule ConnectionCheck_less_key)

lemma connection_equiv [simp]: "key_equiv ConnectionCheck_less a b \<longleftrightarrow> a = b"
  by (simp add: connection_order.equiv_key connection_key_inj)

section \<open>The handler\<close>

record 'c HMConnectionHandler =
  kh_ctx :: bool
  kh_connections :: "(HMConnectionCheck \<times> 'c option) list"
  kh_maxConnections :: u8

definition ConnectionHandler_new :: "bool \<Rightarrow> u8 \<Rightarrow> 'c HMConnectionHandler" where
  "ConnectionHandler_new ctx maxConnections =
     \<lparr>kh_ctx = ctx, kh_connections = [], kh_maxConnections = maxConnections\<rparr>"

definition ConnectionHandler_createConnection ::
    "(HMConnectionCheck \<Rightarrow> 'c) \<Rightarrow> HMConnectionCheck \<Rightarrow> 'c HMConnectionHandler \<Rightarrow> 'c option" where
  "ConnectionHandler_createConnection connect check h =
     (case kc_remoteCheckType check of
        HM_REMOTE_SHARED_CHECK_TCP \<Rightarrow> Some (connect check)
      | HM_REMOTE_SHARED_CHECK_TCPS \<Rightarrow> if kh_ctx h then Some (connect check) else None
      | HM_REMOTE_SHARED_CHECK_LINUX \<Rightarrow> Some (connect check)
      | _ \<Rightarrow> None)"

definition connections_to :: "HMConnectionCheck \<Rightarrow> 'c HMConnectionHandler \<Rightarrow> 'c option list" where
  "connections_to check h = map snd (equal_range ConnectionCheck_less check (kh_connections h))"

definition ConnectionHandler_getConnectionSize :: "HMConnectionCheck \<Rightarrow> 'c HMConnectionHandler \<Rightarrow> nat" where
  "ConnectionHandler_getConnectionSize check h = length (connections_to check h)"

definition ConnectionHandler_getTotalSize :: "'c HMConnectionHandler \<Rightarrow> nat" where
  "ConnectionHandler_getTotalSize h = length (kh_connections h)"

text \<open>The loop counts an unsigned byte down along the connections.\<close>

fun findConnection_loop :: "u8 \<Rightarrow> 'c option list \<Rightarrow> 'c option option" where
  "findConnection_loop random_value [] = None"
| "findConnection_loop random_value (c # cs) =
     (if random_value = 0 then Some c else findConnection_loop (random_value - 1) cs)"

text \<open>The remainder by zero, when no connections are allowed, is undefined: \<open>None\<close>.\<close>

definition ConnectionHandler_findConnection ::
    "nat \<Rightarrow> HMConnectionCheck \<Rightarrow> 'c HMConnectionHandler \<Rightarrow> ('c option \<times> bool) option" where
  "ConnectionHandler_findConnection rnd check h =
     (if kh_maxConnections h = 0 then None
      else case findConnection_loop (of_nat (rnd mod unat (kh_maxConnections h))) (connections_to check h) of
          None \<Rightarrow> Some (None, False)
        | Some c \<Rightarrow> Some (c, True))"

definition ConnectionHandler_getConnection ::
    "(HMConnectionCheck \<Rightarrow> 'c) \<Rightarrow> nat \<Rightarrow> HMConnectionCheck \<Rightarrow> 'c HMConnectionHandler \<Rightarrow>
     ('c HMConnectionHandler \<times> 'c option \<times> bool) option" where
  "ConnectionHandler_getConnection connect rnd check h =
     (if unat (kh_maxConnections h) \<le> ConnectionHandler_getConnectionSize check h
      then map_option (Pair h) (ConnectionHandler_findConnection rnd check h)
      else
        let c = ConnectionHandler_createConnection connect check h
        in Some (h\<lparr>kh_connections := mmap_insert ConnectionCheck_less check c (kh_connections h)\<rparr>, c, True))"

section \<open>Properties\<close>

text \<open>The requests for which there is a connection: plain TCP, a local socket, or TLS when the handler has a
  context. For every other request the null pointer is pooled.\<close>

definition connectable :: "bool \<Rightarrow> HMConnectionCheck \<Rightarrow> bool" where
  "connectable ctx check \<longleftrightarrow>
     kc_remoteCheckType check \<in> {HM_REMOTE_SHARED_CHECK_TCP, HM_REMOTE_SHARED_CHECK_LINUX}
     \<or> kc_remoteCheckType check = HM_REMOTE_SHARED_CHECK_TCPS \<and> ctx"

definition pool_inv :: "'c HMConnectionHandler \<Rightarrow> bool" where
  "pool_inv h \<longleftrightarrow> mmap_sorted ConnectionCheck_less (kh_connections h) \<and> 0 < kh_maxConnections h
     \<and> (\<forall>check. length (connections_to check h) \<le> unat (kh_maxConnections h))
     \<and> (\<forall>check. \<forall>c \<in> set (connections_to check h). c \<noteq> None \<longleftrightarrow> connectable (kh_ctx h) check)"

lemma createConnection_null:
  "ConnectionHandler_createConnection connect check h \<noteq> None \<longleftrightarrow> connectable (kh_ctx h) check"
  by (simp add: ConnectionHandler_createConnection_def connectable_def split: HM_REMOTE_CHECK_TYPE.split)

lemma findConnection_loop_nth:
  "findConnection_loop r cs = (if unat r < length cs then Some (cs ! unat r) else None)"
proof (induction r cs rule: findConnection_loop.induct)
  case (2 r c cs)
  show ?case
  proof (cases "r = 0")
    case False
    then have "unat r = Suc (unat (r - 1))"
      by (metis Suc_pred' unat_gt_0 unat_minus_one)
    then show ?thesis using 2 False by simp
  qed simp
qed simp

lemma connections_to_insert:
  assumes "mmap_sorted ConnectionCheck_less (kh_connections h)"
  shows "connections_to k (h\<lparr>kh_connections := mmap_insert ConnectionCheck_less check c (kh_connections h)\<rparr>) =
    connections_to k h @ (if k = check then [c] else [])"
  using connection_order.equal_range_insert_same [OF assms, of check c]
    connection_order.equal_range_insert_other [OF assms, of k check c]
  by (auto simp: connections_to_def)

lemma pool_inv_new: "0 < n \<Longrightarrow> pool_inv (ConnectionHandler_new ctx n)"
  by (simp add: pool_inv_def ConnectionHandler_new_def connections_to_def equal_range_def)

text \<open>
  C32: the pool of connections never holds more entries for one key than allowed. In a handler that respects
  its bound, a request returns true: with one of the pooled entries for the key, and the pool as it
  was, when the bound is reached; otherwise with a new one that is added to those of the key. What is
  returned is a connection exactly for TCP, for a local socket, and for TLS with a context; for TLS
  without a context and for other types it is the null pointer, which is pooled like a connection. The
  entries of other keys stay as they are, and the bound holds after it.
\<close>

theorem connection_pool_bounded:
  assumes "pool_inv h"
  shows "\<exists>h' c. ConnectionHandler_getConnection connect rnd check h = Some (h', c, True) \<and> pool_inv h'
    \<and> c \<in> set (connections_to check h') \<and> (c \<noteq> None \<longleftrightarrow> connectable (kh_ctx h) check)
    \<and> (if length (connections_to check h) = unat (kh_maxConnections h) then h' = h
       else connections_to check h' = connections_to check h @ [ConnectionHandler_createConnection connect check h])
    \<and> (\<forall>k. k \<noteq> check \<longrightarrow> connections_to k h' = connections_to k h)"
proof (cases "length (connections_to check h) = unat (kh_maxConnections h)")
  case True
  let ?n = "rnd mod unat (kh_maxConnections h)"
  have pos: "0 < unat (kh_maxConnections h)" using assms by (simp add: pool_inv_def unat_gt_0 word_gt_0)
  have "unat (kh_maxConnections h) < 256" using unsigned_less [of "kh_maxConnections h"] by simp
  then have n: "unat (of_nat ?n :: u8) = ?n" using pos
    by (simp add: unsigned_of_nat take_bit_nat_eq_self less_trans [OF mod_less_divisor])
  have "?n < length (connections_to check h)" using pos by (simp add: True)
  then have "ConnectionHandler_getConnection connect rnd check h = Some (h, connections_to check h ! ?n, True)"
    "connections_to check h ! ?n \<in> set (connections_to check h)"
    using pos True
    by (auto simp: ConnectionHandler_getConnection_def ConnectionHandler_getConnectionSize_def
        ConnectionHandler_findConnection_def findConnection_loop_nth n unat_gt_0)
  moreover from this(2) have "connections_to check h ! ?n \<noteq> None \<longleftrightarrow> connectable (kh_ctx h) check"
    using assms unfolding pool_inv_def by blast
  ultimately show ?thesis using assms True by (simp del: nth_mem not_None_eq)
next
  case False
  let ?c = "ConnectionHandler_createConnection connect check h"
  let ?h = "h\<lparr>kh_connections := mmap_insert ConnectionCheck_less check ?c (kh_connections h)\<rparr>"
  have sorted: "mmap_sorted ConnectionCheck_less (kh_connections h)"
    and room: "length (connections_to check h) < unat (kh_maxConnections h)"
    using assms False by (auto simp: pool_inv_def le_neq_implies_less)
  note to = connections_to_insert [OF sorted]
  have "c \<noteq> None \<longleftrightarrow> connectable (kh_ctx h) k" if "c \<in> set (connections_to k ?h)" for k c
  proof -
    consider "c \<in> set (connections_to k h)" | "k = check" "c = ?c" using \<open>c \<in> _\<close> by (auto simp: to split: if_splits)
    then show ?thesis
    proof cases
      case 1
      then show ?thesis using assms unfolding pool_inv_def by blast
    next
      case 2
      then show ?thesis using createConnection_null [of connect check h] by simp
    qed
  qed
  then have "pool_inv ?h"
    using assms room connection_order.mmap_sorted_insert [OF sorted] unfolding pool_inv_def
    by (intro conjI allI ballI) (simp_all add: to del: not_None_eq)
  then show ?thesis
    using room False createConnection_null [of connect check h]
    by (simp del: not_None_eq add: ConnectionHandler_getConnection_def ConnectionHandler_getConnectionSize_def Let_def to)
qed

definition sample_connection :: HMConnectionCheck where
  "sample_connection = ConnectionCheck_new 3141 (INET 0x7F000001) HM_REMOTE_SHARED_CHECK_TCP UNSPEC 0"

lemma connection_pool_bounded_witness:
  "\<exists>h' c. ConnectionHandler_getConnection (\<lambda>k. kc_port k) 5 sample_connection (ConnectionHandler_new False 2) =
     Some (h', c, True) \<and> pool_inv h' \<and> c \<in> set (connections_to sample_connection h') \<and> c \<noteq> None"
  using connection_pool_bounded [OF pool_inv_new [of 2 False], of "\<lambda>k. kc_port k" 5 sample_connection]
  by (auto simp: connectable_def sample_connection_def ConnectionCheck_new_def)

end
