(* ===== verification/HM_RemoteWork.thy ===== *)
theory HM_RemoteWork
  imports HM_Daemon HM_StorageInit HM_Connections
begin

text \<open>
  The work orders that ask another daemon for its results (\<open>HMWorkRemoteCheck\<close>, \<open>HMWorkRemoteHostCheck\<close> and
  their classes \<open>Remote\<close>) and those that fetch auxiliary data (\<open>HMWorkAuxFetch\<close>). They write to the data
  store, so the daemon is taken together with its storage, its auxiliary cache and its connections:
  the record \<open>HMNode\<close>. The calls to the storage that the check list makes, which \<open>HMDaemon\<close> only
  lists, are carried out on the storage.

  What a socket answers is the parameter \<open>net\<close>, the text that an auxiliary fetch returns the parameter
  \<open>fetch\<close>. Clock readings are arguments. A null pointer dereference is the error \<open>null_pointer\<close>.
\<close>

section \<open>State\<close>

record ('db, 'c) HMNode =
  nd_daemon :: HMDaemon
  nd_store :: "'db HMStorage"
  nd_auxCache :: HMAuxCache
  nd_connections :: "'c HMConnectionHandler"

abbreviation nd_state :: "('db, 'c) HMNode \<Rightarrow> HMState" where
  "nd_state n \<equiv> dm_state (nd_daemon n)"

definition set_state :: "HMState \<Rightarrow> ('db, 'c) HMNode \<Rightarrow> ('db, 'c) HMNode" where
  "set_state st n = n\<lparr>nd_daemon := (nd_daemon n)\<lparr>dm_state := st\<rparr>\<rparr>"

text \<open>The calls of the check list to the storage, carried out.\<close>

definition store_call ::
    "'db mdbm \<Rightarrow> store_call \<Rightarrow> 'db HMStorage \<Rightarrow> buffer_error + 'db HMStorage" where
  "store_call lib c s =
     (case c of
        StoreCheckResult hostname address hostCheck checkParams result \<Rightarrow>
          Inr (fst (Storage_storeCheckResult hostname address checkParams result s))
      | PurgeCheckResult hostname address hostCheck checkParams \<Rightarrow>
          res_bind (Storage_purgeCheckResult lib hostname address checkParams s) (\<lambda>(s, _). Inr s))"

definition store_calls ::
    "'db mdbm \<Rightarrow> store_call list \<Rightarrow> ('db, 'c) HMNode \<Rightarrow> buffer_error + ('db, 'c) HMNode" where
  "store_calls lib cs n =
     res_bind (res_fold (store_call lib) cs (nd_store n)) (\<lambda>s. Inr (n\<lparr>nd_store := s\<rparr>))"

section \<open>Auxiliary data in the check list\<close>

text \<open>The part that both overloads of \<open>storeAux\<close> share: each parameter object with a result for the address
  has the data stored.\<close>

definition storeAux_backend ::
    "HMWork \<Rightarrow> HMDataHostCheck \<Rightarrow> HMIPAddress \<Rightarrow> HMAuxInfo \<Rightarrow> HMDataCheckList \<Rightarrow> 'db HMStorage \<Rightarrow> 'db HMStorage" where
  "storeAux_backend w hostCheck address auxInfo cl s =
     fold (\<lambda>p s. if CheckParams_getCheckResult address p = None then s
                 else fst (Storage_storeAuxInfo (wk_hostname w) address p auxInfo s))
       (range_params (wk_hostname w, hostCheck) cl) s"

definition CheckList_storeAux_text ::
    "bool \<Rightarrow> aux_parser \<Rightarrow> HMWork \<Rightarrow> HMDataHostCheck \<Rightarrow> HMIPAddress \<Rightarrow> string \<Rightarrow> HMDataCheckList \<Rightarrow>
     'db HMStorage \<times> HMAuxCache \<Rightarrow> 'db HMStorage \<times> HMAuxCache" where
  "CheckList_storeAux_text xml parse w hostCheck address auxData cl = (\<lambda>(store, aux).
     let url = hc_checkInfo hostCheck;
         aux = (if wk_reason w = HM_REASON_SUCCESS
                then fst (AuxCache_storeAuxInfo_text xml parse (wk_hostname w) url address auxData aux) else aux);
         auxInfo = (case AuxCache_getAuxInfo (wk_hostname w) url address aux of None \<Rightarrow> AuxInfo_new | Some i \<Rightarrow> i)
     in (storeAux_backend w hostCheck address auxInfo cl store, aux))"

definition CheckList_storeAux ::
    "HMWork \<Rightarrow> HMDataHostCheck \<Rightarrow> HMIPAddress \<Rightarrow> HMAuxInfo \<Rightarrow> HMDataCheckList \<Rightarrow>
     'db HMStorage \<times> HMAuxCache \<Rightarrow> 'db HMStorage \<times> HMAuxCache" where
  "CheckList_storeAux w hostCheck address auxInfo cl = (\<lambda>(store, aux).
     (storeAux_backend w hostCheck address auxInfo cl store,
      fst (AuxCache_storeAuxInfo (wk_hostname w) (hc_checkInfo hostCheck) address auxInfo aux)))"

section \<open>Asking another daemon\<close>

datatype HM_SOCK_DATA_STATUS = HM_SOCK_DATA_OK | HM_SOCK_DATA_EMPTY | HM_SOCK_DATA_TIMEOUT | HM_SOCK_DATA_FAILED

text \<open>The socket classes: a socket that \<open>connectServer\<close> was called on, its reason, and its queries.\<close>

record 'c sockets =
  so_connect :: "HMConnectionCheck \<Rightarrow> 'c"
  so_reason :: "'c \<Rightarrow> HM_REASON"
  so_groupResults :: "'c \<Rightarrow> string \<Rightarrow> HMGroupCheckResult list \<times> HM_SOCK_DATA_STATUS"
  so_groupFeedback :: "'c \<Rightarrow> string \<Rightarrow> HMGroupAuxResult list \<times> HM_SOCK_DATA_STATUS"
  so_hostResults :: "'c \<Rightarrow> string \<Rightarrow> HMDataHostCheck \<Rightarrow>
     (HMDataCheckParams \<times> HMDataCheckResult) list \<times> HM_SOCK_DATA_STATUS"
  so_hostFeedback :: "'c \<Rightarrow> string \<Rightarrow> HMDataHostCheck \<Rightarrow> HMGroupAuxResult list \<times> HM_SOCK_DATA_STATUS"

text \<open>A remote work order with the results that it collects.\<close>

record HMWorkRemote =
  rw_work :: HMWork
  rw_results :: "HMGroupCheckResult list"
  rw_hostResults :: "(HMDataCheckParams \<times> HMDataCheckResult) list"
  rw_auxResults :: "HMGroupAuxResult list"

definition WorkRemote_new :: "HMWork \<Rightarrow> HMWorkRemote" where
  "WorkRemote_new w = \<lparr>rw_work = w, rw_results = [], rw_hostResults = [], rw_auxResults = []\<rparr>"

abbreviation rw_hostCheck :: "HMWorkRemote \<Rightarrow> HMDataHostCheck" where
  "rw_hostCheck w \<equiv> wk_hostCheck (rw_work w)"

definition check_is_aux :: "HM_CHECK_TYPE \<Rightarrow> bool" where
  "check_is_aux t \<longleftrightarrow>
     t = HM_CHECK_AUX_HTTP \<or> t = HM_CHECK_AUX_HTTPS \<or> t = HM_CHECK_AUX_HTTPS_NO_PEER_CHECK"

text \<open>The queries on a socket: the results and, for auxiliary checks, the load feedback.\<close>

definition fetch_group :: "'c sockets \<Rightarrow> 'c \<Rightarrow> HMWorkRemote \<Rightarrow> HMWorkRemote \<times> bool" where
  "fetch_group net c w =
     (let (rs, status) = so_groupResults net c (wk_hostname (rw_work w)); w = w\<lparr>rw_results := rs\<rparr>
      in if status \<noteq> HM_SOCK_DATA_OK then (w, False)
         else if \<not> check_is_aux (hc_checkType (rw_hostCheck w)) then (w, True)
         else let (as, status) = so_groupFeedback net c (wk_hostname (rw_work w)); w = w\<lparr>rw_auxResults := as\<rparr>
              in (w, status = HM_SOCK_DATA_OK \<or> status = HM_SOCK_DATA_EMPTY))"

definition fetch_host :: "'c sockets \<Rightarrow> 'c \<Rightarrow> HMWorkRemote \<Rightarrow> HMWorkRemote \<times> bool" where
  "fetch_host net c w =
     (let (rs, status) = so_hostResults net c (wk_hostname (rw_work w)) (rw_hostCheck w);
          w = w\<lparr>rw_hostResults := rs\<rparr>
      in if status \<noteq> HM_SOCK_DATA_OK then (w, False)
         else if \<not> check_is_aux (hc_checkType (rw_hostCheck w)) then (w, True)
         else let (as, status) = so_hostFeedback net c (wk_hostname (rw_work w)) (rw_hostCheck w);
                  w = w\<lparr>rw_auxResults := as\<rparr>
              in (w, status = HM_SOCK_DATA_OK \<or> status = HM_SOCK_DATA_EMPTY))"

text \<open>
  \<open>getHostResult\<close>, the same in the two classes but for the queries. When there is no socket, the text of the
  log message is taken from the socket: a null pointer dereference. A pool that allows no connections
  divides by zero, the error \<open>other_object\<close>.
\<close>

definition Remote_getHostResult ::
    "'c sockets \<Rightarrow> ('c \<Rightarrow> HMWorkRemote \<Rightarrow> HMWorkRemote \<times> bool) \<Rightarrow> nat \<Rightarrow> HMDataCheckResult \<Rightarrow>
     'c HMConnectionHandler \<times> HMWorkRemote \<Rightarrow> buffer_error + (('c HMConnectionHandler \<times> HMWorkRemote) \<times> bool)" where
  "Remote_getHostResult net query rnd remote = (\<lambda>(pool, w).
     let hc = rw_hostCheck w;
         check = ConnectionCheck_new (cr_port remote) (cr_address remote) (hc_remoteCheckType hc)
                   (hc_sourceAddress hc) (hc_TOSValue hc);
         use = (\<lambda>pool c. let (w, ok) = query c w in Inr ((pool, w), ok))
     in case hc_remoteCheckType hc of
          HM_REMOTE_CHECK_NONE \<Rightarrow> Inl null_pointer
        | HM_REMOTE_SHARED_CHECK_LINUX \<Rightarrow> Inl null_pointer
        | HM_REMOTE_CHECK_TCP \<Rightarrow>
            let c = so_connect net check
            in if so_reason net c \<noteq> HM_REASON_SUCCESS then Inr ((pool, w), False) else use pool c
        | HM_REMOTE_CHECK_TCPS \<Rightarrow>
            let c = so_connect net check
            in if so_reason net c \<noteq> HM_REASON_SUCCESS then Inr ((pool, w), False) else use pool c
        | _ \<Rightarrow>
            (case ConnectionHandler_getConnection (so_connect net) rnd check pool of
               None \<Rightarrow> Inl other_object
             | Some (pool, None, _) \<Rightarrow> Inl null_pointer
             | Some (pool, Some c, _) \<Rightarrow> use pool c))"

text \<open>The hosts of the remote group with their addresses, in the order of the two loops.\<close>

definition remote_targets :: "HMState \<Rightarrow> HMDataHostGroup \<Rightarrow> HMWork \<Rightarrow> (string \<times> HMIPAddress) list" where
  "remote_targets st grp w =
     (let check = fst (HostGroup_getHostCheck grp HostCheck_default);
          lookup = DNSLookup_new (hc_DNSType check) (IPAddress_getType (wk_ipAddress w) = AF_INET6) (hc_remoteCheck check)
      in concat (map (\<lambda>h. map (Pair h) (fst (DNSCache_getAddresses h (hc_dualstack check) lookup [] (st_dnsCache st))))
           (hg_hosts grp)))"

fun remoteCheck_loop ::
    "'c sockets \<Rightarrow> ('c \<Rightarrow> HMWorkRemote \<Rightarrow> HMWorkRemote \<times> bool) \<Rightarrow> nat \<Rightarrow> HMState \<Rightarrow> HMDataHostGroup \<Rightarrow>
     (string \<times> HMIPAddress) list \<Rightarrow> 'c HMConnectionHandler \<times> HMWorkRemote \<Rightarrow>
     buffer_error + (('c HMConnectionHandler \<times> HMWorkRemote) \<times> bool)" where
  "remoteCheck_loop net query rnd st grp [] p = Inr (p, False)"
| "remoteCheck_loop net query rnd st grp ((host, address) # rest) p =
     (case CheckList_getCheckResult
         \<lparr>ch_hostname = host, ch_address = address, ch_hostCheck = fst (HostGroup_getHostCheck grp HostCheck_default),
          ch_checkParams = fst (HostGroup_getCheckParameters grp CheckParams_default)\<rparr> (st_checkList st) of
        None \<Rightarrow> remoteCheck_loop net query rnd st grp rest p
      | Some result \<Rightarrow>
          if cr_response result \<noteq> HM_RESPONSE_CONNECTED then remoteCheck_loop net query rnd st grp rest p
          else (case Remote_getHostResult net query rnd result p of
              Inl e \<Rightarrow> Inl e
            | Inr (p, ok) \<Rightarrow>
                if ok then Inr (p, True)
                else if hc_distributedFallback (rw_hostCheck (snd p)) AND HM_DISTRIBUTED_FALLBACK_LOCAL = 0
                then Inr (p, False)
                else remoteCheck_loop net query rnd st grp rest p))"

definition Remote_remoteCheck ::
    "'c sockets \<Rightarrow> ('c \<Rightarrow> HMWorkRemote \<Rightarrow> HMWorkRemote \<times> bool) \<Rightarrow> nat \<Rightarrow> HMState \<Rightarrow> HMDataHostGroup \<Rightarrow>
     'c HMConnectionHandler \<times> HMWorkRemote \<Rightarrow> buffer_error + (('c HMConnectionHandler \<times> HMWorkRemote) \<times> bool)" where
  "Remote_remoteCheck net query rnd st grp = (\<lambda>(pool, w).
     remoteCheck_loop net query rnd st grp (remote_targets st grp (rw_work w)) (pool, w))"

definition Remote_remoteLookup ::
    "'c sockets \<Rightarrow> ('c \<Rightarrow> HMWorkRemote \<Rightarrow> HMWorkRemote \<times> bool) \<Rightarrow> nat \<Rightarrow> HMTimeStamp \<Rightarrow> ('db, 'c) HMNode \<Rightarrow> HMWorkRemote \<Rightarrow>
     buffer_error + (('db, 'c) HMNode \<times> HMWorkRemote \<times> HM_WORK_STATUS)" where
  "Remote_remoteLookup net query rnd now n w =
     (if hc_remoteCheck (rw_hostCheck w) = [] then Inr (n, w, HM_WORK_REMOTE_FALLBACK)
      else
        let w = w\<lparr>rw_work := (rw_work w)\<lparr>wk_start := now, wk_end := now, wk_reason := HM_REASON_NONE,
                   wk_response := HM_RESPONSE_FAILED\<rparr>\<rparr>
        in case group_find (hc_remoteCheck (rw_hostCheck w)) (st_hostGroups (nd_state n)) of
             None \<Rightarrow> Inr (n, w, HM_WORK_REMOTE_FALLBACK)
           | Some grp \<Rightarrow>
               res_bind (Remote_remoteCheck net query rnd (nd_state n) grp (nd_connections n, w)) (\<lambda>((pool, w), ok).
                 Inr (n\<lparr>nd_connections := pool\<rparr>, w,
                      if ok then HM_WORK_COMPLETE_REMOTE else HM_WORK_REMOTE_FALLBACK)))"

text \<open>The lookups of the hosts themselves, when another daemon has not answered and the hosts are to be
  checked from here.\<close>

definition fallback_lookups ::
    "bool \<Rightarrow> HMTimeStamp \<Rightarrow> HMDataHostCheck \<Rightarrow> string \<Rightarrow> HMDaemon \<Rightarrow> HMDaemon" where
  "fallback_lookups ares now check host d =
     (let look = (\<lambda>ipv6 d. dm_queueDNS ares now host
            (DNSLookup_setPlugin (State_getDNSPlugin (hc_DNSType check) (dm_state d))
               (DNSLookup_new (hc_DNSType check) ipv6 (hc_remoteCheck check))) d);
          d = (if hc_dualstack check AND HM_DUALSTACK_IPV4_ONLY \<noteq> 0 then look False d else d)
      in if hc_dualstack check AND HM_DUALSTACK_IPV6_ONLY \<noteq> 0 then look True d else d)"

section \<open>Host groups\<close>

definition RemoteCheck_updateResults ::
    "'db mdbm \<Rightarrow> HMTimeStamp \<Rightarrow> ('db, 'c) HMNode \<times> HMWorkRemote \<Rightarrow> buffer_error + (('db, 'c) HMNode \<times> HMWorkRemote)" where
  "RemoteCheck_updateResults lib now = (\<lambda>(n, w).
     let results = map (\<lambda>r. r\<lparr>gr_result := (gr_result r)\<lparr>cr_remoteCheckTime := cr_checkTime (gr_result r),
                                  cr_checkTime := now\<rparr>\<rparr>) (rw_results w)
     in res_bind (Storage_storeHostGroupCheckResult lib (wk_hostname (rw_work w)) results (nd_store n))
          (\<lambda>(s, _). Inr (n\<lparr>nd_store := s\<rparr>, w\<lparr>rw_results := []\<rparr>)))"

definition RemoteCheck_updateResultsNoData ::
    "'db mdbm \<Rightarrow> HMTimeStamp \<Rightarrow> ('db, 'c) HMNode \<times> HMWorkRemote \<Rightarrow> buffer_error + (('db, 'c) HMNode \<times> HMWorkRemote)" where
  "RemoteCheck_updateResultsNoData lib now = (\<lambda>(n, w).
     let results = fst (Storage_getGroupCheckResults_cached (wk_hostname (rw_work w)) (nd_store n));
         results = map (\<lambda>r. if resolved_check r
             then r\<lparr>gr_result := (gr_result r)\<lparr>cr_reason := HM_REASON_REMOTE_NODATA, cr_checkTime := now\<rparr>\<rparr>
             else r) results
     in res_bind (Storage_storeHostGroupCheckResult lib (wk_hostname (rw_work w)) results (nd_store n))
          (\<lambda>(s, _). Inr (n\<lparr>nd_store := s\<rparr>, w\<lparr>rw_results := []\<rparr>)))"

definition RemoteCheck_updateAuxResults ::
    "'db mdbm \<Rightarrow> ('db, 'c) HMNode \<times> HMWorkRemote \<Rightarrow> buffer_error + (('db, 'c) HMNode \<times> HMWorkRemote)" where
  "RemoteCheck_updateAuxResults lib = (\<lambda>(n, w).
     let aux = fold (\<lambda>r c. fst (AuxCache_storeAuxInfo (ga_hostName r) (hc_checkInfo (rw_hostCheck w)) (ga_address r)
                                   (ga_info r) c)) (rw_auxResults w) (nd_auxCache n)
     in res_bind (Storage_storeHostGroupAuxResult lib (wk_hostname (rw_work w)) (rw_auxResults w) (nd_store n))
          (\<lambda>(s, _). Inr (n\<lparr>nd_store := s, nd_auxCache := aux\<rparr>, w\<lparr>rw_auxResults := []\<rparr>)))"

text \<open>The results of the lookup are taken over, or the cached ones are marked; the same in both classes.\<close>

definition remote_update ::
    "(('db, 'c) HMNode \<times> HMWorkRemote \<Rightarrow> buffer_error + (('db, 'c) HMNode \<times> HMWorkRemote)) \<Rightarrow>
     (('db, 'c) HMNode \<times> HMWorkRemote \<Rightarrow> buffer_error + (('db, 'c) HMNode \<times> HMWorkRemote)) \<Rightarrow>
     (('db, 'c) HMNode \<times> HMWorkRemote \<Rightarrow> buffer_error + (('db, 'c) HMNode \<times> HMWorkRemote)) \<Rightarrow>
     HM_WORK_STATUS \<Rightarrow> ('db, 'c) HMNode \<times> HMWorkRemote \<Rightarrow> buffer_error + (('db, 'c) HMNode \<times> HMWorkRemote)" where
  "remote_update updateResults updateAuxResults updateResultsNoData status p =
     (if status = HM_WORK_COMPLETE_REMOTE then res_bind (updateResults p) updateAuxResults
      else if status = HM_WORK_REMOTE_FALLBACK
              \<and> hc_distributedFallback (rw_hostCheck (snd p)) AND HM_DISTRIBUTED_FALLBACK_REMOTE = 0
      then updateResultsNoData p
      else Inr p)"

definition remote_falls_back :: "HM_WORK_STATUS \<Rightarrow> HMWorkRemote \<Rightarrow> bool" where
  "remote_falls_back status w \<longleftrightarrow>
     status = HM_WORK_REMOTE_FALLBACK \<and> hc_distributedFallback (rw_hostCheck w) AND HM_DISTRIBUTED_FALLBACK_REMOTE \<noteq> 0"

definition RemoteCheck_reschedule :: "HMTimeStamp \<Rightarrow> HMWork \<Rightarrow> HMDaemon \<Rightarrow> HMDaemon" where
  "RemoteCheck_reschedule now w d =
     (let st = dm_state d; checkTime = RemoteHostGroupCache_nextCheckTime now (wk_hostname w) (st_remoteCache st)
      in if checkTime \<le> now then
           let ((c, q), _) = RemoteHostGroupCache_queueRemoteCheck now (wk_hostname w) (st_hostGroups st)
                 (st_remoteCache st, dm_workQueue d)
           in d\<lparr>dm_state := st\<lparr>st_remoteCache := c\<rparr>, dm_workQueue := q\<rparr>
         else d\<lparr>dm_eventLoop := EventLoop_addRemoteTimeout (wk_hostname w) checkTime (dm_eventLoop d)\<rparr>)"

definition RemoteCheck_fallback :: "bool \<Rightarrow> HMTimeStamp \<Rightarrow> HMWork \<Rightarrow> HMDaemon \<Rightarrow> HMDaemon \<times> bool" where
  "RemoteCheck_fallback ares now w d =
     (case group_find (wk_hostname w) (st_hostGroups (dm_state d)) of
        None \<Rightarrow> (d, False)
      | Some grp \<Rightarrow> (fold (fallback_lookups ares now (wk_hostCheck w)) (hg_hosts grp) d, True))"

definition WorkRemoteCheck_processWork ::
    "bool \<Rightarrow> 'db mdbm \<Rightarrow> 'c sockets \<Rightarrow> nat \<Rightarrow> HMTimeStamp \<Rightarrow> HMTimeStamp \<Rightarrow> HMWorkRemote \<Rightarrow> ('db, 'c) HMNode \<Rightarrow>
     buffer_error + (('db, 'c) HMNode \<times> HMWorkRemote \<times> HM_WORK_STATUS)" where
  "WorkRemoteCheck_processWork ares lib net rnd t0 t1 w n =
     (let st = nd_state n;
          (c, started) = RemoteHostGroupCache_startRemoteCheck t0 (wk_hostname (rw_work w)) (st_remoteCache st)
      in if \<not> started then Inr (n, w, HM_WORK_COMPLETE)
         else
           res_bind (Remote_remoteLookup net (fetch_group net) rnd t0 (set_state (st\<lparr>st_remoteCache := c\<rparr>) n) w)
             (\<lambda>(n, w, status).
               let w = w\<lparr>rw_work := (rw_work w)\<lparr>wk_workStatus := status\<rparr>\<rparr>;
                   st = nd_state n;
                   n = set_state (st\<lparr>st_remoteCache :=
                     RemoteHostGroupCache_finishCheck t1 (wk_hostname (rw_work w)) True (st_remoteCache st)\<rparr>) n
               in res_bind (remote_update (RemoteCheck_updateResults lib t1) (RemoteCheck_updateAuxResults lib)
                      (RemoteCheck_updateResultsNoData lib t1) status (n, w)) (\<lambda>(n, w).
                    let d = RemoteCheck_reschedule t1 (rw_work w) (nd_daemon n);
                        (d, known) = (if remote_falls_back status w then RemoteCheck_fallback ares t1 (rw_work w) d
                                      else (d, True))
                    in Inr (n\<lparr>nd_daemon := d\<rparr>, w, if known then status else HM_WORK_COMPLETE))))"

section \<open>Hosts\<close>

text \<open>A store of the result for an address, and a removal of the one for an address.\<close>

definition store_address ::
    "'db mdbm \<Rightarrow> HMWorkRemote \<Rightarrow> HMIPAddress \<Rightarrow> ('db, 'c) HMNode \<Rightarrow> buffer_error + ('db, 'c) HMNode" where
  "store_address lib w address n =
     store_calls lib (CheckList_storeCheck (rw_work w) (rw_hostCheck w) address (st_checkList (nd_state n))) n"

definition expire_address ::
    "'db mdbm \<Rightarrow> HMWorkRemote \<Rightarrow> HMIPAddress \<Rightarrow> ('db, 'c) HMNode \<Rightarrow> buffer_error + ('db, 'c) HMNode" where
  "expire_address lib w address n =
     (let (cl, calls) = CheckList_invalidateCheck (wk_hostname (rw_work w)) address (rw_hostCheck w)
            (st_checkList (nd_state n))
      in store_calls lib calls (set_state ((nd_state n)\<lparr>st_checkList := cl\<rparr>) n))"

definition family_results :: "u8 \<Rightarrow> HMWorkRemote \<Rightarrow> HMIPAddress list" where
  "family_results family w =
     fold (\<lambda>(p, r) as. if IPAddress_getType (cr_address r) = family then insort_insert (cr_address r) as else as)
       (rw_hostResults w) []"

definition expire_family ::
    "'db mdbm \<Rightarrow> HMWorkRemote \<Rightarrow> HM_DUALSTACK \<Rightarrow> HMIPAddress list \<Rightarrow> ('db, 'c) HMNode \<Rightarrow> buffer_error + ('db, 'c) HMNode" where
  "expire_family lib w dualstack returned n =
     (if returned = [] then Inr n
      else
        let addresses = fst (CheckList_getCheckResultsAddress (wk_hostname (rw_work w)) (rw_hostCheck w) dualstack
              (st_checkList (nd_state n)))
        in res_fold (expire_address lib w) (filter (\<lambda>a. a \<notin> set returned) addresses) n)"

definition RemoteHostCheck_updateResults ::
    "'db mdbm \<Rightarrow> HMTimeStamp \<Rightarrow> ('db, 'c) HMNode \<times> HMWorkRemote \<Rightarrow> buffer_error + (('db, 'c) HMNode \<times> HMWorkRemote)" where
  "RemoteHostCheck_updateResults lib now = (\<lambda>(n, w).
     let v4addresses = family_results AF_INET w;
         v6addresses = family_results AF_INET6 w;
         cl = CheckList_updateCheckRemote now (rw_work w) (rw_hostResults w) (st_checkList (nd_state n));
         n = set_state ((nd_state n)\<lparr>st_checkList := cl\<rparr>) n;
         w' = w\<lparr>rw_hostResults := []\<rparr>
     in res_bind (res_fold (store_address lib w) (v4addresses @ v6addresses) n) (\<lambda>n.
        res_bind (expire_family lib w HM_DUALSTACK_IPV4_ONLY v4addresses n) (\<lambda>n.
        res_bind (expire_family lib w HM_DUALSTACK_IPV6_ONLY v6addresses n) (\<lambda>n. Inr (n, w')))))"

text \<open>For each address, each parameter object with a result.\<close>

definition nodata_result ::
    "'db mdbm \<Rightarrow> HMTimeStamp \<Rightarrow> HMWorkRemote \<Rightarrow> HMIPAddress \<Rightarrow> HMDataCheckParams \<times> HMDataCheckResult \<Rightarrow>
     ('db, 'c) HMNode \<Rightarrow> buffer_error + ('db, 'c) HMNode" where
  "nodata_result lib now w address = (\<lambda>(p, r) n.
     let header = \<lparr>ch_hostname = wk_hostname (rw_work w), ch_address = address, ch_hostCheck = rw_hostCheck w,
                   ch_checkParams = p\<rparr>;
         r = r\<lparr>cr_checkTime := now, cr_reason := HM_REASON_REMOTE_NODATA\<rparr>;
         cl = fst (CheckList_updateCheckHeader header r (st_checkList (nd_state n)))
     in store_address lib w address (set_state ((nd_state n)\<lparr>st_checkList := cl\<rparr>) n))"

definition nodata_address ::
    "'db mdbm \<Rightarrow> HMTimeStamp \<Rightarrow> HMWorkRemote \<Rightarrow> HMIPAddress \<Rightarrow> ('db, 'c) HMNode \<Rightarrow> buffer_error + ('db, 'c) HMNode" where
  "nodata_address lib now w address n =
     res_fold (nodata_result lib now w address)
       (fst (CheckList_getCheckResults (wk_hostname (rw_work w)) (rw_hostCheck w) address (st_checkList (nd_state n)))) n"

definition RemoteHostCheck_updateResultsNoData ::
    "'db mdbm \<Rightarrow> HMTimeStamp \<Rightarrow> ('db, 'c) HMNode \<times> HMWorkRemote \<Rightarrow> buffer_error + (('db, 'c) HMNode \<times> HMWorkRemote)" where
  "RemoteHostCheck_updateResultsNoData lib now = (\<lambda>(n, w).
     let ips = fst (CheckList_getCheckResultsAddress (wk_hostname (rw_work w)) (rw_hostCheck w)
           (hc_dualstack (rw_hostCheck w)) (st_checkList (nd_state n)))
     in res_bind (res_fold (nodata_address lib now w) ips n) (\<lambda>n. Inr (n, w)))"

definition RemoteHostCheck_updateAuxResults ::
    "('db, 'c) HMNode \<times> HMWorkRemote \<Rightarrow> buffer_error + (('db, 'c) HMNode \<times> HMWorkRemote)" where
  "RemoteHostCheck_updateAuxResults = (\<lambda>(n, w).
     let (s, aux) = fold (\<lambda>r. CheckList_storeAux (rw_work w) (rw_hostCheck w) (ga_address r) (ga_info r)
            (st_checkList (nd_state n))) (rw_auxResults w) (nd_store n, nd_auxCache n)
     in Inr (n\<lparr>nd_store := s, nd_auxCache := aux\<rparr>, w))"

definition RemoteHostCheck_reschedule :: "HMTimeStamp \<Rightarrow> HMWork \<Rightarrow> HMDaemon \<Rightarrow> HMDaemon" where
  "RemoteHostCheck_reschedule now w d =
     (let st = dm_state d;
          checkTime = RemoteHostCache_nextCheckTime now (wk_hostname w) (wk_hostCheck w) (st_remoteHostCache st)
      in if checkTime \<le> now then
           let ((c, q), _) = RemoteHostCache_queueRemoteCheck now (wk_hostname w) (wk_hostCheck w)
                 (st_remoteHostCache st, dm_workQueue d)
           in d\<lparr>dm_state := st\<lparr>st_remoteHostCache := c\<rparr>, dm_workQueue := q\<rparr>
         else d\<lparr>dm_eventLoop :=
                EventLoop_addRemoteHostTimeout (wk_hostname w) (wk_hostCheck w) checkTime (dm_eventLoop d)\<rparr>)"

definition WorkRemoteHostCheck_processWork ::
    "bool \<Rightarrow> 'db mdbm \<Rightarrow> 'c sockets \<Rightarrow> nat \<Rightarrow> HMTimeStamp \<Rightarrow> HMTimeStamp \<Rightarrow> HMWorkRemote \<Rightarrow> ('db, 'c) HMNode \<Rightarrow>
     buffer_error + (('db, 'c) HMNode \<times> HMWorkRemote \<times> HM_WORK_STATUS)" where
  "WorkRemoteHostCheck_processWork ares lib net rnd t0 t1 w n =
     (let st = nd_state n; host = wk_hostname (rw_work w);
          (c, started) = RemoteHostCache_startRemoteCheck t0 host (rw_hostCheck w) (st_remoteHostCache st)
      in if \<not> started then Inr (n, w, HM_WORK_COMPLETE)
         else
           res_bind (Remote_remoteLookup net (fetch_host net) rnd t0 (set_state (st\<lparr>st_remoteHostCache := c\<rparr>) n) w)
             (\<lambda>(n, w, status).
               let w = w\<lparr>rw_work := (rw_work w)\<lparr>wk_workStatus := status\<rparr>\<rparr>;
                   st = nd_state n;
                   n = set_state (st\<lparr>st_remoteHostCache :=
                     RemoteHostCache_finishCheck t1 host (rw_hostCheck w) True (st_remoteHostCache st)\<rparr>) n
               in res_bind (remote_update (RemoteHostCheck_updateResults lib t1) RemoteHostCheck_updateAuxResults
                      (RemoteHostCheck_updateResultsNoData lib t1) status (n, w)) (\<lambda>(n, w).
                    let d = RemoteHostCheck_reschedule t1 (rw_work w) (nd_daemon n);
                        d = (if remote_falls_back status w then fallback_lookups ares t1 (rw_hostCheck w) host d else d)
                    in Inr (n\<lparr>nd_daemon := d\<rparr>, w, status))))"

section \<open>Auxiliary fetches and health checks\<close>

text \<open>The work order as \<open>fetchAux\<close> leaves it, the text it has read, and its status.\<close>

definition WorkAuxFetch_processWork ::
    "bool \<Rightarrow> 'db mdbm \<Rightarrow> (HMWork \<Rightarrow> HMWork \<times> string \<times> HM_WORK_STATUS) \<Rightarrow> bool \<Rightarrow> aux_parser \<Rightarrow>
     HMTimeStamp \<Rightarrow> HMTimeStamp \<Rightarrow> HMTimeStamp \<Rightarrow> HMWork \<Rightarrow> ('db, 'c) HMNode \<Rightarrow>
     buffer_error + (('db, 'c) HMNode \<times> HMWork \<times> HM_WORK_STATUS)" where
  "WorkAuxFetch_processWork ares lib fetch xml parse t0 t1 t2 w n =
     (let (cl, timeout) = CheckList_startCheck t0 (wk_hostname w) (wk_ipAddress w) (wk_hostCheck w)
            (st_checkList (nd_state n));
          n = set_state ((nd_state n)\<lparr>st_checkList := cl\<rparr>) n;
          (w, auxData, result) = fetch (w\<lparr>wk_timeout := timeout\<rparr>);
          cl = CheckList_updateCheck t1 t1 w (wk_hostCheck w) cl;
          n = set_state ((nd_state n)\<lparr>st_checkList := cl\<rparr>) n
      in res_bind (store_calls lib (CheckList_storeCheck w (wk_hostCheck w) (wk_ipAddress w) cl) n) (\<lambda>n.
           let (s, aux) = CheckList_storeAux_text xml parse w (wk_hostCheck w) (wk_ipAddress w) auxData cl
                 (nd_store n, nd_auxCache n);
               n = n\<lparr>nd_store := s, nd_auxCache := aux\<rparr>
           in if \<not> wk_reschedule w then Inr (n, w, result)
              else
                let checkTime = CheckList_nextCheckTime t2 (wk_hostname w) (wk_ipAddress w) (wk_hostCheck w)
                      (st_checkList (nd_state n))
                in if checkTime \<le> t2 then
                     (case dm_queueCheck ares t2 (wk_hostname w) (wk_ipAddress w) (wk_hostCheck w) (nd_daemon n) of
                        None \<Rightarrow> Inl null_pointer
                      | Some d \<Rightarrow> Inr (n\<lparr>nd_daemon := d\<rparr>, w, result))
                   else Inr (n\<lparr>nd_daemon := dm_addHealthCheckTimeout (wk_hostname w) (wk_ipAddress w)
                                (wk_hostCheck w) checkTime (nd_daemon n)\<rparr>, w, result)))"

text \<open>A health check of \<open>HMWorkHealthCheck\<close> with its calls to the storage carried out.\<close>

definition Node_healthCheck ::
    "bool \<Rightarrow> 'db mdbm \<Rightarrow> (HMWork \<Rightarrow> HMWork \<times> HM_WORK_STATUS) \<Rightarrow> HMTimeStamp \<Rightarrow> HMTimeStamp \<Rightarrow> HMTimeStamp \<Rightarrow>
     HMWork \<Rightarrow> ('db, 'c) HMNode \<Rightarrow> buffer_error + (('db, 'c) HMNode \<times> HMWork)" where
  "Node_healthCheck ares lib probe t0 t1 t2 w n =
     (case WorkHealthCheck_processWork ares probe t0 t1 t2 w ((nd_daemon n)\<lparr>dm_stored := []\<rparr>) of
        None \<Rightarrow> Inl null_pointer
      | Some (d, w) \<Rightarrow>
          res_bind (store_calls lib (dm_stored d) (n\<lparr>nd_daemon := d\<lparr>dm_stored := []\<rparr>\<rparr>)) (\<lambda>n. Inr (n, w)))"

section \<open>Results of another daemon\<close>

definition target_header :: "HMDataHostGroup \<Rightarrow> string \<Rightarrow> HMIPAddress \<Rightarrow> HMCheckHeader" where
  "target_header grp host address =
     \<lparr>ch_hostname = host, ch_address = address, ch_hostCheck = fst (HostGroup_getHostCheck grp HostCheck_default),
      ch_checkParams = fst (HostGroup_getCheckParameters grp CheckParams_default)\<rparr>"

definition target_connection :: "HMDataHostCheck \<Rightarrow> HMDataCheckResult \<Rightarrow> HMConnectionCheck" where
  "target_connection hc r =
     ConnectionCheck_new (cr_port r) (cr_address r) (hc_remoteCheckType hc) (hc_sourceAddress hc) (hc_TOSValue hc)"

definition remote_answers ::
    "'c sockets \<Rightarrow> HMState \<Rightarrow> HMDataHostGroup \<Rightarrow> HMWork \<Rightarrow> string \<times> HMIPAddress \<Rightarrow> HMGroupCheckResult list \<Rightarrow> bool" where
  "remote_answers net st grp w target rs \<longleftrightarrow>
     (case CheckList_getCheckResult (target_header grp (fst target) (snd target)) (st_checkList st) of
        None \<Rightarrow> False
      | Some r \<Rightarrow>
          cr_response r = HM_RESPONSE_CONNECTED
          \<and> (let c = so_connect net (target_connection (wk_hostCheck w) r)
             in so_reason net c = HM_REASON_SUCCESS
                \<and> so_groupResults net c (wk_hostname w) = (rs, HM_SOCK_DATA_OK)))"

definition lookup_work :: "HMTimeStamp \<Rightarrow> HMGroupCheckResult list \<Rightarrow> HMWorkRemote \<Rightarrow> HMWorkRemote" where
  "lookup_work now rs w =
     w\<lparr>rw_work := (rw_work w)\<lparr>wk_start := now, wk_end := now, wk_reason := HM_REASON_NONE,
          wk_response := HM_RESPONSE_FAILED\<rparr>, rw_results := rs\<rparr>"

lemma lookup_first_target:
  fixes w :: HMWorkRemote and n :: "('db, 'c) HMNode"
  defines "hc \<equiv> rw_hostCheck w"
  assumes "hc_remoteCheck hc \<noteq> []" and "group_find (hc_remoteCheck hc) (st_hostGroups (nd_state n)) = Some grp"
    and "remote_targets (nd_state n) grp (rw_work w) = target # rest"
    and "remote_answers net (nd_state n) grp (rw_work w) target rs"
    and "hc_remoteCheckType hc = HM_REMOTE_CHECK_TCP \<or> hc_remoteCheckType hc = HM_REMOTE_CHECK_TCPS"
    and "\<not> check_is_aux (hc_checkType hc)"
  shows "Remote_remoteLookup net (fetch_group net) rnd now n w = Inr (n, lookup_work now rs w, HM_WORK_COMPLETE_REMOTE)"
proof -
  obtain host address where target: "target = (host, address)" by fastforce
  have targets: "remote_targets (nd_state n) grp ((rw_work w)\<lparr>wk_start := now, wk_end := now,
      wk_reason := HM_REASON_NONE, wk_response := HM_RESPONSE_FAILED\<rparr>) = (host, address) # rest"
    using assms(4) by (simp add: remote_targets_def target)
  show ?thesis
    using assms(2-3,5-7)
    by (auto simp: Remote_remoteLookup_def Remote_remoteCheck_def hc_def targets target remote_answers_def
        target_header_def target_connection_def Remote_getHostResult_def fetch_group_def lookup_work_def Let_def
        split: option.splits)
qed

lemma group_results_replace:
  assumes "mmap_sorted (<) m"
  shows "group_results k (replace_group name rs m) = (if k = name then rs else group_results k m)"
    and "mmap_sorted (<) (replace_group name rs m)"
proof -
  have er: "mmap_sorted (<) (smap_erase (<) name m)"
    using assms by (simp add: mmap_sorted_def smap_erase_def sorted_wrt_filter)
  have "mmap_sorted (<) m' \<Longrightarrow> mmap_sorted (<) (fold (mmap_insert (<) name) rs m')
      \<and> group_results k (fold (mmap_insert (<) name) rs m') =
        group_results k m' @ (if k = name then rs else [])" for m'
    by (induction rs arbitrary: m') (simp_all add: name_order.mmap_sorted_insert group_results_insert)
  moreover have "group_results k (smap_erase (<) name m) = (if k = name then [] else group_results k m)"
    using assms er
    by (auto simp: group_results_filter smap_erase_def key_equiv_linorder case_prod_unfold filter_filter
        intro!: arg_cong [where f = "map snd"] filter_cong)
  ultimately show "group_results k (replace_group name rs m) = (if k = name then rs else group_results k m)"
    and "mmap_sorted (<) (replace_group name rs m)"
    using er by (simp_all add: replace_group_def)
qed

lemma store_group_run:
  assumes "mdbm_ok lib" and "store_open s" and "mmap_sorted (<) (sg_hostGroupResults s)" and "list_all check_fits rs"
    and "8 + length (concat (map put_check rs)) < 2 ^ 31"
  shows "\<exists>s'. Storage_storeHostGroupCheckResult lib name rs s = Inr (s', True) \<and> store_open s'
    \<and> sg_hostGroupResults s' = replace_group name rs (sg_hostGroupResults s) \<and> sg_hostGroupAux s' = sg_hostGroupAux s
    \<and> MDBM_getHostGroupCheckResults_vector lib name [] s' = Inr (map stored_check rs, True)
    \<and> (\<forall>k. k \<noteq> HM_MDBM_CHECK_PREFIX @ name \<longrightarrow> mdbm_read lib k s' = mdbm_read lib k s)"
proof -
  let ?s = "s\<lparr>sg_hostGroupResults := replace_group name rs (sg_hostGroupResults s)\<rparr>"
  have op: "store_open ?s" using assms(2) by (simp add: store_open_def)
  have entries: "group_results name (sg_hostGroupResults ?s) = rs"
    using group_results_replace(1) [OF assms(3), of name name rs] by simp
  have "list_all (\<lambda>g. gr_hostName g \<noteq> []) (group_results name (sg_hostGroupResults ?s))"
    using assms(4) unfolding entries by (auto simp: list_all_iff check_fits_def host_fits_def)
  from storeHostGroupCheckResults_run [OF assms(1) op this] assms(5)
  obtain s' where s': "MDBM_storeHostGroupCheckResults lib name ?s = Inr (s', True)" "store_open s'"
      "s' = ?s\<lparr>sg_db := sg_db s'\<rparr>" "\<And>k. k \<noteq> HM_MDBM_CHECK_PREFIX @ name \<Longrightarrow> mdbm_read lib k s' = mdbm_read lib k ?s"
      "MDBM_getHostGroupCheckResults_vector lib name [] s' = checks_loop (length rs) (concat (map put_check rs))"
    unfolding entries by metis
  have "sg_hostGroupResults s' = replace_group name rs (sg_hostGroupResults s)" "sg_hostGroupAux s' = sg_hostGroupAux s"
    using arg_cong [OF s'(3), of sg_hostGroupResults] arg_cong [OF s'(3), of sg_hostGroupAux] by simp_all
  moreover have "mdbm_read lib k ?s = mdbm_read lib k s" for k by (simp add: mdbm_read_def)
  ultimately show ?thesis
    using s' assms(2,5) checks_loop_put [OF assms(4)]
    by (simp add: Storage_storeHostGroupCheckResult_def store_open_def)
qed

lemma store_no_aux:
  assumes "mdbm_ok lib" and "store_open s" and "mmap_sorted (<) (sg_hostGroupAux s)"
  shows "\<exists>s'. Storage_storeHostGroupAuxResult lib name [] s = Inr (s', True)
    \<and> sg_hostGroupResults s' = sg_hostGroupResults s
    \<and> (\<forall>k. k \<noteq> HM_MDBM_AUX_PREFIX @ name \<longrightarrow> mdbm_read lib k s' = mdbm_read lib k s)"
proof -
  let ?s = "s\<lparr>sg_hostGroupAux := replace_group name [] (sg_hostGroupAux s)\<rparr>"
  have op: "store_open ?s" using assms(2) by (simp add: store_open_def)
  have "group_results name (sg_hostGroupAux ?s) = []"
    using group_results_replace(1) [OF assms(3), of name name "[]"] by simp
  then obtain s' ok where "MDBM_storeHostGroupAuxInfo lib name ?s = Inr (s', ok)" "same_store ?s s'"
      "\<forall>k. k \<noteq> HM_MDBM_AUX_PREFIX @ name \<longrightarrow> mdbm_read lib k s' = mdbm_read lib k ?s"
    using aux_write_run [OF assms(1) op, of name] by auto
  moreover have "mdbm_read lib k ?s = mdbm_read lib k s" for k by (simp add: mdbm_read_def)
  ultimately show ?thesis
    using assms(2) same_store_fields(8) [of ?s s'] by (simp add: Storage_storeHostGroupAuxResult_def store_open_def)
qed

definition stamped :: "HMTimeStamp \<Rightarrow> HMGroupCheckResult \<Rightarrow> HMGroupCheckResult" where
  "stamped now r =
     r\<lparr>gr_result := (gr_result r)\<lparr>cr_remoteCheckTime := cr_checkTime (gr_result r), cr_checkTime := now\<rparr>\<rparr>"

lemma vector_read_cong:
  "mdbm_read lib (HM_MDBM_CHECK_PREFIX @ name) s' = mdbm_read lib (HM_MDBM_CHECK_PREFIX @ name) s \<Longrightarrow>
     MDBM_getHostGroupCheckResults_vector lib name rs s' = MDBM_getHostGroupCheckResults_vector lib name rs s"
  by (simp add: MDBM_getHostGroupCheckResults_vector_def)

text \<open>What a remote group check leaves of the results when the first daemon that it asks answers.\<close>

lemma remote_results_taken:
  fixes n :: "('db, 'c) HMNode" and w :: HMWorkRemote and t1 :: HMTimeStamp
  defines "name \<equiv> wk_hostname (rw_work w)"
  assumes "mdbm_ok lib" and "store_open (nd_store n)" and "mmap_sorted (<) (sg_hostGroupResults (nd_store n))"
    and "mmap_sorted (<) (sg_hostGroupAux (nd_store n))" and "rw_auxResults w = []"
    and "list_all check_fits (map (stamped t1) (rw_results w))"
    and "8 + length (concat (map put_check (map (stamped t1) (rw_results w)))) < 2 ^ 31"
  shows "\<exists>s'. remote_update (RemoteCheck_updateResults lib t1) (RemoteCheck_updateAuxResults lib)
      (RemoteCheck_updateResultsNoData lib t1) HM_WORK_COMPLETE_REMOTE (n, w) = Inr (n\<lparr>nd_store := s'\<rparr>, w\<lparr>rw_results := []\<rparr>)
    \<and> group_results name (sg_hostGroupResults s') = map (stamped t1) (rw_results w)
    \<and> (\<forall>k. k \<noteq> name \<longrightarrow> group_results k (sg_hostGroupResults s') = group_results k (sg_hostGroupResults (nd_store n)))
    \<and> MDBM_getHostGroupCheckResults_vector lib name [] s' = Inr (map stored_check (map (stamped t1) (rw_results w)), True)"
proof -
  let ?rs = "map (stamped t1) (rw_results w)"
  from store_group_run [OF assms(2-4,7,8), of name]
  obtain s1 where s1: "Storage_storeHostGroupCheckResult lib name ?rs (nd_store n) = Inr (s1, True)" "store_open s1"
      "sg_hostGroupResults s1 = replace_group name ?rs (sg_hostGroupResults (nd_store n))"
      "sg_hostGroupAux s1 = sg_hostGroupAux (nd_store n)"
      "MDBM_getHostGroupCheckResults_vector lib name [] s1 = Inr (map stored_check ?rs, True)"
    by blast
  obtain s2 where s2: "Storage_storeHostGroupAuxResult lib name [] s1 = Inr (s2, True)"
      "sg_hostGroupResults s2 = sg_hostGroupResults s1"
      "\<forall>k. k \<noteq> HM_MDBM_AUX_PREFIX @ name \<longrightarrow> mdbm_read lib k s2 = mdbm_read lib k s1"
    using store_no_aux [OF assms(2) s1(2), of name] s1(4) assms(5) by auto
  have "RemoteCheck_updateResults lib t1 (n, w) = Inr (n\<lparr>nd_store := s1\<rparr>, w\<lparr>rw_results := []\<rparr>)"
    using s1(1) by (simp add: RemoteCheck_updateResults_def name_def stamped_def [abs_def] Let_def)
  moreover have "RemoteCheck_updateAuxResults lib (n\<lparr>nd_store := s1\<rparr>, w\<lparr>rw_results := []\<rparr>) =
      Inr (n\<lparr>nd_store := s2\<rparr>, w\<lparr>rw_results := []\<rparr>)"
    using s2(1) assms(6) by (simp add: RemoteCheck_updateAuxResults_def name_def)
  ultimately have "remote_update (RemoteCheck_updateResults lib t1) (RemoteCheck_updateAuxResults lib)
      (RemoteCheck_updateResultsNoData lib t1) HM_WORK_COMPLETE_REMOTE (n, w) = Inr (n\<lparr>nd_store := s2\<rparr>, w\<lparr>rw_results := []\<rparr>)"
    by (simp add: remote_update_def)
  moreover have "mdbm_read lib (HM_MDBM_CHECK_PREFIX @ name) s2 = mdbm_read lib (HM_MDBM_CHECK_PREFIX @ name) s1"
    using s2(3) keys_differ(6) by blast
  then have "MDBM_getHostGroupCheckResults_vector lib name [] s2 = Inr (map stored_check ?rs, True)"
    using vector_read_cong s1(5) by metis
  ultimately show ?thesis
    using group_results_replace(1) [OF assms(4)] by (auto simp: s2(2) s1(3))
qed

text \<open>
  C21: the results of another daemon replace those of the group. A remote check of a host group that is
  registered, when the first host of the remote group was reached by its own check and its daemon
  answers: the work order ends as a remote success; the cached results of the group are exactly those
  of the other daemon, with the time of their check kept as the remote time and the time of the
  answer as the time of the check; they are what is read back from the data store; and the cached
  results of the other groups stay.
\<close>

theorem remote_group_results_stored:
  fixes n :: "('db, 'c) HMNode" and w :: HMWorkRemote
  defines "hc \<equiv> rw_hostCheck w" and "name \<equiv> wk_hostname (rw_work w)" and "st \<equiv> nd_state n"
  assumes "mdbm_ok lib" and "store_open (nd_store n)" and "mmap_sorted (<) (sg_hostGroupResults (nd_store n))"
    and "mmap_sorted (<) (sg_hostGroupAux (nd_store n))" and "rw_auxResults w = []"
    and "group_find name (st_remoteCache st) \<noteq> None"
    and "hc_remoteCheck hc \<noteq> []" and "group_find (hc_remoteCheck hc) (st_hostGroups st) = Some grp"
    and "remote_targets st grp (rw_work w) = target # rest" and "remote_answers net st grp (rw_work w) target rs"
    and "hc_remoteCheckType hc = HM_REMOTE_CHECK_TCP \<or> hc_remoteCheckType hc = HM_REMOTE_CHECK_TCPS"
    and "\<not> check_is_aux (hc_checkType hc)"
    and "list_all check_fits (map (stamped t1) rs)"
    and "8 + length (concat (map put_check (map (stamped t1) rs))) < 2 ^ 31"
  shows "\<exists>n' w'. WorkRemoteCheck_processWork ares lib net rnd t0 t1 w n = Inr (n', w', HM_WORK_COMPLETE_REMOTE)
    \<and> group_results name (sg_hostGroupResults (nd_store n')) = map (stamped t1) rs
    \<and> (\<forall>k. k \<noteq> name \<longrightarrow>
         group_results k (sg_hostGroupResults (nd_store n')) = group_results k (sg_hostGroupResults (nd_store n)))
    \<and> MDBM_getHostGroupCheckResults_vector lib name [] (nd_store n') = Inr (map stored_check (map (stamped t1) rs), True)"
proof -
  obtain c where c: "RemoteHostGroupCache_startRemoteCheck t0 name (st_remoteCache st) = (c, True)"
    using assms(9) by (auto simp: RemoteHostGroupCache_startRemoteCheck_def)
  let ?n1 = "set_state (st\<lparr>st_remoteCache := c\<rparr>) n"
  have "remote_targets (nd_state ?n1) grp (rw_work w) = target # rest"
    "remote_answers net (nd_state ?n1) grp (rw_work w) target rs"
    "group_find (hc_remoteCheck hc) (st_hostGroups (nd_state ?n1)) = Some grp"
    using assms(11-13) by (simp_all add: set_state_def remote_targets_def remote_answers_def)
  from lookup_first_target [OF assms(10) [unfolded hc_def] this(3) [unfolded hc_def] this(1,2) assms(14,15) [unfolded hc_def]]
  have look: "Remote_remoteLookup net (fetch_group net) rnd t0 ?n1 w =
      Inr (?n1, lookup_work t0 rs w, HM_WORK_COMPLETE_REMOTE)" by simp
  define w2 where "w2 = (lookup_work t0 rs w)\<lparr>rw_work := (rw_work (lookup_work t0 rs w))\<lparr>wk_workStatus := HM_WORK_COMPLETE_REMOTE\<rparr>\<rparr>"
  define n2 where "n2 = set_state ((nd_state ?n1)\<lparr>st_remoteCache :=
      RemoteHostGroupCache_finishCheck t1 name True (st_remoteCache (nd_state ?n1))\<rparr>) ?n1"
  have w2: "wk_hostname (rw_work w2) = name" "rw_results w2 = rs" "rw_auxResults w2 = []"
    using assms(8) by (simp_all add: w2_def lookup_work_def name_def)
  have host: "wk_hostname (rw_work (lookup_work t0 rs w)) = name" by (simp add: lookup_work_def name_def)
  have n2: "nd_store n2 = nd_store n" by (simp add: n2_def set_state_def)
  from remote_results_taken [of lib n2 w2 t1, unfolded n2 w2, OF assms(4-7) refl assms(16,17)]
  obtain s' where s': "remote_update (RemoteCheck_updateResults lib t1) (RemoteCheck_updateAuxResults lib)
      (RemoteCheck_updateResultsNoData lib t1) HM_WORK_COMPLETE_REMOTE (n2, w2) = Inr (n2\<lparr>nd_store := s'\<rparr>, w2\<lparr>rw_results := []\<rparr>)"
    "group_results name (sg_hostGroupResults s') = map (stamped t1) rs"
    "\<forall>k. k \<noteq> name \<longrightarrow> group_results k (sg_hostGroupResults s') = group_results k (sg_hostGroupResults (nd_store n))"
    "MDBM_getHostGroupCheckResults_vector lib name [] s' = Inr (map stored_check (map (stamped t1) rs), True)"
    by blast
  have "WorkRemoteCheck_processWork ares lib net rnd t0 t1 w n =
      Inr (n2\<lparr>nd_store := s', nd_daemon := RemoteCheck_reschedule t1 (rw_work (w2\<lparr>rw_results := []\<rparr>)) (nd_daemon n2)\<rparr>,
        w2\<lparr>rw_results := []\<rparr>, HM_WORK_COMPLETE_REMOTE)"
    using c look s'(1)
    by (simp add: WorkRemoteCheck_processWork_def remote_falls_back_def Let_def host flip: st_def name_def w2_def n2_def)
  then show ?thesis using s'(2-4) by auto
qed

section \<open>Rescheduling\<close>

text \<open>The next check of a remote group is a work order in the queue or a timeout of the event loop.\<close>

definition remote_pending :: "string \<Rightarrow> HMDaemon \<Rightarrow> bool" where
  "remote_pending name d \<longleftrightarrow>
     list_ex (\<lambda>x. wk_class x = HMWorkRemoteCheckRemote \<and> wk_hostname x = name) (wq_queue (dm_workQueue d))
     \<or> list_ex (\<lambda>t. \<exists>time. t = Timeout_remote name time) (el_timeouts (dm_eventLoop d))"

lemma queueDNS_keeps_work:
  "set (wq_queue (dm_workQueue d)) \<subseteq> set (wq_queue (dm_workQueue (dm_queueDNS ares now host lookup d)))
   \<and> dm_eventLoop (dm_queueDNS ares now host lookup d) = dm_eventLoop d"
  by (auto simp: dm_queueDNS_def state_queueDNS_def DNSCache_queueDNSQuery_def WorkQueue_insertWork_def Let_def
      split: option.splits prod.splits)

lemma pending_grows:
  "remote_pending name d \<Longrightarrow> set (wq_queue (dm_workQueue d)) \<subseteq> set (wq_queue (dm_workQueue d'))
     \<and> dm_eventLoop d' = dm_eventLoop d \<Longrightarrow> remote_pending name d'"
  by (auto simp: remote_pending_def list_ex_iff)

lemma fallback_keeps_pending:
  "remote_pending name d \<Longrightarrow> remote_pending name (fallback_lookups ares now check host d)"
  using pending_grows [OF _ queueDNS_keeps_work] by (simp add: fallback_lookups_def Let_def)

lemma fallback_group_keeps_pending:
  "remote_pending name d \<Longrightarrow> remote_pending name (fst (RemoteCheck_fallback ares now w d))"
proof -
  have "remote_pending name d \<Longrightarrow> remote_pending name (fold (fallback_lookups ares now check) hosts d)" for check hosts d
    by (induction hosts arbitrary: d) (simp_all add: fallback_keeps_pending)
  then show "remote_pending name d \<Longrightarrow> remote_pending name (fst (RemoteCheck_fallback ares now w d))"
    by (simp add: RemoteCheck_fallback_def split: option.split)
qed

lemma reschedule_pending:
  assumes "group_find (wk_hostname w) (st_remoteCache (dm_state d)) \<noteq> None"
    and "group_find (wk_hostname w) (st_hostGroups (dm_state d)) = Some g" and "remote_supported (hg_remoteCheckType g)"
  shows "remote_pending (wk_hostname w) (RemoteCheck_reschedule now w d)"
  using assms
  by (auto simp: RemoteCheck_reschedule_def Let_def RemoteHostGroupCache_queueRemoteCheck_def remote_pending_def
      WorkQueue_insertWork_def remote_group_work_def Work_new_def EventLoop_addRemoteTimeout_def)

text \<open>The lookup and the updates of the results leave the daemon and the identity of the work order.\<close>

definition remote_frame :: "HMDaemon \<times> string \<Rightarrow> ('db, 'c) HMNode \<times> HMWorkRemote \<Rightarrow> bool" where
  "remote_frame f p \<longleftrightarrow> nd_daemon (fst p) = fst f \<and> wk_hostname (rw_work (snd p)) = snd f"

lemma fetch_group_work: "rw_work (fst (fetch_group net c w)) = rw_work w"
  by (auto simp: fetch_group_def Let_def split: prod.splits)

lemma getHostResult_work:
  "Remote_getHostResult net (fetch_group net) rnd r p = Inr (p', ok) \<Longrightarrow> rw_work (snd p') = rw_work (snd p)"
  using fetch_group_work [of net]
  by (auto simp: Remote_getHostResult_def Let_def split: prod.splits HM_REMOTE_CHECK_TYPE.splits if_splits
      option.splits; metis fst_conv)

lemma remoteCheck_loop_work:
  "remoteCheck_loop net (fetch_group net) rnd st grp ts p = Inr (p', ok) \<Longrightarrow> rw_work (snd p') = rw_work (snd p)"
proof (induction ts arbitrary: p)
  case (Cons t ts)
  obtain h a where t: "t = (h, a)" by fastforce
  from Cons.prems show ?case
    by (auto simp: t Cons.IH getHostResult_work dest: getHostResult_work split: option.splits sum.splits if_splits prod.splits)
qed simp

lemma remoteLookup_frame:
  assumes "Remote_remoteLookup net (fetch_group net) rnd now n w = Inr (n', w', status)"
  shows "remote_frame (nd_daemon n, wk_hostname (rw_work w)) (n', w')"
  using assms
  by (auto simp: Remote_remoteLookup_def Remote_remoteCheck_def Let_def res_bind_Inr remote_frame_def
      dest!: remoteCheck_loop_work split: if_splits option.splits)

lemma remote_update_frame:
  assumes "remote_update (RemoteCheck_updateResults lib t) (RemoteCheck_updateAuxResults lib)
      (RemoteCheck_updateResultsNoData lib t) status p = Inr p'" and "remote_frame f p"
  shows "remote_frame f p'"
  using assms
  by (auto simp: remote_update_def RemoteCheck_updateResults_def RemoteCheck_updateAuxResults_def
      RemoteCheck_updateResultsNoData_def Let_def res_bind_Inr remote_frame_def split_beta split: if_splits)

text \<open>
  C22: a remote check of a host group is never lost. Whatever another daemon answers, or when none answers,
  the work order that ends without an error has queued the next check of its group, as a work order
  or as a timeout, as long as the group is in the configuration with a remote check that is supported.
\<close>

theorem remote_check_rescheduled:
  assumes "WorkRemoteCheck_processWork ares lib net rnd t0 t1 w n = Inr (n', w', status)"
    and "group_find (wk_hostname (rw_work w)) (st_remoteCache (nd_state n)) \<noteq> None"
    and "group_find (wk_hostname (rw_work w)) (st_hostGroups (nd_state n)) = Some g"
    and "remote_supported (hg_remoteCheckType g)"
  shows "remote_pending (wk_hostname (rw_work w)) (nd_daemon n')"
proof -
  let ?name = "wk_hostname (rw_work w)" and ?st = "nd_state n"
  obtain c where c: "RemoteHostGroupCache_startRemoteCheck t0 ?name (st_remoteCache ?st) = (c, True)"
      "group_find ?name c \<noteq> None"
    using assms(2) by (auto simp: RemoteHostGroupCache_startRemoteCheck_def)
  let ?n1 = "set_state (?st\<lparr>st_remoteCache := c\<rparr>) n"
  from assms(1) obtain n2 w2 status2 n3 w3 where
    look: "Remote_remoteLookup net (fetch_group net) rnd t0 ?n1 w = Inr (n2, w2, status2)"
    and up: "remote_update (RemoteCheck_updateResults lib t1) (RemoteCheck_updateAuxResults lib)
        (RemoteCheck_updateResultsNoData lib t1) status2
        (set_state ((nd_state n2)\<lparr>st_remoteCache :=
           RemoteHostGroupCache_finishCheck t1 (wk_hostname (rw_work w2)) True (st_remoteCache (nd_state n2))\<rparr>) n2,
         w2\<lparr>rw_work := (rw_work w2)\<lparr>wk_workStatus := status2\<rparr>\<rparr>) = Inr (n3, w3)"
    and fin: "nd_daemon n' = (let d = RemoteCheck_reschedule t1 (rw_work w3) (nd_daemon n3)
        in fst (if remote_falls_back status2 w3 then RemoteCheck_fallback ares t1 (rw_work w3) d else (d, True)))"
    by (auto simp: WorkRemoteCheck_processWork_def c(1) Let_def res_bind_Inr split_beta)
  have n2: "nd_daemon n2 = nd_daemon ?n1" "wk_hostname (rw_work w2) = ?name"
    using remoteLookup_frame [OF look] by (simp_all add: remote_frame_def)
  define d2 where "d2 = (nd_daemon ?n1)\<lparr>dm_state := (nd_state ?n1)\<lparr>st_remoteCache :=
      RemoteHostGroupCache_finishCheck t1 ?name True c\<rparr>\<rparr>"
  have "remote_frame (d2, ?name) (n3, w3)"
    by (rule remote_update_frame [OF up]) (simp add: remote_frame_def n2 d2_def set_state_def)
  then have n3: "nd_daemon n3 = d2" "wk_hostname (rw_work w3) = ?name" by (simp_all add: remote_frame_def)
  have "group_find ?name (st_remoteCache (dm_state d2)) \<noteq> None"
    "group_find ?name (st_hostGroups (dm_state d2)) = Some g"
    using c(2) assms(3) by (auto simp: d2_def set_state_def RemoteHostGroupCache_finishCheck_def)
  then have "remote_pending ?name (RemoteCheck_reschedule t1 (rw_work w3) d2)"
    using reschedule_pending [of "rw_work w3" d2 g t1] assms(4) by (simp add: n3(2))
  then show ?thesis
    using fallback_group_keeps_pending by (simp add: fin n3(1) Let_def)
qed

section \<open>Health checks and the storage\<close>

text \<open>The updates that a call of the check list puts into the queue of the storage.\<close>

fun call_updates :: "store_call \<Rightarrow> HMGroupCheckUpdate list" where
  "call_updates (StoreCheckResult hostname address hostCheck p result) =
     map (\<lambda>g. \<lparr>gu_hostGroup = g, gu_hostName = hostname, gu_address = address, gu_result = result\<rparr>)
       (CheckParams_getHostGroups p)"
| "call_updates (PurgeCheckResult hostname address hostCheck p) = []"

fun is_store :: "store_call \<Rightarrow> bool" where
  "is_store (StoreCheckResult hostname address hostCheck p result) = True"
| "is_store (PurgeCheckResult hostname address hostCheck p) = False"

lemma store_calls_queue:
  assumes "list_all is_store cs" and "\<not> sg_readonly s"
  shows "res_fold (store_call lib) cs s = Inr (s\<lparr>sg_storeCheckQueue := sg_storeCheckQueue s @ concat (map call_updates cs)\<rparr>)"
  using assms
proof (induction cs arbitrary: s)
  case (Cons c cs)
  obtain h a hc p r where c: "c = StoreCheckResult h a hc p r" using Cons.prems(1) by (cases c) auto
  have "fst (Storage_storeCheckResult h a p r s) =
      s\<lparr>sg_storeCheckQueue := sg_storeCheckQueue s @ call_updates c\<rparr>"
    using Cons.prems(2) by (simp add: Storage_storeCheckResult_def c Let_def)
  then show ?case
    using Cons.IH [of "s\<lparr>sg_storeCheckQueue := sg_storeCheckQueue s @ call_updates c\<rparr>"] Cons.prems
    by (simp add: store_call_def c)
qed simp

lemma healthCheck_stored:
  "dm_stored (fst (healthCheck probe t0 t1 w d)) = dm_stored d"
  by (auto simp: healthCheck_def WorkHealhMultiWork_healthCheck_def Let_def split: work_class.splits prod.splits)

lemma conduct_stored: "dm_stored (fst (HealthCheck_conduct probe t0 t1 w d)) = dm_stored d"
  using healthCheck_stored [of probe t0 t1] by (auto simp: HealthCheck_conduct_def Let_def set_checkList_def split_beta)

lemma storeCheck_is_store: "list_all is_store (CheckList_storeCheck w hostCheck address cl)"
  by (auto simp: CheckList_storeCheck_def list_all_iff List.map_filter_def)

lemma reschedule_stored: "HealthCheck_reschedule ares t w d = Some d' \<Longrightarrow> dm_stored d' = dm_stored d"
  by (auto simp: HealthCheck_reschedule_def Let_def dm_queueCheck_def dm_addHealthCheckTimeout_def split: if_splits)

lemma processWork_stores:
  assumes "WorkHealthCheck_processWork ares probe t0 t1 t2 w d = Some (d', w')" and "dm_stored d = []"
  shows "list_all is_store (dm_stored d')"
proof -
  obtain d1 w1 where 1: "HealthCheck_conduct probe t0 t1 w d = (d1, w1)" by fastforce
  have d1: "dm_stored d1 = []" using conduct_stored [of probe t0 t1 w d] assms(2) by (simp add: 1)
  have "list_all is_store (dm_stored (HealthCheck_result t1 w1 d1))"
    by (simp add: HealthCheck_result_def Let_def set_checkList_def d1 storeCheck_is_store)
  then show ?thesis
    using assms(1) d1
    by (auto simp: WorkHealthCheck_processWork_def 1 Let_def dest!: reschedule_stored split: if_splits)
qed

text \<open>
  Every result of a health check reaches the storage. For a storage that can be written, a health
  check that ends puts, in the order in which the check list stores its results, one update for every
  group of every stored result into the queue of the storage, behind the updates that wait there, and
  changes nothing else of the storage.
\<close>

theorem check_results_queued:
  assumes "WorkHealthCheck_processWork ares probe t0 t1 t2 w ((nd_daemon n)\<lparr>dm_stored := []\<rparr>) = Some (d, w')"
    and "\<not> sg_readonly (nd_store n)"
  shows "\<exists>n'. Node_healthCheck ares lib probe t0 t1 t2 w n = Inr (n', w') \<and> nd_daemon n' = d\<lparr>dm_stored := []\<rparr>
    \<and> nd_store n' = (nd_store n)\<lparr>sg_storeCheckQueue :=
        sg_storeCheckQueue (nd_store n) @ concat (map call_updates (dm_stored d))\<rparr>"
  using assms(1) store_calls_queue [OF processWork_stores [OF assms(1)] assms(2), of lib]
  by (simp add: Node_healthCheck_def store_calls_def)

section \<open>Witnesses\<close>

definition sample_node :: "HMState \<Rightarrow> (string \<times> mdbm_value) list HMStorage \<Rightarrow> ((string \<times> mdbm_value) list, unit) HMNode" where
  "sample_node st s = \<lparr>nd_daemon = w_daemon\<lparr>dm_state := st\<rparr>, nd_store = s, nd_auxCache = [],
     nd_connections = ConnectionHandler_new False 2\<rparr>"

definition sample_net :: "unit sockets" where
  "sample_net = \<lparr>so_connect = (\<lambda>_. ()), so_reason = (\<lambda>_. HM_REASON_SUCCESS),
     so_groupResults = (\<lambda>_ _. ([sample_entry ''h''], HM_SOCK_DATA_OK)), so_groupFeedback = (\<lambda>_ _. ([], HM_SOCK_DATA_EMPTY)),
     so_hostResults = (\<lambda>_ _ _. ([], HM_SOCK_DATA_EMPTY)), so_hostFeedback = (\<lambda>_ _ _. ([], HM_SOCK_DATA_EMPTY))\<rparr>"

definition sample_remote :: HMWorkRemote where
  "sample_remote = WorkRemote_new (Work_new HMWorkRemoteCheckRemote ''g'' (INET 0)
     (w_check\<lparr>hc_remoteCheck := ''web'', hc_remoteCheckType := HM_REMOTE_CHECK_TCP\<rparr>))"

definition sample_remote_state :: HMState where
  "sample_remote_state = (w_state (INET 7))\<lparr>st_remoteCache := [(''g'', RemoteResult_new 100 50)],
     st_checkList := CheckList_new\<lparr>cl_checklist := [((''h1'', w_group_check), 0,
       (fst (HostGroup_getCheckParameters sample_group CheckParams_default))
         \<lparr>cp_checkData := [(INET 7, CheckResult_default\<lparr>cr_response := HM_RESPONSE_CONNECTED\<rparr>)]\<rparr>)]\<rparr>\<rparr>"

lemma sample_targets:
  "remote_targets sample_remote_state sample_group (rw_work sample_remote) = [(''h1'', INET 7)]"
  by (simp add: remote_targets_def w_group_check w_group sample_remote_def WorkRemote_new_def Work_new_def Let_def)
    (simp add: sample_remote_state_def w_addresses, simp add: DNSCache_getAddresses_def family_fold_def
      DNSCache_getDNSResult_def w_state_def DNSLookup_default_def DNSLookup_new_def key_equiv_def dns_key_less_def)

lemma sample_answers:
  "remote_answers sample_net sample_remote_state sample_group (rw_work sample_remote) (''h1'', INET 7) [sample_entry ''h'']"
proof -
  let ?p = "fst (HostGroup_getCheckParameters sample_group CheckParams_default)"
  let ?r = "CheckResult_default\<lparr>cr_response := HM_RESPONSE_CONNECTED\<rparr>"
  have "range_params (''h1'', w_group_check) (st_checkList sample_remote_state) = [?p\<lparr>cp_checkData := [(INET 7, ?r)]\<rparr>]"
    by (simp add: range_params_filter sample_remote_state_def mmap_sorted_def)
  then have "CheckList_getCheckResult (target_header sample_group ''h1'' (INET 7)) (st_checkList sample_remote_state) = Some ?r"
    by (simp add: CheckList_getCheckResult_def target_header_def CheckParams_eq_def CheckParams_getCheckResult_def
        List.map_filter_def)
  then show ?thesis by (simp add: remote_answers_def sample_net_def)
qed

lemma remote_group_results_stored_witness:
  "\<exists>n' w'. WorkRemoteCheck_processWork True alist_lib sample_net 1 5 6 sample_remote
       (sample_node sample_remote_state (sample_store ''h'')) = Inr (n', w', HM_WORK_COMPLETE_REMOTE)
     \<and> group_results ''g'' (sg_hostGroupResults (nd_store n')) = [stamped 6 (sample_entry ''h'')]
     \<and> MDBM_getHostGroupCheckResults_vector alist_lib ''g'' [] (nd_store n') =
         Inr ([stored_check (stamped 6 (sample_entry ''h''))], True)"
proof -
  let ?n = "sample_node sample_remote_state (sample_store ''h'')"
  have node: "nd_store ?n = sample_store ''h''" "nd_state ?n = sample_remote_state" by (simp_all add: sample_node_def)
  have work: "wk_hostname (rw_work sample_remote) = ''g''" "rw_auxResults sample_remote = []"
    "hc_remoteCheck (rw_hostCheck sample_remote) = ''web''"
    "hc_remoteCheckType (rw_hostCheck sample_remote) = HM_REMOTE_CHECK_TCP"
    "\<not> check_is_aux (hc_checkType (rw_hostCheck sample_remote))"
    by (simp_all add: sample_remote_def WorkRemote_new_def Work_new_def check_is_aux_def w_check_def)
  have sorted: "mmap_sorted (<) (sg_hostGroupResults (sample_store ''h''))" "mmap_sorted (<) (sg_hostGroupAux (sample_store ''h''))"
    by (simp_all add: mmap_sorted_def sample_store_def)
  have find: "group_find ''g'' (st_remoteCache sample_remote_state) \<noteq> None"
    "group_find ''web'' (st_hostGroups sample_remote_state) = Some sample_group"
    by (simp_all add: sample_remote_state_def w_state_def key_equiv_def)
  have fits: "list_all check_fits (map (stamped 6) [sample_entry ''h''])"
    using sample_result_storable
    by (simp add: check_fits_def stamped_def sample_entry_def host_fits_def clean_def CheckResult_storable_def ts_ok_def)
  have size: "8 + length (concat (map put_check (map (stamped 6) [sample_entry ''h'']))) < 2 ^ 31"
    by (simp add: put_check_def buffer_simps length_put_obj sizes IPAddress_sizeof_def CheckResult_sizeof_def
        stamped_def sample_entry_def)
  show ?thesis
    using remote_group_results_stored [of alist_lib ?n sample_remote sample_group "(''h1'', INET 7)" "[]" sample_net
        "[sample_entry ''h'']" 6 True 1 5, unfolded node work(1-4),
        OF alist_lib_ok sample_store_open sorted refl find(1) _ find(2) sample_targets sample_answers _ work(5) fits size]
    by auto
qed

lemma remote_check_rescheduled_witness:
  "\<exists>n' w' status. WorkRemoteCheck_processWork True alist_lib sample_net 1 5 6
       (WorkRemote_new (Work_new HMWorkRemoteCheckRemote ''g'' (INET 0) w_check))
       (sample_node (sample_remote_state\<lparr>st_hostGroups := [(''g'', sample_remote_group\<lparr>hg_remoteCheckType := HM_REMOTE_CHECK_TCP\<rparr>)]\<rparr>)
          (sample_running\<lparr>sg_readonly := True\<rparr>)) = Inr (n', w', status)
     \<and> remote_pending ''g'' (nd_daemon n')"
  (is "\<exists>n' w' status. WorkRemoteCheck_processWork True alist_lib sample_net 1 5 6 ?w ?n = _ \<and> _")
proof -
  have work: "wk_hostname (rw_work ?w) = ''g''" "hc_remoteCheck (rw_hostCheck ?w) = []"
    by (simp_all add: WorkRemote_new_def Work_new_def w_check_def HostCheck_default_def HostCheck_new_def)
  have find: "group_find ''g'' (st_remoteCache (nd_state ?n)) = Some (RemoteResult_new 100 50)"
    "group_find ''g'' (st_hostGroups (nd_state ?n)) = Some (sample_remote_group\<lparr>hg_remoteCheckType := HM_REMOTE_CHECK_TCP\<rparr>)"
    by (simp_all add: sample_node_def sample_remote_state_def key_equiv_def)
  have "\<exists>n' w' status. WorkRemoteCheck_processWork True alist_lib sample_net 1 5 6 ?w ?n = Inr (n', w', status)"
    using find(1) work
    by (auto simp: WorkRemoteCheck_processWork_def RemoteHostGroupCache_startRemoteCheck_def Remote_remoteLookup_def
        remote_update_def RemoteCheck_updateResultsNoData_def Storage_storeHostGroupCheckResult_def Let_def
        set_state_def sample_node_def split_beta)
  then show ?thesis
    using remote_check_rescheduled [of True alist_lib sample_net 1 5 6 ?w ?n] find work(1)
    by (auto simp: remote_supported_def)
qed

lemma check_results_queued_witness:
  "\<exists>d w' n'. WorkHealthCheck_processWork False w_probe 5 6 7
       ((Work_new HMWorkHealthCheckTCP ''h'' w_addr w_check)\<lparr>wk_reschedule := False\<rparr>)
       ((nd_daemon (sample_node (dm_state w_daemon) sample_running))\<lparr>dm_stored := []\<rparr>) = Some (d, w')
     \<and> Node_healthCheck False alist_lib w_probe 5 6 7
         ((Work_new HMWorkHealthCheckTCP ''h'' w_addr w_check)\<lparr>wk_reschedule := False\<rparr>)
         (sample_node (dm_state w_daemon) sample_running) = Inr (n', w')
     \<and> sg_storeCheckQueue (nd_store n') =
         sg_storeCheckQueue sample_running @ concat (map call_updates (dm_stored d))"
proof -
  let ?w = "(Work_new HMWorkHealthCheckTCP ''h'' w_addr w_check)\<lparr>wk_reschedule := False\<rparr>"
  let ?n = "sample_node (dm_state w_daemon) sample_running"
  have "\<exists>d w'. WorkHealthCheck_processWork False w_probe 5 6 7 ?w ((nd_daemon ?n)\<lparr>dm_stored := []\<rparr>) = Some (d, w')"
    by (auto simp: WorkHealthCheck_processWork_def HealthCheck_conduct_def healthCheck_def w_probe_def Work_new_def
        Let_def split: prod.splits)
  moreover have "\<not> sg_readonly (nd_store ?n)" "nd_store ?n = sample_running"
    using sample_running_open by (simp_all add: sample_node_def store_open_def)
  ultimately show ?thesis using check_results_queued [of False w_probe 5 6 7 ?w ?n] by fastforce
qed

end
