(* ===== verification/HM_Socket.thy ===== *)
theory HM_Socket
  imports HM_Packing HM_RemoteWork
begin

text \<open>
  The sockets between daemons and clients (\<open>HMSocketUtilBase\<close>, \<open>HMSocketUtilTCP\<close>, \<open>HMSocketUtilLinux\<close>) and the queries that
  one daemon sends to another.

  A TCP socket is a stream of bytes in each direction: \<open>su_in\<close> are the bytes that arrive and are not read yet, \<open>su_out\<close>
  those that are sent. When fewer bytes arrive than are read the call ends with a time-out, or with a failure when
  the other end is closed (\<open>su_peer\<close>). \<open>su_writable\<close> says that \<open>send\<close> takes all bytes. The network is the record \<open>network\<close>: the
  reason a connect ends with, and the bytes that arrive in answer to those that were sent. A socket of the
  local host (\<open>SOCK_SEQPACKET\<close>) keeps the boundaries of what is sent; its transfer is modelled apart. Allocation of
  memory does not fail.
\<close>

section \<open>Streams\<close>

record HMSocketUtil =
  su_connected :: bool
  su_reason :: HM_REASON
  su_connectionReset :: bool
  su_persistent :: bool
  su_in :: string
  su_out :: string
  su_peer :: bool
  su_writable :: bool

record network =
  ne_connect :: HM_REASON
  ne_answer :: "string \<Rightarrow> string"

text \<open>The socket of an accepted connection, and the one a client makes.\<close>

definition SocketUtil_accepted :: "string \<Rightarrow> HMSocketUtil" where
  "SocketUtil_accepted bytes =
     \<lparr>su_connected = True, su_reason = HM_REASON_NONE, su_connectionReset = False, su_persistent = False,
      su_in = bytes, su_out = [], su_peer = True, su_writable = True\<rparr>"

definition SocketUtil_new :: "bool \<Rightarrow> HMSocketUtil" where
  "SocketUtil_new persistent =
     \<lparr>su_connected = False, su_reason = HM_REASON_NONE, su_connectionReset = False, su_persistent = persistent,
      su_in = [], su_out = [], su_peer = True, su_writable = True\<rparr>"

definition SocketTCP_sendData :: "string \<Rightarrow> HMSocketUtil \<Rightarrow> HMSocketUtil \<times> bool" where
  "SocketTCP_sendData data su =
     (if \<not> su_connected su \<or> \<not> su_writable su then (su, False) else (su\<lparr>su_out := su_out su @ data\<rparr>, True))"

definition SocketTCP_recvData :: "nat \<Rightarrow> HMSocketUtil \<Rightarrow> HMSocketUtil \<times> string \<times> HM_SOCK_DATA_STATUS" where
  "SocketTCP_recvData n su =
     (if \<not> su_connected su then (su, [], HM_SOCK_DATA_FAILED)
      else if n = 0 then (su, [], HM_SOCK_DATA_OK)
      else if n \<le> length (su_in su)
      then (su\<lparr>su_in := drop n (su_in su), su_reason := HM_REASON_SUCCESS\<rparr>, take n (su_in su), HM_SOCK_DATA_OK)
      else if su_peer su
      then (su\<lparr>su_in := [], su_reason := HM_REASON_RESPONSE_TIMEOUT\<rparr>, su_in su, HM_SOCK_DATA_TIMEOUT)
      else (su\<lparr>su_in := []\<rparr>, su_in su, HM_SOCK_DATA_FAILED))"

definition SocketTCP_closeSocket :: "HMSocketUtil \<Rightarrow> HMSocketUtil" where
  "SocketTCP_closeSocket su = su\<lparr>su_connected := False, su_in := [], su_out := []\<rparr>"

section \<open>Messages on a stream\<close>

text \<open>The size of a message is sent in network byte order: the bytes of a 64 bit number in memory, and back.\<close>

definition size_bytes :: "u64 \<Rightarrow> string" where
  "size_bytes n = le_bytes 8 (unat n)"

definition bytes_size :: "string \<Rightarrow> u64" where
  "bytes_size s = of_nat (of_le s)"

definition SocketUtil_sendMessage :: "string \<Rightarrow> HMSocketUtil \<Rightarrow> HMSocketUtil \<times> bool" where
  "SocketUtil_sendMessage data su =
     (let size = of_nat (length data) :: u64;
          (su, ok) = SocketTCP_sendData (size_bytes (hton64 size)) su
      in if ok then if size = 0 then (su, True) else SocketTCP_sendData data su else (su, False))"

definition SocketUtil_sendCommand :: "string \<Rightarrow> HMSocketUtil \<Rightarrow> HMSocketUtil \<times> bool" where
  "SocketUtil_sendCommand cmd su = SocketUtil_sendMessage cmd su"

definition SocketUtil_receiveMessage :: "u32 \<Rightarrow> HMSocketUtil \<Rightarrow> HMSocketUtil \<times> string \<times> HM_SOCK_DATA_STATUS" where
  "SocketUtil_receiveMessage n su = SocketTCP_recvData (unat n) su"

text \<open>The command ends at its first zero byte.\<close>

definition SocketUtil_receiveCommand :: "HMSocketUtil \<Rightarrow> HMSocketUtil \<times> string \<times> HM_SOCK_DATA_STATUS" where
  "SocketUtil_receiveCommand su =
     (if \<not> su_connected su then (su, [], HM_SOCK_DATA_FAILED)
      else case SocketTCP_recvData 8 su of (su, bytes, status) \<Rightarrow>
        if status \<noteq> HM_SOCK_DATA_OK then (su, [], status)
        else if bytes_size bytes = 0 then (su, [], HM_SOCK_DATA_EMPTY)
        else case SocketTCP_recvData (unat (ntoh64 (bytes_size bytes))) su of (su, data, status) \<Rightarrow>
          if status \<noteq> HM_SOCK_DATA_OK then (su, [], status)
          else (su, takeWhile (\<lambda>c. c \<noteq> CHR 0x00) data, HM_SOCK_DATA_OK))"

text \<open>\<open>std::stoul\<close> in base 0: \<open>Inr None\<close> for a text without a number; a number that does not fit is an exception the
  callers do not handle.\<close>

definition stoul :: "string \<Rightarrow> unit + u64 option" where
  "stoul s =
     (let (b, r) = base_prefix (snd (split_sign s))
      in if takeWhile (\<lambda>c. digit_value c < b) r = [] then Inr None
         else if 2 ^ 64 \<le> digits_value b r then Inl () else Inr (Some (strtoul s)))"

text \<open>\<open>strtoul\<close> of the sockets: without a number an empty message is sent.\<close>

definition SocketUtil_strtoul :: "string \<Rightarrow> HMSocketUtil \<Rightarrow> unit + (HMSocketUtil \<times> u32 option)" where
  "SocketUtil_strtoul s su =
     (case stoul s of Inl e \<Rightarrow> Inl e
      | Inr None \<Rightarrow> Inr (fst (SocketUtil_sendMessage [] su), None)
      | Inr (Some n) \<Rightarrow> Inr (su, Some (ucast n)))"

section \<open>Queries\<close>

definition HM_CONTROL_SOCKET_VERSION :: u8 where "HM_CONTROL_SOCKET_VERSION = 1"

definition command :: "string list \<Rightarrow> string" where
  "command ws = concat (to_string (uint HM_CONTROL_SOCKET_VERSION) # map (\<lambda>w. '' '' @ w) ws)"

definition SocketUtil_openPersistant :: "HMSocketUtil \<Rightarrow> HMSocketUtil \<times> bool" where
  "SocketUtil_openPersistant su = SocketUtil_sendCommand (command [''keepopen'']) su"

definition SocketTCP_reconnect :: "network \<Rightarrow> HMSocketUtil \<Rightarrow> HMSocketUtil" where
  "SocketTCP_reconnect net su =
     (let su = (SocketTCP_closeSocket su)\<lparr>su_reason := ne_connect net\<rparr>
      in if ne_connect net = HM_REASON_SUCCESS then
           let su = su\<lparr>su_connected := True, su_connectionReset := False\<rparr>
           in if su_persistent su then fst (SocketUtil_openPersistant su) else su
         else su)"

definition connection_ready :: "network \<Rightarrow> HMSocketUtil \<Rightarrow> HMSocketUtil" where
  "connection_ready net su =
     (if su_connectionReset su \<or> su_reason su \<noteq> HM_REASON_NONE \<and> su_reason su \<noteq> HM_REASON_SUCCESS
      then SocketTCP_reconnect net su else su)"

text \<open>The bytes that were sent reach the other daemon, and its answer arrives.\<close>

definition deliver :: "network \<Rightarrow> HMSocketUtil \<Rightarrow> HMSocketUtil" where
  "deliver net su = su\<lparr>su_in := su_in su @ ne_answer net (su_out su), su_out := []\<rparr>"

text \<open>
  The part that the queries share: the command and the data that belongs to it are sent, and a message is
  received. The result is \<open>HM_SOCK_DATA_OK\<close> with the message, \<open>HM_SOCK_DATA_EMPTY\<close> for an empty one; everything else
  is a failure, after which the socket is closed.
\<close>

definition query_failed :: "HMSocketUtil \<Rightarrow> HMSocketUtil" where
  "query_failed su = SocketTCP_closeSocket (su\<lparr>su_connectionReset := True\<rparr>)"

definition SocketUtil_query ::
    "network \<Rightarrow> string list \<Rightarrow> string \<Rightarrow> HMSocketUtil \<Rightarrow> HMSocketUtil \<times> string \<times> HM_SOCK_DATA_STATUS" where
  "SocketUtil_query net ws data su =
     (let (su, ok) = SocketUtil_sendCommand (command ws) su;
          (su, ok) = (if ok then SocketTCP_sendData data su else (su, False))
      in if \<not> ok then (su, [], HM_SOCK_DATA_FAILED)
         else case SocketTCP_recvData 8 (deliver net su) of (su, bytes, status) \<Rightarrow>
           if status \<noteq> HM_SOCK_DATA_OK then (su, [], HM_SOCK_DATA_FAILED)
           else let size = ntoh64 (bytes_size bytes)
                in if size = 0 then (su, [], HM_SOCK_DATA_EMPTY)
                   else case SocketTCP_recvData (unat size) su of (su, reply, status) \<Rightarrow>
                     if status \<noteq> HM_SOCK_DATA_OK then (su, [], HM_SOCK_DATA_FAILED) else (su, reply, HM_SOCK_DATA_OK))"

text \<open>The end of a query: what is unpacked from the message, or the failure.\<close>

definition query_result ::
    "'r \<Rightarrow> (string \<Rightarrow> deser_error + 'r option) \<Rightarrow> HMSocketUtil \<times> string \<times> HM_SOCK_DATA_STATUS \<Rightarrow>
     deser_error + (HMSocketUtil \<times> 'r \<times> HM_SOCK_DATA_STATUS)" where
  "query_result none unpack = (\<lambda>(su, reply, status).
     if status = HM_SOCK_DATA_EMPTY then Inr (su, none, HM_SOCK_DATA_EMPTY)
     else if status \<noteq> HM_SOCK_DATA_OK then Inr (query_failed su, none, HM_SOCK_DATA_FAILED)
     else res_bind (unpack reply) (\<lambda>r.
       case r of None \<Rightarrow> Inr (query_failed su, none, HM_SOCK_DATA_FAILED) | Some x \<Rightarrow> Inr (su, x, HM_SOCK_DATA_OK)))"

definition SocketUtil_getHostGroupResults ::
    "proto \<Rightarrow> network \<Rightarrow> string \<Rightarrow> HMHash \<Rightarrow> HMSocketUtil \<Rightarrow>
     deser_error + (HMSocketUtil \<times> HMGroupCheckResult list \<times> HM_SOCK_DATA_STATUS)" where
  "SocketUtil_getHostGroupResults pb net hostGroupName hash su =
     (let data = packHash pb hostGroupName hash
      in query_result [] (\<lambda>d. res_bind (unpackHostGroupInfo pb d (HostGroup_new hostGroupName, [])) (\<lambda>r. Inr (map_option snd r)))
           (SocketUtil_query net [''hostgroup'', hostGroupName, to_string (int (length data))] data (connection_ready net su)))"

definition SocketUtil_getLoadFeedback_group ::
    "proto \<Rightarrow> network \<Rightarrow> string \<Rightarrow> HMHash \<Rightarrow> HMSocketUtil \<Rightarrow>
     deser_error + (HMSocketUtil \<times> HMGroupAuxResult list \<times> HM_SOCK_DATA_STATUS)" where
  "SocketUtil_getLoadFeedback_group pb net hostGroupName hash su =
     (let data = packHash pb hostGroupName hash
      in query_result [] (\<lambda>d. Inr (unpackAuxInfo_results pb d []))
           (SocketUtil_query net [''loadfb'', hostGroupName, to_string (int (length data))] data (connection_ready net su)))"

definition SocketUtil_getHostResults_address ::
    "proto \<Rightarrow> network \<Rightarrow> (32 word \<Rightarrow> string) \<Rightarrow> (128 word \<Rightarrow> string) \<Rightarrow> string \<Rightarrow> HMIPAddress \<Rightarrow> HMDataHostCheck \<Rightarrow>
     HMSocketUtil \<Rightarrow> deser_error + (HMSocketUtil \<times> (HMDataCheckParams \<times> HMDataCheckResult) list \<times> HM_SOCK_DATA_STATUS)" where
  "SocketUtil_getHostResults_address pb net ntop4 ntop6 hostName address hostCheck su =
     (let data = packDataHostCheck pb hostCheck
      in query_result [] (\<lambda>d. Inr (unpackHostResults_map pb d []))
           (SocketUtil_query net [''hostipresults'', hostName, IPAddress_toString ntop4 ntop6 address, to_string (int (length data))]
             data (connection_ready net su)))"

definition SocketUtil_getHostResults ::
    "proto \<Rightarrow> network \<Rightarrow> string \<Rightarrow> HMDataHostCheck \<Rightarrow> HMSocketUtil \<Rightarrow>
     deser_error + (HMSocketUtil \<times> (HMDataCheckParams \<times> HMDataCheckResult) list \<times> HM_SOCK_DATA_STATUS)" where
  "SocketUtil_getHostResults pb net hostName hostCheck su =
     (let data = packDataHostCheck pb hostCheck
      in query_result [] (\<lambda>d. Inr (unpackHostResults_multimap pb d []))
           (SocketUtil_query net [''hostresults'', hostName, to_string (int (length data))] data (connection_ready net su)))"

text \<open>The object that the auxiliary data is read into is given; the results of a host are appended to the vector.\<close>

definition SocketUtil_getLoadFeedback_address ::
    "proto \<Rightarrow> network \<Rightarrow> (32 word \<Rightarrow> string) \<Rightarrow> (128 word \<Rightarrow> string) \<Rightarrow> string \<Rightarrow> HMIPAddress \<Rightarrow> HMDataHostCheck \<Rightarrow> HMAuxInfo \<Rightarrow>
     HMSocketUtil \<Rightarrow> deser_error + (HMSocketUtil \<times> HMAuxInfo \<times> HM_SOCK_DATA_STATUS)" where
  "SocketUtil_getLoadFeedback_address pb net ntop4 ntop6 hostName address hostCheck auxData su =
     query_result auxData (\<lambda>d. Inr (unpackAuxInfo pb d auxData))
       (SocketUtil_query net [''loadfbip'', hostName, hc_checkInfo hostCheck, IPAddress_toString ntop4 ntop6 address] []
         (connection_ready net su))"

definition SocketUtil_getLoadFeedback_host ::
    "proto \<Rightarrow> network \<Rightarrow> string \<Rightarrow> HMDataHostCheck \<Rightarrow> HMGroupAuxResult list \<Rightarrow> HMSocketUtil \<Rightarrow>
     deser_error + (HMSocketUtil \<times> HMGroupAuxResult list \<times> HM_SOCK_DATA_STATUS)" where
  "SocketUtil_getLoadFeedback_host pb net hostName hostCheck auxResults su =
     (let data = packDataHostCheck pb hostCheck
      in query_result auxResults (\<lambda>d. Inr (unpackAuxInfo_results pb d auxResults))
           (SocketUtil_query net [''loadfbhost'', hostName, to_string (int (length data))] data (connection_ready net su)))"

text \<open>\<open>pingRemoteHost\<close>: the value \<open>false\<close> is an empty message.\<close>

definition SocketUtil_pingRemoteHost :: "proto \<Rightarrow> network \<Rightarrow> HMSocketUtil \<Rightarrow> HMSocketUtil \<times> bool" where
  "SocketUtil_pingRemoteHost pb net su =
     (case SocketUtil_query net [''getremotequery''] [] su of (su, reply, status) \<Rightarrow>
        if status = HM_SOCK_DATA_EMPTY then (su\<lparr>su_reason := HM_REASON_RESPONSE_DOWN\<rparr>, False)
        else if status \<noteq> HM_SOCK_DATA_OK then (su, False)
        else if unpackBool pb reply then (su\<lparr>su_reason := HM_REASON_SUCCESS\<rparr>, True)
        else (su\<lparr>su_reason := HM_REASON_RESPONSE_DOWN\<rparr>, False))"

section \<open>Packets\<close>

text \<open>
  \<open>sendData\<close> of a local socket sends packets of at most 65535 bytes. \<open>recvData\<close> has every packet written to the start of the
  buffer, cut to the size of the buffer, until the sizes add up; \<open>None\<close> when the packets end before.
\<close>

function SocketLinux_sendData :: "string \<Rightarrow> string list" where
  "SocketLinux_sendData data = (if data = [] then [] else take 65535 data # SocketLinux_sendData (drop 65535 data))"
  by auto
termination by (relation "measure length") auto

declare SocketLinux_sendData.simps [simp del]

fun SocketLinux_recvData :: "nat \<Rightarrow> nat \<Rightarrow> string \<Rightarrow> string list \<Rightarrow> (string \<times> string list) option" where
  "SocketLinux_recvData n offset data [] = None"
| "SocketLinux_recvData n offset data (p # ps) =
     (let p = take n p; data = p @ drop (length p) data; offset = offset + length p
      in if p = [] then None else if offset < n then SocketLinux_recvData n offset data ps else Some (data, ps))"

section \<open>Sizes on the wire\<close>

lemma bit_byte_mask: "bit (0xFF00 :: u32) n \<longleftrightarrow> 8 \<le> n \<and> n < 16"
proof -
  have eq: "(0xFF00 :: u32) = push_bit 8 (mask 8)" by (simp add: mask_eq_exp_minus_1 push_bit_eq_mult)
  show ?thesis unfolding eq by (auto simp: bit_push_bit_iff bit_mask_iff)
qed

lemma htonl_htonl: "htonl (htonl x) = x"
proof (rule bit_word_eqI)
  fix n assume "n < LENGTH(32)"
  then consider "n < 8" | "8 \<le> n" "n < 16" | "16 \<le> n" "n < 24" | "24 \<le> n" "n < 32" by fastforce
  then show "bit (htonl (htonl x)) n \<longleftrightarrow> bit x n"
    unfolding htonl_def bit_or_iff bit_and_iff bit_push_bit_iff bit_drop_bit_eq bit_byte_mask comp_def
    by cases (auto dest: bit_imp_le_length)
qed

text \<open>A 64 bit number and its halves.\<close>

definition halves :: "u32 \<Rightarrow> u32 \<Rightarrow> u64" where
  "halves high low = push_bit 32 (ucast high) OR ucast low"

lemma halves_parts:
  "ucast (drop_bit 32 (halves h l)) = h" "ucast (halves h l AND 0xFFFFFFFF) = l"
  "halves (ucast (drop_bit 32 x)) (ucast (x AND 0xFFFFFFFF)) = x"
proof -
  have eq: "(0xFFFFFFFF :: u64) = mask 32" by (simp add: mask_eq_exp_minus_1)
  show "ucast (drop_bit 32 (halves h l)) = h" "ucast (halves h l AND 0xFFFFFFFF) = l"
    "halves (ucast (drop_bit 32 x)) (ucast (x AND 0xFFFFFFFF)) = x"
    unfolding eq halves_def
    by (rule bit_word_eqI, auto simp: bit_or_iff bit_and_iff bit_push_bit_iff bit_drop_bit_eq bit_unsigned_iff bit_mask_iff
        dest: bit_imp_le_length)+
qed

lemma hton64_halves: "hton64 (halves h l) = halves (htonl l) (htonl h)"
  unfolding hton64_def Let_def halves_parts by (simp add: halves_def)

lemma ntoh64_hton64 [simp]: "ntoh64 (hton64 x) = x"
proof -
  obtain h l where x: "x = halves h l" using halves_parts(3) by metis
  have "ntoh64 = hton64" by (simp add: fun_eq_iff ntoh64_def hton64_def)
  then show ?thesis by (simp add: x hton64_halves htonl_htonl)
qed

lemma hton64_zero [simp]: "hton64 x = 0 \<longleftrightarrow> x = 0"
proof -
  have "ntoh64 0 = 0" "hton64 0 = 0" by (simp_all add: ntoh64_def hton64_def htonl_def)
  then show ?thesis by (metis ntoh64_hton64)
qed

lemma bytes_size_bytes [simp]: "bytes_size (size_bytes n) = n"
proof -
  have "of_le (le_bytes 8 (unat n)) = unat n" by (rule of_le_bytes) (use unsigned_less [of n] in simp)
  then show ?thesis by (simp add: bytes_size_def size_bytes_def)
qed

lemma length_size_bytes [simp]: "length (size_bytes n) = 8"
  by (simp add: size_bytes_def)

section \<open>A message is received as it was sent\<close>

definition message_bytes :: "string \<Rightarrow> string" where
  "message_bytes data = size_bytes (hton64 (of_nat (length data))) @ data"

lemma of_nat_u64: "n < 2 ^ 64 \<Longrightarrow> unat (of_nat n :: u64) = n" "n < 2 ^ 64 \<Longrightarrow> (of_nat n :: u64) = 0 \<longleftrightarrow> n = 0"
  by (simp_all add: unat_of_nat take_bit_nat_eq_self unat_eq_0 [symmetric])

lemma recvData_append:
  "su_connected su \<Longrightarrow> su_in su = a @ b \<Longrightarrow> length a = n \<Longrightarrow> 0 < n \<Longrightarrow>
     SocketTCP_recvData n su = (su\<lparr>su_in := b, su_reason := HM_REASON_SUCCESS\<rparr>, a, HM_SOCK_DATA_OK)"
  by (simp add: SocketTCP_recvData_def)

lemma sendMessage_bytes:
  assumes "su_connected su" and "su_writable su" and "length data < 2 ^ 64"
  shows "SocketUtil_sendMessage data su = (su\<lparr>su_out := su_out su @ message_bytes data\<rparr>, True)"
  using assms by (auto simp: SocketUtil_sendMessage_def SocketTCP_sendData_def message_bytes_def Let_def of_nat_u64)

lemma receiveCommand_message:
  assumes "su_connected su" and "su_in su = message_bytes cmd @ rest" and "cmd \<noteq> []" and "length cmd < 2 ^ 64"
    and "CHR 0x00 \<notin> set cmd"
  shows "SocketUtil_receiveCommand su = (su\<lparr>su_in := rest, su_reason := HM_REASON_SUCCESS\<rparr>, cmd, HM_SOCK_DATA_OK)"
proof -
  let ?n = "of_nat (length cmd) :: u64" and ?su = "su\<lparr>su_in := cmd @ rest, su_reason := HM_REASON_SUCCESS\<rparr>"
  have "SocketTCP_recvData 8 su = (?su, size_bytes (hton64 ?n), HM_SOCK_DATA_OK)"
    using assms(1,2) by (intro recvData_append) (simp_all add: message_bytes_def)
  moreover have "SocketTCP_recvData (unat ?n) ?su = (?su\<lparr>su_in := rest\<rparr>, cmd, HM_SOCK_DATA_OK)"
    using recvData_append [of ?su cmd rest "unat ?n"] assms(1,3,4) by (simp add: of_nat_u64)
  moreover have "takeWhile (\<lambda>c. c \<noteq> CHR 0x00) cmd = cmd"
    using assms(5) by (auto simp: takeWhile_eq_all_conv)
  ultimately show ?thesis using assms(1,3,4) by (simp add: SocketUtil_receiveCommand_def of_nat_u64)
qed

text \<open>On a local socket the buffer is only written in its first 65535 bytes.\<close>

lemma linux_receives:
  assumes "data \<noteq> []" and "offset + length data = n" and "length buf = n"
  shows "\<exists>buf'. SocketLinux_recvData n offset buf (SocketLinux_sendData data @ rest) = Some (buf', rest)
    \<and> length buf' = n \<and> drop 65535 buf' = drop 65535 buf"
  using assms
proof (induction data arbitrary: offset buf rule: SocketLinux_sendData.induct)
  case (1 data)
  let ?p = "take 65535 data"
  have "length ?p \<le> n" using 1 by auto
  then have p: "take n ?p = ?p" by (rule take_all)
  have "?p \<noteq> []" using \<open>data \<noteq> []\<close> by simp
  note p = p this
  let ?buf = "?p @ drop (length ?p) buf"
  have buf: "length ?buf = n" "drop 65535 ?buf = drop 65535 buf" using 1 by auto
  show ?case
  proof (cases "drop 65535 data = []")
    case True
    then have "SocketLinux_sendData data = [?p]" using \<open>data \<noteq> []\<close> by (subst SocketLinux_sendData.simps) (simp add: SocketLinux_sendData.simps)
    moreover have "\<not> offset + length ?p < n" using True 1 by auto
    ultimately show ?thesis using p buf by (auto simp: Let_def)
  next
    case False
    then have "offset + length ?p < n" "offset + length ?p + length (drop 65535 data) = n" using 1 by auto
    moreover from this(2) obtain buf' where "SocketLinux_recvData n (offset + length ?p) ?buf
        (SocketLinux_sendData (drop 65535 data) @ rest) = Some (buf', rest)" "length buf' = n" "drop 65535 buf' = drop 65535 ?buf"
      using 1(1) [OF \<open>data \<noteq> []\<close> False _ buf(1)] by blast
    ultimately show ?thesis using p buf \<open>data \<noteq> []\<close> by (subst SocketLinux_sendData.simps) (auto simp: Let_def)
  qed
qed

text \<open>C39: A message of at most 65535 bytes arrives on a local socket as it was sent. A longer one is received without an
  error, but every byte behind the first 65535 is zero: \<open>recvData\<close> writes each packet to the start of the buffer.\<close>

theorem linux_message_transfer:
  assumes "data \<noteq> []"
  shows "if length data \<le> 65535
    then SocketLinux_recvData (length data) 0 (replicate (length data) (CHR 0x00)) (SocketLinux_sendData data @ rest) =
      Some (data, rest)
    else \<exists>buf. SocketLinux_recvData (length data) 0 (replicate (length data) (CHR 0x00)) (SocketLinux_sendData data @ rest) =
        Some (buf, rest) \<and> length buf = length data \<and> drop 65535 buf = replicate (length data - 65535) (CHR 0x00)"
proof (cases "length data \<le> 65535")
  case True
  then have "SocketLinux_sendData data = [data]" using assms by (subst SocketLinux_sendData.simps) (simp add: SocketLinux_sendData.simps)
  then show ?thesis using True assms by (simp add: Let_def)
next
  case False
  then show ?thesis using linux_receives [OF assms, of 0 _ "replicate (length data) (CHR 0x00)" rest] by auto
qed

theorem linux_message_transfer_witness:
  "SocketLinux_recvData (length ''hello'') 0 (replicate (length ''hello'') (CHR 0x00)) (SocketLinux_sendData ''hello'' @ []) =
     Some (''hello'', [])
   \<and> (\<exists>buf. SocketLinux_recvData 65536 0 (replicate 65536 (CHR 0x00)) (SocketLinux_sendData (replicate 65536 (CHR ''x'')) @ []) =
        Some (buf, []) \<and> drop 65535 buf = [CHR 0x00])"
  using linux_message_transfer [of "''hello''" "[]"] linux_message_transfer [of "replicate 65536 (CHR ''x'')" "[]"]
  by (auto simp del: SocketLinux_recvData.simps)

end
