(* ===== verification/HM_Transport.thy ===== *)
theory HM_Transport
  imports HM_Socket
begin

text \<open>
  The connections of the health checks at the level of the system calls (\<open>HMSocketUtilTCP\<close>, \<open>HMSocketUtilTCPS\<close>). In \<open>HM_Socket\<close> a
  connection is a stream of bytes; here are the calls that make it up and their outcomes, which decide the reason of
  a failed check. The calls of one connection are the record \<open>socket_calls\<close>, those of OpenSSL the record \<open>tls_calls\<close>: the
  \<open>n\<close>-th call has the outcome the record gives for \<open>n\<close>. \<open>cn_in\<close> are the bytes in the buffer of the kernel; \<open>select\<close> reports a
  socket with such bytes at once, and otherwise what happens next: bytes arrive, the other end closes (no bytes), the
  time is over, or an error. A descriptor set holds one socket, so that \<open>select\<close> names it when it names any, but
  after a connect, where \<open>so_ready\<close> says so.

  \<open>HMSocketUtilTCPS\<close> extends the record of \<open>HMSocketUtilTCP\<close>, as the class does. Its loops may not end: they are partial functions.
\<close>

section \<open>TCP\<close>

datatype arrival = SelectError | SelectTimeout | ReadError | Arrives string

record socket_calls =
  so_socket :: bool
  so_fcntl :: bool
  so_setsockopt :: bool
  so_connect :: bool
  so_select :: int
  so_ready :: bool
  so_error :: "int option"
  so_now :: HMTimeStamp
  so_send :: "nat \<Rightarrow> string \<Rightarrow> int"
  so_input :: "nat \<Rightarrow> arrival"

record HMSocketUtilTCP =
  cn_open :: bool
  cn_connected :: bool
  cn_reason :: HM_REASON
  cn_connectTime :: HMTimeStamp
  cn_reset :: bool
  cn_in :: string
  cn_turn :: nat
  cn_out :: "string list"

definition TCP_new :: HMSocketUtilTCP where
  "TCP_new =
     \<lparr>cn_open = False, cn_connected = False, cn_reason = HM_REASON_NONE, cn_connectTime = 0, cn_reset = False,
      cn_in = [], cn_turn = 0, cn_out = []\<rparr>"

definition ETIMEDOUT :: int where "ETIMEDOUT = 110"

lemma ETIMEDOUT_nonzero [simp]: "ETIMEDOUT \<noteq> 0" "0 \<noteq> ETIMEDOUT"
  by (simp_all add: ETIMEDOUT_def)

text \<open>A source address that cannot be bound is only logged.\<close>

definition TCP_createSocket :: "socket_calls \<Rightarrow> u8 \<Rightarrow> 'a HMSocketUtilTCP_scheme \<Rightarrow> 'a HMSocketUtilTCP_scheme \<times> bool" where
  "TCP_createSocket calls tos c =
     (let c = c\<lparr>cn_open := so_socket calls\<rparr>
      in if \<not> so_socket calls \<or> \<not> so_fcntl calls \<or> tos \<noteq> 0 \<and> \<not> so_setsockopt calls
         then (c\<lparr>cn_reason := HM_REASON_INTERNAL_ERROR\<rparr>, False) else (c, True))"

definition TCP_closeSocket :: "'a HMSocketUtilTCP_scheme \<Rightarrow> 'a HMSocketUtilTCP_scheme" where
  "TCP_closeSocket c = (if cn_open c then c\<lparr>cn_connected := False, cn_open := False, cn_in := []\<rparr> else c)"

definition TCP_connectSocket :: "socket_calls \<Rightarrow> u8 \<Rightarrow> 'a HMSocketUtilTCP_scheme \<Rightarrow> 'a HMSocketUtilTCP_scheme \<times> bool" where
  "TCP_connectSocket calls tos c =
     (let (c, ok) = TCP_createSocket calls tos c
      in if \<not> ok then (c, False)
         else if \<not> so_connect calls then (c\<lparr>cn_reason := HM_REASON_CONNECT_FAILURE\<rparr>, False)
         else if so_select calls < 0 then (c\<lparr>cn_reason := HM_REASON_CONNECT_FAILURE\<rparr>, False)
         else if so_select calls = 0 then (c\<lparr>cn_reason := HM_REASON_CONNECT_TIMEOUT\<rparr>, False)
         else if \<not> so_ready calls then (c, False)
         else case so_error calls of None \<Rightarrow> (c\<lparr>cn_reason := HM_REASON_INTERNAL_ERROR\<rparr>, False)
           | Some v \<Rightarrow>
               if v = ETIMEDOUT then (c\<lparr>cn_reason := HM_REASON_CONNECT_TIMEOUT\<rparr>, False)
               else if v = 0 then
                 (c\<lparr>cn_reason := HM_REASON_SUCCESS, cn_connectTime := so_now calls, cn_connected := True\<rparr>, True)
               else (c\<lparr>cn_reason := HM_REASON_CONNECT_FAILURE\<rparr>, False))"

text \<open>The sockets of the checks are not persistent.\<close>

definition TCP_reconnect :: "socket_calls \<Rightarrow> u8 \<Rightarrow> 'a HMSocketUtilTCP_scheme \<Rightarrow> 'a HMSocketUtilTCP_scheme" where
  "TCP_reconnect calls tos c =
     (let (c, ok) = TCP_connectSocket calls tos (TCP_closeSocket c) in if ok then c\<lparr>cn_reset := False\<rparr> else c)"

definition TCP_sendData :: "socket_calls \<Rightarrow> string \<Rightarrow> 'a HMSocketUtilTCP_scheme \<Rightarrow> 'a HMSocketUtilTCP_scheme \<times> bool" where
  "TCP_sendData calls data c =
     (if \<not> cn_connected c then (c, False)
      else (c\<lparr>cn_out := cn_out c @ [data]\<rparr>,
            so_send calls (length (cn_out c)) data = sint (of_nat (length data) :: u32)))"

text \<open>What a wait for data ends with: the outcome and, when bytes are there, the buffer of the kernel.\<close>

definition TCP_select :: "socket_calls \<Rightarrow> 'a HMSocketUtilTCP_scheme \<Rightarrow> 'a HMSocketUtilTCP_scheme \<times> arrival" where
  "TCP_select calls c =
     (if cn_in c \<noteq> [] then (c, Arrives (cn_in c))
      else (c\<lparr>cn_turn := Suc (cn_turn c)\<rparr>, so_input calls (cn_turn c)))"

text \<open>The bytes that have been read so far are \<open>got\<close>; a call of \<open>read\<close> asks for the rest.\<close>

function TCP_recvLoop ::
    "socket_calls \<Rightarrow> nat \<Rightarrow> string \<Rightarrow> 'a HMSocketUtilTCP_scheme \<Rightarrow> 'a HMSocketUtilTCP_scheme \<times> string \<times> HM_SOCK_DATA_STATUS" where
  "TCP_recvLoop calls n got c =
     (if n \<le> length got then (c, got, HM_SOCK_DATA_OK)
      else case TCP_select calls c of
        (c, SelectError) \<Rightarrow> (c\<lparr>cn_reason := HM_REASON_INTERNAL_ERROR\<rparr>, got, HM_SOCK_DATA_FAILED)
      | (c, SelectTimeout) \<Rightarrow> (c\<lparr>cn_reason := HM_REASON_RESPONSE_TIMEOUT\<rparr>, got, HM_SOCK_DATA_TIMEOUT)
      | (c, ReadError) \<Rightarrow> (c\<lparr>cn_reason := HM_REASON_INTERNAL_ERROR\<rparr>, got, HM_SOCK_DATA_FAILED)
      | (c, Arrives s) \<Rightarrow>
          if s = [] then (c, got, HM_SOCK_DATA_FAILED)
          else let k = n - length got; got = got @ take k s; c = c\<lparr>cn_in := drop k s\<rparr>;
                   c = (if length got = n then c\<lparr>cn_reason := HM_REASON_SUCCESS\<rparr> else c)
               in TCP_recvLoop calls n got c)"
  by auto
termination
  by (relation "measure (\<lambda>(calls, n, got, c). n - length got)") (auto simp: min_def neq_Nil_conv)

declare TCP_recvLoop.simps [simp del]

definition TCP_recvData ::
    "socket_calls \<Rightarrow> nat \<Rightarrow> 'a HMSocketUtilTCP_scheme \<Rightarrow> 'a HMSocketUtilTCP_scheme \<times> string \<times> HM_SOCK_DATA_STATUS" where
  "TCP_recvData calls n c =
     (if \<not> cn_connected c then (c, [], HM_SOCK_DATA_FAILED) else TCP_recvLoop calls n [] c)"

section \<open>TLS\<close>

text \<open>One turn of the handshake: the value of \<open>SSL_connect\<close>, and for a call that wants to read or write the outcome of
  \<open>select\<close>, whether the socket is ready, and its error.\<close>

datatype handshake = SSL_connected | SSL_refused | SSL_wants int bool "int option" | SSL_fails

datatype ssl_read = SSL_bytes string | SSL_want_read | SSL_error

record tls_calls =
  tl_new :: bool
  tl_connect :: "nat \<Rightarrow> handshake"
  tl_finished :: "nat \<Rightarrow> bool"
  tl_now :: HMTimeStamp
  tl_write :: "nat \<Rightarrow> string \<Rightarrow> int"
  tl_select :: "nat \<Rightarrow> int"
  tl_read :: "nat \<Rightarrow> nat \<Rightarrow> ssl_read"
  tl_pending :: "nat \<Rightarrow> bool"

record HMSocketUtilTCPS = HMSocketUtilTCP +
  cn_ssl :: bool

definition TCPS_new :: HMSocketUtilTCPS where
  "TCPS_new = HMSocketUtilTCP.extend TCP_new \<lparr>cn_ssl = False\<rparr>"

definition TCPS_closeSocket :: "HMSocketUtilTCPS \<Rightarrow> HMSocketUtilTCPS" where
  "TCPS_closeSocket c = TCP_closeSocket (if cn_ssl c then c\<lparr>cn_ssl := False, cn_connected := False\<rparr> else c)"

text \<open>The variable \<open>status\<close> is set by a ready socket without an error, and reset by nothing but a failed call.\<close>

definition handshake_wait :: "int \<Rightarrow> bool \<Rightarrow> int option \<Rightarrow> bool \<Rightarrow> HMSocketUtilTCPS \<Rightarrow> HMSocketUtilTCPS \<times> bool" where
  "handshake_wait ret ready err status c =
     (if ret < 0 then (c\<lparr>cn_reason := HM_REASON_CONNECT_FAILURE\<rparr>, status)
      else if ret = 0 then (c\<lparr>cn_reason := HM_REASON_CONNECT_TIMEOUT\<rparr>, status)
      else if \<not> ready then (c, status)
      else case err of None \<Rightarrow> (c\<lparr>cn_reason := HM_REASON_INTERNAL_ERROR\<rparr>, status)
        | Some v \<Rightarrow>
            if v = ETIMEDOUT then (c\<lparr>cn_reason := HM_REASON_CONNECT_TIMEOUT\<rparr>, status)
            else if v = 0 then (c, True)
            else (c\<lparr>cn_reason := HM_REASON_CONNECT_FAILURE\<rparr>, status))"

partial_function (option) TCPS_connectLoop ::
    "tls_calls \<Rightarrow> nat \<Rightarrow> bool \<Rightarrow> HMSocketUtilTCPS \<Rightarrow> (HMSocketUtilTCPS \<times> bool) option" where
  "TCPS_connectLoop tls i status c =
     (case tl_connect tls i of
        SSL_connected \<Rightarrow> Some (c\<lparr>cn_connectTime := tl_now tls, cn_connected := True\<rparr>, True)
      | SSL_refused \<Rightarrow> Some (c\<lparr>cn_reason := HM_REASON_CONNECT_FAILURE\<rparr>, False)
      | SSL_fails \<Rightarrow> Some (c\<lparr>cn_reason := HM_REASON_CONNECT_FAILURE\<rparr>, False)
      | SSL_wants ret ready err \<Rightarrow>
          let (c, status) = handshake_wait ret ready err status c
          in if status \<and> \<not> tl_finished tls i then TCPS_connectLoop tls (Suc i) status c
             else Some (c\<lparr>cn_reason := HM_REASON_CONNECT_FAILURE\<rparr>, False))"

definition TCPS_connectSocket :: "tls_calls \<Rightarrow> HMSocketUtilTCPS \<Rightarrow> (HMSocketUtilTCPS \<times> bool) option" where
  "TCPS_connectSocket tls c =
     (let c = c\<lparr>cn_ssl := tl_new tls\<rparr>
      in if tl_new tls then TCPS_connectLoop tls 0 False c
         else Some (c\<lparr>cn_reason := HM_REASON_CONNECT_FAILURE\<rparr>, False))"

definition TCPS_reconnect :: "socket_calls \<Rightarrow> tls_calls \<Rightarrow> u8 \<Rightarrow> HMSocketUtilTCPS \<Rightarrow> HMSocketUtilTCPS option" where
  "TCPS_reconnect calls tls tos c =
     (case TCP_connectSocket calls tos (TCPS_closeSocket c) of
        (c, False) \<Rightarrow> Some c
      | (c, True) \<Rightarrow> (case TCPS_connectSocket tls c of None \<Rightarrow> None
          | Some (c, ok) \<Rightarrow> Some (if ok then c\<lparr>cn_reset := False\<rparr> else c)))"

definition TCPS_sendData :: "tls_calls \<Rightarrow> string \<Rightarrow> HMSocketUtilTCPS \<Rightarrow> HMSocketUtilTCPS \<times> bool" where
  "TCPS_sendData tls data c =
     (if \<not> cn_connected c then (c, False)
      else (c\<lparr>cn_out := cn_out c @ [data]\<rparr>,
            tl_write tls (length (cn_out c)) data = sint (of_nat (length data) :: u32)))"

text \<open>The inner loop reads while the library holds bytes, also when no more are asked for; \<open>None\<close> in the second
  component is a failure.\<close>

partial_function (option) TCPS_readLoop ::
    "tls_calls \<Rightarrow> nat \<Rightarrow> string \<Rightarrow> HMSocketUtilTCPS \<Rightarrow> (HMSocketUtilTCPS \<times> string \<times> bool) option" where
  "TCPS_readLoop tls n got c =
     (let i = cn_turn c; c = c\<lparr>cn_turn := Suc i\<rparr>
      in case tl_read tls i (n - length got) of
           SSL_bytes s \<Rightarrow>
             let got = got @ take (n - length got) s
             in if tl_pending tls i then TCPS_readLoop tls n got c else Some (c, got, True)
         | SSL_want_read \<Rightarrow> Some (c, got, True)
         | SSL_error \<Rightarrow> Some (c\<lparr>cn_reason := HM_REASON_INTERNAL_ERROR\<rparr>, got, False))"

partial_function (option) TCPS_recvLoop ::
    "tls_calls \<Rightarrow> nat \<Rightarrow> string \<Rightarrow> HMSocketUtilTCPS \<Rightarrow> (HMSocketUtilTCPS \<times> string \<times> HM_SOCK_DATA_STATUS) option" where
  "TCPS_recvLoop tls n got c =
     (if n \<le> length got then Some (c, got, HM_SOCK_DATA_OK)
      else if tl_select tls (cn_turn c) < 0
      then Some (c\<lparr>cn_reason := HM_REASON_INTERNAL_ERROR\<rparr>, got, HM_SOCK_DATA_FAILED)
      else if tl_select tls (cn_turn c) = 0
      then Some (c\<lparr>cn_reason := HM_REASON_RESPONSE_TIMEOUT\<rparr>, got, HM_SOCK_DATA_TIMEOUT)
      else case TCPS_readLoop tls n got c of None \<Rightarrow> None
        | Some (c, got, ok) \<Rightarrow>
            if \<not> ok then Some (c, got, HM_SOCK_DATA_FAILED)
            else TCPS_recvLoop tls n got (if length got = n then c\<lparr>cn_reason := HM_REASON_SUCCESS\<rparr> else c))"

definition TCPS_recvData ::
    "tls_calls \<Rightarrow> nat \<Rightarrow> HMSocketUtilTCPS \<Rightarrow> (HMSocketUtilTCPS \<times> string \<times> HM_SOCK_DATA_STATUS) option" where
  "TCPS_recvData tls n c =
     (if \<not> cn_connected c then Some (c, [], HM_SOCK_DATA_FAILED) else TCPS_recvLoop tls n [] c)"

section \<open>A ping over any connection\<close>

definition net_sendMessage ::
    "(string \<Rightarrow> 'c \<Rightarrow> 'c \<times> bool) \<Rightarrow> string \<Rightarrow> 'c \<Rightarrow> 'c \<times> bool" where
  "net_sendMessage send data c =
     (let (c, ok) = send (size_bytes (hton64 (of_nat (length data)))) c
      in if \<not> ok then (c, False) else if data = [] then (c, True) else send data c)"

definition net_pingRemoteHost ::
    "proto \<Rightarrow> (string \<Rightarrow> 'a HMSocketUtilTCP_scheme \<Rightarrow> 'a HMSocketUtilTCP_scheme \<times> bool) \<Rightarrow>
     (nat \<Rightarrow> 'a HMSocketUtilTCP_scheme \<Rightarrow> ('a HMSocketUtilTCP_scheme \<times> string \<times> HM_SOCK_DATA_STATUS) option) \<Rightarrow>
     'a HMSocketUtilTCP_scheme \<Rightarrow> ('a HMSocketUtilTCP_scheme \<times> bool) option" where
  "net_pingRemoteHost pb send recv c =
     (let (c, ok) = net_sendMessage send (command [''getremotequery'']) c
      in if \<not> ok then Some (c, False)
         else case recv 8 c of None \<Rightarrow> None
           | Some (c, bytes, status) \<Rightarrow>
               if status \<noteq> HM_SOCK_DATA_OK then Some (c, False)
               else if bytes_size bytes = 0 then Some (c\<lparr>cn_reason := HM_REASON_RESPONSE_DOWN\<rparr>, False)
               else case recv (unat (ntoh64 (bytes_size bytes))) c of None \<Rightarrow> None
                 | Some (c, reply, status) \<Rightarrow>
                     if status \<noteq> HM_SOCK_DATA_OK then Some (c, False)
                     else if unpackBool pb reply then Some (c\<lparr>cn_reason := HM_REASON_SUCCESS\<rparr>, True)
                     else Some (c\<lparr>cn_reason := HM_REASON_RESPONSE_DOWN\<rparr>, False))"

section \<open>What the checks rely on\<close>

text \<open>The reason of a connection is the one of its last call: sending keeps it, a read that is complete sets the
  success, and one that is not may keep it.\<close>

locale check_connection =
  fixes send :: "string \<Rightarrow> 'a HMSocketUtilTCP_scheme \<Rightarrow> 'a HMSocketUtilTCP_scheme \<times> bool"
    and recv :: "nat \<Rightarrow> 'a HMSocketUtilTCP_scheme \<Rightarrow> ('a HMSocketUtilTCP_scheme \<times> string \<times> HM_SOCK_DATA_STATUS) option"
  assumes send_reason: "cn_reason (fst (send data c)) = cn_reason c"
    and recv_ok: "recv n c = Some (c', d, HM_SOCK_DATA_OK) \<Longrightarrow> length d = n \<and> (0 < n \<longrightarrow> cn_reason c' = HM_REASON_SUCCESS)"
    and recv_bound: "recv n c = Some (c', d, s) \<Longrightarrow> length d \<le> n"
    and recv_failed: "recv n c = Some (c', d, s) \<Longrightarrow> s \<noteq> HM_SOCK_DATA_OK \<Longrightarrow>
      cn_reason c' \<in> {cn_reason c, HM_REASON_INTERNAL_ERROR, HM_REASON_RESPONSE_TIMEOUT}"
begin

lemma sendMessage_reason: "cn_reason (fst (net_sendMessage send data c)) = cn_reason c"
  by (auto simp: net_sendMessage_def Let_def send_reason split: prod.splits)
    (metis fst_conv send_reason)+

text \<open>A ping that is answered with yes ends with the success. One that is not may end with it too: the connection was
  closed before an answer came.\<close>

lemma ping_reason:
  assumes "net_pingRemoteHost pb send recv c = Some (c', ok)" and "cn_reason c = HM_REASON_SUCCESS"
  shows "if ok then cn_reason c' = HM_REASON_SUCCESS
    else cn_reason c' \<in> {HM_REASON_SUCCESS, HM_REASON_INTERNAL_ERROR, HM_REASON_RESPONSE_TIMEOUT, HM_REASON_RESPONSE_DOWN}"
proof -
  obtain c1 sent where c1: "net_sendMessage send (command [''getremotequery'']) c = (c1, sent)" by fastforce
  with sendMessage_reason [of "command [''getremotequery'']" c] assms(2) have r1: "cn_reason c1 = HM_REASON_SUCCESS" by simp
  show ?thesis
  proof (cases sent)
    case True
    then obtain c2 bytes s where c2: "recv 8 c1 = Some (c2, bytes, s)"
      using assms(1) c1 by (auto simp: net_pingRemoteHost_def split: option.splits)
    show ?thesis
    proof (cases "s = HM_SOCK_DATA_OK \<and> bytes_size bytes \<noteq> 0")
      case more: True
      with c2 recv_ok [of 8 c1 c2 bytes] have r2: "cn_reason c2 = HM_REASON_SUCCESS" by simp
      let ?n = "unat (ntoh64 (bytes_size bytes))"
      obtain c3 reply t where "recv ?n c2 = Some (c3, reply, t)"
        using assms(1) c1 c2 True more by (auto simp: net_pingRemoteHost_def split: option.splits)
      then show ?thesis using assms(1) c1 c2 True more r2 recv_failed [of ?n c2 c3 reply t]
        by (auto simp: net_pingRemoteHost_def split: if_splits)
    qed (use assms(1) c1 c2 True r1 recv_failed [OF c2] in \<open>auto simp: net_pingRemoteHost_def split: if_splits\<close>)
  qed (use assms(1) c1 r1 in \<open>simp add: net_pingRemoteHost_def\<close>)
qed

end

lemma TCP_recvLoop_facts:
  "length got \<le> n \<Longrightarrow> TCP_recvLoop calls n got c = (c', d, s) \<Longrightarrow>
   length d \<le> n \<and> (s = HM_SOCK_DATA_OK \<longrightarrow> length d = n \<and> (length got < n \<longrightarrow> cn_reason c' = HM_REASON_SUCCESS)
     \<and> (length got = n \<longrightarrow> c' = c))
   \<and> (s \<noteq> HM_SOCK_DATA_OK \<longrightarrow> cn_reason c' \<in> {cn_reason c, HM_REASON_INTERNAL_ERROR, HM_REASON_RESPONSE_TIMEOUT})"
proof (induction calls n got c rule: TCP_recvLoop.induct)
  case (1 calls n got c)
  show ?case
  proof (cases "n \<le> length got")
    case False
    obtain c1 e where e: "TCP_select calls c = (c1, e)" by fastforce
    then have r: "cn_reason c1 = cn_reason c" by (auto simp: TCP_select_def split: if_splits)
    show ?thesis
    proof (cases "\<exists>b. e = Arrives b \<and> b \<noteq> []")
      case True
      then obtain b where b: "e = Arrives b" "b \<noteq> []" by blast
      let ?k = "n - length got"
      let ?got = "got @ take ?k b" and ?c1 = "c1\<lparr>cn_in := drop ?k b\<rparr>"
      let ?c = "if length ?got = n then ?c1\<lparr>cn_reason := HM_REASON_SUCCESS\<rparr> else ?c1"
      have step: "TCP_recvLoop calls n got c = TCP_recvLoop calls n ?got ?c"
        using False e b by (subst TCP_recvLoop.simps) (simp add: Let_def)
      have ih: "length ?got \<le> n \<Longrightarrow> TCP_recvLoop calls n ?got ?c = (c', d, s) \<Longrightarrow>
          length d \<le> n \<and> (s = HM_SOCK_DATA_OK \<longrightarrow> length d = n \<and> (length ?got < n \<longrightarrow> cn_reason c' = HM_REASON_SUCCESS)
            \<and> (length ?got = n \<longrightarrow> c' = ?c))
          \<and> (s \<noteq> HM_SOCK_DATA_OK \<longrightarrow> cn_reason c' \<in> {cn_reason ?c, HM_REASON_INTERNAL_ERROR, HM_REASON_RESPONSE_TIMEOUT})"
        by (rule "1.IH" [OF False e [symmetric] b(1) b(2) refl refl refl refl])
      have len: "length ?got \<le> n" using False by simp
      have run: "TCP_recvLoop calls n ?got ?c = (c', d, s)" using "1.prems"(2) step by simp
      show ?thesis
      proof (cases "length ?got = n")
        case True
        then have "TCP_recvLoop calls n ?got ?c = (?c, ?got, HM_SOCK_DATA_OK)" by (subst TCP_recvLoop.simps) simp
        with run have "c' = ?c" "d = ?got" "s = HM_SOCK_DATA_OK" by simp_all
        with True False show ?thesis by (simp del: length_append length_take)
      next
        case part: False
        then have "cn_reason ?c = cn_reason c" using r by (simp only: if_False) simp
        moreover have "length ?got < n" using part len by linarith
        moreover have "length got \<noteq> n" using False by simp
        ultimately show ?thesis using ih [OF len run] by (simp del: length_append length_take)
      qed
    next
      case no: False
      then show ?thesis using "1.prems" False e r by (subst (asm) TCP_recvLoop.simps) (cases e; auto)
    qed
  qed (use "1.prems" in \<open>auto simp: TCP_recvLoop.simps\<close>)
qed

interpretation tcp_connection: check_connection "TCP_sendData calls" "\<lambda>n c. Some (TCP_recvData calls n c)"
proof
  show "cn_reason (fst (TCP_sendData calls data c)) = cn_reason c" for data and c :: "'a HMSocketUtilTCP_scheme"
    by (simp add: TCP_sendData_def)
next
  fix n and c c' :: "'a HMSocketUtilTCP_scheme" and d assume "Some (TCP_recvData calls n c) = Some (c', d, HM_SOCK_DATA_OK)"
  then show "length d = n \<and> (0 < n \<longrightarrow> cn_reason c' = HM_REASON_SUCCESS)"
    using TCP_recvLoop_facts [of "[]" n calls c c' d HM_SOCK_DATA_OK] by (auto simp: TCP_recvData_def split: if_splits)
next
  fix n and c c' :: "'a HMSocketUtilTCP_scheme" and d s assume "Some (TCP_recvData calls n c) = Some (c', d, s)"
  then show "length d \<le> n" and "s \<noteq> HM_SOCK_DATA_OK \<Longrightarrow>
      cn_reason c' \<in> {cn_reason c, HM_REASON_INTERNAL_ERROR, HM_REASON_RESPONSE_TIMEOUT}"
    using TCP_recvLoop_facts [of "[]" n calls c c' d s] by (auto simp: TCP_recvData_def split: if_splits)
qed

lemma TCPS_readLoop_facts:
  assumes "TCPS_readLoop tls n got c = Some r" and "length got \<le> n"
  shows "length (fst (snd r)) \<le> n \<and> cn_reason (fst r) = (if snd (snd r) then cn_reason c else HM_REASON_INTERNAL_ERROR)"
proof -
  define Q :: "nat \<Rightarrow> string \<Rightarrow> HMSocketUtilTCPS \<Rightarrow> HMSocketUtilTCPS \<times> string \<times> bool \<Rightarrow> bool" where
    "Q n got c r \<longleftrightarrow> length got \<le> n \<longrightarrow> length (fst (snd r)) \<le> n
       \<and> cn_reason (fst r) = (if snd (snd r) then cn_reason c else HM_REASON_INTERNAL_ERROR)" for n got c r
  have "Q n got c r"
    using _ assms(1)
  proof (rule TCPS_readLoop.raw_induct [where P = "\<lambda>_ n got c r. Q n got c r"])
    fix loop tls n got c r
    assume again: "\<And>tls n got c r. loop tls n got c = Some r \<Longrightarrow> Q n got c r"
      and body: "(let i = cn_turn c; c = c\<lparr>cn_turn := Suc i\<rparr>
        in case tl_read tls i (n - length got) of
           SSL_bytes s \<Rightarrow>
             let got = got @ take (n - length got) s
             in if tl_pending tls i then loop tls n got c else Some (c, got, True)
         | SSL_want_read \<Rightarrow> Some (c, got, True)
         | SSL_error \<Rightarrow> Some (c\<lparr>cn_reason := HM_REASON_INTERNAL_ERROR\<rparr>, got, False)) = Some r"
    show "Q n got c r"
    proof (cases "\<exists>s. tl_read tls (cn_turn c) (n - length got) = SSL_bytes s \<and> tl_pending tls (cn_turn c)")
      case True
      then obtain s where "loop tls n (got @ take (n - length got) s) (c\<lparr>cn_turn := Suc (cn_turn c)\<rparr>) = Some r"
        using body by (auto simp: Let_def)
      from again [OF this] show ?thesis by (auto simp: Q_def)
    next
      case False
      with body show ?thesis by (auto simp: Q_def Let_def split: ssl_read.splits if_splits)
    qed
  qed
  with assms(2) show ?thesis by (simp add: Q_def)
qed

definition recv_facts :: "nat \<Rightarrow> string \<Rightarrow> HM_REASON \<Rightarrow> HM_REASON \<Rightarrow> string \<Rightarrow> HM_SOCK_DATA_STATUS \<Rightarrow> bool" where
  "recv_facts n got before after d s \<longleftrightarrow> length d \<le> n
     \<and> (s = HM_SOCK_DATA_OK \<longrightarrow> length d = n \<and> after = (if length got < n then HM_REASON_SUCCESS else before))
     \<and> (s \<noteq> HM_SOCK_DATA_OK \<longrightarrow> after \<in> {before, HM_REASON_INTERNAL_ERROR, HM_REASON_RESPONSE_TIMEOUT} \<and> length got < n)"

lemma TCPS_recvLoop_facts:
  assumes "TCPS_recvLoop tls n got c = Some (c', d, s)" and "length got \<le> n"
  shows "recv_facts n got (cn_reason c) (cn_reason c') d s"
proof -
  define Q :: "nat \<Rightarrow> string \<Rightarrow> HMSocketUtilTCPS \<Rightarrow> HMSocketUtilTCPS \<times> string \<times> HM_SOCK_DATA_STATUS \<Rightarrow> bool" where
    "Q n got c r \<longleftrightarrow> length got \<le> n \<longrightarrow>
       recv_facts n got (cn_reason c) (cn_reason (fst r)) (fst (snd r)) (snd (snd r))" for n got c r
  have "Q n got c (c', d, s)"
    using _ assms(1)
  proof (rule TCPS_recvLoop.raw_induct [where P = "\<lambda>_ n got c r. Q n got c r"])
    fix loop tls n got c r
    assume again: "\<And>tls n got c r. loop tls n got c = Some r \<Longrightarrow> Q n got c r"
      and body: "(if n \<le> length got then Some (c, got, HM_SOCK_DATA_OK)
        else if tl_select tls (cn_turn c) < 0
        then Some (c\<lparr>cn_reason := HM_REASON_INTERNAL_ERROR\<rparr>, got, HM_SOCK_DATA_FAILED)
        else if tl_select tls (cn_turn c) = 0
        then Some (c\<lparr>cn_reason := HM_REASON_RESPONSE_TIMEOUT\<rparr>, got, HM_SOCK_DATA_TIMEOUT)
        else case TCPS_readLoop tls n got c of None \<Rightarrow> None
          | Some (c, got, ok) \<Rightarrow>
              if \<not> ok then Some (c, got, HM_SOCK_DATA_FAILED)
              else loop tls n got (if length got = n then c\<lparr>cn_reason := HM_REASON_SUCCESS\<rparr> else c)) = Some r"
    show "Q n got c r"
    proof (cases "length got < n \<and> 0 < tl_select tls (cn_turn c)")
      case True
      with body obtain c1 d1 ok where rd: "TCPS_readLoop tls n got c = Some (c1, d1, ok)"
        by (auto split: option.splits)
      from TCPS_readLoop_facts [OF rd] True have l: "length d1 \<le> n" "cn_reason c1 = (if ok then cn_reason c else HM_REASON_INTERNAL_ERROR)"
        by auto
      show ?thesis
      proof (cases ok)
        case ok: True
        let ?c = "if length d1 = n then c1\<lparr>cn_reason := HM_REASON_SUCCESS\<rparr> else c1"
        have "loop tls n d1 ?c = Some r" using body rd True ok by simp
        from again [OF this] show ?thesis using l ok True by (cases "length d1 = n") (auto simp: Q_def recv_facts_def)
      qed (use body rd True l in \<open>auto simp: Q_def recv_facts_def\<close>)
    qed (use body in \<open>auto simp: Q_def recv_facts_def split: if_splits\<close>)
  qed
  with assms(2) show ?thesis by (simp add: Q_def)
qed

interpretation tls_connection: check_connection "TCPS_sendData tls" "TCPS_recvData tls"
proof
  show "cn_reason (fst (TCPS_sendData tls data c)) = cn_reason c" for data c by (simp add: TCPS_sendData_def)
next
  fix n c c' d assume "TCPS_recvData tls n c = Some (c', d, HM_SOCK_DATA_OK)"
  then show "length d = n \<and> (0 < n \<longrightarrow> cn_reason c' = HM_REASON_SUCCESS)"
    using TCPS_recvLoop_facts [of tls n "[]" c c' d HM_SOCK_DATA_OK] by (auto simp: TCPS_recvData_def recv_facts_def split: if_splits)
next
  fix n c c' d s assume "TCPS_recvData tls n c = Some (c', d, s)"
  then show "length d \<le> n" and "s \<noteq> HM_SOCK_DATA_OK \<Longrightarrow>
      cn_reason c' \<in> {cn_reason c, HM_REASON_INTERNAL_ERROR, HM_REASON_RESPONSE_TIMEOUT}"
    using TCPS_recvLoop_facts [of tls n "[]" c c' d s] by (auto simp: TCPS_recvData_def recv_facts_def split: if_splits)
qed

section \<open>The handshake\<close>

text \<open>
  A handshake that has begun and gets no answer: \<open>SSL_connect\<close> wants to go on in every turn. The set for writing is given to
  \<open>select\<close> as well, and a connected socket with room in its buffer can be written to, so \<open>select\<close> returns at once and
  reports the socket without an error; its time-out is never reached.
\<close>

definition stalled :: "tls_calls \<Rightarrow> bool" where
  "stalled tls \<longleftrightarrow> (\<forall>i. \<not> tl_finished tls i \<and> (\<exists>ret>0. tl_connect tls i = SSL_wants ret True (Some 0)))"

lemma stalled_loop:
  assumes "stalled tls"
  shows "TCPS_connectLoop tls i status c = None"
proof (rule ccontr)
  assume "TCPS_connectLoop tls i status c \<noteq> None"
  then obtain r where run: "TCPS_connectLoop tls i status c = Some r" by blast
  have "\<not> stalled tls"
    using _ run
  proof (rule TCPS_connectLoop.raw_induct [where P = "\<lambda>tls i status c r. \<not> stalled tls"])
    fix loop :: "tls_calls \<Rightarrow> nat \<Rightarrow> bool \<Rightarrow> HMSocketUtilTCPS \<Rightarrow> (HMSocketUtilTCPS \<times> bool) option" and tls i status c r
    assume again: "\<And>tls i status c r. loop tls i status c = Some r \<Longrightarrow> \<not> stalled tls"
      and body: "(case tl_connect tls i of
        SSL_connected \<Rightarrow> Some (c\<lparr>cn_connectTime := tl_now tls, cn_connected := True\<rparr>, True)
      | SSL_refused \<Rightarrow> Some (c\<lparr>cn_reason := HM_REASON_CONNECT_FAILURE\<rparr>, False)
      | SSL_fails \<Rightarrow> Some (c\<lparr>cn_reason := HM_REASON_CONNECT_FAILURE\<rparr>, False)
      | SSL_wants ret ready err \<Rightarrow>
          let (c, status) = handshake_wait ret ready err status c
          in if status \<and> \<not> tl_finished tls i then loop tls (Suc i) status c
             else Some (c\<lparr>cn_reason := HM_REASON_CONNECT_FAILURE\<rparr>, False)) = Some r"
    show "\<not> stalled tls"
    proof
      assume st: "stalled tls"
      then obtain ret where "0 < ret" "tl_connect tls i = SSL_wants ret True (Some 0)" "\<not> tl_finished tls i"
        unfolding stalled_def by blast
      with body have "loop tls (Suc i) True c = Some r" by (simp add: handshake_wait_def)
      from again [OF this] st show False by simp
    qed
  qed
  with assms show False by simp
qed

lemma handshake_stalls: "stalled tls \<Longrightarrow> tl_new tls \<Longrightarrow> TCPS_connectSocket tls c = None"
  by (simp add: TCPS_connectSocket_def stalled_loop)

text \<open>A handshake that is answered in every turn connects, and keeps the reason of the TCP connection.\<close>

lemma handshake_loop_connects:
  assumes "\<And>j. i \<le> j \<Longrightarrow> j < k \<Longrightarrow> \<exists>ret>0. tl_connect tls j = SSL_wants ret True (Some 0) \<and> \<not> tl_finished tls j"
    and "tl_connect tls k = SSL_connected" and "i \<le> k"
  shows "TCPS_connectLoop tls i status c = Some (c\<lparr>cn_connectTime := tl_now tls, cn_connected := True\<rparr>, True)"
  using assms
proof (induction "k - i" arbitrary: i status)
  case 0
  then show ?case by (subst TCPS_connectLoop.simps) simp
next
  case (Suc m)
  then have "i < k" by simp
  then obtain ret where "0 < ret" "tl_connect tls i = SSL_wants ret True (Some 0)" "\<not> tl_finished tls i" using Suc(3) [of i] by auto
  moreover have "TCPS_connectLoop tls (Suc i) True c = Some (c\<lparr>cn_connectTime := tl_now tls, cn_connected := True\<rparr>, True)"
    using Suc(1) [of "Suc i" True] Suc(2,3,4) \<open>i < k\<close> by (simp add: Suc_le_eq)
  ultimately show ?case by (subst TCPS_connectLoop.simps) (simp add: handshake_wait_def)
qed

lemma handshake_connects:
  assumes "tl_new tls" and "\<And>j. j < k \<Longrightarrow> \<exists>ret>0. tl_connect tls j = SSL_wants ret True (Some 0) \<and> \<not> tl_finished tls j"
    and "tl_connect tls k = SSL_connected"
  shows "TCPS_connectSocket tls c =
    Some (c\<lparr>cn_ssl := True, cn_connectTime := tl_now tls, cn_connected := True\<rparr>, True)"
  using handshake_loop_connects [of 0 k tls False "c\<lparr>cn_ssl := True\<rparr>"] assms by (simp add: TCPS_connectSocket_def)

section \<open>The stream of a connection\<close>

text \<open>The bytes that are still to arrive, in portions of any size, before the time is over or the other end closes.\<close>

inductive to_come :: "socket_calls \<Rightarrow> bool \<Rightarrow> nat \<Rightarrow> string \<Rightarrow> bool" for calls peer where
  nothing: "so_input calls t = (if peer then SelectTimeout else Arrives []) \<Longrightarrow> to_come calls peer t []"
| portion: "so_input calls t = Arrives s \<Longrightarrow> s \<noteq> [] \<Longrightarrow> to_come calls peer (Suc t) bs \<Longrightarrow> to_come calls peer t (s @ bs)"

inductive_cases to_come_NilE: "to_come calls peer t []"

definition on_stream :: "socket_calls \<Rightarrow> 'a HMSocketUtilTCP_scheme \<Rightarrow> string \<Rightarrow> bool \<Rightarrow> bool" where
  "on_stream calls c bs peer \<longleftrightarrow> (\<exists>rest. bs = cn_in c @ rest \<and> to_come calls peer (cn_turn c) rest)"

lemma select_some:
  assumes "on_stream calls c bs peer" and "bs \<noteq> []"
  obtains c1 s rest where "TCP_select calls c = (c1, Arrives s)" "s \<noteq> []" "bs = s @ rest" "cn_reason c1 = cn_reason c"
    "cn_connected c1 = cn_connected c" "to_come calls peer (cn_turn c1) rest"
proof -
  from assms(1) obtain rest where rest: "bs = cn_in c @ rest" "to_come calls peer (cn_turn c) rest" by (auto simp: on_stream_def)
  show ?thesis
  proof (cases "cn_in c = []")
    case True
    with rest assms(2) have "rest \<noteq> []" by simp
    with rest(2) obtain s bs' where "rest = s @ bs'" "so_input calls (cn_turn c) = Arrives s" "s \<noteq> []" "to_come calls peer (Suc (cn_turn c)) bs'"
      by (cases rule: to_come.cases) auto
    then show ?thesis using True rest(1) by (intro that [of "c\<lparr>cn_turn := Suc (cn_turn c)\<rparr>" s bs']) (simp_all add: TCP_select_def)
  next
    case False
    then show ?thesis using rest by (intro that [of c "cn_in c" rest]) (simp_all add: TCP_select_def)
  qed
qed

lemma select_none:
  assumes "on_stream calls c [] peer"
  shows "TCP_select calls c = (c\<lparr>cn_turn := Suc (cn_turn c)\<rparr>, if peer then SelectTimeout else Arrives [])"
  using assms by (auto simp: on_stream_def TCP_select_def elim: to_come_NilE)

text \<open>A read of \<open>n\<close> bytes gives the next \<open>n\<close> bytes of the stream, however they arrive.\<close>

lemma recvLoop_stream:
  assumes "on_stream calls c bs peer" and "length got < n"
  shows "\<exists>c'. cn_connected c' = cn_connected c \<and>
    (if n - length got \<le> length bs
     then TCP_recvLoop calls n got c = (c', got @ take (n - length got) bs, HM_SOCK_DATA_OK)
       \<and> cn_reason c' = HM_REASON_SUCCESS \<and> on_stream calls c' (drop (n - length got) bs) peer
     else TCP_recvLoop calls n got c = (c', got @ bs, if peer then HM_SOCK_DATA_TIMEOUT else HM_SOCK_DATA_FAILED)
       \<and> cn_reason c' = (if peer then HM_REASON_RESPONSE_TIMEOUT else cn_reason c))"
  using assms
proof (induction "n - length got" arbitrary: got c bs rule: less_induct)
  case less
  show ?case
  proof (cases "bs = []")
    case True
    with less(2,3) show ?thesis using select_none [of calls c peer]
      by (subst (1 2) TCP_recvLoop.simps) (auto simp: not_le)
  next
    case False
    from select_some [OF less(2) False] obtain c1 s rest where sel: "TCP_select calls c = (c1, Arrives s)" "s \<noteq> []" "bs = s @ rest"
        "cn_reason c1 = cn_reason c" "cn_connected c1 = cn_connected c" "to_come calls peer (cn_turn c1) rest" by metis
    let ?k = "n - length got"
    let ?got = "got @ take ?k s" and ?c1 = "c1\<lparr>cn_in := drop ?k s\<rparr>"
    show ?thesis
    proof (cases "?k \<le> length s")
      case True
      let ?c = "?c1\<lparr>cn_reason := HM_REASON_SUCCESS\<rparr>"
      have full: "length ?got = n" using True less(3) by simp
      then have "TCP_recvLoop calls n got c = TCP_recvLoop calls n ?got ?c"
        using less(3) sel(1,2) by (subst TCP_recvLoop.simps) (simp add: Let_def)
      also have "\<dots> = (?c, ?got, HM_SOCK_DATA_OK)" using full by (subst TCP_recvLoop.simps) simp
      finally have "TCP_recvLoop calls n got c = (?c, got @ take ?k bs, HM_SOCK_DATA_OK)" using True sel(3) by simp
      moreover have "on_stream calls ?c (drop ?k bs) peer" using True sel(3,6) by (auto simp: on_stream_def)
      moreover have "?k \<le> length bs" using True sel(3) by simp
      ultimately show ?thesis using sel(5) by (intro exI [of _ ?c]) simp
    next
      case part: False
      then have s: "take ?k s = s" "drop ?k s = []" by simp_all
      have not_full: "length got + length s \<noteq> n" using part by linarith
      let ?c = "c1\<lparr>cn_in := []\<rparr>"
      have step: "TCP_recvLoop calls n got c = TCP_recvLoop calls n (got @ s) ?c"
        using less(3) sel(1,2) s not_full by (subst TCP_recvLoop.simps) (simp add: Let_def)
      have lens: "n - length (got @ s) < ?k" "length (got @ s) < n" using less(3) sel(2) part by (auto simp: neq_Nil_conv)
      have "on_stream calls ?c rest peer" using sel(6) by (simp add: on_stream_def)
      from less(1) [OF lens(1) this lens(2)] show ?thesis
        unfolding step using part sel(3,4,5) by (auto simp: take_append drop_append not_le split: if_splits)
    qed
  qed
qed

definition abstracts :: "socket_calls \<Rightarrow> 'a HMSocketUtilTCP_scheme \<Rightarrow> HMSocketUtil \<Rightarrow> bool" where
  "abstracts calls c su \<longleftrightarrow>
     cn_connected c = su_connected su \<and> cn_reason c = su_reason su \<and> on_stream calls c (su_in su) (su_peer su)"

text \<open>
  C15: the connections of \<open>HM_Socket\<close> abstract from how the bytes arrive: a read on the level of the system calls gives the same
  bytes, status and reason, and leaves the same stream behind, when the stream holds what is to come.
\<close>

theorem recvData_refines_stream:
  assumes "abstracts calls c su"
  shows "\<exists>c' su' d s. TCP_recvData calls n c = (c', d, s) \<and> SocketTCP_recvData n su = (su', d, s)
    \<and> cn_reason c' = su_reason su' \<and> (s = HM_SOCK_DATA_OK \<longrightarrow> abstracts calls c' su')"
proof -
  consider "\<not> su_connected su" | "su_connected su" "n = 0" | "su_connected su" "0 < n" by blast
  then show ?thesis
  proof cases
    case 2
    then show ?thesis using assms by (simp add: TCP_recvData_def SocketTCP_recvData_def abstracts_def TCP_recvLoop.simps)
  next
    case 3
    then show ?thesis using assms recvLoop_stream [of calls c "su_in su" "su_peer su" "[]" n]
      by (auto simp: TCP_recvData_def SocketTCP_recvData_def abstracts_def split: if_splits)
  qed (use assms in \<open>simp add: TCP_recvData_def SocketTCP_recvData_def abstracts_def\<close>)
qed

definition w_arrivals :: socket_calls where
  "w_arrivals = \<lparr>so_socket = True, so_fcntl = True, so_setsockopt = True, so_connect = True, so_select = 1, so_ready = True,
     so_error = Some 0, so_now = 12, so_send = (\<lambda>_ s. int (length s)),
     so_input = (\<lambda>i. if i = 0 then Arrives ''ab'' else if i = 1 then Arrives ''c'' else SelectTimeout)\<rparr>"

theorem recvData_refines_stream_witness:
  "\<exists>c' su'. TCP_recvData w_arrivals 3 (TCP_new\<lparr>cn_connected := True\<rparr>) = (c', ''abc'', HM_SOCK_DATA_OK)
     \<and> abstracts w_arrivals c' su'"
proof -
  have "to_come w_arrivals True 2 []" by (rule to_come.nothing) (simp add: w_arrivals_def)
  then have "to_come w_arrivals True 1 (''c'' @ [])" by (intro to_come.portion) (simp_all add: w_arrivals_def numeral_2_eq_2)
  then have "to_come w_arrivals True 0 (''ab'' @ ''c'')" by (intro to_come.portion) (simp_all add: w_arrivals_def)
  then have "abstracts w_arrivals (TCP_new\<lparr>cn_connected := True\<rparr>) (SocketUtil_accepted ''abc'')"
    by (simp add: abstracts_def on_stream_def TCP_new_def SocketUtil_accepted_def)
  from recvData_refines_stream [OF this, of 3] show ?thesis
    by (auto simp: SocketTCP_recvData_def SocketUtil_accepted_def)
qed

end
