(* ===== verification/HM_DNSAnswer.thy ===== *)
theory HM_DNSAnswer
  imports HM_Daemon
begin

text \<open>
  What the end of a lookup does to the checks that wait for it (\<open>HMWorkDNSLookup::processWork\<close>): the
  results of the addresses that are gone are removed, and every address of the answer is checked.
  Each turn of the loops of \<open>processWork\<close> changes the parameter objects of one check at one address;
  the relation \<open>adjusts\<close> and the predicate \<open>local_at\<close> say so, and the properties follow by the loop
  rules of the prelude.
\<close>

section \<open>Changes at one address\<close>

text \<open>A function on parameter objects that changes nothing but the result of one address.\<close>

definition local_at :: "HMIPAddress \<Rightarrow> (HMDataCheckParams \<Rightarrow> HMDataCheckParams) \<Rightarrow> bool" where
  "local_at ip f \<longleftrightarrow>
     (\<forall>p. map_sorted IPAddress_less (cp_checkData p) \<longrightarrow>
        map_sorted IPAddress_less (cp_checkData (f p)) \<and> cp_checkTTL (f p) = cp_checkTTL p
        \<and> cp_numCheckRetries (f p) = cp_numCheckRetries p \<and> cp_checkRetryDelay (f p) = cp_checkRetryDelay p
        \<and> (\<forall>a. a \<noteq> ip \<longrightarrow> data_find a (f p) = data_find a p))"

lemma local_at_nextCheckTime:
  "local_at ip f \<Longrightarrow> map_sorted IPAddress_less (cp_checkData p) \<Longrightarrow> a \<noteq> ip \<Longrightarrow>
     CheckParams_nextCheckTime now a (f p) = CheckParams_nextCheckTime now a p"
  by (simp add: local_at_def CheckParams_nextCheckTime_def split: option.split)

lemma local_at_comp: "local_at ip f \<Longrightarrow> local_at ip g \<Longrightarrow> local_at ip (\<lambda>p. f (g p))"
  by (simp add: local_at_def)

lemma local_at_adjust: "local_at ip (\<lambda>p. data_adjust ip (g p) p)"
  by (simp add: local_at_def data_adjust_def ip_order.find_adjust_other)

lemma local_at_touch: "local_at ip (data_touch ip g)"
proof -
  have "local_at ip (\<lambda>p. case data_find ip p of
      None \<Rightarrow> p\<lparr>cp_checkData :=
        smap_insert IPAddress_less ip (CheckResult_new (cp_checkTimeout p)) (cp_checkData p)\<rparr>
    | Some _ \<Rightarrow> p)"
    by (simp add: local_at_def ip_order.map_sorted_insert ip_order.find_insert_other split: option.split)
  from local_at_comp [OF local_at_adjust [of ip "\<lambda>_. g"] this]
  show ?thesis by (simp add: data_touch_def [abs_def])
qed

lemma local_at_queue: "local_at ip (CheckParams_queueQuerry ip)"
  using local_at_touch by (simp add: CheckParams_queueQuerry_def [abs_def])

lemma local_at_invalidate: "local_at ip (\<lambda>p. fst (CheckParams_invalidateResult ip p))"
  by (simp add: local_at_def CheckParams_invalidateResult_def map_sorted_erase
      ip_order.find_erase_other split: option.split)

lemma local_at_empty:
  "local_at ip (\<lambda>p. CheckParams_updateCheck n1 n2 ip response reason s e port (CheckParams_emptyQuery ip p))"
proof -
  have "local_at ip (CheckParams_updateCheck n1 n2 ip response reason s e port)"
    by (auto simp: local_at_def CheckParams_updateCheck_def data_adjust_def ip_order.find_adjust_other
        split: option.split)
  moreover have "local_at ip (CheckParams_emptyQuery ip)"
    using local_at_touch by (simp add: CheckParams_emptyQuery_def [abs_def])
  ultimately show ?thesis by (rule local_at_comp)
qed

text \<open>A step that writes to the parameter objects of one check and leaves the lookups.\<close>

definition adjusts ::
    "check_key \<Rightarrow> (HMDataCheckParams \<Rightarrow> HMDataCheckParams) \<Rightarrow> HMDaemon \<Rightarrow> HMDaemon \<Rightarrow> bool" where
  "adjusts key f d d' \<longleftrightarrow>
     dm_checkList d' = range_adjust key f (dm_checkList d) \<and> dm_dnsCache d' = dm_dnsCache d
     \<and> set (wq_queue (dm_workQueue d)) \<subseteq> set (wq_queue (dm_workQueue d'))"

lemma range_adjust_CheckList_sorted:
  assumes "CheckList_sorted cl" and "local_at ip f"
  shows "CheckList_sorted (range_adjust key f cl)"
proof -
  have "values_all (\<lambda>(n, p). map_sorted IPAddress_less (cp_checkData p))
      (smap_adjust CompareCheckList key (\<lambda>(n, p). (n, f p)) (cl_checklist cl))"
    using assms by (intro values_all_adjust) (auto simp: CheckList_sorted_def local_at_def)
  then show ?thesis using assms(1) by (simp add: CheckList_sorted_def range_adjust_def)
qed

lemma adjusts_range:
  assumes "CheckList_sorted (dm_checkList d)" and "adjusts key f d d'"
  shows "range_params k (dm_checkList d') =
    (if key_equiv CompareCheckList k key then map f (range_params k (dm_checkList d))
     else range_params k (dm_checkList d))"
proof (cases "key_equiv CompareCheckList k key")
  case True
  have sorted: "mmap_sorted CompareCheckList (cl_checklist (dm_checkList d))"
    using assms(1) by (simp add: CheckList_sorted_def)
  show ?thesis
    using assms(2) True sorted
    by (simp add: adjusts_def range_adjust_range range_params_equiv [OF _ True])
next
  case False
  then show ?thesis
    using assms by (simp add: adjusts_def range_adjust_other CheckList_sorted_def)
qed

lemma adjusts_sorted:
  "CheckList_sorted (dm_checkList d) \<Longrightarrow> adjusts key f d d' \<Longrightarrow> local_at ip f \<Longrightarrow>
     CheckList_sorted (dm_checkList d')"
  by (simp add: adjusts_def range_adjust_CheckList_sorted)

lemma range_adjust_id [simp]: "range_adjust key (\<lambda>p. p) cl = cl"
  by (simp add: range_adjust_def smap_adjust_def split_def)

text \<open>A check of an address is overdue, its result is gone, work for it is queued.\<close>

definition overdue :: "HMTimeStamp \<Rightarrow> check_key \<Rightarrow> HMIPAddress \<Rightarrow> HMDaemon \<Rightarrow> bool" where
  "overdue now key ip d \<longleftrightarrow>
     (\<exists>p \<in> set (range_params key (dm_checkList d)). CheckParams_nextCheckTime now ip p \<le> now)"

definition result_gone :: "check_key \<Rightarrow> HMIPAddress \<Rightarrow> HMDaemon \<Rightarrow> bool" where
  "result_gone key ip d \<longleftrightarrow> (\<forall>p \<in> set (range_params key (dm_checkList d)). data_find ip p = None)"

definition check_queued :: "check_key \<Rightarrow> HMIPAddress \<Rightarrow> HMDaemon \<Rightarrow> bool" where
  "check_queued key ip d \<longleftrightarrow>
     (\<exists>w \<in> set (wq_queue (dm_workQueue d)).
        wk_ipAddress w = ip \<and> key_equiv CompareCheckList key (wk_hostname w, wk_hostCheck w))"

lemma overdue_iff: "overdue now (host, check) ip d \<longleftrightarrow>
    CheckList_nextCheckTime now host ip check (dm_checkList d) \<le> now"
  by (auto simp: overdue_def nextCheckTime_is_minimum Min_le_iff)

lemma adjusts_elsewhere:
  assumes "CheckList_sorted (dm_checkList d)" and "adjusts key f d d'" and "local_at ip f" and "a \<noteq> ip"
  shows "overdue now k a d' \<longleftrightarrow> overdue now k a d" and "result_gone k a d' \<longleftrightarrow> result_gone k a d"
proof -
  have "map_sorted IPAddress_less (cp_checkData p)" if "p \<in> set (range_params k (dm_checkList d))" for p
    using range_member_sorted [OF assms(1) that] .
  then show "overdue now k a d' \<longleftrightarrow> overdue now k a d" "result_gone k a d' \<longleftrightarrow> result_gone k a d"
    using assms(3,4) local_at_nextCheckTime [OF assms(3) _ assms(4)]
    by (auto simp: overdue_def result_gone_def adjusts_range [OF assms(1,2)] local_at_def)
qed

section \<open>The turns of the loops\<close>

lemma queueCheck_adjusts:
  assumes "dm_queueCheck ares now host ip check d = Some d'"
  shows "adjusts (host, check) (CheckParams_queueQuerry ip) d d'"
    and "check_work_class ares check = Class cls \<Longrightarrow> check_queued (host, check) ip d'"
  using assms
  by (auto simp: dm_queueCheck_def state_queueCheck_def CheckList_queueCheck_def Let_def adjusts_def
      WorkQueue_insertWork_def check_queued_def check_work_def Work_new_def Work_setReschedule_def
      Work_setPublish_def Work_setStoreResults_def split: check_class.splits)

lemma kick_address_adjusts:
  assumes "dns_kick_address ares now w check ip d = Some d'"
  shows "\<exists>f. local_at ip f \<and> adjusts (wk_hostname w, check) f d d'"
proof -
  have id: "local_at ip (\<lambda>p. p)" "adjusts (wk_hostname w, check) (\<lambda>p. p) d d"
    by (simp_all add: local_at_def adjusts_def)
  show ?thesis
  proof (cases "is_blank ip")
    case True
    show ?thesis
    proof (cases "ip = wk_ipAddress w")
      case True
      then have "adjusts (wk_hostname w, check) (\<lambda>p. CheckParams_updateCheck now now ip (wk_response w)
          (wk_reason w) (wk_start w) (wk_end w) (hc_port check) (CheckParams_emptyQuery ip p)) d d'"
        using assms \<open>is_blank ip\<close>
        by (simp add: dns_kick_address_def CheckList_insertEmptyQuery_def Let_def adjusts_def)
          (use set_checkList_simps in fastforce)
      then show ?thesis using local_at_empty by blast
    next
      case False
      then have "d' = d" using assms \<open>is_blank ip\<close> by (simp add: dns_kick_address_def)
      then show ?thesis using id by blast
    qed
  next
    case False
    then have "d' = d \<or> dm_queueCheck ares now (wk_hostname w) ip check d = Some d'"
      using assms by (simp add: dns_kick_address_def split: if_splits)
    then show ?thesis using id queueCheck_adjusts(1) local_at_queue by blast
  qed
qed

lemma queue_not_overdue:
  assumes "map_sorted IPAddress_less (cp_checkData p)"
  shows "now < CheckParams_nextCheckTime now ip (CheckParams_queueQuerry ip p)"
  using assms
  by (simp add: CheckParams_queueQuerry_def CheckParams_nextCheckTime_def data_find_touch ts_plus_def)

text \<open>A turn for an address leaves no check of it overdue, and queues it if it was.\<close>

lemma kick_address_here:
  assumes "CheckList_sorted (dm_checkList d)" and "\<not> is_blank ip"
    and "dns_kick_address ares now w check ip d = Some d'"
  shows "\<not> overdue now (wk_hostname w, check) ip d'"
    and "check_work_class ares check = Class cls \<Longrightarrow> overdue now (wk_hostname w, check) ip d \<Longrightarrow>
      check_queued (wk_hostname w, check) ip d'"
proof -
  have run: "(if overdue now (wk_hostname w, check) ip d
      then dm_queueCheck ares now (wk_hostname w) ip check d else Some d) = Some d'"
    using assms(2,3) by (simp add: dns_kick_address_def overdue_iff)
  show "\<not> overdue now (wk_hostname w, check) ip d'"
  proof (cases "overdue now (wk_hostname w, check) ip d")
    case True
    then have "adjusts (wk_hostname w, check) (CheckParams_queueQuerry ip) d d'"
      using run queueCheck_adjusts(1) by simp
    then show ?thesis
      using range_member_sorted [OF assms(1)] queue_not_overdue
      by (auto simp: overdue_def adjusts_range [OF assms(1)] not_le)
  qed (use run in simp)
  show "check_queued (wk_hostname w, check) ip d'"
    if "check_work_class ares check = Class cls" "overdue now (wk_hostname w, check) ip d"
    using run that queueCheck_adjusts(2) by simp
qed

lemma overdue_equiv:
  "CheckList_sorted (dm_checkList d) \<Longrightarrow> key_equiv CompareCheckList k k' \<Longrightarrow>
     overdue now k a d = overdue now k' a d"
  by (simp add: overdue_def range_params_equiv [of _ k k'] CheckList_sorted_def)

lemma check_queued_equiv:
  "key_equiv CompareCheckList k k' \<Longrightarrow> check_queued k a d = check_queued k' a d"
  by (simp add: check_queued_def check_list_order.equiv_key)

lemma adjusts_queue: "adjusts key f d d' \<Longrightarrow> check_queued k a d \<Longrightarrow> check_queued k a d'"
  by (auto simp: adjusts_def check_queued_def)

text \<open>Everything a turn of the loop over the addresses keeps, for a check and an address of its own.\<close>

lemma kick_address_keeps:
  assumes "CheckList_sorted (dm_checkList d)" and "dns_kick_address ares now w check ip d = Some d'"
  shows "CheckList_sorted (dm_checkList d')" and "dm_dnsCache d' = dm_dnsCache d"
    and "\<not> is_blank a \<Longrightarrow> \<not> overdue now k a d \<Longrightarrow> \<not> overdue now k a d'"
    and "a \<noteq> ip \<Longrightarrow> result_gone k a d \<Longrightarrow> result_gone k a d'"
    and "\<not> is_blank a \<Longrightarrow> check_work_class ares check = Class cls \<Longrightarrow>
      overdue now k a d \<or> check_queued k a d \<Longrightarrow> overdue now k a d' \<or> check_queued k a d'"
proof -
  obtain f where f: "local_at ip f" "adjusts (wk_hostname w, check) f d d'"
    using kick_address_adjusts [OF assms(2)] by blast
  show sorted: "CheckList_sorted (dm_checkList d')" using adjusts_sorted [OF assms(1) f(2,1)] .
  show "dm_dnsCache d' = dm_dnsCache d" using f(2) by (simp add: adjusts_def)
  show "a \<noteq> ip \<Longrightarrow> result_gone k a d \<Longrightarrow> result_gone k a d'"
    using adjusts_elsewhere(2) [OF assms(1) f(2,1)] by simp
  have elsewhere: "overdue now k a d' = overdue now k a d"
    if "a \<noteq> ip \<or> \<not> key_equiv CompareCheckList k (wk_hostname w, check)"
  proof (cases "a = ip")
    case True
    then show ?thesis using that adjusts_range [OF assms(1) f(2), of k] by (simp add: overdue_def)
  next
    case False
    then show ?thesis by (rule adjusts_elsewhere(1) [OF assms(1) f(2,1)])
  qed
  show "\<not> overdue now k a d'" if "\<not> is_blank a" "\<not> overdue now k a d"
    using that elsewhere kick_address_here(1) [OF assms(1) _ assms(2)] overdue_equiv [OF sorted] by blast
  show "overdue now k a d' \<or> check_queued k a d'"
    if "\<not> is_blank a" "check_work_class ares check = Class cls" "overdue now k a d \<or> check_queued k a d"
    using that elsewhere kick_address_here(2) [OF assms(1) _ assms(2)] overdue_equiv [OF assms(1)]
      check_queued_equiv adjusts_queue [OF f(2)] by blast
qed

lemma expire_adjusts:
  "adjusts (wk_hostname w, check) (\<lambda>p. fst (CheckParams_invalidateResult ip p)) d (dns_expire w check ip d)"
  by (simp add: adjusts_def dns_expire_def CheckList_invalidateCheck_def Let_def comp_def)

lemma expire_keeps:
  assumes "CheckList_sorted (dm_checkList d)"
  shows "CheckList_sorted (dm_checkList (dns_expire w check ip d))"
    and "dm_dnsCache (dns_expire w check ip d) = dm_dnsCache d"
    and "a \<noteq> ip \<Longrightarrow> overdue now k a (dns_expire w check ip d) = overdue now k a d"
    and "check_queued k a d \<Longrightarrow> check_queued k a (dns_expire w check ip d)"
    and "result_gone k a d \<Longrightarrow> result_gone k a (dns_expire w check ip d)"
    and "result_gone (wk_hostname w, check) ip (dns_expire w check ip d)"
proof -
  note step = expire_adjusts [of w check ip d] and loc = local_at_invalidate [of ip]
  show "CheckList_sorted (dm_checkList (dns_expire w check ip d))"
    by (rule adjusts_sorted [OF assms step loc])
  show "dm_dnsCache (dns_expire w check ip d) = dm_dnsCache d" using step by (simp add: adjusts_def)
  show "a \<noteq> ip \<Longrightarrow> overdue now k a (dns_expire w check ip d) = overdue now k a d"
    by (rule adjusts_elsewhere(1) [OF assms step loc])
  show "check_queued k a d \<Longrightarrow> check_queued k a (dns_expire w check ip d)"
    by (rule adjusts_queue [OF step])
  have gone: "data_find a (fst (CheckParams_invalidateResult ip p)) = None"
    if "data_find a p = None \<or> a = ip" for a p
    using that by (cases "a = ip")
      (auto simp: CheckParams_invalidateResult_def ip_order.find_erase_other split: option.split)
  show "result_gone k a d \<Longrightarrow> result_gone k a (dns_expire w check ip d)"
    "result_gone (wk_hostname w, check) ip (dns_expire w check ip d)"
    by (auto simp: result_gone_def adjusts_range [OF assms step] gone)
qed

lemma expires_keep:
  assumes "CheckList_sorted (dm_checkList d)"
  shows "CheckList_sorted (dm_checkList (fold (dns_expire w check) ips d))
      \<and> dm_dnsCache (fold (dns_expire w check) ips d) = dm_dnsCache d"
    and "a \<notin> set ips \<Longrightarrow> overdue now k a (fold (dns_expire w check) ips d) = overdue now k a d"
    and "check_queued k a d \<Longrightarrow> check_queued k a (fold (dns_expire w check) ips d)"
    and "result_gone k a d \<or> k = (wk_hostname w, check) \<and> a \<in> set ips \<Longrightarrow>
      result_gone k a (fold (dns_expire w check) ips d)"
  using assms by (induction ips arbitrary: d) (auto simp: expire_keeps)

lemma kicks_keep:
  assumes "opt_fold (dns_kick_address ares now w check) ips d = Some d'"
    and "CheckList_sorted (dm_checkList d)"
  shows "CheckList_sorted (dm_checkList d') \<and> dm_dnsCache d' = dm_dnsCache d"
    and "\<not> is_blank a \<Longrightarrow> \<not> overdue now k a d \<or> k = (wk_hostname w, check) \<and> a \<in> set ips \<Longrightarrow>
      \<not> overdue now k a d'"
    and "a \<notin> set ips \<Longrightarrow> result_gone k a d \<Longrightarrow> result_gone k a d'"
    and "\<not> is_blank a \<Longrightarrow> check_work_class ares check = Class cls \<Longrightarrow>
      overdue now k a d \<or> check_queued k a d \<Longrightarrow> overdue now k a d' \<or> check_queued k a d'"
proof -
  have "(CheckList_sorted (dm_checkList d') \<and> dm_dnsCache d' = dm_dnsCache d)
      \<and> (\<not> is_blank a \<longrightarrow> \<not> overdue now k a d \<or> k = (wk_hostname w, check) \<and> a \<in> set ips \<longrightarrow>
          \<not> overdue now k a d')
      \<and> (a \<notin> set ips \<longrightarrow> result_gone k a d \<longrightarrow> result_gone k a d')
      \<and> (\<not> is_blank a \<longrightarrow> check_work_class ares check = Class cls \<longrightarrow>
          overdue now k a d \<or> check_queued k a d \<longrightarrow> overdue now k a d' \<or> check_queued k a d')"
    for a k cls
    using assms
  proof (induction ips arbitrary: d)
    case (Cons ip ips)
    obtain e where e: "dns_kick_address ares now w check ip d = Some e"
      and rest: "opt_fold (dns_kick_address ares now w check) ips e = Some d'"
      using Cons.prems(1) by (auto split: bind_splits)
    note keeps = kick_address_keeps [OF Cons.prems(2) e]
    have here: "\<not> is_blank ip \<Longrightarrow> \<not> overdue now (wk_hostname w, check) ip e"
      by (rule kick_address_here(1) [OF Cons.prems(2) _ e])
    show ?case
      using Cons.IH [OF rest keeps(1)] keeps(2,3,4,5) here by (simp only: list.set insert_iff) blast
  qed auto
  note all = this
  show "CheckList_sorted (dm_checkList d') \<and> dm_dnsCache d' = dm_dnsCache d" using all by blast
  show "\<not> overdue now k a d'"
    if "\<not> is_blank a" "\<not> overdue now k a d \<or> k = (wk_hostname w, check) \<and> a \<in> set ips"
    using all that by blast
  show "result_gone k a d'" if "a \<notin> set ips" "result_gone k a d" using all that by blast
  show "overdue now k a d' \<or> check_queued k a d'"
    if "\<not> is_blank a" "check_work_class ares check = Class cls" "overdue now k a d \<or> check_queued k a d"
    using all that by blast
qed

section \<open>The end of a lookup\<close>

definition answer_of :: "HMWork \<Rightarrow> HM_DUALSTACK \<Rightarrow> HMDNSCache \<Rightarrow> HMIPAddress set" where
  "answer_of w family c = set (fst (DNSCache_getAddresses (wk_hostname w) family (wk_dnsHostCheck w) [] c))"

definition expired_of :: "HMWork \<Rightarrow> HM_DUALSTACK \<Rightarrow> HMDNSCache \<Rightarrow> HMIPAddress set" where
  "expired_of w family c =
     set (fst (DNSCache_getExpiredAddresses (wk_hostname w) family (wk_dnsHostCheck w) [] c))"

lemma dns_kick_keeps:
  assumes "dns_kick ares now w check d = Some d'" and "CheckList_sorted (dm_checkList d)"
    and "dns_family w = Some family"
  defines "A \<equiv> answer_of w family (dm_dnsCache d)" and "E \<equiv> expired_of w family (dm_dnsCache d)"
  assumes "A \<inter> E = {}"
  shows "CheckList_sorted (dm_checkList d') \<and> dm_dnsCache d' = dm_dnsCache d"
    and "a \<in> A \<Longrightarrow> \<not> is_blank a \<Longrightarrow>
      \<not> overdue now k a d \<or> k = (wk_hostname w, check) \<and> hc_dualstack check AND family \<noteq> 0 \<Longrightarrow>
      \<not> overdue now k a d'"
    and "a \<in> E \<Longrightarrow>
      result_gone k a d \<or> k = (wk_hostname w, check) \<and> hc_dualstack check AND family \<noteq> 0 \<Longrightarrow>
      result_gone k a d'"
    and "a \<in> A \<Longrightarrow> \<not> is_blank a \<Longrightarrow> check_work_class ares check = Class cls \<Longrightarrow>
      overdue now k a d \<or> check_queued k a d \<Longrightarrow> overdue now k a d' \<or> check_queued k a d'"
proof -
  define ips where "ips = fst (DNSCache_getAddresses (wk_hostname w) family (wk_dnsHostCheck w) [] (dm_dnsCache d))"
  define exps where "exps = fst (DNSCache_getExpiredAddresses (wk_hostname w) family (wk_dnsHostCheck w) [] (dm_dnsCache d))"
  have sets: "A = set ips" "E = set exps" by (simp_all add: A_def E_def ips_def exps_def answer_of_def expired_of_def)
  have run: "(if hc_dualstack check AND family = 0 then Some d
      else opt_fold (dns_kick_address ares now w check) ips (fold (dns_expire w check) exps d)) = Some d'"
    using assms(1,3) by (simp only: dns_kick_def ips_def exps_def Let_def option.case)
  note exp = expires_keep [OF assms(2), where w = w and check = check and ips = exps]
  have "(CheckList_sorted (dm_checkList d') \<and> dm_dnsCache d' = dm_dnsCache d)
    \<and> (a \<in> A \<longrightarrow> \<not> is_blank a \<longrightarrow>
        \<not> overdue now k a d \<or> k = (wk_hostname w, check) \<and> hc_dualstack check AND family \<noteq> 0 \<longrightarrow>
        \<not> overdue now k a d')
    \<and> (a \<in> E \<longrightarrow>
        result_gone k a d \<or> k = (wk_hostname w, check) \<and> hc_dualstack check AND family \<noteq> 0 \<longrightarrow>
        result_gone k a d')
    \<and> (a \<in> A \<longrightarrow> \<not> is_blank a \<longrightarrow> check_work_class ares check = Class cls \<longrightarrow>
        overdue now k a d \<or> check_queued k a d \<longrightarrow> overdue now k a d' \<or> check_queued k a d')" for a k cls
  proof (cases "hc_dualstack check AND family = 0")
    case True
    then show ?thesis using run assms(2) by auto
  next
    case False
    then have kicks: "opt_fold (dns_kick_address ares now w check) ips (fold (dns_expire w check) exps d) = Some d'"
      using run by simp
    note kick = kicks_keep [OF kicks exp(1) [THEN conjunct1]]
    have disj: "a \<notin> set exps" if "a \<in> set ips" for a using assms(6) that by (auto simp: sets)
    have 1: "CheckList_sorted (dm_checkList d') \<and> dm_dnsCache d' = dm_dnsCache d"
      using kick(1) exp(1) by simp
    have 2: "\<not> overdue now k a d'" if "a \<in> A" "\<not> is_blank a"
      "\<not> overdue now k a d \<or> k = (wk_hostname w, check)"
      using that exp(2) disj by (intro kick(2)) (auto simp: sets)
    have 3: "result_gone k a d'" if "a \<in> E" "result_gone k a d \<or> k = (wk_hostname w, check)"
      using that disj exp(4) [of k a] by (intro kick(3)) (auto simp: sets)
    have 4: "overdue now k a d' \<or> check_queued k a d'"
      if "a \<in> A" "\<not> is_blank a" "check_work_class ares check = Class cls" "overdue now k a d \<or> check_queued k a d"
      using that exp(2) [of a now k] exp(3) [of k a] disj by (intro kick(4)) (auto simp: sets)
    show ?thesis using 1 2 3 4 by blast
  qed
  note all = this
  show "CheckList_sorted (dm_checkList d') \<and> dm_dnsCache d' = dm_dnsCache d" using all by blast
  show "\<not> overdue now k a d'" if "a \<in> A" "\<not> is_blank a"
    "\<not> overdue now k a d \<or> k = (wk_hostname w, check) \<and> hc_dualstack check AND family \<noteq> 0"
    using all that by blast
  show "result_gone k a d'" if "a \<in> E"
    "result_gone k a d \<or> k = (wk_hostname w, check) \<and> hc_dualstack check AND family \<noteq> 0"
    using all that by blast
  show "overdue now k a d' \<or> check_queued k a d'"
    if "a \<in> A" "\<not> is_blank a" "check_work_class ares check = Class cls" "overdue now k a d \<or> check_queued k a d"
    using all that by blast
qed

lemma dns_kicks:
  assumes run: "opt_fold (dns_kick ares now w) checks d = Some d'" and "CheckList_sorted (dm_checkList d)"
    and fam: "dns_family w = Some family" and "check \<in> set checks" and "hc_dualstack check AND family \<noteq> 0"
  defines "A \<equiv> answer_of w family (dm_dnsCache d)" and "E \<equiv> expired_of w family (dm_dnsCache d)"
  assumes disj: "A \<inter> E = {}"
  shows "a \<in> A \<Longrightarrow> \<not> is_blank a \<Longrightarrow> \<not> overdue now (wk_hostname w, check) a d'"
    and "a \<in> E \<Longrightarrow> result_gone (wk_hostname w, check) a d'"
    and "a \<in> A \<Longrightarrow> \<not> is_blank a \<Longrightarrow> \<forall>c \<in> set checks. \<exists>cls. check_work_class ares c = Class cls \<Longrightarrow>
      overdue now (wk_hostname w, check) a d \<Longrightarrow> check_queued (wk_hostname w, check) a d'"
proof -
  let ?k = "(wk_hostname w, check)"
  define I where "I = (\<lambda>e. CheckList_sorted (dm_checkList e) \<and> dm_dnsCache e = dm_dnsCache d)"
  have I: "I d" using assms(2) by (simp add: I_def)
  have keeps: "I t"
    "a \<in> A \<Longrightarrow> \<not> is_blank a \<Longrightarrow> \<not> overdue now k a s \<or> k = (wk_hostname w, c) \<and> hc_dualstack c AND family \<noteq> 0 \<Longrightarrow>
      \<not> overdue now k a t"
    "a \<in> E \<Longrightarrow> result_gone k a s \<or> k = (wk_hostname w, c) \<and> hc_dualstack c AND family \<noteq> 0 \<Longrightarrow> result_gone k a t"
    "a \<in> A \<Longrightarrow> \<not> is_blank a \<Longrightarrow> check_work_class ares c = Class cls \<Longrightarrow>
      overdue now k a s \<or> check_queued k a s \<Longrightarrow> overdue now k a t \<or> check_queued k a t"
    if "I s" "dns_kick ares now w c s = Some t" for c s t a k cls
    using that dns_kick_keeps [OF that(2) _ fam] disj by (simp_all add: I_def A_def E_def)
  show over: "\<not> overdue now ?k a d'" if a: "a \<in> A" "\<not> is_blank a" for a
    by (rule opt_fold_reaches [OF run assms(4), where I = I and Q = "\<lambda>e. \<not> overdue now ?k a e", OF I])
      (use keeps(1) keeps(2) [OF _ _ a] assms(5) in blast)+
  show "result_gone ?k a d'" if a: "a \<in> E" for a
    by (rule opt_fold_reaches [OF run assms(4), where I = I and Q = "\<lambda>e. result_gone ?k a e", OF I])
      (use keeps(1) keeps(3) [OF _ _ a] assms(5) in blast)+
  show "check_queued ?k a d'"
    if a: "a \<in> A" "\<not> is_blank a" and "\<forall>c \<in> set checks. \<exists>cls. check_work_class ares c = Class cls"
      "overdue now ?k a d" for a
  proof -
    have "I d' \<and> (overdue now ?k a d' \<or> check_queued ?k a d')"
      by (rule opt_fold_invariant [OF run, where P = "\<lambda>e. I e \<and> (overdue now ?k a e \<or> check_queued ?k a e)"])
        (use I that keeps(1) keeps(4) [OF _ _ a] in blast)+
    then show ?thesis using over [OF a] by blast
  qed
qed

lemma kick_address_total: "dns_kick_address True now w check ip d \<noteq> None"
proof -
  have "dm_queueCheck True now host ip check d \<noteq> None" for host
    using state_queueCheck_total by (simp add: dm_queueCheck_def)
  then show ?thesis by (simp add: dns_kick_address_def Let_def)
qed

lemma dns_kick_total: "dns_family w = Some family \<Longrightarrow> dns_kick True now w check d \<noteq> None"
  using opt_fold_not_None [of "dns_kick_address True now w check", OF kick_address_total]
  by (simp add: dns_kick_def Let_def)

lemma queueDNS_facts:
  assumes "dns_find (name, lookup) (dm_dnsCache d) = Some r"
  shows "\<exists>r'. dns_find (name, lookup) (dm_dnsCache (dm_queueDNS ares now name lookup d)) = Some r'
      \<and> dr_addr r' = dr_addr r \<and> dr_addrExp r' = dr_addrExp r"
    and "dm_checkList (dm_queueDNS ares now name lookup d) = dm_checkList d"
    and "st_dnsWaitList (dm_state (dm_queueDNS ares now name lookup d)) = st_dnsWaitList (dm_state d)"
  using assms
  by (auto simp: dm_queueDNS_def state_queueDNS_def DNSCache_queueDNSQuery_def Let_def split_beta
      DNSResult_queueQuery_def split: option.split)

lemma family_addresses:
  assumes "dns_find (wk_hostname w, wk_dnsHostCheck w) c = Some r"
    and "family = (if dl_ipv6 (wk_dnsHostCheck w) then HM_DUALSTACK_IPV6_ONLY else HM_DUALSTACK_IPV4_ONLY)"
  shows "answer_of w family c = set (dr_addr r)" and "expired_of w family c = set (dr_addrExp r)"
proof -
  let ?l = "wk_dnsHostCheck w"
  have "dns_find (wk_hostname w, DNSLookup_new (dl_type ?l) (dl_ipv6 ?l) (dl_remoteCheckGroup ?l)) c = Some r"
    using assms(1) by (simp add: dns_find_new [OF refl refl refl])
  then show "answer_of w family c = set (dr_addr r)" "expired_of w family c = set (dr_addrExp r)"
    using assms(2)
    by (cases "dl_ipv6 ?l"; simp add: answer_of_def expired_of_def DNSCache_getAddresses_def Let_def
        DNSCache_getExpiredAddresses_def family_fold_def DNSCache_getDNSResult_def)+
qed

section \<open>Resolvers\<close>

text \<open>The checks that are kicked leave the cache as it is.\<close>

lemma dns_kick_cache:
  assumes "dns_kick ares now w check d = Some d'" and "CheckList_sorted (dm_checkList d)"
  shows "CheckList_sorted (dm_checkList d') \<and> dm_dnsCache d' = dm_dnsCache d"
proof -
  from assms(1) obtain family where run: "(if hc_dualstack check AND family = 0 then Some d
      else opt_fold (dns_kick_address ares now w check)
        (fst (DNSCache_getAddresses (wk_hostname w) family (wk_dnsHostCheck w) [] (dm_dnsCache d)))
        (fold (dns_expire w check)
          (fst (DNSCache_getExpiredAddresses (wk_hostname w) family (wk_dnsHostCheck w) [] (dm_dnsCache d))) d)) = Some d'"
    unfolding dns_kick_def Let_def by (cases "dns_family w") simp_all
  show ?thesis
  proof (cases "hc_dualstack check AND family = 0")
    case False
    with run kicks_keep(1) expires_keep(1) [OF assms(2), of w check] show ?thesis by metis
  qed (use run assms(2) in simp)
qed

lemma dns_kicks_cache:
  assumes "opt_fold (dns_kick ares now w) checks d = Some d'" and "CheckList_sorted (dm_checkList d)"
  shows "dm_dnsCache d' = dm_dnsCache d"
  using assms
proof (induction checks arbitrary: d)
  case (Cons check checks)
  then obtain e where e: "dns_kick ares now w check d = Some e" "opt_fold (dns_kick ares now w) checks e = Some d'"
    by (auto split: bind_splits)
  with dns_kick_cache [OF e(1) Cons.prems(2)] Cons.IH [OF e(2)] show ?case by simp
qed simp

text \<open>
  What the end of a lookup relies on of \<open>dnsLookup\<close>: the lookup of a work order that the resolver serves is complete, keeps
  what the order is for, and puts the addresses \<open>answer\<close> and the expired addresses \<open>expired\<close> into the entry of the cache.
\<close>

locale resolver =
  fixes resolve :: "HMWork \<Rightarrow> HMDNSCache \<Rightarrow> HMWork \<times> HMDNSCache \<times> bool"
    and serves :: "HMWork \<Rightarrow> bool"
    and answer :: "HMWork \<Rightarrow> HMDNSCache \<Rightarrow> HMDNSResult \<Rightarrow> HMIPAddress list"
    and expired :: "HMWork \<Rightarrow> HMDNSCache \<Rightarrow> HMDNSResult \<Rightarrow> HMIPAddress list"
  assumes lookup: "serves w \<Longrightarrow> dns_find (wk_hostname w, wk_dnsHostCheck w) c = Some r \<Longrightarrow>
    \<exists>w' c' r'. dnsLookup resolve now w c = (w', c', True)
      \<and> wk_hostname w' = wk_hostname w \<and> wk_dnsHostCheck w' = wk_dnsHostCheck w
      \<and> wk_ipAddress w' = wk_ipAddress w \<and> wk_reschedule w' = wk_reschedule w
      \<and> dns_find (wk_hostname w, wk_dnsHostCheck w) c' = Some r'
      \<and> dr_addr r' = answer w c r \<and> dr_addrExp r' = expired w c r"
begin

lemma lookup_updates_checks:
  fixes d :: HMDaemon and w :: HMWork and t0 now :: HMTimeStamp
  defines "host \<equiv> wk_hostname w" and "lookup \<equiv> wk_dnsHostCheck w" and "waiting \<equiv> dns_waiting w d"
    and "family \<equiv> (if dl_ipv6 (wk_dnsHostCheck w) then HM_DUALSTACK_IPV6_ONLY else HM_DUALSTACK_IPV4_ONLY)"
    and "c0 \<equiv> dns_adjust (wk_hostname w, wk_dnsHostCheck w) (DNSResult_startQuery t0) (dm_dnsCache d)"
  assumes "serves w" and "CheckList_sorted (dm_checkList d)"
    and "wk_ipAddress w = IPAddress_new (if dl_ipv6 lookup then AF_INET6 else AF_INET)"
    and "dns_find (host, lookup) (dm_dnsCache d) = Some r"
    and "check \<in> set waiting" and "hc_dualstack check AND family \<noteq> 0"
    and ips: "answer w c0 (DNSResult_startQuery t0 r) = ips" and gone: "expired w c0 (DNSResult_startQuery t0 r) = gone"
    and disjoint: "set ips \<inter> set gone = {}"
  shows "\<exists>d' r'. WorkDNSLookup_processWork True resolve t0 now w d = Some (d', fst (dnsLookup resolve now w c0))
    \<and> dns_find (host, lookup) (dm_dnsCache d') = Some r' \<and> dr_addr r' = ips
    \<and> (\<forall>ip \<in> set ips. \<not> is_blank ip \<longrightarrow>
        now < CheckList_nextCheckTime now host ip check (dm_checkList d')
        \<and> (CheckList_nextCheckTime now host ip check (dm_checkList d) \<le> now \<longrightarrow>
           (\<forall>c \<in> set waiting. \<exists>cls. check_work_class True c = Class cls) \<longrightarrow>
           check_queued (host, check) ip d'))
    \<and> (\<forall>ip \<in> set gone. result_gone (host, check) ip d')"
proof -
  have start: "DNSCache_startDNSQuery t0 host lookup (dm_dnsCache d) = (c0, True)"
    using assms(9) by (simp add: DNSCache_startDNSQuery_def c0_def host_def lookup_def)
  have find0: "dns_find (host, lookup) c0 = Some (DNSResult_startQuery t0 r)"
    using assms(9) by (simp add: c0_def host_def lookup_def)
  obtain w1 c1 r1 where w1: "dnsLookup resolve now w c0 = (w1, c1, True)"
    "wk_hostname w1 = host" "wk_dnsHostCheck w1 = lookup" "wk_ipAddress w1 = wk_ipAddress w"
    "wk_reschedule w1 = wk_reschedule w"
    and r1: "dns_find (host, lookup) c1 = Some r1" "dr_addr r1 = ips" "dr_addrExp r1 = gone"
    using lookup [OF assms(6), of c0 "DNSResult_startQuery t0 r" now, folded host_def lookup_def, OF find0] ips gone by auto
  define d1 where "d1 = DNSLookup_reschedule True now w1 (set_dnsCache c1 d)"
  have base: "dm_dnsCache (set_dnsCache c1 d) = c1" "dm_checkList (set_dnsCache c1 d) = dm_checkList d"
    "st_dnsWaitList (dm_state (set_dnsCache c1 d)) = st_dnsWaitList (dm_state d)"
    by (simp_all add: set_dnsCache_def)
  have "dm_dnsCache d1 \<in> {c1, dm_dnsCache (dm_queueDNS True now host lookup (set_dnsCache c1 d))}"
    by (simp add: d1_def DNSLookup_reschedule_def Let_def base w1)
  then obtain r2 where r2: "dns_find (host, lookup) (dm_dnsCache d1) = Some r2" "dr_addr r2 = ips" "dr_addrExp r2 = gone"
    using r1 queueDNS_facts(1) [of host lookup "set_dnsCache c1 d" r1 True now] base(1) by auto
  have d1: "dm_checkList d1 = dm_checkList d" "st_dnsWaitList (dm_state d1) = st_dnsWaitList (dm_state d)"
    using queueDNS_facts(2,3) [of host lookup "set_dnsCache c1 d" r1 True now] r1(1)
    by (simp_all add: d1_def DNSLookup_reschedule_def Let_def base w1)
  have run: "WorkDNSLookup_processWork True resolve t0 now w d =
      map_option (\<lambda>d. (d, w1)) (opt_fold (dns_kick True now w1) waiting d1)"
    using start w1 d1(2)
    by (simp add: WorkDNSLookup_processWork_def waiting_def dns_waiting_def host_def lookup_def flip: d1_def)
  have family: "dns_family w1 = Some family"
    using assms(8) by (simp add: dns_family_def w1 family_def lookup_def IPAddress_new_def)
  have "opt_fold (dns_kick True now w1) waiting d1 \<noteq> None"
    by (rule opt_fold_not_None) (rule dns_kick_total [OF family])
  then obtain d' where d': "opt_fold (dns_kick True now w1) waiting d1 = Some d'" by auto
  have sets: "answer_of w1 family (dm_dnsCache d1) = set ips"
    "expired_of w1 family (dm_dnsCache d1) = set gone"
    using family_addresses [of w1 "dm_dnsCache d1" r2 family] r2 by (auto simp: w1 family_def lookup_def)
  have sorted: "CheckList_sorted (dm_checkList d1)" using assms(7) by (simp add: d1)
  note kicks = dns_kicks [OF d' sorted family assms(10,11), unfolded sets w1(2)]
  have "dns_find (host, lookup) (dm_dnsCache d') = Some r2" using dns_kicks_cache [OF d' sorted] r2(1) by simp
  then show ?thesis
    using run d' kicks disjoint r2(2) by (auto simp: overdue_iff d1 not_le w1(1))
qed

end

text \<open>The addresses a static lookup puts into the cache: the configured ones, or the zero address.\<close>

definition static_answer :: "HMWork \<Rightarrow> HMDNSCache \<Rightarrow> HMIPAddress list" where
  "static_answer w c =
     (let (ips, found) = DNSCache_getStaticDNSAddress (wk_hostname w)
            (IPAddress_getType (wk_ipAddress w) = AF_INET6) c
      in if found then ips else [IPAddress_new (IPAddress_getType (wk_ipAddress w))])"

lemma static_lookup_facts:
  assumes "wk_class w = HMWorkDNSLookupStatic"
    and "dns_find (wk_hostname w, wk_dnsHostCheck w) c = Some r"
  shows "\<exists>w' c' r'. dnsLookup resolve now w c = (w', c', True)
    \<and> wk_hostname w' = wk_hostname w \<and> wk_dnsHostCheck w' = wk_dnsHostCheck w
    \<and> wk_ipAddress w' = wk_ipAddress w \<and> wk_reschedule w' = wk_reschedule w
    \<and> dns_find (wk_hostname w, wk_dnsHostCheck w) c' = Some r'
    \<and> dr_addr r' = static_answer w c
    \<and> dr_addrExp r' = filter (\<lambda>a. a \<notin> set (static_answer w c)) (dr_addr r)"
proof -
  define w' where "w' = (let w = w\<lparr>wk_start := now, wk_end := now\<rparr>
    in if snd (DNSCache_getStaticDNSAddress (wk_hostname w) (IPAddress_getType (wk_ipAddress w) = AF_INET6) c)
       then w else w\<lparr>wk_response := HM_RESPONSE_DNS_FAILED, wk_reason := HM_REASON_DNS_FAILURE\<rparr>)"
  let ?c = "DNSCache_finishQuery now (wk_hostname w) (wk_dnsHostCheck w) True
      (DNSCache_updateDNSEntry (wk_hostname w) (wk_dnsHostCheck w) (static_answer w c) c)"
  have "dnsLookup resolve now w c = (w', ?c, True)"
    using assms(1)
    by (simp add: dnsLookup_def WorkDNSLookupStatic_dnsLookup_def static_answer_def w'_def Let_def split_beta)
  moreover have "dns_find (wk_hostname w, wk_dnsHostCheck w) ?c =
      Some (DNSResult_finishQuery now True (DNSResult_updateQuery (static_answer w c) r))"
    using assms(2) by (simp add: DNSCache_finishQuery_def DNSCache_updateDNSEntry_def)
  ultimately show ?thesis
    by (simp add: w'_def Let_def DNSResult_finishQuery_def DNSResult_updateQuery_def)
qed

interpretation static: resolver resolve "\<lambda>w. wk_class w = HMWorkDNSLookupStatic" "\<lambda>w c r. static_answer w c"
  "\<lambda>w c r. filter (\<lambda>a. a \<notin> set (static_answer w c)) (dr_addr r)"
  by unfold_locales (rule static_lookup_facts)

lemma static_answer_started [simp]: "static_answer w (dns_adjust k f c) = static_answer w c"
  by (simp add: static_answer_def DNSCache_getStaticDNSAddress_def)

text \<open>
  C6: the end of a static lookup brings the waiting checks up to date. For a check that waits for
  the lookup and uses its address family: no address of the answer is overdue afterwards; every
  address of the answer that was overdue has a work order in the queue (when the plugins of the
  waiting checks fit); and the results of the addresses that are gone are removed. The zero
  addresses, which stand for a failed lookup, are not checked.
\<close>

theorem static_lookup_updates_checks:
  fixes d :: HMDaemon and w :: HMWork
  defines "host \<equiv> wk_hostname w" and "lookup \<equiv> wk_dnsHostCheck w"
    and "answer \<equiv> static_answer w (dm_dnsCache d)"
    and "waiting \<equiv> dns_waiting w d"
    and "family \<equiv> (if dl_ipv6 (wk_dnsHostCheck w) then HM_DUALSTACK_IPV6_ONLY else HM_DUALSTACK_IPV4_ONLY)"
  assumes "wk_class w = HMWorkDNSLookupStatic" and "CheckList_sorted (dm_checkList d)"
    and "wk_ipAddress w = IPAddress_new (if dl_ipv6 lookup then AF_INET6 else AF_INET)"
    and "dns_find (host, lookup) (dm_dnsCache d) = Some r"
    and "check \<in> set waiting" and "hc_dualstack check AND family \<noteq> 0"
  shows "\<exists>d' w'. WorkDNSLookup_processWork True resolve t0 now w d = Some (d', w')
    \<and> (\<forall>ip \<in> set answer. \<not> is_blank ip \<longrightarrow>
        now < CheckList_nextCheckTime now host ip check (dm_checkList d')
        \<and> (CheckList_nextCheckTime now host ip check (dm_checkList d) \<le> now \<longrightarrow>
           (\<forall>c \<in> set waiting. \<exists>cls. check_work_class True c = Class cls) \<longrightarrow>
           check_queued (host, check) ip d'))
    \<and> (\<forall>ip \<in> set (dr_addr r) - set answer. result_gone (host, check) ip d')"
proof -
  have gone: "{x \<in> set (dr_addr r). x \<notin> set answer} = set (dr_addr r) - set answer" by blast
  have "dr_addr (DNSResult_startQuery t0 r) = dr_addr r" by (simp add: DNSResult_startQuery_def)
  then show ?thesis
    using static.lookup_updates_checks [OF assms(6-8) [unfolded lookup_def] assms(9-11)
        [unfolded host_def lookup_def waiting_def family_def] refl refl, of t0 resolve now] gone
    unfolding host_def lookup_def waiting_def answer_def by (auto simp: disjoint_iff)
qed

section \<open>Witness\<close>

definition w_static_check :: HMDataHostCheck where
  "w_static_check = w_check\<lparr>hc_DNSType := HM_DNS_TYPE_STATIC\<rparr>"

definition w_static :: HMDaemon where
  "w_static = w_daemon\<lparr>dm_state := State_new
     \<lparr>st_checkList := CheckList_new\<lparr>cl_checklist := [((''h'', w_static_check), 0, w_params)]\<rparr>,
      st_dnsCache := w_dns,
      st_dnsWaitList := [(\<lparr>dt_name = ''h'', dt_type = HM_DNS_TYPE_STATIC, dt_remoteCheckGroup = []\<rparr>,
        w_static_check)]\<rparr>\<rparr>"

definition w_static_work :: HMWork where
  "w_static_work = (Work_new HMWorkDNSLookupStatic ''h'' (IPAddress_new AF_INET)
     (HostCheck_new HM_DNS_TYPE_STATIC))\<lparr>wk_dnsHostCheck := w_lookup\<rparr>"

lemma static_lookup_updates_checks_witness:
  "\<exists>d' w'. WorkDNSLookup_processWork True (\<lambda>w c. (w, c, False)) 4 5 w_static_work w_static = Some (d', w')
    \<and> 5 < CheckList_nextCheckTime 5 ''h'' (INET 5) w_static_check (dm_checkList d')
    \<and> result_gone (''h'', w_static_check) (INET 1) d'"
proof -
  have w: "wk_hostname w_static_work = ''h''" "wk_dnsHostCheck w_static_work = w_lookup"
    "wk_class w_static_work = HMWorkDNSLookupStatic" "wk_ipAddress w_static_work = IPAddress_new AF_INET"
    by (simp_all add: w_static_work_def Work_new_def)
  have d: "dm_dnsCache w_static = w_dns" "CheckList_sorted (dm_checkList w_static)"
    by (simp_all add: w_static_def CheckList_sorted_def mmap_sorted_def w_params_def map_sorted_def)
  have answer: "static_answer w_static_work w_dns = [INET 5]"
    by (simp add: static_answer_def w IPAddress_new_def DNSCache_getStaticDNSAddress_def w_dns_def
        insort_insert_key_def)
  have waiting: "w_static_check \<in> set (dns_waiting w_static_work w_static)"
    by (simp add: dns_waiting_def w w_lookup_fields w_static_def equal_range_def DNSTypeMap_less_def)
  have "hc_dualstack w_static_check AND HM_DUALSTACK_IPV4_ONLY \<noteq> 0"
    by (simp add: w_static_check_def w_check_def HostCheck_default_def HostCheck_new_def)
  with static_lookup_updates_checks [where resolve = "\<lambda>w c. (w, c, False)" and ?t0.0 = 4 and now = 5,
      OF w(3) d(2), unfolded w d answer w_lookup_fields, OF _ w_dns_find waiting]
  show ?thesis by (auto simp: is_blank_def DNSResult_new_def)
qed

end
