(* ===== verification/HM_Probes.thy ===== *)
theory HM_Probes
  imports HM_Transport HM_Config HM_DNSAnswer
begin

text \<open>
  The checks that open connections: \<open>healthCheck\<close> of \<open>HMWorkHealthCheckTCP\<close>, \<open>HMWorkHealthCheckTCPS\<close>, \<open>HMWorkHealthCheckCurl\<close>,
  \<open>HMWorkMarkFetchCurl\<close> and \<open>HMWorkHealthCheckDNS\<close>, \<open>fetchAux\<close> of \<open>HMWorkAuxFetchCurl\<close> and \<open>dnsLookup\<close> of \<open>HMWorkDNSLookupAres\<close>. They are what
  the parameters \<open>probe\<close>, \<open>fetch\<close> and \<open>resolve\<close> of the daemon stand for.

  The record \<open>probe_env\<close> has what they meet: the settings of the state, the readings of the clock, the system calls of a
  connection (\<open>HM_Transport\<close>), and the libraries. \<open>pv_perform\<close> is a transfer of curl: the options that were set, in order, to its
  outcome; the connect time is the one that curl reports, in milliseconds. \<open>pv_channel\<close> says whether c-ares makes the channel of a
  check, and \<open>pv_answer\<close> is what the library calls back with: it calls back once for every query, at the latest when the
  channel is destroyed, and \<open>ares_fds\<close> names no socket only when no query is left. An exception of the standard library that
  is not caught is a value.
\<close>

section \<open>Libraries\<close>

datatype CURLcode =
    CURLE_OK | CURLE_OPERATION_TIMEDOUT | CURLE_LOGIN_DENIED | CURLE_COULDNT_CONNECT | CURLE_FTP_COULDNT_RETR_FILE
  | CURLE_OTHER int

datatype curl_option =
    HTTPHEADER "string list" | CONNECTTIMEOUT u64 | TIMEOUT u64 | SSL_VERIFYHOST bool | SSL_VERIFYPEER bool | NOSIGNAL
  | TCP_NODELAY | INTERFACE string | SOCKOPT_TOS u8 | SOCKOPT_MARK int | CAINFO "string option" | CONNECT_TO string
  | SSL_CERT string string | USE_SSL_ALL | FTPSSLAUTH_TLS | URL string

record curl_result =
  cu_code :: CURLcode
  cu_response :: int
  cu_connectTime :: u64
  cu_body :: "string list"

datatype ares_status = ARES_SUCCESS | ARES_ENOTFOUND | ARES_ETIMEOUT | ARES_FAILURE int

text \<open>A host entry: its family and addresses.\<close>

datatype hostent = Hostent4 "32 word list" | Hostent6 "128 word list" | Hostent_other "string list"

record ares_answer =
  an_status :: ares_status
  an_timeouts :: int
  an_host :: hostent

record probe_env =
  pv_settings :: HMSettings
  pv_context :: bool
  pv_now :: HMTimeStamp
  pv_start :: HMTimeStamp
  pv_end :: HMTimeStamp
  pv_ntop4 :: "32 word \<Rightarrow> string"
  pv_ntop6 :: "128 word \<Rightarrow> string"
  pv_proto :: proto
  pv_sockets :: "HMWork \<Rightarrow> socket_calls"
  pv_tls :: "HMWork \<Rightarrow> tls_calls"
  pv_curl :: bool
  pv_perform :: "curl_option list \<Rightarrow> curl_result"
  pv_channel :: bool
  pv_answer :: "HMWork \<Rightarrow> ares_answer"

section \<open>Checks of a connection\<close>

definition HM_MASTER_HEALTH_CHECK_COMMAND :: string where
  "HM_MASTER_HEALTH_CHECK_COMMAND = ''netchasm_status''"

text \<open>
  What follows the connect. The check info is empty, the command to ask a daemon for its state, or a text that the
  other end has to send; the buffer for the text starts as zeros.
\<close>

definition connection_check ::
    "proto \<Rightarrow> (string \<Rightarrow> 'a HMSocketUtilTCP_scheme \<Rightarrow> 'a HMSocketUtilTCP_scheme \<times> bool) \<Rightarrow>
     (nat \<Rightarrow> 'a HMSocketUtilTCP_scheme \<Rightarrow> ('a HMSocketUtilTCP_scheme \<times> string \<times> HM_SOCK_DATA_STATUS) option) \<Rightarrow>
     HMWork \<Rightarrow> 'a HMSocketUtilTCP_scheme \<Rightarrow> HMWork option" where
  "connection_check pb send recv w c =
     (let w = w\<lparr>wk_reason := cn_reason c\<rparr>; checkInfo = hc_checkInfo (wk_hostCheck w)
      in if cn_reason c \<noteq> HM_REASON_SUCCESS then Some w
         else let w = w\<lparr>wk_response := HM_RESPONSE_CONNECTED, wk_end := cn_connectTime c\<rparr>
              in if checkInfo = [] then Some w
                 else if checkInfo = HM_MASTER_HEALTH_CHECK_COMMAND then
                   (case net_pingRemoteHost pb send recv c of None \<Rightarrow> None
                    | Some (c, ok) \<Rightarrow>
                        Some (w\<lparr>wk_response := (if ok then HM_RESPONSE_CONNECTED else HM_RESPONSE_FAILED), wk_reason := cn_reason c\<rparr>))
                 else
                   (case recv (unat (of_nat (length checkInfo) :: u32)) c of None \<Rightarrow> None
                    | Some (c, d, _) \<Rightarrow>
                        let recvCheckInfo = d @ replicate (length checkInfo - length d) (CHR 0x00)
                        in Some (if cn_reason c \<noteq> HM_REASON_SUCCESS
                                 then w\<lparr>wk_response := HM_RESPONSE_FAILED, wk_reason := cn_reason c\<rparr>
                                 else if recvCheckInfo = checkInfo
                                 then w\<lparr>wk_response := HM_RESPONSE_CONNECTED, wk_reason := HM_REASON_SUCCESS\<rparr>
                                 else w\<lparr>wk_response := HM_RESPONSE_FAILED, wk_reason := HM_REASON_NONE\<rparr>)))"

definition probe_started :: "probe_env \<Rightarrow> HMWork \<Rightarrow> HMWork" where
  "probe_started env w =
     w\<lparr>wk_start := pv_start env, wk_end := pv_end env, wk_reason := HM_REASON_NONE, wk_response := HM_RESPONSE_FAILED\<rparr>"

definition TCP_healthCheck :: "probe_env \<Rightarrow> HMWork \<Rightarrow> (HMWork \<times> HM_WORK_STATUS) option" where
  "TCP_healthCheck env w =
     (if hc_checkType (wk_hostCheck w) \<noteq> HM_CHECK_TCP then Some (w, HM_WORK_COMPLETE)
      else let calls = pv_sockets env w;
               socketApi = TCP_reconnect calls (hc_TOSValue (wk_hostCheck w)) TCP_new
           in map_option (\<lambda>w. (w, HM_WORK_COMPLETE))
                (connection_check (pv_proto env) (TCP_sendData calls) (\<lambda>n c. Some (TCP_recvData calls n c)) (probe_started env w)
                   socketApi))"

definition TCPS_healthCheck :: "probe_env \<Rightarrow> HMWork \<Rightarrow> (HMWork \<times> HM_WORK_STATUS) option" where
  "TCPS_healthCheck env w =
     (if hc_checkType (wk_hostCheck w) \<noteq> HM_CHECK_TCPS then Some (w, HM_WORK_COMPLETE)
      else let w' = probe_started env w
           in if \<not> pv_context env then Some (w'\<lparr>wk_reason := HM_REASON_INTERNAL_ERROR\<rparr>, HM_WORK_COMPLETE)
              else let tls = pv_tls env w
                   in case TCPS_reconnect (pv_sockets env w) tls (hc_TOSValue (wk_hostCheck w)) TCPS_new of None \<Rightarrow> None
                      | Some socketApi \<Rightarrow>
                          map_option (\<lambda>w. (w, HM_WORK_COMPLETE))
                            (connection_check (pv_proto env) (TCPS_sendData tls) (TCPS_recvData tls) w' socketApi))"

section \<open>Transfers over HTTP\<close>

text \<open>The check types of a class: the one without TLS, those without a check of the certificate, those that use the file
  of authorities, and those with a certificate of the client.\<close>

record http_class =
  ht_types :: "HM_CHECK_TYPE list"
  ht_plain :: HM_CHECK_TYPE
  ht_noPeer :: "HM_CHECK_TYPE list"
  ht_authorities :: "HM_CHECK_TYPE list"
  ht_mutual :: "HM_CHECK_TYPE list"

definition curl_class :: http_class where
  "curl_class =
     \<lparr>ht_types = [HM_CHECK_HTTP, HM_CHECK_HTTPS, HM_CHECK_HTTPS_NO_PEER_CHECK, HM_CHECK_MTLS_HTTPS, HM_CHECK_MTLS_HTTPS_NO_PEER_CHECK],
      ht_plain = HM_CHECK_HTTP, ht_noPeer = [HM_CHECK_HTTPS_NO_PEER_CHECK, HM_CHECK_MTLS_HTTPS_NO_PEER_CHECK],
      ht_authorities = [HM_CHECK_HTTPS, HM_CHECK_MTLS_HTTPS], ht_mutual = [HM_CHECK_MTLS_HTTPS, HM_CHECK_MTLS_HTTPS_NO_PEER_CHECK]\<rparr>"

definition mark_class :: http_class where
  "mark_class =
     \<lparr>ht_types = [HM_CHECK_MARK_HTTP, HM_CHECK_MARK_HTTPS, HM_CHECK_MARK_HTTPS_NO_PEER_CHECK], ht_plain = HM_CHECK_MARK_HTTP,
      ht_noPeer = [HM_CHECK_MARK_HTTPS_NO_PEER_CHECK], ht_authorities = [], ht_mutual = []\<rparr>"

definition aux_class :: http_class where
  "aux_class =
     \<lparr>ht_types = [HM_CHECK_AUX_HTTP, HM_CHECK_AUX_HTTPS, HM_CHECK_AUX_HTTPS_NO_PEER_CHECK, HM_CHECK_AUX_MTLS_HTTPS,
        HM_CHECK_AUX_MTLS_HTTPS_NO_PEER_CHECK],
      ht_plain = HM_CHECK_AUX_HTTP, ht_noPeer = [HM_CHECK_AUX_HTTPS_NO_PEER_CHECK, HM_CHECK_AUX_MTLS_HTTPS_NO_PEER_CHECK],
      ht_authorities = [HM_CHECK_AUX_MTLS_HTTPS, HM_CHECK_AUX_HTTPS],
      ht_mutual = [HM_CHECK_AUX_MTLS_HTTPS, HM_CHECK_AUX_MTLS_HTTPS_NO_PEER_CHECK]\<rparr>"

text \<open>
  The check info: \<open>//host/path\<close> names a host for the request, everything else is a path. The result is whether it names a host,
  the path, the header with the host, and the host and port it names.
\<close>

definition check_target ::
    "HMWork \<Rightarrow> std_exception + (bool \<times> string \<times> string list \<times> u32 \<times> string)" where
  "check_target w =
     (let checkInfo = hc_checkInfo (wk_hostCheck w)
      in if 2 < length checkInfo \<and> take 2 checkInfo = ''//'' then
           let index = find_from ''/'' checkInfo 2;
               hostLen = (case index of Some i \<Rightarrow> i - 2 | None \<Rightarrow> length checkInfo - 2)
           in if hostLen \<noteq> 0 then
                (case HostCheck_parseCheckInfo (wk_hostCheck w) (wk_hostname w) [] of Inl e \<Rightarrow> Inl e
                 | Inr (hostname, checkInfoPort, checkInfoHost) \<Rightarrow>
                     Inr (True, case index of Some i \<Rightarrow> drop i checkInfo | None \<Rightarrow> [], [hostname], checkInfoPort, checkInfoHost))
              else Inr (False, drop 2 checkInfo, [], 0, [])
         else Inr (False, checkInfo, [], 0, []))"

definition port_text :: "u32 \<Rightarrow> string" where
  "port_text port = digits (unat port)"

definition address_text :: "probe_env \<Rightarrow> HMWork \<Rightarrow> string" where
  "address_text env w =
     (let ip = IPAddress_toString (pv_ntop4 env) (pv_ntop6 env) (wk_ipAddress w)
      in if IPAddress_getType (wk_ipAddress w) = AF_INET6 then ''['' @ ip @ '']'' else ip)"

definition check_port :: "HMWork \<Rightarrow> u32" where
  "check_port w = ucast (hc_port (wk_hostCheck w))"

text \<open>The start of the address of the page, and the entry that redirects the connection to the address of the work
  order.\<close>

definition http_site :: "probe_env \<Rightarrow> bool \<Rightarrow> bool \<Rightarrow> u32 \<Rightarrow> string \<Rightarrow> HMWork \<Rightarrow> string \<times> string option" where
  "http_site env plain sni checkInfoPort checkInfoHost w =
     (let scheme = (if plain then ''http://'' else ''https://''); port = check_port w;
          site = address_text env w @ '':'' @ port_text port
      in if \<not> sni \<or> plain then (scheme @ site, None)
         else let (name, namePort) = (if checkInfoHost = [] then (wk_hostname w, port) else (checkInfoHost, checkInfoPort))
              in (scheme @ (if namePort = 443 then name else name @ '':'' @ port_text namePort),
                  Some (name @ '':'' @ port_text namePort @ '':'' @ site)))"

definition page_url :: "string \<Rightarrow> string \<Rightarrow> string \<Rightarrow> string" where
  "page_url site uri standard = site @ (if uri = [] then standard else uri)"

text \<open>The options of the interface, type of service and mark; a mark replaces the callback of the type of service.\<close>

definition socket_options :: "probe_env \<Rightarrow> HMWork \<Rightarrow> curl_option list" where
  "socket_options env w =
     (let source = hc_sourceAddress (wk_hostCheck w); tos = hc_TOSValue (wk_hostCheck w)
      in (if IPAddress_isSet source then [INTERFACE (IPAddress_toString (pv_ntop4 env) (pv_ntop6 env) source)] else [])
         @ (if tos \<noteq> 0 then [SOCKOPT_TOS tos] else []))"

definition mark_options :: "bool \<Rightarrow> HMWork \<Rightarrow> curl_option list" where
  "mark_options marks w = (if marks \<and> wk_mark w \<noteq> 0 then [SOCKOPT_MARK (wk_mark w)] else [])"

definition authority_options :: "probe_env \<Rightarrow> HM_CHECK_TYPE list \<Rightarrow> HMWork \<Rightarrow> curl_option list" where
  "authority_options env types w =
     (let file = se_healthCheckCAFile (pv_settings env)
      in if hc_checkType (wk_hostCheck w) \<in> set types \<and> file \<noteq> [] then [CAINFO (Some file)] else [])"

definition certificate_options :: "probe_env \<Rightarrow> HM_CHECK_TYPE list \<Rightarrow> HMWork \<Rightarrow> curl_option list" where
  "certificate_options env types w =
     (let cert = se_healthCheckCert (pv_settings env); key = se_healthCheckKey (pv_settings env)
      in if hc_checkType (wk_hostCheck w) \<in> set types \<and> cert \<noteq> [] \<and> key \<noteq> [] then [SSL_CERT key cert] else [])"

definition http_options :: "probe_env \<Rightarrow> http_class \<Rightarrow> bool \<Rightarrow> HMWork \<Rightarrow> std_exception + curl_option list" where
  "http_options env cls marks w =
     res_bind (check_target w) (\<lambda>(sni, uri, header, checkInfoPort, checkInfoHost).
       let checkType = hc_checkType (wk_hostCheck w);
           (site, redirect) = http_site env (checkType = ht_plain cls) sni checkInfoPort checkInfoHost w
       in Inr ([HTTPHEADER (header @ [''Connection: close'', ''User-Agent: YahooFOR/1.0'']),
                CONNECTTIMEOUT (se_connectionTimeout (pv_settings env) div 1000),
                TIMEOUT (ts_diff (wk_timeout w) (pv_now env) div 1000), SSL_VERIFYHOST False, NOSIGNAL, TCP_NODELAY]
               @ socket_options env w @ mark_options marks w
               @ (if checkType \<in> set (ht_noPeer cls) then [CAINFO None, SSL_VERIFYPEER False] else [])
               @ (case redirect of None \<Rightarrow> [] | Some host \<Rightarrow> [CONNECT_TO host])
               @ authority_options env (ht_authorities cls) w @ certificate_options env (ht_mutual cls) w
               @ [URL (page_url site uri ''/status.html'')]))"

definition transfer_error :: "CURLcode \<Rightarrow> HM_REASON" where
  "transfer_error res =
     (if res = CURLE_OPERATION_TIMEDOUT then HM_REASON_RESPONSE_TIMEOUT
      else if res = CURLE_LOGIN_DENIED then HM_REASON_RESPONSE_403
      else if res = CURLE_COULDNT_CONNECT then HM_REASON_CONNECT_FAILURE
      else HM_REASON_RESPONSE_FAILURE)"

definition http_reason :: "int \<Rightarrow> HM_REASON" where
  "http_reason http_code =
     (if http_code = 200 then HM_REASON_SUCCESS
      else if 300 \<le> http_code \<and> http_code < 400 then HM_REASON_RESPONSE_3XX
      else if http_code = 403 then HM_REASON_RESPONSE_403
      else if http_code = 404 then HM_REASON_RESPONSE_404
      else if 500 \<le> http_code \<and> http_code < 600 then HM_REASON_RESPONSE_5XX
      else HM_REASON_RESPONSE_DOWN)"

text \<open>The result of a transfer; the connect time replaces the end of a page that was served.\<close>

definition http_result :: "probe_env \<Rightarrow> curl_result \<Rightarrow> HMWork \<Rightarrow> HMWork" where
  "http_result env res w =
     (let w = w\<lparr>wk_start := pv_start env, wk_end := pv_end env\<rparr>
      in if cu_code res = CURLE_OK then
           let w = w\<lparr>wk_response := HM_RESPONSE_CONNECTED, wk_reason := http_reason (cu_response res)\<rparr>
           in if cu_response res = 200 then w\<lparr>wk_end := ts_plus (wk_start w) (cu_connectTime res)\<rparr> else w
         else w\<lparr>wk_response := HM_RESPONSE_FAILED, wk_reason := transfer_error (cu_code res)\<rparr>)"

definition http_fetch :: "probe_env \<Rightarrow> http_class \<Rightarrow> bool \<Rightarrow> HMWork \<Rightarrow> std_exception + (HMWork \<times> curl_result option)" where
  "http_fetch env cls marks w =
     (if \<not> pv_curl env then Inr (w, None)
      else res_bind (http_options env cls marks w) (\<lambda>options.
        let res = pv_perform env options in Inr (http_result env res w, Some res)))"

section \<open>Transfers over FTP\<close>

definition ftp_types :: "HM_CHECK_TYPE list" where
  "ftp_types = [HM_CHECK_FTP, HM_CHECK_FTPS_IMPLICIT, HM_CHECK_FTPS_IMPLICIT_NO_PEER_CHECK, HM_CHECK_FTPS_EXPLICIT,
     HM_CHECK_FTPS_EXPLICIT_NO_PEER_CHECK]"

definition ftp_scheme :: "HM_CHECK_TYPE \<Rightarrow> curl_option list \<times> string" where
  "ftp_scheme checkType =
     (if checkType = HM_CHECK_FTP then ([], ''ftp://'')
      else if checkType = HM_CHECK_FTPS_IMPLICIT then ([], ''ftps://'')
      else if checkType = HM_CHECK_FTPS_IMPLICIT_NO_PEER_CHECK then ([SSL_VERIFYPEER False], ''ftps://'')
      else if checkType = HM_CHECK_FTPS_EXPLICIT then ([USE_SSL_ALL, FTPSSLAUTH_TLS], ''ftp://'')
      else if checkType = HM_CHECK_FTPS_EXPLICIT_NO_PEER_CHECK
      then ([USE_SSL_ALL, FTPSSLAUTH_TLS, SSL_VERIFYPEER False], ''ftp://'')
      else ([], []))"

text \<open>A check info with an at sign begins with a user and a password.\<close>

definition ftp_login :: "string \<Rightarrow> string \<times> string" where
  "ftp_login checkInfo =
     (case find_from ''@'' checkInfo 0 of None \<Rightarrow> ([], checkInfo) | Some i \<Rightarrow> (take (i + 1) checkInfo, drop (i + 1) checkInfo))"

definition ftp_options :: "probe_env \<Rightarrow> HMWork \<Rightarrow> curl_option list" where
  "ftp_options env w =
     (let (login, uri) = ftp_login (hc_checkInfo (wk_hostCheck w));
          (options, scheme) = ftp_scheme (hc_checkType (wk_hostCheck w));
          timeout = ts_diff (wk_timeout w) (pv_now env) div 1000;
          site = scheme @ login @ address_text env w @ '':'' @ port_text (check_port w)
      in [SSL_VERIFYHOST False] @ options @ socket_options env w
         @ [CONNECTTIMEOUT timeout, TIMEOUT timeout, NOSIGNAL, TCP_NODELAY]
         @ authority_options env [HM_CHECK_FTPS_EXPLICIT, HM_CHECK_FTPS_IMPLICIT] w
         @ [URL (page_url site uri ''/status.txt'')])"

definition ftp_result :: "probe_env \<Rightarrow> curl_result \<Rightarrow> HMWork \<Rightarrow> HMWork" where
  "ftp_result env res w =
     (let w = w\<lparr>wk_start := pv_start env, wk_end := pv_end env\<rparr>
      in if cu_code res = CURLE_OK then
           w\<lparr>wk_response := HM_RESPONSE_CONNECTED, wk_end := ts_plus (wk_start w) (cu_connectTime res),
             wk_reason := HM_REASON_SUCCESS\<rparr>
         else w\<lparr>wk_response := HM_RESPONSE_FAILED,
                wk_reason := (if cu_code res = CURLE_FTP_COULDNT_RETR_FILE then HM_REASON_RESPONSE_404
                              else transfer_error (cu_code res))\<rparr>)"

section \<open>Checks with curl\<close>

definition Curl_healthCheck :: "probe_env \<Rightarrow> HMWork \<Rightarrow> std_exception + (HMWork \<times> HM_WORK_STATUS)" where
  "Curl_healthCheck env w =
     (if hc_checkType (wk_hostCheck w) \<in> set (ht_types curl_class) then
        res_bind (http_fetch env curl_class False w) (\<lambda>(w, _). Inr (w, HM_WORK_COMPLETE))
      else if hc_checkType (wk_hostCheck w) \<in> set ftp_types \<and> pv_curl env then
        Inr (ftp_result env (pv_perform env (ftp_options env w)) w, HM_WORK_COMPLETE)
      else Inr (w, HM_WORK_COMPLETE))"

definition MarkFetchCurl_healthCheck :: "probe_env \<Rightarrow> HMWork \<Rightarrow> std_exception + (HMWork \<times> HM_WORK_STATUS)" where
  "MarkFetchCurl_healthCheck env w =
     (if hc_checkType (wk_hostCheck w) \<in> set (ht_types mark_class) then
        res_bind (http_fetch env mark_class True w) (\<lambda>(w, _). Inr (w, HM_WORK_COMPLETE))
      else Inr (w, HM_WORK_COMPLETE))"

text \<open>The data of a page that was served; the buffer is appended to by the callback of curl.\<close>

definition updateBuffer :: "string \<Rightarrow> string \<Rightarrow> string" where
  "updateBuffer buf rcvdBuffer = rcvdBuffer @ take (unat (of_nat (length buf) :: u32)) buf"

definition AuxFetchCurl_fetchAux :: "probe_env \<Rightarrow> HMWork \<Rightarrow> std_exception + (HMWork \<times> string \<times> HM_WORK_STATUS)" where
  "AuxFetchCurl_fetchAux env w =
     (if hc_checkType (wk_hostCheck w) \<in> set (ht_types aux_class) then
        res_bind (http_fetch env aux_class False w) (\<lambda>(w, res).
          Inr (w, case res of None \<Rightarrow> []
                 | Some res \<Rightarrow> if cu_code res = CURLE_OK \<and> cu_response res = 200 then fold updateBuffer (cu_body res) [] else [],
               HM_WORK_COMPLETE))
      else Inr (w, [], HM_WORK_COMPLETE))"

section \<open>Checks of a name server\<close>

text \<open>\<open>aresCallback\<close> and \<open>status\<close>: a query that was sent again counts as timed out, whatever its answer.\<close>

definition dns_reason :: "ares_answer \<Rightarrow> HM_REASON" where
  "dns_reason a =
     (if 0 < an_timeouts a then HM_REASON_DNS_TIMEOUT
      else if an_status a = ARES_SUCCESS then HM_REASON_SUCCESS
      else if an_status a = ARES_ENOTFOUND then HM_REASON_DNS_NOTFOUND else HM_REASON_DNS_FAILURE)"

definition dns_status :: "HM_REASON \<Rightarrow> HMWork \<Rightarrow> HMWork" where
  "dns_status ret w =
     w\<lparr>wk_reason := ret, wk_response := (if ret = HM_REASON_SUCCESS then HM_RESPONSE_CONNECTED else HM_RESPONSE_FAILED)\<rparr>"

text \<open>The status of a check without a channel is the one of a new object, idle.\<close>

definition DNS_healthCheck :: "probe_env \<Rightarrow> HMWork \<Rightarrow> HMWork \<times> HM_WORK_STATUS" where
  "DNS_healthCheck env w =
     (if hc_checkType (wk_hostCheck w) \<in> {HM_CHECK_DNSVC, HM_CHECK_DNS} then
        let w' = w\<lparr>wk_response := HM_RESPONSE_FAILED, wk_reason := HM_REASON_NONE\<rparr>
        in if \<not> pv_channel env then (w', HM_WORK_IDLE)
           else let w' = w'\<lparr>wk_start := pv_start env, wk_end := pv_end env\<rparr>
                in (dns_status (dns_reason (pv_answer env w)) w', HM_WORK_COMPLETE)
      else (w, HM_WORK_COMPLETE))"

section \<open>Lookups with c-ares\<close>

fun IPAddress_set_hostent :: "hostent \<Rightarrow> HMIPAddress list" where
  "IPAddress_set_hostent (Hostent4 as) = map INET as"
| "IPAddress_set_hostent (Hostent6 as) = map INET6 as"
| "IPAddress_set_hostent (Hostent_other _) = []"

text \<open>The addresses of an answer, and the failure it means; a failed lookup has the blank address.\<close>

definition lookup_answer :: "HMWork \<Rightarrow> ares_answer \<Rightarrow> HMIPAddress list \<times> HM_REASON option" where
  "lookup_answer w a =
     (let blank = [IPAddress_new (IPAddress_getType (wk_ipAddress w))]; ips = IPAddress_set_hostent (an_host a)
      in if an_status a = ARES_SUCCESS then if ips = [] then (blank, Some HM_REASON_DNS_FAILURE) else (fold insort_insert ips [], None)
         else if an_status a = ARES_ETIMEOUT then (blank, Some HM_REASON_DNS_TIMEOUT)
         else (blank, Some (if an_status a = ARES_ENOTFOUND then HM_REASON_DNS_NOTFOUND else HM_REASON_DNS_FAILURE)))"

definition lookup_failed :: "HM_REASON option \<Rightarrow> HMWork \<Rightarrow> HMWork" where
  "lookup_failed reason w =
     (case reason of None \<Rightarrow> w | Some r \<Rightarrow> w\<lparr>wk_response := HM_RESPONSE_DNS_FAILED, wk_reason := r\<rparr>)"

definition lookup_outcome :: "probe_env \<Rightarrow> HMWork \<Rightarrow> HMIPAddress list \<times> HM_REASON option" where
  "lookup_outcome env w = lookup_answer w (pv_answer env w)"

definition DNSLookupAres_dnsLookup :: "probe_env \<Rightarrow> HMWork \<Rightarrow> HMDNSCache \<Rightarrow> HMWork \<times> HMDNSCache \<times> bool" where
  "DNSLookupAres_dnsLookup env w c =
     (let (ips, reason) = lookup_outcome env w;
          w = (lookup_failed reason w)\<lparr>wk_start := pv_now env, wk_end := pv_now env\<rparr>;
          name = wk_hostname w; lookup = wk_dnsHostCheck w;
          dual_stack = (if IPAddress_getType (wk_ipAddress w) = AF_INET6 then HM_DUALSTACK_IPV6_ONLY else HM_DUALSTACK_IPV4_ONLY);
          c = (if wk_reason w = HM_REASON_DNS_TIMEOUT \<and> snd (DNSCache_getAddresses name dual_stack lookup [] c) then c
               else DNSCache_updateDNSEntry name lookup ips c)
      in (w, DNSCache_finishQuery (pv_now env) name lookup True c, True))"

section \<open>The probe of the daemon\<close>

text \<open>The check of a class: \<open>Inl\<close> an exception that ends the process, \<open>None\<close> a check that does not return.\<close>

definition network_check :: "probe_env \<Rightarrow> HMWork \<Rightarrow> (std_exception + (HMWork \<times> HM_WORK_STATUS)) option" where
  "network_check env w =
     (case wk_class w of
        HMWorkHealthCheckTCP \<Rightarrow> map_option Inr (TCP_healthCheck env w)
      | HMWorkHealthCheckTCPS \<Rightarrow> map_option Inr (TCPS_healthCheck env w)
      | HMWorkHealthCheckDNS \<Rightarrow> Some (Inr (DNS_healthCheck env w))
      | HMWorkMarkFetchCurl \<Rightarrow> Some (MarkFetchCurl_healthCheck env w)
      | HMWorkHealthCheckCurl \<Rightarrow> Some (Curl_healthCheck env w)
      | _ \<Rightarrow> Some (Inr (w, HM_WORK_COMPLETE)))"

section \<open>The probe keeps the work order\<close>

definition keeps_order :: "HMWork \<Rightarrow> HMWork \<Rightarrow> bool" where
  "keeps_order w w' \<longleftrightarrow> work_for (wk_hostname w) (wk_ipAddress w) (wk_hostCheck w) w' \<and> wk_reschedule w' = wk_reschedule w"

lemma keeps_order_simps [simp]:
  "keeps_order w w" "keeps_order w (probe_started env w)" "keeps_order w (http_result env res w)"
  "keeps_order w (ftp_result env res w)" "keeps_order w (w\<lparr>wk_response := rp, wk_reason := rn\<rparr>)"
  by (simp_all add: keeps_order_def work_for_def probe_started_def http_result_def ftp_result_def Let_def)

lemma connection_check_keeps:
  assumes "connection_check pb send recv v c = Some w'" and "keeps_order w v"
  shows "keeps_order w w'"
proof -
  have "keeps_order v w'" using assms(1)
    by (auto simp: connection_check_def Let_def keeps_order_def work_for_def split: if_splits option.splits)
  with assms(2) show ?thesis by (auto simp: keeps_order_def work_for_def)
qed

lemma http_fetch_keeps: "http_fetch env cls marks w = Inr (w', res) \<Longrightarrow> keeps_order w w'"
  by (auto simp: http_fetch_def Let_def res_bind_def split: if_splits sum.splits)

lemma TCP_healthCheck_keeps:
  assumes "TCP_healthCheck env w = Some (w', s)"
  shows "keeps_order w w' \<and> s = HM_WORK_COMPLETE"
  using assms connection_check_keeps [OF _ keeps_order_simps(2)] by (auto simp: TCP_healthCheck_def Let_def split: if_splits)

lemma TCPS_healthCheck_keeps:
  assumes "TCPS_healthCheck env w = Some (w', s)"
  shows "keeps_order w w' \<and> s = HM_WORK_COMPLETE"
proof -
  have "keeps_order w ((probe_started env w)\<lparr>wk_reason := r\<rparr>)" for r
    by (simp add: keeps_order_def work_for_def probe_started_def)
  then show ?thesis using assms connection_check_keeps [OF _ keeps_order_simps(2)]
    by (auto simp: TCPS_healthCheck_def Let_def split: if_splits option.splits)
qed

lemma Curl_healthCheck_keeps: "Curl_healthCheck env w = Inr (w', s) \<Longrightarrow> keeps_order w w' \<and> s = HM_WORK_COMPLETE"
  by (auto simp: Curl_healthCheck_def res_bind_def split: if_splits sum.splits dest!: http_fetch_keeps)

lemma MarkFetchCurl_healthCheck_keeps:
  "MarkFetchCurl_healthCheck env w = Inr (w', s) \<Longrightarrow> keeps_order w w' \<and> s = HM_WORK_COMPLETE"
  by (auto simp: MarkFetchCurl_healthCheck_def res_bind_def split: if_splits sum.splits dest!: http_fetch_keeps)

lemma DNS_healthCheck_keeps: "keeps_order w (fst (DNS_healthCheck env w))"
  by (auto simp: DNS_healthCheck_def Let_def dns_status_def keeps_order_def work_for_def)

text \<open>A check that ends: the result of its class.\<close>

lemma network_check_keeps:
  assumes "network_check env w = Some (Inr (w', s))" and "pv_channel env"
  shows "keeps_order w w' \<and> s \<noteq> HM_WORK_IDLE"
proof (cases "wk_class w = HMWorkHealthCheckDNS")
  case True
  then have "DNS_healthCheck env w = (w', s)" using assms(1) by (simp add: network_check_def)
  moreover have "snd (DNS_healthCheck env w) \<noteq> HM_WORK_IDLE"
    using assms(2) by (auto simp: DNS_healthCheck_def Let_def)
  ultimately show ?thesis using DNS_healthCheck_keeps [of w env] by simp
next
  case False
  then show ?thesis using assms(1)
    by (auto simp: network_check_def split: work_class.splits dest!: TCP_healthCheck_keeps TCPS_healthCheck_keeps
        Curl_healthCheck_keeps MarkFetchCurl_healthCheck_keeps)
qed

text \<open>
  When every check returns and c-ares gives a channel, the checks of the code are a probe as the theorems on the daemon
  assume it.
\<close>

lemma returning_checks_probe_ok:
  assumes "pv_channel env" and "\<And>w. network_check env w = Some (Inr (probe w))"
  shows "probe_ok probe"
proof -
  have "keeps_order w (fst (probe w)) \<and> snd (probe w) \<noteq> HM_WORK_IDLE" for w
    using network_check_keeps [of env w "fst (probe w)" "snd (probe w)"] assms by simp
  then show ?thesis by (simp add: probe_ok_def keeps_order_def)
qed

section \<open>Checks of a connection\<close>

definition connects :: "socket_calls \<Rightarrow> u8 \<Rightarrow> bool" where
  "connects calls tos \<longleftrightarrow> so_socket calls \<and> so_fcntl calls \<and> (tos = 0 \<or> so_setsockopt calls) \<and> so_connect calls
     \<and> 0 < so_select calls \<and> so_ready calls \<and> so_error calls = Some 0"

lemma TCP_connectSocket_connects:
  assumes "connects calls tos"
  shows "TCP_connectSocket calls tos c =
    (c\<lparr>cn_open := True, cn_reason := HM_REASON_SUCCESS, cn_connectTime := so_now calls, cn_connected := True\<rparr>, True)"
  using assms by (auto simp: TCP_connectSocket_def TCP_createSocket_def connects_def Let_def)




text \<open>
  C34: a TLS check may never return. When the host takes the TCP connection and never answers the handshake, without closing the
  connection, \<open>SSL_connect\<close> wants to read in every turn; the socket can be written to, so \<open>select\<close> reports it at once and
  the loop goes on: the worker turns for ever, whatever the timeouts of the check are.
\<close>

theorem tls_check_never_returns:
  fixes env :: probe_env and w :: HMWork
  defines "tls \<equiv> pv_tls env w"
  assumes "hc_checkType (wk_hostCheck w) = HM_CHECK_TCPS" and "pv_context env"
    and "connects (pv_sockets env w) (hc_TOSValue (wk_hostCheck w))" and "tl_new tls" and "stalled tls"
  shows "TCPS_healthCheck env w = None"
  using handshake_stalls [OF assms(6,5)] assms(2,3)
  by (simp add: TCPS_healthCheck_def TCPS_reconnect_def Let_def TCP_connectSocket_connects [OF assms(4)] flip: tls_def)

text \<open>With an answer in every turn the check without a check info is successful.\<close>

theorem tls_check_connects:
  fixes env :: probe_env and w :: HMWork
  defines "tls \<equiv> pv_tls env w"
  assumes "hc_checkType (wk_hostCheck w) = HM_CHECK_TCPS" and "pv_context env"
    and "connects (pv_sockets env w) (hc_TOSValue (wk_hostCheck w))" and "tl_new tls"
    and "\<And>j. j < k \<Longrightarrow> \<exists>ret>0. tl_connect tls j = SSL_wants ret True (Some 0) \<and> \<not> tl_finished tls j"
    and "tl_connect tls k = SSL_connected" and "hc_checkInfo (wk_hostCheck w) = []"
  shows "\<exists>w'. TCPS_healthCheck env w = Some (w', HM_WORK_COMPLETE) \<and> wk_response w' = HM_RESPONSE_CONNECTED
    \<and> wk_reason w' = HM_REASON_SUCCESS \<and> wk_end w' = tl_now tls"
  using handshake_connects [OF assms(5,6,7)] assms(2,3,8)
  by (simp add: TCPS_healthCheck_def TCPS_reconnect_def Let_def connection_check_def probe_started_def
      TCP_connectSocket_connects [OF assms(4)] flip: tls_def)

section \<open>Checks over HTTP\<close>

text \<open>
  Where a transfer connects to, as the manuals of curl state it: the authority of a URL is the text between \<open>://\<close> and the
  first of \<open>/\<close>, \<open>?\<close> and \<open>#\<close>, without what stands before its last \<open>@\<close>, and has the port of the scheme when it names none; the first
  entry of \<open>CONNECT_TO\<close> for this host and port gives the ones to use instead.
\<close>

definition url_rest :: "string \<Rightarrow> string" where
  "url_rest u = drop 3 (dropWhile (\<lambda>c. c \<noteq> CHR '':'') u)"

definition url_peer :: "string \<Rightarrow> string" where
  "url_peer u =
     (let authority = takeWhile (\<lambda>c. c \<notin> set ''/?#'') (url_rest u);
          site = rev (takeWhile (\<lambda>c. c \<noteq> CHR ''@'') (rev authority))
      in if CHR '':'' \<in> set (takeWhile (\<lambda>c. c \<noteq> CHR '']'') (rev site)) then site
         else site @ (if takeWhile (\<lambda>c. c \<noteq> CHR '':'') u = ''https'' then '':443'' else '':80''))"

definition url_page :: "string \<Rightarrow> string" where
  "url_page u = dropWhile (\<lambda>c. c \<notin> set ''/?#'') (url_rest u)"

fun peer_redirect :: "string \<Rightarrow> curl_option \<Rightarrow> string list" where
  "peer_redirect peer (CONNECT_TO h) = (if take (Suc (length peer)) h = peer @ '':'' then [drop (Suc (length peer)) h] else [])"
| "peer_redirect peer _ = []"

definition transfer_peer :: "curl_option list \<Rightarrow> string" where
  "transfer_peer options =
     (case last options of URL u \<Rightarrow>
        (case concat (map (peer_redirect (url_peer u)) options) of [] \<Rightarrow> url_peer u | target # _ \<Rightarrow> target)
      | _ \<Rightarrow> [])"

lemma url_parts:
  assumes "scheme = ''http'' \<or> scheme = ''https''" and "set site \<inter> set ''/?#@'' = {}" and "page \<noteq> []" and "hd page = CHR ''/''"
  shows "url_peer (scheme @ ''://'' @ site @ page) =
      (if CHR '':'' \<in> set (takeWhile (\<lambda>c. c \<noteq> CHR '']'') (rev site)) then site
       else site @ (if scheme = ''https'' then '':443'' else '':80''))"
    and "url_page (scheme @ ''://'' @ site @ page) = page"
proof -
  have rest: "url_rest (scheme @ ''://'' @ site @ page) = site @ page" using assms(1) by (auto simp: url_rest_def)
  have stop: "\<forall>c \<in> set site. c \<notin> set ''/?#''" using assms(2) by auto
  obtain tail where page: "page = CHR ''/'' # tail" using assms(3,4) by (cases page) auto
  have "takeWhile (\<lambda>c. c \<notin> set ''/?#'') (site @ page) = site" "dropWhile (\<lambda>c. c \<notin> set ''/?#'') (site @ page) = page"
    unfolding page using stop by (simp_all add: takeWhile_append2 dropWhile_append2 del: set_simps) simp_all
  moreover have "takeWhile (\<lambda>c. c \<noteq> CHR ''@'') (rev site) = rev site" using assms(2) by (auto simp: takeWhile_eq_all_conv)
  moreover have "takeWhile (\<lambda>c. c \<noteq> CHR '':'') (scheme @ ''://'' @ site @ page) = scheme" using assms(1) by auto
  ultimately show "url_peer (scheme @ ''://'' @ site @ page) =
      (if CHR '':'' \<in> set (takeWhile (\<lambda>c. c \<noteq> CHR '']'') (rev site)) then site
       else site @ (if scheme = ''https'' then '':443'' else '':80''))"
    and "url_page (scheme @ ''://'' @ site @ page) = page"
    by (simp_all only: url_peer_def url_page_def rest Let_def rev_rev_ident)
qed

lemma option_lists:
  "CONNECT_TO h \<notin> set (socket_options env w)" "CONNECT_TO h \<notin> set (mark_options marks w)"
  "CONNECT_TO h \<notin> set (authority_options env types w)" "CONNECT_TO h \<notin> set (certificate_options env types w)"
  by (simp_all add: socket_options_def mark_options_def authority_options_def certificate_options_def Let_def)

lemma http_options_parts:
  assumes "http_options env cls marks w = Inr options" and "check_target w = Inr (sni, uri, header, p, h)"
    and "http_site env (hc_checkType (wk_hostCheck w) = ht_plain cls) sni p h w = (site, redirect)"
  shows "\<exists>before after. options = before @ (case redirect of None \<Rightarrow> [] | Some host \<Rightarrow> [CONNECT_TO host]) @ after
      @ [URL (page_url site uri ''/status.html'')]
    \<and> (\<forall>h. CONNECT_TO h \<notin> set before) \<and> (\<forall>h. CONNECT_TO h \<notin> set after)"
proof -
  let ?before = "[HTTPHEADER (header @ [''Connection: close'', ''User-Agent: YahooFOR/1.0'']),
      CONNECTTIMEOUT (se_connectionTimeout (pv_settings env) div 1000),
      TIMEOUT (ts_diff (wk_timeout w) (pv_now env) div 1000), SSL_VERIFYHOST False, NOSIGNAL, TCP_NODELAY]
    @ socket_options env w @ mark_options marks w
    @ (if hc_checkType (wk_hostCheck w) \<in> set (ht_noPeer cls) then [CAINFO None, SSL_VERIFYPEER False] else [])"
  let ?after = "authority_options env (ht_authorities cls) w @ certificate_options env (ht_mutual cls) w"
  have "options = ?before @ (case redirect of None \<Rightarrow> [] | Some host \<Rightarrow> [CONNECT_TO host]) @ ?after
      @ [URL (page_url site uri ''/status.html'')]"
    using assms by (simp add: http_options_def)
  then show ?thesis by (intro exI [of _ ?before] exI [of _ ?after]) (simp add: option_lists)
qed

text \<open>The position of a character: what stands before it is the text up to its first occurrence.\<close>

lemma find_char:
  "find_from [c] s i = (if i + length (takeWhile (\<lambda>x. x \<noteq> c) (drop i s)) < length s
     then Some (i + length (takeWhile (\<lambda>x. x \<noteq> c) (drop i s))) else None)"
proof (induction "length s - i" arbitrary: i)
  case 0
  then show ?case by (subst find_from.simps) auto
next
  case (Suc n)
  then have i: "i < length s" by simp
  then have d: "drop i s = s ! i # drop (Suc i) s" by (simp add: Cons_nth_drop_Suc)
  show ?case
  proof (cases "s ! i = c")
    case True
    with i d show ?thesis by (subst find_from.simps) simp
  next
    case False
    with i d have "find_from [c] s i = find_from [c] s (Suc i)" by (subst find_from.simps) simp
    with Suc.hyps(1) [of "Suc i"] Suc.hyps(2) False d show ?thesis by simp
  qed
qed

definition named_host :: "string \<Rightarrow> bool" where
  "named_host checkInfo \<longleftrightarrow> 2 < length checkInfo \<and> take 2 checkInfo = ''//''"

definition check_page :: "string \<Rightarrow> string" where
  "check_page checkInfo =
     (let page = (if named_host checkInfo then dropWhile (\<lambda>c. c \<noteq> CHR ''/'') (drop 2 checkInfo) else checkInfo)
      in if page = [] then ''/status.html'' else page)"

lemma find_slash:
  assumes "2 < length s"
  shows "(case find_from ''/'' s 2 of Some i \<Rightarrow> drop i s | None \<Rightarrow> []) = dropWhile (\<lambda>c. c \<noteq> CHR ''/'') (drop 2 s)"
    and "substr s 2 (map_option (\<lambda>i. i - 2) (find_from ''/'' s 2)) = Inr (takeWhile (\<lambda>c. c \<noteq> CHR ''/'') (drop 2 s))"
    and "(case find_from ''/'' s 2 of Some i \<Rightarrow> i - 2 | None \<Rightarrow> length s - 2) = length (takeWhile (\<lambda>c. c \<noteq> CHR ''/'') (drop 2 s))"
proof -
  define t where "t = takeWhile (\<lambda>c. c \<noteq> CHR ''/'') (drop 2 s)"
  have whole: "drop 2 s = t @ dropWhile (\<lambda>c. c \<noteq> CHR ''/'') (drop 2 s)" by (simp add: t_def)
  have len: "length t \<le> length s - 2" unfolding t_def by (metis length_drop length_takeWhile_le)
  have at: "drop (length t) (drop 2 s) = dropWhile (\<lambda>c. c \<noteq> CHR ''/'') (drop 2 s)" "take (length t) (drop 2 s) = t"
    by (subst whole, simp)+
  have all: "dropWhile (\<lambda>c. c \<noteq> CHR ''/'') (drop 2 s) = []" "drop 2 s = t" if "\<not> 2 + length t < length s"
    using that len assms at by (simp_all add: le_antisym)
  show "(case find_from ''/'' s 2 of Some i \<Rightarrow> drop i s | None \<Rightarrow> []) = dropWhile (\<lambda>c. c \<noteq> CHR ''/'') (drop 2 s)"
    using at(1) all(1) by (cases "2 + length t < length s") (simp_all add: find_char add.commute del: dropWhile_eq_Nil_conv flip: t_def)
  show "substr s 2 (map_option (\<lambda>i. i - 2) (find_from ''/'' s 2)) = Inr (takeWhile (\<lambda>c. c \<noteq> CHR ''/'') (drop 2 s))"
    using at(2) all(2) assms by (simp add: find_char substr_def flip: t_def)
  show "(case find_from ''/'' s 2 of Some i \<Rightarrow> i - 2 | None \<Rightarrow> length s - 2) = length (takeWhile (\<lambda>c. c \<noteq> CHR ''/'') (drop 2 s))"
    using len assms by (simp add: find_char flip: t_def) linarith
qed

lemma parse_host:
  fixes h :: HMDataHostCheck
  assumes "HostCheck_parseCheckInfo h host [] = Inr (header, port, name)" and "2 < length (hc_checkInfo h)"
  shows "set name \<subseteq> set (takeWhile (\<lambda>c. c \<noteq> CHR ''/'') (drop 2 (hc_checkInfo h)))"
    and "hc_checkType h \<notin> {HM_CHECK_HTTP, HM_CHECK_AUX_HTTP, HM_CHECK_MARK_HTTP} \<Longrightarrow> CHR '':'' \<notin> set name"
proof -
  define s where "s = takeWhile (\<lambda>c. c \<noteq> CHR ''/'') (drop 2 (hc_checkInfo h))"
  note parts = find_slash(2) [OF assms(2), folded s_def]
  have found: "find_from '':'' s 0 = Some (length a)" "take (length a) s = a" if "s = a @ CHR '':'' # b" "CHR '':'' \<notin> set a" for a b
  proof -
    have "x \<noteq> CHR '':''" if "x \<in> set a" for x using that \<open>CHR '':'' \<notin> set a\<close> by auto
    then have "takeWhile (\<lambda>x. x \<noteq> CHR '':'') s = a" unfolding that(1) by (subst takeWhile_append2) simp_all
    with that(1) show "find_from '':'' s 0 = Some (length a)" "take (length a) s = a" by (simp_all add: find_char)
  qed
  have colon: "CHR '':'' \<notin> set s" if "find_from '':'' s 0 = None" using that found(1) split_list_first [of "CHR '':''" s] by auto
  have before: "CHR '':'' \<notin> set (take i s)" "set (take i s) \<subseteq> set s" if "find_from '':'' s 0 = Some i" for i
  proof -
    have "CHR '':'' \<in> set s"
    proof (rule ccontr)
      assume "CHR '':'' \<notin> set s"
      then have "takeWhile (\<lambda>x. x \<noteq> CHR '':'') s = s" by (auto simp: takeWhile_eq_all_conv)
      with that show False by (simp add: find_char)
    qed
    then show "CHR '':'' \<notin> set (take i s)" using that found split_list_first [of "CHR '':''" s] by auto
    show "set (take i s) \<subseteq> set s" by (rule set_take_subset)
  qed
  define typed where "typed \<longleftrightarrow> hc_checkType h \<notin> {HM_CHECK_HTTP, HM_CHECK_AUX_HTTP, HM_CHECK_MARK_HTTP}"
  have "name = [] \<or> name = s \<and> (typed \<longrightarrow> find_from '':'' s 0 = None) \<or> (\<exists>i. find_from '':'' s 0 = Some i \<and> name = take i s)"
  proof (cases "find_from ''<host>'' (hc_checkInfo h) 0 = None \<and> find_from ''<host:port>'' (hc_checkInfo h) 0 = None")
    case True
    then show ?thesis using assms(1)
      by (simp add: HostCheck_parseCheckInfo_def parts Let_def typed_def split: if_splits option.splits sum.splits) auto
  next
    case False
    then show ?thesis using assms(1) by (simp add: HostCheck_parseCheckInfo_def Let_def split: if_splits)
  qed
  then have "set name \<subseteq> set s \<and> (typed \<longrightarrow> CHR '':'' \<notin> set name)"
    using colon before by (elim disjE conjE exE) simp_all
  then show "set name \<subseteq> set (takeWhile (\<lambda>c. c \<noteq> CHR ''/'') (drop 2 (hc_checkInfo h)))"
    "hc_checkType h \<notin> {HM_CHECK_HTTP, HM_CHECK_AUX_HTTP, HM_CHECK_MARK_HTTP} \<Longrightarrow> CHR '':'' \<notin> set name"
    by (auto simp: s_def typed_def)
qed

lemma check_target_parts:
  assumes "check_target w = Inr (sni, uri, header, port, name)"
  defines "checkInfo \<equiv> hc_checkInfo (wk_hostCheck w)"
  shows "page_url site uri ''/status.html'' = site @ check_page checkInfo"
    and "sni \<Longrightarrow> named_host checkInfo \<and> HostCheck_parseCheckInfo (wk_hostCheck w) (wk_hostname w) [] = Inr (hd header, port, name)"
proof -
  let ?host = "takeWhile (\<lambda>c. c \<noteq> CHR ''/'') (drop 2 checkInfo)"
  consider (path) "\<not> named_host checkInfo" | (slash) "named_host checkInfo" "?host = []" | (host) "named_host checkInfo" "?host \<noteq> []"
    by blast
  then have "uri = (if named_host checkInfo then dropWhile (\<lambda>c. c \<noteq> CHR ''/'') (drop 2 checkInfo) else checkInfo)
    \<and> (sni \<longrightarrow> named_host checkInfo \<and> HostCheck_parseCheckInfo (wk_hostCheck w) (wk_hostname w) [] = Inr (hd header, port, name))"
  proof cases
    case path
    then show ?thesis using assms(1) unfolding check_target_def Let_def named_host_def checkInfo_def by auto
  next
    case slash
    then have two: "2 < length checkInfo" "take 2 checkInfo = ''//''" by (simp_all add: named_host_def)
    have "dropWhile (\<lambda>c. c \<noteq> CHR ''/'') (drop 2 checkInfo) = drop 2 checkInfo" using slash(2) by (metis append_Nil takeWhile_dropWhile_id)
    moreover have "uri = drop 2 checkInfo \<and> \<not> sni"
      using assms(1) two find_slash(3) [OF two(1)] slash(2) unfolding check_target_def Let_def checkInfo_def by simp
    ultimately show ?thesis using slash(1) by simp
  next
    case host
    then have two: "2 < length checkInfo" "take 2 checkInfo = ''//''" by (simp_all add: named_host_def)
    then show ?thesis using assms(1) find_slash(3) [OF two(1)] find_slash(1) [OF two(1)] host
      unfolding check_target_def Let_def checkInfo_def by (auto split: sum.splits)
  qed
  then show "page_url site uri ''/status.html'' = site @ check_page checkInfo"
    "sni \<Longrightarrow> named_host checkInfo \<and> HostCheck_parseCheckInfo (wk_hostCheck w) (wk_hostname w) [] = Inr (hd header, port, name)"
    by (auto simp: page_url_def check_page_def Let_def)
qed

lemma port_text_plain: "c \<in> set (port_text port) \<Longrightarrow> c \<notin> set ''/?#@:]''"
  unfolding port_text_def by (drule digits_all) auto

lemma url_port:
  assumes "scheme = ''http'' \<or> scheme = ''https''" and "set name \<inter> set ''/?#@'' = {}" and "page \<noteq> []" and "hd page = CHR ''/''"
  shows "url_peer (scheme @ ''://'' @ (name @ '':'' @ port_text port) @ page) = name @ '':'' @ port_text port"
proof -
  have chars: "\<forall>c \<in> set (port_text port). c \<notin> set ''/?#@:]''" by (intro ballI) (rule port_text_plain)
  then have "set (name @ '':'' @ port_text port) \<inter> set ''/?#@'' = {}" using assms(2) by auto
  note peer = url_parts(1) [OF assms(1) this assms(3,4)]
  have "\<forall>c \<in> set (rev (port_text port)). c \<noteq> CHR '']''" using chars by auto
  then have "CHR '':'' \<in> set (takeWhile (\<lambda>c. c \<noteq> CHR '']'') (rev (name @ '':'' @ port_text port)))"
    unfolding rev_append by (simp del: set_rev)
  with peer show ?thesis by simp
qed

lemma redirect_target:
  assumes "options = before @ (case redirect of None \<Rightarrow> [] | Some host \<Rightarrow> [CONNECT_TO host]) @ after @ [URL u]"
    and "\<forall>h. CONNECT_TO h \<notin> set before" and "\<forall>h. CONNECT_TO h \<notin> set after"
  shows "redirect = None \<Longrightarrow> transfer_peer options = url_peer u"
    and "redirect = Some (url_peer u @ '':'' @ target) \<Longrightarrow> transfer_peer options = target"
proof -
  have "peer_redirect peer opt = []" if "opt \<in> set before \<union> set after" for peer opt using that assms(2,3) by (cases opt) auto
  then have none: "concat (map (peer_redirect peer) before) = []" "concat (map (peer_redirect peer) after) = []" for peer by auto
  show "redirect = None \<Longrightarrow> transfer_peer options = url_peer u"
    "redirect = Some (url_peer u @ '':'' @ target) \<Longrightarrow> transfer_peer options = target"
    by (simp_all add: transfer_peer_def assms(1) none del: concat_eq_Nil_conv)
qed

text \<open>The conditions under which the texts of a check cannot be taken for another part of the URL.\<close>

definition plain_texts :: "probe_env \<Rightarrow> HMWork \<Rightarrow> bool" where
  "plain_texts env w \<longleftrightarrow> (let checkInfo = hc_checkInfo (wk_hostCheck w) in
     (checkInfo = [] \<or> hd checkInfo = CHR ''/'')
     \<and> (named_host checkInfo \<longrightarrow> set (takeWhile (\<lambda>c. c \<noteq> CHR ''/'') (drop 2 checkInfo)) \<inter> set ''?#@]'' = {})
     \<and> set (wk_hostname w) \<inter> set ''/?#@:]'' = {} \<and> set (address_text env w) \<inter> set ''/?#@'' = {})"

lemma check_page_slash:
  assumes "checkInfo = [] \<or> hd checkInfo = CHR ''/''"
  shows "check_page checkInfo \<noteq> []" and "hd (check_page checkInfo) = CHR ''/''"
  using assms hd_dropWhile [of "\<lambda>c. c \<noteq> CHR ''/''" "drop 2 checkInfo"] by (auto simp: check_page_def Let_def)

lemma named_host_plain:
  assumes "check_target w = Inr (sni, uri, header, port, name)" and sni and "hc_checkType (wk_hostCheck w) \<in> set (ht_types curl_class)"
    and "hc_checkType (wk_hostCheck w) \<noteq> HM_CHECK_HTTP" and "plain_texts env w"
  shows "set name \<inter> set ''/?#@:]'' = {}"
proof -
  let ?info = "hc_checkInfo (wk_hostCheck w)"
  let ?host = "takeWhile (\<lambda>c. c \<noteq> CHR ''/'') (drop 2 ?info)"
  note parts = check_target_parts(2) [OF assms(1,2)]
  then have "2 < length ?info" by (simp add: named_host_def)
  note host = parse_host [OF parts [THEN conjunct2] this]
  have "hc_checkType (wk_hostCheck w) \<notin> {HM_CHECK_HTTP, HM_CHECK_AUX_HTTP, HM_CHECK_MARK_HTTP}"
    using assms(3,4) by (auto simp: curl_class_def)
  then have "CHR '':'' \<notin> set name" by (rule host(2))
  moreover have "CHR ''/'' \<notin> set ?host" by (auto dest: set_takeWhileD)
  moreover have "set ?host \<inter> set ''?#@]'' = {}" using parts assms(5) by (simp add: plain_texts_def Let_def)
  ultimately show ?thesis using host(1) by auto
qed

lemma url_named:
  assumes "set name \<inter> set ''/?#@:]'' = {}" and "page \<noteq> []" and "hd page = CHR ''/''"
  shows "url_peer (''https'' @ ''://'' @ (if port = 443 then name else name @ '':'' @ port_text port) @ page) = name @ '':'' @ port_text port
    \<and> url_page (''https'' @ ''://'' @ (if port = 443 then name else name @ '':'' @ port_text port) @ page) = page"
proof (cases "port = 443")
  case True
  have chars: "set name \<inter> set ''/?#@'' = {}" using assms(1) by auto
  have https: "''https'' = ''http'' \<or> ''https'' = ''https''" by simp
  have "CHR '':'' \<notin> set (takeWhile (\<lambda>c. c \<noteq> CHR '']'') (rev name))" using assms(1) by (auto dest: set_takeWhileD)
  moreover have "port_text 443 = ''443''" by code_simp
  ultimately show ?thesis using url_parts [OF https chars assms(2,3)] True by simp
next
  case False
  have chars: "set name \<inter> set ''/?#@'' = {}" "set (name @ '':'' @ port_text port) \<inter> set ''/?#@'' = {}"
    using assms(1) port_text_plain [of _ port] by auto
  have https: "''https'' = ''http'' \<or> ''https'' = ''https''" by simp
  show ?thesis using url_port [OF https chars(1) assms(2,3)] url_parts(2) [OF https chars(2) assms(2,3)] False by simp
qed

lemma http_options_peer:
  assumes "http_options env curl_class marks w = Inr options" and "hc_checkType (wk_hostCheck w) \<in> set (ht_types curl_class)"
    and "plain_texts env w"
  shows "transfer_peer options = address_text env w @ '':'' @ port_text (check_port w)
    \<and> (\<exists>u. last options = URL u \<and> url_page u = check_page (hc_checkInfo (wk_hostCheck w)))"
proof -
  let ?plain = "hc_checkType (wk_hostCheck w) = HM_CHECK_HTTP" and ?page = "check_page (hc_checkInfo (wk_hostCheck w))"
  let ?target = "address_text env w @ '':'' @ port_text (check_port w)"
  have plain: "ht_plain curl_class = HM_CHECK_HTTP" by (simp add: curl_class_def)
  from assms(1) obtain sni uri header p h where t: "check_target w = Inr (sni, uri, header, p, h)"
    by (auto simp: http_options_def res_bind_Inr)
  obtain site redirect where site: "http_site env ?plain sni p h w = (site, redirect)" by (rule prod.exhaust)
  obtain before after where options: "options = before @ (case redirect of None \<Rightarrow> [] | Some host \<Rightarrow> [CONNECT_TO host]) @ after
      @ [URL (site @ ?page)]" and others: "\<forall>h. CONNECT_TO h \<notin> set before" "\<forall>h. CONNECT_TO h \<notin> set after"
    using http_options_parts [OF assms(1) t] site check_target_parts(1) [OF t] by (auto simp: plain)
  note peer = redirect_target [OF options others]
  have slash: "?page \<noteq> []" "hd ?page = CHR ''/''" using assms(3) check_page_slash by (auto simp: plain_texts_def Let_def)
  have address: "set (address_text env w) \<inter> set ''/?#@'' = {}" using assms(3) by (simp add: plain_texts_def Let_def)
  show ?thesis
  proof (cases "\<not> sni \<or> ?plain")
    case True
    define scheme where "scheme = (if ?plain then ''http'' else ''https'')"
    have sch: "scheme = ''http'' \<or> scheme = ''https''" by (simp add: scheme_def)
    from True site have "site = scheme @ ''://'' @ ?target" "redirect = None" by (auto simp: http_site_def Let_def scheme_def)
    moreover have "url_page (scheme @ ''://'' @ ?target @ ?page) = ?page"
    proof (rule url_parts(2) [OF sch _ slash])
      show "set ?target \<inter> set ''/?#@'' = {}" using address port_text_plain [of _ "check_port w"] by auto
    qed
    ultimately show ?thesis using peer(1) url_port [OF sch address slash] by (simp add: options)
  next
    case False
    define name where "name = (if h = [] then wk_hostname w else h)"
    define port where "port = (if h = [] then check_port w else p)"
    from False site have site': "site = ''https'' @ ''://'' @ (if port = 443 then name else name @ '':'' @ port_text port)"
      "redirect = Some ((name @ '':'' @ port_text port) @ '':'' @ ?target)"
      by (cases "h = []"; cases "port = 443"; simp add: http_site_def Let_def name_def port_def)+
    have chars: "set name \<inter> set ''/?#@:]'' = {}"
      using named_host_plain [OF t _ assms(2) _ assms(3)] False assms(3) by (auto simp: name_def plain_texts_def Let_def)
    then have name: "set name \<inter> set ''/?#@'' = {}" by auto
    have "url_peer (site @ ?page) = name @ '':'' @ port_text port \<and> url_page (site @ ?page) = ?page"
      using url_named [OF chars slash] by (simp add: site')
    with peer(2) site'(2) show ?thesis by (simp add: options)
  qed
qed

text \<open>
  C8: an HTTP check asks the address of its work order, and reports what came back. Let the check info be empty or begin with a
  slash, and let the names and the address have no character that ends or splits the authority of a URL. Then the
  transfer goes to the address and the port of the check, also when the URL names a host, and asks for the page of the
  check info, or for \<open>/status.html\<close>. The response is connected exactly if the transfer is complete, and each reason stands for
  the outcomes it names: success for the code 200 alone, and so on for redirections, 403 (or a login that is
  denied), 404, the codes of a server error, every other code, a time-out, a refused connection, and every other
  failure of the transfer.
\<close>

theorem http_check_correct:
  fixes env :: probe_env and w :: HMWork
  assumes "hc_checkType (wk_hostCheck w) \<in> set (ht_types curl_class)" and "pv_curl env" and "plain_texts env w"
    and "http_options env curl_class False w = Inr options" and "pv_perform env options = res"
  shows "transfer_peer options = address_text env w @ '':'' @ port_text (check_port w)
    \<and> (\<exists>u. last options = URL u \<and> url_page u = check_page (hc_checkInfo (wk_hostCheck w)))
    \<and> (\<exists>w'. Curl_healthCheck env w = Inr (w', HM_WORK_COMPLETE)
      \<and> wk_response w' = (if cu_code res = CURLE_OK then HM_RESPONSE_CONNECTED else HM_RESPONSE_FAILED)
      \<and> (wk_reason w' = HM_REASON_SUCCESS \<longleftrightarrow> cu_code res = CURLE_OK \<and> cu_response res = 200)
      \<and> (wk_reason w' = HM_REASON_RESPONSE_3XX \<longleftrightarrow> cu_code res = CURLE_OK \<and> cu_response res \<in> {300..399})
      \<and> (wk_reason w' = HM_REASON_RESPONSE_403 \<longleftrightarrow>
          cu_code res = CURLE_OK \<and> cu_response res = 403 \<or> cu_code res = CURLE_LOGIN_DENIED)
      \<and> (wk_reason w' = HM_REASON_RESPONSE_404 \<longleftrightarrow> cu_code res = CURLE_OK \<and> cu_response res = 404)
      \<and> (wk_reason w' = HM_REASON_RESPONSE_5XX \<longleftrightarrow> cu_code res = CURLE_OK \<and> cu_response res \<in> {500..599})
      \<and> (wk_reason w' = HM_REASON_RESPONSE_DOWN \<longleftrightarrow>
          cu_code res = CURLE_OK \<and> cu_response res \<notin> {200, 403, 404} \<union> {300..399} \<union> {500..599})
      \<and> (wk_reason w' = HM_REASON_RESPONSE_TIMEOUT \<longleftrightarrow> cu_code res = CURLE_OPERATION_TIMEDOUT)
      \<and> (wk_reason w' = HM_REASON_CONNECT_FAILURE \<longleftrightarrow> cu_code res = CURLE_COULDNT_CONNECT)
      \<and> (wk_reason w' = HM_REASON_RESPONSE_FAILURE \<longleftrightarrow>
          cu_code res \<notin> {CURLE_OK, CURLE_OPERATION_TIMEDOUT, CURLE_LOGIN_DENIED, CURLE_COULDNT_CONNECT}))"
proof -
  have run: "Curl_healthCheck env w = Inr (http_result env res w, HM_WORK_COMPLETE)"
    using assms by (simp add: Curl_healthCheck_def http_fetch_def Let_def)
  have reason: "wk_reason (http_result env res w) =
      (if cu_code res = CURLE_OK then http_reason (cu_response res) else transfer_error (cu_code res))"
    "wk_response (http_result env res w) = (if cu_code res = CURLE_OK then HM_RESPONSE_CONNECTED else HM_RESPONSE_FAILED)"
    by (simp_all add: http_result_def Let_def)
  show ?thesis using http_options_peer [OF assms(4,1,3)] run
    by (cases "cu_code res = CURLE_OK") (auto simp: reason http_reason_def transfer_error_def)
qed

text \<open>
  Without the slash the request leaves: a check info that begins with an at sign turns the address into the name of a
  user, and what follows is the host that is asked.
\<close>

theorem check_info_names_other_host:
  fixes env :: probe_env and w :: HMWork
  assumes "hc_checkType (wk_hostCheck w) = HM_CHECK_HTTP" and "hc_checkInfo (wk_hostCheck w) = ''@other/''"
    and "http_options env curl_class False w = Inr options" and "set (address_text env w) \<inter> set ''/?#@'' = {}"
  shows "transfer_peer options = ''other:80''"
proof -
  let ?site = "''http://'' @ address_text env w @ '':'' @ port_text (check_port w)"
  let ?peer = "address_text env w @ '':'' @ port_text (check_port w)"
  have t: "check_target w = Inr (False, ''@other/'', [], 0, [])" by (simp add: check_target_def assms(2))
  have plain: "ht_plain curl_class = HM_CHECK_HTTP" by (simp add: curl_class_def)
  have "http_site env True False 0 [] w = (?site, None)" by (simp add: http_site_def Let_def)
  with http_options_parts [OF assms(3) t] obtain before after where
    options: "options = before @ (case None of None \<Rightarrow> [] | Some host \<Rightarrow> [CONNECT_TO host]) @ after @ [URL (?site @ ''@other/'')]"
    and others: "\<forall>h. CONNECT_TO h \<notin> set before" "\<forall>h. CONNECT_TO h \<notin> set after"
    by (auto simp: plain assms(1) page_url_def)
  have "\<forall>c \<in> set ?peer. c \<notin> set ''/?#''" using assms(4) port_text_plain [of _ "check_port w"] by auto
  then have "takeWhile (\<lambda>c. c \<notin> set ''/?#'') (?peer @ ''@other/'') = ?peer @ ''@other''" by (subst takeWhile_append2) auto
  then have "url_peer (?site @ ''@other/'') = ''other:80''" by (simp add: url_peer_def url_rest_def)
  with redirect_target(1) [OF options others] show ?thesis by simp
qed


section \<open>Checks of a name server\<close>

text \<open>
  C36: a DNS check for which c-ares makes no channel is dropped. Its status is the one of a new work order, idle, and \<open>processWork\<close>
  takes this for a check that was not made: the result is not updated or stored and no next check is scheduled. The check
  list has the check as in progress.
\<close>

theorem dns_check_dropped:
  fixes env :: probe_env and w :: HMWork and d :: HMDaemon
  assumes "wk_class w = HMWorkHealthCheckDNS" and "hc_checkType (wk_hostCheck w) \<in> {HM_CHECK_DNS, HM_CHECK_DNSVC}"
    and "wk_workStatus w = HM_WORK_IDLE" and "\<not> pv_channel env"
  shows "\<exists>d' w'. WorkHealthCheck_processWork ares (DNS_healthCheck env) t0 t1 t2 w d = Some (d', w')
    \<and> dm_checkList d' = fst (CheckList_startCheck t0 (wk_hostname w) (wk_ipAddress w) (wk_hostCheck w) (dm_checkList d))
    \<and> dm_workQueue d' = dm_workQueue d \<and> dm_eventLoop d' = dm_eventLoop d \<and> dm_stored d' = dm_stored d"
proof -
  obtain cl timeout where cl: "CheckList_startCheck t0 (wk_hostname w) (wk_ipAddress w) (wk_hostCheck w) (dm_checkList d) = (cl, timeout)"
    by fastforce
  let ?w = "w\<lparr>wk_timeout := timeout\<rparr>"
  have "snd (DNS_healthCheck env ?w) = HM_WORK_IDLE" using assms(2,4) by (auto simp: DNS_healthCheck_def Let_def)
  then have "HealthCheck_conduct (DNS_healthCheck env) t0 t1 w d =
      (set_checkList cl d, (fst (DNS_healthCheck env ?w))\<lparr>wk_workStatus := HM_WORK_IDLE\<rparr>)"
    using assms(1,3) cl by (simp add: HealthCheck_conduct_def healthCheck_def split_beta)
  then show ?thesis using cl by (simp add: WorkHealthCheck_processWork_def)
qed

text \<open>With a channel the check is complete, whatever the answer is.\<close>

lemma dns_check_completes:
  assumes "pv_channel env" and "hc_checkType (wk_hostCheck w) \<in> {HM_CHECK_DNS, HM_CHECK_DNSVC}"
  shows "snd (DNS_healthCheck env w) = HM_WORK_COMPLETE"
    and "wk_reason (fst (DNS_healthCheck env w)) = HM_REASON_SUCCESS \<longleftrightarrow>
      an_timeouts (pv_answer env w) \<le> 0 \<and> an_status (pv_answer env w) = ARES_SUCCESS"
  using assms by (auto simp: DNS_healthCheck_def dns_status_def dns_reason_def Let_def)

section \<open>Lookups with c-ares\<close>

definition ares_family :: "HMWork \<Rightarrow> HM_DUALSTACK" where
  "ares_family w = (if IPAddress_getType (wk_ipAddress w) = AF_INET6 then HM_DUALSTACK_IPV6_ONLY else HM_DUALSTACK_IPV4_ONLY)"

definition ares_keeps :: "probe_env \<Rightarrow> HMWork \<Rightarrow> HMDNSCache \<Rightarrow> bool" where
  "ares_keeps env w c \<longleftrightarrow> wk_reason (lookup_failed (snd (lookup_outcome env w)) w) = HM_REASON_DNS_TIMEOUT
     \<and> snd (DNSCache_getAddresses (wk_hostname w) (ares_family w) (wk_dnsHostCheck w) [] c)"

lemma lookup_failed_simps [simp]:
  "wk_hostname (lookup_failed r w) = wk_hostname w" "wk_dnsHostCheck (lookup_failed r w) = wk_dnsHostCheck w"
  "wk_ipAddress (lookup_failed r w) = wk_ipAddress w" "wk_reschedule (lookup_failed r w) = wk_reschedule w"
  by (cases r; simp add: lookup_failed_def)+

lemma ares_lookup_facts:
  assumes "wk_class w = HMWorkDNSLookupAres" and "dns_find (wk_hostname w, wk_dnsHostCheck w) c = Some r"
  shows "\<exists>w' c' r'. dnsLookup (DNSLookupAres_dnsLookup env) now w c = (w', c', True)
    \<and> wk_hostname w' = wk_hostname w \<and> wk_dnsHostCheck w' = wk_dnsHostCheck w
    \<and> wk_ipAddress w' = wk_ipAddress w \<and> wk_reschedule w' = wk_reschedule w
    \<and> dns_find (wk_hostname w, wk_dnsHostCheck w) c' = Some r'
    \<and> dr_addr r' = (if ares_keeps env w c then dr_addr r else fst (lookup_outcome env w))
    \<and> dr_addrExp r' = (if ares_keeps env w c then dr_addrExp r
        else filter (\<lambda>a. a \<notin> set (fst (lookup_outcome env w))) (dr_addr r))"
proof -
  let ?c = "if ares_keeps env w c then c
    else DNSCache_updateDNSEntry (wk_hostname w) (wk_dnsHostCheck w) (fst (lookup_outcome env w)) c"
  have "dnsLookup (DNSLookupAres_dnsLookup env) now w c =
      ((lookup_failed (snd (lookup_outcome env w)) w)\<lparr>wk_start := pv_now env, wk_end := pv_now env\<rparr>,
       DNSCache_finishQuery (pv_now env) (wk_hostname w) (wk_dnsHostCheck w) True ?c, True)"
    using assms(1) by (simp add: dnsLookup_def DNSLookupAres_dnsLookup_def ares_keeps_def ares_family_def Let_def split_beta)
  moreover have "dns_find (wk_hostname w, wk_dnsHostCheck w) ?c =
      Some (if ares_keeps env w c then r else DNSResult_updateQuery (fst (lookup_outcome env w)) r)"
    using assms(2) by (simp add: DNSCache_updateDNSEntry_def)
  ultimately show ?thesis using assms(2)
    by (simp add: DNSCache_finishQuery_def DNSResult_finishQuery_def DNSResult_updateQuery_def)
qed

interpretation ares: resolver "DNSLookupAres_dnsLookup env" "\<lambda>w. wk_class w = HMWorkDNSLookupAres"
  "\<lambda>w c r. if ares_keeps env w c then dr_addr r else fst (lookup_outcome env w)"
  "\<lambda>w c r. if ares_keeps env w c then dr_addrExp r else filter (\<lambda>a. a \<notin> set (fst (lookup_outcome env w))) (dr_addr r)"
  by unfold_locales (rule ares_lookup_facts)

lemma ares_keeps_iff:
  assumes "dns_find (wk_hostname w, wk_dnsHostCheck w) c = Some r" and "wk_reason w = HM_REASON_NONE"
    and "wk_ipAddress w = IPAddress_new (if dl_ipv6 (wk_dnsHostCheck w) then AF_INET6 else AF_INET)"
  shows "ares_keeps env w c \<longleftrightarrow> snd (lookup_outcome env w) = Some HM_REASON_DNS_TIMEOUT \<and> dr_addr r \<noteq> []"
proof -
  have "ares_family w = (if dl_ipv6 (wk_dnsHostCheck w) then HM_DUALSTACK_IPV6_ONLY else HM_DUALSTACK_IPV4_ONLY)"
    using assms(3) by (simp add: ares_family_def IPAddress_new_def)
  from family_addresses(1) [OF assms(1) this]
  have "snd (DNSCache_getAddresses (wk_hostname w) (ares_family w) (wk_dnsHostCheck w) [] c) \<longleftrightarrow> dr_addr r \<noteq> []"
    by (auto simp: answer_of_def DNSCache_getAddresses_def Let_def)
  with assms(2) show ?thesis by (cases "snd (lookup_outcome env w)") (auto simp: ares_keeps_def lookup_failed_def)
qed

lemma ares_lookup_work:
  assumes "wk_class w = HMWorkDNSLookupAres"
  shows "wk_reason (fst (dnsLookup (DNSLookupAres_dnsLookup env) now w c)) = wk_reason (lookup_failed (snd (lookup_outcome env w)) w)"
  using assms by (simp add: dnsLookup_def DNSLookupAres_dnsLookup_def Let_def split_beta)

lemma fold_insort_insert: "fold insort_insert xs [] = sorted_list_of_set (set xs)"
proof -
  have "sorted (fold insort_insert xs ys) \<and> distinct (fold insort_insert xs ys) \<and> set (fold insort_insert xs ys) = set xs \<union> set ys"
    if "sorted ys" "distinct ys" for ys
    using that by (induction xs arbitrary: ys)
      (auto simp: sorted_insort_insert distinct_insort_insert set_insort_insert)
  from this [of "[]"] show ?thesis by (auto intro: sorted_distinct_set_unique)
qed

text \<open>
  C7: what a lookup with c-ares leaves, by the status of the answer. A success with addresses puts the set of them, in
  order, into the entry of the cache; a time-out leaves the addresses of the entry, when it has any; everything else (a
  time-out of an entry without addresses, a name that is not found, another failure, a success without addresses)
  leaves the blank address alone, and the work order has the reason. The checks that wait are brought up to
  date: no address of the entry is overdue afterwards, every address that was overdue is queued (when the plugins of
  the waiting checks fit), and the results of the addresses that are gone are removed.
\<close>

theorem ares_lookup_updates_checks:
  fixes d :: HMDaemon and w :: HMWork and env :: probe_env
  defines "host \<equiv> wk_hostname w" and "lookup \<equiv> wk_dnsHostCheck w" and "waiting \<equiv> dns_waiting w d"
    and "family \<equiv> (if dl_ipv6 (wk_dnsHostCheck w) then HM_DUALSTACK_IPV6_ONLY else HM_DUALSTACK_IPV4_ONLY)"
    and "status \<equiv> an_status (pv_answer env w)" and "ips \<equiv> IPAddress_set_hostent (an_host (pv_answer env w))"
  assumes "wk_class w = HMWorkDNSLookupAres" and "wk_reason w = HM_REASON_NONE" and "CheckList_sorted (dm_checkList d)"
    and "wk_ipAddress w = IPAddress_new (if dl_ipv6 lookup then AF_INET6 else AF_INET)"
    and "dns_find (host, lookup) (dm_dnsCache d) = Some r" and "set (dr_addr r) \<inter> set (dr_addrExp r) = {}"
    and "check \<in> set waiting" and "hc_dualstack check AND family \<noteq> 0"
    and "kept \<longleftrightarrow> status = ARES_ETIMEOUT \<and> dr_addr r \<noteq> []"
  shows "\<exists>d' w' r'. WorkDNSLookup_processWork True (DNSLookupAres_dnsLookup env) t0 now w d = Some (d', w')
    \<and> dns_find (host, lookup) (dm_dnsCache d') = Some r'
    \<and> dr_addr r' = (if status = ARES_SUCCESS \<and> ips \<noteq> [] then sorted_list_of_set (set ips)
        else if kept then dr_addr r else [IPAddress_new (if dl_ipv6 lookup then AF_INET6 else AF_INET)])
    \<and> wk_reason w' = (if status = ARES_SUCCESS then if ips = [] then HM_REASON_DNS_FAILURE else HM_REASON_NONE
        else if status = ARES_ETIMEOUT then HM_REASON_DNS_TIMEOUT
        else if status = ARES_ENOTFOUND then HM_REASON_DNS_NOTFOUND else HM_REASON_DNS_FAILURE)
    \<and> (\<forall>ip \<in> set (dr_addr r'). \<not> is_blank ip \<longrightarrow>
        now < CheckList_nextCheckTime now host ip check (dm_checkList d')
        \<and> (CheckList_nextCheckTime now host ip check (dm_checkList d) \<le> now \<longrightarrow>
           (\<forall>c \<in> set waiting. \<exists>cls. check_work_class True c = Class cls) \<longrightarrow>
           check_queued (host, check) ip d'))
    \<and> (\<forall>ip \<in> (if kept then set (dr_addrExp r) else set (dr_addr r) - set (dr_addr r')). result_gone (host, check) ip d')"
proof -
  let ?c0 = "dns_adjust (wk_hostname w, wk_dnsHostCheck w) (DNSResult_startQuery t0) (dm_dnsCache d)"
  let ?w = "fst (dnsLookup (DNSLookupAres_dnsLookup env) now w ?c0)"
  define blank where "blank = [IPAddress_new (if dl_ipv6 lookup then AF_INET6 else AF_INET)]"
  define fresh where "fresh = fst (lookup_outcome env w)"
  define answer where "answer = (if kept then dr_addr r else fresh)"
  define gone where "gone = (if kept then dr_addrExp r else filter (\<lambda>a. a \<notin> set fresh) (dr_addr r))"
  have type: "[IPAddress_new (IPAddress_getType (wk_ipAddress w))] = blank"
    using assms(10) by (simp add: blank_def IPAddress_new_def)
  have outcome: "fresh = (if status = ARES_SUCCESS \<and> ips \<noteq> [] then sorted_list_of_set (set ips) else blank)"
    "snd (lookup_outcome env w) = (if status = ARES_SUCCESS then if ips = [] then Some HM_REASON_DNS_FAILURE else None
      else Some (if status = ARES_ETIMEOUT then HM_REASON_DNS_TIMEOUT
        else if status = ARES_ENOTFOUND then HM_REASON_DNS_NOTFOUND else HM_REASON_DNS_FAILURE))"
    by (auto simp: fresh_def lookup_outcome_def lookup_answer_def type Let_def fold_insort_insert status_def ips_def)
  have "dns_find (host, lookup) ?c0 = Some (DNSResult_startQuery t0 r)" using assms(11) by (simp add: host_def lookup_def)
  from ares_keeps_iff [OF this [unfolded host_def lookup_def] assms(8) assms(10) [unfolded lookup_def], of env]
  have keeps: "ares_keeps env w ?c0 \<longleftrightarrow> kept"
    using assms(15) outcome(2) by (auto simp: DNSResult_startQuery_def split: if_splits)
  have addr: "dr_addr (DNSResult_startQuery t0 r) = dr_addr r" "dr_addrExp (DNSResult_startQuery t0 r) = dr_addrExp r"
    by (simp_all add: DNSResult_startQuery_def)
  have disjoint: "set answer \<inter> set gone = {}" using assms(12) by (auto simp: answer_def gone_def split: if_splits)
  obtain d' r' where run: "WorkDNSLookup_processWork True (DNSLookupAres_dnsLookup env) t0 now w d = Some (d', ?w)"
    and r': "dns_find (host, lookup) (dm_dnsCache d') = Some r'" "dr_addr r' = answer"
    and rest: "\<forall>ip \<in> set answer. \<not> is_blank ip \<longrightarrow>
        now < CheckList_nextCheckTime now host ip check (dm_checkList d')
        \<and> (CheckList_nextCheckTime now host ip check (dm_checkList d) \<le> now \<longrightarrow>
           (\<forall>c \<in> set waiting. \<exists>cls. check_work_class True c = Class cls) \<longrightarrow>
           check_queued (host, check) ip d')" "\<forall>ip \<in> set gone. result_gone (host, check) ip d'"
    using ares.lookup_updates_checks [where ?t0.0 = t0 and env = env and ips = answer and gone = gone and now = now,
        OF assms(7,9) assms(10) [unfolded lookup_def] assms(11,13,14) [unfolded host_def lookup_def waiting_def family_def]]
      keeps disjoint unfolding host_def lookup_def waiting_def
    by (auto simp: addr answer_def gone_def fresh_def)
  have "dr_addr r' = (if status = ARES_SUCCESS \<and> ips \<noteq> [] then sorted_list_of_set (set ips) else if kept then dr_addr r else blank)"
    using assms(15) by (auto simp: r' answer_def outcome(1))
  moreover have "wk_reason ?w = (if status = ARES_SUCCESS then if ips = [] then HM_REASON_DNS_FAILURE else HM_REASON_NONE
      else if status = ARES_ETIMEOUT then HM_REASON_DNS_TIMEOUT
      else if status = ARES_ENOTFOUND then HM_REASON_DNS_NOTFOUND else HM_REASON_DNS_FAILURE)"
    using assms(8) by (simp add: ares_lookup_work [OF assms(7)] outcome(2) lookup_failed_def)
  moreover have "(if kept then set (dr_addrExp r) else set (dr_addr r) - set (dr_addr r')) = set gone"
    by (auto simp: r' gone_def answer_def)
  ultimately show ?thesis using run r' rest unfolding blank_def by (intro exI [of _ d'] exI [of _ ?w] exI [of _ r']) simp
qed

section \<open>Witnesses\<close>

definition w_calls :: socket_calls where
  "w_calls = \<lparr>so_socket = True, so_fcntl = True, so_setsockopt = True, so_connect = True, so_select = 1, so_ready = True,
     so_error = Some 0, so_now = 12, so_send = (\<lambda>_ s. int (length s)),
     so_input = (\<lambda>i. if i = 0 then Arrives ''SSH'' else if i = 1 then Arrives ''-2.0'' else SelectTimeout)\<rparr>"

definition w_tls :: tls_calls where
  "w_tls = \<lparr>tl_new = True, tl_connect = (\<lambda>_. SSL_wants 1 True (Some 0)),
     tl_finished = (\<lambda>_. False), tl_now = 13, tl_write = (\<lambda>_ s. int (length s)), tl_select = (\<lambda>_. 0),
     tl_read = (\<lambda>_ _. SSL_error), tl_pending = (\<lambda>_. False)\<rparr>"

definition w_probe_env :: "proto \<Rightarrow> probe_env" where
  "w_probe_env pb = \<lparr>pv_settings = Settings_new, pv_context = True, pv_now = 0, pv_start = 10, pv_end = 11,
     pv_ntop4 = (\<lambda>_. ''192.0.2.1''), pv_ntop6 = (\<lambda>_. ''2001:db8::1''), pv_proto = pb, pv_sockets = (\<lambda>_. w_calls),
     pv_tls = (\<lambda>_. w_tls), pv_curl = True,
     pv_perform = (\<lambda>_. \<lparr>cu_code = CURLE_OK, cu_response = 200, cu_connectTime = 3, cu_body = [''ok'']\<rparr>), pv_channel = True,
     pv_answer = (\<lambda>_. \<lparr>an_status = ARES_SUCCESS, an_timeouts = 0, an_host = Hostent4 [7]\<rparr>)\<rparr>"

definition w_probe_work :: "work_class \<Rightarrow> HM_CHECK_TYPE \<Rightarrow> string \<Rightarrow> HMWork" where
  "w_probe_work cls type info = Work_new cls ''h'' (INET 1)
     (HostCheck_default\<lparr>hc_checkType := type, hc_port := 443, hc_checkInfo := info\<rparr>)"

lemma w_probe_work_simps [simp]:
  "hc_checkType (wk_hostCheck (w_probe_work cls type info)) = type" "hc_checkInfo (wk_hostCheck (w_probe_work cls type info)) = info"
  "hc_port (wk_hostCheck (w_probe_work cls type info)) = 443" "wk_hostname (w_probe_work cls type info) = ''h''"
  "wk_ipAddress (w_probe_work cls type info) = INET 1" "wk_class (w_probe_work cls type info) = cls"
  "wk_workStatus (w_probe_work cls type info) = HM_WORK_IDLE"
  by (simp_all add: w_probe_work_def Work_new_def)

lemma w_probe_env_simps [simp]:
  "pv_sockets (w_probe_env pb) w = w_calls" "pv_tls (w_probe_env pb) w = w_tls" "pv_context (w_probe_env pb)" "pv_curl (w_probe_env pb)"
  "pv_channel (w_probe_env pb)" "pv_answer (w_probe_env pb) w = \<lparr>an_status = ARES_SUCCESS, an_timeouts = 0, an_host = Hostent4 [7]\<rparr>"
  by (simp_all add: w_probe_env_def)

lemma w_calls_connect: "connects w_calls tos"
  by (simp add: connects_def w_calls_def)



theorem tls_check_never_returns_witness:
  "\<forall>pb. TCPS_healthCheck (w_probe_env pb) (w_probe_work HMWorkHealthCheckTCPS HM_CHECK_TCPS []) = None"
proof
  fix pb
  have "stalled w_tls" by (auto simp: stalled_def w_tls_def)
  then show "TCPS_healthCheck (w_probe_env pb) (w_probe_work HMWorkHealthCheckTCPS HM_CHECK_TCPS []) = None"
    by (intro tls_check_never_returns) (simp_all add: w_calls_connect, simp_all add: w_tls_def)
qed

theorem dns_check_dropped_witness:
  "\<forall>pb. \<exists>d' w'. WorkHealthCheck_processWork True (DNS_healthCheck ((w_probe_env pb)\<lparr>pv_channel := False\<rparr>)) 1 2 3
       (w_probe_work HMWorkHealthCheckDNS HM_CHECK_DNS ''h'') w_daemon = Some (d', w')
     \<and> dm_workQueue d' = dm_workQueue w_daemon \<and> dm_eventLoop d' = dm_eventLoop w_daemon"
proof
  fix pb
  show "\<exists>d' w'. WorkHealthCheck_processWork True (DNS_healthCheck ((w_probe_env pb)\<lparr>pv_channel := False\<rparr>)) 1 2 3
       (w_probe_work HMWorkHealthCheckDNS HM_CHECK_DNS ''h'') w_daemon = Some (d', w')
     \<and> dm_workQueue d' = dm_workQueue w_daemon \<and> dm_eventLoop d' = dm_eventLoop w_daemon"
    using dns_check_dropped [of "w_probe_work HMWorkHealthCheckDNS HM_CHECK_DNS ''h''" "(w_probe_env pb)\<lparr>pv_channel := False\<rparr>" True 1 2 3 w_daemon]
    by auto
qed


theorem http_check_correct_witness:
  "\<forall>pb. \<exists>w'. Curl_healthCheck (w_probe_env pb) (w_probe_work HMWorkHealthCheckCurl HM_CHECK_HTTP ''/ok'') = Inr (w', HM_WORK_COMPLETE)
     \<and> wk_reason w' = HM_REASON_SUCCESS"
proof
  fix pb
  let ?w = "w_probe_work HMWorkHealthCheckCurl HM_CHECK_HTTP ''/ok''"
  obtain options where "http_options (w_probe_env pb) curl_class False ?w = Inr options"
    by (simp add: http_options_def check_target_def Let_def split_beta)
  moreover have "HM_CHECK_HTTP \<in> set (ht_types curl_class)" by (simp add: curl_class_def)
  moreover have "plain_texts (w_probe_env pb) ?w"
    by (simp add: plain_texts_def Let_def named_host_def address_text_def w_probe_env_def)
  moreover have "pv_perform (w_probe_env pb) options = \<lparr>cu_code = CURLE_OK, cu_response = 200, cu_connectTime = 3, cu_body = [''ok'']\<rparr>"
    by (simp add: w_probe_env_def)
  ultimately show "\<exists>w'. Curl_healthCheck (w_probe_env pb) ?w = Inr (w', HM_WORK_COMPLETE) \<and> wk_reason w' = HM_REASON_SUCCESS"
    using http_check_correct [of ?w "w_probe_env pb" options] by auto
qed

definition w_ares_work :: HMWork where
  "w_ares_work = w_static_work\<lparr>wk_class := HMWorkDNSLookupAres\<rparr>"

theorem ares_lookup_updates_checks_witness:
  "\<forall>pb. \<exists>d' w'. WorkDNSLookup_processWork True (DNSLookupAres_dnsLookup (w_probe_env pb)) 4 5 w_ares_work w_static = Some (d', w')
    \<and> 5 < CheckList_nextCheckTime 5 ''h'' (INET 7) w_static_check (dm_checkList d')
    \<and> result_gone (''h'', w_static_check) (INET 1) d'"
proof
  fix pb
  have w: "wk_hostname w_ares_work = ''h''" "wk_dnsHostCheck w_ares_work = w_lookup" "wk_reason w_ares_work = HM_REASON_NONE"
    "wk_class w_ares_work = HMWorkDNSLookupAres" "wk_ipAddress w_ares_work = IPAddress_new AF_INET"
    by (simp_all add: w_ares_work_def w_static_work_def Work_new_def)
  have d: "dm_dnsCache w_static = w_dns" "CheckList_sorted (dm_checkList w_static)"
    by (simp_all add: w_static_def CheckList_sorted_def mmap_sorted_def w_params_def map_sorted_def)
  have waiting: "w_static_check \<in> set (dns_waiting w_ares_work w_static)"
    by (simp add: dns_waiting_def w w_lookup_fields w_static_def equal_range_def DNSTypeMap_less_def)
  have dual: "hc_dualstack w_static_check AND HM_DUALSTACK_IPV4_ONLY \<noteq> 0"
    by (simp add: w_static_check_def w_check_def HostCheck_default_def HostCheck_new_def)
  let ?r = "(DNSResult_new 100 50)\<lparr>dr_addr := [INET 1, INET 2]\<rparr>"
  have answer: "sorted_list_of_set (set (IPAddress_set_hostent (an_host (pv_answer (w_probe_env pb) w_ares_work)))) = [INET 7]"
    "an_status (pv_answer (w_probe_env pb) w_ares_work) = ARES_SUCCESS"
    "IPAddress_set_hostent (an_host (pv_answer (w_probe_env pb) w_ares_work)) \<noteq> []" by simp_all
  note ares_lookup_updates_checks [of w_ares_work w_static ?r w_static_check False "w_probe_env pb" 4 5]
  moreover have "dns_find (wk_hostname w_ares_work, wk_dnsHostCheck w_ares_work) (dm_dnsCache w_static) = Some ?r"
    using w_dns_find by (simp add: w d)
  ultimately show "\<exists>d' w'. WorkDNSLookup_processWork True (DNSLookupAres_dnsLookup (w_probe_env pb)) 4 5 w_ares_work w_static = Some (d', w')
    \<and> 5 < CheckList_nextCheckTime 5 ''h'' (INET 7) w_static_check (dm_checkList d')
    \<and> result_gone (''h'', w_static_check) (INET 1) d'"
    using waiting dual d(2) unfolding answer by (auto simp: w w_lookup_fields DNSResult_new_def is_blank_def)
qed

end
