(* ===== verification/HM_ThreadPool.thy ===== *)
theory HM_ThreadPool
  imports HM_Work
begin

text \<open>
  \<open>HMThreadPool\<close>: the worker threads and the monitor that grows and shrinks their number. A field
  \<open>m_x\<close> of a worker is \<open>tw_x\<close>, one of the pool is \<open>tp_x\<close>; \<open>tw_joined\<close> says that the thread of the worker
  has been joined, and a worker is \<open>None\<close> after \<open>vector::resize\<close> has made its slot. The loops keep
  their 32-bit counters. They are partial functions: \<open>None\<close> is an access outside of the vector, to an
  empty slot, a \<open>join\<close> of a thread that was never told to stop, or a loop that does not end.

  The monitor computes \<open>ceil(offSchedule / ratio)\<close> and its sum with the number of threads in floating
  point, which is exact for numbers below \<open>2 ^ 53\<close>; here it is exact for all. The local variable \<open>exp\<close>
  of \<open>monitorThreads\<close> is never read and left out.
\<close>

record HMThreadWorker =
  tw_idle :: bool
  tw_nUsed :: u64
  tw_shutdown :: bool
  tw_joined :: bool

definition ThreadWorker_new :: HMThreadWorker where
  "ThreadWorker_new = \<lparr>tw_idle = False, tw_nUsed = 0, tw_shutdown = False, tw_joined = False\<rparr>"

record HMThreadPool =
  tp_workers :: "HMThreadWorker option list"
  tp_nThreads :: u64
  tp_stridePercent :: u32
  tp_monitorFrequency :: u32
  tp_workPerThreadRatio :: u32
  tp_recycle :: bool
  tp_shutdown :: bool

section \<open>Resizing\<close>

definition vector_resize :: "nat \<Rightarrow> 'a option list \<Rightarrow> 'a option list" where
  "vector_resize n xs = take n xs @ replicate (n - length xs) None"

text \<open>\<open>for(uint32_t i = from; i < n; i++)\<close> and \<open>for(uint32_t i = from; i >= n; --i)\<close>.\<close>

partial_function (option) up_loop ::
    "(nat \<Rightarrow> 's \<Rightarrow> 's option) \<Rightarrow> u64 \<Rightarrow> u32 \<Rightarrow> 's \<Rightarrow> 's option" where
  "up_loop body n i s =
     (if ucast i < n then Option.bind (body (unat i) s) (\<lambda>s. up_loop body n (i + 1) s) else Some s)"

partial_function (option) down_loop ::
    "(nat \<Rightarrow> 's \<Rightarrow> 's option) \<Rightarrow> u64 \<Rightarrow> u32 \<Rightarrow> 's \<Rightarrow> 's option" where
  "down_loop body n i s =
     (if n \<le> ucast i then Option.bind (body (unat i) s) (\<lambda>s. down_loop body n (i - 1) s) else Some s)"

definition start_worker :: "nat \<Rightarrow> HMThreadWorker option list \<Rightarrow> HMThreadWorker option list option" where
  "start_worker i ws = (if i < length ws then Some (ws[i := Some ThreadWorker_new]) else None)"

definition stop_worker :: "nat \<Rightarrow> HMThreadWorker option list \<Rightarrow> HMThreadWorker option list option" where
  "stop_worker i ws =
     (if i < length ws then
        map_option (\<lambda>w. ws[i := Some (w\<lparr>tw_shutdown := True\<rparr>)]) (ws ! i)
      else None)"

definition join_worker :: "nat \<Rightarrow> HMThreadWorker option list \<Rightarrow> HMThreadWorker option list option" where
  "join_worker i ws =
     (if i < length ws then
        Option.bind (ws ! i) (\<lambda>w. if tw_shutdown w then Some (ws[i := Some (w\<lparr>tw_joined := True\<rparr>)]) else None)
      else None)"

definition ThreadPool_resize :: "u64 \<Rightarrow> HMThreadPool \<Rightarrow> HMThreadPool option" where
  "ThreadPool_resize nThreads tp =
     map_option (\<lambda>ws. tp\<lparr>tp_workers := ws, tp_nThreads := nThreads\<rparr>)
       (if tp_nThreads tp < nThreads
        then up_loop start_worker nThreads (ucast (tp_nThreads tp))
               (vector_resize (unat nThreads) (tp_workers tp))
        else
          Option.bind (down_loop stop_worker nThreads (ucast (tp_nThreads tp - 1)) (tp_workers tp))
            (\<lambda>ws. map_option (vector_resize (unat nThreads))
              (down_loop join_worker nThreads (ucast (tp_nThreads tp - 1)) ws)))"

section \<open>Monitoring\<close>

definition ThreadPool_countIdle :: "HMThreadPool \<Rightarrow> u64" where
  "ThreadPool_countIdle tp =
     of_nat (length (filter (\<lambda>w. case w of Some w \<Rightarrow> tw_idle w | None \<Rightarrow> False) (tp_workers tp)))"

text \<open>
  The replacement of a worker that has done many work orders. Its flag is set but nobody is notified:
  a worker that is idle waits for work in \<open>getWork\<close>, and it sees the flag only when it is woken by
  new work. \<open>woken i\<close> says that this happens to the worker \<open>i\<close>; if not, the \<open>join\<close> does not return.
\<close>

definition recycle_worker ::
    "(nat \<Rightarrow> bool) \<Rightarrow> nat \<Rightarrow> HMThreadWorker option list \<Rightarrow> HMThreadWorker option list option" where
  "recycle_worker woken i ws =
     (if i < length ws then
        Option.bind (ws ! i) (\<lambda>w.
          if 10000 < tw_nUsed w then
            if tw_idle w \<and> \<not> woken i then None else Some (ws[i := Some ThreadWorker_new])
          else Some ws)
      else None)"

definition ThreadPool_recycleThreads :: "(nat \<Rightarrow> bool) \<Rightarrow> HMThreadPool \<Rightarrow> HMThreadPool option" where
  "ThreadPool_recycleThreads woken tp =
     map_option (\<lambda>ws. tp\<lparr>tp_workers := ws\<rparr>) (up_loop (recycle_worker woken) (tp_nThreads tp) 0 (tp_workers tp))"

definition ceil_ratio :: "u64 \<Rightarrow> u32 \<Rightarrow> nat" where
  "ceil_ratio n r = (unat n + unat r - 1) div unat r"

text \<open>One turn of the loop of \<open>monitorThreads\<close>, for the limits of the current configuration: the
  change of the size, with the variable \<open>confidence\<close>, and the recycling, with the variable \<open>counter\<close>.\<close>

definition ThreadPool_adjust ::
    "u64 \<Rightarrow> u64 \<Rightarrow> int \<Rightarrow> HMThreadPool \<Rightarrow> HMWorkQueue \<Rightarrow> (int \<times> HMThreadPool \<times> HMWorkQueue) option" where
  "ThreadPool_adjust minThreads maxThreads confidence tp q =
     (let offSchedule = wq_numOffSchedule q + ucast (WorkQueue_queueSize q);
          idle = ThreadPool_countIdle tp;
          stride = ucast ((ucast (tp_stridePercent tp) * tp_nThreads tp) div 100) :: u32
      in if 0 < offSchedule then
           let newNThreads = of_nat (unat (tp_nThreads tp) + ceil_ratio offSchedule (tp_workPerThreadRatio tp))
           in map_option (\<lambda>tp. (confidence, tp, q\<lparr>wq_numOffSchedule := 0\<rparr>))
                (ThreadPool_resize (if maxThreads < newNThreads then maxThreads else newNThreads) tp)
         else if ucast stride < idle then
           if 3 \<le> confidence + 1 then
             let newNThreads = tp_nThreads tp - ucast stride
             in map_option (\<lambda>tp. (0, tp, q))
                  (ThreadPool_resize (if newNThreads < minThreads then minThreads else newNThreads) tp)
           else Some (confidence + 1, tp, q)
         else Some (0, tp, q))"

definition ThreadPool_recycle_turn :: "(nat \<Rightarrow> bool) \<Rightarrow> u64 \<Rightarrow> HMThreadPool \<Rightarrow> (u64 \<times> HMThreadPool) option" where
  "ThreadPool_recycle_turn woken counter tp =
     (let counter = counter + ucast (tp_monitorFrequency tp)
      in if tp_recycle tp \<and> 3600 \<le> counter then map_option (Pair 0) (ThreadPool_recycleThreads woken tp)
         else Some (counter, tp))"

definition ThreadPool_monitor_turn ::
    "(nat \<Rightarrow> bool) \<Rightarrow> u64 \<Rightarrow> u64 \<Rightarrow> int \<times> u64 \<times> HMThreadPool \<times> HMWorkQueue \<Rightarrow>
     (int \<times> u64 \<times> HMThreadPool \<times> HMWorkQueue) option" where
  "ThreadPool_monitor_turn woken minThreads maxThreads = (\<lambda>(confidence, counter, tp, q).
     Option.bind (ThreadPool_adjust minThreads maxThreads confidence tp q) (\<lambda>(confidence, tp, q).
       map_option (\<lambda>(counter, tp). (confidence, counter, tp, q)) (ThreadPool_recycle_turn woken counter tp)))"

definition ThreadPool_shutdown :: "HMThreadPool \<Rightarrow> HMWorkQueue \<Rightarrow> HMThreadPool \<times> HMWorkQueue" where
  "ThreadPool_shutdown tp q = (tp\<lparr>tp_shutdown := True, tp_workers := []\<rparr>, WorkQueue_doShutdown q)"

section \<open>Resizing is correct\<close>

text \<open>The vector has one started worker for every thread, and the counters of the loops can hold the
  number.\<close>

definition pool_ok :: "HMThreadPool \<Rightarrow> bool" where
  "pool_ok tp \<longleftrightarrow> length (tp_workers tp) = unat (tp_nThreads tp) \<and> unat (tp_nThreads tp) < 2 ^ 32
     \<and> list_all (\<lambda>w. w \<noteq> None) (tp_workers tp)"

lemma u32_of_u64: "unat (x :: u64) < 2 ^ 32 \<Longrightarrow> ucast (ucast x :: u32) = x"
  by (rule word_unat_eq_iff [THEN iffD2]) (simp add: unat_u32_u64)

lemma less_u64: "ucast (i :: u32) < (n :: u64) \<longleftrightarrow> unat i < unat n"
  by (simp add: word_less_iff_unat)

lemma le_u64: "(n :: u64) \<le> ucast (i :: u32) \<longleftrightarrow> unat n \<le> unat i"
  by (simp add: word_le_iff_unat)

lemma up_loop_start:
  "length ws = unat n \<Longrightarrow> unat n < 2 ^ 32 \<Longrightarrow> unat i \<le> unat n \<Longrightarrow>
     up_loop start_worker n i ws =
     Some (take (unat i) ws @ replicate (unat n - unat i) (Some ThreadWorker_new))"
proof (induction "unat n - unat i" arbitrary: i ws)
  case 0
  then show ?case by (simp add: up_loop.simps [of _ n i] less_u64)
next
  case (Suc m)
  have less: "unat i < unat n" using Suc.hyps(2) by simp
  have "unat i + 1 < 2 ^ 32" using less Suc.prems(2) by simp
  then have next': "unat (i + 1) = Suc (unat i)" by (simp add: unat_add_le_no_wrap)
  let ?ws = "ws[unat i := Some ThreadWorker_new]"
  have "up_loop start_worker n (i + 1) ?ws =
      Some (take (Suc (unat i)) ?ws @ replicate (unat n - Suc (unat i)) (Some ThreadWorker_new))"
    using Suc.hyps(1) [of "i + 1" ?ws] Suc.hyps(2) Suc.prems less by (simp add: next')
  moreover have "take (Suc (unat i)) ?ws = take (unat i) ws @ [Some ThreadWorker_new]"
    using less Suc.prems(1) by (simp add: take_Suc_conv_app_nth)
  moreover have "unat n - unat i = Suc (unat n - Suc (unat i))" using less by simp
  ultimately show ?case
    using less Suc.prems(1) by (simp add: up_loop.simps [of _ n i] less_u64 start_worker_def)
qed

text \<open>A loop that counts down to a positive bound writes to every index from its start to the bound.\<close>

lemma down_loop_indices:
  assumes body: "\<And>j vs. j < length vs \<Longrightarrow> P (vs ! j) \<Longrightarrow> body j vs = Some (vs[j := g (vs ! j)])"
    and n: "0 < unat n"
  shows "unat i < length ws \<Longrightarrow> \<forall>j. unat n \<le> j \<and> j \<le> unat i \<longrightarrow> P (ws ! j) \<Longrightarrow>
    \<exists>vs. down_loop body n i ws = Some vs \<and> length vs = length ws
      \<and> (\<forall>j < length ws. vs ! j = (if unat n \<le> j \<and> j \<le> unat i then g (ws ! j) else ws ! j))"
proof (induction "unat i" arbitrary: i ws)
  case 0
  then show ?case using n by (simp add: down_loop.simps [of _ n i] le_u64)
next
  case (Suc m)
  show ?case
  proof (cases "unat n \<le> unat i")
    case True
    let ?ws = "ws[unat i := g (ws ! unat i)]"
    have prev: "unat (i - 1) = m" using Suc.hyps(2) by (metis diff_Suc_1 nat.distinct(1) unat_0 unat_minus_one)
    have "\<exists>vs. down_loop body n (i - 1) ?ws = Some vs \<and> length vs = length ?ws
        \<and> (\<forall>j < length ?ws. vs ! j = (if unat n \<le> j \<and> j \<le> unat (i - 1) then g (?ws ! j) else ?ws ! j))"
      by (rule Suc.hyps(1)) (use Suc.prems Suc.hyps(2) prev in auto)
    then obtain vs where vs: "down_loop body n (i - 1) ?ws = Some vs" "length vs = length ws"
      "\<forall>j < length ws. vs ! j = (if unat n \<le> j \<and> j \<le> m then g (?ws ! j) else ?ws ! j)"
      by (auto simp: prev)
    have upto: "j \<le> unat i \<longleftrightarrow> j \<le> m \<or> j = unat i" for j using Suc.hyps(2) by auto
    have "down_loop body n i ws = Some vs"
      using True vs(1) body [of "unat i" ws] Suc.prems by (simp add: down_loop.simps [of _ n i] le_u64)
    then show ?thesis
      using vs(2,3) True Suc.hyps(2) by (auto simp: upto nth_list_update)
  next
    case False
    then show ?thesis by (auto simp: down_loop.simps [of _ n i] le_u64)
  qed
qed

lemma resize_down:
  assumes "pool_ok tp" and "nThreads \<le> tp_nThreads tp" and "0 < nThreads"
  shows "ThreadPool_resize nThreads tp =
    Some (tp\<lparr>tp_workers := take (unat nThreads) (tp_workers tp), tp_nThreads := nThreads\<rparr>)"
proof -
  let ?ws = "tp_workers tp" and ?n = "unat nThreads"
  define i where "i = (ucast (tp_nThreads tp - 1) :: u32)"
  have n: "0 < ?n" "?n \<le> unat (tp_nThreads tp)"
    using assms(2,3) by (simp_all add: word_less_iff_unat word_le_iff_unat)
  have "tp_nThreads tp \<noteq> 0" using n by auto
  then have "unat (tp_nThreads tp - 1) = unat (tp_nThreads tp) - 1" by (rule unat_minus_one)
  moreover have "unat (tp_nThreads tp) - 1 < 2 ^ 32" using assms(1) by (auto simp: pool_ok_def)
  ultimately have "unat i = unat (tp_nThreads tp) - 1"
    unfolding i_def by (metis unat_u32_u64)
  then have i: "unat i = length ?ws - 1" "unat i < length ?ws"
    using assms(1) n by (simp_all add: pool_ok_def)
  have some: "\<exists>x. ?ws ! j = Some x" if "j \<le> unat i" for j
    using assms(1) that i(2) by (simp add: pool_ok_def list_all_length)
  have "\<exists>vs. down_loop stop_worker nThreads i ?ws = Some vs \<and> length vs = length ?ws
    \<and> (\<forall>j < length ?ws. vs ! j = (if ?n \<le> j \<and> j \<le> unat i
       then map_option (\<lambda>w. w\<lparr>tw_shutdown := True\<rparr>) (?ws ! j) else ?ws ! j))"
    using n i some
    by (intro down_loop_indices [where P = "\<lambda>w. \<exists>x. w = Some x"]) (auto simp: stop_worker_def)
  then obtain vs where vs: "down_loop stop_worker nThreads i ?ws = Some vs" "length vs = length ?ws"
    "\<forall>j < length ?ws. vs ! j = (if ?n \<le> j \<and> j \<le> unat i
       then map_option (\<lambda>w. w\<lparr>tw_shutdown := True\<rparr>) (?ws ! j) else ?ws ! j)" by blast
  have stopped: "\<exists>x. vs ! j = Some x \<and> tw_shutdown x" if j: "?n \<le> j" "j \<le> unat i" for j
  proof -
    obtain x where "?ws ! j = Some x" using some [OF j(2)] by blast
    then have "vs ! j = Some (x\<lparr>tw_shutdown := True\<rparr>)" using vs(3) j i(2) by simp
    then show ?thesis by simp
  qed
  have "\<exists>us. down_loop join_worker nThreads i vs = Some us \<and> length us = length vs
    \<and> (\<forall>j < length vs. us ! j = (if ?n \<le> j \<and> j \<le> unat i
       then map_option (\<lambda>w. w\<lparr>tw_joined := True\<rparr>) (vs ! j) else vs ! j))"
    using n i vs(2) stopped
    by (intro down_loop_indices [where P = "\<lambda>w. \<exists>x. w = Some x \<and> tw_shutdown x"])
      (auto simp: join_worker_def)
  then obtain us where us: "down_loop join_worker nThreads i vs = Some us" "length us = length ?ws"
    "\<forall>j < ?n. us ! j = ?ws ! j"
    using vs n(2) assms(1) by (auto simp: pool_ok_def)
  have "take ?n us = take ?n ?ws" using us n(2) assms(1) by (intro nth_equalityI) (auto simp: pool_ok_def)
  moreover have "\<not> tp_nThreads tp < nThreads" using assms(2) by simp
  ultimately show ?thesis
    using vs(1) us(1,2) n(2) assms(1)
    by (simp add: ThreadPool_resize_def vector_resize_def pool_ok_def flip: i_def)
qed

lemma resize_up:
  assumes "pool_ok tp" and "tp_nThreads tp < nThreads" and "unat nThreads < 2 ^ 32"
  shows "ThreadPool_resize nThreads tp =
    Some (tp\<lparr>tp_workers := tp_workers tp @
        replicate (unat nThreads - unat (tp_nThreads tp)) (Some ThreadWorker_new),
      tp_nThreads := nThreads\<rparr>)"
proof -
  have less: "unat (tp_nThreads tp) < unat nThreads" using assms(2) by (simp add: word_less_iff_unat)
  have i: "unat (ucast (tp_nThreads tp) :: u32) = unat (tp_nThreads tp)"
    using assms(1) by (simp add: unat_u32_u64 pool_ok_def)
  show ?thesis
    using up_loop_start [of "vector_resize (unat nThreads) (tp_workers tp)" nThreads "ucast (tp_nThreads tp)"]
      assms less by (simp add: ThreadPool_resize_def i vector_resize_def pool_ok_def)
qed

text \<open>The loop that counts down to zero wraps around and leaves the vector.\<close>

lemma stop_zero_step:
  "down_loop stop_worker 0 j us =
     Option.bind (stop_worker (unat j) us) (\<lambda>s. down_loop stop_worker 0 (j - 1) s)"
  by (subst down_loop.simps) simp

lemma stop_worker_length: "stop_worker j vs = Some us \<Longrightarrow> length us = length vs"
  by (auto simp: stop_worker_def split: if_splits)

lemma stop_to_zero: "length vs < 2 ^ 32 \<Longrightarrow> down_loop stop_worker 0 i vs = None"
proof (induction "unat i" arbitrary: i vs)
  case hyps: 0
  have "unat (- 1 :: u32) = 2 ^ 32 - 1" by (simp add: unsigned_minus_1_eq_mask mask_eq_exp_minus_1)
  then have "down_loop stop_worker 0 (- 1) us = None" if "length us < 2 ^ 32" for us
    using that by (simp add: stop_zero_step [of "- 1"] stop_worker_def)
  moreover have "i = 0" using hyps.hyps by (simp add: unat_eq_zero)
  ultimately show ?case
    using hyps.prems by (auto simp: stop_zero_step [of 0] dest: stop_worker_length split: bind_split)
next
  case (Suc m)
  have "unat (i - 1) = m" using Suc.hyps(2) by (metis diff_Suc_1 nat.distinct(1) unat_0 unat_minus_one)
  then have "down_loop stop_worker 0 (i - 1) us = None" if "length us < 2 ^ 32" for us
    using Suc.hyps(1) that by blast
  then show ?case
    using Suc.prems by (auto simp: stop_zero_step [of i] dest: stop_worker_length split: bind_split)
qed

lemma resize_positive:
  assumes "pool_ok tp" and "unat nThreads < 2 ^ 32" and "nThreads \<noteq> 0"
  shows "\<exists>tp'. ThreadPool_resize nThreads tp = Some tp' \<and> pool_ok tp' \<and> tp_nThreads tp' = nThreads
    \<and> tp_workers tp' = take (unat nThreads) (tp_workers tp) @
        replicate (unat nThreads - unat (tp_nThreads tp)) (Some ThreadWorker_new)"
proof (cases "tp_nThreads tp < nThreads")
  case True
  then show ?thesis
    using resize_up [OF assms(1) True assms(2)] assms
    by (simp add: pool_ok_def word_less_iff_unat list_all_length nth_append)
next
  case False
  then have le: "nThreads \<le> tp_nThreads tp" by simp
  have pos: "0 < nThreads" using assms(3) by (simp add: word_neq_0_conv)
  show ?thesis
    using resize_down [OF assms(1) le pos] assms le
    by (simp add: pool_ok_def word_le_iff_unat list_all_length)
qed

text \<open>
  C31: resizing the pool to a positive size works: it returns with that many threads, the workers
  that stay are the first ones, unchanged, and the workers that are added are fresh. A resize to
  zero threads never returns: its counter wraps around and leaves the vector.
\<close>

theorem resize_correct:
  assumes "pool_ok tp" and "unat nThreads < 2 ^ 32"
  shows "if nThreads = 0 then ThreadPool_resize nThreads tp = None
    else \<exists>tp'. ThreadPool_resize nThreads tp = Some tp' \<and> pool_ok tp' \<and> tp_nThreads tp' = nThreads
      \<and> tp_workers tp' = take (unat nThreads) (tp_workers tp) @
          replicate (unat nThreads - unat (tp_nThreads tp)) (Some ThreadWorker_new)"
proof (cases "nThreads = 0")
  case True
  have stop: "length vs < 2 ^ 32 \<Longrightarrow> down_loop stop_worker 0 i vs = None" for i vs
    by (rule stop_to_zero)
  have "\<not> tp_nThreads tp < 0" by simp
  moreover have "length (tp_workers tp) < 2 ^ 32" using assms(1) by (simp add: pool_ok_def)
  ultimately show ?thesis using True stop by (simp add: ThreadPool_resize_def)
next
  case False
  then show ?thesis using resize_positive [OF assms] by simp
qed

section \<open>The monitor keeps the limits\<close>

lemma stride_le:
  assumes "unat (tp_stridePercent tp) \<le> 100" and "unat (tp_nThreads tp) < 2 ^ 32"
  defines "stride \<equiv> (ucast ((ucast (tp_stridePercent tp) * tp_nThreads tp) div 100) :: u32)"
  shows "unat stride \<le> unat (tp_nThreads tp)"
proof -
  let ?p = "unat (tp_stridePercent tp)" and ?n = "unat (tp_nThreads tp)"
  have le: "?p * ?n \<le> 100 * ?n" using assms(1) by simp
  also have "100 * ?n < 2 ^ 64" using assms(2) by simp
  finally have "unat (ucast (tp_stridePercent tp) * tp_nThreads tp) = ?p * ?n"
    using unat_mult_no_wrap [of "ucast (tp_stridePercent tp) :: u64" "tp_nThreads tp"] by simp
  then have quot: "unat ((ucast (tp_stridePercent tp) * tp_nThreads tp) div 100) = ?p * ?n div 100"
    by (simp add: unat_div)
  have "?p * ?n div 100 \<le> 100 * ?n div 100" using le by (rule div_le_mono)
  then have "?p * ?n div 100 \<le> ?n" by simp
  moreover from this have "unat stride = ?p * ?n div 100"
    unfolding stride_def using assms(2) quot by (subst unat_u32_u64) simp_all
  ultimately show ?thesis by simp
qed

text \<open>The workers whose \<open>join\<close> would not return if they were replaced.\<close>

definition stuck_worker :: "(nat \<Rightarrow> bool) \<Rightarrow> HMThreadWorker option list \<Rightarrow> nat \<Rightarrow> bool" where
  "stuck_worker woken ws i \<longleftrightarrow> (\<exists>w. ws ! i = Some w \<and> 10000 < tw_nUsed w \<and> tw_idle w \<and> \<not> woken i)"

definition stuck :: "(nat \<Rightarrow> bool) \<Rightarrow> HMThreadPool \<Rightarrow> nat \<Rightarrow> bool" where
  "stuck woken tp i \<longleftrightarrow> i < length (tp_workers tp) \<and> stuck_worker woken (tp_workers tp) i"

lemma recycle_worker_step:
  assumes "i < length ws" and "list_all (\<lambda>w. w \<noteq> None) ws"
  shows "stuck_worker woken ws i \<Longrightarrow> recycle_worker woken i ws = None"
    and "\<not> stuck_worker woken ws i \<Longrightarrow> \<exists>w. recycle_worker woken i ws = Some (ws[i := Some w])"
proof -
  obtain w where w: "ws ! i = Some w" using assms by (auto simp: list_all_length)
  then have "ws[i := Some w] = ws" by (metis list_update_id)
  with w assms(1) show "stuck_worker woken ws i \<Longrightarrow> recycle_worker woken i ws = None"
    "\<not> stuck_worker woken ws i \<Longrightarrow> \<exists>w. recycle_worker woken i ws = Some (ws[i := Some w])"
    by (auto simp: recycle_worker_def stuck_worker_def intro: exI [of _ w])
qed

lemma recycle_loop:
  assumes "length ws = unat n" and "unat n < 2 ^ 32" and "unat i \<le> unat n" and "list_all (\<lambda>w. w \<noteq> None) ws"
  shows "if \<exists>j \<ge> unat i. j < unat n \<and> stuck_worker woken ws j then up_loop (recycle_worker woken) n i ws = None
    else \<exists>ws'. up_loop (recycle_worker woken) n i ws = Some ws' \<and> length ws' = length ws \<and> list_all (\<lambda>w. w \<noteq> None) ws'"
  using assms
proof (induction "unat n - unat i" arbitrary: i ws)
  case 0
  then show ?case by (auto simp: up_loop.simps [of _ n i] less_u64)
next
  case (Suc m)
  have less: "unat i < unat n" using Suc.hyps(2) by simp
  have next': "unat (i + 1) = Suc (unat i)" using less Suc.prems(2) by (simp add: unat_add_le_no_wrap)
  note step = recycle_worker_step [of "unat i" ws woken, OF _ Suc.prems(4)]
  have from_i: "(\<exists>j \<ge> unat i. j < unat n \<and> P j) \<longleftrightarrow> P (unat i) \<or> (\<exists>j \<ge> Suc (unat i). j < unat n \<and> P j)" for P
    using less by (metis Suc_leD Suc_le_eq le_neq_implies_less order_refl)
  show ?case
  proof (cases "stuck_worker woken ws (unat i)")
    case True
    then show ?thesis using step(1) less Suc.prems(1) by (auto simp: up_loop.simps [of _ n i] less_u64)
  next
    case False
    then obtain w where w: "recycle_worker woken (unat i) ws = Some (ws[unat i := Some w])"
      using step(2) less Suc.prems(1) by auto
    let ?ws = "ws[unat i := Some w]"
    have some: "list_all (\<lambda>w. w \<noteq> None) ?ws"
      using Suc.prems(4) set_update_subset_insert [of ws "unat i" "Some w"] by (auto simp: list_all_iff)
    have "stuck_worker woken ?ws j = stuck_worker woken ws j" if "Suc (unat i) \<le> j" for j
      using that by (simp add: stuck_worker_def)
    then have "(\<exists>j \<ge> Suc (unat i). j < unat n \<and> stuck_worker woken ?ws j) = (\<exists>j \<ge> unat i. j < unat n \<and> stuck_worker woken ws j)"
      unfolding from_i [of "stuck_worker woken ws"] using False by auto
    moreover have "up_loop (recycle_worker woken) n i ws = up_loop (recycle_worker woken) n (i + 1) ?ws"
      using w less by (simp add: up_loop.simps [of _ n i] less_u64)
    moreover have "m = unat n - unat (i + 1)" "length ?ws = unat n" "unat (i + 1) \<le> unat n"
      using Suc.hyps(2) Suc.prems(1) less by (simp_all add: next')
    note Suc.hyps(1) [OF this(1,2) Suc.prems(2) this(3) some, unfolded next']
    ultimately show ?thesis by (simp only: length_list_update)
  qed
qed

lemma recycle_threads:
  assumes "pool_ok tp"
  shows "if \<exists>i. stuck woken tp i then ThreadPool_recycleThreads woken tp = None
    else \<exists>tp'. ThreadPool_recycleThreads woken tp = Some tp' \<and> pool_ok tp' \<and> tp_nThreads tp' = tp_nThreads tp"
  using recycle_loop [of "tp_workers tp" "tp_nThreads tp" 0 woken] assms
  by (auto simp: ThreadPool_recycleThreads_def pool_ok_def stuck_def split: if_splits)

lemma stuck_resized:
  assumes "tp_workers tp' = take n (tp_workers tp) @ replicate m (Some ThreadWorker_new)" and "stuck woken tp' i"
  shows "stuck woken tp i"
  using assms by (auto simp: stuck_def stuck_worker_def nth_append ThreadWorker_new_def split: if_splits)

text \<open>
  C30: the monitor keeps the number of threads within the configured limits. Let the pool be within the
  limits, with a stride of at most 100 percent and a positive work ratio, and let no worker with more
  than 10000 work orders wait for work without being woken. Then a turn returns, with a well-formed pool
  within the limits.
\<close>

theorem monitor_keeps_limits:
  assumes "pool_ok tp" and "0 < minThreads" and "minThreads \<le> tp_nThreads tp"
    and "tp_nThreads tp \<le> maxThreads" and "unat maxThreads < 2 ^ 32"
    and "unat (tp_stridePercent tp) \<le> 100" and "0 < tp_workPerThreadRatio tp"
    and "unat (wq_numOffSchedule q + ucast (WorkQueue_queueSize q)) < 2 ^ 63"
    and "\<And>i. \<not> stuck woken tp i"
  shows "\<exists>confidence' counter' tp' q'.
    ThreadPool_monitor_turn woken minThreads maxThreads (confidence, counter, tp, q)
      = Some (confidence', counter', tp', q')
    \<and> pool_ok tp' \<and> minThreads \<le> tp_nThreads tp' \<and> tp_nThreads tp' \<le> maxThreads"
proof -
  define good where "good tp' \<longleftrightarrow> pool_ok tp' \<and> minThreads \<le> tp_nThreads tp' \<and> tp_nThreads tp' \<le> maxThreads
      \<and> (\<forall>i. \<not> stuck woken tp' i)" for tp'
  have here: "good tp" using assms(1,3,4,9) by (simp add: good_def)
  have resize: "\<exists>tp'. ThreadPool_resize n tp = Some tp' \<and> good tp'"
    if "minThreads \<le> n" "n \<le> maxThreads" for n
  proof -
    have "unat n < 2 ^ 32" using that(2) assms(5) by (meson le_less_trans word_le_iff_unat)
    moreover have "n \<noteq> 0" using that(1) assms(2) by auto
    ultimately obtain tp' where tp': "ThreadPool_resize n tp = Some tp'" "pool_ok tp'" "tp_nThreads tp' = n"
      "tp_workers tp' = take (unat n) (tp_workers tp) @ replicate (unat n - unat (tp_nThreads tp)) (Some ThreadWorker_new)"
      using resize_positive [OF assms(1)] by blast
    then have "good tp'" using stuck_resized [OF tp'(4)] assms(9) that by (auto simp: good_def)
    with tp'(1) show ?thesis by blast
  qed
  let ?n = "tp_nThreads tp"
  define off where "off = wq_numOffSchedule q + ucast (WorkQueue_queueSize q)"
  define stride where "stride = (ucast ((ucast (tp_stridePercent tp) * ?n) div 100) :: u32)"
  let ?more = "of_nat (unat ?n + ceil_ratio off (tp_workPerThreadRatio tp)) :: u64"
  have more: "minThreads \<le> ?more"
  proof -
    let ?r = "unat (tp_workPerThreadRatio tp)"
    have "ceil_ratio off (tp_workPerThreadRatio tp) \<le> unat off + ?r - 1"
      by (simp add: ceil_ratio_def)
    moreover have "?r < 2 ^ 32" by (rule unat_u32_less)
    moreover have "unat ?n < 2 ^ 32" using assms(1) by (simp add: pool_ok_def)
    ultimately have "unat ?n + ceil_ratio off (tp_workPerThreadRatio tp) < 2 ^ 64"
      using assms(8) by (simp add: off_def)
    then have "unat ?more = unat ?n + ceil_ratio off (tp_workPerThreadRatio tp)"
      unfolding unat_of_nat by (subst mod_less) simp_all
    then have "unat minThreads \<le> unat ?more" using assms(3) by (simp only: word_le_iff_unat)
    then show ?thesis by (simp only: word_le_iff_unat)
  qed
  have "unat (ucast stride :: u64) \<le> unat ?n"
    using stride_le [OF assms(6)] assms(1) by (simp add: stride_def pool_ok_def)
  then have less: "?n - ucast stride \<le> maxThreads"
    using assms(4) by (simp add: word_le_iff_unat unat_sub)
  have "\<exists>c tp' q'. ThreadPool_adjust minThreads maxThreads confidence tp q = Some (c, tp', q') \<and> good tp'"
    using resize [of "if maxThreads < ?more then maxThreads else ?more"] more less here assms(3,4)
      resize [of "if ?n - ucast stride < minThreads then minThreads else ?n - ucast stride"]
    by (fastforce simp: ThreadPool_adjust_def Let_def simp flip: off_def stride_def)
  then obtain c tp1 q1 where adjust:
    "ThreadPool_adjust minThreads maxThreads confidence tp q = Some (c, tp1, q1)"
    and tp1: "good tp1" by blast
  have ok: "pool_ok tp1" "\<not> (\<exists>i. stuck woken tp1 i)" using tp1 by (simp_all add: good_def)
  obtain tp2 where "ThreadPool_recycleThreads woken tp1 = Some tp2" "pool_ok tp2" "tp_nThreads tp2 = tp_nThreads tp1"
    using recycle_threads [OF ok(1), of woken] ok(2) by auto
  then have "\<exists>k tp2. ThreadPool_recycle_turn woken counter tp1 = Some (k, tp2) \<and> pool_ok tp2 \<and> tp_nThreads tp2 = tp_nThreads tp1"
    using ok(1) by (simp add: ThreadPool_recycle_turn_def Let_def)
  then obtain k tp3 where "ThreadPool_recycle_turn woken counter tp1 = Some (k, tp3)" "pool_ok tp3" "tp_nThreads tp3 = tp_nThreads tp1"
    by blast
  then show ?thesis using adjust tp1 by (simp add: ThreadPool_monitor_turn_def good_def)
qed

definition w_pool :: HMThreadPool where
  "w_pool = \<lparr>tp_workers = [Some ThreadWorker_new, Some ThreadWorker_new], tp_nThreads = 2,
     tp_stridePercent = 10, tp_monitorFrequency = 5, tp_workPerThreadRatio = 20, tp_recycle = True,
     tp_shutdown = False\<rparr>"

lemma w_pool_ok: "pool_ok w_pool"
  by (simp add: pool_ok_def w_pool_def)

lemma resize_correct_witness:
  "ThreadPool_resize 0 w_pool = None
   \<and> (\<exists>tp'. ThreadPool_resize 1 w_pool = Some tp' \<and> tp_workers tp' = [Some ThreadWorker_new])"
  using resize_correct [OF w_pool_ok, of 0] resize_correct [OF w_pool_ok, of 1]
  by (auto simp: w_pool_def)

lemma monitor_keeps_limits_witness:
  "\<exists>confidence' counter' tp' q'. ThreadPool_monitor_turn (\<lambda>_. False) 1 4 (0, 0, w_pool, WorkQueue_new)
      = Some (confidence', counter', tp', q') \<and> 1 \<le> tp_nThreads tp' \<and> tp_nThreads tp' \<le> 4"
proof -
  have "\<not> stuck (\<lambda>_. False) w_pool i" for i
    by (cases i) (auto simp: stuck_def stuck_worker_def w_pool_def ThreadWorker_new_def)
  with monitor_keeps_limits [OF w_pool_ok, of 1 4 WorkQueue_new "\<lambda>_. False" 0 0] show ?thesis
    by (auto simp: w_pool_def WorkQueue_new_def WorkQueue_queueSize_def)
qed

end
