(* ===== verification/HM_System.thy ===== *)
theory HM_System
  imports HM_DNSAnswer
begin

text \<open>
  The daemon as an interleaving of its threads. A state is the daemon with the health checks that
  workers have started and not finished. The tracker takes a timeout that is due; a worker starts a
  health check (\<open>startCheck\<close>), and finishes it later, after the probe, with the update of its result and
  the next check; a worker processes a lookup. Each step is one of the operations of the theory of the
  daemon, and between a start and a finish any other steps can happen. A step decides and queues in
  one; the code takes the lock of the check list once for each, and the last section shows what the
  gap between them allows.

  The invariant is about one check of one address: there is at most one work order for it, queued or
  running, and while there is one the results say so; and when there is none, a timeout is in the
  queue that will make one.
\<close>

section \<open>Steps\<close>

record HMSystem =
  sy_daemon :: HMDaemon
  sy_running :: "HMWork list"

text \<open>The two parts of \<open>HMWorkHealthCheck::processWork\<close> for an idle work order.\<close>

definition HealthCheck_start :: "HMTimeStamp \<Rightarrow> HMWork \<Rightarrow> HMDaemon \<Rightarrow> HMDaemon \<times> HMWork" where
  "HealthCheck_start t0 w d =
     (let (cl, timeout) = CheckList_startCheck t0 (wk_hostname w) (wk_ipAddress w) (wk_hostCheck w)
                            (dm_checkList d)
      in (set_checkList cl d, w\<lparr>wk_timeout := timeout\<rparr>))"

definition HealthCheck_finish ::
    "bool \<Rightarrow> (HMWork \<Rightarrow> HMWork \<times> HM_WORK_STATUS) \<Rightarrow> HMTimeStamp \<Rightarrow> HMTimeStamp \<Rightarrow> HMTimeStamp \<Rightarrow>
     HMWork \<Rightarrow> HMDaemon \<Rightarrow> (HMDaemon \<times> HMWork) option" where
  "HealthCheck_finish ares probe t0 t1 t2 w d =
     (let (d, w, status) = healthCheck probe t0 t1 w d;
          w = w\<lparr>wk_workStatus := status\<rparr>
      in if wk_workStatus w \<noteq> HM_WORK_IDLE then
           let d = HealthCheck_result t1 w d
           in if wk_reschedule w
              then map_option (\<lambda>d. (d, w)) (HealthCheck_reschedule ares t2 w d)
              else Some (d, w)
         else Some (d, w))"

lemma processWork_start_finish:
  assumes "wk_workStatus w = HM_WORK_IDLE" and "HealthCheck_start t0 w d = (d', w')"
  shows "WorkHealthCheck_processWork ares probe t0 t1 t2 w d = HealthCheck_finish ares probe t0 t1 t2 w' d'"
  using assms
  by (simp add: WorkHealthCheck_processWork_def HealthCheck_finish_def HealthCheck_conduct_def
      HealthCheck_start_def Let_def split_beta)

text \<open>The addresses a lookup drops: those whose results its loop removes.\<close>

definition lookup_dropped ::
    "bool \<Rightarrow> (HMWork \<Rightarrow> HMDNSCache \<Rightarrow> HMWork \<times> HMDNSCache \<times> bool) \<Rightarrow> HMTimeStamp \<Rightarrow> HMTimeStamp \<Rightarrow>
     HMWork \<Rightarrow> HMDaemon \<Rightarrow> (check_key \<times> HMIPAddress) list" where
  "lookup_dropped ares resolve t0 now w d =
     (let (c, found) = DNSCache_startDNSQuery t0 (wk_hostname w) (wk_dnsHostCheck w) (dm_dnsCache d);
          (w, c, result) = dnsLookup resolve now w c;
          d = DNSLookup_reschedule ares now w (set_dnsCache c d)
      in case dns_family w of None \<Rightarrow> []
         | Some dualStack \<Rightarrow>
             if found \<and> result then
               List.product
                 (map (Pair (wk_hostname w))
                   (filter (\<lambda>check. hc_dualstack check AND dualStack \<noteq> 0) (dns_waiting w d)))
                 (fst (DNSCache_getExpiredAddresses (wk_hostname w) dualStack (wk_dnsHostCheck w) []
                    (dm_dnsCache d)))
             else [])"

text \<open>What a step does to a check besides its work: a finish gives up the check of an address that the
  host does not have any more, a lookup drops the results of addresses.\<close>

datatype system_event =
  Track | Start | Finish "(check_key \<times> HMIPAddress) list" | Lookup "(check_key \<times> HMIPAddress) list"

definition finish_given_up :: "HMWork \<Rightarrow> HMDaemon \<Rightarrow> (check_key \<times> HMIPAddress) list" where
  "finish_given_up w d =
     (let host = wk_hostname w; ip = wk_ipAddress w; check = wk_hostCheck w
      in if DNSCache_isValidAddress host (hc_dualstack check)
           (DNSLookup_new (hc_DNSType check) (IPAddress_getType ip = AF_INET6) (hc_remoteCheck check)) ip
           (dm_dnsCache d)
         then [] else [((host, check), ip)])"

inductive system_step ::
    "bool \<Rightarrow> (u32 \<Rightarrow> u64 \<Rightarrow> u64) \<Rightarrow> (HMWork \<Rightarrow> HMWork \<times> HM_WORK_STATUS) \<Rightarrow>
     (HMWork \<Rightarrow> HMDNSCache \<Rightarrow> HMWork \<times> HMDNSCache \<times> bool) \<Rightarrow>
     HMSystem \<Rightarrow> system_event \<Rightarrow> HMSystem \<Rightarrow> bool"
  for ares percent probe resolve where
  track:
    "system_step ares percent probe resolve \<lparr>sy_daemon = d, sy_running = ws\<rparr> Track
       \<lparr>sy_daemon = d', sy_running = ws\<rparr>"
  if "el_timeouts (dm_eventLoop d) \<noteq> []" and "to_timeout (EventLoop_top (dm_eventLoop d)) \<le> now"
    and "EventLoop_dispatch ares now (EventLoop_top (dm_eventLoop d))
      (d\<lparr>dm_eventLoop := EventLoop_pop (dm_eventLoop d)\<rparr>) = Some d'"
| start:
    "system_step ares percent probe resolve \<lparr>sy_daemon = d, sy_running = ws\<rparr> Start
       \<lparr>sy_daemon = d', sy_running = ws @ [w']\<rparr>"
  if "WorkQueue_getWork percent t0 False (dm_workQueue d) = (GetWork w, q)"
    and "Work_getWorkType w = HM_WORK_HEALTHCHECK"
    and "HealthCheck_start t0 w (d\<lparr>dm_workQueue := q\<rparr>) = (d', w')"
| finish:
    "system_step ares percent probe resolve \<lparr>sy_daemon = d, sy_running = vs @ w # ws\<rparr>
       (Finish (finish_given_up w d)) \<lparr>sy_daemon = d', sy_running = vs @ ws\<rparr>"
  if "HealthCheck_finish ares probe t0 t1 t2 w d = Some (d', w')" and "t0 \<le> t1" and "t1 \<le> t2"
    and "wk_workStatus w' \<noteq> HM_WORK_IN_PROGRESS" and "wk_start w' \<le> t2"
| lookup:
    "system_step ares percent probe resolve \<lparr>sy_daemon = d, sy_running = ws\<rparr>
       (Lookup (lookup_dropped ares resolve t0 now w (d\<lparr>dm_workQueue := q\<rparr>)))
       \<lparr>sy_daemon = d', sy_running = ws\<rparr>"
  if "WorkQueue_getWork percent t0 False (dm_workQueue d) = (GetWork w, q)"
    and "Work_getWorkType w = HM_WORK_DNSLOOKUP"
    and "WorkDNSLookup_processWork ares resolve t0 now w (d\<lparr>dm_workQueue := q\<rparr>) = Some (d', w')"

definition names_check :: "check_key \<Rightarrow> HMIPAddress \<Rightarrow> (check_key \<times> HMIPAddress) list \<Rightarrow> bool" where
  "names_check k ip xs \<longleftrightarrow> (\<exists>(k', a) \<in> set xs. a = ip \<and> key_equiv CompareCheckList k k')"

fun drops :: "check_key \<Rightarrow> HMIPAddress \<Rightarrow> system_event \<Rightarrow> bool" where
  "drops k ip (Lookup xs) = names_check k ip xs"
| "drops k ip _ = False"

fun gives_up :: "check_key \<Rightarrow> HMIPAddress \<Rightarrow> system_event \<Rightarrow> bool" where
  "gives_up k ip (Finish xs) = names_check k ip xs"
| "gives_up k ip _ = False"

section \<open>The invariant\<close>

text \<open>Checks of the kind the system is about: probes that are not fanned out to marks, made by the
  daemon itself and scheduled by it.\<close>

definition plain_check :: "bool \<Rightarrow> HMDataHostCheck \<Rightarrow> bool" where
  "plain_check ares check \<longleftrightarrow>
     (case check_work_class ares check of
        Class cls \<Rightarrow> class_workType cls = HM_WORK_HEALTHCHECK \<and> cls \<noteq> HMWorkHealhMultiWork
      | _ \<Rightarrow> False) \<and> hc_flowType check = HM_FLOW_DNS_HEALTH_TYPE"

definition plain_work :: "bool \<Rightarrow> HMWork \<Rightarrow> bool" where
  "plain_work ares w \<longleftrightarrow>
     Work_getWorkType w = HM_WORK_DNSLOOKUP
     \<or> Work_getWorkType w = HM_WORK_HEALTHCHECK \<and> wk_class w \<noteq> HMWorkHealhMultiWork
       \<and> plain_check ares (wk_hostCheck w) \<and> wk_reschedule w"

definition plain_system :: "bool \<Rightarrow> HMWork list \<Rightarrow> HMDaemon \<Rightarrow> bool" where
  "plain_system ares ws d \<longleftrightarrow>
     CheckList_sorted (dm_checkList d)
     \<and> (\<forall>w \<in> set (wq_queue (dm_workQueue d)). plain_work ares w)
     \<and> (\<forall>w \<in> set ws. plain_work ares w \<and> Work_getWorkType w = HM_WORK_HEALTHCHECK)
     \<and> (\<forall>t \<in> set (el_timeouts (dm_eventLoop d)).
          to_type t = HEALTHCHECK_TIMEOUT \<longrightarrow> plain_check ares (to_hostCheck t))
     \<and> (\<forall>(k, check) \<in> set (st_dnsWaitList (dm_state d)). plain_check ares check)
     \<and> st_remoteHostCache (dm_state d) = [] \<and> st_remoteCache (dm_state d) = []"

definition for_check :: "check_key \<Rightarrow> HMIPAddress \<Rightarrow> HMWork \<Rightarrow> bool" where
  "for_check k ip w \<longleftrightarrow>
     Work_getWorkType w = HM_WORK_HEALTHCHECK \<and> wk_ipAddress w = ip
     \<and> key_equiv CompareCheckList k (wk_hostname w, wk_hostCheck w)"

definition pending :: "check_key \<Rightarrow> HMIPAddress \<Rightarrow> HMWork list \<Rightarrow> HMDaemon \<Rightarrow> HMWork list" where
  "pending k ip ws d = filter (for_check k ip) (wq_queue (dm_workQueue d) @ ws)"

definition busy :: "HMIPAddress \<Rightarrow> HMDataCheckParams \<Rightarrow> bool" where
  "busy ip p \<longleftrightarrow> (case data_find ip p of None \<Rightarrow> False
     | Some r \<Rightarrow> cr_queryState r \<in> {HM_CHECK_QUEUED, HM_CHECK_IN_PROGRESS})"

definition pending_once :: "check_key \<Rightarrow> HMIPAddress \<Rightarrow> HMWork list \<Rightarrow> HMDaemon \<Rightarrow> bool" where
  "pending_once k ip ws d \<longleftrightarrow>
     length (pending k ip ws d) \<le> 1
     \<and> (pending k ip ws d \<noteq> [] \<longrightarrow> (\<forall>p \<in> set (range_params k (dm_checkList d)). busy ip p))"

text \<open>A timeout that makes work for the check when it is taken out, at its time or later.\<close>

definition timeout_for :: "check_key \<Rightarrow> HMIPAddress \<Rightarrow> Timeout \<Rightarrow> bool" where
  "timeout_for k ip t \<longleftrightarrow>
     to_type t = HEALTHCHECK_TIMEOUT \<and> to_address t = ip
     \<and> key_equiv CompareCheckList k (to_hostname t, to_hostCheck t)"

definition scheduled :: "check_key \<Rightarrow> HMIPAddress \<Rightarrow> HMDaemon \<Rightarrow> bool" where
  "scheduled k ip d \<longleftrightarrow>
     check_idle ip (range_params k (dm_checkList d))
     \<and> (\<exists>t \<in> set (el_timeouts (dm_eventLoop d)). timeout_for k ip t
        \<and> (\<exists>p \<in> set (range_params k (dm_checkList d)).
             CheckParams_nextCheckTime (to_timeout t) ip p \<le> to_timeout t))"

text \<open>The check list has the check with results for the address, and its intervals are less than a
  day (\<open>long_interval_timeout_dropped\<close> is what happens otherwise).\<close>

definition served :: "check_key \<Rightarrow> HMIPAddress \<Rightarrow> HMDaemon \<Rightarrow> bool" where
  "served k ip d \<longleftrightarrow>
     range_params k (dm_checkList d) \<noteq> []
     \<and> (\<forall>p \<in> set (range_params k (dm_checkList d)). CheckParams_isValidIP ip p
        \<and> sint (cp_checkTTL p) < 86400000 \<and> sint (ucast (cp_checkRetryDelay p) :: u64) < 86400000)"

definition check_kept :: "check_key \<Rightarrow> HMIPAddress \<Rightarrow> HMWork list \<Rightarrow> HMDaemon \<Rightarrow> bool" where
  "check_kept k ip ws d \<longleftrightarrow> (served k ip d \<longrightarrow> pending k ip ws d \<noteq> [] \<or> scheduled k ip d)"

definition system_inv :: "bool \<Rightarrow> bool \<Rightarrow> check_key \<Rightarrow> HMIPAddress \<Rightarrow> HMWork list \<Rightarrow> HMDaemon \<Rightarrow> bool" where
  "system_inv live ares k ip ws d \<longleftrightarrow>
     plain_system ares ws d \<and> pending_once k ip ws d \<and> (live \<longrightarrow> check_kept k ip ws d)"

section \<open>Frames\<close>

text \<open>What the invariant reads of a parameter object.\<close>

definition same_at :: "HMIPAddress \<Rightarrow> HMDataCheckParams \<Rightarrow> HMDataCheckParams \<Rightarrow> bool" where
  "same_at ip p q \<longleftrightarrow>
     data_find ip q = data_find ip p \<and> cp_checkTTL q = cp_checkTTL p
     \<and> cp_numCheckRetries q = cp_numCheckRetries p \<and> cp_checkRetryDelay q = cp_checkRetryDelay p"

definition frame :: "check_key \<Rightarrow> HMIPAddress \<Rightarrow> HMDaemon \<Rightarrow> HMDaemon \<Rightarrow> bool" where
  "frame k ip d d' \<longleftrightarrow>
     list_all2 (same_at ip) (range_params k (dm_checkList d)) (range_params k (dm_checkList d'))"

lemma same_at_simps:
  assumes "same_at ip p q"
  shows "busy ip q = busy ip p" and "CheckParams_isValidIP ip q = CheckParams_isValidIP ip p"
    and "CheckParams_nextCheckTime t ip q = CheckParams_nextCheckTime t ip p"
  using assms
  by (simp_all add: same_at_def busy_def CheckParams_isValidIP_def CheckParams_nextCheckTime_def
      split: option.split)

lemma list_all2_ball:
  assumes "list_all2 R xs ys" and "\<And>x y. R x y \<Longrightarrow> P y = P x"
  shows "(\<forall>y \<in> set ys. P y) = (\<forall>x \<in> set xs. P x)" and "(\<exists>y \<in> set ys. P y) = (\<exists>x \<in> set xs. P x)"
  using assms by (induction rule: list_all2_induct) auto

lemma frame_simps:
  assumes "frame k ip d d'"
  shows "(\<forall>p \<in> set (range_params k (dm_checkList d')). busy ip p) =
      (\<forall>p \<in> set (range_params k (dm_checkList d)). busy ip p)"
    and "served k ip d' = served k ip d"
    and "check_idle ip (range_params k (dm_checkList d')) = check_idle ip (range_params k (dm_checkList d))"
    and "(\<exists>p \<in> set (range_params k (dm_checkList d')). CheckParams_nextCheckTime t ip p \<le> T) =
      (\<exists>p \<in> set (range_params k (dm_checkList d)). CheckParams_nextCheckTime t ip p \<le> T)"
proof -
  note all2 = assms [unfolded frame_def]
  show "(\<forall>p \<in> set (range_params k (dm_checkList d')). busy ip p) =
      (\<forall>p \<in> set (range_params k (dm_checkList d)). busy ip p)"
    by (rule list_all2_ball(1) [OF all2]) (rule same_at_simps)
  show "served k ip d' = served k ip d"
  proof -
    have "range_params k (dm_checkList d') = [] \<longleftrightarrow> range_params k (dm_checkList d) = []"
      using list_all2_lengthD [OF all2] by fastforce
    moreover have "(\<forall>p \<in> set (range_params k (dm_checkList d')). CheckParams_isValidIP ip p \<and> R p) =
        (\<forall>p \<in> set (range_params k (dm_checkList d)). CheckParams_isValidIP ip p \<and> R p)"
      if "\<And>p q. same_at ip p q \<Longrightarrow> R q = R p" for R
      by (rule list_all2_ball(1) [OF all2]) (simp add: same_at_simps(2) that)
    note this [of "\<lambda>p. sint (cp_checkTTL p) < 86400000 \<and> sint (ucast (cp_checkRetryDelay p) :: u64) < 86400000"]
    ultimately show ?thesis unfolding served_def by (simp add: same_at_def)
  qed
  show "check_idle ip (range_params k (dm_checkList d')) = check_idle ip (range_params k (dm_checkList d))"
    unfolding check_idle_def by (rule list_all2_ball(1) [OF all2]) (simp add: same_at_def)
  show "(\<exists>p \<in> set (range_params k (dm_checkList d')). CheckParams_nextCheckTime t ip p \<le> T) =
      (\<exists>p \<in> set (range_params k (dm_checkList d)). CheckParams_nextCheckTime t ip p \<le> T)"
    by (rule list_all2_ball(2) [OF all2]) (simp add: same_at_simps(3))
qed

lemma frame_same: "dm_checkList d' = dm_checkList d \<Longrightarrow> frame k ip d d'"
  by (simp add: frame_def list_all2_refl same_at_def)

lemma adjusts_frame:
  assumes "CheckList_sorted (dm_checkList d)" and "adjusts key f d d'" and "local_at a f"
    and "a \<noteq> ip \<or> \<not> key_equiv CompareCheckList k key"
  shows "frame k ip d d'"
proof (cases "key_equiv CompareCheckList k key")
  case True
  then have "a \<noteq> ip" using assms(4) by simp
  then have "same_at ip p (f p)" if "p \<in> set (range_params k (dm_checkList d))" for p
    using assms(3) range_member_sorted [OF assms(1) that] by (auto simp: same_at_def local_at_def)
  then show ?thesis
    using True by (simp add: frame_def adjusts_range [OF assms(1,2)] list_all2_conv_all_nth)
next
  case False
  then show ?thesis
    by (simp add: frame_def adjusts_range [OF assms(1,2)] list_all2_refl same_at_def)
qed

text \<open>A step that leaves the work and the timeouts of the check, or adds to the latter, keeps the
  invariant.\<close>

lemma frame_keeps:
  assumes "system_inv live ares k ip ws d" and "frame k ip d d'" and "plain_system ares ws' d'"
    and "length (pending k ip ws' d') = length (pending k ip ws d)"
    and "set (el_timeouts (dm_eventLoop d)) \<subseteq> set (el_timeouts (dm_eventLoop d'))"
  shows "system_inv live ares k ip ws' d'"
proof -
  have "pending k ip ws' d' = [] \<longleftrightarrow> pending k ip ws d = []" using assms(4) by auto
  then show ?thesis
    using assms(1,3-5) frame_simps [OF assms(2)]
    by (auto simp: system_inv_def pending_once_def check_kept_def scheduled_def)
qed

section \<open>Queueing\<close>

lemma plain_check_class:
  assumes "plain_check ares check"
  obtains cls where "check_work_class ares check = Class cls"
    "class_workType cls = HM_WORK_HEALTHCHECK" "cls \<noteq> HMWorkHealhMultiWork"
    "hc_flowType check = HM_FLOW_DNS_HEALTH_TYPE"
  using assms by (auto simp: plain_check_def split: check_class.splits)

lemma queueCheck_plain:
  assumes "plain_check ares check"
  shows "\<exists>d' w. dm_queueCheck ares now host a check d = Some d'
    \<and> wq_queue (dm_workQueue d') = wq_queue (dm_workQueue d) @ [w] \<and> plain_work ares w
    \<and> Work_getWorkType w = HM_WORK_HEALTHCHECK \<and> work_for host a check w
    \<and> dm_eventLoop d' = dm_eventLoop d \<and> st_dnsWaitList (dm_state d') = st_dnsWaitList (dm_state d)
    \<and> st_remoteHostCache (dm_state d') = st_remoteHostCache (dm_state d)
    \<and> st_remoteCache (dm_state d') = st_remoteCache (dm_state d)"
proof -
  obtain cls where "check_work_class ares check = Class cls"
    "class_workType cls = HM_WORK_HEALTHCHECK" "cls \<noteq> HMWorkHealhMultiWork"
    "hc_flowType check = HM_FLOW_DNS_HEALTH_TYPE"
    using plain_check_class [OF assms] .
  then show ?thesis
    using assms
    by (simp add: dm_queueCheck_def state_queueCheck_def CheckList_queueCheck_def Let_def
        WorkQueue_insertWork_def work_for_def check_work_def Work_new_def plain_work_def Work_getWorkType_def)
qed

lemma busy_next: "busy ip p \<Longrightarrow> CheckParams_nextCheckTime now ip p = now + 86400000"
  by (auto simp: busy_def CheckParams_nextCheckTime_def ts_plus_def split: option.splits)

lemma overdue_not_busy:
  assumes "overdue now k ip d"
  shows "\<exists>p \<in> set (range_params k (dm_checkList d)). \<not> busy ip p"
proof -
  obtain p where "p \<in> set (range_params k (dm_checkList d))" "CheckParams_nextCheckTime now ip p \<le> now"
    using assms by (auto simp: overdue_def)
  then show ?thesis using busy_next [of ip p now] by auto
qed

lemma queued_busy: "map_sorted IPAddress_less (cp_checkData p) \<Longrightarrow> busy ip (CheckParams_queueQuerry ip p)"
  by (simp add: busy_def CheckParams_queueQuerry_def data_find_touch)

lemma queue_step:
  assumes inv: "system_inv live ares k ip ws d" and "plain_check ares check"
    and run: "dm_queueCheck ares now host a check d = Some d'" and due: "overdue now (host, check) a d"
  shows "system_inv live ares k ip ws d'"
    and "a = ip \<Longrightarrow> key_equiv CompareCheckList k (host, check) \<Longrightarrow> pending k ip ws d' \<noteq> []"
proof -
  have plain: "plain_system ares ws d" using inv by (simp add: system_inv_def)
  then have sorted: "CheckList_sorted (dm_checkList d)" by (simp add: plain_system_def)
  obtain w where w: "wq_queue (dm_workQueue d') = wq_queue (dm_workQueue d) @ [w]" "plain_work ares w"
    "Work_getWorkType w = HM_WORK_HEALTHCHECK" "work_for host a check w"
    and rest: "dm_eventLoop d' = dm_eventLoop d" "st_dnsWaitList (dm_state d') = st_dnsWaitList (dm_state d)"
      "st_remoteHostCache (dm_state d') = st_remoteHostCache (dm_state d)"
      "st_remoteCache (dm_state d') = st_remoteCache (dm_state d)"
    using queueCheck_plain [OF assms(2), of now host a d] run by auto
  note step = queueCheck_adjusts(1) [OF run] and loc = local_at_queue [of a]
  have sorted': "CheckList_sorted (dm_checkList d')" by (rule adjusts_sorted [OF sorted step loc])
  have plain': "plain_system ares ws d'" using plain sorted' w rest by (auto simp: plain_system_def)
  have for_w: "for_check k ip w \<longleftrightarrow> a = ip \<and> key_equiv CompareCheckList k (host, check)"
    using w(3,4) by (auto simp: for_check_def work_for_def)
  show nonempty: "pending k ip ws d' \<noteq> []" if "a = ip" "key_equiv CompareCheckList k (host, check)"
    using w(1) for_w that by (auto simp: pending_def)
  show "system_inv live ares k ip ws d'"
  proof (cases "a = ip \<and> key_equiv CompareCheckList k (host, check)")
    case True
    then have "overdue now k ip d" using due overdue_equiv [OF sorted, of k "(host, check)"] by simp
    then have "pending k ip ws d = []"
      using inv overdue_not_busy by (fastforce simp: system_inv_def pending_once_def)
    then have "length (pending k ip ws d') = 1" using w(1) for_w True by (auto simp: pending_def)
    moreover have "\<forall>p \<in> set (range_params k (dm_checkList d')). busy ip p"
      using True range_member_sorted [OF sorted] queued_busy
      by (auto simp: adjusts_range [OF sorted step])
    ultimately show ?thesis
      using plain' nonempty True by (simp add: system_inv_def pending_once_def check_kept_def)
  next
    case False
    show ?thesis
    proof (rule frame_keeps [OF inv _ plain'])
      show "frame k ip d d'" by (rule adjusts_frame [OF sorted step loc]) (use False in blast)
      show "length (pending k ip ws d') = length (pending k ip ws d)"
        using w(1) for_w False by (auto simp: pending_def)
    qed (simp add: rest)
  qed
qed

section \<open>The tracker\<close>

lemma checkNeeded_loop_range:
  "checkNeeded_loop now ip ps s = Some (a, c, n) \<Longrightarrow>
     n \<in> insert (snd (snd s)) (CheckParams_nextCheckTime now ip ` set ps)"
proof (induction ps arbitrary: s)
  case (Cons p ps)
  obtain a0 c0 n0 where s: "s = (a0, c0, n0)" by (cases s)
  obtain s1 where "checkNeeded_loop now ip ps s1 = Some (a, c, n)"
    "snd (snd s1) \<in> {n0, CheckParams_nextCheckTime now ip p}"
    using Cons.prems by (fastforce simp: s Let_def split: if_splits)
  then show ?case using Cons.IH [of s1] by (auto simp: s)
qed simp

lemma checkNeeded_overdue:
  assumes "CheckList_checkNeeded now host ip check (dm_checkList d) = HM_SCHEDULE_WORK"
  shows "overdue now (host, check) ip d"
proof -
  obtain a c n where "checkNeeded_loop now ip (range_params (host, check) (dm_checkList d))
      (True, False, ts_plus now HOURINMS) = Some (a, c, n)" "n \<le> now"
    using assms by (auto simp: CheckList_checkNeeded_def split: if_splits option.splits)
  then show ?thesis
    using checkNeeded_loop_range by (fastforce simp: overdue_def ts_plus_def)
qed

lemma queueDNS_plain:
  "dm_checkList (dm_queueDNS ares now name lookup d) = dm_checkList d"
  "dm_eventLoop (dm_queueDNS ares now name lookup d) = dm_eventLoop d"
  "st_dnsWaitList (dm_state (dm_queueDNS ares now name lookup d)) = st_dnsWaitList (dm_state d)"
  "st_remoteHostCache (dm_state (dm_queueDNS ares now name lookup d)) = st_remoteHostCache (dm_state d)"
  "st_remoteCache (dm_state (dm_queueDNS ares now name lookup d)) = st_remoteCache (dm_state d)"
  "\<exists>ws. wq_queue (dm_workQueue (dm_queueDNS ares now name lookup d)) = wq_queue (dm_workQueue d) @ ws
     \<and> (\<forall>w \<in> set ws. Work_getWorkType w = HM_WORK_DNSLOOKUP)"
  by (auto simp: dm_queueDNS_def state_queueDNS_def DNSCache_queueDNSQuery_def Let_def split_beta
      WorkQueue_insertWork_def dns_work_def Work_new_def Work_getWorkType_def Work_setReschedule_def
      split: option.splits if_splits HM_DNS_TYPE.splits)

text \<open>A step that adds lookups to the queue and timeouts of plain checks.\<close>

lemma other_step:
  assumes inv: "system_inv live ares k ip ws d" and "dm_checkList d' = dm_checkList d"
    and "wq_queue (dm_workQueue d') = wq_queue (dm_workQueue d) @ vs"
    and "\<forall>w \<in> set vs. Work_getWorkType w = HM_WORK_DNSLOOKUP"
    and "set (el_timeouts (dm_eventLoop d')) = set (el_timeouts (dm_eventLoop d)) \<union> ts"
    and "\<forall>t \<in> ts. to_type t = HEALTHCHECK_TIMEOUT \<longrightarrow> plain_check ares (to_hostCheck t)"
    and "st_dnsWaitList (dm_state d') = st_dnsWaitList (dm_state d)"
    and "st_remoteHostCache (dm_state d') = st_remoteHostCache (dm_state d)"
    and "st_remoteCache (dm_state d') = st_remoteCache (dm_state d)"
  shows "system_inv live ares k ip ws d'"
proof (rule frame_keeps [OF inv frame_same])
  show "plain_system ares ws d'"
    using inv assms(2-) by (auto simp: system_inv_def plain_system_def plain_work_def)
  have "filter (for_check k ip) vs = []" using assms(4) by (auto simp: filter_empty_conv for_check_def)
  then show "length (pending k ip ws d') = length (pending k ip ws d)"
    using assms(3) by (simp add: pending_def)
qed (use assms in auto)

lemma queueDNS_step:
  assumes "system_inv live ares k ip ws d"
  shows "system_inv live ares k ip ws (dm_queueDNS ares now name lookup d)"
proof -
  obtain vs where "wq_queue (dm_workQueue (dm_queueDNS ares now name lookup d)) = wq_queue (dm_workQueue d) @ vs"
    "\<forall>w \<in> set vs. Work_getWorkType w = HM_WORK_DNSLOOKUP"
    using queueDNS_plain(6) by blast
  then show ?thesis by (intro other_step [OF assms, where ts = "{}"]) (simp_all add: queueDNS_plain)
qed

lemma dispatch_dns_step:
  assumes inv: "system_inv live ares k ip ws d" and "to_type t = DNS_TIMEOUT \<or> to_type t = DNSV6_TIMEOUT"
    and run: "EventLoop_dispatch ares now t d = Some d'"
  shows "system_inv live ares k ip ws d'"
proof -
  have "system_inv live ares k ip ws
      (d\<lparr>dm_eventLoop := EventLoop_addDNSTimeout host lookup ct (dm_eventLoop d)\<rparr>)" for host lookup ct
    by (rule other_step [OF inv, where vs = "[]" and ts = "{Timeout_dns host lookup ct}"])
      (auto simp: EventLoop_addDNSTimeout_def Timeout_dns_def)
  then show ?thesis
    using run assms(2) inv queueDNS_step [OF inv]
    by (auto simp: EventLoop_dispatch_def Let_def split: HM_SCHEDULE_STATE.splits)
qed

lemma dispatch_step:
  assumes inv: "system_inv live ares k ip ws d"
    and "to_type t = HEALTHCHECK_TIMEOUT \<longrightarrow> plain_check ares (to_hostCheck t)"
    and run: "EventLoop_dispatch ares now t d = Some d'"
  shows "system_inv live ares k ip ws d'"
proof (cases "to_type t")
  case HEALTHCHECK_TIMEOUT
  then have plain: "plain_check ares (to_hostCheck t)" using assms(2) by simp
  let ?needed = "CheckList_checkNeeded now (to_hostname t) (to_address t) (to_hostCheck t) (dm_checkList d)"
  show ?thesis
  proof (cases ?needed)
    case HM_SCHEDULE_WORK
    then show ?thesis
      using run HEALTHCHECK_TIMEOUT queue_step(1) [OF inv plain _ checkNeeded_overdue]
      by (simp add: EventLoop_dispatch_def Let_def)
  next
    case HM_SCHEDULE_EVENT
    have d': "d' = dm_addHealthCheckTimeout (to_hostname t) (to_address t) (to_hostCheck t)
        (CheckList_nextCheckTime now (to_hostname t) (to_address t) (to_hostCheck t) (dm_checkList d)) d"
      using run HEALTHCHECK_TIMEOUT HM_SCHEDULE_EVENT by (simp add: EventLoop_dispatch_def Let_def)
    show ?thesis
      unfolding d'
      by (rule other_step [OF inv, where vs = "[]"])
        (auto simp: dm_addHealthCheckTimeout_def EventLoop_addHealthCheckTimeout_def
          Timeout_healthCheck_def plain)
  qed (use run HEALTHCHECK_TIMEOUT inv in \<open>simp add: EventLoop_dispatch_def Let_def\<close>)
next
  case REMOTECHECK_TIMEOUT
  then show ?thesis
    using run inv
    by (simp add: EventLoop_dispatch_def Let_def system_inv_def plain_system_def
        RemoteHostGroupCache_checkNeeded_def decision_missing)
next
  case REMOTEHOSTCHECK_TIMEOUT
  then show ?thesis
    using run inv
    by (simp add: EventLoop_dispatch_def Let_def system_inv_def plain_system_def
        RemoteHostCache_checkNeeded_def decision_missing)
qed (use run dispatch_dns_step [OF inv] in blast)+

text \<open>The timeout that the tracker takes out is the one of the invariant only when it makes work.\<close>

lemma pop_timeouts:
  assumes "el_timeouts el \<noteq> []"
  shows "set (el_timeouts el) = insert (EventLoop_top el) (set (el_timeouts (EventLoop_pop el)))"
proof -
  have "mset (el_timeouts el) = add_mset (EventLoop_top el) (mset (el_timeouts (EventLoop_pop el)))"
    using assms loop_queue.content_pop [of el] loop_queue.top_in [of el] by simp
  then show ?thesis by (metis set_mset_mset set_mset_add_mset_insert)
qed

lemma witness_due:
  assumes "CheckList_sorted (dm_checkList d)" and "\<not> is_blank ip" and "timeout_for k ip t"
    and "check_idle ip (range_params k (dm_checkList d))" and "p \<in> set (range_params k (dm_checkList d))"
    and "CheckParams_nextCheckTime (to_timeout t) ip p \<le> to_timeout t" and "to_timeout t \<le> now"
  shows "CheckList_checkNeeded now (to_hostname t) (to_address t) (to_hostCheck t) (dm_checkList d)
    = HM_SCHEDULE_WORK"
proof -
  have range: "range_params (to_hostname t, to_hostCheck t) (dm_checkList d) = range_params k (dm_checkList d)"
    by (rule range_params_equiv [symmetric]) (use assms(1,3) in \<open>simp_all add: timeout_for_def CheckList_sorted_def\<close>)
  obtain r where "data_find ip p = Some r" "cr_queryState r \<in> {HM_CHECK_INACTIVE, HM_CHECK_FAILED}"
    using assms(4,5) by (auto simp: check_idle_def)
  then have "CheckParams_nextCheckTime now ip p \<le> now"
    by (rule next_due_stays_due [where t = "to_timeout t"]) (use assms(6,7) in simp_all)
  then show ?thesis
    using checkNeeded_due [OF assms(2), of "to_hostname t" "to_hostCheck t"] assms(3-5)
    by (simp add: range timeout_for_def)
qed

lemma track_step:
  assumes inv: "system_inv live ares k ip ws d" and "\<not> is_blank ip"
    and "el_timeouts (dm_eventLoop d) \<noteq> []" and due: "to_timeout (EventLoop_top (dm_eventLoop d)) \<le> now"
    and run: "EventLoop_dispatch ares now (EventLoop_top (dm_eventLoop d))
      (d\<lparr>dm_eventLoop := EventLoop_pop (dm_eventLoop d)\<rparr>) = Some d'"
  shows "system_inv live ares k ip ws d'"
proof -
  define t where "t = EventLoop_top (dm_eventLoop d)"
  define e where "e = d\<lparr>dm_eventLoop := EventLoop_pop (dm_eventLoop d)\<rparr>"
  note popped = pop_timeouts [OF assms(3), folded t_def]
  have e: "dm_checkList e = dm_checkList d" "pending k ip ws e = pending k ip ws d"
    "el_timeouts (dm_eventLoop e) = el_timeouts (EventLoop_pop (dm_eventLoop d))"
    by (simp_all add: e_def pending_def)
  have plain_t: "to_type t = HEALTHCHECK_TIMEOUT \<longrightarrow> plain_check ares (to_hostCheck t)"
    using inv popped by (auto simp: system_inv_def plain_system_def)
  have safe: "system_inv False ares k ip ws e"
    using inv popped e by (auto simp: system_inv_def plain_system_def pending_once_def e_def)
  show ?thesis
  proof (cases "live \<longrightarrow> check_kept k ip ws e")
    case True
    then have "system_inv live ares k ip ws e" using safe by (simp add: system_inv_def)
    then show ?thesis by (rule dispatch_step [OF _ plain_t run [folded t_def e_def]])
  next
    case False
    then obtain p where "timeout_for k ip t" and idle: "check_idle ip (range_params k (dm_checkList d))"
      and p: "p \<in> set (range_params k (dm_checkList d))"
        "CheckParams_nextCheckTime (to_timeout t) ip p \<le> to_timeout t"
      using inv popped e by (auto simp: system_inv_def check_kept_def served_def scheduled_def)
    then have needed: "CheckList_checkNeeded now (to_hostname t) (to_address t) (to_hostCheck t)
        (dm_checkList e) = HM_SCHEDULE_WORK"
      unfolding e(1) using inv due assms(2)
      by (intro witness_due [of d ip k]) (auto simp: system_inv_def plain_system_def t_def)
    have t: "to_type t = HEALTHCHECK_TIMEOUT" "to_address t = ip"
      "key_equiv CompareCheckList k (to_hostname t, to_hostCheck t)"
      using \<open>timeout_for k ip t\<close> by (simp_all add: timeout_for_def)
    have "dm_queueCheck ares now (to_hostname t) (to_address t) (to_hostCheck t) e = Some d'"
      using run [folded t_def e_def] needed t(1) by (simp add: EventLoop_dispatch_def Let_def)
    note queue_step [OF safe _ this checkNeeded_overdue [OF needed]]
    then show ?thesis
      using plain_t t by (simp add: system_inv_def check_kept_def)
  qed
qed

section \<open>The workers\<close>

lemma getWork_queue:
  assumes "WorkQueue_getWork percent t0 False q = (GetWork w, q')"
  shows "wq_queue q = w # wq_queue q'"
  using assms
  by (auto simp: WorkQueue_getWork_def Let_def WorkQueue_account_def split: if_splits list.splits)

lemma busy_start: "busy ip p \<Longrightarrow> busy ip (CheckParams_startQuery t0 ip p)"
  by (auto simp: busy_def CheckParams_startQuery_def data_find_adjust split: option.splits)

lemma start_facts:
  assumes "HealthCheck_start t0 w d = (d', w')"
  defines "f \<equiv> \<lambda>p. if CheckParams_isValidIP (wk_ipAddress w) p
    then CheckParams_startQuery t0 (wk_ipAddress w) p else p"
  shows "adjusts (wk_hostname w, wk_hostCheck w) f d d'" and "local_at (wk_ipAddress w) f"
    and "w' = w\<lparr>wk_timeout := wk_timeout w'\<rparr>" and "d' = set_checkList (dm_checkList d') d"
  using assms local_at_adjust
  by (auto simp: HealthCheck_start_def CheckList_startCheck_def adjusts_def local_at_def f_def
      CheckParams_startQuery_def data_adjust_def ip_order.find_adjust_other set_checkList_def split: option.splits)

lemma start_step:
  assumes inv: "system_inv live ares k ip ws d"
    and get: "WorkQueue_getWork percent t0 False (dm_workQueue d) = (GetWork w, q)"
    and type: "Work_getWorkType w = HM_WORK_HEALTHCHECK"
    and run: "HealthCheck_start t0 w (d\<lparr>dm_workQueue := q\<rparr>) = (d', w')"
  shows "system_inv live ares k ip (ws @ [w']) d'"
proof -
  let ?e = "d\<lparr>dm_workQueue := q\<rparr>"
  note queue = getWork_queue [OF get]
  note start = start_facts [OF run]
  have sorted: "CheckList_sorted (dm_checkList d)" using inv by (simp add: system_inv_def plain_system_def)
  have w': "Work_getWorkType w' = Work_getWorkType w" "for_check k ip w' = for_check k ip w"
    "plain_work ares w' = plain_work ares w"
    by (subst start(3), simp add: for_check_def plain_work_def Work_getWorkType_def)+
  have d': "dm_workQueue d' = q" "dm_eventLoop d' = dm_eventLoop d"
    "st_dnsWaitList (dm_state d') = st_dnsWaitList (dm_state d)"
    "st_remoteHostCache (dm_state d') = st_remoteHostCache (dm_state d)"
    "st_remoteCache (dm_state d') = st_remoteCache (dm_state d)"
    by (subst start(4), simp add: set_checkList_def)+
  have sorted': "CheckList_sorted (dm_checkList d')"
    using adjusts_sorted [OF _ start(1,2)] sorted by simp
  have plain: "plain_system ares (ws @ [w']) d'"
    using inv sorted' queue type by (auto simp: system_inv_def plain_system_def d' w')
  have len: "length (pending k ip (ws @ [w']) d') = length (pending k ip ws d)"
    by (simp add: pending_def d' queue w')
  have adj: "range_params k (dm_checkList d') =
      (if key_equiv CompareCheckList k (wk_hostname w, wk_hostCheck w)
       then map (\<lambda>p. if CheckParams_isValidIP (wk_ipAddress w) p
         then CheckParams_startQuery t0 (wk_ipAddress w) p else p) (range_params k (dm_checkList d))
       else range_params k (dm_checkList d))"
    using adjusts_range [OF _ start(1), of k] sorted by simp
  show ?thesis
  proof (cases "for_check k ip w")
    case True
    then have ne: "pending k ip ws d \<noteq> []" by (simp add: pending_def queue)
    then have "pending k ip (ws @ [w']) d' \<noteq> []" using len by auto
    moreover have "\<forall>p \<in> set (range_params k (dm_checkList d')). busy ip p"
      using inv ne True by (auto simp: adj system_inv_def pending_once_def for_check_def busy_start)
    ultimately show ?thesis
      using inv len plain by (simp add: system_inv_def pending_once_def check_kept_def)
  next
    case False
    have "frame k ip ?e d'"
      by (rule adjusts_frame [OF _ start(1,2)]) (use False sorted type in \<open>auto simp: for_check_def\<close>)
    then have "frame k ip d d'" by (simp add: frame_def)
    then show ?thesis by (rule frame_keeps [OF inv _ plain len]) (simp add: d')
  qed
qed

text \<open>The end of a check: the result makes the check idle, and the next one is queued or scheduled.\<close>

lemma local_at_update:
  "local_at ip (\<lambda>p. if CheckParams_isValidIP ip p
     then CheckParams_updateCheck n1 n2 ip response reason s e port p else p)"
  by (auto simp: local_at_def CheckParams_updateCheck_def data_adjust_def ip_order.find_adjust_other
      split: option.split)

lemma result_adjusts:
  "adjusts (wk_hostname w, wk_hostCheck w)
     (\<lambda>p. if CheckParams_isValidIP (wk_ipAddress w) p
          then CheckParams_updateCheck t1 t1 (wk_ipAddress w) (wk_response w) (wk_reason w)
                 (wk_start w) (wk_end w) (hc_port (wk_hostCheck w)) p else p)
     d (HealthCheck_result t1 w d)"
  by (simp add: adjusts_def result_facts CheckList_updateCheck_def)

lemma result_same:
  "st_dnsWaitList (dm_state (HealthCheck_result t1 w d)) = st_dnsWaitList (dm_state d)"
  "st_remoteHostCache (dm_state (HealthCheck_result t1 w d)) = st_remoteHostCache (dm_state d)"
  "st_remoteCache (dm_state (HealthCheck_result t1 w d)) = st_remoteCache (dm_state d)"
  by (simp_all add: HealthCheck_result_def Let_def set_checkList_def)

lemma updated_next:
  assumes "data_find ip p = Some r" and "t1 \<le> t" and "s \<le> t" and "sint (cp_checkTTL p) < 86400000"
    and "sint (ucast (cp_checkRetryDelay p) :: u64) < 86400000"
  shows "CheckParams_nextCheckTime t ip
      (CheckParams_updateCheck t1 t1 ip response reason s e port p) < t + 86400000"
proof -
  let ?r = "updateCheck_result p t1 t1 ip response reason s e port r"
  have "cr_checkTime ?r \<in> {t1, s}" by (simp add: updateCheck_result_def Let_def)
  moreover have "CheckParams_updateCheck t1 t1 ip response reason s e port p =
      data_adjust ip (updateCheck_result p t1 t1 ip response reason s e port) p"
    using assms(1) by (simp add: CheckParams_updateCheck_def)
  ultimately show ?thesis
    using assms
    by (auto simp: CheckParams_nextCheckTime_def data_find_adjust updateCheck_result_idle ts_plus_def data_adjust_def)
qed

lemma result_step:
  fixes t1 :: HMTimeStamp
  assumes inv: "system_inv live ares k ip (vs @ w # ws) d" 
    and w: "for_check k ip w \<longleftrightarrow> wk_ipAddress w' = ip
      \<and> key_equiv CompareCheckList k (wk_hostname w', wk_hostCheck w')"
  defines "d' \<equiv> HealthCheck_result t1 w' d"
  shows "system_inv False ares k ip (vs @ ws) d'"
    and "\<not> for_check k ip w \<Longrightarrow> system_inv live ares k ip (vs @ ws) d'"
    and "for_check k ip w \<Longrightarrow> served k ip d' \<Longrightarrow> t1 \<le> t2 \<Longrightarrow> wk_start w' \<le> t2 \<Longrightarrow>
      check_idle ip (range_params k (dm_checkList d'))
      \<and> (\<forall>p \<in> set (range_params k (dm_checkList d')). CheckParams_nextCheckTime t2 ip p < t2 + 86400000)"
proof -
  note step = result_adjusts [of w' t1 d, folded d'_def]
    and loc = local_at_update [of "wk_ipAddress w'" t1 t1 "wk_response w'" "wk_reason w'" "wk_start w'"
      "wk_end w'" "hc_port (wk_hostCheck w')"]
  have sorted: "CheckList_sorted (dm_checkList d)" using inv by (simp add: system_inv_def plain_system_def)
  have sorted': "CheckList_sorted (dm_checkList d')" by (rule adjusts_sorted [OF sorted step loc])
  note d' = result_facts(3,4) [of t1 w' d, folded d'_def] result_same [of t1 w' d, folded d'_def]
  have plain: "plain_system ares (vs @ ws) d'"
    using inv sorted' by (auto simp: system_inv_def plain_system_def d')
  have here: "pending k ip (vs @ ws) d' = []" if "for_check k ip w"
    using inv that by (auto simp: system_inv_def pending_once_def pending_def d' filter_empty_conv)
  show other: "system_inv live ares k ip (vs @ ws) d'" if no: "\<not> for_check k ip w"
  proof (rule frame_keeps [OF inv adjusts_frame [OF sorted step loc] plain])
    show "wk_ipAddress w' \<noteq> ip \<or> \<not> key_equiv CompareCheckList k (wk_hostname w', wk_hostCheck w')"
      using no w by blast
  qed (use no in \<open>simp_all add: pending_def d'\<close>)
  show "system_inv False ares k ip (vs @ ws) d'"
    using other here plain by (cases "for_check k ip w") (auto simp: system_inv_def pending_once_def)
  show "check_idle ip (range_params k (dm_checkList d'))
      \<and> (\<forall>p \<in> set (range_params k (dm_checkList d')). CheckParams_nextCheckTime t2 ip p < t2 + 86400000)"
    if "for_check k ip w" "served k ip d'" "t1 \<le> t2" "wk_start w' \<le> t2"
  proof -
    define u where "u = CheckParams_updateCheck t1 t1 ip (wk_response w') (wk_reason w') (wk_start w')
      (wk_end w') (hc_port (wk_hostCheck w'))"
    define g where "g = (\<lambda>p. if CheckParams_isValidIP ip p then u p else p)"
    have range: "range_params k (dm_checkList d') = map g (range_params k (dm_checkList d))"
      using w that(1) adjusts_range [OF sorted step, of k] by (simp add: g_def u_def)
    have same: "CheckParams_isValidIP ip (g p) = CheckParams_isValidIP ip p"
      "cp_checkTTL (g p) = cp_checkTTL p" "cp_checkRetryDelay (g p) = cp_checkRetryDelay p" for p
      by (simp_all add: g_def u_def CheckParams_updateCheck_def data_adjust_def CheckParams_isValidIP_def
          split: option.split)
    have old: "g p = u p \<and> data_find ip p \<noteq> None \<and> sint (cp_checkTTL p) < 86400000
        \<and> sint (ucast (cp_checkRetryDelay p) :: u64) < 86400000"
      if "p \<in> set (range_params k (dm_checkList d))" for p
      using \<open>served k ip d'\<close> that
      by (simp add: served_def range same) (simp add: g_def CheckParams_isValidIP_def)
    have "\<exists>r. data_find ip (u p) = Some r \<and> cr_queryState r = HM_CHECK_INACTIVE"
      if "data_find ip p \<noteq> None" for p
      using that by (auto simp: u_def CheckParams_updateCheck_def data_find_adjust updateCheck_result_idle)
    then have "check_idle ip (range_params k (dm_checkList d'))"
      using old by (simp add: range check_idle_def) blast
    moreover have "CheckParams_nextCheckTime t2 ip (g p) < t2 + 86400000"
      if p: "p \<in> set (range_params k (dm_checkList d))" for p
    proof -
      obtain r where "data_find ip p = Some r" using old [OF p] by blast
      from updated_next [OF this \<open>t1 \<le> t2\<close> \<open>wk_start w' \<le> t2\<close>] old [OF p] show ?thesis
        by (simp add: u_def)
    qed
    then have "\<forall>p \<in> set (range_params k (dm_checkList d')). CheckParams_nextCheckTime t2 ip p < t2 + 86400000"
      by (simp add: range)
    ultimately show ?thesis by blast
  qed
qed

lemma finish_run:
  assumes "probe_ok probe" and "plain_work ares w" and "Work_getWorkType w = HM_WORK_HEALTHCHECK"
    and "HealthCheck_finish ares probe t0 t1 t2 w d = Some (d', w')"
  shows "work_for (wk_hostname w) (wk_ipAddress w) (wk_hostCheck w) w'"
    and "HealthCheck_reschedule ares t2 w' (HealthCheck_result t1 w' d) = Some d'"
proof -
  have w: "wk_class w \<noteq> HMWorkHealhMultiWork" "wk_reschedule w"
    using assms(2,3) by (simp_all add: plain_work_def)
  obtain w1 s where w1: "healthCheck probe t0 t1 w d = (d, w1, s)"
    "work_for (wk_hostname w) (wk_ipAddress w) (wk_hostCheck w) w1" "wk_reschedule w1" "s \<noteq> HM_WORK_IDLE"
    using healthCheck_facts [OF assms(1) w(1), of t0 t1] w(2) by blast
  then have "w' = w1\<lparr>wk_workStatus := s\<rparr>
      \<and> HealthCheck_reschedule ares t2 w' (HealthCheck_result t1 w' d) = Some d'"
    using assms(4) by (auto simp: HealthCheck_finish_def Let_def)
  then show "work_for (wk_hostname w) (wk_ipAddress w) (wk_hostCheck w) w'"
    "HealthCheck_reschedule ares t2 w' (HealthCheck_result t1 w' d) = Some d'"
    using w1(2) by (auto simp: work_for_def)
qed

lemma reschedule_cases:
  assumes "HealthCheck_reschedule ares t2 w d = Some d'"
  obtains (gone) "finish_given_up w d \<noteq> []" "d' = d"
  | (queue) "overdue t2 (wk_hostname w, wk_hostCheck w) (wk_ipAddress w) d"
      "dm_queueCheck ares t2 (wk_hostname w) (wk_ipAddress w) (wk_hostCheck w) d = Some d'"
  | (timeout) ct where "ct = CheckList_nextCheckTime t2 (wk_hostname w) (wk_ipAddress w) (wk_hostCheck w) (dm_checkList d)"
      "t2 < ct" "d' = dm_addHealthCheckTimeout (wk_hostname w) (wk_ipAddress w) (wk_hostCheck w) ct d"
proof (cases "finish_given_up w d = []")
  case True
  then have valid: "DNSCache_isValidAddress (wk_hostname w) (hc_dualstack (wk_hostCheck w))
      (DNSLookup_new (hc_DNSType (wk_hostCheck w)) (IPAddress_getType (wk_ipAddress w) = AF_INET6)
        (hc_remoteCheck (wk_hostCheck w))) (wk_ipAddress w) (dm_dnsCache d)"
    by (simp add: finish_given_up_def Let_def split: if_splits)
  show thesis
    using assms queue timeout [OF refl]
    by (simp add: HealthCheck_reschedule_def Let_def valid overdue_iff split: if_splits)
next
  case False
  then show thesis
    using assms gone [OF False]
    by (simp add: finish_given_up_def HealthCheck_reschedule_def Let_def split: if_splits)
qed

lemma timeout_step:
  assumes "system_inv live ares k ip ws d" and "plain_check ares check"
  shows "system_inv live ares k ip ws (dm_addHealthCheckTimeout host a check ct d)"
  by (rule other_step [OF assms(1), where vs = "[]" and ts = "{Timeout_healthCheck host a check ct}"])
    (auto simp: dm_addHealthCheckTimeout_def EventLoop_addHealthCheckTimeout_def Timeout_healthCheck_def
      assms(2))

text \<open>A timeout at the next time of a check that is idle is one that makes work.\<close>

lemma timeout_schedules:
  assumes "key_equiv CompareCheckList k (host, check)" and "CheckList_sorted (dm_checkList d)"
    and idle: "check_idle ip (range_params k (dm_checkList d))" and "served k ip d"
    and short: "\<forall>p \<in> set (range_params k (dm_checkList d)). CheckParams_nextCheckTime t2 ip p < t2 + 86400000"
    and ct: "ct = CheckList_nextCheckTime t2 host ip check (dm_checkList d)" and "t2 < ct"
  shows "scheduled k ip (dm_addHealthCheckTimeout host ip check ct d)"
proof -
  have range: "range_params (host, check) (dm_checkList d) = range_params k (dm_checkList d)"
    by (rule range_params_equiv [symmetric]) (use assms(1,2) in \<open>simp_all add: CheckList_sorted_def\<close>)
  have "ct < t2 + 86400000"
  proof -
    have "range_params k (dm_checkList d) \<noteq> []" using \<open>served k ip d\<close> by (simp add: served_def)
    then obtain p where "p \<in> set (range_params k (dm_checkList d))" by fastforce
    then show ?thesis using short by (auto simp: ct nextCheckTime_is_minimum range Min_less_iff)
  qed
  then obtain p where p: "p \<in> set (range_params k (dm_checkList d))" "CheckParams_nextCheckTime t2 ip p = ct"
    using next_check_attained [of t2 host ip check "dm_checkList d"] by (auto simp: ct range)
  obtain r where "data_find ip p = Some r" "cr_queryState r \<in> {HM_CHECK_INACTIVE, HM_CHECK_FAILED}"
    using idle p(1) by (auto simp: check_idle_def)
  then have "CheckParams_nextCheckTime ct ip p \<le> ct"
    by (rule next_due_stays_due [where t = t2]) (use p(2) assms(7) in simp_all)
  then show ?thesis
    using p(1) assms(1) idle
    by (auto simp: scheduled_def dm_addHealthCheckTimeout_def EventLoop_addHealthCheckTimeout_def
        Timeout_healthCheck_def timeout_for_def)
qed

lemma finish_step:
  assumes inv: "system_inv live ares k ip (vs @ w # ws) d" and "probe_ok probe"
    and run: "HealthCheck_finish ares probe t0 t1 t2 w d = Some (d', w')"
    and time: "t1 \<le> t2" "wk_start w' \<le> t2"
    and "live \<longrightarrow> \<not> names_check k ip (finish_given_up w d)"
  shows "system_inv live ares k ip (vs @ ws) d'"
proof -
  have w: "plain_work ares w" "Work_getWorkType w = HM_WORK_HEALTHCHECK"
    using inv by (simp_all add: system_inv_def plain_system_def)
  define e where "e = HealthCheck_result t1 w' d"
  note fin = finish_run [OF assms(2) w run, folded e_def]
  have same: "for_check k ip w \<longleftrightarrow> wk_ipAddress w' = ip
      \<and> key_equiv CompareCheckList k (wk_hostname w', wk_hostCheck w')"
    "finish_given_up w' e = finish_given_up w d" "plain_check ares (wk_hostCheck w')"
    using fin(1) w
    by (auto simp: for_check_def work_for_def finish_given_up_def e_def result_facts plain_work_def)
  note res = result_step [OF inv same(1), of t1, folded e_def]
  show ?thesis
  proof (cases "for_check k ip w")
    case False
    note inv_e = res(2) [OF False]
    show ?thesis
      using fin(2) by (cases rule: reschedule_cases)
        (use inv_e queue_step(1) [OF inv_e same(3)] timeout_step [OF inv_e same(3)] in auto)
  next
    case True
    have here: "wk_ipAddress w' = ip" "key_equiv CompareCheckList k (wk_hostname w', wk_hostCheck w')"
      using True same(1) by simp_all
    note safe = res(1)
    show ?thesis
      using fin(2)
    proof (cases rule: reschedule_cases)
      case gone
      then have "\<not> live"
        using assms(6) same(1,2) True fin(1)
        by (auto simp: names_check_def finish_given_up_def Let_def work_for_def split: if_splits)
      then show ?thesis using safe gone(2) by simp
    next
      case queue
      show ?thesis
        using queue_step [OF safe same(3) queue(2,1)] here by (simp add: system_inv_def check_kept_def)
    next
      case (timeout ct)
      have "scheduled k ip d'" if "served k ip e"
        unfolding timeout(3) here(1)
        using res(3) [OF True that time] safe timeout(1,2) that here
        by (intro timeout_schedules [of k _ _ _ _ t2]) (simp_all add: system_inv_def plain_system_def)
      moreover have "served k ip d' = served k ip e" by (simp add: served_def timeout(3) dm_addHealthCheckTimeout_def)
      ultimately show ?thesis
        using timeout_step [OF safe same(3)] timeout(3) by (simp add: system_inv_def check_kept_def)
    qed
  qed
qed

section \<open>The lookups\<close>

text \<open>A step that writes to the parameter objects at another check or address and to nothing else that
  the invariant reads.\<close>

lemma write_step:
  assumes inv: "system_inv live ares k ip ws d" and step: "adjusts key f d d'" "local_at a f"
    and "\<not> (a = ip \<and> key_equiv CompareCheckList k key)"
    and "dm_workQueue d' = dm_workQueue d" "dm_eventLoop d' = dm_eventLoop d"
    and "dm_state d' = (dm_state d)\<lparr>st_checkList := dm_checkList d'\<rparr>"
  shows "system_inv live ares k ip ws d'"
proof -
  have sorted: "CheckList_sorted (dm_checkList d)" using inv by (simp add: system_inv_def plain_system_def)
  have same: "st_dnsWaitList (dm_state d') = st_dnsWaitList (dm_state d)"
    "st_remoteHostCache (dm_state d') = st_remoteHostCache (dm_state d)"
    "st_remoteCache (dm_state d') = st_remoteCache (dm_state d)"
    by (subst assms(7), simp)+
  show ?thesis
  proof (rule frame_keeps [OF inv adjusts_frame [OF sorted step]])
    show "plain_system ares ws d'"
      using inv adjusts_sorted [OF sorted step] by (simp add: system_inv_def plain_system_def same assms(5,6))
  qed (use assms(4) in \<open>auto simp: pending_def assms(5,6)\<close>)
qed

lemma expire_step:
  assumes "system_inv live ares k ip ws d"
    and "\<not> (a = ip \<and> key_equiv CompareCheckList k (wk_hostname w, check))"
  shows "system_inv live ares k ip ws (dns_expire w check a d)"
  by (rule write_step [OF assms(1) expire_adjusts local_at_invalidate assms(2)])
    (simp_all add: dns_expire_def Let_def split_beta set_checkList_def)

lemma expires_step:
  assumes "system_inv live ares k ip ws d"
    and "\<not> (ip \<in> set as \<and> key_equiv CompareCheckList k (wk_hostname w, check))"
  shows "system_inv live ares k ip ws (fold (dns_expire w check) as d)"
  using assms
proof (induction as arbitrary: d)
  case (Cons a as)
  then have "system_inv live ares k ip ws (dns_expire w check a d)" by (intro expire_step) auto
  from Cons.IH [OF this] Cons.prems(2) show ?case by auto
qed simp

lemma kick_address_step:
  assumes inv: "system_inv live ares k ip ws d" and "\<not> is_blank ip" and "plain_check ares check"
    and run: "dns_kick_address ares now w check a d = Some d'"
  shows "system_inv live ares k ip ws d'"
proof (cases "is_blank a")
  case True
  obtain f where f: "local_at a f" "adjusts (wk_hostname w, check) f d d'"
    using kick_address_adjusts [OF run] by blast
  show ?thesis
    by (rule write_step [OF inv f(2,1)])
      (use True assms(2) run in \<open>auto simp: dns_kick_address_def Let_def set_checkList_def split: if_splits\<close>)
next
  case False
  then show ?thesis
    using run inv queue_step(1) [OF inv assms(3)]
    by (auto simp: dns_kick_address_def overdue_iff split: if_splits)
qed

lemma kick_step:
  assumes inv: "system_inv live ares k ip ws d" and "\<not> is_blank ip" and "plain_check ares check"
    and fam: "dns_family w = Some family" and run: "dns_kick ares now w check d = Some d'"
    and "ip \<in> expired_of w family (dm_dnsCache d) \<Longrightarrow> hc_dualstack check AND family \<noteq> 0 \<Longrightarrow>
      \<not> key_equiv CompareCheckList k (wk_hostname w, check)"
  shows "system_inv live ares k ip ws d' \<and> dm_dnsCache d' = dm_dnsCache d"
proof (cases "hc_dualstack check AND family = 0")
  case True
  then show ?thesis using run inv by (simp add: dns_kick_def fam)
next
  case False
  let ?ex = "fst (DNSCache_getExpiredAddresses (wk_hostname w) family (wk_dnsHostCheck w) [] (dm_dnsCache d))"
  let ?e = "fold (dns_expire w check) ?ex d"
  have sorted: "CheckList_sorted (dm_checkList d)" using inv by (simp add: system_inv_def plain_system_def)
  obtain ips where run: "opt_fold (dns_kick_address ares now w check) ips ?e = Some d'"
    using run False by (simp add: dns_kick_def fam Let_def)
  have e: "system_inv live ares k ip ws ?e"
    by (rule expires_step [OF inv]) (use assms(6) False in \<open>auto simp: expired_of_def\<close>)
  have "system_inv live ares k ip ws d'"
    by (rule opt_fold_invariant [OF run, where P = "system_inv live ares k ip ws"])
      (use e kick_address_step [OF _ assms(2,3)] in blast)+
  then show ?thesis
    using kicks_keep(1) [OF run] expires_keep(1) [OF sorted, of w check ?ex] by simp
qed

lemma reschedule_step:
  assumes inv: "system_inv live ares k ip ws d"
  shows "system_inv live ares k ip ws (DNSLookup_reschedule ares now w d)"
proof -
  have "system_inv live ares k ip ws
      (d\<lparr>dm_eventLoop := EventLoop_addDNSTimeout host lookup ct (dm_eventLoop d)\<rparr>)" for host lookup ct
    by (rule other_step [OF inv, where vs = "[]" and ts = "{Timeout_dns host lookup ct}"])
      (auto simp: EventLoop_addDNSTimeout_def Timeout_dns_def)
  then show ?thesis
    using inv queueDNS_step [OF inv] by (simp add: DNSLookup_reschedule_def Let_def)
qed

lemma lookup_step:
  assumes inv: "system_inv live ares k ip ws d" and "\<not> is_blank ip"
    and get: "WorkQueue_getWork percent t0 False (dm_workQueue d) = (GetWork w, q)"
    and type: "Work_getWorkType w = HM_WORK_DNSLOOKUP"
    and run: "WorkDNSLookup_processWork ares resolve t0 now w (d\<lparr>dm_workQueue := q\<rparr>) = Some (d', w')"
    and kept: "\<not> names_check k ip (lookup_dropped ares resolve t0 now w (d\<lparr>dm_workQueue := q\<rparr>))"
  shows "system_inv live ares k ip ws d'"
proof -
  let ?d = "d\<lparr>dm_workQueue := q\<rparr>"
  note queue = getWork_queue [OF get]
  have base: "system_inv live ares k ip ws (set_dnsCache c ?d)" for c
  proof (rule frame_keeps [OF inv frame_same])
    show "plain_system ares ws (set_dnsCache c ?d)"
      using inv queue by (simp add: system_inv_def plain_system_def set_dnsCache_def)
  qed (use queue type in \<open>simp_all add: set_dnsCache_def pending_def for_check_def\<close>)
  obtain c found where start: "DNSCache_startDNSQuery t0 (wk_hostname w) (wk_dnsHostCheck w) (dm_dnsCache d)
      = (c, found)"
    by fastforce
  obtain w1 c1 result where look: "dnsLookup resolve now w c = (w1, c1, result)"
    using prod_cases3 by blast
  define e where "e = DNSLookup_reschedule ares now w1 (set_dnsCache c1 ?d)"
  have e: "system_inv live ares k ip ws e" unfolding e_def by (rule reschedule_step [OF base])
  show ?thesis
  proof (cases "found \<and> result")
    case False
    then show ?thesis
      using run base e by (auto simp: WorkDNSLookup_processWork_def start look e_def split: if_splits)
  next
    case True
    then have folds: "opt_fold (dns_kick ares now w1) (dns_waiting w1 e) e = Some d'"
      using run by (auto simp: WorkDNSLookup_processWork_def start look Let_def simp flip: e_def)
    have plain: "plain_check ares check" if "check \<in> set (dns_waiting w1 e)" for check
    proof -
      have "check \<in> snd ` set (st_dnsWaitList (dm_state e))"
        using that by (auto simp: dns_waiting_def equal_range_def dest!: set_takeWhileD set_dropWhileD)
      then show ?thesis using e by (auto simp: system_inv_def plain_system_def)
    qed
    have "system_inv live ares k ip ws d' \<and> dm_dnsCache d' = dm_dnsCache e"
    proof (rule opt_fold_invariant [OF folds,
          where P = "\<lambda>s. system_inv live ares k ip ws s \<and> dm_dnsCache s = dm_dnsCache e"])
      fix check s t
      assume check: "check \<in> set (dns_waiting w1 e)" and run: "dns_kick ares now w1 check s = Some t"
        and s: "system_inv live ares k ip ws s \<and> dm_dnsCache s = dm_dnsCache e"
      obtain family where fam: "dns_family w1 = Some family"
        using run by (auto simp: dns_kick_def split: option.splits)
      have "\<not> key_equiv CompareCheckList k (wk_hostname w1, check)"
        if "ip \<in> expired_of w1 family (dm_dnsCache s)" "hc_dualstack check AND family \<noteq> 0"
        using kept that check s True fam
        by (auto simp: names_check_def lookup_dropped_def start look expired_of_def simp flip: e_def)
      from kick_step [OF conjunct1 [OF s] assms(2) plain [OF check] fam run this] s
      show "system_inv live ares k ip ws t \<and> dm_dnsCache t = dm_dnsCache e" by simp
    qed (use e in simp)
    then show ?thesis by simp
  qed
qed

section \<open>Every interleaving\<close>

lemma system_step_keeps:
  assumes "system_step ares percent probe resolve s e s'" and "probe_ok probe" and "\<not> is_blank ip"
    and "system_inv live ares k ip (sy_running s) (sy_daemon s)" and "\<not> drops k ip e"
    and "live \<longrightarrow> \<not> gives_up k ip e"
  shows "system_inv live ares k ip (sy_running s') (sy_daemon s')"
  using assms
proof cases
  case (track d now d' ws)
  then show ?thesis using assms(3,4) track_step by auto
next
  case (start t0 d w q d' w' ws)
  then show ?thesis using assms(4) start_step by auto
next
  case (finish t0 t1 t2 w d d' w' vs ws)
  then show ?thesis using assms(2,4,6) finish_step by auto
next
  case (lookup t0 d w q now d' w' ws)
  then show ?thesis using assms(3-5) lookup_step by auto
qed

text \<open>Runs in which no lookup drops the address, and for the second property no worker gives it up.\<close>

inductive run_steps ::
    "bool \<Rightarrow> bool \<Rightarrow> (u32 \<Rightarrow> u64 \<Rightarrow> u64) \<Rightarrow> (HMWork \<Rightarrow> HMWork \<times> HM_WORK_STATUS) \<Rightarrow>
     (HMWork \<Rightarrow> HMDNSCache \<Rightarrow> HMWork \<times> HMDNSCache \<times> bool) \<Rightarrow> check_key \<Rightarrow> HMIPAddress \<Rightarrow>
     HMSystem \<Rightarrow> HMSystem \<Rightarrow> bool"
  for live ares percent probe resolve k ip where
  refl: "run_steps live ares percent probe resolve k ip s s"
| step: "run_steps live ares percent probe resolve k ip s s''"
  if "run_steps live ares percent probe resolve k ip s s'"
    and "system_step ares percent probe resolve s' e s''" and "\<not> drops k ip e"
    and "live \<longrightarrow> \<not> gives_up k ip e"

lemma run_steps_keep:
  assumes "run_steps live ares percent probe resolve k ip s s'" and "probe_ok probe" and "\<not> is_blank ip"
    and "system_inv live ares k ip (sy_running s) (sy_daemon s)"
  shows "system_inv live ares k ip (sy_running s') (sy_daemon s')"
  using assms by (induction rule: run_steps.induct) (auto intro: system_step_keeps)

text \<open>
  At most one work order exists for the check of an address, whatever the tracker and the workers
  do. From a state with no work for it, in every run in which no lookup drops the address, there is
  never more than one work order for the check, queued or in the hands of a worker, and while there
  is one every result of the check says that it is queued or in progress.
\<close>

theorem one_work_order_per_check:
  assumes "run_steps False ares percent probe resolve k ip s s'" and "probe_ok probe"
    and "\<not> is_blank ip" and "plain_system ares (sy_running s) (sy_daemon s)"
    and "pending k ip (sy_running s) (sy_daemon s) = []"
  shows "length (pending k ip (sy_running s') (sy_daemon s')) \<le> 1
    \<and> (pending k ip (sy_running s') (sy_daemon s') \<noteq> [] \<longrightarrow>
        (\<forall>p \<in> set (range_params k (dm_checkList (sy_daemon s'))). busy ip p))"
proof -
  have "system_inv False ares k ip (sy_running s) (sy_daemon s)"
    using assms(4,5) by (simp add: system_inv_def pending_once_def)
  from run_steps_keep [OF assms(1-3) this] show ?thesis by (simp add: system_inv_def pending_once_def)
qed

text \<open>
  The check of an address is never lost, whatever the tracker and the workers do. In every run in
  which no lookup drops the address and no worker finds it gone from the lookups, as long as the check
  list has the check with intervals of less than a day: there is a work order for the check, or every
  result is idle and the queue of timeouts has one for it that is due at its time.
\<close>

theorem check_never_lost:
  assumes "run_steps True ares percent probe resolve k ip s s'" and "probe_ok probe"
    and "\<not> is_blank ip" and "system_inv True ares k ip (sy_running s) (sy_daemon s)"
    and "served k ip (sy_daemon s')"
  shows "pending k ip (sy_running s') (sy_daemon s') \<noteq> [] \<or> scheduled k ip (sy_daemon s')"
  using run_steps_keep [OF assms(1-4)] assms(5) by (simp add: system_inv_def check_kept_def)

section \<open>Two work orders\<close>

lemma second_order:
  assumes "plain_check ares check" and "dm_queueCheck ares now host ip check d = Some d'"
    and "key_equiv CompareCheckList k (host, check)"
  shows "length (pending k ip ws d') = Suc (length (pending k ip ws d))"
proof -
  obtain w where "wq_queue (dm_workQueue d') = wq_queue (dm_workQueue d) @ [w]" "for_check k ip w"
    using queueCheck_plain [OF assms(1), of now host ip d] assms(2,3) by (auto simp: for_check_def work_for_def)
  then show ?thesis by (simp add: pending_def)
qed

text \<open>
  C40: deciding and queueing are two critical sections. The tracker asks \<open>checkNeeded\<close> and a worker
  that ends a lookup asks \<open>nextCheckTime\<close>; each call holds the lock of the check list, and
  \<open>queueCheck\<close> takes it again. When both ask before either queues, both find the check due, and the
  queue has two work orders for it, although the second question, asked after the first answer was
  acted upon, would have been answered otherwise.
\<close>

theorem decide_then_queue_race:
  assumes "plain_check ares check" and "CheckList_sorted (dm_checkList d)"
    and "CheckList_checkNeeded now host ip check (dm_checkList d) = HM_SCHEDULE_WORK"
  shows "CheckList_nextCheckTime now host ip check (dm_checkList d) \<le> now
    \<and> (\<exists>d' d''. dm_queueCheck ares now host ip check d = Some d'
        \<and> dm_queueCheck ares now host ip check d' = Some d''
        \<and> length (pending (host, check) ip ws d'') = length (pending (host, check) ip ws d) + 2
        \<and> now < CheckList_nextCheckTime now host ip check (dm_checkList d')
        \<and> CheckList_checkNeeded now host ip check (dm_checkList d') \<noteq> HM_SCHEDULE_WORK)"
proof -
  have due: "overdue now (host, check) ip d" by (rule checkNeeded_overdue [OF assms(3)])
  obtain d' where d': "dm_queueCheck ares now host ip check d = Some d'"
    using queueCheck_plain [OF assms(1)] by blast
  obtain d'' where d'': "dm_queueCheck ares now host ip check d' = Some d''"
    using queueCheck_plain [OF assms(1)] by blast
  have "\<not> overdue now (host, check) ip d'"
    using range_member_sorted [OF assms(2)] queue_not_overdue
    by (auto simp: overdue_def adjusts_range [OF assms(2) queueCheck_adjusts(1) [OF d']] not_le)
  then show ?thesis
    using due d' d'' second_order [OF assms(1) d', of "(host, check)" ws]
      second_order [OF assms(1) d'', of "(host, check)" ws] checkNeeded_overdue [of now host ip check d']
    by (auto simp: overdue_iff not_le)
qed

text \<open>
  An address that leaves the answers of a host and comes back while a check of it is running is
  checked twice at a time. The lookup without the address removes the result, and with it the mark
  that a check is in progress; the lookup that has it again finds no result and queues a work order,
  whatever work there is.
\<close>

theorem returned_address_second_order:
  assumes "plain_check ares check" and "result_gone (wk_hostname w, check) ip d"
    and "range_params (wk_hostname w, check) (dm_checkList d) \<noteq> []" and "\<not> is_blank ip"
  shows "\<exists>d'. dns_kick_address ares now w check ip d = Some d'
    \<and> length (pending (wk_hostname w, check) ip ws d') = length (pending (wk_hostname w, check) ip ws d) + 1"
proof -
  let ?k = "(wk_hostname w, check)"
  obtain p where p: "p \<in> set (range_params ?k (dm_checkList d))"
    using assms(3) by (cases "range_params ?k (dm_checkList d)") auto
  then have "data_find ip p = None" using assms(2) by (simp add: result_gone_def)
  then have "CheckParams_nextCheckTime now ip p \<le> now" by (simp add: CheckParams_nextCheckTime_def)
  then have "overdue now ?k ip d" using p by (auto simp: overdue_def)
  moreover obtain d' where "dm_queueCheck ares now (wk_hostname w) ip check d = Some d'"
    using queueCheck_plain [OF assms(1)] by blast
  ultimately show ?thesis
    using assms(4) second_order [OF assms(1), of now "wk_hostname w" ip d d' ?k ws]
    by (auto simp: dns_kick_address_def overdue_iff)
qed

section \<open>Witnesses\<close>

definition w_timeout :: Timeout where
  "w_timeout = Timeout_healthCheck ''h'' w_addr w_check 300000"

definition w_scheduled :: HMDaemon where
  "w_scheduled = w_daemon\<lparr>dm_eventLoop := w_loop\<lparr>el_timeouts := [w_timeout]\<rparr>\<rparr>"

definition w_system :: HMSystem where
  "w_system = \<lparr>sy_daemon = w_scheduled, sy_running = []\<rparr>"

lemma w_plain_check: "plain_check False w_check"
  by (simp add: plain_check_def w_check_class)
    (simp add: w_check_def HostCheck_default_def HostCheck_new_def)

lemma w_system_fields [simp]:
  "sy_running w_system = []" "sy_daemon w_system = w_scheduled" "dm_checkList w_scheduled = w_list"
  "el_timeouts (dm_eventLoop w_scheduled) = [w_timeout]" "dm_workQueue w_scheduled = WorkQueue_new"
  by (simp_all add: w_system_def w_scheduled_def w_daemon_list) (simp add: w_daemon_def)

lemma w_next: "CheckParams_nextCheckTime 300000 w_addr w_params \<le> 300000"
  by (simp add: CheckParams_nextCheckTime_def w_params_def w_result_def CheckResult_new_def ts_plus_def
      CheckParams_default_def)

lemma w_system_inv: "system_inv True False (''h'', w_check) w_addr [] w_scheduled"
proof -
  have "check_idle w_addr [w_params]"
    by (simp add: check_idle_def w_params_def w_result_def CheckResult_new_def)
  then have "scheduled (''h'', w_check) w_addr w_scheduled"
    using w_next by (simp add: scheduled_def w_list_range timeout_for_def w_timeout_def Timeout_healthCheck_def)
  moreover have "plain_system False [] w_scheduled"
    using w_list_sorted w_plain_check
    by (simp add: plain_system_def w_queue w_timeout_def Timeout_healthCheck_def)
      (simp add: w_scheduled_def w_daemon_def State_new_def)
  ultimately show ?thesis
    by (simp add: system_inv_def check_kept_def pending_once_def pending_def w_queue)
qed

lemma w_probe_ok: "probe_ok w_probe"
  by (simp add: probe_ok_def w_probe_def work_for_def)

lemma w_not_blank: "\<not> is_blank w_addr"
  by (simp add: is_blank_def w_addr_def)

text \<open>The tracker takes the timeout out and queues the check.\<close>

lemma w_tracked:
  "\<exists>d w. wq_queue (dm_workQueue d) = [w] \<and> for_check (''h'', w_check) w_addr w
    \<and> dm_checkList d = range_adjust (''h'', w_check) (CheckParams_queueQuerry w_addr) w_list
    \<and> run_steps live False percent w_probe resolve (''h'', w_check) w_addr w_system
         \<lparr>sy_daemon = d, sy_running = []\<rparr>"
proof -
  let ?e = "w_scheduled\<lparr>dm_eventLoop := EventLoop_pop (dm_eventLoop w_scheduled)\<rparr>"
  obtain d w where d: "dm_queueCheck False 300000 ''h'' w_addr w_check ?e = Some d"
    "wq_queue (dm_workQueue d) = [w]" "Work_getWorkType w = HM_WORK_HEALTHCHECK" "work_for ''h'' w_addr w_check w"
    using queueCheck_plain [OF w_plain_check, of 300000 "''h''" w_addr ?e] by (auto simp: w_queue)
  have top: "EventLoop_top (dm_eventLoop w_scheduled) = w_timeout"
    by (simp add: EventLoop_top_def timeouts_top_def pq_top_def)
  have "CheckList_checkNeeded 300000 ''h'' w_addr w_check w_list = HM_SCHEDULE_WORK"
    by (rule checkNeeded_due [OF w_not_blank _ _ w_next])
      (simp_all add: w_list_range check_idle_def w_params_def w_result_def CheckResult_new_def)
  then have "EventLoop_dispatch False 300000 w_timeout ?e = Some d"
    using d(1) by (simp add: EventLoop_dispatch_def w_timeout_def Timeout_healthCheck_def Let_def)
  then have "system_step False percent w_probe resolve w_system Track \<lparr>sy_daemon = d, sy_running = []\<rparr>"
    unfolding w_system_def by (intro track [where now = 300000]) (simp_all add: top, simp add: w_timeout_def Timeout_healthCheck_def)
  from run_steps.step [OF run_steps.refl this, of "(''h'', w_check)" w_addr live]
  have "run_steps live False percent w_probe resolve (''h'', w_check) w_addr w_system
      \<lparr>sy_daemon = d, sy_running = []\<rparr>"
    by simp
  then show ?thesis
    using d queueCheck_adjusts(1) [OF d(1)]
    by (intro exI [of _ d] exI [of _ w]) (simp add: for_check_def work_for_def adjusts_def)
qed

lemma one_work_order_per_check_witness:
  "\<exists>s'. run_steps False False (\<lambda>_ _. 0) w_probe (\<lambda>w c. (w, c, False)) (''h'', w_check) w_addr w_system s'
     \<and> length (pending (''h'', w_check) w_addr (sy_running s') (sy_daemon s')) = 1
     \<and> (\<forall>p \<in> set (range_params (''h'', w_check) (dm_checkList (sy_daemon s'))). busy w_addr p)"
proof -
  obtain d w where d: "wq_queue (dm_workQueue d) = [w]" "for_check (''h'', w_check) w_addr w"
    and run: "run_steps False False (\<lambda>_ _. 0) w_probe (\<lambda>w c. (w, c, False)) (''h'', w_check) w_addr w_system
         \<lparr>sy_daemon = d, sy_running = []\<rparr>"
    using w_tracked by blast
  have "length (pending (''h'', w_check) w_addr [] d) = 1" using d by (simp add: pending_def)
  then show ?thesis
    using one_work_order_per_check [OF run w_probe_ok w_not_blank] w_system_inv run
    by (intro exI [of _ "\<lparr>sy_daemon = d, sy_running = []\<rparr>"])
      (auto simp: system_inv_def pending_def w_queue)
qed

lemma check_never_lost_witness:
  "\<exists>s'. run_steps True False (\<lambda>_ _. 0) w_probe (\<lambda>w c. (w, c, False)) (''h'', w_check) w_addr w_system s'
     \<and> (pending (''h'', w_check) w_addr (sy_running s') (sy_daemon s') \<noteq> []
        \<or> scheduled (''h'', w_check) w_addr (sy_daemon s'))"
proof -
  obtain d where run: "run_steps True False (\<lambda>_ _. 0) w_probe (\<lambda>w c. (w, c, False)) (''h'', w_check) w_addr
      w_system \<lparr>sy_daemon = d, sy_running = []\<rparr>"
    and list: "dm_checkList d = range_adjust (''h'', w_check) (CheckParams_queueQuerry w_addr) w_list"
    using w_tracked by blast
  have sorted: "mmap_sorted CompareCheckList (cl_checklist w_list)"
    using w_list_sorted by (simp add: CheckList_sorted_def)
  have "served (''h'', w_check) w_addr d"
    by (simp add: served_def list range_adjust_range [OF sorted] w_list_range CheckParams_isValidIP_def
        CheckParams_queueQuerry_def data_find_touch w_params_def data_touch_def data_adjust_def
        CheckParams_default_def map_sorted_def)
  with check_never_lost [OF run w_probe_ok w_not_blank] w_system_inv run show ?thesis
    by (intro exI [of _ "\<lparr>sy_daemon = d, sy_running = []\<rparr>"]) simp
qed

lemma decide_then_queue_race_witness:
  "\<exists>d' d''. dm_queueCheck False 300000 ''h'' w_addr w_check w_scheduled = Some d'
     \<and> dm_queueCheck False 300000 ''h'' w_addr w_check d' = Some d''
     \<and> length (pending (''h'', w_check) w_addr [] d'') = 2"
proof -
  have "CheckList_checkNeeded 300000 ''h'' w_addr w_check w_list = HM_SCHEDULE_WORK"
    by (rule checkNeeded_due [OF w_not_blank _ _ w_next])
      (simp_all add: w_list_range check_idle_def w_params_def w_result_def CheckResult_new_def)
  with decide_then_queue_race [OF w_plain_check, of w_scheduled 300000 "''h''" w_addr "[]"] w_list_sorted
  show ?thesis by (auto simp: pending_def w_queue)
qed

definition w_gone :: HMDaemon where
  "w_gone = set_checkList (CheckList_new\<lparr>cl_checklist :=
     [((''h'', w_check), 0, w_params\<lparr>cp_checkData := []\<rparr>)]\<rparr>) w_daemon"

lemma returned_address_second_order_witness:
  "\<exists>d'. dns_kick_address False 7 w_static_work w_check w_addr w_gone = Some d'
     \<and> length (pending (''h'', w_check) w_addr [Work_new HMWorkHealthCheckTCP ''h'' w_addr w_check] d') = 2"
proof -
  have w: "wk_hostname w_static_work = ''h''" by (simp add: w_static_work_def Work_new_def)
  have range: "range_params (''h'', w_check) (dm_checkList w_gone) = [w_params\<lparr>cp_checkData := []\<rparr>]"
    by (simp add: w_gone_def range_params_filter mmap_sorted_def)
  have one: "length (pending (''h'', w_check) w_addr [Work_new HMWorkHealthCheckTCP ''h'' w_addr w_check] w_gone) = 1"
    by (simp add: pending_def w_gone_def w_daemon_def w_queue for_check_def Work_new_def Work_getWorkType_def)
  show ?thesis
    using returned_address_second_order [OF w_plain_check, where w = w_static_work and ip = w_addr
        and d = w_gone and now = 7 and ws = "[Work_new HMWorkHealthCheckTCP ''h'' w_addr w_check]",
        unfolded w range one] w_not_blank
    by (auto simp: result_gone_def range)
qed

end
