(* ===== verification/HM_Reload.thy ===== *)
theory HM_Reload
  imports HM_Config HM_Connections
begin

text \<open>
  Loading and exchanging the state of the daemon (\<open>HMState.cpp\<close>, \<open>HMStateManager.cpp\<close>): the store of a state, the
  hash of a configuration, the results that go from one state to the next, and the four operations of the
  manager that install a state: \<open>loadDaemonState\<close>, \<open>reloadDaemonConfigs\<close>, \<open>refreshDaemonConfigs\<close> and
  \<open>commitDaemonConfigs\<close>.

  A state with its parameters and its store is a record \<open>HMRunState\<close>. Two stores may have the same file open, so the
  contents of the files are kept beside the states and every call of a store works on the file of its
  state; the pointers of the store refer to the groups and the DNS cache of its state. OpenSSL, the digest and
  \<open>mdbm_open\<close> are parameters, in the record \<open>reload_env\<close>. The text store is in \<open>HM_StorageText\<close>, and not one of the stores opened here. Undefined behaviour and exceptions
  are values of \<open>daemon_error\<close>; \<open>None\<close> is the result \<open>false\<close> of a step whose state the caller drops.
\<close>

section \<open>States with their store\<close>

record HMSSLCtx =
  sc_cert :: string
  sc_key :: string
  sc_ca :: string
  sc_verifyPeer :: bool

record 'db HMRunState =
  rn_state :: HMState
  rn_settings :: HMSettings
  rn_auxCache :: HMAuxCache
  rn_datastore :: "'db HMStorage option"
  rn_ctx :: "HMSSLCtx option"
  rn_connectionHandler :: "unit HMConnectionHandler option"

record 'db reload_env =
  re_lib :: "'db mdbm"
  re_config :: config_env
  re_md5 :: "string list \<Rightarrow> HMHash option"
  re_open :: "string \<Rightarrow> bool \<Rightarrow> bool"
  re_cert :: "string \<Rightarrow> bool"
  re_key :: "string \<Rightarrow> bool"
  re_match :: "string \<Rightarrow> string \<Rightarrow> bool"
  re_ca :: "string \<Rightarrow> bool"
  re_pubsub :: "string \<Rightarrow> bool"
  re_ares :: bool
  re_now :: HMTimeStamp
  re_clock :: "nat \<Rightarrow> HMTimeStamp"
  re_waiting :: bool

type_synonym 'db files = "string \<Rightarrow> 'db"

definition RunState_new :: "'db HMRunState" where
  "RunState_new =
     \<lparr>rn_state = State_new, rn_settings = Settings_new, rn_auxCache = [], rn_datastore = None,
      rn_ctx = None, rn_connectionHandler = None\<rparr>"

text \<open>The parameters of a state that are fields of \<open>HMState\<close> here.\<close>

definition copy_params :: "HMState \<Rightarrow> HMState \<Rightarrow> HMState" where
  "copy_params k st =
     st\<lparr>st_httpDefaultCheckClass := st_httpDefaultCheckClass k, st_ftpDefaultCheckClass := st_ftpDefaultCheckClass k,
        st_tcpDefaultCheckClass := st_tcpDefaultCheckClass k, st_tcpsDefaultCheckClass := st_tcpsDefaultCheckClass k,
        st_dnsDefaultCheckClass := st_dnsDefaultCheckClass k, st_noneDefaultCheckClass := st_noneDefaultCheckClass k,
        st_auxDefaultCheckClass := st_auxDefaultCheckClass k, st_markDefaultCheckClass := st_markDefaultCheckClass k,
        st_enableSecureRemote := st_enableSecureRemote k, st_enableSharedConnection := st_enableSharedConnection k,
        st_dnsLookDefaultPlugin := st_dnsLookDefaultPlugin k,
        st_dnsStaticDefaultPlugin := st_dnsStaticDefaultPlugin k\<rparr>"

definition RunState_copyMasterParams :: "'db HMRunState \<Rightarrow> 'db HMRunState \<Rightarrow> 'db HMRunState" where
  "RunState_copyMasterParams k r =
     r\<lparr>rn_state := copy_params (rn_state k) (rn_state r),
       rn_settings := (rn_settings k)\<lparr>se_configsLoaded := se_configsLoaded (rn_settings r),
         se_stateActive := se_stateActive (rn_settings r)\<rparr>\<rparr>"

text \<open>The copy constructor takes the groups along.\<close>

definition RunState_copy :: "'db HMRunState \<Rightarrow> 'db HMRunState" where
  "RunState_copy k =
     RunState_new\<lparr>rn_state := (copy_params (rn_state k) State_new)\<lparr>st_hostGroups := st_hostGroups (rn_state k)\<rparr>,
       rn_settings := (rn_settings k)\<lparr>se_configsLoaded := False, se_stateActive := False\<rparr>\<rparr>"

text \<open>A call of the store of a state.\<close>

definition store_view :: "'db HMRunState \<Rightarrow> 'db files \<Rightarrow> 'db HMStorage \<Rightarrow> 'db HMStorage" where
  "store_view r files s =
     s\<lparr>sg_hostGroupMap := st_hostGroups (rn_state r), sg_dnsCache := st_dnsCache (rn_state r),
       sg_db := files (se_storagePath (rn_settings r))\<rparr>"

definition on_store ::
    "('db HMStorage \<Rightarrow> buffer_error + ('db HMStorage \<times> 'r)) \<Rightarrow> 'db HMRunState \<times> 'db files \<Rightarrow>
     daemon_error + (('db HMRunState \<times> 'db files) \<times> 'r)" where
  "on_store f = (\<lambda>(r, files).
     case rn_datastore r of None \<Rightarrow> Inl (config_fault null_store)
     | Some s \<Rightarrow>
         res_bind (lift_storage (f (store_view r files s))) (\<lambda>(s, x).
           Inr ((r\<lparr>rn_datastore := Some s\<rparr>, files(se_storagePath (rn_settings r) := sg_db s)), x)))"

section \<open>The backend\<close>

text \<open>\<open>openBackend\<close> with the MDBM store; \<open>text_store\<close> stands for the class that is not modelled.\<close>

definition State_openBackend ::
    "'db reload_env \<Rightarrow> bool \<Rightarrow> 'db HMRunState \<times> 'db files \<Rightarrow> daemon_error + (('db HMRunState \<times> 'db files) \<times> bool)" where
  "State_openBackend env readOnly = (\<lambda>(r, files).
     let se = rn_settings r; path = se_storagePath se
     in if se_storageClass se \<noteq> HM_STORAGE_MDBM then Inl text_store
        else on_store (Storage_openStore (re_lib env) (\<lambda>ro. if re_open env path ro then Some (files path) else None) readOnly)
               (r\<lparr>rn_datastore := Some (Storage_updateLockPolicy (se_storageLockPolicy se)
                    (Storage_updateHealthCheckCommitPolicy (se_healthCheckPolicy se)
                      (Storage_updateAuxCommitPolicy (se_auxPolicy se)
                        (Storage_new (st_hostGroups (rn_state r)) (st_dnsCache (rn_state r)) (files path)))))\<rparr>, files))"

definition close_store :: "'db reload_env \<Rightarrow> 'db HMRunState \<times> 'db files \<Rightarrow> daemon_error + 'db files" where
  "close_store env rf =
     res_bind (on_store (\<lambda>s. res_bind (Storage_closeStore (re_lib env) (re_clock env) (re_waiting env) s) (\<lambda>s. Inr (s, ()))) rf)
       (\<lambda>((_, files), _). Inr files)"

section \<open>The hash of a configuration\<close>

text \<open>A hash of size zero equals every hash.\<close>

definition Hash_eq :: "HMHash \<Rightarrow> HMHash \<Rightarrow> bool" where
  "Hash_eq a b \<longleftrightarrow>
     ha_hashSize a = 0 \<or> ha_hashSize b = 0
     \<or> ha_hashSize a = ha_hashSize b
       \<and> take (unat (ha_hashSize a)) (ha_hashValue a) = take (unat (ha_hashSize a)) (ha_hashValue b)"

definition State_hashHostGroupMap :: "'db reload_env \<Rightarrow> HMDataHostGroupMap \<Rightarrow> HMDataHostGroupMap" where
  "State_hashHostGroupMap env groups =
     map (\<lambda>(n, g). (n, case re_md5 env (HostGroup_getHash g) of None \<Rightarrow> g
          | Some h \<Rightarrow> g\<lparr>hg_hashValue := take (unat (ha_hashSize h)) (ha_hashValue h)\<rparr>)) groups"

definition State_hashConfigs :: "'db reload_env \<Rightarrow> HMDataHostGroupMap \<Rightarrow> HMHash option" where
  "State_hashConfigs env groups = re_md5 env (concat (map (HostGroup_getHash \<circ> snd) groups))"

definition HM_CONFIG_STATUS_OK :: u8 where "HM_CONFIG_STATUS_OK = 0"

definition State_storeConfigInfo ::
    "'db reload_env \<Rightarrow> 'db HMRunState \<times> 'db files \<Rightarrow> daemon_error + (('db HMRunState \<times> 'db files) \<times> bool)" where
  "State_storeConfigInfo env rf =
     on_store (\<lambda>s. Inr (MDBM_storeConfigInfo (re_lib env)
       \<lparr>ci_version = HM_MDBM_VERSION, ci_configStatus = HM_CONFIG_STATUS_OK, ci_configLoadTime = re_now env,
        ci_hash = se_hash (rn_settings (fst rf))\<rparr> s)) rf"

definition store_configs ::
    "'db reload_env \<Rightarrow> 'db HMRunState \<times> 'db files \<Rightarrow> daemon_error + ('db HMRunState \<times> 'db files)" where
  "store_configs env rf =
     res_bind (on_store (Storage_storeConfigs (re_lib env) (rn_state (fst rf))) rf) (\<lambda>(rf, _).
     res_bind (State_storeConfigInfo env rf) (\<lambda>(rf, _). Inr rf))"

definition State_hashStoreConfig ::
    "'db reload_env \<Rightarrow> 'db HMRunState \<times> 'db files \<Rightarrow> daemon_error + ('db HMRunState \<times> 'db files)" where
  "State_hashStoreConfig env = (\<lambda>(r, files).
     let groups = State_hashHostGroupMap env (st_hostGroups (rn_state r));
         r = r\<lparr>rn_state := (rn_state r)\<lparr>st_hostGroups := groups\<rparr>\<rparr>
     in case State_hashConfigs env groups of None \<Rightarrow> Inr (r, files)
        | Some h \<Rightarrow> store_configs env (r\<lparr>rn_settings := (rn_settings r)\<lparr>se_hash := h\<rparr>\<rparr>, files))"

definition set_guard :: "'db HMRunState \<Rightarrow> 'db HMRunState" where
  "set_guard r = r\<lparr>rn_state := (rn_state r)\<lparr>st_checkList := CheckList_setGuard True (st_checkList (rn_state r))\<rparr>\<rparr>"

definition State_setupDaemonstate ::
    "'db reload_env \<Rightarrow> 'db HMRunState \<times> 'db files \<Rightarrow> daemon_error + ('db HMRunState \<times> 'db files) option" where
  "State_setupDaemonstate env = (\<lambda>(r, files).
     if \<not> se_masterConfigLoaded (rn_settings r) then Inr None
     else res_bind (State_loadAllConfigs (re_lib env) (re_config env) (map_option (store_view r files) (rn_datastore r))
         (rn_state r, rn_settings r)) (\<lambda>s.
       case s of None \<Rightarrow> Inr None
       | Some (st, se) \<Rightarrow>
           res_bind (State_hashStoreConfig env
             (r\<lparr>rn_state := State_generateCheckList st, rn_settings := se\<rparr>, files)) (\<lambda>(r, files).
             Inr (Some (set_guard r, files)))))"

section \<open>Results of the state before\<close>

text \<open>The addresses of a check: those of the DNS cache for a check of our own, those with results for a remote
  host.\<close>

definition check_lookup :: "HMCheckHeader \<Rightarrow> bool \<Rightarrow> HMDNSLookup" where
  "check_lookup h ipv6 = DNSLookup_new (hc_DNSType (ch_hostCheck h)) ipv6 (hc_remoteCheck (ch_hostCheck h))"

definition check_addresses :: "HMState \<Rightarrow> HMCheckHeader \<Rightarrow> HMIPAddress list" where
  "check_addresses src h =
     (let name = ch_hostname h; hc = ch_hostCheck h
      in if hc_flowType hc = HM_FLOW_DNS_HEALTH_TYPE then
           fst (DNSCache_getAddresses name HM_DUALSTACK_IPV6_ONLY (check_lookup h True)
             (fst (DNSCache_getAddresses name HM_DUALSTACK_IPV4_ONLY (check_lookup h False) [] (st_dnsCache src)))
             (st_dnsCache src))
         else if hc_flowType hc = HM_FLOW_REMOTE_HOST_TYPE then
           fst (CheckList_getCheckResultsAddress name hc (hc_dualstack hc) (st_checkList src))
         else [])"

text \<open>For a lookup of our own the entry of the DNS cache goes along. The iterators are only set when the
  old cache has the entry.\<close>

definition restore_dns :: "HMState \<Rightarrow> HMCheckHeader \<Rightarrow> HMState \<Rightarrow> daemon_error + HMState" where
  "restore_dns src h st =
     (if hc_flowType (ch_hostCheck h) = HM_FLOW_DNS_HEALTH_TYPE then
        let name = ch_hostname h; addresses = check_addresses src h;
            r4 = DNSCache_getDNSResult name (check_lookup h False) (st_dnsCache src);
            r6 = DNSCache_getDNSResult name (check_lookup h True) (st_dnsCache src)
        in if list_ex (\<lambda>a. IPAddress_getType a = AF_INET) addresses \<and> r4 = None
              \<or> list_ex (\<lambda>a. IPAddress_getType a = AF_INET6) addresses \<and> r6 = None
           then Inl (config_fault null_iterator)
           else Inr (st\<lparr>st_dnsCache := DNSCache_updateReloadDNSEntry name addresses
                  (case r4 of Some r \<Rightarrow> r | None \<Rightarrow> DNSResult_default) (case r6 of Some r \<Rightarrow> r | None \<Rightarrow> DNSResult_default)
                  (check_lookup h False) (st_dnsCache st)\<rparr>)
      else Inr st)"

definition restore_remote_time :: "HMState \<Rightarrow> HMCheckHeader \<Rightarrow> HMState \<Rightarrow> HMState" where
  "restore_remote_time src h st =
     (if hc_flowType (ch_hostCheck h) = HM_FLOW_REMOTE_HOST_TYPE then
        (case RemoteHostCache_getRemoteResult (ch_hostname h) (ch_hostCheck h) (st_remoteHostCache src) of
           None \<Rightarrow> st
         | Some result \<Rightarrow>
             st\<lparr>st_remoteHostCache := RemoteHostCache_updateResultTime (ch_hostname h) (ch_hostCheck h)
                  (rr_resultTime result) (st_remoteHostCache st)\<rparr>)
      else st)"

text \<open>The turn for one address. The header keeps the groups that are added to its parameters.\<close>

definition restore_address ::
    "HMTimeStamp \<Rightarrow> HMState \<Rightarrow> HMIPAddress \<Rightarrow> HMCheckHeader \<times> 'db HMRunState \<Rightarrow>
     daemon_error + (HMCheckHeader \<times> 'db HMRunState)" where
  "restore_address now src address = (\<lambda>(h, r).
     let h = h\<lparr>ch_address := address\<rparr>
     in case CheckList_getCheckResult h (st_checkList src) of None \<Rightarrow> Inr (h, r)
        | Some result \<Rightarrow>
            if (case CheckList_getCheckResult h (st_checkList (rn_state r)) of None \<Rightarrow> True
                | Some tmp_result \<Rightarrow> cr_checkTime tmp_result < cr_checkTime result) then
              let result = result\<lparr>cr_queryState := HM_CHECK_INACTIVE\<rparr>;
                  (cl, found) = CheckList_updateCheckHeader h result (st_checkList (rn_state r));
                  r = r\<lparr>rn_state := restore_remote_time src h ((rn_state r)\<lparr>st_checkList := cl\<rparr>)\<rparr>;
                  dHgs = fst (CheckList_getHostGroups h [] cl)
              in if found then
                   let h = h\<lparr>ch_checkParams := fold CheckParams_addHostGroup dHgs (ch_checkParams h)\<rparr>
                   in case rn_datastore r of None \<Rightarrow> Inl (config_fault null_store)
                      | Some s \<Rightarrow> Inr (h, r\<lparr>rn_datastore := Some (fst (Storage_updateCheckResultCache now h result s))\<rparr>)
                 else Inr (h, r)
            else Inr (h, r))"

definition restore_check_header ::
    "HMTimeStamp \<Rightarrow> HMState \<Rightarrow> HMCheckHeader \<Rightarrow> 'db HMRunState \<Rightarrow> daemon_error + 'db HMRunState" where
  "restore_check_header now src h r =
     res_bind (restore_dns src h (rn_state r)) (\<lambda>st.
     res_bind (res_fold (restore_address now src) (check_addresses src h) (h, r\<lparr>rn_state := st\<rparr>)) (\<lambda>(_, r). Inr r))"

text \<open>The stored results of a group that another host checks.\<close>

definition restore_group ::
    "'db reload_env \<Rightarrow> 'db HMRunState \<Rightarrow> string \<times> HMDataHostGroup \<Rightarrow> 'db HMRunState \<times> 'db files \<Rightarrow>
     daemon_error + ('db HMRunState \<times> 'db files)" where
  "restore_group env src = (\<lambda>(name, g) rf.
     if hg_flowType g \<noteq> HM_FLOW_REMOTE_HOSTGROUP_TYPE then Inr rf
     else case rn_datastore src of None \<Rightarrow> Inl (config_fault null_store)
       | Some s \<Rightarrow>
           let results = filter (\<lambda>r. HostGroup_isValidHost (gr_hostName r) g) (fst (Storage_getGroupCheckResults_cached name s))
           in res_bind (on_store (Storage_storeHostGroupCheckResult (re_lib env) name results) rf) (\<lambda>((r, files), _).
                Inr (case RemoteHostGroupCache_getRemoteResult name (st_remoteCache (rn_state src)) of
                       None \<Rightarrow> (r, files)
                     | Some result \<Rightarrow>
                         (r\<lparr>rn_state := (rn_state r)\<lparr>st_remoteCache :=
                            RemoteHostGroupCache_updateResultTime name (rr_resultTime result) (st_remoteCache (rn_state r))\<rparr>\<rparr>,
                          files))))"

definition State_restoreRunningCheckState ::
    "'db reload_env \<Rightarrow> 'db HMRunState \<Rightarrow> 'db HMRunState \<times> 'db files \<Rightarrow> daemon_error + ('db HMRunState \<times> 'db files)" where
  "State_restoreRunningCheckState env src = (\<lambda>(r, files).
     res_bind (res_fold (restore_check_header (re_now env) (rn_state src))
       (CheckList_getAllChecks (st_checkList (rn_state src))) r) (\<lambda>r.
     res_bind (res_fold (restore_group env src) (st_hostGroups (rn_state r)) (r, files)) (\<lambda>(r, files).
       Inr (r\<lparr>rn_state := (rn_state r)\<lparr>st_dnsCache := (st_dnsCache (rn_state r))
              \<lparr>dc_staticDNS := dc_staticDNS (st_dnsCache (rn_state src))\<rparr>\<rparr>\<rparr>, files))))"

definition State_restoreStoredCheckState ::
    "'db reload_env \<Rightarrow> 'db HMRunState \<times> 'db files \<Rightarrow> daemon_error + ('db HMRunState \<times> 'db files)" where
  "State_restoreStoredCheckState env rf =
     res_bind (on_store (\<lambda>s. res_bind (Storage_initResultsFromBackend (re_lib env) (re_clock env) (re_waiting env)
         (rn_state (fst rf), rn_auxCache (fst rf)) s) (\<lambda>(s, st, aux). Inr (s, (st, aux)))) rf) (\<lambda>((r, files), (st, aux)).
       Inr (r\<lparr>rn_state := st, rn_auxCache := aux\<rparr>, files))"


section \<open>The state manager\<close>

record 'db HMStateManager =
  mg_currentState :: "'db HMRunState option"
  mg_newTransactionState :: "'db HMRunState option"
  mg_workQueue :: HMWorkQueue
  mg_eventLoop :: HMEventLoopQueue
  mg_files :: "'db files"

text \<open>\<open>updateState\<close> and \<open>updateTransactionState\<close> for an empty pointer, as the commands of the control socket call them.\<close>

definition StateManager_updateState :: "'db HMStateManager \<Rightarrow> 'db HMRunState option" where
  "StateManager_updateState mg = mg_currentState mg"

definition StateManager_updateTransactionState :: "'db HMStateManager \<Rightarrow> 'db HMRunState option" where
  "StateManager_updateTransactionState mg = mg_newTransactionState mg"

definition StateManager_resetTransactionState :: "'db HMStateManager \<Rightarrow> 'db HMStateManager option" where
  "StateManager_resetTransactionState mg =
     map_option (\<lambda>r. mg\<lparr>mg_newTransactionState := Some (RunState_copy r)\<rparr>) (StateManager_updateState mg)"

definition StateManager_loadCertificates :: "'db reload_env \<Rightarrow> 'db HMRunState \<Rightarrow> 'db HMRunState option" where
  "StateManager_loadCertificates env r =
     (let se = rn_settings r
      in if st_enableSecureRemote (rn_state r) then
           if se_certFile se = [] \<or> \<not> re_cert env (se_certFile se) then None
           else if se_keyFile se = [] \<or> \<not> re_key env (se_keyFile se) then None
           else if \<not> re_match env (se_certFile se) (se_keyFile se) then None
           else if se_caFile se = [] \<or> \<not> re_ca env (se_caFile se) then None
           else Some (r\<lparr>rn_ctx := Some \<lparr>sc_cert = se_certFile se, sc_key = se_keyFile se, sc_ca = se_caFile se,
                           sc_verifyPeer = se_enableMutualAuth se\<rparr>,
                         rn_connectionHandler := Some (ConnectionHandler_new True (se_maxConnections se))\<rparr>)
         else Some (r\<lparr>rn_connectionHandler := Some (ConnectionHandler_new False (se_maxConnections se))\<rparr>))"

definition State_loadPubSubConfig :: "'db reload_env \<Rightarrow> 'db HMRunState \<Rightarrow> 'db HMRunState option" where
  "State_loadPubSubConfig env r =
     (let file = se_PubSubConfigFile (rn_settings r)
      in if file \<noteq> [] \<and> \<not> re_pubsub env file then None
         else Some (r\<lparr>rn_state := (rn_state r)\<lparr>st_resultPublisher := True\<rparr>\<rparr>))"

text \<open>\<open>swapStates\<close>: what is put into the queue for the new state.\<close>

definition swap_queues ::
    "'db reload_env \<Rightarrow> HMState \<Rightarrow> HMState \<times> HMWorkQueue \<times> HMEventLoopQueue \<Rightarrow>
     daemon_error + (HMState \<times> HMWorkQueue \<times> HMEventLoopQueue)" where
  "swap_queues env old = (\<lambda>(st, q, el).
     case State_resheduleHealthChecks (re_ares env) (re_now env) old
            (State_resheduleDNSChecks (re_ares env) (re_now env) old (st, q)) of
       None \<Rightarrow> Inl null_work
     | Some (st, q) \<Rightarrow>
         let (c, q, el) = DNSCache_queueDNSLookups (re_ares env) (re_now env) False (st_dnsCache st, q, el);
             st = st\<lparr>st_dnsCache := c\<rparr>;
             (rc, q, el) = RemoteHostGroupCache_queueRemoteLookups (re_now env) False (st_hostGroups st) (st_remoteCache st, q, el);
             st = st\<lparr>st_remoteCache := rc\<rparr>;
             (rh, q, el) = RemoteHostCache_queueRemoteLookups (re_now env) False (st_remoteHostCache st, q, el)
         in Inr (st\<lparr>st_remoteHostCache := rh\<rparr>, q, el))"

text \<open>
  \<open>flight\<close> is what the work that is still running does to the old state before the last handle to it is
  given back; what happens to the new state in that time is left out. At the end the old state is
  destroyed, which closes its store.
\<close>

definition StateManager_swapStates ::
    "'db reload_env \<Rightarrow> ('db HMRunState \<Rightarrow> 'db HMRunState) \<Rightarrow> 'db HMRunState \<times> 'db files \<Rightarrow> 'db HMStateManager \<Rightarrow>
     daemon_error + 'db HMStateManager" where
  "StateManager_swapStates env flight new mg =
     (case mg_currentState mg of None \<Rightarrow> Inl (config_fault null_store)
      | Some old \<Rightarrow>
          res_bind (State_restoreRunningCheckState env old new) (\<lambda>(r, files).
          let transaction = RunState_copy r
          in res_bind (swap_queues env (rn_state old) (rn_state r, mg_workQueue mg, mg_eventLoop mg)) (\<lambda>(st, q, el).
             res_bind (on_store (\<lambda>s. res_bind (Storage_updateHostGroups (re_lib env) (State_updateBackend (rn_state old) st) s)
                 (\<lambda>s. Inr (s, ()))) (r\<lparr>rn_state := st\<rparr>, files)) (\<lambda>(rf, _).
             res_bind (State_restoreRunningCheckState env (flight old) rf) (\<lambda>(r, files).
             res_bind (close_store env (flight old, files)) (\<lambda>files.
               Inr (mg\<lparr>mg_currentState := Some r, mg_newTransactionState := Some transaction, mg_workQueue := q,
                       mg_eventLoop := EventLoop_wakeupTracker el, mg_files := files\<rparr>)))))))"

datatype HM_COMMIT_TRANSACTION_STATUS =
  HM_COMMIT_TRANSACTION_SUCCESS | HM_COMMIT_TRANSACTION_HASH_MISMATCH | HM_COMMIT_TRANSACTION_FAILURE

definition inherit_handles :: "'db HMRunState \<Rightarrow> 'db HMRunState \<Rightarrow> 'db HMRunState" where
  "inherit_handles current r =
     r\<lparr>rn_ctx := rn_ctx current, rn_connectionHandler := rn_connectionHandler current,
       rn_state := (rn_state r)\<lparr>st_resultPublisher := st_resultPublisher (rn_state current)\<rparr>\<rparr>"

definition StateManager_commitDaemonConfigs ::
    "'db reload_env \<Rightarrow> ('db HMRunState \<Rightarrow> 'db HMRunState) \<Rightarrow> HMHash \<Rightarrow> 'db HMStateManager \<Rightarrow>
     daemon_error + ('db HMStateManager \<times> HM_COMMIT_TRANSACTION_STATUS)" where
  "StateManager_commitDaemonConfigs env flight hash mg =
     (case (mg_newTransactionState mg, mg_currentState mg) of
        (Some t, Some current) \<Rightarrow>
          let r = RunState_copy t
          in case State_hashConfigs env (st_hostGroups (rn_state r)) of
               None \<Rightarrow> Inr (mg, HM_COMMIT_TRANSACTION_FAILURE)
             | Some h \<Rightarrow>
                 if \<not> Hash_eq hash h then Inr (mg, HM_COMMIT_TRANSACTION_HASH_MISMATCH)
                 else
                   res_bind (State_openBackend env False (r\<lparr>rn_settings := (rn_settings r)\<lparr>se_hash := h\<rparr>\<rparr>, mg_files mg))
                     (\<lambda>((r, files), ok).
                       if \<not> ok then Inr (mg\<lparr>mg_files := files\<rparr>, HM_COMMIT_TRANSACTION_FAILURE)
                       else
                         let r = inherit_handles current r;
                             r = r\<lparr>rn_state := State_generateCheckList (rn_state r)\<rparr>
                         in res_bind (store_configs env (r, files)) (\<lambda>(r, files).
                            res_bind (StateManager_swapStates env flight (set_guard r, files) mg) (\<lambda>mg.
                              Inr (mg, HM_COMMIT_TRANSACTION_SUCCESS))))
      | _ \<Rightarrow> Inl (config_fault null_store))"

definition StateManager_refreshDaemonConfigs ::
    "'db reload_env \<Rightarrow> ('db HMRunState \<Rightarrow> 'db HMRunState) \<Rightarrow> 'db HMStateManager \<Rightarrow> daemon_error + ('db HMStateManager \<times> bool)" where
  "StateManager_refreshDaemonConfigs env flight mg =
     (case mg_currentState mg of None \<Rightarrow> Inl (config_fault null_store)
      | Some current \<Rightarrow>
          res_bind (State_openBackend env False (RunState_copyMasterParams current RunState_new, mg_files mg)) (\<lambda>((r, files), ok).
            if \<not> ok then Inr (mg\<lparr>mg_files := files\<rparr>, False)
            else
              let r = inherit_handles current r
              in res_bind (State_setupDaemonstate env (r, files)) (\<lambda>s.
                   case s of
                     None \<Rightarrow> res_bind (close_store env (r, files)) (\<lambda>files. Inr (mg\<lparr>mg_files := files\<rparr>, False))
                   | Some rf \<Rightarrow> res_bind (StateManager_swapStates env flight rf mg) (\<lambda>mg. Inr (mg, True)))))"

text \<open>The new state of \<open>loadDaemonState\<close> and of \<open>reloadDaemonConfigs\<close>, which have these steps in common; the files
  may be changed although the load fails.\<close>

definition load_new_state ::
    "'db reload_env \<Rightarrow> string \<Rightarrow> (HMSettings \<Rightarrow> HMSettings) \<Rightarrow> 'db files \<Rightarrow>
     daemon_error + ('db HMRunState option \<times> 'db files)" where
  "load_new_state env masterConfig adapt files =
     res_bind (lift_config (State_parseMasterConfig (re_config env) masterConfig (State_new, Settings_new))) (\<lambda>s.
       case s of None \<Rightarrow> Inr (None, files)
       | Some (st, se) \<Rightarrow>
           res_bind (State_openBackend env False
             (RunState_new\<lparr>rn_state := st, rn_settings := adapt (se\<lparr>se_masterConfig := masterConfig\<rparr>)\<rparr>, files)) (\<lambda>((r, files), ok).
             if \<not> ok then Inr (None, files)
             else case StateManager_loadCertificates env r of None \<Rightarrow> Inr (None, files)
               | Some r \<Rightarrow>
                   res_bind (State_setupDaemonstate env (r, files)) (\<lambda>s.
                     case s of
                       None \<Rightarrow> res_bind (close_store env (r, files)) (\<lambda>files. Inr (None, files))
                     | Some (r, files) \<Rightarrow> Inr (State_loadPubSubConfig env r, files))))"

definition StateManager_loadDaemonState ::
    "'db reload_env \<Rightarrow> string \<Rightarrow> 'db HMStateManager \<Rightarrow> daemon_error + ('db HMStateManager \<times> bool)" where
  "StateManager_loadDaemonState env masterConfig mg =
     res_bind (load_new_state env masterConfig (\<lambda>se. se) (mg_files mg)) (\<lambda>(r, files).
       case r of None \<Rightarrow> Inr (mg\<lparr>mg_files := files\<rparr>, False)
       | Some r \<Rightarrow>
           res_bind (State_restoreStoredCheckState env (r, files)) (\<lambda>(r', files).
             Inr (mg\<lparr>mg_currentState := Some r', mg_newTransactionState := Some (RunState_copy r), mg_files := files\<rparr>, True)))"

text \<open>The path of the control socket is kept.\<close>

definition StateManager_reloadDaemonConfigs ::
    "'db reload_env \<Rightarrow> ('db HMRunState \<Rightarrow> 'db HMRunState) \<Rightarrow> string \<Rightarrow> 'db HMStateManager \<Rightarrow>
     daemon_error + ('db HMStateManager \<times> bool)" where
  "StateManager_reloadDaemonConfigs env flight masterConfig mg =
     (case mg_currentState mg of None \<Rightarrow> Inl (config_fault null_store)
      | Some current \<Rightarrow>
          res_bind (load_new_state env masterConfig
              (\<lambda>se. se\<lparr>se_socketPath := se_socketPath (rn_settings current)\<rparr>) (mg_files mg)) (\<lambda>(r, files).
            case r of None \<Rightarrow> Inr (mg\<lparr>mg_files := files\<rparr>, False)
            | Some r \<Rightarrow> res_bind (StateManager_swapStates env flight (r, files) mg) (\<lambda>mg. Inr (mg, True))))"


section \<open>The results of the state before are kept\<close>

text \<open>Headers for the same entries of a check list.\<close>

definition same_check :: "HMCheckHeader \<Rightarrow> HMCheckHeader \<Rightarrow> bool" where
  "same_check h k \<longleftrightarrow>
     key_equiv CompareCheckList (ch_hostname h, ch_hostCheck h) (ch_hostname k, ch_hostCheck k)
     \<and> CheckParams_eq (ch_checkParams h) (ch_checkParams k) \<and> ch_address h = ch_address k"

definition has_entry :: "HMCheckHeader \<Rightarrow> HMDataCheckList \<Rightarrow> bool" where
  "has_entry h cl \<longleftrightarrow>
     list_ex (\<lambda>p. CheckParams_eq p (ch_checkParams h)) (range_params (ch_hostname h, ch_hostCheck h) cl)"

lemma getCheckResult_same:
  assumes "CheckList_sorted cl" and "same_check h k"
  shows "CheckList_getCheckResult h cl = CheckList_getCheckResult k cl"
proof -
  have "range_params (ch_hostname h, ch_hostCheck h) cl = range_params (ch_hostname k, ch_hostCheck k) cl"
    using assms by (intro range_params_equiv) (simp_all add: CheckList_sorted_def same_check_def)
  moreover have "CheckParams_eq p (ch_checkParams h) = CheckParams_eq p (ch_checkParams k)" for p
    using assms(2) by (auto simp: same_check_def CheckParams_eq_key)
  moreover have "ch_address h = ch_address k" using assms(2) by (simp add: same_check_def)
  ultimately show ?thesis unfolding CheckList_getCheckResult_def by (simp cong: if_cong)
qed

lemma updateCheckHeader_other:
  assumes "CheckList_sorted cl" and "CheckList_updateCheckHeader k result cl = (cl', found)" and "\<not> same_check h k"
  shows "CheckList_getCheckResult h cl' = CheckList_getCheckResult h cl"
proof (cases "key_equiv CompareCheckList (ch_hostname h, ch_hostCheck h) (ch_hostname k, ch_hostCheck k)")
  case True
  let ?f = "\<lambda>p. if CheckParams_eq p (ch_checkParams k)
      then CheckParams_updateCheckResult (ch_address k) result True p else p"
  let ?key = "(ch_hostname h, ch_hostCheck h)"
  have sorted: "mmap_sorted CompareCheckList (cl_checklist cl)" using assms(1) by (simp add: CheckList_sorted_def)
  have cl': "cl' = range_adjust (ch_hostname k, ch_hostCheck k) ?f cl"
    using assms(2) by (simp add: CheckList_updateCheckHeader_def)
  have "range_params (ch_hostname k, ch_hostCheck k) c = range_params ?key c" if "mmap_sorted CompareCheckList (cl_checklist c)" for c
    using range_params_equiv [OF that True] by simp
  then have range: "range_params ?key cl' = map ?f (range_params ?key cl)"
    using range_adjust_range [OF sorted, of "(ch_hostname k, ch_hostCheck k)" ?f] sorted by (simp add: cl')
  have one: "CheckParams_getCheckResult (ch_address h) (?f p) = CheckParams_getCheckResult (ch_address h) p"
    if "p \<in> set (range_params ?key cl)" "CheckParams_eq p (ch_checkParams h)" for p
    using that range_member_sorted [OF assms(1)] assms(3) True
    by (auto simp: same_check_def updateCheckResult_newest CheckParams_eq_key)
  have "List.map_filter (\<lambda>p. if CheckParams_eq p (ch_checkParams h)
        then CheckParams_getCheckResult (ch_address h) p else None) (map ?f ps) =
    List.map_filter (\<lambda>p. if CheckParams_eq p (ch_checkParams h) then CheckParams_getCheckResult (ch_address h) p else None) ps"
    if "set ps \<subseteq> set (range_params ?key cl)" for ps
    using that one by (induction ps) (auto simp: map_filter_simps split: option.split)
  then show ?thesis by (simp add: CheckList_getCheckResult_def range)
next
  case False
  then show ?thesis
    using assms(1,2) range_adjust_other
    by (auto simp: CheckList_getCheckResult_def CheckList_updateCheckHeader_def CheckList_sorted_def)
qed

lemma updateCheckHeader_result:
  assumes "CheckList_sorted cl" and "CheckList_updateCheckHeader k result cl = (cl', found)" and "CheckList_sorted cl'"
  shows "CheckList_getCheckResult h cl' =
    (if same_check h k then (if found then Some result else None) else CheckList_getCheckResult h cl)"
  using updateCheckHeader_other [OF assms(1,2)] getCheckResult_same [OF assms(3), of h k]
    updateCheckHeader_getCheckResult [OF assms(1,2)] by simp


lemma updateCheckHeader_keeps_sorted:
  assumes "CheckList_sorted cl" and "CheckList_updateCheckHeader k result cl = (cl', found)"
  shows "CheckList_sorted cl'"
proof -
  have "map_sorted IPAddress_less (cp_checkData (CheckParams_updateCheckResult a result True p))"
    if "map_sorted IPAddress_less (cp_checkData p)" for a p
    using that by (auto simp: CheckParams_updateCheckResult_def ip_order.map_sorted_insert map_sorted_erase split: option.split)
  then have "values_all (\<lambda>(n, p). map_sorted IPAddress_less (cp_checkData p)) (cl_checklist cl')"
    using assms by (auto simp: CheckList_updateCheckHeader_def CheckList_sorted_def range_adjust_def intro!: values_all_adjust)
  then show ?thesis using assms by (auto simp: CheckList_updateCheckHeader_def CheckList_sorted_def)
qed

lemma updateCheckHeader_has_entry:
  assumes "CheckList_sorted cl" and "CheckList_updateCheckHeader k result cl = (cl', found)"
  shows "has_entry h cl' = has_entry h cl"
proof -
  let ?f = "\<lambda>p. if CheckParams_eq p (ch_checkParams k)
      then CheckParams_updateCheckResult (ch_address k) result True p else p"
  let ?key = "(ch_hostname h, ch_hostCheck h)"
  have sorted: "mmap_sorted CompareCheckList (cl_checklist cl)" using assms(1) by (simp add: CheckList_sorted_def)
  have cl': "cl' = range_adjust (ch_hostname k, ch_hostCheck k) ?f cl"
    using assms(2) by (simp add: CheckList_updateCheckHeader_def)
  show ?thesis
  proof (cases "key_equiv CompareCheckList ?key (ch_hostname k, ch_hostCheck k)")
    case True
    have "range_params ?key cl' = map ?f (range_params ?key cl)"
      using range_adjust_range [OF sorted, of "(ch_hostname k, ch_hostCheck k)" ?f] sorted
        range_params_equiv [OF _ True] by (simp add: cl')
    moreover have "list_ex (\<lambda>p. CheckParams_eq p (ch_checkParams h)) (map ?f ps) =
        list_ex (\<lambda>p. CheckParams_eq p (ch_checkParams h)) ps" for ps
      by (induction ps) simp_all
    ultimately show ?thesis by (simp only: has_entry_def)
  qed (use range_adjust_other [OF sorted] in \<open>simp add: has_entry_def cl'\<close>)
qed

text \<open>A check list with a result for a header that is at least as new as a time.\<close>

definition result_since :: "HMTimeStamp \<Rightarrow> HMCheckHeader \<Rightarrow> HMDataCheckList \<Rightarrow> bool" where
  "result_since t h cl \<longleftrightarrow> (\<exists>r. CheckList_getCheckResult h cl = Some r \<and> t \<le> cr_checkTime r)"

definition restored :: "HMDataCheckList \<Rightarrow> HMDataCheckList \<Rightarrow> bool" where
  "restored cl cl' \<longleftrightarrow>
     (CheckList_sorted cl \<longrightarrow> CheckList_sorted cl' \<and> (no_duplicates cl \<longrightarrow> no_duplicates cl')
        \<and> (\<forall>h. has_entry h cl' = has_entry h cl)
        \<and> (no_duplicates cl \<longrightarrow> (\<forall>t h. result_since t h cl \<longrightarrow> result_since t h cl')))"

lemma range_adjust_no_duplicates:
  "(\<And>p. params_key (f p) = params_key p) \<Longrightarrow> no_duplicates (range_adjust key f cl) = no_duplicates cl"
proof -
  assume keeps: "\<And>p. params_key (f p) = params_key p"
  have "map entry_class (cl_checklist (range_adjust key f cl)) = map entry_class (cl_checklist cl)"
    by (simp add: range_adjust_def smap_adjust_def entry_class_def case_prod_beta keeps)
  then show ?thesis by (simp only: no_duplicates_def)
qed

lemma params_key_update [simp]: "params_key (CheckParams_updateCheckResult a r force p) = params_key p"
  by (simp add: CheckParams_updateCheckResult_def params_key_def split: option.split)

lemma restored_refl [simp]: "restored cl cl"
  by (simp add: restored_def)

lemma restored_trans: "restored a b \<Longrightarrow> restored b c \<Longrightarrow> restored a c"
  by (simp add: restored_def)

lemma restored_update:
  assumes "CheckList_updateCheckHeader k result cl = (cl', found)"
    and "\<And>r. CheckList_getCheckResult k cl = Some r \<Longrightarrow> cr_checkTime r < cr_checkTime result"
  shows "restored cl cl'"
  unfolding restored_def
proof (intro impI conjI allI)
  assume sorted: "CheckList_sorted cl"
  show sorted': "CheckList_sorted cl'" by (rule updateCheckHeader_keeps_sorted [OF sorted assms(1)])
  show "has_entry h cl' = has_entry h cl" for h by (rule updateCheckHeader_has_entry [OF sorted assms(1)])
  show "no_duplicates cl'" if "no_duplicates cl"
    using that assms(1) by (auto simp: CheckList_updateCheckHeader_def range_adjust_no_duplicates)
  show "result_since t h cl'" if "no_duplicates cl" and since: "result_since t h cl" for t h
  proof (cases "same_check h k")
    case True
    obtain r where r: "CheckList_getCheckResult k cl = Some r" "t \<le> cr_checkTime r"
      using since unfolding result_since_def getCheckResult_same [OF sorted True] by blast
    have "has_entry k cl"
    proof (rule ccontr)
      assume "\<not> has_entry k cl"
      then have "List.map_filter (\<lambda>p. if CheckParams_eq p (ch_checkParams k)
          then CheckParams_getCheckResult (ch_address k) p else None) (range_params (ch_hostname k, ch_hostCheck k) cl) = []"
        by (auto simp: has_entry_def list_ex_iff map_filter_def filter_empty_conv)
      then show False using r(1) by (simp add: CheckList_getCheckResult_def)
    qed
    then have "found" using assms(1) by (auto simp: has_entry_def CheckList_updateCheckHeader_def)
    then show ?thesis
      using updateCheckHeader_result [OF sorted assms(1) sorted', of h] True assms(2) [OF r(1)] r(2)
      by (auto simp: result_since_def)
  qed (use since updateCheckHeader_result [OF sorted assms(1) sorted', of h] in \<open>auto simp: result_since_def\<close>)
qed


section \<open>Reload keeps the results\<close>

definition run_checkList :: "'db HMRunState \<Rightarrow> HMDataCheckList" where
  "run_checkList r = st_checkList (rn_state r)"

lemma restore_remote_time_checkList [simp]: "st_checkList (restore_remote_time src h st) = st_checkList st"
  by (simp add: restore_remote_time_def split: option.split)

lemma restore_address_restored:
  assumes "restore_address now src a (h, r) = Inr (h', r')"
  shows "restored (run_checkList r) (run_checkList r')" and "same_check (h'\<lparr>ch_address := b\<rparr>) (h\<lparr>ch_address := b\<rparr>)"
proof -
  have eq: "CheckParams_eq (fold CheckParams_addHostGroup gs p) p" for gs p
    by (induction gs arbitrary: p) (simp_all add: CheckParams_eq_key)
  have refl: "CheckParams_eq p p" for p by (simp add: CheckParams_eq_key)
  show "restored (run_checkList r) (run_checkList r')"
    using assms by (auto simp: restore_address_def run_checkList_def Let_def split: option.splits prod.splits if_splits
        intro!: restored_update)
  show "same_check (h'\<lparr>ch_address := b\<rparr>) (h\<lparr>ch_address := b\<rparr>)"
    using assms by (auto simp: restore_address_def Let_def refl same_check_def eq split: option.splits prod.splits if_splits)
qed


lemma restore_address_since:
  assumes "restore_address now src a (h, r) = Inr (h', r')" and "CheckList_sorted (run_checkList r)"
    and "no_duplicates (run_checkList r)"
    and "CheckList_getCheckResult (h\<lparr>ch_address := a\<rparr>) (st_checkList src) = Some res"
    and "has_entry (h\<lparr>ch_address := a\<rparr>) (run_checkList r)"
  shows "result_since (cr_checkTime res) (h\<lparr>ch_address := a\<rparr>) (run_checkList r')"
proof (cases "result_since (cr_checkTime res) (h\<lparr>ch_address := a\<rparr>) (run_checkList r)")
  case True
  then show ?thesis using restore_address_restored(1) [OF assms(1)] assms(2,3) by (auto simp: restored_def)
next
  case False
  let ?h = "h\<lparr>ch_address := a\<rparr>" and ?res = "res\<lparr>cr_queryState := HM_CHECK_INACTIVE\<rparr>"
  obtain cl found where up: "CheckList_updateCheckHeader ?h ?res (run_checkList r) = (cl, found)" by fastforce
  have "found" using up assms(5) by (auto simp: has_entry_def CheckList_updateCheckHeader_def)
  then have "CheckList_getCheckResult ?h cl = Some ?res" using updateCheckHeader_getCheckResult [OF assms(2) up] by simp
  moreover have "case CheckList_getCheckResult ?h (run_checkList r) of None \<Rightarrow> True | Some t \<Rightarrow> cr_checkTime t < cr_checkTime res"
    using False by (auto simp: result_since_def split: option.split)
  then have "run_checkList r' = cl"
    using assms(1,4) up \<open>found\<close>
    by (auto simp: restore_address_def run_checkList_def Let_def split: option.splits if_splits)
  ultimately show ?thesis by (simp add: result_since_def)
qed

lemma restore_dns_checkList: "restore_dns src h st = Inr st' \<Longrightarrow> st_checkList st' = st_checkList st"
  by (auto simp: restore_dns_def Let_def split: if_splits)

lemma restore_check_header_restored:
  assumes "restore_check_header now src h r = Inr r'"
  shows "restored (run_checkList r) (run_checkList r')"
proof -
  obtain st k where st: "restore_dns src h (rn_state r) = Inr st"
    and run: "res_fold (restore_address now src) (check_addresses src h) (h, r\<lparr>rn_state := st\<rparr>) = Inr (k, r')"
    using assms by (auto simp: restore_check_header_def res_bind_Inr)
  have "restored (run_checkList r) (run_checkList (snd (h, r\<lparr>rn_state := st\<rparr>)))"
    using restore_dns_checkList [OF st] by (simp add: run_checkList_def)
  then have "restored (run_checkList r) (run_checkList (snd (k, r')))"
    by (rule res_fold_invariant [OF run, where P = "\<lambda>s. restored (run_checkList r) (run_checkList (snd s))"])
      (auto dest!: restore_address_restored(1) intro: restored_trans)
  then show ?thesis by simp
qed

lemma same_check_trans: "same_check x y \<Longrightarrow> same_check y z \<Longrightarrow> same_check x z"
  by (auto simp: same_check_def CheckParams_eq_key check_list_order.equiv_key)

lemma result_since_same:
  "CheckList_sorted cl \<Longrightarrow> same_check k k' \<Longrightarrow> result_since t k cl = result_since t k' cl"
  by (simp add: result_since_def getCheckResult_same)

lemma has_entry_same:
  assumes "CheckList_sorted cl" and "same_check k k'"
  shows "has_entry k cl = has_entry k' cl"
proof -
  have "range_params (ch_hostname k, ch_hostCheck k) cl = range_params (ch_hostname k', ch_hostCheck k') cl"
    using assms by (intro range_params_equiv) (simp_all add: CheckList_sorted_def same_check_def)
  then show ?thesis using assms(2) by (simp add: has_entry_def same_check_def CheckParams_eq_key)
qed

lemma restore_check_header_since:
  assumes "restore_check_header now src h r = Inr r'" and "a \<in> set (check_addresses src h)"
    and "CheckList_sorted (run_checkList r)" and "CheckList_sorted (st_checkList src)"
    and "CheckList_getCheckResult (h\<lparr>ch_address := a\<rparr>) (st_checkList src) = Some res"
    and "has_entry (h\<lparr>ch_address := a\<rparr>) (run_checkList r)" and "no_duplicates (run_checkList r)"
  shows "result_since (cr_checkTime res) (h\<lparr>ch_address := a\<rparr>) (run_checkList r')"
proof -
  obtain st k where st: "restore_dns src h (rn_state r) = Inr st"
    and run: "res_fold (restore_address now src) (check_addresses src h) (h, r\<lparr>rn_state := st\<rparr>) = Inr (k, r')"
    using assms(1) by (auto simp: restore_check_header_def res_bind_Inr)
  let ?h = "h\<lparr>ch_address := a\<rparr>"
  let ?I = "\<lambda>(k, r'). (\<forall>b. same_check (k\<lparr>ch_address := b\<rparr>) (h\<lparr>ch_address := b\<rparr>))
    \<and> CheckList_sorted (run_checkList r') \<and> no_duplicates (run_checkList r') \<and> has_entry ?h (run_checkList r')"
  let ?Q = "\<lambda>s. result_since (cr_checkTime res) ?h (run_checkList (snd s))"
  have "?Q (k, r')"
  proof (rule res_fold_reaches [OF run assms(2), where I = ?I])
    show "?I (h, r\<lparr>rn_state := st\<rparr>)"
      using assms(3,6,7) restore_dns_checkList [OF st]
      by (simp add: run_checkList_def same_check_def CheckParams_eq_key check_list_order.equiv_key)
  next
    fix b s t assume s: "?I s" "restore_address now src b s = Inr t"
    obtain k1 r1 k2 r2 where e: "s = (k1, r1)" "t = (k2, r2)" by fastforce
    note r = restore_address_restored [OF s(2) [unfolded e]]
    have "same_check (k2\<lparr>ch_address := c\<rparr>) (h\<lparr>ch_address := c\<rparr>)" for c
      using s(1) by (auto simp: e intro: same_check_trans [OF r(2)])
    then show "?I t" using s(1) r(1) by (auto simp: e restored_def)
  next
    fix s t assume s: "?I s" "restore_address now src a s = Inr t"
    obtain k1 r1 k2 r2 where e: "s = (k1, r1)" "t = (k2, r2)" by fastforce
    have same: "same_check (k1\<lparr>ch_address := a\<rparr>) ?h" using s(1) by (simp add: e)
    have sorted: "CheckList_sorted (run_checkList r2)"
      using s(1) restore_address_restored(1) [OF s(2) [unfolded e]] by (auto simp: e restored_def)
    have "result_since (cr_checkTime res) (k1\<lparr>ch_address := a\<rparr>) (run_checkList r2)"
      using s assms(5) same getCheckResult_same [OF assms(4) same] has_entry_same [OF _ same]
      by (intro restore_address_since [OF s(2) [unfolded e]]) (auto simp: e)
    then show "?Q t" using result_since_same [OF sorted same] by (simp add: e)
  next
    fix b s t assume s: "?I s" "?Q s" "restore_address now src b s = Inr t"
    obtain k1 r1 k2 r2 where e: "s = (k1, r1)" "t = (k2, r2)" by fastforce
    show "?Q t" using s(1,2) restore_address_restored(1) [OF s(3) [unfolded e]] by (auto simp: e restored_def)
  qed
  then show ?thesis by simp
qed


lemma restore_group_checkList:
  assumes "restore_group env src e rf = Inr rf'"
  shows "run_checkList (fst rf') = run_checkList (fst rf)"
  using assms by (auto simp: restore_group_def on_store_def lift_storage_def run_checkList_def res_bind_Inr Let_def
      split: if_splits option.splits sum.splits prod.splits)

lemma restoreRunning_parts:
  assumes "State_restoreRunningCheckState env src (r, files) = Inr (r', files')"
  obtains r1 where "res_fold (restore_check_header (re_now env) (rn_state src)) (CheckList_getAllChecks (run_checkList src)) r = Inr r1"
    and "run_checkList r' = run_checkList r1"
proof -
  obtain r1 r2 files2 where 1: "res_fold (restore_check_header (re_now env) (rn_state src))
      (CheckList_getAllChecks (st_checkList (rn_state src))) r = Inr r1"
    and 2: "res_fold (restore_group env src) (st_hostGroups (rn_state r1)) (r1, files) = Inr (r2, files2)"
    and 3: "run_checkList r' = run_checkList r2"
    using assms by (auto simp: State_restoreRunningCheckState_def res_bind_Inr run_checkList_def)
  have "run_checkList (fst (r2, files2)) = run_checkList r1"
    by (rule res_fold_invariant [OF 2, where P = "\<lambda>s. run_checkList (fst s) = run_checkList r1"])
      (auto dest: restore_group_checkList)
  then show ?thesis using that 1 3 by (simp add: run_checkList_def)
qed

lemma restoreRunning_restored:
  assumes "State_restoreRunningCheckState env src (r, files) = Inr (r', files')"
  shows "restored (run_checkList r) (run_checkList r')"
proof -
  obtain r1 where run: "res_fold (restore_check_header (re_now env) (rn_state src)) (CheckList_getAllChecks (run_checkList src)) r = Inr r1"
    and r1: "run_checkList r' = run_checkList r1" using restoreRunning_parts [OF assms] .
  have "restored (run_checkList r) (run_checkList r1)"
    by (rule res_fold_invariant [OF run, where P = "\<lambda>s. restored (run_checkList r) (run_checkList s)"])
      (auto dest: restore_check_header_restored intro: restored_trans)
  then show ?thesis by (simp add: r1)
qed

lemma restoreRunning_since:
  assumes "State_restoreRunningCheckState env src (r, files) = Inr (r', files')"
    and "h \<in> set (CheckList_getAllChecks (run_checkList src))" and "a \<in> set (check_addresses (rn_state src) h)"
    and "CheckList_sorted (run_checkList r)" and "CheckList_sorted (run_checkList src)"
    and "CheckList_getCheckResult (h\<lparr>ch_address := a\<rparr>) (run_checkList src) = Some res"
    and "has_entry (h\<lparr>ch_address := a\<rparr>) (run_checkList r)" and "no_duplicates (run_checkList r)"
  shows "result_since (cr_checkTime res) (h\<lparr>ch_address := a\<rparr>) (run_checkList r')"
proof -
  let ?h = "h\<lparr>ch_address := a\<rparr>"
  obtain r1 where run: "res_fold (restore_check_header (re_now env) (rn_state src)) (CheckList_getAllChecks (run_checkList src)) r = Inr r1"
    and r1: "run_checkList r' = run_checkList r1" using restoreRunning_parts [OF assms(1)] .
  have "result_since (cr_checkTime res) ?h (run_checkList r1)"
    by (rule res_fold_reaches [OF run assms(2), where I = "\<lambda>s. CheckList_sorted (run_checkList s) \<and> no_duplicates (run_checkList s) \<and> has_entry ?h (run_checkList s)"])
      (use assms(3-) in \<open>auto simp: run_checkList_def [of src] restored_def dest: restore_check_header_restored
        intro: restore_check_header_since\<close>)
  then show ?thesis by (simp add: r1)
qed


section \<open>Queueing keeps the results\<close>

lemma one_of_class: "distinct (map f xs) \<Longrightarrow> length (filter (\<lambda>x. f x = c) xs) \<le> 1"
  by (induction xs) (auto simp: filter_empty_conv image_iff)

lemma matching_entry:
  assumes "CheckList_sorted cl" and "no_duplicates cl"
  shows "length (filter (\<lambda>p. CheckParams_eq p q) (range_params key cl)) \<le> 1"
proof -
  have "filter (\<lambda>p. CheckParams_eq p q) (range_params key cl) =
      map entry_params (filter (\<lambda>e. entry_class e = (check_list_key key, params_key q)) (cl_checklist cl))"
    using assms(1)
    by (auto simp: CheckList_sorted_def range_params_filter filter_map comp_def case_prod_beta entry_class_def
        check_list_order.equiv_key CheckParams_eq_key intro!: arg_cong [where f = "map entry_params"] filter_cong)
  then show ?thesis using one_of_class [OF assms(2) [unfolded no_duplicates_def]] by simp
qed

lemma getCheckResult_filter:
  "CheckList_getCheckResult h cl =
     (case List.map_filter (CheckParams_getCheckResult (ch_address h))
        (filter (\<lambda>p. CheckParams_eq p (ch_checkParams h)) (range_params (ch_hostname h, ch_hostCheck h) cl)) of
      [] \<Rightarrow> None | r # _ \<Rightarrow> Some r)"
proof -
  have "List.map_filter (\<lambda>p. if P p then f p else None) xs = List.map_filter f (filter P xs)" for P and f :: "HMDataCheckParams \<Rightarrow> HMDataCheckResult option" and xs
    by (induction xs) (simp_all add: map_filter_simps split: option.split)
  then show ?thesis by (simp add: CheckList_getCheckResult_def)
qed

lemma getCheckResult_queued:
  assumes "map_sorted IPAddress_less (cp_checkData p)"
  shows "CheckParams_getCheckResult a (CheckParams_queueQuerry ip p) =
    (if a = ip then Some ((case CheckParams_getCheckResult a p of None \<Rightarrow> CheckResult_new (cp_checkTimeout p) | Some r \<Rightarrow> r)
       \<lparr>cr_queryState := HM_CHECK_QUEUED\<rparr>) else CheckParams_getCheckResult a p)"
  using assms by (simp add: CheckParams_getCheckResult_def CheckParams_queueQuerry_def data_find_touch)

lemma restored_queue: "restored cl (range_adjust (hostname, check) (CheckParams_queueQuerry ip) cl)"
  unfolding restored_def
proof (intro impI conjI allI)
  let ?f = "CheckParams_queueQuerry ip" and ?k = "(hostname, check)"
  assume sorted: "CheckList_sorted cl"
  have key: "params_key (?f p) = params_key p" for p
    by (simp add: CheckParams_queueQuerry_def data_touch_def params_key_def data_adjust_def split: option.split)
  have eq: "CheckParams_eq (?f p) q = CheckParams_eq p q" for p q by (simp add: CheckParams_eq_key key)
  have "map_sorted IPAddress_less (cp_checkData (?f p))" if "map_sorted IPAddress_less (cp_checkData p)" for p
    using that by (auto simp: CheckParams_queueQuerry_def data_touch_def data_adjust_def ip_order.map_sorted_insert split: option.split)
  then show sorted': "CheckList_sorted (range_adjust ?k ?f cl)"
    using sorted by (auto simp: CheckList_sorted_def range_adjust_def intro!: values_all_adjust)
  show "no_duplicates (range_adjust ?k ?f cl)" if "no_duplicates cl"
    using that by (simp add: range_adjust_no_duplicates key)
  have mm: "mmap_sorted CompareCheckList (cl_checklist cl)" using sorted by (simp add: CheckList_sorted_def)
  have range: "range_params key (range_adjust ?k ?f cl) =
      (if key_equiv CompareCheckList key ?k then map ?f (range_params key cl) else range_params key cl)" for key
  proof (cases "key_equiv CompareCheckList key ?k")
    case True
    show ?thesis
      using True range_adjust_range [OF mm, of ?k ?f] range_params_equiv [OF mm True]
        range_params_equiv [OF _ True, of "range_adjust ?k ?f cl"] mm by (simp only: range_adjust_sorted if_True)
  qed (simp add: range_adjust_other [OF mm])
  show "has_entry h (range_adjust ?k ?f cl) = has_entry h cl" for h
    by (simp add: has_entry_def range list_ex_iff eq)
  show "result_since t h (range_adjust ?k ?f cl)" if nodup: "no_duplicates cl" and since: "result_since t h cl" for t h
  proof (cases "key_equiv CompareCheckList (ch_hostname h, ch_hostCheck h) ?k")
    case True
    let ?es = "filter (\<lambda>p. CheckParams_eq p (ch_checkParams h)) (range_params (ch_hostname h, ch_hostCheck h) cl)"
    have es': "filter (\<lambda>p. CheckParams_eq p (ch_checkParams h)) (range_params (ch_hostname h, ch_hostCheck h) (range_adjust ?k ?f cl)) = map ?f ?es"
      using True by (simp add: range filter_map comp_def eq)
    obtain p r where p: "?es = [p]" "CheckParams_getCheckResult (ch_address h) p = Some r" "t \<le> cr_checkTime r"
    proof -
      have "ps = [] \<or> (\<exists>p. ps = [p])" if "length ps \<le> 1" for ps :: "HMDataCheckParams list"
        using that by (cases ps) simp_all
      note this [OF matching_entry [OF sorted nodup, of "ch_checkParams h" "(ch_hostname h, ch_hostCheck h)"]]
      moreover have "List.map_filter (CheckParams_getCheckResult (ch_address h)) ?es \<noteq> []"
        using since by (auto simp: result_since_def getCheckResult_filter)
      ultimately obtain p r where "?es = [p]" "CheckParams_getCheckResult (ch_address h) p = Some r"
        by (auto simp: map_filter_simps split: option.splits)
      then show ?thesis using that since by (auto simp: result_since_def getCheckResult_filter map_filter_simps)
    qed
    have "p \<in> set ?es" unfolding p(1) by simp
    then have "p \<in> set (range_params (ch_hostname h, ch_hostCheck h) cl)" by simp
    then have "map_sorted IPAddress_less (cp_checkData p)" using range_member_sorted [OF sorted] by simp
    then show ?thesis
      using p by (auto simp: result_since_def getCheckResult_filter es' map_filter_simps getCheckResult_queued)
  qed (use since in \<open>simp add: result_since_def getCheckResult_filter range\<close>)
qed


lemma queueCheck_restored:
  "state_queueCheck ares now hostname ip check (st, q) = Some (st', q') \<Longrightarrow> restored (st_checkList st) (st_checkList st')
     \<and> st_hostGroups st' = st_hostGroups st"
  by (auto simp: state_queueCheck_def CheckList_queueCheck_def Let_def restored_queue split: check_class.splits)

lemma queueDNS_keeps [simp]:
  "st_checkList (fst (state_queueDNS ares now name lookup s)) = st_checkList (fst s)"
  "st_hostGroups (fst (state_queueDNS ares now name lookup s)) = st_hostGroups (fst s)"
  by (cases s; simp add: state_queueDNS_def split: prod.split)+

definition keeps_checks :: "HMState \<Rightarrow> HMState \<Rightarrow> bool" where
  "keeps_checks st st' \<longleftrightarrow> restored (st_checkList st) (st_checkList st') \<and> st_hostGroups st' = st_hostGroups st"

lemma keeps_checks_trans: "keeps_checks a b \<Longrightarrow> keeps_checks b c \<Longrightarrow> keeps_checks a c"
  by (auto simp: keeps_checks_def intro: restored_trans)

lemma resheduleDNS_keeps: "keeps_checks (fst s) (fst (State_resheduleDNSChecks ares now old s))"
proof -
  have step: "keeps_checks st (fst (reschedule_dns ares now old h ipv6 s))" if "keeps_checks st (fst s)" for st h ipv6 s
    using that by (auto simp: reschedule_dns_def Let_def keeps_checks_def split: option.split)
  have loop: "keeps_checks st (fst (fold f hs s))" if "keeps_checks st (fst s)"
    "\<And>h s. keeps_checks st (fst s) \<Longrightarrow> keeps_checks st (fst (f h s))" for st f s and hs :: "HMCheckHeader list"
    using that by (induction hs arbitrary: s) auto
  have "keeps_checks (fst s) (fst s)" by (simp add: keeps_checks_def)
  then show ?thesis unfolding State_resheduleDNSChecks_def Let_def by (rule loop) (simp add: step)
qed

lemma resheduleHealth_keeps:
  assumes "State_resheduleHealthChecks ares now old s = Some s'"
  shows "keeps_checks (fst s) (fst s')"
proof -
  let ?P = "\<lambda>x. keeps_checks (fst s) (fst x)"
  have host: "?P t" if "reschedule_host ares now check host u = Some t" "?P u" for check host t u
    by (rule opt_fold_invariant [OF that(1) [unfolded reschedule_host_def], where P = ?P])
      (use that(2) in \<open>auto dest!: queueCheck_restored simp: keeps_checks_def intro: restored_trans\<close>)
  show ?thesis
  proof (rule opt_fold_invariant [OF assms [unfolded State_resheduleHealthChecks_def], where P = ?P])
    fix x u t assume u: "?P u" and run: "(case x of (name, g) \<Rightarrow>
        opt_fold (reschedule_host ares now (fst (HostGroup_getHostCheck g HostCheck_default)))
          (reschedule_hosts (group_find name (st_hostGroups old)) g)) u = Some t"
    then show "?P t" by (cases x) (auto intro: opt_fold_invariant [where P = ?P] host)
  qed (simp add: keeps_checks_def)
qed

lemma swap_queues_keeps:
  assumes "swap_queues env old (st, q, el) = Inr (st', q', el')"
  shows "keeps_checks st st'"
proof -
  obtain s where run: "State_resheduleHealthChecks (re_ares env) (re_now env) old
      (State_resheduleDNSChecks (re_ares env) (re_now env) old (st, q)) = Some s"
    using assms by (auto simp: swap_queues_def split: option.splits)
  have "keeps_checks st (fst s)"
    using keeps_checks_trans [OF resheduleDNS_keeps resheduleHealth_keeps [OF run]] by simp
  moreover have "st_checkList st' = st_checkList (fst s)" "st_hostGroups st' = st_hostGroups (fst s)"
    using assms run by (auto simp: swap_queues_def Let_def split: prod.splits)
  ultimately show ?thesis by (simp add: keeps_checks_def)
qed

lemma on_store_keeps:
  "on_store f (r, files) = Inr ((r', files'), x) \<Longrightarrow> rn_state r' = rn_state r \<and> rn_settings r' = rn_settings r"
  by (auto simp: on_store_def lift_storage_def res_bind_Inr split: option.splits sum.splits)

text \<open>C12: No result is lost when the state of the daemon is exchanged. If the old state has a result of a check for an
  address that is in use, and the new configuration still has the check with the same parameters, then the
  new state has, at the end of the exchange, a result of the check for the address that is not older; whatever the
  work in flight does meanwhile to the old state.\<close>

theorem swapStates_keeps_results:
  assumes "StateManager_swapStates env flight (r, files) mg = Inr mg'" and "mg_currentState mg = Some old"
    and "CheckList_sorted (run_checkList old)" and "CheckList_sorted (run_checkList r)" and "no_duplicates (run_checkList r)"
    and "h \<in> set (CheckList_getAllChecks (run_checkList old))" and "a \<in> set (check_addresses (rn_state old) h)"
    and "CheckList_getCheckResult (h\<lparr>ch_address := a\<rparr>) (run_checkList old) = Some res"
    and "has_entry (h\<lparr>ch_address := a\<rparr>) (run_checkList r)"
  shows "\<exists>new res'. mg_currentState mg' = Some new
    \<and> CheckList_getCheckResult (h\<lparr>ch_address := a\<rparr>) (run_checkList new) = Some res' \<and> cr_checkTime res \<le> cr_checkTime res'"
proof -
  obtain r1 files1 st q el r2 files2 r3 files3 where
    1: "State_restoreRunningCheckState env old (r, files) = Inr (r1, files1)"
    and 2: "swap_queues env (rn_state old) (rn_state r1, mg_workQueue mg, mg_eventLoop mg) = Inr (st, q, el)"
    and 3: "on_store (\<lambda>s. res_bind (Storage_updateHostGroups (re_lib env) (State_updateBackend (rn_state old) st) s)
        (\<lambda>s. Inr (s, ()))) (r1\<lparr>rn_state := st\<rparr>, files1) = Inr ((r2, files2), ())"
    and 4: "State_restoreRunningCheckState env (flight old) (r2, files2) = Inr (r3, files3)"
    and 5: "mg_currentState mg' = Some r3"
    using assms(1,2) by (auto simp: StateManager_swapStates_def Let_def res_bind_Inr)
  let ?h = "h\<lparr>ch_address := a\<rparr>"
  have "result_since (cr_checkTime res) ?h (run_checkList r1)"
    by (rule restoreRunning_since [OF 1 assms(6,7,4,3,8,9,5)])
  moreover have "restored (run_checkList r) (run_checkList r1)" by (rule restoreRunning_restored [OF 1])
  moreover have "restored (run_checkList r1) (run_checkList r2)"
    using swap_queues_keeps [OF 2] on_store_keeps [OF 3] by (auto simp: keeps_checks_def run_checkList_def)
  moreover have "restored (run_checkList r2) (run_checkList r3)" by (rule restoreRunning_restored [OF 4])
  ultimately have "result_since (cr_checkTime res) ?h (run_checkList r3)"
    using assms(4,5) by (simp add: restored_def)
  then show ?thesis using 5 by (auto simp: result_since_def)
qed


section \<open>Groups\<close>

definition run_groups :: "'db HMRunState \<Rightarrow> HMDataHostGroupMap" where
  "run_groups r = st_hostGroups (rn_state r)"

lemma restore_address_groups: "restore_address now src a (h, r) = Inr (h', r') \<Longrightarrow> run_groups r' = run_groups r"
  by (auto simp: restore_address_def run_groups_def Let_def restore_remote_time_def
      split: option.splits prod.splits if_splits)

lemma restore_check_header_groups:
  assumes "restore_check_header now src h r = Inr r'"
  shows "run_groups r' = run_groups r"
proof -
  obtain st k where st: "restore_dns src h (rn_state r) = Inr st"
    and run: "res_fold (restore_address now src) (check_addresses src h) (h, r\<lparr>rn_state := st\<rparr>) = Inr (k, r')"
    using assms by (auto simp: restore_check_header_def res_bind_Inr)
  have "run_groups (snd (h, r\<lparr>rn_state := st\<rparr>)) = run_groups r"
    using st by (auto simp: run_groups_def restore_dns_def Let_def split: if_splits)
  then have "run_groups (snd (k, r')) = run_groups r"
    by (rule res_fold_invariant [OF run, where P = "\<lambda>s. run_groups (snd s) = run_groups r"]) (auto dest: restore_address_groups)
  then show ?thesis by simp
qed

lemma restore_group_groups: "restore_group env src e rf = Inr rf' \<Longrightarrow> run_groups (fst rf') = run_groups (fst rf)"
  by (auto simp: restore_group_def on_store_def lift_storage_def run_groups_def res_bind_Inr Let_def
      split: if_splits option.splits sum.splits prod.splits)

lemma restoreRunning_groups:
  assumes "State_restoreRunningCheckState env src (r, files) = Inr (r', files')"
  shows "run_groups r' = run_groups r"
proof -
  obtain r1 r2 files2 where 1: "res_fold (restore_check_header (re_now env) (rn_state src))
      (CheckList_getAllChecks (st_checkList (rn_state src))) r = Inr r1"
    and 2: "res_fold (restore_group env src) (st_hostGroups (rn_state r1)) (r1, files) = Inr (r2, files2)"
    and 3: "run_groups r' = run_groups r2"
    using assms by (auto simp: State_restoreRunningCheckState_def res_bind_Inr run_groups_def)
  have "run_groups r1 = run_groups r"
    by (rule res_fold_invariant [OF 1, where P = "\<lambda>s. run_groups s = run_groups r"]) (auto dest: restore_check_header_groups)
  moreover have "run_groups (fst (r2, files2)) = run_groups r1"
    by (rule res_fold_invariant [OF 2, where P = "\<lambda>s. run_groups (fst s) = run_groups r1"]) (auto dest: restore_group_groups)
  ultimately show ?thesis using 3 by simp
qed

lemma swapStates_groups:
  assumes "StateManager_swapStates env flight (r, files) mg = Inr mg'"
  obtains new t where "mg_currentState mg' = Some new" "mg_newTransactionState mg' = Some t"
    and "run_groups new = run_groups r" "run_groups t = run_groups r"
proof -
  obtain old r1 files1 st q el r2 files2 r3 files3 where
    1: "State_restoreRunningCheckState env old (r, files) = Inr (r1, files1)"
    and 2: "swap_queues env (rn_state old) (rn_state r1, mg_workQueue mg, mg_eventLoop mg) = Inr (st, q, el)"
    and 3: "on_store (\<lambda>s. res_bind (Storage_updateHostGroups (re_lib env) (State_updateBackend (rn_state old) st) s)
        (\<lambda>s. Inr (s, ()))) (r1\<lparr>rn_state := st\<rparr>, files1) = Inr ((r2, files2), ())"
    and 4: "State_restoreRunningCheckState env (flight old) (r2, files2) = Inr (r3, files3)"
    and 5: "mg_currentState mg' = Some r3" "mg_newTransactionState mg' = Some (RunState_copy r1)"
    using assms by (auto simp: StateManager_swapStates_def Let_def res_bind_Inr split: option.splits)
  have "run_groups r2 = run_groups r1"
    using swap_queues_keeps [OF 2] on_store_keeps [OF 3] by (simp add: keeps_checks_def run_groups_def)
  moreover have "run_groups (RunState_copy r1) = run_groups r1" by (simp add: RunState_copy_def run_groups_def)
  ultimately show ?thesis
    using that [OF 5] restoreRunning_groups [OF 1] restoreRunning_groups [OF 4] by simp
qed

text \<open>C20: A configuration that is rejected changes nothing but the files of the stores: after a reload or a refresh that
  returns \<open>false\<close>, or a commit that is not a success, the current state, the transaction, the work queue and
  the timeouts are those from before; after a commit with the wrong hash the files are, too.\<close>

theorem rejected_configuration_changes_nothing:
  assumes "StateManager_reloadDaemonConfigs env flight masterConfig mg = Inr (mg', False)
    \<or> StateManager_refreshDaemonConfigs env flight mg = Inr (mg', False)
    \<or> StateManager_commitDaemonConfigs env flight hash mg = Inr (mg', status) \<and> status \<noteq> HM_COMMIT_TRANSACTION_SUCCESS"
  shows "mg' = mg\<lparr>mg_files := mg_files mg'\<rparr>
    \<and> (StateManager_commitDaemonConfigs env flight hash mg = Inr (mg', HM_COMMIT_TRANSACTION_HASH_MISMATCH) \<longrightarrow> mg' = mg)"
proof -
  have "mg' = mg\<lparr>mg_files := mg_files mg'\<rparr>"
    if "StateManager_reloadDaemonConfigs env flight masterConfig mg = Inr (mg', False)"
    using that by (auto simp: StateManager_reloadDaemonConfigs_def res_bind_Inr split: option.splits)
  moreover have "mg' = mg\<lparr>mg_files := mg_files mg'\<rparr>"
    if "StateManager_refreshDaemonConfigs env flight mg = Inr (mg', False)"
    using that by (auto simp: StateManager_refreshDaemonConfigs_def res_bind_Inr Let_def split: option.splits if_splits)
  moreover have "mg' = mg\<lparr>mg_files := mg_files mg'\<rparr>"
    if "StateManager_commitDaemonConfigs env flight hash mg = Inr (mg', status)" "status \<noteq> HM_COMMIT_TRANSACTION_SUCCESS"
    using that by (auto simp: StateManager_commitDaemonConfigs_def res_bind_Inr Let_def split: option.splits if_splits)
  moreover have "mg' = mg"
    if "StateManager_commitDaemonConfigs env flight hash mg = Inr (mg', HM_COMMIT_TRANSACTION_HASH_MISMATCH)"
    using that by (auto simp: StateManager_commitDaemonConfigs_def res_bind_Inr Let_def split: option.splits if_splits)
  ultimately show ?thesis using assms by blast
qed

text \<open>C13: A commit that succeeds installs the transaction: the hash of the client equals the one of the groups of the
  transaction, the current state has exactly these groups, prepared with the plugins of the master
  configuration, and the next transaction starts from them.\<close>

theorem commit_installs_transaction:
  assumes "StateManager_commitDaemonConfigs env flight hash mg = Inr (mg', HM_COMMIT_TRANSACTION_SUCCESS)"
    and "mg_newTransactionState mg = Some t"
  shows "\<exists>h new t'. State_hashConfigs env (run_groups t) = Some h \<and> Hash_eq hash h
    \<and> mg_currentState mg' = Some new \<and> mg_newTransactionState mg' = Some t'
    \<and> run_groups new = map (\<lambda>(n, g). (n, State_prepareGroup (rn_state t) g)) (run_groups t) \<and> run_groups t' = run_groups new"
proof -
  obtain current h r1 files1 r2 files2 where
    h: "State_hashConfigs env (run_groups t) = Some h" "Hash_eq hash h"
    and 1: "State_openBackend env False ((RunState_copy t)\<lparr>rn_settings := (rn_settings (RunState_copy t))\<lparr>se_hash := h\<rparr>\<rparr>,
        mg_files mg) = Inr ((r1, files1), True)"
    and 2: "store_configs env ((inherit_handles current r1)\<lparr>rn_state :=
        State_generateCheckList (rn_state (inherit_handles current r1))\<rparr>, files1) = Inr (r2, files2)"
    and 3: "StateManager_swapStates env flight (set_guard r2, files2) mg = Inr mg'"
    using assms by (auto simp: StateManager_commitDaemonConfigs_def res_bind_Inr Let_def RunState_copy_def run_groups_def
        split: option.splits if_splits)
  have r1: "rn_state r1 = rn_state (RunState_copy t)"
    using 1 by (auto simp: State_openBackend_def Let_def split: if_splits dest: on_store_keeps)
  have r2: "rn_state r2 = State_generateCheckList (rn_state (inherit_handles current r1))"
    using 2 by (auto simp: store_configs_def State_storeConfigInfo_def res_bind_Inr dest!: on_store_keeps)
  have prepare: "State_prepareGroup (rn_state (inherit_handles current r1)) = State_prepareGroup (rn_state t)"
    by (auto simp: fun_eq_iff inherit_handles_def r1 RunState_copy_def copy_params_def State_prepareGroup_def Let_def
        State_checkPlugin_def State_remoteCheckType_def split: HM_CHECK_TYPE.split)
  have "run_groups (set_guard r2) = map (\<lambda>(n, g). (n, State_prepareGroup (rn_state t) g)) (run_groups t)"
    by (simp add: run_groups_def set_guard_def r2 State_generateCheckList_def State_generateRemoteCheckList_def
        State_generateRemoteHostCheckList_def State_generateDNSCheckList_def State_generateHostCheckList_def Let_def
        prepare case_prod_beta) (simp add: inherit_handles_def r1 RunState_copy_def)
  then show ?thesis using h swapStates_groups [OF 3] by metis
qed


section \<open>Witnesses\<close>

text \<open>A daemon with one check of a remote host that has a result, and a new state with the same check and no result.\<close>

definition w_renv :: "(string \<times> mdbm_value) list reload_env" where
  "w_renv =
     \<lparr>re_lib = alist_lib, re_config = w_env, re_md5 = (\<lambda>_. Some \<lparr>ha_hashValue = ''m'', ha_hashSize = 1\<rparr>),
      re_open = (\<lambda>_ _. True), re_cert = (\<lambda>_. True), re_key = (\<lambda>_. True), re_match = (\<lambda>_ _. True), re_ca = (\<lambda>_. True),
      re_pubsub = (\<lambda>_. True), re_ares = False, re_now = 50, re_clock = int, re_waiting = True\<rparr>"

definition w_rcheck :: HMDataHostCheck where
  "w_rcheck = w_check\<lparr>hc_flowType := HM_FLOW_REMOTE_HOST_TYPE, hc_remoteCheck := ''m''\<rparr>"

definition w_rparams :: "(HMIPAddress \<times> HMDataCheckResult) list \<Rightarrow> HMDataCheckParams" where
  "w_rparams data = CheckParams_default\<lparr>cp_checkData := data\<rparr>"

definition w_run :: "(HMIPAddress \<times> HMDataCheckResult) list \<Rightarrow> (string \<times> mdbm_value) list HMRunState" where
  "w_run data =
     RunState_new\<lparr>rn_state := State_new\<lparr>st_checkList := CheckList_new\<lparr>cl_checklist := [((''h'', w_rcheck), 0, w_rparams data)]\<rparr>\<rparr>,
       rn_datastore := Some (Storage_new [] \<lparr>dc_cache = [], dc_staticDNS = []\<rparr> [])\<rparr>"

definition w_result7 :: HMDataCheckResult where
  "w_result7 = CheckResult_default\<lparr>cr_checkTime := 7\<rparr>"

definition w_mgr :: "(string \<times> mdbm_value) list HMStateManager" where
  "w_mgr =
     \<lparr>mg_currentState = Some (w_run [(INET 9, w_result7)]), mg_newTransactionState = Some (w_run []),
      mg_workQueue = WorkQueue_new, mg_eventLoop = w_loop, mg_files = (\<lambda>_. [])\<rparr>"

lemma w_swap_runs:
  "case StateManager_swapStates w_renv (\<lambda>r. r) (w_run [], \<lambda>_. []) w_mgr of Inr _ \<Rightarrow> True | Inl _ \<Rightarrow> False"
  by code_simp


definition w_rheader :: HMCheckHeader where
  "w_rheader = \<lparr>ch_hostname = ''h'', ch_address = UNSPEC, ch_hostCheck = w_rcheck, ch_checkParams = CheckParams_default\<rparr>"

lemma w_run_lists:
  "CheckList_sorted (run_checkList (w_run []))" "CheckList_sorted (run_checkList (w_run [(INET 9, w_result7)]))"
  "no_duplicates (run_checkList (w_run []))"
  "w_rheader \<in> set (CheckList_getAllChecks (run_checkList (w_run [(INET 9, w_result7)])))"
  by (simp_all add: run_checkList_def w_run_def CheckList_sorted_def mmap_sorted_def map_sorted_def w_rparams_def
      no_duplicates_def CheckList_getAllChecks_def w_rheader_def CheckParams_copy_def CheckParams_default_def)

lemma w_run_addresses: "check_addresses (rn_state (w_run [(INET 9, w_result7)])) w_rheader = [INET 9]"
  by code_simp

lemma w_run_result:
  "map_option cr_checkTime (CheckList_getCheckResult (w_rheader\<lparr>ch_address := INET 9\<rparr>) (run_checkList (w_run [(INET 9, w_result7)]))) = Some 7"
  by code_simp

lemma w_run_entry: "has_entry (w_rheader\<lparr>ch_address := INET 9\<rparr>) (run_checkList (w_run []))"
  by code_simp

theorem swapStates_keeps_results_witness:
  "\<exists>mg' new res'. StateManager_swapStates w_renv (\<lambda>r. r) (w_run [], \<lambda>_. []) w_mgr = Inr mg' \<and> mg_currentState mg' = Some new
    \<and> CheckList_getCheckResult (w_rheader\<lparr>ch_address := INET 9\<rparr>) (run_checkList new) = Some res' \<and> 7 \<le> cr_checkTime res'"
proof -
  obtain mg' where run: "StateManager_swapStates w_renv (\<lambda>r. r) (w_run [], \<lambda>_. []) w_mgr = Inr mg'"
    using w_swap_runs by (auto split: sum.splits)
  obtain res where res: "CheckList_getCheckResult (w_rheader\<lparr>ch_address := INET 9\<rparr>)
      (run_checkList (w_run [(INET 9, w_result7)])) = Some res" "cr_checkTime res = 7"
    using w_run_result by auto
  have "mg_currentState w_mgr = Some (w_run [(INET 9, w_result7)])" by (simp add: w_mgr_def)
  from swapStates_keeps_results [OF run this w_run_lists(2,1,3,4) _ res(1) w_run_entry] run res(2)
  show ?thesis by (auto simp: w_run_addresses)
qed

text \<open>A daemon without checks, and a transaction with a group.\<close>

definition w_idle :: "HMDataHostGroupMap \<Rightarrow> (string \<times> mdbm_value) list HMRunState" where
  "w_idle groups =
     RunState_new\<lparr>rn_state := State_new\<lparr>st_hostGroups := groups\<rparr>,
       rn_datastore := Some (Storage_new [] \<lparr>dc_cache = [], dc_staticDNS = []\<rparr> [])\<rparr>"

definition w_tmgr :: "(string \<times> mdbm_value) list HMStateManager" where
  "w_tmgr = w_mgr\<lparr>mg_currentState := Some (w_idle []), mg_newTransactionState := Some (w_idle [(''a'', HostGroup_new ''a'')])\<rparr>"

lemma storeConfigs_total: "[] \<notin> fst ` set (st_hostGroups st) \<Longrightarrow> \<exists>s' ok. Storage_storeConfigs lib st s = Inr (s', ok)"
  by (auto simp: Storage_storeConfigs_def MDBM_storeHostGroupNames_def split: prod.split)

lemma store_configs_total:
  assumes "rn_datastore r = Some s" and "[] \<notin> fst ` set (run_groups r)"
  shows "\<exists>r' files'. store_configs env (r, files) = Inr (r', files') \<and> rn_state r' = rn_state r \<and> rn_datastore r' \<noteq> None"
proof -
  obtain s1 ok where 1: "Storage_storeConfigs (re_lib env) (rn_state r) (store_view r files s) = Inr (s1, ok)"
    using storeConfigs_total assms(2) unfolding run_groups_def by blast
  obtain s2 ok2 where "MDBM_storeConfigInfo (re_lib env)
       \<lparr>ci_version = HM_MDBM_VERSION, ci_configStatus = HM_CONFIG_STATUS_OK, ci_configLoadTime = re_now env,
        ci_hash = se_hash (rn_settings r)\<rparr> (store_view (r\<lparr>rn_datastore := Some s1\<rparr>)
        (files(se_storagePath (rn_settings r) := sg_db s1)) s1) = (s2, ok2)"
    by fastforce
  then show ?thesis using assms(1) 1 by (simp add: store_configs_def State_storeConfigInfo_def on_store_def lift_storage_def)
qed

lemma w_swap_idle:
  assumes "rn_datastore r = Some s" and "cl_checklist (run_checkList r) = []" and "run_groups r = [(n, g)]"
    and "hg_hosts g = []" and "hg_flowType g = HM_FLOW_DNS_HEALTH_TYPE" and "dc_cache (st_dnsCache (rn_state r)) = []"
    and "st_remoteCache (rn_state r) = []" and "st_remoteHostCache (rn_state r) = []"
  shows "\<exists>mg'. StateManager_swapStates w_renv (\<lambda>r. r) (r, files) w_tmgr = Inr mg'"
proof -
  let ?st = "(rn_state r)\<lparr>st_dnsCache := (st_dnsCache (rn_state r))\<lparr>dc_staticDNS := []\<rparr>\<rparr>"
  have restore: "State_restoreRunningCheckState w_renv (w_idle []) (x, files) =
      Inr (x\<lparr>rn_state := (rn_state x)\<lparr>st_dnsCache := (st_dnsCache (rn_state x))\<lparr>dc_staticDNS := []\<rparr>\<rparr>\<rparr>, files)"
    if "run_groups x = [(n, g)]" for x files
    using that assms(5)
    by (simp add: State_restoreRunningCheckState_def w_idle_def RunState_new_def State_new_def CheckList_getAllChecks_def
        CheckList_new_def run_groups_def restore_group_def)
  have queues: "swap_queues w_renv (rn_state (w_idle [])) (?st, q, el) = Inr (?st, q, el)" for q el
    using assms
    by (simp add: swap_queues_def State_resheduleDNSChecks_def CheckList_getAllChecks_def run_checkList_def run_groups_def
        State_resheduleHealthChecks_def reschedule_hosts_def w_idle_def RunState_new_def State_new_def
        DNSCache_queueDNSLookups_def RemoteHostGroupCache_queueRemoteLookups_def RemoteHostCache_queueRemoteLookups_def)
  have old: "State_updateBackend (rn_state (w_idle [])) st = []" for st
    by (simp add: State_updateBackend_def w_idle_def RunState_new_def State_new_def)
  have "\<exists>files'. close_store w_renv (w_idle [], files) = Inr files'" for files
    by (simp add: close_store_def on_store_def w_idle_def RunState_new_def lift_storage_def Storage_closeStore_def
        Storage_new_def store_view_def)
  then obtain closed where close: "\<And>files. close_store w_renv (w_idle [], files) = Inr (closed files)" by metis
  have groups: "run_groups (r\<lparr>rn_state := ?st\<rparr>) = [(n, g)]" using assms(3) by (simp add: run_groups_def)
  show ?thesis
    using assms(1,3) restore [OF assms(3)] queues close restore groups
    by (auto simp: StateManager_swapStates_def w_tmgr_def Let_def on_store_def lift_storage_def Storage_updateHostGroups_def old
        run_groups_def)
qed


lemma w_commit_runs:
  "\<exists>mg'. StateManager_commitDaemonConfigs w_renv (\<lambda>r. r) \<lparr>ha_hashValue = ''m'', ha_hashSize = 1\<rparr> w_tmgr =
     Inr (mg', HM_COMMIT_TRANSACTION_SUCCESS)"
proof -
  let ?h = "\<lparr>ha_hashValue = ''m'', ha_hashSize = 1\<rparr>"
  let ?t = "RunState_copy (w_idle [(''a'', HostGroup_new ''a'')])"
  let ?t = "?t\<lparr>rn_settings := (rn_settings ?t)\<lparr>se_hash := ?h\<rparr>\<rparr>"
  obtain s1 files1 where 1: "State_openBackend w_renv False (?t, \<lambda>_. []) = Inr ((?t\<lparr>rn_datastore := Some s1\<rparr>, files1), True)"
    by (simp add: State_openBackend_def Let_def w_renv_def on_store_def lift_storage_def Storage_openStore_def store_view_def
        Storage_validateDBVersion_def MDBM_getConfigInfo_def mdbm_read_def Handle_fetch_def alist_lib_def RunState_copy_def
        RunState_new_def w_idle_def Settings_new_def Storage_new_def Storage_updateLockPolicy_def Storage_updateAuxCommitPolicy_def
        Storage_updateHealthCheckCommitPolicy_def ConfigInfo_new_def)
  let ?r = "inherit_handles (w_idle []) (?t\<lparr>rn_datastore := Some s1\<rparr>)"
  let ?r = "?r\<lparr>rn_state := State_generateCheckList (rn_state ?r)\<rparr>"
  have state: "run_groups ?r = [(''a'', State_prepareGroup State_new (HostGroup_new ''a''))]" "cl_checklist (run_checkList ?r) = []"
    "dc_cache (st_dnsCache (rn_state ?r)) = []" "st_remoteCache (rn_state ?r) = []" "st_remoteHostCache (rn_state ?r) = []"
    by (simp_all add: run_groups_def run_checkList_def inherit_handles_def RunState_copy_def w_idle_def copy_params_def RunState_new_def
        State_generateCheckList_def State_generateRemoteCheckList_def State_generateRemoteHostCheckList_def
        State_generateDNSCheckList_def State_generateHostCheckList_def State_new_def State_prepareGroup_def State_checkPlugin_def
        HostGroup_new_def CheckList_addHostGroup_def CheckList_new_def CheckList_initDNSCache_def CheckList_initRemoteCache_def
        HostGroup_getHostCheck_def HostGroup_getCheckParameters_def)
  have "rn_datastore ?r = Some s1" "[] \<notin> fst ` set (run_groups ?r)" using state(1) by (simp_all add: inherit_handles_def)
  from store_configs_total [OF this] obtain r3 files3 where 3: "store_configs w_renv (?r, files1) = Inr (r3, files3)"
    and r3: "rn_state r3 = rn_state ?r" "rn_datastore r3 \<noteq> None" by blast
  obtain mg' where 4: "StateManager_swapStates w_renv (\<lambda>r. r) (set_guard r3, files3) w_tmgr = Inr mg'"
    using w_swap_idle [of "set_guard r3" "the (rn_datastore r3)" "''a''" "State_prepareGroup State_new (HostGroup_new ''a'')" files3]
      r3 state
    by (auto simp: set_guard_def run_checkList_def run_groups_def CheckList_setGuard_def State_prepareGroup_def HostGroup_new_def)
  have "State_hashConfigs w_renv gs = Some ?h" for gs by (simp add: State_hashConfigs_def w_renv_def)
  then show ?thesis
    using 1 3 4 by (simp add: StateManager_commitDaemonConfigs_def w_tmgr_def w_mgr_def Hash_eq_def Let_def)
qed

theorem commit_installs_transaction_witness:
  "\<exists>mg' new. StateManager_commitDaemonConfigs w_renv (\<lambda>r. r) \<lparr>ha_hashValue = ''m'', ha_hashSize = 1\<rparr> w_tmgr =
      Inr (mg', HM_COMMIT_TRANSACTION_SUCCESS)
    \<and> mg_currentState mg' = Some new \<and> map fst (run_groups new) = [''a'']"
proof -
  obtain mg' where run: "StateManager_commitDaemonConfigs w_renv (\<lambda>r. r) \<lparr>ha_hashValue = ''m'', ha_hashSize = 1\<rparr> w_tmgr =
      Inr (mg', HM_COMMIT_TRANSACTION_SUCCESS)"
    using w_commit_runs by blast
  from commit_installs_transaction [OF this, of "w_idle [(''a'', HostGroup_new ''a'')]"] run
  show ?thesis by (auto simp: w_tmgr_def run_groups_def w_idle_def)
qed

lemma w_mismatch:
  "case StateManager_commitDaemonConfigs w_renv (\<lambda>r. r) \<lparr>ha_hashValue = ''x'', ha_hashSize = 1\<rparr> w_tmgr of
     Inr (_, HM_COMMIT_TRANSACTION_HASH_MISMATCH) \<Rightarrow> True | _ \<Rightarrow> False"
  by (simp add: StateManager_commitDaemonConfigs_def w_tmgr_def w_mgr_def w_renv_def State_hashConfigs_def Hash_eq_def)

theorem rejected_configuration_changes_nothing_witness:
  "StateManager_commitDaemonConfigs w_renv (\<lambda>r. r) \<lparr>ha_hashValue = ''x'', ha_hashSize = 1\<rparr> w_tmgr =
     Inr (w_tmgr, HM_COMMIT_TRANSACTION_HASH_MISMATCH)"
proof -
  obtain mg' where run: "StateManager_commitDaemonConfigs w_renv (\<lambda>r. r) \<lparr>ha_hashValue = ''x'', ha_hashSize = 1\<rparr> w_tmgr =
      Inr (mg', HM_COMMIT_TRANSACTION_HASH_MISMATCH)"
    using w_mismatch by (auto split: sum.splits prod.splits HM_COMMIT_TRANSACTION_STATUS.splits)
  then have "mg' = w_tmgr"
    using rejected_configuration_changes_nothing [of w_renv "\<lambda>r. r" "''m.yaml''" w_tmgr mg'
        "\<lparr>ha_hashValue = ''x'', ha_hashSize = 1\<rparr>" HM_COMMIT_TRANSACTION_HASH_MISMATCH] by simp
  then show ?thesis using run by simp
qed

end
