(* ===== verification/HM_Control.thy ===== *)
theory HM_Control
  imports HM_Socket HM_Reload HM_HostMark HM_ThreadPool
begin

text \<open>
  The control socket of the daemon (\<open>HMControlBase.cpp\<close>, \<open>HMControlTCPSocket.cpp\<close>): the commands a client sends, and what the
  daemon does and answers.

  The state is the manager of \<open>HM_Reload\<close> with the thread pool, the marks of hosts, the level of the log and the
  threads of the listener; each command is a definition of its own, from the state and the socket to the state
  and the socket. A command runs in a thread of its own without a handler for exceptions, so one that is not
  caught ends the daemon: \<open>uncaught_exception\<close>. A size that is sent without having been set is \<open>size_unset\<close>. Fields of a
  local object that the code leaves open are zero.
\<close>

section \<open>State\<close>

datatype control_error =
  daemon_fault daemon_error | packing_fault deser_error | uncaught_exception | size_unset | no_state

record 'db HMControl =
  ct_manager :: "'db HMStateManager"
  ct_threadPool :: HMThreadPool
  ct_hostMark :: HMHostMark
  ct_logLevel :: "int option"
  ct_enableRemoteQueryReply :: bool
  ct_keepRunning :: bool
  ct_handlerThreads :: "nat list"
  ct_handlerThreadsStatus :: "(nat \<times> bool) list"

text \<open>The parameters: those of \<open>HM_Reload\<close>, the work in flight at a reload, and protocol buffers.\<close>

record 'db control_env =
  ev_reload :: "'db reload_env"
  ev_flight :: "'db HMRunState \<Rightarrow> 'db HMRunState"
  ev_proto :: proto

definition lift_daemon :: "daemon_error + 'a \<Rightarrow> control_error + 'a" where
  "lift_daemon r = (case r of Inl e \<Rightarrow> Inl (daemon_fault e) | Inr x \<Rightarrow> Inr x)"

definition lift_packing :: "deser_error + 'a \<Rightarrow> control_error + 'a" where
  "lift_packing r = (case r of Inl e \<Rightarrow> Inl (packing_fault e) | Inr x \<Rightarrow> Inr x)"

definition current_state :: "'db HMControl \<Rightarrow> control_error + 'db HMRunState" where
  "current_state ct = (case mg_currentState (ct_manager ct) of None \<Rightarrow> Inl no_state | Some r \<Rightarrow> Inr r)"

definition transaction_state :: "'db HMControl \<Rightarrow> control_error + 'db HMRunState" where
  "transaction_state ct = (case mg_newTransactionState (ct_manager ct) of None \<Rightarrow> Inl no_state | Some r \<Rightarrow> Inr r)"

definition set_manager :: "('db HMStateManager \<Rightarrow> 'db HMStateManager) \<Rightarrow> 'db HMControl \<Rightarrow> 'db HMControl" where
  "set_manager f ct = ct\<lparr>ct_manager := f (ct_manager ct)\<rparr>"

definition set_current :: "'db HMRunState \<Rightarrow> 'db HMControl \<Rightarrow> 'db HMControl" where
  "set_current r = set_manager (\<lambda>mg. mg\<lparr>mg_currentState := Some r\<rparr>)"

definition set_transaction :: "'db HMRunState \<Rightarrow> 'db HMControl \<Rightarrow> 'db HMControl" where
  "set_transaction r = set_manager (\<lambda>mg. mg\<lparr>mg_newTransactionState := Some r\<rparr>)"

text \<open>A change of the state and the work queue.\<close>

definition on_state ::
    "(HMState \<times> HMWorkQueue \<Rightarrow> (HMState \<times> HMWorkQueue) option) \<Rightarrow> 'db HMControl \<Rightarrow> control_error + 'db HMControl" where
  "on_state f ct =
     res_bind (current_state ct) (\<lambda>r.
       case f (rn_state r, mg_workQueue (ct_manager ct)) of None \<Rightarrow> Inl (daemon_fault null_work)
       | Some (st, q) \<Rightarrow> Inr (set_manager (\<lambda>mg. mg\<lparr>mg_workQueue := q\<rparr>) (set_current (r\<lparr>rn_state := st\<rparr>) ct)))"

text \<open>A call of the store of the current state.\<close>

definition on_datastore ::
    "('db HMStorage \<Rightarrow> buffer_error + ('db HMStorage \<times> 'r)) \<Rightarrow> 'db HMControl \<Rightarrow> control_error + ('db HMControl \<times> 'r)" where
  "on_datastore f ct =
     res_bind (current_state ct) (\<lambda>r.
     res_bind (lift_daemon (on_store f (r, mg_files (ct_manager ct)))) (\<lambda>((r, files), x).
       Inr (set_manager (\<lambda>mg. mg\<lparr>mg_files := files\<rparr>) (set_current r ct), x)))"

section \<open>Commands\<close>

datatype HM_COMMAND_TASKS =
  RELOAD | HOSTGROUPINFO | LOADFBINFO | LOADFBINFOHOST | LOADFBINFOIP | THREADINFO | WORKQUEUEINFO | SCHDQUEUEINFO
| SETHOSTSTATUS | HOSTGROUPLIST | HOSTLIST | HOSTCHECK | HOSTGROUPPARAMS | HOSTSCHDINFO | REMOTESCHDINFO | HEALTHCHECK
| DNSCHECK | REMOTEHOSTGROUPCHECK | GETLOGLEVEL | SETLOGLEVEL | SETCONNECTIONTIMEOUT | GETCONNECTIONTIMEOUT | SETMONFREQ
| GETMONFREQ | GETTTLTRESH | SETTTLTRESH | GETSTRIDE | SETSTRIDE | GETWORKPERTHREAD | SETWORKPERTHREAD | GETRECYCLE
| SETRECYCLE | HOSTRESULTS | HOSTIPRESULTS | SETREMOTEQUERY | GETREMOTEQUERY | GETHANDLERTHEADSCOUNT | ADDHOSTGROUP
| REMOVEHOSTGROUP | CLEARTRANSACTION | COMMITTRANSACTION | GETHOSTGROUPHASH | GETTRANSCONFIGHASH | REFRESH
| ADDDNSADDRESSES | REMOVEDNSADDRESSES | GETDNSADDRESSES | SETHOSTMARK | REMOVEHOSTMARK | GETHOSTMARK | UNDEFINED

definition commands :: "(string \<times> HM_COMMAND_TASKS) list" where
  "commands =
     [(''reload'', RELOAD), (''refresh'', REFRESH), (''hostgroup'', HOSTGROUPINFO), (''loadfb'', LOADFBINFO),
      (''loadfbip'', LOADFBINFOIP), (''loadfbhost'', LOADFBINFOHOST), (''threadinfo'', THREADINFO),
      (''workqueueinfo'', WORKQUEUEINFO), (''schdqueueinfo'', SCHDQUEUEINFO), (''hostset'', SETHOSTSTATUS),
      (''hostgrouplist'', HOSTGROUPLIST), (''hostlist'', HOSTLIST), (''hostcheck'', HOSTCHECK),
      (''hostresults'', HOSTRESULTS), (''hostipresults'', HOSTIPRESULTS), (''hostgroupparams'', HOSTGROUPPARAMS),
      (''hostschdinfo'', HOSTSCHDINFO), (''remoteschdinfo'', REMOTESCHDINFO), (''healthcheck'', HEALTHCHECK),
      (''dnscheck'', DNSCHECK), (''remotehostgroupcheck'', REMOTEHOSTGROUPCHECK), (''setloglevel'', SETLOGLEVEL),
      (''getloglevel'', GETLOGLEVEL), (''setconnectiontimeout'', SETCONNECTIONTIMEOUT),
      (''getconnectiontimeout'', GETCONNECTIONTIMEOUT), (''setmonitorfrequency'', SETMONFREQ),
      (''getmonitorfrequency'', GETMONFREQ), (''setttlthreshold'', SETTTLTRESH), (''getttlthreshold'', GETTTLTRESH),
      (''setstride'', SETSTRIDE), (''getstride'', GETSTRIDE), (''setworkperthreadratio'', SETWORKPERTHREAD),
      (''getworkperthreadratio'', GETWORKPERTHREAD), (''getrecycle'', GETRECYCLE), (''setrecycle'', SETRECYCLE),
      (''setremotequery'', SETREMOTEQUERY), (''getremotequery'', GETREMOTEQUERY),
      (''gethandlerthreadscount'', GETHANDLERTHEADSCOUNT), (''addhostgroup'', ADDHOSTGROUP),
      (''removehostgroup'', REMOVEHOSTGROUP), (''cleartransation'', CLEARTRANSACTION),
      (''gethostgrouphash'', GETHOSTGROUPHASH), (''gettransconfighash'', GETTRANSCONFIGHASH),
      (''committransation'', COMMITTRANSACTION), (''adddnsaddresses'', ADDDNSADDRESSES),
      (''removednsaddresses'', REMOVEDNSADDRESSES), (''getdnsaddresses'', GETDNSADDRESSES),
      (''sethostmark'', SETHOSTMARK), (''removehostmark'', REMOVEHOSTMARK), (''gethostmark'', GETHOSTMARK)]"

definition Listener_convert :: "string \<Rightarrow> HM_COMMAND_TASKS" where
  "Listener_convert task = (case map_of commands task of None \<Rightarrow> UNDEFINED | Some t \<Rightarrow> t)"

definition Listener_isValidCommand :: "string \<Rightarrow> bool" where
  "Listener_isValidCommand strCommand \<longleftrightarrow> Listener_convert strCommand \<noteq> UNDEFINED"

text \<open>\<open>getline\<close> with a blank: the last part is left out when it is empty.\<close>

function Listener_tokenize :: "string \<Rightarrow> string list" where
  "Listener_tokenize s =
     (if s = [] then []
      else takeWhile (\<lambda>c. c \<noteq> CHR '' '') s # Listener_tokenize (drop 1 (dropWhile (\<lambda>c. c \<noteq> CHR '' '') s)))"
  by auto
termination
proof (relation "measure length", simp)
  fix s :: string assume "s \<noteq> []"
  then show "(drop 1 (dropWhile (\<lambda>c. c \<noteq> CHR '' '') s), s) \<in> measure length"
    using length_dropWhile_le [of "\<lambda>c. c \<noteq> CHR '' ''" s] by (cases s) auto
qed

declare Listener_tokenize.simps [simp del]

text \<open>The version of the packing: true, false for another version or no number.\<close>

definition getPackingVersion :: "string \<Rightarrow> control_error + bool" where
  "getPackingVersion strVersion =
     (case stoul strVersion of Inl _ \<Rightarrow> Inl uncaught_exception
      | Inr None \<Rightarrow> Inr False | Inr (Some n) \<Rightarrow> Inr (n = ucast HM_CONTROL_SOCKET_VERSION))"

text \<open>The data that follows a command, of the size its argument says.\<close>

datatype payload = bad_size | not_received | received string

definition receive_payload :: "string \<Rightarrow> HMSocketUtil \<Rightarrow> control_error + (HMSocketUtil \<times> payload)" where
  "receive_payload arg su =
     (case SocketUtil_strtoul arg su of Inl _ \<Rightarrow> Inl uncaught_exception
      | Inr (su, None) \<Rightarrow> Inr (su, bad_size)
      | Inr (su, Some n) \<Rightarrow>
          (case SocketUtil_receiveMessage n su of (su, data, status) \<Rightarrow>
             Inr (su, if status = HM_SOCK_DATA_OK then received data else not_received)))"

type_synonym 'db control = "'db HMControl \<times> HMSocketUtil"

text \<open>
  What a command does to the state, and its answer: \<open>None\<close> when nothing is sent, the empty text for \<open>sendMessage(nullptr, 0)\<close>.
  \<open>respond\<close> runs a command, \<open>with_payload\<close> one that reads data first; a bad size is answered by \<open>strtoul\<close> itself.
\<close>

type_synonym 'db action = "'db HMControl \<Rightarrow> control_error + ('db HMControl \<times> string option)"

definition respond :: "'db action \<Rightarrow> 'db control \<Rightarrow> control_error + 'db control" where
  "respond f = (\<lambda>(ct, su).
     res_bind (f ct) (\<lambda>(ct, a). Inr (ct, case a of None \<Rightarrow> su | Some data \<Rightarrow> fst (SocketUtil_sendMessage data su))))"

definition with_payload :: "string \<Rightarrow> 'db action \<Rightarrow> (string \<Rightarrow> 'db action) \<Rightarrow> 'db control \<Rightarrow> control_error + 'db control" where
  "with_payload n lost f = (\<lambda>(ct, su).
     res_bind (receive_payload n su) (\<lambda>(su, p).
       case p of bad_size \<Rightarrow> Inr (ct, su) | not_received \<Rightarrow> respond lost (ct, su) | received data \<Rightarrow> respond (f data) (ct, su)))"

definition sends :: "string \<Rightarrow> 'db action" where
  "sends data ct = Inr (ct, Some data)"

definition silent :: "'db action" where
  "silent ct = Inr (ct, None)"

text \<open>A command with too few arguments is logged and not answered.\<close>

definition needs :: "nat \<Rightarrow> string list \<Rightarrow> ('db control \<Rightarrow> control_error + 'db control) \<Rightarrow> 'db control \<Rightarrow> control_error + 'db control" where
  "needs n args f c = (if n < length args then f c else Inr c)"

section \<open>Queries of the state\<close>

definition Listener_getHostGroupInfo :: "string \<Rightarrow> 'db HMRunState \<Rightarrow> HMDataHostGroup option" where
  "Listener_getHostGroupInfo name r = group_find name (st_hostGroups (rn_state r))"

definition DNSSchedInfo_new :: HMAPIDNSSchedInfo where
  "DNSSchedInfo_new =
     \<lparr>qd_hasv4 = False, qd_hasv6 = False, qd_v4LastCheckTime = 0, qd_v4NextCheckTime = 0, qd_v4State = 0,
      qd_v6LastCheckTime = 0, qd_v6NextCheckTime = 0, qd_v6State = 0, qd_hostScheduleInfo = []\<rparr>"

text \<open>An address of the daemon as one of the interface; the union of an address without a family is not read.\<close>

definition api_address :: "HMIPAddress \<Rightarrow> HMAPIIPAddress" where
  "api_address ip = (case ip of UNSPEC \<Rightarrow> API_OTHER AF_UNSPEC | INET a \<Rightarrow> API_INET a | INET6 a \<Rightarrow> API_INET6 a)"

definition address_schedule ::
    "HMTimeStamp \<Rightarrow> string \<Rightarrow> HMDataHostCheck \<Rightarrow> HMDataCheckParams \<Rightarrow> HMState \<Rightarrow> HMIPAddress \<Rightarrow> HMAPIHostSchedInfo" where
  "address_schedule now host check params st ip =
     (let hcResult = (case CheckList_getCheckResult \<lparr>ch_hostname = host, ch_address = ip, ch_hostCheck = check, ch_checkParams = params\<rparr>
            (st_checkList st) of None \<Rightarrow> CheckResult_default | Some res \<Rightarrow> res)
      in \<lparr>qs_address = api_address ip, qs_lastCheckTime = ts_getTimeSinceEpoch (cr_checkTime hcResult),
          qs_nextCheckTime = ts_getTimeSinceEpoch (CheckList_nextCheckTime now host ip check (st_checkList st)),
          qs_state = work_state_code (cr_queryState hcResult)\<rparr>)"

definition Listener_getHostSchdInfo :: "'db control_env \<Rightarrow> string \<Rightarrow> string \<Rightarrow> 'db HMRunState \<Rightarrow> string" where
  "Listener_getHostSchdInfo env hostgroup host r =
     (case group_find hostgroup (st_hostGroups (rn_state r)) of None \<Rightarrow> []
      | Some g \<Rightarrow>
          let st = rn_state r; now = re_now (ev_reload env);
              check = fst (HostGroup_getHostCheck g HostCheck_default);
              params = fst (HostGroup_getCheckParameters g CheckParams_default);
              lookup = (\<lambda>ipv6. DNSLookup_new (hc_DNSType check) ipv6 (hc_remoteCheck check));
              result = (\<lambda>flag ipv6. if hc_dualstack check AND flag \<noteq> 0
                 then DNSCache_getDNSResult host (lookup ipv6) (st_dnsCache st) else None);
              dns = DNSSchedInfo_new;
              dns = (case result HM_DUALSTACK_IPV4_ONLY False of None \<Rightarrow> dns
                | Some v4 \<Rightarrow> dns\<lparr>qd_hasv4 := True, qd_v4LastCheckTime := ts_getTimeSinceEpoch (dr_resultTime v4),
                    qd_v4State := work_state_code (dr_queryState v4),
                    qd_v4NextCheckTime := ts_getTimeSinceEpoch (DNSResult_nextQueryTime now v4)\<rparr>);
              dns = (case result HM_DUALSTACK_IPV6_ONLY True of None \<Rightarrow> dns
                | Some v6 \<Rightarrow> dns\<lparr>qd_hasv6 := True, qd_v6LastCheckTime := ts_getTimeSinceEpoch (dr_resultTime v6),
                    qd_v6State := work_state_code (dr_queryState v6),
                    qd_v6NextCheckTime := ts_getTimeSinceEpoch (DNSResult_nextQueryTime now v6)\<rparr>);
              (addresses, found) = DNSCache_getAddresses host (hc_dualstack check) (lookup False) [] (st_dnsCache st)
          in packHostSchedInfo (ev_proto env)
               (if found then dns\<lparr>qd_hostScheduleInfo := map (address_schedule now host check params st) addresses\<rparr> else dns))"

definition remote_schedule :: "'db control_env \<Rightarrow> HMRemoteResult \<Rightarrow> string" where
  "remote_schedule env res =
     packRemoteHostGroupSchedInfo (ev_proto env)
       \<lparr>qs_address = APIIPAddress_new, qs_lastCheckTime = ts_getTimeSinceEpoch (rr_resultTime res),
        qs_nextCheckTime = ts_getTimeSinceEpoch (RemoteResult_nextCheckTime (re_now (ev_reload env)) res),
        qs_state = work_state_code (rr_checkState res)\<rparr>"

definition Listener_getRemoteSchdInfo :: "'db control_env \<Rightarrow> string \<Rightarrow> 'db HMRunState \<Rightarrow> string" where
  "Listener_getRemoteSchdInfo env hostgroup r =
     (case group_find hostgroup (st_hostGroups (rn_state r)) of None \<Rightarrow> []
      | Some g \<Rightarrow>
          (case RemoteHostGroupCache_getRemoteResult hostgroup (st_remoteCache (rn_state r)) of None \<Rightarrow> []
           | Some res \<Rightarrow> remote_schedule env res))"

definition Listener_getRemoteSchdInfo_host :: "'db control_env \<Rightarrow> string \<Rightarrow> string \<Rightarrow> 'db HMRunState \<Rightarrow> string" where
  "Listener_getRemoteSchdInfo_host env hostgroup host r =
     (case group_find hostgroup (st_hostGroups (rn_state r)) of None \<Rightarrow> []
      | Some g \<Rightarrow>
          (case RemoteHostCache_getRemoteResult host (fst (HostGroup_getHostCheck g HostCheck_default))
              (st_remoteHostCache (rn_state r)) of None \<Rightarrow> []
           | Some res \<Rightarrow> remote_schedule env res))"

definition Listener_getHostGroupResults ::
    "'db control_env \<Rightarrow> string \<Rightarrow> 'db HMControl \<Rightarrow> control_error + ('db HMControl \<times> HMGroupCheckResult list)" where
  "Listener_getHostGroupResults env name ct =
     res_bind (on_datastore (Storage_getGroupCheckResults (re_lib (ev_reload env)) name True False) ct)
       (\<lambda>(ct, results, _). Inr (ct, results))"

text \<open>The hash that the client sends is checked when it sends one.\<close>

definition Listener_createHostGroup :: "'db control_env \<Rightarrow> string \<Rightarrow> HMHash option \<Rightarrow> 'db action" where
  "Listener_createHostGroup env hostGroupName hash ct =
     res_bind (current_state ct) (\<lambda>r.
       case Listener_getHostGroupInfo hostGroupName r of None \<Rightarrow> sends [] ct
       | Some g \<Rightarrow>
           if (case hash of None \<Rightarrow> False | Some h \<Rightarrow> \<not> Hash_eq h (group_hash g)) then sends [] ct
           else res_bind (Listener_getHostGroupResults env hostGroupName ct) (\<lambda>(ct, results).
             sends (packHostGroupInfo (ev_proto env) g results) ct))"

definition Listener_getloadfbdata :: "'db control_env \<Rightarrow> string \<Rightarrow> HMHash option \<Rightarrow> 'db action" where
  "Listener_getloadfbdata env rotationName hash ct =
     res_bind (current_state ct) (\<lambda>r.
       case Listener_getHostGroupInfo rotationName r of None \<Rightarrow> sends [] ct
       | Some g \<Rightarrow>
           if (case hash of None \<Rightarrow> False | Some h \<Rightarrow> \<not> Hash_eq h (group_hash g)) then sends [] ct
           else res_bind (on_datastore (Storage_getGroupAuxInfo (re_lib (ev_reload env)) (re_now (ev_reload env)) rotationName True True) ct)
             (\<lambda>(ct, results, _). sends (packAuxInfo_results (ev_proto env) results (hg_checkTTL g)) ct))"

definition Listener_getloadfbdata_address :: "'db control_env \<Rightarrow> string \<Rightarrow> string \<Rightarrow> HMIPAddress \<Rightarrow> 'db action" where
  "Listener_getloadfbdata_address env hostName sourceURL address ct =
     res_bind (current_state ct) (\<lambda>r.
       sends (case AuxCache_getAuxInfo hostName sourceURL address (rn_auxCache r) of None \<Rightarrow> []
              | Some info \<Rightarrow> packAuxInfo (ev_proto env) info hostName address) ct)"

text \<open>The addresses of a host for a check that a client sends.\<close>

definition queried_addresses :: "string \<Rightarrow> HMDataHostCheck \<Rightarrow> 'db HMRunState \<Rightarrow> HMIPAddress list" where
  "queried_addresses hostName hostCheck r =
     fst (DNSCache_getAddresses hostName (hc_dualstack hostCheck)
       (DNSLookup_new (hc_DNSType hostCheck) False (hc_remoteCheck hostCheck)) [] (st_dnsCache (rn_state r)))"

definition Listener_getloadfbhostdata :: "'db control_env \<Rightarrow> string \<Rightarrow> HMDataHostCheck \<Rightarrow> 'db action" where
  "Listener_getloadfbhostdata env hostName hostCheck ct =
     res_bind (current_state ct) (\<lambda>r.
       sends (packAuxInfo_results (ev_proto env)
         (List.map_filter (\<lambda>address. map_option
             (\<lambda>info. GroupAuxResult_default\<lparr>ga_info := info, ga_address := address, ga_hostName := hostName\<rparr>)
             (AuxCache_getAuxInfo hostName (hc_checkInfo hostCheck) address (rn_auxCache r)))
           (queried_addresses hostName hostCheck r)) 0) ct)"

text \<open>A host that is an address stands for this address of every host of the group.\<close>

definition Listener_setHostStatus :: "'db control_env \<Rightarrow> string \<Rightarrow> string \<Rightarrow> bool \<Rightarrow> 'db HMControl \<Rightarrow> control_error + 'db HMControl" where
  "Listener_setHostStatus env hostGroupName host forceHostStatus ct =
     res_bind (current_state ct) (\<lambda>r.
       case group_find hostGroupName (st_hostGroups (rn_state r)) of None \<Rightarrow> Inr ct
       | Some g \<Rightarrow>
           let check = fst (HostGroup_getHostCheck g HostCheck_default); st = rn_state r; cl = st_checkList st;
               (ip, ok) = IPAddress_set (ce_pton4 (re_config (ev_reload env))) (ce_pton6 (re_config (ev_reload env))) host;
               cl = (if ok then fold (\<lambda>hostname. CheckList_setForceHostStatus hostname check ip forceHostStatus) (hg_hosts g) cl
                     else CheckList_setForceHostStatus host check ip forceHostStatus cl)
           in Inr (set_current (r\<lparr>rn_state := st\<lparr>st_checkList := cl\<rparr>\<rparr>) ct))"

definition Listener_getAllHostGroupNames :: "'db HMRunState \<Rightarrow> string list" where
  "Listener_getAllHostGroupNames r = map fst (st_hostGroups (rn_state r))"

definition Listener_getHosts :: "string \<Rightarrow> 'db HMRunState \<Rightarrow> string list" where
  "Listener_getHosts hostGroupName r =
     hg_hosts (case Listener_getHostGroupInfo hostGroupName r of None \<Rightarrow> HostGroup_new hostGroupName | Some g \<Rightarrow> g)"

definition Listener_getHostCheck ::
    "'db control_env \<Rightarrow> string \<Rightarrow> string \<Rightarrow> 'db HMControl \<Rightarrow> control_error + ('db HMControl \<times> HMDataCheckResult list option)" where
  "Listener_getHostCheck env hostGroupName hostName ct =
     res_bind (current_state ct) (\<lambda>r.
       case group_find hostGroupName (st_hostGroups (rn_state r)) of None \<Rightarrow> Inr (ct, None)
       | Some _ \<Rightarrow>
           res_bind (on_datastore (Storage_getGroupCheckResults (re_lib (ev_reload env)) hostGroupName False False) ct)
             (\<lambda>(ct, results, _).
               let final = map gr_result (filter (\<lambda>res. gr_hostName res = hostName) results)
               in Inr (ct, if final = [] then None else Some final)))"

definition Listener_getHostResults :: "'db control_env \<Rightarrow> string \<Rightarrow> HMDataHostCheck \<Rightarrow> 'db HMRunState \<Rightarrow> string" where
  "Listener_getHostResults env hostName hostCheck r =
     packHostResults (ev_proto env) hostName
       (fold (\<lambda>address results.
           fold (\<lambda>(p, res). mmap_insert CheckParams_less p res)
             (fst (CheckList_getCheckResultsRemoteChecks hostName hostCheck address (st_checkList (rn_state r)))) results)
         (queried_addresses hostName hostCheck r) [])"

definition Listener_getHostResults_address ::
    "'db control_env \<Rightarrow> string \<Rightarrow> HMIPAddress \<Rightarrow> HMDataHostCheck \<Rightarrow> 'db HMRunState \<Rightarrow> string" where
  "Listener_getHostResults_address env hostName address hostCheck r =
     packHostResults (ev_proto env) hostName
       (fst (CheckList_getCheckResultsRemoteChecks hostName hostCheck address (st_checkList (rn_state r))))"

definition Listener_getConnectionHandlerCount :: "'db control_env \<Rightarrow> 'db HMControl \<Rightarrow> string" where
  "Listener_getConnectionHandlerCount env ct = packUInt (ev_proto env) (of_nat (length (ct_handlerThreads ct)))"

section \<open>The transaction\<close>

definition set_groups :: "HMDataHostGroupMap \<Rightarrow> 'db HMRunState \<Rightarrow> 'db HMRunState" where
  "set_groups groups r = r\<lparr>rn_state := (rn_state r)\<lparr>st_hostGroups := groups\<rparr>\<rparr>"

text \<open>A group that is new is inserted as it is; one that is there is replaced, and only then gets its hash.\<close>

definition hash_group :: "'db reload_env \<Rightarrow> HMDataHostGroup \<Rightarrow> HMDataHostGroup" where
  "hash_group env g =
     (case re_md5 env (HostGroup_getHash g) of None \<Rightarrow> g
      | Some h \<Rightarrow> g\<lparr>hg_hashValue := take (unat (ha_hashSize h)) (ha_hashValue h)\<rparr>)"

definition Listener_addHostGroup ::
    "'db control_env \<Rightarrow> string \<Rightarrow> HMDataHostGroup \<Rightarrow> 'db HMControl \<Rightarrow> control_error + 'db HMControl" where
  "Listener_addHostGroup env hostGroupName hostGroup ct =
     res_bind (transaction_state ct) (\<lambda>t.
       let groups = st_hostGroups (rn_state t)
       in Inr (set_transaction (set_groups
            (case group_find hostGroupName groups of
               None \<Rightarrow> smap_insert (<) hostGroupName hostGroup groups
             | Some _ \<Rightarrow> smap_adjust (<) hostGroupName (\<lambda>_. hash_group (ev_reload env) hostGroup) groups) t) ct))"

definition Listener_removeHostGroup :: "string \<Rightarrow> 'db HMControl \<Rightarrow> control_error + 'db HMControl" where
  "Listener_removeHostGroup hostGroupName ct =
     res_bind (transaction_state ct) (\<lambda>t.
       Inr (set_transaction (set_groups (smap_erase (<) hostGroupName (st_hostGroups (rn_state t))) t) ct))"

definition Listener_clearTransaction :: "'db HMControl \<Rightarrow> control_error + 'db HMControl" where
  "Listener_clearTransaction ct =
     (case StateManager_resetTransactionState (ct_manager ct) of None \<Rightarrow> Inl no_state
      | Some mg \<Rightarrow> Inr (ct\<lparr>ct_manager := mg\<rparr>))"

section \<open>Marks and threads\<close>

definition mark_check :: "string \<Rightarrow> 'db HMRunState \<Rightarrow> HMDataHostCheck option" where
  "mark_check hostGroupName r =
     (case group_find hostGroupName (st_hostGroups (rn_state r)) of None \<Rightarrow> None
      | Some g \<Rightarrow> case HostGroup_getHostCheck g HostCheck_default of (check, ok) \<Rightarrow> if ok then Some check else None)"

definition Listener_setHostMark ::
    "string \<Rightarrow> string \<Rightarrow> HMIPAddress \<Rightarrow> int list \<Rightarrow> 'db HMControl \<Rightarrow> control_error + ('db HMControl \<times> bool)" where
  "Listener_setHostMark hostGroupName hostName address values ct =
     res_bind (current_state ct) (\<lambda>r.
       case mark_check hostGroupName r of None \<Rightarrow> Inr (ct, False)
       | Some check \<Rightarrow>
           case HostMark_setSocketOptionValues hostName address check values (ct_hostMark ct) of (m, ok) \<Rightarrow>
             Inr (ct\<lparr>ct_hostMark := m\<rparr>, ok))"

definition Listener_removeHostMark ::
    "string \<Rightarrow> string \<Rightarrow> HMIPAddress \<Rightarrow> int list \<Rightarrow> 'db HMControl \<Rightarrow> control_error + ('db HMControl \<times> bool)" where
  "Listener_removeHostMark hostGroupName hostName address values ct =
     res_bind (current_state ct) (\<lambda>r.
       case mark_check hostGroupName r of None \<Rightarrow> Inr (ct, False)
       | Some check \<Rightarrow>
           case HostMark_removeSocketOptionValues hostName address check values (ct_hostMark ct) of (m, ok) \<Rightarrow>
             Inr (ct\<lparr>ct_hostMark := m\<rparr>, ok))"

definition Listener_getHostMark :: "'db control_env \<Rightarrow> string \<Rightarrow> string \<Rightarrow> HMIPAddress \<Rightarrow> 'db HMControl \<Rightarrow> control_error + string" where
  "Listener_getHostMark env hostGroupName hostName address ct =
     res_bind (current_state ct) (\<lambda>r.
       Inr (case mark_check hostGroupName r of None \<Rightarrow> []
            | Some check \<Rightarrow>
                case HostMark_getSocketOptionValues hostName address check [] (ct_hostMark ct) of (values, ok) \<Rightarrow>
                  if ok then packListInt64 (ev_proto env) values else []))"

text \<open>The threads that have ended are joined. The status is looked up and erased for each thread in turn.\<close>

definition clean_thread :: "nat \<Rightarrow> nat list \<times> (nat \<times> bool) list \<Rightarrow> nat list \<times> (nat \<times> bool) list" where
  "clean_thread t = (\<lambda>(ts, status).
     if smap_find (<) t status = Some True then (ts, smap_erase (<) t status) else (ts @ [t], status))"

definition Listener_cleanHandlerThreads :: "'db HMControl \<Rightarrow> 'db HMControl" where
  "Listener_cleanHandlerThreads ct =
     (case fold clean_thread (ct_handlerThreads ct) ([], ct_handlerThreadsStatus ct) of (ts, status) \<Rightarrow>
        ct\<lparr>ct_handlerThreads := ts, ct_handlerThreadsStatus := status\<rparr>)"

section \<open>What a transaction holds\<close>

text \<open>The edits of a transaction, and what they mean for the groups as a map from names.\<close>

datatype edit = Add string HMDataHostGroup | Remove string | Clear

fun run_edit :: "'db control_env \<Rightarrow> edit \<Rightarrow> 'db HMControl \<Rightarrow> control_error + 'db HMControl" where
  "run_edit env (Add name g) = Listener_addHostGroup env name g"
| "run_edit env (Remove name) = Listener_removeHostGroup name"
| "run_edit env Clear = Listener_clearTransaction"

fun edit_groups ::
    "'db reload_env \<Rightarrow> (string \<rightharpoonup> HMDataHostGroup) \<Rightarrow> edit \<Rightarrow> (string \<rightharpoonup> HMDataHostGroup) \<Rightarrow> (string \<rightharpoonup> HMDataHostGroup)" where
  "edit_groups env current (Add name g) m = m(name \<mapsto> if m name = None then g else hash_group env g)"
| "edit_groups env current (Remove name) m = m(name := None)"
| "edit_groups env current Clear m = current"

definition groups_of :: "'db HMRunState \<Rightarrow> (string \<rightharpoonup> HMDataHostGroup)" where
  "groups_of r = (\<lambda>name. group_find name (st_hostGroups (rn_state r)))"

definition groups_sorted :: "'db HMRunState \<Rightarrow> bool" where
  "groups_sorted r \<longleftrightarrow> map_sorted (<) (st_hostGroups (rn_state r))"

lemma set_transaction_twice [simp]:
  "set_transaction u (set_transaction t ct) = set_transaction u ct"
  "mg_newTransactionState (ct_manager (set_transaction t ct)) = Some t"
  "mg_currentState (ct_manager (set_transaction t ct)) = mg_currentState (ct_manager ct)"
  by (simp_all add: set_transaction_def set_manager_def)

lemma groups_set_groups [simp]: "st_hostGroups (rn_state (set_groups gs t)) = gs"
  by (simp add: set_groups_def)

lemma groups_RunState_copy [simp]: "st_hostGroups (rn_state (RunState_copy r)) = st_hostGroups (rn_state r)"
  by (simp add: RunState_copy_def)

lemma name_find_insert:
  "map_sorted (<) m \<Longrightarrow> group_find n (smap_insert (<) k v m) = (if n = k \<and> group_find k m = None then Some v else group_find n m)"
  for k :: string
  using name_order.find_insert_same [of m k v] name_order.find_insert_other [of n k v m]
  by (cases "n = k") (auto simp: name_order.equiv_key split: option.splits)

lemma name_find_adjust: "group_find n (smap_adjust (<) k f m) = (if n = k then map_option f (group_find k m) else group_find n m)"
  for k :: string
  using name_order.find_adjust_other [of n k f m] by (auto simp: name_order.equiv_key)

lemma name_find_erase: "group_find n (smap_erase (<) k m) = (if n = k then None else group_find n m)" for k :: string
  using name_order.find_erase_other [of n k m] by (auto simp: name_order.equiv_key)

lemma run_edit_transaction:
  assumes "mg_currentState (ct_manager ct) = Some r" and "mg_newTransactionState (ct_manager ct) = Some t"
    and "groups_sorted r" and "groups_sorted t"
  shows "\<exists>t'. run_edit env e ct = Inr (set_transaction t' ct) \<and> groups_sorted t'
    \<and> groups_of t' = edit_groups (ev_reload env) (groups_of r) e (groups_of t)"
proof (cases e)
  case (Add name g)
  then show ?thesis using assms
    by (auto simp: Listener_addHostGroup_def transaction_state_def groups_of_def groups_sorted_def fun_eq_iff name_find_insert
        name_find_adjust name_order.map_sorted_insert split: option.split)
next
  case (Remove name)
  then show ?thesis using assms
    by (auto simp: Listener_removeHostGroup_def transaction_state_def groups_of_def groups_sorted_def fun_eq_iff name_find_erase
        map_sorted_erase)
next
  case Clear
  then show ?thesis using assms
    by (auto simp: Listener_clearTransaction_def StateManager_resetTransactionState_def StateManager_updateState_def
        set_transaction_def set_manager_def groups_of_def groups_sorted_def)
qed

text \<open>C14: The commands that edit the transaction refine edits of a map from names to groups: adding binds a name (and
  hashes the group when the name was bound before), removing unbinds it, and clearing starts again from the groups
  of the current state. Nothing but the transaction changes.\<close>

theorem transaction_refines_edits:
  assumes "mg_currentState (ct_manager ct) = Some r" and "mg_newTransactionState (ct_manager ct) = Some t"
    and "groups_sorted r" and "groups_sorted t"
  shows "\<exists>t'. res_fold (run_edit env) es ct = Inr (set_transaction t' ct)
    \<and> groups_of t' = fold (edit_groups (ev_reload env) (groups_of r)) es (groups_of t)"
  using assms
proof (induction es arbitrary: ct t)
  case Nil
  then show ?case by (intro exI [of _ t]) (simp add: set_transaction_def set_manager_def)
next
  case (Cons e es)
  obtain u where u: "run_edit env e ct = Inr (set_transaction u ct)" "groups_sorted u"
    "groups_of u = edit_groups (ev_reload env) (groups_of r) e (groups_of t)"
    using run_edit_transaction [OF Cons.prems] by blast
  then show ?case using Cons.IH [of "set_transaction u ct" u] Cons.prems(1,3) by auto
qed

section \<open>Samples\<close>

definition const_format :: "'m \<Rightarrow> 'm format" where
  "const_format m = \<lparr>fm_serialize = (\<lambda>_. ''x''), fm_parse = (\<lambda>_. Some m)\<rparr>"

definition no_format :: "'m format" where
  "no_format = \<lparr>fm_serialize = (\<lambda>_. []), fm_parse = (\<lambda>_. None)\<rparr>"

definition w_proto :: "pb_HashHGPair \<Rightarrow> pb_HostGroupInfo \<Rightarrow> proto" where
  "w_proto h m =
     \<lparr>pf_ThreadInfo = no_format, pf_DataHostGroup = no_format, pf_DataCheckResults = no_format, pf_HostResult = no_format,
      pf_HostGroupInfo = const_format m, pf_AuxInfo = no_format, pf_AuxResults = no_format, pf_DNSSchedInfo = no_format,
      pf_HostSchedInfo = no_format, pf_DataHostCheck = no_format, pf_List = no_format, pf_IPAddresses = no_format,
      pf_Bool = no_format, pf_Uint = no_format, pf_Int = no_format, pf_HashInfo = no_format, pf_HashHGPair = const_format h,
      pf_ListInt64 = no_format\<rparr>"

lemma w_manager_sorted: "groups_sorted (w_idle [])" "groups_sorted (w_idle [(''a'', HostGroup_new ''a'')])"
  by (simp_all add: groups_sorted_def w_idle_def map_sorted_def)

definition w_tenv :: "(string \<times> mdbm_value) list control_env" where
  "w_tenv = \<lparr>ev_reload = w_renv, ev_flight = (\<lambda>r. r),
     ev_proto = w_proto \<lparr>pv_hostgroupname = [], pv_size = 0, pv_hash = []\<rparr> \<lparr>pi_hostGroup = None, pi_groupCheckResult = []\<rparr>\<rparr>"

definition w_transaction :: "(string \<times> mdbm_value) list HMControl" where
  "w_transaction =
     \<lparr>ct_manager = w_tmgr, ct_threadPool = w_pool, ct_hostMark = [], ct_logLevel = None, ct_enableRemoteQueryReply = True,
      ct_keepRunning = True, ct_handlerThreads = [], ct_handlerThreadsStatus = []\<rparr>"

theorem transaction_refines_edits_witness:
  "\<exists>t'. res_fold (run_edit w_tenv) [Add ''b'' (HostGroup_new ''b''), Remove ''a'', Add ''b'' (HostGroup_new ''b'')] w_transaction =
      Inr (set_transaction t' w_transaction)
    \<and> groups_of t' ''a'' = None \<and> groups_of t' ''b'' = Some ((HostGroup_new ''b'')\<lparr>hg_hashValue := ''m''\<rparr>)"
proof -
  have "mg_currentState (ct_manager w_transaction) = Some (w_idle [])"
    "mg_newTransactionState (ct_manager w_transaction) = Some (w_idle [(''a'', HostGroup_new ''a'')])"
    by (simp_all add: w_transaction_def w_tmgr_def)
  from transaction_refines_edits [OF this w_manager_sorted, of w_tenv
      "[Add ''b'' (HostGroup_new ''b''), Remove ''a'', Add ''b'' (HostGroup_new ''b'')]"]
  obtain t' where run: "res_fold (run_edit w_tenv) [Add ''b'' (HostGroup_new ''b''), Remove ''a'', Add ''b'' (HostGroup_new ''b'')]
      w_transaction = Inr (set_transaction t' w_transaction)"
    and t': "groups_of t' = fold (edit_groups (ev_reload w_tenv) (groups_of (w_idle [])))
      [Add ''b'' (HostGroup_new ''b''), Remove ''a'', Add ''b'' (HostGroup_new ''b'')] (groups_of (w_idle [(''a'', HostGroup_new ''a'')]))"
    by blast
  have "groups_of t' ''a'' = None" "groups_of t' ''b'' = Some ((HostGroup_new ''b'')\<lparr>hg_hashValue := ''m''\<rparr>)"
    by (simp_all add: t' hash_group_def w_tenv_def w_renv_def)
  then show ?thesis using run by blast
qed

end
