(* ===== verification/HM_Listener.thy ===== *)
theory HM_Listener
  imports HM_Control
begin

text \<open>
  The commands of the control socket, one definition for each case of \<open>handleCommands\<close>, and the thread of a connection
  (\<open>handleClient\<close>), which serves one command after another.
\<close>

section \<open>Commands\<close>

text \<open>A command that sets a number; a text that is none is answered with an empty message, a number not at all.\<close>

definition with_number ::
    "string \<Rightarrow> (u32 \<Rightarrow> 'db HMControl \<Rightarrow> 'db HMControl) \<Rightarrow> 'db control \<Rightarrow> control_error + 'db control" where
  "with_number s f = (\<lambda>(ct, su).
     case SocketUtil_strtoul s su of Inl _ \<Rightarrow> Inl uncaught_exception
     | Inr (su, None) \<Rightarrow> Inr (ct, su) | Inr (su, Some n) \<Rightarrow> Inr (f n ct, su))"

definition set_pool :: "(HMThreadPool \<Rightarrow> HMThreadPool) \<Rightarrow> 'db HMControl \<Rightarrow> 'db HMControl" where
  "set_pool f ct = ct\<lparr>ct_threadPool := f (ct_threadPool ct)\<rparr>"

definition set_queue :: "(HMWorkQueue \<Rightarrow> HMWorkQueue) \<Rightarrow> 'db HMControl \<Rightarrow> 'db HMControl" where
  "set_queue f = set_manager (\<lambda>mg. mg\<lparr>mg_workQueue := f (mg_workQueue mg)\<rparr>)"

text \<open>The arguments \<open>on\<close> and \<open>off\<close>; another one is logged.\<close>

definition on_off_arg :: "string \<Rightarrow> bool option" where
  "on_off_arg s = (if s \<in> {''on'', ''ON'', ''On''} then Some True else if s \<in> {''off'', ''OFF'', ''Off''} then Some False else None)"

definition changes :: "('db HMControl \<Rightarrow> 'db HMControl) \<Rightarrow> 'db action" where
  "changes f ct = silent (f ct)"

definition handle_RELOAD :: "'db control_env \<Rightarrow> string list \<Rightarrow> 'db control \<Rightarrow> control_error + 'db control" where
  "handle_RELOAD env args = respond (\<lambda>ct.
     res_bind (if 1 < length args then Inr (args ! 1)
               else res_bind (current_state ct) (\<lambda>r. Inr (se_masterConfig (rn_settings r)))) (\<lambda>masterConfig.
     res_bind (lift_daemon (StateManager_reloadDaemonConfigs (ev_reload env) (ev_flight env) masterConfig (ct_manager ct))) (\<lambda>(mg, ok).
       sends (packBool (ev_proto env) ok) (ct\<lparr>ct_manager := mg\<rparr>))))"

definition handle_REFRESH :: "'db control_env \<Rightarrow> 'db control \<Rightarrow> control_error + 'db control" where
  "handle_REFRESH env = respond (\<lambda>ct.
     res_bind (lift_daemon (StateManager_refreshDaemonConfigs (ev_reload env) (ev_flight env) (ct_manager ct))) (\<lambda>(mg, ok).
       sends (packBool (ev_proto env) ok) (ct\<lparr>ct_manager := mg\<rparr>)))"

text \<open>The hash that may follow the name of a group.\<close>

definition with_hash ::
    "'db control_env \<Rightarrow> string list \<Rightarrow> (HMHash option \<Rightarrow> 'db action) \<Rightarrow> 'db control \<Rightarrow> control_error + 'db control" where
  "with_hash env args f =
     (if 2 < length args
      then with_payload (args ! 2) (sends []) (\<lambda>data ct.
        res_bind (lift_packing (unpackHash (ev_proto env) data Hash_new)) (\<lambda>h.
          case h of None \<Rightarrow> sends [] ct | Some hash \<Rightarrow> f (Some hash) ct))
      else respond (f None))"

definition handle_HOSTGROUPINFO :: "'db control_env \<Rightarrow> string list \<Rightarrow> 'db control \<Rightarrow> control_error + 'db control" where
  "handle_HOSTGROUPINFO env args = needs 1 args (with_hash env args (Listener_createHostGroup env (args ! 1)))"

definition handle_LOADFBINFO :: "'db control_env \<Rightarrow> string list \<Rightarrow> 'db control \<Rightarrow> control_error + 'db control" where
  "handle_LOADFBINFO env args = needs 1 args (with_hash env args (Listener_getloadfbdata env (args ! 1)))"

definition handle_THREADINFO :: "'db control_env \<Rightarrow> 'db control \<Rightarrow> control_error + 'db control" where
  "handle_THREADINFO env = respond (\<lambda>ct. sends (packThreadInfo (ev_proto env)
     \<lparr>qt_numThreads = ucast (ucast (tp_nThreads (ct_threadPool ct)) :: u32),
      qt_numIdleThreads = ThreadPool_countIdle (ct_threadPool ct)\<rparr>) ct)"

definition handle_WORKQUEUEINFO :: "'db control_env \<Rightarrow> 'db control \<Rightarrow> control_error + 'db control" where
  "handle_WORKQUEUEINFO env = respond (\<lambda>ct.
     sends (packUInt (ev_proto env) (ucast (WorkQueue_queueSize (mg_workQueue (ct_manager ct))))) ct)"

definition handle_SCHDQUEUEINFO :: "'db control_env \<Rightarrow> 'db control \<Rightarrow> control_error + 'db control" where
  "handle_SCHDQUEUEINFO env = respond (\<lambda>ct.
     sends (packUInt (ev_proto env) (EventLoop_getTimeOutQueueSize (mg_eventLoop (ct_manager ct)))) ct)"

definition handle_SETHOSTSTATUS :: "'db control_env \<Rightarrow> string list \<Rightarrow> 'db control \<Rightarrow> control_error + 'db control" where
  "handle_SETHOSTSTATUS env args = needs 3 args (respond (\<lambda>ct.
     case HM_HostCheck.stoi (args ! 3) of Inl _ \<Rightarrow> Inl uncaught_exception
     | Inr hoststatus \<Rightarrow> res_bind (Listener_setHostStatus env (args ! 1) (args ! 2) (hoststatus \<noteq> 0) ct) silent))"

definition handle_HOSTGROUPLIST :: "'db control_env \<Rightarrow> 'db control \<Rightarrow> control_error + 'db control" where
  "handle_HOSTGROUPLIST env = respond (\<lambda>ct.
     res_bind (current_state ct) (\<lambda>r. sends (packList (ev_proto env) (Listener_getAllHostGroupNames r)) ct))"

definition handle_HOSTLIST :: "'db control_env \<Rightarrow> string list \<Rightarrow> 'db control \<Rightarrow> control_error + 'db control" where
  "handle_HOSTLIST env args = needs 1 args (respond (\<lambda>ct.
     res_bind (current_state ct) (\<lambda>r. sends (packList (ev_proto env) (Listener_getHosts (args ! 1) r)) ct)))"

definition handle_HOSTCHECK :: "'db control_env \<Rightarrow> string list \<Rightarrow> 'db control \<Rightarrow> control_error + 'db control" where
  "handle_HOSTCHECK env args = needs 2 args (respond (\<lambda>ct.
     res_bind (Listener_getHostCheck env (args ! 1) (args ! 2) ct) (\<lambda>(ct, results).
       case results of None \<Rightarrow> Inl size_unset
       | Some rs \<Rightarrow> sends (packDataCheckResults (ev_proto env) (args ! 2) rs) ct)))"

text \<open>A check that follows a command; when it cannot be unpacked there is no answer.\<close>

definition with_check ::
    "'db control_env \<Rightarrow> string \<Rightarrow> (HMDataHostCheck \<Rightarrow> 'db action) \<Rightarrow> 'db control \<Rightarrow> control_error + 'db control" where
  "with_check env n f = with_payload n (sends []) (\<lambda>data ct.
     res_bind (lift_packing (unpackDataHostCheck (ev_proto env) data HostCheck_default)) (\<lambda>check.
       case check of None \<Rightarrow> silent ct | Some hostCheck \<Rightarrow> f hostCheck ct))"

definition handle_HOSTRESULTS :: "'db control_env \<Rightarrow> string list \<Rightarrow> 'db control \<Rightarrow> control_error + 'db control" where
  "handle_HOSTRESULTS env args = needs 2 args (with_check env (args ! 2) (\<lambda>hostCheck ct.
     res_bind (current_state ct) (\<lambda>r. sends (Listener_getHostResults env (args ! 1) hostCheck r) ct)))"

definition handle_LOADFBINFOHOST :: "'db control_env \<Rightarrow> string list \<Rightarrow> 'db control \<Rightarrow> control_error + 'db control" where
  "handle_LOADFBINFOHOST env args = needs 2 args (with_check env (args ! 2) (Listener_getloadfbhostdata env (args ! 1)))"

definition parse_address :: "'db control_env \<Rightarrow> string \<Rightarrow> HMIPAddress option" where
  "parse_address env s =
     (case IPAddress_set (ce_pton4 (re_config (ev_reload env))) (ce_pton6 (re_config (ev_reload env))) s of (a, ok) \<Rightarrow>
        if ok then Some a else None)"

definition handle_LOADFBINFOIP :: "'db control_env \<Rightarrow> string list \<Rightarrow> 'db control \<Rightarrow> control_error + 'db control" where
  "handle_LOADFBINFOIP env args = needs 3 args (respond (\<lambda>ct.
     case parse_address env (args ! 3) of None \<Rightarrow> sends [] ct
     | Some address \<Rightarrow> Listener_getloadfbdata_address env (args ! 1) (args ! 2) address ct))"

definition handle_HOSTIPRESULTS :: "'db control_env \<Rightarrow> string list \<Rightarrow> 'db control \<Rightarrow> control_error + 'db control" where
  "handle_HOSTIPRESULTS env args = needs 3 args (with_check env (args ! 3) (\<lambda>hostCheck ct.
     case parse_address env (args ! 2) of None \<Rightarrow> sends [] ct
     | Some address \<Rightarrow>
         res_bind (current_state ct) (\<lambda>r. sends (Listener_getHostResults_address env (args ! 1) address hostCheck r) ct)))"

definition handle_HOSTGROUPPARAMS :: "'db control_env \<Rightarrow> string list \<Rightarrow> 'db control \<Rightarrow> control_error + 'db control" where
  "handle_HOSTGROUPPARAMS env args = needs 1 args (respond (\<lambda>ct.
     res_bind (current_state ct) (\<lambda>r.
       sends (case Listener_getHostGroupInfo (args ! 1) r of None \<Rightarrow> [] | Some g \<Rightarrow> packDataHostGroup_bytes (ev_proto env) g) ct)))"

definition handle_HOSTSCHDINFO :: "'db control_env \<Rightarrow> string list \<Rightarrow> 'db control \<Rightarrow> control_error + 'db control" where
  "handle_HOSTSCHDINFO env args = needs 2 args (respond (\<lambda>ct.
     res_bind (current_state ct) (\<lambda>r. sends (Listener_getHostSchdInfo env (args ! 1) (args ! 2) r) ct)))"

definition handle_REMOTESCHDINFO :: "'db control_env \<Rightarrow> string list \<Rightarrow> 'db control \<Rightarrow> control_error + 'db control" where
  "handle_REMOTESCHDINFO env args = needs 1 args (respond (\<lambda>ct.
     res_bind (current_state ct) (\<lambda>r.
       sends (if 2 < length args then Listener_getRemoteSchdInfo_host env (args ! 1) (args ! 2) r
              else Listener_getRemoteSchdInfo env (args ! 1) r) ct)))"

text \<open>Without a log nothing is set, and the level is \<open>HM_ERROR\<close>.\<close>

definition HM_ERROR :: int where "HM_ERROR = -2"

definition handle_SETLOGLEVEL :: "string list \<Rightarrow> 'db control \<Rightarrow> control_error + 'db control" where
  "handle_SETLOGLEVEL args = needs 1 args (respond (changes (\<lambda>ct.
     ct\<lparr>ct_logLevel := map_option (\<lambda>_. parseLogLevel (args ! 1)) (ct_logLevel ct)\<rparr>)))"

definition handle_GETLOGLEVEL :: "'db control_env \<Rightarrow> 'db control \<Rightarrow> control_error + 'db control" where
  "handle_GETLOGLEVEL env = respond (\<lambda>ct.
     sends (packInt (ev_proto env) (case ct_logLevel ct of None \<Rightarrow> HM_ERROR | Some l \<Rightarrow> l)) ct)"

definition handle_SETCONNECTIONTIMEOUT :: "string list \<Rightarrow> 'db control \<Rightarrow> control_error + 'db control" where
  "handle_SETCONNECTIONTIMEOUT args = needs 1 args (respond (\<lambda>ct.
     res_bind (current_state ct) (\<lambda>r.
       silent (set_current (r\<lparr>rn_settings := (rn_settings r)\<lparr>se_connectionTimeout := strtoul (args ! 1)\<rparr>\<rparr>) ct))))"

definition handle_GETCONNECTIONTIMEOUT :: "'db control_env \<Rightarrow> 'db control \<Rightarrow> control_error + 'db control" where
  "handle_GETCONNECTIONTIMEOUT env = respond (\<lambda>ct.
     res_bind (current_state ct) (\<lambda>r. sends (packUInt (ev_proto env) (se_connectionTimeout (rn_settings r))) ct))"

definition handle_HEALTHCHECK :: "'db control_env \<Rightarrow> string list \<Rightarrow> 'db control \<Rightarrow> control_error + 'db control" where
  "handle_HEALTHCHECK env args = needs 1 args (respond (\<lambda>ct.
     let ares = re_ares (ev_reload env); now = re_now (ev_reload env)
     in res_bind (on_state (if 2 < length args then State_forceHealthCheckHost ares now (args ! 1) (args ! 2)
          else State_forceHealthCheck ares now (args ! 1)) ct) silent))"

definition handle_DNSCHECK :: "'db control_env \<Rightarrow> string list \<Rightarrow> 'db control \<Rightarrow> control_error + 'db control" where
  "handle_DNSCHECK env args = needs 1 args (respond (\<lambda>ct.
     let ares = re_ares (ev_reload env); now = re_now (ev_reload env)
     in res_bind (on_state (\<lambda>s. Some (if 2 < length args then State_forceDNSCheckHost ares now (args ! 1) (args ! 2) s
          else State_forceDNSCheck ares now (args ! 1) s)) ct) silent))"

definition handle_REMOTEHOSTGROUPCHECK :: "'db control_env \<Rightarrow> string list \<Rightarrow> 'db control \<Rightarrow> control_error + 'db control" where
  "handle_REMOTEHOSTGROUPCHECK env args = needs 1 args (respond (\<lambda>ct.
     res_bind (on_state (\<lambda>(st, q).
         case RemoteHostGroupCache_queueRemoteCheck (re_now (ev_reload env)) (args ! 1) (st_hostGroups st) (st_remoteCache st, q) of
           ((c, q), _) \<Rightarrow> Some (st\<lparr>st_remoteCache := c\<rparr>, q)) ct) silent))"

section \<open>Settings of the daemon\<close>

definition handle_SETMONFREQ :: "string list \<Rightarrow> 'db control \<Rightarrow> control_error + 'db control" where
  "handle_SETMONFREQ args = needs 1 args (with_number (args ! 1) (\<lambda>n. set_pool (\<lambda>tp. tp\<lparr>tp_monitorFrequency := n\<rparr>)))"

definition handle_GETMONFREQ :: "'db control_env \<Rightarrow> 'db control \<Rightarrow> control_error + 'db control" where
  "handle_GETMONFREQ env = respond (\<lambda>ct. sends (packUInt (ev_proto env) (ucast (tp_monitorFrequency (ct_threadPool ct)))) ct)"

definition handle_SETSTRIDE :: "string list \<Rightarrow> 'db control \<Rightarrow> control_error + 'db control" where
  "handle_SETSTRIDE args = needs 1 args (with_number (args ! 1) (\<lambda>n. set_pool (\<lambda>tp. tp\<lparr>tp_stridePercent := n\<rparr>)))"

definition handle_GETSTRIDE :: "'db control_env \<Rightarrow> 'db control \<Rightarrow> control_error + 'db control" where
  "handle_GETSTRIDE env = respond (\<lambda>ct. sends (packUInt (ev_proto env) (ucast (tp_stridePercent (ct_threadPool ct)))) ct)"

definition handle_SETWORKPERTHREAD :: "string list \<Rightarrow> 'db control \<Rightarrow> control_error + 'db control" where
  "handle_SETWORKPERTHREAD args = needs 1 args (with_number (args ! 1) (\<lambda>n. set_pool (\<lambda>tp. tp\<lparr>tp_workPerThreadRatio := n\<rparr>)))"

definition handle_GETWORKPERTHREAD :: "'db control_env \<Rightarrow> 'db control \<Rightarrow> control_error + 'db control" where
  "handle_GETWORKPERTHREAD env = respond (\<lambda>ct.
     sends (packUInt (ev_proto env) (ucast (tp_workPerThreadRatio (ct_threadPool ct)))) ct)"

definition handle_SETTTLTRESH :: "string list \<Rightarrow> 'db control \<Rightarrow> control_error + 'db control" where
  "handle_SETTTLTRESH args = needs 1 args (with_number (args ! 1) (\<lambda>n. set_queue (\<lambda>q. q\<lparr>wq_ttlTreshold := n\<rparr>)))"

definition handle_GETTTLTRESH :: "'db control_env \<Rightarrow> 'db control \<Rightarrow> control_error + 'db control" where
  "handle_GETTTLTRESH env = respond (\<lambda>ct.
     sends (packUInt (ev_proto env) (ucast (wq_ttlTreshold (mg_workQueue (ct_manager ct))))) ct)"

definition handle_SETRECYCLE :: "string list \<Rightarrow> 'db control \<Rightarrow> control_error + 'db control" where
  "handle_SETRECYCLE args = needs 1 args (respond (changes (\<lambda>ct.
     case on_off_arg (args ! 1) of None \<Rightarrow> ct | Some on \<Rightarrow> set_pool (\<lambda>tp. tp\<lparr>tp_recycle := on\<rparr>) ct)))"

definition handle_GETRECYCLE :: "'db control_env \<Rightarrow> 'db control \<Rightarrow> control_error + 'db control" where
  "handle_GETRECYCLE env = respond (\<lambda>ct. sends (packBool (ev_proto env) (tp_recycle (ct_threadPool ct))) ct)"

definition handle_SETREMOTEQUERY :: "string list \<Rightarrow> 'db control \<Rightarrow> control_error + 'db control" where
  "handle_SETREMOTEQUERY args = needs 1 args (respond (changes (\<lambda>ct.
     case on_off_arg (args ! 1) of None \<Rightarrow> ct | Some on \<Rightarrow> ct\<lparr>ct_enableRemoteQueryReply := on\<rparr>)))"

definition handle_GETREMOTEQUERY :: "'db control_env \<Rightarrow> 'db control \<Rightarrow> control_error + 'db control" where
  "handle_GETREMOTEQUERY env = respond (\<lambda>ct. sends (packBool (ev_proto env) (ct_enableRemoteQueryReply ct)) ct)"

definition handle_GETHANDLERTHEADSCOUNT :: "'db control_env \<Rightarrow> 'db control \<Rightarrow> control_error + 'db control" where
  "handle_GETHANDLERTHEADSCOUNT env = respond (\<lambda>ct. sends (Listener_getConnectionHandlerCount env ct) ct)"

section \<open>Transactions\<close>

definition handle_ADDHOSTGROUP :: "'db control_env \<Rightarrow> string list \<Rightarrow> 'db control \<Rightarrow> control_error + 'db control" where
  "handle_ADDHOSTGROUP env args = needs 2 args (with_payload (args ! 2) (sends []) (\<lambda>data ct.
     res_bind (lift_packing (unpackDataHostGroup (ev_proto env) data (HostGroup_new (args ! 1)))) (\<lambda>g.
       case g of None \<Rightarrow> silent ct
       | Some hostGroup \<Rightarrow> res_bind (Listener_addHostGroup env (args ! 1) hostGroup ct) (sends (packBool (ev_proto env) True)))))"

definition handle_REMOVEHOSTGROUP :: "'db control_env \<Rightarrow> string list \<Rightarrow> 'db control \<Rightarrow> control_error + 'db control" where
  "handle_REMOVEHOSTGROUP env args = needs 1 args (respond (\<lambda>ct.
     res_bind (Listener_removeHostGroup (args ! 1) ct) (sends (packBool (ev_proto env) True))))"

definition handle_CLEARTRANSACTION :: "'db control_env \<Rightarrow> 'db control \<Rightarrow> control_error + 'db control" where
  "handle_CLEARTRANSACTION env = respond (\<lambda>ct.
     res_bind (Listener_clearTransaction ct) (sends (packBool (ev_proto env) True)))"

definition handle_GETHOSTGROUPHASH :: "'db control_env \<Rightarrow> 'db control \<Rightarrow> control_error + 'db control" where
  "handle_GETHOSTGROUPHASH env = respond (\<lambda>ct.
     res_bind (transaction_state ct) (\<lambda>t. sends (packHashInfo (ev_proto env) (st_hostGroups (rn_state t))) ct))"

text \<open>The hash is kept in the transaction.\<close>

definition handle_GETTRANSCONFIGHASH :: "'db control_env \<Rightarrow> 'db control \<Rightarrow> control_error + 'db control" where
  "handle_GETTRANSCONFIGHASH env = respond (\<lambda>ct.
     res_bind (transaction_state ct) (\<lambda>t.
       let t = (case State_hashConfigs (ev_reload env) (st_hostGroups (rn_state t)) of None \<Rightarrow> t
                | Some h \<Rightarrow> t\<lparr>rn_settings := (rn_settings t)\<lparr>se_hash := h\<rparr>\<rparr>)
       in sends (packHash (ev_proto env) ''config'' (se_hash (rn_settings t))) (set_transaction t ct)))"

fun commit_status_code :: "HM_COMMIT_TRANSACTION_STATUS \<Rightarrow> u64" where
  "commit_status_code HM_COMMIT_TRANSACTION_SUCCESS = 1"
| "commit_status_code HM_COMMIT_TRANSACTION_HASH_MISMATCH = 2"
| "commit_status_code HM_COMMIT_TRANSACTION_FAILURE = 3"

definition commit_answer :: "'db control_env \<Rightarrow> HM_COMMIT_TRANSACTION_STATUS \<Rightarrow> 'db action" where
  "commit_answer env status = sends (packUInt (ev_proto env) (commit_status_code status))"

definition handle_COMMITTRANSACTION :: "'db control_env \<Rightarrow> string list \<Rightarrow> 'db control \<Rightarrow> control_error + 'db control" where
  "handle_COMMITTRANSACTION env args = needs 1 args (with_payload (args ! 1) (commit_answer env HM_COMMIT_TRANSACTION_FAILURE)
     (\<lambda>data ct. res_bind (lift_packing (unpackHash (ev_proto env) data Hash_new)) (\<lambda>h.
        case h of None \<Rightarrow> commit_answer env HM_COMMIT_TRANSACTION_FAILURE ct
        | Some hash \<Rightarrow>
            res_bind (lift_daemon (StateManager_commitDaemonConfigs (ev_reload env) (ev_flight env) hash (ct_manager ct)))
              (\<lambda>(mg, status). commit_answer env status (ct\<lparr>ct_manager := mg\<rparr>)))))"

section \<open>Static addresses and marks\<close>

definition change_addresses ::
    "'db control_env \<Rightarrow> (string \<Rightarrow> HMIPAddress list \<Rightarrow> HMDNSCache \<Rightarrow> HMDNSCache) \<Rightarrow> string list \<Rightarrow> 'db control \<Rightarrow>
     control_error + 'db control" where
  "change_addresses env f args = needs 2 args (with_payload (args ! 2) (sends []) (\<lambda>data ct.
     case unpackIPAddresses (ev_proto env) data [] of None \<Rightarrow> silent ct
     | Some addresses \<Rightarrow>
         res_bind (on_state (\<lambda>(st, q). Some (State_forceDNSCheckAddresses (re_ares (ev_reload env)) (re_now (ev_reload env))
             (args ! 1) HM_DNS_TYPE_STATIC addresses (st\<lparr>st_dnsCache := f (args ! 1) addresses (st_dnsCache st)\<rparr>, q))) ct)
           (sends (packBool (ev_proto env) True))))"

definition handle_ADDDNSADDRESSES :: "'db control_env \<Rightarrow> string list \<Rightarrow> 'db control \<Rightarrow> control_error + 'db control" where
  "handle_ADDDNSADDRESSES env = change_addresses env DNSCache_addStaticDNSAddress"

definition handle_REMOVEDNSADDRESSES :: "'db control_env \<Rightarrow> string list \<Rightarrow> 'db control \<Rightarrow> control_error + 'db control" where
  "handle_REMOVEDNSADDRESSES env = change_addresses env DNSCache_removeStaticDNSAddress"

definition handle_GETDNSADDRESSES :: "'db control_env \<Rightarrow> string list \<Rightarrow> 'db control \<Rightarrow> control_error + 'db control" where
  "handle_GETDNSADDRESSES env args = needs 1 args (respond (\<lambda>ct.
     res_bind (current_state ct) (\<lambda>r.
       let static = (\<lambda>ipv6. fst (DNSCache_getStaticDNSAddress (args ! 1) ipv6 (st_dnsCache (rn_state r))))
       in sends (packIPAddresses (ev_proto env) (fold insort_insert (static True) (static False))) ct)))"

definition change_mark ::
    "'db control_env \<Rightarrow> (string \<Rightarrow> string \<Rightarrow> HMIPAddress \<Rightarrow> int list \<Rightarrow> 'db HMControl \<Rightarrow> control_error + ('db HMControl \<times> bool)) \<Rightarrow>
     string list \<Rightarrow> 'db control \<Rightarrow> control_error + 'db control" where
  "change_mark env f args = needs 4 args (
     case parse_address env (args ! 3) of None \<Rightarrow> respond (sends [])
     | Some address \<Rightarrow> with_payload (args ! 4) (sends []) (\<lambda>data ct.
         case unpackListInt64 (ev_proto env) data [] of None \<Rightarrow> silent ct
         | Some values \<Rightarrow> res_bind (f (args ! 1) (args ! 2) address values ct) (\<lambda>(ct, ok). sends (packBool (ev_proto env) ok) ct)))"

definition handle_SETHOSTMARK :: "'db control_env \<Rightarrow> string list \<Rightarrow> 'db control \<Rightarrow> control_error + 'db control" where
  "handle_SETHOSTMARK env = change_mark env Listener_setHostMark"

definition handle_REMOVEHOSTMARK :: "'db control_env \<Rightarrow> string list \<Rightarrow> 'db control \<Rightarrow> control_error + 'db control" where
  "handle_REMOVEHOSTMARK env = change_mark env Listener_removeHostMark"

definition handle_GETHOSTMARK :: "'db control_env \<Rightarrow> string list \<Rightarrow> 'db control \<Rightarrow> control_error + 'db control" where
  "handle_GETHOSTMARK env args = needs 3 args (respond (\<lambda>ct.
     case parse_address env (args ! 3) of None \<Rightarrow> sends [] ct
     | Some address \<Rightarrow> res_bind (Listener_getHostMark env (args ! 1) (args ! 2) address ct) (\<lambda>data. sends data ct)))"

section \<open>Dispatch\<close>

definition handle_task :: "'db control_env \<Rightarrow> HM_COMMAND_TASKS \<Rightarrow> string list \<Rightarrow> 'db control \<Rightarrow> control_error + 'db control" where
  "handle_task env task args =
     (case task of
        RELOAD \<Rightarrow> handle_RELOAD env args
      | REFRESH \<Rightarrow> handle_REFRESH env
      | HOSTGROUPINFO \<Rightarrow> handle_HOSTGROUPINFO env args
      | LOADFBINFO \<Rightarrow> handle_LOADFBINFO env args
      | THREADINFO \<Rightarrow> handle_THREADINFO env
      | WORKQUEUEINFO \<Rightarrow> handle_WORKQUEUEINFO env
      | SCHDQUEUEINFO \<Rightarrow> handle_SCHDQUEUEINFO env
      | SETHOSTSTATUS \<Rightarrow> handle_SETHOSTSTATUS env args
      | HOSTGROUPLIST \<Rightarrow> handle_HOSTGROUPLIST env
      | HOSTLIST \<Rightarrow> handle_HOSTLIST env args
      | HOSTCHECK \<Rightarrow> handle_HOSTCHECK env args
      | HOSTRESULTS \<Rightarrow> handle_HOSTRESULTS env args
      | LOADFBINFOHOST \<Rightarrow> handle_LOADFBINFOHOST env args
      | LOADFBINFOIP \<Rightarrow> handle_LOADFBINFOIP env args
      | HOSTIPRESULTS \<Rightarrow> handle_HOSTIPRESULTS env args
      | HOSTGROUPPARAMS \<Rightarrow> handle_HOSTGROUPPARAMS env args
      | HOSTSCHDINFO \<Rightarrow> handle_HOSTSCHDINFO env args
      | REMOTESCHDINFO \<Rightarrow> handle_REMOTESCHDINFO env args
      | SETLOGLEVEL \<Rightarrow> handle_SETLOGLEVEL args
      | GETLOGLEVEL \<Rightarrow> handle_GETLOGLEVEL env
      | SETCONNECTIONTIMEOUT \<Rightarrow> handle_SETCONNECTIONTIMEOUT args
      | GETCONNECTIONTIMEOUT \<Rightarrow> handle_GETCONNECTIONTIMEOUT env
      | HEALTHCHECK \<Rightarrow> handle_HEALTHCHECK env args
      | DNSCHECK \<Rightarrow> handle_DNSCHECK env args
      | REMOTEHOSTGROUPCHECK \<Rightarrow> handle_REMOTEHOSTGROUPCHECK env args
      | SETMONFREQ \<Rightarrow> handle_SETMONFREQ args
      | GETMONFREQ \<Rightarrow> handle_GETMONFREQ env
      | SETSTRIDE \<Rightarrow> handle_SETSTRIDE args
      | GETSTRIDE \<Rightarrow> handle_GETSTRIDE env
      | SETWORKPERTHREAD \<Rightarrow> handle_SETWORKPERTHREAD args
      | GETWORKPERTHREAD \<Rightarrow> handle_GETWORKPERTHREAD env
      | SETTTLTRESH \<Rightarrow> handle_SETTTLTRESH args
      | GETTTLTRESH \<Rightarrow> handle_GETTTLTRESH env
      | SETRECYCLE \<Rightarrow> handle_SETRECYCLE args
      | GETRECYCLE \<Rightarrow> handle_GETRECYCLE env
      | SETREMOTEQUERY \<Rightarrow> handle_SETREMOTEQUERY args
      | GETREMOTEQUERY \<Rightarrow> handle_GETREMOTEQUERY env
      | GETHANDLERTHEADSCOUNT \<Rightarrow> handle_GETHANDLERTHEADSCOUNT env
      | ADDHOSTGROUP \<Rightarrow> handle_ADDHOSTGROUP env args
      | REMOVEHOSTGROUP \<Rightarrow> handle_REMOVEHOSTGROUP env args
      | CLEARTRANSACTION \<Rightarrow> handle_CLEARTRANSACTION env
      | GETHOSTGROUPHASH \<Rightarrow> handle_GETHOSTGROUPHASH env
      | GETTRANSCONFIGHASH \<Rightarrow> handle_GETTRANSCONFIGHASH env
      | COMMITTRANSACTION \<Rightarrow> handle_COMMITTRANSACTION env args
      | ADDDNSADDRESSES \<Rightarrow> handle_ADDDNSADDRESSES env args
      | REMOVEDNSADDRESSES \<Rightarrow> handle_REMOVEDNSADDRESSES env args
      | GETDNSADDRESSES \<Rightarrow> handle_GETDNSADDRESSES env args
      | SETHOSTMARK \<Rightarrow> handle_SETHOSTMARK env args
      | REMOVEHOSTMARK \<Rightarrow> handle_REMOVEHOSTMARK env args
      | GETHOSTMARK \<Rightarrow> handle_GETHOSTMARK env args
      | UNDEFINED \<Rightarrow> Inr)"

definition handleCommands :: "'db control_env \<Rightarrow> string \<Rightarrow> 'db control \<Rightarrow> control_error + 'db control" where
  "handleCommands env cmd c =
     (case Listener_tokenize cmd of [] \<Rightarrow> Inr c
      | version # args \<Rightarrow>
          res_bind (getPackingVersion version) (\<lambda>known.
            if \<not> known then respond (sends []) c
            else case args of [] \<Rightarrow> Inr c | task # _ \<Rightarrow> handle_task env (Listener_convert task) args c))"

section \<open>A command only takes bytes from the stream\<close>

lemmas handler_defs =
  handle_RELOAD_def handle_REFRESH_def with_hash_def handle_HOSTGROUPINFO_def handle_LOADFBINFO_def handle_THREADINFO_def
  handle_WORKQUEUEINFO_def handle_SCHDQUEUEINFO_def handle_SETHOSTSTATUS_def handle_HOSTGROUPLIST_def handle_HOSTLIST_def handle_HOSTCHECK_def
  with_check_def handle_HOSTRESULTS_def handle_LOADFBINFOHOST_def handle_LOADFBINFOIP_def handle_HOSTIPRESULTS_def handle_HOSTGROUPPARAMS_def
  handle_HOSTSCHDINFO_def handle_REMOTESCHDINFO_def handle_SETLOGLEVEL_def handle_GETLOGLEVEL_def handle_SETCONNECTIONTIMEOUT_def handle_GETCONNECTIONTIMEOUT_def
  handle_HEALTHCHECK_def handle_DNSCHECK_def handle_REMOTEHOSTGROUPCHECK_def handle_SETMONFREQ_def handle_GETMONFREQ_def handle_SETSTRIDE_def
  handle_GETSTRIDE_def handle_SETWORKPERTHREAD_def handle_GETWORKPERTHREAD_def handle_SETTTLTRESH_def handle_GETTTLTRESH_def handle_SETRECYCLE_def
  handle_GETRECYCLE_def handle_SETREMOTEQUERY_def handle_GETREMOTEQUERY_def handle_GETHANDLERTHEADSCOUNT_def handle_ADDHOSTGROUP_def handle_REMOVEHOSTGROUP_def
  handle_CLEARTRANSACTION_def handle_GETHOSTGROUPHASH_def handle_GETTRANSCONFIGHASH_def handle_COMMITTRANSACTION_def change_addresses_def handle_ADDDNSADDRESSES_def
  handle_REMOVEDNSADDRESSES_def handle_GETDNSADDRESSES_def change_mark_def handle_SETHOSTMARK_def handle_REMOVEHOSTMARK_def handle_GETHOSTMARK_def

definition consumes :: "('db control \<Rightarrow> control_error + 'db control) \<Rightarrow> bool" where
  "consumes f \<longleftrightarrow> (\<forall>c c'. f c = Inr c' \<longrightarrow> length (su_in (snd c')) \<le> length (su_in (snd c)))"

lemma sendData_in [simp]: "su_in (fst (SocketTCP_sendData data su)) = su_in su"
  by (simp add: SocketTCP_sendData_def)

lemma sendMessage_in [simp]: "su_in (fst (SocketUtil_sendMessage data su)) = su_in su"
  by (auto simp: SocketUtil_sendMessage_def SocketTCP_sendData_def Let_def)

lemma recvData_in: "SocketTCP_recvData n su = (su', data, status) \<Longrightarrow> length (su_in su') \<le> length (su_in su)"
  by (auto simp: SocketTCP_recvData_def split: if_splits)

lemma strtoul_in: "SocketUtil_strtoul s su = Inr (su', r) \<Longrightarrow> su_in su' = su_in su"
  by (auto simp: SocketUtil_strtoul_def split: sum.splits option.splits)

lemma receive_payload_in:
  "receive_payload s su = Inr (su', p) \<Longrightarrow> length (su_in su') \<le> length (su_in su)"
  unfolding receive_payload_def SocketUtil_receiveMessage_def
  by (auto split: sum.splits option.splits prod.splits dest!: strtoul_in recvData_in)

lemma consumes_respond [simp]: "consumes (respond f)"
  by (auto simp: consumes_def respond_def res_bind_def split: sum.splits option.splits)

lemma consumes_with_payload [simp]: "consumes (with_payload n lost f)"
proof -
  have "length (su_in su') \<le> length (su_in su)" if "respond g (ct, su) = Inr (ct', su')" for g ct su and ct' :: "'a HMControl" and su'
    using consumes_respond [of g] that by (fastforce simp: consumes_def)
  then show ?thesis
    unfolding consumes_def with_payload_def res_bind_def
    by (fastforce split: sum.splits prod.splits payload.splits dest: receive_payload_in)
qed

lemma consumes_with_number [simp]: "consumes (with_number s f)"
  by (auto simp: consumes_def with_number_def split: sum.splits option.splits dest!: strtoul_in)

lemma consumes_needs [simp]: "consumes f \<Longrightarrow> consumes (needs n args f)"
  by (simp add: consumes_def needs_def)

lemma consumes_Inr [simp]: "consumes Inr"
  by (simp add: consumes_def)

lemma consumes_handle_task: "consumes (handle_task env task args)"
  by (cases task) (simp_all add: handle_task_def handler_defs split: option.split)

lemma consumesD: "f c = Inr c' \<Longrightarrow> consumes f \<Longrightarrow> length (su_in (snd c')) \<le> length (su_in (snd c))"
  unfolding consumes_def by blast

lemma handleCommands_in:
  "handleCommands env cmd c = Inr c' \<Longrightarrow> length (su_in (snd c')) \<le> length (su_in (snd c))"
  by (auto simp: handleCommands_def res_bind_def consumes_handle_task dest: consumesD split: list.splits sum.splits if_splits)

end
