(* ===== verification/HM_Service.thy ===== *)
theory HM_Service
  imports HM_Listener
begin

text \<open>
  The connections of the listener (\<open>HMControlTCPSocket.cpp\<close>): \<open>handleClient\<close> reads commands from a connection until it ends, and
  what two daemons do together, the queries of \<open>HM_Socket\<close> answered by the commands of \<open>HM_Listener\<close>.

  A connection that is kept open waits for more bytes after a time-out; \<open>handleClient\<close> ends there with the flag that it
  waits. Otherwise the socket is closed, and the thread is marked as ended.
\<close>

section \<open>Connections\<close>

definition client_ended :: "nat \<Rightarrow> 'db HMControl \<Rightarrow> 'db HMControl" where
  "client_ended tid ct =
     ct\<lparr>ct_handlerThreadsStatus :=
       (case smap_find (<) tid (ct_handlerThreadsStatus ct) of
          None \<Rightarrow> smap_insert (<) tid True (ct_handlerThreadsStatus ct)
        | Some _ \<Rightarrow> smap_adjust (<) tid (\<lambda>_. True) (ct_handlerThreadsStatus ct))\<rparr>"

lemma receiveCommand_in:
  assumes "SocketUtil_receiveCommand su = (su', cmd, HM_SOCK_DATA_OK)"
  shows "length (su_in su') < length (su_in su)"
proof -
  obtain su1 bytes status where r: "SocketTCP_recvData 8 su = (su1, bytes, status)" by (metis prod_cases3)
  have ok: "status = HM_SOCK_DATA_OK" "su_connected su" using assms r by (auto simp: SocketUtil_receiveCommand_def split: if_splits)
  then have "length (su_in su1) < length (su_in su)" using r by (auto simp: SocketTCP_recvData_def split: if_splits)
  then show ?thesis using assms r ok
    by (auto simp: SocketUtil_receiveCommand_def split: if_splits prod.splits dest!: recvData_in)
qed

text \<open>The state, the bytes that were sent, and whether the connection waits.\<close>

function handleClient ::
    "'db control_env \<Rightarrow> nat \<Rightarrow> bool \<Rightarrow> 'db control \<Rightarrow> control_error + ('db HMControl \<times> string \<times> bool)" where
  "handleClient env tid keepOpen (ct, su) =
     (case SocketUtil_receiveCommand su of (su, cmd, status) \<Rightarrow>
        if status = HM_SOCK_DATA_TIMEOUT \<and> keepOpen \<and> ct_keepRunning ct then Inr (ct, su_out su, True)
        else if status \<noteq> HM_SOCK_DATA_OK \<or> cmd = ''quit'' then Inr (client_ended tid ct, su_out su, False)
        else if cmd = command [''keepopen''] then
          (if ct_keepRunning ct then handleClient env tid True (ct, su) else Inr (client_ended tid ct, su_out su, False))
        else
          (case handleCommands env cmd (ct, su) of Inl e \<Rightarrow> Inl e
           | Inr (ct, su) \<Rightarrow>
               if ct_keepRunning ct then handleClient env tid keepOpen (ct, su)
               else Inr (client_ended tid ct, su_out su, False)))"
  by pat_completeness auto
termination
proof (relation "measure (\<lambda>(_, _, _, _, su). length (su_in su))", simp, goal_cases)
  case (1 env tid keepOpen ct su x p cmd status)
  then have "SocketUtil_receiveCommand su = (x, cmd, HM_SOCK_DATA_OK)" by auto
  then show ?case using receiveCommand_in by force
next
  case (2 env tid keepOpen ct su x p cmd status c ct' su')
  then have "SocketUtil_receiveCommand su = (x, cmd, HM_SOCK_DATA_OK)" "handleCommands env cmd (ct, x) = Inr (ct', su')" by auto
  then show ?case using receiveCommand_in handleCommands_in by fastforce
qed

declare handleClient.simps [simp del]

text \<open>A turn of \<open>handleConnections\<close> with a new client, and the end of the listener.\<close>

definition Listener_accept :: "nat \<Rightarrow> 'db HMControl \<Rightarrow> 'db HMControl" where
  "Listener_accept tid ct =
     (let ct = Listener_cleanHandlerThreads ct in ct\<lparr>ct_handlerThreads := ct_handlerThreads ct @ [tid]\<rparr>)"

definition Listener_shutDown :: "'db HMControl \<Rightarrow> 'db HMControl" where
  "Listener_shutDown ct = ct\<lparr>ct_keepRunning := False, ct_handlerThreads := []\<rparr>"

section \<open>A query and its answer\<close>

text \<open>The words of a command.\<close>

definition is_word :: "string \<Rightarrow> bool" where
  "is_word w \<longleftrightarrow> w \<noteq> [] \<and> CHR '' '' \<notin> set w \<and> CHR 0x00 \<notin> set w"

lemma takeWhile_word: "x \<notin> set w \<Longrightarrow> takeWhile (\<lambda>c. c \<noteq> x) w = w" "x \<notin> set w \<Longrightarrow> dropWhile (\<lambda>c. c \<noteq> x) w = []"
  by (induction w) auto

lemma tokenize_words:
  "is_word w \<Longrightarrow> list_all is_word ws \<Longrightarrow> Listener_tokenize (concat (w # map (\<lambda>w. '' '' @ w) ws)) = w # ws"
proof (induction ws arbitrary: w)
  case Nil
  then show ?case
    by (subst Listener_tokenize.simps) (simp add: is_word_def takeWhile_word Listener_tokenize.simps [of "[]"])
next
  case (Cons v ws)
  then have "Listener_tokenize (concat (v # map (\<lambda>w. '' '' @ w) ws)) = v # ws" by simp
  moreover have "CHR '' '' \<notin> set w" using Cons.prems by (simp add: is_word_def)
  then have "takeWhile (\<lambda>c. c \<noteq> CHR '' '') (w @ CHR '' '' # s) = w" "dropWhile (\<lambda>c. c \<noteq> CHR '' '') (w @ CHR '' '' # s) = CHR '' '' # s"
    for s by (induction w) auto
  moreover have "(@) '' '' = (#) (CHR '' '')" by (simp add: fun_eq_iff)
  ultimately show ?case by (subst Listener_tokenize.simps) simp
qed

lemma digits_one: "digits 1 = ''1''"
proof -
  have "char_of (49 :: nat) = CHR ''1''" by code_simp
  then show ?thesis by (subst digits.simps) simp
qed

lemma version_word: "to_string (uint HM_CONTROL_SOCKET_VERSION) = ''1''"
  using digits_one by (simp add: HM_CONTROL_SOCKET_VERSION_def to_string_def)

lemma tokenize_command: "list_all is_word ws \<Longrightarrow> Listener_tokenize (command ws) = ''1'' # ws"
  unfolding command_def version_word by (rule tokenize_words) (simp_all add: is_word_def)

lemma command_chars: "list_all is_word ws \<Longrightarrow> CHR 0x00 \<notin> set (command ws)" "command ws \<noteq> []"
  by (auto simp: command_def version_word is_word_def list_all_iff)

text \<open>The numbers of a command.\<close>

lemma digits_word: "is_word (digits n)"
proof -
  have "CHR '' '' \<notin> set (digits n)" "CHR 0x00 \<notin> set (digits n)" using digits_all [of _ n] by force+
  then show ?thesis using digits_first [of n] by (auto simp: is_word_def)
qed

lemma length_digits: "length (digits n) \<le> Suc n"
proof (induction n rule: digits.induct)
  case (1 n)
  show ?case
  proof (cases "n < 10")
    case True
    then show ?thesis by (simp add: digits.simps [of n])
  next
    case False
    then have "length (digits n) \<le> Suc (Suc (n div 10))" using 1 by (simp add: digits.simps [of n])
    then show ?thesis using False by linarith
  qed
qed

lemma stoul_digits: "0 < n \<Longrightarrow> n < 2 ^ 64 \<Longrightarrow> stoul (digits n) = Inr (Some (of_nat n))"
proof -
  assume n: "0 < n" "n < 2 ^ 64"
  have "takeWhile (\<lambda>c. digit_value c < 10) (digits n) = digits n" by (simp add: takeWhile_eq_all_conv digits_all)
  then show ?thesis using n digits_first [of n]
    by (auto simp: stoul_def base_prefix_def digits_first_nonzero strtoul_digits)
qed

lemma packing_version: "getPackingVersion ''1'' = Inr True"
  using stoul_digits [of 1, unfolded digits_one] by (simp add: getPackingVersion_def HM_CONTROL_SOCKET_VERSION_def)

lemma handleCommands_command:
  assumes "list_all is_word (task # args)"
  shows "handleCommands env (command (task # args)) = handle_task env (Listener_convert task) (task # args)"
  by (simp add: fun_eq_iff handleCommands_def tokenize_command [OF assms] packing_version)

lemma receive_payload_data:
  assumes "su_connected su" and "su_in su = data @ rest" and "data \<noteq> []" and "length data < 2 ^ 32"
  shows "receive_payload (to_string (int (length data))) su =
    Inr (su\<lparr>su_in := rest, su_reason := HM_REASON_SUCCESS\<rparr>, received data)"
proof -
  have n: "unat (ucast (of_nat (length data) :: u64) :: u32) = length data"
    using assms(4) by (simp add: unat_of_nat take_bit_nat_eq_self unsigned_ucast_eq)
  have "SocketUtil_strtoul (to_string (int (length data))) su = Inr (su, Some (ucast (of_nat (length data) :: u64)))"
    using assms(3,4) by (simp add: SocketUtil_strtoul_def to_string_def stoul_digits)
  then show ?thesis
    unfolding receive_payload_def SocketUtil_receiveMessage_def
    using recvData_append [OF assms(1,2), of "length data"] assms(3) n by simp
qed

text \<open>The network that leads to a daemon: its answer is what \<open>handleClient\<close> sends.\<close>

definition daemon_network :: "'db control_env \<Rightarrow> nat \<Rightarrow> 'db HMControl \<Rightarrow> network" where
  "daemon_network env tid ct =
     \<lparr>ne_connect = HM_REASON_SUCCESS,
      ne_answer = (\<lambda>bytes. case handleClient env tid False (ct, SocketUtil_accepted bytes) of Inl _ \<Rightarrow> [] | Inr (_, out, _) \<Rightarrow> out)\<rparr>"

definition idle_socket :: "HMSocketUtil \<Rightarrow> bool" where
  "idle_socket su \<longleftrightarrow> su_connected su \<and> su_writable su \<and> su_in su = [] \<and> su_out su = []"

lemma handleClient_served:
  assumes "list_all is_word ws" and "2 \<le> length ws" and "length (command ws) < 2 ^ 64"
    and "handleCommands env (command ws) (ct, (SocketUtil_accepted data)\<lparr>su_reason := HM_REASON_SUCCESS\<rparr>) = Inr (ct', su')"
    and "su_in su' = []" and "su_connected su'" and "su_peer su'"
  shows "handleClient env tid False (ct, SocketUtil_accepted (message_bytes (command ws) @ data)) =
    Inr (client_ended tid ct', su_out su', False)"
proof -
  let ?cmd = "command ws"
  have "SocketUtil_receiveCommand (SocketUtil_accepted (message_bytes ?cmd @ data)) =
      ((SocketUtil_accepted data)\<lparr>su_reason := HM_REASON_SUCCESS\<rparr>, ?cmd, HM_SOCK_DATA_OK)"
    by (subst receiveCommand_message) (use assms(1,3) command_chars in \<open>simp_all add: SocketUtil_accepted_def\<close>)
  moreover have "?cmd \<noteq> ''quit''" "?cmd \<noteq> command [''keepopen'']"
  proof -
    have "Listener_tokenize ''quit'' = [''quit'']" "Listener_tokenize (command [''keepopen'']) = [''1'', ''keepopen'']"
      using tokenize_words [of "''quit''" "[]"] tokenize_command [of "[''keepopen'']"] by (simp_all add: is_word_def)
    then show "?cmd \<noteq> ''quit''" "?cmd \<noteq> command [''keepopen'']" using tokenize_command [OF assms(1)] assms(2) by auto
  qed
  moreover have "handleClient env tid False (ct', su') = Inr (client_ended tid ct', su_out su', False)"
    using assms(5-7) by (subst handleClient.simps) (simp add: SocketUtil_receiveCommand_def SocketTCP_recvData_def)
  ultimately show ?thesis using assms(4) by (subst handleClient.simps) simp
qed

lemma query_answered:
  assumes "idle_socket su" and "list_all is_word ws" and "2 \<le> length ws" and "length (command ws) < 2 ^ 64"
    and "handleCommands env (command ws) (ct, (SocketUtil_accepted data)\<lparr>su_reason := HM_REASON_SUCCESS\<rparr>) = Inr (ct', su')"
    and "su_in su' = []" and "su_connected su'" and "su_peer su'"
    and "su_out su' = message_bytes reply" and "reply \<noteq> []" and "length reply < 2 ^ 64"
  shows "SocketUtil_query (daemon_network env tid ct) ws data su = (su\<lparr>su_reason := HM_REASON_SUCCESS\<rparr>, reply, HM_SOCK_DATA_OK)"
proof -
  let ?net = "daemon_network env tid ct" and ?ok = "\<lambda>bytes. su\<lparr>su_in := bytes, su_out := [], su_reason := HM_REASON_SUCCESS\<rparr>"
    and ?sent = "message_bytes (command ws)" and ?n = "of_nat (length reply) :: u64"
  have su: "su_connected su" "su_writable su" "su_in su = []" "su_out su = []" using assms(1) by (simp_all add: idle_socket_def)
  have sent: "SocketUtil_sendCommand (command ws) su = (su\<lparr>su_out := ?sent\<rparr>, True)"
    "SocketTCP_sendData data (su\<lparr>su_out := ?sent\<rparr>) = (su\<lparr>su_out := ?sent @ data\<rparr>, True)"
    using su assms(4) by (simp_all add: SocketUtil_sendCommand_def sendMessage_bytes SocketTCP_sendData_def)
  have "ne_answer ?net (?sent @ data) = message_bytes reply"
    using handleClient_served [OF assms(2-8)] by (simp add: daemon_network_def assms(9))
  then have answer: "deliver ?net (su\<lparr>su_out := ?sent @ data\<rparr>) = su\<lparr>su_in := message_bytes reply, su_out := []\<rparr>"
    using su by (simp add: deliver_def)
  let ?got = "su\<lparr>su_in := message_bytes reply, su_out := []\<rparr>"
  have order: "?got\<lparr>su_in := reply, su_reason := HM_REASON_SUCCESS\<rparr> = ?ok reply"
    "(?ok reply)\<lparr>su_in := [], su_reason := HM_REASON_SUCCESS\<rparr> = su\<lparr>su_reason := HM_REASON_SUCCESS\<rparr>"
    using su by (cases su, simp)+
  have "SocketTCP_recvData 8 ?got = (?ok reply, size_bytes (hton64 ?n), HM_SOCK_DATA_OK)"
    using recvData_append [of ?got "size_bytes (hton64 ?n)" reply 8] su(1) unfolding order(1) by (simp add: message_bytes_def)
  moreover have "SocketTCP_recvData (unat ?n) (?ok reply) = (su\<lparr>su_reason := HM_REASON_SUCCESS\<rparr>, reply, HM_SOCK_DATA_OK)"
    using recvData_append [of "?ok reply" reply "[]" "unat ?n"] su(1) assms(10,11) unfolding order(2) by (simp add: of_nat_u64)
  ultimately show ?thesis
    using assms(10,11) by (simp add: SocketUtil_query_def sent answer of_nat_u64)
qed

section \<open>Results of a remote daemon\<close>

lemma unpack_hash_sent:
  assumes "unat (ha_hashSize hash) \<le> 64" and "unat (ha_hashSize hash) \<le> length (ha_hashValue hash)"
  obtains h where "unpack_hash (pack_hash name hash) Hash_new = Inr h" and "Hash_eq h k \<longleftrightarrow> Hash_eq hash k"
proof -
  let ?n = "unat (ha_hashSize hash)"
  let ?h = "if ?n = 0 then Hash_new\<lparr>ha_hashSize := 0\<rparr>
    else Hash_new\<lparr>ha_hashSize := ha_hashSize hash, ha_hashValue := take ?n (ha_hashValue hash) @ drop ?n (ha_hashValue Hash_new)\<rparr>"
  have "unpack_hash (pack_hash name hash) Hash_new = Inr ?h"
    using assms by (auto simp: unpack_hash_def pack_hash_def Let_def min_def)
  moreover have "Hash_eq ?h k \<longleftrightarrow> Hash_eq hash k"
    using assms(2) by (auto simp: Hash_eq_def unat_eq_0 min_def)
  ultimately show thesis using that by blast
qed

definition group_message :: "HMDataHostGroup \<Rightarrow> HMGroupCheckResult list \<Rightarrow> pb_HostGroupInfo" where
  "group_message g results =
     \<lparr>pi_hostGroup = Some (packDataHostGroup g),
      pi_groupCheckResult = map (\<lambda>r. \<lparr>pn_hostname = gr_hostName r,
        pn_hostResults = Some (packDataCheckResult (gr_hostName r) (gr_result r))\<rparr>) results\<rparr>"

definition sent_check :: "HMGroupCheckResult \<Rightarrow> HMGroupCheckResult" where
  "sent_check r =
     GroupCheckResult_default\<lparr>gr_hostName := gr_hostName r, gr_result := sent_result (gr_result r),
       gr_address := cr_address (gr_result r)\<rparr>"

lemma unpackHostGroupInfo_sent:
  assumes "transmits (pf_HostGroupInfo pb) (group_message g results)" and "distinct (hg_hosts g)" and "distinct (hg_hostGroups g)"
    and "\<And>r. r \<in> set results \<Longrightarrow> CheckResult_storable (gr_result r)"
  shows "unpackHostGroupInfo pb (packHostGroupInfo pb g results) (HostGroup_new name, []) =
    Inr (Some (sent_group name g, map sent_check results))"
  using assms
  by (simp add: unpackHostGroupInfo_def packHostGroupInfo_def group_message_def transmits_def field_def
      unpack_packDataHostGroup unpack_packDataCheckResult sent_check_def sent_result_def Let_def)

lemma hostgroup_answered:
  assumes "mg_currentState (ct_manager ct) = Some r" and "group_find name (st_hostGroups (rn_state r)) = Some g"
    and "Listener_getHostGroupResults env name ct = Inr (ct', results)"
    and "Hash_eq hash (group_hash g)" and "unat (ha_hashSize hash) \<le> 64" and "unat (ha_hashSize hash) \<le> length (ha_hashValue hash)"
    and "transmits (pf_HashHGPair (ev_proto env)) (pack_hash name hash)"
    and "data = packHash (ev_proto env) name hash" and "data \<noteq> []" and "length data < 2 ^ 32"
    and "su_connected su" and "su_writable su" and "su_in su = data"
    and "length (packHostGroupInfo (ev_proto env) g results) < 2 ^ 64"
  shows "handle_task env HOSTGROUPINFO [''hostgroup'', name, to_string (int (length data))] (ct, su) =
    Inr (ct', su\<lparr>su_in := [], su_reason := HM_REASON_SUCCESS,
      su_out := su_out su @ message_bytes (packHostGroupInfo (ev_proto env) g results)\<rparr>)"
proof -
  obtain h where h: "unpack_hash (pack_hash name hash) Hash_new = Inr h" "Hash_eq h (group_hash g)"
    using unpack_hash_sent [OF assms(5,6)] assms(4) by metis
  have "unpackHash (ev_proto env) data Hash_new = Inr (Some h)"
    using assms(7) h(1) by (simp add: assms(8) unpackHash_def packHash_def transmits_def)
  moreover have "Listener_createHostGroup env name (Some h) ct = sends (packHostGroupInfo (ev_proto env) g results) ct'"
    using assms(1-3) h(2)
    by (simp add: Listener_createHostGroup_def current_state_def Listener_getHostGroupInfo_def)
  moreover have "receive_payload (to_string (int (length data))) su = Inr (su\<lparr>su_in := [], su_reason := HM_REASON_SUCCESS\<rparr>, received data)"
    using assms(9-13) by (intro receive_payload_data) simp_all
  ultimately show ?thesis
    using assms(11,12,14)
    by (simp add: handle_task_def handle_HOSTGROUPINFO_def needs_def with_hash_def with_payload_def respond_def sends_def
        lift_packing_def sendMessage_bytes)
qed

text \<open>C23: A daemon that asks another one for the results of a host group receives the results that are stored there, with
  the fields of a result that are not sent at their initial values. The two hashes of the group have to agree, the
  results have to be ones a daemon stores, and protocol buffers have to transmit the two messages.\<close>

theorem remote_group_results:
  assumes "mg_currentState (ct_manager ct) = Some r" and "group_find name (st_hostGroups (rn_state r)) = Some g"
    and "Listener_getHostGroupResults env name ct = Inr (ct', results)"
    and "Hash_eq hash (group_hash g)" and "unat (ha_hashSize hash) \<le> 64" and "unat (ha_hashSize hash) \<le> length (ha_hashValue hash)"
    and "distinct (hg_hosts g)" and "distinct (hg_hostGroups g)" and "\<forall>res\<in>set results. CheckResult_storable (gr_result res)"
    and "transmits (pf_HashHGPair (ev_proto env)) (pack_hash name hash)"
    and "transmits (pf_HostGroupInfo (ev_proto env)) (group_message g results)"
    and "is_word name" and "length name < 2 ^ 32"
    and "packHash (ev_proto env) name hash \<noteq> []" and "length (packHash (ev_proto env) name hash) < 2 ^ 32"
    and "packHostGroupInfo (ev_proto env) g results \<noteq> []" and "length (packHostGroupInfo (ev_proto env) g results) < 2 ^ 64"
    and "idle_socket su" and "\<not> su_connectionReset su" and "su_reason su \<in> {HM_REASON_NONE, HM_REASON_SUCCESS}"
  shows "SocketUtil_getHostGroupResults (ev_proto env) (daemon_network env tid ct) name hash su =
    Inr (su\<lparr>su_reason := HM_REASON_SUCCESS\<rparr>, map sent_check results, HM_SOCK_DATA_OK)"
proof -
  let ?pb = "ev_proto env"
  define data where "data = packHash ?pb name hash"
  let ?ws = "[''hostgroup'', name, to_string (int (length data))]" and ?reply = "packHostGroupInfo ?pb g results"
  let ?su = "(SocketUtil_accepted data)\<lparr>su_reason := HM_REASON_SUCCESS\<rparr>"
  have words: "list_all is_word ?ws" using assms(12) digits_word by (simp add: is_word_def to_string_def)
  have task: "Listener_convert ''hostgroup'' = HOSTGROUPINFO" by (simp add: Listener_convert_def commands_def)
  have "length (command ?ws) < 2 ^ 64"
    using length_digits [of "length data"] assms(13,15) unfolding command_def version_word by (simp add: to_string_def data_def)
  note run = query_answered [OF assms(18) words _ this, unfolded handleCommands_command [OF words] task,
      OF _ hostgroup_answered [OF assms(1-6,10) data_def]]
  have "SocketUtil_query (daemon_network env tid ct) ?ws data su = (su\<lparr>su_reason := HM_REASON_SUCCESS\<rparr>, ?reply, HM_SOCK_DATA_OK)"
    by (rule run) (use assms(14-17) in \<open>simp_all add: SocketUtil_accepted_def data_def\<close>)
  moreover have "connection_ready (daemon_network env tid ct) su = su" using assms(19,20) by (auto simp: connection_ready_def)
  moreover have "unpackHostGroupInfo ?pb ?reply (HostGroup_new name, []) = Inr (Some (sent_group name g, map sent_check results))"
    using assms(7-9,11) by (intro unpackHostGroupInfo_sent) simp_all
  ultimately show ?thesis
    by (simp add: SocketUtil_getHostGroupResults_def query_result_def Let_def data_def)
qed

section \<open>Groups that are added\<close>

text \<open>The command that adds a group puts the group into the transaction as it was packed, except that its remote
  check, its way of remote checks, its flow and its kind of DNS lookup are the initial ones, whatever the client
  has set; a new group has no hash. The current state is not changed.\<close>

theorem added_group_arrives:
  assumes "mg_newTransactionState (ct_manager ct) = Some t" and "groups_of t name = None"
    and "distinct (hg_hosts g)" and "distinct (hg_hostGroups g)"
    and "transmits (pf_DataHostGroup (ev_proto env)) (packDataHostGroup g)"
    and "data = packDataHostGroup_bytes (ev_proto env) g" and "data \<noteq> []" and "length data < 2 ^ 32"
    and "su_connected su" and "su_writable su" and "su_in su = data @ rest"
    and "length (packBool (ev_proto env) True) < 2 ^ 64"
  shows "\<exists>t'. handle_task env ADDHOSTGROUP [''addhostgroup'', name, to_string (int (length data))] (ct, su) =
      Inr (set_transaction t' ct, su\<lparr>su_in := rest, su_reason := HM_REASON_SUCCESS,
        su_out := su_out su @ message_bytes (packBool (ev_proto env) True)\<rparr>)
    \<and> st_hostGroups (rn_state t') =
        smap_insert (<) name (g\<lparr>hg_groupName := name, hg_remoteCheckType := HM_REMOTE_CHECK_NONE, hg_remoteCheck := [],
          hg_hashValue := [], hg_checkPlugin := HM_CHECK_PLUGIN_DEFAULT, hg_DNSType := HM_DNS_TYPE_LOOKUP,
          hg_flowType := HM_FLOW_DNS_HEALTH_TYPE\<rparr>) (st_hostGroups (rn_state t))"
proof -
  have "unpackDataHostGroup (ev_proto env) data (HostGroup_new name) = Inr (Some (sent_group name g))"
    using assms(5) unpack_packDataHostGroup [OF assms(3,4), of name]
    by (simp add: assms(6) unpackDataHostGroup_def packDataHostGroup_bytes_def transmits_def)
  moreover have "receive_payload (to_string (int (length data))) su = Inr (su\<lparr>su_in := rest, su_reason := HM_REASON_SUCCESS\<rparr>, received data)"
    by (intro receive_payload_data assms(7-9,11))
  moreover have "Listener_addHostGroup env name (sent_group name g) ct =
      Inr (set_transaction (set_groups (smap_insert (<) name (sent_group name g) (st_hostGroups (rn_state t))) t) ct)"
    using assms(1,2) by (simp add: Listener_addHostGroup_def transaction_state_def groups_of_def)
  ultimately have "handle_task env ADDHOSTGROUP [''addhostgroup'', name, to_string (int (length data))] (ct, su) =
      Inr (set_transaction (set_groups (smap_insert (<) name (sent_group name g) (st_hostGroups (rn_state t))) t) ct,
        su\<lparr>su_in := rest, su_reason := HM_REASON_SUCCESS, su_out := su_out su @ message_bytes (packBool (ev_proto env) True)\<rparr>)"
    using assms(9,10,12)
    by (simp add: handle_task_def handle_ADDHOSTGROUP_def needs_def with_payload_def respond_def sends_def lift_packing_def
        sendMessage_bytes)
  then show ?thesis by (auto simp: sent_group_def)
qed

section \<open>Data that cannot be unpacked\<close>

text \<open>When the data that follows a command arrives but cannot be unpacked, six of the commands are not answered: nothing
  is sent, and the client waits for its time-out.\<close>

theorem unpacked_data_unanswered:
  assumes "su_connected su" and "su_in su = data @ rest" and "data \<noteq> []" and "length data < 2 ^ 32"
    and "fm_parse (pf_DataHostCheck (ev_proto env)) data = None" and "fm_parse (pf_DataHostGroup (ev_proto env)) data = None"
    and "fm_parse (pf_IPAddresses (ev_proto env)) data = None"
    and "(task, args) \<in> {(HOSTRESULTS, [host, n]), (LOADFBINFOHOST, [host, n]), (HOSTIPRESULTS, [host, address, n]),
      (ADDHOSTGROUP, [host, n]), (ADDDNSADDRESSES, [host, n]), (REMOVEDNSADDRESSES, [host, n])}"
    and "n = to_string (int (length data))"
  shows "handle_task env task (cmd # args) (ct, su) = Inr (ct, su\<lparr>su_in := rest, su_reason := HM_REASON_SUCCESS\<rparr>)"
proof -
  have "receive_payload n su = Inr (su\<lparr>su_in := rest, su_reason := HM_REASON_SUCCESS\<rparr>, received data)"
    unfolding assms(9) by (intro receive_payload_data assms(1-4))
  then show ?thesis using assms(5-8)
    by (auto simp: handle_task_def handler_defs needs_def with_payload_def respond_def silent_def lift_packing_def
        unpackDataHostCheck_def unpackDataHostGroup_def unpackIPAddresses_def)
qed

section \<open>A daemon that answers\<close>

definition w_group :: HMDataHostGroup where
  "w_group = (HostGroup_new ''g'')\<lparr>hg_hosts := [''h''], hg_hashValue := ''m''\<rparr>"

definition w_hash :: HMHash where
  "w_hash = Hash_new\<lparr>ha_hashSize := 1, ha_hashValue := ''m''\<rparr>"

definition w_cenv :: "(string \<times> mdbm_value) list control_env" where
  "w_cenv = \<lparr>ev_reload = w_renv, ev_flight = (\<lambda>r. r),
     ev_proto = w_proto (pack_hash ''g'' w_hash) (group_message w_group [stored_check (sample_entry ''h'')])\<rparr>"

definition w_control :: "(string \<times> mdbm_value) list HMStorage \<Rightarrow> (string \<times> mdbm_value) list HMControl" where
  "w_control s =
     \<lparr>ct_manager = w_mgr\<lparr>mg_currentState := Some ((w_idle [(''g'', w_group)])\<lparr>rn_datastore := Some s\<rparr>), mg_files := (\<lambda>_. sg_db s)\<rparr>,
      ct_threadPool = w_pool, ct_hostMark = [], ct_logLevel = None, ct_enableRemoteQueryReply = True, ct_keepRunning = True,
      ct_handlerThreads = [0], ct_handlerThreadsStatus = []\<rparr>"

lemma w_control_results:
  assumes "MDBM_getHostGroupCheckResults_vector alist_lib ''g'' [] s = Inr (results, True)"
  shows "\<exists>ct'. Listener_getHostGroupResults w_cenv ''g'' (w_control s) = Inr (ct', results)"
proof -
  have "mdbm_read alist_lib k (s\<lparr>sg_hostGroupMap := g, sg_dnsCache := d, sg_db := sg_db s\<rparr>) = mdbm_read alist_lib k s" for k g d
    by (simp add: mdbm_read_def)
  then have "MDBM_getHostGroupCheckResults_vector alist_lib ''g'' [] (s\<lparr>sg_hostGroupMap := g, sg_dnsCache := d, sg_db := sg_db s\<rparr>) =
      Inr (results, True)" for g d
    using assms by (simp only: MDBM_getHostGroupCheckResults_vector_def)
  then show ?thesis
    by (simp add: Listener_getHostGroupResults_def w_cenv_def w_renv_def w_control_def on_datastore_def current_state_def on_store_def
        w_idle_def lift_daemon_def lift_storage_def Storage_getGroupCheckResults_def store_view_def Let_def)
qed

theorem remote_group_results_witness:
  "\<exists>s. SocketUtil_getHostGroupResults (ev_proto w_cenv) (daemon_network w_cenv 0 (w_control s)) ''g'' w_hash (SocketUtil_accepted []) =
     Inr ((SocketUtil_accepted [])\<lparr>su_reason := HM_REASON_SUCCESS\<rparr>, [sent_check (stored_check (sample_entry ''h''))], HM_SOCK_DATA_OK)"
proof -
  have fits: "list_all check_fits [sample_entry ''h'']" using sample_entry_fits [of "''h''"] by (simp add: host_fits_def clean_def)
  let ?gs = "group_results ''g'' (sg_hostGroupResults (sample_store ''h''))"
  have small: "length (concat (map put_check ?gs)) < 2 ^ 30" by (simp add: sample_entry_size CheckResult_sizeof_def IPAddress_sizeof_def)
  then have fit: "8 + length (concat (map put_check ?gs)) < 2 ^ 31" "length (concat (map put_check ?gs)) < 2 ^ 32" by simp_all
  obtain s where "MDBM_getHostGroupCheckResults_vector alist_lib ''g'' [] s = checks_loop (length ?gs) (concat (map put_check ?gs))"
    by (rule storeHostGroupCheckResults_run [OF alist_lib_ok sample_store_open _ fit(1)], simp, blast)
  moreover have "\<dots> = Inr (map stored_check ?gs, True)"
    by (rule checks_loop_put) (use fits fit(2) in simp_all)
  ultimately obtain ct' where run: "Listener_getHostGroupResults w_cenv ''g'' (w_control s) = Inr (ct', [stored_check (sample_entry ''h'')])"
    using w_control_results by fastforce
  have storable: "CheckResult_storable (gr_result (stored_check (sample_entry ''h'')))"
    using sample_result_storable by (simp add: stored_check_def sample_entry_def CheckResult_storable_def)
  let ?r = "(w_idle [(''g'', w_group)])\<lparr>rn_datastore := Some s\<rparr>"
  have current: "mg_currentState (ct_manager (w_control s)) = Some ?r" by (simp add: w_control_def)
  have group: "group_find ''g'' (st_hostGroups (rn_state ?r)) = Some w_group" by (simp add: w_idle_def)
  have names: "hg_hosts w_group = [''h'']" "hg_hostGroups w_group = []" "hg_hashValue w_group = ''m''"
    by (simp_all add: w_group_def HostGroup_new_def)
  have "SocketUtil_getHostGroupResults (ev_proto w_cenv) (daemon_network w_cenv 0 (w_control s)) ''g'' w_hash (SocketUtil_accepted []) =
     Inr ((SocketUtil_accepted [])\<lparr>su_reason := HM_REASON_SUCCESS\<rparr>, map sent_check [stored_check (sample_entry ''h'')], HM_SOCK_DATA_OK)"
    by (rule remote_group_results [OF current group run])
      (simp_all add: storable names w_hash_def Hash_eq_def group_hash_def w_cenv_def w_proto_def const_format_def transmits_def
        is_word_def packHash_def packHostGroupInfo_def idle_socket_def SocketUtil_accepted_def)
  then show ?thesis by auto
qed

definition w_aenv :: "(string \<times> mdbm_value) list control_env" where
  "w_aenv = w_tenv\<lparr>ev_proto := (ev_proto w_tenv)\<lparr>pf_DataHostGroup := const_format (packDataHostGroup w_group)\<rparr>\<rparr>"

theorem added_group_arrives_witness:
  "\<exists>t' su'. handle_task w_aenv ADDHOSTGROUP [''addhostgroup'', ''g'', to_string (int (length ''x''))]
      (w_transaction, SocketUtil_accepted ''x'') = Inr (set_transaction t' w_transaction, su')
    \<and> st_hostGroups (rn_state t') = [(''a'', HostGroup_new ''a''), (''g'', w_group\<lparr>hg_hashValue := []\<rparr>)]"
proof -
  let ?t = "w_idle [(''a'', HostGroup_new ''a'')]"
  have t: "mg_newTransactionState (ct_manager w_transaction) = Some ?t" "groups_of ?t ''g'' = None"
    by (simp_all add: w_transaction_def w_tmgr_def groups_of_def w_idle_def key_equiv_def)
  have names: "hg_hosts w_group = [''h'']" "hg_hostGroups w_group = []" by (simp_all add: w_group_def HostGroup_new_def)
  have same: "w_group\<lparr>hg_groupName := ''g'', hg_remoteCheckType := HM_REMOTE_CHECK_NONE, hg_remoteCheck := [], hg_hashValue := [],
      hg_checkPlugin := HM_CHECK_PLUGIN_DEFAULT, hg_DNSType := HM_DNS_TYPE_LOOKUP, hg_flowType := HM_FLOW_DNS_HEALTH_TYPE\<rparr> =
    w_group\<lparr>hg_hashValue := []\<rparr>" by (simp add: w_group_def HostGroup_new_def)
  have "smap_insert (<) ''g'' (w_group\<lparr>hg_hashValue := []\<rparr>) (st_hostGroups (rn_state ?t)) =
      [(''a'', HostGroup_new ''a''), (''g'', w_group\<lparr>hg_hashValue := []\<rparr>)]" by (simp add: w_idle_def)
  moreover have "\<exists>t'. handle_task w_aenv ADDHOSTGROUP [''addhostgroup'', ''g'', to_string (int (length ''x''))]
      (w_transaction, SocketUtil_accepted ''x'') = Inr (set_transaction t' w_transaction, (SocketUtil_accepted ''x'')\<lparr>su_in := [],
         su_reason := HM_REASON_SUCCESS, su_out := su_out (SocketUtil_accepted ''x'') @ message_bytes (packBool (ev_proto w_aenv) True)\<rparr>)
    \<and> st_hostGroups (rn_state t') = smap_insert (<) ''g'' (w_group\<lparr>hg_hashValue := []\<rparr>) (st_hostGroups (rn_state ?t))"
    unfolding same [symmetric]
    by (rule added_group_arrives [OF t])
      (simp_all add: names w_aenv_def w_tenv_def w_proto_def const_format_def no_format_def transmits_def packDataHostGroup_bytes_def
        packBool_def SocketUtil_accepted_def)
  ultimately show ?thesis by metis
qed

theorem unpacked_data_unanswered_witness:
  "handle_task w_tenv HOSTRESULTS [''hostresults'', ''h'', to_string (int (length ''x''))] (w_transaction, SocketUtil_accepted ''x'') =
     Inr (w_transaction, (SocketUtil_accepted ''x'')\<lparr>su_in := [], su_reason := HM_REASON_SUCCESS\<rparr>)"
  by (rule unpacked_data_unanswered [of _ "''x''" "[]", where host = "''h''" and address = "[]"])
    (simp_all add: w_tenv_def w_proto_def no_format_def SocketUtil_accepted_def)

end
