(* ===== verification/HM_API.thy ===== *)
theory HM_API
  imports HM_Service
begin

text \<open>
  The types of the interface for programs that use the library (\<open>HMAPI.cpp\<close>) and their way into and out of the types of
  the daemon: addresses, the checks of a host, host groups and results.

  A constructor that leaves fields of an object open takes the object as it was in memory before, and keeps those
  fields. A number that is cast to an enumeration without such an enumerator is \<open>no_enumerator\<close>, and so is the type of
  an address that is neither unset nor of one of the two families.
\<close>

section \<open>Addresses\<close>

definition APIIPAddress_of_type :: "u8 \<Rightarrow> HMAPIIPAddress" where
  "APIIPAddress_of_type type =
     (if type = AF_INET then API_INET 0 else if type = AF_INET6 then API_INET6 0 else API_OTHER AF_UNSPEC)"

definition APIIPAddress_set_text ::
    "(string \<Rightarrow> 32 word option) \<Rightarrow> (string \<Rightarrow> 128 word option) \<Rightarrow> string \<Rightarrow> HMAPIIPAddress \<times> bool" where
  "APIIPAddress_set_text pton4 pton6 addr =
     (case pton4 addr of Some a \<Rightarrow> (API_INET a, True)
      | None \<Rightarrow> (case pton6 addr of Some a \<Rightarrow> (API_INET6 a, True) | None \<Rightarrow> (API_OTHER AF_UNSPEC, False)))"

definition APIIPAddress_set :: "HMIPAddress \<Rightarrow> HMAPIIPAddress" where
  "APIIPAddress_set addr =
     (if IPAddress_getType addr = AF_INET then API_INET (IPAddress_addr4 addr)
      else if IPAddress_getType addr = AF_INET6 then API_INET6 (IPAddress_addr6 addr)
      else API_OTHER (IPAddress_getType addr))"

fun APIIPAddress_eq :: "HMAPIIPAddress \<Rightarrow> HMAPIIPAddress \<Rightarrow> bool" where
  "APIIPAddress_eq (API_INET a) (API_INET b) = (a = b)"
| "APIIPAddress_eq (API_INET6 a) (API_INET6 b) = (a = b)"
| "APIIPAddress_eq (API_OTHER s) (API_OTHER t) = (s = t)"
| "APIIPAddress_eq _ _ = False"

fun APIIPAddress_toString :: "(32 word \<Rightarrow> string) \<Rightarrow> (128 word \<Rightarrow> string) \<Rightarrow> HMAPIIPAddress \<Rightarrow> string" where
  "APIIPAddress_toString ntop4 ntop6 (API_INET a) = ntop4 a"
| "APIIPAddress_toString ntop4 ntop6 (API_INET6 a) = ntop6 a"
| "APIIPAddress_toString ntop4 ntop6 (API_OTHER _) = []"

text \<open>\<open>HMIPAddress::set\<close>.\<close>

fun IPAddress_set_api :: "HMAPIIPAddress \<Rightarrow> deser_error + HMIPAddress" where
  "IPAddress_set_api (API_INET a) = Inr (INET a)"
| "IPAddress_set_api (API_INET6 a) = Inr (INET6 a)"
| "IPAddress_set_api (API_OTHER t) = (if t = AF_UNSPEC then Inr UNSPEC else Inl no_enumerator)"

section \<open>Results\<close>

definition APICheckResult_of_result :: "HMDataCheckResult \<Rightarrow> HMAPICheckResult" where
  "APICheckResult_of_result k =
     \<lparr>qr_host = [], qr_address = APIIPAddress_set (cr_address k), qr_start = ts_getTimeSinceEpoch (cr_start k),
      qr_end = ts_getTimeSinceEpoch (cr_end k), qr_responseTime = cr_responseTime k,
      qr_totalResponseTime = cr_totalResponseTime k, qr_minResponseTime = cr_minResponseTime k,
      qr_maxResponseTime = cr_maxResponseTime k, qr_smoothedResponseTime = cr_smoothedResponseTime k,
      qr_sumResponseTime = cr_sumResponseTime k, qr_numChecks = cr_numChecks k, qr_numResponses = cr_numResponses k,
      qr_numConnectFailures = cr_numConnectFailures k, qr_numFailures = cr_numFailures k, qr_numTimeouts = cr_numTimeouts k,
      qr_numFlaps = cr_numFlaps k, qr_status = cr_status k, qr_response = response_code (cr_response k),
      qr_reason = reason_code (cr_reason k), qr_softReason = reason_code (cr_softReason k),
      qr_numFailedChecks = cr_numFailedChecks k, qr_numSlowResponses = cr_numSlowResponses k, qr_port = cr_port k,
      qr_changeTime = ts_getTimeSinceEpoch (cr_changeTime k), qr_prevTime = ts_getTimeSinceEpoch (cr_flapTime k),
      qr_forceHostDown = cr_forceHostDown k, qr_queueCheckTime = ts_getTimeSinceEpoch (cr_queueCheckTime k),
      qr_checkTime = ts_getTimeSinceEpoch (cr_checkTime k), qr_remoteCheckTime = ts_getTimeSinceEpoch (cr_remoteCheckTime k)\<rparr>"

text \<open>
  The result of a group: which address is read depends on the family of the address beside the result, and the
  time of the remote check is the time of the check. The address starts as zeros.
\<close>

definition APICheckResult_of_group :: "HMGroupCheckResult \<Rightarrow> HMAPICheckResult" where
  "APICheckResult_of_group k =
     (let r = gr_result k; type = IPAddress_getType (cr_address r);
          family = IPAddress_getType (gr_address k)
      in (APICheckResult_of_result r)\<lparr>qr_host := gr_hostName k,
           qr_address :=
             (if type = AF_INET then API_INET (if family = AF_INET then IPAddress_addr4 (cr_address r) else 0)
              else if type = AF_INET6 then
                API_INET6 (if family = AF_INET then 0 else IPAddress_addr6 (cr_address r))
              else API_OTHER type),
           qr_remoteCheckTime := ts_getTimeSinceEpoch (cr_checkTime r)\<rparr>)"

section \<open>Check information\<close>

definition APICheckInfo_assign :: "HMDataHostGroup \<Rightarrow> HMAPICheckInfo \<Rightarrow> HMAPICheckInfo" where
  "APICheckInfo_assign g q =
     q\<lparr>qi_measurementOptions := hg_measurementOptions g, qi_ipv4 := (HM_DUALSTACK_IPV4_ONLY AND hg_dualstack g \<noteq> 0),
       qi_ipv6 := (HM_DUALSTACK_IPV6_ONLY AND hg_dualstack g \<noteq> 0), qi_checkType := check_type_code (hg_checkType g),
       qi_port := hg_port g, qi_checkInfo := hg_checkInfo g, qi_numCheckRetries := hg_numCheckRetries g,
       qi_checkRetryDelay := hg_checkRetryDelay g, qi_smoothingWindow := hg_smoothingWindow g,
       qi_groupThreshold := hg_groupThreshold g, qi_slowThreshold := hg_slowThreshold g, qi_maxFlaps := hg_maxFlaps g,
       qi_checkTimeout := hg_checkTimeout g, qi_checkTTL := hg_checkTTL g, qi_flapThreshold := hg_flapThreshold g,
       qi_passthroughInfo := hg_passthroughInfo g, qi_sourceAddress := APIIPAddress_set (hg_sourceAddress g),
       qi_TOSValue := hg_TOSValue g,
       qi_hosts := (if hg_hosts g = [] then qi_hosts q else hg_hosts g),
       qi_hostGroups := (if hg_hostGroups g = [] then qi_hostGroups q else hg_hostGroups g)\<rparr>"

definition APICheckInfo_of_group :: "HMDataHostGroup \<Rightarrow> HMAPICheckInfo \<Rightarrow> HMAPICheckInfo" where
  "APICheckInfo_of_group g memory =
     (APICheckInfo_assign g (memory\<lparr>qi_hosts := [], qi_hostGroups := [], qi_remoteCheck := []\<rparr>))
       \<lparr>qi_dnsCheckType := dns_type_code (hg_DNSType g)\<rparr>"

definition APICheckInfo_of_check :: "HMDataHostCheck \<Rightarrow> HMDataCheckParams \<Rightarrow> HMAPICheckInfo \<Rightarrow> HMAPICheckInfo" where
  "APICheckInfo_of_check c p memory =
     memory\<lparr>qi_hosts := [], qi_hostGroups := [], qi_remoteCheck := [], qi_sourceAddress := APIIPAddress_new,
       qi_measurementOptions := cp_measurementOptions p, qi_ipv4 := (HM_DUALSTACK_IPV4_ONLY AND hc_dualstack c \<noteq> 0),
       qi_ipv6 := (HM_DUALSTACK_IPV6_ONLY AND hc_dualstack c \<noteq> 0), qi_checkType := check_type_code (hc_checkType c),
       qi_port := hc_port c, qi_checkInfo := hc_checkInfo c, qi_dnsCheckType := dns_type_code (hc_DNSType c),
       qi_TOSValue := hc_TOSValue c, qi_numCheckRetries := cp_numCheckRetries p,
       qi_checkRetryDelay := cp_checkRetryDelay p, qi_smoothingWindow := cp_smoothingWindow p,
       qi_groupThreshold := cp_groupThreshold p, qi_slowThreshold := cp_slowThreshold p, qi_maxFlaps := cp_maxFlaps p,
       qi_checkTimeout := cp_checkTimeout p, qi_checkTTL := cp_checkTTL p, qi_flapThreshold := cp_flapThreshold p,
       qi_passthroughInfo := cp_passthroughInfo p\<rparr>"

definition APICheckInfo_eq :: "HMAPICheckInfo \<Rightarrow> HMAPICheckInfo \<Rightarrow> bool" where
  "APICheckInfo_eq q k \<longleftrightarrow>
     qi_measurementOptions q = qi_measurementOptions k \<and> qi_ipv4 q = qi_ipv4 k \<and> qi_ipv6 q = qi_ipv6 k
     \<and> qi_port q = qi_port k \<and> qi_checkInfo q = qi_checkInfo k \<and> qi_numCheckRetries q = qi_numCheckRetries k
     \<and> qi_checkRetryDelay q = qi_checkRetryDelay k \<and> qi_smoothingWindow q = qi_smoothingWindow k
     \<and> qi_groupThreshold q = qi_groupThreshold k \<and> qi_slowThreshold q = qi_slowThreshold k
     \<and> qi_maxFlaps q = qi_maxFlaps k \<and> qi_checkTimeout q = qi_checkTimeout k \<and> qi_checkTTL q = qi_checkTTL k
     \<and> qi_flapThreshold q = qi_flapThreshold k \<and> qi_passthroughInfo q = qi_passthroughInfo k
     \<and> APIIPAddress_eq (qi_sourceAddress q) (qi_sourceAddress k) \<and> qi_TOSValue q = qi_TOSValue k"

section \<open>Hashes\<close>

text \<open>Bytes behind the size of a hash are not copied.\<close>

definition APIHash_of :: "HMHash \<Rightarrow> HMHash \<Rightarrow> deser_error + HMHash" where
  "APIHash_of k memory =
     (let n = unat (ha_hashSize k)
      in if n = 0 then Inr (memory\<lparr>ha_hashSize := 0\<rparr>)
         else if 64 < n then Inl read_past_end
         else Inr (memory\<lparr>ha_hashSize := ha_hashSize k,
             ha_hashValue := take n (ha_hashValue k) @ drop n (ha_hashValue memory)\<rparr>))"

definition APIHash_eq :: "HMHash \<Rightarrow> HMHash \<Rightarrow> bool" where
  "APIHash_eq a k \<longleftrightarrow>
     ha_hashSize a = 0 \<or> ha_hashSize k = 0
     \<or> ha_hashSize a = ha_hashSize k \<and> take (unat (ha_hashSize a)) (ha_hashValue a) = take (unat (ha_hashSize a)) (ha_hashValue k)"

section \<open>Checks and groups of a client\<close>

record HMAPIDataHostCheck =
  qk_checkType :: u8
  qk_port :: u16
  qk_ipv4 :: bool
  qk_ipv6 :: bool
  qk_checkInfo :: string
  qk_sourceAddress :: HMAPIIPAddress
  qk_TOSValue :: u8
  qk_dnsCheckType :: u8

definition APIDataHostCheck_new :: HMAPIDataHostCheck where
  "APIDataHostCheck_new =
     \<lparr>qk_checkType = 0, qk_port = 0, qk_ipv4 = True, qk_ipv6 = False, qk_checkInfo = [], qk_sourceAddress = APIIPAddress_new,
      qk_TOSValue = 0, qk_dnsCheckType = 0\<rparr>"

definition remote_check_type_of_code :: "u8 \<Rightarrow> HM_REMOTE_CHECK_TYPE option" where
  "remote_check_type_of_code b =
     find (\<lambda>t. remote_check_type_code t = b)
       [HM_REMOTE_CHECK_NONE, HM_REMOTE_CHECK_TCP, HM_REMOTE_CHECK_TCPS, HM_REMOTE_SHARED_CHECK_TCP, HM_REMOTE_SHARED_CHECK_TCPS,
        HM_REMOTE_SHARED_CHECK_LINUX]"

text \<open>The cast of a number to an enumeration.\<close>

definition enumerator :: "'a option \<Rightarrow> deser_error + 'a" where
  "enumerator x = (case x of None \<Rightarrow> Inl no_enumerator | Some e \<Rightarrow> Inr e)"

text \<open>The flow of the check is left open. The remote check is assigned \<open>false\<close>, a character of value zero.\<close>

definition HostCheck_of_api :: "HMAPIDataHostCheck \<Rightarrow> HMDataHostCheck \<Rightarrow> deser_error + HMDataHostCheck" where
  "HostCheck_of_api q memory =
     res_bind (enumerator (check_type_of_code (qk_checkType q))) (\<lambda>checkType.
     res_bind (enumerator (dns_type_of_code (qk_dnsCheckType q))) (\<lambda>dnsType.
     res_bind (IPAddress_set_api (qk_sourceAddress q)) (\<lambda>sourceAddress.
       Inr (memory\<lparr>hc_port := qk_port q, hc_checkType := checkType, hc_checkInfo := qk_checkInfo q,
         hc_dualstack := HM_DUALSTACK_UNDEFINED OR (if qk_ipv4 q then HM_DUALSTACK_IPV4_ONLY else 0)
           OR (if qk_ipv6 q then HM_DUALSTACK_IPV6_ONLY else 0),
         hc_checkPlugin := HM_CHECK_PLUGIN_DEFAULT, hc_DNSType := dnsType, hc_remoteCheckType := HM_REMOTE_CHECK_NONE,
         hc_distributedFallback := HM_DISTRIBUTED_FALLBACK_NONE, hc_sourceAddress := sourceAddress,
         hc_remoteCheck := [CHR 0x00], hc_TOSValue := qk_TOSValue q\<rparr>))))"

text \<open>
  Of a group the kind of the lookup and the plugin are left open, and the family when neither is asked for; the
  source address of the client is not taken.
\<close>

definition HostGroup_of_api :: "string \<Rightarrow> HMAPICheckInfo \<Rightarrow> HMDataHostGroup \<Rightarrow> deser_error + HMDataHostGroup" where
  "HostGroup_of_api groupName q memory =
     res_bind (enumerator (check_type_of_code (qi_checkType q))) (\<lambda>checkType.
     res_bind (enumerator (remote_check_type_of_code (qi_remoteCheckType q))) (\<lambda>remoteCheckType.
     res_bind (enumerator (flow_type_of_code (qi_flowType q))) (\<lambda>flowType.
       Inr (memory\<lparr>hg_groupName := groupName, hg_measurementOptions := qi_measurementOptions q,
         hg_dualstack :=
           (if qi_ipv4 q \<and> qi_ipv6 q then HM_DUALSTACK_BOTH else if qi_ipv4 q then HM_DUALSTACK_IPV4_ONLY
            else if qi_ipv6 q then HM_DUALSTACK_IPV6_ONLY else hg_dualstack memory),
         hg_checkType := checkType, hg_port := qi_port q, hg_numCheckRetries := qi_numCheckRetries q,
         hg_checkRetryDelay := qi_checkRetryDelay q, hg_smoothingWindow := qi_smoothingWindow q,
         hg_groupThreshold := qi_groupThreshold q, hg_slowThreshold := qi_slowThreshold q, hg_maxFlaps := qi_maxFlaps q,
         hg_checkTimeout := qi_checkTimeout q, hg_checkTTL := qi_checkTTL q, hg_flapThreshold := qi_flapThreshold q,
         hg_passthroughInfo := qi_passthroughInfo q, hg_checkInfo := qi_checkInfo q, hg_remoteCheck := qi_remoteCheck q,
         hg_distributedFallback := qi_distributedFallback q, hg_remoteCheckType := remoteCheckType,
         hg_TOSValue := qi_TOSValue q, hg_flowType := flowType, hg_hosts := qi_hosts q, hg_hostGroups := qi_hostGroups q,
         hg_sourceAddress := UNSPEC, hg_hashValue := []\<rparr>))))"

end
