(* ===== verification/HM_Client.thy ===== *)
theory HM_Client
  imports HM_API
begin

text \<open>
  The client of the control socket (\<open>HMControlSocketClientBase.cpp\<close>): the requests of a program to the daemon. How bytes are
  sent and received is left to a subclass; the record \<open>transport\<close> has its three methods and the setter of the
  last error, and \<open>HM_ClientSocket\<close> the two subclasses.

  A method is an \<open>act\<close>: from the state of the client to \<open>None\<close> when the call does not return, to an error when the
  code reads or writes behind a buffer or makes a value of no enumerator, or to the state and the result. A
  variable that a method fills is an argument and a part of the result, beside the flag the method returns. The
  messages of protocol buffers are those of \<open>HM_Messages\<close>; allocation of memory does not fail.
\<close>

section \<open>Acts\<close>

datatype client_error = buffer_overrun | unpack_fault deser_error

type_synonym ('c, 'r) act = "'c \<Rightarrow> (client_error + 'c \<times> 'r) option"

definition act_return :: "'r \<Rightarrow> ('c, 'r) act" where
  "act_return r c = Some (Inr (c, r))"

definition act_bind :: "('c, 'r) act \<Rightarrow> ('r \<Rightarrow> ('c, 's) act) \<Rightarrow> ('c, 's) act" where
  "act_bind m f c =
     (case m c of None \<Rightarrow> None | Some (Inl e) \<Rightarrow> Some (Inl e) | Some (Inr (c, r)) \<Rightarrow> f r c)"

definition act_unpack :: "deser_error + 'r \<Rightarrow> ('c, 'r) act" where
  "act_unpack r c = Some (case r of Inl e \<Rightarrow> Inl (unpack_fault e) | Inr x \<Rightarrow> Inr (c, x))"

lemma act_bind_None: "m c = None \<Longrightarrow> act_bind m f c = None"
  by (simp add: act_bind_def)

lemma act_bind_simps [simp]:
  "act_bind (act_return r) f = f r" "act_bind (act_unpack (Inr x)) f = f x"
  by (simp_all add: fun_eq_iff act_bind_def act_return_def act_unpack_def)

record 'c transport =
  tr_sendMessage :: "string \<Rightarrow> ('c, bool) act"
  tr_sendData :: "string \<Rightarrow> ('c, bool) act"
  tr_recvMessage :: "nat \<Rightarrow> ('c, string option) act"
  tr_setError :: "string \<Rightarrow> 'c \<Rightarrow> 'c"

section \<open>Packets\<close>

text \<open>
  \<open>receivePacket\<close>: \<open>None\<close> when it returns false. The size is tested for zero before its bytes are put in order. When an
  empty answer is accepted there is no buffer, and what is unpacked from it is what an empty message has.
\<close>

definition Client_receivePacket :: "'c transport \<Rightarrow> bool \<Rightarrow> ('c, string option) act" where
  "Client_receivePacket tr acceptEmptyResult =
     act_bind (tr_recvMessage tr 8) (\<lambda>r.
       case r of None \<Rightarrow> act_return None
       | Some bytes \<Rightarrow>
           if bytes_size bytes = 0 then act_return (if acceptEmptyResult then Some [] else None)
           else tr_recvMessage tr (unat (ntoh64 (bytes_size bytes))))"

definition Client_receiveUInt :: "proto \<Rightarrow> 'c transport \<Rightarrow> 'a::len word \<Rightarrow> ('c, 'a word \<times> bool) act" where
  "Client_receiveUInt pb tr x =
     act_bind (tr_recvMessage tr 8) (\<lambda>r.
       case r of None \<Rightarrow> act_return (x, False)
       | Some bytes \<Rightarrow>
           if bytes_size bytes = 0 then act_return (0, True)
           else act_bind (tr_recvMessage tr (unat (ntoh64 (bytes_size bytes)))) (\<lambda>r.
             case r of None \<Rightarrow> act_return (x, False)
             | Some data \<Rightarrow> (case unpackUInt pb data of None \<Rightarrow> act_return (x, False) | Some y \<Rightarrow> act_return (y, True))))"

definition Client_receiveInt :: "proto \<Rightarrow> 'c transport \<Rightarrow> 'a::len word \<Rightarrow> ('c, 'a word \<times> bool) act" where
  "Client_receiveInt pb tr x =
     act_bind (tr_recvMessage tr 8) (\<lambda>r.
       case r of None \<Rightarrow> act_return (x, False)
       | Some bytes \<Rightarrow>
           if bytes_size bytes = 0 then act_return (0, True)
           else act_bind (tr_recvMessage tr (unat (ntoh64 (bytes_size bytes)))) (\<lambda>r.
             case r of None \<Rightarrow> act_return (x, False)
             | Some data \<Rightarrow> (case unpackInt pb data of None \<Rightarrow> act_return (x, False) | Some y \<Rightarrow> act_return (y, True))))"

text \<open>\<open>getline\<close> with a comma; the parts are appended to the list.\<close>

function comma_parts :: "string \<Rightarrow> string list" where
  "comma_parts s =
     (if s = [] then []
      else takeWhile (\<lambda>c. c \<noteq> CHR '','') s # comma_parts (drop 1 (dropWhile (\<lambda>c. c \<noteq> CHR '','') s)))"
  by auto
termination
proof (relation "measure length", simp)
  fix s :: string assume "s \<noteq> []"
  then show "(drop 1 (dropWhile (\<lambda>c. c \<noteq> CHR '','') s), s) \<in> measure length"
    using length_dropWhile_le [of "\<lambda>c. c \<noteq> CHR '',''" s] by (cases s) auto
qed

declare comma_parts.simps [simp del]

definition Client_extract :: "string \<Rightarrow> string list \<Rightarrow> string list" where
  "Client_extract str list = list @ comma_parts str"

section \<open>Requests\<close>

text \<open>
  What the methods share: the command is sent, then the data that belongs to it, if any, and a packet is received.
  \<open>sendData\<close> takes the size of the data as a number of 32 bits. \<open>Client_ask\<close> fills a variable with what is unpacked,
  \<open>Client_ask_bool\<close> returns the flag the daemon sends, and \<open>Client_tell\<close> does not wait for an answer.
\<close>

definition Client_request :: "'c transport \<Rightarrow> string list \<Rightarrow> string option \<Rightarrow> bool \<Rightarrow> ('c, string option) act" where
  "Client_request tr ws data acceptEmptyResult =
     act_bind (tr_sendMessage tr (command ws)) (\<lambda>ok.
       if \<not> ok then act_return None
       else act_bind (case data of None \<Rightarrow> act_return True | Some d \<Rightarrow> tr_sendData tr (take (length d mod 2 ^ 32) d)) (\<lambda>ok.
         if \<not> ok then act_return None else Client_receivePacket tr acceptEmptyResult))"

definition Client_ask ::
    "'c transport \<Rightarrow> string list \<Rightarrow> string option \<Rightarrow> bool \<Rightarrow> (string \<Rightarrow> deser_error + 'r option) \<Rightarrow> 'r \<Rightarrow> ('c, 'r \<times> bool) act" where
  "Client_ask tr ws data acceptEmptyResult unpack x =
     act_bind (Client_request tr ws data acceptEmptyResult) (\<lambda>p.
       case p of None \<Rightarrow> act_return (x, False)
       | Some d \<Rightarrow> act_bind (act_unpack (unpack d)) (\<lambda>r.
           case r of None \<Rightarrow> act_return (x, False) | Some y \<Rightarrow> act_return (y, True)))"

definition Client_ask_bool :: "proto \<Rightarrow> 'c transport \<Rightarrow> string list \<Rightarrow> string option \<Rightarrow> bool \<Rightarrow> ('c, bool) act" where
  "Client_ask_bool pb tr ws data acceptEmptyResult =
     act_bind (Client_request tr ws data acceptEmptyResult) (\<lambda>p.
       case p of None \<Rightarrow> act_return False | Some d \<Rightarrow> act_return (unpackBool pb d))"

definition Client_tell :: "'c transport \<Rightarrow> string list \<Rightarrow> ('c, bool) act" where
  "Client_tell tr ws = tr_sendMessage tr (command ws)"

definition Client_ask_uint :: "proto \<Rightarrow> 'c transport \<Rightarrow> string list \<Rightarrow> 'a::len word \<Rightarrow> ('c, 'a word \<times> bool) act" where
  "Client_ask_uint pb tr ws x =
     act_bind (tr_sendMessage tr (command ws)) (\<lambda>ok. if ok then Client_receiveUInt pb tr x else act_return (x, False))"

definition size_word :: "string \<Rightarrow> string" where
  "size_word data = to_string (int (length data))"

section \<open>The state of the daemon\<close>

text \<open>The result is true whether the message could be unpacked or not.\<close>

definition Client_getThreadInfo :: "proto \<Rightarrow> 'c transport \<Rightarrow> HMAPIThreadInfo \<Rightarrow> ('c, HMAPIThreadInfo \<times> bool) act" where
  "Client_getThreadInfo pb tr threadInfo =
     act_bind (Client_request tr [''threadinfo''] None False) (\<lambda>p.
       case p of None \<Rightarrow> act_return (threadInfo, False)
       | Some d \<Rightarrow> act_return (case unpackThreadInfo pb d of None \<Rightarrow> threadInfo | Some t \<Rightarrow> t, True))"

definition Client_getWorkQueue :: "proto \<Rightarrow> 'c transport \<Rightarrow> u32 \<Rightarrow> ('c, u32 \<times> bool) act" where
  "Client_getWorkQueue pb tr = Client_ask_uint pb tr [''workqueueinfo'']"

definition Client_getHostScheduleInfo :: "proto \<Rightarrow> 'c transport \<Rightarrow> string \<Rightarrow> string \<Rightarrow> HMAPIDNSSchedInfo \<Rightarrow> ('c, HMAPIDNSSchedInfo \<times> bool) act" where
  "Client_getHostScheduleInfo pb tr hostGroupName hostName dns =
     Client_ask tr [''hostschdinfo'', hostGroupName, hostName] None False
       (\<lambda>d. Inr (unpackHostSchedInfo pb d (qd_hostScheduleInfo dns))) dns"

definition Client_getRemoteScheduleInfo_group :: "proto \<Rightarrow> 'c transport \<Rightarrow> string \<Rightarrow> HMAPIHostSchedInfo \<Rightarrow> ('c, HMAPIHostSchedInfo \<times> bool) act" where
  "Client_getRemoteScheduleInfo_group pb tr hostGroupName =
     Client_ask tr [''remoteschdinfo'', hostGroupName] None False (\<lambda>d. Inr (unpackRemoteHostGroupSchedInfo pb d))"

definition Client_getRemoteScheduleInfo :: "proto \<Rightarrow> 'c transport \<Rightarrow> string \<Rightarrow> string \<Rightarrow> HMAPIHostSchedInfo \<Rightarrow> ('c, HMAPIHostSchedInfo \<times> bool) act" where
  "Client_getRemoteScheduleInfo pb tr hostGroupName hostName =
     Client_ask tr [''remoteschdinfo'', hostGroupName, hostName] None False (\<lambda>d. Inr (unpackRemoteHostGroupSchedInfo pb d))"

definition Client_getSchQueue :: "proto \<Rightarrow> 'c transport \<Rightarrow> u64 \<Rightarrow> ('c, u64 \<times> bool) act" where
  "Client_getSchQueue pb tr = Client_ask_uint pb tr [''schdqueueinfo'']"

text \<open>The levels of the log, with the numbers that stand for them.\<close>

definition loglevels :: "(int \<times> string) list" where
  "loglevels =
     [(-2, ''LOG ERROR''), (-1, ''none''), (0, ''emergency''), (1, ''alert''), (2, ''critical''), (3, ''error''), (4, ''warning''),
      (5, ''notice''), (6, ''info''), (7, ''debug''), (8, ''debug2''), (9, ''debug3'')]"

definition Client_getLogLevel :: "proto \<Rightarrow> 'c transport \<Rightarrow> ('c, string \<times> bool) act" where
  "Client_getLogLevel pb tr =
     act_bind (tr_sendMessage tr (command [''getloglevel''])) (\<lambda>ok.
       if \<not> ok then act_return (''UNKNOWN'', False)
       else act_bind (Client_receiveInt pb tr (0 :: u8)) (\<lambda>(log, ok).
         case (if ok then map_of loglevels (sint log) else None) of None \<Rightarrow> act_return (''UNKNOWN'', False)
         | Some level \<Rightarrow> act_return (level, True)))"

definition Client_getConnectionTimeout :: "proto \<Rightarrow> 'c transport \<Rightarrow> u64 \<Rightarrow> ('c, u64 \<times> bool) act" where
  "Client_getConnectionTimeout pb tr = Client_ask_uint pb tr [''getconnectiontimeout'']"

definition Client_getMonitoringFrequency :: "proto \<Rightarrow> 'c transport \<Rightarrow> u32 \<Rightarrow> ('c, u32 \<times> bool) act" where
  "Client_getMonitoringFrequency pb tr = Client_ask_uint pb tr [''getmonitorfrequency'']"

definition Client_getStride :: "proto \<Rightarrow> 'c transport \<Rightarrow> u32 \<Rightarrow> ('c, u32 \<times> bool) act" where
  "Client_getStride pb tr = Client_ask_uint pb tr [''getstride'']"

definition Client_getTTLTreshold :: "proto \<Rightarrow> 'c transport \<Rightarrow> u32 \<Rightarrow> ('c, u32 \<times> bool) act" where
  "Client_getTTLTreshold pb tr = Client_ask_uint pb tr [''getttlthreshold'']"

definition Client_getWorkPerThread :: "proto \<Rightarrow> 'c transport \<Rightarrow> u32 \<Rightarrow> ('c, u32 \<times> bool) act" where
  "Client_getWorkPerThread pb tr = Client_ask_uint pb tr [''getworkperthreadratio'']"

definition Client_isRecycleOn :: "proto \<Rightarrow> 'c transport \<Rightarrow> ('c, bool) act" where
  "Client_isRecycleOn pb tr = Client_ask_bool pb tr [''getrecycle''] None False"

section \<open>Settings\<close>

definition Client_setLogLevel :: "'c transport \<Rightarrow> string \<Rightarrow> ('c, bool) act" where
  "Client_setLogLevel tr logLevel =
     (if list_ex (\<lambda>(n, s). s = logLevel) loglevels then Client_tell tr [''setloglevel'', logLevel] else act_return False)"

definition Client_setConnectionTimeOut :: "'c transport \<Rightarrow> u64 \<Rightarrow> ('c, bool) act" where
  "Client_setConnectionTimeOut tr value = Client_tell tr [''setconnectiontimeout'', to_string (uint value)]"

definition Client_setMonitoringFrequency :: "'c transport \<Rightarrow> u32 \<Rightarrow> ('c, bool) act" where
  "Client_setMonitoringFrequency tr value = Client_tell tr [''setmonitorfrequency'', to_string (uint value)]"

definition Client_setStride :: "'c transport \<Rightarrow> u32 \<Rightarrow> ('c, bool) act" where
  "Client_setStride tr value = Client_tell tr [''setstride'', to_string (uint value)]"

definition Client_setTTLTreshold :: "'c transport \<Rightarrow> u32 \<Rightarrow> ('c, bool) act" where
  "Client_setTTLTreshold tr value = Client_tell tr [''setttlthreshold'', to_string (uint value)]"

definition Client_setWorkPerThread :: "'c transport \<Rightarrow> u32 \<Rightarrow> ('c, bool) act" where
  "Client_setWorkPerThread tr value = Client_tell tr [''setworkperthreadratio'', to_string (uint value)]"

definition Client_setRecycleOn :: "'c transport \<Rightarrow> ('c, bool) act" where
  "Client_setRecycleOn tr = Client_tell tr [''setrecycle'', ''on'']"

definition Client_setRecycleOff :: "'c transport \<Rightarrow> ('c, bool) act" where
  "Client_setRecycleOff tr = Client_tell tr [''setrecycle'', ''off'']"

definition Client_setForceStatusDown :: "'c transport \<Rightarrow> string \<Rightarrow> string \<Rightarrow> ('c, bool) act" where
  "Client_setForceStatusDown tr hostGroupName hostName = Client_tell tr [''hostset'', hostGroupName, hostName, ''1'']"

definition Client_setForceStatusDown_address :: "'c transport \<Rightarrow> (32 word \<Rightarrow> string) \<Rightarrow> (128 word \<Rightarrow> string) \<Rightarrow> string \<Rightarrow> HMAPIIPAddress \<Rightarrow> ('c, bool) act" where
  "Client_setForceStatusDown_address tr ntop4 ntop6 hostGroupName address = Client_tell tr [''hostset'', hostGroupName, APIIPAddress_toString ntop4 ntop6 address, ''1'']"

definition Client_unsetForceStatusDown :: "'c transport \<Rightarrow> string \<Rightarrow> string \<Rightarrow> ('c, bool) act" where
  "Client_unsetForceStatusDown tr hostGroupName hostName = Client_tell tr [''hostset'', hostGroupName, hostName, ''0'']"

definition Client_unsetForceStatusDown_address :: "'c transport \<Rightarrow> (32 word \<Rightarrow> string) \<Rightarrow> (128 word \<Rightarrow> string) \<Rightarrow> string \<Rightarrow> HMAPIIPAddress \<Rightarrow> ('c, bool) act" where
  "Client_unsetForceStatusDown_address tr ntop4 ntop6 hostGroupName address = Client_tell tr [''hostset'', hostGroupName, APIIPAddress_toString ntop4 ntop6 address, ''0'']"

definition Client_reload_file :: "proto \<Rightarrow> 'c transport \<Rightarrow> string \<Rightarrow> ('c, bool) act" where
  "Client_reload_file pb tr masterConfig = Client_ask_bool pb tr [''reload'', masterConfig] None False"

definition Client_reload :: "proto \<Rightarrow> 'c transport \<Rightarrow> ('c, bool) act" where
  "Client_reload pb tr = Client_ask_bool pb tr [''reload''] None False"

definition Client_refresh :: "proto \<Rightarrow> 'c transport \<Rightarrow> ('c, bool) act" where
  "Client_refresh pb tr = Client_ask_bool pb tr [''refresh''] None False"

section \<open>Groups, hosts and results\<close>

definition Client_getHostGroupList :: "proto \<Rightarrow> 'c transport \<Rightarrow> string list \<Rightarrow> ('c, (string list) \<times> bool) act" where
  "Client_getHostGroupList pb tr names =
     Client_ask tr [''hostgrouplist''] None True (\<lambda>d. Inr (unpackList pb d names)) names"

definition Client_getHostList :: "proto \<Rightarrow> 'c transport \<Rightarrow> string \<Rightarrow> string list \<Rightarrow> ('c, (string list) \<times> bool) act" where
  "Client_getHostList pb tr hostGroupName hosts =
     Client_ask tr [''hostlist'', hostGroupName] None True (\<lambda>d. Inr (unpackList pb d hosts)) hosts"

definition Client_getHostGroupParams :: "proto \<Rightarrow> 'c transport \<Rightarrow> string \<Rightarrow> HMAPICheckInfo \<Rightarrow> ('c, (HMAPICheckInfo) \<times> bool) act" where
  "Client_getHostGroupParams pb tr hostGroupName info =
     Client_ask tr [''hostgroupparams'', hostGroupName] None False (\<lambda>d. Inr (unpackDataHostGroup_api pb d info)) info"

text \<open>The vector of the results is cleared first.\<close>

definition Client_getHostGroupResults :: "proto \<Rightarrow> 'c transport \<Rightarrow> string \<Rightarrow> HMAPICheckInfo \<Rightarrow> ('c, (HMAPICheckInfo \<times> HMAPICheckResult list) \<times> bool) act" where
  "Client_getHostGroupResults pb tr hostGroupName info =
     Client_ask tr [''hostgroup'', hostGroupName] None False (\<lambda>d. Inr (unpackHostGroupInfo_api pb d (info, []))) (info, [])"

definition Client_getHostGroupResults_hash :: "proto \<Rightarrow> 'c transport \<Rightarrow> string \<Rightarrow> HMHash \<Rightarrow> HMAPICheckInfo \<Rightarrow> ('c, (HMAPICheckInfo \<times> HMAPICheckResult list) \<times> bool) act" where
  "Client_getHostGroupResults_hash pb tr hostGroupName hash info =
     (let data = packHash pb hostGroupName hash in Client_ask tr [''hostgroup'', hostGroupName, size_word data] (Some data) False
       (\<lambda>d. Inr (unpackHostGroupInfo_api pb d (info, []))) (info, []))"

text \<open>Here too the result does not depend on the unpacking.\<close>

definition Client_getHostResults_group :: "proto \<Rightarrow> 'c transport \<Rightarrow> string \<Rightarrow> string \<Rightarrow> ('c, HMAPICheckResult list \<times> bool) act" where
  "Client_getHostResults_group pb tr hostGroupName hostName =
     act_bind (Client_request tr [''hostcheck'', hostGroupName, hostName] None False) (\<lambda>p.
       case p of None \<Rightarrow> act_return ([], False)
       | Some d \<Rightarrow> act_return (case unpackDataCheckResults pb d [] of None \<Rightarrow> [] | Some rs \<Rightarrow> rs, True))"

definition Client_getLoadFeedback_group :: "proto \<Rightarrow> 'c transport \<Rightarrow> string \<Rightarrow> ('c, (HMAPIAuxInfo list) \<times> bool) act" where
  "Client_getLoadFeedback_group pb tr hostGroupName =
     Client_ask tr [''loadfb'', hostGroupName] None False (\<lambda>d. Inr (unpackAuxInfo_results_api pb d [])) []"

definition Client_getLoadFeedback_hash :: "proto \<Rightarrow> 'c transport \<Rightarrow> string \<Rightarrow> HMHash \<Rightarrow> ('c, (HMAPIAuxInfo list) \<times> bool) act" where
  "Client_getLoadFeedback_hash pb tr hostGroupName hash =
     (let data = packHash pb hostGroupName hash in Client_ask tr [''loadfb'', hostGroupName, size_word data] (Some data) False
       (\<lambda>d. Inr (unpackAuxInfo_results_api pb d [])) [])"

definition Client_getLoadFeedback_api :: "proto \<Rightarrow> 'c transport \<Rightarrow> (32 word \<Rightarrow> string) \<Rightarrow> (128 word \<Rightarrow> string) \<Rightarrow> string \<Rightarrow> string \<Rightarrow> HMAPIIPAddress \<Rightarrow> HMAPIAuxInfo \<Rightarrow> ('c, (HMAPIAuxInfo) \<times> bool) act" where
  "Client_getLoadFeedback_api pb tr ntop4 ntop6 hostName sourceURL address =
     Client_ask tr [''loadfbip'', hostName, sourceURL, APIIPAddress_toString ntop4 ntop6 address] None False (\<lambda>d. Inr (unpackAuxInfo_api pb d))"

definition Client_getLoadFeedback :: "proto \<Rightarrow> 'c transport \<Rightarrow> (32 word \<Rightarrow> string) \<Rightarrow> (128 word \<Rightarrow> string) \<Rightarrow> string \<Rightarrow> string \<Rightarrow> HMAPIIPAddress \<Rightarrow> HMAuxInfo \<Rightarrow> ('c, (HMAuxInfo) \<times> bool) act" where
  "Client_getLoadFeedback pb tr ntop4 ntop6 hostName sourceURL address auxInfo =
     Client_ask tr [''loadfbip'', hostName, sourceURL, APIIPAddress_toString ntop4 ntop6 address] None False (\<lambda>d. Inr (unpackAuxInfo pb d auxInfo)) auxInfo"

text \<open>The check of a client as the daemon has it, made in memory with arbitrary content.\<close>

definition with_api_check ::
    "HMAPIDataHostCheck \<Rightarrow> HMDataHostCheck \<Rightarrow> (HMDataHostCheck \<Rightarrow> ('c, 'r) act) \<Rightarrow> ('c, 'r) act" where
  "with_api_check q memory f = act_bind (act_unpack (HostCheck_of_api q memory)) f"

definition Client_getLoadFeedback_check :: "proto \<Rightarrow> 'c transport \<Rightarrow> string \<Rightarrow> HMAPIDataHostCheck \<Rightarrow> HMDataHostCheck \<Rightarrow> ('c, (HMAPIAuxInfo list) \<times> bool) act" where
  "Client_getLoadFeedback_check pb tr hostName q memory =
     with_api_check q memory (\<lambda>check.
       let data = packDataHostCheck pb check
       in Client_ask tr [''loadfbhost'', hostName, size_word data] (Some data) False (\<lambda>d. Inr (unpackAuxInfo_results_api pb d [])) [])"

definition Client_getHostResults :: "proto \<Rightarrow> 'c transport \<Rightarrow> string \<Rightarrow> HMAPIDataHostCheck \<Rightarrow> HMDataHostCheck \<Rightarrow> ('c, ((HMAPICheckInfo \<times> HMAPICheckResult) list) \<times> bool) act" where
  "Client_getHostResults pb tr hostName q memory =
     with_api_check q memory (\<lambda>check.
       let data = packDataHostCheck pb check
       in Client_ask tr [''hostresults'', hostName, size_word data] (Some data) False (\<lambda>d. Inr (unpackHostResults_api pb d [])) [])"

definition Client_getHostResults_address :: "proto \<Rightarrow> 'c transport \<Rightarrow> (32 word \<Rightarrow> string) \<Rightarrow> (128 word \<Rightarrow> string) \<Rightarrow> string \<Rightarrow> HMAPIIPAddress \<Rightarrow> HMAPIDataHostCheck \<Rightarrow> HMDataHostCheck \<Rightarrow> ('c, ((HMAPICheckInfo \<times> HMAPICheckResult) list) \<times> bool) act" where
  "Client_getHostResults_address pb tr ntop4 ntop6 hostName address q memory =
     with_api_check q memory (\<lambda>check.
       let data = packDataHostCheck pb check
       in Client_ask tr [''hostipresults'', hostName, APIIPAddress_toString ntop4 ntop6 address, size_word data] (Some data) False (\<lambda>d. Inr (unpackHostResults_api pb d [])) [])"

section \<open>Remote queries\<close>

definition Client_getRemoteQueryOn :: "proto \<Rightarrow> 'c transport \<Rightarrow> bool \<Rightarrow> ('c, bool \<times> bool) act" where
  "Client_getRemoteQueryOn pb tr status =
     act_bind (Client_request tr [''getremotequery''] None True) (\<lambda>p.
       case p of None \<Rightarrow> act_return (status, False) | Some d \<Rightarrow> act_return (unpackBool pb d, True))"

definition Client_setRemoteQueryOn :: "'c transport \<Rightarrow> ('c, bool) act" where
  "Client_setRemoteQueryOn tr = Client_tell tr [''setremotequery'', ''on'']"

definition Client_setRemoteQueryOff :: "'c transport \<Rightarrow> ('c, bool) act" where
  "Client_setRemoteQueryOff tr = Client_tell tr [''setremotequery'', ''off'']"

definition Client_getHandlerThreadCount :: "proto \<Rightarrow> 'c transport \<Rightarrow> u64 \<Rightarrow> ('c, (u64) \<times> bool) act" where
  "Client_getHandlerThreadCount pb tr =
     Client_ask tr [''gethandlerthreadscount''] None False (\<lambda>d. Inr (unpackUInt pb d))"

section \<open>Transactions\<close>

definition Client_addHostGroup :: "proto \<Rightarrow> 'c transport \<Rightarrow> string \<Rightarrow> HMAPICheckInfo \<Rightarrow> HMDataHostGroup \<Rightarrow> ('c, bool) act" where
  "Client_addHostGroup pb tr hostGroupName checkInfo memory =
     act_bind (act_unpack (HostGroup_of_api hostGroupName checkInfo memory)) (\<lambda>hostGroup.
       let data = packDataHostGroup_bytes pb hostGroup
       in Client_ask_bool pb tr [''addhostgroup'', hostGroupName, size_word data] (Some data) False)"

definition Client_removeHostGroup :: "proto \<Rightarrow> 'c transport \<Rightarrow> string \<Rightarrow> ('c, bool) act" where
  "Client_removeHostGroup pb tr hostGroupName = Client_ask_bool pb tr [''removehostgroup'', hostGroupName] None False"

definition Client_clearTransaction :: "proto \<Rightarrow> 'c transport \<Rightarrow> ('c, bool) act" where
  "Client_clearTransaction pb tr = Client_ask_bool pb tr [''cleartransation''] None False"

definition Client_getTransactionalHashInfo :: "proto \<Rightarrow> 'c transport \<Rightarrow> ('c, (string \<times> HMHash) list \<times> bool) act" where
  "Client_getTransactionalHashInfo pb tr =
     act_bind (Client_request tr [''gethostgrouphash''] None False) (\<lambda>p.
       case p of None \<Rightarrow> act_return ([], False) | Some d \<Rightarrow> act_unpack (unpackHashInfo_api pb d []))"

definition Client_getTransactionConfigHash :: "proto \<Rightarrow> 'c transport \<Rightarrow> HMHash \<Rightarrow> ('c, (HMHash) \<times> bool) act" where
  "Client_getTransactionConfigHash pb tr hash =
     Client_ask tr [''gettransconfighash''] None False (\<lambda>d. unpackHash pb d hash) hash"

definition HM_API_COMMIT_TRANSACTION_FAILURE :: "u8" where
  "HM_API_COMMIT_TRANSACTION_FAILURE = 3"

text \<open>The number of the status is returned whether it is one of the enumeration or not.\<close>

definition Client_commitTransaction :: "proto \<Rightarrow> 'c transport \<Rightarrow> HMHash \<Rightarrow> ('c, u8) act" where
  "Client_commitTransaction pb tr hash =
     (let data = packHash pb ''config'' hash
      in act_bind (Client_request tr [''committransation'', size_word data] (Some data) False) (\<lambda>p.
           case p of None \<Rightarrow> act_return HM_API_COMMIT_TRANSACTION_FAILURE
           | Some d \<Rightarrow>
               (case unpackUInt pb d of
                  None \<Rightarrow> (\<lambda>c. act_return HM_API_COMMIT_TRANSACTION_FAILURE (tr_setError tr ''Failure unpacking status'' c))
                | Some status \<Rightarrow> act_return status)))"

section \<open>Addresses, marks and checks\<close>

definition Client_addDNSAddresses :: "proto \<Rightarrow> 'c transport \<Rightarrow> string \<Rightarrow> HMAPIIPAddress list \<Rightarrow> ('c, bool) act" where
  "Client_addDNSAddresses pb tr hostName addresses =
     (let data = packIPAddresses_api pb addresses in Client_ask_bool pb tr [''adddnsaddresses'', hostName, size_word data] (Some data) True)"

definition Client_removeDNSAddresses :: "proto \<Rightarrow> 'c transport \<Rightarrow> string \<Rightarrow> HMAPIIPAddress list \<Rightarrow> ('c, bool) act" where
  "Client_removeDNSAddresses pb tr hostName addresses =
     (let data = packIPAddresses_api pb addresses in Client_ask_bool pb tr [''removednsaddresses'', hostName, size_word data] (Some data) True)"

definition Client_getDNSAddresses :: "proto \<Rightarrow> 'c transport \<Rightarrow> string \<Rightarrow> ('c, (HMAPIIPAddress list) \<times> bool) act" where
  "Client_getDNSAddresses pb tr hostName =
     Client_ask tr [''getdnsaddresses'', hostName] None True (\<lambda>d. Inr (unpackIPAddresses_api pb d [])) []"

definition Client_addHostMark :: "proto \<Rightarrow> 'c transport \<Rightarrow> (32 word \<Rightarrow> string) \<Rightarrow> (128 word \<Rightarrow> string) \<Rightarrow> string \<Rightarrow> string \<Rightarrow> HMAPIIPAddress \<Rightarrow> int list \<Rightarrow> ('c, bool) act" where
  "Client_addHostMark pb tr ntop4 ntop6 hostGroupName hostName address values =
     (let data = packListInt64 pb values in Client_ask_bool pb tr [''sethostmark'', hostGroupName, hostName, APIIPAddress_toString ntop4 ntop6 address, size_word data] (Some data) True)"

definition Client_removeHostMark :: "proto \<Rightarrow> 'c transport \<Rightarrow> (32 word \<Rightarrow> string) \<Rightarrow> (128 word \<Rightarrow> string) \<Rightarrow> string \<Rightarrow> string \<Rightarrow> HMAPIIPAddress \<Rightarrow> int list \<Rightarrow> ('c, bool) act" where
  "Client_removeHostMark pb tr ntop4 ntop6 hostGroupName hostName address values =
     (let data = packListInt64 pb values in Client_ask_bool pb tr [''removehostmark'', hostGroupName, hostName, APIIPAddress_toString ntop4 ntop6 address, size_word data] (Some data) True)"

definition Client_getHostMark :: "proto \<Rightarrow> 'c transport \<Rightarrow> (32 word \<Rightarrow> string) \<Rightarrow> (128 word \<Rightarrow> string) \<Rightarrow> string \<Rightarrow> string \<Rightarrow> HMAPIIPAddress \<Rightarrow> int list \<Rightarrow> ('c, (int list) \<times> bool) act" where
  "Client_getHostMark pb tr ntop4 ntop6 hostGroupName hostName address values =
     Client_ask tr [''gethostmark'', hostGroupName, hostName, APIIPAddress_toString ntop4 ntop6 address] None False (\<lambda>d. Inr (unpackListInt64 pb d values)) values"

definition Client_forceDNSCheck :: "'c transport \<Rightarrow> string \<Rightarrow> string \<Rightarrow> ('c, bool) act" where
  "Client_forceDNSCheck tr hostGroupName hostName = Client_tell tr [''dnscheck'', hostGroupName, hostName]"

definition Client_forceDNSCheck_group :: "'c transport \<Rightarrow> string \<Rightarrow> ('c, bool) act" where
  "Client_forceDNSCheck_group tr hostGroupName = Client_tell tr [''dnscheck'', hostGroupName]"

definition Client_forceHealthCheck :: "'c transport \<Rightarrow> string \<Rightarrow> string \<Rightarrow> ('c, bool) act" where
  "Client_forceHealthCheck tr hostGroupName hostName = Client_tell tr [''healthcheck'', hostGroupName, hostName]"

definition Client_forceHealthCheck_group :: "'c transport \<Rightarrow> string \<Rightarrow> ('c, bool) act" where
  "Client_forceHealthCheck_group tr hostGroupName = Client_tell tr [''healthcheck'', hostGroupName]"

definition Client_forceRemoteHostGroupCheck :: "'c transport \<Rightarrow> string \<Rightarrow> ('c, bool) act" where
  "Client_forceRemoteHostGroupCheck tr hostGroupName = Client_tell tr [''remotehostgroupcheck'', hostGroupName]"

section \<open>What a request relies on\<close>

text \<open>
  The contract of a connection: what was sent since the last answer (\<open>talking\<close>), the answer that arrives after it
  (\<open>replies\<close>), and an answer of which the size is read (\<open>pending\<close>).
\<close>

definition message_sends :: "string \<Rightarrow> string list" where
  "message_sends cmd = [size_bytes (hton64 (of_nat (length cmd))), cmd]"

definition request_sends :: "string list \<Rightarrow> string option \<Rightarrow> string list" where
  "request_sends ws data = message_sends (command ws) @ (case data of None \<Rightarrow> [] | Some d \<Rightarrow> [d])"

locale connection =
  fixes tr :: "'c transport" and talking :: "string list \<Rightarrow> 'c \<Rightarrow> bool"
    and replies :: "'c \<Rightarrow> string list \<Rightarrow> string \<Rightarrow> bool" and pending :: "string \<Rightarrow> 'c \<Rightarrow> bool"
  assumes sendMessage: "talking sent c \<Longrightarrow> length cmd < 2 ^ 31 \<Longrightarrow>
      \<exists>c'. tr_sendMessage tr cmd c = Some (Inr (c', True)) \<and> talking (sent @ message_sends cmd) c' \<and> replies c' = replies c"
    and sendData: "talking sent c \<Longrightarrow>
      \<exists>c'. tr_sendData tr data c = Some (Inr (c', True)) \<and> talking (sent @ [data]) c' \<and> replies c' = replies c"
    and receive_size: "talking sent c \<Longrightarrow> replies c sent reply \<Longrightarrow> length reply < 2 ^ 31 \<Longrightarrow>
      \<exists>c'. tr_recvMessage tr 8 c = Some (Inr (c', Some (size_bytes (hton64 (of_nat (length reply))))))
        \<and> (if reply = [] then talking [] c' else pending reply c')"
    and receive_data: "pending reply c \<Longrightarrow> 0 < length reply \<Longrightarrow> length reply < 0x7ffff000 \<Longrightarrow>
      \<exists>c'. tr_recvMessage tr (length reply) c = Some (Inr (c', Some reply)) \<and> talking [] c'"
begin

lemma packet_received:
  assumes "talking sent c" and "replies c sent reply" and "length reply < 0x7ffff000"
  shows "\<exists>c'. Client_receivePacket tr acceptEmpty c = Some (Inr (c', if reply = [] \<and> \<not> acceptEmpty then None else Some reply))
    \<and> talking [] c'"
proof -
  obtain c1 where c1: "tr_recvMessage tr 8 c = Some (Inr (c1, Some (size_bytes (hton64 (of_nat (length reply))))))"
    "if reply = [] then talking [] c1 else pending reply c1"
    using receive_size [OF assms(1,2)] assms(3) by auto
  have n: "unat (of_nat (length reply) :: u64) = length reply" "(of_nat (length reply) :: u64) = 0 \<longleftrightarrow> reply = []"
    using assms(3) by (simp_all add: of_nat_u64)
  show ?thesis
  proof (cases "reply = []")
    case True
    then show ?thesis using c1 by (simp add: act_bind_def Client_receivePacket_def c1(1) act_return_def)
  next
    case False
    then obtain c2 where "tr_recvMessage tr (length reply) c1 = Some (Inr (c2, Some reply))" "talking [] c2"
      using receive_data [of reply c1] c1(2) assms(3) by auto
    then show ?thesis using n False by (simp add: act_bind_def Client_receivePacket_def c1(1))
  qed
qed

lemma request_answered:
  assumes "talking sent c" and "replies c (sent @ request_sends ws data) reply"
    and "length (command ws) < 2 ^ 31" and "\<forall>d. data = Some d \<longrightarrow> length d < 2 ^ 32" and "length reply < 0x7ffff000"
  shows "\<exists>c'. Client_request tr ws data acceptEmpty c = Some (Inr (c', if reply = [] \<and> \<not> acceptEmpty then None else Some reply))
    \<and> talking [] c'"
proof -
  obtain c1 where c1: "tr_sendMessage tr (command ws) c = Some (Inr (c1, True))" "talking (sent @ message_sends (command ws)) c1"
    "replies c1 = replies c" using sendMessage [OF assms(1,3)] by blast
  obtain c2 where c2: "(case data of None \<Rightarrow> act_return True | Some d \<Rightarrow> tr_sendData tr (take (length d mod 2 ^ 32) d)) c1 =
      Some (Inr (c2, True))" "talking (sent @ request_sends ws data) c2" "replies c2 = replies c"
  proof (cases data)
    case None
    then show thesis using that [of c1] c1 by (simp add: act_return_def request_sends_def)
  next
    case (Some d)
    then show thesis using that sendData [OF c1(2), of d] c1(3) assms(4) by (auto simp: request_sends_def)
  qed
  show ?thesis
    using packet_received [OF c2(2) _ assms(5)] assms(2) unfolding c2(3)
    by (simp add: act_bind_def Client_request_def c1(1) c2(1))
qed

lemma told:
  assumes "talking sent c" and "length (command ws) < 2 ^ 31"
  shows "\<exists>c'. Client_tell tr ws c = Some (Inr (c', True)) \<and> talking (sent @ request_sends ws None) c' \<and> replies c' = replies c"
  using sendMessage [OF assms] by (simp add: act_bind_def Client_tell_def request_sends_def)

lemma uint_answered:
  fixes y :: "'w::len word"
  assumes "talking sent c" and "replies c (sent @ request_sends ws None) (packUInt pb x)"
    and "length (command ws) < 2 ^ 31" and "length (packUInt pb x) < 0x7ffff000"
    and "if packUInt pb x = [] then x = 0 else transmits (pf_Uint pb) x"
  shows "\<exists>c'. Client_ask_uint pb tr ws y c = Some (Inr (c', ucast x, True)) \<and> talking [] c'"
proof -
  obtain c1 where c1: "tr_sendMessage tr (command ws) c = Some (Inr (c1, True))" "talking (sent @ request_sends ws None) c1"
    "replies c1 = replies c" using sendMessage [OF assms(1,3)] by (auto simp: request_sends_def)
  let ?r = "packUInt pb x"
  obtain c2 where c2: "tr_recvMessage tr 8 c1 = Some (Inr (c2, Some (size_bytes (hton64 (of_nat (length ?r))))))"
    "if ?r = [] then talking [] c2 else pending ?r c2"
    using receive_size [OF c1(2), of ?r] assms(2,4) c1(3) by auto
  have n: "unat (of_nat (length ?r) :: u64) = length ?r" "(of_nat (length ?r) :: u64) = 0 \<longleftrightarrow> ?r = []"
    using assms(4) by (simp_all add: of_nat_u64)
  show ?thesis
  proof (cases "?r = []")
    case True
    then show ?thesis using assms(5) c2(2)
      by (simp add: act_bind_def Client_ask_uint_def c1(1) Client_receiveUInt_def c2(1) act_return_def)
  next
    case False
    then obtain c3 where c3: "tr_recvMessage tr (length ?r) c2 = Some (Inr (c3, Some ?r))" "talking [] c3"
      using receive_data [of ?r c2] c2(2) assms(4) by auto
    have "unpackUInt pb ?r = Some (ucast x :: 'w word)" using assms(5) False by (simp add: unpackUInt_def packUInt_def transmits_def)
    then show ?thesis using n False c3(2)
      by (simp add: act_bind_def Client_ask_uint_def c1(1) Client_receiveUInt_def c2(1)
          c3(1) act_return_def)
  qed
qed

lemma bool_answered:
  assumes "talking sent c" and "replies c (sent @ request_sends ws data) (packBool pb b)"
    and "length (command ws) < 2 ^ 31" and "\<forall>d. data = Some d \<longrightarrow> length d < 2 ^ 32" and "length (packBool pb b) < 0x7ffff000"
    and "if packBool pb b = [] then \<not> b \<and> \<not> acceptEmpty else transmits (pf_Bool pb) b"
  shows "\<exists>c'. Client_ask_bool pb tr ws data acceptEmpty c = Some (Inr (c', b)) \<and> talking [] c'"
proof -
  let ?r = "packBool pb b"
  obtain c1 where c1: "Client_request tr ws data acceptEmpty c = Some (Inr (c1, if ?r = [] \<and> \<not> acceptEmpty then None else Some ?r))"
    "talking [] c1" using request_answered [OF assms(1-5)] by blast
  have "?r \<noteq> [] \<Longrightarrow> unpackBool pb ?r = b" using assms(6) by (simp add: unpackBool_def packBool_def transmits_def)
  then show ?thesis using assms(6) c1(2) by (simp add: act_bind_def Client_ask_bool_def c1(1) act_return_def split: if_splits)
qed

end

end
