(* ===== verification/HM_ClientSocket.thy ===== *)
theory HM_ClientSocket
  imports HM_Client
begin

text \<open>
  The sockets of the client (\<open>HMControlTCPSocketClient.cpp\<close>, \<open>HMControlLinuxSocketClient.cpp\<close>): a TCP connection, and a socket of the
  local host that keeps the boundaries of what is sent (\<open>SOCK_SEQPACKET\<close>).

  The state has the members of the client and what the system does with its calls: the results of the next calls of \<open>socket\<close>,
  \<open>connect\<close> and \<open>send\<close>, success when there is none, and the portions that \<open>read\<close> finds. The other end is the function
  \<open>cc_server\<close>: when the client reads, what it has sent since the last time is answered by portions that arrive, after
  which the connection stays open or is closed. A \<open>read\<close> from an open connection on which nothing arrives does not
  return. The texts of system errors are a parameter. A descriptor that is closed is not used for something else;
  one that is overwritten while it is open is counted in \<open>cc_leaked\<close>. Signals of a broken connection are ignored, as
  the daemon has them. The fields of the address a TCP client connects to are not modelled.
\<close>

section \<open>State and system calls\<close>

datatype descriptor = NO_SOCKET | OPEN_SOCKET | CLOSED_SOCKET

datatype send_outcome = sent_all | sent_part nat | send_error int

datatype arrival = arrives string | read_error int

record HMControlClient =
  cc_connected :: bool
  cc_socket :: descriptor
  cc_errorMsg :: string
  cc_serverPath :: string
  cc_errno :: int
  cc_sockets :: "int list"
  cc_connects :: "int list"
  cc_sends :: "send_outcome list"
  cc_in :: "arrival list"
  cc_out :: "string list"
  cc_peer :: bool
  cc_server :: "string list \<Rightarrow> arrival list \<times> bool"
  cc_leaked :: nat

definition EPIPE :: int where "EPIPE = 32"
definition EBADF :: int where "EBADF = 9"

definition next_result :: "'a \<Rightarrow> 'a list \<Rightarrow> 'a \<times> 'a list" where
  "next_result ok results = (case results of [] \<Rightarrow> (ok, []) | r # rs \<Rightarrow> (r, rs))"

text \<open>\<open>send\<close>: the number of bytes, or -1.\<close>

definition client_send :: "string \<Rightarrow> HMControlClient \<Rightarrow> HMControlClient \<times> int" where
  "client_send data c =
     (if cc_socket c \<noteq> OPEN_SOCKET then (c\<lparr>cc_errno := EBADF\<rparr>, -1)
      else case next_result sent_all (cc_sends c) of (outcome, rest) \<Rightarrow>
        let c = c\<lparr>cc_sends := rest\<rparr>
        in case outcome of
             sent_all \<Rightarrow> (c\<lparr>cc_out := cc_out c @ [data]\<rparr>, int (length data))
           | sent_part n \<Rightarrow> (c\<lparr>cc_out := cc_out c @ [take n data]\<rparr>, int (length (take n data)))
           | send_error e \<Rightarrow> (c\<lparr>cc_errno := e\<rparr>, -1))"

definition client_deliver :: "HMControlClient \<Rightarrow> HMControlClient" where
  "client_deliver c =
     (if cc_out c = [] then c
      else case cc_server c (cc_out c) of (portions, stays) \<Rightarrow>
        c\<lparr>cc_in := cc_in c @ portions, cc_peer := cc_peer c \<and> stays, cc_out := []\<rparr>)"

text \<open>
  \<open>read\<close>: \<open>None\<close> when it does not return, otherwise the bytes, or none on an error. A stream keeps the bytes that were not
  asked for, a socket with packets loses them. One call reads at most \<open>0x7ffff000\<close> bytes.
\<close>

definition client_read :: "bool \<Rightarrow> nat \<Rightarrow> HMControlClient \<Rightarrow> (HMControlClient \<times> string option) option" where
  "client_read stream sz c =
     (if cc_socket c \<noteq> OPEN_SOCKET then Some (c\<lparr>cc_errno := EBADF\<rparr>, None)
      else let c = client_deliver c; n = min sz 0x7ffff000
           in case cc_in c of
                [] \<Rightarrow> if cc_peer c then None else Some (c, Some [])
              | read_error e # ps \<Rightarrow> Some (c\<lparr>cc_in := ps, cc_errno := e\<rparr>, None)
              | arrives s # ps \<Rightarrow>
                  Some (c\<lparr>cc_in := (if stream \<and> drop n s \<noteq> [] then arrives (drop n s) # ps else ps)\<rparr>, Some (take n s)))"

section \<open>The base class\<close>

definition Client_setError :: "string \<Rightarrow> HMControlClient \<Rightarrow> HMControlClient" where
  "Client_setError msg c = c\<lparr>cc_errorMsg := msg\<rparr>"

definition Client_getErrorMsg :: "HMControlClient \<Rightarrow> string" where
  "Client_getErrorMsg c = cc_errorMsg c"

definition Client_isConnected :: "HMControlClient \<Rightarrow> bool" where
  "Client_isConnected c = cc_connected c"

section \<open>Connecting\<close>

text \<open>The two classes have the same text except for the family of the socket, the address and \<open>recvMessage\<close>.\<close>

definition client_createSocket :: "(int \<Rightarrow> string) \<Rightarrow> HMControlClient \<Rightarrow> HMControlClient \<times> bool" where
  "client_createSocket strerror c =
     (case next_result 0 (cc_sockets c) of (e, rest) \<Rightarrow>
        let c = c\<lparr>cc_sockets := rest, cc_leaked := cc_leaked c + (if cc_socket c = OPEN_SOCKET then 1 else 0)\<rparr>
        in if e \<noteq> 0
           then (Client_setError (''Failed to create socket, error: '' @ strerror e) (c\<lparr>cc_socket := NO_SOCKET, cc_errno := e\<rparr>), False)
           else (c\<lparr>cc_socket := OPEN_SOCKET, cc_in := [], cc_out := [], cc_peer := True\<rparr>, True))"

text \<open>The number of the descriptor is kept, and so is \<open>m_connected\<close>.\<close>

definition client_closeSocket :: "HMControlClient \<Rightarrow> HMControlClient" where
  "client_closeSocket c =
     (if cc_socket c \<noteq> NO_SOCKET then c\<lparr>cc_socket := CLOSED_SOCKET, cc_in := [], cc_out := []\<rparr> else c)"

definition client_connect :: "(int \<Rightarrow> string) \<Rightarrow> string \<Rightarrow> HMControlClient \<Rightarrow> HMControlClient \<times> bool" where
  "client_connect strerror msg c =
     (case next_result 0 (cc_connects c) of (e, rest) \<Rightarrow>
        let c = c\<lparr>cc_connects := rest\<rparr>
        in if e \<noteq> 0
           then ((client_closeSocket (Client_setError (msg @ '', error: '' @ strerror e) (c\<lparr>cc_errno := e\<rparr>)))\<lparr>cc_socket := NO_SOCKET\<rparr>, False)
           else (c, True))"

definition TCPClient_createSocket :: "(int \<Rightarrow> string) \<Rightarrow> HMControlClient \<Rightarrow> HMControlClient \<times> bool" where
  "TCPClient_createSocket = client_createSocket"

definition TCPClient_closeSocket :: "HMControlClient \<Rightarrow> HMControlClient" where
  "TCPClient_closeSocket = client_closeSocket"

definition TCPClient_connectSocket :: "(int \<Rightarrow> string) \<Rightarrow> (HMControlClient, bool) act" where
  "TCPClient_connectSocket strerror c =
     (let (c, ok) = TCPClient_createSocket strerror c
      in if \<not> ok then act_return False c
         else let (c, ok) = client_connect strerror ''Failed to connect socket'' c in act_return ok c)"

definition LinuxClient_createSocket :: "(int \<Rightarrow> string) \<Rightarrow> HMControlClient \<Rightarrow> HMControlClient \<times> bool" where
  "LinuxClient_createSocket = client_createSocket"

definition LinuxClient_closeSocket :: "HMControlClient \<Rightarrow> HMControlClient" where
  "LinuxClient_closeSocket = client_closeSocket"

text \<open>The path is printed to an array of 108 bytes, whatever its length.\<close>

definition LinuxClient_connectSocket :: "(int \<Rightarrow> string) \<Rightarrow> (HMControlClient, bool) act" where
  "LinuxClient_connectSocket strerror c =
     (let (c, ok) = LinuxClient_createSocket strerror c
      in if \<not> ok then act_return False c
         else if 108 \<le> length (cc_serverPath c) then Some (Inl buffer_overrun)
         else let (c, ok) = client_connect strerror (''Failed to connect socket to '' @ cc_serverPath c) c in act_return ok c)"

text \<open>The constructors, on a state with what the system will do.\<close>

definition client_construct :: "(HMControlClient, bool) act \<Rightarrow> HMControlClient \<Rightarrow> (client_error + HMControlClient \<times> unit) option" where
  "client_construct connect c =
     act_bind connect (\<lambda>ok c. act_return () (if ok then c\<lparr>cc_connected := True\<rparr> else c)) (c\<lparr>cc_connected := False\<rparr>)"

definition TCPClient_new :: "(int \<Rightarrow> string) \<Rightarrow> (HMControlClient, unit) act" where
  "TCPClient_new strerror c = client_construct (TCPClient_connectSocket strerror) (c\<lparr>cc_socket := NO_SOCKET\<rparr>)"

definition LinuxClient_new :: "(int \<Rightarrow> string) \<Rightarrow> string \<Rightarrow> (HMControlClient, unit) act" where
  "LinuxClient_new strerror socketPath c =
     client_construct (LinuxClient_connectSocket strerror) (c\<lparr>cc_socket := NO_SOCKET, cc_serverPath := socketPath\<rparr>)"

section \<open>Sending\<close>

text \<open>The size and the command; the flag says that both were sent as a whole.\<close>

definition client_sendParts :: "string \<Rightarrow> HMControlClient \<Rightarrow> HMControlClient \<times> bool" where
  "client_sendParts cmd c =
     (let (c, n) = client_send (size_bytes (hton64 (of_nat (length cmd)))) c
      in if n \<noteq> 8 then (c, False)
         else let (c, n) = client_send cmd c in (c, n = sint (of_nat (length cmd) :: u32)))"

definition client_sendFailed :: "(int \<Rightarrow> string) \<Rightarrow> string \<Rightarrow> (HMControlClient, bool) act" where
  "client_sendFailed strerror msg c =
     act_return False (client_closeSocket (Client_setError (msg @ '' on socket, error desc: '' @ strerror (cc_errno c)) c))"

definition client_sendMessage ::
    "(int \<Rightarrow> string) \<Rightarrow> (HMControlClient, bool) act \<Rightarrow> string \<Rightarrow> (HMControlClient, bool) act" where
  "client_sendMessage strerror connect cmd c =
     (if \<not> cc_connected c then act_return False (Client_setError ''Socket not connected'' c)
      else let (c, ok) = client_sendParts cmd c
           in if ok then act_return True c
              else if cc_errno c = EPIPE then
                act_bind connect (\<lambda>ok c.
                  if \<not> ok then act_return False c
                  else let (c, ok) = client_sendParts cmd c
                       in if ok then act_return True c else client_sendFailed strerror (''failed to send msg '' @ cmd) c) c
              else client_sendFailed strerror (''failed to send msg '' @ cmd) c)"

text \<open>Data of which only a part is sent counts as sent. After a broken connection the new one is closed again.\<close>

definition client_sendData ::
    "(int \<Rightarrow> string) \<Rightarrow> (HMControlClient, bool) act \<Rightarrow> string \<Rightarrow> (HMControlClient, bool) act" where
  "client_sendData strerror connect data c =
     (if \<not> cc_connected c then act_return False (Client_setError ''Socket not connected'' c)
      else let (c, n) = client_send data c
           in if n \<noteq> -1 then act_return True c
              else act_bind (if cc_errno c = EPIPE then connect else act_return True)
                     (\<lambda>_. client_sendFailed strerror ''failed to send msg'') c)"

definition TCPClient_sendMessage :: "(int \<Rightarrow> string) \<Rightarrow> string \<Rightarrow> (HMControlClient, bool) act" where
  "TCPClient_sendMessage strerror = client_sendMessage strerror (TCPClient_connectSocket strerror)"

definition TCPClient_sendData :: "(int \<Rightarrow> string) \<Rightarrow> string \<Rightarrow> (HMControlClient, bool) act" where
  "TCPClient_sendData strerror = client_sendData strerror (TCPClient_connectSocket strerror)"

definition LinuxClient_sendMessage :: "(int \<Rightarrow> string) \<Rightarrow> string \<Rightarrow> (HMControlClient, bool) act" where
  "LinuxClient_sendMessage strerror = client_sendMessage strerror (LinuxClient_connectSocket strerror)"

definition LinuxClient_sendData :: "(int \<Rightarrow> string) \<Rightarrow> string \<Rightarrow> (HMControlClient, bool) act" where
  "LinuxClient_sendData strerror = client_sendData strerror (LinuxClient_connectSocket strerror)"

section \<open>Receiving\<close>

text \<open>
  A TCP client reads once and compares with the size as a number of 32 bits. The buffer starts as zeros. An IPC
  client reads until it has as many bytes as it asked for. Every \<open>read\<close> asks for the whole size again, so that one
  that brings more than what is missing writes behind the buffer; a \<open>read\<close> without bytes is tried again.
\<close>

definition zeros :: "nat \<Rightarrow> string" where
  "zeros n = replicate n (CHR 0x00)"

definition TCPClient_recvMessage :: "nat \<Rightarrow> (HMControlClient, string option) act" where
  "TCPClient_recvMessage sz c =
     (if \<not> cc_connected c then act_return None (Client_setError ''Socket not connected'' c)
      else case client_read True sz c of None \<Rightarrow> None
        | Some (c, got) \<Rightarrow>
            let data = (case got of None \<Rightarrow> [] | Some s \<Rightarrow> s); n = (case got of None \<Rightarrow> -1 | Some s \<Rightarrow> int (length s))
            in act_return (if n = sint (of_nat sz :: u32) then Some (data @ zeros (sz - length data)) else None) c)"

partial_function (option) LinuxClient_recvLoop ::
    "(int \<Rightarrow> string) \<Rightarrow> nat \<Rightarrow> nat \<Rightarrow> string \<Rightarrow> HMControlClient \<Rightarrow> (client_error + HMControlClient \<times> string option) option" where
  "LinuxClient_recvLoop strerror sz offSize data c =
     (if \<not> offSize < sz then Some (Inr (c, if offSize = sz then Some data else None))
      else case client_read False sz c of None \<Rightarrow> None
        | Some (c, None) \<Rightarrow>
            Some (Inr (Client_setError (''Failed to recv on socket, error desc: '' @ strerror (cc_errno c)) c, None))
        | Some (c, Some s) \<Rightarrow>
            if sz < offSize + length s then Some (Inl buffer_overrun)
            else LinuxClient_recvLoop strerror sz (offSize + length s) (take offSize data @ s @ drop (offSize + length s) data) c)"

definition LinuxClient_recvMessage :: "(int \<Rightarrow> string) \<Rightarrow> nat \<Rightarrow> (HMControlClient, string option) act" where
  "LinuxClient_recvMessage strerror sz c =
     (if \<not> cc_connected c then act_return None (Client_setError ''Socket not connected'' c)
      else LinuxClient_recvLoop strerror sz 0 (zeros sz) c)"

definition TCPClient_transport :: "(int \<Rightarrow> string) \<Rightarrow> HMControlClient transport" where
  "TCPClient_transport strerror =
     \<lparr>tr_sendMessage = TCPClient_sendMessage strerror, tr_sendData = TCPClient_sendData strerror,
      tr_recvMessage = TCPClient_recvMessage, tr_setError = Client_setError\<rparr>"

definition LinuxClient_transport :: "(int \<Rightarrow> string) \<Rightarrow> HMControlClient transport" where
  "LinuxClient_transport strerror =
     \<lparr>tr_sendMessage = LinuxClient_sendMessage strerror, tr_sendData = LinuxClient_sendData strerror,
      tr_recvMessage = LinuxClient_recvMessage strerror, tr_setError = Client_setError\<rparr>"

section \<open>Both sockets keep the contract\<close>

definition client_talking :: "string list \<Rightarrow> HMControlClient \<Rightarrow> bool" where
  "client_talking sent c \<longleftrightarrow>
     cc_connected c \<and> cc_socket c = OPEN_SOCKET \<and> cc_sends c = [] \<and> cc_in c = [] \<and> cc_out c = sent"

definition client_pending :: "string list \<Rightarrow> HMControlClient \<Rightarrow> bool" where
  "client_pending portions c \<longleftrightarrow>
     cc_connected c \<and> cc_socket c = OPEN_SOCKET \<and> cc_sends c = [] \<and> cc_in c = map arrives portions \<and> cc_out c = []"

definition size_packet :: "string \<Rightarrow> string" where
  "size_packet reply = size_bytes (hton64 (of_nat (length reply)))"

text \<open>On a stream the answer comes at once, or its size first.\<close>

definition tcp_replies :: "HMControlClient \<Rightarrow> string list \<Rightarrow> string \<Rightarrow> bool" where
  "tcp_replies c sent reply \<longleftrightarrow>
     sent \<noteq> [] \<and> (fst (cc_server c sent) = [arrives (size_packet reply @ reply)]
       \<or> reply \<noteq> [] \<and> fst (cc_server c sent) = [arrives (size_packet reply), arrives reply])"

definition local_replies :: "HMControlClient \<Rightarrow> string list \<Rightarrow> string \<Rightarrow> bool" where
  "local_replies c sent reply \<longleftrightarrow>
     sent \<noteq> [] \<and> fst (cc_server c sent) = map arrives (size_packet reply # SocketLinux_sendData reply)"

lemma length_size_packet [simp]: "length (size_packet reply) = 8"
  by (simp add: size_packet_def)

lemma sint_length: "n < 2 ^ 31 \<Longrightarrow> sint (of_nat n :: u32) = int n"
  by (simp add: signed_of_nat signed_take_bit_int_eq_self)

lemma sendParts_sent:
  assumes "client_talking sent c" and "length cmd < 2 ^ 31"
  shows "client_sendParts cmd c = (c\<lparr>cc_out := sent @ message_sends cmd\<rparr>, True)"
  using assms by (simp add: client_sendParts_def client_send_def client_talking_def next_result_def message_sends_def sint_length)

lemma sendMessage_sent:
  assumes "client_talking sent c" and "length cmd < 2 ^ 31"
  shows "client_sendMessage strerror connect cmd c = Some (Inr (c\<lparr>cc_out := sent @ message_sends cmd\<rparr>, True))"
  using sendParts_sent [OF assms] assms(1) by (simp add: client_sendMessage_def client_talking_def act_return_def)

lemma sendData_sent:
  assumes "client_talking sent c"
  shows "client_sendData strerror connect data c = Some (Inr (c\<lparr>cc_out := sent @ [data]\<rparr>, True))"
  using assms by (simp add: client_sendData_def client_send_def client_talking_def next_result_def act_return_def)

lemma deliver_talking:
  assumes "client_talking sent c" and "cc_server c sent = (portions, stays)" and "sent \<noteq> []"
  shows "client_deliver c = c\<lparr>cc_in := portions, cc_peer := cc_peer c \<and> stays, cc_out := []\<rparr>"
  using assms by (simp add: client_deliver_def client_talking_def)

lemma recvMessage_portion:
  assumes "cc_connected c" and "cc_socket c = OPEN_SOCKET" and "cc_in (client_deliver c) = arrives (a @ b) # ps"
    and "length a = n" and "n < 0x7ffff000"
  shows "TCPClient_recvMessage n c =
    Some (Inr ((client_deliver c)\<lparr>cc_in := (if b = [] then ps else arrives b # ps)\<rparr>, Some a))"
  using assms by (simp add: TCPClient_recvMessage_def client_read_def sint_length act_return_def zeros_def Let_def)

interpretation tcp: connection "TCPClient_transport strerror" client_talking tcp_replies "\<lambda>reply. client_pending [reply]"
proof
  fix sent c and cmd :: string assume "client_talking sent c" "length cmd < 2 ^ 31"
  then show "\<exists>c'. tr_sendMessage (TCPClient_transport strerror) cmd c = Some (Inr (c', True))
      \<and> client_talking (sent @ message_sends cmd) c' \<and> tcp_replies c' = tcp_replies c"
    by (simp add: TCPClient_transport_def TCPClient_sendMessage_def sendMessage_sent)
      (simp add: client_talking_def tcp_replies_def fun_eq_iff)
next
  fix sent c and data :: string assume "client_talking sent c"
  then show "\<exists>c'. tr_sendData (TCPClient_transport strerror) data c = Some (Inr (c', True))
      \<and> client_talking (sent @ [data]) c' \<and> tcp_replies c' = tcp_replies c"
    by (simp add: TCPClient_transport_def TCPClient_sendData_def sendData_sent)
      (simp add: client_talking_def tcp_replies_def fun_eq_iff)
next
  fix sent c reply assume c: "client_talking sent c" "tcp_replies c sent reply"
  let ?portions = "fst (cc_server c sent)"
  obtain b ps where b: "?portions = arrives (size_packet reply @ b) # ps" "(if b = [] then ps else arrives b # ps) =
      (if reply = [] then [] else [arrives reply])" using c(2) by (force simp: tcp_replies_def)
  have "cc_in (client_deliver c) = ?portions" "cc_out (client_deliver c) = []"
    "cc_socket (client_deliver c) = OPEN_SOCKET" "cc_connected (client_deliver c)" "cc_sends (client_deliver c) = []"
    using deliver_talking [OF c(1) surjective_pairing] c by (auto simp: tcp_replies_def client_talking_def)
  then show "\<exists>c'. tr_recvMessage (TCPClient_transport strerror) 8 c = Some (Inr (c', Some (size_bytes (hton64 (of_nat (length reply))))))
      \<and> (if reply = [] then client_talking [] c' else client_pending [reply] c')"
    using recvMessage_portion [of c "size_packet reply" b ps 8] b c(1)
    by (auto simp: TCPClient_transport_def client_talking_def client_pending_def size_packet_def)
next
  fix reply c assume c: "client_pending [reply] c" "0 < length reply" "length reply < 0x7ffff000"
  then have d: "client_deliver c = c" by (simp add: client_deliver_def client_pending_def)
  then have "TCPClient_recvMessage (length reply) c = Some (Inr (c\<lparr>cc_in := []\<rparr>, Some reply))"
    using recvMessage_portion [of c reply "[]" "[]"] c by (simp add: client_pending_def)
  then show "\<exists>c'. tr_recvMessage (TCPClient_transport strerror) (length reply) c = Some (Inr (c', Some reply)) \<and> client_talking [] c'"
    using c(1) by (auto simp: TCPClient_transport_def client_pending_def client_talking_def)
qed

lemma recvLoop_packets:
  assumes "cc_socket c = OPEN_SOCKET" and "cc_out c = []" and "cc_in c = map arrives (SocketLinux_sendData d)"
    and "sz = length got + length d" and "length rest = length d" and "sz < 0x7ffff000"
  shows "LinuxClient_recvLoop strerror sz (length got) (got @ rest) c = Some (Inr (c\<lparr>cc_in := []\<rparr>, Some (got @ d)))"
  using assms
proof (induction d arbitrary: c got rest rule: SocketLinux_sendData.induct)
  case (1 d)
  show ?case
  proof (cases "d = []")
    case True
    then show ?thesis using 1(2-) by (subst LinuxClient_recvLoop.simps) (simp add: SocketLinux_sendData.simps)
  next
    case False
    let ?p = "take 65535 d" and ?c = "c\<lparr>cc_in := map arrives (SocketLinux_sendData (drop 65535 d))\<rparr>"
    have "SocketLinux_sendData d = ?p # SocketLinux_sendData (drop 65535 d)" using False by (subst SocketLinux_sendData.simps) simp
    moreover have "client_deliver c = c" using 1(3) by (simp add: client_deliver_def)
    moreover have "take (min sz 0x7ffff000) ?p = ?p" using 1(5,7) by (intro take_all) simp
    ultimately have "client_read False sz c = Some (?c, Some ?p)"
      using 1(2,4) by (simp add: client_read_def)
    moreover have "LinuxClient_recvLoop strerror sz (length (got @ ?p)) ((got @ ?p) @ drop (length ?p) rest) ?c =
        Some (Inr (?c\<lparr>cc_in := []\<rparr>, Some ((got @ ?p) @ drop 65535 d)))"
      by (rule 1(1) [OF False]) (use 1(2-) in auto)
    moreover have "?c\<lparr>cc_in := []\<rparr> = c\<lparr>cc_in := []\<rparr>" by simp
    ultimately show ?thesis using False 1(5) by (subst LinuxClient_recvLoop.simps) (simp add: min_def)
  qed
qed

interpretation local: connection "LinuxClient_transport strerror" client_talking local_replies
  "\<lambda>reply. client_pending (SocketLinux_sendData reply)"
proof
  fix sent c and cmd :: string assume "client_talking sent c" "length cmd < 2 ^ 31"
  then show "\<exists>c'. tr_sendMessage (LinuxClient_transport strerror) cmd c = Some (Inr (c', True))
      \<and> client_talking (sent @ message_sends cmd) c' \<and> local_replies c' = local_replies c"
    by (simp add: LinuxClient_transport_def LinuxClient_sendMessage_def sendMessage_sent)
      (simp add: client_talking_def local_replies_def fun_eq_iff)
next
  fix sent c and data :: string assume "client_talking sent c"
  then show "\<exists>c'. tr_sendData (LinuxClient_transport strerror) data c = Some (Inr (c', True))
      \<and> client_talking (sent @ [data]) c' \<and> local_replies c' = local_replies c"
    by (simp add: LinuxClient_transport_def LinuxClient_sendData_def sendData_sent)
      (simp add: client_talking_def local_replies_def fun_eq_iff)
next
  fix sent c reply assume c: "client_talking sent c" "local_replies c sent reply"
  let ?ps = "map arrives (SocketLinux_sendData reply)" and ?c = "client_deliver c"
  have d: "cc_in ?c = arrives (size_packet reply) # ?ps" "cc_out ?c = []"
    "cc_socket ?c = OPEN_SOCKET" "cc_connected ?c" "cc_sends ?c = []"
    using deliver_talking [OF c(1) surjective_pairing] c by (auto simp: local_replies_def client_talking_def)
  have "client_read False 8 c = Some (?c\<lparr>cc_in := ?ps\<rparr>, Some (size_packet reply))"
    using c(1) d(1) by (simp add: client_read_def client_talking_def)
  then have "LinuxClient_recvMessage strerror 8 c = Some (Inr (?c\<lparr>cc_in := ?ps\<rparr>, Some (size_packet reply)))"
    using c(1) unfolding LinuxClient_recvMessage_def client_talking_def
    by (subst LinuxClient_recvLoop.simps) (simp add: LinuxClient_recvLoop.simps zeros_def)
  then show "\<exists>c'. tr_recvMessage (LinuxClient_transport strerror) 8 c = Some (Inr (c', Some (size_bytes (hton64 (of_nat (length reply))))))
      \<and> (if reply = [] then client_talking [] c' else client_pending (SocketLinux_sendData reply) c')"
    using d by (auto simp: LinuxClient_transport_def client_talking_def client_pending_def size_packet_def SocketLinux_sendData.simps)
next
  fix reply c assume c: "client_pending (SocketLinux_sendData reply) c" "0 < length reply" "length reply < 0x7ffff000"
  then have "LinuxClient_recvLoop strerror (length reply) 0 (zeros (length reply)) c = Some (Inr (c\<lparr>cc_in := []\<rparr>, Some reply))"
    using recvLoop_packets [of c reply "length reply" "[]" "zeros (length reply)"] by (simp add: client_pending_def zeros_def)
  then show "\<exists>c'. tr_recvMessage (LinuxClient_transport strerror) (length reply) c = Some (Inr (c', Some reply)) \<and> client_talking [] c'"
    using c(1) by (auto simp: LinuxClient_transport_def LinuxClient_recvMessage_def client_pending_def client_talking_def)
qed

section \<open>Answers in packets\<close>

text \<open>A client of the local socket receives an answer of any size as it was sent, although the daemon cuts it into
  packets of 65535 bytes, and the connection is ready for the next request.\<close>

theorem local_client_receives:
  assumes "client_talking [] c" and "fst (cc_server c (request_sends ws data)) = map arrives (size_packet reply # SocketLinux_sendData reply)"
    and "length (command ws) < 2 ^ 31" and "\<forall>d. data = Some d \<longrightarrow> length d < 2 ^ 32"
    and "reply \<noteq> []" and "length reply < 0x7ffff000"
  shows "\<exists>c'. Client_request (LinuxClient_transport strerror) ws data acceptEmpty c = Some (Inr (c', Some reply)) \<and> client_talking [] c'"
proof -
  have "local_replies c ([] @ request_sends ws data) reply"
    using assms(2) by (simp add: local_replies_def request_sends_def message_sends_def)
  from local.request_answered [OF assms(1) this assms(3,4,6), of strerror acceptEmpty] show ?thesis using assms(5) by auto
qed

section \<open>Answers that do not arrive\<close>

lemma local_fields:
  "tr_sendMessage (LinuxClient_transport strerror) = client_sendMessage strerror (LinuxClient_connectSocket strerror)"
  "tr_sendData (LinuxClient_transport strerror) = client_sendData strerror (LinuxClient_connectSocket strerror)"
  "tr_recvMessage (LinuxClient_transport strerror) = LinuxClient_recvMessage strerror"
  by (simp_all add: LinuxClient_transport_def fun_eq_iff LinuxClient_sendMessage_def LinuxClient_sendData_def)

lemma tcp_fields:
  "tr_sendMessage (TCPClient_transport strerror) = client_sendMessage strerror (TCPClient_connectSocket strerror)"
  "tr_sendData (TCPClient_transport strerror) = client_sendData strerror (TCPClient_connectSocket strerror)"
  "tr_recvMessage (TCPClient_transport strerror) = TCPClient_recvMessage"
  by (simp_all add: TCPClient_transport_def fun_eq_iff TCPClient_sendMessage_def TCPClient_sendData_def)

lemma sent_parts:
  assumes "client_talking [] c" and "length (command ws) < 2 ^ 31" and "\<forall>d. data = Some d \<longrightarrow> length d < 2 ^ 32"
    and "tr_sendMessage tr = client_sendMessage strerror connect" and "tr_sendData tr = client_sendData strerror connect"
  shows "Client_request tr ws data acceptEmpty c = Client_receivePacket tr acceptEmpty (c\<lparr>cc_out := request_sends ws data\<rparr>)"
    and "client_talking (request_sends ws data) (c\<lparr>cc_out := request_sends ws data\<rparr>)"
proof -
  let ?c = "c\<lparr>cc_out := message_sends (command ws)\<rparr>"
  have c: "client_talking (message_sends (command ws)) ?c" using assms(1) by (simp add: client_talking_def)
  note m = sendMessage_sent [OF assms(1,2), of strerror connect]
  have d: "data = Some d \<Longrightarrow> client_sendData strerror connect d ?c = Some (Inr (?c\<lparr>cc_out := message_sends (command ws) @ [d]\<rparr>, True))" for d
    using sendData_sent [OF c] by simp
  show "Client_request tr ws data acceptEmpty c = Client_receivePacket tr acceptEmpty (c\<lparr>cc_out := request_sends ws data\<rparr>)"
    unfolding Client_request_def assms(4,5) act_bind_def using m d assms(3)
    by (cases data) (simp_all add: act_return_def request_sends_def)
  show "client_talking (request_sends ws data) (c\<lparr>cc_out := request_sends ws data\<rparr>)"
    using assms(1) by (simp add: client_talking_def)
qed

lemma recvLoop_returns:
  "LinuxClient_recvLoop strerror sz off data c = Some r \<Longrightarrow>
     \<not> (cc_in c = [] \<and> cc_out c = [] \<and> cc_socket c = OPEN_SOCKET \<and> off < sz)"
proof (rule LinuxClient_recvLoop.raw_induct [where P = "\<lambda>_ sz off _ c _.
      \<not> (cc_in c = [] \<and> cc_out c = [] \<and> cc_socket c = OPEN_SOCKET \<and> off < sz)"])
  fix loop strerror sz off data c r
  assume again: "\<And>strerror sz off data c r. loop strerror sz off data c = Some r \<Longrightarrow>
      \<not> (cc_in c = [] \<and> cc_out c = [] \<and> cc_socket c = OPEN_SOCKET \<and> off < sz)"
    and body: "(if \<not> off < sz then Some (Inr (c, if off = sz then Some data else None))
      else case client_read False sz c of None \<Rightarrow> None
        | Some (c, None) \<Rightarrow>
            Some (Inr (Client_setError (''Failed to recv on socket, error desc: '' @ strerror (cc_errno c)) c, None))
        | Some (c, Some s) \<Rightarrow>
            if sz < off + length s then Some (Inl buffer_overrun)
            else loop strerror sz (off + length s) (take off data @ s @ drop (off + length s) data) c) = Some r"
  show "\<not> (cc_in c = [] \<and> cc_out c = [] \<and> cc_socket c = OPEN_SOCKET \<and> off < sz)"
  proof
    assume silent: "cc_in c = [] \<and> cc_out c = [] \<and> cc_socket c = OPEN_SOCKET \<and> off < sz"
    then have "client_read False sz c = (if cc_peer c then None else Some (c, Some []))"
      by (simp add: client_read_def client_deliver_def)
    then show False using body again [of strerror sz off "take off data @ drop off data" c r] silent by (auto split: if_splits)
  qed
qed

text \<open>When the daemon does not answer a request, a client of the local socket never returns: neither when the connection
  stays open, nor when the daemon closes it, after which every \<open>read\<close> brings no bytes and the loop goes on.\<close>

lemma local_client_hangs:
  assumes "client_talking [] c" and "cc_server c (request_sends ws data) = ([], stays)"
    and "length (command ws) < 2 ^ 31" and "\<forall>d. data = Some d \<longrightarrow> length d < 2 ^ 32"
  shows "Client_request (LinuxClient_transport strerror) ws data acceptEmpty c = None"
proof -
  let ?tr = "LinuxClient_transport strerror" and ?c = "c\<lparr>cc_out := request_sends ws data\<rparr>"
  note sent = sent_parts [OF assms(1,3,4) local_fields(1,2)]
  have "client_deliver ?c = c\<lparr>cc_peer := cc_peer c \<and> stays, cc_out := []\<rparr>"
    using deliver_talking [OF sent(2), of "[]" stays] assms(1,2) by (simp add: request_sends_def message_sends_def client_talking_def)
  moreover have "client_read False 8 ?c = client_read False 8 (client_deliver ?c)"
    using sent(2) calculation assms(1) by (simp add: client_read_def client_talking_def client_deliver_def)
  ultimately have "LinuxClient_recvLoop strerror 8 0 data' ?c = LinuxClient_recvLoop strerror 8 0 data' (c\<lparr>cc_peer := cc_peer c \<and> stays, cc_out := []\<rparr>)" for data'
    by (subst (1 2) LinuxClient_recvLoop.simps) simp
  moreover have "LinuxClient_recvLoop strerror 8 0 data' (c\<lparr>cc_peer := cc_peer c \<and> stays, cc_out := []\<rparr>) = None" for data'
    using recvLoop_returns [of strerror 8 0 data' "c\<lparr>cc_peer := cc_peer c \<and> stays, cc_out := []\<rparr>"] assms(1)
    by (cases "LinuxClient_recvLoop strerror 8 0 data' (c\<lparr>cc_peer := cc_peer c \<and> stays, cc_out := []\<rparr>)") (auto simp: client_talking_def)
  ultimately have "LinuxClient_recvMessage strerror 8 ?c = None"
    using assms(1) by (simp add: LinuxClient_recvMessage_def client_talking_def)
  then show ?thesis
    by (simp add: sent(1) Client_receivePacket_def act_bind_def local_fields)
qed

lemma tcp_client_silence:
  assumes "client_talking [] c" and "cc_server c (request_sends ws data) = ([], stays)"
    and "length (command ws) < 2 ^ 31" and "\<forall>d. data = Some d \<longrightarrow> length d < 2 ^ 32"
  shows "Client_request (TCPClient_transport strerror) ws data acceptEmpty c =
    (if cc_peer c \<and> stays then None else Some (Inr (c\<lparr>cc_peer := False\<rparr>, None)))"
proof -
  let ?c = "c\<lparr>cc_out := request_sends ws data\<rparr>"
  note sent = sent_parts [OF assms(1,3,4) tcp_fields(1,2)]
  have "client_deliver ?c = c\<lparr>cc_peer := cc_peer c \<and> stays, cc_out := []\<rparr>"
    using deliver_talking [OF sent(2), of "[]" stays] assms(1,2) by (simp add: request_sends_def message_sends_def client_talking_def)
  moreover have "c\<lparr>cc_peer := False, cc_out := []\<rparr> = c\<lparr>cc_peer := False\<rparr>" using assms(1) by (simp add: client_talking_def)
  ultimately have "TCPClient_recvMessage 8 ?c = (if cc_peer c \<and> stays then None else Some (Inr (c\<lparr>cc_peer := False\<rparr>, None)))"
    using assms(1) by (auto simp: TCPClient_recvMessage_def client_read_def client_talking_def act_return_def)
  then show ?thesis
    by (auto simp: sent(1) Client_receivePacket_def act_bind_def tcp_fields act_return_def)
qed

text \<open>C33: When the daemon does not answer a request and closes the connection, a TCP client returns with a failure, but a
  client of the local socket never returns: every \<open>read\<close> brings no bytes, and the loop goes on. When the connection
  stays open neither returns.\<close>

theorem unanswered_request:
  assumes "client_talking [] c" and "cc_peer c" and "cc_server c (request_sends ws data) = ([], stays)"
    and "length (command ws) < 2 ^ 31" and "\<forall>d. data = Some d \<longrightarrow> length d < 2 ^ 32"
  shows "Client_request (TCPClient_transport strerror) ws data acceptEmpty c =
      (if stays then None else Some (Inr (c\<lparr>cc_peer := False\<rparr>, None)))
    \<and> Client_request (LinuxClient_transport strerror) ws data acceptEmpty c = None"
  using tcp_client_silence [OF assms(1,3-5)] local_client_hangs [OF assms(1,3-5)] assms(2) by simp

section \<open>Answers in parts\<close>

text \<open>A TCP client reads the data of an answer with a single call. When the answer arrives in two portions the request
  fails, and the connection is used further: the rest of the old answer is still to be read, and the next request takes
  its first eight bytes for the size of its own answer.\<close>

theorem tcp_client_split_answer:
  assumes "client_talking [] c" and "length (command ws) < 2 ^ 31" and "\<forall>d. data = Some d \<longrightarrow> length d < 2 ^ 32"
    and "cc_server c (request_sends ws data) = ([arrives (size_packet (a @ b) @ a), arrives b], stays)"
    and "a \<noteq> []" and "8 < length b" and "length (a @ b) < 0x7ffff000"
  shows "\<exists>c' c''. Client_request (TCPClient_transport strerror) ws data acceptEmpty c = Some (Inr (c', None))
    \<and> Client_isConnected c' \<and> cc_socket c' = OPEN_SOCKET
    \<and> TCPClient_recvMessage 8 c' = Some (Inr (c'', Some (take 8 b))) \<and> cc_in c'' = [arrives (drop 8 b)]"
proof -
  let ?c = "c\<lparr>cc_out := request_sends ws data\<rparr>" and ?n = "length (a @ b)"
  note sent = sent_parts [OF assms(1-3) tcp_fields(1,2)]
  define c1 where "c1 = c\<lparr>cc_in := [arrives a, arrives b], cc_peer := cc_peer c \<and> stays, cc_out := []\<rparr>"
  define c2 where "c2 = c1\<lparr>cc_in := [arrives b]\<rparr>"
  have "client_deliver ?c = c1\<lparr>cc_in := [arrives (size_packet (a @ b) @ a), arrives b]\<rparr>"
    using deliver_talking [OF sent(2)] assms(4) by (simp add: c1_def request_sends_def message_sends_def)
  then have first: "TCPClient_recvMessage 8 ?c = Some (Inr (c1, Some (size_packet (a @ b))))"
    using recvMessage_portion [of ?c "size_packet (a @ b)" a "[arrives b]" 8] assms(1,5)
    by (simp add: client_talking_def c1_def)
  have idle: "client_deliver c1 = c1" "client_deliver c2 = c2" "cc_socket c1 = OPEN_SOCKET" "cc_connected c1"
    using assms(1) by (simp_all add: c1_def c2_def client_deliver_def client_talking_def)
  have "client_read True ?n c1 = Some (c2, Some a)"
    using idle assms(7) by (simp add: client_read_def c2_def) (simp add: c1_def)
  then have second: "TCPClient_recvMessage ?n c1 = Some (Inr (c2, None))"
    using idle assms(6) sint_length [of ?n] assms(7) by (auto simp: TCPClient_recvMessage_def act_return_def simp del: of_nat_add)
  have "TCPClient_recvMessage 8 c2 = Some (Inr (c2\<lparr>cc_in := [arrives (drop 8 b)]\<rparr>, Some (take 8 b)))"
    using recvMessage_portion [of c2 "take 8 b" "drop 8 b" "[]" 8] idle assms(6) by (simp add: c2_def)
  moreover have "unat (of_nat ?n :: u64) = ?n" "(of_nat ?n :: u64) \<noteq> 0"
    using of_nat_u64 [of ?n] assms(5,7) by (auto simp del: of_nat_add)
  ultimately show ?thesis using first second idle
    by (simp del: of_nat_add length_append add: sent(1) Client_receivePacket_def act_bind_def tcp_fields size_packet_def Client_isConnected_def c2_def)
qed

section \<open>Examples\<close>

text \<open>A client that is connected to a given other end.\<close>

definition w_client :: "(string list \<Rightarrow> arrival list \<times> bool) \<Rightarrow> HMControlClient" where
  "w_client server =
     \<lparr>cc_connected = True, cc_socket = OPEN_SOCKET, cc_errorMsg = [], cc_serverPath = [], cc_errno = 0, cc_sockets = [],
      cc_connects = [], cc_sends = [], cc_in = [], cc_out = [], cc_peer = True, cc_server = server, cc_leaked = 0\<rparr>"

lemma w_client_talking: "client_talking [] (w_client server)"
  by (simp add: client_talking_def w_client_def)

lemma small_command: "length (command [''hostlist'', ''g'']) < 2 ^ 31"
  by (simp add: command_def version_word)

theorem local_client_receives_witness:
  "\<exists>c'. Client_request (LinuxClient_transport (\<lambda>_. [])) [''hostlist'', ''g''] None True
     (w_client (\<lambda>_. (map arrives (size_packet (replicate 70000 (CHR ''x'')) # SocketLinux_sendData (replicate 70000 (CHR ''x''))), False))) =
     Some (Inr (c', Some (replicate 70000 (CHR ''x'')))) \<and> client_talking [] c'"
  by (rule local_client_receives [OF w_client_talking _ small_command]) (simp_all add: w_client_def)

theorem unanswered_request_witness:
  "Client_request (TCPClient_transport (\<lambda>_. [])) [''hostlist'', ''g''] None True (w_client (\<lambda>_. ([], False))) =
      Some (Inr ((w_client (\<lambda>_. ([], False)))\<lparr>cc_peer := False\<rparr>, None))
    \<and> Client_request (LinuxClient_transport (\<lambda>_. [])) [''hostlist'', ''g''] None True (w_client (\<lambda>_. ([], False))) = None"
  using unanswered_request [OF w_client_talking _ _ small_command, of "\<lambda>_. ([], False)" None False "\<lambda>_. []" True]
  by (simp add: w_client_def)

theorem tcp_client_split_answer_witness:
  "\<exists>c' c''. Client_request (TCPClient_transport (\<lambda>_. [])) [''hostlist'', ''g''] None True
      (w_client (\<lambda>_. ([arrives (size_packet (''host'' @ ''1,host2,host3'') @ ''host''), arrives ''1,host2,host3''], True))) =
      Some (Inr (c', None))
    \<and> Client_isConnected c' \<and> cc_socket c' = OPEN_SOCKET
    \<and> TCPClient_recvMessage 8 c' = Some (Inr (c'', Some (take 8 ''1,host2,host3''))) \<and> cc_in c'' = [arrives (drop 8 ''1,host2,host3'')]"
  by (rule tcp_client_split_answer [OF w_client_talking small_command, where a = "''host''" and stays = True]) (simp_all add: w_client_def)

end
