(* ===== verification/HM_ClientSession.thy ===== *)
theory HM_ClientSession
  imports HM_ClientSocket
begin

text \<open>
  A client and the daemon together: the requests of \<open>HM_Client\<close> over the TCP socket of \<open>HM_ClientSocket\<close>, served by the thread
  of a connection (\<open>handleClient\<close> of \<open>HM_Service\<close>).
\<close>

section \<open>A daemon at the other end\<close>

text \<open>What is sent reaches the daemon as one stream, and its answers arrive in one portion.\<close>

definition daemon_server :: "'db control_env \<Rightarrow> nat \<Rightarrow> 'db HMControl \<Rightarrow> string list \<Rightarrow> arrival list \<times> bool" where
  "daemon_server env tid ct sent =
     (case handleClient env tid False (ct, SocketUtil_accepted (concat sent)) of Inl _ \<Rightarrow> ([], False)
      | Inr (_, out, waits) \<Rightarrow> (if out = [] then [] else [arrives out], waits))"

lemma concat_request: "concat (request_sends ws data) = message_bytes (command ws) @ (case data of None \<Rightarrow> [] | Some d \<Rightarrow> d)"
  by (simp add: request_sends_def message_sends_def message_bytes_def split: option.split)

lemma message_bytes_packet: "message_bytes reply = size_packet reply @ reply"
  by (simp add: message_bytes_def size_packet_def)

lemma daemon_replies:
  assumes "handleClient env tid False (ct, SocketUtil_accepted (concat sent)) = Inr (ct', message_bytes reply, waits)"
    and "sent \<noteq> []" and "cc_server c = daemon_server env tid ct"
  shows "tcp_replies c sent reply"
  using assms by (auto simp: tcp_replies_def daemon_server_def message_bytes_packet dest: arg_cong [of _ _ length])

text \<open>A command of a connection, and its end.\<close>

lemma command_keepopen:
  assumes "list_all is_word ws" and "ws \<noteq> [''keepopen'']"
  shows "command ws \<noteq> ''quit''" and "command ws \<noteq> command [''keepopen'']"
proof -
  have "Listener_tokenize ''quit'' = [''quit'']" "Listener_tokenize (command [''keepopen'']) = [''1'', ''keepopen'']"
    using tokenize_words [of "''quit''" "[]"] tokenize_command [of "[''keepopen'']"] by (simp_all add: is_word_def)
  then show "command ws \<noteq> ''quit''" "command ws \<noteq> command [''keepopen'']" using tokenize_command [OF assms(1)] assms(2) by auto
qed

lemma handleClient_next:
  assumes "list_all is_word ws" and "ws \<noteq> [''keepopen'']" and "length (command ws) < 2 ^ 64"
    and "su_connected su" and "su_in su = message_bytes (command ws) @ rest"
    and "handleCommands env (command ws) (ct, su\<lparr>su_in := rest, su_reason := HM_REASON_SUCCESS\<rparr>) = Inr (ct', su')"
    and "ct_keepRunning ct'"
  shows "handleClient env tid keepOpen (ct, su) = handleClient env tid keepOpen (ct', su')"
proof -
  have "SocketUtil_receiveCommand su = (su\<lparr>su_in := rest, su_reason := HM_REASON_SUCCESS\<rparr>, command ws, HM_SOCK_DATA_OK)"
    using assms(1,3) command_chars by (intro receiveCommand_message assms(4,5)) simp_all
  then show ?thesis using assms(6,7) command_keepopen [OF assms(1,2)] by (subst handleClient.simps) simp
qed

lemma handleClient_ends:
  assumes "su_connected su" and "su_peer su" and "su_in su = []"
  shows "handleClient env tid False (ct, su) = Inr (client_ended tid ct, su_out su, False)"
  using assms by (subst handleClient.simps) (simp add: SocketUtil_receiveCommand_def SocketTCP_recvData_def)

section \<open>A group that a client adds\<close>

text \<open>The group of the daemon: its source address, its remote check, its flow and its kind of lookup are the initial ones.\<close>

definition group_of_info :: "string \<Rightarrow> HM_CHECK_TYPE \<Rightarrow> HMAPICheckInfo \<Rightarrow> HMDataHostGroup" where
  "group_of_info name checkType q =
     (HostGroup_new name)\<lparr>hg_measurementOptions := qi_measurementOptions q,
       hg_dualstack := (if qi_ipv4 q then 1 else 0) + (if qi_ipv6 q then 2 else 0),
       hg_checkType := checkType, hg_port := qi_port q, hg_checkInfo := qi_checkInfo q,
       hg_numCheckRetries := qi_numCheckRetries q, hg_checkRetryDelay := qi_checkRetryDelay q,
       hg_smoothingWindow := qi_smoothingWindow q, hg_groupThreshold := qi_groupThreshold q,
       hg_slowThreshold := qi_slowThreshold q, hg_maxFlaps := qi_maxFlaps q, hg_checkTimeout := qi_checkTimeout q,
       hg_checkTTL := qi_checkTTL q, hg_flapThreshold := qi_flapThreshold q, hg_passthroughInfo := qi_passthroughInfo q,
       hg_distributedFallback := qi_distributedFallback q, hg_TOSValue := qi_TOSValue q,
       hg_hostGroups := qi_hostGroups q, hg_hosts := qi_hosts q\<rparr>"

lemma sent_group_of_api:
  assumes "HostGroup_of_api name q memory = Inr g" and "check_type_of_code (qi_checkType q) = Some t"
    and "qi_ipv4 q \<or> qi_ipv6 q"
  shows "sent_group name g = group_of_info name t q" and "hg_hosts g = qi_hosts q" and "hg_hostGroups g = qi_hostGroups q"
proof -
  show "hg_hosts g = qi_hosts q" "hg_hostGroups g = qi_hostGroups q"
    using assms(1) by (auto simp: HostGroup_of_api_def res_bind_Inr)
  show "sent_group name g = group_of_info name t q"
    using assms by (cases memory) (auto simp: HostGroup_of_api_def res_bind_Inr enumerator_def sent_group_def group_of_info_def HostGroup_new_def)
qed

text \<open>C24: A client that adds a group to the transaction of the daemon is told so, and the daemon has the group with the
  parameters of the client. The source address, the kind of the DNS lookup, the remote check and the flow that the client
  has set are not the ones of the group: they are lost on the way.\<close>

theorem client_adds_group:
  assumes "mg_newTransactionState (ct_manager ct) = Some t" and "groups_of t name = None"
    and "HostGroup_of_api name q memory = Inr g" and "check_type_of_code (qi_checkType q) = Some checkType"
    and "qi_ipv4 q \<or> qi_ipv6 q" and "distinct (qi_hosts q)" and "distinct (qi_hostGroups q)"
    and "data = packDataHostGroup_bytes (ev_proto env) g" and "data \<noteq> []" and "length data < 2 ^ 20"
    and "is_word name" and "length name < 2 ^ 20"
    and "transmits (pf_DataHostGroup (ev_proto env)) (packDataHostGroup g)"
    and "transmits (pf_Bool (ev_proto env)) True" and "packBool (ev_proto env) True \<noteq> []"
    and "length (packBool (ev_proto env) True) < 2 ^ 20"
    and "client_talking [] c" and "cc_server c = daemon_server env tid ct"
  shows "\<exists>c' t' out. Client_addHostGroup (ev_proto env) (TCPClient_transport strerror) name q memory c = Some (Inr (c', True))
    \<and> client_talking [] c'
    \<and> handleClient env tid False (ct, SocketUtil_accepted (concat (request_sends [''addhostgroup'', name, size_word data] (Some data)))) =
        Inr (client_ended tid (set_transaction t' ct), out, False)
    \<and> st_hostGroups (rn_state t') = smap_insert (<) name (group_of_info name checkType q) (st_hostGroups (rn_state t))"
proof -
  let ?pb = "ev_proto env" and ?ws = "[''addhostgroup'', name, size_word data]"
  let ?su = "(SocketUtil_accepted data)\<lparr>su_reason := HM_REASON_SUCCESS\<rparr>"
  note g = sent_group_of_api [OF assms(3-5)]
  have words: "list_all is_word ?ws" using assms(11) digits_word by (simp add: is_word_def to_string_def size_word_def)
  have task: "Listener_convert ''addhostgroup'' = ADDHOSTGROUP" by (simp add: Listener_convert_def commands_def)
  have short: "length (command ?ws) < 2 ^ 31"
    using length_digits [of "length data"] assms(10,12) unfolding command_def version_word by (simp add: to_string_def size_word_def)
  obtain t' where t': "handle_task env ADDHOSTGROUP ?ws (ct, ?su) = Inr (set_transaction t' ct, ?su\<lparr>su_in := [],
        su_reason := HM_REASON_SUCCESS, su_out := su_out ?su @ message_bytes (packBool ?pb True)\<rparr>)"
    "st_hostGroups (rn_state t') = smap_insert (<) name (sent_group name g) (st_hostGroups (rn_state t))"
    using added_group_arrives [OF assms(1,2), of g env data ?su "[]"] assms(6-10,13,16) g(2,3)
    unfolding size_word_def sent_group_def by (auto simp: SocketUtil_accepted_def)
  have served: "handleClient env tid False (ct, SocketUtil_accepted (concat (request_sends ?ws (Some data)))) =
      Inr (client_ended tid (set_transaction t' ct), message_bytes (packBool ?pb True), False)"
    using handleClient_served [OF words _ _ t'(1) [folded task, folded handleCommands_command [OF words]], of tid] short
    by (simp add: concat_request SocketUtil_accepted_def)
  have "tcp_replies c ([] @ request_sends ?ws (Some data)) (packBool ?pb True)"
    using daemon_replies [OF served] assms(18) by (simp add: request_sends_def message_sends_def)
  from tcp.bool_answered [OF assms(17) this short, of False strerror] obtain c' where
    "Client_ask_bool ?pb (TCPClient_transport strerror) ?ws (Some data) False c = Some (Inr (c', True))" "client_talking [] c'"
    using assms(10,14-16) by auto
  then show ?thesis using served t'(2) assms(3,8) g(1)
    by (auto simp: Client_addHostGroup_def Let_def)
qed

section \<open>A setting that is written and read\<close>

lemma char_of_48: "char_of (48 :: nat) = CHR ''0''"
  by code_simp

lemma stoul_zero: "stoul (digits 0) = Inr (Some 0)"
proof -
  have "digits 0 = ''0''" by (subst digits.simps) (simp add: char_of_48)
  moreover have "split_sign ''0'' = (False, ''0'')" using split_sign_digits [of 0] calculation by simp
  ultimately show ?thesis
    by (simp add: stoul_def base_prefix_def strtoul_def digit_value_def digits_value_def)
qed

lemma strtoul_number: "SocketUtil_strtoul (to_string (uint (n :: u32))) su = Inr (su, Some n)"
proof -
  have "unat n < 2 ^ 64" using unsigned_less [of n, where ?'a = nat] by simp
  then have "stoul (digits (unat n)) = Inr (Some (of_nat (unat n)))"
    using stoul_digits [of "unat n"] stoul_zero by (cases "unat n = 0") auto
  moreover have "ucast (of_nat (unat n) :: u64) = n" using \<open>unat n < 2 ^ 64\<close> by (simp add: unsigned_of_nat take_bit_nat_eq_self)
  moreover have "nat (uint n) = unat n" "\<not> uint n < 0" by simp_all
  ultimately show ?thesis by (simp add: SocketUtil_strtoul_def to_string_def)
qed

lemma digits_length: "n < 10 ^ Suc k \<Longrightarrow> length (digits n) \<le> Suc k"
proof (induction k arbitrary: n)
  case 0
  then show ?case by (simp add: digits.simps [of n])
next
  case (Suc k)
  then have "n div 10 < 10 ^ Suc k" by (simp add: div_less_iff_less_mult)
  from Suc.IH [OF this] show ?case by (simp add: digits.simps [of n])
qed

lemma number_word: "is_word (to_string (uint (n :: u32)))" "length (to_string (uint (n :: u32))) \<le> 10"
proof -
  have d: "to_string (uint n) = digits (unat n)" by (simp add: to_string_def)
  show "is_word (to_string (uint n))" by (simp add: d digits_word)
  have "unat n < 10 ^ Suc 9" using unsigned_less [of n, where ?'a = nat] by simp
  from digits_length [OF this] show "length (to_string (uint n)) \<le> 10" by (simp add: d)
qed

text \<open>The commands that set a number, with those that read it.\<close>

definition number_settings :: "(string \<times> string) list" where
  "number_settings =
     [(''setstride'', ''getstride''), (''setmonitorfrequency'', ''getmonitorfrequency''),
      (''setworkperthreadratio'', ''getworkperthreadratio''), (''setttlthreshold'', ''getttlthreshold'')]"

lemma setting_tasks:
  "Listener_convert ''setstride'' = SETSTRIDE" "Listener_convert ''getstride'' = GETSTRIDE"
  "Listener_convert ''setmonitorfrequency'' = SETMONFREQ" "Listener_convert ''getmonitorfrequency'' = GETMONFREQ"
  "Listener_convert ''setworkperthreadratio'' = SETWORKPERTHREAD" "Listener_convert ''getworkperthreadratio'' = GETWORKPERTHREAD"
  "Listener_convert ''setttlthreshold'' = SETTTLTRESH" "Listener_convert ''getttlthreshold'' = GETTTLTRESH"
  by code_simp+

lemma setting_handled:
  assumes "(put, get) \<in> set number_settings"
  obtains ct' where "handle_task env (Listener_convert put) [put, to_string (uint (n :: u32))] (ct, su) = Inr (ct', su)"
    and "ct_keepRunning ct' = ct_keepRunning ct"
    and "\<And>su. handle_task env (Listener_convert get) [get] (ct', su) = respond (sends (packUInt (ev_proto env) (ucast n))) (ct', su)"
proof -
  note run = handle_task_def needs_def with_number_def strtoul_number respond_def set_pool_def set_queue_def set_manager_def
  consider "(put, get) = (''setstride'', ''getstride'')" | "(put, get) = (''setmonitorfrequency'', ''getmonitorfrequency'')"
    | "(put, get) = (''setworkperthreadratio'', ''getworkperthreadratio'')" | "(put, get) = (''setttlthreshold'', ''getttlthreshold'')"
    using assms unfolding number_settings_def list.set insert_iff empty_iff simp_thms by (elim disjE)
  then show thesis
  proof cases
    case 1
    show thesis
      by (rule that [of "set_pool (\<lambda>tp. tp\<lparr>tp_stridePercent := n\<rparr>) ct"], unfold 1 [unfolded prod.inject, THEN conjunct1] 1 [unfolded prod.inject, THEN conjunct2] setting_tasks) (simp_all add: run handle_SETSTRIDE_def handle_GETSTRIDE_def)
  next
    case 2
    show thesis
      by (rule that [of "set_pool (\<lambda>tp. tp\<lparr>tp_monitorFrequency := n\<rparr>) ct"], unfold 2 [unfolded prod.inject, THEN conjunct1] 2 [unfolded prod.inject, THEN conjunct2] setting_tasks) (simp_all add: run handle_SETMONFREQ_def handle_GETMONFREQ_def)
  next
    case 3
    show thesis
      by (rule that [of "set_pool (\<lambda>tp. tp\<lparr>tp_workPerThreadRatio := n\<rparr>) ct"], unfold 3 [unfolded prod.inject, THEN conjunct1] 3 [unfolded prod.inject, THEN conjunct2] setting_tasks) (simp_all add: run handle_SETWORKPERTHREAD_def handle_GETWORKPERTHREAD_def)
  next
    case 4
    show thesis
      by (rule that [of "set_queue (\<lambda>q. q\<lparr>wq_ttlTreshold := n\<rparr>) ct"], unfold 4 [unfolded prod.inject, THEN conjunct1] 4 [unfolded prod.inject, THEN conjunct2] setting_tasks) (simp_all add: run handle_SETTTLTRESH_def handle_GETTTLTRESH_def)
  qed
qed

lemma setting_session:
  assumes "(put, get) \<in> set number_settings" and "ct_keepRunning ct" and "length (packUInt (ev_proto env) (ucast n)) < 2 ^ 64"
  obtains ct' where "handleClient env tid False (ct, SocketUtil_accepted (concat (request_sends [put, to_string (uint (n :: u32))] None
        @ request_sends [get] None))) = Inr (client_ended tid ct', message_bytes (packUInt (ev_proto env) (ucast n)), False)"
proof -
  let ?r = "packUInt (ev_proto env) (ucast n)" and ?put = "[put, to_string (uint n)]"
  let ?su = "SocketUtil_accepted (message_bytes (command ?put) @ message_bytes (command [get]))"
  let ?su1 = "?su\<lparr>su_in := message_bytes (command [get]), su_reason := HM_REASON_SUCCESS\<rparr>"
  let ?su2 = "?su1\<lparr>su_in := [], su_reason := HM_REASON_SUCCESS\<rparr>"
  obtain ct' where ct': "handle_task env (Listener_convert put) ?put (ct, ?su1) = Inr (ct', ?su1)" "ct_keepRunning ct'"
    "handle_task env (Listener_convert get) [get] (ct', ?su2) = respond (sends ?r) (ct', ?su2)"
    by (rule setting_handled [OF assms(1), where env = env and n = n and ct = ct and su = ?su1]) (use assms(2) in blast)
  have words: "list_all is_word ?put" "list_all is_word [get]" "get \<noteq> ''keepopen''"
    using assms(1) number_word(1) [of n] by (auto simp: number_settings_def is_word_def)
  have short: "length (command ?put) < 2 ^ 64" "length (command [get]) < 2 ^ 64"
    using assms(1) number_word(2) [of n] by (auto simp: command_def version_word number_settings_def)
  have answer: "respond (sends ?r) (ct', ?su2) = Inr (ct', ?su2\<lparr>su_out := message_bytes ?r\<rparr>)"
    using assms(3) by (simp add: respond_def sends_def sendMessage_bytes SocketUtil_accepted_def)
  have "handleClient env tid False (ct, ?su) = handleClient env tid False (ct', ?su1)"
    by (rule handleClient_next [OF words(1) _ short(1)])
      (use ct'(1,2) in \<open>simp_all add: handleCommands_command [OF words(1)] SocketUtil_accepted_def\<close>)
  also have "\<dots> = handleClient env tid False (ct', ?su2\<lparr>su_out := message_bytes ?r\<rparr>)"
    by (rule handleClient_next [OF words(2) _ short(2)])
      (use ct'(2,3) answer words(3) in \<open>simp_all add: handleCommands_command [OF words(2)] SocketUtil_accepted_def\<close>)
  also have "\<dots> = Inr (client_ended tid ct', message_bytes ?r, False)"
    by (subst handleClient_ends) (simp_all add: SocketUtil_accepted_def)
  finally show thesis using that by (simp add: concat_request)
qed

text \<open>C25: a number that a client sets is the one it reads next, for each of the four settings that have one, zero
  included, which protocol buffers pack into an empty message.\<close>

theorem client_setting_roundtrip:
  assumes "(write, read) \<in> {(Client_setStride, Client_getStride), (Client_setMonitoringFrequency, Client_getMonitoringFrequency),
      (Client_setWorkPerThread, Client_getWorkPerThread), (Client_setTTLTreshold, Client_getTTLTreshold)}"
    and "ct_keepRunning ct" and "client_talking [] c" and "cc_server c = daemon_server env tid ct"
    and "if packUInt (ev_proto env) (ucast n) = [] then n = 0 else transmits (pf_Uint (ev_proto env)) (ucast n)"
    and "length (packUInt (ev_proto env) (ucast n)) < 2 ^ 20"
  shows "\<exists>c'. act_bind (write (TCPClient_transport strerror) n) (\<lambda>_. read (ev_proto env) (TCPClient_transport strerror) old) c =
    Some (Inr (c', n, True)) \<and> client_talking [] c'"
proof -
  let ?tr = "TCPClient_transport strerror" and ?pb = "ev_proto env"
  note defs = Client_setStride_def Client_getStride_def Client_setMonitoringFrequency_def Client_getMonitoringFrequency_def
    Client_setWorkPerThread_def Client_getWorkPerThread_def Client_setTTLTreshold_def Client_getTTLTreshold_def
  from assms(1) consider "write = Client_setStride" "read = Client_getStride"
    | "write = Client_setMonitoringFrequency" "read = Client_getMonitoringFrequency"
    | "write = Client_setWorkPerThread" "read = Client_getWorkPerThread" | "write = Client_setTTLTreshold" "read = Client_getTTLTreshold"
    by blast
  then obtain s g where cmd: "(s, g) \<in> set number_settings" "write ?tr n = Client_tell ?tr [s, to_string (uint n)]"
    "read ?pb ?tr old = Client_ask_uint ?pb ?tr [g] old"
  proof cases
    case 1
    show thesis by (rule that [of "''setstride''" "''getstride''"]) (simp_all add: 1 defs number_settings_def)
  next
    case 2
    show thesis by (rule that [of "''setmonitorfrequency''" "''getmonitorfrequency''"]) (simp_all add: 2 defs number_settings_def)
  next
    case 3
    show thesis by (rule that [of "''setworkperthreadratio''" "''getworkperthreadratio''"]) (simp_all add: 3 defs number_settings_def)
  next
    case 4
    show thesis by (rule that [of "''setttlthreshold''" "''getttlthreshold''"]) (simp_all add: 4 defs number_settings_def)
  qed
  let ?sent = "request_sends [s, to_string (uint n)] None"
  have short: "length (command [s, to_string (uint n)]) < 2 ^ 31" "length (command [g]) < 2 ^ 31"
    using cmd(1) number_word(2) [of n] by (auto simp: command_def version_word number_settings_def)
  obtain c1 where c1: "Client_tell ?tr [s, to_string (uint n)] c = Some (Inr (c1, True))" "client_talking ([] @ ?sent) c1"
    "tcp_replies c1 = tcp_replies c" using tcp.told [OF assms(3) short(1)] by blast
  obtain ct' where "handleClient env tid False (ct, SocketUtil_accepted (concat (?sent @ request_sends [g] None))) =
      Inr (client_ended tid ct', message_bytes (packUInt ?pb (ucast n)), False)"
    by (rule setting_session [OF cmd(1) assms(2), of env n tid]) (use assms(6) in auto)
  from daemon_replies [OF this _ assms(4)] have "tcp_replies c1 (([] @ ?sent) @ request_sends [g] None) (packUInt ?pb (ucast n))"
    unfolding c1(3) by (simp add: request_sends_def message_sends_def)
  from tcp.uint_answered [OF c1(2) this short(2), of strerror old] obtain c2 where
    "Client_ask_uint ?pb ?tr [g] old c1 = Some (Inr (c2, ucast (ucast n :: u64), True))" "client_talking [] c2"
    using assms(5,6) by (auto split: if_splits)
  then show ?thesis using c1(1) by (simp add: act_bind_def cmd(2,3))
qed

section \<open>Examples\<close>

definition w_info :: HMAPICheckInfo where
  "w_info = APICheckInfo_new\<lparr>qi_ipv4 := True, qi_checkType := 2, qi_port := 80, qi_flowType := 1, qi_hosts := [''h'']\<rparr>"

definition w_api_group :: HMDataHostGroup where
  "w_api_group = (group_of_info ''g'' HM_CHECK_HTTP w_info)\<lparr>hg_flowType := HM_FLOW_REMOTE_HOSTGROUP_TYPE\<rparr>"

definition w_senv :: "(string \<times> mdbm_value) list control_env" where
  "w_senv = w_tenv\<lparr>ev_proto := (ev_proto w_tenv)\<lparr>pf_DataHostGroup := const_format (packDataHostGroup w_api_group),
     pf_Bool := const_format True, pf_Uint := const_format 7\<rparr>\<rparr>"

lemma w_info_group: "HostGroup_of_api ''g'' w_info (HostGroup_new ''g'') = Inr w_api_group"
  by (simp add: HostGroup_of_api_def w_info_def APICheckInfo_new_def w_api_group_def group_of_info_def enumerator_def HostGroup_new_def
      check_type_of_code_def remote_check_type_of_code_def flow_type_of_code_def)

theorem client_adds_group_witness:
  "\<exists>c'. Client_addHostGroup (ev_proto w_senv) (TCPClient_transport (\<lambda>_. [])) ''g'' w_info (HostGroup_new ''g'')
     (w_client (daemon_server w_senv 0 w_transaction)) = Some (Inr (c', True)) \<and> client_talking [] c'"
proof -
  let ?t = "w_idle [(''a'', HostGroup_new ''a'')]"
  have t: "mg_newTransactionState (ct_manager w_transaction) = Some ?t" "groups_of ?t ''g'' = None"
    by (simp_all add: w_transaction_def w_tmgr_def groups_of_def w_idle_def key_equiv_def)
  have q: "check_type_of_code (qi_checkType w_info) = Some HM_CHECK_HTTP" "qi_ipv4 w_info \<or> qi_ipv6 w_info" "distinct (qi_hosts w_info)"
    "distinct (qi_hostGroups w_info)" by (simp_all add: w_info_def APICheckInfo_new_def check_type_of_code_def)
  from client_adds_group [OF t w_info_group q refl, of w_senv "w_client (daemon_server w_senv 0 w_transaction)" 0 "\<lambda>_. []"]
  show ?thesis
    by (auto simp: w_senv_def w_tenv_def w_proto_def const_format_def transmits_def packDataHostGroup_bytes_def packBool_def
        is_word_def w_client_talking) (auto simp: w_client_def)
qed

theorem client_setting_roundtrip_witness:
  "\<exists>c'. act_bind (Client_setStride (TCPClient_transport (\<lambda>_. [])) 7)
      (\<lambda>_. Client_getStride (ev_proto w_senv) (TCPClient_transport (\<lambda>_. [])) 0) (w_client (daemon_server w_senv 0 w_transaction)) =
    Some (Inr (c', 7, True)) \<and> client_talking [] c'"
  by (rule client_setting_roundtrip [OF _ _ w_client_talking, where ct = w_transaction and tid = 0])
    (simp_all add: w_senv_def w_tenv_def w_proto_def const_format_def transmits_def packUInt_def w_transaction_def w_client_def)

end
