(* ===== verification/HM_StorageHost.thy ===== *)
theory HM_StorageHost
  imports HM_StorageInit
begin

text \<open>
  The storage by host (\<open>HMStorageHost.cpp\<close>). The virtual methods are the fields of a record, so what
  \<open>HMStorageHost\<close> does is stated for any class derived from it; \<open>HM_StorageText\<close> has the one of the program. The locale \<open>write_only_store\<close> is the contract of a class
  whose reads all fail, as the text file promises; \<open>backend_reads\<close> is the contract of a class whose reads return
  what was stored.
\<close>

section \<open>Data\<close>

record HMCheckData = HMCheckHeader +
  cd_result :: HMDataCheckResult

record HMAuxData = HMCheckHeader +
  xd_info :: HMAuxInfo

text \<open>The constructors copy the check parameters, and the copy has no host groups.\<close>

definition CheckHeader_new ::
    "string \<Rightarrow> HMIPAddress \<Rightarrow> HMDataHostCheck \<Rightarrow> HMDataCheckParams \<Rightarrow> HMCheckHeader" where
  "CheckHeader_new hostname address hostCheck checkParams =
     \<lparr>ch_hostname = hostname, ch_address = address, ch_hostCheck = hostCheck,
      ch_checkParams = CheckParams_copy checkParams\<rparr>"

definition CheckData_new ::
    "string \<Rightarrow> HMIPAddress \<Rightarrow> HMDataHostCheck \<Rightarrow> HMDataCheckParams \<Rightarrow> HMDataCheckResult \<Rightarrow> HMCheckData" where
  "CheckData_new hostname address hostCheck checkParams result =
     \<lparr>ch_hostname = hostname, ch_address = address, ch_hostCheck = hostCheck,
      ch_checkParams = CheckParams_copy checkParams, cd_result = result\<rparr>"

definition AuxData_new ::
    "string \<Rightarrow> HMIPAddress \<Rightarrow> HMDataHostCheck \<Rightarrow> HMDataCheckParams \<Rightarrow> HMAuxInfo \<Rightarrow> HMAuxData" where
  "AuxData_new hostname address hostCheck checkParams info =
     \<lparr>ch_hostname = hostname, ch_address = address, ch_hostCheck = hostCheck,
      ch_checkParams = CheckParams_copy checkParams, xd_info = AuxInfo_copy info\<rparr>"

text \<open>
  The virtual methods that a derived class has. A \<open>get\<close> has the object that it fills as an argument and returns
  it with its success; a method that changes the data returns the changed back end with its success.
\<close>

record 'b host_backend =
  hb_storeHostNames :: "string list \<Rightarrow> 'b \<Rightarrow> 'b \<times> bool"
  hb_getHostNames :: "string list \<Rightarrow> 'b \<Rightarrow> string list \<times> bool"
  hb_storeHostGroupNames :: "string list \<Rightarrow> 'b \<Rightarrow> 'b \<times> bool"
  hb_getHostGroupNames :: "string list \<Rightarrow> 'b \<Rightarrow> string list \<times> bool"
  hb_storeNameChecks :: "string \<Rightarrow> HMCheckHeader list \<Rightarrow> 'b \<Rightarrow> 'b \<times> bool"
  hb_getNameChecks :: "string \<Rightarrow> HMCheckHeader list \<Rightarrow> 'b \<Rightarrow> HMCheckHeader list \<times> bool"
  hb_removeNameChecks :: "string \<Rightarrow> HMCheckHeader list \<Rightarrow> 'b \<Rightarrow> 'b \<times> bool"
  hb_storeGroupInfo :: "string \<Rightarrow> HMDataHostGroup \<Rightarrow> 'b \<Rightarrow> 'b \<times> bool"
  hb_getGroupInfo :: "string \<Rightarrow> HMDataHostGroup \<Rightarrow> 'b \<Rightarrow> HMDataHostGroup \<times> bool"
  hb_storeHostCheckResult :: "HMCheckData \<Rightarrow> 'b \<Rightarrow> 'b \<times> bool"
  hb_getHostCheckResult :: "HMCheckHeader \<Rightarrow> HMDataCheckResult \<Rightarrow> 'b \<Rightarrow> HMDataCheckResult \<times> bool"
  hb_removeHostCheckResult :: "HMCheckHeader \<Rightarrow> 'b \<Rightarrow> 'b \<times> bool"
  hb_storeHostAuxInfo :: "HMAuxData \<Rightarrow> 'b \<Rightarrow> 'b \<times> bool"
  hb_getHostAuxInfo :: "HMCheckHeader \<Rightarrow> HMAuxInfo \<Rightarrow> 'b \<Rightarrow> HMAuxInfo \<times> bool"
  hb_removeHostAuxInfo :: "HMCheckHeader \<Rightarrow> 'b \<Rightarrow> 'b \<times> bool"
  hb_storeDNSResult :: "string \<Rightarrow> HMIPAddress list \<Rightarrow> 'b \<Rightarrow> 'b \<times> bool"
  hb_getDNSResult :: "string \<Rightarrow> HMIPAddress list \<Rightarrow> 'b \<Rightarrow> HMIPAddress list \<times> bool"
  hb_removeDNSResult :: "string \<Rightarrow> HMIPAddress list \<Rightarrow> 'b \<Rightarrow> 'b \<times> bool"

record 'b HMStorageHost =
  sh_readonly :: bool
  sh_hostGroupMap :: HMDataHostGroupMap
  sh_storeCheckQueue :: "HMCheckData list"
  sh_storeAuxQueue :: "HMAuxData list"
  sh_backend :: 'b

text \<open>A loop that ends at the first failure.\<close>

fun while_ok :: "('x \<Rightarrow> 'b \<Rightarrow> 'b \<times> bool) \<Rightarrow> 'x list \<Rightarrow> 'b \<Rightarrow> 'b \<times> bool" where
  "while_ok f [] b = (b, True)"
| "while_ok f (x # xs) b = (let (b, ok) = f x b in if ok then while_ok f xs b else (b, False))"

section \<open>Names and configuration\<close>

definition Host_removeName :: "'b host_backend \<Rightarrow> string \<Rightarrow> 'b \<Rightarrow> 'b" where
  "Host_removeName be hostname b =
     (let (checks, ok) = hb_getNameChecks be hostname [] b;
          b = (if ok then
                 fold (\<lambda>check b. fst (hb_removeHostAuxInfo be check (fst (hb_removeHostCheckResult be check b))))
                   checks (fst (hb_removeNameChecks be hostname checks b))
               else b);
          addresses = fst (hb_getDNSResult be hostname [] b)
      in fst (hb_removeDNSResult be hostname addresses b))"

definition names_of :: "HMCheckHeader list \<Rightarrow> string list" where
  "names_of checks = fold insort_insert (map ch_hostname checks) []"

definition Host_storeConfigs ::
    "'b host_backend \<Rightarrow> HMState \<Rightarrow> 'b HMStorageHost \<Rightarrow> 'b HMStorageHost \<times> bool" where
  "Host_storeConfigs be checkState s =
     (let allChecks = CheckList_getAllChecks (st_checkList checkState);
          allHosts = names_of allChecks;
          store = (\<lambda>b.
            let (b, ok) = hb_storeHostNames be allHosts b
            in if \<not> ok then (b, False)
               else
                 let (b, ok) = while_ok (\<lambda>n. hb_storeNameChecks be n (filter (\<lambda>c. ch_hostname c = n) allChecks))
                                 allHosts b
                 in if \<not> ok then (b, False)
                    else
                      let (b, ok) = while_ok (\<lambda>(n, g). hb_storeGroupInfo be n g) (st_hostGroups checkState) b
                      in if \<not> ok then (b, False)
                         else hb_storeHostGroupNames be
                                (fold insort_insert (map fst (st_hostGroups checkState)) []) b);
          (b, ok) = store (sh_backend s)
      in (s\<lparr>sh_backend := b\<rparr>, ok))"

definition getConfigs_group :: "'b host_backend \<Rightarrow> 'b \<Rightarrow> string \<Rightarrow> HMState \<Rightarrow> HMState \<times> bool" where
  "getConfigs_group be b n st =
     (let (hostGroup, ok) = hb_getGroupInfo be n (HostGroup_new n) b
      in if ok
         then (st\<lparr>st_hostGroups := smap_insert (<) n hostGroup (st_hostGroups st),
                  st_checkList := fst (CheckList_addHostGroup hostGroup (st_checkList st))\<rparr>, True)
         else (st, False))"

definition getConfigs_host :: "'b host_backend \<Rightarrow> 'b \<Rightarrow> string \<Rightarrow> HMState \<Rightarrow> HMState \<times> bool" where
  "getConfigs_host be b n st =
     (let (checks, ok) = hb_getNameChecks be n [] b
      in if ok
         then (st\<lparr>st_checkList :=
                 fold (\<lambda>c. CheckList_insertCheck [] (ch_hostname c) (ch_hostCheck c) (ch_checkParams c) [])
                   checks (st_checkList st)\<rparr>, True)
         else (st, False))"

definition Host_getConfigs :: "'b host_backend \<Rightarrow> HMState \<Rightarrow> 'b HMStorageHost \<Rightarrow> HMState \<times> bool" where
  "Host_getConfigs be st s =
     (let b = sh_backend s; (hostGroupNames, ok) = hb_getHostGroupNames be [] b
      in if \<not> ok then (st, False)
         else
           let (st, ok) = while_ok (getConfigs_group be b) hostGroupNames st
           in if \<not> ok then (st, False)
              else
                let (hostNames, ok) = hb_getHostNames be [] b
                in if \<not> ok then (st, False) else while_ok (getConfigs_host be b) hostNames st)"

section \<open>Results\<close>

definition Host_storeCheckResult ::
    "string \<Rightarrow> HMIPAddress \<Rightarrow> HMDataHostCheck \<Rightarrow> HMDataCheckParams \<Rightarrow> HMDataCheckResult \<Rightarrow> 'b HMStorageHost \<Rightarrow>
     'b HMStorageHost \<times> bool" where
  "Host_storeCheckResult hostname address hostCheck checkParams checkResult s =
     (if sh_readonly s then (s, False)
      else (s\<lparr>sh_storeCheckQueue := sh_storeCheckQueue s
                @ [CheckData_new hostname address hostCheck checkParams checkResult]\<rparr>, True))"

definition Host_getCheckResult ::
    "'b host_backend \<Rightarrow> string \<Rightarrow> HMIPAddress \<Rightarrow> HMDataHostCheck \<Rightarrow> HMDataCheckParams \<Rightarrow> HMDataCheckResult \<Rightarrow>
     'b HMStorageHost \<Rightarrow> HMDataCheckResult \<times> bool" where
  "Host_getCheckResult be hostname address hostCheck checkParams checkResult s =
     hb_getHostCheckResult be (CheckHeader_new hostname address hostCheck checkParams) checkResult (sh_backend s)"

definition Host_purgeCheckResult ::
    "'b host_backend \<Rightarrow> string \<Rightarrow> HMIPAddress \<Rightarrow> HMDataHostCheck \<Rightarrow> HMDataCheckParams \<Rightarrow> 'b HMStorageHost \<Rightarrow>
     'b HMStorageHost \<times> bool" where
  "Host_purgeCheckResult be hostname address hostCheck checkParams s =
     (let (b, ok) = hb_removeHostCheckResult be (CheckHeader_new hostname address hostCheck checkParams) (sh_backend s)
      in (s\<lparr>sh_backend := b\<rparr>, ok))"

definition Host_storeAuxInfo ::
    "string \<Rightarrow> HMIPAddress \<Rightarrow> HMDataHostCheck \<Rightarrow> HMDataCheckParams \<Rightarrow> HMAuxInfo \<Rightarrow> 'b HMStorageHost \<Rightarrow>
     'b HMStorageHost \<times> bool" where
  "Host_storeAuxInfo hostname address hostCheck checkParams auxInfo s =
     (if sh_readonly s then (s, False)
      else (s\<lparr>sh_storeAuxQueue := sh_storeAuxQueue s
                @ [AuxData_new hostname address hostCheck checkParams auxInfo]\<rparr>, True))"

definition Host_getAuxInfo ::
    "'b host_backend \<Rightarrow> string \<Rightarrow> HMIPAddress \<Rightarrow> HMDataHostCheck \<Rightarrow> HMDataCheckParams \<Rightarrow> HMAuxInfo \<Rightarrow>
     'b HMStorageHost \<Rightarrow> HMAuxInfo \<times> bool" where
  "Host_getAuxInfo be hostname address hostCheck checkParams auxInfo s =
     hb_getHostAuxInfo be (CheckHeader_new hostname address hostCheck checkParams) auxInfo (sh_backend s)"

definition Host_purgeAuxInfo ::
    "'b host_backend \<Rightarrow> string \<Rightarrow> HMIPAddress \<Rightarrow> HMDataHostCheck \<Rightarrow> HMDataCheckParams \<Rightarrow> 'b HMStorageHost \<Rightarrow>
     'b HMStorageHost \<times> bool" where
  "Host_purgeAuxInfo be hostname address hostCheck checkParams s =
     (let (b, ok) = hb_removeHostAuxInfo be (CheckHeader_new hostname address hostCheck checkParams) (sh_backend s)
      in (s\<lparr>sh_backend := b\<rparr>, ok))"

definition Host_getDNS ::
    "'b host_backend \<Rightarrow> string \<Rightarrow> HMIPAddress list \<Rightarrow> 'b HMStorageHost \<Rightarrow> HMIPAddress list \<times> bool" where
  "Host_getDNS be hostname ips s = hb_getDNSResult be hostname ips (sh_backend s)"

text \<open>There are no caches: these calls of a reload and of remote work do nothing.\<close>

definition Host_updateCheckResultCache ::
    "HMCheckHeader \<Rightarrow> HMDataCheckResult \<Rightarrow> 'b HMStorageHost \<Rightarrow> 'b HMStorageHost \<times> bool" where
  "Host_updateCheckResultCache header result s = (s, True)"

definition Host_updateAuxInfoCache ::
    "HMCheckHeader \<Rightarrow> HMAuxInfo \<Rightarrow> 'b HMStorageHost \<Rightarrow> 'b HMStorageHost \<times> bool" where
  "Host_updateAuxInfoCache header aux s = (s, True)"

definition Host_updateHostGroups :: "string list \<Rightarrow> 'b HMStorageHost \<Rightarrow> 'b HMStorageHost" where
  "Host_updateHostGroups hostGroups s = s"

definition Host_storeHostGroupCheckResult ::
    "string \<Rightarrow> HMGroupCheckResult list \<Rightarrow> 'b HMStorageHost \<Rightarrow> 'b HMStorageHost \<times> bool" where
  "Host_storeHostGroupCheckResult hostgroupname checkResult s = (s, True)"

definition Host_storeHostGroupAuxResult ::
    "string \<Rightarrow> HMGroupAuxResult list \<Rightarrow> 'b HMStorageHost \<Rightarrow> 'b HMStorageHost \<times> bool" where
  "Host_storeHostGroupAuxResult hostgroupname auxResult s = (s, True)"

text \<open>
  The results of a group: those of each address of each of its hosts. The check of the header is that of the
  group, and one object takes the results of all reads.
\<close>

definition group_check_header :: "HMDataHostGroup \<Rightarrow> string \<Rightarrow> HMIPAddress \<Rightarrow> HMCheckHeader" where
  "group_check_header g hostname address =
     \<lparr>ch_hostname = hostname, ch_address = address,
      ch_hostCheck = fst (HostGroup_getHostCheck g HostCheck_default),
      ch_checkParams = fst (HostGroup_getCheckParameters g CheckParams_default)\<rparr>"

definition group_hosts_fold ::
    "'b host_backend \<Rightarrow> 'b \<Rightarrow> HMDataHostGroup \<Rightarrow> (HMCheckHeader \<Rightarrow> 'r \<Rightarrow> 'r \<times> bool) \<Rightarrow>
     (HMCheckHeader \<Rightarrow> 'r \<Rightarrow> 'g) \<Rightarrow> 'r \<Rightarrow> 'g list \<Rightarrow> 'r \<times> 'g list" where
  "group_hosts_fold be b g read entry result results =
     fold (\<lambda>host acc.
       let (ips, ok) = hb_getDNSResult be host [] b
       in if \<not> ok then acc
          else fold (\<lambda>ip (result, results).
                 let header = group_check_header g host ip; (result, ok) = read header result
                 in (result, if ok then results @ [entry header result] else results)) ips acc)
       (hg_hosts g) (result, results)"

definition Host_getGroupCheckResults ::
    "'b host_backend \<Rightarrow> HMTimeStamp \<Rightarrow> string \<Rightarrow> HMGroupCheckResult list \<Rightarrow> 'b HMStorageHost \<Rightarrow>
     HMGroupCheckResult list \<times> bool" where
  "Host_getGroupCheckResults be now groupName results s =
     (case group_find groupName (sh_hostGroupMap s) of None \<Rightarrow> (results, False)
      | Some g \<Rightarrow>
          (snd (group_hosts_fold be (sh_backend s) g (\<lambda>h r. hb_getHostCheckResult be h r (sh_backend s))
             (\<lambda>h r. GroupCheckResult_new now (ch_hostname h) (ch_address h) r) CheckResult_default results), True))"

definition Host_getGroupCheckResults_cached ::
    "'b host_backend \<Rightarrow> HMTimeStamp \<Rightarrow> string \<Rightarrow> bool \<Rightarrow> bool \<Rightarrow> HMGroupCheckResult list \<Rightarrow> 'b HMStorageHost \<Rightarrow>
     HMGroupCheckResult list \<times> bool" where
  "Host_getGroupCheckResults_cached be now groupName noCache onlyResolved results s =
     Host_getGroupCheckResults be now groupName results s"

definition Host_getGroupAuxInfo ::
    "'b host_backend \<Rightarrow> HMTimeStamp \<Rightarrow> string \<Rightarrow> bool \<Rightarrow> bool \<Rightarrow> HMGroupAuxResult list \<Rightarrow> 'b HMStorageHost \<Rightarrow>
     HMGroupAuxResult list \<times> bool" where
  "Host_getGroupAuxInfo be now groupName noCache onlyResolved results s =
     (case group_find groupName (sh_hostGroupMap s) of None \<Rightarrow> (results, False)
      | Some g \<Rightarrow>
          (snd (group_hosts_fold be (sh_backend s) g (\<lambda>h r. hb_getHostAuxInfo be h r (sh_backend s))
             (\<lambda>h r. GroupAuxResult_new now (ch_hostname h) (ch_address h) r) AuxInfo_new results), True))"

section \<open>The commit thread\<close>

text \<open>The addresses of a host with the one of an update: only where they could be read.\<close>

definition record_address :: "'b host_backend \<Rightarrow> string \<Rightarrow> HMIPAddress \<Rightarrow> 'b \<Rightarrow> 'b" where
  "record_address be hostname address b =
     (let (addresses, ok) = hb_getDNSResult be hostname [] b;
          addresses = (if ok then insort_insert address addresses else addresses)
      in fst (hb_storeDNSResult be hostname addresses b))"

definition Host_commitHealthCheck :: "'b host_backend \<Rightarrow> 'b HMStorageHost \<Rightarrow> 'b HMStorageHost \<times> bool" where
  "Host_commitHealthCheck be s =
     (case sh_storeCheckQueue s of [] \<Rightarrow> (s, False)
      | data # q \<Rightarrow>
          let b = fst (hb_storeHostCheckResult be data (sh_backend s));
              b = record_address be (ch_hostname data) (ch_address data) b
          in (s\<lparr>sh_storeCheckQueue := q, sh_backend := b\<rparr>, True))"

definition Host_commitAuxInfo :: "'b host_backend \<Rightarrow> 'b HMStorageHost \<Rightarrow> 'b HMStorageHost \<times> bool" where
  "Host_commitAuxInfo be s =
     (case sh_storeAuxQueue s of [] \<Rightarrow> (s, False)
      | data # q \<Rightarrow>
          let b = fst (hb_storeHostAuxInfo be data (sh_backend s));
              b = record_address be (ch_hostname data) (ch_address data) b
          in (s\<lparr>sh_storeAuxQueue := q, sh_backend := b\<rparr>, True))"

text \<open>The last loop of \<open>runStore\<close>, as the storage by host runs it.\<close>

function Host_drain :: "'b host_backend \<Rightarrow> 'b HMStorageHost \<Rightarrow> 'b HMStorageHost" where
  "Host_drain be s =
     (case Host_commitHealthCheck be s of (s, True) \<Rightarrow> Host_drain be s
      | (s, False) \<Rightarrow> (case Host_commitAuxInfo be s of (s, True) \<Rightarrow> Host_drain be s | (s, False) \<Rightarrow> s))"
  by pat_completeness auto
termination
  by (relation "measure (\<lambda>(be, s). length (sh_storeCheckQueue s) + length (sh_storeAuxQueue s))")
    (auto simp: Host_commitHealthCheck_def Host_commitAuxInfo_def Let_def split: list.splits)

declare Host_drain.simps [simp del]

section \<open>Results of an earlier run\<close>

text \<open>
  \<open>initResultsFromBackend\<close> in its parts. First the hosts of the configuration that the back end does not know:
  the checks of such a host are stored with empty results and taken out of the list. The flag \<open>v6\<close> is
  declared without a value in each turn of the loop; \<open>v6_start\<close> is what it starts with.
\<close>

definition has_family :: "HM_DUALSTACK \<Rightarrow> HMCheckHeader \<Rightarrow> bool" where
  "has_family family c \<longleftrightarrow> hc_dualstack (ch_hostCheck c) AND family \<noteq> 0"

definition store_empty :: "'b host_backend \<Rightarrow> HMCheckHeader \<Rightarrow> 'b \<Rightarrow> 'b" where
  "store_empty be c b =
     (let cd = CheckData_new (ch_hostname c) (ch_address c) (ch_hostCheck c) (ch_checkParams c) CheckResult_default;
          ca = AuxData_new (ch_hostname c) (ch_address c) (ch_hostCheck c) (ch_checkParams c) AuxInfo_new
      in fst (hb_storeHostAuxInfo be ca (fst (hb_storeHostCheckResult be cd b))))"

definition blank :: HMIPAddress where "blank = IPAddress_new AF_INET"
definition blankv6 :: HMIPAddress where "blankv6 = IPAddress_new AF_INET6"

definition init_new_host ::
    "'b host_backend \<Rightarrow> (string \<Rightarrow> bool) \<Rightarrow> HMDNSCache \<Rightarrow> string \<Rightarrow> HMCheckHeader list \<times> 'b \<Rightarrow> HMCheckHeader list \<times> 'b" where
  "init_new_host be v6_start dnsCache n = (\<lambda>(localChecks, b).
     let headers = filter (\<lambda>c. n = ch_hostname c) localChecks;
         v4 = list_ex (has_family HM_DUALSTACK_IPV4_ONLY) headers;
         v6 = (v6_start n \<or> list_ex (has_family HM_DUALSTACK_IPV6_ONLY) headers);
         hostCheck = (if headers = [] then HostCheck_default else ch_hostCheck (last headers));
         b = fold (store_empty be) headers b;
         b = fst (hb_storeNameChecks be n headers b);
         dualstack = (if v4 then HM_DUALSTACK_IPV4_ONLY else 0) OR (if v6 then HM_DUALSTACK_IPV6_ONLY else 0);
         lookup = DNSLookup_new (hc_DNSType hostCheck) False (hc_remoteCheck hostCheck);
         addresses = fst (DNSCache_getAddresses n dualstack lookup [] dnsCache);
         addresses =
           (if addresses = [] then
              let a = (if dualstack AND HM_DUALSTACK_IPV4_ONLY \<noteq> 0 then insort_insert blank addresses else addresses)
              in (if dualstack AND HM_DUALSTACK_IPV6_ONLY \<noteq> 0 then insort_insert blankv6 a else a)
            else addresses)
     in (filter (\<lambda>c. n \<noteq> ch_hostname c) localChecks, fst (hb_storeDNSResult be n addresses b)))"

text \<open>Then the hosts that both know, check by check.\<close>

record 'b host_scan =
  hs_backend :: 'b
  hs_checkList :: HMDataCheckList
  hs_auxCache :: HMAuxCache
  hs_remoteHostCache :: HMRemoteHostCache
  hs_dnsMap :: "(dns_key \<times> HMIPAddress list) list"
  hs_dnsResTime :: "(dns_key \<times> HMTimeStamp) list"
  hs_filledChecks :: "HMCheckHeader list"

definition same_host_check :: "HMCheckHeader \<Rightarrow> HMCheckHeader \<Rightarrow> bool" where
  "same_host_check check localCheck \<longleftrightarrow>
     ch_hostname localCheck = ch_hostname check \<and> HostCheck_eq (ch_hostCheck localCheck) (ch_hostCheck check)
     \<and> CheckParams_eq (ch_checkParams localCheck) (ch_checkParams check)"

definition stored_key :: "HMCheckHeader \<Rightarrow> dns_key" where
  "stored_key c =
     (ch_hostname c, DNSLookup_new (hc_DNSType (ch_hostCheck c)) (IPAddress_getType (ch_address c) = AF_INET6)
        (hc_remoteCheck (ch_hostCheck c)))"

definition init_found :: "'b host_backend \<Rightarrow> HMCheckHeader \<Rightarrow> HMCheckHeader \<Rightarrow> 'b host_scan \<Rightarrow> 'b host_scan" where
  "init_found be check localCheck h =
     (let (result, ok) = hb_getHostCheckResult be check CheckResult_default (hs_backend h);
          h = (if ok then h\<lparr>hs_checkList := fst (CheckList_updateCheckHeader check result (hs_checkList h))\<rparr> else h);
          (auxInfo, ok) = hb_getHostAuxInfo be check AuxInfo_new (hs_backend h);
          h = (if ok then h\<lparr>hs_auxCache := fst (AuxCache_updateAuxInfo (ch_hostname check)
                   (hc_checkInfo (ch_hostCheck check)) (ch_address check) auxInfo (hs_auxCache h))\<rparr> else h);
          key = stored_key check;
          m = (if smap_find dns_key_less key (hs_dnsMap h) = None
               then smap_insert dns_key_less key [] (hs_dnsMap h) else hs_dnsMap h);
          h = h\<lparr>hs_dnsMap := smap_adjust dns_key_less key (insort_insert (ch_address check)) m,
                hs_dnsResTime :=
                  (if smap_find dns_key_less key (hs_dnsResTime h) = None
                   then smap_insert dns_key_less key (cr_checkTime result) (hs_dnsResTime h)
                   else hs_dnsResTime h)\<rparr>;
          h = (if hc_flowType (ch_hostCheck check) = HM_FLOW_REMOTE_HOST_TYPE
               then h\<lparr>hs_remoteHostCache := RemoteHostCache_updateResultTime (ch_hostname check) (ch_hostCheck check)
                        (cr_checkTime result) (hs_remoteHostCache h)\<rparr>
               else h)
      in if list_ex (key_equiv CheckHeader_less localCheck) (hs_filledChecks h) then h
         else h\<lparr>hs_filledChecks := localCheck # hs_filledChecks h\<rparr>)"

definition init_stored_check ::
    "'b host_backend \<Rightarrow> HMCheckHeader list \<Rightarrow> HMCheckHeader \<Rightarrow> 'b host_scan \<Rightarrow> 'b host_scan" where
  "init_stored_check be localChecks check h =
     (case find (same_host_check check) localChecks of
        Some localCheck \<Rightarrow> init_found be check localCheck h
      | None \<Rightarrow> h\<lparr>hs_backend := fst (hb_removeHostAuxInfo be check
                                 (fst (hb_removeHostCheckResult be check (hs_backend h))))\<rparr>)"

definition init_known_host ::
    "'b host_backend \<Rightarrow> HMCheckHeader list \<Rightarrow> string \<Rightarrow> 'b host_scan \<Rightarrow> 'b host_scan" where
  "init_known_host be localChecks n h =
     (let (checks, ok) = hb_getNameChecks be n [] (hs_backend h)
      in if ok then fold (init_stored_check be localChecks) checks h else h)"

text \<open>The lookups go to the DNS cache with the same time for both families; every key has a time.\<close>

definition init_dns ::
    "(dns_key \<times> HMTimeStamp) list \<Rightarrow> dns_key \<times> HMIPAddress list \<Rightarrow> HMDNSCache \<Rightarrow> HMDNSCache" where
  "init_dns resTimes = (\<lambda>(key, addresses) dnsCache.
     case smap_find dns_key_less key resTimes of None \<Rightarrow> dnsCache
     | Some time \<Rightarrow>
         let result = DNSResult_setResultTime time DNSResult_default
         in DNSCache_updateReloadDNSEntry (fst key) addresses result result (snd key) dnsCache)"

text \<open>Last, the checks of hosts that both know, where the back end has none of the check.\<close>

definition init_missing :: "'b host_backend \<Rightarrow> HMCheckHeader list \<Rightarrow> HMCheckHeader \<Rightarrow> 'b \<Rightarrow> 'b" where
  "init_missing be filledChecks check b =
     (if list_ex (key_equiv CheckHeader_less check) filledChecks then b
      else
        let headers = fst (hb_getNameChecks be (ch_hostname check) [] b) @ [check];
            b = fst (hb_storeNameChecks be (ch_hostname check) headers b);
            b = store_empty be check b;
            addresses = fst (hb_getDNSResult be (ch_hostname check) [] b);
            v4found = list_ex (\<lambda>a. IPAddress_getType a = AF_INET) addresses;
            v6found = list_ex (\<lambda>a. IPAddress_getType a = AF_INET6) addresses;
            addresses = (if has_family HM_DUALSTACK_IPV4_ONLY check \<and> \<not> v4found
                         then insort_insert blank addresses else addresses);
            addresses = (if has_family HM_DUALSTACK_IPV6_ONLY check \<and> \<not> v6found
                         then insort_insert blankv6 addresses else addresses)
        in fst (hb_storeDNSResult be (ch_hostname check) addresses b))"

definition Host_initResultsFromBackend ::
    "'b host_backend \<Rightarrow> (string \<Rightarrow> bool) \<Rightarrow> HMState \<times> HMAuxCache \<Rightarrow> 'b HMStorageHost \<Rightarrow>
     'b HMStorageHost \<times> HMState \<times> HMAuxCache" where
  "Host_initResultsFromBackend be v6_start = (\<lambda>(st, auxCache) s.
     let (backendNames, ok) = hb_getHostNames be [] (sh_backend s)
     in if \<not> ok then (s, st, auxCache)
        else
          let localChecks = CheckList_getAllChecks (st_checkList st);
              localNames = names_of localChecks;
              both = filter (\<lambda>n. n \<in> set localNames) backendNames;
              newNames = filter (\<lambda>n. n \<notin> set backendNames) localNames;
              oldNames = filter (\<lambda>n. n \<notin> set localNames) backendNames;
              b = fold (Host_removeName be) oldNames (sh_backend s);
              (localChecks, b) = fold (init_new_host be v6_start (st_dnsCache st)) newNames (localChecks, b);
              h = fold (init_known_host be localChecks) both
                    \<lparr>hs_backend = b, hs_checkList = st_checkList st, hs_auxCache = auxCache,
                     hs_remoteHostCache = st_remoteHostCache st, hs_dnsMap = [], hs_dnsResTime = [],
                     hs_filledChecks = []\<rparr>;
              dnsCache = fold (init_dns (hs_dnsResTime h)) (hs_dnsMap h) (st_dnsCache st);
              b = fold (init_missing be (hs_filledChecks h)) localChecks (hs_backend h);
              b = fst (hb_storeHostNames be (fold insort_insert newNames (fold insort_insert both [])) b)
          in (s\<lparr>sh_backend := b\<rparr>,
              st\<lparr>st_checkList := hs_checkList h, st_remoteHostCache := hs_remoteHostCache h, st_dnsCache := dnsCache\<rparr>,
              hs_auxCache h))"

section \<open>The queues\<close>

text \<open>What the commit thread makes of one update.\<close>

definition commit_check :: "'b host_backend \<Rightarrow> HMCheckData \<Rightarrow> 'b \<Rightarrow> 'b" where
  "commit_check be d b =
     record_address be (ch_hostname d) (ch_address d) (fst (hb_storeHostCheckResult be d b))"

definition commit_aux :: "'b host_backend \<Rightarrow> HMAuxData \<Rightarrow> 'b \<Rightarrow> 'b" where
  "commit_aux be d b =
     record_address be (ch_hostname d) (ch_address d) (fst (hb_storeHostAuxInfo be d b))"

text \<open>The thread takes all check results in their order, then all auxiliary data.\<close>

lemma Host_drain_run:
  "Host_drain be s = s\<lparr>sh_storeCheckQueue := [], sh_storeAuxQueue := [],
     sh_backend := fold (commit_aux be) (sh_storeAuxQueue s)
       (fold (commit_check be) (sh_storeCheckQueue s) (sh_backend s))\<rparr>"
proof (induction be s rule: Host_drain.induct)
  case (1 be s)
  show ?case
  proof (cases "sh_storeCheckQueue s")
    case (Cons d q)
    then have "Host_commitHealthCheck be s =
        (s\<lparr>sh_storeCheckQueue := q, sh_backend := commit_check be d (sh_backend s)\<rparr>, True)"
      by (simp add: Host_commitHealthCheck_def commit_check_def Let_def)
    then show ?thesis using 1(1) Cons by (subst Host_drain.simps) simp
  next
    case Nil
    then have none: "Host_commitHealthCheck be s = (s, False)" by (simp add: Host_commitHealthCheck_def)
    show ?thesis
    proof (cases "sh_storeAuxQueue s")
      case (Cons d q)
      then have "Host_commitAuxInfo be s =
          (s\<lparr>sh_storeAuxQueue := q, sh_backend := commit_aux be d (sh_backend s)\<rparr>, True)"
        by (simp add: Host_commitAuxInfo_def commit_aux_def Let_def)
      then show ?thesis using 1(2) [of s False] none Cons Nil by (subst Host_drain.simps) simp
    next
      case aux: Nil
      then show ?thesis using none Nil
        by (subst Host_drain.simps) (simp add: Host_commitAuxInfo_def)
    qed
  qed
qed

section \<open>Back ends that return what was stored\<close>

text \<open>
  What the comments of the virtual methods promise: a result that was stored is returned for its header, the
  addresses that were stored are returned for their host, and the three kinds of data do not disturb each
  other.
\<close>

definition header_of :: "HMCheckData \<Rightarrow> HMCheckHeader" where
  "header_of d = \<lparr>ch_hostname = ch_hostname d, ch_address = ch_address d, ch_hostCheck = ch_hostCheck d,
     ch_checkParams = ch_checkParams d\<rparr>"

definition backend_reads :: "'b host_backend \<Rightarrow> bool" where
  "backend_reads be \<longleftrightarrow>
     (\<forall>d r b. hb_getHostCheckResult be (header_of d) r (fst (hb_storeHostCheckResult be d b)) = (cd_result d, True))
     \<and> (\<forall>h r a b. hb_getHostCheckResult be h r (fst (hb_storeHostAuxInfo be a b)) = hb_getHostCheckResult be h r b)
     \<and> (\<forall>h r n ips b. hb_getHostCheckResult be h r (fst (hb_storeDNSResult be n ips b)) = hb_getHostCheckResult be h r b)
     \<and> (\<forall>n n' ips ips' b. hb_getDNSResult be n ips' (fst (hb_storeDNSResult be n' ips b)) =
          (if n = n' then (ips, True) else hb_getDNSResult be n ips' b))
     \<and> (\<forall>n ips d b. hb_getDNSResult be n ips (fst (hb_storeHostCheckResult be d b)) = hb_getDNSResult be n ips b)
     \<and> (\<forall>n ips d b. hb_getDNSResult be n ips (fst (hb_storeHostAuxInfo be d b)) = hb_getDNSResult be n ips b)"

lemma record_address_result:
  assumes "backend_reads be"
  shows "hb_getHostCheckResult be h r (record_address be n a b) = hb_getHostCheckResult be h r b"
  using assms by (simp add: record_address_def backend_reads_def split_beta Let_def)

lemma commits_aux_result:
  assumes "backend_reads be"
  shows "hb_getHostCheckResult be h r (fold (commit_aux be) ds b) = hb_getHostCheckResult be h r b"
  using assms
  by (induction ds arbitrary: b) (simp_all add: commit_aux_def record_address_result, simp add: backend_reads_def)

text \<open>Addresses of a host that the back end knows.\<close>

definition knows_addresses :: "'b host_backend \<Rightarrow> string \<Rightarrow> HMIPAddress set \<Rightarrow> 'b \<Rightarrow> bool" where
  "knows_addresses be n A b \<longleftrightarrow>
     snd (hb_getDNSResult be n [] b) \<and> A \<subseteq> set (fst (hb_getDNSResult be n [] b))"

lemma record_address_knows:
  assumes "backend_reads be" and "knows_addresses be n A b"
  shows "knows_addresses be n (if n' = n then insert a A else A) (record_address be n' a b)"
  using assms
  by (auto simp: record_address_def backend_reads_def knows_addresses_def split_beta Let_def set_insort_insert)

lemma store_keeps_addresses:
  assumes "backend_reads be"
  shows "knows_addresses be n A (fst (hb_storeHostCheckResult be d b)) = knows_addresses be n A b"
    and "knows_addresses be n A (fst (hb_storeHostAuxInfo be x b)) = knows_addresses be n A b"
  using assms by (simp_all add: backend_reads_def knows_addresses_def)

lemma commit_knows:
  assumes "backend_reads be" and "knows_addresses be n A b"
  shows "knows_addresses be n (if ch_hostname d = n then insert (ch_address d) A else A) (commit_check be d b)"
    and "knows_addresses be n (if ch_hostname x = n then insert (ch_address x) A else A) (commit_aux be x b)"
  using record_address_knows [OF assms(1)] assms(2) unfolding commit_check_def commit_aux_def
  by (simp_all add: store_keeps_addresses [OF assms(1)])

lemma knows_subset: "knows_addresses be n A b \<Longrightarrow> B \<subseteq> A \<Longrightarrow> knows_addresses be n B b"
  by (auto simp: knows_addresses_def)

lemma commits_check_know:
  assumes "backend_reads be" and "knows_addresses be n A b"
  shows "knows_addresses be n A (fold (commit_check be) ds b)"
  using assms(2)
proof (induction ds arbitrary: b)
  case (Cons d ds)
  have "knows_addresses be n A (commit_check be d b)"
    by (rule knows_subset [OF commit_knows(1) [OF assms(1) Cons.prems]]) auto
  then show ?case using Cons.IH by simp
qed simp

lemma commits_aux_know:
  assumes "backend_reads be" and "knows_addresses be n A b"
  shows "knows_addresses be n A (fold (commit_aux be) xs b)"
  using assms(2)
proof (induction xs arbitrary: b)
  case (Cons x xs)
  have "knows_addresses be n A (commit_aux be x b)"
    by (rule knows_subset [OF commit_knows(2) [OF assms(1) Cons.prems]]) auto
  then show ?case using Cons.IH by simp
qed simp

text \<open>
  A check result that is given to the storage by host is read back once the commit thread has emptied its
  queues. Over any class whose reads return what was stored, for a store that is not read-only, with any updates
  waiting before it: \<open>storeCheckResult\<close> accepts the result, and after the queues are drained they are empty,
  \<open>getCheckResult\<close> for the same host, address, check and parameters returns the result, and the address is one
  of those of the host if the addresses of the host could be read before.
\<close>

theorem host_result_roundtrip:
  assumes "backend_reads be" and "\<not> sh_readonly s"
  shows "\<exists>s' s''. Host_storeCheckResult host ip hc cp result s = (s', True) \<and> Host_drain be s' = s''
    \<and> sh_storeCheckQueue s'' = [] \<and> sh_storeAuxQueue s'' = []
    \<and> Host_getCheckResult be host ip hc cp r s'' = (result, True)
    \<and> (snd (Host_getDNS be host [] s) \<longrightarrow>
         snd (Host_getDNS be host [] s'') \<and> ip \<in> set (fst (Host_getDNS be host [] s''))
         \<and> set (fst (Host_getDNS be host [] s)) \<subseteq> set (fst (Host_getDNS be host [] s'')))"
proof -
  let ?d = "CheckData_new host ip hc cp result"
  let ?b = "fold (commit_check be) (sh_storeCheckQueue s) (sh_backend s)"
  let ?b' = "fold (commit_aux be) (sh_storeAuxQueue s) (commit_check be ?d ?b)"
  have header: "CheckHeader_new host ip hc cp = header_of ?d"
    by (simp add: CheckHeader_new_def header_of_def CheckData_new_def)
  have "hb_getHostCheckResult be (header_of ?d) r (commit_check be ?d ?b) = (result, True)"
    using assms(1) unfolding commit_check_def
    by (simp add: record_address_result) (simp add: backend_reads_def CheckData_new_def)
  then have result: "hb_getHostCheckResult be (header_of ?d) r ?b' = (result, True)"
    by (simp add: commits_aux_result [OF assms(1)])
  have "knows_addresses be host (insert ip (set (fst (Host_getDNS be host [] s)))) ?b'"
    if "snd (Host_getDNS be host [] s)"
  proof -
    have "knows_addresses be host (set (fst (Host_getDNS be host [] s))) (sh_backend s)"
      using that by (simp add: knows_addresses_def Host_getDNS_def)
    from commits_aux_know [OF assms(1) commit_knows(1) [OF assms(1) commits_check_know [OF assms(1) this]],
        of ?d "sh_storeAuxQueue s" "sh_storeCheckQueue s"]
    show ?thesis by (simp add: CheckData_new_def)
  qed
  then show ?thesis
    using assms(2) result
    by (simp add: Host_storeCheckResult_def Host_drain_run Host_getCheckResult_def header Host_getDNS_def
        knows_addresses_def)
qed

text \<open>A back end of two maps.\<close>

definition map_backend :: "((HMCheckHeader \<Rightarrow> HMDataCheckResult option) \<times> (string \<Rightarrow> HMIPAddress list option)) host_backend" where
  "map_backend =
     \<lparr>hb_storeHostNames = (\<lambda>_ b. (b, True)), hb_getHostNames = (\<lambda>names _. (names, True)),
      hb_storeHostGroupNames = (\<lambda>_ b. (b, True)), hb_getHostGroupNames = (\<lambda>names _. (names, True)),
      hb_storeNameChecks = (\<lambda>_ _ b. (b, True)), hb_getNameChecks = (\<lambda>_ checks _. (checks, True)),
      hb_removeNameChecks = (\<lambda>_ _ b. (b, True)),
      hb_storeGroupInfo = (\<lambda>_ _ b. (b, True)), hb_getGroupInfo = (\<lambda>_ g _. (g, True)),
      hb_storeHostCheckResult = (\<lambda>d (m, a). ((m(header_of d \<mapsto> cd_result d), a), True)),
      hb_getHostCheckResult = (\<lambda>h r (m, a). case m h of None \<Rightarrow> (r, False) | Some r \<Rightarrow> (r, True)),
      hb_removeHostCheckResult = (\<lambda>_ b. (b, True)),
      hb_storeHostAuxInfo = (\<lambda>_ b. (b, True)), hb_getHostAuxInfo = (\<lambda>_ x _. (x, True)),
      hb_removeHostAuxInfo = (\<lambda>_ b. (b, True)),
      hb_storeDNSResult = (\<lambda>n ips (m, a). ((m, a(n \<mapsto> ips)), True)),
      hb_getDNSResult = (\<lambda>n ips (m, a). case a n of None \<Rightarrow> (ips, False) | Some ips \<Rightarrow> (ips, True)),
      hb_removeDNSResult = (\<lambda>_ _ b. (b, True))\<rparr>"

lemma map_backend_reads: "backend_reads map_backend"
  by (simp add: backend_reads_def map_backend_def split_beta)

definition sample_host_store where
  "sample_host_store = \<lparr>sh_readonly = False, sh_hostGroupMap = [],
     sh_storeCheckQueue = [CheckData_new ''h'' (INET 2) HostCheck_default CheckParams_default CheckResult_default],
     sh_storeAuxQueue = [], sh_backend = (Map.empty, [''h'' \<mapsto> [INET 1]])\<rparr>"

lemma host_result_roundtrip_witness:
  "\<exists>s' s''. Host_storeCheckResult ''h'' (INET 3) HostCheck_default CheckParams_default (CheckResult_new 7) sample_host_store
       = (s', True) \<and> Host_drain map_backend s' = s''
    \<and> Host_getCheckResult map_backend ''h'' (INET 3) HostCheck_default CheckParams_default CheckResult_default s''
       = (CheckResult_new 7, True)
    \<and> INET 1 \<in> set (fst (Host_getDNS map_backend ''h'' [] s'')) \<and> INET 3 \<in> set (fst (Host_getDNS map_backend ''h'' [] s''))"
proof -
  have "Host_getDNS map_backend ''h'' [] sample_host_store = ([INET 1], True)"
    by (simp add: Host_getDNS_def map_backend_def sample_host_store_def)
  moreover have "\<not> sh_readonly sample_host_store" by (simp add: sample_host_store_def)
  ultimately show ?thesis
    using host_result_roundtrip [OF map_backend_reads, of sample_host_store "''h''" "INET 3" HostCheck_default
        CheckParams_default "CheckResult_new 7" CheckResult_default] by auto
qed

section \<open>Host names after the start\<close>

lemma fold_insort_set:
  fixes ns :: "'a :: linorder list"
  assumes "sorted acc" and "distinct acc"
  shows "sorted (fold insort_insert ns acc) \<and> distinct (fold insort_insert ns acc)
    \<and> set (fold insort_insert ns acc) = set acc \<union> set ns"
  using assms
  by (induction ns arbitrary: acc) (auto simp: sorted_insort_insert insort_insert_distinct set_insort_insert)

lemma names_of_props: "sorted (names_of cs)" "distinct (names_of cs)" "set (names_of cs) = ch_hostname ` set cs"
  using fold_insort_set [of "[]" "map ch_hostname cs"] by (simp_all add: names_of_def)

text \<open>
  The names that the back end has at the end of the start are those of the configuration, whatever it had
  before: hosts that are gone are dropped, and new hosts are there.
\<close>

theorem init_commits_host_names:
  assumes "hb_getHostNames be [] (sh_backend s) = (old, True)"
    and "\<And>ns b. hb_getHostNames be [] (fst (hb_storeHostNames be ns b)) = (ns, True)"
  shows "hb_getHostNames be [] (sh_backend (fst (Host_initResultsFromBackend be v6_start (st, auxCache) s))) =
    (names_of (CheckList_getAllChecks (st_checkList st)), True)"
proof -
  let ?names = "names_of (CheckList_getAllChecks (st_checkList st))"
  let ?both = "filter (\<lambda>n. n \<in> set ?names) old" and ?new = "filter (\<lambda>n. n \<notin> set old) ?names"
  let ?all = "fold insort_insert ?new (fold insort_insert ?both [])"
  have both: "sorted (fold insort_insert ?both []) \<and> distinct (fold insort_insert ?both [])
      \<and> set (fold insort_insert ?both []) = set ?both"
    using fold_insort_set [of "[]" ?both] by simp
  have "sorted ?all \<and> distinct ?all \<and> set ?all = set ?both \<union> set ?new"
    using fold_insort_set [of "fold insort_insert ?both []" ?new] both by simp
  moreover have "set ?both \<union> set ?new = set ?names" by auto
  ultimately have "?all = ?names"
    using names_of_props(1,2) by (intro sorted_distinct_set_unique) auto
  then show ?thesis
    using assms by (simp add: Host_initResultsFromBackend_def Let_def split_beta)
qed

section \<open>Back ends that are only written\<close>

locale write_only_store =
  fixes be :: "'b host_backend"
  assumes no_host_names: "hb_getHostNames be names b = (names, False)"
    and no_group_names: "hb_getHostGroupNames be names b = (names, False)"
    and no_check_result: "hb_getHostCheckResult be header result b = (result, False)"
    and no_aux_info: "hb_getHostAuxInfo be header aux b = (aux, False)"
    and no_addresses: "hb_getDNSResult be host ips b = (ips, False)"
begin

lemma nothing_restored: "Host_initResultsFromBackend be v6_start (st, auxCache) s = (s, st, auxCache)"
  by (simp add: Host_initResultsFromBackend_def no_host_names)

lemma no_configuration: "Host_getConfigs be st s = (st, False)"
  by (simp add: Host_getConfigs_def no_group_names)

lemma no_group_results:
  "Host_getGroupCheckResults be now n rs s = (rs, group_find n (sh_hostGroupMap s) \<noteq> None)"
  "Host_getGroupAuxInfo be now n noCache onlyResolved xs s = (xs, group_find n (sh_hostGroupMap s) \<noteq> None)"
proof -
  have skip: "fold (\<lambda>h acc. acc) hs a = a" for hs :: "string list" and a :: 'z
    by (induction hs arbitrary: a) simp_all
  show "Host_getGroupCheckResults be now n rs s = (rs, group_find n (sh_hostGroupMap s) \<noteq> None)"
    "Host_getGroupAuxInfo be now n noCache onlyResolved xs s = (xs, group_find n (sh_hostGroupMap s) \<noteq> None)"
    by (simp_all add: Host_getGroupCheckResults_def Host_getGroupAuxInfo_def group_hosts_fold_def no_addresses skip
        split: option.split)
qed

text \<open>The addresses of a host cannot be read, so an update stores none.\<close>

lemma no_address_stored: "record_address be n a b = fst (hb_storeDNSResult be n [] b)"
  by (simp add: record_address_def no_addresses)

lemma commits_without_address:
  "commit_check be d b = fst (hb_storeDNSResult be (ch_hostname d) [] (fst (hb_storeHostCheckResult be d b)))"
  "commit_aux be x b = fst (hb_storeDNSResult be (ch_hostname x) [] (fst (hb_storeHostAuxInfo be x b)))"
  by (simp_all add: commit_check_def commit_aux_def no_address_stored)

end

end
