(* ===== verification/HM_AuxParser.thy ===== *)
theory HM_AuxParser
  imports HM_AuxCache HM_ConfigYaml
begin

text \<open>
  The text form of auxiliary data (\<open>HMAuxParserRapidXML.cpp\<close>): documents of load feedback and of out-of-band entries, which the
  daemon fetches from a URL and which the tools write.

  The library \<open>rapidxml\<close> is a parameter: \<open>rx_parse\<close> gives the nodes of a document, or nothing when it throws, and \<open>rx_print\<close>
  writes them. A node has its name, its value, its attributes and the elements below it. The times of a document are
  multiplied by 1000 as signed numbers; a product that does not fit is the error \<open>signed_overflow\<close>. The test for a number
  that is too large comes after the product, so it finds nothing else.
\<close>

section \<open>Documents\<close>

datatype xml = Node (xn_name: string) (xn_value: string) (xn_attrs: "(string \<times> string) list") (xn_nodes: "xml list")

record rapidxml =
  rx_parse :: "string \<Rightarrow> xml list option"
  rx_print :: "xml list \<Rightarrow> string"

definition first_attribute :: "string \<Rightarrow> xml \<Rightarrow> string option" where
  "first_attribute name n = map_of (xn_attrs n) name"

text \<open>\<open>first_node(name)\<close>, and the nodes that \<open>next_sibling(name)\<close> goes on with.\<close>

definition nodes_named :: "string \<Rightarrow> xml \<Rightarrow> xml list" where
  "nodes_named name n = filter (\<lambda>c. xn_name c = name) (xn_nodes n)"

definition first_node :: "string \<Rightarrow> xml \<Rightarrow> xml option" where
  "first_node name n = (case nodes_named name n of [] \<Rightarrow> None | c # _ \<Rightarrow> Some c)"

text \<open>A string as the C library reads it.\<close>

definition c_str :: "string \<Rightarrow> string" where
  "c_str s = takeWhile (\<lambda>c. c \<noteq> CHR 0x00) s"

section \<open>Writing\<close>

definition leaf :: "string \<Rightarrow> string \<Rightarrow> xml" where
  "leaf name value = Node name value [] []"

definition time_text :: "HMTimeStamp \<Rightarrow> string" where
  "time_text ts = to_string (uint (ts_getTimeSinceEpoch ts))"

text \<open>
  The node of a host is added to its resource. When the resource has a node of that host it is removed first if it
  is older, and otherwise nothing is added.
\<close>

definition node_time :: "xml \<Rightarrow> u64" where
  "node_time h = (case first_node ''time'' h of None \<Rightarrow> 0 | Some c \<Rightarrow> word_of_int (strtol (xn_value c)))"

definition add_host :: "string \<Rightarrow> HMTimeStamp \<Rightarrow> xml \<Rightarrow> xml list \<Rightarrow> xml list" where
  "add_host host ts new hosts =
     (case find (\<lambda>h. xn_name h = ''host'' \<and> first_attribute ''name'' h = Some host) hosts of
        None \<Rightarrow> hosts @ [new]
      | Some h \<Rightarrow> if node_time h < ts_getTimeSinceEpoch ts then remove1 h hosts @ [new] else hosts)"

text \<open>The nodes of the resources, in the order they are made, with the resource they stand for.\<close>

definition gen_entry :: "string \<Rightarrow> string \<Rightarrow> string \<Rightarrow> HMTimeStamp \<Rightarrow> xml \<Rightarrow> (string \<times> xml) list \<Rightarrow> (string \<times> xml) list" where
  "gen_entry tag resource host ts new rs =
     (let rs = (if map_of rs resource = None then rs @ [(resource, Node tag [] [(''name'', c_str resource)] [])] else rs)
      in map (\<lambda>(r, n). (r, if r = resource then Node (xn_name n) (xn_value n) (xn_attrs n) (add_host host ts new (xn_nodes n)) else n)) rs)"

definition lfb_node :: "HMAuxLoadFB \<Rightarrow> xml" where
  "lfb_node lfb =
     Node ''host'' [] [(''name'', c_str (ab_host lfb))]
       [leaf ''time'' (time_text (ab_ts lfb)), leaf ''load'' (to_string (uint (lf_load lfb))),
        leaf ''target'' (to_string (uint (lf_target lfb))), leaf ''max'' (to_string (uint (lf_max lfb)))]"

text \<open>Every force-down that is not zero is written as \<open>true\<close>, \<open>HM_OOB_FORCEDOWN_NONE\<close> as well.\<close>

definition oob_node :: "HMAuxOOB \<Rightarrow> xml" where
  "oob_node oob =
     Node ''host'' [] [(''name'', c_str (ab_host oob))]
       ([leaf ''time'' (time_text (ab_ts oob)), leaf ''force-down'' (if oo_forceDown oob \<noteq> 0 then ''true'' else ''false'')]
        @ (if oo_shed oob \<noteq> 0 then [leaf ''shed'' (to_string (uint (oo_shed oob)))] else []))"

definition gen_lfb :: "HMAux \<Rightarrow> (string \<times> xml) list \<Rightarrow> (string \<times> xml) list" where
  "gen_lfb entry rs =
     (case entry of
        AuxLoadFB lfb \<Rightarrow>
          if ab_type lfb = HM_LOAD_FILE then gen_entry ''resource'' (ab_resource lfb) (ab_host lfb) (ab_ts lfb) (lfb_node lfb) rs else rs
      | AuxOOB _ \<Rightarrow> rs)"

definition gen_oob :: "HMAux \<Rightarrow> (string \<times> xml) list \<Rightarrow> (string \<times> xml) list" where
  "gen_oob entry rs =
     (case entry of
        AuxLoadFB _ \<Rightarrow> rs
      | AuxOOB oob \<Rightarrow>
          if ab_type oob = HM_OOB_FILE then gen_entry ''resource-oob'' (ab_resource oob) (ab_host oob) (ab_ts oob) (oob_node oob) rs else rs)"

definition gen_document :: "HMAuxInfo \<Rightarrow> u8 \<Rightarrow> xml list" where
  "gen_document info type =
     (if type = HM_LOAD_FILE
      then [Node ''load-file'' [] [(''updated'', time_text (ai_ts info))] (map snd (fold gen_lfb (ai_auxData info) []))]
      else if type = HM_OOB_FILE
      then [Node ''oob-file'' [] [(''updated'', time_text (ai_ts info))] (map snd (fold gen_oob (ai_auxData info) []))]
      else [])"

definition AuxParser_genAuxData :: "rapidxml \<Rightarrow> HMAuxInfo \<Rightarrow> u8 \<Rightarrow> string \<Rightarrow> string option" where
  "AuxParser_genAuxData rx info type rotation = Some (rx_print rx (gen_document info type))"

section \<open>Reading\<close>

datatype aux_error = signed_overflow

definition parse_time :: "string \<Rightarrow> aux_error + HMTimeStamp" where
  "parse_time s =
     (let t = strtol s * 1000
      in if t < - (2 ^ 63) \<or> 2 ^ 63 \<le> t then Inl signed_overflow else Inr (ts_setTime (word_of_int t)))"

text \<open>A number that does not fit is read as zero.\<close>

definition strtol_erange :: "string \<Rightarrow> bool" where
  "strtol_erange s = (let (neg, s) = split_sign s; n = int (digits_value 10 s) in if neg then 2 ^ 63 < n else 2 ^ 63 \<le> n)"

definition parse_number :: "string \<Rightarrow> xml \<Rightarrow> u64 \<Rightarrow> u64" where
  "parse_number tag h old =
     (case first_node tag h of None \<Rightarrow> old
      | Some c \<Rightarrow> if strtol_erange (xn_value c) then 0 else word_of_int (strtol (xn_value c)))"

definition parse_host_time :: "HMTimeStamp \<Rightarrow> xml \<Rightarrow> aux_error + HMTimeStamp" where
  "parse_host_time filets h = (case first_node ''time'' h of None \<Rightarrow> Inr filets | Some c \<Rightarrow> parse_time (xn_value c))"

text \<open>
  The hosts of a resource. One object serves for all of them, so that a host without one of the numbers has the one of the
  host before. What was read before a node without a name is kept, although the result is false.
\<close>

fun parse_lfb_hosts :: "HMTimeStamp \<Rightarrow> xml list \<Rightarrow> HMAuxLoadFB \<Rightarrow> HMAuxInfo \<Rightarrow> aux_error + HMAuxInfo \<times> bool" where
  "parse_lfb_hosts filets [] lfb info = Inr (info, True)"
| "parse_lfb_hosts filets (h # hs) lfb info =
     (case first_attribute ''name'' h of None \<Rightarrow> Inr (info, False)
      | Some name \<Rightarrow>
          res_bind (parse_host_time filets h) (\<lambda>ts.
            let lfb = lfb\<lparr>ab_host := name, lf_load := parse_number ''load'' h (lf_load lfb),
                  lf_target := parse_number ''target'' h (lf_target lfb), lf_max := parse_number ''max'' h (lf_max lfb), ab_ts := ts\<rparr>
            in parse_lfb_hosts filets hs lfb (info\<lparr>ai_auxData := ai_auxData info @ [AuxLoadFB lfb]\<rparr>)))"

fun parse_lfb_resources :: "HMIPAddress \<Rightarrow> HMTimeStamp \<Rightarrow> xml list \<Rightarrow> HMAuxInfo \<Rightarrow> aux_error + HMAuxInfo \<times> bool" where
  "parse_lfb_resources address filets [] info = Inr (info, True)"
| "parse_lfb_resources address filets (r # rs) info =
     (case (first_attribute ''name'' r, nodes_named ''host'' r) of
        (None, _) \<Rightarrow> Inr (info, False)
      | (_, []) \<Rightarrow> Inr (info, False)
      | (Some name, hs) \<Rightarrow>
          res_bind (parse_lfb_hosts filets hs
              \<lparr>ab_type = HM_LOAD_FILE, ab_host = [], ab_resource = name, ab_ip = address, ab_ts = 0, lf_datacenter = [],
               lf_load = 0, lf_target = 0, lf_max = 0\<rparr> info)
            (\<lambda>(info, ok). if ok then parse_lfb_resources address filets rs info else Inr (info, False)))"

definition AuxParser_parseNewLFB :: "HMIPAddress \<Rightarrow> xml \<Rightarrow> HMAuxInfo \<Rightarrow> aux_error + HMAuxInfo \<times> bool" where
  "AuxParser_parseNewLFB address root info =
     (case first_attribute ''updated'' root of None \<Rightarrow> Inr (info, False)
      | Some updated \<Rightarrow>
          res_bind (parse_time updated) (\<lambda>filets.
            let info = info\<lparr>ai_ts := filets\<rparr>
            in if nodes_named ''resource'' root = [] then Inr (info, False)
               else parse_lfb_resources address filets (nodes_named ''resource'' root) info))"

definition HM_OOB_FORCEDOWN_FALSE :: u8 where "HM_OOB_FORCEDOWN_FALSE = 0"
definition HM_OOB_FORCEDOWN_TRUE :: u8 where "HM_OOB_FORCEDOWN_TRUE = 1"

text \<open>The low 32 bits of the number; more than 100 is read as zero.\<close>

definition parse_shed :: "xml \<Rightarrow> u32" where
  "parse_shed h =
     (case first_node ''shed'' h of None \<Rightarrow> 0
      | Some c \<Rightarrow> let shed = word_of_int (strtol (xn_value c)) :: u32 in if 100 < shed then 0 else shed)"

definition parse_forceDown :: "xml \<Rightarrow> u8" where
  "parse_forceDown h =
     (case first_node ''force-down'' h of None \<Rightarrow> HM_OOB_FORCEDOWN_NONE
      | Some c \<Rightarrow> if xn_value c = ''true'' then HM_OOB_FORCEDOWN_TRUE else HM_OOB_FORCEDOWN_FALSE)"

fun parse_oob_hosts :: "HMIPAddress \<Rightarrow> HMTimeStamp \<Rightarrow> string \<Rightarrow> xml list \<Rightarrow> HMAuxInfo \<Rightarrow> aux_error + HMAuxInfo \<times> bool" where
  "parse_oob_hosts address filets resource [] info = Inr (info, True)"
| "parse_oob_hosts address filets resource (h # hs) info =
     (case first_attribute ''name'' h of None \<Rightarrow> Inr (info, False)
      | Some name \<Rightarrow>
          res_bind (parse_host_time filets h) (\<lambda>ts.
            let oob = \<lparr>ab_type = HM_OOB_FILE, ab_host = name, ab_resource = resource, ab_ip = address, ab_ts = ts,
                  oo_forceDown = parse_forceDown h, oo_shed = parse_shed h\<rparr>
            in parse_oob_hosts address filets resource hs (info\<lparr>ai_auxData := ai_auxData info @ [AuxOOB oob]\<rparr>)))"

fun parse_oob_resources :: "HMIPAddress \<Rightarrow> HMTimeStamp \<Rightarrow> xml list \<Rightarrow> HMAuxInfo \<Rightarrow> aux_error + HMAuxInfo \<times> bool" where
  "parse_oob_resources address filets [] info = Inr (info, True)"
| "parse_oob_resources address filets (r # rs) info =
     (case (first_attribute ''name'' r, nodes_named ''host'' r) of
        (None, _) \<Rightarrow> Inr (info, False)
      | (_, []) \<Rightarrow> Inr (info, False)
      | (Some name, hs) \<Rightarrow>
          res_bind (parse_oob_hosts address filets name hs info)
            (\<lambda>(info, ok). if ok then parse_oob_resources address filets rs info else Inr (info, False)))"

definition AuxParser_parseOOB :: "HMIPAddress \<Rightarrow> xml \<Rightarrow> HMAuxInfo \<Rightarrow> aux_error + HMAuxInfo \<times> bool" where
  "AuxParser_parseOOB address root info =
     (case first_attribute ''updated'' root of None \<Rightarrow> Inr (info, False)
      | Some updated \<Rightarrow>
          res_bind (parse_time updated) (\<lambda>filets.
            let info = info\<lparr>ai_ts := filets\<rparr>
            in if nodes_named ''resource-oob'' root = [] then Inr (info, False)
               else parse_oob_resources address filets (nodes_named ''resource-oob'' root) info))"

definition AuxParser_parseAuxData :: "rapidxml \<Rightarrow> HMIPAddress \<Rightarrow> string \<Rightarrow> HMAuxInfo \<Rightarrow> aux_error + HMAuxInfo \<times> bool" where
  "AuxParser_parseAuxData rx address auxStr info =
     (case rx_parse rx (c_str auxStr) of None \<Rightarrow> Inr (info, False)
      | Some [] \<Rightarrow> Inr (info, False)
      | Some (root # _) \<Rightarrow>
          if xn_name root = ''load-file'' then AuxParser_parseNewLFB address root info
          else if xn_name root = ''oob-file'' then AuxParser_parseOOB address root info
          else Inr (info, False))"

section \<open>Numbers of a document\<close>

lemma strtol_digits: "n < 2 ^ 63 \<Longrightarrow> strtol (digits n) = int n" "strtol_erange (digits n) \<longleftrightarrow> 2 ^ 63 \<le> n"
proof -
  show "n < 2 ^ 63 \<Longrightarrow> strtol (digits n) = int n" by (simp add: strtol_def)
  show "strtol_erange (digits n) \<longleftrightarrow> 2 ^ 63 \<le> n" by (simp add: strtol_erange_def)
qed

lemma to_string_uint: "to_string (uint w) = digits (unat w)"
  by (simp add: to_string_def)

text \<open>A time that can be written and read back: a product with 1000 still fits.\<close>

definition time_fits :: "HMTimeStamp \<Rightarrow> bool" where
  "time_fits ts \<longleftrightarrow> 0 \<le> ts \<and> ts * 1000 < 2 ^ 63"

lemma time_word: "time_fits ts \<Longrightarrow> unat (ts_getTimeSinceEpoch ts) = nat ts"
  by (simp add: time_fits_def ts_getTimeSinceEpoch_def unsigned_of_int take_bit_int_eq_self)

lemma parse_time_text: "time_fits ts \<Longrightarrow> parse_time (time_text ts) = Inr (ts * 1000)"
proof -
  assume fits: "time_fits ts"
  then have "nat ts < 2 ^ 63" "int (nat ts) = ts" by (auto simp: time_fits_def)
  then have "strtol (time_text ts) = ts"
    using fits strtol_digits(1) by (simp add: time_text_def to_string_uint time_word)
  moreover have "sint (word_of_int (ts * 1000) :: u64) = ts * 1000"
    using fits by (simp add: time_fits_def signed_take_bit_int_eq_self signed_of_int del: of_int_mult)
  ultimately show ?thesis using fits by (simp add: parse_time_def time_fits_def ts_setTime_def)
qed

section \<open>The nodes of a document\<close>

text \<open>The resources in the order in which they first appear.\<close>

definition firsts :: "'a list \<Rightarrow> 'a list" where
  "firsts xs = rev (remdups (rev xs))"

lemma firsts_simps [simp]:
  "firsts [] = []" "firsts (xs @ [x]) = (if x \<in> set xs then firsts xs else firsts xs @ [x])" "set (firsts xs) = set xs"
  by (simp_all add: firsts_def)

lemma distinct_firsts: "distinct (firsts xs)"
  by (simp add: firsts_def)

text \<open>What the two kinds of entries share: the resource and the host of an entry, and its node.\<close>

locale aux_entries =
  fixes tag :: string and resource :: "'e \<Rightarrow> string" and host :: "'e \<Rightarrow> string" and time :: "'e \<Rightarrow> HMTimeStamp" and node :: "'e \<Rightarrow> xml"
  assumes node_name: "xn_name (node e) = ''host''" and node_host: "first_attribute ''name'' (node e) = Some (c_str (host e))"
begin

definition gen_step :: "'e \<Rightarrow> (string \<times> xml) list \<Rightarrow> (string \<times> xml) list" where
  "gen_step e = gen_entry tag (resource e) (host e) (time e) (node e)"

definition resource_nodes :: "'e list \<Rightarrow> (string \<times> xml) list" where
  "resource_nodes es =
     map (\<lambda>r. (r, Node tag [] [(''name'', c_str r)] (map node (filter (\<lambda>e. resource e = r) es)))) (firsts (map resource es))"

lemma add_host_new:
  assumes "\<forall>e\<in>set es. c_str (host e) \<noteq> h"
  shows "add_host h ts new (map node es) = map node es @ [new]"
proof -
  have "find (\<lambda>n. xn_name n = ''host'' \<and> first_attribute ''name'' n = Some h) (map node es) = None"
    using assms by (auto simp: find_None_iff node_host)
  then show ?thesis by (simp add: add_host_def)
qed

lemma resource_nodes_find: "map_of (resource_nodes es) r = None \<longleftrightarrow> r \<notin> resource ` set es"
  by (auto simp: resource_nodes_def map_of_eq_None_iff image_image)

text \<open>Entries of different hosts are written one after the other, each below its resource.\<close>

lemma gen_nodes:
  assumes "distinct (map (\<lambda>e. (resource e, host e)) es)" and "\<forall>e\<in>set es. c_str (host e) = host e"
  shows "fold gen_step es [] = resource_nodes es"
  using assms
proof (induction es rule: rev_induct)
  case Nil
  then show ?case by (simp add: resource_nodes_def)
next
  case (snoc e es)
  let ?r = "resource e"
  have IH: "fold gen_step es [] = resource_nodes es" using snoc by simp
  have new: "add_host (host e) (time e) (node e) (map node (filter (\<lambda>e'. resource e' = ?r) es)) =
      map node (filter (\<lambda>e'. resource e' = ?r) es) @ [node e]"
  proof (rule add_host_new, rule ballI)
    fix e' assume "e' \<in> set (filter (\<lambda>e'. resource e' = ?r) es)"
    then show "c_str (host e') \<noteq> host e" using snoc.prems by (auto simp: image_iff)
  qed
  have "gen_step e (resource_nodes es) = resource_nodes (es @ [e])"
  proof (cases "?r \<in> resource ` set es")
    case True
    then have "map_of (resource_nodes es) ?r \<noteq> None" by (simp add: resource_nodes_find)
    then show ?thesis using True new by (auto simp: gen_step_def gen_entry_def resource_nodes_def)
  next
    case False
    then have none: "map_of (resource_nodes es) ?r = None" "filter (\<lambda>e'. resource e' = ?r) es = []"
      by (auto simp: resource_nodes_find filter_empty_conv image_iff)
    have other: "r \<in> set (firsts (map resource es)) \<Longrightarrow> r \<noteq> ?r" for r using False by (auto simp: image_iff)
    show ?thesis using none other False new
      by (auto simp: gen_step_def gen_entry_def resource_nodes_def add_host_def)
  qed
  then show ?case using IH by simp
qed

end

interpretation lfb: aux_entries "''resource''" ab_resource ab_host ab_ts lfb_node
  by unfold_locales (simp_all add: lfb_node_def first_attribute_def)

interpretation oob: aux_entries "''resource-oob''" ab_resource ab_host ab_ts oob_node
  by unfold_locales (simp_all add: oob_node_def first_attribute_def)

section \<open>What is written is read, in other times\<close>

text \<open>The entries of a kind, and those below their resources.\<close>

definition aux_loads :: "HMAux list \<Rightarrow> HMAuxLoadFB list" where
  "aux_loads entries = List.map_filter
     (\<lambda>a. case a of AuxLoadFB lfb \<Rightarrow> if ab_type lfb = HM_LOAD_FILE then Some lfb else None | AuxOOB _ \<Rightarrow> None) entries"

definition aux_oobs :: "HMAux list \<Rightarrow> HMAuxOOB list" where
  "aux_oobs entries = List.map_filter
     (\<lambda>a. case a of AuxLoadFB _ \<Rightarrow> None | AuxOOB oob \<Rightarrow> if ab_type oob = HM_OOB_FILE then Some oob else None) entries"

definition by_resource :: "('e \<Rightarrow> string) \<Rightarrow> 'e list \<Rightarrow> 'e list" where
  "by_resource res es = concat (map (\<lambda>r. filter (\<lambda>e. res e = r) es) (firsts (map res es)))"

lemma fold_gen_lfb: "fold gen_lfb entries rs = fold lfb.gen_step (aux_loads entries) rs"
  by (induction entries arbitrary: rs)
    (auto simp: aux_loads_def gen_lfb_def lfb.gen_step_def map_filter_simps split: HMAux.split)

lemma fold_gen_oob: "fold gen_oob entries rs = fold oob.gen_step (aux_oobs entries) rs"
  by (induction entries arbitrary: rs)
    (auto simp: aux_oobs_def gen_oob_def oob.gen_step_def map_filter_simps split: HMAux.split)

definition names_fit :: "'e HMAuxBase_scheme \<Rightarrow> bool" where
  "names_fit a \<longleftrightarrow> c_str (ab_host a) = ab_host a \<and> c_str (ab_resource a) = ab_resource a \<and> time_fits (ab_ts a)"

definition load_fits :: "HMAuxLoadFB \<Rightarrow> bool" where
  "load_fits a \<longleftrightarrow> names_fit a \<and> lf_load a < 2 ^ 63 \<and> lf_target a < 2 ^ 63 \<and> lf_max a < 2 ^ 63"

definition received_load :: "HMIPAddress \<Rightarrow> HMAuxLoadFB \<Rightarrow> HMAuxLoadFB" where
  "received_load address a = a\<lparr>ab_ip := address, ab_ts := ab_ts a * 1000, lf_datacenter := []\<rparr>"

lemma parse_number_text: "w < 2 ^ 63 \<Longrightarrow> first_node tag h = Some (leaf tag (to_string (uint w))) \<Longrightarrow> parse_number tag h old = w"
proof -
  assume w: "w < 2 ^ 63" "first_node tag h = Some (leaf tag (to_string (uint w)))"
  then have n: "unat w < 2 ^ 63" by (simp add: word_less_nat_alt)
  have "word_of_int (int (unat w)) = w" by simp
  then show ?thesis using w n strtol_digits [of "unat w"] by (simp add: parse_number_def leaf_def to_string_uint)
qed

lemma lfb_node_parts:
  "first_node ''time'' (lfb_node a) = Some (leaf ''time'' (time_text (ab_ts a)))"
  "first_node ''load'' (lfb_node a) = Some (leaf ''load'' (to_string (uint (lf_load a))))"
  "first_node ''target'' (lfb_node a) = Some (leaf ''target'' (to_string (uint (lf_target a))))"
  "first_node ''max'' (lfb_node a) = Some (leaf ''max'' (to_string (uint (lf_max a))))"
  by (simp_all add: first_node_def nodes_named_def lfb_node_def leaf_def)

lemma parse_lfb_hosts_nodes:
  assumes "\<forall>a\<in>set es. load_fits a"
  shows "parse_lfb_hosts filets (map lfb_node es) lfb info =
    Inr (info\<lparr>ai_auxData := ai_auxData info @ map (\<lambda>a. AuxLoadFB (lfb\<lparr>ab_host := ab_host a, ab_ts := ab_ts a * 1000,
      lf_load := lf_load a, lf_target := lf_target a, lf_max := lf_max a\<rparr>)) es\<rparr>, True)"
  using assms
proof (induction es arbitrary: lfb info)
  case (Cons a es)
  then have a: "load_fits a" by simp
  then have "parse_host_time filets (lfb_node a) = Inr (ab_ts a * 1000)"
    by (simp add: parse_host_time_def lfb_node_parts leaf_def parse_time_text load_fits_def names_fit_def)
  moreover have "first_attribute ''name'' (lfb_node a) = Some (ab_host a)"
    using a lfb.node_host [of a] by (simp add: load_fits_def names_fit_def)
  moreover have "parse_number ''load'' (lfb_node a) old = lf_load a" "parse_number ''target'' (lfb_node a) old = lf_target a"
    "parse_number ''max'' (lfb_node a) old = lf_max a" for old
    using a by (simp_all add: load_fits_def parse_number_text lfb_node_parts)
  ultimately show ?case using Cons by (simp add: Let_def)
qed simp

lemma nodes_named_all: "\<forall>c\<in>set cs. xn_name c = name \<Longrightarrow> nodes_named name (Node n v as cs) = cs"
  by (simp add: nodes_named_def filter_id_conv)

lemma parse_lfb_resources_nodes:
  assumes "\<forall>a\<in>set es. load_fits a \<and> ab_type a = HM_LOAD_FILE" and "set rs \<subseteq> ab_resource ` set es"
  shows "parse_lfb_resources address filets
      (map (\<lambda>r. Node ''resource'' [] [(''name'', c_str r)] (map lfb_node (filter (\<lambda>a. ab_resource a = r) es))) rs) info =
    Inr (info\<lparr>ai_auxData := ai_auxData info
      @ concat (map (\<lambda>r. map (\<lambda>a. AuxLoadFB (received_load address a)) (filter (\<lambda>a. ab_resource a = r) es)) rs)\<rparr>, True)"
  using assms(2)
proof (induction rs arbitrary: info)
  case (Cons r rs)
  let ?es = "filter (\<lambda>a. ab_resource a = r) es"
  obtain a where a: "a \<in> set es" "ab_resource a = r" using Cons.prems by auto
  then have r: "c_str r = r" using assms(1) by (auto simp: load_fits_def names_fit_def)
  have "map lfb_node ?es \<noteq> []" using a by (auto simp: filter_empty_conv)
  then obtain h hs where hs: "map lfb_node ?es = h # hs" by (meson neq_Nil_conv)
  have "nodes_named ''host'' (Node ''resource'' [] [(''name'', c_str r)] (map lfb_node ?es)) = map lfb_node ?es"
    by (rule nodes_named_all) (simp add: lfb.node_name)
  moreover have "\<forall>a\<in>set ?es. load_fits a" using assms(1) by simp
  note parse_lfb_hosts_nodes [OF this, of filets _ info, unfolded hs]
  moreover have "map (\<lambda>a. AuxLoadFB (\<lparr>ab_type = HM_LOAD_FILE, ab_host = [], ab_resource = r, ab_ip = address, ab_ts = 0,
        lf_datacenter = [], lf_load = 0, lf_target = 0, lf_max = 0\<rparr>\<lparr>ab_host := ab_host a, ab_ts := ab_ts a * 1000,
        lf_load := lf_load a, lf_target := lf_target a, lf_max := lf_max a\<rparr>)) ?es = map (\<lambda>a. AuxLoadFB (received_load address a)) ?es"
    using assms(1) by (auto simp: received_load_def)
  ultimately show ?case using Cons hs
    by (simp add: first_attribute_def r)
qed simp

text \<open>
  A document of load feedback that is written and read again has the entries that were written, each once, sorted by
  resource in the order in which the resources first appear, with the address they are read for; but its times are
  1000 times as large, since milliseconds are written and seconds are read, and the data centers are lost.
\<close>

theorem load_file_roundtrip:
  assumes "es = aux_loads (ai_auxData info)" and "es \<noteq> []" and "\<forall>a\<in>set es. load_fits a" and "time_fits (ai_ts info)"
    and "distinct (map (\<lambda>a. (ab_resource a, ab_host a)) es)"
    and "AuxParser_genAuxData rx info HM_LOAD_FILE rotation = Some text"
    and "rx_parse rx (c_str text) = Some (gen_document info HM_LOAD_FILE)"
  shows "AuxParser_parseAuxData rx address text AuxInfo_new =
    Inr (\<lparr>ai_auxData = map (\<lambda>a. AuxLoadFB (received_load address a)) (by_resource ab_resource es), ai_ts = ai_ts info * 1000\<rparr>, True)"
proof -
  have types: "\<forall>a\<in>set es. load_fits a \<and> ab_type a = HM_LOAD_FILE"
    using assms(3) by (auto simp: assms(1) aux_loads_def map_filter_def split: HMAux.splits if_splits)
  have nodes: "fold gen_lfb (ai_auxData info) [] = lfb.resource_nodes es"
    using lfb.gen_nodes [OF assms(5)] assms(3) by (simp add: fold_gen_lfb assms(1) load_fits_def names_fit_def)
  let ?rs = "map (\<lambda>r. Node ''resource'' [] [(''name'', c_str r)] (map lfb_node (filter (\<lambda>a. ab_resource a = r) es))) (firsts (map ab_resource es))"
  have "map snd (lfb.resource_nodes es) = ?rs" by (simp add: lfb.resource_nodes_def)
  moreover have "nodes_named ''resource'' (Node ''load-file'' [] [(''updated'', time_text (ai_ts info))] ?rs) = ?rs"
    by (rule nodes_named_all) simp
  moreover have "?rs \<noteq> []" using assms(2) set_empty [of "firsts (map ab_resource es)"] by auto
  ultimately show ?thesis
    using parse_lfb_resources_nodes [OF types, of "firsts (map ab_resource es)" address "ai_ts info * 1000"] assms(4,7)
    by (simp add: AuxParser_parseAuxData_def gen_document_def nodes AuxParser_parseNewLFB_def first_attribute_def
        parse_time_text AuxInfo_new_def by_resource_def map_concat comp_def)
qed

definition oob_fits :: "HMAuxOOB \<Rightarrow> bool" where
  "oob_fits a \<longleftrightarrow> names_fit a \<and> oo_shed a \<le> 100"

definition received_oob :: "HMIPAddress \<Rightarrow> HMAuxOOB \<Rightarrow> HMAuxOOB" where
  "received_oob address a =
     a\<lparr>ab_ip := address, ab_ts := ab_ts a * 1000,
       oo_forceDown := (if oo_forceDown a = HM_OOB_FORCEDOWN_FALSE then HM_OOB_FORCEDOWN_FALSE else HM_OOB_FORCEDOWN_TRUE)\<rparr>"

lemma oob_node_parts:
  "first_node ''time'' (oob_node a) = Some (leaf ''time'' (time_text (ab_ts a)))"
  "first_node ''force-down'' (oob_node a) = Some (leaf ''force-down'' (if oo_forceDown a \<noteq> 0 then ''true'' else ''false''))"
  "first_node ''shed'' (oob_node a) = (if oo_shed a = 0 then None else Some (leaf ''shed'' (to_string (uint (oo_shed a)))))"
  by (simp_all add: first_node_def nodes_named_def oob_node_def leaf_def)

lemma parse_shed_node: "oo_shed a \<le> 100 \<Longrightarrow> parse_shed (oob_node a) = oo_shed a"
proof -
  assume shed: "oo_shed a \<le> 100"
  then have "unat (oo_shed a) < 2 ^ 63" by (simp add: word_le_nat_alt)
  then show ?thesis using shed strtol_digits(1) [of "unat (oo_shed a)"]
    by (auto simp: parse_shed_def oob_node_parts leaf_def to_string_uint Let_def)
qed

lemma parse_oob_hosts_nodes:
  assumes "\<forall>a\<in>set es. oob_fits a \<and> ab_type a = HM_OOB_FILE \<and> ab_resource a = r"
  shows "parse_oob_hosts address filets r (map oob_node es) info =
    Inr (info\<lparr>ai_auxData := ai_auxData info @ map (\<lambda>a. AuxOOB (received_oob address a)) es\<rparr>, True)"
  using assms
proof (induction es arbitrary: info)
  case (Cons a es)
  then have a: "oob_fits a" "ab_type a = HM_OOB_FILE" "ab_resource a = r" by simp_all
  have "parse_host_time filets (oob_node a) = Inr (ab_ts a * 1000)"
    using a(1) by (simp add: parse_host_time_def oob_node_parts leaf_def parse_time_text oob_fits_def names_fit_def)
  moreover have "first_attribute ''name'' (oob_node a) = Some (ab_host a)"
    using a(1) oob.node_host [of a] by (simp add: oob_fits_def names_fit_def)
  moreover have "\<lparr>ab_type = HM_OOB_FILE, ab_host = ab_host a, ab_resource = r, ab_ip = address, ab_ts = ab_ts a * 1000,
      oo_forceDown = parse_forceDown (oob_node a), oo_shed = parse_shed (oob_node a)\<rparr> = received_oob address a"
    using a parse_shed_node [of a]
    by (simp add: received_oob_def oob_fits_def parse_forceDown_def oob_node_parts leaf_def HM_OOB_FORCEDOWN_FALSE_def)
  ultimately show ?case using Cons by (simp add: Let_def)
qed simp

lemma parse_oob_resources_nodes:
  assumes "\<forall>a\<in>set es. oob_fits a \<and> ab_type a = HM_OOB_FILE" and "set rs \<subseteq> ab_resource ` set es"
  shows "parse_oob_resources address filets
      (map (\<lambda>r. Node ''resource-oob'' [] [(''name'', c_str r)] (map oob_node (filter (\<lambda>a. ab_resource a = r) es))) rs) info =
    Inr (info\<lparr>ai_auxData := ai_auxData info
      @ concat (map (\<lambda>r. map (\<lambda>a. AuxOOB (received_oob address a)) (filter (\<lambda>a. ab_resource a = r) es)) rs)\<rparr>, True)"
  using assms(2)
proof (induction rs arbitrary: info)
  case (Cons r rs)
  let ?es = "filter (\<lambda>a. ab_resource a = r) es"
  obtain a where a: "a \<in> set es" "ab_resource a = r" using Cons.prems by auto
  then have r: "c_str r = r" using assms(1) by (auto simp: oob_fits_def names_fit_def)
  have "map oob_node ?es \<noteq> []" using a by (auto simp: filter_empty_conv)
  then obtain h hs where hs: "map oob_node ?es = h # hs" by (meson neq_Nil_conv)
  have "nodes_named ''host'' (Node ''resource-oob'' [] [(''name'', c_str r)] (map oob_node ?es)) = map oob_node ?es"
    by (rule nodes_named_all) (simp add: oob.node_name)
  moreover have "parse_oob_hosts address filets r (h # hs) info =
      Inr (info\<lparr>ai_auxData := ai_auxData info @ map (\<lambda>a. AuxOOB (received_oob address a)) ?es\<rparr>, True)"
    unfolding hs [symmetric] using assms(1) by (intro parse_oob_hosts_nodes) simp
  ultimately show ?case using Cons hs by (simp add: first_attribute_def r)
qed simp

text \<open>
  A document of out-of-band entries comes back with its entries too, in times 1000 times as large, and with every
  force-down but \<open>HM_OOB_FORCEDOWN_FALSE\<close> set: an entry that does not say anything about the host, which is what the
  constructor makes, forces it down when it is read.
\<close>

theorem oob_file_roundtrip:
  assumes "es = aux_oobs (ai_auxData info)" and "es \<noteq> []" and "\<forall>a\<in>set es. oob_fits a" and "time_fits (ai_ts info)"
    and "distinct (map (\<lambda>a. (ab_resource a, ab_host a)) es)"
    and "AuxParser_genAuxData rx info HM_OOB_FILE rotation = Some text"
    and "rx_parse rx (c_str text) = Some (gen_document info HM_OOB_FILE)"
  shows "AuxParser_parseAuxData rx address text AuxInfo_new =
    Inr (\<lparr>ai_auxData = map (\<lambda>a. AuxOOB (received_oob address a)) (by_resource ab_resource es), ai_ts = ai_ts info * 1000\<rparr>, True)"
proof -
  have types: "\<forall>a\<in>set es. oob_fits a \<and> ab_type a = HM_OOB_FILE"
    using assms(3) by (auto simp: assms(1) aux_oobs_def map_filter_def split: HMAux.splits if_splits)
  have nodes: "fold gen_oob (ai_auxData info) [] = oob.resource_nodes es"
    using oob.gen_nodes [OF assms(5)] assms(3) by (simp add: fold_gen_oob assms(1) oob_fits_def names_fit_def)
  let ?rs = "map (\<lambda>r. Node ''resource-oob'' [] [(''name'', c_str r)] (map oob_node (filter (\<lambda>a. ab_resource a = r) es))) (firsts (map ab_resource es))"
  have "map snd (oob.resource_nodes es) = ?rs" by (simp add: oob.resource_nodes_def)
  moreover have "nodes_named ''resource-oob'' (Node ''oob-file'' [] [(''updated'', time_text (ai_ts info))] ?rs) = ?rs"
    by (rule nodes_named_all) simp
  moreover have "?rs \<noteq> []" using assms(2) set_empty [of "firsts (map ab_resource es)"] by auto
  ultimately show ?thesis
    using parse_oob_resources_nodes [OF types, of "firsts (map ab_resource es)" address "ai_ts info * 1000"] assms(4,7)
    by (simp add: AuxParser_parseAuxData_def gen_document_def nodes AuxParser_parseOOB_def first_attribute_def HM_LOAD_FILE_def
        HM_OOB_FILE_def parse_time_text AuxInfo_new_def by_resource_def map_concat comp_def)
qed

section \<open>A host without a number\<close>

text \<open>A host without the number of its load has the load of the host before it in the resource.\<close>

lemma missing_load_inherited:
  assumes "first_attribute ''name'' h = Some n" and "first_attribute ''name'' k = Some m" and "first_node ''load'' k = None"
    and "parse_host_time filets h = Inr t" and "parse_host_time filets k = Inr u"
    and "parse_lfb_hosts filets [h, k] lfb info = Inr (info', ok)"
  shows "\<exists>a b. ai_auxData info' = ai_auxData info @ [AuxLoadFB a, AuxLoadFB b] \<and> ab_host a = n \<and> ab_host b = m
    \<and> lf_load b = lf_load a \<and> lf_load a = parse_number ''load'' h (lf_load lfb)"
  using assms by (auto simp: Let_def parse_number_def [of _ k])

section \<open>Examples\<close>

definition w_load :: "string \<Rightarrow> string \<Rightarrow> HMAux" where
  "w_load r h = AuxLoadFB \<lparr>ab_type = HM_LOAD_FILE, ab_host = h, ab_resource = r, ab_ip = UNSPEC, ab_ts = 5000, lf_datacenter = ''dc'',
     lf_load = 10, lf_target = 80, lf_max = 100\<rparr>"

definition w_aux :: HMAuxInfo where
  "w_aux = \<lparr>ai_auxData = [w_load ''r'' ''h'', w_load ''s'' ''h'', w_load ''r'' ''k'',
     AuxOOB \<lparr>ab_type = HM_OOB_FILE, ab_host = ''h'', ab_resource = ''r'', ab_ip = UNSPEC, ab_ts = 5000,
       oo_forceDown = HM_OOB_FORCEDOWN_NONE, oo_shed = 30\<rparr>], ai_ts = 6000\<rparr>"

definition w_rapidxml :: "xml list \<Rightarrow> rapidxml" where
  "w_rapidxml doc = \<lparr>rx_parse = (\<lambda>_. Some doc), rx_print = (\<lambda>_. ''<xml>'')\<rparr>"

theorem load_file_roundtrip_witness:
  "\<exists>a b c. AuxParser_parseAuxData (w_rapidxml (gen_document w_aux HM_LOAD_FILE)) (INET 1) ''<xml>'' AuxInfo_new =
      Inr (\<lparr>ai_auxData = [AuxLoadFB a, AuxLoadFB b, AuxLoadFB c], ai_ts = 6000000\<rparr>, True)
    \<and> map ab_host [a, b, c] = [''h'', ''k'', ''h''] \<and> map ab_resource [a, b, c] = [''r'', ''r'', ''s''] \<and> map ab_ts [a, b, c] = [5000000, 5000000, 5000000]"
proof -
  have es: "aux_loads (ai_auxData w_aux) = [a. AuxLoadFB a \<leftarrow> [w_load ''r'' ''h'', w_load ''s'' ''h'', w_load ''r'' ''k'']]"
    by (simp add: aux_loads_def w_aux_def w_load_def map_filter_simps)
  show ?thesis
    using load_file_roundtrip [OF refl, of w_aux "w_rapidxml (gen_document w_aux HM_LOAD_FILE)" "[]" "''<xml>''" "INET 1"]
    unfolding es
    by (simp add: w_load_def load_fits_def names_fit_def c_str_def time_fits_def w_aux_def AuxParser_genAuxData_def w_rapidxml_def
        by_resource_def firsts_def received_load_def)
qed

theorem oob_file_roundtrip_witness:
  "\<exists>a. AuxParser_parseAuxData (w_rapidxml (gen_document w_aux HM_OOB_FILE)) (INET 1) ''<xml>'' AuxInfo_new =
      Inr (\<lparr>ai_auxData = [AuxOOB a], ai_ts = 6000000\<rparr>, True) \<and> oo_forceDown a = HM_OOB_FORCEDOWN_TRUE \<and> ab_ts a = 5000000"
proof -
  have es: "aux_oobs (ai_auxData w_aux) = [a. AuxOOB a \<leftarrow> [ai_auxData w_aux ! 3]]"
    by (simp add: aux_oobs_def w_aux_def w_load_def map_filter_simps)
  show ?thesis
    using oob_file_roundtrip [OF refl, of w_aux "w_rapidxml (gen_document w_aux HM_OOB_FILE)" "[]" "''<xml>''" "INET 1"]
    unfolding es
    by (simp add: oob_fits_def names_fit_def c_str_def time_fits_def w_aux_def AuxParser_genAuxData_def w_rapidxml_def
        by_resource_def firsts_def received_oob_def HM_OOB_FORCEDOWN_NONE_def HM_OOB_FORCEDOWN_FALSE_def)
qed

end
