(* ===== verification/HM_StorageText.thy ===== *)
theory HM_StorageText
  imports HM_StorageHost HM_AuxParser
begin

text \<open>
  The storage in a text file (\<open>HMStorageHostText.cpp\<close>): what each operation writes, as the virtual methods of
  \<open>HMStorageHost\<close>, and what the storage by host does over them.
\<close>

section \<open>The text file\<close>

text \<open>
  \<open>m_fout\<close>, an output file stream: whether it is open, whether an operation has failed, and the file with what
  has been written. \<open>te_writable\<close> says whether the system opens the file. Opening for output without \<open>app\<close>
  or \<open>in\<close> empties the file, with \<open>ate\<close> as without; opening a stream that is open, or closing one that is not, makes
  it fail, and a stream that has failed takes no output until it is opened again.
\<close>

record text_env =
  te_writable :: bool
  te_ntop4 :: "32 word \<Rightarrow> string"
  te_ntop6 :: "128 word \<Rightarrow> string"
  te_now :: HMTimeStamp
  te_printTime :: "HMTimeStamp \<Rightarrow> string"

record HMStorageHostText =
  tx_open :: bool
  tx_fail :: bool
  tx_file :: string

definition fout_open :: "text_env \<Rightarrow> HMStorageHostText \<Rightarrow> HMStorageHostText" where
  "fout_open env t =
     (if te_writable env \<and> \<not> tx_open t then t\<lparr>tx_open := True, tx_fail := False, tx_file := []\<rparr>
      else t\<lparr>tx_fail := True\<rparr>)"

definition fout_close :: "HMStorageHostText \<Rightarrow> HMStorageHostText" where
  "fout_close t = (if tx_open t then t\<lparr>tx_open := False\<rparr> else t\<lparr>tx_fail := True\<rparr>)"

definition fout_write :: "string \<Rightarrow> HMStorageHostText \<Rightarrow> HMStorageHostText" where
  "fout_write text t = (if tx_open t \<and> \<not> tx_fail t then t\<lparr>tx_file := tx_file t @ text\<rparr> else t)"

definition Text_clearBackend :: "text_env \<Rightarrow> HMStorageHostText \<Rightarrow> HMStorageHostText \<times> bool" where
  "Text_clearBackend env t = (let t = fout_open env (fout_close t) in (t, tx_open t))"

definition Text_openBackend :: "text_env \<Rightarrow> HMStorageHostText \<Rightarrow> HMStorageHostText \<times> bool" where
  "Text_openBackend env t = (let t = fout_open env t in (t, tx_open t))"

definition Text_closeBackend :: "HMStorageHostText \<Rightarrow> HMStorageHostText \<times> bool" where
  "Text_closeBackend t = (fout_close t, True)"

text \<open>How every \<open>store\<close> begins: the file is opened when it is not open.\<close>

definition Text_store :: "text_env \<Rightarrow> string \<Rightarrow> HMStorageHostText \<Rightarrow> HMStorageHostText \<times> bool" where
  "Text_store env text t =
     (if tx_open t then (fout_write text t, True)
      else let (t, ok) = Text_openBackend env t in if ok then (fout_write text t, True) else (t, False))"

definition newline :: string where "newline = [CHR 0x0A]"
definition tab :: string where "tab = [CHR 0x09]"

definition print_ip :: "text_env \<Rightarrow> HMIPAddress \<Rightarrow> string" where
  "print_ip env = IPAddress_toString (te_ntop4 env) (te_ntop6 env)"

definition print_number :: "'a :: len word \<Rightarrow> string" where
  "print_number w = digits (unat w)"

definition print_epoch :: "HMTimeStamp \<Rightarrow> string" where
  "print_epoch t = print_number (ts_getTimeSinceEpoch t)"

definition Text_storeConfigInfo :: "text_env \<Rightarrow> HMConfigInfo \<Rightarrow> HMStorageHostText \<Rightarrow> HMStorageHostText \<times> bool" where
  "Text_storeConfigInfo env c =
     Text_store env (''Config Info'' @ tab @ print_number (ci_version c) @ tab @ print_number (ci_configStatus c) @ tab
       @ print_epoch (ci_configLoadTime c) @ newline)"

definition lines_of :: "string list \<Rightarrow> string" where
  "lines_of names = concat (map (\<lambda>n. n @ newline) names)"

definition Text_storeHostNames :: "text_env \<Rightarrow> string list \<Rightarrow> HMStorageHostText \<Rightarrow> HMStorageHostText \<times> bool" where
  "Text_storeHostNames env names =
     Text_store env (''Storing Host Names:'' @ newline @ lines_of names @ newline)"

definition Text_storeHostGroupNames :: "text_env \<Rightarrow> string list \<Rightarrow> HMStorageHostText \<Rightarrow> HMStorageHostText \<times> bool" where
  "Text_storeHostGroupNames env names =
     Text_store env (''Storing Host Group Names:'' @ newline @ lines_of names @ newline)"

definition header_text :: "text_env \<Rightarrow> HMCheckHeader \<Rightarrow> string" where
  "header_text env c =
     ''HostName:'' @ tab @ ch_hostname c @ newline
     @ ''IP:'' @ tab @ print_ip env (ch_address c) @ newline
     @ ''Host Check:'' @ newline
     @ ''Check Type:'' @ newline @ printCheckType (hc_checkType (ch_hostCheck c)) @ newline
     @ ''Port:'' @ tab @ print_number (hc_port (ch_hostCheck c)) @ newline
     @ ''Dual Stack:'' @ tab @ printDualStack (hc_dualstack (ch_hostCheck c)) @ newline
     @ ''Check Info:'' @ tab @ hc_checkInfo (ch_hostCheck c) @ newline
     @ ''Check Params:'' @ newline @ CheckParams_printEntry (ch_checkParams c)
     @ ''Check Params HostGroups:'' @ newline @ CheckParams_printHostGroups (ch_checkParams c)"

definition Text_storeNameChecks ::
    "text_env \<Rightarrow> string \<Rightarrow> HMCheckHeader list \<Rightarrow> HMStorageHostText \<Rightarrow> HMStorageHostText \<times> bool" where
  "Text_storeNameChecks env hostName checks =
     Text_store env (''Storing the check header for '' @ hostName @ newline
       @ concat (map (header_text env) checks) @ newline)"

text \<open>The number of retries is an 8 bit integer, which the stream prints as a character.\<close>

definition group_text :: "string \<Rightarrow> HMDataHostGroup \<Rightarrow> string" where
  "group_text hostGroupName g =
     ''Storing Group Info for '' @ hostGroupName @ newline
     @ ''Name:'' @ tab @ hg_groupName g @ newline
     @ ''Check Type:'' @ newline @ printCheckType (hg_checkType g) @ newline
     @ ''TTL:'' @ tab @ print_number (hg_checkTTL g) @ newline
     @ ''Flags:'' @ tab @ printMeasurementOptions (hg_measurementOptions g) @ newline
     @ ''Dual Stack:'' @ tab @ printDualStack (hg_dualstack g) @ newline
     @ ''Port:'' @ tab @ print_number (hg_port g) @ newline
     @ ''Check Info:'' @ tab @ hg_checkInfo g @ newline
     @ ''Retries:'' @ tab @ [char_of (unat (hg_numCheckRetries g))] @ newline
     @ ''Retry Delay:'' @ tab @ print_number (hg_checkRetryDelay g) @ newline
     @ ''Check Timneout:'' @ tab @ print_number (hg_checkTimeout g) @ newline
     @ ''Group Threshold:'' @ tab @ print_number (hg_groupThreshold g) @ newline
     @ ''Smoothing Window:'' @ tab @ print_number (hg_smoothingWindow g) @ newline
     @ ''Flap Theshold:'' @ tab @ print_number (hg_flapThreshold g) @ newline
     @ ''Max Flaps:'' @ tab @ print_number (hg_maxFlaps g) @ newline
     @ ''Slow Threshold:'' @ tab @ print_number (hg_slowThreshold g) @ newline
     @ ''Mode:'' @ tab @ print_number (hg_passthroughInfo g) @ newline
     @ ''Hosts:'' @ newline @ lines_of (hg_hosts g) @ newline"

definition Text_storeGroupInfo ::
    "text_env \<Rightarrow> string \<Rightarrow> HMDataHostGroup \<Rightarrow> HMStorageHostText \<Rightarrow> HMStorageHostText \<times> bool" where
  "Text_storeGroupInfo env hostGroupName hostGroup = Text_store env (group_text hostGroupName hostGroup)"

definition result_text :: "text_env \<Rightarrow> HMCheckData \<Rightarrow> string" where
  "result_text env d =
     (let r = cd_result d
      in print_epoch (te_now env) @ tab @ CheckParams_printHostGroups (ch_checkParams d) @ tab
         @ ch_hostname d @ tab @ HostCheck_printEntry (ch_hostCheck d) (CHR 0x09) True @ tab
         @ print_ip env (ch_address d) @ tab @ print_number (response_code (cr_response r)) @ tab
         @ print_number (reason_code (cr_reason r)) @ tab @ print_number (reason_code (cr_softReason r)) @ tab
         @ print_epoch (cr_start r) @ tab @ print_epoch (cr_end r) @ newline
         @ ''Check Result:'' @ tab @ print_ip env (cr_address r) @ tab
         @ print_number (cr_maxResponseTime r) @ tab @ print_number (cr_minResponseTime r) @ tab
         @ print_number (cr_numChecks r) @ tab @ print_number (cr_numConnectFailures r) @ tab
         @ print_number (cr_numFailedChecks r) @ tab @ print_number (cr_numFailures r) @ tab
         @ print_number (cr_numFlaps r) @ tab @ print_number (cr_numResponses r) @ tab
         @ print_number (cr_numSlowResponses r) @ tab @ print_number (cr_numTimeouts r) @ tab
         @ print_number (cr_port r) @ tab @ print_number (reason_code (cr_reason r)) @ tab
         @ print_number (reason_code (cr_softReason r)) @ tab @ print_number (cr_responseTime r) @ tab
         @ print_number (cr_smoothedResponseTime r) @ tab @ print_number (cr_status r) @ tab
         @ print_epoch (cr_checkTime r) @ tab @ print_number (cr_sumResponseTime r) @ tab
         @ print_number (cr_totalResponseTime r) @ tab @ print_epoch (cr_changeTime r) @ newline)"

definition Text_storeHostCheckResult ::
    "text_env \<Rightarrow> HMCheckData \<Rightarrow> HMStorageHostText \<Rightarrow> HMStorageHostText \<times> bool" where
  "Text_storeHostCheckResult env checkData = Text_store env (result_text env checkData)"

definition LoadFB_print :: "text_env \<Rightarrow> HMAuxLoadFB \<Rightarrow> string" where
  "LoadFB_print env a =
     ''LoadFB Entry'' @ newline @ ''Host:'' @ tab @ ab_host a @ newline
     @ ''IP:'' @ tab @ print_ip env (ab_ip a) @ newline @ ''Resource:'' @ tab @ ab_resource a @ newline
     @ ''Datacenter:'' @ tab @ lf_datacenter a @ newline @ ''Load:'' @ tab @ print_number (lf_load a) @ newline
     @ ''Target:'' @ tab @ print_number (lf_target a) @ newline @ ''Max:'' @ tab @ print_number (lf_max a) @ newline
     @ ''Time Stamp:'' @ tab @ te_printTime env (ab_ts a)"

definition OOB_print :: "text_env \<Rightarrow> HMAuxOOB \<Rightarrow> string" where
  "OOB_print env a =
     ''Out-of-Band(OOB) Entry'' @ newline @ ''Host:'' @ tab @ ab_host a @ newline
     @ ''IP:'' @ tab @ print_ip env (ab_ip a) @ newline @ ''Resource:'' @ tab @ ab_resource a @ newline
     @ (if oo_forceDown a \<noteq> HM_OOB_FORCEDOWN_NONE
        then ''Force Down:'' @ tab @ (if oo_forceDown a = HM_OOB_FORCEDOWN_TRUE then ''true'' else ''false'') @ newline
        else [])
     @ ''Shed:'' @ tab @ print_number (oo_shed a) @ newline @ ''Time Stamp:'' @ tab @ te_printTime env (ab_ts a)"

fun Aux_print :: "text_env \<Rightarrow> HMAux \<Rightarrow> string" where
  "Aux_print env (AuxLoadFB a) = LoadFB_print env a"
| "Aux_print env (AuxOOB a) = OOB_print env a"

definition Text_storeHostAuxInfo ::
    "text_env \<Rightarrow> HMAuxData \<Rightarrow> HMStorageHostText \<Rightarrow> HMStorageHostText \<times> bool" where
  "Text_storeHostAuxInfo env d =
     Text_store env (''Storing Aux Info for '' @ ch_hostname d @ newline
       @ ''Address:'' @ tab @ print_ip env (ch_address d) @ newline
       @ ''URL:'' @ tab @ hc_checkInfo (ch_hostCheck d) @ newline @ ''Entries:'' @ newline
       @ concat (map (Aux_print env) (ai_auxData (xd_info d))) @ newline)"

definition Text_storeDNSResult ::
    "text_env \<Rightarrow> string \<Rightarrow> HMIPAddress list \<Rightarrow> HMStorageHostText \<Rightarrow> HMStorageHostText \<times> bool" where
  "Text_storeDNSResult env hostname addresses =
     Text_store env (''Storing Addresses for '' @ hostname @ newline @ lines_of (map (print_ip env) addresses))"

text \<open>All reads and all removals of the class return false.\<close>

definition Text_getConfigInfo :: "HMConfigInfo \<Rightarrow> HMStorageHostText \<Rightarrow> HMConfigInfo \<times> bool" where
  "Text_getConfigInfo configInfo t = (configInfo, False)"

definition Text_getHostGroupNames :: "string list \<Rightarrow> HMStorageHostText \<Rightarrow> string list \<times> bool" where
  "Text_getHostGroupNames hostGroupNames t = (hostGroupNames, False)"

definition Text_getGroupInfo :: "string \<Rightarrow> HMDataHostGroup \<Rightarrow> HMStorageHostText \<Rightarrow> HMDataHostGroup \<times> bool" where
  "Text_getGroupInfo hostGroupName hostGroup t = (hostGroup, False)"

definition Text_getHostNames :: "string list \<Rightarrow> HMStorageHostText \<Rightarrow> string list \<times> bool" where
  "Text_getHostNames hostNames t = (hostNames, False)"

definition Text_getNameChecks :: "string \<Rightarrow> HMCheckHeader list \<Rightarrow> HMStorageHostText \<Rightarrow> HMCheckHeader list \<times> bool" where
  "Text_getNameChecks hostName checks t = (checks, False)"

definition Text_getHostCheckResult :: "HMCheckHeader \<Rightarrow> HMDataCheckResult \<Rightarrow> HMStorageHostText \<Rightarrow> HMDataCheckResult \<times> bool" where
  "Text_getHostCheckResult header checkResult t = (checkResult, False)"

definition Text_getHostAuxInfo :: "HMCheckHeader \<Rightarrow> HMAuxInfo \<Rightarrow> HMStorageHostText \<Rightarrow> HMAuxInfo \<times> bool" where
  "Text_getHostAuxInfo header auxInfo t = (auxInfo, False)"

definition Text_getDNSResult :: "string \<Rightarrow> HMIPAddress list \<Rightarrow> HMStorageHostText \<Rightarrow> HMIPAddress list \<times> bool" where
  "Text_getDNSResult hostname addresses t = (addresses, False)"

definition Text_removeNameChecks :: "string \<Rightarrow> HMCheckHeader list \<Rightarrow> HMStorageHostText \<Rightarrow> HMStorageHostText \<times> bool" where
  "Text_removeNameChecks hostName checks t = (t, False)"

definition Text_removeGroupInfo :: "string \<Rightarrow> HMStorageHostText \<Rightarrow> HMStorageHostText \<times> bool" where
  "Text_removeGroupInfo hostGroupName t = (t, False)"

definition Text_removeHostCheckResult :: "HMCheckHeader \<Rightarrow> HMStorageHostText \<Rightarrow> HMStorageHostText \<times> bool" where
  "Text_removeHostCheckResult header t = (t, False)"

definition Text_removeHostAuxInfo :: "HMCheckHeader \<Rightarrow> HMStorageHostText \<Rightarrow> HMStorageHostText \<times> bool" where
  "Text_removeHostAuxInfo header t = (t, False)"

definition Text_removeDNSResult :: "string \<Rightarrow> HMIPAddress list \<Rightarrow> HMStorageHostText \<Rightarrow> HMStorageHostText \<times> bool" where
  "Text_removeDNSResult hostname addresses t = (t, False)"

definition text_backend :: "text_env \<Rightarrow> HMStorageHostText host_backend" where
  "text_backend env =
     \<lparr>hb_storeHostNames = Text_storeHostNames env, hb_getHostNames = Text_getHostNames,
      hb_storeHostGroupNames = Text_storeHostGroupNames env, hb_getHostGroupNames = Text_getHostGroupNames,
      hb_storeNameChecks = Text_storeNameChecks env, hb_getNameChecks = Text_getNameChecks,
      hb_removeNameChecks = Text_removeNameChecks,
      hb_storeGroupInfo = Text_storeGroupInfo env, hb_getGroupInfo = Text_getGroupInfo,
      hb_storeHostCheckResult = Text_storeHostCheckResult env, hb_getHostCheckResult = Text_getHostCheckResult,
      hb_removeHostCheckResult = Text_removeHostCheckResult,
      hb_storeHostAuxInfo = Text_storeHostAuxInfo env, hb_getHostAuxInfo = Text_getHostAuxInfo,
      hb_removeHostAuxInfo = Text_removeHostAuxInfo,
      hb_storeDNSResult = Text_storeDNSResult env, hb_getDNSResult = Text_getDNSResult,
      hb_removeDNSResult = Text_removeDNSResult\<rparr>"

interpretation tfile: write_only_store "text_backend env" for env
  by unfold_locales (simp_all add: text_backend_def Text_getHostNames_def Text_getHostGroupNames_def
      Text_getHostCheckResult_def Text_getHostAuxInfo_def Text_getDNSResult_def)

section \<open>What the file holds\<close>

text \<open>A stream that is open and has not failed.\<close>

definition writing :: "HMStorageHostText \<Rightarrow> bool" where
  "writing t \<longleftrightarrow> tx_open t \<and> \<not> tx_fail t"

lemma Text_store_writing:
  "writing t \<Longrightarrow> Text_store env new t = (t\<lparr>tx_file := tx_file t @ new\<rparr>, True)"
  "writing (t\<lparr>tx_file := f\<rparr>) = writing t"
  by (simp_all add: writing_def Text_store_def fout_write_def)

lemma Text_store_new: "writing t \<Longrightarrow> \<exists>new. Text_store env x t = (t\<lparr>tx_file := tx_file t @ new\<rparr>, True)"
  by (intro exI [of _ x] Text_store_writing)

lemma Text_store_opens:
  "te_writable env \<Longrightarrow> \<not> tx_open t \<Longrightarrow> Text_store env new t = (\<lparr>tx_open = True, tx_fail = False, tx_file = new\<rparr>, True)"
  by (simp add: Text_store_def Text_openBackend_def fout_open_def fout_write_def)

definition aux_text :: "text_env \<Rightarrow> HMAuxData \<Rightarrow> string" where
  "aux_text env d =
     ''Storing Aux Info for '' @ ch_hostname d @ newline
     @ ''Address:'' @ tab @ print_ip env (ch_address d) @ newline
     @ ''URL:'' @ tab @ hc_checkInfo (ch_hostCheck d) @ newline @ ''Entries:'' @ newline
     @ concat (map (Aux_print env) (ai_auxData (xd_info d))) @ newline"

text \<open>The heading of the addresses of a host, with no address after it.\<close>

definition no_address_text :: "string \<Rightarrow> string" where
  "no_address_text host = ''Storing Addresses for '' @ host @ newline"

text \<open>The stores of the text file as the fields of the record.\<close>

lemma text_stores:
  "hb_storeHostNames (text_backend env) ns =
     Text_store env (''Storing Host Names:'' @ newline @ lines_of ns @ newline)"
  "hb_storeHostGroupNames (text_backend env) ns =
     Text_store env (''Storing Host Group Names:'' @ newline @ lines_of ns @ newline)"
  "hb_storeNameChecks (text_backend env) n checks =
     Text_store env (''Storing the check header for '' @ n @ newline @ concat (map (header_text env) checks) @ newline)"
  "hb_storeGroupInfo (text_backend env) n g = Text_store env (group_text n g)"
  "hb_storeHostCheckResult (text_backend env) d = Text_store env (result_text env d)"
  "hb_storeHostAuxInfo (text_backend env) x = Text_store env (aux_text env x)"
  "hb_storeDNSResult (text_backend env) n [] = Text_store env (no_address_text n)"
  unfolding text_backend_def Text_storeHostNames_def Text_storeHostGroupNames_def Text_storeNameChecks_def
    Text_storeGroupInfo_def Text_storeHostCheckResult_def Text_storeHostAuxInfo_def Text_storeDNSResult_def
    aux_text_def no_address_text_def lines_of_def host_backend.select_convs list.map concat.simps append_Nil2
  by (rule refl)+

lemma text_commit:
  assumes "writing t"
  shows "commit_check (text_backend env) d t = t\<lparr>tx_file := tx_file t @ result_text env d @ no_address_text (ch_hostname d)\<rparr>"
    and "commit_aux (text_backend env) x t = t\<lparr>tx_file := tx_file t @ aux_text env x @ no_address_text (ch_hostname x)\<rparr>"
  using assms
  by (simp_all add: tfile.commits_without_address text_stores Text_store_writing)

lemma text_commits:
  assumes "writing t"
  shows "fold (commit_check (text_backend env)) ds t =
      t\<lparr>tx_file := tx_file t @ concat (map (\<lambda>d. result_text env d @ no_address_text (ch_hostname d)) ds)\<rparr>"
    and "fold (commit_aux (text_backend env)) xs t =
      t\<lparr>tx_file := tx_file t @ concat (map (\<lambda>x. aux_text env x @ no_address_text (ch_hostname x)) xs)\<rparr>"
proof -
  have "writing t \<Longrightarrow> fold (commit_check (text_backend env)) ds t =
      t\<lparr>tx_file := tx_file t @ concat (map (\<lambda>d. result_text env d @ no_address_text (ch_hostname d)) ds)\<rparr>" for t
    by (induction ds arbitrary: t) (simp_all add: text_commit Text_store_writing)
  moreover have "writing t \<Longrightarrow> fold (commit_aux (text_backend env)) xs t =
      t\<lparr>tx_file := tx_file t @ concat (map (\<lambda>x. aux_text env x @ no_address_text (ch_hostname x)) xs)\<rparr>" for t
    by (induction xs arbitrary: t) (simp_all add: text_commit Text_store_writing)
  ultimately show "fold (commit_check (text_backend env)) ds t =
      t\<lparr>tx_file := tx_file t @ concat (map (\<lambda>d. result_text env d @ no_address_text (ch_hostname d)) ds)\<rparr>"
    "fold (commit_aux (text_backend env)) xs t =
      t\<lparr>tx_file := tx_file t @ concat (map (\<lambda>x. aux_text env x @ no_address_text (ch_hostname x)) xs)\<rparr>"
    using assms by blast+
qed

lemma no_groups_printed: "CheckParams_printHostGroups (ch_checkParams (CheckData_new h a hc cp r)) = []"
  by (simp add: CheckData_new_def CheckParams_copy_def CheckParams_printHostGroups_def)

text \<open>
  Every update that waits reaches the text file, in the order in which it was given, but without the addresses
  of its host. When the stream is open and works, draining the queues leaves the old text in place and appends
  for each check result the line of the result and the heading for the addresses of the host with no address
  below it, then the same for each auxiliary update; the queues are empty.
\<close>

theorem text_store_appends_updates:
  assumes "writing (sh_backend s)"
  shows "\<exists>s'. Host_drain (text_backend env) s = s' \<and> sh_storeCheckQueue s' = [] \<and> sh_storeAuxQueue s' = []
    \<and> tx_file (sh_backend s') = tx_file (sh_backend s)
        @ concat (map (\<lambda>d. result_text env d @ ''Storing Addresses for '' @ ch_hostname d @ newline) (sh_storeCheckQueue s))
        @ concat (map (\<lambda>x. aux_text env x @ ''Storing Addresses for '' @ ch_hostname x @ newline) (sh_storeAuxQueue s))"
  using assms by (simp add: Host_drain_run text_commits Text_store_writing no_address_text_def)

section \<open>A restart\<close>

text \<open>Operations that succeed and append to the file of a stream that works, and their sequence.\<close>

definition appending :: "(HMStorageHostText \<Rightarrow> HMStorageHostText \<times> bool) \<Rightarrow> bool" where
  "appending f \<longleftrightarrow> (\<forall>t. writing t \<longrightarrow> (\<exists>new. f t = (t\<lparr>tx_file := tx_file t @ new\<rparr>, True)))"

lemma appending_store: "appending (Text_store env x)"
  by (simp add: appending_def Text_store_new)

lemma appending_seq:
  assumes "appending f" and "appending g"
  shows "appending (\<lambda>t. let (t, ok) = f t in if \<not> ok then (t, False) else g t)"
  unfolding appending_def
proof (intro allI impI)
  fix t assume t: "writing t"
  then obtain new where new: "f t = (t\<lparr>tx_file := tx_file t @ new\<rparr>, True)" using assms(1) by (auto simp: appending_def)
  moreover have "writing (t\<lparr>tx_file := tx_file t @ new\<rparr>)" using t by (simp add: Text_store_writing)
  then obtain more where "g (t\<lparr>tx_file := tx_file t @ new\<rparr>) = (t\<lparr>tx_file := (tx_file t @ new) @ more\<rparr>, True)"
    using assms(2) by (auto simp: appending_def)
  ultimately show "\<exists>new. (let (t, ok) = f t in if \<not> ok then (t, False) else g t) = (t\<lparr>tx_file := tx_file t @ new\<rparr>, True)"
    by (intro exI [of _ "new @ more"]) simp
qed

lemma appending_while:
  assumes "\<And>x. appending (f x)"
  shows "appending (while_ok f xs)"
proof (induction xs)
  case (Cons x xs)
  have "while_ok f (x # xs) = (\<lambda>t. let (t, ok) = f x t in if \<not> ok then (t, False) else while_ok f xs t)"
    by (auto simp: split_beta)
  then show ?case using appending_seq [OF assms [of x] Cons.IH] by simp
qed (simp add: appending_def, metis append_Nil2 HMStorageHostText.surjective HMStorageHostText.update_convs(3))

lemma text_storeConfigs:
  assumes "writing (sh_backend s)"
  shows "\<exists>new. Host_storeConfigs (text_backend env) st s =
    (s\<lparr>sh_backend := (sh_backend s)\<lparr>tx_file := tx_file (sh_backend s) @ new\<rparr>\<rparr>, True)"
proof -
  let ?checks = "CheckList_getAllChecks (st_checkList st)" and ?be = "text_backend env"
  let ?names = "fold insort_insert (map fst (st_hostGroups st)) []"
  let ?store = "\<lambda>t. let (t, ok) = hb_storeHostNames ?be (names_of ?checks) t in if \<not> ok then (t, False) else
     let (t, ok) = while_ok (\<lambda>n. hb_storeNameChecks ?be n (filter (\<lambda>c. ch_hostname c = n) ?checks)) (names_of ?checks) t
     in if \<not> ok then (t, False) else
     let (t, ok) = while_ok (\<lambda>(n, g). hb_storeGroupInfo ?be n g) (st_hostGroups st) t
     in if \<not> ok then (t, False) else hb_storeHostGroupNames ?be ?names t"
  have "appending (case e of (n, g) \<Rightarrow> hb_storeGroupInfo ?be n g)" for e
    by (simp only: text_stores appending_store split: prod.split) simp
  then have "appending ?store"
    by (intro appending_seq appending_while) (simp_all only: text_stores appending_store)
  then obtain new where "?store (sh_backend s) = ((sh_backend s)\<lparr>tx_file := tx_file (sh_backend s) @ new\<rparr>, True)"
    using assms by (auto simp only: appending_def)
  then show ?thesis by (intro exI [of _ new]) (simp only: Host_storeConfigs_def Let_def prod.case)
qed

text \<open>
  Nothing that the text storage has written survives a restart. Writing the configuration to a stream
  that works succeeds and keeps the text before it; but when the storage is closed and opened again, the file is
  empty; and reading fails before and after: no configuration is loaded, no result is restored, and
  a group of the configuration has no results.
\<close>

theorem text_store_restart:
  assumes "writing (sh_backend s)" and "te_writable env"
  shows "\<exists>s1 s2 new. Host_storeConfigs (text_backend env) st s = (s1, True)
    \<and> tx_file (sh_backend s1) = tx_file (sh_backend s) @ new
    \<and> Text_openBackend env (fst (Text_closeBackend (sh_backend s1))) = (sh_backend s2, True)
    \<and> s2 = s1\<lparr>sh_backend := \<lparr>tx_open = True, tx_fail = False, tx_file = []\<rparr>\<rparr>
    \<and> (\<forall>s' \<in> {s1, s2}. Host_getConfigs (text_backend env) st0 s' = (st0, False)
         \<and> Host_initResultsFromBackend (text_backend env) v6 (st0, ac) s' = (s', st0, ac)
         \<and> fst (Host_getGroupCheckResults (text_backend env) now g [] s') = [])"
proof -
  obtain new where "Host_storeConfigs (text_backend env) st s =
      (s\<lparr>sh_backend := (sh_backend s)\<lparr>tx_file := tx_file (sh_backend s) @ new\<rparr>\<rparr>, True)"
    using text_storeConfigs [OF assms(1)] by blast
  moreover have "Text_openBackend env (fst (Text_closeBackend ((sh_backend s)\<lparr>tx_file := f\<rparr>))) =
      (\<lparr>tx_open = True, tx_fail = False, tx_file = []\<rparr>, True)" for f
    using assms by (simp add: writing_def Text_closeBackend_def fout_close_def Text_openBackend_def fout_open_def)
  ultimately show ?thesis
    by (simp add: tfile.no_configuration tfile.nothing_restored tfile.no_group_results)
qed

section \<open>Witnesses\<close>

definition sample_text_env :: text_env where
  "sample_text_env = \<lparr>te_writable = True, te_ntop4 = (\<lambda>a. digits (unat a)), te_ntop6 = (\<lambda>a. digits (unat a)),
     te_now = 5, te_printTime = (\<lambda>t. [])\<rparr>"

definition sample_text_store :: "HMStorageHostText HMStorageHost" where
  "sample_text_store = \<lparr>sh_readonly = False, sh_hostGroupMap = [],
     sh_storeCheckQueue = [CheckData_new ''h'' (INET 2) HostCheck_default CheckParams_default CheckResult_default],
     sh_storeAuxQueue = [AuxData_new ''k'' (INET 2) HostCheck_default CheckParams_default AuxInfo_new],
     sh_backend = \<lparr>tx_open = True, tx_fail = False, tx_file = ''x''\<rparr>\<rparr>"

lemma sample_text_writing: "writing (sh_backend sample_text_store)"
  by (simp add: writing_def sample_text_store_def)

lemma text_store_appends_updates_witness:
  "\<exists>s'. Host_drain (text_backend sample_text_env) sample_text_store = s'
    \<and> sh_storeCheckQueue s' = [] \<and> sh_storeAuxQueue s' = [] \<and> take 1 (tx_file (sh_backend s')) = ''x''"
  using text_store_appends_updates [OF sample_text_writing, of sample_text_env]
  by (auto simp: sample_text_store_def)

lemma text_store_restart_witness:
  "\<exists>s1 s2 new. Host_storeConfigs (text_backend sample_text_env) State_new sample_text_store = (s1, True)
    \<and> tx_file (sh_backend s1) = ''x'' @ new
    \<and> Text_openBackend sample_text_env (fst (Text_closeBackend (sh_backend s1))) = (sh_backend s2, True)
    \<and> tx_file (sh_backend s2) = [] \<and> Host_getConfigs (text_backend sample_text_env) State_new s2 = (State_new, False)"
proof -
  have "te_writable sample_text_env" by (simp add: sample_text_env_def)
  moreover have "tx_file (sh_backend sample_text_store) = ''x''" by (simp add: sample_text_store_def)
  ultimately show ?thesis
    using text_store_restart [OF sample_text_writing, of sample_text_env State_new State_new "\<lambda>_. False" "[]" 0 "''g''"]
    by force
qed

end
