(* ===== verification/HM_StorageAPI.thy ===== *)
theory HM_StorageAPI
  imports HM_API HM_AuxParser HM_StorageHost HM_RemoteWork
begin

text \<open>
  The library that reads the data store of the daemon (\<open>HMStorageAPI.cpp\<close>): a state of its own, whose store is opened
  for reading, and the queries on its configuration and on the stored results.

  Every query but \<open>init\<close> and \<open>validateConfigs\<close> first asks for \<open>m_loaded\<close>; the pointer to the state is then used without a
  test, and a null pointer is \<open>no_state\<close>. \<open>updateState\<close> with an empty pointer, as all queries call it, gives the current
  state. The log, which holds the text of the last error, is left out.
\<close>

section \<open>The object\<close>

record 'db HMStorageAPI =
  ap_loaded :: bool
  ap_currentState :: "'db HMRunState option"
  ap_files :: "'db files"

datatype api_error = daemon_fault daemon_error | hash_fault deser_error | no_state

definition lift_daemon :: "daemon_error + 'a \<Rightarrow> api_error + 'a" where
  "lift_daemon r = (case r of Inl e \<Rightarrow> Inl (daemon_fault e) | Inr x \<Rightarrow> Inr x)"

definition StorageAPI_new :: "'db files \<Rightarrow> 'db HMStorageAPI" where
  "StorageAPI_new files = \<lparr>ap_loaded = False, ap_currentState = None, ap_files = files\<rparr>"

definition StorageAPI_updateState :: "'db HMStorageAPI \<Rightarrow> api_error + 'db HMRunState" where
  "StorageAPI_updateState a = (case ap_currentState a of None \<Rightarrow> Inl no_state | Some r \<Rightarrow> Inr r)"

text \<open>A call of the store of the current state.\<close>

definition api_store ::
    "('db HMStorage \<Rightarrow> buffer_error + ('db HMStorage \<times> 'x)) \<Rightarrow> 'db HMStorageAPI \<Rightarrow> api_error + ('db HMStorageAPI \<times> 'x)" where
  "api_store f a =
     res_bind (StorageAPI_updateState a) (\<lambda>r.
     res_bind (lift_daemon (on_store f (r, ap_files a))) (\<lambda>((r, files), x).
       Inr (a\<lparr>ap_currentState := Some r, ap_files := files\<rparr>, x)))"

text \<open>A read that leaves the store as it is.\<close>

definition api_read ::
    "('db HMStorage \<Rightarrow> buffer_error + 'x) \<Rightarrow> 'db HMStorageAPI \<Rightarrow> api_error + ('db HMStorageAPI \<times> 'x)" where
  "api_read f = api_store (\<lambda>s. res_bind (f s) (\<lambda>x. Inr (s, x)))"

section \<open>Loading\<close>

text \<open>
  A new state with its store; the groups come from the files or from the store. \<open>None\<close> is a failure, after which the
  new state is dropped.
\<close>

definition api_open ::
    "'db reload_env \<Rightarrow> string \<Rightarrow> 'db files \<Rightarrow> daemon_error + ('db HMRunState option \<times> 'db files)" where
  "api_open env masterConfig files =
     res_bind (lift_config (State_parseMasterConfig (re_config env) masterConfig (State_new, Settings_new))) (\<lambda>s.
       case s of None \<Rightarrow> Inr (None, files)
       | Some (st, se) \<Rightarrow>
           res_bind (State_openBackend env True
             (RunState_new\<lparr>rn_state := st, rn_settings := se\<lparr>se_masterConfig := masterConfig\<rparr>\<rparr>, files)) (\<lambda>((r, files), ok).
             Inr (if ok then Some r else None, files)))"

definition api_local_configs ::
    "'db reload_env \<Rightarrow> 'db HMRunState \<times> 'db files \<Rightarrow> daemon_error + ('db HMRunState option)" where
  "api_local_configs env = (\<lambda>(r, files).
     res_bind (State_loadAllConfigs (re_lib env) (re_config env) (map_option (store_view r files) (rn_datastore r))
         (rn_state r, rn_settings r)) (\<lambda>s.
       case s of None \<Rightarrow> Inr None
       | Some (st, se) \<Rightarrow>
           let st = State_generateCheckList st;
               se = (case State_hashConfigs env (st_hostGroups st) of None \<Rightarrow> se | Some h \<Rightarrow> se\<lparr>se_hash := h\<rparr>)
           in Inr (Some (r\<lparr>rn_state := st, rn_settings := se\<rparr>))))"

definition api_stored_configs ::
    "'db reload_env \<Rightarrow> 'db HMRunState \<times> 'db files \<Rightarrow> daemon_error + ('db HMRunState option \<times> 'db files)" where
  "api_stored_configs env rf =
     res_bind (on_store (\<lambda>s. res_bind (Storage_getConfigs (re_lib env) (rn_state (fst rf)) s) (\<lambda>x. Inr (s, x))) rf)
       (\<lambda>((r, files), (st, hash, ok)).
         Inr (if ok then Some (r\<lparr>rn_state := st,
                  rn_settings := (case hash of None \<Rightarrow> rn_settings r | Some h \<Rightarrow> (rn_settings r)\<lparr>se_hash := h\<rparr>)\<rparr>)
              else None, files))"

text \<open>A failure leaves \<open>m_loaded\<close> as it was, and no state.\<close>

definition StorageAPI_init ::
    "'db reload_env \<Rightarrow> string \<Rightarrow> bool \<Rightarrow> 'db HMStorageAPI \<Rightarrow> api_error + ('db HMStorageAPI \<times> bool)" where
  "StorageAPI_init env masterConfig localConfigs a =
     res_bind (lift_daemon (api_open env masterConfig (ap_files a))) (\<lambda>(r, files).
       case r of None \<Rightarrow> Inr (a\<lparr>ap_currentState := None, ap_files := files\<rparr>, False)
       | Some r \<Rightarrow>
           res_bind (if localConfigs
               then res_bind (lift_daemon (api_local_configs env (r, files))) (\<lambda>r. Inr (r, files))
               else lift_daemon (api_stored_configs env (r, files))) (\<lambda>(r, files).
             case r of None \<Rightarrow> Inr (a\<lparr>ap_currentState := None, ap_files := files\<rparr>, False)
             | Some r \<Rightarrow> Inr (a\<lparr>ap_currentState := Some r, ap_files := files, ap_loaded := True\<rparr>, True)))"

definition StorageAPI_validateConfigs ::
    "'db reload_env \<Rightarrow> string \<Rightarrow> bool \<Rightarrow> api_error + bool" where
  "StorageAPI_validateConfigs env masterConfig verbose =
     res_bind (lift_daemon (State_validateConfigs (re_lib env) (re_config env) masterConfig None (State_new, Settings_new)))
       (\<lambda>s. Inr (s \<noteq> None))"

section \<open>The configuration\<close>

record HMAPIConfigInfo =
  qc_version :: u8
  qc_configError :: bool
  qc_timestamp :: u64
  qc_hash :: HMHash

definition HM_CONFIG_STATUS_ERROR :: u8 where "HM_CONFIG_STATUS_ERROR = 1"

definition StorageAPI_getConfigInfo ::
    "'db reload_env \<Rightarrow> HMAPIConfigInfo \<Rightarrow> 'db HMStorageAPI \<Rightarrow> api_error + ('db HMStorageAPI \<times> HMAPIConfigInfo \<times> bool)" where
  "StorageAPI_getConfigInfo env result a =
     (if \<not> ap_loaded a then Inr (a, result, False)
      else res_bind (api_read (MDBM_getConfigInfo (re_lib env) ConfigInfo_new) a) (\<lambda>(a, configInfo, ok).
        if \<not> ok then Inr (a, result, False)
        else case APIHash_of (ci_hash configInfo) (qc_hash result) of Inl e \<Rightarrow> Inl (hash_fault e)
          | Inr hash \<Rightarrow> Inr (a, \<lparr>qc_version = ci_version configInfo,
              qc_configError = (ci_configStatus configInfo = HM_CONFIG_STATUS_ERROR),
              qc_timestamp = ts_getTimeSinceEpoch (ci_configLoadTime configInfo), qc_hash = hash\<rparr>, True)))"

definition StorageAPI_validateHash :: "'db reload_env \<Rightarrow> 'db HMStorageAPI \<Rightarrow> api_error + ('db HMStorageAPI \<times> bool)" where
  "StorageAPI_validateHash env a =
     (if \<not> ap_loaded a then Inr (a, False)
      else res_bind (api_read (MDBM_getConfigInfo (re_lib env) ConfigInfo_new) a) (\<lambda>(a, configInfo, ok).
        if \<not> ok then Inr (a, False)
        else res_bind (StorageAPI_updateState a) (\<lambda>r.
          Inr (a, Hash_eq (ci_hash configInfo) (se_hash (rn_settings r))))))"

definition StorageAPI_updateConfigs :: "'db reload_env \<Rightarrow> 'db HMStorageAPI \<Rightarrow> api_error + ('db HMStorageAPI \<times> bool)" where
  "StorageAPI_updateConfigs env a =
     (if \<not> ap_loaded a then Inr (a, False)
      else res_bind (StorageAPI_validateHash env a) (\<lambda>(a, valid).
        if valid then Inr (a, True)
        else res_bind (StorageAPI_validateHash env a) (\<lambda>(a, valid).
          if valid then Inr (a, True)
          else res_bind (StorageAPI_updateState a) (\<lambda>r.
               res_bind (lift_daemon (api_open env (se_masterConfig (rn_settings r)) (ap_files a))) (\<lambda>(r, files).
                 case r of None \<Rightarrow> Inr (a\<lparr>ap_files := files\<rparr>, False)
                 | Some r \<Rightarrow>
                     res_bind (lift_daemon (api_stored_configs env (r, files))) (\<lambda>(r, files).
                       case r of None \<Rightarrow> Inr (a\<lparr>ap_files := files\<rparr>, False)
                       | Some r \<Rightarrow> Inr (a\<lparr>ap_currentState := Some r, ap_files := files\<rparr>, True)))))))"

text \<open>A query on the configuration alone.\<close>

definition api_query :: "'x \<Rightarrow> (HMState \<Rightarrow> 'x \<times> bool) \<Rightarrow> 'db HMStorageAPI \<Rightarrow> api_error + ('x \<times> bool)" where
  "api_query failure f a =
     (if \<not> ap_loaded a then Inr (failure, False)
      else res_bind (StorageAPI_updateState a) (\<lambda>r. Inr (f (rn_state r))))"

definition StorageAPI_getAllHosts :: "'db HMStorageAPI \<Rightarrow> api_error + (string list \<times> bool)" where
  "StorageAPI_getAllHosts =
     api_query [] (\<lambda>st. (names_of (CheckList_getAllChecks (st_checkList st)), True))"

text \<open>The measurement options of a check are not taken from its parameters.\<close>

definition check_info :: "HMCheckHeader \<Rightarrow> HMAPICheckInfo" where
  "check_info h =
     (let c = ch_hostCheck h; p = ch_checkParams h
      in APICheckInfo_new\<lparr>qi_measurementOptions := 0, qi_ipv4 := (HM_DUALSTACK_IPV4_ONLY AND hc_dualstack c \<noteq> 0),
           qi_ipv6 := (HM_DUALSTACK_IPV6_ONLY AND hc_dualstack c \<noteq> 0), qi_checkType := check_type_code (hc_checkType c),
           qi_port := hc_port c, qi_checkInfo := hc_checkInfo c, qi_numCheckRetries := cp_numCheckRetries p,
           qi_checkRetryDelay := cp_checkRetryDelay p, qi_smoothingWindow := cp_smoothingWindow p,
           qi_groupThreshold := cp_groupThreshold p, qi_slowThreshold := cp_slowThreshold p, qi_maxFlaps := cp_maxFlaps p,
           qi_checkTimeout := cp_checkTimeout p, qi_checkTTL := cp_checkTTL p, qi_flapThreshold := cp_flapThreshold p,
           qi_passthroughInfo := cp_passthroughInfo p\<rparr>)"

definition StorageAPI_getHostChecks ::
    "string \<Rightarrow> 'db HMStorageAPI \<Rightarrow> api_error + (HMAPICheckInfo list \<times> bool)" where
  "StorageAPI_getHostChecks host =
     api_query [] (\<lambda>st.
       (map check_info (filter (\<lambda>h. host = ch_hostname h) (CheckList_getAllChecks (st_checkList st))), True))"

definition StorageAPI_getAllHostGroupNames :: "'db HMStorageAPI \<Rightarrow> api_error + (string list \<times> bool)" where
  "StorageAPI_getAllHostGroupNames =
     api_query [] (\<lambda>st. (fold insort_insert (map fst (st_hostGroups st)) [], True))"

definition group_info :: "HMDataHostGroup \<Rightarrow> HMAPICheckInfo \<Rightarrow> HMAPICheckInfo" where
  "group_info g info =
     info\<lparr>qi_measurementOptions := hg_measurementOptions g, qi_ipv4 := (HM_DUALSTACK_IPV4_ONLY AND hg_dualstack g \<noteq> 0),
       qi_ipv6 := (HM_DUALSTACK_IPV6_ONLY AND hg_dualstack g \<noteq> 0), qi_checkType := check_type_code (hg_checkType g),
       qi_port := hg_port g, qi_checkInfo := hg_checkInfo g, qi_numCheckRetries := hg_numCheckRetries g,
       qi_checkRetryDelay := hg_checkRetryDelay g, qi_smoothingWindow := hg_smoothingWindow g,
       qi_groupThreshold := hg_groupThreshold g, qi_slowThreshold := hg_slowThreshold g, qi_maxFlaps := hg_maxFlaps g,
       qi_checkTimeout := hg_checkTimeout g, qi_checkTTL := hg_checkTTL g, qi_flapThreshold := hg_flapThreshold g,
       qi_passthroughInfo := hg_passthroughInfo g, qi_remoteCheck := hg_remoteCheck g,
       qi_hostGroups := qi_hostGroups info @ hg_hostGroups g\<rparr>"

definition StorageAPI_getHostGroupInfo ::
    "string \<Rightarrow> HMAPICheckInfo \<Rightarrow> 'db HMStorageAPI \<Rightarrow> api_error + ((HMAPICheckInfo \<times> string list) \<times> bool)" where
  "StorageAPI_getHostGroupInfo groupName info =
     api_query (info, []) (\<lambda>st.
       case group_find groupName (st_hostGroups st) of None \<Rightarrow> ((info, []), False)
       | Some g \<Rightarrow> ((group_info g info, hg_hosts g), True))"

definition StorageAPI_writeConfigs ::
    "(32 word \<Rightarrow> string) \<Rightarrow> (128 word \<Rightarrow> string) \<Rightarrow> 'db HMStorageAPI \<Rightarrow> api_error + (string option \<times> bool)" where
  "StorageAPI_writeConfigs ntop4 ntop6 =
     api_query None (\<lambda>st. (Some (ConfigParser_writeConfigs ntop4 ntop6 (st_hostGroups st)), True))"

section \<open>Results of a host\<close>

definition has_family4 :: "HM_DUALSTACK \<Rightarrow> bool" where
  "has_family4 dualstack \<longleftrightarrow> dualstack AND HM_DUALSTACK_IPV4_ONLY \<noteq> 0"
definition has_family6 :: "HM_DUALSTACK \<Rightarrow> bool" where
  "has_family6 dualstack \<longleftrightarrow> dualstack AND HM_DUALSTACK_IPV6_ONLY \<noteq> 0"

definition empty_result :: "string \<Rightarrow> HMAPIIPAddress \<Rightarrow> HMAPICheckResult" where
  "empty_result name address = APICheckResult_new\<lparr>qr_address := address, qr_host := name\<rparr>"

text \<open>One address: the families that were found, and the results.\<close>

definition host_result_ip ::
    "'db mdbm \<Rightarrow> string \<Rightarrow> HMCheckHeader \<Rightarrow> HMIPAddress \<Rightarrow> 'db HMStorageAPI \<times> bool \<times> bool \<times> HMAPICheckResult list \<Rightarrow>
     api_error + ('db HMStorageAPI \<times> bool \<times> bool \<times> HMAPICheckResult list)" where
  "host_result_ip lib name check ip = (\<lambda>(a, foundV4, foundV6, results).
     let dualstack = hc_dualstack (ch_hostCheck check);
         read = api_store (Storage_getCheckResult lib name ip (ch_checkParams check)) a;
         entry = (\<lambda>result. (APICheckResult_of_result result)\<lparr>qr_host := name\<rparr>)
     in if has_family4 dualstack \<and> IPAddress_getType ip = AF_INET then
          res_bind read (\<lambda>(a, r). Inr (case r of None \<Rightarrow> (a, foundV4, foundV6, results)
            | Some result \<Rightarrow> (a, True, foundV6, results @ [entry result])))
        else if has_family6 dualstack \<and> IPAddress_getType ip = AF_INET6 then
          res_bind read (\<lambda>(a, r). Inr (case r of None \<Rightarrow> (a, foundV4, foundV6, results)
            | Some result \<Rightarrow> (a, foundV4, True, results @ [entry result])))
        else Inr (a, foundV4, foundV6, results))"

definition missing_families :: "string \<Rightarrow> bool \<Rightarrow> HM_DUALSTACK \<Rightarrow> bool \<Rightarrow> bool \<Rightarrow> HMAPICheckResult list" where
  "missing_families name onlyResolved dualstack foundV4 foundV6 =
     (if has_family4 dualstack \<and> \<not> foundV4 \<and> \<not> onlyResolved then [empty_result name (API_INET 0)] else [])
     @ (if has_family6 dualstack \<and> \<not> foundV6 \<and> \<not> onlyResolved then [empty_result name (API_INET6 0)] else [])"

definition host_result_check ::
    "'db mdbm \<Rightarrow> string \<Rightarrow> bool \<Rightarrow> HMIPAddress list \<Rightarrow> HMCheckHeader \<Rightarrow> 'db HMStorageAPI \<times> HMAPICheckResult list \<Rightarrow>
     api_error + ('db HMStorageAPI \<times> HMAPICheckResult list)" where
  "host_result_check lib name onlyResolved ips check = (\<lambda>(a, results).
     res_bind (res_fold (host_result_ip lib name check) ips (a, False, False, results)) (\<lambda>(a, foundV4, foundV6, results).
       Inr (a, results @ missing_families name onlyResolved (hc_dualstack (ch_hostCheck check)) foundV4 foundV6)))"

definition api_checks :: "string \<Rightarrow> (HMCheckHeader \<Rightarrow> bool) \<Rightarrow> 'db HMStorageAPI \<Rightarrow> api_error + HMCheckHeader list" where
  "api_checks name P a =
     res_bind (StorageAPI_updateState a) (\<lambda>r.
       Inr (filter (\<lambda>h. ch_hostname h = name \<and> P h) (CheckList_getAllChecks (st_checkList (rn_state r)))))"

definition StorageAPI_getHostResults ::
    "'db reload_env \<Rightarrow> string \<Rightarrow> bool \<Rightarrow> 'db HMStorageAPI \<Rightarrow>
     api_error + ('db HMStorageAPI \<times> HMAPICheckResult list \<times> bool)" where
  "StorageAPI_getHostResults env name onlyResolved a =
     (if \<not> ap_loaded a then Inr (a, [], False)
      else res_bind (api_read (Storage_getDNS (re_lib env) name) a) (\<lambda>(a, ips, ok).
        if \<not> ok then Inr (a, [], False)
        else res_bind (api_checks name (\<lambda>_. True) a) (\<lambda>checks.
             res_bind (res_fold (host_result_check (re_lib env) name onlyResolved ips) checks (a, [])) (\<lambda>(a, results).
               Inr (a, results, checks \<noteq> [])))))"

section \<open>Auxiliary data of a host\<close>

definition lfb_entry :: "HMAuxLoadFB \<Rightarrow> HMAPILFB" where
  "lfb_entry l =
     \<lparr>ql_type = ab_type l, ql_ts = ts_getTimeSinceEpoch (ab_ts l), ql_load = lf_load l, ql_target = lf_target l,
      ql_max = lf_max l, ql_host = ab_host l, ql_resource = ab_resource l, ql_datacenter = lf_datacenter l\<rparr>"

definition oob_entry :: "HMAuxOOB \<Rightarrow> HMAPIOOB" where
  "oob_entry oob =
     \<lparr>qo_type = ab_type oob, qo_shed = oo_shed oob, qo_ts = ts_getTimeSinceEpoch (ab_ts oob),
      qo_forceDown = oo_forceDown oob, qo_host = ab_host oob, qo_resource = ab_resource oob\<rparr>"

definition api_aux_info :: "u64 \<Rightarrow> string \<Rightarrow> HMIPAddress \<Rightarrow> HMAuxInfo \<Rightarrow> HMAPIAuxInfo" where
  "api_aux_info ttl host ip info =
     \<lparr>qx_host = host, qx_address = APIIPAddress_set ip, qx_ttl = ttl, qx_updatetime = ts_getTimeSinceEpoch (ai_ts info),
      qx_oob = map oob_entry (List.map_filter Aux_getOOB (ai_auxData info)),
      qx_lfb = map lfb_entry (List.map_filter Aux_getLFB (ai_auxData info))\<rparr>"

definition is_aux_check :: "HMCheckHeader \<Rightarrow> bool" where
  "is_aux_check h \<longleftrightarrow>
     hc_checkType (ch_hostCheck h) \<in> {HM_CHECK_AUX_HTTP, HM_CHECK_AUX_HTTPS, HM_CHECK_AUX_HTTPS_NO_PEER_CHECK}"

definition host_aux_ip ::
    "'db mdbm \<Rightarrow> string \<Rightarrow> HMCheckHeader \<Rightarrow> HMIPAddress \<Rightarrow> 'db HMStorageAPI \<times> HMAPIAuxInfo list \<Rightarrow>
     api_error + ('db HMStorageAPI \<times> HMAPIAuxInfo list)" where
  "host_aux_ip lib name check ip = (\<lambda>(a, auxInfo).
     let dualstack = hc_dualstack (ch_hostCheck check)
     in if has_family4 dualstack \<and> IPAddress_getType ip = AF_INET \<or> has_family6 dualstack \<and> IPAddress_getType ip = AF_INET6
        then res_bind (api_store (Storage_getAuxInfo lib name ip (ch_checkParams check)) a) (\<lambda>(a, r).
          Inr (a, case r of None \<Rightarrow> auxInfo
            | Some info \<Rightarrow> auxInfo @ [api_aux_info (cp_checkTTL (ch_checkParams check)) name ip info]))
        else Inr (a, auxInfo))"

definition StorageAPI_getHostAuxInfo ::
    "'db reload_env \<Rightarrow> string \<Rightarrow> 'db HMStorageAPI \<Rightarrow> api_error + ('db HMStorageAPI \<times> HMAPIAuxInfo list \<times> bool)" where
  "StorageAPI_getHostAuxInfo env name a =
     (if \<not> ap_loaded a then Inr (a, [], False)
      else res_bind (api_read (Storage_getDNS (re_lib env) name) a) (\<lambda>(a, ips, ok).
        if \<not> ok then Inr (a, [], False)
        else res_bind (api_checks name is_aux_check a) (\<lambda>checks.
             res_bind (res_fold (\<lambda>check. res_fold (host_aux_ip (re_lib env) name check) ips) checks (a, [])) (\<lambda>(a, auxInfo).
               Inr (a, auxInfo, checks \<noteq> [])))))"

section \<open>Results of a group\<close>

definition group_entry :: "HMGroupCheckResult \<Rightarrow> HMAPICheckResult" where
  "group_entry r =
     (APICheckResult_of_result (gr_result r))\<lparr>qr_address := APIIPAddress_set (gr_address r), qr_host := gr_hostName r\<rparr>"

text \<open>A host without a result has an entry of one family only.\<close>

definition missing_host :: "HMDataHostGroup \<Rightarrow> string \<Rightarrow> HMAPICheckResult list" where
  "missing_host g host =
     (if has_family4 (hg_dualstack g) then [empty_result host (API_INET 0)]
      else if has_family6 (hg_dualstack g) then [empty_result host (API_INET6 0)] else [])"

definition missing_hosts :: "HMDataHostGroup \<Rightarrow> HMGroupCheckResult list \<Rightarrow> string list" where
  "missing_hosts g iresults =
     filter (\<lambda>h. h \<notin> gr_hostName ` set iresults) (fold insort_insert (hg_hosts g) [])"

definition StorageAPI_getHostGroupResults ::
    "'db reload_env \<Rightarrow> string \<Rightarrow> bool \<Rightarrow> 'db HMStorageAPI \<Rightarrow>
     api_error + ('db HMStorageAPI \<times> HMAPICheckResult list \<times> bool)" where
  "StorageAPI_getHostGroupResults env name onlyResolved a =
     (if \<not> ap_loaded a then Inr (a, [], False)
      else res_bind (StorageAPI_updateState a) (\<lambda>r.
        case group_find name (st_hostGroups (rn_state r)) of None \<Rightarrow> Inr (a, [], False)
        | Some g \<Rightarrow>
            res_bind (api_store (Storage_getGroupCheckResults (re_lib env) name False onlyResolved) a)
              (\<lambda>(a, iresults, _).
                Inr (a, map group_entry iresults
                  @ (if onlyResolved then [] else concat (map (missing_host g) (missing_hosts g iresults))), True))))"

definition StorageAPI_getHostGroupAuxInfo ::
    "'db reload_env \<Rightarrow> string \<Rightarrow> 'db HMStorageAPI \<Rightarrow> api_error + ('db HMStorageAPI \<times> HMAPIAuxInfo list \<times> bool)" where
  "StorageAPI_getHostGroupAuxInfo env name a =
     (if \<not> ap_loaded a then Inr (a, [], False)
      else res_bind (StorageAPI_updateState a) (\<lambda>r.
        case group_find name (st_hostGroups (rn_state r)) of None \<Rightarrow> Inr (a, [], False)
        | Some g \<Rightarrow>
            res_bind (api_store (Storage_getGroupAuxInfo (re_lib env) (re_now env) name False True) a) (\<lambda>(a, results, ok).
              if ok then Inr (a, map (\<lambda>r. api_aux_info (hg_checkTTL g) (ga_hostName r) (ga_address r) (ga_info r)) results, True)
              else Inr (a, [], False))))"

section \<open>Files of auxiliary data\<close>

text \<open>Which of the two kinds of file an entry of the store gives, and their texts.\<close>

definition aux_type :: "HMAux \<Rightarrow> u8" where
  "aux_type x = (case x of AuxLoadFB l \<Rightarrow> ab_type l | AuxOOB oob \<Rightarrow> ab_type oob)"

definition aux_files :: "bool \<Rightarrow> rapidxml \<Rightarrow> string \<Rightarrow> HMGroupAuxResult \<Rightarrow> (string \<times> string) list" where
  "aux_files xml rx name r =
     (let types = map aux_type (ai_auxData (ga_info r));
          file = (\<lambda>type suffix. if type \<in> set types
            then (case AuxCache_genAuxData xml (AuxParser_genAuxData rx) (ga_info r) type name of None \<Rightarrow> []
                  | Some text \<Rightarrow> [(name @ ''_'' @ ga_hostName r @ suffix, text)])
            else [])
      in file HM_LOAD_FILE ''_LoadFile.xml'' @ file HM_OOB_FILE ''_OOBFile.xml'')"

text \<open>The time-out that is returned is the time of the call, not that of the entries. The two numbers are left as they
  are when there is no group.\<close>

definition StorageAPI_generateAuxXML ::
    "bool \<Rightarrow> rapidxml \<Rightarrow> 'db reload_env \<Rightarrow> string \<Rightarrow> u64 \<times> u64 \<Rightarrow> 'db HMStorageAPI \<Rightarrow>
     api_error + ('db HMStorageAPI \<times> (string list \<times> u64 \<times> u64) \<times> bool)" where
  "StorageAPI_generateAuxXML xml rx env name = (\<lambda>(ttl, timeout) a.
     if \<not> ap_loaded a then Inr (a, ([], ttl, timeout), False)
     else res_bind (StorageAPI_updateState a) (\<lambda>r.
       case group_find name (st_hostGroups (rn_state r)) of None \<Rightarrow> Inr (a, ([], ttl, timeout), False)
       | Some g \<Rightarrow>
           res_bind (api_store (Storage_getGroupAuxInfo (re_lib env) (re_now env) name False True) a) (\<lambda>(a, results, ok).
             if \<not> ok then Inr (a, ([], hg_checkTTL g, 0), False)
             else Inr (a, (map snd (concat (map (aux_files xml rx name) results)), hg_checkTTL g,
                           ts_getTimeSinceEpoch (re_now env)), True))))"

text \<open>\<open>writeXML\<close>: the files that can be opened are written; the result is not looked at.\<close>

definition StorageAPI_writeXML :: "(string \<Rightarrow> bool) \<Rightarrow> string \<Rightarrow> string \<Rightarrow> (string \<times> string) list \<times> bool" where
  "StorageAPI_writeXML writable fileName xml =
     (if writable fileName then ([(fileName, xml @ [CHR 0x0A])], True) else ([], False))"

definition StorageAPI_writeAuxXML ::
    "bool \<Rightarrow> rapidxml \<Rightarrow> (string \<Rightarrow> bool) \<Rightarrow> 'db reload_env \<Rightarrow> string \<Rightarrow> 'db HMStorageAPI \<Rightarrow>
     api_error + ('db HMStorageAPI \<times> string list \<times> (string \<times> string) list)" where
  "StorageAPI_writeAuxXML xml rx writable env name a =
     (if \<not> ap_loaded a then Inr (a, [], [])
      else res_bind (StorageAPI_updateState a) (\<lambda>r.
        case group_find name (st_hostGroups (rn_state r)) of None \<Rightarrow> Inr (a, [], [])
        | Some g \<Rightarrow>
            res_bind (api_store (Storage_getGroupAuxInfo (re_lib env) (re_now env) name False True) a) (\<lambda>(a, results, ok).
              if \<not> ok then Inr (a, [], [])
              else let files = concat (map (aux_files xml rx name) results)
                   in Inr (a, map fst files, concat (map (\<lambda>(f, t). fst (StorageAPI_writeXML writable f t)) files)))))"

section \<open>Calls of the store\<close>

text \<open>An object whose state has a store, and what it is after a read.\<close>

definition api_ready :: "'db HMStorageAPI \<Rightarrow> 'db HMRunState \<Rightarrow> 'db HMStorage \<Rightarrow> bool" where
  "api_ready a r s \<longleftrightarrow> ap_loaded a \<and> ap_currentState a = Some r \<and> rn_datastore r = Some s"

lemma api_store_ready:
  assumes "api_ready a r s" and "f (store_view r (ap_files a) s) = Inr (s', x)"
  shows "api_store f a = Inr (a\<lparr>ap_currentState := Some (r\<lparr>rn_datastore := Some s'\<rparr>),
     ap_files := (ap_files a)(se_storagePath (rn_settings r) := sg_db s')\<rparr>, x)"
  using assms
  by (simp add: api_store_def api_ready_def StorageAPI_updateState_def on_store_def lift_daemon_def lift_storage_def)

definition api_view :: "'db HMStorageAPI \<Rightarrow> 'db HMRunState \<Rightarrow> 'db HMStorage \<Rightarrow> 'db HMStorageAPI" where
  "api_view a r s = a\<lparr>ap_currentState := Some (r\<lparr>rn_datastore := Some (store_view r (ap_files a) s)\<rparr>)\<rparr>"

lemma store_view_same:
  "store_view (r\<lparr>rn_datastore := d\<rparr>) files (store_view r files s) = store_view r files s"
  "sg_db (store_view r files s) = files (se_storagePath (rn_settings r))"
  by (simp_all add: store_view_def)

lemma api_read_ready:
  assumes "api_ready a r s" and "f (store_view r (ap_files a) s) = Inr (store_view r (ap_files a) s, x)"
  shows "api_store f a = Inr (api_view a r s, x)"
  using api_store_ready [where f = f, OF assms] by (simp add: store_view_same api_view_def)

text \<open>After the first read the store has its view, and further reads change nothing.\<close>

definition api_viewed :: "'db HMStorageAPI \<Rightarrow> bool" where
  "api_viewed a \<longleftrightarrow> (\<exists>r s. api_ready a r s \<and> api_view a r s = a)"

lemma api_view_viewed:
  assumes "api_ready a r s"
  shows "api_viewed (api_view a r s)"
proof -
  let ?s = "store_view r (ap_files a) s"
  have "api_ready (api_view a r s) (r\<lparr>rn_datastore := Some ?s\<rparr>) ?s"
    "api_view (api_view a r s) (r\<lparr>rn_datastore := Some ?s\<rparr>) ?s = api_view a r s"
    using assms by (simp_all add: api_ready_def api_view_def store_view_same)
  then show ?thesis unfolding api_viewed_def by blast
qed

lemma api_viewed_read:
  assumes "api_viewed a" and "\<And>s. f s = Inr (s, x)"
  shows "api_store f a = Inr (a, x)"
proof -
  obtain r s where "api_ready a r s" "api_view a r s = a" using assms(1) by (auto simp: api_viewed_def)
  then show ?thesis using api_read_ready [where f = f] assms(2) by metis
qed

section \<open>Results of a host\<close>

text \<open>
  The headers of a check list have copies of the parameters, and the copies name no groups, in which the store by
  group looks for the result.
\<close>

lemma header_without_groups:
  assumes "h \<in> set (CheckList_getAllChecks cl)"
  shows "CheckParams_getHostGroups (ch_checkParams h) = []"
  using assms by (auto simp: CheckList_getAllChecks_def CheckParams_copy_def CheckParams_getHostGroups_def)

lemma no_result_read:
  assumes "CheckParams_getHostGroups p = []"
  shows "Storage_getCheckResult lib name ip p s = Inr (s, None)" "Storage_getAuxInfo lib name ip p s = Inr (s, None)"
  using assms by (simp_all add: Storage_getCheckResult_def Storage_getAuxInfo_def)

lemma host_result_ips:
  assumes "api_viewed a" and "CheckParams_getHostGroups (ch_checkParams h) = []"
  shows "res_fold (host_result_ip lib name h) ips (a, v4, v6, results) = Inr (a, v4, v6, results)"
    and "res_fold (host_aux_ip lib name h) ips (a, infos) = Inr (a, infos)"
proof -
  have "api_store (Storage_getCheckResult lib name ip (ch_checkParams h)) a = Inr (a, None)"
    "api_store (Storage_getAuxInfo lib name ip (ch_checkParams h)) a = Inr (a, None)" for ip
    by (rule api_viewed_read [OF assms(1)], simp add: no_result_read [OF assms(2)])+
  then show "res_fold (host_result_ip lib name h) ips (a, v4, v6, results) = Inr (a, v4, v6, results)"
    "res_fold (host_aux_ip lib name h) ips (a, infos) = Inr (a, infos)"
    by (induction ips) (simp_all add: host_result_ip_def host_aux_ip_def Let_def)
qed

lemma host_result_checks:
  assumes "api_viewed a" and "\<And>h. h \<in> set hs \<Longrightarrow> CheckParams_getHostGroups (ch_checkParams h) = []"
  shows "res_fold (host_result_check lib name onlyResolved ips) hs (a, results) =
      Inr (a, results @ concat (map (\<lambda>h. missing_families name onlyResolved (hc_dualstack (ch_hostCheck h)) False False) hs))"
    and "res_fold (\<lambda>check. res_fold (host_aux_ip lib name check) ips) hs (a, infos) = Inr (a, infos)"
  using assms(2)
  by (induction hs arbitrary: results)
    (simp_all add: host_result_check_def host_result_ips [OF assms(1)])

text \<open>
  C37: the library never reports a stored result of a host. Whatever the data store holds: when the addresses of the
  host can be read, \<open>getHostResults\<close> gives for each check of the host only an empty entry for each family of
  the check, and nothing at all when only resolved addresses are asked for; \<open>getHostAuxInfo\<close> gives nothing. Both
  succeed when the configuration has such a check. The parameters in the headers of the check list are copies, which do
  not name the groups in which the store looks for the result.
\<close>

theorem host_results_always_empty:
  assumes "ap_loaded a" and "ap_currentState a = Some r" and "rn_datastore r = Some s"
    and "Storage_getDNS (re_lib env) name (store_view r (ap_files a) s) = Inr (ips, True)"
  defines "checks \<equiv> filter (\<lambda>h. ch_hostname h = name) (CheckList_getAllChecks (st_checkList (rn_state r)))"
  shows "\<exists>a'. StorageAPI_getHostResults env name onlyResolved a =
        Inr (a', if onlyResolved then [] else concat (map (\<lambda>h.
          (if has_family4 (hc_dualstack (ch_hostCheck h)) then [empty_result name (API_INET 0)] else [])
          @ (if has_family6 (hc_dualstack (ch_hostCheck h)) then [empty_result name (API_INET6 0)] else [])) checks), checks \<noteq> [])
      \<and> StorageAPI_getHostAuxInfo env name a = Inr (a', [], filter is_aux_check checks \<noteq> [])"
proof -
  have ready: "api_ready a r s" using assms(1-3) by (simp add: api_ready_def)
  let ?a = "api_view a r s"
  have dns: "api_read (Storage_getDNS (re_lib env) name) a = Inr (?a, ips, True)"
    unfolding api_read_def by (rule api_read_ready [OF ready]) (simp add: assms(4))
  have state: "api_checks name P ?a = Inr (filter (\<lambda>h. ch_hostname h = name \<and> P h)
      (CheckList_getAllChecks (st_checkList (rn_state r))))" for P
    by (simp add: api_checks_def StorageAPI_updateState_def api_view_def)
  have "filter (\<lambda>h. ch_hostname h = name \<and> is_aux_check h) (CheckList_getAllChecks (st_checkList (rn_state r))) = filter is_aux_check checks"
    by (simp add: checks_def conj_commute)
  moreover have "CheckParams_getHostGroups (ch_checkParams h) = []" if "h \<in> set checks" for h
    using that header_without_groups by (auto simp: checks_def)
  note result = host_result_checks [OF api_view_viewed [OF ready] this]
  have "res_fold (host_result_check (re_lib env) name onlyResolved ips) checks (?a, []) = Inr (?a, concat (map (\<lambda>h.
      missing_families name onlyResolved (hc_dualstack (ch_hostCheck h)) False False) checks))"
    using result(1) by simp
  moreover have "res_fold (\<lambda>check. res_fold (host_aux_ip (re_lib env) name check) ips) (filter is_aux_check checks) (?a, []) = Inr (?a, [])"
    by (rule host_result_checks(2) [OF api_view_viewed [OF ready]]) (auto simp: checks_def dest: header_without_groups)
  ultimately show ?thesis
    using assms(1) by (simp add: StorageAPI_getHostResults_def StorageAPI_getHostAuxInfo_def dns state missing_families_def
        flip: checks_def)
qed

section \<open>Results of a group\<close>

lemma missing_hosts_set: "set (missing_hosts g rs) = set (hg_hosts g) - gr_hostName ` set rs"
  using fold_insort_set [of "[]" "hg_hosts g"] by (auto simp: missing_hosts_def)

lemma missing_entries_hosts:
  "has_family4 (hg_dualstack g) \<or> has_family6 (hg_dualstack g) \<Longrightarrow> map qr_host (concat (map (missing_host g) hs)) = hs"
  by (induction hs) (auto simp: missing_host_def empty_result_def)

lemma group_entry_host: "qr_host (group_entry r) = gr_hostName r"
  by (simp add: group_entry_def)

lemma group_results_read:
  assumes "MDBM_getHostGroupCheckResults_vector lib name [] s = Inr (rs, True)"
    and "group_find name (sg_hostGroupMap s) = Some g" and "mmap_sorted (<) (sg_hostGroupResults s)"
  shows "\<exists>s'. Storage_getGroupCheckResults lib name False False s = Inr (s', rs, True)"
  using assms by (simp add: Storage_getGroupCheckResults_def MDBM_getHostGroupCheckResults_def group_results_replace)

text \<open>
  C26: the library reports every stored result of a group, and every host of the group. When the configuration has the
  group, with at least one address family, and its results can be read from the database, \<open>getHostGroupResults\<close> succeeds;
  its first entries are the stored results in their order, each with its host and address; after them comes exactly one
  empty entry for each host of the group that has no result; so the hosts of the entries are those of the group
  and of the stored results.
\<close>

theorem group_results_complete:
  assumes "ap_loaded a" and "ap_currentState a = Some r" and "rn_datastore r = Some s"
    and "group_find name (st_hostGroups (rn_state r)) = Some g" and "has_family4 (hg_dualstack g) \<or> has_family6 (hg_dualstack g)"
    and "MDBM_getHostGroupCheckResults_vector (re_lib env) name [] (store_view r (ap_files a) s) = Inr (rs, True)"
    and "mmap_sorted (<) (sg_hostGroupResults s)"
  shows "\<exists>a' empties. StorageAPI_getHostGroupResults env name False a = Inr (a', map group_entry rs @ empties, True)
    \<and> distinct (map qr_host empties) \<and> qr_host ` set empties = set (hg_hosts g) - gr_hostName ` set rs
    \<and> (\<forall>e \<in> set empties. e = empty_result (qr_host e) (if has_family4 (hg_dualstack g) then API_INET 0 else API_INET6 0))
    \<and> qr_host ` set (map group_entry rs @ empties) = set (hg_hosts g) \<union> gr_hostName ` set rs"
proof -
  have ready: "api_ready a r s" using assms(1-3) by (simp add: api_ready_def)
  let ?s = "store_view r (ap_files a) s" and ?e = "concat (map (missing_host g) (missing_hosts g rs))"
  obtain s' where "Storage_getGroupCheckResults (re_lib env) name False False ?s = Inr (s', rs, True)"
    using group_results_read [OF assms(6)] assms(4,7) by (auto simp: store_view_def)
  from api_store_ready [where f = "Storage_getGroupCheckResults (re_lib env) name False False", OF ready this]
  have "\<exists>a'. StorageAPI_getHostGroupResults env name False a = Inr (a', map group_entry rs @ ?e, True)"
    using assms(1,2,4) by (simp add: StorageAPI_getHostGroupResults_def StorageAPI_updateState_def)
  moreover have hosts: "map qr_host ?e = missing_hosts g rs"
    by (rule missing_entries_hosts [OF assms(5)])
  moreover have "distinct (missing_hosts g rs)"
    using fold_insort_set [of "[]" "hg_hosts g"] by (simp add: missing_hosts_def)
  moreover have set: "qr_host ` set ?e = set (hg_hosts g) - gr_hostName ` set rs"
    using missing_hosts_set [of g rs] hosts by (metis list.set_map)
  moreover have "e = empty_result (qr_host e) (if has_family4 (hg_dualstack g) then API_INET 0 else API_INET6 0)"
    if "e \<in> set ?e" for e
    using that by (auto simp: missing_host_def empty_result_def split: if_splits)
  moreover have "qr_host ` set (map group_entry rs @ ?e) = set (hg_hosts g) \<union> gr_hostName ` set rs"
    unfolding set_append image_Un set by (auto simp: image_image group_entry_host)
  ultimately show ?thesis by (metis (no_types, lifting))
qed

section \<open>A second \<open>init\<close>\<close>

text \<open>
  After a call of \<open>init\<close> that fails, an object that was loaded before answers every query by using a null pointer: the
  flag \<open>m_loaded\<close> stays, and the state is gone.
\<close>

theorem failed_init_null_state:
  assumes "ap_loaded a" and "StorageAPI_init env masterConfig localConfigs a = Inr (a', False)"
  shows "StorageAPI_getAllHosts a' = Inl no_state \<and> StorageAPI_getAllHostGroupNames a' = Inl no_state
    \<and> StorageAPI_getHostGroupInfo name info a' = Inl no_state
    \<and> StorageAPI_getHostResults env name onlyResolved a' = Inl no_state
    \<and> StorageAPI_getHostGroupResults env name onlyResolved a' = Inl no_state
    \<and> StorageAPI_updateConfigs env a' = Inl no_state"
proof -
  have "ap_loaded a'" "ap_currentState a' = None"
    using assms by (auto simp: StorageAPI_init_def res_bind_Inr split: option.splits if_splits)
  then show ?thesis
    by (simp add: StorageAPI_getAllHosts_def StorageAPI_getAllHostGroupNames_def StorageAPI_getHostGroupInfo_def api_query_def
        StorageAPI_getHostResults_def StorageAPI_getHostGroupResults_def StorageAPI_updateConfigs_def
        StorageAPI_validateHash_def api_read_def api_store_def StorageAPI_updateState_def)
qed

section \<open>Updates of the configuration\<close>

lemma validateHash_ready:
  assumes "api_ready a r s"
    and "MDBM_getConfigInfo (re_lib env) ConfigInfo_new (store_view r (ap_files a) s) = Inr (info, ok)"
  shows "StorageAPI_validateHash env a = Inr (api_view a r s, ok \<and> Hash_eq (ci_hash info) (se_hash (rn_settings r)))"
proof -
  have "api_read (MDBM_getConfigInfo (re_lib env) ConfigInfo_new) a = Inr (api_view a r s, info, ok)"
    unfolding api_read_def by (rule api_read_ready [OF assms(1)]) (simp add: assms(2))
  then show ?thesis
    using assms(1) by (simp add: StorageAPI_validateHash_def api_ready_def StorageAPI_updateState_def api_view_def)
qed

text \<open>A hash that was found to be valid is so in the object that the call leaves.\<close>

lemma validateHash_again:
  assumes "StorageAPI_validateHash env a = Inr (a', True)"
  shows "StorageAPI_validateHash env a' = Inr (a', True)"
proof -
  from assms obtain r s info where 1: "api_ready a r s"
    "MDBM_getConfigInfo (re_lib env) ConfigInfo_new (store_view r (ap_files a) s) = Inr (info, True)"
    "a' = api_view a r s" "Hash_eq (ci_hash info) (se_hash (rn_settings r))"
    by (auto simp: StorageAPI_validateHash_def res_bind_Inr api_read_def api_store_def StorageAPI_updateState_def on_store_def
        lift_daemon_def lift_storage_def api_ready_def api_view_def store_view_same split: if_splits option.splits sum.splits)
  let ?s = "store_view r (ap_files a) s"
  have "api_ready a' (r\<lparr>rn_datastore := Some ?s\<rparr>) ?s" "api_view a' (r\<lparr>rn_datastore := Some ?s\<rparr>) ?s = a'" "ap_files a' = ap_files a"
    using 1(1) by (simp_all add: 1(3) api_ready_def api_view_def store_view_same)
  then show ?thesis using validateHash_ready [of a' "r\<lparr>rn_datastore := Some ?s\<rparr>" ?s env info True] 1(2,4)
    by (simp add: store_view_same)
qed

lemma getConfigInfo_view:
  "MDBM_getConfigInfo lib c (s\<lparr>sg_hostGroupMap := m, sg_dnsCache := d\<rparr>) = MDBM_getConfigInfo lib c s"
  by (simp add: MDBM_getConfigInfo_def mdbm_read_def cong: if_cong)

lemma stored_configs_hash:
  assumes "api_stored_configs env (r, files) = Inr (Some r', files')"
  shows "\<exists>s info ok. rn_datastore r' = Some s
    \<and> MDBM_getConfigInfo (re_lib env) ConfigInfo_new (store_view r' files' s) = Inr (info, ok)
    \<and> (ok \<longrightarrow> se_hash (rn_settings r') = ci_hash info)"
proof -
  obtain s0 where s0: "rn_datastore r = Some s0"
    using assms by (auto simp: api_stored_configs_def on_store_def res_bind_Inr split: option.splits)
  let ?s = "store_view r files s0"
  obtain st hash where st: "Storage_getConfigs (re_lib env) (rn_state r) ?s = Inr (st, hash, True)"
    and r': "r' = r\<lparr>rn_datastore := Some ?s, rn_state := st,
      rn_settings := (case hash of None \<Rightarrow> rn_settings r | Some h \<Rightarrow> (rn_settings r)\<lparr>se_hash := h\<rparr>)\<rparr>" "files' = files"
    using assms s0 by (auto simp: api_stored_configs_def on_store_def res_bind_Inr lift_storage_def store_view_same
        split: sum.splits if_splits cong: option.case_cong)
  obtain info ok where info: "MDBM_getConfigInfo (re_lib env) ConfigInfo_new ?s = Inr (info, ok)"
    "hash = (if ok then Some (ci_hash info) else None)"
    using st by (auto simp: Storage_getConfigs_def res_bind_Inr)
  have "MDBM_getConfigInfo (re_lib env) ConfigInfo_new (store_view r' files' ?s) = Inr (info, ok)"
  proof -
    have "store_view r' files' ?s = ?s\<lparr>sg_hostGroupMap := st_hostGroups st, sg_dnsCache := st_dnsCache st\<rparr>"
      by (cases hash) (simp_all add: r' store_view_def)
    then show ?thesis using info(1) by (simp add: getConfigInfo_view)
  qed
  then show ?thesis by (intro exI [of _ ?s] exI [of _ info] exI [of _ ok]) (simp add: r' info(2))
qed

text \<open>
  A successful \<open>updateConfigs\<close> leaves the library with the configuration of the data store: its hash is valid from then
  on, provided that the stored information on the configuration can be read at all.
\<close>

theorem updateConfigs_validates:
  assumes "StorageAPI_updateConfigs env a = Inr (a', True)"
    and "api_read (MDBM_getConfigInfo (re_lib env) ConfigInfo_new) a' = Inr (b, info, True)"
  shows "\<exists>a''. StorageAPI_validateHash env a' = Inr (a'', True)"
proof (cases "\<exists>b. StorageAPI_validateHash env b = Inr (a', True)")
  case True
  then show ?thesis using validateHash_again by blast
next
  case False
  with assms(1) obtain a1 r files r' where 1: "ap_loaded a1" "api_stored_configs env (r, files) = Inr (Some r', ap_files a')"
    "a' = a1\<lparr>ap_currentState := Some r', ap_files := ap_files a'\<rparr>"
    by (auto simp: StorageAPI_updateConfigs_def res_bind_Inr lift_daemon_def StorageAPI_validateHash_def api_read_def api_store_def
        split: if_splits option.splits sum.splits)
  obtain s info' ok where 2: "rn_datastore r' = Some s"
    "MDBM_getConfigInfo (re_lib env) ConfigInfo_new (store_view r' (ap_files a') s) = Inr (info', ok)"
    "ok \<longrightarrow> se_hash (rn_settings r') = ci_hash info'"
    using stored_configs_hash [OF 1(2)] by blast
  have ready: "api_ready a' r' s" using 1(1,3) 2(1) by (metis api_ready_def HMStorageAPI.select_convs(1,2) HMStorageAPI.surjective HMStorageAPI.update_convs(2,3))
  have "api_read (MDBM_getConfigInfo (re_lib env) ConfigInfo_new) a' = Inr (api_view a' r' s, info', ok)"
    unfolding api_read_def by (rule api_read_ready [OF ready]) (simp add: 2(2))
  then have "ok" using assms(2) by simp
  then show ?thesis using validateHash_ready [OF ready 2(2)] 2(3) by (simp add: Hash_eq_def)
qed

section \<open>Witnesses\<close>

text \<open>An object with a group of two hosts; the result of one of them is in the database.\<close>

definition w_api_group :: HMDataHostGroup where
  "w_api_group = (HostGroup_new ''g'')\<lparr>hg_hosts := [''h'', ''k''], hg_checkType := HM_CHECK_HTTP\<rparr>"

definition w_api_store :: "(string \<times> mdbm_value) list HMStorage" where
  "w_api_store = fst (MDBM_storeGroupInfo alist_lib ''g'' w_api_group ((sample_store ''h'')\<lparr>sg_hostGroupResults := [],
     sg_db := [(HM_MDBM_GROUP_NAMES, RawValue (put_u32 1 @ put_sized_name ''g'')),
               (HM_MDBM_CHECK_PREFIX @ ''g'', sample_value [sample_entry ''h''])]\<rparr>))"

definition w_api_state :: "(string \<times> mdbm_value) list HMRunState" where
  "w_api_state =
     RunState_new\<lparr>rn_state := State_new\<lparr>st_hostGroups := [(''g'', w_api_group)],
         st_checkList := CheckList_new\<lparr>cl_checklist := [((''h'', fst (HostGroup_getHostCheck w_api_group HostCheck_default)), 0,
           CheckParams_default\<lparr>cp_hostGroups := [''g'']\<rparr>)]\<rparr>\<rparr>,
       rn_datastore := Some w_api_store\<rparr>"

definition w_api :: "(string \<times> mdbm_value) list HMStorageAPI" where
  "w_api = \<lparr>ap_loaded = True, ap_currentState = Some w_api_state, ap_files = (\<lambda>_. sg_db w_api_store)\<rparr>"

abbreviation w_api_view :: "(string \<times> mdbm_value) list HMStorage" where
  "w_api_view \<equiv> store_view w_api_state (ap_files w_api) w_api_store"

lemma w_api_store_reads:
  "store_open w_api_store" "sg_hostGroupResults w_api_store = []"
  "MDBM_getGroupInfo alist_lib ''g'' t w_api_store = Inr (stored_group t w_api_group, True)"
  "mdbm_read alist_lib HM_MDBM_GROUP_NAMES w_api_store = Some (RawValue (put_u32 1 @ put_sized_name ''g''))"
  "mdbm_read alist_lib (HM_MDBM_CHECK_PREFIX @ ''g'') w_api_store = Some (sample_value [sample_entry ''h''])"
proof -
  let ?s = "(sample_store ''h'')\<lparr>sg_hostGroupResults := [],
     sg_db := [(HM_MDBM_GROUP_NAMES, RawValue (put_u32 1 @ put_sized_name ''g'')),
               (HM_MDBM_CHECK_PREFIX @ ''g'', sample_value [sample_entry ''h''])]\<rparr>"
  have op: "store_open ?s" using sample_store_open [of "''h''"] by (simp add: store_open_def)
  have "HostGroup_storable w_api_group"
    by (simp add: w_api_group_def HostGroup_new_def HostGroup_storable_def HostGroup_totalSize_def
        HostGroup_sizeof_def strings_size_def clean_def)
  from group_info_roundtrip [OF alist_lib_ok op this, of "''g''"]
  obtain s' where s': "MDBM_storeGroupInfo alist_lib ''g'' w_api_group ?s = (s', True)" "store_open s'"
    "\<And>t. MDBM_getGroupInfo alist_lib ''g'' t s' = Inr (stored_group t w_api_group, True)"
    "\<And>k. k \<noteq> HM_MDBM_GROUP_PREFIX @ ''g'' \<Longrightarrow> mdbm_read alist_lib k s' = mdbm_read alist_lib k ?s"
    by metis
  have fetch: "mdbm_read alist_lib HM_MDBM_GROUP_NAMES ?s = Some (RawValue (put_u32 1 @ put_sized_name ''g''))"
    "mdbm_read alist_lib (HM_MDBM_CHECK_PREFIX @ ''g'') ?s = Some (sample_value [sample_entry ''h''])"
    by (simp_all add: mdbm_read_open [OF alist_lib_ok op])
       (simp_all add: alist_lib_def HM_MDBM_GROUP_NAMES_def HM_MDBM_CHECK_PREFIX_def)
  show "store_open w_api_store" "MDBM_getGroupInfo alist_lib ''g'' t w_api_store = Inr (stored_group t w_api_group, True)"
    "mdbm_read alist_lib HM_MDBM_GROUP_NAMES w_api_store = Some (RawValue (put_u32 1 @ put_sized_name ''g''))"
    "mdbm_read alist_lib (HM_MDBM_CHECK_PREFIX @ ''g'') w_api_store = Some (sample_value [sample_entry ''h''])"
    using s'(1,2,3) fetch s'(4) [OF keys_differ(1) [THEN not_sym]] s'(4) [OF keys_differ(2) [THEN not_sym]]
    by (simp_all add: w_api_store_def)
  show "sg_hostGroupResults w_api_store = []"
    by (simp add: w_api_store_def MDBM_storeGroupInfo_def mdbm_write_def case_prod_beta)
qed

lemma w_api_view_reads:
  "MDBM_getGroupInfo alist_lib n t w_api_view = MDBM_getGroupInfo alist_lib n t w_api_store"
  "mdbm_read alist_lib k w_api_view = mdbm_read alist_lib k w_api_store"
  by (simp_all add: store_view_def w_api_def MDBM_getGroupInfo_def mdbm_read_def Let_def)

lemma w_api_results:
  "MDBM_getHostGroupCheckResults_vector alist_lib ''g'' [] w_api_view = Inr ([stored_check (sample_entry ''h'')], True)"
proof -
  have "check_fits (sample_entry ''h'')" by (rule sample_entry_fits) (simp add: host_fits_def clean_def)
  then show ?thesis
    using value_read [of alist_lib "''g''" w_api_view "[sample_entry ''h'']" "[]"] w_api_store_reads(5)
    by (simp add: w_api_view_reads sample_entry_size CheckResult_sizeof_def IPAddress_sizeof_def)
qed

lemma w_api_dns: "Storage_getDNS alist_lib ''h'' w_api_view = Inr ([INET 0x7F000001], True)"
proof -
  have "list_all name_fits [''g'']" by (simp add: name_fits_def clean_def)
  from names_loop_put [OF this, of "[]"]
  have "names_loop 1 (put_sized_name ''g'') [] = Inr ([''g''], True)"
    by (simp del: names_loop.simps)
  then have "MDBM_getHostGroupNames alist_lib [] w_api_view = Inr ([''g''], True)"
    by (simp add: MDBM_getHostGroupNames_def w_api_view_reads w_api_store_reads buffer_simps)
  then show ?thesis
    using w_api_results
    by (simp add: Storage_getDNS_def w_api_view_reads w_api_store_reads stored_group_def w_api_group_def)
       (simp add: stored_check_def sample_entry_def insort_insert_key_def)
qed

lemma w_api_fields:
  "ap_loaded w_api" "ap_currentState w_api = Some w_api_state" "rn_datastore w_api_state = Some w_api_store"
  "group_find ''g'' (st_hostGroups (rn_state w_api_state)) = Some w_api_group"
  "has_family4 (hg_dualstack w_api_group)"
  by (simp_all add: w_api_def w_api_state_def w_api_group_def HostGroup_new_def has_family4_def key_equiv_def)

lemma w_api_checks:
  "\<exists>h. filter (\<lambda>h. ch_hostname h = ''h'') (CheckList_getAllChecks (st_checkList (rn_state w_api_state))) = [h]
     \<and> hc_dualstack (ch_hostCheck h) = HM_DUALSTACK_IPV4_ONLY \<and> \<not> is_aux_check h"
  by (simp add: w_api_state_def CheckList_getAllChecks_def CheckList_new_def HostGroup_getHostCheck_def w_api_group_def
      HostGroup_new_def is_aux_check_def HostCheck_setCheckParams_def)

theorem host_results_always_empty_witness:
  "\<exists>a'. StorageAPI_getHostResults w_renv ''h'' False w_api = Inr (a', [empty_result ''h'' (API_INET 0)], True)
    \<and> StorageAPI_getHostAuxInfo w_renv ''h'' w_api = Inr (a', [], False)"
proof -
  have "re_lib w_renv = alist_lib" by (simp add: w_renv_def)
  with host_results_always_empty [OF w_api_fields(1-3), of w_renv "''h''" _ False] w_api_dns w_api_checks
  show ?thesis by (auto simp: has_family4_def has_family6_def simp del: filter_filter)
qed

theorem group_results_complete_witness:
  "\<exists>a'. StorageAPI_getHostGroupResults w_renv ''g'' False w_api =
     Inr (a', [group_entry (stored_check (sample_entry ''h'')), empty_result ''k'' (API_INET 0)], True)"
proof -
  have lib: "re_lib w_renv = alist_lib" by (simp add: w_renv_def)
  have "mmap_sorted (<) (sg_hostGroupResults w_api_store)" by (simp add: w_api_store_reads)
  from group_results_complete [OF w_api_fields(1-4) _ w_api_results [folded lib] this] w_api_fields(5)
  obtain a' es where es: "StorageAPI_getHostGroupResults w_renv ''g'' False w_api =
      Inr (a', map group_entry [stored_check (sample_entry ''h'')] @ es, True)" "distinct (map qr_host es)"
    "qr_host ` set es = {''k''}" "\<forall>e \<in> set es. e = empty_result (qr_host e) (API_INET 0)"
    by (auto simp: w_api_group_def stored_check_def)
  have "length es = card (qr_host ` set es)" using es(2) distinct_card [of "map qr_host es"] by simp
  then obtain e where "es = [e]" using es(3) by (auto simp: length_Suc_conv)
  then have "es = [empty_result ''k'' (API_INET 0)]" using es(3,4) by (auto simp: empty_result_def)
  then show ?thesis using es(1) by simp
qed

theorem failed_init_null_state_witness:
  "\<exists>a'. StorageAPI_init w_renv ''x'' False w_api = Inr (a', False) \<and> StorageAPI_getAllHosts a' = Inl no_state"
proof -
  have "State_parseMasterConfig (re_config w_renv) ''x'' (State_new, Settings_new) = Inr None"
    by (simp add: State_parseMasterConfig_def yaml_file_name_def Settings_new_def)
  then have "\<exists>a'. StorageAPI_init w_renv ''x'' False w_api = Inr (a', False)"
    by (simp add: StorageAPI_init_def api_open_def lift_config_def lift_daemon_def)
  then show ?thesis using failed_init_null_state [OF w_api_fields(1)] by blast
qed

end
